(* ===== verification/Errors.thy ===== *)
theory Errors
  imports Prelude
begin

text \<open>
  The error type of the wire layer, \<open>protocol/src/error.rs\<close>: every variant with its fields, the
  accessor \<open>offset\<close>, \<open>rebase\<close> with its saturating addition, and the rendering of an error.
\<close>

datatype TpmError =
    BufferOverflow nat nat nat
  | IntegerTooLarge nat nat
  | InvalidBoolean nat nat
  | InvalidCc nat nat
  | InvalidMagicNumber nat nat
  | InvalidRc nat nat
  | InvalidTag nat nat
  | TooManyBytes nat nat nat
  | TooManyItems nat nat nat
  | TrailingData nat nat
  | UnexpectedEnd nat nat nat
  | VariantNotAvailable nat nat

type_synonym 'a TpmResult = "('a, TpmError) result"

fun offset :: "TpmError \<Rightarrow> nat" where
  "offset (BufferOverflow off _ _) = off"
| "offset (IntegerTooLarge off _) = off"
| "offset (InvalidBoolean off _) = off"
| "offset (InvalidCc off _) = off"
| "offset (InvalidMagicNumber off _) = off"
| "offset (InvalidRc off _) = off"
| "offset (InvalidTag off _) = off"
| "offset (TooManyBytes off _ _) = off"
| "offset (TooManyItems off _ _) = off"
| "offset (TrailingData off _) = off"
| "offset (UnexpectedEnd off _ _) = off"
| "offset (VariantNotAvailable off _) = off"

fun rebase :: "nat \<Rightarrow> TpmError \<Rightarrow> TpmError" where
  "rebase d (BufferOverflow off needed available) =
     BufferOverflow (saturating_add off d) needed available"
| "rebase d (IntegerTooLarge off v) = IntegerTooLarge (saturating_add off d) v"
| "rebase d (InvalidBoolean off v) = InvalidBoolean (saturating_add off d) v"
| "rebase d (InvalidCc off v) = InvalidCc (saturating_add off d) v"
| "rebase d (InvalidMagicNumber off v) = InvalidMagicNumber (saturating_add off d) v"
| "rebase d (InvalidRc off v) = InvalidRc (saturating_add off d) v"
| "rebase d (InvalidTag off v) = InvalidTag (saturating_add off d) v"
| "rebase d (TooManyBytes off limit actual) = TooManyBytes (saturating_add off d) limit actual"
| "rebase d (TooManyItems off limit actual) = TooManyItems (saturating_add off d) limit actual"
| "rebase d (TrailingData off actual) = TrailingData (saturating_add off d) actual"
| "rebase d (UnexpectedEnd off needed available) =
     UnexpectedEnd (saturating_add off d) needed available"
| "rebase d (VariantNotAvailable off v) = VariantNotAvailable (saturating_add off d) v"

fun TpmError_display :: "TpmError \<Rightarrow> string" where
  "TpmError_display (BufferOverflow _ _ _) = ''buffer overflow''"
| "TpmError_display (IntegerTooLarge _ _) = ''integer too large''"
| "TpmError_display (InvalidBoolean _ _) = ''invalid boolean''"
| "TpmError_display (InvalidCc _ _) = ''invalid cc''"
| "TpmError_display (InvalidMagicNumber _ _) = ''invalid magic number''"
| "TpmError_display (InvalidRc _ _) = ''invalid rc''"
| "TpmError_display (InvalidTag _ _) = ''invalid tag''"
| "TpmError_display (TooManyBytes _ _ _) = ''too many bytes''"
| "TpmError_display (TooManyItems _ _ _) = ''too many items''"
| "TpmError_display (TrailingData _ _) = ''trailing data''"
| "TpmError_display (UnexpectedEnd _ _ _) = ''unexpected end''"
| "TpmError_display (VariantNotAvailable _ _) = ''variant not available''"

lemma offset_rebase [simp]: "offset (rebase d e) = saturating_add (offset e) d"
  by (cases e) simp_all

lemma display_rebase [simp]: "TpmError_display (rebase d e) = TpmError_display e"
  by (cases e) simp_all

lemma offset_rebase_le: "offset e + d \<le> n \<Longrightarrow> offset (rebase d e) \<le> n"
  using saturating_add_le [of "offset e" d] by simp

lemma saturating_add_assoc:
  "saturating_add (saturating_add a b) c = saturating_add a (b + c)"
  by (auto simp: saturating_add_def)

lemma rebase_rebase: "rebase b (rebase a e) = rebase (a + b) e"
  by (cases e) (simp_all add: saturating_add_assoc)

end
