(* ===== verification/Writer.thy ===== *)
theory Writer
  imports Errors
begin

text \<open>
  \<open>TpmWriter\<close> of \<open>protocol/src/lib.rs\<close>: a caller's buffer with a cursor.  A marshalling routine is a
  state transformer that returns its result beside the writer it leaves behind, so that what an
  error leaves in the buffer is part of the model.  \<open>emits m bs\<close> says that \<open>m\<close> is a sequence of
  \<open>write_bytes\<close> calls whose slices concatenate to \<open>bs\<close>; the lemmas derive from it what the writer
  holds afterwards, on success and on overflow.
\<close>

record TpmWriter =
  buffer :: "u8 list"
  cursor :: nat

type_synonym wr = "TpmWriter \<Rightarrow> unit TpmResult \<times> TpmWriter"

definition Writer_new :: "u8 list \<Rightarrow> TpmWriter" where
  "Writer_new buf = \<lparr>buffer = buf, cursor = 0\<rparr>"

definition Writer_as_bytes :: "TpmWriter \<Rightarrow> u8 list" where
  "Writer_as_bytes w = take (cursor w) (buffer w)"

definition write_bytes :: "u8 list \<Rightarrow> wr" where
  "write_bytes bytes w =
     (case checked_add (cursor w) (length bytes) of
        None \<Rightarrow> (Err (BufferOverflow (cursor w) (length bytes) 0), w)
      | Some end' \<Rightarrow>
          if end' > length (buffer w)
          then (Err (BufferOverflow (cursor w) (length bytes) (length (buffer w) - cursor w)), w)
          else (Ok (), w\<lparr>buffer := take (cursor w) (buffer w) @ bytes @ drop end' (buffer w),
                         cursor := end'\<rparr>))"

text \<open>Rust's \<open>a?; b\<close> over one writer.\<close>

definition wseq :: "wr \<Rightarrow> wr \<Rightarrow> wr" where
  "wseq m1 m2 w = (case m1 w of
       (Ok _, w') \<Rightarrow> m2 w'
     | (Err e, w') \<Rightarrow> (Err e, w')
     | (Panic, w') \<Rightarrow> (Panic, w'))"

definition wdone :: wr where
  "wdone w = (Ok (), w)"

definition wfail :: "(TpmWriter \<Rightarrow> TpmError) \<Rightarrow> wr" where
  "wfail e w = (Err (e w), w)"

definition wpanic :: wr where
  "wpanic w = (Panic, w)"

fun write_chunks :: "u8 list list \<Rightarrow> wr" where
  "write_chunks [] = wdone"
| "write_chunks (c # cs) = wseq (write_bytes c) (write_chunks cs)"

definition emits :: "wr \<Rightarrow> u8 list \<Rightarrow> bool" where
  "emits m bs \<longleftrightarrow> (\<exists>cs. m = write_chunks cs \<and> concat cs = bs)"

lemma wseq_wdone [simp]: "wseq wdone m = m"
  by (rule ext) (simp add: wseq_def wdone_def)

lemma wseq_done_right [simp]: "wseq m wdone = m"
  by (rule ext) (auto simp: wseq_def wdone_def split: prod.splits result.splits)

lemma wseq_assoc: "wseq (wseq a b) c = wseq a (wseq b c)"
  by (rule ext) (auto simp: wseq_def split: prod.splits result.splits)

lemma write_chunks_append: "write_chunks (cs @ ds) = wseq (write_chunks cs) (write_chunks ds)"
  by (induction cs) (simp_all add: wseq_assoc)

lemma emits_done [simp, intro]: "emits wdone []"
  unfolding emits_def by (rule exI [of _ "[]"]) simp

lemma emits_write_bytes [simp, intro]: "emits (write_bytes bs) bs"
  unfolding emits_def by (rule exI [of _ "[bs]"]) simp

lemma emits_wseq [intro]: "\<lbrakk>emits m bs; emits n cs\<rbrakk> \<Longrightarrow> emits (wseq m n) (bs @ cs)"
  unfolding emits_def by (metis concat_append write_chunks_append)

definition writer_ok :: "TpmWriter \<Rightarrow> bool" where
  "writer_ok w \<longleftrightarrow> cursor w \<le> length (buffer w) \<and> length (buffer w) \<le> usize_max"

lemma write_chunks_fits:
  "\<lbrakk>writer_ok w; cursor w + length (concat cs) \<le> length (buffer w)\<rbrakk> \<Longrightarrow>
   write_chunks cs w =
     (Ok (), w\<lparr>buffer := take (cursor w) (buffer w) @ concat cs @
                          drop (cursor w + length (concat cs)) (buffer w),
               cursor := cursor w + length (concat cs)\<rparr>)"
proof (induction cs arbitrary: w)
  case Nil
  then show ?case
    by (simp add: wdone_def)
next
  case (Cons c cs)
  let ?w = "w\<lparr>buffer := take (cursor w) (buffer w) @ c @ drop (cursor w + length c) (buffer w),
              cursor := cursor w + length c\<rparr>"
  from Cons.prems have first: "write_bytes c w = (Ok (), ?w)"
    by (simp add: write_bytes_def writer_ok_def)
  from Cons.prems have "write_chunks cs ?w =
     (Ok (), ?w\<lparr>buffer := take (cursor ?w) (buffer ?w) @ concat cs @
                          drop (cursor ?w + length (concat cs)) (buffer ?w),
               cursor := cursor ?w + length (concat cs)\<rparr>)"
    by (intro Cons.IH) (auto simp: writer_ok_def min_absorb2)
  with first Cons.prems show ?case
    by (simp add: wseq_def writer_ok_def min_absorb2 ac_simps)
qed

lemma prefix_of_longer: "\<lbrakk>take n xs = take n ys; m \<le> n\<rbrakk> \<Longrightarrow> take m xs = take m ys"
  by (metis min.absorb1 take_take)

lemma write_chunks_overflow:
  "\<lbrakk>writer_ok w; cursor w + length (concat cs) > length (buffer w)\<rbrakk> \<Longrightarrow>
   \<exists>off needed available w'.
     write_chunks cs w = (Err (BufferOverflow off needed available), w') \<and>
     cursor w \<le> off \<and> off = cursor w' \<and> available < needed \<and> writer_ok w' \<and>
     length (buffer w') = length (buffer w) \<and>
     take (cursor w) (buffer w') = take (cursor w) (buffer w)"
proof (induction cs arbitrary: w)
  case (Cons c cs)
  let ?w = "w\<lparr>buffer := take (cursor w) (buffer w) @ c @ drop (cursor w + length c) (buffer w),
              cursor := cursor w + length c\<rparr>"
  show ?case
  proof (cases "cursor w + length c \<le> length (buffer w)")
    case True
    with Cons.prems have first: "write_bytes c w = (Ok (), ?w)"
      by (simp add: write_bytes_def writer_ok_def)
    from True Cons.prems obtain off needed available w' where
      "write_chunks cs ?w = (Err (BufferOverflow off needed available), w')"
      "cursor ?w \<le> off" "off = cursor w'" "available < needed" "writer_ok w'"
      "length (buffer w') = length (buffer ?w)"
      "take (cursor ?w) (buffer w') = take (cursor ?w) (buffer ?w)"
      using Cons.IH [of ?w] by (auto simp: writer_ok_def min_absorb2)
    moreover have "take (cursor w) (buffer w') = take (cursor w) (buffer w)"
      using prefix_of_longer [OF calculation(7), of "cursor w"] Cons.prems
      by (simp add: writer_ok_def)
    ultimately show ?thesis
      using first True Cons.prems by (auto simp: wseq_def writer_ok_def min_absorb2)
  next
    case False
    with Cons.prems show ?thesis
      by (auto simp: write_bytes_def wseq_def checked_add_def writer_ok_def)
  qed
qed (simp add: writer_ok_def)

lemma emits_fits:
  assumes "emits m bs" "writer_ok w" "cursor w + length bs \<le> length (buffer w)"
  shows "m w = (Ok (), w\<lparr>buffer := take (cursor w) (buffer w) @ bs @
                          drop (cursor w + length bs) (buffer w),
                          cursor := cursor w + length bs\<rparr>)"
  using assms write_chunks_fits by (auto simp: emits_def)

lemma emits_overflow:
  assumes "emits m bs" "writer_ok w" "cursor w + length bs > length (buffer w)"
  shows "\<exists>off needed available w'.
     m w = (Err (BufferOverflow off needed available), w') \<and>
     cursor w \<le> off \<and> off = cursor w' \<and> available < needed \<and> writer_ok w' \<and>
     length (buffer w') = length (buffer w) \<and>
     take (cursor w) (buffer w') = take (cursor w) (buffer w)"
  using assms write_chunks_overflow by (auto simp: emits_def)

text \<open>The bytes a routine leaves in a fresh buffer of \<open>n\<close> bytes.\<close>

definition marshalled :: "wr \<Rightarrow> nat \<Rightarrow> u8 list" where
  "marshalled m n = Writer_as_bytes (snd (m (Writer_new (replicate n 0))))"

lemma marshalled_emits:
  "\<lbrakk>emits m bs; length bs = n; n \<le> usize_max\<rbrakk> \<Longrightarrow> marshalled m n = bs"
  by (simp add: marshalled_def emits_fits Writer_new_def writer_ok_def Writer_as_bytes_def)

end
