(* ===== verification/Enum_Core.thy ===== *)
theory Enum_Core
  imports Errors
begin

text \<open>
  The macro \<open>tpm_enum!\<close> of \<open>protocol/src/macro/enum.rs\<close>.  An enumeration is a datatype with the
  source's variants, a \<open>primrec\<close> giving the discriminants (\<open>self as $repr\<close>), and the list of its
  variants in the order of the macro invocation.  The generated function \<open>try_from\<close> is defined
  once, over these; \<open>fmt\<close> is a \<open>primrec\<close> over the variants.  The locale \<open>tpm_enum\<close> states what the
  invocation promises: every variant is listed, discriminants are distinct and fit the \<open>repr\<close>.
\<close>

text \<open>\<open>value as u64\<close>: sign extension of a negative discriminant.\<close>

definition as_u64 :: "int \<Rightarrow> nat" where
  "as_u64 n = nat (n mod 2 ^ 64)"

definition enum_try_from :: "('e \<Rightarrow> int) \<Rightarrow> 'e list \<Rightarrow> int \<Rightarrow> 'e TpmResult" where
  "enum_try_from disc variants n =
     (case find (\<lambda>v. disc v = n) variants of
        Some v \<Rightarrow> Ok v
      | None \<Rightarrow> Err (VariantNotAvailable 0 (as_u64 n)))"

text \<open>The values of an \<open>N\<close>-byte integer, signed or not.\<close>

definition repr_range :: "nat \<Rightarrow> bool \<Rightarrow> int \<Rightarrow> bool" where
  "repr_range N is_signed n \<longleftrightarrow>
     (if is_signed then - (2 ^ (8 * N - 1)) \<le> n \<and> n < 2 ^ (8 * N - 1) else 0 \<le> n \<and> n < 2 ^ (8 * N))"

locale tpm_enum =
  fixes N :: nat and is_signed :: bool and disc :: "'e \<Rightarrow> int" and variants :: "'e list"
  assumes complete: "v \<in> set variants"
    and distinct_values: "distinct (map disc variants)"
    and in_range: "list_all (\<lambda>v. repr_range N is_signed (disc v)) variants"
begin

lemma value_inj: "disc v = disc w \<Longrightarrow> v = w"
  using distinct_values complete by (simp add: distinct_map inj_on_def)

lemma value_eq_iff [simp]: "disc v = disc w \<longleftrightarrow> v = w"
  using value_inj by blast

lemma try_from_value: "enum_try_from disc variants (disc v) = Ok v"
  using find_distinct [OF complete distinct_values, of v] by (simp add: enum_try_from_def)

lemma try_from_Ok_iff: "enum_try_from disc variants n = Ok v \<longleftrightarrow> disc v = n"
proof
  show "disc v = n" if "enum_try_from disc variants n = Ok v"
    using that by (auto simp: enum_try_from_def split: option.splits dest: find_Some_imp)
qed (use try_from_value in auto)

lemma try_from_unknown:
  "n \<notin> range disc \<Longrightarrow> enum_try_from disc variants n = Err (VariantNotAvailable 0 (as_u64 n))"
  by (auto simp: enum_try_from_def find_None_iff split: option.splits dest!: find_Some_imp)

lemma value_range: "repr_range N is_signed (disc v)"
  using complete [of v] in_range by (auto simp: list_all_iff)

end

end
