(* ===== verification/Rc_Base.thy ===== *)
theory Rc_Base
  imports Enum_Core
begin

text \<open>
  The response code constants and \<open>TpmRcBase\<close> of \<open>protocol/src/data/enum/rc.rs\<close>.
\<close>

unbundle bit_operations_syntax

definition TPM_RC_VER1 :: int where "TPM_RC_VER1 = 0x0100"

definition TPM_RC_FMT1 :: int where "TPM_RC_FMT1 = 0x0080"

definition TPM_RC_WARN :: int where "TPM_RC_WARN = 0x0900"

datatype (plugins only:) TpmRcBase =
    Rc_Success | Rc_BadTag | Rc_Initialize | Rc_Failure
  | Rc_Sequence | Rc_Private | Rc_Hmac | Rc_Disabled
  | Rc_Exclusive | Rc_AuthType | Rc_AuthMissing | Rc_Policy
  | Rc_Pcr | Rc_PcrChanged | Rc_Upgrade | Rc_TooManyContexts
  | Rc_AuthUnavailable | Rc_Reboot | Rc_Unbalanced | Rc_CommandSize
  | Rc_CommandCode | Rc_AuthSize | Rc_AuthContext | Rc_NvRange
  | Rc_NvSize | Rc_NvLocked | Rc_NvAuthorization | Rc_NvUninitialized
  | Rc_NvSpace | Rc_NvDefined | Rc_BadContext | Rc_CpHash
  | Rc_Parent | Rc_NeedsTest | Rc_NoResult | Rc_Sensitive
  | Rc_ReadOnly | Rc_Asymmetric | Rc_Attributes | Rc_Hash
  | Rc_Value | Rc_Hierarchy | Rc_KeySize | Rc_Mgf
  | Rc_Mode | Rc_Type | Rc_Handle | Rc_Kdf
  | Rc_Range | Rc_AuthFail | Rc_Nonce | Rc_Pp
  | Rc_Scheme | Rc_Size | Rc_Symmetric | Rc_Tag
  | Rc_Selector | Rc_Insufficient | Rc_Signature | Rc_Key
  | Rc_PolicyFail | Rc_Integrity | Rc_Ticket | Rc_ReservedBits
  | Rc_BadAuth | Rc_Expired | Rc_PolicyCc | Rc_Binding
  | Rc_Curve | Rc_EccPoint | Rc_FwLimited | Rc_SvnLimited
  | Rc_Channel | Rc_ChannelKey | Rc_ContextGap | Rc_ObjectMemory
  | Rc_SessionMemory | Rc_Memory | Rc_SessionHandles | Rc_ObjectHandles
  | Rc_Locality | Rc_Yielded | Rc_Canceled | Rc_Testing
  | Rc_ReferenceH0 | Rc_ReferenceH1 | Rc_ReferenceH2 | Rc_ReferenceH3
  | Rc_ReferenceH4 | Rc_ReferenceH5 | Rc_ReferenceH6 | Rc_ReferenceS0
  | Rc_ReferenceS1 | Rc_ReferenceS2 | Rc_ReferenceS3 | Rc_ReferenceS4
  | Rc_ReferenceS5 | Rc_ReferenceS6 | Rc_NvRate | Rc_Lockout
  | Rc_Retry | Rc_NvUnavailable | Rc_NotUsed

primrec TpmRcBase_value :: "TpmRcBase \<Rightarrow> int" where
  "TpmRcBase_value Rc_Success = 0x0000"
| "TpmRcBase_value Rc_BadTag = 0x001E"
| "TpmRcBase_value Rc_Initialize = TPM_RC_VER1"
| "TpmRcBase_value Rc_Failure = TPM_RC_VER1 OR 0x001"
| "TpmRcBase_value Rc_Sequence = TPM_RC_VER1 OR 0x003"
| "TpmRcBase_value Rc_Private = TPM_RC_VER1 OR 0x00B"
| "TpmRcBase_value Rc_Hmac = TPM_RC_VER1 OR 0x019"
| "TpmRcBase_value Rc_Disabled = TPM_RC_VER1 OR 0x020"
| "TpmRcBase_value Rc_Exclusive = TPM_RC_VER1 OR 0x021"
| "TpmRcBase_value Rc_AuthType = TPM_RC_VER1 OR 0x024"
| "TpmRcBase_value Rc_AuthMissing = TPM_RC_VER1 OR 0x025"
| "TpmRcBase_value Rc_Policy = TPM_RC_VER1 OR 0x026"
| "TpmRcBase_value Rc_Pcr = TPM_RC_VER1 OR 0x027"
| "TpmRcBase_value Rc_PcrChanged = TPM_RC_VER1 OR 0x028"
| "TpmRcBase_value Rc_Upgrade = TPM_RC_VER1 OR 0x02D"
| "TpmRcBase_value Rc_TooManyContexts = TPM_RC_VER1 OR 0x02E"
| "TpmRcBase_value Rc_AuthUnavailable = TPM_RC_VER1 OR 0x02F"
| "TpmRcBase_value Rc_Reboot = TPM_RC_VER1 OR 0x030"
| "TpmRcBase_value Rc_Unbalanced = TPM_RC_VER1 OR 0x031"
| "TpmRcBase_value Rc_CommandSize = TPM_RC_VER1 OR 0x042"
| "TpmRcBase_value Rc_CommandCode = TPM_RC_VER1 OR 0x043"
| "TpmRcBase_value Rc_AuthSize = TPM_RC_VER1 OR 0x044"
| "TpmRcBase_value Rc_AuthContext = TPM_RC_VER1 OR 0x045"
| "TpmRcBase_value Rc_NvRange = TPM_RC_VER1 OR 0x046"
| "TpmRcBase_value Rc_NvSize = TPM_RC_VER1 OR 0x047"
| "TpmRcBase_value Rc_NvLocked = TPM_RC_VER1 OR 0x048"
| "TpmRcBase_value Rc_NvAuthorization = TPM_RC_VER1 OR 0x049"
| "TpmRcBase_value Rc_NvUninitialized = TPM_RC_VER1 OR 0x04A"
| "TpmRcBase_value Rc_NvSpace = TPM_RC_VER1 OR 0x04B"
| "TpmRcBase_value Rc_NvDefined = TPM_RC_VER1 OR 0x04C"
| "TpmRcBase_value Rc_BadContext = TPM_RC_VER1 OR 0x050"
| "TpmRcBase_value Rc_CpHash = TPM_RC_VER1 OR 0x051"
| "TpmRcBase_value Rc_Parent = TPM_RC_VER1 OR 0x052"
| "TpmRcBase_value Rc_NeedsTest = TPM_RC_VER1 OR 0x053"
| "TpmRcBase_value Rc_NoResult = TPM_RC_VER1 OR 0x054"
| "TpmRcBase_value Rc_Sensitive = TPM_RC_VER1 OR 0x055"
| "TpmRcBase_value Rc_ReadOnly = TPM_RC_VER1 OR 0x056"
| "TpmRcBase_value Rc_Asymmetric = TPM_RC_FMT1 OR 0x001"
| "TpmRcBase_value Rc_Attributes = TPM_RC_FMT1 OR 0x002"
| "TpmRcBase_value Rc_Hash = TPM_RC_FMT1 OR 0x003"
| "TpmRcBase_value Rc_Value = TPM_RC_FMT1 OR 0x004"
| "TpmRcBase_value Rc_Hierarchy = TPM_RC_FMT1 OR 0x005"
| "TpmRcBase_value Rc_KeySize = TPM_RC_FMT1 OR 0x007"
| "TpmRcBase_value Rc_Mgf = TPM_RC_FMT1 OR 0x008"
| "TpmRcBase_value Rc_Mode = TPM_RC_FMT1 OR 0x009"
| "TpmRcBase_value Rc_Type = TPM_RC_FMT1 OR 0x00A"
| "TpmRcBase_value Rc_Handle = TPM_RC_FMT1 OR 0x00B"
| "TpmRcBase_value Rc_Kdf = TPM_RC_FMT1 OR 0x00C"
| "TpmRcBase_value Rc_Range = TPM_RC_FMT1 OR 0x00D"
| "TpmRcBase_value Rc_AuthFail = TPM_RC_FMT1 OR 0x00E"
| "TpmRcBase_value Rc_Nonce = TPM_RC_FMT1 OR 0x00F"
| "TpmRcBase_value Rc_Pp = TPM_RC_FMT1 OR 0x010"
| "TpmRcBase_value Rc_Scheme = TPM_RC_FMT1 OR 0x012"
| "TpmRcBase_value Rc_Size = TPM_RC_FMT1 OR 0x015"
| "TpmRcBase_value Rc_Symmetric = TPM_RC_FMT1 OR 0x016"
| "TpmRcBase_value Rc_Tag = TPM_RC_FMT1 OR 0x017"
| "TpmRcBase_value Rc_Selector = TPM_RC_FMT1 OR 0x018"
| "TpmRcBase_value Rc_Insufficient = TPM_RC_FMT1 OR 0x01A"
| "TpmRcBase_value Rc_Signature = TPM_RC_FMT1 OR 0x01B"
| "TpmRcBase_value Rc_Key = TPM_RC_FMT1 OR 0x01C"
| "TpmRcBase_value Rc_PolicyFail = TPM_RC_FMT1 OR 0x01D"
| "TpmRcBase_value Rc_Integrity = TPM_RC_FMT1 OR 0x01F"
| "TpmRcBase_value Rc_Ticket = TPM_RC_FMT1 OR 0x020"
| "TpmRcBase_value Rc_ReservedBits = TPM_RC_FMT1 OR 0x021"
| "TpmRcBase_value Rc_BadAuth = TPM_RC_FMT1 OR 0x022"
| "TpmRcBase_value Rc_Expired = TPM_RC_FMT1 OR 0x023"
| "TpmRcBase_value Rc_PolicyCc = TPM_RC_FMT1 OR 0x024"
| "TpmRcBase_value Rc_Binding = TPM_RC_FMT1 OR 0x025"
| "TpmRcBase_value Rc_Curve = TPM_RC_FMT1 OR 0x026"
| "TpmRcBase_value Rc_EccPoint = TPM_RC_FMT1 OR 0x027"
| "TpmRcBase_value Rc_FwLimited = TPM_RC_FMT1 OR 0x028"
| "TpmRcBase_value Rc_SvnLimited = TPM_RC_FMT1 OR 0x029"
| "TpmRcBase_value Rc_Channel = TPM_RC_FMT1 OR 0x030"
| "TpmRcBase_value Rc_ChannelKey = TPM_RC_FMT1 OR 0x031"
| "TpmRcBase_value Rc_ContextGap = TPM_RC_WARN OR 0x001"
| "TpmRcBase_value Rc_ObjectMemory = TPM_RC_WARN OR 0x002"
| "TpmRcBase_value Rc_SessionMemory = TPM_RC_WARN OR 0x003"
| "TpmRcBase_value Rc_Memory = TPM_RC_WARN OR 0x004"
| "TpmRcBase_value Rc_SessionHandles = TPM_RC_WARN OR 0x005"
| "TpmRcBase_value Rc_ObjectHandles = TPM_RC_WARN OR 0x006"
| "TpmRcBase_value Rc_Locality = TPM_RC_WARN OR 0x007"
| "TpmRcBase_value Rc_Yielded = TPM_RC_WARN OR 0x008"
| "TpmRcBase_value Rc_Canceled = TPM_RC_WARN OR 0x009"
| "TpmRcBase_value Rc_Testing = TPM_RC_WARN OR 0x00A"
| "TpmRcBase_value Rc_ReferenceH0 = TPM_RC_WARN OR 0x010"
| "TpmRcBase_value Rc_ReferenceH1 = TPM_RC_WARN OR 0x011"
| "TpmRcBase_value Rc_ReferenceH2 = TPM_RC_WARN OR 0x012"
| "TpmRcBase_value Rc_ReferenceH3 = TPM_RC_WARN OR 0x013"
| "TpmRcBase_value Rc_ReferenceH4 = TPM_RC_WARN OR 0x014"
| "TpmRcBase_value Rc_ReferenceH5 = TPM_RC_WARN OR 0x015"
| "TpmRcBase_value Rc_ReferenceH6 = TPM_RC_WARN OR 0x016"
| "TpmRcBase_value Rc_ReferenceS0 = TPM_RC_WARN OR 0x018"
| "TpmRcBase_value Rc_ReferenceS1 = TPM_RC_WARN OR 0x019"
| "TpmRcBase_value Rc_ReferenceS2 = TPM_RC_WARN OR 0x01A"
| "TpmRcBase_value Rc_ReferenceS3 = TPM_RC_WARN OR 0x01B"
| "TpmRcBase_value Rc_ReferenceS4 = TPM_RC_WARN OR 0x01C"
| "TpmRcBase_value Rc_ReferenceS5 = TPM_RC_WARN OR 0x01D"
| "TpmRcBase_value Rc_ReferenceS6 = TPM_RC_WARN OR 0x01E"
| "TpmRcBase_value Rc_NvRate = TPM_RC_WARN OR 0x020"
| "TpmRcBase_value Rc_Lockout = TPM_RC_WARN OR 0x021"
| "TpmRcBase_value Rc_Retry = TPM_RC_WARN OR 0x022"
| "TpmRcBase_value Rc_NvUnavailable = TPM_RC_WARN OR 0x023"
| "TpmRcBase_value Rc_NotUsed = 0xFFFFFFFF"

definition TpmRcBase_variants :: "TpmRcBase list" where
  "TpmRcBase_variants = [
    Rc_Success, Rc_BadTag, Rc_Initialize, Rc_Failure,
    Rc_Sequence, Rc_Private, Rc_Hmac, Rc_Disabled,
    Rc_Exclusive, Rc_AuthType, Rc_AuthMissing, Rc_Policy,
    Rc_Pcr, Rc_PcrChanged, Rc_Upgrade, Rc_TooManyContexts,
    Rc_AuthUnavailable, Rc_Reboot, Rc_Unbalanced, Rc_CommandSize,
    Rc_CommandCode, Rc_AuthSize, Rc_AuthContext, Rc_NvRange,
    Rc_NvSize, Rc_NvLocked, Rc_NvAuthorization, Rc_NvUninitialized,
    Rc_NvSpace, Rc_NvDefined, Rc_BadContext, Rc_CpHash,
    Rc_Parent, Rc_NeedsTest, Rc_NoResult, Rc_Sensitive,
    Rc_ReadOnly, Rc_Asymmetric, Rc_Attributes, Rc_Hash,
    Rc_Value, Rc_Hierarchy, Rc_KeySize, Rc_Mgf,
    Rc_Mode, Rc_Type, Rc_Handle, Rc_Kdf,
    Rc_Range, Rc_AuthFail, Rc_Nonce, Rc_Pp,
    Rc_Scheme, Rc_Size, Rc_Symmetric, Rc_Tag,
    Rc_Selector, Rc_Insufficient, Rc_Signature, Rc_Key,
    Rc_PolicyFail, Rc_Integrity, Rc_Ticket, Rc_ReservedBits,
    Rc_BadAuth, Rc_Expired, Rc_PolicyCc, Rc_Binding,
    Rc_Curve, Rc_EccPoint, Rc_FwLimited, Rc_SvnLimited,
    Rc_Channel, Rc_ChannelKey, Rc_ContextGap, Rc_ObjectMemory,
    Rc_SessionMemory, Rc_Memory, Rc_SessionHandles, Rc_ObjectHandles,
    Rc_Locality, Rc_Yielded, Rc_Canceled, Rc_Testing,
    Rc_ReferenceH0, Rc_ReferenceH1, Rc_ReferenceH2, Rc_ReferenceH3,
    Rc_ReferenceH4, Rc_ReferenceH5, Rc_ReferenceH6, Rc_ReferenceS0,
    Rc_ReferenceS1, Rc_ReferenceS2, Rc_ReferenceS3, Rc_ReferenceS4,
    Rc_ReferenceS5, Rc_ReferenceS6, Rc_NvRate, Rc_Lockout,
    Rc_Retry, Rc_NvUnavailable, Rc_NotUsed]"

primrec TpmRcBase_display :: "TpmRcBase \<Rightarrow> string" where
  "TpmRcBase_display Rc_Success = ''TPM_RC_SUCCESS''"
| "TpmRcBase_display Rc_BadTag = ''TPM_RC_BAD_TAG''"
| "TpmRcBase_display Rc_Initialize = ''TPM_RC_INITIALIZE''"
| "TpmRcBase_display Rc_Failure = ''TPM_RC_FAILURE''"
| "TpmRcBase_display Rc_Sequence = ''TPM_RC_SEQUENCE''"
| "TpmRcBase_display Rc_Private = ''TPM_RC_PRIVATE''"
| "TpmRcBase_display Rc_Hmac = ''TPM_RC_HMAC''"
| "TpmRcBase_display Rc_Disabled = ''TPM_RC_DISABLED''"
| "TpmRcBase_display Rc_Exclusive = ''TPM_RC_EXCLUSIVE''"
| "TpmRcBase_display Rc_AuthType = ''TPM_RC_AUTH_TYPE''"
| "TpmRcBase_display Rc_AuthMissing = ''TPM_RC_AUTH_MISSING''"
| "TpmRcBase_display Rc_Policy = ''TPM_RC_POLICY''"
| "TpmRcBase_display Rc_Pcr = ''TPM_RC_PCR''"
| "TpmRcBase_display Rc_PcrChanged = ''TPM_RC_PCR_CHANGED''"
| "TpmRcBase_display Rc_Upgrade = ''TPM_RC_UPGRADE''"
| "TpmRcBase_display Rc_TooManyContexts = ''TPM_RC_TOO_MANY_CONTEXTS''"
| "TpmRcBase_display Rc_AuthUnavailable = ''TPM_RC_AUTH_UNAVAILABLE''"
| "TpmRcBase_display Rc_Reboot = ''TPM_RC_REBOOT''"
| "TpmRcBase_display Rc_Unbalanced = ''TPM_RC_UNBALANCED''"
| "TpmRcBase_display Rc_CommandSize = ''TPM_RC_COMMAND_SIZE''"
| "TpmRcBase_display Rc_CommandCode = ''TPM_RC_COMMAND_CODE''"
| "TpmRcBase_display Rc_AuthSize = ''TPM_RC_AUTHSIZE''"
| "TpmRcBase_display Rc_AuthContext = ''TPM_RC_AUTH_CONTEXT''"
| "TpmRcBase_display Rc_NvRange = ''TPM_RC_NV_RANGE''"
| "TpmRcBase_display Rc_NvSize = ''TPM_RC_NV_SIZE''"
| "TpmRcBase_display Rc_NvLocked = ''TPM_RC_NV_LOCKED''"
| "TpmRcBase_display Rc_NvAuthorization = ''TPM_RC_NV_AUTHORIZATION''"
| "TpmRcBase_display Rc_NvUninitialized = ''TPM_RC_NV_UNINITIALIZED''"
| "TpmRcBase_display Rc_NvSpace = ''TPM_RC_NV_SPACE''"
| "TpmRcBase_display Rc_NvDefined = ''TPM_RC_NV_DEFINED''"
| "TpmRcBase_display Rc_BadContext = ''TPM_RC_BAD_CONTEXT''"
| "TpmRcBase_display Rc_CpHash = ''TPM_RC_CPHASH''"
| "TpmRcBase_display Rc_Parent = ''TPM_RC_PARENT''"
| "TpmRcBase_display Rc_NeedsTest = ''TPM_RC_NEEDS_TEST''"
| "TpmRcBase_display Rc_NoResult = ''TPM_RC_NO_RESULT''"
| "TpmRcBase_display Rc_Sensitive = ''TPM_RC_SENSITIVE''"
| "TpmRcBase_display Rc_ReadOnly = ''TPM_RC_READ_ONLY''"
| "TpmRcBase_display Rc_Asymmetric = ''TPM_RC_ASYMMETRIC''"
| "TpmRcBase_display Rc_Attributes = ''TPM_RC_ATTRIBUTES''"
| "TpmRcBase_display Rc_Hash = ''TPM_RC_HASH''"
| "TpmRcBase_display Rc_Value = ''TPM_RC_VALUE''"
| "TpmRcBase_display Rc_Hierarchy = ''TPM_RC_HIERARCHY''"
| "TpmRcBase_display Rc_KeySize = ''TPM_RC_KEY_SIZE''"
| "TpmRcBase_display Rc_Mgf = ''TPM_RC_MGF''"
| "TpmRcBase_display Rc_Mode = ''TPM_RC_MODE''"
| "TpmRcBase_display Rc_Type = ''TPM_RC_TYPE''"
| "TpmRcBase_display Rc_Handle = ''TPM_RC_HANDLE''"
| "TpmRcBase_display Rc_Kdf = ''TPM_RC_KDF''"
| "TpmRcBase_display Rc_Range = ''TPM_RC_RANGE''"
| "TpmRcBase_display Rc_AuthFail = ''TPM_RC_AUTH_FAIL''"
| "TpmRcBase_display Rc_Nonce = ''TPM_RC_NONCE''"
| "TpmRcBase_display Rc_Pp = ''TPM_RC_PP''"
| "TpmRcBase_display Rc_Scheme = ''TPM_RC_SCHEME''"
| "TpmRcBase_display Rc_Size = ''TPM_RC_SIZE''"
| "TpmRcBase_display Rc_Symmetric = ''TPM_RC_SYMMETRIC''"
| "TpmRcBase_display Rc_Tag = ''TPM_RC_TAG''"
| "TpmRcBase_display Rc_Selector = ''TPM_RC_SELECTOR''"
| "TpmRcBase_display Rc_Insufficient = ''TPM_RC_INSUFFICIENT''"
| "TpmRcBase_display Rc_Signature = ''TPM_RC_SIGNATURE''"
| "TpmRcBase_display Rc_Key = ''TPM_RC_KEY''"
| "TpmRcBase_display Rc_PolicyFail = ''TPM_RC_POLICY_FAIL''"
| "TpmRcBase_display Rc_Integrity = ''TPM_RC_INTEGRITY''"
| "TpmRcBase_display Rc_Ticket = ''TPM_RC_TICKET''"
| "TpmRcBase_display Rc_ReservedBits = ''TPM_RC_RESERVED_BITS''"
| "TpmRcBase_display Rc_BadAuth = ''TPM_RC_BAD_AUTH''"
| "TpmRcBase_display Rc_Expired = ''TPM_RC_EXPIRED''"
| "TpmRcBase_display Rc_PolicyCc = ''TPM_RC_POLICY_CC''"
| "TpmRcBase_display Rc_Binding = ''TPM_RC_BINDING''"
| "TpmRcBase_display Rc_Curve = ''TPM_RC_CURVE''"
| "TpmRcBase_display Rc_EccPoint = ''TPM_RC_ECC_POINT''"
| "TpmRcBase_display Rc_FwLimited = ''TPM_RC_FW_LIMITED''"
| "TpmRcBase_display Rc_SvnLimited = ''TPM_RC_SVN_LIMITED''"
| "TpmRcBase_display Rc_Channel = ''TPM_RC_CHANNEL''"
| "TpmRcBase_display Rc_ChannelKey = ''TPM_RC_CHANNEL_KEY''"
| "TpmRcBase_display Rc_ContextGap = ''TPM_RC_CONTEXT_GAP''"
| "TpmRcBase_display Rc_ObjectMemory = ''TPM_RC_OBJECT_MEMORY''"
| "TpmRcBase_display Rc_SessionMemory = ''TPM_RC_SESSION_MEMORY''"
| "TpmRcBase_display Rc_Memory = ''TPM_RC_MEMORY''"
| "TpmRcBase_display Rc_SessionHandles = ''TPM_RC_SESSION_HANDLES''"
| "TpmRcBase_display Rc_ObjectHandles = ''TPM_RC_OBJECT_HANDLES''"
| "TpmRcBase_display Rc_Locality = ''TPM_RC_LOCALITY''"
| "TpmRcBase_display Rc_Yielded = ''TPM_RC_YIELDED''"
| "TpmRcBase_display Rc_Canceled = ''TPM_RC_CANCELED''"
| "TpmRcBase_display Rc_Testing = ''TPM_RC_TESTING''"
| "TpmRcBase_display Rc_ReferenceH0 = ''TPM_RC_REFERENCE_H0''"
| "TpmRcBase_display Rc_ReferenceH1 = ''TPM_RC_REFERENCE_H1''"
| "TpmRcBase_display Rc_ReferenceH2 = ''TPM_RC_REFERENCE_H2''"
| "TpmRcBase_display Rc_ReferenceH3 = ''TPM_RC_REFERENCE_H3''"
| "TpmRcBase_display Rc_ReferenceH4 = ''TPM_RC_REFERENCE_H4''"
| "TpmRcBase_display Rc_ReferenceH5 = ''TPM_RC_REFERENCE_H5''"
| "TpmRcBase_display Rc_ReferenceH6 = ''TPM_RC_REFERENCE_H6''"
| "TpmRcBase_display Rc_ReferenceS0 = ''TPM_RC_REFERENCE_S0''"
| "TpmRcBase_display Rc_ReferenceS1 = ''TPM_RC_REFERENCE_S1''"
| "TpmRcBase_display Rc_ReferenceS2 = ''TPM_RC_REFERENCE_S2''"
| "TpmRcBase_display Rc_ReferenceS3 = ''TPM_RC_REFERENCE_S3''"
| "TpmRcBase_display Rc_ReferenceS4 = ''TPM_RC_REFERENCE_S4''"
| "TpmRcBase_display Rc_ReferenceS5 = ''TPM_RC_REFERENCE_S5''"
| "TpmRcBase_display Rc_ReferenceS6 = ''TPM_RC_REFERENCE_S6''"
| "TpmRcBase_display Rc_NvRate = ''TPM_RC_NV_RATE''"
| "TpmRcBase_display Rc_Lockout = ''TPM_RC_LOCKOUT''"
| "TpmRcBase_display Rc_Retry = ''TPM_RC_RETRY''"
| "TpmRcBase_display Rc_NvUnavailable = ''TPM_RC_NV_UNAVAILABLE''"
| "TpmRcBase_display Rc_NotUsed = ''TPM_RC_NOT_USED''"

interpretation TpmRcBase: tpm_enum 4 False TpmRcBase_value TpmRcBase_variants
proof
  show "v \<in> set TpmRcBase_variants" for v
    by (cases v) (simp_all only: TpmRcBase_variants_def list.set insert_iff simp_thms)
qed (simp_all add: TpmRcBase_variants_def repr_range_def
    TPM_RC_VER1_def TPM_RC_FMT1_def TPM_RC_WARN_def)

instantiation TpmRcBase :: linorder
begin

definition less_eq_TpmRcBase :: "TpmRcBase \<Rightarrow> TpmRcBase \<Rightarrow> bool" where
  "less_eq_TpmRcBase v w \<longleftrightarrow> TpmRcBase_value v \<le> TpmRcBase_value w"

definition less_TpmRcBase :: "TpmRcBase \<Rightarrow> TpmRcBase \<Rightarrow> bool" where
  "less_TpmRcBase v w \<longleftrightarrow> TpmRcBase_value v < TpmRcBase_value w"

instance
  by standard (auto simp: less_eq_TpmRcBase_def less_TpmRcBase_def)

end

instantiation TpmRcBase :: equal
begin

definition equal_TpmRcBase :: "TpmRcBase \<Rightarrow> TpmRcBase \<Rightarrow> bool" where
  "equal_TpmRcBase v w \<longleftrightarrow> TpmRcBase_value v = TpmRcBase_value w"

instance
  by standard (simp add: equal_TpmRcBase_def)

end

definition TpmRcBase_try_from :: "int \<Rightarrow> TpmRcBase TpmResult" where
  "TpmRcBase_try_from = enum_try_from TpmRcBase_value TpmRcBase_variants"

end
