(* ===== verification/Rc.thy ===== *)
theory Rc
  imports Rc_Base
begin

text \<open>
  Response codes, \<open>TpmRc\<close> of \<open>protocol/src/data/enum/rc.rs\<close>.  A 32-bit raw value is a \<open>32 word\<close>; the
  format selector, the \<open>P\<close> bit, the error number and the \<open>N\<close> field are read with the masks and
  shifts of the code.  \<open>rc_ok\<close> is the invariant of the codes \<open>try_from\<close> produces; on those,
  \<open>value\<close> and \<open>try_from\<close> are inverse.
\<close>

definition RC_FMT1 :: u32 where "RC_FMT1 = 0x80"

definition RC_WARN :: u32 where "RC_WARN = 0x900"

definition TPM_RC_P_BIT :: u32 where "TPM_RC_P_BIT = push_bit 6 1"

definition TPM_RC_N_SHIFT :: nat where "TPM_RC_N_SHIFT = 8"

definition TPM_RC_FMT1_ERROR_MASK :: u32 where "TPM_RC_FMT1_ERROR_MASK = 0x3F"

definition TPM_RC_N_MASK :: u32 where "TPM_RC_N_MASK = 0xF"

definition TPM_RC_FMT1_VALID_MASK :: u32 where
  "TPM_RC_FMT1_VALID_MASK =
     RC_FMT1 OR TPM_RC_P_BIT OR TPM_RC_FMT1_ERROR_MASK OR push_bit TPM_RC_N_SHIFT TPM_RC_N_MASK"

definition MAX_HANDLE_INDEX :: u8 where "MAX_HANDLE_INDEX = 7"

definition SESSION_INDEX_OFFSET :: u8 where "SESSION_INDEX_OFFSET = 8"

datatype TpmRcIndex = Parameter u8 | Handle u8 | Session u8

datatype (plugins only:) TpmRc =
    Fmt0 TpmRcBase
  | Fmt1 TpmRcBase "TpmRcIndex option"
  | Warn TpmRcBase

definition base_word :: "TpmRcBase \<Rightarrow> u32" where
  "base_word b = word_of_int (TpmRcBase_value b)"

definition TpmRcBase_try_from_word :: "u32 \<Rightarrow> TpmRcBase TpmResult" where
  "TpmRcBase_try_from_word w = TpmRcBase_try_from (uint w)"

text \<open>\<open>TpmRc::value\<close>; a \<open>u8\<close> number widens to \<open>u32\<close>.\<close>

fun TpmRc_value :: "TpmRc \<Rightarrow> u32" where
  "TpmRc_value (Fmt0 b) = base_word b"
| "TpmRc_value (Warn b) = base_word b"
| "TpmRc_value (Fmt1 b None) = base_word b"
| "TpmRc_value (Fmt1 b (Some index)) =
     (let (is_parameter, num) = (case index of
            Parameter n \<Rightarrow> (True, ucast n :: u32)
          | Handle n \<Rightarrow> (False, ucast n)
          | Session n \<Rightarrow> (False, ucast n + ucast SESSION_INDEX_OFFSET));
          v = (if is_parameter then base_word b OR TPM_RC_P_BIT else base_word b)
      in v OR push_bit TPM_RC_N_SHIFT (num AND TPM_RC_N_MASK))"

fun TpmRc_base :: "TpmRc \<Rightarrow> TpmRcBase" where
  "TpmRc_base (Fmt0 b) = b"
| "TpmRc_base (Warn b) = b"
| "TpmRc_base (Fmt1 b _) = b"

definition TpmRc_try_from :: "u32 \<Rightarrow> TpmRc TpmResult" where
  "TpmRc_try_from v =
     (let invalid_rc = InvalidRc 0 (unat v) in
      if v AND RC_FMT1 \<noteq> 0 then
        if v AND NOT TPM_RC_FMT1_VALID_MASK \<noteq> 0 then Err invalid_rc
        else and_then (map_err (\<lambda>_. invalid_rc)
                (TpmRcBase_try_from_word (RC_FMT1 OR (v AND TPM_RC_FMT1_ERROR_MASK)))) (\<lambda>b.
          let is_parameter = (v AND TPM_RC_P_BIT \<noteq> 0);
              n = (ucast (drop_bit TPM_RC_N_SHIFT v AND TPM_RC_N_MASK) :: u8)
          in if is_parameter \<and> n = 0 then Err invalid_rc
             else if n = 0 then Ok (Fmt1 b None)
             else if is_parameter then Ok (Fmt1 b (Some (Parameter n)))
             else if n \<le> MAX_HANDLE_INDEX then Ok (Fmt1 b (Some (Handle n)))
             else Ok (Fmt1 b (Some (Session (n - SESSION_INDEX_OFFSET)))))
      else and_then (map_err (\<lambda>_. invalid_rc) (TpmRcBase_try_from_word v)) (\<lambda>b.
             if v AND RC_WARN = RC_WARN then Ok (Warn b) else Ok (Fmt0 b)))"

text \<open>The codes of the three formats.\<close>

definition fmt1_base :: "TpmRcBase \<Rightarrow> bool" where
  "fmt1_base b \<longleftrightarrow> base_word b AND RC_FMT1 \<noteq> 0 \<and> b \<noteq> Rc_NotUsed"

definition warn_base :: "TpmRcBase \<Rightarrow> bool" where
  "warn_base b \<longleftrightarrow> base_word b AND RC_FMT1 = 0 \<and> base_word b AND RC_WARN = RC_WARN"

fun index_ok :: "TpmRcIndex \<Rightarrow> bool" where
  "index_ok (Parameter n) \<longleftrightarrow> 1 \<le> n \<and> n \<le> 15"
| "index_ok (Handle n) \<longleftrightarrow> 1 \<le> n \<and> n \<le> 7"
| "index_ok (Session n) \<longleftrightarrow> n \<le> 7"

fun rc_ok :: "TpmRc \<Rightarrow> bool" where
  "rc_ok (Fmt0 b) \<longleftrightarrow> base_word b AND RC_FMT1 = 0 \<and> \<not> warn_base b"
| "rc_ok (Warn b) \<longleftrightarrow> warn_base b"
| "rc_ok (Fmt1 b i) \<longleftrightarrow> fmt1_base b \<and> (case i of None \<Rightarrow> True | Some i \<Rightarrow> index_ok i)"

subsection \<open>Bases\<close>

lemma uint_base_word [simp]: "uint (base_word b) = TpmRcBase_value b"
  using TpmRcBase.value_range [of b]
  by (simp add: base_word_def repr_range_def uint_word_of_int)

lemma TpmRcBase_try_from_word_Ok_iff [simp]:
  "TpmRcBase_try_from_word w = Ok b \<longleftrightarrow> w = base_word b"
proof -
  have "TpmRcBase_value b = uint w \<longleftrightarrow> w = base_word b"
    by (metis uint_base_word word_uint_eqI)
  then show ?thesis
    by (simp add: TpmRcBase_try_from_word_def TpmRcBase_try_from_def TpmRcBase.try_from_Ok_iff)
qed

lemma TpmRcBase_try_from_word_base [simp]: "TpmRcBase_try_from_word (base_word b) = Ok b"
  by simp

lemma TpmRcBase_try_from_word_not_Panic [simp]: "TpmRcBase_try_from_word w \<noteq> Panic"
  by (simp add: TpmRcBase_try_from_word_def TpmRcBase_try_from_def enum_try_from_def
      split: option.splits)

lemma base_word_inj [simp]: "base_word a = base_word b \<longleftrightarrow> a = b"
  by (metis TpmRcBase.value_eq_iff uint_base_word)

lemma TpmRc_try_from_not_Panic: "TpmRc_try_from v \<noteq> Panic"
  by (auto simp: TpmRc_try_from_def Let_def and_then_Panic_iff split: if_splits)

lemma TpmRc_try_from_Err: "TpmRc_try_from v = Err e \<Longrightarrow> e = InvalidRc 0 (unat v)"
  by (auto simp: TpmRc_try_from_def Let_def and_then_Err_iff split: if_splits)

subsection \<open>Bits\<close>

lemma all_less_32:
  "(\<forall>n < 32. P n) \<longleftrightarrow> P 0 \<and> P 1 \<and> P 2 \<and> P 3 \<and> P 4 \<and> P 5 \<and> P 6 \<and> P 7 \<and> P 8 \<and> P 9 \<and> P 10 \<and> P 11 \<and>
     P 12 \<and> P 13 \<and> P 14 \<and> P 15 \<and> P 16 \<and> P 17 \<and> P 18 \<and> P 19 \<and> P 20 \<and> P 21 \<and> P 22 \<and> P 23 \<and>
     P 24 \<and> P 25 \<and> P 26 \<and> P 27 \<and> P 28 \<and> P 29 \<and> P 30 \<and> P (31 :: nat)"
  by (simp add: eval_nat_numeral All_less_Suc) blast

lemma u32_eq_bits: "(v :: u32) = w \<longleftrightarrow> (\<forall>n < 32. bit v n = bit w n)"
  by (auto intro: bit_word_eqI)

lemmas mask_defs = RC_FMT1_def RC_WARN_def TPM_RC_P_BIT_def TPM_RC_N_SHIFT_def
  TPM_RC_FMT1_ERROR_MASK_def TPM_RC_N_MASK_def

lemma VALID_MASK: "TPM_RC_FMT1_VALID_MASK = 0xFFF"
  by (simp add: TPM_RC_FMT1_VALID_MASK_def mask_defs)

lemma fmt1_compose:
  fixes v :: u32
  assumes "v AND NOT 0xFFF = 0" "v AND 0x80 \<noteq> 0"
  shows "0x80 OR (v AND 0x3F) OR (v AND 0x40) OR push_bit 8 (drop_bit 8 v AND 0xF) = v"
  using assms unfolding u32_eq_bits all_less_32 by (simp add: bit_simps)

lemma p_bit_cases: "(v :: u32) AND 0x40 = 0 \<or> v AND 0x40 = 0x40"
  unfolding u32_eq_bits all_less_32 by (simp add: bit_simps)

lemma fmt1_decompose:
  fixes b num p :: u32
  assumes "b AND NOT 0xBF = 0" "b AND 0x80 \<noteq> 0" "p = 0 \<or> p = 0x40" "num AND 0xF = num"
  defines "v \<equiv> b OR p OR push_bit 8 num"
  shows "v AND NOT 0xFFF = 0" "v AND 0x80 \<noteq> 0" "0x80 OR (v AND 0x3F) = b" "v AND 0x40 = p"
    "drop_bit 8 v AND 0xF = num"
  using assms(1-4) unfolding v_def u32_eq_bits all_less_32
  by (auto simp: bit_simps)

lemma fmt1_base_bits:
  "fmt1_base b \<Longrightarrow> base_word b AND NOT 0xBF = 0 \<and> base_word b AND 0x80 \<noteq> 0"
  by (cases b) (simp_all add: fmt1_base_def base_word_def mask_defs TPM_RC_VER1_def
      TPM_RC_FMT1_def TPM_RC_WARN_def)

lemma fmt1_base_exact: "base_word b = 0x80 OR (v AND 0x3F) \<Longrightarrow> fmt1_base b"
proof -
  assume eq: "base_word b = 0x80 OR (v AND 0x3F)"
  then have "base_word b AND 0x80 \<noteq> 0"
    unfolding u32_eq_bits all_less_32 by (simp add: bit_simps)
  moreover have "base_word Rc_NotUsed \<noteq> 0x80 OR (v AND 0x3F)"
    unfolding u32_eq_bits all_less_32 by (simp add: bit_simps base_word_def)
  ultimately show ?thesis
    using eq by (auto simp: fmt1_base_def mask_defs)
qed

lemma nibble_cast:
  fixes v :: u32 and n :: u8
  assumes "n = ucast (v AND 0xF)"
  shows "n \<le> 15" "ucast n = v AND 0xF"
proof -
  have "n = n AND 15"
    unfolding assms by (rule bit_word_eqI) (auto simp: bit_simps)
  then show "n \<le> 15"
    by (metis word_and_le1)
  show "ucast n = v AND 0xF"
    unfolding assms u32_eq_bits all_less_32 by (simp add: bit_simps)
qed

lemma u8_low: "(n :: u8) \<le> 15 \<Longrightarrow> take_bit 4 n = n"
  by (simp add: word_unat_eq_iff unsigned_take_bit_eq word_le_nat_alt take_bit_nat_eq_self)

lemma index_ucast:
  fixes n :: u8
  assumes "n \<le> 15"
  shows "(ucast n :: u32) AND 0xF = ucast n" "(ucast (ucast n :: u32) :: u8) = n"
    "push_bit 8 (ucast n :: u32) AND 0xF00 = push_bit 8 (ucast n)"
proof -
  have "(ucast (take_bit 4 n) :: u32) AND 0xF = ucast (take_bit 4 n)"
    unfolding u32_eq_bits all_less_32 by (simp add: bit_simps)
  then show "(ucast n :: u32) AND 0xF = ucast n"
    by (simp only: u8_low [OF assms])
  show "(ucast (ucast n :: u32) :: u8) = n"
    by (rule bit_word_eqI) (simp add: bit_simps)
  have "push_bit 8 (ucast (take_bit 4 n) :: u32) AND 0xF00 = push_bit 8 (ucast (take_bit 4 n))"
    unfolding u32_eq_bits all_less_32 by (simp add: bit_simps)
  then show "push_bit 8 (ucast n :: u32) AND 0xF00 = push_bit 8 (ucast n)"
    by (simp only: u8_low [OF assms])
qed

lemma session_ucast:
  fixes n :: u8
  assumes "n \<le> 7"
  shows "(ucast n + ucast SESSION_INDEX_OFFSET :: u32) = ucast (n + 8)"
proof -
  have "unat (n + 8) = unat n + 8"
    using assms by (simp add: unat_word_ariths word_le_nat_alt)
  then show ?thesis
    using assms by (simp add: SESSION_INDEX_OFFSET_def word_unat_eq_iff unat_word_ariths
        unsigned_ucast_eq word_le_nat_alt take_bit_nat_eq_self)
qed

subsection \<open>Round trip\<close>

definition index_number :: "TpmRcIndex option \<Rightarrow> u8" where
  "index_number i = (case i of
     None \<Rightarrow> 0 | Some (Parameter n) \<Rightarrow> n | Some (Handle n) \<Rightarrow> n | Some (Session n) \<Rightarrow> n + 8)"

definition index_p :: "TpmRcIndex option \<Rightarrow> u32" where
  "index_p i = (case i of Some (Parameter _) \<Rightarrow> 0x40 | _ \<Rightarrow> 0)"

definition index_of :: "bool \<Rightarrow> u8 \<Rightarrow> TpmRcIndex option" where
  "index_of p n = (if n = 0 then None else if p then Some (Parameter n)
     else if n \<le> 7 then Some (Handle n) else Some (Session (n - 8)))"

lemma index_number_le: "(case i of None \<Rightarrow> True | Some i \<Rightarrow> index_ok i) \<Longrightarrow> index_number i \<le> 15"
  unfolding index_number_def
  by (auto simp: word_le_nat_alt unat_word_ariths split: option.splits TpmRcIndex.splits)

lemma value_Fmt1:
  assumes "case i of None \<Rightarrow> True | Some i \<Rightarrow> index_ok i"
  shows "TpmRc_value (Fmt1 b i) =
         base_word b OR index_p i OR push_bit 8 (ucast (index_number i))"
  using assms index_number_le [OF assms]
  by (auto simp: index_p_def index_number_def mask_defs Let_def index_ucast session_ucast
      or.assoc split: option.splits TpmRcIndex.splits)

lemma session_number:
  fixes n :: u8
  assumes "n \<le> 7"
  shows "n + 8 \<noteq> 0" "\<not> n + 8 \<le> 7"
  using assms by (auto simp: word_le_nat_alt unat_word_ariths word_unat_eq_iff)

lemma index_of_number:
  assumes "case i of None \<Rightarrow> True | Some i \<Rightarrow> index_ok i"
  shows "index_of (index_p i \<noteq> 0) (index_number i) = i"
    and "index_p i \<noteq> 0 \<Longrightarrow> index_number i \<noteq> 0"
  using assms session_number
  by (auto simp: index_of_def index_p_def index_number_def
      split: option.splits TpmRcIndex.splits)

lemma index_of_ok:
  assumes "n \<le> 15" "\<not> (p \<and> n = 0)"
  shows "case index_of p n of None \<Rightarrow> True | Some i \<Rightarrow> index_ok i"
    and "index_number (index_of p n) = n" and "(index_p (index_of p n) \<noteq> 0) = p"
proof -
  have "1 \<le> n" if "n \<noteq> 0"
    using that by (simp add: word_le_nat_alt word_unat_eq_iff)
  moreover have "n - 8 \<le> 7" if "\<not> n \<le> 7"
    using that assms(1) unat_sub [of 8 n] by (simp add: word_le_nat_alt)
  ultimately show "case index_of p n of None \<Rightarrow> True | Some i \<Rightarrow> index_ok i"
    using assms by (auto simp: index_of_def)
qed (use assms in \<open>auto simp: index_of_def index_number_def index_p_def\<close>)

lemma try_from_fmt1:
  "v AND 0x80 \<noteq> 0 \<Longrightarrow> TpmRc_try_from v =
     (if v AND NOT 0xFFF \<noteq> 0 then Err (InvalidRc 0 (unat v))
      else and_then (map_err (\<lambda>_. InvalidRc 0 (unat v))
              (TpmRcBase_try_from_word (0x80 OR (v AND 0x3F)))) (\<lambda>b.
        let n = (ucast (drop_bit 8 v AND 0xF) :: u8) in
        if v AND 0x40 \<noteq> 0 \<and> n = 0 then Err (InvalidRc 0 (unat v))
        else Ok (Fmt1 b (index_of (v AND 0x40 \<noteq> 0) n))))"
  by (cases "TpmRcBase_try_from_word (0x80 OR (v AND 0x3F))")
     (auto simp: TpmRc_try_from_def Let_def VALID_MASK mask_defs index_of_def
       MAX_HANDLE_INDEX_def SESSION_INDEX_OFFSET_def)

lemma try_from_fmt0:
  "v AND 0x80 = 0 \<Longrightarrow> TpmRc_try_from v =
     and_then (map_err (\<lambda>_. InvalidRc 0 (unat v)) (TpmRcBase_try_from_word v))
       (\<lambda>b. if warn_base b then Ok (Warn b) else Ok (Fmt0 b))"
  by (cases "TpmRcBase_try_from_word v")
     (auto simp: TpmRc_try_from_def Let_def mask_defs warn_base_def)

lemma TpmRc_value_try_from:
  assumes "rc_ok rc"
  shows "TpmRc_try_from (TpmRc_value rc) = Ok rc"
proof (cases rc)
  case (Fmt1 b i)
  with assms have b: "fmt1_base b" and i: "case i of None \<Rightarrow> True | Some i \<Rightarrow> index_ok i"
    by auto
  let ?n = "index_number i" and ?v = "TpmRc_value rc"
  have n: "?n \<le> 15"
    by (rule index_number_le [OF i])
  have p: "index_p i = 0 \<or> index_p i = 0x40"
    by (auto simp: index_p_def split: option.splits TpmRcIndex.splits)
  have v: "?v = base_word b OR index_p i OR push_bit 8 (ucast ?n)"
    using value_Fmt1 [OF i] Fmt1 by simp
  note bits = fmt1_decompose [OF conjunct1 [OF fmt1_base_bits [OF b]]
      conjunct2 [OF fmt1_base_bits [OF b]] p index_ucast(1) [OF n], folded v]
  show ?thesis
    using try_from_fmt1 [OF bits(2)] bits index_of_number [OF i] index_ucast(2) [OF n] Fmt1
    by (auto simp: Let_def)
qed (use assms in \<open>auto simp: try_from_fmt0 mask_defs warn_base_def\<close>)

lemma TpmRc_try_from_value:
  assumes "TpmRc_try_from v = Ok rc"
  shows "rc_ok rc \<and> TpmRc_value rc = v"
proof (cases "v AND 0x80 = 0")
  case True
  then show ?thesis
    using assms by (auto simp: try_from_fmt0 mask_defs warn_base_def split: if_splits)
next
  case False
  define n where "n = (ucast (drop_bit 8 v AND 0xF) :: u8)"
  define p where "p = (v AND 0x40 \<noteq> 0)"
  obtain b where b: "0x80 OR (v AND 0x3F) = base_word b" and mask: "v AND NOT 0xFFF = 0"
    and np: "\<not> (p \<and> n = 0)" and rc: "rc = Fmt1 b (index_of p n)"
    using assms False
    by (auto simp: try_from_fmt1 Let_def n_def [symmetric] p_def [symmetric] split: if_splits)
  note n = nibble_cast [OF n_def]
  note ok = index_of_ok [OF n(1) np]
  have "index_p (index_of p n) = v AND 0x40"
    using p_bit_cases [of v] np by (auto simp: p_def index_p_def index_of_def)
  moreover have "base_word b OR (v AND 0x40) OR push_bit 8 (drop_bit 8 v AND 0xF) = v"
    using fmt1_compose [OF mask False] by (simp only: b [symmetric] or.assoc)
  ultimately have "TpmRc_value rc = v"
    using value_Fmt1 [OF ok(1), of b] n(2) ok(2) rc by simp
  with ok(1) fmt1_base_exact [OF b [symmetric]] rc show ?thesis
    by simp
qed

lemma TpmRc_try_from_Ok_iff: "TpmRc_try_from v = Ok rc \<longleftrightarrow> rc_ok rc \<and> TpmRc_value rc = v"
  using TpmRc_value_try_from TpmRc_try_from_value by blast

end
