(* ===== verification/Enum_Small.thy ===== *)
theory Enum_Small
  imports Enum_Core
begin

text \<open>
  The enumerations of \<open>protocol/src/data/enum/mod.rs\<close> with few variants, and \<open>TpmiEccKeyExchange\<close>
  of \<open>protocol/src/data/tpmi.rs\<close>.
\<close>

subsection \<open>\<open>TpmAt\<close>\<close>

datatype (plugins only:) TpmAt =
    At_Any | At_Error | At_Pv1 | At_Vend

primrec TpmAt_value :: "TpmAt \<Rightarrow> int" where
  "TpmAt_value At_Any = 0x00000000"
| "TpmAt_value At_Error = 0x00000001"
| "TpmAt_value At_Pv1 = 0x00000002"
| "TpmAt_value At_Vend = 0x80000000"

definition TpmAt_variants :: "TpmAt list" where
  "TpmAt_variants = [
    At_Any, At_Error, At_Pv1, At_Vend]"

primrec TpmAt_display :: "TpmAt \<Rightarrow> string" where
  "TpmAt_display At_Any = ''TPM_AT_ANY''"
| "TpmAt_display At_Error = ''TPM_AT_ERROR''"
| "TpmAt_display At_Pv1 = ''TPM_AT_PV1''"
| "TpmAt_display At_Vend = ''TPM_AT_VEND''"

interpretation TpmAt: tpm_enum 4 False TpmAt_value TpmAt_variants
proof
  show "v \<in> set TpmAt_variants" for v
    by (cases v) (simp_all only: TpmAt_variants_def list.set insert_iff simp_thms)
qed (simp_all add: TpmAt_variants_def repr_range_def)

instantiation TpmAt :: linorder
begin

definition less_eq_TpmAt :: "TpmAt \<Rightarrow> TpmAt \<Rightarrow> bool" where
  "less_eq_TpmAt v w \<longleftrightarrow> TpmAt_value v \<le> TpmAt_value w"

definition less_TpmAt :: "TpmAt \<Rightarrow> TpmAt \<Rightarrow> bool" where
  "less_TpmAt v w \<longleftrightarrow> TpmAt_value v < TpmAt_value w"

instance
  by standard (auto simp: less_eq_TpmAt_def less_TpmAt_def)

end

instantiation TpmAt :: equal
begin

definition equal_TpmAt :: "TpmAt \<Rightarrow> TpmAt \<Rightarrow> bool" where
  "equal_TpmAt v w \<longleftrightarrow> TpmAt_value v = TpmAt_value w"

instance
  by standard (simp add: equal_TpmAt_def)

end

definition TpmAt_try_from :: "int \<Rightarrow> TpmAt TpmResult" where
  "TpmAt_try_from = enum_try_from TpmAt_value TpmAt_variants"

subsection \<open>\<open>TpmCap\<close>\<close>

datatype (plugins only:) TpmCap =
    Cap_Algs | Cap_Handles | Cap_Commands | Cap_PpCommands
  | Cap_AuditCommands | Cap_Pcrs | Cap_TpmProperties | Cap_PcrProperties
  | Cap_EccCurves | Cap_AuthPolicies | Cap_Act | Cap_VendorProperty

primrec TpmCap_value :: "TpmCap \<Rightarrow> int" where
  "TpmCap_value Cap_Algs = 0x00000000"
| "TpmCap_value Cap_Handles = 0x00000001"
| "TpmCap_value Cap_Commands = 0x00000002"
| "TpmCap_value Cap_PpCommands = 0x00000003"
| "TpmCap_value Cap_AuditCommands = 0x00000004"
| "TpmCap_value Cap_Pcrs = 0x00000005"
| "TpmCap_value Cap_TpmProperties = 0x00000006"
| "TpmCap_value Cap_PcrProperties = 0x00000007"
| "TpmCap_value Cap_EccCurves = 0x00000008"
| "TpmCap_value Cap_AuthPolicies = 0x00000009"
| "TpmCap_value Cap_Act = 0x0000000A"
| "TpmCap_value Cap_VendorProperty = 0x00000100"

definition TpmCap_variants :: "TpmCap list" where
  "TpmCap_variants = [
    Cap_Algs, Cap_Handles, Cap_Commands, Cap_PpCommands,
    Cap_AuditCommands, Cap_Pcrs, Cap_TpmProperties, Cap_PcrProperties,
    Cap_EccCurves, Cap_AuthPolicies, Cap_Act, Cap_VendorProperty]"

primrec TpmCap_display :: "TpmCap \<Rightarrow> string" where
  "TpmCap_display Cap_Algs = ''TPM_CAP_ALGS''"
| "TpmCap_display Cap_Handles = ''TPM_CAP_HANDLES''"
| "TpmCap_display Cap_Commands = ''TPM_CAP_COMMANDS''"
| "TpmCap_display Cap_PpCommands = ''TPM_CAP_PP_COMMANDS''"
| "TpmCap_display Cap_AuditCommands = ''TPM_CAP_AUDIT_COMMANDS''"
| "TpmCap_display Cap_Pcrs = ''TPM_CAP_PCRS''"
| "TpmCap_display Cap_TpmProperties = ''TPM_CAP_TPM_PROPERTIES''"
| "TpmCap_display Cap_PcrProperties = ''TPM_CAP_PCR_PROPERTIES''"
| "TpmCap_display Cap_EccCurves = ''TPM_CAP_ECC_CURVES''"
| "TpmCap_display Cap_AuthPolicies = ''TPM_CAP_AUTH_POLICIES''"
| "TpmCap_display Cap_Act = ''TPM_CAP_ACT''"
| "TpmCap_display Cap_VendorProperty = ''TPM_CAP_VENDOR_PROPERTY''"

interpretation TpmCap: tpm_enum 4 False TpmCap_value TpmCap_variants
proof
  show "v \<in> set TpmCap_variants" for v
    by (cases v) (simp_all only: TpmCap_variants_def list.set insert_iff simp_thms)
qed (simp_all add: TpmCap_variants_def repr_range_def)

instantiation TpmCap :: linorder
begin

definition less_eq_TpmCap :: "TpmCap \<Rightarrow> TpmCap \<Rightarrow> bool" where
  "less_eq_TpmCap v w \<longleftrightarrow> TpmCap_value v \<le> TpmCap_value w"

definition less_TpmCap :: "TpmCap \<Rightarrow> TpmCap \<Rightarrow> bool" where
  "less_TpmCap v w \<longleftrightarrow> TpmCap_value v < TpmCap_value w"

instance
  by standard (auto simp: less_eq_TpmCap_def less_TpmCap_def)

end

instantiation TpmCap :: equal
begin

definition equal_TpmCap :: "TpmCap \<Rightarrow> TpmCap \<Rightarrow> bool" where
  "equal_TpmCap v w \<longleftrightarrow> TpmCap_value v = TpmCap_value w"

instance
  by standard (simp add: equal_TpmCap_def)

end

definition TpmCap_try_from :: "int \<Rightarrow> TpmCap TpmResult" where
  "TpmCap_try_from = enum_try_from TpmCap_value TpmCap_variants"

subsection \<open>\<open>TpmClockAdjust\<close>\<close>

datatype (plugins only:) TpmClockAdjust =
    Clock_CoarseSlower | Clock_MediumSlower | Clock_FineSlower | Clock_NoChange
  | Clock_FineFaster | Clock_MediumFaster | Clock_CoarseFaster

primrec TpmClockAdjust_value :: "TpmClockAdjust \<Rightarrow> int" where
  "TpmClockAdjust_value Clock_CoarseSlower = (- 3)"
| "TpmClockAdjust_value Clock_MediumSlower = (- 2)"
| "TpmClockAdjust_value Clock_FineSlower = (- 1)"
| "TpmClockAdjust_value Clock_NoChange = 0"
| "TpmClockAdjust_value Clock_FineFaster = 1"
| "TpmClockAdjust_value Clock_MediumFaster = 2"
| "TpmClockAdjust_value Clock_CoarseFaster = 3"

definition TpmClockAdjust_variants :: "TpmClockAdjust list" where
  "TpmClockAdjust_variants = [
    Clock_CoarseSlower, Clock_MediumSlower, Clock_FineSlower, Clock_NoChange,
    Clock_FineFaster, Clock_MediumFaster, Clock_CoarseFaster]"

primrec TpmClockAdjust_display :: "TpmClockAdjust \<Rightarrow> string" where
  "TpmClockAdjust_display Clock_CoarseSlower = ''TPM_CLOCK_COARSE_SLOWER''"
| "TpmClockAdjust_display Clock_MediumSlower = ''TPM_CLOCK_MEDIUM_SLOWER''"
| "TpmClockAdjust_display Clock_FineSlower = ''TPM_CLOCK_FINE_SLOWER''"
| "TpmClockAdjust_display Clock_NoChange = ''TPM_CLOCK_NO_CHANGE''"
| "TpmClockAdjust_display Clock_FineFaster = ''TPM_CLOCK_FINE_FASTER''"
| "TpmClockAdjust_display Clock_MediumFaster = ''TPM_CLOCK_MEDIUM_FASTER''"
| "TpmClockAdjust_display Clock_CoarseFaster = ''TPM_CLOCK_COARSE_FASTER''"

interpretation TpmClockAdjust: tpm_enum 1 True TpmClockAdjust_value TpmClockAdjust_variants
proof
  show "v \<in> set TpmClockAdjust_variants" for v
    by (cases v) (simp_all only: TpmClockAdjust_variants_def list.set insert_iff simp_thms)
qed (simp_all add: TpmClockAdjust_variants_def repr_range_def)

instantiation TpmClockAdjust :: linorder
begin

definition less_eq_TpmClockAdjust :: "TpmClockAdjust \<Rightarrow> TpmClockAdjust \<Rightarrow> bool" where
  "less_eq_TpmClockAdjust v w \<longleftrightarrow> TpmClockAdjust_value v \<le> TpmClockAdjust_value w"

definition less_TpmClockAdjust :: "TpmClockAdjust \<Rightarrow> TpmClockAdjust \<Rightarrow> bool" where
  "less_TpmClockAdjust v w \<longleftrightarrow> TpmClockAdjust_value v < TpmClockAdjust_value w"

instance
  by standard (auto simp: less_eq_TpmClockAdjust_def less_TpmClockAdjust_def)

end

instantiation TpmClockAdjust :: equal
begin

definition equal_TpmClockAdjust :: "TpmClockAdjust \<Rightarrow> TpmClockAdjust \<Rightarrow> bool" where
  "equal_TpmClockAdjust v w \<longleftrightarrow> TpmClockAdjust_value v = TpmClockAdjust_value w"

instance
  by standard (simp add: equal_TpmClockAdjust_def)

end

definition TpmClockAdjust_try_from :: "int \<Rightarrow> TpmClockAdjust TpmResult" where
  "TpmClockAdjust_try_from = enum_try_from TpmClockAdjust_value TpmClockAdjust_variants"

subsection \<open>\<open>TpmEo\<close>\<close>

datatype (plugins only:) TpmEo =
    Eo_Eq | Eo_Neq | Eo_SignedGt | Eo_UnsignedGt
  | Eo_SignedLt | Eo_UnsignedLt | Eo_SignedGe | Eo_UnsignedGe
  | Eo_SignedLe | Eo_UnsignedLe | Eo_Bitset | Eo_Bitclear

primrec TpmEo_value :: "TpmEo \<Rightarrow> int" where
  "TpmEo_value Eo_Eq = 0x0000"
| "TpmEo_value Eo_Neq = 0x0001"
| "TpmEo_value Eo_SignedGt = 0x0002"
| "TpmEo_value Eo_UnsignedGt = 0x0003"
| "TpmEo_value Eo_SignedLt = 0x0004"
| "TpmEo_value Eo_UnsignedLt = 0x0005"
| "TpmEo_value Eo_SignedGe = 0x0006"
| "TpmEo_value Eo_UnsignedGe = 0x0007"
| "TpmEo_value Eo_SignedLe = 0x0008"
| "TpmEo_value Eo_UnsignedLe = 0x0009"
| "TpmEo_value Eo_Bitset = 0x000A"
| "TpmEo_value Eo_Bitclear = 0x000B"

definition TpmEo_variants :: "TpmEo list" where
  "TpmEo_variants = [
    Eo_Eq, Eo_Neq, Eo_SignedGt, Eo_UnsignedGt,
    Eo_SignedLt, Eo_UnsignedLt, Eo_SignedGe, Eo_UnsignedGe,
    Eo_SignedLe, Eo_UnsignedLe, Eo_Bitset, Eo_Bitclear]"

primrec TpmEo_display :: "TpmEo \<Rightarrow> string" where
  "TpmEo_display Eo_Eq = ''TPM_EO_EQ''"
| "TpmEo_display Eo_Neq = ''TPM_EO_NEQ''"
| "TpmEo_display Eo_SignedGt = ''TPM_EO_SIGNED_GT''"
| "TpmEo_display Eo_UnsignedGt = ''TPM_EO_UNSIGNED_GT''"
| "TpmEo_display Eo_SignedLt = ''TPM_EO_SIGNED_LT''"
| "TpmEo_display Eo_UnsignedLt = ''TPM_EO_UNSIGNED_LT''"
| "TpmEo_display Eo_SignedGe = ''TPM_EO_SIGNED_GE''"
| "TpmEo_display Eo_UnsignedGe = ''TPM_EO_UNSIGNED_GE''"
| "TpmEo_display Eo_SignedLe = ''TPM_EO_SIGNED_LE''"
| "TpmEo_display Eo_UnsignedLe = ''TPM_EO_UNSIGNED_LE''"
| "TpmEo_display Eo_Bitset = ''TPM_EO_BITSET''"
| "TpmEo_display Eo_Bitclear = ''TPM_EO_BITCLEAR''"

interpretation TpmEo: tpm_enum 2 False TpmEo_value TpmEo_variants
proof
  show "v \<in> set TpmEo_variants" for v
    by (cases v) (simp_all only: TpmEo_variants_def list.set insert_iff simp_thms)
qed (simp_all add: TpmEo_variants_def repr_range_def)

instantiation TpmEo :: linorder
begin

definition less_eq_TpmEo :: "TpmEo \<Rightarrow> TpmEo \<Rightarrow> bool" where
  "less_eq_TpmEo v w \<longleftrightarrow> TpmEo_value v \<le> TpmEo_value w"

definition less_TpmEo :: "TpmEo \<Rightarrow> TpmEo \<Rightarrow> bool" where
  "less_TpmEo v w \<longleftrightarrow> TpmEo_value v < TpmEo_value w"

instance
  by standard (auto simp: less_eq_TpmEo_def less_TpmEo_def)

end

instantiation TpmEo :: equal
begin

definition equal_TpmEo :: "TpmEo \<Rightarrow> TpmEo \<Rightarrow> bool" where
  "equal_TpmEo v w \<longleftrightarrow> TpmEo_value v = TpmEo_value w"

instance
  by standard (simp add: equal_TpmEo_def)

end

definition TpmEo_try_from :: "int \<Rightarrow> TpmEo TpmResult" where
  "TpmEo_try_from = enum_try_from TpmEo_value TpmEo_variants"

subsection \<open>\<open>TpmEccCurve\<close>\<close>

datatype (plugins only:) TpmEccCurve =
    Curve_None | Curve_NistP192 | Curve_NistP224 | Curve_NistP256
  | Curve_NistP384 | Curve_NistP521 | Curve_BnP256 | Curve_BnP638
  | Curve_Sm2P256 | Curve_BpP256R1 | Curve_BpP384R1 | Curve_BpP512R1
  | Curve_Curve25519 | Curve_Curve448

primrec TpmEccCurve_value :: "TpmEccCurve \<Rightarrow> int" where
  "TpmEccCurve_value Curve_None = 0x0000"
| "TpmEccCurve_value Curve_NistP192 = 0x0001"
| "TpmEccCurve_value Curve_NistP224 = 0x0002"
| "TpmEccCurve_value Curve_NistP256 = 0x0003"
| "TpmEccCurve_value Curve_NistP384 = 0x0004"
| "TpmEccCurve_value Curve_NistP521 = 0x0005"
| "TpmEccCurve_value Curve_BnP256 = 0x0010"
| "TpmEccCurve_value Curve_BnP638 = 0x0011"
| "TpmEccCurve_value Curve_Sm2P256 = 0x0020"
| "TpmEccCurve_value Curve_BpP256R1 = 0x0030"
| "TpmEccCurve_value Curve_BpP384R1 = 0x0031"
| "TpmEccCurve_value Curve_BpP512R1 = 0x0032"
| "TpmEccCurve_value Curve_Curve25519 = 0x0040"
| "TpmEccCurve_value Curve_Curve448 = 0x0041"

definition TpmEccCurve_variants :: "TpmEccCurve list" where
  "TpmEccCurve_variants = [
    Curve_None, Curve_NistP192, Curve_NistP224, Curve_NistP256,
    Curve_NistP384, Curve_NistP521, Curve_BnP256, Curve_BnP638,
    Curve_Sm2P256, Curve_BpP256R1, Curve_BpP384R1, Curve_BpP512R1,
    Curve_Curve25519, Curve_Curve448]"

primrec TpmEccCurve_display :: "TpmEccCurve \<Rightarrow> string" where
  "TpmEccCurve_display Curve_None = ''TPM_ECC_NONE''"
| "TpmEccCurve_display Curve_NistP192 = ''TPM_ECC_NIST_P192''"
| "TpmEccCurve_display Curve_NistP224 = ''TPM_ECC_NIST_P224''"
| "TpmEccCurve_display Curve_NistP256 = ''TPM_ECC_NIST_P256''"
| "TpmEccCurve_display Curve_NistP384 = ''TPM_ECC_NIST_P384''"
| "TpmEccCurve_display Curve_NistP521 = ''TPM_ECC_NIST_P521''"
| "TpmEccCurve_display Curve_BnP256 = ''TPM_ECC_BN_P256''"
| "TpmEccCurve_display Curve_BnP638 = ''TPM_ECC_BN_P638''"
| "TpmEccCurve_display Curve_Sm2P256 = ''TPM_ECC_SM2_P256''"
| "TpmEccCurve_display Curve_BpP256R1 = ''TPM_ECC_BP_P256_R1''"
| "TpmEccCurve_display Curve_BpP384R1 = ''TPM_ECC_BP_P384_R1''"
| "TpmEccCurve_display Curve_BpP512R1 = ''TPM_ECC_BP_P512_R1''"
| "TpmEccCurve_display Curve_Curve25519 = ''TPM_ECC_CURVE_25519''"
| "TpmEccCurve_display Curve_Curve448 = ''TPM_ECC_CURVE_448''"

interpretation TpmEccCurve: tpm_enum 2 False TpmEccCurve_value TpmEccCurve_variants
proof
  show "v \<in> set TpmEccCurve_variants" for v
    by (cases v) (simp_all only: TpmEccCurve_variants_def list.set insert_iff simp_thms)
qed (simp_all add: TpmEccCurve_variants_def repr_range_def)

instantiation TpmEccCurve :: linorder
begin

definition less_eq_TpmEccCurve :: "TpmEccCurve \<Rightarrow> TpmEccCurve \<Rightarrow> bool" where
  "less_eq_TpmEccCurve v w \<longleftrightarrow> TpmEccCurve_value v \<le> TpmEccCurve_value w"

definition less_TpmEccCurve :: "TpmEccCurve \<Rightarrow> TpmEccCurve \<Rightarrow> bool" where
  "less_TpmEccCurve v w \<longleftrightarrow> TpmEccCurve_value v < TpmEccCurve_value w"

instance
  by standard (auto simp: less_eq_TpmEccCurve_def less_TpmEccCurve_def)

end

instantiation TpmEccCurve :: equal
begin

definition equal_TpmEccCurve :: "TpmEccCurve \<Rightarrow> TpmEccCurve \<Rightarrow> bool" where
  "equal_TpmEccCurve v w \<longleftrightarrow> TpmEccCurve_value v = TpmEccCurve_value w"

instance
  by standard (simp add: equal_TpmEccCurve_def)

end

definition TpmEccCurve_try_from :: "int \<Rightarrow> TpmEccCurve TpmResult" where
  "TpmEccCurve_try_from = enum_try_from TpmEccCurve_value TpmEccCurve_variants"

subsection \<open>\<open>TpmHt\<close>\<close>

datatype (plugins only:) TpmHt =
    Ht_Pcr | Ht_NvIndex | Ht_HmacSession | Ht_PolicySession
  | Ht_ExternalNv | Ht_PermanentNv | Ht_Permanent | Ht_Transient
  | Ht_Persistent | Ht_Ac

primrec TpmHt_value :: "TpmHt \<Rightarrow> int" where
  "TpmHt_value Ht_Pcr = 0x00"
| "TpmHt_value Ht_NvIndex = 0x01"
| "TpmHt_value Ht_HmacSession = 0x02"
| "TpmHt_value Ht_PolicySession = 0x03"
| "TpmHt_value Ht_ExternalNv = 0x11"
| "TpmHt_value Ht_PermanentNv = 0x12"
| "TpmHt_value Ht_Permanent = 0x40"
| "TpmHt_value Ht_Transient = 0x80"
| "TpmHt_value Ht_Persistent = 0x81"
| "TpmHt_value Ht_Ac = 0x90"

definition TpmHt_variants :: "TpmHt list" where
  "TpmHt_variants = [
    Ht_Pcr, Ht_NvIndex, Ht_HmacSession, Ht_PolicySession,
    Ht_ExternalNv, Ht_PermanentNv, Ht_Permanent, Ht_Transient,
    Ht_Persistent, Ht_Ac]"

primrec TpmHt_display :: "TpmHt \<Rightarrow> string" where
  "TpmHt_display Ht_Pcr = ''TPM_HT_PCR''"
| "TpmHt_display Ht_NvIndex = ''TPM_HT_NV_INDEX''"
| "TpmHt_display Ht_HmacSession = ''TPM_HT_HMAC_SESSION''"
| "TpmHt_display Ht_PolicySession = ''TPM_HT_POLICY_SESSION''"
| "TpmHt_display Ht_ExternalNv = ''TPM_HT_EXTERNAL_NV''"
| "TpmHt_display Ht_PermanentNv = ''TPM_HT_PERMANENT_NV''"
| "TpmHt_display Ht_Permanent = ''TPM_HT_PERMANENT''"
| "TpmHt_display Ht_Transient = ''TPM_HT_TRANSIENT''"
| "TpmHt_display Ht_Persistent = ''TPM_HT_PERSISTENT''"
| "TpmHt_display Ht_Ac = ''TPM_HT_AC''"

interpretation TpmHt: tpm_enum 1 False TpmHt_value TpmHt_variants
proof
  show "v \<in> set TpmHt_variants" for v
    by (cases v) (simp_all only: TpmHt_variants_def list.set insert_iff simp_thms)
qed (simp_all add: TpmHt_variants_def repr_range_def)

instantiation TpmHt :: linorder
begin

definition less_eq_TpmHt :: "TpmHt \<Rightarrow> TpmHt \<Rightarrow> bool" where
  "less_eq_TpmHt v w \<longleftrightarrow> TpmHt_value v \<le> TpmHt_value w"

definition less_TpmHt :: "TpmHt \<Rightarrow> TpmHt \<Rightarrow> bool" where
  "less_TpmHt v w \<longleftrightarrow> TpmHt_value v < TpmHt_value w"

instance
  by standard (auto simp: less_eq_TpmHt_def less_TpmHt_def)

end

instantiation TpmHt :: equal
begin

definition equal_TpmHt :: "TpmHt \<Rightarrow> TpmHt \<Rightarrow> bool" where
  "equal_TpmHt v w \<longleftrightarrow> TpmHt_value v = TpmHt_value w"

instance
  by standard (simp add: equal_TpmHt_def)

end

definition TpmHt_try_from :: "int \<Rightarrow> TpmHt TpmResult" where
  "TpmHt_try_from = enum_try_from TpmHt_value TpmHt_variants"

subsection \<open>\<open>TpmRh\<close>\<close>

datatype (plugins only:) TpmRh =
    Rh_Srk | Rh_Owner | Rh_Revoke | Rh_Transport
  | Rh_Operator | Rh_Admin | Rh_Ek | Rh_Null
  | Rh_Unassigned | Rh_Pw | Rh_Lockout | Rh_Endorsement
  | Rh_Platform | Rh_PlatformNv | Rh_FwOwner | Rh_FwEndorsement
  | Rh_FwPlatform | Rh_FwNull | Rh_SvnOwnerBase | Rh_SvnEndorsementBase
  | Rh_SvnPlatformBase | Rh_SvnNullBase

primrec TpmRh_value :: "TpmRh \<Rightarrow> int" where
  "TpmRh_value Rh_Srk = 0x40000000"
| "TpmRh_value Rh_Owner = 0x40000001"
| "TpmRh_value Rh_Revoke = 0x40000002"
| "TpmRh_value Rh_Transport = 0x40000003"
| "TpmRh_value Rh_Operator = 0x40000004"
| "TpmRh_value Rh_Admin = 0x40000005"
| "TpmRh_value Rh_Ek = 0x40000006"
| "TpmRh_value Rh_Null = 0x40000007"
| "TpmRh_value Rh_Unassigned = 0x40000008"
| "TpmRh_value Rh_Pw = 0x40000009"
| "TpmRh_value Rh_Lockout = 0x4000000A"
| "TpmRh_value Rh_Endorsement = 0x4000000B"
| "TpmRh_value Rh_Platform = 0x4000000C"
| "TpmRh_value Rh_PlatformNv = 0x4000000D"
| "TpmRh_value Rh_FwOwner = 0x40000140"
| "TpmRh_value Rh_FwEndorsement = 0x40000141"
| "TpmRh_value Rh_FwPlatform = 0x40000142"
| "TpmRh_value Rh_FwNull = 0x40000143"
| "TpmRh_value Rh_SvnOwnerBase = 0x40010000"
| "TpmRh_value Rh_SvnEndorsementBase = 0x40020000"
| "TpmRh_value Rh_SvnPlatformBase = 0x40030000"
| "TpmRh_value Rh_SvnNullBase = 0x40040000"

definition TpmRh_variants :: "TpmRh list" where
  "TpmRh_variants = [
    Rh_Srk, Rh_Owner, Rh_Revoke, Rh_Transport,
    Rh_Operator, Rh_Admin, Rh_Ek, Rh_Null,
    Rh_Unassigned, Rh_Pw, Rh_Lockout, Rh_Endorsement,
    Rh_Platform, Rh_PlatformNv, Rh_FwOwner, Rh_FwEndorsement,
    Rh_FwPlatform, Rh_FwNull, Rh_SvnOwnerBase, Rh_SvnEndorsementBase,
    Rh_SvnPlatformBase, Rh_SvnNullBase]"

primrec TpmRh_display :: "TpmRh \<Rightarrow> string" where
  "TpmRh_display Rh_Srk = ''TPM_RH_SRK''"
| "TpmRh_display Rh_Owner = ''TPM_RH_OWNER''"
| "TpmRh_display Rh_Revoke = ''TPM_RH_REVOKE''"
| "TpmRh_display Rh_Transport = ''TPM_RH_TRANSPORT''"
| "TpmRh_display Rh_Operator = ''TPM_RH_OPERATOR''"
| "TpmRh_display Rh_Admin = ''TPM_RH_ADMIN''"
| "TpmRh_display Rh_Ek = ''TPM_RH_EK''"
| "TpmRh_display Rh_Null = ''TPM_RH_NULL''"
| "TpmRh_display Rh_Unassigned = ''TPM_RH_UNASSIGNED''"
| "TpmRh_display Rh_Pw = ''TPM_RS_PW''"
| "TpmRh_display Rh_Lockout = ''TPM_RH_LOCKOUT''"
| "TpmRh_display Rh_Endorsement = ''TPM_RH_ENDORSEMENT''"
| "TpmRh_display Rh_Platform = ''TPM_RH_PLATFORM''"
| "TpmRh_display Rh_PlatformNv = ''TPM_RH_PLATFORM_NV''"
| "TpmRh_display Rh_FwOwner = ''TPM_RH_FW_OWNER''"
| "TpmRh_display Rh_FwEndorsement = ''TPM_RH_FW_ENDORSEMENT''"
| "TpmRh_display Rh_FwPlatform = ''TPM_RH_FW_PLATFORM''"
| "TpmRh_display Rh_FwNull = ''TPM_RH_FW_NULL''"
| "TpmRh_display Rh_SvnOwnerBase = ''TPM_RH_SVN_OWNER_BASE''"
| "TpmRh_display Rh_SvnEndorsementBase = ''TPM_RH_SVN_ENDORSEMENT_BASE''"
| "TpmRh_display Rh_SvnPlatformBase = ''TPM_RH_SVN_PLATFORM_BASE''"
| "TpmRh_display Rh_SvnNullBase = ''TPM_RH_SVN_NULL_BASE''"

interpretation TpmRh: tpm_enum 4 False TpmRh_value TpmRh_variants
proof
  show "v \<in> set TpmRh_variants" for v
    by (cases v) (simp_all only: TpmRh_variants_def list.set insert_iff simp_thms)
qed (simp_all add: TpmRh_variants_def repr_range_def)

instantiation TpmRh :: linorder
begin

definition less_eq_TpmRh :: "TpmRh \<Rightarrow> TpmRh \<Rightarrow> bool" where
  "less_eq_TpmRh v w \<longleftrightarrow> TpmRh_value v \<le> TpmRh_value w"

definition less_TpmRh :: "TpmRh \<Rightarrow> TpmRh \<Rightarrow> bool" where
  "less_TpmRh v w \<longleftrightarrow> TpmRh_value v < TpmRh_value w"

instance
  by standard (auto simp: less_eq_TpmRh_def less_TpmRh_def)

end

instantiation TpmRh :: equal
begin

definition equal_TpmRh :: "TpmRh \<Rightarrow> TpmRh \<Rightarrow> bool" where
  "equal_TpmRh v w \<longleftrightarrow> TpmRh_value v = TpmRh_value w"

instance
  by standard (simp add: equal_TpmRh_def)

end

definition TpmRh_try_from :: "int \<Rightarrow> TpmRh TpmResult" where
  "TpmRh_try_from = enum_try_from TpmRh_value TpmRh_variants"

subsection \<open>\<open>TpmSe\<close>\<close>

datatype (plugins only:) TpmSe =
    Se_Hmac | Se_Policy | Se_Trial

primrec TpmSe_value :: "TpmSe \<Rightarrow> int" where
  "TpmSe_value Se_Hmac = 0x00"
| "TpmSe_value Se_Policy = 0x01"
| "TpmSe_value Se_Trial = 0x03"

definition TpmSe_variants :: "TpmSe list" where
  "TpmSe_variants = [
    Se_Hmac, Se_Policy, Se_Trial]"

primrec TpmSe_display :: "TpmSe \<Rightarrow> string" where
  "TpmSe_display Se_Hmac = ''TPM_SE_HMAC''"
| "TpmSe_display Se_Policy = ''TPM_SE_POLICY''"
| "TpmSe_display Se_Trial = ''TPM_SE_TRIAL''"

interpretation TpmSe: tpm_enum 1 False TpmSe_value TpmSe_variants
proof
  show "v \<in> set TpmSe_variants" for v
    by (cases v) (simp_all only: TpmSe_variants_def list.set insert_iff simp_thms)
qed (simp_all add: TpmSe_variants_def repr_range_def)

instantiation TpmSe :: linorder
begin

definition less_eq_TpmSe :: "TpmSe \<Rightarrow> TpmSe \<Rightarrow> bool" where
  "less_eq_TpmSe v w \<longleftrightarrow> TpmSe_value v \<le> TpmSe_value w"

definition less_TpmSe :: "TpmSe \<Rightarrow> TpmSe \<Rightarrow> bool" where
  "less_TpmSe v w \<longleftrightarrow> TpmSe_value v < TpmSe_value w"

instance
  by standard (auto simp: less_eq_TpmSe_def less_TpmSe_def)

end

instantiation TpmSe :: equal
begin

definition equal_TpmSe :: "TpmSe \<Rightarrow> TpmSe \<Rightarrow> bool" where
  "equal_TpmSe v w \<longleftrightarrow> TpmSe_value v = TpmSe_value w"

instance
  by standard (simp add: equal_TpmSe_def)

end

definition TpmSe_try_from :: "int \<Rightarrow> TpmSe TpmResult" where
  "TpmSe_try_from = enum_try_from TpmSe_value TpmSe_variants"

subsection \<open>\<open>TpmSt\<close>\<close>

datatype (plugins only:) TpmSt =
    St_RspCommand | St_Null | St_NoSessions | St_Sessions
  | St_AttestNv | St_AttestCommandAudit | St_AttestSessionAudit | St_AttestCertify
  | St_AttestQuote | St_AttestTime | St_AttestCreation | St_AttestNvDigest
  | St_Creation | St_Verified | St_AuthSecret | St_HashCheck
  | St_AuthSigned

primrec TpmSt_value :: "TpmSt \<Rightarrow> int" where
  "TpmSt_value St_RspCommand = 0x00C4"
| "TpmSt_value St_Null = 0x8000"
| "TpmSt_value St_NoSessions = 0x8001"
| "TpmSt_value St_Sessions = 0x8002"
| "TpmSt_value St_AttestNv = 0x8014"
| "TpmSt_value St_AttestCommandAudit = 0x8015"
| "TpmSt_value St_AttestSessionAudit = 0x8016"
| "TpmSt_value St_AttestCertify = 0x8017"
| "TpmSt_value St_AttestQuote = 0x8018"
| "TpmSt_value St_AttestTime = 0x8019"
| "TpmSt_value St_AttestCreation = 0x801A"
| "TpmSt_value St_AttestNvDigest = 0x801C"
| "TpmSt_value St_Creation = 0x8021"
| "TpmSt_value St_Verified = 0x8022"
| "TpmSt_value St_AuthSecret = 0x8023"
| "TpmSt_value St_HashCheck = 0x8024"
| "TpmSt_value St_AuthSigned = 0x8025"

definition TpmSt_variants :: "TpmSt list" where
  "TpmSt_variants = [
    St_RspCommand, St_Null, St_NoSessions, St_Sessions,
    St_AttestNv, St_AttestCommandAudit, St_AttestSessionAudit, St_AttestCertify,
    St_AttestQuote, St_AttestTime, St_AttestCreation, St_AttestNvDigest,
    St_Creation, St_Verified, St_AuthSecret, St_HashCheck,
    St_AuthSigned]"

primrec TpmSt_display :: "TpmSt \<Rightarrow> string" where
  "TpmSt_display St_RspCommand = ''TPM_ST_RSP_COMMAND''"
| "TpmSt_display St_Null = ''TPM_ST_NULL''"
| "TpmSt_display St_NoSessions = ''TPM_ST_NO_SESSIONS''"
| "TpmSt_display St_Sessions = ''TPM_ST_SESSIONS''"
| "TpmSt_display St_AttestNv = ''TPM_ST_ATTEST_NV''"
| "TpmSt_display St_AttestCommandAudit = ''TPM_ST_ATTEST_COMMAND_AUDIT''"
| "TpmSt_display St_AttestSessionAudit = ''TPM_ST_ATTEST_SESSION_AUDIT''"
| "TpmSt_display St_AttestCertify = ''TPM_ST_ATTEST_CERTIFY''"
| "TpmSt_display St_AttestQuote = ''TPM_ST_ATTEST_QUOTE''"
| "TpmSt_display St_AttestTime = ''TPM_ST_ATTEST_TIME''"
| "TpmSt_display St_AttestCreation = ''TPM_ST_ATTEST_CREATION''"
| "TpmSt_display St_AttestNvDigest = ''TPM_ST_ATTEST_NV_DIGEST''"
| "TpmSt_display St_Creation = ''TPM_ST_CREATION''"
| "TpmSt_display St_Verified = ''TPM_ST_VERIFIED''"
| "TpmSt_display St_AuthSecret = ''TPM_ST_AUTH_SECRET''"
| "TpmSt_display St_HashCheck = ''TPM_ST_HASHCHECK''"
| "TpmSt_display St_AuthSigned = ''TPM_ST_AUTH_SIGNED''"

interpretation TpmSt: tpm_enum 2 False TpmSt_value TpmSt_variants
proof
  show "v \<in> set TpmSt_variants" for v
    by (cases v) (simp_all only: TpmSt_variants_def list.set insert_iff simp_thms)
qed (simp_all add: TpmSt_variants_def repr_range_def)

instantiation TpmSt :: linorder
begin

definition less_eq_TpmSt :: "TpmSt \<Rightarrow> TpmSt \<Rightarrow> bool" where
  "less_eq_TpmSt v w \<longleftrightarrow> TpmSt_value v \<le> TpmSt_value w"

definition less_TpmSt :: "TpmSt \<Rightarrow> TpmSt \<Rightarrow> bool" where
  "less_TpmSt v w \<longleftrightarrow> TpmSt_value v < TpmSt_value w"

instance
  by standard (auto simp: less_eq_TpmSt_def less_TpmSt_def)

end

instantiation TpmSt :: equal
begin

definition equal_TpmSt :: "TpmSt \<Rightarrow> TpmSt \<Rightarrow> bool" where
  "equal_TpmSt v w \<longleftrightarrow> TpmSt_value v = TpmSt_value w"

instance
  by standard (simp add: equal_TpmSt_def)

end

definition TpmSt_try_from :: "int \<Rightarrow> TpmSt TpmResult" where
  "TpmSt_try_from = enum_try_from TpmSt_value TpmSt_variants"

subsection \<open>\<open>TpmSu\<close>\<close>

datatype (plugins only:) TpmSu =
    Su_Clear | Su_State

primrec TpmSu_value :: "TpmSu \<Rightarrow> int" where
  "TpmSu_value Su_Clear = 0x0000"
| "TpmSu_value Su_State = 0x0001"

definition TpmSu_variants :: "TpmSu list" where
  "TpmSu_variants = [
    Su_Clear, Su_State]"

primrec TpmSu_display :: "TpmSu \<Rightarrow> string" where
  "TpmSu_display Su_Clear = ''TPM_SU_CLEAR''"
| "TpmSu_display Su_State = ''TPM_SU_STATE''"

interpretation TpmSu: tpm_enum 2 False TpmSu_value TpmSu_variants
proof
  show "v \<in> set TpmSu_variants" for v
    by (cases v) (simp_all only: TpmSu_variants_def list.set insert_iff simp_thms)
qed (simp_all add: TpmSu_variants_def repr_range_def)

instantiation TpmSu :: linorder
begin

definition less_eq_TpmSu :: "TpmSu \<Rightarrow> TpmSu \<Rightarrow> bool" where
  "less_eq_TpmSu v w \<longleftrightarrow> TpmSu_value v \<le> TpmSu_value w"

definition less_TpmSu :: "TpmSu \<Rightarrow> TpmSu \<Rightarrow> bool" where
  "less_TpmSu v w \<longleftrightarrow> TpmSu_value v < TpmSu_value w"

instance
  by standard (auto simp: less_eq_TpmSu_def less_TpmSu_def)

end

instantiation TpmSu :: equal
begin

definition equal_TpmSu :: "TpmSu \<Rightarrow> TpmSu \<Rightarrow> bool" where
  "equal_TpmSu v w \<longleftrightarrow> TpmSu_value v = TpmSu_value w"

instance
  by standard (simp add: equal_TpmSu_def)

end

definition TpmSu_try_from :: "int \<Rightarrow> TpmSu TpmResult" where
  "TpmSu_try_from = enum_try_from TpmSu_value TpmSu_variants"

subsection \<open>\<open>TpmiEccKeyExchange\<close>\<close>

datatype (plugins only:) TpmiEccKeyExchange =
    Kex_None | Kex_Ecdh | Kex_Ecmqv | Kex_Sm2

primrec TpmiEccKeyExchange_value :: "TpmiEccKeyExchange \<Rightarrow> int" where
  "TpmiEccKeyExchange_value Kex_None = 0x0000"
| "TpmiEccKeyExchange_value Kex_Ecdh = 0x0019"
| "TpmiEccKeyExchange_value Kex_Ecmqv = 0x001D"
| "TpmiEccKeyExchange_value Kex_Sm2 = 0x001B"

definition TpmiEccKeyExchange_variants :: "TpmiEccKeyExchange list" where
  "TpmiEccKeyExchange_variants = [
    Kex_None, Kex_Ecdh, Kex_Ecmqv, Kex_Sm2]"

primrec TpmiEccKeyExchange_display :: "TpmiEccKeyExchange \<Rightarrow> string" where
  "TpmiEccKeyExchange_display Kex_None = ''TPM_ECC_NONE''"
| "TpmiEccKeyExchange_display Kex_Ecdh = ''TPM_ALG_ECDH''"
| "TpmiEccKeyExchange_display Kex_Ecmqv = ''TPM_ALG_ECMQV''"
| "TpmiEccKeyExchange_display Kex_Sm2 = ''TPM_ALG_SM2''"

interpretation TpmiEccKeyExchange: tpm_enum 2 False TpmiEccKeyExchange_value TpmiEccKeyExchange_variants
proof
  show "v \<in> set TpmiEccKeyExchange_variants" for v
    by (cases v) (simp_all only: TpmiEccKeyExchange_variants_def list.set insert_iff simp_thms)
qed (simp_all add: TpmiEccKeyExchange_variants_def repr_range_def)

instantiation TpmiEccKeyExchange :: linorder
begin

definition less_eq_TpmiEccKeyExchange :: "TpmiEccKeyExchange \<Rightarrow> TpmiEccKeyExchange \<Rightarrow> bool" where
  "less_eq_TpmiEccKeyExchange v w \<longleftrightarrow> TpmiEccKeyExchange_value v \<le> TpmiEccKeyExchange_value w"

definition less_TpmiEccKeyExchange :: "TpmiEccKeyExchange \<Rightarrow> TpmiEccKeyExchange \<Rightarrow> bool" where
  "less_TpmiEccKeyExchange v w \<longleftrightarrow> TpmiEccKeyExchange_value v < TpmiEccKeyExchange_value w"

instance
  by standard (auto simp: less_eq_TpmiEccKeyExchange_def less_TpmiEccKeyExchange_def)

end

instantiation TpmiEccKeyExchange :: equal
begin

definition equal_TpmiEccKeyExchange :: "TpmiEccKeyExchange \<Rightarrow> TpmiEccKeyExchange \<Rightarrow> bool" where
  "equal_TpmiEccKeyExchange v w \<longleftrightarrow> TpmiEccKeyExchange_value v = TpmiEccKeyExchange_value w"

instance
  by standard (simp add: equal_TpmiEccKeyExchange_def)

end

definition TpmiEccKeyExchange_try_from :: "int \<Rightarrow> TpmiEccKeyExchange TpmResult" where
  "TpmiEccKeyExchange_try_from = enum_try_from TpmiEccKeyExchange_value TpmiEccKeyExchange_variants"

end
