(* ===== verification/Enum_Alg.thy ===== *)
theory Enum_Alg
  imports Enum_Core
begin

text \<open>
  Algorithm identifiers, \<open>TpmAlgId\<close> of \<open>protocol/src/data/enum/mod.rs\<close>.
\<close>

subsection \<open>\<open>TpmAlgId\<close>\<close>

datatype (plugins only:) TpmAlgId =
    Alg_Error | Alg_Rsa | Alg_Tdes | Alg_Sha1
  | Alg_Hmac | Alg_Aes | Alg_Mgf1 | Alg_KeyedHash
  | Alg_Xor | Alg_Sha256 | Alg_Sha384 | Alg_Sha512
  | Alg_Null | Alg_Sm3_256 | Alg_Sm4 | Alg_Rsassa
  | Alg_Rsaes | Alg_Rsapss | Alg_Oaep | Alg_Ecdsa
  | Alg_Ecdh | Alg_Ecdaa | Alg_Sm2 | Alg_Ecschnorr
  | Alg_Ecmqv | Alg_Kdf1Sp800_56A | Alg_Kdf2 | Alg_Kdf1Sp800_108
  | Alg_Ecc | Alg_SymCipher | Alg_Camellia | Alg_Sha3_256
  | Alg_Sha3_384 | Alg_Sha3_512 | Alg_Shake128 | Alg_Shake256
  | Alg_Shake256_192 | Alg_Shake256_256 | Alg_Shake256_512 | Alg_Cmac
  | Alg_Ctr | Alg_Ofb | Alg_Cbc | Alg_Cfb
  | Alg_Ecb | Alg_Ccm | Alg_Gcm | Alg_Kw
  | Alg_Kwp | Alg_Eax | Alg_Eddsa | Alg_EddsaPh
  | Alg_Lms | Alg_Xmss | Alg_Keyedxof | Alg_Kmacxof128
  | Alg_Kmacxof256 | Alg_Kmac128 | Alg_Kmac256

primrec TpmAlgId_value :: "TpmAlgId \<Rightarrow> int" where
  "TpmAlgId_value Alg_Error = 0x0000"
| "TpmAlgId_value Alg_Rsa = 0x0001"
| "TpmAlgId_value Alg_Tdes = 0x0003"
| "TpmAlgId_value Alg_Sha1 = 0x0004"
| "TpmAlgId_value Alg_Hmac = 0x0005"
| "TpmAlgId_value Alg_Aes = 0x0006"
| "TpmAlgId_value Alg_Mgf1 = 0x0007"
| "TpmAlgId_value Alg_KeyedHash = 0x0008"
| "TpmAlgId_value Alg_Xor = 0x000A"
| "TpmAlgId_value Alg_Sha256 = 0x000B"
| "TpmAlgId_value Alg_Sha384 = 0x000C"
| "TpmAlgId_value Alg_Sha512 = 0x000D"
| "TpmAlgId_value Alg_Null = 0x0010"
| "TpmAlgId_value Alg_Sm3_256 = 0x0012"
| "TpmAlgId_value Alg_Sm4 = 0x0013"
| "TpmAlgId_value Alg_Rsassa = 0x0014"
| "TpmAlgId_value Alg_Rsaes = 0x0015"
| "TpmAlgId_value Alg_Rsapss = 0x0016"
| "TpmAlgId_value Alg_Oaep = 0x0017"
| "TpmAlgId_value Alg_Ecdsa = 0x0018"
| "TpmAlgId_value Alg_Ecdh = 0x0019"
| "TpmAlgId_value Alg_Ecdaa = 0x001A"
| "TpmAlgId_value Alg_Sm2 = 0x001B"
| "TpmAlgId_value Alg_Ecschnorr = 0x001C"
| "TpmAlgId_value Alg_Ecmqv = 0x001D"
| "TpmAlgId_value Alg_Kdf1Sp800_56A = 0x0020"
| "TpmAlgId_value Alg_Kdf2 = 0x0021"
| "TpmAlgId_value Alg_Kdf1Sp800_108 = 0x0022"
| "TpmAlgId_value Alg_Ecc = 0x0023"
| "TpmAlgId_value Alg_SymCipher = 0x0025"
| "TpmAlgId_value Alg_Camellia = 0x0026"
| "TpmAlgId_value Alg_Sha3_256 = 0x0027"
| "TpmAlgId_value Alg_Sha3_384 = 0x0028"
| "TpmAlgId_value Alg_Sha3_512 = 0x0029"
| "TpmAlgId_value Alg_Shake128 = 0x002A"
| "TpmAlgId_value Alg_Shake256 = 0x002B"
| "TpmAlgId_value Alg_Shake256_192 = 0x002C"
| "TpmAlgId_value Alg_Shake256_256 = 0x002D"
| "TpmAlgId_value Alg_Shake256_512 = 0x002E"
| "TpmAlgId_value Alg_Cmac = 0x003F"
| "TpmAlgId_value Alg_Ctr = 0x0040"
| "TpmAlgId_value Alg_Ofb = 0x0041"
| "TpmAlgId_value Alg_Cbc = 0x0042"
| "TpmAlgId_value Alg_Cfb = 0x0043"
| "TpmAlgId_value Alg_Ecb = 0x0044"
| "TpmAlgId_value Alg_Ccm = 0x0050"
| "TpmAlgId_value Alg_Gcm = 0x0051"
| "TpmAlgId_value Alg_Kw = 0x0052"
| "TpmAlgId_value Alg_Kwp = 0x0053"
| "TpmAlgId_value Alg_Eax = 0x0054"
| "TpmAlgId_value Alg_Eddsa = 0x0060"
| "TpmAlgId_value Alg_EddsaPh = 0x0061"
| "TpmAlgId_value Alg_Lms = 0x0070"
| "TpmAlgId_value Alg_Xmss = 0x0071"
| "TpmAlgId_value Alg_Keyedxof = 0x0080"
| "TpmAlgId_value Alg_Kmacxof128 = 0x0081"
| "TpmAlgId_value Alg_Kmacxof256 = 0x0082"
| "TpmAlgId_value Alg_Kmac128 = 0x0090"
| "TpmAlgId_value Alg_Kmac256 = 0x0091"

definition TpmAlgId_variants :: "TpmAlgId list" where
  "TpmAlgId_variants = [
    Alg_Error, Alg_Rsa, Alg_Tdes, Alg_Sha1,
    Alg_Hmac, Alg_Aes, Alg_Mgf1, Alg_KeyedHash,
    Alg_Xor, Alg_Sha256, Alg_Sha384, Alg_Sha512,
    Alg_Null, Alg_Sm3_256, Alg_Sm4, Alg_Rsassa,
    Alg_Rsaes, Alg_Rsapss, Alg_Oaep, Alg_Ecdsa,
    Alg_Ecdh, Alg_Ecdaa, Alg_Sm2, Alg_Ecschnorr,
    Alg_Ecmqv, Alg_Kdf1Sp800_56A, Alg_Kdf2, Alg_Kdf1Sp800_108,
    Alg_Ecc, Alg_SymCipher, Alg_Camellia, Alg_Sha3_256,
    Alg_Sha3_384, Alg_Sha3_512, Alg_Shake128, Alg_Shake256,
    Alg_Shake256_192, Alg_Shake256_256, Alg_Shake256_512, Alg_Cmac,
    Alg_Ctr, Alg_Ofb, Alg_Cbc, Alg_Cfb,
    Alg_Ecb, Alg_Ccm, Alg_Gcm, Alg_Kw,
    Alg_Kwp, Alg_Eax, Alg_Eddsa, Alg_EddsaPh,
    Alg_Lms, Alg_Xmss, Alg_Keyedxof, Alg_Kmacxof128,
    Alg_Kmacxof256, Alg_Kmac128, Alg_Kmac256]"

primrec TpmAlgId_display :: "TpmAlgId \<Rightarrow> string" where
  "TpmAlgId_display Alg_Error = ''TPM_ALG_ERROR''"
| "TpmAlgId_display Alg_Rsa = ''TPM_ALG_RSA''"
| "TpmAlgId_display Alg_Tdes = ''TPM_ALG_TDES''"
| "TpmAlgId_display Alg_Sha1 = ''TPM_ALG_SHA1''"
| "TpmAlgId_display Alg_Hmac = ''TPM_ALG_HMAC''"
| "TpmAlgId_display Alg_Aes = ''TPM_ALG_AES''"
| "TpmAlgId_display Alg_Mgf1 = ''TPM_ALG_MGF1''"
| "TpmAlgId_display Alg_KeyedHash = ''TPM_ALG_KEYEDHASH''"
| "TpmAlgId_display Alg_Xor = ''TPM_ALG_XOR''"
| "TpmAlgId_display Alg_Sha256 = ''TPM_ALG_SHA256''"
| "TpmAlgId_display Alg_Sha384 = ''TPM_ALG_SHA384''"
| "TpmAlgId_display Alg_Sha512 = ''TPM_ALG_SHA512''"
| "TpmAlgId_display Alg_Null = ''TPM_ALG_NULL''"
| "TpmAlgId_display Alg_Sm3_256 = ''TPM_ALG_SM3_256''"
| "TpmAlgId_display Alg_Sm4 = ''TPM_ALG_SM4''"
| "TpmAlgId_display Alg_Rsassa = ''TPM_ALG_RSASSA''"
| "TpmAlgId_display Alg_Rsaes = ''TPM_ALG_RSAES''"
| "TpmAlgId_display Alg_Rsapss = ''TPM_ALG_RSAPSS''"
| "TpmAlgId_display Alg_Oaep = ''TPM_ALG_OAEP''"
| "TpmAlgId_display Alg_Ecdsa = ''TPM_ALG_ECDSA''"
| "TpmAlgId_display Alg_Ecdh = ''TPM_ALG_ECDH''"
| "TpmAlgId_display Alg_Ecdaa = ''TPM_ALG_ECDAA''"
| "TpmAlgId_display Alg_Sm2 = ''TPM_ALG_SM2''"
| "TpmAlgId_display Alg_Ecschnorr = ''TPM_ALG_ECSCHNORR''"
| "TpmAlgId_display Alg_Ecmqv = ''TPM_ALG_ECMQV''"
| "TpmAlgId_display Alg_Kdf1Sp800_56A = ''TPM_ALG_KDF1_SP800_56A''"
| "TpmAlgId_display Alg_Kdf2 = ''TPM_ALG_KDF2''"
| "TpmAlgId_display Alg_Kdf1Sp800_108 = ''TPM_ALG_KDF1_SP800_108''"
| "TpmAlgId_display Alg_Ecc = ''TPM_ALG_ECC''"
| "TpmAlgId_display Alg_SymCipher = ''TPM_ALG_SYMCIPHER''"
| "TpmAlgId_display Alg_Camellia = ''TPM_ALG_CAMELLIA''"
| "TpmAlgId_display Alg_Sha3_256 = ''TPM_ALG_SHA3_256''"
| "TpmAlgId_display Alg_Sha3_384 = ''TPM_ALG_SHA3_384''"
| "TpmAlgId_display Alg_Sha3_512 = ''TPM_ALG_SHA3_512''"
| "TpmAlgId_display Alg_Shake128 = ''TPM_ALG_SHAKE_128''"
| "TpmAlgId_display Alg_Shake256 = ''TPM_ALG_SHAKE_256''"
| "TpmAlgId_display Alg_Shake256_192 = ''TPM_ALG_SHAKE_256_192''"
| "TpmAlgId_display Alg_Shake256_256 = ''TPM_ALG_SHAKE_256_256''"
| "TpmAlgId_display Alg_Shake256_512 = ''TPM_ALG_SHAKE_256_512''"
| "TpmAlgId_display Alg_Cmac = ''TPM_ALG_CMAC''"
| "TpmAlgId_display Alg_Ctr = ''TPM_ALG_CTR''"
| "TpmAlgId_display Alg_Ofb = ''TPM_ALG_OFB''"
| "TpmAlgId_display Alg_Cbc = ''TPM_ALG_CBC''"
| "TpmAlgId_display Alg_Cfb = ''TPM_ALG_CFB''"
| "TpmAlgId_display Alg_Ecb = ''TPM_ALG_ECB''"
| "TpmAlgId_display Alg_Ccm = ''TPM_ALG_CCM''"
| "TpmAlgId_display Alg_Gcm = ''TPM_ALG_GCM''"
| "TpmAlgId_display Alg_Kw = ''TPM_ALG_KW''"
| "TpmAlgId_display Alg_Kwp = ''TPM_ALG_KWP''"
| "TpmAlgId_display Alg_Eax = ''TPM_ALG_EAX''"
| "TpmAlgId_display Alg_Eddsa = ''TPM_ALG_EDDSA''"
| "TpmAlgId_display Alg_EddsaPh = ''TPM_ALG_EDDSA_PH''"
| "TpmAlgId_display Alg_Lms = ''TPM_ALG_LMS''"
| "TpmAlgId_display Alg_Xmss = ''TPM_ALG_XMSS''"
| "TpmAlgId_display Alg_Keyedxof = ''TPM_ALG_KEYEDXOF''"
| "TpmAlgId_display Alg_Kmacxof128 = ''TPM_ALG_KMACXOF128''"
| "TpmAlgId_display Alg_Kmacxof256 = ''TPM_ALG_KMACXOF256''"
| "TpmAlgId_display Alg_Kmac128 = ''TPM_ALG_KMAC128''"
| "TpmAlgId_display Alg_Kmac256 = ''TPM_ALG_KMAC256''"

interpretation TpmAlgId: tpm_enum 2 False TpmAlgId_value TpmAlgId_variants
proof
  show "v \<in> set TpmAlgId_variants" for v
    by (cases v) (simp_all only: TpmAlgId_variants_def list.set insert_iff simp_thms)
qed (simp_all add: TpmAlgId_variants_def repr_range_def)

instantiation TpmAlgId :: linorder
begin

definition less_eq_TpmAlgId :: "TpmAlgId \<Rightarrow> TpmAlgId \<Rightarrow> bool" where
  "less_eq_TpmAlgId v w \<longleftrightarrow> TpmAlgId_value v \<le> TpmAlgId_value w"

definition less_TpmAlgId :: "TpmAlgId \<Rightarrow> TpmAlgId \<Rightarrow> bool" where
  "less_TpmAlgId v w \<longleftrightarrow> TpmAlgId_value v < TpmAlgId_value w"

instance
  by standard (auto simp: less_eq_TpmAlgId_def less_TpmAlgId_def)

end

instantiation TpmAlgId :: equal
begin

definition equal_TpmAlgId :: "TpmAlgId \<Rightarrow> TpmAlgId \<Rightarrow> bool" where
  "equal_TpmAlgId v w \<longleftrightarrow> TpmAlgId_value v = TpmAlgId_value w"

instance
  by standard (simp add: equal_TpmAlgId_def)

end

definition TpmAlgId_try_from :: "int \<Rightarrow> TpmAlgId TpmResult" where
  "TpmAlgId_try_from = enum_try_from TpmAlgId_value TpmAlgId_variants"

end
