(* ===== verification/Enum_Cc.thy ===== *)
theory Enum_Cc
  imports Enum_Core
begin

text \<open>
  Command codes, \<open>TpmCc\<close> of \<open>protocol/src/data/enum/mod.rs\<close>.
\<close>

subsection \<open>\<open>TpmCc\<close>\<close>

datatype (plugins only:) TpmCc =
    Cc_NvUndefineSpaceSpecial | Cc_EvictControl | Cc_HierarchyControl | Cc_NvUndefineSpace
  | Cc_ChangeEps | Cc_ChangePps | Cc_Clear | Cc_ClearControl
  | Cc_ClockSet | Cc_HierarchyChangeAuth | Cc_NvDefineSpace | Cc_PcrAllocate
  | Cc_PcrSetAuthPolicy | Cc_PpCommands | Cc_SetPrimaryPolicy | Cc_FieldUpgradeStart
  | Cc_ClockRateAdjust | Cc_CreatePrimary | Cc_NvGlobalWriteLock | Cc_GetCommandAuditDigest
  | Cc_NvIncrement | Cc_NvSetBits | Cc_NvExtend | Cc_NvWrite
  | Cc_NvWriteLock | Cc_DictionaryAttackLockReset | Cc_DictionaryAttackParameters | Cc_NvChangeAuth
  | Cc_PcrEvent | Cc_PcrReset | Cc_SequenceComplete | Cc_SetAlgorithmSet
  | Cc_SetCommandCodeAuditStatus | Cc_FieldUpgradeData | Cc_IncrementalSelfTest | Cc_SelfTest
  | Cc_Startup | Cc_Shutdown | Cc_StirRandom | Cc_ActivateCredential
  | Cc_Certify | Cc_PolicyNv | Cc_CertifyCreation | Cc_Duplicate
  | Cc_GetTime | Cc_GetSessionAuditDigest | Cc_NvRead | Cc_NvReadLock
  | Cc_ObjectChangeAuth | Cc_PolicySecret | Cc_Rewrap | Cc_Create
  | Cc_EcdhZGen | Cc_Hmac | Cc_Import | Cc_Load
  | Cc_Quote | Cc_RsaDecrypt | Cc_HmacStart | Cc_SequenceUpdate
  | Cc_Sign | Cc_Unseal | Cc_PolicySigned | Cc_ContextLoad
  | Cc_ContextSave | Cc_EcdhKeyGen | Cc_EncryptDecrypt | Cc_FlushContext
  | Cc_LoadExternal | Cc_MakeCredential | Cc_NvReadPublic | Cc_PolicyAuthorize
  | Cc_PolicyAuthValue | Cc_PolicyCommandCode | Cc_PolicyCounterTimer | Cc_PolicyCpHash
  | Cc_PolicyLocality | Cc_PolicyNameHash | Cc_PolicyOr | Cc_PolicyTicket
  | Cc_ReadPublic | Cc_RsaEncrypt | Cc_StartAuthSession | Cc_VerifySignature
  | Cc_EccParameters | Cc_FirmwareRead | Cc_GetCapability | Cc_GetRandom
  | Cc_GetTestResult | Cc_Hash | Cc_PcrRead | Cc_PolicyPcr
  | Cc_PolicyRestart | Cc_ReadClock | Cc_PcrExtend | Cc_PcrSetAuthValue
  | Cc_NvCertify | Cc_EventSequenceComplete | Cc_HashSequenceStart | Cc_PolicyPhysicalPresence
  | Cc_PolicyDuplicationSelect | Cc_PolicyGetDigest | Cc_TestParms | Cc_Commit
  | Cc_PolicyPassword | Cc_ZGen2Phase | Cc_EcEphemeral | Cc_PolicyNvWritten
  | Cc_PolicyTemplate | Cc_CreateLoaded | Cc_PolicyAuthorizeNv | Cc_EncryptDecrypt2
  | Cc_AcGetCapability | Cc_AcSend | Cc_PolicyAcSendSelect | Cc_ActSetTimeout
  | Cc_EccEncrypt | Cc_EccDecrypt | Cc_PolicyCapability | Cc_PolicyParameters
  | Cc_NvDefineSpace2 | Cc_NvReadPublic2 | Cc_SetCapability | Cc_ReadOnlyControl
  | Cc_PolicyTransportSpdm | Cc_VendorTcgTest

primrec TpmCc_value :: "TpmCc \<Rightarrow> int" where
  "TpmCc_value Cc_NvUndefineSpaceSpecial = 0x0000011F"
| "TpmCc_value Cc_EvictControl = 0x00000120"
| "TpmCc_value Cc_HierarchyControl = 0x00000121"
| "TpmCc_value Cc_NvUndefineSpace = 0x00000122"
| "TpmCc_value Cc_ChangeEps = 0x00000124"
| "TpmCc_value Cc_ChangePps = 0x00000125"
| "TpmCc_value Cc_Clear = 0x00000126"
| "TpmCc_value Cc_ClearControl = 0x00000127"
| "TpmCc_value Cc_ClockSet = 0x00000128"
| "TpmCc_value Cc_HierarchyChangeAuth = 0x00000129"
| "TpmCc_value Cc_NvDefineSpace = 0x0000012A"
| "TpmCc_value Cc_PcrAllocate = 0x0000012B"
| "TpmCc_value Cc_PcrSetAuthPolicy = 0x0000012C"
| "TpmCc_value Cc_PpCommands = 0x0000012D"
| "TpmCc_value Cc_SetPrimaryPolicy = 0x0000012E"
| "TpmCc_value Cc_FieldUpgradeStart = 0x0000012F"
| "TpmCc_value Cc_ClockRateAdjust = 0x00000130"
| "TpmCc_value Cc_CreatePrimary = 0x00000131"
| "TpmCc_value Cc_NvGlobalWriteLock = 0x00000132"
| "TpmCc_value Cc_GetCommandAuditDigest = 0x00000133"
| "TpmCc_value Cc_NvIncrement = 0x00000134"
| "TpmCc_value Cc_NvSetBits = 0x00000135"
| "TpmCc_value Cc_NvExtend = 0x00000136"
| "TpmCc_value Cc_NvWrite = 0x00000137"
| "TpmCc_value Cc_NvWriteLock = 0x00000138"
| "TpmCc_value Cc_DictionaryAttackLockReset = 0x00000139"
| "TpmCc_value Cc_DictionaryAttackParameters = 0x0000013A"
| "TpmCc_value Cc_NvChangeAuth = 0x0000013B"
| "TpmCc_value Cc_PcrEvent = 0x0000013C"
| "TpmCc_value Cc_PcrReset = 0x0000013D"
| "TpmCc_value Cc_SequenceComplete = 0x0000013E"
| "TpmCc_value Cc_SetAlgorithmSet = 0x0000013F"
| "TpmCc_value Cc_SetCommandCodeAuditStatus = 0x00000140"
| "TpmCc_value Cc_FieldUpgradeData = 0x00000141"
| "TpmCc_value Cc_IncrementalSelfTest = 0x00000142"
| "TpmCc_value Cc_SelfTest = 0x00000143"
| "TpmCc_value Cc_Startup = 0x00000144"
| "TpmCc_value Cc_Shutdown = 0x00000145"
| "TpmCc_value Cc_StirRandom = 0x00000146"
| "TpmCc_value Cc_ActivateCredential = 0x00000147"
| "TpmCc_value Cc_Certify = 0x00000148"
| "TpmCc_value Cc_PolicyNv = 0x00000149"
| "TpmCc_value Cc_CertifyCreation = 0x0000014A"
| "TpmCc_value Cc_Duplicate = 0x0000014B"
| "TpmCc_value Cc_GetTime = 0x0000014C"
| "TpmCc_value Cc_GetSessionAuditDigest = 0x0000014D"
| "TpmCc_value Cc_NvRead = 0x0000014E"
| "TpmCc_value Cc_NvReadLock = 0x0000014F"
| "TpmCc_value Cc_ObjectChangeAuth = 0x00000150"
| "TpmCc_value Cc_PolicySecret = 0x00000151"
| "TpmCc_value Cc_Rewrap = 0x00000152"
| "TpmCc_value Cc_Create = 0x00000153"
| "TpmCc_value Cc_EcdhZGen = 0x00000154"
| "TpmCc_value Cc_Hmac = 0x00000155"
| "TpmCc_value Cc_Import = 0x00000156"
| "TpmCc_value Cc_Load = 0x00000157"
| "TpmCc_value Cc_Quote = 0x00000158"
| "TpmCc_value Cc_RsaDecrypt = 0x00000159"
| "TpmCc_value Cc_HmacStart = 0x0000015B"
| "TpmCc_value Cc_SequenceUpdate = 0x0000015C"
| "TpmCc_value Cc_Sign = 0x0000015D"
| "TpmCc_value Cc_Unseal = 0x0000015E"
| "TpmCc_value Cc_PolicySigned = 0x00000160"
| "TpmCc_value Cc_ContextLoad = 0x00000161"
| "TpmCc_value Cc_ContextSave = 0x00000162"
| "TpmCc_value Cc_EcdhKeyGen = 0x00000163"
| "TpmCc_value Cc_EncryptDecrypt = 0x00000164"
| "TpmCc_value Cc_FlushContext = 0x00000165"
| "TpmCc_value Cc_LoadExternal = 0x00000167"
| "TpmCc_value Cc_MakeCredential = 0x00000168"
| "TpmCc_value Cc_NvReadPublic = 0x00000169"
| "TpmCc_value Cc_PolicyAuthorize = 0x0000016A"
| "TpmCc_value Cc_PolicyAuthValue = 0x0000016B"
| "TpmCc_value Cc_PolicyCommandCode = 0x0000016C"
| "TpmCc_value Cc_PolicyCounterTimer = 0x0000016D"
| "TpmCc_value Cc_PolicyCpHash = 0x0000016E"
| "TpmCc_value Cc_PolicyLocality = 0x0000016F"
| "TpmCc_value Cc_PolicyNameHash = 0x00000170"
| "TpmCc_value Cc_PolicyOr = 0x00000171"
| "TpmCc_value Cc_PolicyTicket = 0x00000172"
| "TpmCc_value Cc_ReadPublic = 0x00000173"
| "TpmCc_value Cc_RsaEncrypt = 0x00000174"
| "TpmCc_value Cc_StartAuthSession = 0x00000176"
| "TpmCc_value Cc_VerifySignature = 0x00000177"
| "TpmCc_value Cc_EccParameters = 0x00000178"
| "TpmCc_value Cc_FirmwareRead = 0x00000179"
| "TpmCc_value Cc_GetCapability = 0x0000017A"
| "TpmCc_value Cc_GetRandom = 0x0000017B"
| "TpmCc_value Cc_GetTestResult = 0x0000017C"
| "TpmCc_value Cc_Hash = 0x0000017D"
| "TpmCc_value Cc_PcrRead = 0x0000017E"
| "TpmCc_value Cc_PolicyPcr = 0x0000017F"
| "TpmCc_value Cc_PolicyRestart = 0x00000180"
| "TpmCc_value Cc_ReadClock = 0x00000181"
| "TpmCc_value Cc_PcrExtend = 0x00000182"
| "TpmCc_value Cc_PcrSetAuthValue = 0x00000183"
| "TpmCc_value Cc_NvCertify = 0x00000184"
| "TpmCc_value Cc_EventSequenceComplete = 0x00000185"
| "TpmCc_value Cc_HashSequenceStart = 0x00000186"
| "TpmCc_value Cc_PolicyPhysicalPresence = 0x00000187"
| "TpmCc_value Cc_PolicyDuplicationSelect = 0x00000188"
| "TpmCc_value Cc_PolicyGetDigest = 0x00000189"
| "TpmCc_value Cc_TestParms = 0x0000018A"
| "TpmCc_value Cc_Commit = 0x0000018B"
| "TpmCc_value Cc_PolicyPassword = 0x0000018C"
| "TpmCc_value Cc_ZGen2Phase = 0x0000018D"
| "TpmCc_value Cc_EcEphemeral = 0x0000018E"
| "TpmCc_value Cc_PolicyNvWritten = 0x0000018F"
| "TpmCc_value Cc_PolicyTemplate = 0x00000190"
| "TpmCc_value Cc_CreateLoaded = 0x00000191"
| "TpmCc_value Cc_PolicyAuthorizeNv = 0x00000192"
| "TpmCc_value Cc_EncryptDecrypt2 = 0x00000193"
| "TpmCc_value Cc_AcGetCapability = 0x00000194"
| "TpmCc_value Cc_AcSend = 0x00000195"
| "TpmCc_value Cc_PolicyAcSendSelect = 0x00000196"
| "TpmCc_value Cc_ActSetTimeout = 0x00000198"
| "TpmCc_value Cc_EccEncrypt = 0x00000199"
| "TpmCc_value Cc_EccDecrypt = 0x0000019A"
| "TpmCc_value Cc_PolicyCapability = 0x0000019B"
| "TpmCc_value Cc_PolicyParameters = 0x0000019C"
| "TpmCc_value Cc_NvDefineSpace2 = 0x0000019D"
| "TpmCc_value Cc_NvReadPublic2 = 0x0000019E"
| "TpmCc_value Cc_SetCapability = 0x0000019F"
| "TpmCc_value Cc_ReadOnlyControl = 0x000001A0"
| "TpmCc_value Cc_PolicyTransportSpdm = 0x000001A1"
| "TpmCc_value Cc_VendorTcgTest = 0x20000000"

definition TpmCc_variants :: "TpmCc list" where
  "TpmCc_variants = [
    Cc_NvUndefineSpaceSpecial, Cc_EvictControl, Cc_HierarchyControl, Cc_NvUndefineSpace,
    Cc_ChangeEps, Cc_ChangePps, Cc_Clear, Cc_ClearControl,
    Cc_ClockSet, Cc_HierarchyChangeAuth, Cc_NvDefineSpace, Cc_PcrAllocate,
    Cc_PcrSetAuthPolicy, Cc_PpCommands, Cc_SetPrimaryPolicy, Cc_FieldUpgradeStart,
    Cc_ClockRateAdjust, Cc_CreatePrimary, Cc_NvGlobalWriteLock, Cc_GetCommandAuditDigest,
    Cc_NvIncrement, Cc_NvSetBits, Cc_NvExtend, Cc_NvWrite,
    Cc_NvWriteLock, Cc_DictionaryAttackLockReset, Cc_DictionaryAttackParameters, Cc_NvChangeAuth,
    Cc_PcrEvent, Cc_PcrReset, Cc_SequenceComplete, Cc_SetAlgorithmSet,
    Cc_SetCommandCodeAuditStatus, Cc_FieldUpgradeData, Cc_IncrementalSelfTest, Cc_SelfTest,
    Cc_Startup, Cc_Shutdown, Cc_StirRandom, Cc_ActivateCredential,
    Cc_Certify, Cc_PolicyNv, Cc_CertifyCreation, Cc_Duplicate,
    Cc_GetTime, Cc_GetSessionAuditDigest, Cc_NvRead, Cc_NvReadLock,
    Cc_ObjectChangeAuth, Cc_PolicySecret, Cc_Rewrap, Cc_Create,
    Cc_EcdhZGen, Cc_Hmac, Cc_Import, Cc_Load,
    Cc_Quote, Cc_RsaDecrypt, Cc_HmacStart, Cc_SequenceUpdate,
    Cc_Sign, Cc_Unseal, Cc_PolicySigned, Cc_ContextLoad,
    Cc_ContextSave, Cc_EcdhKeyGen, Cc_EncryptDecrypt, Cc_FlushContext,
    Cc_LoadExternal, Cc_MakeCredential, Cc_NvReadPublic, Cc_PolicyAuthorize,
    Cc_PolicyAuthValue, Cc_PolicyCommandCode, Cc_PolicyCounterTimer, Cc_PolicyCpHash,
    Cc_PolicyLocality, Cc_PolicyNameHash, Cc_PolicyOr, Cc_PolicyTicket,
    Cc_ReadPublic, Cc_RsaEncrypt, Cc_StartAuthSession, Cc_VerifySignature,
    Cc_EccParameters, Cc_FirmwareRead, Cc_GetCapability, Cc_GetRandom,
    Cc_GetTestResult, Cc_Hash, Cc_PcrRead, Cc_PolicyPcr,
    Cc_PolicyRestart, Cc_ReadClock, Cc_PcrExtend, Cc_PcrSetAuthValue,
    Cc_NvCertify, Cc_EventSequenceComplete, Cc_HashSequenceStart, Cc_PolicyPhysicalPresence,
    Cc_PolicyDuplicationSelect, Cc_PolicyGetDigest, Cc_TestParms, Cc_Commit,
    Cc_PolicyPassword, Cc_ZGen2Phase, Cc_EcEphemeral, Cc_PolicyNvWritten,
    Cc_PolicyTemplate, Cc_CreateLoaded, Cc_PolicyAuthorizeNv, Cc_EncryptDecrypt2,
    Cc_AcGetCapability, Cc_AcSend, Cc_PolicyAcSendSelect, Cc_ActSetTimeout,
    Cc_EccEncrypt, Cc_EccDecrypt, Cc_PolicyCapability, Cc_PolicyParameters,
    Cc_NvDefineSpace2, Cc_NvReadPublic2, Cc_SetCapability, Cc_ReadOnlyControl,
    Cc_PolicyTransportSpdm, Cc_VendorTcgTest]"

primrec TpmCc_display :: "TpmCc \<Rightarrow> string" where
  "TpmCc_display Cc_NvUndefineSpaceSpecial = ''TPM_CC_NV_UndefineSpaceSpecial''"
| "TpmCc_display Cc_EvictControl = ''TPM_CC_EvictControl''"
| "TpmCc_display Cc_HierarchyControl = ''TPM_CC_HierarchyControl''"
| "TpmCc_display Cc_NvUndefineSpace = ''TPM_CC_NV_UndefineSpace''"
| "TpmCc_display Cc_ChangeEps = ''TPM_CC_ChangeEPS''"
| "TpmCc_display Cc_ChangePps = ''TPM_CC_ChangePPS''"
| "TpmCc_display Cc_Clear = ''TPM_CC_Clear''"
| "TpmCc_display Cc_ClearControl = ''TPM_CC_ClearControl''"
| "TpmCc_display Cc_ClockSet = ''TPM_CC_ClockSet''"
| "TpmCc_display Cc_HierarchyChangeAuth = ''TPM_CC_HierarchyChangeAuth''"
| "TpmCc_display Cc_NvDefineSpace = ''TPM_CC_NV_DefineSpace''"
| "TpmCc_display Cc_PcrAllocate = ''TPM_CC_PCR_Allocate''"
| "TpmCc_display Cc_PcrSetAuthPolicy = ''TPM_CC_PCR_SetAuthPolicy''"
| "TpmCc_display Cc_PpCommands = ''TPM_CC_PP_Commands''"
| "TpmCc_display Cc_SetPrimaryPolicy = ''TPM_CC_SetPrimaryPolicy''"
| "TpmCc_display Cc_FieldUpgradeStart = ''TPM_CC_FieldUpgradeStart''"
| "TpmCc_display Cc_ClockRateAdjust = ''TPM_CC_ClockRateAdjust''"
| "TpmCc_display Cc_CreatePrimary = ''TPM_CC_CreatePrimary''"
| "TpmCc_display Cc_NvGlobalWriteLock = ''TPM_CC_NV_GlobalWriteLock''"
| "TpmCc_display Cc_GetCommandAuditDigest = ''TPM_CC_GetCommandAuditDigest''"
| "TpmCc_display Cc_NvIncrement = ''TPM_CC_NV_Increment''"
| "TpmCc_display Cc_NvSetBits = ''TPM_CC_NV_SetBits''"
| "TpmCc_display Cc_NvExtend = ''TPM_CC_NV_Extend''"
| "TpmCc_display Cc_NvWrite = ''TPM_CC_NV_Write''"
| "TpmCc_display Cc_NvWriteLock = ''TPM_CC_NV_WriteLock''"
| "TpmCc_display Cc_DictionaryAttackLockReset = ''TPM_CC_DictionaryAttackLockReset''"
| "TpmCc_display Cc_DictionaryAttackParameters = ''TPM_CC_DictionaryAttackParameters''"
| "TpmCc_display Cc_NvChangeAuth = ''TPM_CC_NV_ChangeAuth''"
| "TpmCc_display Cc_PcrEvent = ''TPM_CC_PCR_Event''"
| "TpmCc_display Cc_PcrReset = ''TPM_CC_PCR_Reset''"
| "TpmCc_display Cc_SequenceComplete = ''TPM_CC_SequenceComplete''"
| "TpmCc_display Cc_SetAlgorithmSet = ''TPM_CC_SetAlgorithmSet''"
| "TpmCc_display Cc_SetCommandCodeAuditStatus = ''TPM_CC_SetCommandCodeAuditStatus''"
| "TpmCc_display Cc_FieldUpgradeData = ''TPM_CC_FieldUpgradeData''"
| "TpmCc_display Cc_IncrementalSelfTest = ''TPM_CC_IncrementalSelfTest''"
| "TpmCc_display Cc_SelfTest = ''TPM_CC_SelfTest''"
| "TpmCc_display Cc_Startup = ''TPM_CC_Startup''"
| "TpmCc_display Cc_Shutdown = ''TPM_CC_Shutdown''"
| "TpmCc_display Cc_StirRandom = ''TPM_CC_StirRandom''"
| "TpmCc_display Cc_ActivateCredential = ''TPM_CC_ActivateCredential''"
| "TpmCc_display Cc_Certify = ''TPM_CC_Certify''"
| "TpmCc_display Cc_PolicyNv = ''TPM_CC_PolicyNV''"
| "TpmCc_display Cc_CertifyCreation = ''TPM_CC_CertifyCreation''"
| "TpmCc_display Cc_Duplicate = ''TPM_CC_Duplicate''"
| "TpmCc_display Cc_GetTime = ''TPM_CC_GetTime''"
| "TpmCc_display Cc_GetSessionAuditDigest = ''TPM_CC_GetSessionAuditDigest''"
| "TpmCc_display Cc_NvRead = ''TPM_CC_NV_Read''"
| "TpmCc_display Cc_NvReadLock = ''TPM_CC_NV_ReadLock''"
| "TpmCc_display Cc_ObjectChangeAuth = ''TPM_CC_ObjectChangeAuth''"
| "TpmCc_display Cc_PolicySecret = ''TPM_CC_PolicySecret''"
| "TpmCc_display Cc_Rewrap = ''TPM_CC_Rewrap''"
| "TpmCc_display Cc_Create = ''TPM_CC_Create''"
| "TpmCc_display Cc_EcdhZGen = ''TPM_CC_ECDH_ZGen''"
| "TpmCc_display Cc_Hmac = ''TPM_CC_HMAC''"
| "TpmCc_display Cc_Import = ''TPM_CC_Import''"
| "TpmCc_display Cc_Load = ''TPM_CC_Load''"
| "TpmCc_display Cc_Quote = ''TPM_CC_Quote''"
| "TpmCc_display Cc_RsaDecrypt = ''TPM_CC_RSA_Decrypt''"
| "TpmCc_display Cc_HmacStart = ''TPM_CC_HMAC_Start''"
| "TpmCc_display Cc_SequenceUpdate = ''TPM_CC_SequenceUpdate''"
| "TpmCc_display Cc_Sign = ''TPM_CC_Sign''"
| "TpmCc_display Cc_Unseal = ''TPM_CC_Unseal''"
| "TpmCc_display Cc_PolicySigned = ''TPM_CC_PolicySigned''"
| "TpmCc_display Cc_ContextLoad = ''TPM_CC_ContextLoad''"
| "TpmCc_display Cc_ContextSave = ''TPM_CC_ContextSave''"
| "TpmCc_display Cc_EcdhKeyGen = ''TPM_CC_ECDH_KeyGen''"
| "TpmCc_display Cc_EncryptDecrypt = ''TPM_CC_EncryptDecrypt''"
| "TpmCc_display Cc_FlushContext = ''TPM_CC_FlushContext''"
| "TpmCc_display Cc_LoadExternal = ''TPM_CC_LoadExternal''"
| "TpmCc_display Cc_MakeCredential = ''TPM_CC_MakeCredential''"
| "TpmCc_display Cc_NvReadPublic = ''TPM_CC_NV_ReadPublic''"
| "TpmCc_display Cc_PolicyAuthorize = ''TPM_CC_PolicyAuthorize''"
| "TpmCc_display Cc_PolicyAuthValue = ''TPM_CC_PolicyAuthValue''"
| "TpmCc_display Cc_PolicyCommandCode = ''TPM_CC_PolicyCommandCode''"
| "TpmCc_display Cc_PolicyCounterTimer = ''TPM_CC_PolicyCounterTimer''"
| "TpmCc_display Cc_PolicyCpHash = ''TPM_CC_PolicyCpHash''"
| "TpmCc_display Cc_PolicyLocality = ''TPM_CC_PolicyLocality''"
| "TpmCc_display Cc_PolicyNameHash = ''TPM_CC_PolicyNameHash''"
| "TpmCc_display Cc_PolicyOr = ''TPM_CC_PolicyOr''"
| "TpmCc_display Cc_PolicyTicket = ''TPM_CC_PolicyTicket''"
| "TpmCc_display Cc_ReadPublic = ''TPM_CC_ReadPublic''"
| "TpmCc_display Cc_RsaEncrypt = ''TPM_CC_RSA_Encrypt''"
| "TpmCc_display Cc_StartAuthSession = ''TPM_CC_StartAuthSession''"
| "TpmCc_display Cc_VerifySignature = ''TPM_CC_VerifySignature''"
| "TpmCc_display Cc_EccParameters = ''TPM_CC_ECC_Parameters''"
| "TpmCc_display Cc_FirmwareRead = ''TPM_CC_FirmwareRead''"
| "TpmCc_display Cc_GetCapability = ''TPM_CC_GetCapability''"
| "TpmCc_display Cc_GetRandom = ''TPM_CC_GetRandom''"
| "TpmCc_display Cc_GetTestResult = ''TPM_CC_GetTestResult''"
| "TpmCc_display Cc_Hash = ''TPM_CC_Hash''"
| "TpmCc_display Cc_PcrRead = ''TPM_CC_PCR_Read''"
| "TpmCc_display Cc_PolicyPcr = ''TPM_CC_PolicyPCR''"
| "TpmCc_display Cc_PolicyRestart = ''TPM_CC_PolicyRestart''"
| "TpmCc_display Cc_ReadClock = ''TPM_CC_ReadClock''"
| "TpmCc_display Cc_PcrExtend = ''TPM_CC_PCR_Extend''"
| "TpmCc_display Cc_PcrSetAuthValue = ''TPM_CC_PCR_SetAuthValue''"
| "TpmCc_display Cc_NvCertify = ''TPM_CC_NV_Certify''"
| "TpmCc_display Cc_EventSequenceComplete = ''TPM_CC_EventSequenceComplete''"
| "TpmCc_display Cc_HashSequenceStart = ''TPM_CC_HashSequenceStart''"
| "TpmCc_display Cc_PolicyPhysicalPresence = ''TPM_CC_PolicyPhysicalPresence''"
| "TpmCc_display Cc_PolicyDuplicationSelect = ''TPM_CC_PolicyDuplicationSelect''"
| "TpmCc_display Cc_PolicyGetDigest = ''TPM_CC_PolicyGetDigest''"
| "TpmCc_display Cc_TestParms = ''TPM_CC_TestParms''"
| "TpmCc_display Cc_Commit = ''TPM_CC_Commit''"
| "TpmCc_display Cc_PolicyPassword = ''TPM_CC_PolicyPassword''"
| "TpmCc_display Cc_ZGen2Phase = ''TPM_CC_ZGen_2Phase''"
| "TpmCc_display Cc_EcEphemeral = ''TPM_CC_EC_Ephemeral''"
| "TpmCc_display Cc_PolicyNvWritten = ''TPM_CC_PolicyNvWritten''"
| "TpmCc_display Cc_PolicyTemplate = ''TPM_CC_PolicyTemplate''"
| "TpmCc_display Cc_CreateLoaded = ''TPM_CC_CreateLoaded''"
| "TpmCc_display Cc_PolicyAuthorizeNv = ''TPM_CC_PolicyAuthorizeNV''"
| "TpmCc_display Cc_EncryptDecrypt2 = ''TPM_CC_EncryptDecrypt2''"
| "TpmCc_display Cc_AcGetCapability = ''TPM_CC_AcGetCapability''"
| "TpmCc_display Cc_AcSend = ''TPM_CC_AcSend''"
| "TpmCc_display Cc_PolicyAcSendSelect = ''TPM_CC_Policy_AC_SendSelect''"
| "TpmCc_display Cc_ActSetTimeout = ''TPM2_ACT_SetTimeout''"
| "TpmCc_display Cc_EccEncrypt = ''TPM_CC_ECC_Encrypt''"
| "TpmCc_display Cc_EccDecrypt = ''TPM_CC_ECC_Decrypt''"
| "TpmCc_display Cc_PolicyCapability = ''TPM_CC_PolicyCapability''"
| "TpmCc_display Cc_PolicyParameters = ''TPM_CC_PolicyParameters''"
| "TpmCc_display Cc_NvDefineSpace2 = ''TPM_CC_NV_DefineSpace2''"
| "TpmCc_display Cc_NvReadPublic2 = ''TPM_CC_NV_ReadPublic2''"
| "TpmCc_display Cc_SetCapability = ''TPM_CC_SetCapability''"
| "TpmCc_display Cc_ReadOnlyControl = ''TPM_CC_ReadOnlyControl''"
| "TpmCc_display Cc_PolicyTransportSpdm = ''TPM_CC_Policy_TransportSPDM''"
| "TpmCc_display Cc_VendorTcgTest = ''TPM_CC_Vendor_TCG_Test''"

interpretation TpmCc: tpm_enum 4 False TpmCc_value TpmCc_variants
proof
  show "v \<in> set TpmCc_variants" for v
    by (cases v) (simp_all only: TpmCc_variants_def list.set insert_iff simp_thms)
qed (simp_all add: TpmCc_variants_def repr_range_def)

instantiation TpmCc :: linorder
begin

definition less_eq_TpmCc :: "TpmCc \<Rightarrow> TpmCc \<Rightarrow> bool" where
  "less_eq_TpmCc v w \<longleftrightarrow> TpmCc_value v \<le> TpmCc_value w"

definition less_TpmCc :: "TpmCc \<Rightarrow> TpmCc \<Rightarrow> bool" where
  "less_TpmCc v w \<longleftrightarrow> TpmCc_value v < TpmCc_value w"

instance
  by standard (auto simp: less_eq_TpmCc_def less_TpmCc_def)

end

instantiation TpmCc :: equal
begin

definition equal_TpmCc :: "TpmCc \<Rightarrow> TpmCc \<Rightarrow> bool" where
  "equal_TpmCc v w \<longleftrightarrow> TpmCc_value v = TpmCc_value w"

instance
  by standard (simp add: equal_TpmCc_def)

end

definition TpmCc_try_from :: "int \<Rightarrow> TpmCc TpmResult" where
  "TpmCc_try_from = enum_try_from TpmCc_value TpmCc_variants"

end
