(* ===== verification/Enum_Pt.thy ===== *)
theory Enum_Pt
  imports Enum_Core
begin

text \<open>
  TPM properties, \<open>TpmPt\<close> of \<open>protocol/src/data/enum/mod.rs\<close>.
\<close>

subsection \<open>\<open>TpmPt\<close>\<close>

datatype (plugins only:) TpmPt =
    Pt_FamilyIndicator | Pt_Level | Pt_Revision | Pt_DayOfYear
  | Pt_Year | Pt_Manufacturer | Pt_VendorString1 | Pt_VendorString2
  | Pt_VendorString3 | Pt_VendorString4 | Pt_VendorTpmType | Pt_FirmwareVersion1
  | Pt_FirmwareVersion2 | Pt_InputBuffer | Pt_HrTransientMin | Pt_HrPersistentMin
  | Pt_HrLoadedMin | Pt_ActiveSessionsMax | Pt_PcrCount | Pt_PcrSelectMin
  | Pt_ContextGapMax | Pt_NvCountersMax | Pt_NvIndexMax | Pt_Memory
  | Pt_ClockUpdate | Pt_ContextHash | Pt_ContextSym | Pt_ContextSymSize
  | Pt_OrderlyCount | Pt_MaxCommandSize | Pt_MaxResponseSize | Pt_MaxDigest
  | Pt_MaxObjectContext | Pt_MaxSessionContext | Pt_PsFamilyIndicator | Pt_PsLevel
  | Pt_PsRevision | Pt_PsDayOfYear | Pt_PsYear | Pt_SplitMax
  | Pt_TotalCommands | Pt_LibraryCommands | Pt_VendorCommands | Pt_NvBufferMax
  | Pt_Modes | Pt_MaxCapBuffer | Pt_Permanent | Pt_StartupClear
  | Pt_HrNvIndex | Pt_HrLoaded | Pt_HrLoadedAvail | Pt_HrActive
  | Pt_HrActiveAvail | Pt_HrTransientAvail | Pt_HrPersistent | Pt_HrPersistentAvail
  | Pt_NvCounters | Pt_NvCountersAvail | Pt_AlgorithmSet | Pt_LoadedCurves
  | Pt_LockoutCounter | Pt_MaxAuthFail | Pt_LockoutInterval | Pt_LockoutRecovery
  | Pt_NvWriteRecovery | Pt_AuditCounter0 | Pt_AuditCounter1

primrec TpmPt_value :: "TpmPt \<Rightarrow> int" where
  "TpmPt_value Pt_FamilyIndicator = 0x100"
| "TpmPt_value Pt_Level = 0x101"
| "TpmPt_value Pt_Revision = 0x102"
| "TpmPt_value Pt_DayOfYear = 0x103"
| "TpmPt_value Pt_Year = 0x104"
| "TpmPt_value Pt_Manufacturer = 0x105"
| "TpmPt_value Pt_VendorString1 = 0x106"
| "TpmPt_value Pt_VendorString2 = 0x107"
| "TpmPt_value Pt_VendorString3 = 0x108"
| "TpmPt_value Pt_VendorString4 = 0x109"
| "TpmPt_value Pt_VendorTpmType = 0x10A"
| "TpmPt_value Pt_FirmwareVersion1 = 0x10B"
| "TpmPt_value Pt_FirmwareVersion2 = 0x10C"
| "TpmPt_value Pt_InputBuffer = 0x10D"
| "TpmPt_value Pt_HrTransientMin = 0x10E"
| "TpmPt_value Pt_HrPersistentMin = 0x10F"
| "TpmPt_value Pt_HrLoadedMin = 0x110"
| "TpmPt_value Pt_ActiveSessionsMax = 0x111"
| "TpmPt_value Pt_PcrCount = 0x112"
| "TpmPt_value Pt_PcrSelectMin = 0x113"
| "TpmPt_value Pt_ContextGapMax = 0x114"
| "TpmPt_value Pt_NvCountersMax = 0x116"
| "TpmPt_value Pt_NvIndexMax = 0x117"
| "TpmPt_value Pt_Memory = 0x118"
| "TpmPt_value Pt_ClockUpdate = 0x119"
| "TpmPt_value Pt_ContextHash = 0x11A"
| "TpmPt_value Pt_ContextSym = 0x11B"
| "TpmPt_value Pt_ContextSymSize = 0x11C"
| "TpmPt_value Pt_OrderlyCount = 0x11D"
| "TpmPt_value Pt_MaxCommandSize = 0x11E"
| "TpmPt_value Pt_MaxResponseSize = 0x11F"
| "TpmPt_value Pt_MaxDigest = 0x120"
| "TpmPt_value Pt_MaxObjectContext = 0x121"
| "TpmPt_value Pt_MaxSessionContext = 0x122"
| "TpmPt_value Pt_PsFamilyIndicator = 0x123"
| "TpmPt_value Pt_PsLevel = 0x124"
| "TpmPt_value Pt_PsRevision = 0x125"
| "TpmPt_value Pt_PsDayOfYear = 0x126"
| "TpmPt_value Pt_PsYear = 0x127"
| "TpmPt_value Pt_SplitMax = 0x128"
| "TpmPt_value Pt_TotalCommands = 0x129"
| "TpmPt_value Pt_LibraryCommands = 0x12A"
| "TpmPt_value Pt_VendorCommands = 0x12B"
| "TpmPt_value Pt_NvBufferMax = 0x12C"
| "TpmPt_value Pt_Modes = 0x12D"
| "TpmPt_value Pt_MaxCapBuffer = 0x12E"
| "TpmPt_value Pt_Permanent = 0x200"
| "TpmPt_value Pt_StartupClear = 0x201"
| "TpmPt_value Pt_HrNvIndex = 0x202"
| "TpmPt_value Pt_HrLoaded = 0x203"
| "TpmPt_value Pt_HrLoadedAvail = 0x204"
| "TpmPt_value Pt_HrActive = 0x205"
| "TpmPt_value Pt_HrActiveAvail = 0x206"
| "TpmPt_value Pt_HrTransientAvail = 0x207"
| "TpmPt_value Pt_HrPersistent = 0x208"
| "TpmPt_value Pt_HrPersistentAvail = 0x209"
| "TpmPt_value Pt_NvCounters = 0x20A"
| "TpmPt_value Pt_NvCountersAvail = 0x20B"
| "TpmPt_value Pt_AlgorithmSet = 0x20C"
| "TpmPt_value Pt_LoadedCurves = 0x20D"
| "TpmPt_value Pt_LockoutCounter = 0x20E"
| "TpmPt_value Pt_MaxAuthFail = 0x20F"
| "TpmPt_value Pt_LockoutInterval = 0x210"
| "TpmPt_value Pt_LockoutRecovery = 0x211"
| "TpmPt_value Pt_NvWriteRecovery = 0x212"
| "TpmPt_value Pt_AuditCounter0 = 0x213"
| "TpmPt_value Pt_AuditCounter1 = 0x214"

definition TpmPt_variants :: "TpmPt list" where
  "TpmPt_variants = [
    Pt_FamilyIndicator, Pt_Level, Pt_Revision, Pt_DayOfYear,
    Pt_Year, Pt_Manufacturer, Pt_VendorString1, Pt_VendorString2,
    Pt_VendorString3, Pt_VendorString4, Pt_VendorTpmType, Pt_FirmwareVersion1,
    Pt_FirmwareVersion2, Pt_InputBuffer, Pt_HrTransientMin, Pt_HrPersistentMin,
    Pt_HrLoadedMin, Pt_ActiveSessionsMax, Pt_PcrCount, Pt_PcrSelectMin,
    Pt_ContextGapMax, Pt_NvCountersMax, Pt_NvIndexMax, Pt_Memory,
    Pt_ClockUpdate, Pt_ContextHash, Pt_ContextSym, Pt_ContextSymSize,
    Pt_OrderlyCount, Pt_MaxCommandSize, Pt_MaxResponseSize, Pt_MaxDigest,
    Pt_MaxObjectContext, Pt_MaxSessionContext, Pt_PsFamilyIndicator, Pt_PsLevel,
    Pt_PsRevision, Pt_PsDayOfYear, Pt_PsYear, Pt_SplitMax,
    Pt_TotalCommands, Pt_LibraryCommands, Pt_VendorCommands, Pt_NvBufferMax,
    Pt_Modes, Pt_MaxCapBuffer, Pt_Permanent, Pt_StartupClear,
    Pt_HrNvIndex, Pt_HrLoaded, Pt_HrLoadedAvail, Pt_HrActive,
    Pt_HrActiveAvail, Pt_HrTransientAvail, Pt_HrPersistent, Pt_HrPersistentAvail,
    Pt_NvCounters, Pt_NvCountersAvail, Pt_AlgorithmSet, Pt_LoadedCurves,
    Pt_LockoutCounter, Pt_MaxAuthFail, Pt_LockoutInterval, Pt_LockoutRecovery,
    Pt_NvWriteRecovery, Pt_AuditCounter0, Pt_AuditCounter1]"

primrec TpmPt_display :: "TpmPt \<Rightarrow> string" where
  "TpmPt_display Pt_FamilyIndicator = ''TPM_PT_FAMILY_INDICATOR''"
| "TpmPt_display Pt_Level = ''TPM_PT_LEVEL''"
| "TpmPt_display Pt_Revision = ''TPM_PT_REVISION''"
| "TpmPt_display Pt_DayOfYear = ''TPM_PT_DAY_OF_YEAR''"
| "TpmPt_display Pt_Year = ''TPM_PT_YEAR''"
| "TpmPt_display Pt_Manufacturer = ''TPM_PT_MANUFACTURER''"
| "TpmPt_display Pt_VendorString1 = ''TPM_PT_VENDOR_STRING_1''"
| "TpmPt_display Pt_VendorString2 = ''TPM_PT_VENDOR_STRING_2''"
| "TpmPt_display Pt_VendorString3 = ''TPM_PT_VENDOR_STRING_3''"
| "TpmPt_display Pt_VendorString4 = ''TPM_PT_VENDOR_STRING_4''"
| "TpmPt_display Pt_VendorTpmType = ''TPM_PT_VENDOR_TPM_TYPE''"
| "TpmPt_display Pt_FirmwareVersion1 = ''TPM_PT_FIRMWARE_VERSION_1''"
| "TpmPt_display Pt_FirmwareVersion2 = ''TPM_PT_FIRMWARE_VERSION_2''"
| "TpmPt_display Pt_InputBuffer = ''TPM_PT_INPUT_BUFFER''"
| "TpmPt_display Pt_HrTransientMin = ''TPM_PT_HR_TRANSIENT_MIN''"
| "TpmPt_display Pt_HrPersistentMin = ''TPM_PT_HR_PERSISTENT_MIN''"
| "TpmPt_display Pt_HrLoadedMin = ''TPM_PT_HR_LOADED_MIN''"
| "TpmPt_display Pt_ActiveSessionsMax = ''TPM_PT_ACTIVE_SESSIONS_MAX''"
| "TpmPt_display Pt_PcrCount = ''TPM_PT_PCR_COUNT''"
| "TpmPt_display Pt_PcrSelectMin = ''TPM_PT_PCR_SELECT_MIN''"
| "TpmPt_display Pt_ContextGapMax = ''TPM_PT_CONTEXT_GAP_MAX''"
| "TpmPt_display Pt_NvCountersMax = ''TPM_PT_NV_COUNTERS_MAX''"
| "TpmPt_display Pt_NvIndexMax = ''TPM_PT_NV_INDEX_MAX''"
| "TpmPt_display Pt_Memory = ''TPM_PT_MEMORY''"
| "TpmPt_display Pt_ClockUpdate = ''TPM_PT_CLOCK_UPDATE''"
| "TpmPt_display Pt_ContextHash = ''TPM_PT_CONTEXT_HASH''"
| "TpmPt_display Pt_ContextSym = ''TPM_PT_CONTEXT_SYM''"
| "TpmPt_display Pt_ContextSymSize = ''TPM_PT_CONTEXT_SYM_SIZE''"
| "TpmPt_display Pt_OrderlyCount = ''TPM_PT_ORDERLY_COUNT''"
| "TpmPt_display Pt_MaxCommandSize = ''TPM_PT_MAX_COMMAND_SIZE''"
| "TpmPt_display Pt_MaxResponseSize = ''TPM_PT_MAX_RESPONSE_SIZE''"
| "TpmPt_display Pt_MaxDigest = ''TPM_PT_MAX_DIGEST''"
| "TpmPt_display Pt_MaxObjectContext = ''TPM_PT_MAX_OBJECT_CONTEXT''"
| "TpmPt_display Pt_MaxSessionContext = ''TPM_PT_MAX_SESSION_CONTEXT''"
| "TpmPt_display Pt_PsFamilyIndicator = ''TPM_PT_PS_FAMILY_INDICATOR''"
| "TpmPt_display Pt_PsLevel = ''TPM_PT_PS_LEVEL''"
| "TpmPt_display Pt_PsRevision = ''TPM_PT_PS_REVISION''"
| "TpmPt_display Pt_PsDayOfYear = ''TPM_PT_PS_DAY_OF_YEAR''"
| "TpmPt_display Pt_PsYear = ''TPM_PT_PS_YEAR''"
| "TpmPt_display Pt_SplitMax = ''TPM_PT_SPLIT_MAX''"
| "TpmPt_display Pt_TotalCommands = ''TPM_PT_TOTAL_COMMANDS''"
| "TpmPt_display Pt_LibraryCommands = ''TPM_PT_LIBRARY_COMMANDS''"
| "TpmPt_display Pt_VendorCommands = ''TPM_PT_VENDOR_COMMANDS''"
| "TpmPt_display Pt_NvBufferMax = ''TPM_PT_NV_BUFFER_MAX''"
| "TpmPt_display Pt_Modes = ''TPM_PT_MODES''"
| "TpmPt_display Pt_MaxCapBuffer = ''TPM_PT_MAX_CAP_BUFFER''"
| "TpmPt_display Pt_Permanent = ''TPM_PT_PERMANENT''"
| "TpmPt_display Pt_StartupClear = ''TPM_PT_STARTUP_CLEAR''"
| "TpmPt_display Pt_HrNvIndex = ''TPM_PT_HR_NV_INDEX''"
| "TpmPt_display Pt_HrLoaded = ''TPM_PT_HR_LOADED''"
| "TpmPt_display Pt_HrLoadedAvail = ''TPM_PT_HR_LOADED_AVAIL''"
| "TpmPt_display Pt_HrActive = ''TPM_PT_HR_ACTIVE''"
| "TpmPt_display Pt_HrActiveAvail = ''TPM_PT_HR_ACTIVE_AVAIL''"
| "TpmPt_display Pt_HrTransientAvail = ''TPM_PT_HR_TRANSIENT_AVAIL''"
| "TpmPt_display Pt_HrPersistent = ''TPM_PT_HR_PERSISTENT''"
| "TpmPt_display Pt_HrPersistentAvail = ''TPM_PT_HR_PERSISTENT_AVAIL''"
| "TpmPt_display Pt_NvCounters = ''TPM_PT_NV_COUNTERS''"
| "TpmPt_display Pt_NvCountersAvail = ''TPM_PT_NV_COUNTERS_AVAIL''"
| "TpmPt_display Pt_AlgorithmSet = ''TPM_PT_ALGORITHM_SET''"
| "TpmPt_display Pt_LoadedCurves = ''TPM_PT_LOADED_CURVES''"
| "TpmPt_display Pt_LockoutCounter = ''TPM_PT_LOCKOUT_COUNTER''"
| "TpmPt_display Pt_MaxAuthFail = ''TPM_PT_MAX_AUTH_FAIL''"
| "TpmPt_display Pt_LockoutInterval = ''TPM_PT_LOCKOUT_INTERVAL''"
| "TpmPt_display Pt_LockoutRecovery = ''TPM_PT_LOCKOUT_RECOVERY''"
| "TpmPt_display Pt_NvWriteRecovery = ''TPM_PT_NV_WRITE_RECOVERY''"
| "TpmPt_display Pt_AuditCounter0 = ''TPM_PT_AUDIT_COUNTER_0''"
| "TpmPt_display Pt_AuditCounter1 = ''TPM_PT_AUDIT_COUNTER_1''"

interpretation TpmPt: tpm_enum 4 False TpmPt_value TpmPt_variants
proof
  show "v \<in> set TpmPt_variants" for v
    by (cases v) (simp_all only: TpmPt_variants_def list.set insert_iff simp_thms)
qed (simp_all add: TpmPt_variants_def repr_range_def)

instantiation TpmPt :: linorder
begin

definition less_eq_TpmPt :: "TpmPt \<Rightarrow> TpmPt \<Rightarrow> bool" where
  "less_eq_TpmPt v w \<longleftrightarrow> TpmPt_value v \<le> TpmPt_value w"

definition less_TpmPt :: "TpmPt \<Rightarrow> TpmPt \<Rightarrow> bool" where
  "less_TpmPt v w \<longleftrightarrow> TpmPt_value v < TpmPt_value w"

instance
  by standard (auto simp: less_eq_TpmPt_def less_TpmPt_def)

end

instantiation TpmPt :: equal
begin

definition equal_TpmPt :: "TpmPt \<Rightarrow> TpmPt \<Rightarrow> bool" where
  "equal_TpmPt v w \<longleftrightarrow> TpmPt_value v = TpmPt_value w"

instance
  by standard (simp add: equal_TpmPt_def)

end

definition TpmPt_try_from :: "int \<Rightarrow> TpmPt TpmResult" where
  "TpmPt_try_from = enum_try_from TpmPt_value TpmPt_variants"

end
