(* ===== verification/Codec.thy ===== *)
theory Codec
  imports Writer Rc Enum_Small Enum_Alg Enum_Cc Enum_Pt
begin

text \<open>
  The value universe and the codecs that the traits \<open>TpmSized\<close>, \<open>TpmMarshal\<close>, \<open>TpmUnmarshal\<close> and
  \<open>TpmField\<close> give a wire type.  Every macro of \<open>protocol/src/macro\<close> and every generic type of
  \<open>protocol/src/basic\<close> is a combinator on codecs: the macro's arguments are the combinator's, and the
  code the macro generates is the body of the combinator.  A wire type of \<open>protocol/src/data\<close> is
  then one application of a combinator (theories \<open>Data_Basic\<close>, \<open>Data_Public\<close> and \<open>Data_Types\<close>).
\<close>

subsection \<open>Values\<close>

datatype (plugins only: size) enum_val =
    EAlgId TpmAlgId | EAt TpmAt | ECap TpmCap | ECc TpmCc | EClockAdjust TpmClockAdjust
  | EEo TpmEo | EEccCurve TpmEccCurve | EHt TpmHt | EPt TpmPt | ERh TpmRh | ESe TpmSe
  | ESt TpmSt | ESu TpmSu | EEccKeyExchange TpmiEccKeyExchange

primrec enum_val_value :: "enum_val \<Rightarrow> int" where
  "enum_val_value (EAlgId e) = TpmAlgId_value e"
| "enum_val_value (EAt e) = TpmAt_value e"
| "enum_val_value (ECap e) = TpmCap_value e"
| "enum_val_value (ECc e) = TpmCc_value e"
| "enum_val_value (EClockAdjust e) = TpmClockAdjust_value e"
| "enum_val_value (EEo e) = TpmEo_value e"
| "enum_val_value (EEccCurve e) = TpmEccCurve_value e"
| "enum_val_value (EHt e) = TpmHt_value e"
| "enum_val_value (EPt e) = TpmPt_value e"
| "enum_val_value (ERh e) = TpmRh_value e"
| "enum_val_value (ESe e) = TpmSe_value e"
| "enum_val_value (ESt e) = TpmSt_value e"
| "enum_val_value (ESu e) = TpmSu_value e"
| "enum_val_value (EEccKeyExchange e) = TpmiEccKeyExchange_value e"

text \<open>
  An owned value as the code stores it: a \<open>TpmInt\<close> is its big-endian byte array, a bit-flag struct
  its raw integer, a \<open>TpmBuffer\<close> or \<open>TpmList\<close> its initialised prefix, a struct its fields in order, a
  union its variant's name with the payload (none for a \<open>@null\<close> variant).  \<open>VWire\<close> is a borrowed
  wire view: the bytes it covers.
\<close>

datatype (plugins only: size) val =
    VInt "u8 list"
  | VBits nat
  | VBool bool
  | VEnum enum_val
  | VBuffer "u8 list"
  | VList "val list"
  | VStruct "val list"
  | VRc TpmRc
  | VUnion string "val option"
  | VWire "u8 list"

type_synonym 'a decode = "u8 list \<Rightarrow> ('a \<times> u8 list) TpmResult"

text \<open>\<open>valid\<close> is not code: it says which values inhabit the Rust type, with the selectors of
  tagged unions agreeing with the variants they select.\<close>

record codec =
  SIZE :: nat
  valid :: "val \<Rightarrow> bool"
  wire_len :: "val \<Rightarrow> nat"
  marshal :: "val \<Rightarrow> wr"
  unmarshal :: "val decode"
  cast_prefix :: "val decode"

text \<open>The bytes a value marshals to.\<close>

definition encode :: "codec \<Rightarrow> val \<Rightarrow> u8 list" where
  "encode c v = marshalled (marshal c v) (wire_len c v)"

subsection \<open>Fixed-size views and integers\<close>

definition split_at :: "nat \<Rightarrow> u8 list \<Rightarrow> (u8 list \<times> u8 list) TpmResult" where
  "split_at n b = (if n \<le> length b then Ok (take n b, drop n b) else Panic)"

definition TpmWireBytes_validate_prefix :: "nat \<Rightarrow> u8 list \<Rightarrow> unit TpmResult" where
  "TpmWireBytes_validate_prefix N buf =
     (if length buf < N then Err (UnexpectedEnd 0 N (length buf)) else Ok ())"

definition TpmWireBytes_validate :: "nat \<Rightarrow> u8 list \<Rightarrow> unit TpmResult" where
  "TpmWireBytes_validate N buf =
     and_then (TpmWireBytes_validate_prefix N buf) (\<lambda>_.
       if length buf > N then Err (TrailingData N (length buf - N)) else Ok ())"

definition TpmWireBytes_cast_prefix :: "nat \<Rightarrow> u8 list decode" where
  "TpmWireBytes_cast_prefix N buf =
     and_then (TpmWireBytes_validate_prefix N buf) (\<lambda>_. split_at N buf)"

definition tpm_int :: "nat \<Rightarrow> codec" where
  "tpm_int N = \<lparr>
     SIZE = N,
     valid = (\<lambda>v. case v of VInt bs \<Rightarrow> length bs = N | _ \<Rightarrow> False),
     wire_len = (\<lambda>_. N),
     marshal = (\<lambda>v. case v of VInt bs \<Rightarrow> write_bytes bs | _ \<Rightarrow> wpanic),
     unmarshal = (\<lambda>b. and_then (TpmWireBytes_cast_prefix N b) (\<lambda>(h, t). Ok (VInt h, t))),
     cast_prefix = (\<lambda>b. and_then (TpmWireBytes_cast_prefix N b) (\<lambda>(h, t). Ok (VInt h, t)))\<rparr>"

definition int_new :: "nat \<Rightarrow> nat \<Rightarrow> val" where
  "int_new N n = VInt (to_be_bytes N n)"

fun int_value :: "val \<Rightarrow> nat" where
  "int_value (VInt bs) = from_be_bytes bs"
| "int_value _ = 0"

definition TpmUint8 :: codec where "TpmUint8 = tpm_int 1"

definition TpmInt8 :: codec where "TpmInt8 = tpm_int 1"

definition TpmUint16 :: codec where "TpmUint16 = tpm_int 2"

definition TpmUint32 :: codec where "TpmUint32 = tpm_int 4"

definition TpmUint64 :: codec where "TpmUint64 = tpm_int 8"

definition TpmInt32 :: codec where "TpmInt32 = tpm_int 4"

definition TpmHandle :: codec where "TpmHandle = TpmUint32"

subsection \<open>Enumerations, flags and booleans\<close>

definition to_be_repr :: "nat \<Rightarrow> int \<Rightarrow> u8 list" where
  "to_be_repr N n = to_be_bytes N (nat (n mod 2 ^ (8 * N)))"

definition from_be_repr :: "bool \<Rightarrow> u8 list \<Rightarrow> int" where
  "from_be_repr is_signed bs =
     (let n = int (from_be_bytes bs) in
      if is_signed \<and> 2 ^ (8 * length bs - 1) \<le> n then n - 2 ^ (8 * length bs) else n)"

definition tpm_enum_field :: "nat \<Rightarrow> bool \<Rightarrow> enum_val list \<Rightarrow> val decode" where
  "tpm_enum_field N is_signed variants buf =
     and_then (TpmWireBytes_cast_prefix N buf) (\<lambda>(h, t).
       and_then (enum_try_from enum_val_value variants (from_be_repr is_signed h))
         (\<lambda>e. Ok (VEnum e, t)))"

definition tpm_enum_codec :: "nat \<Rightarrow> bool \<Rightarrow> enum_val list \<Rightarrow> codec" where
  "tpm_enum_codec N is_signed variants = \<lparr>
     SIZE = N,
     valid = (\<lambda>v. case v of VEnum e \<Rightarrow> e \<in> set variants | _ \<Rightarrow> False),
     wire_len = (\<lambda>_. N),
     marshal = (\<lambda>v. case v of VEnum e \<Rightarrow> write_bytes (to_be_repr N (enum_val_value e))
                   | _ \<Rightarrow> wpanic),
     unmarshal = tpm_enum_field N is_signed variants,
     cast_prefix = tpm_enum_field N is_signed variants\<rparr>"

definition tpm_bitflags_field :: "nat \<Rightarrow> val decode" where
  "tpm_bitflags_field N buf =
     and_then (TpmWireBytes_cast_prefix N buf) (\<lambda>(h, t). Ok (VBits (from_be_bytes h), t))"

definition tpm_bitflags :: "nat \<Rightarrow> codec" where
  "tpm_bitflags N = \<lparr>
     SIZE = N,
     valid = (\<lambda>v. case v of VBits n \<Rightarrow> n < 256 ^ N | _ \<Rightarrow> False),
     wire_len = (\<lambda>_. N),
     marshal = (\<lambda>v. case v of VBits n \<Rightarrow> write_bytes (to_be_bytes N n) | _ \<Rightarrow> wpanic),
     unmarshal = tpm_bitflags_field N,
     cast_prefix = tpm_bitflags_field N\<rparr>"

definition tpm_bool_field :: "val decode" where
  "tpm_bool_field buf =
     and_then (TpmWireBytes_cast_prefix 1 buf) (\<lambda>(h, t).
       let raw = from_be_bytes h in
       if raw = 0 then Ok (VBool False, t)
       else if raw = 1 then Ok (VBool True, t)
       else Err (InvalidBoolean 0 raw))"

definition tpm_bool :: codec where
  "tpm_bool = \<lparr>
     SIZE = 1,
     valid = (\<lambda>v. case v of VBool _ \<Rightarrow> True | _ \<Rightarrow> False),
     wire_len = (\<lambda>_. 1),
     marshal = (\<lambda>v. case v of VBool x \<Rightarrow> write_bytes (to_be_bytes 1 (if x then 1 else 0))
                   | _ \<Rightarrow> wpanic),
     unmarshal = tpm_bool_field,
     cast_prefix = tpm_bool_field\<rparr>"

subsection \<open>TPM2B buffers\<close>

definition Tpm2b_read_size :: "u8 list \<Rightarrow> nat" where
  "Tpm2b_read_size buf = from_be_bytes (take 2 buf)"

definition Tpm2b_validate_prefix :: "nat \<Rightarrow> u8 list \<Rightarrow> nat TpmResult" where
  "Tpm2b_validate_prefix CAPACITY buf =
     (if length buf < 2 then Err (UnexpectedEnd 0 2 (length buf))
      else let payload_len = Tpm2b_read_size buf in
        if payload_len > CAPACITY then Err (TooManyBytes 0 CAPACITY payload_len)
        else and_then (ok_or (IntegerTooLarge 0 payload_len) (checked_add 2 payload_len))
          (\<lambda>wire_len.
             if length buf < wire_len
             then Err (UnexpectedEnd 2 payload_len (length buf - 2))
             else Ok wire_len))"

definition Tpm2b_validate :: "nat \<Rightarrow> u8 list \<Rightarrow> unit TpmResult" where
  "Tpm2b_validate CAPACITY buf =
     and_then (Tpm2b_validate_prefix CAPACITY buf) (\<lambda>wire_len.
       if length buf > wire_len then Err (TrailingData wire_len (length buf - wire_len))
       else Ok ())"

definition Tpm2b_cast_prefix :: "nat \<Rightarrow> u8 list decode" where
  "Tpm2b_cast_prefix CAPACITY buf =
     and_then (Tpm2b_validate_prefix CAPACITY buf) (\<lambda>wire_len. split_at wire_len buf)"

definition Tpm2b_data :: "u8 list \<Rightarrow> u8 list" where
  "Tpm2b_data w = drop 2 w"

definition TpmBuffer_try_push :: "nat \<Rightarrow> u8 list \<Rightarrow> u8 \<Rightarrow> u8 list TpmResult" where
  "TpmBuffer_try_push CAPACITY data byte =
     (if length data \<ge> CAPACITY \<or> length data = u16_max
      then Err (BufferOverflow (length data) 1 (CAPACITY - length data))
      else Ok (data @ [byte]))"

definition TpmBuffer_try_extend_from_slice ::
  "nat \<Rightarrow> u8 list \<Rightarrow> u8 list \<Rightarrow> u8 list TpmResult" where
  "TpmBuffer_try_extend_from_slice CAPACITY data src =
     (let current_len = length data in
      and_then (ok_or (BufferOverflow current_len (length src) (CAPACITY - current_len))
                 (checked_add current_len (length src)))
        (\<lambda>new_len.
           if new_len > CAPACITY
           then Err (BufferOverflow current_len (length src) (CAPACITY - current_len))
           else if new_len > u16_max
           then Err (BufferOverflow current_len (length src) (u16_max - current_len))
           else Ok (data @ src)))"

definition TpmBuffer_try_from :: "nat \<Rightarrow> u8 list \<Rightarrow> u8 list TpmResult" where
  "TpmBuffer_try_from CAPACITY src = TpmBuffer_try_extend_from_slice CAPACITY [] src"

definition TpmBuffer :: "nat \<Rightarrow> codec" where
  "TpmBuffer CAPACITY = \<lparr>
     SIZE = 2 + CAPACITY,
     valid = (\<lambda>v. case v of VBuffer d \<Rightarrow> length d \<le> CAPACITY \<and> length d \<le> u16_max | _ \<Rightarrow> False),
     wire_len = (\<lambda>v. case v of VBuffer d \<Rightarrow> 2 + length d | _ \<Rightarrow> 0),
     marshal = (\<lambda>v. case v of
         VBuffer d \<Rightarrow> wseq (write_bytes (to_be_bytes 2 (length d))) (write_bytes d)
       | _ \<Rightarrow> wpanic),
     unmarshal = (\<lambda>b. and_then (Tpm2b_cast_prefix CAPACITY b) (\<lambda>(w, r).
        and_then (TpmBuffer_try_from CAPACITY (Tpm2b_data w)) (\<lambda>d. Ok (VBuffer d, r)))),
     cast_prefix = (\<lambda>b. and_then (Tpm2b_cast_prefix CAPACITY b) (\<lambda>(w, r). Ok (VWire w, r)))\<rparr>"

subsection \<open>TPML lists\<close>

definition Tpml_read_count :: "u8 list \<Rightarrow> nat" where
  "Tpml_read_count buf = from_be_bytes (take 4 buf)"

definition Tpml_validate_header :: "nat \<Rightarrow> u8 list \<Rightarrow> nat TpmResult" where
  "Tpml_validate_header CAPACITY buf =
     (if length buf < 4 then Err (UnexpectedEnd 0 4 (length buf))
      else let item_count = Tpml_read_count buf in
        if item_count > CAPACITY then Err (TooManyItems 0 CAPACITY item_count)
        else Ok item_count)"

text \<open>One step of the validation loops: the length \<open>tail\<close> leaves is added to \<open>consumed\<close>.\<close>

definition advance :: "nat \<Rightarrow> u8 list \<Rightarrow> u8 list \<Rightarrow> nat TpmResult" where
  "advance consumed cur tail =
     and_then (ok_or (IntegerTooLarge consumed (length tail))
                (checked_sub (length cur) (length tail)))
       (\<lambda>n. ok_or (IntegerTooLarge consumed (length cur)) (checked_add consumed n))"

fun Tpml_skip_items :: "val decode \<Rightarrow> nat \<Rightarrow> nat \<Rightarrow> u8 list \<Rightarrow> nat TpmResult" where
  "Tpml_skip_items item 0 consumed cur = Ok consumed"
| "Tpml_skip_items item (Suc n) consumed cur =
     and_then (item cur) (\<lambda>(_, tail).
       and_then (advance consumed cur tail) (\<lambda>consumed'.
         Tpml_skip_items item n consumed' tail))"

definition Tpml_validate_prefix_items :: "nat \<Rightarrow> val decode \<Rightarrow> u8 list \<Rightarrow> nat TpmResult" where
  "Tpml_validate_prefix_items CAPACITY item buf =
     and_then (Tpml_validate_header CAPACITY buf) (\<lambda>count.
       Tpml_skip_items item count 4 (drop 4 buf))"

definition Tpml_cast_field :: "nat \<Rightarrow> val decode \<Rightarrow> val decode" where
  "Tpml_cast_field CAPACITY item buf =
     and_then (Tpml_validate_header CAPACITY buf) (\<lambda>count.
       and_then (Tpml_skip_items item count 4 (drop 4 buf)) (\<lambda>consumed.
         and_then (split_at consumed buf) (\<lambda>(h, t). Ok (VWire h, t))))"

definition TpmList_try_push :: "nat \<Rightarrow> 'a list \<Rightarrow> 'a \<Rightarrow> 'a list TpmResult" where
  "TpmList_try_push CAPACITY items item =
     (if length items \<ge> CAPACITY then Err (TooManyItems 0 CAPACITY (length items + 1))
      else Ok (items @ [item]))"

definition TpmList_try_extend_from_slice :: "nat \<Rightarrow> 'a list \<Rightarrow> 'a list \<Rightarrow> 'a list TpmResult" where
  "TpmList_try_extend_from_slice CAPACITY items src =
     and_then (ok_or (TooManyItems 0 CAPACITY usize_max)
                (checked_add (length items) (length src)))
       (\<lambda>new_len. if new_len > CAPACITY then Err (TooManyItems 0 CAPACITY new_len)
                  else Ok (items @ src))"

fun unmarshal_items ::
  "'a decode \<Rightarrow> nat \<Rightarrow> nat \<Rightarrow> 'a list \<Rightarrow> 'a list decode" where
  "unmarshal_items item CAPACITY 0 list cur = Ok (list, cur)"
| "unmarshal_items item CAPACITY (Suc n) list cur =
     and_then (item cur) (\<lambda>(x, tail).
       and_then (TpmList_try_push CAPACITY list x) (\<lambda>list'.
         unmarshal_items item CAPACITY n list' tail))"

fun marshal_items :: "('a \<Rightarrow> wr) \<Rightarrow> 'a list \<Rightarrow> wr" where
  "marshal_items m [] = wdone"
| "marshal_items m (x # xs) = wseq (m x) (marshal_items m xs)"

definition TpmList_unmarshal :: "val decode \<Rightarrow> nat \<Rightarrow> val decode" where
  "TpmList_unmarshal item CAPACITY buf =
     and_then (TpmWireBytes_cast_prefix 4 buf) (\<lambda>(h, cur).
       let count = from_be_bytes h in
       if count > CAPACITY then Err (TooManyItems 0 CAPACITY count)
       else and_then (unmarshal_items item CAPACITY count [] cur)
              (\<lambda>(xs, t). Ok (VList xs, t)))"

definition TpmList :: "codec \<Rightarrow> nat \<Rightarrow> codec" where
  "TpmList c CAPACITY = \<lparr>
     SIZE = 4 + SIZE c * CAPACITY,
     valid = (\<lambda>v. case v of VList xs \<Rightarrow> length xs \<le> CAPACITY \<and> list_all (valid c) xs | _ \<Rightarrow> False),
     wire_len = (\<lambda>v. case v of VList xs \<Rightarrow> 4 + sum_list (map (wire_len c) xs) | _ \<Rightarrow> 0),
     marshal = (\<lambda>v. case v of
         VList xs \<Rightarrow>
           if length xs > u32_max then wfail (\<lambda>_. IntegerTooLarge 0 (length xs))
           else wseq (write_bytes (to_be_bytes 4 (length xs))) (marshal_items (marshal c) xs)
       | _ \<Rightarrow> wpanic),
     unmarshal = TpmList_unmarshal (unmarshal c) CAPACITY,
     cast_prefix = Tpml_cast_field CAPACITY (cast_prefix c)\<rparr>"

subsection \<open>Structures\<close>

type_synonym fields = "(string \<times> codec) list"

fun fields_valid :: "fields \<Rightarrow> val list \<Rightarrow> bool" where
  "fields_valid [] [] = True"
| "fields_valid ((_, c) # fs) (v # vs) = (valid c v \<and> fields_valid fs vs)"
| "fields_valid _ _ = False"

fun fields_len :: "fields \<Rightarrow> val list \<Rightarrow> nat" where
  "fields_len ((_, c) # fs) (v # vs) = wire_len c v + fields_len fs vs"
| "fields_len _ _ = 0"

fun fields_marshal :: "fields \<Rightarrow> val list \<Rightarrow> wr" where
  "fields_marshal [] [] = wdone"
| "fields_marshal ((_, c) # fs) (v # vs) = wseq (marshal c v) (fields_marshal fs vs)"
| "fields_marshal _ _ = wpanic"

definition fields_SIZE :: "fields \<Rightarrow> nat" where
  "fields_SIZE fs = sum_list (map (\<lambda>(_, c). SIZE c) fs)"

text \<open>\<open>start\<close> is the length of the buffer the structure began in; a field's error is rebased by
  the bytes consumed before it.\<close>

fun fields_unmarshal :: "nat \<Rightarrow> fields \<Rightarrow> val list decode" where
  "fields_unmarshal start [] buf = Ok ([], buf)"
| "fields_unmarshal start ((_, c) # fs) buf =
     and_then (usize_sub start (length buf)) (\<lambda>off.
       and_then (map_err (rebase off) (unmarshal c buf)) (\<lambda>(v, rest).
         and_then (fields_unmarshal start fs rest) (\<lambda>(vs, t). Ok (v # vs, t))))"

fun fields_validate_prefix :: "fields \<Rightarrow> nat \<Rightarrow> u8 list \<Rightarrow> nat TpmResult" where
  "fields_validate_prefix [] consumed cur = Ok consumed"
| "fields_validate_prefix ((_, c) # fs) consumed cur =
     and_then (cast_prefix c cur) (\<lambda>(_, tail).
       and_then (advance consumed cur tail) (\<lambda>consumed'.
         fields_validate_prefix fs consumed' tail))"

definition wire_cast_prefix :: "fields \<Rightarrow> val decode" where
  "wire_cast_prefix fs buf =
     and_then (fields_validate_prefix fs 0 buf) (\<lambda>n.
       if length buf < n then Err (UnexpectedEnd 0 n (length buf))
       else and_then (split_at n buf) (\<lambda>(h, t). Ok (VWire h, t)))"

definition wire_validate :: "fields \<Rightarrow> u8 list \<Rightarrow> unit TpmResult" where
  "wire_validate fs buf =
     and_then (fields_validate_prefix fs 0 buf) (\<lambda>n.
       if length buf > n then Err (TrailingData n (length buf - n)) else Ok ())"

definition tpm_struct :: "fields \<Rightarrow> codec" where
  "tpm_struct fs = \<lparr>
     SIZE = fields_SIZE fs,
     valid = (\<lambda>v. case v of VStruct vs \<Rightarrow> fields_valid fs vs | _ \<Rightarrow> False),
     wire_len = (\<lambda>v. case v of VStruct vs \<Rightarrow> fields_len fs vs | _ \<Rightarrow> 0),
     marshal = (\<lambda>v. case v of VStruct vs \<Rightarrow> fields_marshal fs vs | _ \<Rightarrow> wpanic),
     unmarshal = (\<lambda>b. and_then (fields_unmarshal (length b) fs b)
                        (\<lambda>(vs, t). Ok (VStruct vs, t))),
     cast_prefix = wire_cast_prefix fs\<rparr>"

subsection \<open>Sized wrappers\<close>

definition tpm2b_struct_validate_prefix :: "codec \<Rightarrow> u8 list \<Rightarrow> nat TpmResult" where
  "tpm2b_struct_validate_prefix c buf =
     and_then (TpmWireBytes_cast_prefix 2 buf) (\<lambda>(size_field, payload).
       let payload_len = from_be_bytes size_field in
       if payload_len > SIZE c then Err (TooManyBytes 2 (SIZE c) payload_len)
       else if length payload < payload_len
       then Err (UnexpectedEnd 2 payload_len (length payload))
       else and_then (split_at payload_len payload) (\<lambda>(inner_bytes, _).
         and_then (cast_prefix c inner_bytes) (\<lambda>(_, tail).
           if tail \<noteq> []
           then Err (TrailingData (2 + (payload_len - length tail)) (length tail))
           else Ok (2 + payload_len))))"

definition tpm2b_struct_unmarshal :: "codec \<Rightarrow> val decode" where
  "tpm2b_struct_unmarshal c buf =
     and_then (TpmWireBytes_cast_prefix 2 buf) (\<lambda>(size_field, payload).
       let sz = from_be_bytes size_field in
       if sz > SIZE c then Err (TooManyBytes 2 (SIZE c) sz)
       else if length payload < sz then Err (UnexpectedEnd 2 sz (length payload))
       else and_then (split_at sz payload) (\<lambda>(inner_buffer, remainder).
         and_then (map_err (rebase 2) (unmarshal c inner_buffer)) (\<lambda>(inner, tail).
           if tail \<noteq> []
           then Err (TrailingData (2 + (sz - length tail)) (length tail))
           else Ok (inner, remainder))))"

definition tpm2b_struct :: "codec \<Rightarrow> codec" where
  "tpm2b_struct c = \<lparr>
     SIZE = 2 + SIZE c,
     valid = valid c,
     wire_len = (\<lambda>v. 2 + wire_len c v),
     marshal = (\<lambda>v.
       if wire_len c v > u16_max then wfail (\<lambda>w. IntegerTooLarge (cursor w) (wire_len c v))
       else wseq (write_bytes (to_be_bytes 2 (wire_len c v))) (marshal c v)),
     unmarshal = tpm2b_struct_unmarshal c,
     cast_prefix = (\<lambda>b. and_then (tpm2b_struct_validate_prefix c b) (\<lambda>n.
       and_then (split_at n b) (\<lambda>(h, t). Ok (VWire h, t))))\<rparr>"

subsection \<open>Tagged unions\<close>

text \<open>\<open>u_valid\<close> is not code: the payloads that inhabit the union.\<close>

record tpmu =
  u_SIZE :: nat
  u_valid :: "val \<Rightarrow> bool"
  u_len :: "val \<Rightarrow> nat"
  u_marshal :: "val \<Rightarrow> wr"
  matches_tag :: "val \<Rightarrow> val \<Rightarrow> bool"
  unmarshal_tagged :: "val \<Rightarrow> val decode"
  cast_tagged :: "val \<Rightarrow> val decode"

fun tag_value :: "val \<Rightarrow> nat" where
  "tag_value (VEnum e) = as_u64 (enum_val_value e)"
| "tag_value _ = 0"

type_synonym arm = "string \<times> codec \<times> val list"
type_synonym null_arm = "(string \<times> val list) option"

fun arm_of_tag :: "arm list \<Rightarrow> val \<Rightarrow> (string \<times> codec) option" where
  "arm_of_tag [] tag = None"
| "arm_of_tag ((n, c, tags) # arms) tag =
     (if tag \<in> set tags then Some (n, c) else arm_of_tag arms tag)"

fun arm_of_variant :: "arm list \<Rightarrow> string \<Rightarrow> (codec \<times> val list) option" where
  "arm_of_variant [] x = None"
| "arm_of_variant ((n, c, tags) # arms) x =
     (if x = n then Some (c, tags) else arm_of_variant arms x)"

fun null_selected :: "null_arm \<Rightarrow> val \<Rightarrow> string option" where
  "null_selected None tag = None"
| "null_selected (Some (n, tags)) tag = (if tag \<in> set tags then Some n else None)"

definition tpmu_matches_tag :: "arm list \<Rightarrow> null_arm \<Rightarrow> val \<Rightarrow> val \<Rightarrow> bool" where
  "tpmu_matches_tag arms null self tag =
     (case self of
        VUnion x (Some _) \<Rightarrow> (case arm_of_variant arms x of
                                Some (_, tags) \<Rightarrow> tag \<in> set tags
                              | None \<Rightarrow> False)
      | VUnion x None \<Rightarrow> null_selected null tag = Some x
      | _ \<Rightarrow> False)"

definition tpmu_select ::
  "(codec \<Rightarrow> val decode) \<Rightarrow> arm list \<Rightarrow> null_arm \<Rightarrow> val \<Rightarrow> val decode" where
  "tpmu_select dec arms null tag buf =
     (case arm_of_tag arms tag of
        Some (x, c) \<Rightarrow> and_then (dec c buf) (\<lambda>(v, t). Ok (VUnion x (Some v), t))
      | None \<Rightarrow> (case null_selected null tag of
                   Some x \<Rightarrow> Ok (VUnion x None, buf)
                 | None \<Rightarrow> Err (VariantNotAvailable 0 (tag_value tag))))"

text \<open>The macro \<open>tpmu_view!\<close> together with the hand-written \<open>TpmSized\<close> and \<open>TpmMarshal\<close>
  implementations of a union, which all dispatch on the variant in the same way.\<close>

definition tpmu_view :: "nat \<Rightarrow> arm list \<Rightarrow> null_arm \<Rightarrow> tpmu" where
  "tpmu_view sz arms null = \<lparr>
     u_SIZE = sz,
     u_valid = (\<lambda>v. case v of
         VUnion x (Some p) \<Rightarrow> (case arm_of_variant arms x of
                                 Some (c, _) \<Rightarrow> valid c p
                               | None \<Rightarrow> False)
       | VUnion x None \<Rightarrow> map_option fst null = Some x
       | _ \<Rightarrow> False),
     u_len = (\<lambda>v. case v of
         VUnion x (Some p) \<Rightarrow> (case arm_of_variant arms x of
                                 Some (c, _) \<Rightarrow> wire_len c p
                               | None \<Rightarrow> 0)
       | _ \<Rightarrow> 0),
     u_marshal = (\<lambda>v. case v of
         VUnion x (Some p) \<Rightarrow> (case arm_of_variant arms x of
                                 Some (c, _) \<Rightarrow> marshal c p
                               | None \<Rightarrow> wpanic)
       | _ \<Rightarrow> wdone),
     matches_tag = tpmu_matches_tag arms null,
     unmarshal_tagged = tpmu_select unmarshal arms null,
     cast_tagged = tpmu_select cast_prefix arms null\<rparr>"

definition tpm_struct_tagged :: "codec \<Rightarrow> tpmu \<Rightarrow> codec" where
  "tpm_struct_tagged t u = \<lparr>
     SIZE = SIZE t + u_SIZE u,
     valid = (\<lambda>v. case v of
         VStruct [tag, x] \<Rightarrow> valid t tag \<and> u_valid u x \<and> matches_tag u x tag
       | _ \<Rightarrow> False),
     wire_len = (\<lambda>v. case v of VStruct [tag, x] \<Rightarrow> wire_len t tag + u_len u x | _ \<Rightarrow> 0),
     marshal = (\<lambda>v. case v of
         VStruct [tag, x] \<Rightarrow>
           if \<not> matches_tag u x tag
           then wfail (\<lambda>w. VariantNotAvailable (cursor w) (tag_value tag))
           else wseq (marshal t tag) (u_marshal u x)
       | _ \<Rightarrow> wpanic),
     unmarshal = (\<lambda>b. and_then (unmarshal t b) (\<lambda>(tag, rest).
        and_then (usize_sub (length b) (length rest)) (\<lambda>off.
          and_then (map_err (rebase off) (unmarshal_tagged u tag rest)) (\<lambda>(x, r).
            Ok (VStruct [tag, x], r))))),
     cast_prefix = (\<lambda>b. and_then (cast_prefix t b) (\<lambda>(tag, rest).
        and_then (cast_tagged u tag rest) (\<lambda>(x, r). Ok (VStruct [tag, x], r))))\<rparr>"

text \<open>A type without a \<open>TpmField\<close> implementation is never cast.\<close>

definition no_cast :: "val decode" where
  "no_cast b = Panic"

end
