(* ===== verification/Codec_Laws.thy ===== *)
theory Codec_Laws
  imports Codec
begin

text \<open>
  The contract of a wire type and the proof that every combinator of theory \<open>Codec\<close> keeps it.
  \<open>decoder V enc dec\<close> is the law of one decoding routine: it accepts exactly the encodings of valid
  values, whatever follows them, it never panics, and the offset of an error lies inside its input.
  \<open>wire_codec\<close> adds the marshalling side, \<open>wire_field\<close> the borrowed cast.  Each combinator has a rule
  in \<open>codec_intros\<close>, so that the lawfulness of a concrete wire type follows from its definition by
  these rules alone.
\<close>

subsection \<open>The contracts\<close>

locale decoder =
  fixes V :: "'a \<Rightarrow> bool" and enc :: "'a \<Rightarrow> u8 list" and dec :: "'a decode"
  assumes dec_enc: "V v \<Longrightarrow> dec (enc v @ r) = Ok (v, r)"
    and dec_sound: "dec b = Ok (v, r) \<Longrightarrow> V v \<and> b = enc v @ r"
    and dec_no_panic: "dec b \<noteq> Panic"
    and dec_offset: "dec b = Err e \<Longrightarrow> offset e \<le> length b"
begin

lemma dec_iff: "dec b = Ok (v, r) \<longleftrightarrow> V v \<and> b = enc v @ r"
proof
  show "V v \<and> b = enc v @ r" if "dec b = Ok (v, r)"
    using that by (rule dec_sound)
  show "dec b = Ok (v, r)" if "V v \<and> b = enc v @ r"
    using that by (simp add: dec_enc)
qed

lemma dec_shorter: "dec b = Ok (v, r) \<Longrightarrow> length r \<le> length b"
  by (simp add: dec_iff)

lemma prefix_free: "\<lbrakk>V v; V w; enc v @ r = enc w @ s\<rbrakk> \<Longrightarrow> v = w \<and> r = s"
  by (metis dec_enc prod.inject result.inject(1))

lemma enc_inj: "\<lbrakk>V v; V w; enc v = enc w\<rbrakk> \<Longrightarrow> v = w"
  using prefix_free [of v w "[]" "[]"] by simp

lemma dec_cases:
  obtains v r where "dec b = Ok (v, r)" "V v" "b = enc v @ r"
  | e where "dec b = Err e" "offset e \<le> length b"
proof (cases "dec b")
  case (Ok x)
  then show thesis
    using that(1) dec_sound by (cases x) metis
qed (use dec_no_panic dec_offset that(2) in auto)

end

locale wire_codec = decoder "valid c" "encode c" "unmarshal c" for c +
  assumes marshal_emits: "valid c v \<Longrightarrow> emits (marshal c v) (encode c v)"
    and length_encode: "valid c v \<Longrightarrow> length (encode c v) = wire_len c v"
    and len_le_SIZE: "valid c v \<Longrightarrow> wire_len c v \<le> SIZE c"
    and SIZE_le: "SIZE c \<le> u16_max"

locale wire_field = wire_codec +
  assumes cast_iff: "length b \<le> usize_max \<Longrightarrow>
      (\<exists>w. cast_prefix c b = Ok (w, r)) \<longleftrightarrow> (\<exists>v. unmarshal c b = Ok (v, r))"
    and cast_no_panic: "length b \<le> usize_max \<Longrightarrow> cast_prefix c b \<noteq> Panic"
    and cast_offset: "\<lbrakk>length b \<le> usize_max; cast_prefix c b = Err e\<rbrakk> \<Longrightarrow> offset e \<le> length b"
begin

lemma cast_shorter:
  "\<lbrakk>length b \<le> usize_max; cast_prefix c b = Ok (w, r)\<rbrakk> \<Longrightarrow> \<exists>p. b = p @ r"
  using cast_iff dec_sound by metis

end

lemma decoder_cong:
  "\<lbrakk>decoder V enc d; \<And>v. V v \<Longrightarrow> enc' v = enc v\<rbrakk> \<Longrightarrow> decoder V enc' d"
  unfolding decoder_def by metis

text \<open>A codec is lawful when some encoding function explains its marshaller and its decoder.\<close>

lemma encode_eqI:
  "\<lbrakk>emits (marshal c v) bs; length bs = wire_len c v; wire_len c v \<le> usize_max\<rbrakk> \<Longrightarrow>
   encode c v = bs"
  by (simp add: encode_def marshalled_emits)

lemma wire_codec_cast: "wire_codec c \<Longrightarrow> wire_codec (c\<lparr>cast_prefix := k\<rparr>)"
  by (simp add: wire_codec_def wire_codec_axioms_def encode_def [abs_def])

lemma wire_codecI:
  assumes "decoder (valid c) enc (unmarshal c)"
    and "\<And>v. valid c v \<Longrightarrow> emits (marshal c v) (enc v)"
    and "\<And>v. valid c v \<Longrightarrow> length (enc v) = wire_len c v"
    and "\<And>v. valid c v \<Longrightarrow> wire_len c v \<le> SIZE c"
    and "SIZE c \<le> u16_max"
  shows "wire_codec c"
proof -
  have eq: "encode c v = enc v" if "valid c v" for v
    using assms(2-4) [OF that] assms(5) u16_max_le_usize_max
    by (intro encode_eqI) linarith+
  then have "decoder (valid c) (encode c) (unmarshal c)"
    using assms(1) by (rule decoder_cong [rotated]) simp
  then show ?thesis
    by (rule wire_codec.intro) (unfold_locales, use assms eq in auto)
qed

subsection \<open>Fixed-size values\<close>

lemma split_at_Ok [simp]: "n \<le> length b \<Longrightarrow> split_at n b = Ok (take n b, drop n b)"
  by (simp add: split_at_def)

lemma split_at_Ok_iff: "split_at n b = Ok (h, t) \<longleftrightarrow> b = h @ t \<and> length h = n"
  by (auto simp: split_at_def)

lemma TpmWireBytes_cast_prefix_eq:
  "TpmWireBytes_cast_prefix N buf =
     (if length buf < N then Err (UnexpectedEnd 0 N (length buf))
      else Ok (take N buf, drop N buf))"
  by (simp add: TpmWireBytes_cast_prefix_def TpmWireBytes_validate_prefix_def)

lemma TpmWireBytes_cast_prefix_append [simp]:
  "length h = N \<Longrightarrow> TpmWireBytes_cast_prefix N (h @ t) = Ok (h, t)"
  by (simp add: TpmWireBytes_cast_prefix_eq)

lemma TpmWireBytes_cast_prefix_Ok_iff:
  "TpmWireBytes_cast_prefix N b = Ok (h, t) \<longleftrightarrow> b = h @ t \<and> length h = N"
  by (auto simp: TpmWireBytes_cast_prefix_eq)

lemma TpmWireBytes_cast_prefix_not_Panic [simp]: "TpmWireBytes_cast_prefix N b \<noteq> Panic"
  by (simp add: TpmWireBytes_cast_prefix_eq)

lemma TpmWireBytes_cast_prefix_Err:
  "TpmWireBytes_cast_prefix N b = Err e \<Longrightarrow> offset e = 0"
  by (auto simp: TpmWireBytes_cast_prefix_eq split: if_splits)

lemma TpmWireBytes_cast_prefix_cases:
  obtains h t where "TpmWireBytes_cast_prefix N b = Ok (h, t)" "b = h @ t" "length h = N"
  | e where "TpmWireBytes_cast_prefix N b = Err e" "offset e = 0"
  by (cases "TpmWireBytes_cast_prefix N b")
     (auto simp: TpmWireBytes_cast_prefix_Ok_iff dest: TpmWireBytes_cast_prefix_Err)

text \<open>When the cast is the decoder itself, the field laws come for free.\<close>

lemma wire_codec_decoder: "wire_codec c \<Longrightarrow> decoder (valid c) (encode c) (unmarshal c)"
  by (rule wire_codec.axioms(1))

lemma wire_field_codec: "wire_field c \<Longrightarrow> wire_codec c"
  by (rule wire_field.axioms(1))

lemmas codec_dec_enc = decoder.dec_enc [OF wire_codec_decoder]
  and codec_dec_sound = decoder.dec_sound [OF wire_codec_decoder]
  and codec_dec_iff = decoder.dec_iff [OF wire_codec_decoder]
  and codec_dec_no_panic = decoder.dec_no_panic [OF wire_codec_decoder]
  and codec_dec_offset = decoder.dec_offset [OF wire_codec_decoder]
  and codec_dec_cases = decoder.dec_cases [OF wire_codec_decoder]

context wire_codec
begin

lemma field_if_same: "cast_prefix c = unmarshal c \<Longrightarrow> wire_field c"
  by unfold_locales (use dec_no_panic dec_offset in auto)

end

lemmas wire_fieldI_same = wire_codec.field_if_same

lemma tpm_int_ok [codec_intros]: "N \<le> u16_max \<Longrightarrow> wire_field (tpm_int N)"
proof (rule wire_fieldI_same)
  assume N: "N \<le> u16_max"
  show "wire_codec (tpm_int N)"
  proof (rule wire_codecI [where enc = "\<lambda>v. case v of VInt bs \<Rightarrow> bs | _ \<Rightarrow> []"])
    show "decoder (valid (tpm_int N)) (\<lambda>v. case v of VInt bs \<Rightarrow> bs | _ \<Rightarrow> [])
            (unmarshal (tpm_int N))"
      by unfold_locales
         (auto simp: tpm_int_def TpmWireBytes_cast_prefix_eq and_then_Panic_iff and_then_Err_iff
               split: val.splits if_splits)
  qed (use N in \<open>auto simp: tpm_int_def split: val.splits\<close>)
qed (simp add: tpm_int_def)

lemma pow_256: "(256 :: nat) ^ N = 2 ^ (8 * N)"
  by (simp add: power_mult)

lemma from_to_be_repr:
  assumes "repr_range N s n" "0 < N"
  shows "from_be_repr s (to_be_repr N n) = n"
proof -
  have pos: "(0 :: int) \<le> n mod 2 ^ (8 * N)" and less: "n mod 2 ^ (8 * N) < 2 ^ (8 * N)"
    by simp_all
  then have "nat (n mod 2 ^ (8 * N)) < 256 ^ N"
    by (simp add: pow_256 nat_less_iff)
  then have val: "int (from_be_bytes (to_be_repr N n)) = n mod 2 ^ (8 * N)"
    by (simp add: to_be_repr_def)
  have dbl: "(2 :: int) ^ (8 * N) = 2 * 2 ^ (8 * N - 1)"
    using assms(2) by (simp flip: power_Suc)
  show ?thesis
  proof (cases "0 \<le> n")
    case True
    with assms dbl have "n mod 2 ^ (8 * N) = n"
      by (auto simp: repr_range_def split: if_splits)
    with val assms True show ?thesis
      by (auto simp: from_be_repr_def repr_range_def to_be_repr_def split: if_splits)
  next
    case False
    with assms have s: s and low: "- (2 ^ (8 * N - 1)) \<le> n"
      by (auto simp: repr_range_def split: if_splits)
    have "n mod 2 ^ (8 * N) = n + 2 ^ (8 * N)"
      using False low dbl mod_pos_pos_trivial [of "n + 2 ^ (8 * N)" "2 ^ (8 * N)"] by simp
    with val s low dbl show ?thesis
      by (auto simp: from_be_repr_def to_be_repr_def Let_def)
  qed
qed

lemma to_from_be_repr:
  assumes "length bs = N"
  shows "to_be_repr N (from_be_repr s bs) = bs"
proof -
  have less: "int (from_be_bytes bs) < 2 ^ (8 * N)"
    using from_be_bytes_less [of bs] assms pow_256 [of N] by (simp add: nat_less_iff)
  have "from_be_repr s bs mod 2 ^ (8 * N) = int (from_be_bytes bs)"
    using less assms by (auto simp: from_be_repr_def Let_def)
  then show ?thesis
    using assms by (simp add: to_be_repr_def)
qed

lemma tpm_enum_codec_ok [codec_intros]:
  assumes "0 < N" "N \<le> u16_max" "distinct (map enum_val_value variants)"
    and "list_all (\<lambda>e. repr_range N s (enum_val_value e)) variants"
  shows "wire_field (tpm_enum_codec N s variants)"
proof (rule wire_fieldI_same)
  have try_from: "enum_try_from enum_val_value variants (enum_val_value e) = Ok e"
    if "e \<in> set variants" for e
    using find_distinct [OF that assms(3)] by (simp add: enum_try_from_def)
  have try_sound: "e \<in> set variants \<and> enum_val_value e = n"
    if "enum_try_from enum_val_value variants n = Ok e" for e n
    using that find_Some_imp by (fastforce simp: enum_try_from_def split: option.splits)
  have try_err: "offset e = 0" if "enum_try_from enum_val_value variants n = Err e" for e n
    using that by (auto simp: enum_try_from_def split: option.splits)
  have try_no_panic: "enum_try_from enum_val_value variants n \<noteq> Panic" for n
    by (simp add: enum_try_from_def split: option.splits)
  have range: "repr_range N s (enum_val_value e)" if "e \<in> set variants" for e
    using that assms(4) by (auto simp: list_all_iff)
  let ?enc = "\<lambda>v. case v of VEnum e \<Rightarrow> to_be_repr N (enum_val_value e) | _ \<Rightarrow> []"
  have len: "length (to_be_repr N n) = N" for n
    by (simp add: to_be_repr_def)
  show "wire_codec (tpm_enum_codec N s variants)"
  proof (rule wire_codecI [where enc = ?enc])
    show "decoder (valid (tpm_enum_codec N s variants)) ?enc
            (unmarshal (tpm_enum_codec N s variants))"
    proof
      fix v r assume "valid (tpm_enum_codec N s variants) v"
      then show "unmarshal (tpm_enum_codec N s variants) (?enc v @ r) = Ok (v, r)"
        using assms(1) try_from range
        by (auto simp: tpm_enum_codec_def tpm_enum_field_def len from_to_be_repr split: val.splits)
    next
      fix b v r assume "unmarshal (tpm_enum_codec N s variants) b = Ok (v, r)"
      then show "valid (tpm_enum_codec N s variants) v \<and> b = ?enc v @ r"
        by (auto simp: tpm_enum_codec_def tpm_enum_field_def TpmWireBytes_cast_prefix_Ok_iff
            to_from_be_repr dest!: try_sound)
    qed (auto simp: tpm_enum_codec_def tpm_enum_field_def and_then_Panic_iff and_then_Err_iff
        try_no_panic dest!: try_err TpmWireBytes_cast_prefix_Err)
  qed (use assms(2) len in \<open>auto simp: tpm_enum_codec_def split: val.splits\<close>)
qed (simp add: tpm_enum_codec_def)

lemma tpm_bitflags_ok [codec_intros]: "N \<le> u16_max \<Longrightarrow> wire_field (tpm_bitflags N)"
proof (rule wire_fieldI_same)
  let ?enc = "\<lambda>v. case v of VBits n \<Rightarrow> to_be_bytes N n | _ \<Rightarrow> []"
  assume N: "N \<le> u16_max"
  show "wire_codec (tpm_bitflags N)"
  proof (rule wire_codecI [where enc = ?enc])
    show "decoder (valid (tpm_bitflags N)) ?enc (unmarshal (tpm_bitflags N))"
    proof
      fix b v r assume "unmarshal (tpm_bitflags N) b = Ok (v, r)"
      then show "valid (tpm_bitflags N) v \<and> b = ?enc v @ r"
        using from_be_bytes_less
        by (fastforce simp: tpm_bitflags_def tpm_bitflags_field_def
            TpmWireBytes_cast_prefix_Ok_iff)
    qed (auto simp: tpm_bitflags_def tpm_bitflags_field_def and_then_Panic_iff and_then_Err_iff
        dest!: TpmWireBytes_cast_prefix_Err split: val.splits)
  qed (use N in \<open>auto simp: tpm_bitflags_def split: val.splits\<close>)
qed (simp add: tpm_bitflags_def)

lemma single_byte:
  "length h = Suc 0 \<Longrightarrow> h = [word_of_nat (from_be_bytes h)]"
  by (cases h) (simp_all add: from_be_bytes_def)

lemma tpm_bool_ok [codec_intros]: "wire_field tpm_bool"
proof (rule wire_fieldI_same)
  let ?enc = "\<lambda>v. case v of VBool x \<Rightarrow> to_be_bytes 1 (if x then 1 else 0) | _ \<Rightarrow> []"
  show "wire_codec tpm_bool"
  proof (rule wire_codecI [where enc = ?enc])
    show "decoder (valid tpm_bool) ?enc (unmarshal tpm_bool)"
    proof
      fix b v r assume "unmarshal tpm_bool b = Ok (v, r)"
      then show "valid tpm_bool v \<and> b = ?enc v @ r"
        by (auto simp: tpm_bool_def tpm_bool_field_def TpmWireBytes_cast_prefix_Ok_iff Let_def
            split: if_splits dest: single_byte)
    qed (auto simp: tpm_bool_def tpm_bool_field_def and_then_Panic_iff and_then_Err_iff Let_def
        TpmWireBytes_cast_prefix_eq split: val.splits if_splits)
  qed (auto simp: tpm_bool_def u16_max_def split: val.splits)
qed (simp add: tpm_bool_def)

subsection \<open>Buffers\<close>

lemma Tpm2b_cast_prefix_eq:
  assumes "CAPACITY \<le> u16_max"
  shows "Tpm2b_cast_prefix CAPACITY buf =
    (if length buf < 2 then Err (UnexpectedEnd 0 2 (length buf))
     else if Tpm2b_read_size buf > CAPACITY
     then Err (TooManyBytes 0 CAPACITY (Tpm2b_read_size buf))
     else if length buf < 2 + Tpm2b_read_size buf
     then Err (UnexpectedEnd 2 (Tpm2b_read_size buf) (length buf - 2))
     else Ok (take (2 + Tpm2b_read_size buf) buf, drop (2 + Tpm2b_read_size buf) buf))"
  using assms
  by (simp add: Tpm2b_cast_prefix_def Tpm2b_validate_prefix_def Let_def usize_max_def u16_max_def)

lemma Tpm2b_read_size_append [simp]:
  "n < 65536 \<Longrightarrow> Tpm2b_read_size (to_be_bytes 2 n @ r) = n"
  by (simp add: Tpm2b_read_size_def)

lemma TpmBuffer_try_from_eq:
  "\<lbrakk>length d \<le> CAPACITY; CAPACITY \<le> u16_max\<rbrakk> \<Longrightarrow> TpmBuffer_try_from CAPACITY d = Ok d"
  by (simp add: TpmBuffer_try_from_def TpmBuffer_try_extend_from_slice_def checked_add_def
      u16_max_def usize_max_def)

definition buffer_enc :: "val \<Rightarrow> u8 list" where
  "buffer_enc v = (case v of VBuffer d \<Rightarrow> to_be_bytes 2 (length d) @ d | _ \<Rightarrow> [])"

lemma sized_prefix:
  assumes "2 \<le> length b"
  shows "to_be_bytes 2 (Tpm2b_read_size b) @ take n (drop 2 b) @ drop (2 + n) b = b"
proof -
  have "take n (drop 2 b) @ drop (2 + n) b = drop 2 b"
    using append_take_drop_id [of n "drop 2 b"] by (simp add: add.commute)
  then show ?thesis
    using assms by (simp add: Tpm2b_read_size_def)
qed

lemma TpmBuffer_valid_iff:
  "valid (TpmBuffer CAPACITY) v \<longleftrightarrow>
   (\<exists>d. v = VBuffer d \<and> length d \<le> CAPACITY \<and> length d \<le> u16_max)"
  by (auto simp: TpmBuffer_def split: val.splits)

lemma TpmBuffer_unmarshal_eq:
  assumes "CAPACITY \<le> u16_max"
  shows "unmarshal (TpmBuffer CAPACITY) buf =
    (if length buf < 2 then Err (UnexpectedEnd 0 2 (length buf))
     else if Tpm2b_read_size buf > CAPACITY
     then Err (TooManyBytes 0 CAPACITY (Tpm2b_read_size buf))
     else if length buf < 2 + Tpm2b_read_size buf
     then Err (UnexpectedEnd 2 (Tpm2b_read_size buf) (length buf - 2))
     else Ok (VBuffer (take (Tpm2b_read_size buf) (drop 2 buf)),
              drop (2 + Tpm2b_read_size buf) buf))"
  using assms
  by (auto simp: TpmBuffer_def Tpm2b_cast_prefix_eq Tpm2b_data_def TpmBuffer_try_from_eq drop_take)

lemma TpmBuffer_cast_eq:
  "cast_prefix (TpmBuffer CAPACITY) buf =
   and_then (Tpm2b_cast_prefix CAPACITY buf) (\<lambda>(w, r). Ok (VWire w, r))"
  by (simp add: TpmBuffer_def)

lemma TpmBuffer_ok [codec_intros]:
  assumes "CAPACITY + 2 \<le> u16_max"
  shows "wire_field (TpmBuffer CAPACITY)"
proof -
  from assms have cap: "CAPACITY \<le> u16_max" by simp
  have "wire_codec (TpmBuffer CAPACITY)"
  proof (rule wire_codecI [where enc = buffer_enc])
    show "decoder (valid (TpmBuffer CAPACITY)) buffer_enc (unmarshal (TpmBuffer CAPACITY))"
    proof
      fix v r assume "valid (TpmBuffer CAPACITY) v"
      then show "unmarshal (TpmBuffer CAPACITY) (buffer_enc v @ r) = Ok (v, r)"
        using assms
        by (auto simp: TpmBuffer_valid_iff TpmBuffer_unmarshal_eq [OF cap] buffer_enc_def
            u16_max_def)
    next
      fix b v r assume "unmarshal (TpmBuffer CAPACITY) b = Ok (v, r)"
      then show "valid (TpmBuffer CAPACITY) v \<and> b = buffer_enc v @ r"
        using cap sized_prefix [of b "Tpm2b_read_size b"]
        by (auto simp: TpmBuffer_valid_iff TpmBuffer_unmarshal_eq [OF cap] buffer_enc_def
            min_absorb2 split: if_splits)
    qed (auto simp: TpmBuffer_unmarshal_eq [OF cap] split: if_splits)
  next
    fix v assume "valid (TpmBuffer CAPACITY) v"
    then show "emits (marshal (TpmBuffer CAPACITY) v) (buffer_enc v)"
      by (auto simp: TpmBuffer_def buffer_enc_def split: val.splits)
  qed (use assms in \<open>auto simp: TpmBuffer_def buffer_enc_def split: val.splits\<close>)
  then show ?thesis
    by (rule wire_field.intro, unfold_locales)
      (auto simp: TpmBuffer_unmarshal_eq [OF cap] Tpm2b_cast_prefix_eq [OF cap]
        TpmBuffer_cast_eq and_then_Panic_iff and_then_Err_iff split: if_splits)
qed

subsection \<open>Lists\<close>

lemma list_enc_emits:
  "(\<And>x. x \<in> set xs \<Longrightarrow> emits (m x) (enc x)) \<Longrightarrow> emits (marshal_items m xs) (concat (map enc xs))"
  by (induction xs) auto

text \<open>The skipping loops of the casts follow the decoding loops, item by item.\<close>

definition tracks :: "val decode \<Rightarrow> 'a decode \<Rightarrow> bool" where
  "tracks cast dec \<longleftrightarrow> (\<forall>b. length b \<le> usize_max \<longrightarrow>
     (\<forall>r. (\<exists>w. cast b = Ok (w, r)) \<longleftrightarrow> (\<exists>v. dec b = Ok (v, r))) \<and>
     cast b \<noteq> Panic \<and> (\<forall>e. cast b = Err e \<longrightarrow> offset e \<le> length b))"

lemma tracks_cases:
  assumes "tracks cast dec" "length b \<le> usize_max"
  obtains w v r where "cast b = Ok (w, r)" "dec b = Ok (v, r)"
  | e where "cast b = Err e" "offset e \<le> length b" "\<nexists>x. dec b = Ok x"
  using assms unfolding tracks_def by (cases "cast b") (auto, metis+)

lemma wire_field_tracks: "wire_field c \<Longrightarrow> tracks (cast_prefix c) (unmarshal c)"
  unfolding tracks_def wire_field_def wire_field_axioms_def by blast

lemma wire_fieldI:
  "\<lbrakk>wire_codec c; tracks (cast_prefix c) (unmarshal c)\<rbrakk> \<Longrightarrow> wire_field c"
  unfolding tracks_def wire_field_def wire_field_axioms_def by blast

lemma advance_Ok:
  "\<lbrakk>b = p @ t; consumed + length p \<le> usize_max\<rbrakk> \<Longrightarrow> advance consumed b t = Ok (consumed + length p)"
  by (simp add: advance_def)

context decoder
begin

lemma unmarshal_items_enc:
  "\<lbrakk>list_all V xs; length acc + length xs \<le> CAPACITY\<rbrakk> \<Longrightarrow>
    unmarshal_items dec CAPACITY (length xs) acc (concat (map enc xs) @ r) = Ok (acc @ xs, r)"
proof (induction xs arbitrary: acc)
  case (Cons x xs)
  from Cons show ?case
    by (simp add: dec_enc TpmList_try_push_def del: and_then_Ok_iff)
qed simp

lemma unmarshal_items_sound:
  "unmarshal_items dec CAPACITY n acc b = Ok (ys, r) \<Longrightarrow>
    \<exists>xs. ys = acc @ xs \<and> length xs = n \<and> list_all V xs \<and> b = concat (map enc xs) @ r"
proof (induction n arbitrary: acc b)
  case (Suc n)
  from Suc.prems obtain x tail where x: "V x" "b = enc x @ tail"
    and rest: "unmarshal_items dec CAPACITY n (acc @ [x]) tail = Ok (ys, r)"
    by (auto simp: TpmList_try_push_def dec_iff split: if_splits)
  from Suc.IH [OF rest] obtain xs where
    "ys = (acc @ [x]) @ xs" "length xs = n" "list_all V xs" "tail = concat (map enc xs) @ r"
    by blast
  with x show ?case
    by (intro exI [of _ "x # xs"]) simp
qed simp

lemma unmarshal_items_total:
  "length acc + n \<le> CAPACITY \<Longrightarrow>
    unmarshal_items dec CAPACITY n acc b \<noteq> Panic \<and>
    (unmarshal_items dec CAPACITY n acc b = Err e \<longrightarrow> offset e \<le> length b)"
proof (induction n arbitrary: acc b)
  case (Suc n)
  show ?case
  proof (rule dec_cases [of b])
    fix x tail assume x: "dec b = Ok (x, tail)" "b = enc x @ tail"
    from Suc.prems have "length (acc @ [x]) + n \<le> CAPACITY" by simp
    from Suc.IH [OF this, of tail] show ?thesis
      using x(1) Suc.prems unfolding x(2) by (auto simp: TpmList_try_push_def)
  qed auto
qed simp

lemma skip_items_tracks:
  assumes "tracks cast dec"
  shows "\<lbrakk>consumed + length b \<le> usize_max; length acc + n \<le> CAPACITY\<rbrakk> \<Longrightarrow>
    (\<exists>xs r. unmarshal_items dec CAPACITY n acc b = Ok (xs, r) \<and>
            Tpml_skip_items cast n consumed b = Ok (consumed + (length b - length r)) \<and>
            length r \<le> length b) \<or>
    ((\<nexists>x. unmarshal_items dec CAPACITY n acc b = Ok x) \<and>
     (\<exists>e. Tpml_skip_items cast n consumed b = Err e \<and> offset e \<le> length b))"
proof (induction n arbitrary: acc b consumed)
  case (Suc n)
  from Suc.prems have "length b \<le> usize_max" by simp
  from assms this show ?case
  proof (cases rule: tracks_cases)
    case (1 w v r)
    then have b: "b = enc v @ r"
      using dec_sound by blast
    with Suc.prems have "consumed + length (enc v) + length r \<le> usize_max"
      and "length (acc @ [v]) + n \<le> CAPACITY"
      by simp_all
    note IH = Suc.IH [OF this]
    have adv: "advance consumed b r = Ok (consumed + length (enc v))"
      using Suc.prems b by (intro advance_Ok) auto
    show ?thesis
      using IH 1 adv Suc.prems b by (auto simp: TpmList_try_push_def)
  next
    case (2 e)
    then show ?thesis
      by auto
  qed
qed simp

end

definition list_enc :: "codec \<Rightarrow> val \<Rightarrow> u8 list" where
  "list_enc c v = (case v of
     VList xs \<Rightarrow> to_be_bytes 4 (length xs) @ concat (map (encode c) xs) | _ \<Rightarrow> [])"

lemma TpmList_valid_iff:
  "valid (TpmList c CAPACITY) v \<longleftrightarrow>
   (\<exists>xs. v = VList xs \<and> length xs \<le> CAPACITY \<and> list_all (valid c) xs)"
  by (auto simp: TpmList_def split: val.splits)

lemma TpmList_unmarshal_iff:
  "unmarshal (TpmList c CAPACITY) = TpmList_unmarshal (unmarshal c) CAPACITY"
  by (simp add: TpmList_def)

lemma TpmList_unmarshal_eq:
  "unmarshal (TpmList c CAPACITY) b =
     (if length b < 4 then Err (UnexpectedEnd 0 4 (length b))
      else if Tpml_read_count b > CAPACITY
      then Err (TooManyItems 0 CAPACITY (Tpml_read_count b))
      else and_then (unmarshal_items (unmarshal c) CAPACITY (Tpml_read_count b) [] (drop 4 b))
             (\<lambda>(xs, t). Ok (VList xs, t)))"
  by (simp add: TpmList_unmarshal_iff TpmList_unmarshal_def Let_def TpmWireBytes_cast_prefix_eq
      Tpml_read_count_def)

context wire_codec
begin

lemma TpmList_ok:
  assumes "4 + SIZE c * CAPACITY \<le> u16_max" "CAPACITY \<le> u16_max"
  shows "wire_codec (TpmList c CAPACITY)"
proof (rule wire_codecI [where enc = "list_enc c"])
  have u32: "n \<le> CAPACITY \<Longrightarrow> from_be_bytes (to_be_bytes 4 n) = n" for n :: nat
    using assms(2) by (simp add: u16_max_def)
  show "decoder (valid (TpmList c CAPACITY)) (list_enc c) (unmarshal (TpmList c CAPACITY))"
  proof
    fix v r assume "valid (TpmList c CAPACITY) v"
    then obtain xs where v: "v = VList xs" "length xs \<le> CAPACITY" "list_all (valid c) xs"
      by (auto simp: TpmList_valid_iff)
    with unmarshal_items_enc [OF v(3), of "[]" CAPACITY r]
    show "unmarshal (TpmList c CAPACITY) (list_enc c v @ r) = Ok (v, r)"
      by (simp add: TpmList_unmarshal_iff TpmList_unmarshal_def list_enc_def u32 Let_def)
  next
    fix b v r assume "unmarshal (TpmList c CAPACITY) b = Ok (v, r)"
    then obtain h t xs where h: "b = h @ t" "length h = 4" "from_be_bytes h \<le> CAPACITY"
      and items: "unmarshal_items (unmarshal c) CAPACITY (from_be_bytes h) [] t = Ok (xs, r)"
      and v: "v = VList xs"
      by (auto simp: TpmList_unmarshal_iff TpmList_unmarshal_def Let_def
          TpmWireBytes_cast_prefix_Ok_iff split: if_splits)
    from unmarshal_items_sound [OF items] h v
    show "valid (TpmList c CAPACITY) v \<and> b = list_enc c v @ r"
      by (auto simp: TpmList_valid_iff list_enc_def)
  next
    fix b e
    have tot: "Tpml_read_count b \<le> CAPACITY \<Longrightarrow>
        unmarshal_items (unmarshal c) CAPACITY (Tpml_read_count b) [] (drop 4 b) \<noteq> Panic \<and>
        (unmarshal_items (unmarshal c) CAPACITY (Tpml_read_count b) [] (drop 4 b) = Err e \<longrightarrow>
         offset e \<le> length (drop 4 b))" for b e
      using unmarshal_items_total [of "[]" "Tpml_read_count b" CAPACITY "drop 4 b" e]
      by simp
    show "unmarshal (TpmList c CAPACITY) b \<noteq> Panic"
      using tot by (auto simp: TpmList_unmarshal_eq and_then_Panic_iff)
    show "offset e \<le> length b" if "unmarshal (TpmList c CAPACITY) b = Err e"
      using that tot [of b e] by (auto simp: TpmList_unmarshal_eq and_then_Err_iff split: if_splits)
  qed
  fix v assume v: "valid (TpmList c CAPACITY) v"
  then obtain xs where xs: "v = VList xs" "length xs \<le> CAPACITY" "list_all (valid c) xs"
    by (auto simp: TpmList_valid_iff)
  show "emits (marshal (TpmList c CAPACITY) v) (list_enc c v)"
    using xs assms(2) marshal_emits
    by (auto simp: TpmList_def list_enc_def list_all_iff u16_max_def u32_max_def
        intro!: emits_wseq list_enc_emits)
  show "length (list_enc c v) = wire_len (TpmList c CAPACITY) v"
    using xs length_encode
    by (auto simp: TpmList_def list_enc_def list_all_iff length_concat comp_def
        intro!: arg_cong [of _ _ sum_list])
  have "sum_list (map (wire_len c) xs) \<le> length xs * SIZE c"
    using xs len_le_SIZE by (intro sum_list_le_length_mult) (auto simp: list_all_iff)
  also have "\<dots> \<le> SIZE c * CAPACITY"
    using xs(2) by simp
  finally show "wire_len (TpmList c CAPACITY) v \<le> SIZE (TpmList c CAPACITY)"
    by (simp add: xs TpmList_def)
qed (use assms(1) in \<open>simp add: TpmList_def\<close>)

end

context wire_field
begin

lemma TpmList_field_ok:
  assumes "4 + SIZE c * CAPACITY \<le> u16_max" "CAPACITY \<le> u16_max"
  shows "wire_field (TpmList c CAPACITY)"
proof (rule wire_fieldI)
  show "wire_codec (TpmList c CAPACITY)"
    using assms by (rule TpmList_ok)
  show "tracks (cast_prefix (TpmList c CAPACITY)) (unmarshal (TpmList c CAPACITY))"
    unfolding tracks_def
  proof (intro allI impI)
    fix b :: "u8 list" assume b: "length b \<le> usize_max"
    show "(\<forall>r. (\<exists>w. cast_prefix (TpmList c CAPACITY) b = Ok (w, r)) \<longleftrightarrow>
               (\<exists>v. unmarshal (TpmList c CAPACITY) b = Ok (v, r))) \<and>
          cast_prefix (TpmList c CAPACITY) b \<noteq> Panic \<and>
          (\<forall>e. cast_prefix (TpmList c CAPACITY) b = Err e \<longrightarrow> offset e \<le> length b)"
    proof (cases "length b < 4 \<or> Tpml_read_count b > CAPACITY")
      case True
      then show ?thesis
        by (auto simp: TpmList_def Tpml_cast_field_def Tpml_validate_header_def Let_def
            TpmList_unmarshal_def TpmWireBytes_cast_prefix_eq Tpml_read_count_def
            split: if_splits)
    next
      case False
      have len: "4 + length (drop 4 b) \<le> usize_max" and n: "length [] + Tpml_read_count b \<le> CAPACITY"
        using b False by auto
      note sk = skip_items_tracks [OF wire_field_tracks [OF wire_field_axioms] len n]
      have cast: "cast_prefix (TpmList c CAPACITY) b =
          and_then (Tpml_skip_items (cast_prefix c) (Tpml_read_count b) 4 (drop 4 b)) (\<lambda>consumed.
            and_then (split_at consumed b) (\<lambda>(h, t). Ok (VWire h, t)))"
        using False by (simp add: TpmList_def Tpml_cast_field_def Tpml_validate_header_def)
      have dec: "unmarshal (TpmList c CAPACITY) b =
          and_then (unmarshal_items (unmarshal c) CAPACITY (Tpml_read_count b) [] (drop 4 b))
            (\<lambda>(xs, t). Ok (VList xs, t))"
        using False by (simp add: TpmList_unmarshal_eq)
      from sk show ?thesis
      proof (elim disjE exE conjE)
        fix xs r
        assume items: "unmarshal_items (unmarshal c) CAPACITY (Tpml_read_count b) [] (drop 4 b)
            = Ok (xs, r)"
          and skip: "Tpml_skip_items (cast_prefix c) (Tpml_read_count b) 4 (drop 4 b)
            = Ok (4 + (length (drop 4 b) - length r))"
        from unmarshal_items_sound [OF items] obtain p where "drop 4 b = p @ r"
          by auto
        then have "b = (take 4 b @ p) @ r" and "4 + (length (drop 4 b) - length r) = length (take 4 b @ p)"
          using False append_take_drop_id [of 4 b] by (simp_all add: min_absorb2)
        then have "split_at (4 + (length (drop 4 b) - length r)) b = Ok (take 4 b @ p, r)"
          by (simp only: split_at_Ok_iff)
        then show ?thesis
          using items skip by (simp add: cast dec)
      next
        fix e
        assume "\<nexists>x. unmarshal_items (unmarshal c) CAPACITY (Tpml_read_count b) [] (drop 4 b) = Ok x"
          "Tpml_skip_items (cast_prefix c) (Tpml_read_count b) 4 (drop 4 b) = Err e"
          "offset e \<le> length (drop 4 b)"
        then show ?thesis
          by (auto simp: cast dec)
      qed
    qed
  qed
qed

end

declare wire_field.TpmList_field_ok [codec_intros]

subsection \<open>Structures\<close>

fun fields_enc :: "fields \<Rightarrow> val list \<Rightarrow> u8 list" where
  "fields_enc ((_, c) # fs) (v # vs) = encode c v @ fields_enc fs vs"
| "fields_enc _ _ = []"

abbreviation codecs_ok :: "fields \<Rightarrow> bool" where
  "codecs_ok fs \<equiv> list_all (\<lambda>(_, c). wire_codec c) fs"

abbreviation fields_ok :: "fields \<Rightarrow> bool" where
  "fields_ok fs \<equiv> list_all (\<lambda>(_, c). wire_field c) fs"

lemma fields_ok_codecs: "fields_ok fs \<Longrightarrow> codecs_ok fs"
  by (auto simp: list_all_iff wire_field_def)

lemma fields_marshal_emits:
  "\<lbrakk>codecs_ok fs; fields_valid fs vs\<rbrakk> \<Longrightarrow> emits (fields_marshal fs vs) (fields_enc fs vs)"
  by (induction fs vs rule: fields_valid.induct) (auto intro: wire_codec.marshal_emits)

lemma length_fields_enc:
  "\<lbrakk>codecs_ok fs; fields_valid fs vs\<rbrakk> \<Longrightarrow> length (fields_enc fs vs) = fields_len fs vs"
  by (induction fs vs rule: fields_valid.induct) (auto simp: wire_codec.length_encode)

lemma fields_len_le:
  "\<lbrakk>codecs_ok fs; fields_valid fs vs\<rbrakk> \<Longrightarrow> fields_len fs vs \<le> fields_SIZE fs"
  by (induction fs vs rule: fields_valid.induct)
     (auto simp: fields_SIZE_def intro!: add_mono wire_codec.len_le_SIZE)

lemma fields_unmarshal_enc:
  "\<lbrakk>codecs_ok fs; fields_valid fs vs; length (fields_enc fs vs @ r) \<le> start\<rbrakk> \<Longrightarrow>
   fields_unmarshal start fs (fields_enc fs vs @ r) = Ok (vs, r)"
proof (induction fs vs rule: fields_valid.induct)
  case (2 n c fs v vs)
  then show ?case
    by (simp add: codec_dec_enc del: and_then_Ok_iff)
qed simp_all

lemma fields_unmarshal_sound:
  "\<lbrakk>codecs_ok fs; fields_unmarshal start fs b = Ok (vs, r)\<rbrakk> \<Longrightarrow>
   fields_valid fs vs \<and> b = fields_enc fs vs @ r"
proof (induction start fs b arbitrary: vs rule: fields_unmarshal.induct)
  case (2 start n c fs b)
  then show ?case
    by (fastforce simp: codec_dec_iff)
qed simp

lemma fields_unmarshal_total:
  "\<lbrakk>codecs_ok fs; length b \<le> start\<rbrakk> \<Longrightarrow>
   fields_unmarshal start fs b \<noteq> Panic \<and>
   (fields_unmarshal start fs b = Err e \<longrightarrow> offset e \<le> start)"
proof (induction fs arbitrary: b)
  case (Cons f fs)
  obtain n c where f: "f = (n, c)"
    by (cases f)
  with Cons.prems have "wire_codec c" by simp
  then show ?case
  proof (rule codec_dec_cases [of _ b])
    fix v r assume v: "unmarshal c b = Ok (v, r)" "b = encode c v @ r"
    with Cons.prems have "codecs_ok fs" "length r \<le> start" by auto
    from Cons.IH [OF this] v(1) Cons.prems f show ?thesis
      by (auto simp: and_then_Panic_iff and_then_Err_iff)
  next
    fix d assume d: "unmarshal c b = Err d" "offset d \<le> length b"
    with Cons.prems have "offset (rebase (start - length b) d) \<le> start"
      by (intro offset_rebase_le) simp
    with d Cons.prems f show ?thesis
      by auto
  qed
qed simp

lemma fields_decoder:
  assumes "codecs_ok fs"
  shows "decoder (fields_valid fs) (fields_enc fs) (\<lambda>b. fields_unmarshal (length b) fs b)"
proof
  show "fields_unmarshal (length (fields_enc fs vs @ r)) fs (fields_enc fs vs @ r) = Ok (vs, r)"
    if "fields_valid fs vs" for vs r
    using assms that order_refl by (rule fields_unmarshal_enc)
qed (use fields_unmarshal_sound [OF assms] fields_unmarshal_total [OF assms order_refl] in blast)+

lemma fields_validate_tracks:
  "\<lbrakk>fields_ok fs; consumed + length b \<le> usize_max; length b \<le> start\<rbrakk> \<Longrightarrow>
   (\<exists>vs r. fields_unmarshal start fs b = Ok (vs, r) \<and> length r \<le> length b \<and>
           fields_validate_prefix fs consumed b = Ok (consumed + (length b - length r))) \<or>
   ((\<nexists>x. fields_unmarshal start fs b = Ok x) \<and>
    (\<exists>e. fields_validate_prefix fs consumed b = Err e \<and> offset e \<le> length b))"
proof (induction fs arbitrary: consumed b)
  case (Cons f fs)
  obtain n c where f: "f = (n, c)"
    by (cases f)
  with Cons.prems have c: "wire_field c" by simp
  from Cons.prems have "length b \<le> usize_max" by simp
  with wire_field_tracks [OF c] show ?case
  proof (cases rule: tracks_cases)
    case (1 w v r)
    then have b: "b = encode c v @ r"
      using codec_dec_sound [OF wire_field_codec [OF c]] by blast
    with Cons.prems have "fields_ok fs" "consumed + length (encode c v) + length r \<le> usize_max"
      "length r \<le> start"
      by simp_all
    note IH = Cons.IH [OF this]
    have "advance consumed b r = Ok (consumed + length (encode c v))"
      using Cons.prems b by (intro advance_Ok) auto
    with IH 1 Cons.prems b f show ?thesis
      by auto
  qed (use f in auto)
qed simp

lemma tpm_struct_valid_iff:
  "valid (tpm_struct fs) v \<longleftrightarrow> (\<exists>vs. v = VStruct vs \<and> fields_valid fs vs)"
  by (auto simp: tpm_struct_def split: val.splits)

lemma tpm_struct_ok:
  assumes "codecs_ok fs" "fields_SIZE fs \<le> u16_max"
  shows "wire_codec (tpm_struct fs)"
proof (rule wire_codecI [where enc = "\<lambda>v. case v of VStruct vs \<Rightarrow> fields_enc fs vs | _ \<Rightarrow> []"])
  note fd = fields_decoder [OF assms(1)]
  show "decoder (valid (tpm_struct fs)) (\<lambda>v. case v of VStruct vs \<Rightarrow> fields_enc fs vs | _ \<Rightarrow> [])
      (unmarshal (tpm_struct fs))"
    by unfold_locales
       (auto simp: tpm_struct_def and_then_Panic_iff and_then_Err_iff decoder.dec_enc [OF fd]
         decoder.dec_no_panic [OF fd] simp del: length_append
         dest: decoder.dec_sound [OF fd] decoder.dec_offset [OF fd] split: val.splits)
qed (use assms in \<open>auto simp: tpm_struct_def fields_marshal_emits length_fields_enc
       fields_len_le split: val.splits\<close>)

lemma tpm_struct_field_ok [codec_intros]:
  assumes "fields_ok fs" "fields_SIZE fs \<le> u16_max"
  shows "wire_field (tpm_struct fs)"
proof (rule wire_fieldI)
  note cs = fields_ok_codecs [OF assms(1)]
  show "wire_codec (tpm_struct fs)"
    using cs assms(2) by (rule tpm_struct_ok)
  note fd = fields_decoder [OF cs]
  show "tracks (cast_prefix (tpm_struct fs)) (unmarshal (tpm_struct fs))"
    unfolding tracks_def
  proof (intro allI impI)
    fix b :: "u8 list" assume "length b \<le> usize_max"
    then have "0 + length b \<le> usize_max" by simp
    from fields_validate_tracks [OF assms(1) this order_refl]
    show "(\<forall>r. (\<exists>w. cast_prefix (tpm_struct fs) b = Ok (w, r)) \<longleftrightarrow>
               (\<exists>v. unmarshal (tpm_struct fs) b = Ok (v, r))) \<and>
          cast_prefix (tpm_struct fs) b \<noteq> Panic \<and>
          (\<forall>e. cast_prefix (tpm_struct fs) b = Err e \<longrightarrow> offset e \<le> length b)"
    proof (elim disjE exE conjE)
      fix vs r
      assume u: "fields_unmarshal (length b) fs b = Ok (vs, r)"
        and v: "fields_validate_prefix fs 0 b = Ok (0 + (length b - length r))"
      from decoder.dec_sound [OF fd u] have "b = fields_enc fs vs @ r" by simp
      with u v show ?thesis
        by (simp add: tpm_struct_def wire_cast_prefix_def)
    qed (auto simp: tpm_struct_def wire_cast_prefix_def)
  qed
qed

subsection \<open>Sized wrappers\<close>

lemma tpm2b_struct_unmarshal_eq:
  "tpm2b_struct_unmarshal c b =
    (if length b < 2 then Err (UnexpectedEnd 0 2 (length b))
     else let n = Tpm2b_read_size b in
       if n > SIZE c then Err (TooManyBytes 2 (SIZE c) n)
       else if length b - 2 < n then Err (UnexpectedEnd 2 n (length b - 2))
       else and_then (map_err (rebase 2) (unmarshal c (take n (drop 2 b)))) (\<lambda>(inner, tail).
              if tail \<noteq> [] then Err (TrailingData (2 + (n - length tail)) (length tail))
              else Ok (inner, drop (2 + n) b)))"
  by (cases "unmarshal c (take (Tpm2b_read_size b) (drop 2 b))")
     (auto simp: tpm2b_struct_unmarshal_def TpmWireBytes_cast_prefix_eq Tpm2b_read_size_def Let_def)

lemma tpm2b_struct_cast_eq:
  "cast_prefix (tpm2b_struct c) b =
    (if length b < 2 then Err (UnexpectedEnd 0 2 (length b))
     else let n = Tpm2b_read_size b in
       if n > SIZE c then Err (TooManyBytes 2 (SIZE c) n)
       else if length b - 2 < n then Err (UnexpectedEnd 2 n (length b - 2))
       else and_then (cast_prefix c (take n (drop 2 b))) (\<lambda>(_, tail).
              if tail \<noteq> [] then Err (TrailingData (2 + (n - length tail)) (length tail))
              else Ok (VWire (take (2 + n) b), drop (2 + n) b)))"
  by (cases "cast_prefix c (take (Tpm2b_read_size b) (drop 2 b))")
     (auto simp: tpm2b_struct_def tpm2b_struct_validate_prefix_def TpmWireBytes_cast_prefix_eq
       Tpm2b_read_size_def Let_def)

context wire_codec
begin

lemma tpm2b_struct_ok:
  assumes "2 + SIZE c \<le> u16_max"
  shows "wire_codec (tpm2b_struct c)"
proof -
  let ?enc = "\<lambda>v. to_be_bytes 2 (wire_len c v) @ encode c v"
  have um: "unmarshal (tpm2b_struct c) = tpm2b_struct_unmarshal c"
    and vl: "valid (tpm2b_struct c) = valid c"
    by (simp_all add: tpm2b_struct_def)
  have size: "wire_len c v \<le> SIZE c" "wire_len c v < 65536" if "valid c v" for v
    using len_le_SIZE [OF that] assms by (simp_all add: u16_max_def)
  show ?thesis
  proof (rule wire_codecI [where enc = ?enc])
    show "decoder (valid (tpm2b_struct c)) ?enc (unmarshal (tpm2b_struct c))"
      unfolding um vl
    proof
      fix v r assume "valid c v"
      moreover from this have "unmarshal c (encode c v) = Ok (v, [])"
        using dec_enc [of v "[]"] by simp
      ultimately show "tpm2b_struct_unmarshal c (?enc v @ r) = Ok (v, r)"
        using size [of v] by (simp add: tpm2b_struct_unmarshal_eq length_encode Let_def
            not_less del: and_then_Ok_iff)
    next
      fix b v r assume "tpm2b_struct_unmarshal c b = Ok (v, r)"
      then have n: "2 + Tpm2b_read_size b \<le> length b" and v: "valid c v"
        and e: "take (Tpm2b_read_size b) (drop 2 b) = encode c v" "r = drop (2 + Tpm2b_read_size b) b"
        by (auto simp: tpm2b_struct_unmarshal_eq Let_def dec_iff split: if_splits)
      from e(1) n have "length (encode c v) = Tpm2b_read_size b"
        by (metis add_le_imp_le_diff length_drop length_take min.absorb2 add.commute)
      with v have "wire_len c v = Tpm2b_read_size b"
        by (simp add: length_encode)
      with sized_prefix [of b "Tpm2b_read_size b"] n v e
      show "valid c v \<and> b = ?enc v @ r"
        by simp
    next
      show "tpm2b_struct_unmarshal c b \<noteq> Panic" for b
        using dec_no_panic
        by (auto simp: tpm2b_struct_unmarshal_eq Let_def and_then_Panic_iff)
      fix b e assume err: "tpm2b_struct_unmarshal c b = Err e"
      let ?n = "Tpm2b_read_size b"
      show "offset e \<le> length b"
      proof (rule dec_cases [of "take ?n (drop 2 b)"])
        fix v t assume v: "unmarshal c (take ?n (drop 2 b)) = Ok (v, t)"
          and "take ?n (drop 2 b) = encode c v @ t"
        from arg_cong [OF this(2), of length] have "length t \<le> ?n"
          by simp
        with err v show ?thesis
          by (auto simp: tpm2b_struct_unmarshal_eq Let_def split: if_splits)
      next
        fix d assume d: "unmarshal c (take ?n (drop 2 b)) = Err d"
          "offset d \<le> length (take ?n (drop 2 b))"
        then have "2 + ?n \<le> length b \<Longrightarrow> offset (rebase 2 d) \<le> length b"
          by (intro offset_rebase_le) simp
        with err d(1) show ?thesis
          by (auto simp: tpm2b_struct_unmarshal_eq Let_def simp del: offset_rebase
              split: if_splits)
      qed
    qed
    fix v assume v: "valid (tpm2b_struct c) v"
    then have "wire_len c v \<le> u16_max"
      using size vl by (force simp: u16_max_def)
    with v marshal_emits [of v] show "emits (marshal (tpm2b_struct c) v) (?enc v)"
      by (auto simp: tpm2b_struct_def)
  qed (use assms length_encode len_le_SIZE in \<open>auto simp: tpm2b_struct_def\<close>)
qed

end

context wire_field
begin

lemma tpm2b_struct_field_ok:
  assumes "2 + SIZE c \<le> u16_max"
  shows "wire_field (tpm2b_struct c)"
proof (rule wire_fieldI)
  show "wire_codec (tpm2b_struct c)"
    using assms by (rule tpm2b_struct_ok)
  have um: "unmarshal (tpm2b_struct c) = tpm2b_struct_unmarshal c"
    by (simp add: tpm2b_struct_def)
  show "tracks (cast_prefix (tpm2b_struct c)) (unmarshal (tpm2b_struct c))"
    unfolding tracks_def um
  proof (intro allI impI)
    fix b :: "u8 list" assume b: "length b \<le> usize_max"
    let ?p = "take (Tpm2b_read_size b) (drop 2 b)"
    have "length ?p \<le> usize_max"
      using b by simp
    with wire_field_tracks [OF wire_field_axioms]
    show "(\<forall>r. (\<exists>w. cast_prefix (tpm2b_struct c) b = Ok (w, r)) \<longleftrightarrow>
               (\<exists>v. tpm2b_struct_unmarshal c b = Ok (v, r))) \<and>
          cast_prefix (tpm2b_struct c) b \<noteq> Panic \<and>
          (\<forall>e. cast_prefix (tpm2b_struct c) b = Err e \<longrightarrow> offset e \<le> length b)"
    proof (cases rule: tracks_cases)
      case (1 w v r)
      then have "length r \<le> length ?p"
        using dec_shorter by blast
      with 1 show ?thesis
        by (auto simp: tpm2b_struct_cast_eq tpm2b_struct_unmarshal_eq Let_def split: if_splits)
    next
      case (2 e)
      then show ?thesis
        by (auto simp: tpm2b_struct_cast_eq tpm2b_struct_unmarshal_eq Let_def split: if_splits)
    qed
  qed
qed

end

declare wire_field.tpm2b_struct_field_ok [codec_intros]

end
