(* ===== verification/Union_Laws.thy ===== *)
theory Union_Laws
  imports Codec_Laws
begin

text \<open>
  The contract of a tagged union and of the structures that carry one: \<open>wire_union u uenc\<close> holds of
  every union built by \<open>tpmu_view\<close> whose arms are lawful, and \<open>tpm_struct_tagged\<close> turns a lawful union
  and its selector into a lawful wire type.
\<close>

subsection \<open>Tagged unions\<close>

locale wire_union =
  fixes u :: tpmu and uenc :: "val \<Rightarrow> u8 list"
  assumes u_decoder: "decoder (\<lambda>v. u_valid u v \<and> matches_tag u v tag) uenc (unmarshal_tagged u tag)"
    and u_emits: "\<lbrakk>u_valid u v; matches_tag u v tag\<rbrakk> \<Longrightarrow> emits (u_marshal u v) (uenc v)"
    and u_length: "\<lbrakk>u_valid u v; matches_tag u v tag\<rbrakk> \<Longrightarrow> length (uenc v) = u_len u v"
    and u_le: "\<lbrakk>u_valid u v; matches_tag u v tag\<rbrakk> \<Longrightarrow> u_len u v \<le> u_SIZE u"
    and u_SIZE_le: "u_SIZE u \<le> 4096"
    and u_cast_iff: "length b \<le> usize_max \<Longrightarrow>
      (\<exists>w. cast_tagged u tag b = Ok (w, r)) \<longleftrightarrow> (\<exists>v. unmarshal_tagged u tag b = Ok (v, r))"
    and u_cast_no_panic: "length b \<le> usize_max \<Longrightarrow> cast_tagged u tag b \<noteq> Panic"
    and u_cast_offset:
      "\<lbrakk>length b \<le> usize_max; cast_tagged u tag b = Err e\<rbrakk> \<Longrightarrow> offset e \<le> length b"

definition bounded :: "codec \<Rightarrow> nat \<Rightarrow> bool" where
  "bounded c n \<longleftrightarrow> (\<forall>v. valid c v \<longrightarrow> wire_len c v \<le> n)"

lemma boundedD: "\<lbrakk>bounded c n; valid c v\<rbrakk> \<Longrightarrow> wire_len c v \<le> n"
  by (simp add: bounded_def)

lemma bounded_mono: "\<lbrakk>bounded c m; m \<le> n\<rbrakk> \<Longrightarrow> bounded c n"
  by (fastforce simp: bounded_def)

lemma bounded_SIZE: "wire_codec c \<Longrightarrow> SIZE c \<le> n \<Longrightarrow> bounded c n"
  using wire_codec.len_le_SIZE by (fastforce simp: bounded_def)

text \<open>Every tag selects at most one variant and variants have distinct names, as the patterns of a
  Rust \<open>match\<close> without unreachable arms and the variants of an \<open>enum\<close> do.\<close>

fun arm_tags :: "arm \<Rightarrow> val list" where
  "arm_tags (_, _, tags) = tags"

definition arms_ok :: "arm list \<Rightarrow> null_arm \<Rightarrow> bool" where
  "arms_ok arms null \<longleftrightarrow> distinct (map fst arms) \<and>
     distinct (concat (map arm_tags arms) @ (case null of None \<Rightarrow> [] | Some (_, tags) \<Rightarrow> tags))"

lemma arm_of_variant_iff:
  "distinct (map fst arms) \<Longrightarrow>
   arm_of_variant arms x = Some (c, tags) \<longleftrightarrow> (x, c, tags) \<in> set arms"
  by (induction arms x rule: arm_of_variant.induct) (auto simp: rev_image_eqI)

lemma arm_of_tag_iff:
  "distinct (concat (map arm_tags arms)) \<Longrightarrow>
   arm_of_tag arms tag = Some (x, c) \<longleftrightarrow> (\<exists>tags. (x, c, tags) \<in> set arms \<and> tag \<in> set tags)"
proof (induction arms tag rule: arm_of_tag.induct)
  case (2 n d ts arms tag)
  show ?case
  proof (cases "tag \<in> set ts")
    case True
    with "2.prems" have "\<forall>a \<in> set arms. tag \<notin> set (arm_tags a)"
      by auto
    with True show ?thesis
      by fastforce
  next
    case False
    with 2 show ?thesis
      by auto
  qed
qed simp

lemma null_selected_iff:
  "null_selected null tag = Some x \<longleftrightarrow> (\<exists>tags. null = Some (x, tags) \<and> tag \<in> set tags)"
  by (cases "(null, tag)" rule: null_selected.cases) auto

lemma arms_ok_disjoint:
  assumes "arms_ok arms null" "null_selected null tag = Some x"
  shows "arm_of_tag arms tag = None"
proof (cases "arm_of_tag arms tag")
  case (Some a)
  obtain y c where "a = (y, c)" by (cases a)
  with Some assms(1) obtain tags where "(y, c, tags) \<in> set arms" "tag \<in> set tags"
    by (auto simp: arm_of_tag_iff arms_ok_def)
  with assms show ?thesis
    by (fastforce simp: arms_ok_def null_selected_iff)
qed

fun union_enc :: "arm list \<Rightarrow> val \<Rightarrow> u8 list" where
  "union_enc arms (VUnion x (Some p)) =
     (case arm_of_variant arms x of Some (c, _) \<Rightarrow> encode c p | None \<Rightarrow> [])"
| "union_enc arms _ = []"

lemma tpmu_view_matches_iff:
  assumes "arms_ok arms null"
  shows "u_valid (tpmu_view n arms null) v \<and> matches_tag (tpmu_view n arms null) v tag \<longleftrightarrow>
    (\<exists>x c p. v = VUnion x (Some p) \<and> arm_of_tag arms tag = Some (x, c) \<and> valid c p \<and>
       (\<exists>tags. arm_of_variant arms x = Some (c, tags))) \<or>
    (\<exists>x. v = VUnion x None \<and> null_selected null tag = Some x)"
proof -
  from assms have d: "distinct (map fst arms)" "distinct (concat (map arm_tags arms))"
    by (auto simp: arms_ok_def)
  have tag_iff: "arm_of_tag arms tag = Some (x, c) \<longleftrightarrow>
      (\<exists>tags. arm_of_variant arms x = Some (c, tags) \<and> tag \<in> set tags)" for x c
    using d by (simp add: arm_of_tag_iff arm_of_variant_iff)
  show ?thesis
    by (auto simp: tpmu_view_def tpmu_matches_tag_def tag_iff null_selected_iff
        split: val.splits option.splits)
qed

lemma tpmu_view_ok [codec_intros]:
  assumes arms: "arms_ok arms null"
    and codecs: "list_all (\<lambda>(_, c, _). wire_field c \<and> bounded c n) arms" and n: "n \<le> 4096"
  shows "wire_union (tpmu_view n arms null) (union_enc arms)"
proof -
  let ?u = "tpmu_view n arms null"
  have um: "unmarshal_tagged ?u = tpmu_select unmarshal arms null"
    and ct: "cast_tagged ?u = tpmu_select cast_prefix arms null"
    by (simp_all add: tpmu_view_def)
  have arm: "wire_field c" "bounded c n" "\<exists>tags. arm_of_variant arms x = Some (c, tags)"
    if "arm_of_tag arms tag = Some (x, c)" for x c tag
    using that codecs arms
    by (fastforce simp: list_all_iff arm_of_tag_iff arm_of_variant_iff arms_ok_def)+
  note iff = tpmu_view_matches_iff [OF arms, of n]
  have len: "length (union_enc arms v) = u_len ?u v \<and> u_len ?u v \<le> u_SIZE ?u \<and>
      emits (u_marshal ?u v) (union_enc arms v)"
    if v: "u_valid ?u v \<and> matches_tag ?u v tag" for v tag
    using v unfolding iff
  proof (elim disjE exE conjE)
    fix x c p tags
    assume p: "v = VUnion x (Some p)" "arm_of_tag arms tag = Some (x, c)" "valid c p"
      "arm_of_variant arms x = Some (c, tags)"
    note c = wire_field_codec [OF arm(1) [OF p(2)]]
    show ?thesis
      using p arm(2) [OF p(2)] wire_codec.length_encode [OF c] wire_codec.marshal_emits [OF c]
      by (auto simp: tpmu_view_def boundedD)
  qed (simp add: tpmu_view_def)
  show ?thesis
  proof (rule wire_union.intro)
    fix tag
    show "decoder (\<lambda>v. u_valid ?u v \<and> matches_tag ?u v tag) (union_enc arms)
            (unmarshal_tagged ?u tag)"
      unfolding iff um
    proof (cases "arm_of_tag arms tag")
      case None
      then show "decoder (\<lambda>v. (\<exists>x c p. v = VUnion x (Some p) \<and> arm_of_tag arms tag = Some (x, c) \<and>
            valid c p \<and> (\<exists>tags. arm_of_variant arms x = Some (c, tags))) \<or>
          (\<exists>x. v = VUnion x None \<and> null_selected null tag = Some x)) (union_enc arms)
          (tpmu_select unmarshal arms null tag)"
        by unfold_locales (auto simp: tpmu_select_def split: option.splits)
    next
      case (Some a)
      obtain x c where a: "a = (x, c)" by (cases a)
      with Some have x: "arm_of_tag arms tag = Some (x, c)" by simp
      then obtain tags where t: "arm_of_variant arms x = Some (c, tags)"
        using arm(3) by blast
      have null: "null_selected null tag \<noteq> Some y" for y
        using arms_ok_disjoint [OF arms] x by auto
      note c = wire_field_codec [OF arm(1) [OF x]]
      show "decoder (\<lambda>v. (\<exists>x c p. v = VUnion x (Some p) \<and>
            arm_of_tag arms tag = Some (x, c) \<and>
            valid c p \<and> (\<exists>tags. arm_of_variant arms x = Some (c, tags))) \<or>
          (\<exists>x. v = VUnion x None \<and> null_selected null tag = Some x)) (union_enc arms)
          (tpmu_select unmarshal arms null tag)"
        using x t null
        by unfold_locales (auto simp: tpmu_select_def and_then_Panic_iff and_then_Err_iff
            codec_dec_enc [OF c] codec_dec_no_panic [OF c]
            dest: codec_dec_sound [OF c] codec_dec_offset [OF c])
    qed
  next
    fix b :: "u8 list" and tag r
    assume b: "length b \<le> usize_max"
    have "((\<exists>w. cast_tagged ?u tag b = Ok (w, r)) \<longleftrightarrow> (\<exists>v. unmarshal_tagged ?u tag b = Ok (v, r))) \<and>
        cast_tagged ?u tag b \<noteq> Panic \<and> (\<forall>e. cast_tagged ?u tag b = Err e \<longrightarrow> offset e \<le> length b)" for r
    proof (cases "arm_of_tag arms tag")
      case None
      then show ?thesis
        by (auto simp: um ct tpmu_select_def split: option.splits)
    next
      case (Some a)
      obtain x c where a: "a = (x, c)" by (cases a)
      with Some have c: "wire_field c" using arm(1) by blast
      show ?thesis
        using Some a wire_field.cast_iff [OF c b, of r] wire_field.cast_no_panic [OF c b]
          wire_field.cast_offset [OF c b]
        by (auto simp: um ct tpmu_select_def and_then_Panic_iff and_then_Err_iff)
    qed
    then show "(\<exists>w. cast_tagged ?u tag b = Ok (w, r)) = (\<exists>v. unmarshal_tagged ?u tag b = Ok (v, r))"
      and "cast_tagged ?u tag b \<noteq> Panic"
      and "\<And>e. cast_tagged ?u tag b = Err e \<Longrightarrow> offset e \<le> length b"
      by blast+
  qed (use len n in \<open>auto simp: tpmu_view_def\<close>)
qed

locale tagged = t: wire_codec t + u: wire_union u uenc for t u uenc +
  assumes tag_cast: "cast_prefix t = unmarshal t"
    and sizes: "SIZE t \<le> 4096"
begin

lemma cast_iff_tagged:
  assumes "length b \<le> usize_max"
  shows "(\<exists>w. cast_prefix (tpm_struct_tagged t u) b = Ok (w, r)) \<longleftrightarrow>
         (\<exists>v. unmarshal (tpm_struct_tagged t u) b = Ok (v, r))"
    and "cast_prefix (tpm_struct_tagged t u) b \<noteq> Panic"
    and "cast_prefix (tpm_struct_tagged t u) b = Err e \<Longrightarrow> offset e \<le> length b"
proof -
  have "((\<exists>w. cast_prefix (tpm_struct_tagged t u) b = Ok (w, r)) \<longleftrightarrow>
         (\<exists>v. unmarshal (tpm_struct_tagged t u) b = Ok (v, r))) \<and>
    cast_prefix (tpm_struct_tagged t u) b \<noteq> Panic \<and>
    (cast_prefix (tpm_struct_tagged t u) b = Err e \<longrightarrow> offset e \<le> length b)"
  proof (rule t.dec_cases [of b])
    fix tag rest assume t: "unmarshal t b = Ok (tag, rest)" "b = encode t tag @ rest"
    with assms have "length rest \<le> usize_max" "length rest \<le> length b" by simp_all
    with t u.u_cast_iff [of rest tag r] u.u_cast_no_panic [of rest tag]
      u.u_cast_offset [of rest tag e]
    show ?thesis
      by (auto simp: tpm_struct_tagged_def tag_cast and_then_Panic_iff and_then_Err_iff)
  qed (auto simp: tpm_struct_tagged_def tag_cast)
  then show "(\<exists>w. cast_prefix (tpm_struct_tagged t u) b = Ok (w, r)) \<longleftrightarrow>
         (\<exists>v. unmarshal (tpm_struct_tagged t u) b = Ok (v, r))"
    and "cast_prefix (tpm_struct_tagged t u) b \<noteq> Panic"
    and "cast_prefix (tpm_struct_tagged t u) b = Err e \<Longrightarrow> offset e \<le> length b"
    by blast+
qed

definition tagged_enc :: "val \<Rightarrow> u8 list" where
  "tagged_enc v = (case v of VStruct [tag, x] \<Rightarrow> encode t tag @ uenc x | _ \<Rightarrow> [])"

lemma tagged_valid_iff:
  "valid (tpm_struct_tagged t u) v \<longleftrightarrow>
   (\<exists>tag x. v = VStruct [tag, x] \<and> valid t tag \<and> u_valid u x \<and> matches_tag u x tag)"
  by (auto simp: tpm_struct_tagged_def split: val.splits list.splits)

lemma tagged_decoder:
  "decoder (valid (tpm_struct_tagged t u)) tagged_enc (unmarshal (tpm_struct_tagged t u))"
proof
  note d = decoder.dec_enc [OF u.u_decoder] and s = decoder.dec_sound [OF u.u_decoder]
  show "unmarshal (tpm_struct_tagged t u) (tagged_enc v @ r) = Ok (v, r)"
    if v: "valid (tpm_struct_tagged t u) v" for v r
  proof -
    obtain tag x where "v = VStruct [tag, x]" "valid t tag" "u_valid u x" "matches_tag u x tag"
      using v by (auto simp: tagged_valid_iff)
    with d [of x tag r] show ?thesis
      by (auto simp: tagged_enc_def tpm_struct_tagged_def t.dec_enc)
  qed
  show "valid (tpm_struct_tagged t u) v \<and> b = tagged_enc v @ r"
    if "unmarshal (tpm_struct_tagged t u) b = Ok (v, r)" for b v r
    using that by (auto simp: tpm_struct_tagged_def tagged_enc_def t.dec_iff dest!: s)
  fix b e
  show "unmarshal (tpm_struct_tagged t u) b \<noteq> Panic"
    using t.dec_no_panic decoder.dec_no_panic [OF u.u_decoder] t.dec_shorter
    by (auto simp: tpm_struct_tagged_def and_then_Panic_iff usize_sub_def)
  show "offset e \<le> length b" if "unmarshal (tpm_struct_tagged t u) b = Err e"
  proof (rule t.dec_cases [of b])
    fix tag rest assume t: "unmarshal t b = Ok (tag, rest)" "b = encode t tag @ rest"
    with that obtain d where "e = rebase (length b - length rest) d" "offset d \<le> length rest"
      by (auto simp: tpm_struct_tagged_def and_then_Err_iff
          dest: decoder.dec_offset [OF u.u_decoder])
    with t show ?thesis
      by (simp only: ) (rule offset_rebase_le, simp)
  qed (use that in \<open>auto simp: tpm_struct_tagged_def\<close>)
qed

lemma tagged_ok: "wire_field (tpm_struct_tagged t u)"
proof -
  have "wire_codec (tpm_struct_tagged t u)"
  proof (rule wire_codecI [OF tagged_decoder])
    fix v assume "valid (tpm_struct_tagged t u) v"
    then obtain tag x where v: "v = VStruct [tag, x]" "valid t tag" "u_valid u x"
        "matches_tag u x tag"
      by (auto simp: tagged_valid_iff)
    then show "emits (marshal (tpm_struct_tagged t u) v) (tagged_enc v)"
      and "length (tagged_enc v) = wire_len (tpm_struct_tagged t u) v"
      and "wire_len (tpm_struct_tagged t u) v \<le> SIZE (tpm_struct_tagged t u)"
      using u.u_emits t.marshal_emits u.u_length t.length_encode u.u_le t.len_le_SIZE
      by (auto simp: tagged_enc_def tpm_struct_tagged_def intro!: add_mono)
  qed (use u.u_SIZE_le sizes in \<open>simp add: tpm_struct_tagged_def u16_max_def\<close>)
  then show ?thesis
    by (rule wire_field.intro) (unfold_locales; simp add: cast_iff_tagged)
qed

end

lemma tagged_structI [codec_intros]:
  assumes "wire_field t" "cast_prefix t = unmarshal t" "SIZE t \<le> 4096" "wire_union u uenc"
  shows "wire_field (tpm_struct_tagged t u)"
  using assms
  by (intro tagged.tagged_ok [of t u uenc] tagged.intro tagged_axioms.intro wire_field_codec)

text \<open>Any value whose selector contradicts its union is refused before a byte is written.\<close>

lemma tagged_mismatch:
  "\<not> matches_tag u x tag \<Longrightarrow>
   marshal (tpm_struct_tagged t u) (VStruct [tag, x]) w =
     (Err (VariantNotAvailable (cursor w) (tag_value tag)), w)"
  by (simp add: tpm_struct_tagged_def wfail_def)

subsection \<open>Sequences written by hand\<close>

text \<open>The casts of the hand-written structures follow their \<open>unmarshal\<close> field by field.\<close>

lemma tracks_ret: "tracks (\<lambda>b. Ok (w, b)) (\<lambda>b. Ok (v, b))"
  by (simp add: tracks_def)

lemma tracks_bind:
  assumes "decoder V e d" "tracks c d"
    and rest: "\<And>w x b r. \<lbrakk>c b = Ok (w, r); d b = Ok (x, r)\<rbrakk> \<Longrightarrow> tracks (c2 w) (d2 x)"
  shows "tracks (\<lambda>b. and_then (c b) (\<lambda>(w, t). c2 w t)) (\<lambda>b. and_then (d b) (\<lambda>(x, t). d2 x t))"
  unfolding tracks_def
proof (intro allI impI)
  fix b :: "u8 list" assume b: "length b \<le> usize_max"
  from assms(2) b
  show "(\<forall>r. (\<exists>w. and_then (c b) (\<lambda>(w, t). c2 w t) = Ok (w, r)) \<longleftrightarrow>
             (\<exists>v. and_then (d b) (\<lambda>(x, t). d2 x t) = Ok (v, r))) \<and>
        and_then (c b) (\<lambda>(w, t). c2 w t) \<noteq> Panic \<and>
        (\<forall>e. and_then (c b) (\<lambda>(w, t). c2 w t) = Err e \<longrightarrow> offset e \<le> length b)"
  proof (cases rule: tracks_cases)
    case (1 w x r)
    then have le: "length r \<le> length b"
      using decoder.dec_shorter [OF assms(1)] by blast
    with b have "length r \<le> usize_max" by simp
    with rest [OF 1] show ?thesis
      unfolding 1 by (cases rule: tracks_cases) (use le in auto)
  qed auto
qed

lemma tracks_bind_same:
  assumes "wire_codec t" "cast_prefix t = unmarshal t" and "\<And>x. tracks (c2 x) (d2 x)"
  shows "tracks (\<lambda>b. and_then (cast_prefix t b) (\<lambda>(x, t). c2 x t))
                (\<lambda>b. and_then (unmarshal t b) (\<lambda>(x, t). d2 x t))"
  unfolding assms(2)
proof (rule tracks_bind [OF wire_codec_decoder [OF assms(1)]])
  show "tracks (unmarshal t) (unmarshal t)"
    using codec_dec_no_panic [OF assms(1)] codec_dec_offset [OF assms(1)]
    by (simp add: tracks_def)
qed (use assms(3) in auto)

lemma tracks_bind_field:
  assumes "wire_field f" and "\<And>w x. tracks (c2 w) (d2 x)"
  shows "tracks (\<lambda>b. and_then (cast_prefix f b) (\<lambda>(w, t). c2 w t))
                (\<lambda>b. and_then (unmarshal f b) (\<lambda>(x, t). d2 x t))"
  using wire_codec_decoder [OF wire_field_codec [OF assms(1)]] wire_field_tracks [OF assms(1)]
    assms(2)
  by (rule tracks_bind)

lemma tracks_bind_union:
  assumes "wire_union u uenc" and "\<And>w x. tracks (c2 w) (d2 x)"
  shows "tracks (\<lambda>b. and_then (cast_tagged u tag b) (\<lambda>(w, t). c2 w t))
                (\<lambda>b. and_then (unmarshal_tagged u tag b) (\<lambda>(x, t). d2 x t))"
proof (rule tracks_bind [OF wire_union.u_decoder [OF assms(1)]])
  show "tracks (cast_tagged u tag) (unmarshal_tagged u tag)"
    using assms(1) unfolding tracks_def wire_union_def by blast
qed (use assms(2) in auto)

subsection \<open>Sizes and bounds\<close>

lemma SIZE_simps [simp]:
  "SIZE (tpm_int N) = N"
  "SIZE (tpm_enum_codec N s vs) = N"
  "SIZE (tpm_bitflags N) = N"
  "SIZE tpm_bool = 1"
  "SIZE (TpmBuffer n) = 2 + n"
  "SIZE (TpmList c n) = 4 + SIZE c * n"
  "SIZE (tpm_struct fs) = fields_SIZE fs"
  "SIZE (tpm2b_struct c) = 2 + SIZE c"
  "SIZE (tpm_struct_tagged c u) = SIZE c + u_SIZE u"
  "u_SIZE (tpmu_view n arms null) = n"
  by (simp_all add: tpm_int_def tpm_enum_codec_def tpm_bitflags_def tpm_bool_def TpmBuffer_def
      TpmList_def tpm_struct_def tpm2b_struct_def tpm_struct_tagged_def tpmu_view_def)

lemma fields_SIZE_simps [simp]:
  "fields_SIZE [] = 0"
  "fields_SIZE ((n, c) # fs) = SIZE c + fields_SIZE fs"
  by (simp_all add: fields_SIZE_def)

lemma cast_same_simps [simp]:
  "cast_prefix (tpm_int N) = unmarshal (tpm_int N)"
  "cast_prefix (tpm_enum_codec N s vs) = unmarshal (tpm_enum_codec N s vs)"
  "cast_prefix (tpm_bitflags N) = unmarshal (tpm_bitflags N)"
  "cast_prefix tpm_bool = unmarshal tpm_bool"
  by (simp_all add: tpm_int_def tpm_enum_codec_def tpm_bitflags_def tpm_bool_def)

definition u_bounded :: "tpmu \<Rightarrow> nat \<Rightarrow> bool" where
  "u_bounded u n \<longleftrightarrow>
     (\<forall>v tag. u_valid u v \<longrightarrow> matches_tag u v tag \<longrightarrow> u_len u v \<le> n)"

lemma u_boundedD: "\<lbrakk>u_bounded u n; u_valid u v; matches_tag u v tag\<rbrakk> \<Longrightarrow> u_len u v \<le> n"
  by (auto simp: u_bounded_def)

lemma u_bounded_view:
  assumes "distinct (map fst arms)" "list_all (\<lambda>(_, c, _). bounded c n) arms"
  shows "u_bounded (tpmu_view m arms null) n"
  using assms
  by (auto simp: u_bounded_def tpmu_view_def arm_of_variant_iff list_all_iff bounded_def
      split: val.splits option.splits)

lemma bounded_tagged:
  "\<lbrakk>bounded t m; u_bounded u n; m + n \<le> k\<rbrakk> \<Longrightarrow> bounded (tpm_struct_tagged t u) k"
  by (fastforce simp: bounded_def u_bounded_def tpm_struct_tagged_def
      split: val.splits list.splits)

lemma fields_bounded:
  "\<lbrakk>list_all2 (\<lambda>(_, c) n. bounded c n) fs ns; fields_valid fs vs\<rbrakk> \<Longrightarrow>
   fields_len fs vs \<le> sum_list ns"
proof (induction fs vs arbitrary: ns rule: fields_valid.induct)
  case (2 n c fs v vs)
  then obtain k ks where "ns = k # ks" "bounded c k" "list_all2 (\<lambda>(_, c) n. bounded c n) fs ks"
    by (auto simp: list_all2_Cons1)
  with 2 show ?case
    by (auto intro!: add_mono boundedD)
qed auto

lemma bounded_struct:
  "\<lbrakk>list_all2 (\<lambda>(_, c) n. bounded c n) fs ns; sum_list ns \<le> k\<rbrakk> \<Longrightarrow> bounded (tpm_struct fs) k"
  unfolding bounded_def tpm_struct_valid_iff
proof (intro allI impI, elim exE conjE)
  fix v vs
  assume ns: "list_all2 (\<lambda>(_, c) n. \<forall>v. valid c v \<longrightarrow> wire_len c v \<le> n) fs ns"
    and k: "sum_list ns \<le> k" and v: "v = VStruct vs" "fields_valid fs vs"
  have "fields_len fs vs \<le> sum_list ns"
    using ns v(2) by (intro fields_bounded) (simp_all add: bounded_def)
  with k v(1) show "wire_len (tpm_struct fs) v \<le> k"
    by (simp add: tpm_struct_def)
qed

end
