(* ===== verification/Data_Basic.thy ===== *)
theory Data_Basic
  imports Union_Laws
begin

text \<open>
  The constants of \<open>protocol/src/constant.rs\<close> and the elementary wire types: integers, the codecs
  of the enumerations, the attribute flags of \<open>data/tpma.rs\<close>, the interface types of \<open>data/tpmi.rs\<close>,
  the \<open>TPM2B\<close> buffers of \<open>data/mod.rs\<close>, PCR selections and digests.
\<close>

definition MAX_BUFFER_SIZE :: nat where "MAX_BUFFER_SIZE = 1024"

definition MAX_DIGEST_SIZE :: nat where "MAX_DIGEST_SIZE = 64"

definition MAX_DATA_SIZE :: nat where "MAX_DATA_SIZE = MAX_DIGEST_SIZE + 2"

definition MAX_ECC_KEY_BYTES :: nat where "MAX_ECC_KEY_BYTES = 66"

definition MAX_EVENT_SIZE :: nat where "MAX_EVENT_SIZE = 1024"

definition MAX_HANDLES :: nat where "MAX_HANDLES = 8"

definition MAX_NV_BUFFER_SIZE :: nat where "MAX_NV_BUFFER_SIZE = 1024"

definition MAX_PRIVATE_SIZE :: nat where "MAX_PRIVATE_SIZE = 1408"

definition MAX_RSA_KEY_BYTES :: nat where "MAX_RSA_KEY_BYTES = 512"

definition MAX_SENSITIVE_DATA :: nat where "MAX_SENSITIVE_DATA = 256"

definition MAX_SESSIONS :: nat where "MAX_SESSIONS = 8"

definition MAX_SYM_KEY_BYTES :: nat where "MAX_SYM_KEY_BYTES = 32"

definition TPM_GENERATED_VALUE :: nat where "TPM_GENERATED_VALUE = 0xFF544347"

definition TPM_MAX_COMMAND_SIZE :: nat where "TPM_MAX_COMMAND_SIZE = 4096"

definition TPM_PCR_SELECT_MAX :: nat where "TPM_PCR_SELECT_MAX = 4"

lemmas constants = MAX_BUFFER_SIZE_def
  MAX_DIGEST_SIZE_def
  MAX_DATA_SIZE_def
  MAX_ECC_KEY_BYTES_def
  MAX_EVENT_SIZE_def
  MAX_HANDLES_def
  MAX_NV_BUFFER_SIZE_def
  MAX_PRIVATE_SIZE_def
  MAX_RSA_KEY_BYTES_def
  MAX_SENSITIVE_DATA_def
  MAX_SESSIONS_def
  MAX_SYM_KEY_BYTES_def
  TPM_GENERATED_VALUE_def
  TPM_MAX_COMMAND_SIZE_def
  TPM_PCR_SELECT_MAX_def

lemma int_ok [codec_ok]:
  "wire_field TpmUint8" "wire_field TpmInt8" "wire_field TpmUint16" "wire_field TpmUint32"
  "wire_field TpmUint64" "wire_field TpmInt32" "wire_field TpmHandle"
  by (simp_all add: TpmUint8_def TpmInt8_def TpmUint16_def TpmUint32_def TpmUint64_def
      TpmInt32_def TpmHandle_def tpm_int_ok u16_max_def)

lemma int_SIZE [simp]:
  "SIZE TpmUint8 = 1" "SIZE TpmInt8 = 1" "SIZE TpmUint16 = 2" "SIZE TpmUint32 = 4"
  "SIZE TpmUint64 = 8" "SIZE TpmInt32 = 4" "SIZE TpmHandle = 4"
  by (simp_all add: TpmUint8_def TpmInt8_def TpmUint16_def TpmUint32_def TpmUint64_def
      TpmInt32_def TpmHandle_def)

lemmas TpmUint8_ok = int_ok(1) and TpmUint16_ok = int_ok(3) and TpmUint32_ok = int_ok(4)
  and TpmUint64_ok = int_ok(5) and TpmHandle_ok = int_ok(7)

definition TpmAlgId_codec :: codec where
  "TpmAlgId_codec = tpm_enum_codec 2 False (map EAlgId TpmAlgId_variants)"

lemma TpmAlgId_codec_ok [codec_ok]: "wire_field TpmAlgId_codec"
  unfolding TpmAlgId_codec_def using TpmAlgId.distinct_values TpmAlgId.in_range
  by (intro tpm_enum_codec_ok) (simp_all add: comp_def list_all_iff u16_max_def)

lemma TpmAlgId_codec_SIZE [simp]: "SIZE TpmAlgId_codec = 2" and TpmAlgId_codec_cast [simp]: "cast_prefix TpmAlgId_codec = unmarshal TpmAlgId_codec"
  by (simp_all add: TpmAlgId_codec_def)

lemma TpmAlgId_codec_valid: "valid TpmAlgId_codec v \<longleftrightarrow> (\<exists>e. v = VEnum (EAlgId e))"
  using TpmAlgId.complete by (auto simp: TpmAlgId_codec_def tpm_enum_codec_def split: val.splits)

definition TpmAt_codec :: codec where
  "TpmAt_codec = tpm_enum_codec 4 False (map EAt TpmAt_variants)"

lemma TpmAt_codec_ok [codec_ok]: "wire_field TpmAt_codec"
  unfolding TpmAt_codec_def using TpmAt.distinct_values TpmAt.in_range
  by (intro tpm_enum_codec_ok) (simp_all add: comp_def list_all_iff u16_max_def)

lemma TpmAt_codec_SIZE [simp]: "SIZE TpmAt_codec = 4" and TpmAt_codec_cast [simp]: "cast_prefix TpmAt_codec = unmarshal TpmAt_codec"
  by (simp_all add: TpmAt_codec_def)

lemma TpmAt_codec_valid: "valid TpmAt_codec v \<longleftrightarrow> (\<exists>e. v = VEnum (EAt e))"
  using TpmAt.complete by (auto simp: TpmAt_codec_def tpm_enum_codec_def split: val.splits)

definition TpmCap_codec :: codec where
  "TpmCap_codec = tpm_enum_codec 4 False (map ECap TpmCap_variants)"

lemma TpmCap_codec_ok [codec_ok]: "wire_field TpmCap_codec"
  unfolding TpmCap_codec_def using TpmCap.distinct_values TpmCap.in_range
  by (intro tpm_enum_codec_ok) (simp_all add: comp_def list_all_iff u16_max_def)

lemma TpmCap_codec_SIZE [simp]: "SIZE TpmCap_codec = 4" and TpmCap_codec_cast [simp]: "cast_prefix TpmCap_codec = unmarshal TpmCap_codec"
  by (simp_all add: TpmCap_codec_def)

lemma TpmCap_codec_valid: "valid TpmCap_codec v \<longleftrightarrow> (\<exists>e. v = VEnum (ECap e))"
  using TpmCap.complete by (auto simp: TpmCap_codec_def tpm_enum_codec_def split: val.splits)

definition TpmCc_codec :: codec where
  "TpmCc_codec = tpm_enum_codec 4 False (map ECc TpmCc_variants)"

lemma TpmCc_codec_ok [codec_ok]: "wire_field TpmCc_codec"
  unfolding TpmCc_codec_def using TpmCc.distinct_values TpmCc.in_range
  by (intro tpm_enum_codec_ok) (simp_all add: comp_def list_all_iff u16_max_def)

lemma TpmCc_codec_SIZE [simp]: "SIZE TpmCc_codec = 4" and TpmCc_codec_cast [simp]: "cast_prefix TpmCc_codec = unmarshal TpmCc_codec"
  by (simp_all add: TpmCc_codec_def)

lemma TpmCc_codec_valid: "valid TpmCc_codec v \<longleftrightarrow> (\<exists>e. v = VEnum (ECc e))"
  using TpmCc.complete by (auto simp: TpmCc_codec_def tpm_enum_codec_def split: val.splits)

definition TpmClockAdjust_codec :: codec where
  "TpmClockAdjust_codec = tpm_enum_codec 1 True (map EClockAdjust TpmClockAdjust_variants)"

lemma TpmClockAdjust_codec_ok [codec_ok]: "wire_field TpmClockAdjust_codec"
  unfolding TpmClockAdjust_codec_def using TpmClockAdjust.distinct_values TpmClockAdjust.in_range
  by (intro tpm_enum_codec_ok) (simp_all add: comp_def list_all_iff u16_max_def)

lemma TpmClockAdjust_codec_SIZE [simp]: "SIZE TpmClockAdjust_codec = 1" and TpmClockAdjust_codec_cast [simp]: "cast_prefix TpmClockAdjust_codec = unmarshal TpmClockAdjust_codec"
  by (simp_all add: TpmClockAdjust_codec_def)

lemma TpmClockAdjust_codec_valid: "valid TpmClockAdjust_codec v \<longleftrightarrow> (\<exists>e. v = VEnum (EClockAdjust e))"
  using TpmClockAdjust.complete by (auto simp: TpmClockAdjust_codec_def tpm_enum_codec_def split: val.splits)

definition TpmEo_codec :: codec where
  "TpmEo_codec = tpm_enum_codec 2 False (map EEo TpmEo_variants)"

lemma TpmEo_codec_ok [codec_ok]: "wire_field TpmEo_codec"
  unfolding TpmEo_codec_def using TpmEo.distinct_values TpmEo.in_range
  by (intro tpm_enum_codec_ok) (simp_all add: comp_def list_all_iff u16_max_def)

lemma TpmEo_codec_SIZE [simp]: "SIZE TpmEo_codec = 2" and TpmEo_codec_cast [simp]: "cast_prefix TpmEo_codec = unmarshal TpmEo_codec"
  by (simp_all add: TpmEo_codec_def)

lemma TpmEo_codec_valid: "valid TpmEo_codec v \<longleftrightarrow> (\<exists>e. v = VEnum (EEo e))"
  using TpmEo.complete by (auto simp: TpmEo_codec_def tpm_enum_codec_def split: val.splits)

definition TpmEccCurve_codec :: codec where
  "TpmEccCurve_codec = tpm_enum_codec 2 False (map EEccCurve TpmEccCurve_variants)"

lemma TpmEccCurve_codec_ok [codec_ok]: "wire_field TpmEccCurve_codec"
  unfolding TpmEccCurve_codec_def using TpmEccCurve.distinct_values TpmEccCurve.in_range
  by (intro tpm_enum_codec_ok) (simp_all add: comp_def list_all_iff u16_max_def)

lemma TpmEccCurve_codec_SIZE [simp]: "SIZE TpmEccCurve_codec = 2" and TpmEccCurve_codec_cast [simp]: "cast_prefix TpmEccCurve_codec = unmarshal TpmEccCurve_codec"
  by (simp_all add: TpmEccCurve_codec_def)

lemma TpmEccCurve_codec_valid: "valid TpmEccCurve_codec v \<longleftrightarrow> (\<exists>e. v = VEnum (EEccCurve e))"
  using TpmEccCurve.complete by (auto simp: TpmEccCurve_codec_def tpm_enum_codec_def split: val.splits)

definition TpmHt_codec :: codec where
  "TpmHt_codec = tpm_enum_codec 1 False (map EHt TpmHt_variants)"

lemma TpmHt_codec_ok [codec_ok]: "wire_field TpmHt_codec"
  unfolding TpmHt_codec_def using TpmHt.distinct_values TpmHt.in_range
  by (intro tpm_enum_codec_ok) (simp_all add: comp_def list_all_iff u16_max_def)

lemma TpmHt_codec_SIZE [simp]: "SIZE TpmHt_codec = 1" and TpmHt_codec_cast [simp]: "cast_prefix TpmHt_codec = unmarshal TpmHt_codec"
  by (simp_all add: TpmHt_codec_def)

lemma TpmHt_codec_valid: "valid TpmHt_codec v \<longleftrightarrow> (\<exists>e. v = VEnum (EHt e))"
  using TpmHt.complete by (auto simp: TpmHt_codec_def tpm_enum_codec_def split: val.splits)

definition TpmPt_codec :: codec where
  "TpmPt_codec = tpm_enum_codec 4 False (map EPt TpmPt_variants)"

lemma TpmPt_codec_ok [codec_ok]: "wire_field TpmPt_codec"
  unfolding TpmPt_codec_def using TpmPt.distinct_values TpmPt.in_range
  by (intro tpm_enum_codec_ok) (simp_all add: comp_def list_all_iff u16_max_def)

lemma TpmPt_codec_SIZE [simp]: "SIZE TpmPt_codec = 4" and TpmPt_codec_cast [simp]: "cast_prefix TpmPt_codec = unmarshal TpmPt_codec"
  by (simp_all add: TpmPt_codec_def)

lemma TpmPt_codec_valid: "valid TpmPt_codec v \<longleftrightarrow> (\<exists>e. v = VEnum (EPt e))"
  using TpmPt.complete by (auto simp: TpmPt_codec_def tpm_enum_codec_def split: val.splits)

definition TpmRh_codec :: codec where
  "TpmRh_codec = tpm_enum_codec 4 False (map ERh TpmRh_variants)"

lemma TpmRh_codec_ok [codec_ok]: "wire_field TpmRh_codec"
  unfolding TpmRh_codec_def using TpmRh.distinct_values TpmRh.in_range
  by (intro tpm_enum_codec_ok) (simp_all add: comp_def list_all_iff u16_max_def)

lemma TpmRh_codec_SIZE [simp]: "SIZE TpmRh_codec = 4" and TpmRh_codec_cast [simp]: "cast_prefix TpmRh_codec = unmarshal TpmRh_codec"
  by (simp_all add: TpmRh_codec_def)

lemma TpmRh_codec_valid: "valid TpmRh_codec v \<longleftrightarrow> (\<exists>e. v = VEnum (ERh e))"
  using TpmRh.complete by (auto simp: TpmRh_codec_def tpm_enum_codec_def split: val.splits)

definition TpmSe_codec :: codec where
  "TpmSe_codec = tpm_enum_codec 1 False (map ESe TpmSe_variants)"

lemma TpmSe_codec_ok [codec_ok]: "wire_field TpmSe_codec"
  unfolding TpmSe_codec_def using TpmSe.distinct_values TpmSe.in_range
  by (intro tpm_enum_codec_ok) (simp_all add: comp_def list_all_iff u16_max_def)

lemma TpmSe_codec_SIZE [simp]: "SIZE TpmSe_codec = 1" and TpmSe_codec_cast [simp]: "cast_prefix TpmSe_codec = unmarshal TpmSe_codec"
  by (simp_all add: TpmSe_codec_def)

lemma TpmSe_codec_valid: "valid TpmSe_codec v \<longleftrightarrow> (\<exists>e. v = VEnum (ESe e))"
  using TpmSe.complete by (auto simp: TpmSe_codec_def tpm_enum_codec_def split: val.splits)

definition TpmSt_codec :: codec where
  "TpmSt_codec = tpm_enum_codec 2 False (map ESt TpmSt_variants)"

lemma TpmSt_codec_ok [codec_ok]: "wire_field TpmSt_codec"
  unfolding TpmSt_codec_def using TpmSt.distinct_values TpmSt.in_range
  by (intro tpm_enum_codec_ok) (simp_all add: comp_def list_all_iff u16_max_def)

lemma TpmSt_codec_SIZE [simp]: "SIZE TpmSt_codec = 2" and TpmSt_codec_cast [simp]: "cast_prefix TpmSt_codec = unmarshal TpmSt_codec"
  by (simp_all add: TpmSt_codec_def)

lemma TpmSt_codec_valid: "valid TpmSt_codec v \<longleftrightarrow> (\<exists>e. v = VEnum (ESt e))"
  using TpmSt.complete by (auto simp: TpmSt_codec_def tpm_enum_codec_def split: val.splits)

definition TpmSu_codec :: codec where
  "TpmSu_codec = tpm_enum_codec 2 False (map ESu TpmSu_variants)"

lemma TpmSu_codec_ok [codec_ok]: "wire_field TpmSu_codec"
  unfolding TpmSu_codec_def using TpmSu.distinct_values TpmSu.in_range
  by (intro tpm_enum_codec_ok) (simp_all add: comp_def list_all_iff u16_max_def)

lemma TpmSu_codec_SIZE [simp]: "SIZE TpmSu_codec = 2" and TpmSu_codec_cast [simp]: "cast_prefix TpmSu_codec = unmarshal TpmSu_codec"
  by (simp_all add: TpmSu_codec_def)

lemma TpmSu_codec_valid: "valid TpmSu_codec v \<longleftrightarrow> (\<exists>e. v = VEnum (ESu e))"
  using TpmSu.complete by (auto simp: TpmSu_codec_def tpm_enum_codec_def split: val.splits)

definition TpmiEccKeyExchange_codec :: codec where
  "TpmiEccKeyExchange_codec = tpm_enum_codec 2 False (map EEccKeyExchange TpmiEccKeyExchange_variants)"

lemma TpmiEccKeyExchange_codec_ok [codec_ok]: "wire_field TpmiEccKeyExchange_codec"
  unfolding TpmiEccKeyExchange_codec_def using TpmiEccKeyExchange.distinct_values TpmiEccKeyExchange.in_range
  by (intro tpm_enum_codec_ok) (simp_all add: comp_def list_all_iff u16_max_def)

lemma TpmiEccKeyExchange_codec_SIZE [simp]: "SIZE TpmiEccKeyExchange_codec = 2" and TpmiEccKeyExchange_codec_cast [simp]: "cast_prefix TpmiEccKeyExchange_codec = unmarshal TpmiEccKeyExchange_codec"
  by (simp_all add: TpmiEccKeyExchange_codec_def)

lemma TpmiEccKeyExchange_codec_valid: "valid TpmiEccKeyExchange_codec v \<longleftrightarrow> (\<exists>e. v = VEnum (EEccKeyExchange e))"
  using TpmiEccKeyExchange.complete by (auto simp: TpmiEccKeyExchange_codec_def tpm_enum_codec_def split: val.splits)

definition Tpm2b :: codec where
  "Tpm2b = TpmBuffer TPM_MAX_COMMAND_SIZE"

lemma Tpm2b_SIZE [simp]: "SIZE Tpm2b = 4098"
  by (simp add: Tpm2b_def constants)

lemma Tpm2b_ok [codec_ok]: "wire_field Tpm2b"
  unfolding Tpm2b_def by (rule TpmBuffer_ok) (simp_all add: codec_ok constants u16_max_def)

definition Tpm2bAuth :: codec where
  "Tpm2bAuth = TpmBuffer MAX_DIGEST_SIZE"

lemma Tpm2bAuth_SIZE [simp]: "SIZE Tpm2bAuth = 66"
  by (simp add: Tpm2bAuth_def constants)

lemma Tpm2bAuth_ok [codec_ok]: "wire_field Tpm2bAuth"
  unfolding Tpm2bAuth_def by (rule TpmBuffer_ok) (simp_all add: codec_ok constants u16_max_def)

definition Tpm2bDigest :: codec where
  "Tpm2bDigest = TpmBuffer MAX_DIGEST_SIZE"

lemma Tpm2bDigest_SIZE [simp]: "SIZE Tpm2bDigest = 66"
  by (simp add: Tpm2bDigest_def constants)

lemma Tpm2bDigest_ok [codec_ok]: "wire_field Tpm2bDigest"
  unfolding Tpm2bDigest_def by (rule TpmBuffer_ok) (simp_all add: codec_ok constants u16_max_def)

definition Tpm2bEccParameter :: codec where
  "Tpm2bEccParameter = TpmBuffer MAX_ECC_KEY_BYTES"

lemma Tpm2bEccParameter_SIZE [simp]: "SIZE Tpm2bEccParameter = 68"
  by (simp add: Tpm2bEccParameter_def constants)

lemma Tpm2bEccParameter_ok [codec_ok]: "wire_field Tpm2bEccParameter"
  unfolding Tpm2bEccParameter_def by (rule TpmBuffer_ok) (simp_all add: codec_ok constants u16_max_def)

definition Tpm2bEncryptedSecret :: codec where
  "Tpm2bEncryptedSecret = TpmBuffer MAX_RSA_KEY_BYTES"

lemma Tpm2bEncryptedSecret_SIZE [simp]: "SIZE Tpm2bEncryptedSecret = 514"
  by (simp add: Tpm2bEncryptedSecret_def constants)

lemma Tpm2bEncryptedSecret_ok [codec_ok]: "wire_field Tpm2bEncryptedSecret"
  unfolding Tpm2bEncryptedSecret_def by (rule TpmBuffer_ok) (simp_all add: codec_ok constants u16_max_def)

definition Tpm2bEvent :: codec where
  "Tpm2bEvent = TpmBuffer MAX_EVENT_SIZE"

lemma Tpm2bEvent_SIZE [simp]: "SIZE Tpm2bEvent = 1026"
  by (simp add: Tpm2bEvent_def constants)

lemma Tpm2bEvent_ok [codec_ok]: "wire_field Tpm2bEvent"
  unfolding Tpm2bEvent_def by (rule TpmBuffer_ok) (simp_all add: codec_ok constants u16_max_def)

definition Tpm2bMaxBuffer :: codec where
  "Tpm2bMaxBuffer = TpmBuffer MAX_BUFFER_SIZE"

lemma Tpm2bMaxBuffer_SIZE [simp]: "SIZE Tpm2bMaxBuffer = 1026"
  by (simp add: Tpm2bMaxBuffer_def constants)

lemma Tpm2bMaxBuffer_ok [codec_ok]: "wire_field Tpm2bMaxBuffer"
  unfolding Tpm2bMaxBuffer_def by (rule TpmBuffer_ok) (simp_all add: codec_ok constants u16_max_def)

definition Tpm2bMaxNvBuffer :: codec where
  "Tpm2bMaxNvBuffer = TpmBuffer MAX_NV_BUFFER_SIZE"

lemma Tpm2bMaxNvBuffer_SIZE [simp]: "SIZE Tpm2bMaxNvBuffer = 1026"
  by (simp add: Tpm2bMaxNvBuffer_def constants)

lemma Tpm2bMaxNvBuffer_ok [codec_ok]: "wire_field Tpm2bMaxNvBuffer"
  unfolding Tpm2bMaxNvBuffer_def by (rule TpmBuffer_ok) (simp_all add: codec_ok constants u16_max_def)

definition Tpm2bName :: codec where
  "Tpm2bName = TpmBuffer (MAX_DIGEST_SIZE + 2)"

lemma Tpm2bName_SIZE [simp]: "SIZE Tpm2bName = 68"
  by (simp add: Tpm2bName_def constants)

lemma Tpm2bName_ok [codec_ok]: "wire_field Tpm2bName"
  unfolding Tpm2bName_def by (rule TpmBuffer_ok) (simp_all add: codec_ok constants u16_max_def)

definition Tpm2bNonce :: codec where
  "Tpm2bNonce = TpmBuffer MAX_DIGEST_SIZE"

lemma Tpm2bNonce_SIZE [simp]: "SIZE Tpm2bNonce = 66"
  by (simp add: Tpm2bNonce_def constants)

lemma Tpm2bNonce_ok [codec_ok]: "wire_field Tpm2bNonce"
  unfolding Tpm2bNonce_def by (rule TpmBuffer_ok) (simp_all add: codec_ok constants u16_max_def)

definition Tpm2bOperand :: codec where
  "Tpm2bOperand = TpmBuffer MAX_DIGEST_SIZE"

lemma Tpm2bOperand_SIZE [simp]: "SIZE Tpm2bOperand = 66"
  by (simp add: Tpm2bOperand_def constants)

lemma Tpm2bOperand_ok [codec_ok]: "wire_field Tpm2bOperand"
  unfolding Tpm2bOperand_def by (rule TpmBuffer_ok) (simp_all add: codec_ok constants u16_max_def)

definition Tpm2bPrivate :: codec where
  "Tpm2bPrivate = TpmBuffer MAX_PRIVATE_SIZE"

lemma Tpm2bPrivate_SIZE [simp]: "SIZE Tpm2bPrivate = 1410"
  by (simp add: Tpm2bPrivate_def constants)

lemma Tpm2bPrivate_ok [codec_ok]: "wire_field Tpm2bPrivate"
  unfolding Tpm2bPrivate_def by (rule TpmBuffer_ok) (simp_all add: codec_ok constants u16_max_def)

definition Tpm2bPrivateKeyRsa :: codec where
  "Tpm2bPrivateKeyRsa = TpmBuffer (MAX_RSA_KEY_BYTES div 2)"

lemma Tpm2bPrivateKeyRsa_SIZE [simp]: "SIZE Tpm2bPrivateKeyRsa = 258"
  by (simp add: Tpm2bPrivateKeyRsa_def constants)

lemma Tpm2bPrivateKeyRsa_ok [codec_ok]: "wire_field Tpm2bPrivateKeyRsa"
  unfolding Tpm2bPrivateKeyRsa_def by (rule TpmBuffer_ok) (simp_all add: codec_ok constants u16_max_def)

definition Tpm2bPublicKeyRsa :: codec where
  "Tpm2bPublicKeyRsa = TpmBuffer MAX_RSA_KEY_BYTES"

lemma Tpm2bPublicKeyRsa_SIZE [simp]: "SIZE Tpm2bPublicKeyRsa = 514"
  by (simp add: Tpm2bPublicKeyRsa_def constants)

lemma Tpm2bPublicKeyRsa_ok [codec_ok]: "wire_field Tpm2bPublicKeyRsa"
  unfolding Tpm2bPublicKeyRsa_def by (rule TpmBuffer_ok) (simp_all add: codec_ok constants u16_max_def)

definition Tpm2bSensitiveData :: codec where
  "Tpm2bSensitiveData = TpmBuffer MAX_SENSITIVE_DATA"

lemma Tpm2bSensitiveData_SIZE [simp]: "SIZE Tpm2bSensitiveData = 258"
  by (simp add: Tpm2bSensitiveData_def constants)

lemma Tpm2bSensitiveData_ok [codec_ok]: "wire_field Tpm2bSensitiveData"
  unfolding Tpm2bSensitiveData_def by (rule TpmBuffer_ok) (simp_all add: codec_ok constants u16_max_def)

definition Tpm2bSymKey :: codec where
  "Tpm2bSymKey = TpmBuffer MAX_SYM_KEY_BYTES"

lemma Tpm2bSymKey_SIZE [simp]: "SIZE Tpm2bSymKey = 34"
  by (simp add: Tpm2bSymKey_def constants)

lemma Tpm2bSymKey_ok [codec_ok]: "wire_field Tpm2bSymKey"
  unfolding Tpm2bSymKey_def by (rule TpmBuffer_ok) (simp_all add: codec_ok constants u16_max_def)

definition Tpm2bData :: codec where
  "Tpm2bData = TpmBuffer MAX_DATA_SIZE"

lemma Tpm2bData_SIZE [simp]: "SIZE Tpm2bData = 68"
  by (simp add: Tpm2bData_def constants)

lemma Tpm2bData_ok [codec_ok]: "wire_field Tpm2bData"
  unfolding Tpm2bData_def by (rule TpmBuffer_ok) (simp_all add: codec_ok constants u16_max_def)

definition Tpm2bTimeout :: codec where
  "Tpm2bTimeout = TpmBuffer 8"

lemma Tpm2bTimeout_SIZE [simp]: "SIZE Tpm2bTimeout = 10"
  by (simp add: Tpm2bTimeout_def constants)

lemma Tpm2bTimeout_ok [codec_ok]: "wire_field Tpm2bTimeout"
  unfolding Tpm2bTimeout_def by (rule TpmBuffer_ok) (simp_all add: codec_ok constants u16_max_def)

definition Tpm2bIv :: codec where
  "Tpm2bIv = TpmBuffer 16"

lemma Tpm2bIv_SIZE [simp]: "SIZE Tpm2bIv = 18"
  by (simp add: Tpm2bIv_def constants)

lemma Tpm2bIv_ok [codec_ok]: "wire_field Tpm2bIv"
  unfolding Tpm2bIv_def by (rule TpmBuffer_ok) (simp_all add: codec_ok constants u16_max_def)

definition TpmaObject_flags :: "(string \<times> nat) list" where
  "TpmaObject_flags = [
    (''FIXED_TPM'', 0x00000002),
    (''ST_CLEAR'', 0x00000004),
    (''FIXED_PARENT'', 0x00000010),
    (''SENSITIVE_DATA_ORIGIN'', 0x00000020),
    (''USER_WITH_AUTH'', 0x00000040),
    (''ADMIN_WITH_POLICY'', 0x00000080),
    (''NO_DA'', 0x00000400),
    (''ENCRYPTED_DUPLICATION'', 0x00000800),
    (''RESTRICTED'', 0x00010000),
    (''DECRYPT'', 0x00020000),
    (''SIGN_ENCRYPT'', 0x00040000)]"

definition TpmaObject :: codec where
  "TpmaObject = tpm_bitflags 4"

lemma TpmaObject_SIZE [simp]: "SIZE TpmaObject = 4"
  by (simp add: TpmaObject_def constants)

lemma TpmaObject_ok [codec_ok]: "wire_field TpmaObject"
  unfolding TpmaObject_def by (rule tpm_bitflags_ok) (simp_all add: codec_ok constants u16_max_def)

definition TpmiAlgHash :: codec where
  "TpmiAlgHash = TpmAlgId_codec"

lemma TpmiAlgHash_ok [codec_ok]: "wire_field TpmiAlgHash"
  by (simp add: TpmiAlgHash_def codec_ok)

lemma TpmiAlgHash_SIZE [simp]: "SIZE TpmiAlgHash = 2"
  by (simp add: TpmiAlgHash_def)

definition TpmsPcrSelect_try_from :: "u8 list \<Rightarrow> u8 list TpmResult" where
  "TpmsPcrSelect_try_from src =
     (if length src > TPM_PCR_SELECT_MAX then Err (TooManyItems 0 TPM_PCR_SELECT_MAX (length src))
      else if length src > 255 then Err (IntegerTooLarge 0 (length src))
      else Ok src)"

definition TpmsPcrSelect_field :: "u8 list decode" where
  "TpmsPcrSelect_field buf =
     and_then (TpmWireBytes_cast_prefix 1 buf) (\<lambda>(h, remainder).
       let sz = from_be_bytes h in
       if sz > TPM_PCR_SELECT_MAX then Err (TooManyItems 0 TPM_PCR_SELECT_MAX sz)
       else if length remainder < sz then Err (UnexpectedEnd 1 sz (length remainder))
       else split_at sz remainder)"

definition TpmsPcrSelect :: codec where
  "TpmsPcrSelect = \<lparr>
     SIZE = 1 + TPM_PCR_SELECT_MAX,
     valid = (\<lambda>v. case v of VBuffer d \<Rightarrow> length d \<le> TPM_PCR_SELECT_MAX | _ \<Rightarrow> False),
     wire_len = (\<lambda>v. case v of VBuffer d \<Rightarrow> 1 + length d | _ \<Rightarrow> 0),
     marshal = (\<lambda>v. case v of
         VBuffer d \<Rightarrow> wseq (write_bytes (to_be_bytes 1 (length d))) (write_bytes d)
       | _ \<Rightarrow> wpanic),
     unmarshal = (\<lambda>b. and_then (TpmsPcrSelect_field b) (\<lambda>(x, r).
        and_then (TpmsPcrSelect_try_from x) (\<lambda>d. Ok (VBuffer d, r)))),
     cast_prefix = (\<lambda>b. and_then (TpmsPcrSelect_field b) (\<lambda>(x, r). Ok (VWire x, r)))\<rparr>"

lemma TpmsPcrSelect_field_eq:
  "TpmsPcrSelect_field buf =
     (if buf = [] then Err (UnexpectedEnd 0 1 0)
      else let sz = unat (hd buf) in
        if sz > 4 then Err (TooManyItems 0 4 sz)
        else if length (tl buf) < sz then Err (UnexpectedEnd 1 sz (length (tl buf)))
        else Ok (take sz (tl buf), drop sz (tl buf)))"
  by (cases buf) (auto simp: TpmsPcrSelect_field_def TpmWireBytes_cast_prefix_eq Let_def
      TPM_PCR_SELECT_MAX_def)

definition pcr_select_enc :: "val \<Rightarrow> u8 list" where
  "pcr_select_enc v = (case v of VBuffer d \<Rightarrow> word_of_nat (length d) # d | _ \<Rightarrow> [])"

lemma TpmsPcrSelect_unmarshal_eq:
  "unmarshal TpmsPcrSelect buf =
     (if buf = [] then Err (UnexpectedEnd 0 1 0)
      else let sz = unat (hd buf) in
        if sz > 4 then Err (TooManyItems 0 4 sz)
        else if length (tl buf) < sz then Err (UnexpectedEnd 1 sz (length (tl buf)))
        else Ok (VBuffer (take sz (tl buf)), drop sz (tl buf)))"
  by (auto simp: TpmsPcrSelect_def TpmsPcrSelect_field_eq TpmsPcrSelect_try_from_def Let_def
      TPM_PCR_SELECT_MAX_def)

lemma TpmsPcrSelect_valid_iff:
  "valid TpmsPcrSelect v \<longleftrightarrow> (\<exists>d. v = VBuffer d \<and> length d \<le> 4)"
  by (auto simp: TpmsPcrSelect_def TPM_PCR_SELECT_MAX_def split: val.splits)

lemma TpmsPcrSelect_ok [codec_ok]: "wire_field TpmsPcrSelect"
proof (rule wire_fieldI)
  show "wire_codec TpmsPcrSelect"
  proof (rule wire_codecI [where enc = pcr_select_enc])
    show "decoder (valid TpmsPcrSelect) pcr_select_enc (unmarshal TpmsPcrSelect)"
    proof
      fix v r assume "valid TpmsPcrSelect v"
      then obtain d where "v = VBuffer d" "length d \<le> 4"
        by (auto simp: TpmsPcrSelect_valid_iff)
      then show "unmarshal TpmsPcrSelect (pcr_select_enc v @ r) = Ok (v, r)"
        by (simp add: TpmsPcrSelect_unmarshal_eq pcr_select_enc_def unat_of_nat)
    next
      fix b v r assume "unmarshal TpmsPcrSelect b = Ok (v, r)"
      then show "valid TpmsPcrSelect v \<and> b = pcr_select_enc v @ r"
        by (cases b) (auto simp: TpmsPcrSelect_unmarshal_eq TpmsPcrSelect_valid_iff
            pcr_select_enc_def Let_def min_absorb2 split: if_splits)
    qed (auto simp: TpmsPcrSelect_unmarshal_eq Let_def Suc_le_eq split: if_splits)
    fix v assume v: "valid TpmsPcrSelect v"
    then obtain d where d: "v = VBuffer d" "length d \<le> 4"
      by (auto simp: TpmsPcrSelect_valid_iff)
    have "pcr_select_enc v = to_be_bytes 1 (length d) @ d"
      using d by simp (simp add: pcr_select_enc_def)
    then show "emits (marshal TpmsPcrSelect v) (pcr_select_enc v)"
      using d(1) by (simp add: TpmsPcrSelect_def emits_wseq del: to_be_bytes.simps)
  qed (auto simp: TpmsPcrSelect_def pcr_select_enc_def TPM_PCR_SELECT_MAX_def u16_max_def
        split: val.splits)
  show "tracks (cast_prefix TpmsPcrSelect) (unmarshal TpmsPcrSelect)"
    by (auto simp: tracks_def TpmsPcrSelect_unmarshal_eq Let_def Suc_le_eq split: if_splits)
       (auto simp: TpmsPcrSelect_def TpmsPcrSelect_field_eq Let_def Suc_le_eq split: if_splits)
qed

lemma TpmsPcrSelect_SIZE [simp]: "SIZE TpmsPcrSelect = 5"
  by (simp add: TpmsPcrSelect_def TPM_PCR_SELECT_MAX_def)

definition TpmsPcrSelection :: codec where
  "TpmsPcrSelection = \<lparr>
     SIZE = SIZE TpmAlgId_codec + 1 + TPM_PCR_SELECT_MAX,
     valid = (\<lambda>v. case v of
         VStruct [hash, sel] \<Rightarrow> valid TpmAlgId_codec hash \<and> valid TpmsPcrSelect sel
       | _ \<Rightarrow> False),
     wire_len = (\<lambda>v. case v of
         VStruct [hash, sel] \<Rightarrow> wire_len TpmAlgId_codec hash + wire_len TpmsPcrSelect sel
       | _ \<Rightarrow> 0),
     marshal = (\<lambda>v. case v of
         VStruct [hash, sel] \<Rightarrow> wseq (marshal TpmAlgId_codec hash) (marshal TpmsPcrSelect sel)
       | _ \<Rightarrow> wpanic),
     unmarshal = (\<lambda>b. and_then (unmarshal TpmAlgId_codec b) (\<lambda>(hash, b).
        and_then (unmarshal TpmsPcrSelect b) (\<lambda>(sel, b). Ok (VStruct [hash, sel], b)))),
     cast_prefix = (\<lambda>b. and_then (cast_prefix TpmAlgId_codec b) (\<lambda>(hash, b).
        and_then (cast_prefix TpmsPcrSelect b) (\<lambda>(sel, b). Ok (VStruct [hash, sel], b))))\<rparr>"

lemma TpmsPcrSelection_valid_iff:
  "valid TpmsPcrSelection v \<longleftrightarrow>
   (\<exists>hash sel. v = VStruct [hash, sel] \<and> valid TpmAlgId_codec hash \<and> valid TpmsPcrSelect sel)"
  by (auto simp: TpmsPcrSelection_def split: val.splits list.splits)

lemma TpmsPcrSelection_ok [codec_ok]: "wire_field TpmsPcrSelection"
proof (rule wire_fieldI)
  note c1 = wire_field_codec [OF TpmAlgId_codec_ok] and c2 = wire_field_codec [OF TpmsPcrSelect_ok]
  let ?enc = "\<lambda>v. case v of
      VStruct [hash, sel] \<Rightarrow> encode TpmAlgId_codec hash @ encode TpmsPcrSelect sel | _ \<Rightarrow> []"
  have um: "unmarshal TpmsPcrSelection = (\<lambda>b. and_then (unmarshal TpmAlgId_codec b) (\<lambda>(hash, b).
        and_then (unmarshal TpmsPcrSelect b) (\<lambda>(sel, b). Ok (VStruct [hash, sel], b))))"
    by (simp add: TpmsPcrSelection_def)
  show "wire_codec TpmsPcrSelection"
  proof (rule wire_codecI [where enc = ?enc])
    show "decoder (valid TpmsPcrSelection) ?enc (unmarshal TpmsPcrSelection)"
      unfolding um
      by unfold_locales
        (auto simp: TpmsPcrSelection_valid_iff and_then_Panic_iff and_then_Err_iff
          codec_dec_iff [OF c1] codec_dec_iff [OF c2]
          codec_dec_no_panic [OF c1] codec_dec_no_panic [OF c2]
          dest!: codec_dec_offset [OF c1] codec_dec_offset [OF c2])
    fix v assume "valid TpmsPcrSelection v"
    then obtain hash sel where "v = VStruct [hash, sel]" "valid TpmAlgId_codec hash"
        "valid TpmsPcrSelect sel"
      by (auto simp: TpmsPcrSelection_valid_iff)
    then show "emits (marshal TpmsPcrSelection v) (?enc v)"
      and "length (?enc v) = wire_len TpmsPcrSelection v"
      and "wire_len TpmsPcrSelection v \<le> SIZE TpmsPcrSelection"
      using wire_codec.len_le_SIZE [OF c1, of hash] wire_codec.len_le_SIZE [OF c2, of sel]
      by (auto simp: TpmsPcrSelection_def wire_codec.length_encode [OF c1]
          wire_codec.length_encode [OF c2] TPM_PCR_SELECT_MAX_def
          intro!: emits_wseq wire_codec.marshal_emits [OF c1] wire_codec.marshal_emits [OF c2])
  qed (simp add: TpmsPcrSelection_def TPM_PCR_SELECT_MAX_def u16_max_def)
  have ct: "cast_prefix TpmsPcrSelection =
      (\<lambda>b. and_then (cast_prefix TpmAlgId_codec b) (\<lambda>(hash, b).
        and_then (cast_prefix TpmsPcrSelect b) (\<lambda>(sel, b). Ok (VStruct [hash, sel], b))))"
    by (simp add: TpmsPcrSelection_def)
  show "tracks (cast_prefix TpmsPcrSelection) (unmarshal TpmsPcrSelection)"
    unfolding um ct
    by (intro tracks_bind_field tracks_ret TpmAlgId_codec_ok TpmsPcrSelect_ok)
qed

lemma TpmsPcrSelection_SIZE [simp]: "SIZE TpmsPcrSelection = 7"
  by (simp add: TpmsPcrSelection_def TPM_PCR_SELECT_MAX_def)

definition TpmaLocality_flags :: "(string \<times> nat) list" where
  "TpmaLocality_flags = [
    (''LOC_ZERO'', 0x01),
    (''LOC_ONE'', 0x02),
    (''LOC_TWO'', 0x04),
    (''LOC_THREE'', 0x08),
    (''LOC_FOUR'', 0x10)]"

definition TpmaLocality :: codec where
  "TpmaLocality = tpm_bitflags 1"

lemma TpmaLocality_SIZE [simp]: "SIZE TpmaLocality = 1"
  by (simp add: TpmaLocality_def constants)

lemma TpmaLocality_ok [codec_ok]: "wire_field TpmaLocality"
  unfolding TpmaLocality_def by (rule tpm_bitflags_ok) (simp_all add: codec_ok constants u16_max_def)

definition TpmiYesNo :: codec where
  "TpmiYesNo = tpm_bool"

lemma TpmiYesNo_SIZE [simp]: "SIZE TpmiYesNo = 1"
  by (simp add: TpmiYesNo_def constants)

lemma TpmiYesNo_ok [codec_ok]: "wire_field TpmiYesNo"
  unfolding TpmiYesNo_def by (rule tpm_bool_ok)

definition TpmaNv_flags :: "(string \<times> nat) list" where
  "TpmaNv_flags = [
    (''PPWRITE'', 0x00000001),
    (''OWNERWRITE'', 0x00000002),
    (''AUTHWRITE'', 0x00000004),
    (''POLICYWRITE'', 0x00000008),
    (''COUNTER'', 0x00000010),
    (''BITS'', 0x00000020),
    (''EXTEND'', 0x00000040),
    (''POLICY_DELETE'', 0x00000400),
    (''WRITELOCKED'', 0x00000800),
    (''WRITEALL'', 0x00001000),
    (''WRITEDEFINE'', 0x00002000),
    (''WRITE_STCLEAR'', 0x00004000),
    (''GLOBALLOCK'', 0x00008000),
    (''PPREAD'', 0x00010000),
    (''OWNERREAD'', 0x00020000),
    (''AUTHREAD'', 0x00040000),
    (''POLICYREAD'', 0x00080000),
    (''NO_DA'', 0x02000000),
    (''ORDERLY'', 0x04000000),
    (''CLEAR_STCLEAR'', 0x08000000),
    (''READLOCKED'', 0x10000000),
    (''WRITTEN'', 0x20000000),
    (''PLATFORMCREATE'', 0x40000000),
    (''READ_STCLEAR'', 0x80000000)]"

definition TpmaNv :: codec where
  "TpmaNv = tpm_bitflags 4"

lemma TpmaNv_SIZE [simp]: "SIZE TpmaNv = 4"
  by (simp add: TpmaNv_def constants)

lemma TpmaNv_ok [codec_ok]: "wire_field TpmaNv"
  unfolding TpmaNv_def by (rule tpm_bitflags_ok) (simp_all add: codec_ok constants u16_max_def)

definition TpmiRhNvExpIndex :: codec where
  "TpmiRhNvExpIndex = TpmHandle"

lemma TpmiRhNvExpIndex_ok [codec_ok]: "wire_field TpmiRhNvExpIndex"
  by (simp add: TpmiRhNvExpIndex_def codec_ok)

lemma TpmiRhNvExpIndex_SIZE [simp]: "SIZE TpmiRhNvExpIndex = 4"
  by (simp add: TpmiRhNvExpIndex_def)

definition TpmaNvExp_flags :: "(string \<times> nat) list" where
  "TpmaNvExp_flags = [
    (''ENCRYPTION'', 0x0000000100000000),
    (''INTEGRITY'', 0x0000000200000000),
    (''ANTIROLLBACK'', 0x0000000400000000)]"

definition TpmaNvExp :: codec where
  "TpmaNvExp = tpm_bitflags 8"

lemma TpmaNvExp_SIZE [simp]: "SIZE TpmaNvExp = 8"
  by (simp add: TpmaNvExp_def constants)

lemma TpmaNvExp_ok [codec_ok]: "wire_field TpmaNvExp"
  unfolding TpmaNvExp_def by (rule tpm_bitflags_ok) (simp_all add: codec_ok constants u16_max_def)

definition TpmaAlgorithm_flags :: "(string \<times> nat) list" where
  "TpmaAlgorithm_flags = [
    (''ASYMMETRIC'', 0x00000001),
    (''SYMMETRIC'', 0x00000002),
    (''HASH'', 0x00000004),
    (''OBJECT'', 0x00000008),
    (''SIGNING'', 0x00000100),
    (''ENCRYPTING'', 0x00000200),
    (''METHOD'', 0x00000400)]"

definition TpmaAlgorithm :: codec where
  "TpmaAlgorithm = tpm_bitflags 4"

lemma TpmaAlgorithm_SIZE [simp]: "SIZE TpmaAlgorithm = 4"
  by (simp add: TpmaAlgorithm_def constants)

lemma TpmaAlgorithm_ok [codec_ok]: "wire_field TpmaAlgorithm"
  unfolding TpmaAlgorithm_def by (rule tpm_bitflags_ok) (simp_all add: codec_ok constants u16_max_def)

definition TpmaCc_flags :: "(string \<times> nat) list" where
  "TpmaCc_flags = [
    (''NV'', 0x00400000),
    (''EXTENSIVE'', 0x00800000),
    (''FLUSHED'', 0x01000000),
    (''R_HANDLE'', 0x10000000),
    (''V'', 0x20000000)]"

definition TpmaCc :: codec where
  "TpmaCc = tpm_bitflags 4"

lemma TpmaCc_SIZE [simp]: "SIZE TpmaCc = 4"
  by (simp add: TpmaCc_def constants)

lemma TpmaCc_ok [codec_ok]: "wire_field TpmaCc"
  unfolding TpmaCc_def by (rule tpm_bitflags_ok) (simp_all add: codec_ok constants u16_max_def)

text \<open>\<open>digest_size\<close> and the union \<open>TpmuHa\<close>, whose payload length is fixed by its selector.\<close>

definition digest_size :: "TpmAlgId \<Rightarrow> nat option" where
  "digest_size tag =
     (if tag = Alg_Sha1 then Some 20
      else if tag = Alg_Shake256_192 then Some 24
      else if tag \<in> set [Alg_Sha256, Alg_Sm3_256, Alg_Sha3_256, Alg_Shake256_256] then Some 32
      else if tag \<in> set [Alg_Sha384, Alg_Sha3_384] then Some 48
      else if tag \<in> set [Alg_Sha512, Alg_Sha3_512, Alg_Shake256_512] then Some 64
      else None)"

fun alg_of :: "val \<Rightarrow> TpmAlgId option" where
  "alg_of (VEnum (EAlgId a)) = Some a"
| "alg_of _ = None"

definition TpmuHa_matches_tag :: "val \<Rightarrow> val \<Rightarrow> bool" where
  "TpmuHa_matches_tag self tag =
     (case alg_of tag of
        None \<Rightarrow> False
      | Some a \<Rightarrow> (case self of
            VUnion x None \<Rightarrow> a = Alg_Null
          | VUnion x (Some (VBuffer d)) \<Rightarrow> digest_size a = Some (length d)
          | _ \<Rightarrow> False))"

definition TpmuHa_cast :: "val \<Rightarrow> u8 list option decode" where
  "TpmuHa_cast tag buf =
     (case map_option digest_size (alg_of tag) of
        Some (Some n) \<Rightarrow>
          if length buf < n then Err (UnexpectedEnd 0 n (length buf))
          else and_then (split_at n buf) (\<lambda>(d, r). Ok (Some d, r))
      | _ \<Rightarrow> if alg_of tag = Some Alg_Null then Ok (None, buf)
             else Err (VariantNotAvailable 0 (tag_value tag)))"

definition TpmuHa :: tpmu where
  "TpmuHa = \<lparr>
     u_SIZE = MAX_DIGEST_SIZE,
     u_valid = (\<lambda>v. case v of
         VUnion x None \<Rightarrow> x = ''Null''
       | VUnion x (Some (VBuffer d)) \<Rightarrow> x = ''Digest'' \<and> length d \<le> MAX_DIGEST_SIZE
       | _ \<Rightarrow> False),
     u_len = (\<lambda>v. case v of VUnion _ (Some (VBuffer d)) \<Rightarrow> length d | _ \<Rightarrow> 0),
     u_marshal = (\<lambda>v. case v of VUnion _ (Some (VBuffer d)) \<Rightarrow> write_bytes d | _ \<Rightarrow> wdone),
     matches_tag = TpmuHa_matches_tag,
     unmarshal_tagged = (\<lambda>tag b. and_then (TpmuHa_cast tag b) (\<lambda>(x, r). case x of
         None \<Rightarrow> Ok (VUnion ''Null'' None, r)
       | Some d \<Rightarrow> and_then (TpmBuffer_try_from MAX_DIGEST_SIZE d) (\<lambda>d.
                     Ok (VUnion ''Digest'' (Some (VBuffer d)), r)))),
     cast_tagged = (\<lambda>tag b. and_then (TpmuHa_cast tag b) (\<lambda>(x, r). case x of
         None \<Rightarrow> Ok (VUnion ''Null'' None, r)
       | Some d \<Rightarrow> Ok (VUnion ''Digest'' (Some (VWire d)), r)))\<rparr>"

definition TpmuHa_enc :: "val \<Rightarrow> u8 list" where
  "TpmuHa_enc v = (case v of VUnion _ (Some (VBuffer d)) \<Rightarrow> d | _ \<Rightarrow> [])"

lemma digest_size_le: "digest_size a = Some n \<Longrightarrow> n \<le> 64"
  by (auto simp: digest_size_def split: if_splits)

lemma digest_size_Null [simp]: "digest_size Alg_Null = None"
  by (simp add: digest_size_def)

lemma TpmuHa_valid_matches_iff:
  "u_valid TpmuHa v \<and> matches_tag TpmuHa v tag \<longleftrightarrow>
   (v = VUnion ''Null'' None \<and> alg_of tag = Some Alg_Null) \<or>
   (\<exists>a d. v = VUnion ''Digest'' (Some (VBuffer d)) \<and> alg_of tag = Some a \<and>
          digest_size a = Some (length d))"
  using digest_size_le
  by (auto simp: TpmuHa_def TpmuHa_matches_tag_def MAX_DIGEST_SIZE_def
      split: val.splits option.splits)

lemma TpmuHa_decode_eq:
  "unmarshal_tagged TpmuHa tag b =
     (case alg_of tag of
        None \<Rightarrow> Err (VariantNotAvailable 0 (tag_value tag))
      | Some a \<Rightarrow> (case digest_size a of
            Some n \<Rightarrow> if length b < n then Err (UnexpectedEnd 0 n (length b))
                      else Ok (VUnion ''Digest'' (Some (VBuffer (take n b))), drop n b)
          | None \<Rightarrow> if a = Alg_Null then Ok (VUnion ''Null'' None, b)
                    else Err (VariantNotAvailable 0 (tag_value tag))))"
  using digest_size_le
  by (auto simp: TpmuHa_def TpmuHa_cast_def MAX_DIGEST_SIZE_def u16_max_def
      TpmBuffer_try_from_eq min_absorb2 split: option.splits)

lemma TpmuHa_cast_eq:
  "cast_tagged TpmuHa tag b =
     (case alg_of tag of
        None \<Rightarrow> Err (VariantNotAvailable 0 (tag_value tag))
      | Some a \<Rightarrow> (case digest_size a of
            Some n \<Rightarrow> if length b < n then Err (UnexpectedEnd 0 n (length b))
                      else Ok (VUnion ''Digest'' (Some (VWire (take n b))), drop n b)
          | None \<Rightarrow> if a = Alg_Null then Ok (VUnion ''Null'' None, b)
                    else Err (VariantNotAvailable 0 (tag_value tag))))"
  by (auto simp: TpmuHa_def TpmuHa_cast_def split: option.splits)

lemma TpmuHa_ok [codec_ok]: "wire_union TpmuHa TpmuHa_enc"
proof (rule wire_union.intro)
  fix tag
  show "decoder (\<lambda>v. u_valid TpmuHa v \<and> matches_tag TpmuHa v tag) TpmuHa_enc
          (unmarshal_tagged TpmuHa tag)"
    unfolding TpmuHa_valid_matches_iff
    by unfold_locales
      (auto simp: TpmuHa_decode_eq TpmuHa_enc_def min_absorb2 split: option.splits if_splits)
next
  fix v tag assume "u_valid TpmuHa v" "matches_tag TpmuHa v tag"
  then have v: "u_valid TpmuHa v \<and> matches_tag TpmuHa v tag" by simp
  then show "emits (u_marshal TpmuHa v) (TpmuHa_enc v)" "length (TpmuHa_enc v) = u_len TpmuHa v"
    unfolding TpmuHa_valid_matches_iff by (auto simp: TpmuHa_def TpmuHa_enc_def)
  show "u_len TpmuHa v \<le> u_SIZE TpmuHa"
    using v digest_size_le unfolding TpmuHa_valid_matches_iff
    by (auto simp: TpmuHa_def MAX_DIGEST_SIZE_def)
qed (auto simp: TpmuHa_decode_eq TpmuHa_cast_eq split: option.splits if_splits,
     simp_all add: TpmuHa_def MAX_DIGEST_SIZE_def)

lemma TpmuHa_SIZE [simp]: "u_SIZE TpmuHa = 64"
  by (simp add: TpmuHa_def MAX_DIGEST_SIZE_def)

definition TpmtHa :: codec where
  "TpmtHa = tpm_struct_tagged TpmAlgId_codec TpmuHa"

lemma TpmtHa_SIZE [simp]: "SIZE TpmtHa = 66"
  by (simp add: TpmtHa_def constants)

lemma TpmtHa_ok [codec_ok]: "wire_field TpmtHa"
  unfolding TpmtHa_def by (rule tagged_structI [OF _ _ _ TpmuHa_ok]) (simp_all add: codec_ok)

definition TpmaAct_flags :: "(string \<times> nat) list" where
  "TpmaAct_flags = [
    (''SIGNALED'', 0x00000001),
    (''PRESERVE_SIGNALED'', 0x00000002)]"

definition TpmaAct :: codec where
  "TpmaAct = tpm_bitflags 4"

lemma TpmaAct_SIZE [simp]: "SIZE TpmaAct = 4"
  by (simp add: TpmaAct_def constants)

lemma TpmaAct_ok [codec_ok]: "wire_field TpmaAct"
  unfolding TpmaAct_def by (rule tpm_bitflags_ok) (simp_all add: codec_ok constants u16_max_def)

definition TpmaSession_flags :: "(string \<times> nat) list" where
  "TpmaSession_flags = [
    (''CONTINUE_SESSION'', 0x01),
    (''AUDIT_EXCLUSIVE'', 0x02),
    (''AUDIT_RESET'', 0x04),
    (''DECRYPT'', 0x20),
    (''ENCRYPT'', 0x40),
    (''AUDIT'', 0x80)]"

definition TpmaSession :: codec where
  "TpmaSession = tpm_bitflags 1"

lemma TpmaSession_SIZE [simp]: "SIZE TpmaSession = 1"
  by (simp add: TpmaSession_def constants)

lemma TpmaSession_ok [codec_ok]: "wire_field TpmaSession"
  unfolding TpmaSession_def by (rule tpm_bitflags_ok) (simp_all add: codec_ok constants u16_max_def)

definition TpmiAlgSymObject :: codec where
  "TpmiAlgSymObject = TpmAlgId_codec"

lemma TpmiAlgSymObject_ok [codec_ok]: "wire_field TpmiAlgSymObject"
  by (simp add: TpmiAlgSymObject_def codec_ok)

lemma TpmiAlgSymObject_SIZE [simp]: "SIZE TpmiAlgSymObject = 2"
  by (simp add: TpmiAlgSymObject_def)

definition TpmiStCommandTag :: codec where
  "TpmiStCommandTag = TpmSt_codec"

lemma TpmiStCommandTag_ok [codec_ok]: "wire_field TpmiStCommandTag"
  by (simp add: TpmiStCommandTag_def codec_ok)

lemma TpmiStCommandTag_SIZE [simp]: "SIZE TpmiStCommandTag = 2"
  by (simp add: TpmiStCommandTag_def)

definition TpmiDhObject :: codec where
  "TpmiDhObject = TpmHandle"

lemma TpmiDhObject_ok [codec_ok]: "wire_field TpmiDhObject"
  by (simp add: TpmiDhObject_def codec_ok)

lemma TpmiDhObject_SIZE [simp]: "SIZE TpmiDhObject = 4"
  by (simp add: TpmiDhObject_def)

definition TpmiDhParent :: codec where
  "TpmiDhParent = TpmHandle"

lemma TpmiDhParent_ok [codec_ok]: "wire_field TpmiDhParent"
  by (simp add: TpmiDhParent_def codec_ok)

lemma TpmiDhParent_SIZE [simp]: "SIZE TpmiDhParent = 4"
  by (simp add: TpmiDhParent_def)

definition TpmiDhPcr :: codec where
  "TpmiDhPcr = TpmHandle"

lemma TpmiDhPcr_ok [codec_ok]: "wire_field TpmiDhPcr"
  by (simp add: TpmiDhPcr_def codec_ok)

lemma TpmiDhPcr_SIZE [simp]: "SIZE TpmiDhPcr = 4"
  by (simp add: TpmiDhPcr_def)

definition TpmiShAuthSession :: codec where
  "TpmiShAuthSession = TpmHandle"

lemma TpmiShAuthSession_ok [codec_ok]: "wire_field TpmiShAuthSession"
  by (simp add: TpmiShAuthSession_def codec_ok)

lemma TpmiShAuthSession_SIZE [simp]: "SIZE TpmiShAuthSession = 4"
  by (simp add: TpmiShAuthSession_def)

definition TpmiRhHierarchy :: codec where
  "TpmiRhHierarchy = TpmHandle"

lemma TpmiRhHierarchy_ok [codec_ok]: "wire_field TpmiRhHierarchy"
  by (simp add: TpmiRhHierarchy_def codec_ok)

lemma TpmiRhHierarchy_SIZE [simp]: "SIZE TpmiRhHierarchy = 4"
  by (simp add: TpmiRhHierarchy_def)

end
