(* ===== verification/Data_Public.thy ===== *)
theory Data_Public
  imports Data_Basic
begin

text \<open>
  The schemes, signatures, public and sensitive areas: the unions and tagged structures of
  \<open>data/tpmu.rs\<close> and \<open>data/tpmt.rs\<close> with the structures of \<open>data/tpms.rs\<close> they are built from.
\<close>

definition TpmsSchemeHash :: codec where
  "TpmsSchemeHash = tpm_struct [
     (''hash_alg'', TpmiAlgHash)]"

lemma TpmsSchemeHash_SIZE [simp]: "SIZE TpmsSchemeHash = 2"
  by (simp add: TpmsSchemeHash_def constants)

lemma TpmsSchemeHash_ok [codec_ok]: "wire_field TpmsSchemeHash"
  unfolding TpmsSchemeHash_def by (rule tpm_struct_field_ok) (simp_all add: codec_ok constants u16_max_def)

definition TpmuKdfScheme_arms :: "arm list" where
  "TpmuKdfScheme_arms = [
     (''Mgf1'', TpmsSchemeHash, [VEnum (EAlgId Alg_Mgf1)]),
     (''Kdf1Sp800_56a'', TpmsSchemeHash, [VEnum (EAlgId Alg_Kdf1Sp800_56A)]),
     (''Kdf2'', TpmsSchemeHash, [VEnum (EAlgId Alg_Kdf2)]),
     (''Kdf1Sp800_108'', TpmsSchemeHash, [VEnum (EAlgId Alg_Kdf1Sp800_108)])]"

definition TpmuKdfScheme :: tpmu where
  "TpmuKdfScheme = tpmu_view TPM_MAX_COMMAND_SIZE TpmuKdfScheme_arms
     (Some (''Null'', [VEnum (EAlgId Alg_Null)]))"

lemma TpmuKdfScheme_bounds: "list_all (\<lambda>(_, c, _). bounded c 2) TpmuKdfScheme_arms"
  by (simp add: TpmuKdfScheme_arms_def bounded_SIZE [OF wire_field_codec [OF TpmsSchemeHash_ok]])

lemma TpmuKdfScheme_ok [codec_ok]: "wire_union TpmuKdfScheme (union_enc TpmuKdfScheme_arms)"
  unfolding TpmuKdfScheme_def
proof (rule tpmu_view_ok)
  show "arms_ok TpmuKdfScheme_arms (Some (''Null'', [VEnum (EAlgId Alg_Null)]))"
    by (simp add: arms_ok_def TpmuKdfScheme_arms_def)
  show "list_all (\<lambda>(_, c, _). wire_field c \<and> bounded c TPM_MAX_COMMAND_SIZE) TpmuKdfScheme_arms"
    using TpmuKdfScheme_bounds
    by (auto simp: TpmuKdfScheme_arms_def codec_ok TPM_MAX_COMMAND_SIZE_def elim!: bounded_mono)
qed (simp add: TPM_MAX_COMMAND_SIZE_def)

lemma TpmuKdfScheme_SIZE [simp]: "u_SIZE TpmuKdfScheme = 4096"
  by (simp add: TpmuKdfScheme_def TPM_MAX_COMMAND_SIZE_def)

lemma TpmuKdfScheme_bound: "u_bounded TpmuKdfScheme 2"
  unfolding TpmuKdfScheme_def using TpmuKdfScheme_bounds by (rule u_bounded_view [rotated]) (simp add: TpmuKdfScheme_arms_def)

definition TpmtKdfScheme :: codec where
  "TpmtKdfScheme = tpm_struct_tagged TpmAlgId_codec TpmuKdfScheme"

lemma TpmtKdfScheme_SIZE [simp]: "SIZE TpmtKdfScheme = 4098"
  by (simp add: TpmtKdfScheme_def constants)

lemma TpmtKdfScheme_ok [codec_ok]: "wire_field TpmtKdfScheme"
  unfolding TpmtKdfScheme_def by (rule tagged_structI [OF _ _ _ TpmuKdfScheme_ok]) (simp_all add: codec_ok)

lemma TpmtKdfScheme_bound: "bounded TpmtKdfScheme 4"
  unfolding TpmtKdfScheme_def
  by (rule bounded_tagged [OF bounded_SIZE [OF wire_field_codec [OF TpmAlgId_codec_ok] order_refl] TpmuKdfScheme_bound]) simp

definition TpmsSchemeXor :: codec where
  "TpmsSchemeXor = tpm_struct [
     (''hash_alg'', TpmiAlgHash),
     (''kdf'', TpmtKdfScheme)]"

lemma TpmsSchemeXor_SIZE [simp]: "SIZE TpmsSchemeXor = 4100"
  by (simp add: TpmsSchemeXor_def constants)

lemma TpmsSchemeXor_ok [codec_ok]: "wire_field TpmsSchemeXor"
  unfolding TpmsSchemeXor_def by (rule tpm_struct_field_ok) (simp_all add: codec_ok constants u16_max_def)

lemma TpmsSchemeXor_bound: "bounded TpmsSchemeXor 6"
  unfolding TpmsSchemeXor_def
  by (rule bounded_struct [where ns = "[2, 4]"]) (simp_all add: bounded_SIZE [OF wire_field_codec [OF TpmiAlgHash_ok]]
      TpmtKdfScheme_bound)

definition TpmuKeyedhashScheme_arms :: "arm list" where
  "TpmuKeyedhashScheme_arms = [
     (''Hmac'', TpmsSchemeHash, [VEnum (EAlgId Alg_Hmac)]),
     (''Xor'', TpmsSchemeXor, [VEnum (EAlgId Alg_Xor)])]"

definition TpmuKeyedhashScheme :: tpmu where
  "TpmuKeyedhashScheme = tpmu_view TPM_MAX_COMMAND_SIZE TpmuKeyedhashScheme_arms
     (Some (''Null'', [VEnum (EAlgId Alg_Null)]))"

lemma TpmuKeyedhashScheme_bounds: "list_all (\<lambda>(_, c, _). bounded c 6) TpmuKeyedhashScheme_arms"
  by (simp add: TpmuKeyedhashScheme_arms_def bounded_SIZE [OF wire_field_codec [OF TpmsSchemeHash_ok]] bounded_mono [OF TpmsSchemeXor_bound])

lemma TpmuKeyedhashScheme_ok [codec_ok]: "wire_union TpmuKeyedhashScheme (union_enc TpmuKeyedhashScheme_arms)"
  unfolding TpmuKeyedhashScheme_def
proof (rule tpmu_view_ok)
  show "arms_ok TpmuKeyedhashScheme_arms (Some (''Null'', [VEnum (EAlgId Alg_Null)]))"
    by (simp add: arms_ok_def TpmuKeyedhashScheme_arms_def)
  show "list_all (\<lambda>(_, c, _). wire_field c \<and> bounded c TPM_MAX_COMMAND_SIZE) TpmuKeyedhashScheme_arms"
    using TpmuKeyedhashScheme_bounds
    by (auto simp: TpmuKeyedhashScheme_arms_def codec_ok TPM_MAX_COMMAND_SIZE_def elim!: bounded_mono)
qed (simp add: TPM_MAX_COMMAND_SIZE_def)

lemma TpmuKeyedhashScheme_SIZE [simp]: "u_SIZE TpmuKeyedhashScheme = 4096"
  by (simp add: TpmuKeyedhashScheme_def TPM_MAX_COMMAND_SIZE_def)

lemma TpmuKeyedhashScheme_bound: "u_bounded TpmuKeyedhashScheme 6"
  unfolding TpmuKeyedhashScheme_def using TpmuKeyedhashScheme_bounds by (rule u_bounded_view [rotated]) (simp add: TpmuKeyedhashScheme_arms_def)

definition TpmtKeyedhashScheme :: codec where
  "TpmtKeyedhashScheme = tpm_struct_tagged TpmAlgId_codec TpmuKeyedhashScheme"

lemma TpmtKeyedhashScheme_SIZE [simp]: "SIZE TpmtKeyedhashScheme = 4098"
  by (simp add: TpmtKeyedhashScheme_def constants)

lemma TpmtKeyedhashScheme_ok [codec_ok]: "wire_field TpmtKeyedhashScheme"
  unfolding TpmtKeyedhashScheme_def by (rule tagged_structI [OF _ _ _ TpmuKeyedhashScheme_ok]) (simp_all add: codec_ok)

lemma TpmtKeyedhashScheme_bound: "bounded TpmtKeyedhashScheme 8"
  unfolding TpmtKeyedhashScheme_def
  by (rule bounded_tagged [OF bounded_SIZE [OF wire_field_codec [OF TpmAlgId_codec_ok] order_refl] TpmuKeyedhashScheme_bound]) simp

definition TpmsKeyedhashParms :: codec where
  "TpmsKeyedhashParms = tpm_struct [
     (''scheme'', TpmtKeyedhashScheme)]"

lemma TpmsKeyedhashParms_SIZE [simp]: "SIZE TpmsKeyedhashParms = 4098"
  by (simp add: TpmsKeyedhashParms_def constants)

lemma TpmsKeyedhashParms_ok [codec_ok]: "wire_field TpmsKeyedhashParms"
  unfolding TpmsKeyedhashParms_def by (rule tpm_struct_field_ok) (simp_all add: codec_ok constants u16_max_def)

lemma TpmsKeyedhashParms_bound: "bounded TpmsKeyedhashParms 8"
  unfolding TpmsKeyedhashParms_def
  by (rule bounded_struct [where ns = "[8]"]) (simp_all add: TpmtKeyedhashScheme_bound)

definition TpmuSymKeyBits_arms :: "arm list" where
  "TpmuSymKeyBits_arms = [
     (''Aes'', TpmUint16, [VEnum (EAlgId Alg_Aes)]),
     (''Sm4'', TpmUint16, [VEnum (EAlgId Alg_Sm4)]),
     (''Camellia'', TpmUint16, [VEnum (EAlgId Alg_Camellia)]),
     (''Xor'', TpmAlgId_codec, [VEnum (EAlgId Alg_Xor)])]"

definition TpmuSymKeyBits :: tpmu where
  "TpmuSymKeyBits = tpmu_view 2 TpmuSymKeyBits_arms
     (Some (''Null'', [VEnum (EAlgId Alg_Null)]))"

lemma TpmuSymKeyBits_bounds: "list_all (\<lambda>(_, c, _). bounded c 2) TpmuSymKeyBits_arms"
  by (simp add: TpmuSymKeyBits_arms_def bounded_SIZE [OF wire_field_codec [OF TpmAlgId_codec_ok]] bounded_SIZE [OF wire_field_codec [OF TpmUint16_ok]])

lemma TpmuSymKeyBits_ok [codec_ok]: "wire_union TpmuSymKeyBits (union_enc TpmuSymKeyBits_arms)"
  unfolding TpmuSymKeyBits_def
proof (rule tpmu_view_ok)
  show "arms_ok TpmuSymKeyBits_arms (Some (''Null'', [VEnum (EAlgId Alg_Null)]))"
    by (simp add: arms_ok_def TpmuSymKeyBits_arms_def)
  show "list_all (\<lambda>(_, c, _). wire_field c \<and> bounded c 2) TpmuSymKeyBits_arms"
    using TpmuSymKeyBits_bounds
    by (auto simp: TpmuSymKeyBits_arms_def codec_ok TPM_MAX_COMMAND_SIZE_def elim!: bounded_mono)
qed (simp add: TPM_MAX_COMMAND_SIZE_def)

lemma TpmuSymKeyBits_SIZE [simp]: "u_SIZE TpmuSymKeyBits = 2"
  by (simp add: TpmuSymKeyBits_def TPM_MAX_COMMAND_SIZE_def)

definition TpmuSymMode_arms :: "arm list" where
  "TpmuSymMode_arms = [
     (''Aes'', TpmAlgId_codec, [VEnum (EAlgId Alg_Aes)]),
     (''Sm4'', TpmAlgId_codec, [VEnum (EAlgId Alg_Sm4)]),
     (''Camellia'', TpmAlgId_codec, [VEnum (EAlgId Alg_Camellia)]),
     (''Xor'', TpmAlgId_codec, [VEnum (EAlgId Alg_Xor)])]"

definition TpmuSymMode :: tpmu where
  "TpmuSymMode = tpmu_view 2 TpmuSymMode_arms
     (Some (''Null'', [VEnum (EAlgId Alg_Null)]))"

lemma TpmuSymMode_bounds: "list_all (\<lambda>(_, c, _). bounded c 2) TpmuSymMode_arms"
  by (simp add: TpmuSymMode_arms_def bounded_SIZE [OF wire_field_codec [OF TpmAlgId_codec_ok]])

lemma TpmuSymMode_ok [codec_ok]: "wire_union TpmuSymMode (union_enc TpmuSymMode_arms)"
  unfolding TpmuSymMode_def
proof (rule tpmu_view_ok)
  show "arms_ok TpmuSymMode_arms (Some (''Null'', [VEnum (EAlgId Alg_Null)]))"
    by (simp add: arms_ok_def TpmuSymMode_arms_def)
  show "list_all (\<lambda>(_, c, _). wire_field c \<and> bounded c 2) TpmuSymMode_arms"
    using TpmuSymMode_bounds
    by (auto simp: TpmuSymMode_arms_def codec_ok TPM_MAX_COMMAND_SIZE_def elim!: bounded_mono)
qed (simp add: TPM_MAX_COMMAND_SIZE_def)

lemma TpmuSymMode_SIZE [simp]: "u_SIZE TpmuSymMode = 2"
  by (simp add: TpmuSymMode_def TPM_MAX_COMMAND_SIZE_def)

definition is_null_alg :: "val \<Rightarrow> bool" where
  "is_null_alg v = (case v of VEnum (EAlgId a) \<Rightarrow> a = Alg_Null | _ \<Rightarrow> False)"

definition TpmtSymDef :: codec where
  "TpmtSymDef = \<lparr>
     SIZE = SIZE TpmAlgId_codec + u_SIZE TpmuSymKeyBits + SIZE TpmAlgId_codec,
     valid = (\<lambda>v. case v of
         VStruct [algorithm, key_bits, mode] \<Rightarrow>
           valid TpmAlgId_codec algorithm \<and> u_valid TpmuSymKeyBits key_bits \<and>
           u_valid TpmuSymMode mode \<and> matches_tag TpmuSymKeyBits key_bits algorithm \<and>
           matches_tag TpmuSymMode mode algorithm
       | _ \<Rightarrow> False),
     wire_len = (\<lambda>v. case v of
         VStruct [algorithm, key_bits, mode] \<Rightarrow>
           if is_null_alg algorithm then wire_len TpmAlgId_codec algorithm
           else wire_len TpmAlgId_codec algorithm + u_len TpmuSymKeyBits key_bits +
                u_len TpmuSymMode mode
       | _ \<Rightarrow> 0),
     marshal = (\<lambda>v. case v of
         VStruct [algorithm, key_bits, mode] \<Rightarrow>
           if \<not> is_null_alg algorithm \<and>
              (\<not> matches_tag TpmuSymKeyBits key_bits algorithm \<or>
               \<not> matches_tag TpmuSymMode mode algorithm)
           then wfail (\<lambda>w. VariantNotAvailable (cursor w) (tag_value algorithm))
           else wseq (marshal TpmAlgId_codec algorithm)
             (if \<not> is_null_alg algorithm
              then wseq (u_marshal TpmuSymKeyBits key_bits) (u_marshal TpmuSymMode mode)
              else wdone)
       | _ \<Rightarrow> wpanic),
     unmarshal = (\<lambda>b. and_then (unmarshal TpmAlgId_codec b) (\<lambda>(algorithm, b).
        if is_null_alg algorithm
        then Ok (VStruct [algorithm, VUnion ''Null'' None, VUnion ''Null'' None], b)
        else and_then (unmarshal_tagged TpmuSymKeyBits algorithm b) (\<lambda>(key_bits, b).
          and_then (unmarshal_tagged TpmuSymMode algorithm b) (\<lambda>(mode, b).
            Ok (VStruct [algorithm, key_bits, mode], b))))),
     cast_prefix = (\<lambda>b. and_then (cast_prefix TpmAlgId_codec b) (\<lambda>(algorithm, b).
        if is_null_alg algorithm then Ok (VUnion ''Null'' None, b)
        else and_then (cast_tagged TpmuSymKeyBits algorithm b) (\<lambda>(key_bits, b).
          and_then (cast_tagged TpmuSymMode algorithm b) (\<lambda>(mode, b).
            Ok (VStruct [algorithm, key_bits, mode], b)))))\<rparr>"

lemma TpmtSymDef_valid_iff:
  "valid TpmtSymDef v \<longleftrightarrow>
   (\<exists>algorithm key_bits mode. v = VStruct [algorithm, key_bits, mode] \<and>
      valid TpmAlgId_codec algorithm \<and>
      u_valid TpmuSymKeyBits key_bits \<and> matches_tag TpmuSymKeyBits key_bits algorithm \<and>
      u_valid TpmuSymMode mode \<and> matches_tag TpmuSymMode mode algorithm)"
  by (auto simp: TpmtSymDef_def split: val.splits list.splits)

lemma sym_null_iff:
  assumes "is_null_alg algorithm"
  shows "u_valid TpmuSymKeyBits x \<and> matches_tag TpmuSymKeyBits x algorithm \<longleftrightarrow>
         x = VUnion ''Null'' None"
    and "u_valid TpmuSymMode x \<and> matches_tag TpmuSymMode x algorithm \<longleftrightarrow>
         x = VUnion ''Null'' None"
  using assms
  by (auto simp: is_null_alg_def TpmuSymKeyBits_def TpmuSymMode_def tpmu_view_def
      tpmu_matches_tag_def TpmuSymKeyBits_arms_def TpmuSymMode_arms_def
      split: val.splits option.splits enum_val.splits if_splits)

lemma sym_null_marshal:
  "u_marshal TpmuSymKeyBits (VUnion x None) = wdone" "u_marshal TpmuSymMode (VUnion x None) = wdone"
  "u_len TpmuSymKeyBits (VUnion x None) = 0" "u_len TpmuSymMode (VUnion x None) = 0"
  by (simp_all add: TpmuSymKeyBits_def TpmuSymMode_def tpmu_view_def)

lemma TpmtSymDef_codec_ok: "wire_codec TpmtSymDef"
proof -
  note c = wire_field_codec [OF TpmAlgId_codec_ok]
  note u0 = wire_union.u_decoder [OF TpmuSymKeyBits_ok] and u1 = wire_union.u_decoder [OF TpmuSymMode_ok]
  let ?enc = "\<lambda>v. case v of
      VStruct [algorithm, key_bits, mode] \<Rightarrow>
        encode TpmAlgId_codec algorithm @
        union_enc TpmuSymKeyBits_arms key_bits @ union_enc TpmuSymMode_arms mode
    | _ \<Rightarrow> []"
  have um: "unmarshal TpmtSymDef = (\<lambda>b. and_then (unmarshal TpmAlgId_codec b) (\<lambda>(algorithm, b).
        if is_null_alg algorithm
        then Ok (VStruct [algorithm, VUnion ''Null'' None, VUnion ''Null'' None], b)
        else and_then (unmarshal_tagged TpmuSymKeyBits algorithm b) (\<lambda>(key_bits, b).
          and_then (unmarshal_tagged TpmuSymMode algorithm b) (\<lambda>(mode, b).
            Ok (VStruct [algorithm, key_bits, mode], b)))))"
    by (simp add: TpmtSymDef_def)
  have null: "u_valid TpmuSymKeyBits x \<and> matches_tag TpmuSymKeyBits x a \<Longrightarrow> x = VUnion ''Null'' None"
    "u_valid TpmuSymMode y \<and> matches_tag TpmuSymMode y a \<Longrightarrow> y = VUnion ''Null'' None"
    "u_valid TpmuSymKeyBits (VUnion ''Null'' None)" "u_valid TpmuSymMode (VUnion ''Null'' None)"
    "matches_tag TpmuSymKeyBits (VUnion ''Null'' None) a"
    "matches_tag TpmuSymMode (VUnion ''Null'' None) a" if "is_null_alg a" for a x y
    using sym_null_iff [OF that] by blast+
  show ?thesis
  proof (rule wire_codecI [where enc = ?enc])
    show "decoder (valid TpmtSymDef) ?enc (unmarshal TpmtSymDef)"
      unfolding um
    proof
      fix v r assume "valid TpmtSymDef v"
      then obtain a k m where v: "v = VStruct [a, k, m]" "valid TpmAlgId_codec a"
          "u_valid TpmuSymKeyBits k \<and> matches_tag TpmuSymKeyBits k a"
          "u_valid TpmuSymMode m \<and> matches_tag TpmuSymMode m a"
        by (auto simp: TpmtSymDef_valid_iff)
      show "and_then (unmarshal TpmAlgId_codec (?enc v @ r)) (\<lambda>(algorithm, b).
        if is_null_alg algorithm
        then Ok (VStruct [algorithm, VUnion ''Null'' None, VUnion ''Null'' None], b)
        else and_then (unmarshal_tagged TpmuSymKeyBits algorithm b) (\<lambda>(key_bits, b).
          and_then (unmarshal_tagged TpmuSymMode algorithm b) (\<lambda>(mode, b).
            Ok (VStruct [algorithm, key_bits, mode], b)))) = Ok (v, r)"
      proof (cases "is_null_alg a")
        case True
        with null [OF this] v have "k = VUnion ''Null'' None" "m = VUnion ''Null'' None"
          by blast+
        with True v(1,2) show ?thesis
          by (simp add: codec_dec_enc [OF c])
      next
        case False
        with v show ?thesis
          by (simp add: codec_dec_enc [OF c] decoder.dec_enc [OF u0] decoder.dec_enc [OF u1] del: and_then_Ok_iff)
      qed
    next
      fix b v r
      assume "and_then (unmarshal TpmAlgId_codec b) (\<lambda>(algorithm, b).
        if is_null_alg algorithm
        then Ok (VStruct [algorithm, VUnion ''Null'' None, VUnion ''Null'' None], b)
        else and_then (unmarshal_tagged TpmuSymKeyBits algorithm b) (\<lambda>(key_bits, b).
          and_then (unmarshal_tagged TpmuSymMode algorithm b) (\<lambda>(mode, b).
            Ok (VStruct [algorithm, key_bits, mode], b)))) = Ok (v, r)"
      then show "valid TpmtSymDef v \<and> b = ?enc v @ r"
        using null
        by (auto simp: TpmtSymDef_valid_iff codec_dec_iff [OF c] decoder.dec_iff [OF u0]
            decoder.dec_iff [OF u1] split: if_splits)
    qed (auto simp: and_then_Panic_iff and_then_Err_iff codec_dec_iff [OF c]
        codec_dec_no_panic [OF c] decoder.dec_iff [OF u0] decoder.dec_no_panic [OF u0]
        decoder.dec_no_panic [OF u1] split: if_splits
        dest!: codec_dec_offset [OF c] decoder.dec_offset [OF u0] decoder.dec_offset [OF u1])
    fix v assume "valid TpmtSymDef v"
    then obtain a k m where v: "v = VStruct [a, k, m]" "valid TpmAlgId_codec a"
        "u_valid TpmuSymKeyBits k" "matches_tag TpmuSymKeyBits k a"
        "u_valid TpmuSymMode m" "matches_tag TpmuSymMode m a"
      by (auto simp: TpmtSymDef_valid_iff)
    have marshal_null: "is_null_alg a \<Longrightarrow>
        u_marshal TpmuSymKeyBits k = wdone \<and> u_marshal TpmuSymMode m = wdone \<and>
        u_len TpmuSymKeyBits k = 0 \<and> u_len TpmuSymMode m = 0"
      using null(1) [of a k] null(2) [of a m] v(3-6) sym_null_marshal by simp
    have "marshal TpmtSymDef v = wseq (marshal TpmAlgId_codec a)
        (wseq (u_marshal TpmuSymKeyBits k) (u_marshal TpmuSymMode m))"
      and len: "wire_len TpmtSymDef v =
        wire_len TpmAlgId_codec a + u_len TpmuSymKeyBits k + u_len TpmuSymMode m"
      using v marshal_null by (auto simp: TpmtSymDef_def)
    then show "emits (marshal TpmtSymDef v) (?enc v)"
      using v wire_codec.marshal_emits [OF c] wire_union.u_emits [OF TpmuSymKeyBits_ok]
        wire_union.u_emits [OF TpmuSymMode_ok]
      by (auto intro!: emits_wseq)
    show "length (?enc v) = wire_len TpmtSymDef v"
      using v wire_codec.length_encode [OF c] wire_union.u_length [OF TpmuSymKeyBits_ok]
        wire_union.u_length [OF TpmuSymMode_ok] unfolding len by auto
    show "wire_len TpmtSymDef v \<le> SIZE TpmtSymDef"
      using v wire_codec.len_le_SIZE [OF c, of a] wire_union.u_le [OF TpmuSymKeyBits_ok, of k a]
        wire_union.u_le [OF TpmuSymMode_ok, of m a] unfolding len
      by (simp add: TpmtSymDef_def)
  qed (simp add: TpmtSymDef_def u16_max_def)
qed

lemma tracks_if: "\<lbrakk>tracks c1 d1; tracks c2 d2\<rbrakk> \<Longrightarrow>
  tracks (\<lambda>b. if p then c1 b else c2 b) (\<lambda>b. if p then d1 b else d2 b)"
  by (cases p) simp_all

lemma TpmtSymDef_ok [codec_ok]: "wire_field TpmtSymDef"
proof (rule wire_fieldI [OF TpmtSymDef_codec_ok])
  have um: "unmarshal TpmtSymDef = (\<lambda>b. and_then (unmarshal TpmAlgId_codec b) (\<lambda>(algorithm, b).
        if is_null_alg algorithm
        then Ok (VStruct [algorithm, VUnion ''Null'' None, VUnion ''Null'' None], b)
        else and_then (unmarshal_tagged TpmuSymKeyBits algorithm b) (\<lambda>(key_bits, b).
          and_then (unmarshal_tagged TpmuSymMode algorithm b) (\<lambda>(mode, b).
            Ok (VStruct [algorithm, key_bits, mode], b)))))"
    and ct: "cast_prefix TpmtSymDef = (\<lambda>b. and_then (cast_prefix TpmAlgId_codec b) (\<lambda>(algorithm, b).
        if is_null_alg algorithm then Ok (VUnion ''Null'' None, b)
        else and_then (cast_tagged TpmuSymKeyBits algorithm b) (\<lambda>(key_bits, b).
          and_then (cast_tagged TpmuSymMode algorithm b) (\<lambda>(mode, b).
            Ok (VStruct [algorithm, key_bits, mode], b)))))"
    by (simp_all add: TpmtSymDef_def)
  show "tracks (cast_prefix TpmtSymDef) (unmarshal TpmtSymDef)"
    unfolding um ct
    by (rule tracks_bind_same [OF wire_field_codec [OF TpmAlgId_codec_ok]], simp)
       (intro tracks_if tracks_ret tracks_bind_union [OF TpmuSymKeyBits_ok]
         tracks_bind_union [OF TpmuSymMode_ok])
qed

lemma TpmtSymDef_SIZE [simp]: "SIZE TpmtSymDef = 6"
  by (simp add: TpmtSymDef_def)

definition TpmtSymDefObject :: codec where
  "TpmtSymDefObject = TpmtSymDef"

lemma TpmtSymDefObject_ok [codec_ok]: "wire_field TpmtSymDefObject"
  by (simp add: TpmtSymDefObject_def codec_ok)

lemma TpmtSymDefObject_SIZE [simp]: "SIZE TpmtSymDefObject = 6"
  by (simp add: TpmtSymDefObject_def)

definition TpmsSymcipherParms :: codec where
  "TpmsSymcipherParms = tpm_struct [
     (''sym'', TpmtSymDefObject)]"

lemma TpmsSymcipherParms_SIZE [simp]: "SIZE TpmsSymcipherParms = 6"
  by (simp add: TpmsSymcipherParms_def constants)

lemma TpmsSymcipherParms_ok [codec_ok]: "wire_field TpmsSymcipherParms"
  unfolding TpmsSymcipherParms_def by (rule tpm_struct_field_ok) (simp_all add: codec_ok constants u16_max_def)

definition TpmuAsymScheme_arms :: "arm list" where
  "TpmuAsymScheme_arms = [
     (''Hash'', TpmsSchemeHash,
       [VEnum (EAlgId Alg_Rsassa),
        VEnum (EAlgId Alg_Rsapss),
        VEnum (EAlgId Alg_Ecdsa),
        VEnum (EAlgId Alg_Ecdaa),
        VEnum (EAlgId Alg_Sm2),
        VEnum (EAlgId Alg_Ecschnorr),
        VEnum (EAlgId Alg_Oaep),
        VEnum (EAlgId Alg_Ecdh),
        VEnum (EAlgId Alg_Ecmqv)])]"

definition TpmuAsymScheme :: tpmu where
  "TpmuAsymScheme = tpmu_view TPM_MAX_COMMAND_SIZE TpmuAsymScheme_arms
     (Some (''Null'', [VEnum (EAlgId Alg_Rsaes), VEnum (EAlgId Alg_Null)]))"

lemma TpmuAsymScheme_bounds: "list_all (\<lambda>(_, c, _). bounded c 2) TpmuAsymScheme_arms"
  by (simp add: TpmuAsymScheme_arms_def bounded_SIZE [OF wire_field_codec [OF TpmsSchemeHash_ok]])

lemma TpmuAsymScheme_ok [codec_ok]: "wire_union TpmuAsymScheme (union_enc TpmuAsymScheme_arms)"
  unfolding TpmuAsymScheme_def
proof (rule tpmu_view_ok)
  show "arms_ok TpmuAsymScheme_arms (Some (''Null'', [VEnum (EAlgId Alg_Rsaes), VEnum (EAlgId Alg_Null)]))"
    by (simp add: arms_ok_def TpmuAsymScheme_arms_def)
  show "list_all (\<lambda>(_, c, _). wire_field c \<and> bounded c TPM_MAX_COMMAND_SIZE) TpmuAsymScheme_arms"
    using TpmuAsymScheme_bounds
    by (auto simp: TpmuAsymScheme_arms_def codec_ok TPM_MAX_COMMAND_SIZE_def elim!: bounded_mono)
qed (simp add: TPM_MAX_COMMAND_SIZE_def)

lemma TpmuAsymScheme_SIZE [simp]: "u_SIZE TpmuAsymScheme = 4096"
  by (simp add: TpmuAsymScheme_def TPM_MAX_COMMAND_SIZE_def)

lemma TpmuAsymScheme_bound: "u_bounded TpmuAsymScheme 2"
  unfolding TpmuAsymScheme_def using TpmuAsymScheme_bounds by (rule u_bounded_view [rotated]) (simp add: TpmuAsymScheme_arms_def)

definition TpmtRsaScheme :: codec where
  "TpmtRsaScheme = tpm_struct_tagged TpmAlgId_codec TpmuAsymScheme"

lemma TpmtRsaScheme_SIZE [simp]: "SIZE TpmtRsaScheme = 4098"
  by (simp add: TpmtRsaScheme_def constants)

lemma TpmtRsaScheme_ok [codec_ok]: "wire_field TpmtRsaScheme"
  unfolding TpmtRsaScheme_def by (rule tagged_structI [OF _ _ _ TpmuAsymScheme_ok]) (simp_all add: codec_ok)

lemma TpmtRsaScheme_bound: "bounded TpmtRsaScheme 4"
  unfolding TpmtRsaScheme_def
  by (rule bounded_tagged [OF bounded_SIZE [OF wire_field_codec [OF TpmAlgId_codec_ok] order_refl] TpmuAsymScheme_bound]) simp

definition TpmsRsaParms :: codec where
  "TpmsRsaParms = tpm_struct [
     (''symmetric'', TpmtSymDefObject),
     (''scheme'', TpmtRsaScheme),
     (''key_bits'', TpmUint16),
     (''exponent'', TpmUint32)]"

lemma TpmsRsaParms_SIZE [simp]: "SIZE TpmsRsaParms = 4110"
  by (simp add: TpmsRsaParms_def constants)

lemma TpmsRsaParms_ok [codec_ok]: "wire_field TpmsRsaParms"
  unfolding TpmsRsaParms_def by (rule tpm_struct_field_ok) (simp_all add: codec_ok constants u16_max_def)

lemma TpmsRsaParms_bound: "bounded TpmsRsaParms 16"
  unfolding TpmsRsaParms_def
  by (rule bounded_struct [where ns = "[6, 4, 2, 4]"]) (simp_all add: bounded_SIZE [OF wire_field_codec [OF TpmtSymDefObject_ok]]
      TpmtRsaScheme_bound
      bounded_SIZE [OF wire_field_codec [OF TpmUint16_ok]]
      bounded_SIZE [OF wire_field_codec [OF TpmUint32_ok]])

definition TpmtEccScheme :: codec where
  "TpmtEccScheme = tpm_struct_tagged TpmAlgId_codec TpmuAsymScheme"

lemma TpmtEccScheme_SIZE [simp]: "SIZE TpmtEccScheme = 4098"
  by (simp add: TpmtEccScheme_def constants)

lemma TpmtEccScheme_ok [codec_ok]: "wire_field TpmtEccScheme"
  unfolding TpmtEccScheme_def by (rule tagged_structI [OF _ _ _ TpmuAsymScheme_ok]) (simp_all add: codec_ok)

lemma TpmtEccScheme_bound: "bounded TpmtEccScheme 4"
  unfolding TpmtEccScheme_def
  by (rule bounded_tagged [OF bounded_SIZE [OF wire_field_codec [OF TpmAlgId_codec_ok] order_refl] TpmuAsymScheme_bound]) simp

definition TpmsEccParms :: codec where
  "TpmsEccParms = tpm_struct [
     (''symmetric'', TpmtSymDefObject),
     (''scheme'', TpmtEccScheme),
     (''curve_id'', TpmEccCurve_codec),
     (''kdf'', TpmtKdfScheme)]"

lemma TpmsEccParms_SIZE [simp]: "SIZE TpmsEccParms = 8204"
  by (simp add: TpmsEccParms_def constants)

lemma TpmsEccParms_ok [codec_ok]: "wire_field TpmsEccParms"
  unfolding TpmsEccParms_def by (rule tpm_struct_field_ok) (simp_all add: codec_ok constants u16_max_def)

lemma TpmsEccParms_bound: "bounded TpmsEccParms 16"
  unfolding TpmsEccParms_def
  by (rule bounded_struct [where ns = "[6, 4, 2, 4]"]) (simp_all add: bounded_SIZE [OF wire_field_codec [OF TpmtSymDefObject_ok]]
      TpmtEccScheme_bound
      bounded_SIZE [OF wire_field_codec [OF TpmEccCurve_codec_ok]]
      TpmtKdfScheme_bound)

definition TpmuPublicParms_arms :: "arm list" where
  "TpmuPublicParms_arms = [
     (''KeyedHash'', TpmsKeyedhashParms, [VEnum (EAlgId Alg_KeyedHash)]),
     (''SymCipher'', TpmsSymcipherParms, [VEnum (EAlgId Alg_SymCipher)]),
     (''Rsa'', TpmsRsaParms, [VEnum (EAlgId Alg_Rsa)]),
     (''Ecc'', TpmsEccParms, [VEnum (EAlgId Alg_Ecc)])]"

definition TpmuPublicParms :: tpmu where
  "TpmuPublicParms = tpmu_view TPM_MAX_COMMAND_SIZE TpmuPublicParms_arms
     (Some (''Null'', [VEnum (EAlgId Alg_Null)]))"

lemma TpmuPublicParms_bounds: "list_all (\<lambda>(_, c, _). bounded c 16) TpmuPublicParms_arms"
  by (simp add: TpmuPublicParms_arms_def bounded_mono [OF TpmsEccParms_bound] bounded_mono [OF TpmsKeyedhashParms_bound] bounded_mono [OF TpmsRsaParms_bound] bounded_SIZE [OF wire_field_codec [OF TpmsSymcipherParms_ok]])

lemma TpmuPublicParms_ok [codec_ok]: "wire_union TpmuPublicParms (union_enc TpmuPublicParms_arms)"
  unfolding TpmuPublicParms_def
proof (rule tpmu_view_ok)
  show "arms_ok TpmuPublicParms_arms (Some (''Null'', [VEnum (EAlgId Alg_Null)]))"
    by (simp add: arms_ok_def TpmuPublicParms_arms_def)
  show "list_all (\<lambda>(_, c, _). wire_field c \<and> bounded c TPM_MAX_COMMAND_SIZE) TpmuPublicParms_arms"
    using TpmuPublicParms_bounds
    by (auto simp: TpmuPublicParms_arms_def codec_ok TPM_MAX_COMMAND_SIZE_def elim!: bounded_mono)
qed (simp add: TPM_MAX_COMMAND_SIZE_def)

lemma TpmuPublicParms_SIZE [simp]: "u_SIZE TpmuPublicParms = 4096"
  by (simp add: TpmuPublicParms_def TPM_MAX_COMMAND_SIZE_def)

lemma TpmuPublicParms_bound: "u_bounded TpmuPublicParms 16"
  unfolding TpmuPublicParms_def using TpmuPublicParms_bounds by (rule u_bounded_view [rotated]) (simp add: TpmuPublicParms_arms_def)

definition TpmsEccPoint :: codec where
  "TpmsEccPoint = tpm_struct [
     (''x'', Tpm2bEccParameter),
     (''y'', Tpm2bEccParameter)]"

lemma TpmsEccPoint_SIZE [simp]: "SIZE TpmsEccPoint = 136"
  by (simp add: TpmsEccPoint_def constants)

lemma TpmsEccPoint_ok [codec_ok]: "wire_field TpmsEccPoint"
  unfolding TpmsEccPoint_def by (rule tpm_struct_field_ok) (simp_all add: codec_ok constants u16_max_def)

definition TpmuPublicId_arms :: "arm list" where
  "TpmuPublicId_arms = [
     (''KeyedHash'', Tpm2bDigest, [VEnum (EAlgId Alg_KeyedHash)]),
     (''SymCipher'', Tpm2bSymKey, [VEnum (EAlgId Alg_SymCipher)]),
     (''Rsa'', Tpm2bPublicKeyRsa, [VEnum (EAlgId Alg_Rsa)]),
     (''Ecc'', TpmsEccPoint, [VEnum (EAlgId Alg_Ecc)])]"

definition TpmuPublicId :: tpmu where
  "TpmuPublicId = tpmu_view TPM_MAX_COMMAND_SIZE TpmuPublicId_arms
     (Some (''Null'', [VEnum (EAlgId Alg_Null)]))"

lemma TpmuPublicId_bounds: "list_all (\<lambda>(_, c, _). bounded c 514) TpmuPublicId_arms"
  by (simp add: TpmuPublicId_arms_def bounded_SIZE [OF wire_field_codec [OF Tpm2bDigest_ok]] bounded_SIZE [OF wire_field_codec [OF Tpm2bPublicKeyRsa_ok]] bounded_SIZE [OF wire_field_codec [OF Tpm2bSymKey_ok]] bounded_SIZE [OF wire_field_codec [OF TpmsEccPoint_ok]])

lemma TpmuPublicId_ok [codec_ok]: "wire_union TpmuPublicId (union_enc TpmuPublicId_arms)"
  unfolding TpmuPublicId_def
proof (rule tpmu_view_ok)
  show "arms_ok TpmuPublicId_arms (Some (''Null'', [VEnum (EAlgId Alg_Null)]))"
    by (simp add: arms_ok_def TpmuPublicId_arms_def)
  show "list_all (\<lambda>(_, c, _). wire_field c \<and> bounded c TPM_MAX_COMMAND_SIZE) TpmuPublicId_arms"
    using TpmuPublicId_bounds
    by (auto simp: TpmuPublicId_arms_def codec_ok TPM_MAX_COMMAND_SIZE_def elim!: bounded_mono)
qed (simp add: TPM_MAX_COMMAND_SIZE_def)

lemma TpmuPublicId_SIZE [simp]: "u_SIZE TpmuPublicId = 4096"
  by (simp add: TpmuPublicId_def TPM_MAX_COMMAND_SIZE_def)

lemma TpmuPublicId_bound: "u_bounded TpmuPublicId 514"
  unfolding TpmuPublicId_def using TpmuPublicId_bounds by (rule u_bounded_view [rotated]) (simp add: TpmuPublicId_arms_def)

definition TpmtPublic :: codec where
  "TpmtPublic = \<lparr>
     SIZE = TPM_MAX_COMMAND_SIZE,
     valid = (\<lambda>v. case v of
         VStruct [object_type, name_alg, object_attributes, auth_policy, parameters, unique] \<Rightarrow>
           valid TpmAlgId_codec object_type \<and> valid TpmAlgId_codec name_alg \<and> valid TpmaObject object_attributes \<and> valid Tpm2bDigest auth_policy \<and> u_valid TpmuPublicParms parameters \<and> u_valid TpmuPublicId unique \<and> matches_tag TpmuPublicParms parameters object_type \<and> matches_tag TpmuPublicId unique object_type
       | _ \<Rightarrow> False),
     wire_len = (\<lambda>v. case v of
         VStruct [object_type, name_alg, object_attributes, auth_policy, parameters, unique] \<Rightarrow>
           wire_len TpmAlgId_codec object_type + wire_len TpmAlgId_codec name_alg + wire_len TpmaObject object_attributes + wire_len Tpm2bDigest auth_policy + u_len TpmuPublicParms parameters + u_len TpmuPublicId unique
       | _ \<Rightarrow> 0),
     marshal = (\<lambda>v. case v of
         VStruct [object_type, name_alg, object_attributes, auth_policy, parameters, unique] \<Rightarrow>
           if \<not> matches_tag TpmuPublicParms parameters object_type \<or> \<not> matches_tag TpmuPublicId unique object_type
           then wfail (\<lambda>w. VariantNotAvailable (cursor w) (tag_value object_type))
           else wseq (marshal TpmAlgId_codec object_type) (
           wseq (marshal TpmAlgId_codec name_alg) (
           wseq (marshal TpmaObject object_attributes) (
           wseq (marshal Tpm2bDigest auth_policy) (
           wseq (u_marshal TpmuPublicParms parameters) (
           u_marshal TpmuPublicId unique)))))
       | _ \<Rightarrow> wpanic),
     unmarshal = (\<lambda>b.
        and_then (unmarshal TpmAlgId_codec b) (\<lambda>(object_type, b).
        and_then (unmarshal TpmAlgId_codec b) (\<lambda>(name_alg, b).
         and_then (unmarshal TpmaObject b) (\<lambda>(object_attributes, b).
          and_then (unmarshal Tpm2bDigest b) (\<lambda>(auth_policy, b).
           and_then (unmarshal_tagged TpmuPublicParms object_type b) (\<lambda>(parameters, b).
            and_then (unmarshal_tagged TpmuPublicId object_type b) (\<lambda>(unique, b).
             Ok (VStruct [object_type, name_alg, object_attributes, auth_policy, parameters, unique], b)))))))),
     cast_prefix = (\<lambda>b.
        and_then (cast_prefix TpmAlgId_codec b) (\<lambda>(object_type, b).
        and_then (cast_prefix TpmAlgId_codec b) (\<lambda>(name_alg, b).
         and_then (cast_prefix TpmaObject b) (\<lambda>(object_attributes, b).
          and_then (cast_prefix Tpm2bDigest b) (\<lambda>(auth_policy, b).
           and_then (cast_tagged TpmuPublicParms object_type b) (\<lambda>(parameters, b).
            and_then (cast_tagged TpmuPublicId object_type b) (\<lambda>(unique, b).
             Ok (VStruct [object_type, name_alg, object_attributes, auth_policy, parameters, unique], b))))))))\<rparr>"

lemma TpmtPublic_valid_iff:
  "valid TpmtPublic v \<longleftrightarrow>
   (\<exists>object_type name_alg object_attributes auth_policy parameters unique. v = VStruct [object_type, name_alg, object_attributes, auth_policy, parameters, unique] \<and>
      valid TpmAlgId_codec object_type \<and> valid TpmAlgId_codec name_alg \<and> valid TpmaObject object_attributes \<and> valid Tpm2bDigest auth_policy \<and> u_valid TpmuPublicParms parameters \<and> u_valid TpmuPublicId unique \<and> matches_tag TpmuPublicParms parameters object_type \<and> matches_tag TpmuPublicId unique object_type)"
  by (auto simp: TpmtPublic_def split: val.splits list.splits)

lemma TpmtPublic_codec_ok: "wire_codec TpmtPublic"
proof -
  note c0 = wire_field_codec [OF TpmAlgId_codec_ok]
  note c1 = wire_field_codec [OF TpmaObject_ok]
  note c2 = wire_field_codec [OF Tpm2bDigest_ok]
  note u0 = wire_union.u_decoder [OF TpmuPublicParms_ok]
  note u1 = wire_union.u_decoder [OF TpmuPublicId_ok]
  let ?enc = "\<lambda>v. case v of
      VStruct [object_type, name_alg, object_attributes, auth_policy, parameters, unique] \<Rightarrow>
        encode TpmAlgId_codec object_type @ encode TpmAlgId_codec name_alg @ encode TpmaObject object_attributes @ encode Tpm2bDigest auth_policy @ union_enc TpmuPublicParms_arms parameters @ union_enc TpmuPublicId_arms unique
    | _ \<Rightarrow> []"
  have um: "unmarshal TpmtPublic = (\<lambda>b.
        and_then (unmarshal TpmAlgId_codec b) (\<lambda>(object_type, b).
        and_then (unmarshal TpmAlgId_codec b) (\<lambda>(name_alg, b).
         and_then (unmarshal TpmaObject b) (\<lambda>(object_attributes, b).
          and_then (unmarshal Tpm2bDigest b) (\<lambda>(auth_policy, b).
           and_then (unmarshal_tagged TpmuPublicParms object_type b) (\<lambda>(parameters, b).
            and_then (unmarshal_tagged TpmuPublicId object_type b) (\<lambda>(unique, b).
             Ok (VStruct [object_type, name_alg, object_attributes, auth_policy, parameters, unique], b))))))))"
    by (simp add: TpmtPublic_def)
  show ?thesis
  proof (rule wire_codecI [where enc = ?enc])
    show "decoder (valid TpmtPublic) ?enc (unmarshal TpmtPublic)"
      unfolding um
      by unfold_locales
        (auto simp: TpmtPublic_valid_iff and_then_Panic_iff and_then_Err_iff
          codec_dec_iff [OF c0] codec_dec_no_panic [OF c0] codec_dec_iff [OF c1] codec_dec_no_panic [OF c1] codec_dec_iff [OF c2] codec_dec_no_panic [OF c2]
          decoder.dec_iff [OF u0] decoder.dec_no_panic [OF u0] decoder.dec_iff [OF u1] decoder.dec_no_panic [OF u1]
          dest!: codec_dec_offset [OF c0] codec_dec_offset [OF c1] codec_dec_offset [OF c2]
          decoder.dec_offset [OF u0] decoder.dec_offset [OF u1])
    fix v assume "valid TpmtPublic v"
    then obtain object_type name_alg object_attributes auth_policy parameters unique where v: "v = VStruct [object_type, name_alg, object_attributes, auth_policy, parameters, unique]"
        "valid TpmAlgId_codec object_type" "valid TpmAlgId_codec name_alg" "valid TpmaObject object_attributes" "valid Tpm2bDigest auth_policy" "u_valid TpmuPublicParms parameters" "u_valid TpmuPublicId unique"
        "matches_tag TpmuPublicParms parameters object_type" "matches_tag TpmuPublicId unique object_type"
      by (auto simp: TpmtPublic_valid_iff)
    then show "emits (marshal TpmtPublic v) (?enc v)"
      and "length (?enc v) = wire_len TpmtPublic v"
      by (auto simp: TpmtPublic_def
          wire_codec.length_encode [OF c0] wire_codec.length_encode [OF c1] wire_codec.length_encode [OF c2]
          wire_union.u_length [OF TpmuPublicParms_ok] wire_union.u_length [OF TpmuPublicId_ok]
          intro!: emits_wseq wire_codec.marshal_emits [OF c0] wire_codec.marshal_emits [OF c1] wire_codec.marshal_emits [OF c2]
          wire_union.u_emits [OF TpmuPublicParms_ok] wire_union.u_emits [OF TpmuPublicId_ok])
    show "wire_len TpmtPublic v \<le> SIZE TpmtPublic"
      using v wire_codec.len_le_SIZE [OF c0, of object_type] wire_codec.len_le_SIZE [OF c0, of name_alg] wire_codec.len_le_SIZE [OF c1, of object_attributes] wire_codec.len_le_SIZE [OF c2, of auth_policy]
        u_boundedD [OF TpmuPublicParms_bound, of parameters object_type] u_boundedD [OF TpmuPublicId_bound, of unique object_type]
      by (simp add: TpmtPublic_def constants)
  qed (simp add: TpmtPublic_def constants u16_max_def)
qed

lemma TpmtPublic_ok [codec_ok]: "wire_field TpmtPublic"
proof (rule wire_fieldI [OF TpmtPublic_codec_ok])
  have um: "unmarshal TpmtPublic = (\<lambda>b.
        and_then (unmarshal TpmAlgId_codec b) (\<lambda>(object_type, b).
        and_then (unmarshal TpmAlgId_codec b) (\<lambda>(name_alg, b).
         and_then (unmarshal TpmaObject b) (\<lambda>(object_attributes, b).
          and_then (unmarshal Tpm2bDigest b) (\<lambda>(auth_policy, b).
           and_then (unmarshal_tagged TpmuPublicParms object_type b) (\<lambda>(parameters, b).
            and_then (unmarshal_tagged TpmuPublicId object_type b) (\<lambda>(unique, b).
             Ok (VStruct [object_type, name_alg, object_attributes, auth_policy, parameters, unique], b))))))))"
    and ct: "cast_prefix TpmtPublic = (\<lambda>b.
        and_then (cast_prefix TpmAlgId_codec b) (\<lambda>(object_type, b).
        and_then (cast_prefix TpmAlgId_codec b) (\<lambda>(name_alg, b).
         and_then (cast_prefix TpmaObject b) (\<lambda>(object_attributes, b).
          and_then (cast_prefix Tpm2bDigest b) (\<lambda>(auth_policy, b).
           and_then (cast_tagged TpmuPublicParms object_type b) (\<lambda>(parameters, b).
            and_then (cast_tagged TpmuPublicId object_type b) (\<lambda>(unique, b).
             Ok (VStruct [object_type, name_alg, object_attributes, auth_policy, parameters, unique], b))))))))"
    by (simp_all add: TpmtPublic_def)
  show "tracks (cast_prefix TpmtPublic) (unmarshal TpmtPublic)"
    unfolding um ct
    apply (rule tracks_bind_same [OF wire_field_codec [OF TpmAlgId_codec_ok]], simp)
    apply (rule tracks_bind_field [OF TpmAlgId_codec_ok])
    apply (rule tracks_bind_field [OF TpmaObject_ok])
    apply (rule tracks_bind_field [OF Tpm2bDigest_ok])
    apply (rule tracks_bind_union [OF TpmuPublicParms_ok])
    apply (rule tracks_bind_union [OF TpmuPublicId_ok])
    apply (rule tracks_ret)
    done
qed

lemma TpmtPublic_SIZE [simp]: "SIZE TpmtPublic = 4096"
  by (simp add: TpmtPublic_def constants)

definition Tpm2bPublic :: codec where
  "Tpm2bPublic = tpm2b_struct TpmtPublic"

lemma Tpm2bPublic_SIZE [simp]: "SIZE Tpm2bPublic = 4098"
  by (simp add: Tpm2bPublic_def constants)

lemma Tpm2bPublic_ok [codec_ok]: "wire_field Tpm2bPublic"
  unfolding Tpm2bPublic_def by (rule wire_field.tpm2b_struct_field_ok) (simp_all add: codec_ok constants u16_max_def)

definition TpmuSensitiveComposite_arms :: "arm list" where
  "TpmuSensitiveComposite_arms = [
     (''Rsa'', Tpm2bPrivateKeyRsa, [VEnum (EAlgId Alg_Rsa)]),
     (''Ecc'', Tpm2bEccParameter, [VEnum (EAlgId Alg_Ecc)]),
     (''Bits'', Tpm2bSensitiveData, [VEnum (EAlgId Alg_KeyedHash)]),
     (''Sym'', Tpm2bSymKey, [VEnum (EAlgId Alg_SymCipher)])]"

definition TpmuSensitiveComposite :: tpmu where
  "TpmuSensitiveComposite = tpmu_view TPM_MAX_COMMAND_SIZE TpmuSensitiveComposite_arms
     None"

lemma TpmuSensitiveComposite_bounds: "list_all (\<lambda>(_, c, _). bounded c 258) TpmuSensitiveComposite_arms"
  by (simp add: TpmuSensitiveComposite_arms_def bounded_SIZE [OF wire_field_codec [OF Tpm2bEccParameter_ok]] bounded_SIZE [OF wire_field_codec [OF Tpm2bPrivateKeyRsa_ok]] bounded_SIZE [OF wire_field_codec [OF Tpm2bSensitiveData_ok]] bounded_SIZE [OF wire_field_codec [OF Tpm2bSymKey_ok]])

lemma TpmuSensitiveComposite_ok [codec_ok]: "wire_union TpmuSensitiveComposite (union_enc TpmuSensitiveComposite_arms)"
  unfolding TpmuSensitiveComposite_def
proof (rule tpmu_view_ok)
  show "arms_ok TpmuSensitiveComposite_arms None"
    by (simp add: arms_ok_def TpmuSensitiveComposite_arms_def)
  show "list_all (\<lambda>(_, c, _). wire_field c \<and> bounded c TPM_MAX_COMMAND_SIZE) TpmuSensitiveComposite_arms"
    using TpmuSensitiveComposite_bounds
    by (auto simp: TpmuSensitiveComposite_arms_def codec_ok TPM_MAX_COMMAND_SIZE_def elim!: bounded_mono)
qed (simp add: TPM_MAX_COMMAND_SIZE_def)

lemma TpmuSensitiveComposite_SIZE [simp]: "u_SIZE TpmuSensitiveComposite = 4096"
  by (simp add: TpmuSensitiveComposite_def TPM_MAX_COMMAND_SIZE_def)

text \<open>\<open>TpmtSensitive\<close> implements no cast.\<close>

definition TpmtSensitive :: codec where
  "TpmtSensitive = \<lparr>
     SIZE = SIZE TpmAlgId_codec + SIZE Tpm2bAuth + SIZE Tpm2bDigest + u_SIZE TpmuSensitiveComposite,
     valid = (\<lambda>v. case v of
         VStruct [sensitive_type, auth_value, seed_value, sensitive] \<Rightarrow>
           valid TpmAlgId_codec sensitive_type \<and> valid Tpm2bAuth auth_value \<and> valid Tpm2bDigest seed_value \<and> u_valid TpmuSensitiveComposite sensitive \<and> matches_tag TpmuSensitiveComposite sensitive sensitive_type
       | _ \<Rightarrow> False),
     wire_len = (\<lambda>v. case v of
         VStruct [sensitive_type, auth_value, seed_value, sensitive] \<Rightarrow>
           wire_len TpmAlgId_codec sensitive_type + wire_len Tpm2bAuth auth_value + wire_len Tpm2bDigest seed_value + u_len TpmuSensitiveComposite sensitive
       | _ \<Rightarrow> 0),
     marshal = (\<lambda>v. case v of
         VStruct [sensitive_type, auth_value, seed_value, sensitive] \<Rightarrow>
           if \<not> matches_tag TpmuSensitiveComposite sensitive sensitive_type
           then wfail (\<lambda>w. VariantNotAvailable (cursor w) (tag_value sensitive_type))
           else wseq (marshal TpmAlgId_codec sensitive_type) (
           wseq (marshal Tpm2bAuth auth_value) (
           wseq (marshal Tpm2bDigest seed_value) (
           u_marshal TpmuSensitiveComposite sensitive)))
       | _ \<Rightarrow> wpanic),
     unmarshal = (\<lambda>b.
        and_then (unmarshal TpmAlgId_codec b) (\<lambda>(sensitive_type, b).
        and_then (unmarshal Tpm2bAuth b) (\<lambda>(auth_value, b).
         and_then (unmarshal Tpm2bDigest b) (\<lambda>(seed_value, b).
          and_then (unmarshal_tagged TpmuSensitiveComposite sensitive_type b) (\<lambda>(sensitive, b).
           Ok (VStruct [sensitive_type, auth_value, seed_value, sensitive], b)))))),
     cast_prefix = no_cast\<rparr>"

lemma TpmtSensitive_valid_iff:
  "valid TpmtSensitive v \<longleftrightarrow>
   (\<exists>sensitive_type auth_value seed_value sensitive. v = VStruct [sensitive_type, auth_value, seed_value, sensitive] \<and>
      valid TpmAlgId_codec sensitive_type \<and> valid Tpm2bAuth auth_value \<and> valid Tpm2bDigest seed_value \<and> u_valid TpmuSensitiveComposite sensitive \<and> matches_tag TpmuSensitiveComposite sensitive sensitive_type)"
  by (auto simp: TpmtSensitive_def split: val.splits list.splits)

lemma TpmtSensitive_codec_ok: "wire_codec TpmtSensitive"
proof -
  note c0 = wire_field_codec [OF TpmAlgId_codec_ok]
  note c1 = wire_field_codec [OF Tpm2bAuth_ok]
  note c2 = wire_field_codec [OF Tpm2bDigest_ok]
  note u0 = wire_union.u_decoder [OF TpmuSensitiveComposite_ok]
  let ?enc = "\<lambda>v. case v of
      VStruct [sensitive_type, auth_value, seed_value, sensitive] \<Rightarrow>
        encode TpmAlgId_codec sensitive_type @ encode Tpm2bAuth auth_value @ encode Tpm2bDigest seed_value @ union_enc TpmuSensitiveComposite_arms sensitive
    | _ \<Rightarrow> []"
  have um: "unmarshal TpmtSensitive = (\<lambda>b.
        and_then (unmarshal TpmAlgId_codec b) (\<lambda>(sensitive_type, b).
        and_then (unmarshal Tpm2bAuth b) (\<lambda>(auth_value, b).
         and_then (unmarshal Tpm2bDigest b) (\<lambda>(seed_value, b).
          and_then (unmarshal_tagged TpmuSensitiveComposite sensitive_type b) (\<lambda>(sensitive, b).
           Ok (VStruct [sensitive_type, auth_value, seed_value, sensitive], b))))))"
    by (simp add: TpmtSensitive_def)
  show ?thesis
  proof (rule wire_codecI [where enc = ?enc])
    show "decoder (valid TpmtSensitive) ?enc (unmarshal TpmtSensitive)"
      unfolding um
      by unfold_locales
        (auto simp: TpmtSensitive_valid_iff and_then_Panic_iff and_then_Err_iff
          codec_dec_iff [OF c0] codec_dec_no_panic [OF c0] codec_dec_iff [OF c1] codec_dec_no_panic [OF c1] codec_dec_iff [OF c2] codec_dec_no_panic [OF c2]
          decoder.dec_iff [OF u0] decoder.dec_no_panic [OF u0]
          dest!: codec_dec_offset [OF c0] codec_dec_offset [OF c1] codec_dec_offset [OF c2]
          decoder.dec_offset [OF u0])
    fix v assume "valid TpmtSensitive v"
    then obtain sensitive_type auth_value seed_value sensitive where v: "v = VStruct [sensitive_type, auth_value, seed_value, sensitive]"
        "valid TpmAlgId_codec sensitive_type" "valid Tpm2bAuth auth_value" "valid Tpm2bDigest seed_value" "u_valid TpmuSensitiveComposite sensitive"
        "matches_tag TpmuSensitiveComposite sensitive sensitive_type"
      by (auto simp: TpmtSensitive_valid_iff)
    then show "emits (marshal TpmtSensitive v) (?enc v)"
      and "length (?enc v) = wire_len TpmtSensitive v"
      by (auto simp: TpmtSensitive_def
          wire_codec.length_encode [OF c0] wire_codec.length_encode [OF c1] wire_codec.length_encode [OF c2]
          wire_union.u_length [OF TpmuSensitiveComposite_ok]
          intro!: emits_wseq wire_codec.marshal_emits [OF c0] wire_codec.marshal_emits [OF c1] wire_codec.marshal_emits [OF c2]
          wire_union.u_emits [OF TpmuSensitiveComposite_ok])
    show "wire_len TpmtSensitive v \<le> SIZE TpmtSensitive"
      using v wire_codec.len_le_SIZE [OF c0, of sensitive_type] wire_codec.len_le_SIZE [OF c1, of auth_value] wire_codec.len_le_SIZE [OF c2, of seed_value]
        wire_union.u_le [OF TpmuSensitiveComposite_ok, of sensitive sensitive_type]
      by (simp add: TpmtSensitive_def constants)
  qed (simp add: TpmtSensitive_def constants u16_max_def)
qed

lemma TpmtSensitive_SIZE [simp]: "SIZE TpmtSensitive = 4230"
  by (simp add: TpmtSensitive_def constants)

definition TpmsSignatureRsa :: codec where
  "TpmsSignatureRsa = tpm_struct [
     (''hash'', TpmAlgId_codec),
     (''sig'', Tpm2bPublicKeyRsa)]"

lemma TpmsSignatureRsa_SIZE [simp]: "SIZE TpmsSignatureRsa = 516"
  by (simp add: TpmsSignatureRsa_def constants)

lemma TpmsSignatureRsa_ok [codec_ok]: "wire_field TpmsSignatureRsa"
  unfolding TpmsSignatureRsa_def by (rule tpm_struct_field_ok) (simp_all add: codec_ok constants u16_max_def)

definition TpmsSignatureEcc :: codec where
  "TpmsSignatureEcc = tpm_struct [
     (''hash'', TpmAlgId_codec),
     (''signature_r'', Tpm2bEccParameter),
     (''signature_s'', Tpm2bEccParameter)]"

lemma TpmsSignatureEcc_SIZE [simp]: "SIZE TpmsSignatureEcc = 138"
  by (simp add: TpmsSignatureEcc_def constants)

lemma TpmsSignatureEcc_ok [codec_ok]: "wire_field TpmsSignatureEcc"
  unfolding TpmsSignatureEcc_def by (rule tpm_struct_field_ok) (simp_all add: codec_ok constants u16_max_def)

definition TpmsSchemeHmac :: codec where
  "TpmsSchemeHmac = TpmsSchemeHash"

lemma TpmsSchemeHmac_ok [codec_ok]: "wire_field TpmsSchemeHmac"
  by (simp add: TpmsSchemeHmac_def codec_ok)

lemma TpmsSchemeHmac_SIZE [simp]: "SIZE TpmsSchemeHmac = 2"
  by (simp add: TpmsSchemeHmac_def)

definition TpmtPublicParms :: codec where
  "TpmtPublicParms = tpm_struct_tagged TpmAlgId_codec TpmuPublicParms"

lemma TpmtPublicParms_SIZE [simp]: "SIZE TpmtPublicParms = 4098"
  by (simp add: TpmtPublicParms_def constants)

lemma TpmtPublicParms_ok [codec_ok]: "wire_field TpmtPublicParms"
  unfolding TpmtPublicParms_def by (rule tagged_structI [OF _ _ _ TpmuPublicParms_ok]) (simp_all add: codec_ok)

definition TpmtRsaDecrypt :: codec where
  "TpmtRsaDecrypt = tpm_struct_tagged TpmAlgId_codec TpmuAsymScheme"

lemma TpmtRsaDecrypt_SIZE [simp]: "SIZE TpmtRsaDecrypt = 4098"
  by (simp add: TpmtRsaDecrypt_def constants)

lemma TpmtRsaDecrypt_ok [codec_ok]: "wire_field TpmtRsaDecrypt"
  unfolding TpmtRsaDecrypt_def by (rule tagged_structI [OF _ _ _ TpmuAsymScheme_ok]) (simp_all add: codec_ok)

definition TpmuSignature_arms :: "arm list" where
  "TpmuSignature_arms = [
     (''Rsassa'', TpmsSignatureRsa, [VEnum (EAlgId Alg_Rsassa)]),
     (''Rsapss'', TpmsSignatureRsa, [VEnum (EAlgId Alg_Rsapss)]),
     (''Ecdsa'', TpmsSignatureEcc, [VEnum (EAlgId Alg_Ecdsa)]),
     (''Ecdaa'', TpmsSignatureEcc, [VEnum (EAlgId Alg_Ecdaa)]),
     (''Sm2'', TpmsSignatureEcc, [VEnum (EAlgId Alg_Sm2)]),
     (''Ecschnorr'', TpmsSignatureEcc, [VEnum (EAlgId Alg_Ecschnorr)]),
     (''Hmac'', TpmtHa, [VEnum (EAlgId Alg_Hmac)])]"

definition TpmuSignature :: tpmu where
  "TpmuSignature = tpmu_view TPM_MAX_COMMAND_SIZE TpmuSignature_arms
     (Some (''Null'', [VEnum (EAlgId Alg_Null)]))"

lemma TpmuSignature_bounds: "list_all (\<lambda>(_, c, _). bounded c 516) TpmuSignature_arms"
  by (simp add: TpmuSignature_arms_def bounded_SIZE [OF wire_field_codec [OF TpmsSignatureEcc_ok]] bounded_SIZE [OF wire_field_codec [OF TpmsSignatureRsa_ok]] bounded_SIZE [OF wire_field_codec [OF TpmtHa_ok]])

lemma TpmuSignature_ok [codec_ok]: "wire_union TpmuSignature (union_enc TpmuSignature_arms)"
  unfolding TpmuSignature_def
proof (rule tpmu_view_ok)
  show "arms_ok TpmuSignature_arms (Some (''Null'', [VEnum (EAlgId Alg_Null)]))"
    by (simp add: arms_ok_def TpmuSignature_arms_def)
  show "list_all (\<lambda>(_, c, _). wire_field c \<and> bounded c TPM_MAX_COMMAND_SIZE) TpmuSignature_arms"
    using TpmuSignature_bounds
    by (auto simp: TpmuSignature_arms_def codec_ok TPM_MAX_COMMAND_SIZE_def elim!: bounded_mono)
qed (simp add: TPM_MAX_COMMAND_SIZE_def)

lemma TpmuSignature_SIZE [simp]: "u_SIZE TpmuSignature = 4096"
  by (simp add: TpmuSignature_def TPM_MAX_COMMAND_SIZE_def)

definition TpmtSignature :: codec where
  "TpmtSignature = tpm_struct_tagged TpmAlgId_codec TpmuSignature"

lemma TpmtSignature_SIZE [simp]: "SIZE TpmtSignature = 4098"
  by (simp add: TpmtSignature_def constants)

lemma TpmtSignature_ok [codec_ok]: "wire_field TpmtSignature"
  unfolding TpmtSignature_def by (rule tagged_structI [OF _ _ _ TpmuSignature_ok]) (simp_all add: codec_ok)

definition TpmuSigScheme_arms :: "arm list" where
  "TpmuSigScheme_arms = [
     (''Hmac'', TpmsSchemeHmac, [VEnum (EAlgId Alg_Hmac)]),
     (''Hash'', TpmsSchemeHash,
       [VEnum (EAlgId Alg_Rsassa),
        VEnum (EAlgId Alg_Rsapss),
        VEnum (EAlgId Alg_Ecdsa),
        VEnum (EAlgId Alg_Ecdaa),
        VEnum (EAlgId Alg_Sm2),
        VEnum (EAlgId Alg_Ecschnorr)])]"

definition TpmuSigScheme :: tpmu where
  "TpmuSigScheme = tpmu_view TPM_MAX_COMMAND_SIZE TpmuSigScheme_arms
     (Some (''Null'', [VEnum (EAlgId Alg_Null)]))"

lemma TpmuSigScheme_bounds: "list_all (\<lambda>(_, c, _). bounded c 2) TpmuSigScheme_arms"
  by (simp add: TpmuSigScheme_arms_def bounded_SIZE [OF wire_field_codec [OF TpmsSchemeHash_ok]] bounded_SIZE [OF wire_field_codec [OF TpmsSchemeHmac_ok]])

lemma TpmuSigScheme_ok [codec_ok]: "wire_union TpmuSigScheme (union_enc TpmuSigScheme_arms)"
  unfolding TpmuSigScheme_def
proof (rule tpmu_view_ok)
  show "arms_ok TpmuSigScheme_arms (Some (''Null'', [VEnum (EAlgId Alg_Null)]))"
    by (simp add: arms_ok_def TpmuSigScheme_arms_def)
  show "list_all (\<lambda>(_, c, _). wire_field c \<and> bounded c TPM_MAX_COMMAND_SIZE) TpmuSigScheme_arms"
    using TpmuSigScheme_bounds
    by (auto simp: TpmuSigScheme_arms_def codec_ok TPM_MAX_COMMAND_SIZE_def elim!: bounded_mono)
qed (simp add: TPM_MAX_COMMAND_SIZE_def)

lemma TpmuSigScheme_SIZE [simp]: "u_SIZE TpmuSigScheme = 4096"
  by (simp add: TpmuSigScheme_def TPM_MAX_COMMAND_SIZE_def)

definition TpmtSigScheme :: codec where
  "TpmtSigScheme = tpm_struct_tagged TpmAlgId_codec TpmuSigScheme"

lemma TpmtSigScheme_SIZE [simp]: "SIZE TpmtSigScheme = 4098"
  by (simp add: TpmtSigScheme_def constants)

lemma TpmtSigScheme_ok [codec_ok]: "wire_field TpmtSigScheme"
  unfolding TpmtSigScheme_def by (rule tagged_structI [OF _ _ _ TpmuSigScheme_ok]) (simp_all add: codec_ok)

end
