(* ===== verification/Data_Types.thy ===== *)
theory Data_Types
  imports Data_Public
begin

text \<open>
  The remaining structures, lists and sized wrappers of \<open>data/tpms.rs\<close>, \<open>data/tpmt.rs\<close> and
  \<open>data/mod.rs\<close>, among them attestation and capability data.
\<close>

definition Tpm2bTemplate :: codec where
  "Tpm2bTemplate = Tpm2bPublic"

lemma Tpm2bTemplate_ok [codec_ok]: "wire_field Tpm2bTemplate"
  by (simp add: Tpm2bTemplate_def codec_ok)

lemma Tpm2bTemplate_SIZE [simp]: "SIZE Tpm2bTemplate = 4098"
  by (simp add: Tpm2bTemplate_def)

definition TpmsSensitiveCreate :: codec where
  "TpmsSensitiveCreate = tpm_struct [
     (''user_auth'', Tpm2bAuth),
     (''data'', Tpm2bSensitiveData)]"

lemma TpmsSensitiveCreate_SIZE [simp]: "SIZE TpmsSensitiveCreate = 324"
  by (simp add: TpmsSensitiveCreate_def constants)

lemma TpmsSensitiveCreate_ok [codec_ok]: "wire_field TpmsSensitiveCreate"
  unfolding TpmsSensitiveCreate_def by (rule tpm_struct_field_ok) (simp_all add: codec_ok constants u16_max_def)

definition Tpm2bSensitiveCreate :: codec where
  "Tpm2bSensitiveCreate = tpm2b_struct TpmsSensitiveCreate"

lemma Tpm2bSensitiveCreate_SIZE [simp]: "SIZE Tpm2bSensitiveCreate = 326"
  by (simp add: Tpm2bSensitiveCreate_def constants)

lemma Tpm2bSensitiveCreate_ok [codec_ok]: "wire_field Tpm2bSensitiveCreate"
  unfolding Tpm2bSensitiveCreate_def by (rule wire_field.tpm2b_struct_field_ok) (simp_all add: codec_ok constants u16_max_def)

text \<open>The macro gives \<open>Tpm2bSensitive\<close> a cast only if \<open>TpmtSensitive\<close> has one, so it has none.\<close>

definition Tpm2bSensitive :: codec where
  "Tpm2bSensitive = (tpm2b_struct TpmtSensitive)\<lparr>cast_prefix := no_cast\<rparr>"

lemma Tpm2bSensitive_SIZE [simp]: "SIZE Tpm2bSensitive = 4232"
  by (simp add: Tpm2bSensitive_def constants)

lemma Tpm2bSensitive_codec_ok: "wire_codec Tpm2bSensitive"
proof -
  have "wire_codec (tpm2b_struct TpmtSensitive)"
    by (rule wire_codec.tpm2b_struct_ok [OF TpmtSensitive_codec_ok]) (simp add: constants u16_max_def)
  then show ?thesis
    unfolding Tpm2bSensitive_def by (rule wire_codec_cast)
qed

definition TpmlPcrSelection :: codec where
  "TpmlPcrSelection = TpmList TpmsPcrSelection 8"

lemma TpmlPcrSelection_SIZE [simp]: "SIZE TpmlPcrSelection = 60"
  by (simp add: TpmlPcrSelection_def constants)

lemma TpmlPcrSelection_ok [codec_ok]: "wire_field TpmlPcrSelection"
  unfolding TpmlPcrSelection_def by (rule wire_field.TpmList_field_ok) (simp_all add: codec_ok constants u16_max_def)

definition TpmsCreationData :: codec where
  "TpmsCreationData = tpm_struct [
     (''pcr_select'', TpmlPcrSelection),
     (''pcr_digest'', Tpm2bDigest),
     (''locality'', TpmaLocality),
     (''parent_name_alg'', TpmAlgId_codec),
     (''parent_name'', Tpm2bName),
     (''parent_qualified_name'', Tpm2bName),
     (''outside_info'', Tpm2bData)]"

lemma TpmsCreationData_SIZE [simp]: "SIZE TpmsCreationData = 333"
  by (simp add: TpmsCreationData_def constants)

lemma TpmsCreationData_ok [codec_ok]: "wire_field TpmsCreationData"
  unfolding TpmsCreationData_def by (rule tpm_struct_field_ok) (simp_all add: codec_ok constants u16_max_def)

definition Tpm2bCreationData :: codec where
  "Tpm2bCreationData = tpm2b_struct TpmsCreationData"

lemma Tpm2bCreationData_SIZE [simp]: "SIZE Tpm2bCreationData = 335"
  by (simp add: Tpm2bCreationData_def constants)

lemma Tpm2bCreationData_ok [codec_ok]: "wire_field Tpm2bCreationData"
  unfolding Tpm2bCreationData_def by (rule wire_field.tpm2b_struct_field_ok) (simp_all add: codec_ok constants u16_max_def)

definition TpmsClockInfo :: codec where
  "TpmsClockInfo = tpm_struct [
     (''clock'', TpmUint64),
     (''reset_count'', TpmUint32),
     (''restart_count'', TpmUint32),
     (''safe'', TpmiYesNo)]"

lemma TpmsClockInfo_SIZE [simp]: "SIZE TpmsClockInfo = 17"
  by (simp add: TpmsClockInfo_def constants)

lemma TpmsClockInfo_ok [codec_ok]: "wire_field TpmsClockInfo"
  unfolding TpmsClockInfo_def by (rule tpm_struct_field_ok) (simp_all add: codec_ok constants u16_max_def)

definition TpmsCertifyInfo :: codec where
  "TpmsCertifyInfo = tpm_struct [
     (''name'', Tpm2bName),
     (''qualified_name'', Tpm2bName)]"

lemma TpmsCertifyInfo_SIZE [simp]: "SIZE TpmsCertifyInfo = 136"
  by (simp add: TpmsCertifyInfo_def constants)

lemma TpmsCertifyInfo_ok [codec_ok]: "wire_field TpmsCertifyInfo"
  unfolding TpmsCertifyInfo_def by (rule tpm_struct_field_ok) (simp_all add: codec_ok constants u16_max_def)

definition TpmsCreationInfo :: codec where
  "TpmsCreationInfo = tpm_struct [
     (''object_name'', Tpm2bName),
     (''creation_hash'', Tpm2bDigest)]"

lemma TpmsCreationInfo_SIZE [simp]: "SIZE TpmsCreationInfo = 134"
  by (simp add: TpmsCreationInfo_def constants)

lemma TpmsCreationInfo_ok [codec_ok]: "wire_field TpmsCreationInfo"
  unfolding TpmsCreationInfo_def by (rule tpm_struct_field_ok) (simp_all add: codec_ok constants u16_max_def)

definition TpmsQuoteInfo :: codec where
  "TpmsQuoteInfo = tpm_struct [
     (''pcr_select'', TpmlPcrSelection),
     (''pcr_digest'', Tpm2bDigest)]"

lemma TpmsQuoteInfo_SIZE [simp]: "SIZE TpmsQuoteInfo = 126"
  by (simp add: TpmsQuoteInfo_def constants)

lemma TpmsQuoteInfo_ok [codec_ok]: "wire_field TpmsQuoteInfo"
  unfolding TpmsQuoteInfo_def by (rule tpm_struct_field_ok) (simp_all add: codec_ok constants u16_max_def)

definition TpmsCommandAuditInfo :: codec where
  "TpmsCommandAuditInfo = tpm_struct [
     (''audit_counter'', TpmUint64),
     (''digest_alg'', TpmAlgId_codec),
     (''audit_digest'', Tpm2bDigest),
     (''command_digest'', Tpm2bDigest)]"

lemma TpmsCommandAuditInfo_SIZE [simp]: "SIZE TpmsCommandAuditInfo = 142"
  by (simp add: TpmsCommandAuditInfo_def constants)

lemma TpmsCommandAuditInfo_ok [codec_ok]: "wire_field TpmsCommandAuditInfo"
  unfolding TpmsCommandAuditInfo_def by (rule tpm_struct_field_ok) (simp_all add: codec_ok constants u16_max_def)

definition TpmsSessionAuditInfo :: codec where
  "TpmsSessionAuditInfo = tpm_struct [
     (''exclusive_session'', TpmiYesNo),
     (''session_digest'', Tpm2bDigest)]"

lemma TpmsSessionAuditInfo_SIZE [simp]: "SIZE TpmsSessionAuditInfo = 67"
  by (simp add: TpmsSessionAuditInfo_def constants)

lemma TpmsSessionAuditInfo_ok [codec_ok]: "wire_field TpmsSessionAuditInfo"
  unfolding TpmsSessionAuditInfo_def by (rule tpm_struct_field_ok) (simp_all add: codec_ok constants u16_max_def)

definition TpmsTimeInfo :: codec where
  "TpmsTimeInfo = tpm_struct [
     (''time'', TpmUint64),
     (''clock_info'', TpmsClockInfo)]"

lemma TpmsTimeInfo_SIZE [simp]: "SIZE TpmsTimeInfo = 25"
  by (simp add: TpmsTimeInfo_def constants)

lemma TpmsTimeInfo_ok [codec_ok]: "wire_field TpmsTimeInfo"
  unfolding TpmsTimeInfo_def by (rule tpm_struct_field_ok) (simp_all add: codec_ok constants u16_max_def)

definition TpmsTimeAttestInfo :: codec where
  "TpmsTimeAttestInfo = tpm_struct [
     (''time'', TpmsTimeInfo),
     (''firmware_version'', TpmUint64)]"

lemma TpmsTimeAttestInfo_SIZE [simp]: "SIZE TpmsTimeAttestInfo = 33"
  by (simp add: TpmsTimeAttestInfo_def constants)

lemma TpmsTimeAttestInfo_ok [codec_ok]: "wire_field TpmsTimeAttestInfo"
  unfolding TpmsTimeAttestInfo_def by (rule tpm_struct_field_ok) (simp_all add: codec_ok constants u16_max_def)

definition TpmsNvCertifyInfo :: codec where
  "TpmsNvCertifyInfo = tpm_struct [
     (''index_name'', Tpm2bName),
     (''offset'', TpmUint16),
     (''nv_contents'', Tpm2bMaxNvBuffer)]"

lemma TpmsNvCertifyInfo_SIZE [simp]: "SIZE TpmsNvCertifyInfo = 1096"
  by (simp add: TpmsNvCertifyInfo_def constants)

lemma TpmsNvCertifyInfo_ok [codec_ok]: "wire_field TpmsNvCertifyInfo"
  unfolding TpmsNvCertifyInfo_def by (rule tpm_struct_field_ok) (simp_all add: codec_ok constants u16_max_def)

definition TpmsNvDigestCertifyInfo :: codec where
  "TpmsNvDigestCertifyInfo = tpm_struct [
     (''index_name'', Tpm2bName),
     (''nv_digest'', Tpm2bDigest)]"

lemma TpmsNvDigestCertifyInfo_SIZE [simp]: "SIZE TpmsNvDigestCertifyInfo = 134"
  by (simp add: TpmsNvDigestCertifyInfo_def constants)

lemma TpmsNvDigestCertifyInfo_ok [codec_ok]: "wire_field TpmsNvDigestCertifyInfo"
  unfolding TpmsNvDigestCertifyInfo_def by (rule tpm_struct_field_ok) (simp_all add: codec_ok constants u16_max_def)

definition TpmuAttest_arms :: "arm list" where
  "TpmuAttest_arms = [
     (''Certify'', TpmsCertifyInfo, [VEnum (ESt St_AttestCertify)]),
     (''Creation'', TpmsCreationInfo, [VEnum (ESt St_AttestCreation)]),
     (''Quote'', TpmsQuoteInfo, [VEnum (ESt St_AttestQuote)]),
     (''CommandAudit'', TpmsCommandAuditInfo, [VEnum (ESt St_AttestCommandAudit)]),
     (''SessionAudit'', TpmsSessionAuditInfo, [VEnum (ESt St_AttestSessionAudit)]),
     (''Time'', TpmsTimeAttestInfo, [VEnum (ESt St_AttestTime)]),
     (''Nv'', TpmsNvCertifyInfo, [VEnum (ESt St_AttestNv)]),
     (''NvDigest'', TpmsNvDigestCertifyInfo, [VEnum (ESt St_AttestNvDigest)])]"

definition TpmuAttest :: tpmu where
  "TpmuAttest = tpmu_view TPM_MAX_COMMAND_SIZE TpmuAttest_arms
     None"

lemma TpmuAttest_bounds: "list_all (\<lambda>(_, c, _). bounded c 1096) TpmuAttest_arms"
  by (simp add: TpmuAttest_arms_def bounded_SIZE [OF wire_field_codec [OF TpmsCertifyInfo_ok]] bounded_SIZE [OF wire_field_codec [OF TpmsCommandAuditInfo_ok]] bounded_SIZE [OF wire_field_codec [OF TpmsCreationInfo_ok]] bounded_SIZE [OF wire_field_codec [OF TpmsNvCertifyInfo_ok]] bounded_SIZE [OF wire_field_codec [OF TpmsNvDigestCertifyInfo_ok]] bounded_SIZE [OF wire_field_codec [OF TpmsQuoteInfo_ok]] bounded_SIZE [OF wire_field_codec [OF TpmsSessionAuditInfo_ok]] bounded_SIZE [OF wire_field_codec [OF TpmsTimeAttestInfo_ok]])

lemma TpmuAttest_ok [codec_ok]: "wire_union TpmuAttest (union_enc TpmuAttest_arms)"
  unfolding TpmuAttest_def
proof (rule tpmu_view_ok)
  show "arms_ok TpmuAttest_arms None"
    by (simp add: arms_ok_def TpmuAttest_arms_def)
  show "list_all (\<lambda>(_, c, _). wire_field c \<and> bounded c TPM_MAX_COMMAND_SIZE) TpmuAttest_arms"
    using TpmuAttest_bounds
    by (auto simp: TpmuAttest_arms_def codec_ok TPM_MAX_COMMAND_SIZE_def elim!: bounded_mono)
qed (simp add: TPM_MAX_COMMAND_SIZE_def)

lemma TpmuAttest_SIZE [simp]: "u_SIZE TpmuAttest = 4096"
  by (simp add: TpmuAttest_def TPM_MAX_COMMAND_SIZE_def)

text \<open>Attestation structures open with the magic word \<open>TPM_GENERATED_VALUE\<close>, which is not a field.
  Their \<open>marshal\<close> does not compare \<open>attest_type\<close> with the variant of \<open>attested\<close>.\<close>

definition TpmsAttest :: codec where
  "TpmsAttest = \<lparr>
     SIZE = 4 + SIZE TpmSt_codec + SIZE Tpm2bName + SIZE Tpm2bData + SIZE TpmsClockInfo + 8 +
            u_SIZE TpmuAttest,
     valid = (\<lambda>v. case v of
         VStruct [attest_type, qualified_signer, extra_data, clock_info, firmware, attested] \<Rightarrow>
           valid TpmSt_codec attest_type \<and> valid Tpm2bName qualified_signer \<and>
           valid Tpm2bData extra_data \<and> valid TpmsClockInfo clock_info \<and>
           valid TpmUint64 firmware \<and> u_valid TpmuAttest attested \<and>
           matches_tag TpmuAttest attested attest_type
       | _ \<Rightarrow> False),
     wire_len = (\<lambda>v. case v of
         VStruct [attest_type, qualified_signer, extra_data, clock_info, firmware, attested] \<Rightarrow>
           4 + wire_len TpmSt_codec attest_type + wire_len Tpm2bName qualified_signer +
           wire_len Tpm2bData extra_data + wire_len TpmsClockInfo clock_info + 8 +
           u_len TpmuAttest attested
       | _ \<Rightarrow> 0),
     marshal = (\<lambda>v. case v of
         VStruct [attest_type, qualified_signer, extra_data, clock_info, firmware, attested] \<Rightarrow>
           wseq (marshal TpmUint32 (int_new 4 TPM_GENERATED_VALUE)) (
           wseq (marshal TpmSt_codec attest_type) (
           wseq (marshal Tpm2bName qualified_signer) (
           wseq (marshal Tpm2bData extra_data) (
           wseq (marshal TpmsClockInfo clock_info) (
           wseq (marshal TpmUint64 firmware) (
           u_marshal TpmuAttest attested))))))
       | _ \<Rightarrow> wpanic),
     unmarshal = (\<lambda>b. and_then (unmarshal TpmUint32 b) (\<lambda>(magic, b).
        if int_value magic \<noteq> TPM_GENERATED_VALUE
        then Err (InvalidMagicNumber 0 (int_value magic))
        else and_then (unmarshal TpmSt_codec b) (\<lambda>(attest_type, b).
          and_then (unmarshal Tpm2bName b) (\<lambda>(qualified_signer, b).
          and_then (unmarshal Tpm2bData b) (\<lambda>(extra_data, b).
          and_then (unmarshal TpmsClockInfo b) (\<lambda>(clock_info, b).
          and_then (unmarshal TpmUint64 b) (\<lambda>(firmware, b).
          and_then (unmarshal_tagged TpmuAttest attest_type b) (\<lambda>(attested, b).
            Ok (VStruct [attest_type, qualified_signer, extra_data, clock_info, firmware,
                         attested], b))))))))),
     cast_prefix = (\<lambda>b. and_then (cast_prefix TpmUint32 b) (\<lambda>(magic, b).
        if int_value magic \<noteq> TPM_GENERATED_VALUE
        then Err (InvalidMagicNumber 0 (int_value magic))
        else and_then (cast_prefix TpmSt_codec b) (\<lambda>(attest_type, b).
          and_then (cast_prefix Tpm2bName b) (\<lambda>(qualified_signer, b).
          and_then (cast_prefix Tpm2bData b) (\<lambda>(extra_data, b).
          and_then (cast_prefix TpmsClockInfo b) (\<lambda>(clock_info, b).
          and_then (cast_prefix TpmUint64 b) (\<lambda>(firmware, b).
          and_then (cast_tagged TpmuAttest attest_type b) (\<lambda>(attested, b).
            Ok (VStruct [attest_type, qualified_signer, extra_data, clock_info, firmware,
                         attested], b)))))))))\<rparr>"

text \<open>What follows the magic word has the shape of the other tagged structures.\<close>

definition attest_body_dec :: "val decode" where
  "attest_body_dec b = and_then (unmarshal TpmSt_codec b) (\<lambda>(attest_type, b).
          and_then (unmarshal Tpm2bName b) (\<lambda>(qualified_signer, b).
          and_then (unmarshal Tpm2bData b) (\<lambda>(extra_data, b).
          and_then (unmarshal TpmsClockInfo b) (\<lambda>(clock_info, b).
          and_then (unmarshal TpmUint64 b) (\<lambda>(firmware, b).
          and_then (unmarshal_tagged TpmuAttest attest_type b) (\<lambda>(attested, b).
            Ok (VStruct [attest_type, qualified_signer, extra_data, clock_info, firmware,
                         attested], b)))))))"

definition attest_body_enc :: "val \<Rightarrow> u8 list" where
  "attest_body_enc v = (case v of
     VStruct [attest_type, qualified_signer, extra_data, clock_info, firmware, attested] \<Rightarrow>
       encode TpmSt_codec attest_type @ encode Tpm2bName qualified_signer @
       encode Tpm2bData extra_data @ encode TpmsClockInfo clock_info @
       encode TpmUint64 firmware @ union_enc TpmuAttest_arms attested
   | _ \<Rightarrow> [])"

lemma TpmsAttest_valid_iff:
  "valid TpmsAttest v \<longleftrightarrow>
   (\<exists>attest_type qualified_signer extra_data clock_info firmware attested.
      v = VStruct [attest_type, qualified_signer, extra_data, clock_info, firmware, attested] \<and>
      valid TpmSt_codec attest_type \<and> valid Tpm2bName qualified_signer \<and>
      valid Tpm2bData extra_data \<and> valid TpmsClockInfo clock_info \<and>
      valid TpmUint64 firmware \<and> u_valid TpmuAttest attested \<and>
      matches_tag TpmuAttest attested attest_type)"
  by (auto simp: TpmsAttest_def split: val.splits list.splits)

lemmas attest_parts = TpmSt_codec_ok Tpm2bName_ok Tpm2bData_ok TpmsClockInfo_ok TpmUint64_ok

lemmas attest_dec_iff = attest_parts [THEN wire_field_codec, THEN codec_dec_iff]
  decoder.dec_iff [OF wire_union.u_decoder [OF TpmuAttest_ok]]

lemmas attest_dec_no_panic = attest_parts [THEN wire_field_codec, THEN codec_dec_no_panic]
  decoder.dec_no_panic [OF wire_union.u_decoder [OF TpmuAttest_ok]]

lemmas attest_dec_offset = attest_parts [THEN wire_field_codec, THEN codec_dec_offset]
  decoder.dec_offset [OF wire_union.u_decoder [OF TpmuAttest_ok]]

lemma attest_body: "decoder (valid TpmsAttest) attest_body_enc attest_body_dec"
  by unfold_locales
    (auto simp: attest_body_dec_def attest_body_enc_def TpmsAttest_valid_iff and_then_Panic_iff
      and_then_Err_iff attest_dec_iff attest_dec_no_panic dest!: attest_dec_offset)

lemma magic_cases:
  obtains h t where "unmarshal TpmUint32 b = Ok (VInt h, t)" "b = h @ t" "length h = 4"
  | e where "unmarshal TpmUint32 b = Err e" "offset e = 0"
  by (rule TpmWireBytes_cast_prefix_cases [of 4 b])
     (auto simp: TpmUint32_def tpm_int_def)

lemma TpmsAttest_unmarshal:
  "unmarshal TpmsAttest b = and_then (unmarshal TpmUint32 b) (\<lambda>(magic, b).
     if int_value magic \<noteq> TPM_GENERATED_VALUE
     then Err (InvalidMagicNumber 0 (int_value magic)) else attest_body_dec b)"
  by (simp add: TpmsAttest_def attest_body_dec_def cong: if_cong prod.case_cong)

definition attest_enc :: "val \<Rightarrow> u8 list" where
  "attest_enc v = to_be_bytes 4 TPM_GENERATED_VALUE @ attest_body_enc v"

lemma attest_decoder: "decoder (valid TpmsAttest) attest_enc (unmarshal TpmsAttest)"
proof
  note body = decoder.dec_enc [OF attest_body] decoder.dec_sound [OF attest_body]
    decoder.dec_no_panic [OF attest_body] decoder.dec_offset [OF attest_body]
  show "unmarshal TpmsAttest (attest_enc v @ r) = Ok (v, r)" if "valid TpmsAttest v" for v r
    using body(1) [OF that]
    by (simp add: TpmsAttest_unmarshal attest_enc_def TpmUint32_def tpm_int_def
        TPM_GENERATED_VALUE_def del: and_then_Ok_iff)
  fix b v r e
  show "valid TpmsAttest v \<and> b = attest_enc v @ r" if "unmarshal TpmsAttest b = Ok (v, r)"
  proof (rule magic_cases [of b])
    fix h t assume h: "unmarshal TpmUint32 b = Ok (VInt h, t)" "b = h @ t" "length h = 4"
    with that have "from_be_bytes h = TPM_GENERATED_VALUE" and t: "attest_body_dec t = Ok (v, r)"
      by (auto simp: TpmsAttest_unmarshal split: if_splits)
    with h(3) have "h = to_be_bytes 4 TPM_GENERATED_VALUE"
      by (metis to_from_be_bytes)
    with body(2) [OF t] h(2) show ?thesis
      by (simp add: attest_enc_def)
  qed (use that in \<open>auto simp: TpmsAttest_unmarshal\<close>)
  show "unmarshal TpmsAttest b \<noteq> Panic"
    using body(3) by (rule_tac magic_cases [of b]) (auto simp: TpmsAttest_unmarshal)
  show "offset e \<le> length b" if "unmarshal TpmsAttest b = Err e"
    using that body(4) by (rule_tac magic_cases [of b])
      (fastforce simp: TpmsAttest_unmarshal split: if_splits)+
qed

lemma TpmsAttest_codec_ok: "wire_codec TpmsAttest"
proof (rule wire_codecI [OF attest_decoder])
  note c = attest_parts [THEN wire_field_codec]
  fix v assume "valid TpmsAttest v"
  then obtain a q x k f u where v: "v = VStruct [a, q, x, k, f, u]"
      and ok: "valid TpmSt_codec a" "valid Tpm2bName q" "valid Tpm2bData x" "valid TpmsClockInfo k"
        "valid TpmUint64 f" "u_valid TpmuAttest u" "matches_tag TpmuAttest u a"
    by (auto simp: TpmsAttest_valid_iff)
  have magic: "emits (marshal TpmUint32 (int_new 4 n)) (to_be_bytes 4 n)" for n
    by (simp add: TpmUint32_def tpm_int_def int_new_def)
  show "emits (marshal TpmsAttest v) (attest_enc v)"
    using ok by (auto simp: TpmsAttest_def v attest_enc_def attest_body_enc_def
        intro!: emits_wseq magic c [THEN wire_codec.marshal_emits]
        wire_union.u_emits [OF TpmuAttest_ok])
  have f8: "wire_len TpmUint64 f = 8"
    by (simp add: TpmUint64_def tpm_int_def)
  show "length (attest_enc v) = wire_len TpmsAttest v"
    using ok f8 by (auto simp: TpmsAttest_def v attest_enc_def attest_body_enc_def
        c [THEN wire_codec.length_encode] wire_union.u_length [OF TpmuAttest_ok])
  show "wire_len TpmsAttest v \<le> SIZE TpmsAttest"
    using wire_codec.len_le_SIZE [OF c(1) ok(1)] wire_codec.len_le_SIZE [OF c(2) ok(2)]
      wire_codec.len_le_SIZE [OF c(3) ok(3)] wire_codec.len_le_SIZE [OF c(4) ok(4)]
      wire_union.u_le [OF TpmuAttest_ok ok(6,7)]
    by (simp add: TpmsAttest_def v)
qed (simp add: TpmsAttest_def u16_max_def)

lemma TpmsAttest_ok [codec_ok]: "wire_field TpmsAttest"
proof (rule wire_fieldI [OF TpmsAttest_codec_ok])
  have um: "unmarshal TpmsAttest = (\<lambda>b. and_then (unmarshal TpmUint32 b) (\<lambda>(magic, b).
     if int_value magic \<noteq> TPM_GENERATED_VALUE
     then Err (InvalidMagicNumber 0 (int_value magic)) else attest_body_dec b))"
    by (rule ext) (rule TpmsAttest_unmarshal)
  have err: "tracks (\<lambda>b. Err (InvalidMagicNumber 0 n)) (\<lambda>b. Err (InvalidMagicNumber 0 n))" for n
    by (simp add: tracks_def)
  have body: "tracks
     (\<lambda>b. and_then (cast_prefix TpmSt_codec b) (\<lambda>(attest_type, b).
          and_then (cast_prefix Tpm2bName b) (\<lambda>(qualified_signer, b).
          and_then (cast_prefix Tpm2bData b) (\<lambda>(extra_data, b).
          and_then (cast_prefix TpmsClockInfo b) (\<lambda>(clock_info, b).
          and_then (cast_prefix TpmUint64 b) (\<lambda>(firmware, b).
          and_then (cast_tagged TpmuAttest attest_type b) (\<lambda>(attested, b).
            Ok (VStruct [attest_type, qualified_signer, extra_data, clock_info, firmware,
                         attested], b))))))))
     attest_body_dec"
    unfolding attest_body_dec_def
    by (rule tracks_bind_same [OF wire_field_codec [OF TpmSt_codec_ok]], simp)
       (intro tracks_bind_field tracks_bind_union [OF TpmuAttest_ok] tracks_ret attest_parts)
  show "tracks (cast_prefix TpmsAttest) (unmarshal TpmsAttest)"
    unfolding um
    apply (simp only: TpmsAttest_def codec.simps)
    apply (rule tracks_bind_same [OF wire_field_codec [OF TpmUint32_ok]])
     apply (simp add: TpmUint32_def)
    apply (intro tracks_if err body)
    done
qed

lemma TpmsAttest_SIZE [simp]: "SIZE TpmsAttest = 4263"
  by (simp add: TpmsAttest_def)

definition Tpm2bAttest :: codec where
  "Tpm2bAttest = tpm2b_struct TpmsAttest"

lemma Tpm2bAttest_SIZE [simp]: "SIZE Tpm2bAttest = 4265"
  by (simp add: Tpm2bAttest_def constants)

lemma Tpm2bAttest_ok [codec_ok]: "wire_field Tpm2bAttest"
  unfolding Tpm2bAttest_def by (rule wire_field.tpm2b_struct_field_ok) (simp_all add: codec_ok constants u16_max_def)

definition TpmsNvPublic :: codec where
  "TpmsNvPublic = tpm_struct [
     (''nv_index'', TpmHandle),
     (''name_alg'', TpmAlgId_codec),
     (''attributes'', TpmaNv),
     (''auth_policy'', Tpm2bDigest),
     (''data_size'', TpmUint16)]"

lemma TpmsNvPublic_SIZE [simp]: "SIZE TpmsNvPublic = 78"
  by (simp add: TpmsNvPublic_def constants)

lemma TpmsNvPublic_ok [codec_ok]: "wire_field TpmsNvPublic"
  unfolding TpmsNvPublic_def by (rule tpm_struct_field_ok) (simp_all add: codec_ok constants u16_max_def)

definition Tpm2bNvPublic :: codec where
  "Tpm2bNvPublic = tpm2b_struct TpmsNvPublic"

lemma Tpm2bNvPublic_SIZE [simp]: "SIZE Tpm2bNvPublic = 80"
  by (simp add: Tpm2bNvPublic_def constants)

lemma Tpm2bNvPublic_ok [codec_ok]: "wire_field Tpm2bNvPublic"
  unfolding Tpm2bNvPublic_def by (rule wire_field.tpm2b_struct_field_ok) (simp_all add: codec_ok constants u16_max_def)

definition TpmsIdObject :: codec where
  "TpmsIdObject = tpm_struct [
     (''integrity_hmac'', Tpm2bDigest),
     (''enc_identity'', Tpm2bDigest)]"

lemma TpmsIdObject_SIZE [simp]: "SIZE TpmsIdObject = 132"
  by (simp add: TpmsIdObject_def constants)

lemma TpmsIdObject_ok [codec_ok]: "wire_field TpmsIdObject"
  unfolding TpmsIdObject_def by (rule tpm_struct_field_ok) (simp_all add: codec_ok constants u16_max_def)

definition Tpm2bIdObject :: codec where
  "Tpm2bIdObject = tpm2b_struct TpmsIdObject"

lemma Tpm2bIdObject_SIZE [simp]: "SIZE Tpm2bIdObject = 134"
  by (simp add: Tpm2bIdObject_def constants)

lemma Tpm2bIdObject_ok [codec_ok]: "wire_field Tpm2bIdObject"
  unfolding Tpm2bIdObject_def by (rule wire_field.tpm2b_struct_field_ok) (simp_all add: codec_ok constants u16_max_def)

definition Tpm2bEccPoint :: codec where
  "Tpm2bEccPoint = tpm2b_struct TpmsEccPoint"

lemma Tpm2bEccPoint_SIZE [simp]: "SIZE Tpm2bEccPoint = 138"
  by (simp add: Tpm2bEccPoint_def constants)

lemma Tpm2bEccPoint_ok [codec_ok]: "wire_field Tpm2bEccPoint"
  unfolding Tpm2bEccPoint_def by (rule wire_field.tpm2b_struct_field_ok) (simp_all add: codec_ok constants u16_max_def)

definition TpmsNvPublicExpAttr :: codec where
  "TpmsNvPublicExpAttr = tpm_struct [
     (''nv_index'', TpmiRhNvExpIndex),
     (''name_alg'', TpmAlgId_codec),
     (''attributes'', TpmaNvExp),
     (''auth_policy'', Tpm2bDigest),
     (''data_size'', TpmUint16)]"

lemma TpmsNvPublicExpAttr_SIZE [simp]: "SIZE TpmsNvPublicExpAttr = 82"
  by (simp add: TpmsNvPublicExpAttr_def constants)

lemma TpmsNvPublicExpAttr_ok [codec_ok]: "wire_field TpmsNvPublicExpAttr"
  unfolding TpmsNvPublicExpAttr_def by (rule tpm_struct_field_ok) (simp_all add: codec_ok constants u16_max_def)

definition TpmuNvPublic2_arms :: "arm list" where
  "TpmuNvPublic2_arms = [
     (''NvIndex'', TpmsNvPublic, [VEnum (EHt Ht_NvIndex)]),
     (''ExternalNv'', TpmsNvPublicExpAttr, [VEnum (EHt Ht_ExternalNv)]),
     (''PermanentNv'', TpmsNvPublic, [VEnum (EHt Ht_PermanentNv)])]"

definition TpmuNvPublic2 :: tpmu where
  "TpmuNvPublic2 = tpmu_view TPM_MAX_COMMAND_SIZE TpmuNvPublic2_arms
     None"

lemma TpmuNvPublic2_bounds: "list_all (\<lambda>(_, c, _). bounded c 82) TpmuNvPublic2_arms"
  by (simp add: TpmuNvPublic2_arms_def bounded_SIZE [OF wire_field_codec [OF TpmsNvPublic_ok]] bounded_SIZE [OF wire_field_codec [OF TpmsNvPublicExpAttr_ok]])

lemma TpmuNvPublic2_ok [codec_ok]: "wire_union TpmuNvPublic2 (union_enc TpmuNvPublic2_arms)"
  unfolding TpmuNvPublic2_def
proof (rule tpmu_view_ok)
  show "arms_ok TpmuNvPublic2_arms None"
    by (simp add: arms_ok_def TpmuNvPublic2_arms_def)
  show "list_all (\<lambda>(_, c, _). wire_field c \<and> bounded c TPM_MAX_COMMAND_SIZE) TpmuNvPublic2_arms"
    using TpmuNvPublic2_bounds
    by (auto simp: TpmuNvPublic2_arms_def codec_ok TPM_MAX_COMMAND_SIZE_def elim!: bounded_mono)
qed (simp add: TPM_MAX_COMMAND_SIZE_def)

lemma TpmuNvPublic2_SIZE [simp]: "u_SIZE TpmuNvPublic2 = 4096"
  by (simp add: TpmuNvPublic2_def TPM_MAX_COMMAND_SIZE_def)

definition TpmtNvPublic2 :: codec where
  "TpmtNvPublic2 = tpm_struct_tagged TpmHt_codec TpmuNvPublic2"

lemma TpmtNvPublic2_SIZE [simp]: "SIZE TpmtNvPublic2 = 4097"
  by (simp add: TpmtNvPublic2_def constants)

lemma TpmtNvPublic2_ok [codec_ok]: "wire_field TpmtNvPublic2"
  unfolding TpmtNvPublic2_def by (rule tagged_structI [OF _ _ _ TpmuNvPublic2_ok]) (simp_all add: codec_ok)

definition Tpm2bNvPublic2 :: codec where
  "Tpm2bNvPublic2 = tpm2b_struct TpmtNvPublic2"

lemma Tpm2bNvPublic2_SIZE [simp]: "SIZE Tpm2bNvPublic2 = 4099"
  by (simp add: Tpm2bNvPublic2_def constants)

lemma Tpm2bNvPublic2_ok [codec_ok]: "wire_field Tpm2bNvPublic2"
  unfolding Tpm2bNvPublic2_def by (rule wire_field.tpm2b_struct_field_ok) (simp_all add: codec_ok constants u16_max_def)

definition TpmsAcOutput :: codec where
  "TpmsAcOutput = tpm_struct [
     (''tag'', TpmAt_codec),
     (''data'', TpmUint32)]"

lemma TpmsAcOutput_SIZE [simp]: "SIZE TpmsAcOutput = 8"
  by (simp add: TpmsAcOutput_def constants)

lemma TpmsAcOutput_ok [codec_ok]: "wire_field TpmsAcOutput"
  unfolding TpmsAcOutput_def by (rule tpm_struct_field_ok) (simp_all add: codec_ok constants u16_max_def)

definition TpmlAcCapabilities :: codec where
  "TpmlAcCapabilities = TpmList TpmsAcOutput 64"

lemma TpmlAcCapabilities_SIZE [simp]: "SIZE TpmlAcCapabilities = 516"
  by (simp add: TpmlAcCapabilities_def constants)

lemma TpmlAcCapabilities_ok [codec_ok]: "wire_field TpmlAcCapabilities"
  unfolding TpmlAcCapabilities_def by (rule wire_field.TpmList_field_ok) (simp_all add: codec_ok constants u16_max_def)

definition TpmsAlgProperty :: codec where
  "TpmsAlgProperty = tpm_struct [
     (''alg'', TpmAlgId_codec),
     (''alg_properties'', TpmaAlgorithm)]"

lemma TpmsAlgProperty_SIZE [simp]: "SIZE TpmsAlgProperty = 6"
  by (simp add: TpmsAlgProperty_def constants)

lemma TpmsAlgProperty_ok [codec_ok]: "wire_field TpmsAlgProperty"
  unfolding TpmsAlgProperty_def by (rule tpm_struct_field_ok) (simp_all add: codec_ok constants u16_max_def)

definition TpmlAlgProperty :: codec where
  "TpmlAlgProperty = TpmList TpmsAlgProperty 64"

lemma TpmlAlgProperty_SIZE [simp]: "SIZE TpmlAlgProperty = 388"
  by (simp add: TpmlAlgProperty_def constants)

lemma TpmlAlgProperty_ok [codec_ok]: "wire_field TpmlAlgProperty"
  unfolding TpmlAlgProperty_def by (rule wire_field.TpmList_field_ok) (simp_all add: codec_ok constants u16_max_def)

definition TpmlAlg :: codec where
  "TpmlAlg = TpmList TpmAlgId_codec 64"

lemma TpmlAlg_SIZE [simp]: "SIZE TpmlAlg = 132"
  by (simp add: TpmlAlg_def constants)

lemma TpmlAlg_ok [codec_ok]: "wire_field TpmlAlg"
  unfolding TpmlAlg_def by (rule wire_field.TpmList_field_ok) (simp_all add: codec_ok constants u16_max_def)

definition TpmlCc :: codec where
  "TpmlCc = TpmList TpmCc_codec 256"

lemma TpmlCc_SIZE [simp]: "SIZE TpmlCc = 1028"
  by (simp add: TpmlCc_def constants)

lemma TpmlCc_ok [codec_ok]: "wire_field TpmlCc"
  unfolding TpmlCc_def by (rule wire_field.TpmList_field_ok) (simp_all add: codec_ok constants u16_max_def)

definition TpmlCca :: codec where
  "TpmlCca = TpmList TpmaCc 256"

lemma TpmlCca_SIZE [simp]: "SIZE TpmlCca = 1028"
  by (simp add: TpmlCca_def constants)

lemma TpmlCca_ok [codec_ok]: "wire_field TpmlCca"
  unfolding TpmlCca_def by (rule wire_field.TpmList_field_ok) (simp_all add: codec_ok constants u16_max_def)

definition TpmlDigest :: codec where
  "TpmlDigest = TpmList Tpm2bDigest 8"

lemma TpmlDigest_SIZE [simp]: "SIZE TpmlDigest = 532"
  by (simp add: TpmlDigest_def constants)

lemma TpmlDigest_ok [codec_ok]: "wire_field TpmlDigest"
  unfolding TpmlDigest_def by (rule wire_field.TpmList_field_ok) (simp_all add: codec_ok constants u16_max_def)

definition TpmlDigestValues :: codec where
  "TpmlDigestValues = TpmList TpmtHa 8"

lemma TpmlDigestValues_SIZE [simp]: "SIZE TpmlDigestValues = 532"
  by (simp add: TpmlDigestValues_def constants)

lemma TpmlDigestValues_ok [codec_ok]: "wire_field TpmlDigestValues"
  unfolding TpmlDigestValues_def by (rule wire_field.TpmList_field_ok) (simp_all add: codec_ok constants u16_max_def)

definition TpmlHandle :: codec where
  "TpmlHandle = TpmList TpmUint32 128"

lemma TpmlHandle_SIZE [simp]: "SIZE TpmlHandle = 516"
  by (simp add: TpmlHandle_def constants)

lemma TpmlHandle_ok [codec_ok]: "wire_field TpmlHandle"
  unfolding TpmlHandle_def by (rule wire_field.TpmList_field_ok) (simp_all add: codec_ok constants u16_max_def)

definition TpmlEccCurve :: codec where
  "TpmlEccCurve = TpmList TpmEccCurve_codec 64"

lemma TpmlEccCurve_SIZE [simp]: "SIZE TpmlEccCurve = 132"
  by (simp add: TpmlEccCurve_def constants)

lemma TpmlEccCurve_ok [codec_ok]: "wire_field TpmlEccCurve"
  unfolding TpmlEccCurve_def by (rule wire_field.TpmList_field_ok) (simp_all add: codec_ok constants u16_max_def)

definition TpmsTaggedProperty :: codec where
  "TpmsTaggedProperty = tpm_struct [
     (''property'', TpmPt_codec),
     (''value'', TpmUint32)]"

lemma TpmsTaggedProperty_SIZE [simp]: "SIZE TpmsTaggedProperty = 8"
  by (simp add: TpmsTaggedProperty_def constants)

lemma TpmsTaggedProperty_ok [codec_ok]: "wire_field TpmsTaggedProperty"
  unfolding TpmsTaggedProperty_def by (rule tpm_struct_field_ok) (simp_all add: codec_ok constants u16_max_def)

definition TpmlTaggedTpmProperty :: codec where
  "TpmlTaggedTpmProperty = TpmList TpmsTaggedProperty 64"

lemma TpmlTaggedTpmProperty_SIZE [simp]: "SIZE TpmlTaggedTpmProperty = 516"
  by (simp add: TpmlTaggedTpmProperty_def constants)

lemma TpmlTaggedTpmProperty_ok [codec_ok]: "wire_field TpmlTaggedTpmProperty"
  unfolding TpmlTaggedTpmProperty_def by (rule wire_field.TpmList_field_ok) (simp_all add: codec_ok constants u16_max_def)

definition TpmsTaggedPolicy :: codec where
  "TpmsTaggedPolicy = tpm_struct [
     (''handle'', TpmHandle),
     (''policy_hash'', TpmtHa)]"

lemma TpmsTaggedPolicy_SIZE [simp]: "SIZE TpmsTaggedPolicy = 70"
  by (simp add: TpmsTaggedPolicy_def constants)

lemma TpmsTaggedPolicy_ok [codec_ok]: "wire_field TpmsTaggedPolicy"
  unfolding TpmsTaggedPolicy_def by (rule tpm_struct_field_ok) (simp_all add: codec_ok constants u16_max_def)

definition TpmlTaggedPolicy :: codec where
  "TpmlTaggedPolicy = TpmList TpmsTaggedPolicy 8"

lemma TpmlTaggedPolicy_SIZE [simp]: "SIZE TpmlTaggedPolicy = 564"
  by (simp add: TpmlTaggedPolicy_def constants)

lemma TpmlTaggedPolicy_ok [codec_ok]: "wire_field TpmlTaggedPolicy"
  unfolding TpmlTaggedPolicy_def by (rule wire_field.TpmList_field_ok) (simp_all add: codec_ok constants u16_max_def)

definition TpmsActData :: codec where
  "TpmsActData = tpm_struct [
     (''handle'', TpmHandle),
     (''timeout'', TpmUint32),
     (''attributes'', TpmaAct)]"

lemma TpmsActData_SIZE [simp]: "SIZE TpmsActData = 12"
  by (simp add: TpmsActData_def constants)

lemma TpmsActData_ok [codec_ok]: "wire_field TpmsActData"
  unfolding TpmsActData_def by (rule tpm_struct_field_ok) (simp_all add: codec_ok constants u16_max_def)

definition TpmlActData :: codec where
  "TpmlActData = TpmList TpmsActData 8"

lemma TpmlActData_SIZE [simp]: "SIZE TpmlActData = 100"
  by (simp add: TpmlActData_def constants)

lemma TpmlActData_ok [codec_ok]: "wire_field TpmlActData"
  unfolding TpmlActData_def by (rule wire_field.TpmList_field_ok) (simp_all add: codec_ok constants u16_max_def)

definition TpmsAuthCommand :: codec where
  "TpmsAuthCommand = tpm_struct [
     (''session_handle'', TpmHandle),
     (''nonce'', Tpm2bNonce),
     (''session_attributes'', TpmaSession),
     (''hmac'', Tpm2bAuth)]"

lemma TpmsAuthCommand_SIZE [simp]: "SIZE TpmsAuthCommand = 137"
  by (simp add: TpmsAuthCommand_def constants)

lemma TpmsAuthCommand_ok [codec_ok]: "wire_field TpmsAuthCommand"
  unfolding TpmsAuthCommand_def by (rule tpm_struct_field_ok) (simp_all add: codec_ok constants u16_max_def)

definition TpmsAuthResponse :: codec where
  "TpmsAuthResponse = tpm_struct [
     (''nonce'', Tpm2bNonce),
     (''session_attributes'', TpmaSession),
     (''hmac'', Tpm2bAuth)]"

lemma TpmsAuthResponse_SIZE [simp]: "SIZE TpmsAuthResponse = 133"
  by (simp add: TpmsAuthResponse_def constants)

lemma TpmsAuthResponse_ok [codec_ok]: "wire_field TpmsAuthResponse"
  unfolding TpmsAuthResponse_def by (rule tpm_struct_field_ok) (simp_all add: codec_ok constants u16_max_def)

definition TpmsContext :: codec where
  "TpmsContext = tpm_struct [
     (''sequence'', TpmUint64),
     (''saved_handle'', TpmHandle),
     (''hierarchy'', TpmRh_codec),
     (''context_blob'', Tpm2b)]"

lemma TpmsContext_SIZE [simp]: "SIZE TpmsContext = 4114"
  by (simp add: TpmsContext_def constants)

lemma TpmsContext_ok [codec_ok]: "wire_field TpmsContext"
  unfolding TpmsContext_def by (rule tpm_struct_field_ok) (simp_all add: codec_ok constants u16_max_def)

definition TpmsEmpty :: codec where
  "TpmsEmpty = tpm_struct []"

lemma TpmsEmpty_SIZE [simp]: "SIZE TpmsEmpty = 0"
  by (simp add: TpmsEmpty_def constants)

lemma TpmsEmpty_ok [codec_ok]: "wire_field TpmsEmpty"
  unfolding TpmsEmpty_def by (rule tpm_struct_field_ok) (simp_all add: codec_ok constants u16_max_def)

definition TpmsAlgorithmDetailEcc :: codec where
  "TpmsAlgorithmDetailEcc = tpm_struct [
     (''curve_id'', TpmEccCurve_codec),
     (''key_size'', TpmUint16),
     (''kdf'', TpmtKdfScheme),
     (''sign'', TpmtEccScheme),
     (''p'', Tpm2bEccParameter),
     (''a'', Tpm2bEccParameter),
     (''b'', Tpm2bEccParameter),
     (''gx'', Tpm2bEccParameter),
     (''gy'', Tpm2bEccParameter),
     (''n'', Tpm2bEccParameter),
     (''h'', Tpm2bEccParameter)]"

lemma TpmsAlgorithmDetailEcc_SIZE [simp]: "SIZE TpmsAlgorithmDetailEcc = 8676"
  by (simp add: TpmsAlgorithmDetailEcc_def constants)

lemma TpmsAlgorithmDetailEcc_ok [codec_ok]: "wire_field TpmsAlgorithmDetailEcc"
  unfolding TpmsAlgorithmDetailEcc_def by (rule tpm_struct_field_ok) (simp_all add: codec_ok constants u16_max_def)

definition TpmtTkCreation :: codec where
  "TpmtTkCreation = tpm_struct [
     (''tag'', TpmSt_codec),
     (''hierarchy'', TpmRh_codec),
     (''digest'', Tpm2bDigest)]"

lemma TpmtTkCreation_SIZE [simp]: "SIZE TpmtTkCreation = 72"
  by (simp add: TpmtTkCreation_def constants)

lemma TpmtTkCreation_ok [codec_ok]: "wire_field TpmtTkCreation"
  unfolding TpmtTkCreation_def by (rule tpm_struct_field_ok) (simp_all add: codec_ok constants u16_max_def)

definition TpmtTkVerified :: codec where
  "TpmtTkVerified = tpm_struct [
     (''tag'', TpmSt_codec),
     (''hierarchy'', TpmRh_codec),
     (''digest'', Tpm2bDigest)]"

lemma TpmtTkVerified_SIZE [simp]: "SIZE TpmtTkVerified = 72"
  by (simp add: TpmtTkVerified_def constants)

lemma TpmtTkVerified_ok [codec_ok]: "wire_field TpmtTkVerified"
  unfolding TpmtTkVerified_def by (rule tpm_struct_field_ok) (simp_all add: codec_ok constants u16_max_def)

definition TpmtTkAuth :: codec where
  "TpmtTkAuth = tpm_struct [
     (''tag'', TpmSt_codec),
     (''hierarchy'', TpmRh_codec),
     (''digest'', Tpm2bDigest)]"

lemma TpmtTkAuth_SIZE [simp]: "SIZE TpmtTkAuth = 72"
  by (simp add: TpmtTkAuth_def constants)

lemma TpmtTkAuth_ok [codec_ok]: "wire_field TpmtTkAuth"
  unfolding TpmtTkAuth_def by (rule tpm_struct_field_ok) (simp_all add: codec_ok constants u16_max_def)

definition TpmtTkHashcheck :: codec where
  "TpmtTkHashcheck = tpm_struct [
     (''tag'', TpmSt_codec),
     (''hierarchy'', TpmRh_codec),
     (''digest'', Tpm2bDigest)]"

lemma TpmtTkHashcheck_SIZE [simp]: "SIZE TpmtTkHashcheck = 72"
  by (simp add: TpmtTkHashcheck_def constants)

lemma TpmtTkHashcheck_ok [codec_ok]: "wire_field TpmtTkHashcheck"
  unfolding TpmtTkHashcheck_def by (rule tpm_struct_field_ok) (simp_all add: codec_ok constants u16_max_def)

definition TpmuCapabilities_arms :: "arm list" where
  "TpmuCapabilities_arms = [
     (''Algs'', TpmlAlgProperty, [VEnum (ECap Cap_Algs)]),
     (''Handles'', TpmlHandle, [VEnum (ECap Cap_Handles)]),
     (''Pcrs'', TpmlPcrSelection, [VEnum (ECap Cap_Pcrs)]),
     (''Commands'', TpmlCca, [VEnum (ECap Cap_Commands)]),
     (''PpCommands'', TpmlCc, [VEnum (ECap Cap_PpCommands)]),
     (''AuditCommands'', TpmlCc, [VEnum (ECap Cap_AuditCommands)]),
     (''TpmProperties'', TpmlTaggedTpmProperty, [VEnum (ECap Cap_TpmProperties)]),
     (''EccCurves'', TpmlEccCurve, [VEnum (ECap Cap_EccCurves)]),
     (''AuthPolicies'', TpmlTaggedPolicy, [VEnum (ECap Cap_AuthPolicies)]),
     (''Act'', TpmlActData, [VEnum (ECap Cap_Act)])]"

definition TpmuCapabilities :: tpmu where
  "TpmuCapabilities = tpmu_view TPM_MAX_COMMAND_SIZE TpmuCapabilities_arms
     None"

lemma TpmuCapabilities_bounds: "list_all (\<lambda>(_, c, _). bounded c 1028) TpmuCapabilities_arms"
  by (simp add: TpmuCapabilities_arms_def bounded_SIZE [OF wire_field_codec [OF TpmlActData_ok]] bounded_SIZE [OF wire_field_codec [OF TpmlAlgProperty_ok]] bounded_SIZE [OF wire_field_codec [OF TpmlCc_ok]] bounded_SIZE [OF wire_field_codec [OF TpmlCca_ok]] bounded_SIZE [OF wire_field_codec [OF TpmlEccCurve_ok]] bounded_SIZE [OF wire_field_codec [OF TpmlHandle_ok]] bounded_SIZE [OF wire_field_codec [OF TpmlPcrSelection_ok]] bounded_SIZE [OF wire_field_codec [OF TpmlTaggedPolicy_ok]] bounded_SIZE [OF wire_field_codec [OF TpmlTaggedTpmProperty_ok]])

lemma TpmuCapabilities_ok [codec_ok]: "wire_union TpmuCapabilities (union_enc TpmuCapabilities_arms)"
  unfolding TpmuCapabilities_def
proof (rule tpmu_view_ok)
  show "arms_ok TpmuCapabilities_arms None"
    by (simp add: arms_ok_def TpmuCapabilities_arms_def)
  show "list_all (\<lambda>(_, c, _). wire_field c \<and> bounded c TPM_MAX_COMMAND_SIZE) TpmuCapabilities_arms"
    using TpmuCapabilities_bounds
    by (auto simp: TpmuCapabilities_arms_def codec_ok TPM_MAX_COMMAND_SIZE_def elim!: bounded_mono)
qed (simp add: TPM_MAX_COMMAND_SIZE_def)

lemma TpmuCapabilities_SIZE [simp]: "u_SIZE TpmuCapabilities = 4096"
  by (simp add: TpmuCapabilities_def TPM_MAX_COMMAND_SIZE_def)

text \<open>Its \<open>marshal\<close> does not compare the selector with the payload's variant.\<close>

definition TpmsCapabilityData :: codec where
  "TpmsCapabilityData = \<lparr>
     SIZE = 4 + u_SIZE TpmuCapabilities,
     valid = (\<lambda>v. case v of
         VStruct [capability, data] \<Rightarrow>
           valid TpmCap_codec capability \<and> u_valid TpmuCapabilities data \<and> matches_tag TpmuCapabilities data capability
       | _ \<Rightarrow> False),
     wire_len = (\<lambda>v. case v of
         VStruct [capability, data] \<Rightarrow>
           wire_len TpmCap_codec capability + u_len TpmuCapabilities data
       | _ \<Rightarrow> 0),
     marshal = (\<lambda>v. case v of
         VStruct [capability, data] \<Rightarrow>
           wseq (marshal TpmCap_codec capability) (
           u_marshal TpmuCapabilities data)
       | _ \<Rightarrow> wpanic),
     unmarshal = (\<lambda>b.
        and_then (unmarshal TpmCap_codec b) (\<lambda>(capability, b).
        and_then (unmarshal_tagged TpmuCapabilities capability b) (\<lambda>(data, b).
         Ok (VStruct [capability, data], b)))),
     cast_prefix = no_cast\<rparr>"

lemma TpmsCapabilityData_valid_iff:
  "valid TpmsCapabilityData v \<longleftrightarrow>
   (\<exists>capability data. v = VStruct [capability, data] \<and>
      valid TpmCap_codec capability \<and> u_valid TpmuCapabilities data \<and> matches_tag TpmuCapabilities data capability)"
  by (auto simp: TpmsCapabilityData_def split: val.splits list.splits)

lemma TpmsCapabilityData_codec_ok: "wire_codec TpmsCapabilityData"
proof -
  note c0 = wire_field_codec [OF TpmCap_codec_ok]
  note u0 = wire_union.u_decoder [OF TpmuCapabilities_ok]
  let ?enc = "\<lambda>v. case v of
      VStruct [capability, data] \<Rightarrow>
        encode TpmCap_codec capability @ union_enc TpmuCapabilities_arms data
    | _ \<Rightarrow> []"
  have um: "unmarshal TpmsCapabilityData = (\<lambda>b.
        and_then (unmarshal TpmCap_codec b) (\<lambda>(capability, b).
        and_then (unmarshal_tagged TpmuCapabilities capability b) (\<lambda>(data, b).
         Ok (VStruct [capability, data], b))))"
    by (simp add: TpmsCapabilityData_def)
  show ?thesis
  proof (rule wire_codecI [where enc = ?enc])
    show "decoder (valid TpmsCapabilityData) ?enc (unmarshal TpmsCapabilityData)"
      unfolding um
      by unfold_locales
        (auto simp: TpmsCapabilityData_valid_iff and_then_Panic_iff and_then_Err_iff
          codec_dec_iff [OF c0] codec_dec_no_panic [OF c0]
          decoder.dec_iff [OF u0] decoder.dec_no_panic [OF u0]
          dest!: codec_dec_offset [OF c0]
          decoder.dec_offset [OF u0])
    fix v assume "valid TpmsCapabilityData v"
    then obtain capability data where v: "v = VStruct [capability, data]"
        "valid TpmCap_codec capability" "u_valid TpmuCapabilities data"
        "matches_tag TpmuCapabilities data capability"
      by (auto simp: TpmsCapabilityData_valid_iff)
    then show "emits (marshal TpmsCapabilityData v) (?enc v)"
      and "length (?enc v) = wire_len TpmsCapabilityData v"
      by (auto simp: TpmsCapabilityData_def
          wire_codec.length_encode [OF c0]
          wire_union.u_length [OF TpmuCapabilities_ok]
          intro!: emits_wseq wire_codec.marshal_emits [OF c0]
          wire_union.u_emits [OF TpmuCapabilities_ok])
    show "wire_len TpmsCapabilityData v \<le> SIZE TpmsCapabilityData"
      using v wire_codec.len_le_SIZE [OF c0, of capability]
        wire_union.u_le [OF TpmuCapabilities_ok, of data capability]
      by (simp add: TpmsCapabilityData_def constants)
  qed (simp add: TpmsCapabilityData_def constants u16_max_def)
qed

lemma TpmsCapabilityData_SIZE [simp]: "SIZE TpmsCapabilityData = 4100"
  by (simp add: TpmsCapabilityData_def constants)

end
