(* ===== verification/Data_Rc.thy ===== *)
theory Data_Rc
  imports Data_Basic
begin

text \<open>
  The wire form of a response code: the trait implementations of \<open>TpmRc\<close> in
  \<open>protocol/src/data/enum/rc.rs\<close> on the numeric model of theory \<open>Rc\<close>.
\<close>

definition TpmRc_unmarshal :: "val decode" where
  "TpmRc_unmarshal buf =
     and_then (TpmWireBytes_cast_prefix 4 buf) (\<lambda>(h, t).
       and_then (TpmRc_try_from (word_of_nat (from_be_bytes h))) (\<lambda>rc. Ok (VRc rc, t)))"

definition TpmRc_codec :: codec where
  "TpmRc_codec = \<lparr>
     SIZE = 4,
     valid = (\<lambda>v. case v of VRc rc \<Rightarrow> rc_ok rc | _ \<Rightarrow> False),
     wire_len = (\<lambda>_. 4),
     marshal = (\<lambda>v. case v of VRc rc \<Rightarrow> write_bytes (to_be_bytes 4 (unat (TpmRc_value rc)))
                   | _ \<Rightarrow> wpanic),
     unmarshal = TpmRc_unmarshal,
     cast_prefix = TpmRc_unmarshal\<rparr>"

lemma u32_from_bytes:
  "length h = 4 \<Longrightarrow> unat (word_of_nat (from_be_bytes h) :: u32) = from_be_bytes h"
  using from_be_bytes_less [of h] by (simp add: unat_of_nat)

lemma u32_to_bytes: "from_be_bytes (to_be_bytes 4 (unat (w :: u32))) = unat w"
  using unsigned_less [of w] by (intro from_to_be_bytes) simp

lemma TpmRc_codec_ok [codec_ok]: "wire_field TpmRc_codec"
proof (rule wire_fieldI_same)
  let ?enc = "\<lambda>v. case v of VRc rc \<Rightarrow> to_be_bytes 4 (unat (TpmRc_value rc)) | _ \<Rightarrow> []"
  show "wire_codec TpmRc_codec"
  proof (rule wire_codecI [where enc = ?enc])
    show "decoder (valid TpmRc_codec) ?enc (unmarshal TpmRc_codec)"
    proof
      fix v r assume "valid TpmRc_codec v"
      then show "unmarshal TpmRc_codec (?enc v @ r) = Ok (v, r)"
        by (auto simp: TpmRc_codec_def TpmRc_unmarshal_def u32_to_bytes TpmRc_value_try_from
            split: val.splits)
    next
      fix b v r assume "unmarshal TpmRc_codec b = Ok (v, r)"
      then show "valid TpmRc_codec v \<and> b = ?enc v @ r"
        by (auto simp: TpmRc_codec_def TpmRc_unmarshal_def TpmWireBytes_cast_prefix_Ok_iff
            TpmRc_try_from_Ok_iff u32_from_bytes)
    qed (auto simp: TpmRc_codec_def TpmRc_unmarshal_def and_then_Panic_iff and_then_Err_iff
        TpmRc_try_from_not_Panic dest!: TpmRc_try_from_Err TpmWireBytes_cast_prefix_Err)
  qed (auto simp: TpmRc_codec_def u16_max_def split: val.splits)
qed (simp add: TpmRc_codec_def)

lemma TpmRc_codec_SIZE [simp]: "SIZE TpmRc_codec = 4"
  by (simp add: TpmRc_codec_def)

end
