(* ===== verification/Frame.thy ===== *)
theory Frame
  imports Data_Types Data_Rc
begin

text \<open>
  Command and response bodies: the macro \<open>tpm_struct!\<close> with \<open>kind: Command\<close> and \<open>kind: Response\<close> of
  \<open>protocol/src/macro/struct.rs\<close>, the traits of \<open>protocol/src/frame/mod.rs\<close>, and the marshalling of whole
  frames in \<open>protocol/src/frame/marshal.rs\<close>.  A \<open>frame_decl\<close> is one use of the macro; the 252 uses are in
  theories \<open>Frame_Decl_A\<close> to \<open>Frame_Decl_D\<close>.
\<close>

named_theorems decl_ok_facts "lawfulness of the frame declarations"
named_theorems decl_defs "definitions of the frame declarations"

subsection \<open>Bodies\<close>

record frame_decl =
  f_CC :: TpmCc
  HANDLES :: nat
  f_params :: fields

definition Command :: "TpmCc \<Rightarrow> nat \<Rightarrow> fields \<Rightarrow> frame_decl" where
  "Command cc n ps = \<lparr>f_CC = cc, HANDLES = n, f_params = ps\<rparr>"

definition Response :: "TpmCc \<Rightarrow> nat \<Rightarrow> fields \<Rightarrow> frame_decl" where
  "Response cc n ps = \<lparr>f_CC = cc, HANDLES = n, f_params = ps\<rparr>"

lemma decl_simps [simp]:
  "f_CC (Command cc n ps) = cc" "HANDLES (Command cc n ps) = n" "f_params (Command cc n ps) = ps"
  "f_CC (Response cc n ps) = cc" "HANDLES (Response cc n ps) = n" "f_params (Response cc n ps) = ps"
  by (simp_all add: Command_def Response_def)

record frame_body =
  b_handles :: "val list"
  b_params :: "val list"

text \<open>Not code: the bodies that inhabit the struct.\<close>

definition body_valid :: "frame_decl \<Rightarrow> frame_body \<Rightarrow> bool" where
  "body_valid d b \<longleftrightarrow> length (b_handles b) = HANDLES d \<and> list_all (valid TpmHandle) (b_handles b) \<and>
     fields_valid (f_params d) (b_params b)"

definition body_len :: "frame_decl \<Rightarrow> frame_body \<Rightarrow> nat" where
  "body_len d b = length (b_handles b) * SIZE TpmHandle + fields_len (f_params d) (b_params b)"

definition decl_SIZE :: "frame_decl \<Rightarrow> nat" where
  "decl_SIZE d = HANDLES d * SIZE TpmHandle + fields_SIZE (f_params d)"

definition body_marshal_handles :: "frame_decl \<Rightarrow> frame_body \<Rightarrow> wr" where
  "body_marshal_handles d b = marshal_items (marshal TpmHandle) (b_handles b)"

definition body_marshal_parameters :: "frame_decl \<Rightarrow> frame_body \<Rightarrow> wr" where
  "body_marshal_parameters d b = fields_marshal (f_params d) (b_params b)"

definition body_marshal :: "frame_decl \<Rightarrow> frame_body \<Rightarrow> wr" where
  "body_marshal d b = wseq (body_marshal_handles d b) (body_marshal_parameters d b)"

definition ensure_consumed :: "u8 list \<Rightarrow> unit TpmResult" where
  "ensure_consumed buf = (if buf = [] then Ok () else Err (TrailingData 0 (length buf)))"

fun unmarshal_handles :: "nat \<Rightarrow> u8 list \<Rightarrow> (val list \<times> u8 list) TpmResult" where
  "unmarshal_handles 0 buf = Ok ([], buf)"
| "unmarshal_handles (Suc n) buf =
     and_then (unmarshal TpmHandle buf) (\<lambda>(h, tail).
       and_then (unmarshal_handles n tail) (\<lambda>(hs, r). Ok (h # hs, r)))"

definition unmarshal_handle_area :: "nat \<Rightarrow> u8 list \<Rightarrow> val list TpmResult" where
  "unmarshal_handle_area n buf =
     and_then (unmarshal_handles n buf) (\<lambda>(hs, r).
       and_then (ensure_consumed r) (\<lambda>_. Ok hs))"

definition unmarshal_body :: "frame_decl \<Rightarrow> u8 list \<Rightarrow> u8 list \<Rightarrow> frame_body TpmResult" where
  "unmarshal_body d handles parameters =
     and_then (unmarshal_handle_area (HANDLES d) handles) (\<lambda>hs.
       and_then (fields_unmarshal (length parameters) (f_params d) parameters) (\<lambda>(vs, r).
         and_then (ensure_consumed r) (\<lambda>_. Ok \<lparr>b_handles = hs, b_params = vs\<rparr>)))"

subsection \<open>The trait \<open>TpmFrame\<close>\<close>

text \<open>The trait is public, so the marshaller sees any implementation of it, not only the bodies of
  the declarations.\<close>

record TpmFrame =
  frame_cc :: TpmCc
  frame_handles :: nat
  frame_len :: nat
  marshal_handles :: wr
  marshal_parameters :: wr

definition frame_of :: "frame_decl \<Rightarrow> frame_body \<Rightarrow> TpmFrame" where
  "frame_of d b = \<lparr>
     frame_cc = f_CC d,
     frame_handles = HANDLES d,
     frame_len = body_len d b,
     marshal_handles = body_marshal_handles d b,
     marshal_parameters = body_marshal_parameters d b\<rparr>"

subsection \<open>Sizes\<close>

definition TPM_HEADER_SIZE :: nat where "TPM_HEADER_SIZE = 10"

definition checked_mul :: "nat \<Rightarrow> nat \<Rightarrow> nat option" where
  "checked_mul a b = (if a * b \<le> usize_max then Some (a * b) else None)"

definition handle_area_size :: "nat \<Rightarrow> nat \<Rightarrow> nat TpmResult" where
  "handle_area_size handles off = ok_or (IntegerTooLarge off handles) (checked_mul handles 4)"

definition body_areas :: "TpmFrame \<Rightarrow> nat \<Rightarrow> (nat \<times> nat) TpmResult" where
  "body_areas F off =
     and_then (handle_area_size (frame_handles F) off) (\<lambda>h.
       and_then (ok_or (UnexpectedEnd off h (frame_len F)) (checked_sub (frame_len F) h)) (\<lambda>p.
         Ok (h, p)))"

definition size_add :: "nat \<Rightarrow> nat \<Rightarrow> nat \<Rightarrow> nat TpmResult" where
  "size_add lhs rhs off = ok_or (IntegerTooLarge off lhs) (checked_add lhs rhs)"

fun sum_lens :: "(val \<Rightarrow> nat) \<Rightarrow> nat \<Rightarrow> nat \<Rightarrow> val list \<Rightarrow> nat TpmResult" where
  "sum_lens len off n [] = Ok n"
| "sum_lens len off n (s # ss) =
     and_then (size_add n (len s) off) (\<lambda>n'. sum_lens len off n' ss)"

definition sessions_len :: "codec \<Rightarrow> val list \<Rightarrow> nat \<Rightarrow> nat TpmResult" where
  "sessions_len c sessions off = sum_lens (wire_len c) off 0 sessions"

definition check_session_count :: "val list \<Rightarrow> nat \<Rightarrow> unit TpmResult" where
  "check_session_count sessions off =
     (if length sessions > MAX_SESSIONS
      then Err (TooManyItems off MAX_SESSIONS (length sessions)) else Ok ())"

definition uint32_try_from :: "nat \<Rightarrow> nat \<Rightarrow> nat \<Rightarrow> val TpmResult" where
  "uint32_try_from n off reported =
     (if n \<le> u32_max then Ok (int_new 4 n) else Err (IntegerTooLarge off reported))"

subsection \<open>Frames\<close>

text \<open>Rust's \<open>let x = r?; m\<close> inside a routine that owns the writer.\<close>

definition wlet :: "'a TpmResult \<Rightarrow> ('a \<Rightarrow> wr) \<Rightarrow> wr" where
  "wlet r f w = (case r of Ok x \<Rightarrow> f x w | Err e \<Rightarrow> (Err e, w) | Panic \<Rightarrow> (Panic, w))"

definition tpm_marshal_command :: "TpmFrame \<Rightarrow> TpmSt \<Rightarrow> val list \<Rightarrow> wr" where
  "tpm_marshal_command command tag sessions w =
     (let off = cursor w; invalid_tag = InvalidTag off (as_u64 (TpmSt_value tag)) in
      if tag \<noteq> St_NoSessions \<and> tag \<noteq> St_Sessions then (Err invalid_tag, w)
      else if (tag = St_Sessions) = (sessions = []) then (Err invalid_tag, w)
      else
       wlet (check_session_count sessions off) (\<lambda>_.
       wlet (body_areas command off) (\<lambda>(handle_area, param_area).
       wlet (if tag = St_Sessions
             then and_then (sessions_len TpmsAuthCommand sessions off) (\<lambda>n. size_add 4 n off)
             else Ok 0) (\<lambda>auth_area.
       wlet (and_then (size_add handle_area auth_area off) (\<lambda>n. size_add n param_area off)) (\<lambda>total.
       wlet (size_add TPM_HEADER_SIZE total off) (\<lambda>size.
       wlet (uint32_try_from size off size) (\<lambda>command_size.
         wseq (marshal TpmSt_codec (VEnum (ESt tag)))
        (wseq (marshal TpmUint32 command_size)
        (wseq (marshal TpmCc_codec (VEnum (ECc (frame_cc command))))
        (wseq (marshal_handles command)
        (wseq (if tag = St_Sessions
               then wlet (uint32_try_from (auth_area - 4) off auth_area) (\<lambda>auth_size.
                      wseq (marshal TpmUint32 auth_size)
                           (marshal_items (marshal TpmsAuthCommand) sessions))
               else wdone)
              (marshal_parameters command)))))))))))
       w)"

definition rc_success :: "TpmRc \<Rightarrow> bool" where
  "rc_success rc \<longleftrightarrow> rc = Fmt0 Rc_Success"

definition tpm_marshal_response :: "TpmFrame \<Rightarrow> TpmRc \<Rightarrow> val list \<Rightarrow> wr" where
  "tpm_marshal_response response rc sessions w =
     (let off = cursor w in
      wlet (check_session_count sessions off) (\<lambda>_.
        if \<not> rc_success rc then
          if sessions \<noteq> [] then wfail (\<lambda>w. InvalidTag off (as_u64 (TpmSt_value St_Sessions)))
          else wseq (marshal TpmSt_codec (VEnum (ESt St_NoSessions)))
              (wseq (marshal TpmUint32 (int_new 4 TPM_HEADER_SIZE))
                    (marshal TpmRc_codec (VRc rc)))
        else let tag = (if sessions = [] then St_NoSessions else St_Sessions) in
          wlet (body_areas response off) (\<lambda>(handle_area, param_area).
          wlet (sessions_len TpmsAuthResponse sessions off) (\<lambda>sessions_area.
          wlet (and_then (size_add handle_area (if tag = St_Sessions then 4 else 0) off) (\<lambda>n.
                and_then (size_add n param_area off) (\<lambda>n. size_add n sessions_area off))) (\<lambda>total.
          wlet (size_add TPM_HEADER_SIZE total off) (\<lambda>size.
          wlet (uint32_try_from size off size) (\<lambda>response_size.
            wseq (marshal TpmSt_codec (VEnum (ESt tag)))
           (wseq (marshal TpmUint32 response_size)
           (wseq (marshal TpmRc_codec (VRc rc))
           (wseq (marshal_handles response)
           (wseq (if tag = St_Sessions
                  then wlet (uint32_try_from param_area off param_area) (marshal TpmUint32)
                  else wdone)
           (wseq (marshal_parameters response)
                 (if tag = St_Sessions
                  then marshal_items (marshal TpmsAuthResponse) sessions else wdone)))))))))))) w)"

end
