(* ===== verification/Frame_Laws.thy ===== *)
theory Frame_Laws
  imports Frame
begin

text \<open>
  What a frame marshals to.  \<open>command_bytes\<close> and \<open>response_bytes\<close> are the layouts of a frame, written
  from its parts; \<open>lawful_frame\<close> is the contract the marshallers need of a \<open>TpmFrame\<close>, and under it
  they emit exactly those layouts.  A valid body of a lawful declaration keeps the contract.
\<close>

subsection \<open>Layouts\<close>

definition items_enc :: "codec \<Rightarrow> val list \<Rightarrow> u8 list" where
  "items_enc c vs = concat (map (encode c) vs)"

definition body_handle_bytes :: "frame_body \<Rightarrow> u8 list" where
  "body_handle_bytes b = items_enc TpmHandle (b_handles b)"

definition body_param_bytes :: "frame_decl \<Rightarrow> frame_body \<Rightarrow> u8 list" where
  "body_param_bytes d b = fields_enc (f_params d) (b_params b)"

definition header :: "TpmSt \<Rightarrow> nat \<Rightarrow> nat \<Rightarrow> u8 list" where
  "header tag body_size code =
     to_be_bytes 2 (nat (TpmSt_value tag)) @ to_be_bytes 4 (10 + body_size) @ to_be_bytes 4 code"

definition command_body :: "TpmSt \<Rightarrow> u8 list \<Rightarrow> u8 list \<Rightarrow> u8 list \<Rightarrow> u8 list" where
  "command_body tag hb auth pb =
     hb @ (if tag = St_Sessions then to_be_bytes 4 (length auth) @ auth else []) @ pb"

definition command_bytes :: "TpmCc \<Rightarrow> TpmSt \<Rightarrow> u8 list \<Rightarrow> u8 list \<Rightarrow> u8 list \<Rightarrow> u8 list" where
  "command_bytes cc tag hb auth pb =
     header tag (length (command_body tag hb auth pb)) (nat (TpmCc_value cc)) @
     command_body tag hb auth pb"

definition response_body :: "TpmSt \<Rightarrow> u8 list \<Rightarrow> u8 list \<Rightarrow> u8 list \<Rightarrow> u8 list" where
  "response_body tag hb pb auth =
     hb @ (if tag = St_Sessions then to_be_bytes 4 (length pb) @ pb @ auth else pb)"

definition response_bytes :: "TpmRc \<Rightarrow> TpmSt \<Rightarrow> u8 list \<Rightarrow> u8 list \<Rightarrow> u8 list \<Rightarrow> u8 list" where
  "response_bytes rc tag hb pb auth =
     header tag (length (response_body tag hb pb auth)) (unat (TpmRc_value rc)) @
     response_body tag hb pb auth"

subsection \<open>Bodies\<close>

definition decl_ok :: "frame_decl \<Rightarrow> bool" where
  "decl_ok d \<longleftrightarrow> HANDLES d \<le> 8 \<and> length (f_params d) \<le> 16 \<and> codecs_ok (f_params d)"

lemma decl_okD:
  assumes "decl_ok d"
  shows "HANDLES d \<le> 8" "length (f_params d) \<le> 16" "codecs_ok (f_params d)"
  using assms by (simp_all add: decl_ok_def)

lemma items_enc_simps [simp]:
  "items_enc c [] = []" "items_enc c (v # vs) = encode c v @ items_enc c vs"
  by (simp_all add: items_enc_def)

lemma marshal_items_emits:
  "\<lbrakk>wire_codec c; list_all (valid c) vs\<rbrakk> \<Longrightarrow> emits (marshal_items (marshal c) vs) (items_enc c vs)"
  by (induction vs) (auto intro: wire_codec.marshal_emits)

lemma length_items_enc:
  "\<lbrakk>wire_codec c; list_all (valid c) vs\<rbrakk> \<Longrightarrow>
   length (items_enc c vs) = sum_list (map (wire_len c) vs)"
  by (induction vs) (auto simp: wire_codec.length_encode)

lemma length_items_enc_le:
  "\<lbrakk>wire_codec c; list_all (valid c) vs\<rbrakk> \<Longrightarrow> length (items_enc c vs) \<le> length vs * SIZE c"
  by (induction vs) (auto simp: wire_codec.length_encode intro!: add_mono wire_codec.len_le_SIZE)

lemma TpmHandle_codec: "wire_codec TpmHandle"
  by (rule wire_field_codec [OF TpmHandle_ok])

lemma wire_len_TpmHandle [simp]: "wire_len TpmHandle v = 4"
  by (simp add: TpmHandle_def TpmUint32_def tpm_int_def)

lemma length_handles_enc:
  "list_all (valid TpmHandle) hs \<Longrightarrow> length (items_enc TpmHandle hs) = 4 * length hs"
  by (induction hs) (simp_all add: wire_codec.length_encode [OF TpmHandle_codec])

lemma unmarshal_handles_enc:
  "list_all (valid TpmHandle) hs \<Longrightarrow>
   unmarshal_handles (length hs) (items_enc TpmHandle hs @ r) = Ok (hs, r)"
  by (induction hs) (simp_all add: codec_dec_enc [OF TpmHandle_codec] del: and_then_Ok_iff)

lemma unmarshal_handles_sound:
  "unmarshal_handles n b = Ok (hs, r) \<Longrightarrow>
   length hs = n \<and> list_all (valid TpmHandle) hs \<and> b = items_enc TpmHandle hs @ r"
  by (induction n arbitrary: b hs) (auto simp: codec_dec_iff [OF TpmHandle_codec])

lemma unmarshal_handles_total:
  "unmarshal_handles n b \<noteq> Panic \<and> (unmarshal_handles n b = Err e \<longrightarrow> offset e \<le> length b)"
proof (induction n arbitrary: b)
  case (Suc n)
  consider (ok) v r where "unmarshal TpmHandle b = Ok (v, r)" "b = encode TpmHandle v @ r"
    | (err) e' where "unmarshal TpmHandle b = Err e'" "offset e' \<le> length b"
    by (rule codec_dec_cases [OF TpmHandle_codec, of b])
  then show ?case
  proof cases
    case ok
    then show ?thesis
      using Suc.IH [of r] by (cases "unmarshal_handles n r") auto
  qed auto
qed simp

lemma ensure_consumed_Ok_iff [simp]: "ensure_consumed b = Ok () \<longleftrightarrow> b = []"
  by (simp add: ensure_consumed_def)

lemma ensure_consumed_not_Panic [simp]: "ensure_consumed b \<noteq> Panic"
  by (simp add: ensure_consumed_def)

lemma ensure_consumed_Err: "ensure_consumed b = Err e \<Longrightarrow> offset e = 0"
  by (auto simp: ensure_consumed_def split: if_splits)

lemma unmarshal_handle_area_Ok_iff:
  "unmarshal_handle_area n b = Ok hs \<longleftrightarrow>
   length hs = n \<and> list_all (valid TpmHandle) hs \<and> b = items_enc TpmHandle hs"
  using unmarshal_handles_enc [of hs "[]"] unmarshal_handles_sound [of n b hs "[]"]
  by (auto simp: unmarshal_handle_area_def)

lemma unmarshal_body_Ok_iff:
  assumes "decl_ok d"
  shows "unmarshal_body d hb pb = Ok b \<longleftrightarrow>
    body_valid d b \<and> hb = body_handle_bytes b \<and> pb = body_param_bytes d b"
proof -
  note fd = decoder.dec_iff [OF fields_decoder [OF decl_okD(3) [OF assms]]]
  show ?thesis
    by (cases b) (auto simp: unmarshal_body_def unmarshal_handle_area_Ok_iff fd body_valid_def
        body_handle_bytes_def body_param_bytes_def)
qed

lemma unmarshal_body_total:
  assumes "decl_ok d"
  shows "unmarshal_body d hb pb \<noteq> Panic"
    and "unmarshal_body d hb pb = Err e \<Longrightarrow> offset e \<le> max (length hb) (length pb)"
proof -
  note total = fields_unmarshal_total [OF decl_okD(3) [OF assms] order_refl]
  show "unmarshal_body d hb pb \<noteq> Panic"
    using total unmarshal_handles_total
    by (auto simp: unmarshal_body_def unmarshal_handle_area_def and_then_Panic_iff)
  show "unmarshal_body d hb pb = Err e \<Longrightarrow> offset e \<le> max (length hb) (length pb)"
    using total unmarshal_handles_total
    by (auto simp: unmarshal_body_def unmarshal_handle_area_def and_then_Err_iff le_max_iff_disj
        dest!: ensure_consumed_Err)
qed

subsection \<open>The contract of a frame\<close>

locale lawful_frame =
  fixes F :: TpmFrame and hb pb :: "u8 list"
  assumes handles_emit: "emits (marshal_handles F) hb"
    and params_emit: "emits (marshal_parameters F) pb"
    and handles_size: "length hb = frame_handles F * 4"
    and frame_size: "frame_len F = length hb + length pb"
    and frame_bound: "frame_len F \<le> 2 ^ 24"

lemma fields_SIZE_le: "codecs_ok fs \<Longrightarrow> fields_SIZE fs \<le> length fs * u16_max"
  by (induction fs) (auto simp: fields_SIZE_def intro!: add_mono wire_codec.SIZE_le)

lemma frame_of_lawful:
  assumes "decl_ok d" "body_valid d b"
  shows "lawful_frame (frame_of d b) (body_handle_bytes b) (body_param_bytes d b)"
proof
  note ok = decl_okD [OF assms(1)]
  have v: "length (b_handles b) = HANDLES d" "list_all (valid TpmHandle) (b_handles b)"
    "fields_valid (f_params d) (b_params b)"
    using assms(2) by (simp_all add: body_valid_def)
  show "emits (marshal_handles (frame_of d b)) (body_handle_bytes b)"
    using v by (simp add: frame_of_def body_marshal_handles_def body_handle_bytes_def
        marshal_items_emits [OF TpmHandle_codec])
  show "emits (marshal_parameters (frame_of d b)) (body_param_bytes d b)"
    using v ok by (simp add: frame_of_def body_marshal_parameters_def body_param_bytes_def
        fields_marshal_emits)
  show "length (body_handle_bytes b) = frame_handles (frame_of d b) * 4"
    using v by (simp add: frame_of_def body_handle_bytes_def length_handles_enc)
  show len: "frame_len (frame_of d b) = length (body_handle_bytes b) + length (body_param_bytes d b)"
    using v ok by (simp add: frame_of_def body_len_def body_handle_bytes_def body_param_bytes_def
        length_handles_enc length_fields_enc)
  have "length (body_param_bytes d b) \<le> 16 * u16_max"
    using fields_len_le [OF ok(3) v(3)] fields_SIZE_le [OF ok(3)] length_fields_enc [OF ok(3) v(3)]
      mult_le_mono1 [OF ok(2), of u16_max]
    unfolding body_param_bytes_def by linarith
  with len v ok show "frame_len (frame_of d b) \<le> 2 ^ 24"
    by (simp add: body_handle_bytes_def length_handles_enc u16_max_def)
qed

lemma body_len_le_SIZE:
  assumes "decl_ok d" "body_valid d b"
  shows "body_len d b \<le> decl_SIZE d"
  using assms fields_len_le [OF decl_okD(3) [OF assms(1)]]
  by (simp add: body_valid_def body_len_def decl_SIZE_def)

subsection \<open>Marshalling\<close>

lemma wlet_Ok [simp]: "wlet (Ok x) f = f x"
  by (rule ext) (simp add: wlet_def)

lemma wlet_Err [simp]: "wlet (Err e) f w = (Err e, w)"
  by (simp add: wlet_def)

lemma size_add_Ok [simp]: "a + b \<le> usize_max \<Longrightarrow> size_add a b off = Ok (a + b)"
  by (simp add: size_add_def)

lemma handle_area_size_Ok [simp]:
  "n * 4 \<le> usize_max \<Longrightarrow> handle_area_size n off = Ok (n * 4)"
  by (simp add: handle_area_size_def checked_mul_def)

lemma sum_lens_Ok:
  "n + sum_list (map len ss) \<le> usize_max \<Longrightarrow>
   sum_lens len off n ss = Ok (n + sum_list (map len ss))"
  by (induction ss arbitrary: n) (simp_all del: and_then_Ok_iff)

lemma emits_St: "emits (marshal TpmSt_codec (VEnum (ESt tag))) (to_be_bytes 2 (nat (TpmSt_value tag)))"
  using TpmSt.value_range [of tag]
  by (simp add: TpmSt_codec_def tpm_enum_codec_def to_be_repr_def repr_range_def)

lemma emits_Cc: "emits (marshal TpmCc_codec (VEnum (ECc cc))) (to_be_bytes 4 (nat (TpmCc_value cc)))"
  using TpmCc.value_range [of cc]
  by (simp add: TpmCc_codec_def tpm_enum_codec_def to_be_repr_def repr_range_def)

lemma emits_Rc: "emits (marshal TpmRc_codec (VRc rc)) (to_be_bytes 4 (unat (TpmRc_value rc)))"
  by (simp add: TpmRc_codec_def)

lemma emits_u32: "emits (marshal TpmUint32 (int_new 4 n)) (to_be_bytes 4 n)"
  by (simp add: TpmUint32_def tpm_int_def int_new_def)

lemma auth_codecs: "wire_codec TpmsAuthCommand" "wire_codec TpmsAuthResponse"
  by (intro wire_field_codec TpmsAuthCommand_ok TpmsAuthResponse_ok)+

lemma sessions_bound:
  assumes "wire_codec c" "SIZE c \<le> 200" "list_all (valid c) ss" "length ss \<le> MAX_SESSIONS"
  shows "length (items_enc c ss) \<le> 1600"
  using length_items_enc_le [OF assms(1,3)] assms(2,4)
    mult_le_mono [of "length ss" 8 "SIZE c" 200] by (simp add: constants)

lemma sessions_len_Ok:
  assumes "wire_codec c" "SIZE c \<le> 200" "list_all (valid c) ss" "length ss \<le> MAX_SESSIONS"
  shows "sessions_len c ss off = Ok (length (items_enc c ss))"
  using sessions_bound [OF assms] length_items_enc [OF assms(1,3)]
  by (simp add: sessions_len_def sum_lens_Ok usize_max_def)

lemma auth_SIZE: "SIZE TpmsAuthCommand \<le> 200" "SIZE TpmsAuthResponse \<le> 200"
  by simp_all

lemma uint32_try_from_Ok [simp]: "n \<le> u32_max \<Longrightarrow> uint32_try_from n off k = Ok (int_new 4 n)"
  by (simp add: uint32_try_from_def)

lemmas frame_maxes = usize_max_def u32_max_def

context lawful_frame
begin

lemma areas_Ok: "body_areas F off = Ok (length hb, length pb)"
proof -
  have "frame_handles F * 4 \<le> usize_max"
    using handles_size frame_size frame_bound by (simp add: usize_max_def)
  then show ?thesis
    using handles_size frame_size by (simp add: body_areas_def del: and_then_Ok_iff)
qed

lemma command_emits:
  assumes "tag = St_NoSessions \<and> ss = [] \<or> tag = St_Sessions \<and> ss \<noteq> []"
    and "length ss \<le> MAX_SESSIONS" "list_all (valid TpmsAuthCommand) ss"
  shows "emits (tpm_marshal_command F tag ss)
           (command_bytes (frame_cc F) tag hb (items_enc TpmsAuthCommand ss) pb)"
proof -
  let ?auth = "items_enc TpmsAuthCommand ss"
  note sl = sessions_len_Ok [OF auth_codecs(1) auth_SIZE(1) assms(3,2)]
  note bound = sessions_bound [OF auth_codecs(1) auth_SIZE(1) assms(3,2)]
  let ?m = "wseq (marshal TpmSt_codec (VEnum (ESt tag)))
        (wseq (marshal TpmUint32 (int_new 4 (10 + length (command_body tag hb ?auth pb))))
        (wseq (marshal TpmCc_codec (VEnum (ECc (frame_cc F))))
        (wseq (marshal_handles F)
        (wseq (if tag = St_Sessions
               then wseq (marshal TpmUint32 (int_new 4 (length ?auth)))
                      (marshal_items (marshal TpmsAuthCommand) ss)
               else wdone)
              (marshal_parameters F)))))"
  have "tpm_marshal_command F tag ss = ?m"
    using assms(1,2) bound frame_size frame_bound
    by (intro ext, elim disjE) (simp_all add: tpm_marshal_command_def check_session_count_def
        command_body_def TPM_HEADER_SIZE_def frame_maxes sl areas_Ok)
  moreover have auth: "emits (if tag = St_Sessions
               then wseq (marshal TpmUint32 (int_new 4 (length ?auth)))
                      (marshal_items (marshal TpmsAuthCommand) ss)
               else wdone)
           (if tag = St_Sessions then to_be_bytes 4 (length ?auth) @ ?auth else [])"
    using emits_wseq [OF emits_u32 marshal_items_emits [OF auth_codecs(1) assms(3)]] by simp
  have "emits ?m (command_bytes (frame_cc F) tag hb ?auth pb)"
    using emits_wseq [OF emits_St emits_wseq [OF emits_u32 emits_wseq [OF emits_Cc
      emits_wseq [OF handles_emit emits_wseq [OF auth params_emit]]]]]
    unfolding command_bytes_def header_def command_body_def append_assoc .
  ultimately show ?thesis by simp
qed

lemma response_emits:
  assumes "rc_success rc" "length ss \<le> MAX_SESSIONS" "list_all (valid TpmsAuthResponse) ss"
  defines "tag \<equiv> (if ss = [] then St_NoSessions else St_Sessions)"
  shows "emits (tpm_marshal_response F rc ss)
           (response_bytes rc tag hb pb (items_enc TpmsAuthResponse ss))"
proof -
  let ?auth = "items_enc TpmsAuthResponse ss"
  note sl = sessions_len_Ok [OF auth_codecs(2) auth_SIZE(2) assms(3,2)]
  note bound = sessions_bound [OF auth_codecs(2) auth_SIZE(2) assms(3,2)]
  let ?m = "wseq (marshal TpmSt_codec (VEnum (ESt tag)))
        (wseq (marshal TpmUint32 (int_new 4 (10 + length (response_body tag hb pb ?auth))))
        (wseq (marshal TpmRc_codec (VRc rc))
        (wseq (marshal_handles F)
        (wseq (if tag = St_Sessions then marshal TpmUint32 (int_new 4 (length pb)) else wdone)
        (wseq (marshal_parameters F)
              (if tag = St_Sessions then marshal_items (marshal TpmsAuthResponse) ss else wdone))))))"
  have "tpm_marshal_response F rc ss = ?m"
    using assms(1,2) bound frame_size frame_bound
    by (intro ext) (simp add: tpm_marshal_response_def check_session_count_def response_body_def
        TPM_HEADER_SIZE_def frame_maxes tag_def sl areas_Ok)
  moreover have
    size: "emits (if tag = St_Sessions then marshal TpmUint32 (int_new 4 (length pb)) else wdone)
             (if tag = St_Sessions then to_be_bytes 4 (length pb) else [])" and
    auth: "emits (if tag = St_Sessions then marshal_items (marshal TpmsAuthResponse) ss else wdone)
             (if tag = St_Sessions then ?auth else [])"
    using emits_u32 marshal_items_emits [OF auth_codecs(2) assms(3)] by simp_all
  have layout: "response_bytes rc tag hb pb ?auth =
      header tag (length (response_body tag hb pb ?auth)) (unat (TpmRc_value rc)) @ hb @
      (if tag = St_Sessions then to_be_bytes 4 (length pb) else []) @ pb @
      (if tag = St_Sessions then ?auth else [])"
    by (simp add: response_bytes_def response_body_def)
  have "emits ?m (response_bytes rc tag hb pb ?auth)"
    using emits_wseq [OF emits_St emits_wseq [OF emits_u32 emits_wseq [OF emits_Rc
      emits_wseq [OF handles_emit emits_wseq [OF size emits_wseq [OF params_emit auth]]]]]]
    unfolding layout header_def append_assoc .
  ultimately show ?thesis by simp
qed

end

lemma error_response_emits:
  assumes "\<not> rc_success rc"
  shows "emits (tpm_marshal_response F rc []) (response_bytes rc St_NoSessions [] [] [])"
proof -
  have "tpm_marshal_response F rc [] =
     wseq (marshal TpmSt_codec (VEnum (ESt St_NoSessions)))
     (wseq (marshal TpmUint32 (int_new 4 10)) (marshal TpmRc_codec (VRc rc)))"
    using assms by (intro ext)
      (simp add: tpm_marshal_response_def check_session_count_def TPM_HEADER_SIZE_def Let_def)
  moreover have "emits \<dots> (response_bytes rc St_NoSessions [] [] [])"
    using emits_wseq [OF emits_St emits_wseq [OF emits_u32 emits_Rc], of St_NoSessions 10 rc]
    by (simp add: response_bytes_def header_def response_body_def)
  ultimately show ?thesis by simp
qed

end
