(* ===== verification/Frame_Decl_A.thy ===== *)
theory Frame_Decl_A
  imports Frame_Laws
begin

text \<open>
  Command and response bodies of \<open>protocol/src/frame/data.rs\<close>, in the order of the dispatch table:
  from \<open>NvUndefineSpaceSpecial\<close> to \<open>SetAlgorithmSet\<close>.
\<close>

text \<open>The alias of \<open>data/enum/mod.rs\<close>.\<close>

definition TpmiAlgCipherMode :: codec where
  "TpmiAlgCipherMode = TpmAlgId_codec"

lemma TpmiAlgCipherMode_ok [codec_ok]: "wire_field TpmiAlgCipherMode"
  by (simp add: TpmiAlgCipherMode_def TpmAlgId_codec_ok)

definition TpmNvUndefineSpaceSpecialCommand :: frame_decl where [decl_defs]:
  "TpmNvUndefineSpaceSpecialCommand = Command Cc_NvUndefineSpaceSpecial 2 []"

definition TpmNvUndefineSpaceSpecialResponse :: frame_decl where [decl_defs]:
  "TpmNvUndefineSpaceSpecialResponse = Response Cc_NvUndefineSpaceSpecial 0 []"

lemma NvUndefineSpaceSpecial_ok [decl_ok_facts]:
  "decl_ok TpmNvUndefineSpaceSpecialCommand" "decl_ok TpmNvUndefineSpaceSpecialResponse"
  by (simp_all add:
      TpmNvUndefineSpaceSpecialCommand_def TpmNvUndefineSpaceSpecialResponse_def decl_ok_def)

definition TpmEvictControlCommand :: frame_decl where [decl_defs]:
  "TpmEvictControlCommand = Command Cc_EvictControl 2 [
     (''persistent_handle'', TpmHandle)]"

definition TpmEvictControlResponse :: frame_decl where [decl_defs]:
  "TpmEvictControlResponse = Response Cc_EvictControl 0 []"

lemma EvictControl_ok [decl_ok_facts]:
  "decl_ok TpmEvictControlCommand" "decl_ok TpmEvictControlResponse"
  by (simp_all add:
      TpmEvictControlCommand_def TpmEvictControlResponse_def decl_ok_def wire_field_codec
      TpmHandle_ok)

definition TpmHierarchyControlCommand :: frame_decl where [decl_defs]:
  "TpmHierarchyControlCommand = Command Cc_HierarchyControl 1 [
     (''enable'', TpmRh_codec), (''state'', TpmiYesNo)]"

definition TpmHierarchyControlResponse :: frame_decl where [decl_defs]:
  "TpmHierarchyControlResponse = Response Cc_HierarchyControl 0 []"

lemma HierarchyControl_ok [decl_ok_facts]:
  "decl_ok TpmHierarchyControlCommand" "decl_ok TpmHierarchyControlResponse"
  by (simp_all add:
      TpmHierarchyControlCommand_def TpmHierarchyControlResponse_def decl_ok_def
      wire_field_codec TpmRh_codec_ok TpmiYesNo_ok)

definition TpmNvUndefineSpaceCommand :: frame_decl where [decl_defs]:
  "TpmNvUndefineSpaceCommand = Command Cc_NvUndefineSpace 2 []"

definition TpmNvUndefineSpaceResponse :: frame_decl where [decl_defs]:
  "TpmNvUndefineSpaceResponse = Response Cc_NvUndefineSpace 0 []"

lemma NvUndefineSpace_ok [decl_ok_facts]:
  "decl_ok TpmNvUndefineSpaceCommand" "decl_ok TpmNvUndefineSpaceResponse"
  by (simp_all add:
      TpmNvUndefineSpaceCommand_def TpmNvUndefineSpaceResponse_def decl_ok_def)

definition TpmChangeEpsCommand :: frame_decl where [decl_defs]:
  "TpmChangeEpsCommand = Command Cc_ChangeEps 1 []"

definition TpmChangeEpsResponse :: frame_decl where [decl_defs]:
  "TpmChangeEpsResponse = Response Cc_ChangeEps 0 []"

lemma ChangeEps_ok [decl_ok_facts]:
  "decl_ok TpmChangeEpsCommand" "decl_ok TpmChangeEpsResponse"
  by (simp_all add:
      TpmChangeEpsCommand_def TpmChangeEpsResponse_def decl_ok_def)

definition TpmChangePpsCommand :: frame_decl where [decl_defs]:
  "TpmChangePpsCommand = Command Cc_ChangePps 1 []"

definition TpmChangePpsResponse :: frame_decl where [decl_defs]:
  "TpmChangePpsResponse = Response Cc_ChangePps 0 []"

lemma ChangePps_ok [decl_ok_facts]:
  "decl_ok TpmChangePpsCommand" "decl_ok TpmChangePpsResponse"
  by (simp_all add:
      TpmChangePpsCommand_def TpmChangePpsResponse_def decl_ok_def)

definition TpmClearCommand :: frame_decl where [decl_defs]:
  "TpmClearCommand = Command Cc_Clear 1 []"

definition TpmClearResponse :: frame_decl where [decl_defs]:
  "TpmClearResponse = Response Cc_Clear 0 []"

lemma Clear_ok [decl_ok_facts]:
  "decl_ok TpmClearCommand" "decl_ok TpmClearResponse"
  by (simp_all add:
      TpmClearCommand_def TpmClearResponse_def decl_ok_def)

definition TpmClearControlCommand :: frame_decl where [decl_defs]:
  "TpmClearControlCommand = Command Cc_ClearControl 1 [
     (''disable'', TpmiYesNo)]"

definition TpmClearControlResponse :: frame_decl where [decl_defs]:
  "TpmClearControlResponse = Response Cc_ClearControl 0 []"

lemma ClearControl_ok [decl_ok_facts]:
  "decl_ok TpmClearControlCommand" "decl_ok TpmClearControlResponse"
  by (simp_all add:
      TpmClearControlCommand_def TpmClearControlResponse_def decl_ok_def wire_field_codec
      TpmiYesNo_ok)

definition TpmClockSetCommand :: frame_decl where [decl_defs]:
  "TpmClockSetCommand = Command Cc_ClockSet 1 [
     (''new_time'', TpmUint64)]"

definition TpmClockSetResponse :: frame_decl where [decl_defs]:
  "TpmClockSetResponse = Response Cc_ClockSet 0 []"

lemma ClockSet_ok [decl_ok_facts]:
  "decl_ok TpmClockSetCommand" "decl_ok TpmClockSetResponse"
  by (simp_all add:
      TpmClockSetCommand_def TpmClockSetResponse_def decl_ok_def wire_field_codec TpmUint64_ok)

definition TpmHierarchyChangeAuthCommand :: frame_decl where [decl_defs]:
  "TpmHierarchyChangeAuthCommand = Command Cc_HierarchyChangeAuth 1 [
     (''new_auth'', Tpm2bAuth)]"

definition TpmHierarchyChangeAuthResponse :: frame_decl where [decl_defs]:
  "TpmHierarchyChangeAuthResponse = Response Cc_HierarchyChangeAuth 0 []"

lemma HierarchyChangeAuth_ok [decl_ok_facts]:
  "decl_ok TpmHierarchyChangeAuthCommand" "decl_ok TpmHierarchyChangeAuthResponse"
  by (simp_all add:
      TpmHierarchyChangeAuthCommand_def TpmHierarchyChangeAuthResponse_def decl_ok_def
      wire_field_codec Tpm2bAuth_ok)

definition TpmNvDefineSpaceCommand :: frame_decl where [decl_defs]:
  "TpmNvDefineSpaceCommand = Command Cc_NvDefineSpace 1 [
     (''auth'', Tpm2bAuth), (''public_info'', Tpm2bNvPublic)]"

definition TpmNvDefineSpaceResponse :: frame_decl where [decl_defs]:
  "TpmNvDefineSpaceResponse = Response Cc_NvDefineSpace 0 []"

lemma NvDefineSpace_ok [decl_ok_facts]:
  "decl_ok TpmNvDefineSpaceCommand" "decl_ok TpmNvDefineSpaceResponse"
  by (simp_all add:
      TpmNvDefineSpaceCommand_def TpmNvDefineSpaceResponse_def decl_ok_def wire_field_codec
      Tpm2bAuth_ok Tpm2bNvPublic_ok)

definition TpmPcrAllocateCommand :: frame_decl where [decl_defs]:
  "TpmPcrAllocateCommand = Command Cc_PcrAllocate 1 [
     (''pcr_allocation'', TpmlPcrSelection)]"

definition TpmPcrAllocateResponse :: frame_decl where [decl_defs]:
  "TpmPcrAllocateResponse = Response Cc_PcrAllocate 0 [
     (''allocation_success'', TpmiYesNo), (''max_pcr'', TpmUint32),
     (''size_needed'', TpmUint32), (''size_available'', TpmUint32)]"

lemma PcrAllocate_ok [decl_ok_facts]:
  "decl_ok TpmPcrAllocateCommand" "decl_ok TpmPcrAllocateResponse"
  by (simp_all add:
      TpmPcrAllocateCommand_def TpmPcrAllocateResponse_def decl_ok_def wire_field_codec
      TpmUint32_ok TpmiYesNo_ok TpmlPcrSelection_ok)

definition TpmPcrSetAuthPolicyCommand :: frame_decl where [decl_defs]:
  "TpmPcrSetAuthPolicyCommand = Command Cc_PcrSetAuthPolicy 1 [
     (''auth_policy'', Tpm2bDigest), (''hash_alg'', TpmAlgId_codec), (''pcr_num'', TpmiDhPcr)]"

definition TpmPcrSetAuthPolicyResponse :: frame_decl where [decl_defs]:
  "TpmPcrSetAuthPolicyResponse = Response Cc_PcrSetAuthPolicy 0 []"

lemma PcrSetAuthPolicy_ok [decl_ok_facts]:
  "decl_ok TpmPcrSetAuthPolicyCommand" "decl_ok TpmPcrSetAuthPolicyResponse"
  by (simp_all add:
      TpmPcrSetAuthPolicyCommand_def TpmPcrSetAuthPolicyResponse_def decl_ok_def
      wire_field_codec Tpm2bDigest_ok TpmAlgId_codec_ok TpmiDhPcr_ok)

definition TpmPpCommandsCommand :: frame_decl where [decl_defs]:
  "TpmPpCommandsCommand = Command Cc_PpCommands 1 [
     (''set_list'', TpmlCc), (''clear_list'', TpmlCc)]"

definition TpmPpCommandsResponse :: frame_decl where [decl_defs]:
  "TpmPpCommandsResponse = Response Cc_PpCommands 0 []"

lemma PpCommands_ok [decl_ok_facts]:
  "decl_ok TpmPpCommandsCommand" "decl_ok TpmPpCommandsResponse"
  by (simp_all add:
      TpmPpCommandsCommand_def TpmPpCommandsResponse_def decl_ok_def wire_field_codec TpmlCc_ok)

definition TpmSetPrimaryPolicyCommand :: frame_decl where [decl_defs]:
  "TpmSetPrimaryPolicyCommand = Command Cc_SetPrimaryPolicy 1 [
     (''auth_policy'', Tpm2bDigest), (''hash_alg'', TpmAlgId_codec)]"

definition TpmSetPrimaryPolicyResponse :: frame_decl where [decl_defs]:
  "TpmSetPrimaryPolicyResponse = Response Cc_SetPrimaryPolicy 0 []"

lemma SetPrimaryPolicy_ok [decl_ok_facts]:
  "decl_ok TpmSetPrimaryPolicyCommand" "decl_ok TpmSetPrimaryPolicyResponse"
  by (simp_all add:
      TpmSetPrimaryPolicyCommand_def TpmSetPrimaryPolicyResponse_def decl_ok_def
      wire_field_codec Tpm2bDigest_ok TpmAlgId_codec_ok)

definition TpmFieldUpgradeStartCommand :: frame_decl where [decl_defs]:
  "TpmFieldUpgradeStartCommand = Command Cc_FieldUpgradeStart 2 [
     (''fu_digest'', Tpm2bDigest), (''manifest_signature'', TpmtSignature)]"

definition TpmFieldUpgradeStartResponse :: frame_decl where [decl_defs]:
  "TpmFieldUpgradeStartResponse = Response Cc_FieldUpgradeStart 0 []"

lemma FieldUpgradeStart_ok [decl_ok_facts]:
  "decl_ok TpmFieldUpgradeStartCommand" "decl_ok TpmFieldUpgradeStartResponse"
  by (simp_all add:
      TpmFieldUpgradeStartCommand_def TpmFieldUpgradeStartResponse_def decl_ok_def
      wire_field_codec Tpm2bDigest_ok TpmtSignature_ok)

definition TpmClockRateAdjustCommand :: frame_decl where [decl_defs]:
  "TpmClockRateAdjustCommand = Command Cc_ClockRateAdjust 1 [
     (''rate_adjust'', TpmClockAdjust_codec)]"

definition TpmClockRateAdjustResponse :: frame_decl where [decl_defs]:
  "TpmClockRateAdjustResponse = Response Cc_ClockRateAdjust 0 []"

lemma ClockRateAdjust_ok [decl_ok_facts]:
  "decl_ok TpmClockRateAdjustCommand" "decl_ok TpmClockRateAdjustResponse"
  by (simp_all add:
      TpmClockRateAdjustCommand_def TpmClockRateAdjustResponse_def decl_ok_def wire_field_codec
      TpmClockAdjust_codec_ok)

definition TpmCreatePrimaryCommand :: frame_decl where [decl_defs]:
  "TpmCreatePrimaryCommand = Command Cc_CreatePrimary 1 [
     (''in_sensitive'', Tpm2bSensitiveCreate), (''in_public'', Tpm2bPublic),
     (''outside_info'', Tpm2bData), (''creation_pcr'', TpmlPcrSelection)]"

definition TpmCreatePrimaryResponse :: frame_decl where [decl_defs]:
  "TpmCreatePrimaryResponse = Response Cc_CreatePrimary 1 [
     (''out_public'', Tpm2bPublic), (''creation_data'', Tpm2bCreationData),
     (''creation_hash'', Tpm2bDigest), (''creation_ticket'', TpmtTkCreation),
     (''name'', Tpm2bName)]"

lemma CreatePrimary_ok [decl_ok_facts]:
  "decl_ok TpmCreatePrimaryCommand" "decl_ok TpmCreatePrimaryResponse"
  by (simp_all add:
      TpmCreatePrimaryCommand_def TpmCreatePrimaryResponse_def decl_ok_def wire_field_codec
      Tpm2bCreationData_ok Tpm2bData_ok Tpm2bDigest_ok Tpm2bName_ok Tpm2bPublic_ok
      Tpm2bSensitiveCreate_ok TpmlPcrSelection_ok TpmtTkCreation_ok)

definition TpmNvGlobalWriteLockCommand :: frame_decl where [decl_defs]:
  "TpmNvGlobalWriteLockCommand = Command Cc_NvGlobalWriteLock 1 []"

definition TpmNvGlobalWriteLockResponse :: frame_decl where [decl_defs]:
  "TpmNvGlobalWriteLockResponse = Response Cc_NvGlobalWriteLock 0 []"

lemma NvGlobalWriteLock_ok [decl_ok_facts]:
  "decl_ok TpmNvGlobalWriteLockCommand" "decl_ok TpmNvGlobalWriteLockResponse"
  by (simp_all add:
      TpmNvGlobalWriteLockCommand_def TpmNvGlobalWriteLockResponse_def decl_ok_def)

definition TpmGetCommandAuditDigestCommand :: frame_decl where [decl_defs]:
  "TpmGetCommandAuditDigestCommand = Command Cc_GetCommandAuditDigest 2 [
     (''qualifying_data'', Tpm2bData), (''in_scheme'', TpmtSigScheme)]"

definition TpmGetCommandAuditDigestResponse :: frame_decl where [decl_defs]:
  "TpmGetCommandAuditDigestResponse = Response Cc_GetCommandAuditDigest 0 [
     (''audit_info'', Tpm2bAttest), (''signature'', TpmtSignature)]"

lemma GetCommandAuditDigest_ok [decl_ok_facts]:
  "decl_ok TpmGetCommandAuditDigestCommand" "decl_ok TpmGetCommandAuditDigestResponse"
  by (simp_all add:
      TpmGetCommandAuditDigestCommand_def TpmGetCommandAuditDigestResponse_def decl_ok_def
      wire_field_codec Tpm2bAttest_ok Tpm2bData_ok TpmtSigScheme_ok TpmtSignature_ok)

definition TpmNvIncrementCommand :: frame_decl where [decl_defs]:
  "TpmNvIncrementCommand = Command Cc_NvIncrement 2 []"

definition TpmNvIncrementResponse :: frame_decl where [decl_defs]:
  "TpmNvIncrementResponse = Response Cc_NvIncrement 0 []"

lemma NvIncrement_ok [decl_ok_facts]:
  "decl_ok TpmNvIncrementCommand" "decl_ok TpmNvIncrementResponse"
  by (simp_all add:
      TpmNvIncrementCommand_def TpmNvIncrementResponse_def decl_ok_def)

definition TpmNvSetBitsCommand :: frame_decl where [decl_defs]:
  "TpmNvSetBitsCommand = Command Cc_NvSetBits 2 [
     (''bits'', TpmUint64)]"

definition TpmNvSetBitsResponse :: frame_decl where [decl_defs]:
  "TpmNvSetBitsResponse = Response Cc_NvSetBits 0 []"

lemma NvSetBits_ok [decl_ok_facts]:
  "decl_ok TpmNvSetBitsCommand" "decl_ok TpmNvSetBitsResponse"
  by (simp_all add:
      TpmNvSetBitsCommand_def TpmNvSetBitsResponse_def decl_ok_def wire_field_codec
      TpmUint64_ok)

definition TpmNvExtendCommand :: frame_decl where [decl_defs]:
  "TpmNvExtendCommand = Command Cc_NvExtend 2 [
     (''data'', Tpm2bMaxNvBuffer)]"

definition TpmNvExtendResponse :: frame_decl where [decl_defs]:
  "TpmNvExtendResponse = Response Cc_NvExtend 0 []"

lemma NvExtend_ok [decl_ok_facts]:
  "decl_ok TpmNvExtendCommand" "decl_ok TpmNvExtendResponse"
  by (simp_all add:
      TpmNvExtendCommand_def TpmNvExtendResponse_def decl_ok_def wire_field_codec
      Tpm2bMaxNvBuffer_ok)

definition TpmNvWriteCommand :: frame_decl where [decl_defs]:
  "TpmNvWriteCommand = Command Cc_NvWrite 2 [
     (''data'', Tpm2bMaxNvBuffer), (''offset'', TpmUint16)]"

definition TpmNvWriteResponse :: frame_decl where [decl_defs]:
  "TpmNvWriteResponse = Response Cc_NvWrite 0 []"

lemma NvWrite_ok [decl_ok_facts]:
  "decl_ok TpmNvWriteCommand" "decl_ok TpmNvWriteResponse"
  by (simp_all add:
      TpmNvWriteCommand_def TpmNvWriteResponse_def decl_ok_def wire_field_codec
      Tpm2bMaxNvBuffer_ok TpmUint16_ok)

definition TpmNvWriteLockCommand :: frame_decl where [decl_defs]:
  "TpmNvWriteLockCommand = Command Cc_NvWriteLock 2 []"

definition TpmNvWriteLockResponse :: frame_decl where [decl_defs]:
  "TpmNvWriteLockResponse = Response Cc_NvWriteLock 0 []"

lemma NvWriteLock_ok [decl_ok_facts]:
  "decl_ok TpmNvWriteLockCommand" "decl_ok TpmNvWriteLockResponse"
  by (simp_all add:
      TpmNvWriteLockCommand_def TpmNvWriteLockResponse_def decl_ok_def)

definition TpmDictionaryAttackLockResetCommand :: frame_decl where [decl_defs]:
  "TpmDictionaryAttackLockResetCommand = Command Cc_DictionaryAttackLockReset 1 []"

definition TpmDictionaryAttackLockResetResponse :: frame_decl where [decl_defs]:
  "TpmDictionaryAttackLockResetResponse = Response Cc_DictionaryAttackLockReset 0 []"

lemma DictionaryAttackLockReset_ok [decl_ok_facts]:
  "decl_ok TpmDictionaryAttackLockResetCommand" "decl_ok TpmDictionaryAttackLockResetResponse"
  by (simp_all add:
      TpmDictionaryAttackLockResetCommand_def TpmDictionaryAttackLockResetResponse_def
      decl_ok_def)

definition TpmDictionaryAttackParametersCommand :: frame_decl where [decl_defs]:
  "TpmDictionaryAttackParametersCommand = Command Cc_DictionaryAttackParameters 1 [
     (''new_max_tries'', TpmUint32), (''new_recovery_time'', TpmUint32),
     (''lockout_recovery'', TpmUint32)]"

definition TpmDictionaryAttackParametersResponse :: frame_decl where [decl_defs]:
  "TpmDictionaryAttackParametersResponse = Response Cc_DictionaryAttackParameters 0 []"

lemma DictionaryAttackParameters_ok [decl_ok_facts]:
  "decl_ok TpmDictionaryAttackParametersCommand" "decl_ok TpmDictionaryAttackParametersResponse"
  by (simp_all add:
      TpmDictionaryAttackParametersCommand_def TpmDictionaryAttackParametersResponse_def
      decl_ok_def wire_field_codec TpmUint32_ok)

definition TpmNvChangeAuthCommand :: frame_decl where [decl_defs]:
  "TpmNvChangeAuthCommand = Command Cc_NvChangeAuth 1 [
     (''new_auth'', Tpm2bAuth)]"

definition TpmNvChangeAuthResponse :: frame_decl where [decl_defs]:
  "TpmNvChangeAuthResponse = Response Cc_NvChangeAuth 0 []"

lemma NvChangeAuth_ok [decl_ok_facts]:
  "decl_ok TpmNvChangeAuthCommand" "decl_ok TpmNvChangeAuthResponse"
  by (simp_all add:
      TpmNvChangeAuthCommand_def TpmNvChangeAuthResponse_def decl_ok_def wire_field_codec
      Tpm2bAuth_ok)

definition TpmPcrEventCommand :: frame_decl where [decl_defs]:
  "TpmPcrEventCommand = Command Cc_PcrEvent 1 [
     (''event_data'', Tpm2bEvent)]"

definition TpmPcrEventResponse :: frame_decl where [decl_defs]:
  "TpmPcrEventResponse = Response Cc_PcrEvent 0 [
     (''digests'', TpmlDigestValues)]"

lemma PcrEvent_ok [decl_ok_facts]:
  "decl_ok TpmPcrEventCommand" "decl_ok TpmPcrEventResponse"
  by (simp_all add:
      TpmPcrEventCommand_def TpmPcrEventResponse_def decl_ok_def wire_field_codec Tpm2bEvent_ok
      TpmlDigestValues_ok)

definition TpmPcrResetCommand :: frame_decl where [decl_defs]:
  "TpmPcrResetCommand = Command Cc_PcrReset 1 []"

definition TpmPcrResetResponse :: frame_decl where [decl_defs]:
  "TpmPcrResetResponse = Response Cc_PcrReset 0 []"

lemma PcrReset_ok [decl_ok_facts]:
  "decl_ok TpmPcrResetCommand" "decl_ok TpmPcrResetResponse"
  by (simp_all add:
      TpmPcrResetCommand_def TpmPcrResetResponse_def decl_ok_def)

definition TpmSequenceCompleteCommand :: frame_decl where [decl_defs]:
  "TpmSequenceCompleteCommand = Command Cc_SequenceComplete 1 [
     (''buffer'', Tpm2bMaxBuffer), (''hierarchy'', TpmRh_codec)]"

definition TpmSequenceCompleteResponse :: frame_decl where [decl_defs]:
  "TpmSequenceCompleteResponse = Response Cc_SequenceComplete 0 [
     (''result'', Tpm2bDigest), (''validation'', TpmtTkHashcheck)]"

lemma SequenceComplete_ok [decl_ok_facts]:
  "decl_ok TpmSequenceCompleteCommand" "decl_ok TpmSequenceCompleteResponse"
  by (simp_all add:
      TpmSequenceCompleteCommand_def TpmSequenceCompleteResponse_def decl_ok_def
      wire_field_codec Tpm2bDigest_ok Tpm2bMaxBuffer_ok TpmRh_codec_ok TpmtTkHashcheck_ok)

definition TpmSetAlgorithmSetCommand :: frame_decl where [decl_defs]:
  "TpmSetAlgorithmSetCommand = Command Cc_SetAlgorithmSet 1 [
     (''algorithm_set'', TpmUint32)]"

definition TpmSetAlgorithmSetResponse :: frame_decl where [decl_defs]:
  "TpmSetAlgorithmSetResponse = Response Cc_SetAlgorithmSet 0 []"

lemma SetAlgorithmSet_ok [decl_ok_facts]:
  "decl_ok TpmSetAlgorithmSetCommand" "decl_ok TpmSetAlgorithmSetResponse"
  by (simp_all add:
      TpmSetAlgorithmSetCommand_def TpmSetAlgorithmSetResponse_def decl_ok_def wire_field_codec
      TpmUint32_ok)

end
