(* ===== verification/Frame_Decl_B.thy ===== *)
theory Frame_Decl_B
  imports Frame_Decl_A
begin

text \<open>
  Command and response bodies of \<open>protocol/src/frame/data.rs\<close>, in the order of the dispatch table:
  from \<open>SetCommandCodeAuditStatus\<close> to \<open>ContextLoad\<close>.
\<close>

definition TpmSetCommandCodeAuditStatusCommand :: frame_decl where [decl_defs]:
  "TpmSetCommandCodeAuditStatusCommand = Command Cc_SetCommandCodeAuditStatus 1 [
     (''audit_alg'', TpmiAlgHash), (''set_list'', TpmlCc), (''clear_list'', TpmlCc)]"

definition TpmSetCommandCodeAuditStatusResponse :: frame_decl where [decl_defs]:
  "TpmSetCommandCodeAuditStatusResponse = Response Cc_SetCommandCodeAuditStatus 0 []"

lemma SetCommandCodeAuditStatus_ok [decl_ok_facts]:
  "decl_ok TpmSetCommandCodeAuditStatusCommand" "decl_ok TpmSetCommandCodeAuditStatusResponse"
  by (simp_all add:
      TpmSetCommandCodeAuditStatusCommand_def TpmSetCommandCodeAuditStatusResponse_def
      decl_ok_def wire_field_codec TpmiAlgHash_ok TpmlCc_ok)

definition TpmFieldUpgradeDataCommand :: frame_decl where [decl_defs]:
  "TpmFieldUpgradeDataCommand = Command Cc_FieldUpgradeData 0 [
     (''fu_data'', Tpm2bMaxBuffer)]"

definition TpmFieldUpgradeDataResponse :: frame_decl where [decl_defs]:
  "TpmFieldUpgradeDataResponse = Response Cc_FieldUpgradeData 0 [
     (''next_digest'', TpmtHa), (''first_digest'', TpmtHa)]"

lemma FieldUpgradeData_ok [decl_ok_facts]:
  "decl_ok TpmFieldUpgradeDataCommand" "decl_ok TpmFieldUpgradeDataResponse"
  by (simp_all add:
      TpmFieldUpgradeDataCommand_def TpmFieldUpgradeDataResponse_def decl_ok_def
      wire_field_codec Tpm2bMaxBuffer_ok TpmtHa_ok)

definition TpmIncrementalSelfTestCommand :: frame_decl where [decl_defs]:
  "TpmIncrementalSelfTestCommand = Command Cc_IncrementalSelfTest 0 [
     (''to_test'', TpmlAlg)]"

definition TpmIncrementalSelfTestResponse :: frame_decl where [decl_defs]:
  "TpmIncrementalSelfTestResponse = Response Cc_IncrementalSelfTest 0 [
     (''to_do_list'', TpmlAlg)]"

lemma IncrementalSelfTest_ok [decl_ok_facts]:
  "decl_ok TpmIncrementalSelfTestCommand" "decl_ok TpmIncrementalSelfTestResponse"
  by (simp_all add:
      TpmIncrementalSelfTestCommand_def TpmIncrementalSelfTestResponse_def decl_ok_def
      wire_field_codec TpmlAlg_ok)

definition TpmSelfTestCommand :: frame_decl where [decl_defs]:
  "TpmSelfTestCommand = Command Cc_SelfTest 0 [
     (''full_test'', TpmiYesNo)]"

definition TpmSelfTestResponse :: frame_decl where [decl_defs]:
  "TpmSelfTestResponse = Response Cc_SelfTest 0 []"

lemma SelfTest_ok [decl_ok_facts]:
  "decl_ok TpmSelfTestCommand" "decl_ok TpmSelfTestResponse"
  by (simp_all add:
      TpmSelfTestCommand_def TpmSelfTestResponse_def decl_ok_def wire_field_codec TpmiYesNo_ok)

definition TpmStartupCommand :: frame_decl where [decl_defs]:
  "TpmStartupCommand = Command Cc_Startup 0 [
     (''startup_type'', TpmSu_codec)]"

definition TpmStartupResponse :: frame_decl where [decl_defs]:
  "TpmStartupResponse = Response Cc_Startup 0 []"

lemma Startup_ok [decl_ok_facts]:
  "decl_ok TpmStartupCommand" "decl_ok TpmStartupResponse"
  by (simp_all add:
      TpmStartupCommand_def TpmStartupResponse_def decl_ok_def wire_field_codec TpmSu_codec_ok)

definition TpmShutdownCommand :: frame_decl where [decl_defs]:
  "TpmShutdownCommand = Command Cc_Shutdown 0 [
     (''shutdown_type'', TpmSu_codec)]"

definition TpmShutdownResponse :: frame_decl where [decl_defs]:
  "TpmShutdownResponse = Response Cc_Shutdown 0 []"

lemma Shutdown_ok [decl_ok_facts]:
  "decl_ok TpmShutdownCommand" "decl_ok TpmShutdownResponse"
  by (simp_all add:
      TpmShutdownCommand_def TpmShutdownResponse_def decl_ok_def wire_field_codec
      TpmSu_codec_ok)

definition TpmStirRandomCommand :: frame_decl where [decl_defs]:
  "TpmStirRandomCommand = Command Cc_StirRandom 0 [
     (''in_data'', Tpm2bSensitiveData)]"

definition TpmStirRandomResponse :: frame_decl where [decl_defs]:
  "TpmStirRandomResponse = Response Cc_StirRandom 0 []"

lemma StirRandom_ok [decl_ok_facts]:
  "decl_ok TpmStirRandomCommand" "decl_ok TpmStirRandomResponse"
  by (simp_all add:
      TpmStirRandomCommand_def TpmStirRandomResponse_def decl_ok_def wire_field_codec
      Tpm2bSensitiveData_ok)

definition TpmActivateCredentialCommand :: frame_decl where [decl_defs]:
  "TpmActivateCredentialCommand = Command Cc_ActivateCredential 2 [
     (''credential_blob'', Tpm2bIdObject), (''secret'', Tpm2bEncryptedSecret)]"

definition TpmActivateCredentialResponse :: frame_decl where [decl_defs]:
  "TpmActivateCredentialResponse = Response Cc_ActivateCredential 0 [
     (''cert_info'', Tpm2bDigest)]"

lemma ActivateCredential_ok [decl_ok_facts]:
  "decl_ok TpmActivateCredentialCommand" "decl_ok TpmActivateCredentialResponse"
  by (simp_all add:
      TpmActivateCredentialCommand_def TpmActivateCredentialResponse_def decl_ok_def
      wire_field_codec Tpm2bDigest_ok Tpm2bEncryptedSecret_ok Tpm2bIdObject_ok)

definition TpmCertifyCommand :: frame_decl where [decl_defs]:
  "TpmCertifyCommand = Command Cc_Certify 2 [
     (''qualifying_data'', Tpm2bData), (''in_scheme'', TpmtSigScheme)]"

definition TpmCertifyResponse :: frame_decl where [decl_defs]:
  "TpmCertifyResponse = Response Cc_Certify 0 [
     (''certify_info'', Tpm2bAttest), (''signature'', TpmtSignature)]"

lemma Certify_ok [decl_ok_facts]:
  "decl_ok TpmCertifyCommand" "decl_ok TpmCertifyResponse"
  by (simp_all add:
      TpmCertifyCommand_def TpmCertifyResponse_def decl_ok_def wire_field_codec Tpm2bAttest_ok
      Tpm2bData_ok TpmtSigScheme_ok TpmtSignature_ok)

definition TpmPolicyNvCommand :: frame_decl where [decl_defs]:
  "TpmPolicyNvCommand = Command Cc_PolicyNv 3 [
     (''operand_b'', Tpm2bMaxBuffer), (''offset'', TpmUint16), (''operation'', TpmEo_codec)]"

definition TpmPolicyNvResponse :: frame_decl where [decl_defs]:
  "TpmPolicyNvResponse = Response Cc_PolicyNv 0 []"

lemma PolicyNv_ok [decl_ok_facts]:
  "decl_ok TpmPolicyNvCommand" "decl_ok TpmPolicyNvResponse"
  by (simp_all add:
      TpmPolicyNvCommand_def TpmPolicyNvResponse_def decl_ok_def wire_field_codec
      Tpm2bMaxBuffer_ok TpmEo_codec_ok TpmUint16_ok)

definition TpmCertifyCreationCommand :: frame_decl where [decl_defs]:
  "TpmCertifyCreationCommand = Command Cc_CertifyCreation 2 [
     (''qualifying_data'', Tpm2bData), (''creation_hash'', Tpm2bDigest),
     (''in_scheme'', TpmtSigScheme), (''creation_ticket'', TpmtTkCreation)]"

definition TpmCertifyCreationResponse :: frame_decl where [decl_defs]:
  "TpmCertifyCreationResponse = Response Cc_CertifyCreation 0 [
     (''certify_info'', Tpm2bAttest), (''signature'', TpmtSignature)]"

lemma CertifyCreation_ok [decl_ok_facts]:
  "decl_ok TpmCertifyCreationCommand" "decl_ok TpmCertifyCreationResponse"
  by (simp_all add:
      TpmCertifyCreationCommand_def TpmCertifyCreationResponse_def decl_ok_def wire_field_codec
      Tpm2bAttest_ok Tpm2bData_ok Tpm2bDigest_ok TpmtSigScheme_ok TpmtSignature_ok
      TpmtTkCreation_ok)

definition TpmDuplicateCommand :: frame_decl where [decl_defs]:
  "TpmDuplicateCommand = Command Cc_Duplicate 2 [
     (''encryption_key_in'', Tpm2bData), (''symmetric_alg'', TpmtSymDefObject)]"

definition TpmDuplicateResponse :: frame_decl where [decl_defs]:
  "TpmDuplicateResponse = Response Cc_Duplicate 0 [
     (''encryption_key_out'', Tpm2bData), (''duplicate'', Tpm2bPrivate),
     (''out_sym_seed'', Tpm2bEncryptedSecret)]"

lemma Duplicate_ok [decl_ok_facts]:
  "decl_ok TpmDuplicateCommand" "decl_ok TpmDuplicateResponse"
  by (simp_all add:
      TpmDuplicateCommand_def TpmDuplicateResponse_def decl_ok_def wire_field_codec
      Tpm2bData_ok Tpm2bEncryptedSecret_ok Tpm2bPrivate_ok TpmtSymDefObject_ok)

definition TpmGetTimeCommand :: frame_decl where [decl_defs]:
  "TpmGetTimeCommand = Command Cc_GetTime 2 [
     (''qualifying_data'', Tpm2bData), (''in_scheme'', TpmtSigScheme)]"

definition TpmGetTimeResponse :: frame_decl where [decl_defs]:
  "TpmGetTimeResponse = Response Cc_GetTime 0 [
     (''time_info'', Tpm2bAttest), (''signature'', TpmtSignature)]"

lemma GetTime_ok [decl_ok_facts]:
  "decl_ok TpmGetTimeCommand" "decl_ok TpmGetTimeResponse"
  by (simp_all add:
      TpmGetTimeCommand_def TpmGetTimeResponse_def decl_ok_def wire_field_codec Tpm2bAttest_ok
      Tpm2bData_ok TpmtSigScheme_ok TpmtSignature_ok)

definition TpmGetSessionAuditDigestCommand :: frame_decl where [decl_defs]:
  "TpmGetSessionAuditDigestCommand = Command Cc_GetSessionAuditDigest 3 [
     (''qualifying_data'', Tpm2bData), (''in_scheme'', TpmtSigScheme)]"

definition TpmGetSessionAuditDigestResponse :: frame_decl where [decl_defs]:
  "TpmGetSessionAuditDigestResponse = Response Cc_GetSessionAuditDigest 0 [
     (''audit_info'', Tpm2bAttest), (''signature'', TpmtSignature)]"

lemma GetSessionAuditDigest_ok [decl_ok_facts]:
  "decl_ok TpmGetSessionAuditDigestCommand" "decl_ok TpmGetSessionAuditDigestResponse"
  by (simp_all add:
      TpmGetSessionAuditDigestCommand_def TpmGetSessionAuditDigestResponse_def decl_ok_def
      wire_field_codec Tpm2bAttest_ok Tpm2bData_ok TpmtSigScheme_ok TpmtSignature_ok)

definition TpmNvReadCommand :: frame_decl where [decl_defs]:
  "TpmNvReadCommand = Command Cc_NvRead 2 [
     (''size'', TpmUint16), (''offset'', TpmUint16)]"

definition TpmNvReadResponse :: frame_decl where [decl_defs]:
  "TpmNvReadResponse = Response Cc_NvRead 0 [
     (''data'', Tpm2bMaxNvBuffer)]"

lemma NvRead_ok [decl_ok_facts]:
  "decl_ok TpmNvReadCommand" "decl_ok TpmNvReadResponse"
  by (simp_all add:
      TpmNvReadCommand_def TpmNvReadResponse_def decl_ok_def wire_field_codec
      Tpm2bMaxNvBuffer_ok TpmUint16_ok)

definition TpmNvReadLockCommand :: frame_decl where [decl_defs]:
  "TpmNvReadLockCommand = Command Cc_NvReadLock 2 []"

definition TpmNvReadLockResponse :: frame_decl where [decl_defs]:
  "TpmNvReadLockResponse = Response Cc_NvReadLock 0 []"

lemma NvReadLock_ok [decl_ok_facts]:
  "decl_ok TpmNvReadLockCommand" "decl_ok TpmNvReadLockResponse"
  by (simp_all add:
      TpmNvReadLockCommand_def TpmNvReadLockResponse_def decl_ok_def)

definition TpmObjectChangeAuthCommand :: frame_decl where [decl_defs]:
  "TpmObjectChangeAuthCommand = Command Cc_ObjectChangeAuth 2 [
     (''new_auth'', Tpm2bAuth)]"

definition TpmObjectChangeAuthResponse :: frame_decl where [decl_defs]:
  "TpmObjectChangeAuthResponse = Response Cc_ObjectChangeAuth 0 [
     (''out_private'', Tpm2bPrivate)]"

lemma ObjectChangeAuth_ok [decl_ok_facts]:
  "decl_ok TpmObjectChangeAuthCommand" "decl_ok TpmObjectChangeAuthResponse"
  by (simp_all add:
      TpmObjectChangeAuthCommand_def TpmObjectChangeAuthResponse_def decl_ok_def
      wire_field_codec Tpm2bAuth_ok Tpm2bPrivate_ok)

definition TpmPolicySecretCommand :: frame_decl where [decl_defs]:
  "TpmPolicySecretCommand = Command Cc_PolicySecret 2 [
     (''nonce_tpm'', Tpm2bNonce), (''cp_hash_a'', Tpm2bDigest), (''policy_ref'', Tpm2bNonce),
     (''expiration'', TpmInt32)]"

definition TpmPolicySecretResponse :: frame_decl where [decl_defs]:
  "TpmPolicySecretResponse = Response Cc_PolicySecret 0 [
     (''timeout'', Tpm2bTimeout), (''policy_ticket'', TpmtTkAuth)]"

lemma PolicySecret_ok [decl_ok_facts]:
  "decl_ok TpmPolicySecretCommand" "decl_ok TpmPolicySecretResponse"
  by (simp_all add:
      TpmPolicySecretCommand_def TpmPolicySecretResponse_def decl_ok_def wire_field_codec
      Tpm2bDigest_ok Tpm2bNonce_ok Tpm2bTimeout_ok int_ok(6) TpmtTkAuth_ok)

definition TpmRewrapCommand :: frame_decl where [decl_defs]:
  "TpmRewrapCommand = Command Cc_Rewrap 2 [
     (''in_duplicate'', Tpm2bPrivate), (''name'', Tpm2bName),
     (''in_sym_seed'', Tpm2bEncryptedSecret)]"

definition TpmRewrapResponse :: frame_decl where [decl_defs]:
  "TpmRewrapResponse = Response Cc_Rewrap 0 [
     (''out_duplicate'', Tpm2bPrivate), (''out_sym_seed'', Tpm2bEncryptedSecret)]"

lemma Rewrap_ok [decl_ok_facts]:
  "decl_ok TpmRewrapCommand" "decl_ok TpmRewrapResponse"
  by (simp_all add:
      TpmRewrapCommand_def TpmRewrapResponse_def decl_ok_def wire_field_codec
      Tpm2bEncryptedSecret_ok Tpm2bName_ok Tpm2bPrivate_ok)

definition TpmCreateCommand :: frame_decl where [decl_defs]:
  "TpmCreateCommand = Command Cc_Create 1 [
     (''in_sensitive'', Tpm2bSensitiveCreate), (''in_public'', Tpm2bPublic),
     (''outside_info'', Tpm2bData), (''creation_pcr'', TpmlPcrSelection)]"

definition TpmCreateResponse :: frame_decl where [decl_defs]:
  "TpmCreateResponse = Response Cc_Create 0 [
     (''out_private'', Tpm2bPrivate), (''out_public'', Tpm2bPublic),
     (''creation_data'', Tpm2bCreationData), (''creation_hash'', Tpm2bDigest),
     (''creation_ticket'', TpmtTkCreation)]"

lemma Create_ok [decl_ok_facts]:
  "decl_ok TpmCreateCommand" "decl_ok TpmCreateResponse"
  by (simp_all add:
      TpmCreateCommand_def TpmCreateResponse_def decl_ok_def wire_field_codec
      Tpm2bCreationData_ok Tpm2bData_ok Tpm2bDigest_ok Tpm2bPrivate_ok Tpm2bPublic_ok
      Tpm2bSensitiveCreate_ok TpmlPcrSelection_ok TpmtTkCreation_ok)

definition TpmEcdhZGenCommand :: frame_decl where [decl_defs]:
  "TpmEcdhZGenCommand = Command Cc_EcdhZGen 1 [
     (''in_point'', Tpm2bEccPoint)]"

definition TpmEcdhZGenResponse :: frame_decl where [decl_defs]:
  "TpmEcdhZGenResponse = Response Cc_EcdhZGen 0 [
     (''out_point'', Tpm2bEccPoint)]"

lemma EcdhZGen_ok [decl_ok_facts]:
  "decl_ok TpmEcdhZGenCommand" "decl_ok TpmEcdhZGenResponse"
  by (simp_all add:
      TpmEcdhZGenCommand_def TpmEcdhZGenResponse_def decl_ok_def wire_field_codec
      Tpm2bEccPoint_ok)

definition TpmHmacCommand :: frame_decl where [decl_defs]:
  "TpmHmacCommand = Command Cc_Hmac 1 [
     (''buffer'', Tpm2bMaxBuffer), (''hash_alg'', TpmiAlgHash)]"

definition TpmHmacResponse :: frame_decl where [decl_defs]:
  "TpmHmacResponse = Response Cc_Hmac 0 [
     (''out_hmac'', Tpm2bDigest)]"

lemma Hmac_ok [decl_ok_facts]:
  "decl_ok TpmHmacCommand" "decl_ok TpmHmacResponse"
  by (simp_all add:
      TpmHmacCommand_def TpmHmacResponse_def decl_ok_def wire_field_codec Tpm2bDigest_ok
      Tpm2bMaxBuffer_ok TpmiAlgHash_ok)

definition TpmImportCommand :: frame_decl where [decl_defs]:
  "TpmImportCommand = Command Cc_Import 1 [
     (''encryption_key'', Tpm2bData), (''object_public'', Tpm2bPublic),
     (''duplicate'', Tpm2bPrivate), (''in_sym_seed'', Tpm2bEncryptedSecret),
     (''symmetric_alg'', TpmtSymDef)]"

definition TpmImportResponse :: frame_decl where [decl_defs]:
  "TpmImportResponse = Response Cc_Import 0 [
     (''out_private'', Tpm2bPrivate)]"

lemma Import_ok [decl_ok_facts]:
  "decl_ok TpmImportCommand" "decl_ok TpmImportResponse"
  by (simp_all add:
      TpmImportCommand_def TpmImportResponse_def decl_ok_def wire_field_codec Tpm2bData_ok
      Tpm2bEncryptedSecret_ok Tpm2bPrivate_ok Tpm2bPublic_ok TpmtSymDef_ok)

definition TpmLoadCommand :: frame_decl where [decl_defs]:
  "TpmLoadCommand = Command Cc_Load 1 [
     (''in_private'', Tpm2bPrivate), (''in_public'', Tpm2bPublic)]"

definition TpmLoadResponse :: frame_decl where [decl_defs]:
  "TpmLoadResponse = Response Cc_Load 1 [
     (''name'', Tpm2bName)]"

lemma Load_ok [decl_ok_facts]:
  "decl_ok TpmLoadCommand" "decl_ok TpmLoadResponse"
  by (simp_all add:
      TpmLoadCommand_def TpmLoadResponse_def decl_ok_def wire_field_codec Tpm2bName_ok
      Tpm2bPrivate_ok Tpm2bPublic_ok)

definition TpmQuoteCommand :: frame_decl where [decl_defs]:
  "TpmQuoteCommand = Command Cc_Quote 1 [
     (''qualifying_data'', Tpm2bData), (''in_scheme'', TpmtSigScheme),
     (''pcr_select'', TpmlPcrSelection)]"

definition TpmQuoteResponse :: frame_decl where [decl_defs]:
  "TpmQuoteResponse = Response Cc_Quote 0 [
     (''quoted'', Tpm2bAttest), (''signature'', TpmtSignature)]"

lemma Quote_ok [decl_ok_facts]:
  "decl_ok TpmQuoteCommand" "decl_ok TpmQuoteResponse"
  by (simp_all add:
      TpmQuoteCommand_def TpmQuoteResponse_def decl_ok_def wire_field_codec Tpm2bAttest_ok
      Tpm2bData_ok TpmlPcrSelection_ok TpmtSigScheme_ok TpmtSignature_ok)

definition TpmRsaDecryptCommand :: frame_decl where [decl_defs]:
  "TpmRsaDecryptCommand = Command Cc_RsaDecrypt 1 [
     (''cipher_text'', Tpm2bPublicKeyRsa), (''in_scheme'', TpmtRsaDecrypt),
     (''label'', Tpm2bData)]"

definition TpmRsaDecryptResponse :: frame_decl where [decl_defs]:
  "TpmRsaDecryptResponse = Response Cc_RsaDecrypt 0 [
     (''message'', Tpm2bPublicKeyRsa)]"

lemma RsaDecrypt_ok [decl_ok_facts]:
  "decl_ok TpmRsaDecryptCommand" "decl_ok TpmRsaDecryptResponse"
  by (simp_all add:
      TpmRsaDecryptCommand_def TpmRsaDecryptResponse_def decl_ok_def wire_field_codec
      Tpm2bData_ok Tpm2bPublicKeyRsa_ok TpmtRsaDecrypt_ok)

definition TpmHmacStartCommand :: frame_decl where [decl_defs]:
  "TpmHmacStartCommand = Command Cc_HmacStart 1 [
     (''auth'', Tpm2bAuth), (''hash_alg'', TpmAlgId_codec)]"

definition TpmHmacStartResponse :: frame_decl where [decl_defs]:
  "TpmHmacStartResponse = Response Cc_HmacStart 1 []"

lemma HmacStart_ok [decl_ok_facts]:
  "decl_ok TpmHmacStartCommand" "decl_ok TpmHmacStartResponse"
  by (simp_all add:
      TpmHmacStartCommand_def TpmHmacStartResponse_def decl_ok_def wire_field_codec
      Tpm2bAuth_ok TpmAlgId_codec_ok)

definition TpmSequenceUpdateCommand :: frame_decl where [decl_defs]:
  "TpmSequenceUpdateCommand = Command Cc_SequenceUpdate 1 [
     (''buffer'', Tpm2bMaxBuffer)]"

definition TpmSequenceUpdateResponse :: frame_decl where [decl_defs]:
  "TpmSequenceUpdateResponse = Response Cc_SequenceUpdate 0 []"

lemma SequenceUpdate_ok [decl_ok_facts]:
  "decl_ok TpmSequenceUpdateCommand" "decl_ok TpmSequenceUpdateResponse"
  by (simp_all add:
      TpmSequenceUpdateCommand_def TpmSequenceUpdateResponse_def decl_ok_def wire_field_codec
      Tpm2bMaxBuffer_ok)

definition TpmSignCommand :: frame_decl where [decl_defs]:
  "TpmSignCommand = Command Cc_Sign 1 [
     (''digest'', Tpm2bDigest), (''in_scheme'', TpmtSigScheme),
     (''validation'', TpmtTkHashcheck)]"

definition TpmSignResponse :: frame_decl where [decl_defs]:
  "TpmSignResponse = Response Cc_Sign 0 [
     (''signature'', TpmtSignature)]"

lemma Sign_ok [decl_ok_facts]:
  "decl_ok TpmSignCommand" "decl_ok TpmSignResponse"
  by (simp_all add:
      TpmSignCommand_def TpmSignResponse_def decl_ok_def wire_field_codec Tpm2bDigest_ok
      TpmtSigScheme_ok TpmtSignature_ok TpmtTkHashcheck_ok)

definition TpmUnsealCommand :: frame_decl where [decl_defs]:
  "TpmUnsealCommand = Command Cc_Unseal 1 []"

definition TpmUnsealResponse :: frame_decl where [decl_defs]:
  "TpmUnsealResponse = Response Cc_Unseal 0 [
     (''out_data'', Tpm2bSensitiveData)]"

lemma Unseal_ok [decl_ok_facts]:
  "decl_ok TpmUnsealCommand" "decl_ok TpmUnsealResponse"
  by (simp_all add:
      TpmUnsealCommand_def TpmUnsealResponse_def decl_ok_def wire_field_codec
      Tpm2bSensitiveData_ok)

definition TpmPolicySignedCommand :: frame_decl where [decl_defs]:
  "TpmPolicySignedCommand = Command Cc_PolicySigned 2 [
     (''nonce_tpm'', Tpm2bNonce), (''cp_hash_a'', Tpm2bDigest), (''policy_ref'', Tpm2bNonce),
     (''expiration'', TpmInt32), (''auth'', TpmtSignature)]"

definition TpmPolicySignedResponse :: frame_decl where [decl_defs]:
  "TpmPolicySignedResponse = Response Cc_PolicySigned 0 [
     (''timeout'', Tpm2bTimeout), (''policy_ticket'', TpmtTkAuth)]"

lemma PolicySigned_ok [decl_ok_facts]:
  "decl_ok TpmPolicySignedCommand" "decl_ok TpmPolicySignedResponse"
  by (simp_all add:
      TpmPolicySignedCommand_def TpmPolicySignedResponse_def decl_ok_def wire_field_codec
      Tpm2bDigest_ok Tpm2bNonce_ok Tpm2bTimeout_ok int_ok(6) TpmtSignature_ok TpmtTkAuth_ok)

definition TpmContextLoadCommand :: frame_decl where [decl_defs]:
  "TpmContextLoadCommand = Command Cc_ContextLoad 0 [
     (''context'', TpmsContext)]"

definition TpmContextLoadResponse :: frame_decl where [decl_defs]:
  "TpmContextLoadResponse = Response Cc_ContextLoad 1 []"

lemma ContextLoad_ok [decl_ok_facts]:
  "decl_ok TpmContextLoadCommand" "decl_ok TpmContextLoadResponse"
  by (simp_all add:
      TpmContextLoadCommand_def TpmContextLoadResponse_def decl_ok_def wire_field_codec
      TpmsContext_ok)

end
