(* ===== verification/Frame_Decl_C.thy ===== *)
theory Frame_Decl_C
  imports Frame_Decl_A
begin

text \<open>
  Command and response bodies of \<open>protocol/src/frame/data.rs\<close>, in the order of the dispatch table:
  from \<open>ContextSave\<close> to \<open>PcrSetAuthValue\<close>.
\<close>

definition TpmContextSaveCommand :: frame_decl where [decl_defs]:
  "TpmContextSaveCommand = Command Cc_ContextSave 1 []"

definition TpmContextSaveResponse :: frame_decl where [decl_defs]:
  "TpmContextSaveResponse = Response Cc_ContextSave 0 [
     (''context'', TpmsContext)]"

lemma ContextSave_ok [decl_ok_facts]:
  "decl_ok TpmContextSaveCommand" "decl_ok TpmContextSaveResponse"
  by (simp_all add:
      TpmContextSaveCommand_def TpmContextSaveResponse_def decl_ok_def wire_field_codec
      TpmsContext_ok)

definition TpmEcdhKeyGenCommand :: frame_decl where [decl_defs]:
  "TpmEcdhKeyGenCommand = Command Cc_EcdhKeyGen 1 []"

definition TpmEcdhKeyGenResponse :: frame_decl where [decl_defs]:
  "TpmEcdhKeyGenResponse = Response Cc_EcdhKeyGen 0 [
     (''z_point'', Tpm2bEccPoint), (''pub_point'', Tpm2bEccPoint)]"

lemma EcdhKeyGen_ok [decl_ok_facts]:
  "decl_ok TpmEcdhKeyGenCommand" "decl_ok TpmEcdhKeyGenResponse"
  by (simp_all add:
      TpmEcdhKeyGenCommand_def TpmEcdhKeyGenResponse_def decl_ok_def wire_field_codec
      Tpm2bEccPoint_ok)

definition TpmEncryptDecryptCommand :: frame_decl where [decl_defs]:
  "TpmEncryptDecryptCommand = Command Cc_EncryptDecrypt 1 [
     (''decrypt'', TpmiYesNo), (''mode'', TpmiAlgCipherMode), (''iv_in'', Tpm2bIv),
     (''in_data'', Tpm2bMaxBuffer)]"

definition TpmEncryptDecryptResponse :: frame_decl where [decl_defs]:
  "TpmEncryptDecryptResponse = Response Cc_EncryptDecrypt 0 [
     (''out_data'', Tpm2bMaxBuffer), (''iv_out'', Tpm2bIv)]"

lemma EncryptDecrypt_ok [decl_ok_facts]:
  "decl_ok TpmEncryptDecryptCommand" "decl_ok TpmEncryptDecryptResponse"
  by (simp_all add:
      TpmEncryptDecryptCommand_def TpmEncryptDecryptResponse_def decl_ok_def wire_field_codec
      Tpm2bIv_ok Tpm2bMaxBuffer_ok TpmiAlgCipherMode_ok TpmiYesNo_ok)

definition TpmFlushContextCommand :: frame_decl where [decl_defs]:
  "TpmFlushContextCommand = Command Cc_FlushContext 0 [
     (''flush_handle'', TpmHandle)]"

definition TpmFlushContextResponse :: frame_decl where [decl_defs]:
  "TpmFlushContextResponse = Response Cc_FlushContext 0 []"

lemma FlushContext_ok [decl_ok_facts]:
  "decl_ok TpmFlushContextCommand" "decl_ok TpmFlushContextResponse"
  by (simp_all add:
      TpmFlushContextCommand_def TpmFlushContextResponse_def decl_ok_def wire_field_codec
      TpmHandle_ok)

definition TpmLoadExternalCommand :: frame_decl where [decl_defs]:
  "TpmLoadExternalCommand = Command Cc_LoadExternal 0 [
     (''in_private'', Tpm2bSensitive), (''in_public'', Tpm2bPublic),
     (''hierarchy'', TpmRh_codec)]"

definition TpmLoadExternalResponse :: frame_decl where [decl_defs]:
  "TpmLoadExternalResponse = Response Cc_LoadExternal 1 [
     (''name'', Tpm2bName)]"

lemma LoadExternal_ok [decl_ok_facts]:
  "decl_ok TpmLoadExternalCommand" "decl_ok TpmLoadExternalResponse"
  by (simp_all add:
      TpmLoadExternalCommand_def TpmLoadExternalResponse_def decl_ok_def wire_field_codec
      Tpm2bName_ok Tpm2bPublic_ok Tpm2bSensitive_codec_ok TpmRh_codec_ok)

definition TpmMakeCredentialCommand :: frame_decl where [decl_defs]:
  "TpmMakeCredentialCommand = Command Cc_MakeCredential 1 [
     (''credential'', Tpm2bDigest), (''object_name'', Tpm2bName)]"

definition TpmMakeCredentialResponse :: frame_decl where [decl_defs]:
  "TpmMakeCredentialResponse = Response Cc_MakeCredential 0 [
     (''credential_blob'', Tpm2bIdObject), (''secret'', Tpm2bEncryptedSecret)]"

lemma MakeCredential_ok [decl_ok_facts]:
  "decl_ok TpmMakeCredentialCommand" "decl_ok TpmMakeCredentialResponse"
  by (simp_all add:
      TpmMakeCredentialCommand_def TpmMakeCredentialResponse_def decl_ok_def wire_field_codec
      Tpm2bDigest_ok Tpm2bEncryptedSecret_ok Tpm2bIdObject_ok Tpm2bName_ok)

definition TpmNvReadPublicCommand :: frame_decl where [decl_defs]:
  "TpmNvReadPublicCommand = Command Cc_NvReadPublic 1 []"

definition TpmNvReadPublicResponse :: frame_decl where [decl_defs]:
  "TpmNvReadPublicResponse = Response Cc_NvReadPublic 0 [
     (''nv_public'', Tpm2bNvPublic), (''nv_name'', Tpm2bName)]"

lemma NvReadPublic_ok [decl_ok_facts]:
  "decl_ok TpmNvReadPublicCommand" "decl_ok TpmNvReadPublicResponse"
  by (simp_all add:
      TpmNvReadPublicCommand_def TpmNvReadPublicResponse_def decl_ok_def wire_field_codec
      Tpm2bName_ok Tpm2bNvPublic_ok)

definition TpmPolicyAuthorizeCommand :: frame_decl where [decl_defs]:
  "TpmPolicyAuthorizeCommand = Command Cc_PolicyAuthorize 1 [
     (''approved_policy'', Tpm2bDigest), (''policy_ref'', Tpm2bNonce),
     (''key_sign'', Tpm2bName), (''check_ticket'', TpmtTkVerified)]"

definition TpmPolicyAuthorizeResponse :: frame_decl where [decl_defs]:
  "TpmPolicyAuthorizeResponse = Response Cc_PolicyAuthorize 0 []"

lemma PolicyAuthorize_ok [decl_ok_facts]:
  "decl_ok TpmPolicyAuthorizeCommand" "decl_ok TpmPolicyAuthorizeResponse"
  by (simp_all add:
      TpmPolicyAuthorizeCommand_def TpmPolicyAuthorizeResponse_def decl_ok_def wire_field_codec
      Tpm2bDigest_ok Tpm2bName_ok Tpm2bNonce_ok TpmtTkVerified_ok)

definition TpmPolicyAuthValueCommand :: frame_decl where [decl_defs]:
  "TpmPolicyAuthValueCommand = Command Cc_PolicyAuthValue 1 []"

definition TpmPolicyAuthValueResponse :: frame_decl where [decl_defs]:
  "TpmPolicyAuthValueResponse = Response Cc_PolicyAuthValue 0 []"

lemma PolicyAuthValue_ok [decl_ok_facts]:
  "decl_ok TpmPolicyAuthValueCommand" "decl_ok TpmPolicyAuthValueResponse"
  by (simp_all add:
      TpmPolicyAuthValueCommand_def TpmPolicyAuthValueResponse_def decl_ok_def)

definition TpmPolicyCommandCodeCommand :: frame_decl where [decl_defs]:
  "TpmPolicyCommandCodeCommand = Command Cc_PolicyCommandCode 1 [
     (''code'', TpmCc_codec)]"

definition TpmPolicyCommandCodeResponse :: frame_decl where [decl_defs]:
  "TpmPolicyCommandCodeResponse = Response Cc_PolicyCommandCode 0 []"

lemma PolicyCommandCode_ok [decl_ok_facts]:
  "decl_ok TpmPolicyCommandCodeCommand" "decl_ok TpmPolicyCommandCodeResponse"
  by (simp_all add:
      TpmPolicyCommandCodeCommand_def TpmPolicyCommandCodeResponse_def decl_ok_def
      wire_field_codec TpmCc_codec_ok)

definition TpmPolicyCounterTimerCommand :: frame_decl where [decl_defs]:
  "TpmPolicyCounterTimerCommand = Command Cc_PolicyCounterTimer 1 [
     (''operand_b'', Tpm2bMaxBuffer), (''offset'', TpmUint16), (''operation'', TpmEo_codec)]"

definition TpmPolicyCounterTimerResponse :: frame_decl where [decl_defs]:
  "TpmPolicyCounterTimerResponse = Response Cc_PolicyCounterTimer 0 []"

lemma PolicyCounterTimer_ok [decl_ok_facts]:
  "decl_ok TpmPolicyCounterTimerCommand" "decl_ok TpmPolicyCounterTimerResponse"
  by (simp_all add:
      TpmPolicyCounterTimerCommand_def TpmPolicyCounterTimerResponse_def decl_ok_def
      wire_field_codec Tpm2bMaxBuffer_ok TpmEo_codec_ok TpmUint16_ok)

definition TpmPolicyCpHashCommand :: frame_decl where [decl_defs]:
  "TpmPolicyCpHashCommand = Command Cc_PolicyCpHash 1 [
     (''cp_hash_a'', Tpm2bDigest)]"

definition TpmPolicyCpHashResponse :: frame_decl where [decl_defs]:
  "TpmPolicyCpHashResponse = Response Cc_PolicyCpHash 0 []"

lemma PolicyCpHash_ok [decl_ok_facts]:
  "decl_ok TpmPolicyCpHashCommand" "decl_ok TpmPolicyCpHashResponse"
  by (simp_all add:
      TpmPolicyCpHashCommand_def TpmPolicyCpHashResponse_def decl_ok_def wire_field_codec
      Tpm2bDigest_ok)

definition TpmPolicyLocalityCommand :: frame_decl where [decl_defs]:
  "TpmPolicyLocalityCommand = Command Cc_PolicyLocality 1 [
     (''locality'', TpmaLocality)]"

definition TpmPolicyLocalityResponse :: frame_decl where [decl_defs]:
  "TpmPolicyLocalityResponse = Response Cc_PolicyLocality 0 []"

lemma PolicyLocality_ok [decl_ok_facts]:
  "decl_ok TpmPolicyLocalityCommand" "decl_ok TpmPolicyLocalityResponse"
  by (simp_all add:
      TpmPolicyLocalityCommand_def TpmPolicyLocalityResponse_def decl_ok_def wire_field_codec
      TpmaLocality_ok)

definition TpmPolicyNameHashCommand :: frame_decl where [decl_defs]:
  "TpmPolicyNameHashCommand = Command Cc_PolicyNameHash 1 [
     (''name_hash'', Tpm2bDigest)]"

definition TpmPolicyNameHashResponse :: frame_decl where [decl_defs]:
  "TpmPolicyNameHashResponse = Response Cc_PolicyNameHash 0 []"

lemma PolicyNameHash_ok [decl_ok_facts]:
  "decl_ok TpmPolicyNameHashCommand" "decl_ok TpmPolicyNameHashResponse"
  by (simp_all add:
      TpmPolicyNameHashCommand_def TpmPolicyNameHashResponse_def decl_ok_def wire_field_codec
      Tpm2bDigest_ok)

definition TpmPolicyOrCommand :: frame_decl where [decl_defs]:
  "TpmPolicyOrCommand = Command Cc_PolicyOr 1 [
     (''p_hash_list'', TpmlDigest)]"

definition TpmPolicyOrResponse :: frame_decl where [decl_defs]:
  "TpmPolicyOrResponse = Response Cc_PolicyOr 0 []"

lemma PolicyOr_ok [decl_ok_facts]:
  "decl_ok TpmPolicyOrCommand" "decl_ok TpmPolicyOrResponse"
  by (simp_all add:
      TpmPolicyOrCommand_def TpmPolicyOrResponse_def decl_ok_def wire_field_codec TpmlDigest_ok)

definition TpmPolicyTicketCommand :: frame_decl where [decl_defs]:
  "TpmPolicyTicketCommand = Command Cc_PolicyTicket 1 [
     (''timeout'', Tpm2bTimeout), (''cp_hash_a'', Tpm2bDigest), (''policy_ref'', Tpm2bNonce),
     (''auth_name'', Tpm2bName), (''ticket'', TpmtTkAuth)]"

definition TpmPolicyTicketResponse :: frame_decl where [decl_defs]:
  "TpmPolicyTicketResponse = Response Cc_PolicyTicket 0 []"

lemma PolicyTicket_ok [decl_ok_facts]:
  "decl_ok TpmPolicyTicketCommand" "decl_ok TpmPolicyTicketResponse"
  by (simp_all add:
      TpmPolicyTicketCommand_def TpmPolicyTicketResponse_def decl_ok_def wire_field_codec
      Tpm2bDigest_ok Tpm2bName_ok Tpm2bNonce_ok Tpm2bTimeout_ok TpmtTkAuth_ok)

definition TpmReadPublicCommand :: frame_decl where [decl_defs]:
  "TpmReadPublicCommand = Command Cc_ReadPublic 1 []"

definition TpmReadPublicResponse :: frame_decl where [decl_defs]:
  "TpmReadPublicResponse = Response Cc_ReadPublic 0 [
     (''out_public'', Tpm2bPublic), (''name'', Tpm2bName), (''qualified_name'', Tpm2bName)]"

lemma ReadPublic_ok [decl_ok_facts]:
  "decl_ok TpmReadPublicCommand" "decl_ok TpmReadPublicResponse"
  by (simp_all add:
      TpmReadPublicCommand_def TpmReadPublicResponse_def decl_ok_def wire_field_codec
      Tpm2bName_ok Tpm2bPublic_ok)

definition TpmRsaEncryptCommand :: frame_decl where [decl_defs]:
  "TpmRsaEncryptCommand = Command Cc_RsaEncrypt 1 [
     (''message'', Tpm2bPublicKeyRsa), (''in_scheme'', TpmtRsaDecrypt), (''label'', Tpm2bData)]"

definition TpmRsaEncryptResponse :: frame_decl where [decl_defs]:
  "TpmRsaEncryptResponse = Response Cc_RsaEncrypt 0 [
     (''out_data'', Tpm2bPublicKeyRsa)]"

lemma RsaEncrypt_ok [decl_ok_facts]:
  "decl_ok TpmRsaEncryptCommand" "decl_ok TpmRsaEncryptResponse"
  by (simp_all add:
      TpmRsaEncryptCommand_def TpmRsaEncryptResponse_def decl_ok_def wire_field_codec
      Tpm2bData_ok Tpm2bPublicKeyRsa_ok TpmtRsaDecrypt_ok)

definition TpmStartAuthSessionCommand :: frame_decl where [decl_defs]:
  "TpmStartAuthSessionCommand = Command Cc_StartAuthSession 2 [
     (''nonce_caller'', Tpm2bNonce), (''encrypted_salt'', Tpm2bEncryptedSecret),
     (''session_type'', TpmSe_codec), (''symmetric'', TpmtSymDefObject),
     (''auth_hash'', TpmAlgId_codec)]"

definition TpmStartAuthSessionResponse :: frame_decl where [decl_defs]:
  "TpmStartAuthSessionResponse = Response Cc_StartAuthSession 1 [
     (''nonce_tpm'', Tpm2bNonce)]"

lemma StartAuthSession_ok [decl_ok_facts]:
  "decl_ok TpmStartAuthSessionCommand" "decl_ok TpmStartAuthSessionResponse"
  by (simp_all add:
      TpmStartAuthSessionCommand_def TpmStartAuthSessionResponse_def decl_ok_def
      wire_field_codec Tpm2bEncryptedSecret_ok Tpm2bNonce_ok TpmAlgId_codec_ok TpmSe_codec_ok
      TpmtSymDefObject_ok)

definition TpmVerifySignatureCommand :: frame_decl where [decl_defs]:
  "TpmVerifySignatureCommand = Command Cc_VerifySignature 1 [
     (''digest'', Tpm2bDigest), (''signature'', TpmtSignature)]"

definition TpmVerifySignatureResponse :: frame_decl where [decl_defs]:
  "TpmVerifySignatureResponse = Response Cc_VerifySignature 0 [
     (''validation'', TpmtTkVerified)]"

lemma VerifySignature_ok [decl_ok_facts]:
  "decl_ok TpmVerifySignatureCommand" "decl_ok TpmVerifySignatureResponse"
  by (simp_all add:
      TpmVerifySignatureCommand_def TpmVerifySignatureResponse_def decl_ok_def wire_field_codec
      Tpm2bDigest_ok TpmtSignature_ok TpmtTkVerified_ok)

definition TpmEccParametersCommand :: frame_decl where [decl_defs]:
  "TpmEccParametersCommand = Command Cc_EccParameters 0 [
     (''curve_id'', TpmEccCurve_codec)]"

definition TpmEccParametersResponse :: frame_decl where [decl_defs]:
  "TpmEccParametersResponse = Response Cc_EccParameters 0 [
     (''parameters'', TpmsAlgorithmDetailEcc)]"

lemma EccParameters_ok [decl_ok_facts]:
  "decl_ok TpmEccParametersCommand" "decl_ok TpmEccParametersResponse"
  by (simp_all add:
      TpmEccParametersCommand_def TpmEccParametersResponse_def decl_ok_def wire_field_codec
      TpmEccCurve_codec_ok TpmsAlgorithmDetailEcc_ok)

definition TpmFirmwareReadCommand :: frame_decl where [decl_defs]:
  "TpmFirmwareReadCommand = Command Cc_FirmwareRead 0 [
     (''sequence_number'', TpmUint32)]"

definition TpmFirmwareReadResponse :: frame_decl where [decl_defs]:
  "TpmFirmwareReadResponse = Response Cc_FirmwareRead 0 [
     (''fu_data'', Tpm2bMaxBuffer)]"

lemma FirmwareRead_ok [decl_ok_facts]:
  "decl_ok TpmFirmwareReadCommand" "decl_ok TpmFirmwareReadResponse"
  by (simp_all add:
      TpmFirmwareReadCommand_def TpmFirmwareReadResponse_def decl_ok_def wire_field_codec
      Tpm2bMaxBuffer_ok TpmUint32_ok)

definition TpmGetCapabilityCommand :: frame_decl where [decl_defs]:
  "TpmGetCapabilityCommand = Command Cc_GetCapability 0 [
     (''cap'', TpmCap_codec), (''property'', TpmUint32), (''property_count'', TpmUint32)]"

definition TpmGetCapabilityResponse :: frame_decl where [decl_defs]:
  "TpmGetCapabilityResponse = Response Cc_GetCapability 0 [
     (''more_data'', TpmiYesNo), (''capability_data'', TpmsCapabilityData)]"

lemma GetCapability_ok [decl_ok_facts]:
  "decl_ok TpmGetCapabilityCommand" "decl_ok TpmGetCapabilityResponse"
  by (simp_all add:
      TpmGetCapabilityCommand_def TpmGetCapabilityResponse_def decl_ok_def wire_field_codec
      TpmCap_codec_ok TpmUint32_ok TpmiYesNo_ok TpmsCapabilityData_codec_ok)

definition TpmGetRandomCommand :: frame_decl where [decl_defs]:
  "TpmGetRandomCommand = Command Cc_GetRandom 0 [
     (''bytes_requested'', TpmUint16)]"

definition TpmGetRandomResponse :: frame_decl where [decl_defs]:
  "TpmGetRandomResponse = Response Cc_GetRandom 0 [
     (''random_bytes'', Tpm2bDigest)]"

lemma GetRandom_ok [decl_ok_facts]:
  "decl_ok TpmGetRandomCommand" "decl_ok TpmGetRandomResponse"
  by (simp_all add:
      TpmGetRandomCommand_def TpmGetRandomResponse_def decl_ok_def wire_field_codec
      Tpm2bDigest_ok TpmUint16_ok)

definition TpmGetTestResultCommand :: frame_decl where [decl_defs]:
  "TpmGetTestResultCommand = Command Cc_GetTestResult 0 []"

definition TpmGetTestResultResponse :: frame_decl where [decl_defs]:
  "TpmGetTestResultResponse = Response Cc_GetTestResult 0 [
     (''out_data'', Tpm2bMaxBuffer), (''test_result'', TpmRc_codec)]"

lemma GetTestResult_ok [decl_ok_facts]:
  "decl_ok TpmGetTestResultCommand" "decl_ok TpmGetTestResultResponse"
  by (simp_all add:
      TpmGetTestResultCommand_def TpmGetTestResultResponse_def decl_ok_def wire_field_codec
      Tpm2bMaxBuffer_ok TpmRc_codec_ok)

definition TpmHashCommand :: frame_decl where [decl_defs]:
  "TpmHashCommand = Command Cc_Hash 0 [
     (''data'', Tpm2bMaxBuffer), (''hash_alg'', TpmAlgId_codec), (''hierarchy'', TpmRh_codec)]"

definition TpmHashResponse :: frame_decl where [decl_defs]:
  "TpmHashResponse = Response Cc_Hash 0 [
     (''out_hash'', Tpm2bDigest), (''validation'', TpmtTkHashcheck)]"

lemma Hash_ok [decl_ok_facts]:
  "decl_ok TpmHashCommand" "decl_ok TpmHashResponse"
  by (simp_all add:
      TpmHashCommand_def TpmHashResponse_def decl_ok_def wire_field_codec Tpm2bDigest_ok
      Tpm2bMaxBuffer_ok TpmAlgId_codec_ok TpmRh_codec_ok TpmtTkHashcheck_ok)

definition TpmPcrReadCommand :: frame_decl where [decl_defs]:
  "TpmPcrReadCommand = Command Cc_PcrRead 0 [
     (''pcr_selection_in'', TpmlPcrSelection)]"

definition TpmPcrReadResponse :: frame_decl where [decl_defs]:
  "TpmPcrReadResponse = Response Cc_PcrRead 0 [
     (''pcr_update_counter'', TpmUint32), (''pcr_selection_out'', TpmlPcrSelection),
     (''pcr_values'', TpmlDigest)]"

lemma PcrRead_ok [decl_ok_facts]:
  "decl_ok TpmPcrReadCommand" "decl_ok TpmPcrReadResponse"
  by (simp_all add:
      TpmPcrReadCommand_def TpmPcrReadResponse_def decl_ok_def wire_field_codec TpmUint32_ok
      TpmlDigest_ok TpmlPcrSelection_ok)

definition TpmPolicyPcrCommand :: frame_decl where [decl_defs]:
  "TpmPolicyPcrCommand = Command Cc_PolicyPcr 1 [
     (''pcr_digest'', Tpm2bDigest), (''pcrs'', TpmlPcrSelection)]"

definition TpmPolicyPcrResponse :: frame_decl where [decl_defs]:
  "TpmPolicyPcrResponse = Response Cc_PolicyPcr 0 []"

lemma PolicyPcr_ok [decl_ok_facts]:
  "decl_ok TpmPolicyPcrCommand" "decl_ok TpmPolicyPcrResponse"
  by (simp_all add:
      TpmPolicyPcrCommand_def TpmPolicyPcrResponse_def decl_ok_def wire_field_codec
      Tpm2bDigest_ok TpmlPcrSelection_ok)

definition TpmPolicyRestartCommand :: frame_decl where [decl_defs]:
  "TpmPolicyRestartCommand = Command Cc_PolicyRestart 1 []"

definition TpmPolicyRestartResponse :: frame_decl where [decl_defs]:
  "TpmPolicyRestartResponse = Response Cc_PolicyRestart 0 []"

lemma PolicyRestart_ok [decl_ok_facts]:
  "decl_ok TpmPolicyRestartCommand" "decl_ok TpmPolicyRestartResponse"
  by (simp_all add:
      TpmPolicyRestartCommand_def TpmPolicyRestartResponse_def decl_ok_def)

definition TpmReadClockCommand :: frame_decl where [decl_defs]:
  "TpmReadClockCommand = Command Cc_ReadClock 0 []"

definition TpmReadClockResponse :: frame_decl where [decl_defs]:
  "TpmReadClockResponse = Response Cc_ReadClock 0 [
     (''current_time'', TpmsTimeInfo)]"

lemma ReadClock_ok [decl_ok_facts]:
  "decl_ok TpmReadClockCommand" "decl_ok TpmReadClockResponse"
  by (simp_all add:
      TpmReadClockCommand_def TpmReadClockResponse_def decl_ok_def wire_field_codec
      TpmsTimeInfo_ok)

definition TpmPcrExtendCommand :: frame_decl where [decl_defs]:
  "TpmPcrExtendCommand = Command Cc_PcrExtend 1 [
     (''digests'', TpmlDigestValues)]"

definition TpmPcrExtendResponse :: frame_decl where [decl_defs]:
  "TpmPcrExtendResponse = Response Cc_PcrExtend 0 []"

lemma PcrExtend_ok [decl_ok_facts]:
  "decl_ok TpmPcrExtendCommand" "decl_ok TpmPcrExtendResponse"
  by (simp_all add:
      TpmPcrExtendCommand_def TpmPcrExtendResponse_def decl_ok_def wire_field_codec
      TpmlDigestValues_ok)

definition TpmPcrSetAuthValueCommand :: frame_decl where [decl_defs]:
  "TpmPcrSetAuthValueCommand = Command Cc_PcrSetAuthValue 1 [
     (''auth'', Tpm2bDigest)]"

definition TpmPcrSetAuthValueResponse :: frame_decl where [decl_defs]:
  "TpmPcrSetAuthValueResponse = Response Cc_PcrSetAuthValue 0 []"

lemma PcrSetAuthValue_ok [decl_ok_facts]:
  "decl_ok TpmPcrSetAuthValueCommand" "decl_ok TpmPcrSetAuthValueResponse"
  by (simp_all add:
      TpmPcrSetAuthValueCommand_def TpmPcrSetAuthValueResponse_def decl_ok_def wire_field_codec
      Tpm2bDigest_ok)

end
