(* ===== verification/Frame_Decl_D.thy ===== *)
theory Frame_Decl_D
  imports Frame_Decl_A
begin

text \<open>
  Command and response bodies of \<open>protocol/src/frame/data.rs\<close>, in the order of the dispatch table:
  from \<open>NvCertify\<close> to \<open>VendorTcgTest\<close>.
\<close>

definition TpmNvCertifyCommand :: frame_decl where [decl_defs]:
  "TpmNvCertifyCommand = Command Cc_NvCertify 3 [
     (''qualifying_data'', Tpm2bData), (''in_scheme'', TpmtSigScheme), (''size'', TpmUint16),
     (''offset'', TpmUint16)]"

definition TpmNvCertifyResponse :: frame_decl where [decl_defs]:
  "TpmNvCertifyResponse = Response Cc_NvCertify 0 [
     (''certify_info'', Tpm2bAttest), (''signature'', TpmtSignature)]"

lemma NvCertify_ok [decl_ok_facts]:
  "decl_ok TpmNvCertifyCommand" "decl_ok TpmNvCertifyResponse"
  by (simp_all add:
      TpmNvCertifyCommand_def TpmNvCertifyResponse_def decl_ok_def wire_field_codec
      Tpm2bAttest_ok Tpm2bData_ok TpmUint16_ok TpmtSigScheme_ok TpmtSignature_ok)

definition TpmEventSequenceCompleteCommand :: frame_decl where [decl_defs]:
  "TpmEventSequenceCompleteCommand = Command Cc_EventSequenceComplete 2 [
     (''buffer'', Tpm2bMaxBuffer)]"

definition TpmEventSequenceCompleteResponse :: frame_decl where [decl_defs]:
  "TpmEventSequenceCompleteResponse = Response Cc_EventSequenceComplete 0 [
     (''results'', TpmlDigestValues)]"

lemma EventSequenceComplete_ok [decl_ok_facts]:
  "decl_ok TpmEventSequenceCompleteCommand" "decl_ok TpmEventSequenceCompleteResponse"
  by (simp_all add:
      TpmEventSequenceCompleteCommand_def TpmEventSequenceCompleteResponse_def decl_ok_def
      wire_field_codec Tpm2bMaxBuffer_ok TpmlDigestValues_ok)

definition TpmHashSequenceStartCommand :: frame_decl where [decl_defs]:
  "TpmHashSequenceStartCommand = Command Cc_HashSequenceStart 0 [
     (''auth'', Tpm2bAuth), (''hash_alg'', TpmAlgId_codec)]"

definition TpmHashSequenceStartResponse :: frame_decl where [decl_defs]:
  "TpmHashSequenceStartResponse = Response Cc_HashSequenceStart 1 []"

lemma HashSequenceStart_ok [decl_ok_facts]:
  "decl_ok TpmHashSequenceStartCommand" "decl_ok TpmHashSequenceStartResponse"
  by (simp_all add:
      TpmHashSequenceStartCommand_def TpmHashSequenceStartResponse_def decl_ok_def
      wire_field_codec Tpm2bAuth_ok TpmAlgId_codec_ok)

definition TpmPolicyPhysicalPresenceCommand :: frame_decl where [decl_defs]:
  "TpmPolicyPhysicalPresenceCommand = Command Cc_PolicyPhysicalPresence 1 []"

definition TpmPolicyPhysicalPresenceResponse :: frame_decl where [decl_defs]:
  "TpmPolicyPhysicalPresenceResponse = Response Cc_PolicyPhysicalPresence 0 []"

lemma PolicyPhysicalPresence_ok [decl_ok_facts]:
  "decl_ok TpmPolicyPhysicalPresenceCommand" "decl_ok TpmPolicyPhysicalPresenceResponse"
  by (simp_all add:
      TpmPolicyPhysicalPresenceCommand_def TpmPolicyPhysicalPresenceResponse_def decl_ok_def)

definition TpmPolicyDuplicationSelectCommand :: frame_decl where [decl_defs]:
  "TpmPolicyDuplicationSelectCommand = Command Cc_PolicyDuplicationSelect 1 [
     (''object_name'', Tpm2bName), (''new_parent_name'', Tpm2bName),
     (''include_object'', TpmiYesNo)]"

definition TpmPolicyDuplicationSelectResponse :: frame_decl where [decl_defs]:
  "TpmPolicyDuplicationSelectResponse = Response Cc_PolicyDuplicationSelect 0 []"

lemma PolicyDuplicationSelect_ok [decl_ok_facts]:
  "decl_ok TpmPolicyDuplicationSelectCommand" "decl_ok TpmPolicyDuplicationSelectResponse"
  by (simp_all add:
      TpmPolicyDuplicationSelectCommand_def TpmPolicyDuplicationSelectResponse_def decl_ok_def
      wire_field_codec Tpm2bName_ok TpmiYesNo_ok)

definition TpmPolicyGetDigestCommand :: frame_decl where [decl_defs]:
  "TpmPolicyGetDigestCommand = Command Cc_PolicyGetDigest 1 []"

definition TpmPolicyGetDigestResponse :: frame_decl where [decl_defs]:
  "TpmPolicyGetDigestResponse = Response Cc_PolicyGetDigest 0 [
     (''policy_digest'', Tpm2bDigest)]"

lemma PolicyGetDigest_ok [decl_ok_facts]:
  "decl_ok TpmPolicyGetDigestCommand" "decl_ok TpmPolicyGetDigestResponse"
  by (simp_all add:
      TpmPolicyGetDigestCommand_def TpmPolicyGetDigestResponse_def decl_ok_def wire_field_codec
      Tpm2bDigest_ok)

definition TpmTestParmsCommand :: frame_decl where [decl_defs]:
  "TpmTestParmsCommand = Command Cc_TestParms 0 [
     (''parameters'', TpmtPublicParms)]"

definition TpmTestParmsResponse :: frame_decl where [decl_defs]:
  "TpmTestParmsResponse = Response Cc_TestParms 0 []"

lemma TestParms_ok [decl_ok_facts]:
  "decl_ok TpmTestParmsCommand" "decl_ok TpmTestParmsResponse"
  by (simp_all add:
      TpmTestParmsCommand_def TpmTestParmsResponse_def decl_ok_def wire_field_codec
      TpmtPublicParms_ok)

definition TpmCommitCommand :: frame_decl where [decl_defs]:
  "TpmCommitCommand = Command Cc_Commit 1 [
     (''p1'', Tpm2bEccPoint), (''s2'', Tpm2bSensitiveData), (''y2'', Tpm2bEccParameter)]"

definition TpmCommitResponse :: frame_decl where [decl_defs]:
  "TpmCommitResponse = Response Cc_Commit 0 [
     (''k'', Tpm2bEccPoint), (''l'', Tpm2bEccPoint), (''e'', Tpm2bEccPoint),
     (''counter'', TpmUint16)]"

lemma Commit_ok [decl_ok_facts]:
  "decl_ok TpmCommitCommand" "decl_ok TpmCommitResponse"
  by (simp_all add:
      TpmCommitCommand_def TpmCommitResponse_def decl_ok_def wire_field_codec
      Tpm2bEccParameter_ok Tpm2bEccPoint_ok Tpm2bSensitiveData_ok TpmUint16_ok)

definition TpmPolicyPasswordCommand :: frame_decl where [decl_defs]:
  "TpmPolicyPasswordCommand = Command Cc_PolicyPassword 1 []"

definition TpmPolicyPasswordResponse :: frame_decl where [decl_defs]:
  "TpmPolicyPasswordResponse = Response Cc_PolicyPassword 0 []"

lemma PolicyPassword_ok [decl_ok_facts]:
  "decl_ok TpmPolicyPasswordCommand" "decl_ok TpmPolicyPasswordResponse"
  by (simp_all add:
      TpmPolicyPasswordCommand_def TpmPolicyPasswordResponse_def decl_ok_def)

definition TpmZGen2PhaseCommand :: frame_decl where [decl_defs]:
  "TpmZGen2PhaseCommand = Command Cc_ZGen2Phase 1 [
     (''in_qsb'', Tpm2bEccPoint), (''in_qeb'', Tpm2bEccPoint),
     (''in_scheme'', TpmiEccKeyExchange_codec), (''counter'', TpmUint16)]"

definition TpmZGen2PhaseResponse :: frame_decl where [decl_defs]:
  "TpmZGen2PhaseResponse = Response Cc_ZGen2Phase 0 [
     (''out_z1'', Tpm2bEccPoint), (''out_z2'', Tpm2bEccPoint)]"

lemma ZGen2Phase_ok [decl_ok_facts]:
  "decl_ok TpmZGen2PhaseCommand" "decl_ok TpmZGen2PhaseResponse"
  by (simp_all add:
      TpmZGen2PhaseCommand_def TpmZGen2PhaseResponse_def decl_ok_def wire_field_codec
      Tpm2bEccPoint_ok TpmUint16_ok TpmiEccKeyExchange_codec_ok)

definition TpmEcEphemeralCommand :: frame_decl where [decl_defs]:
  "TpmEcEphemeralCommand = Command Cc_EcEphemeral 0 [
     (''curve_id'', TpmEccCurve_codec)]"

definition TpmEcEphemeralResponse :: frame_decl where [decl_defs]:
  "TpmEcEphemeralResponse = Response Cc_EcEphemeral 0 [
     (''q'', Tpm2bEccPoint), (''counter'', TpmUint16)]"

lemma EcEphemeral_ok [decl_ok_facts]:
  "decl_ok TpmEcEphemeralCommand" "decl_ok TpmEcEphemeralResponse"
  by (simp_all add:
      TpmEcEphemeralCommand_def TpmEcEphemeralResponse_def decl_ok_def wire_field_codec
      Tpm2bEccPoint_ok TpmEccCurve_codec_ok TpmUint16_ok)

definition TpmPolicyNvWrittenCommand :: frame_decl where [decl_defs]:
  "TpmPolicyNvWrittenCommand = Command Cc_PolicyNvWritten 1 [
     (''written_set'', TpmiYesNo)]"

definition TpmPolicyNvWrittenResponse :: frame_decl where [decl_defs]:
  "TpmPolicyNvWrittenResponse = Response Cc_PolicyNvWritten 0 []"

lemma PolicyNvWritten_ok [decl_ok_facts]:
  "decl_ok TpmPolicyNvWrittenCommand" "decl_ok TpmPolicyNvWrittenResponse"
  by (simp_all add:
      TpmPolicyNvWrittenCommand_def TpmPolicyNvWrittenResponse_def decl_ok_def wire_field_codec
      TpmiYesNo_ok)

definition TpmPolicyTemplateCommand :: frame_decl where [decl_defs]:
  "TpmPolicyTemplateCommand = Command Cc_PolicyTemplate 1 [
     (''template_hash'', Tpm2bDigest)]"

definition TpmPolicyTemplateResponse :: frame_decl where [decl_defs]:
  "TpmPolicyTemplateResponse = Response Cc_PolicyTemplate 0 []"

lemma PolicyTemplate_ok [decl_ok_facts]:
  "decl_ok TpmPolicyTemplateCommand" "decl_ok TpmPolicyTemplateResponse"
  by (simp_all add:
      TpmPolicyTemplateCommand_def TpmPolicyTemplateResponse_def decl_ok_def wire_field_codec
      Tpm2bDigest_ok)

definition TpmCreateLoadedCommand :: frame_decl where [decl_defs]:
  "TpmCreateLoadedCommand = Command Cc_CreateLoaded 1 [
     (''in_sensitive'', Tpm2bSensitiveCreate), (''in_public'', Tpm2bTemplate)]"

definition TpmCreateLoadedResponse :: frame_decl where [decl_defs]:
  "TpmCreateLoadedResponse = Response Cc_CreateLoaded 1 [
     (''out_private'', Tpm2bPrivate), (''out_public'', Tpm2bPublic), (''name'', Tpm2bName)]"

lemma CreateLoaded_ok [decl_ok_facts]:
  "decl_ok TpmCreateLoadedCommand" "decl_ok TpmCreateLoadedResponse"
  by (simp_all add:
      TpmCreateLoadedCommand_def TpmCreateLoadedResponse_def decl_ok_def wire_field_codec
      Tpm2bName_ok Tpm2bPrivate_ok Tpm2bPublic_ok Tpm2bSensitiveCreate_ok Tpm2bTemplate_ok)

definition TpmPolicyAuthorizeNvCommand :: frame_decl where [decl_defs]:
  "TpmPolicyAuthorizeNvCommand = Command Cc_PolicyAuthorizeNv 3 []"

definition TpmPolicyAuthorizeNvResponse :: frame_decl where [decl_defs]:
  "TpmPolicyAuthorizeNvResponse = Response Cc_PolicyAuthorizeNv 0 []"

lemma PolicyAuthorizeNv_ok [decl_ok_facts]:
  "decl_ok TpmPolicyAuthorizeNvCommand" "decl_ok TpmPolicyAuthorizeNvResponse"
  by (simp_all add:
      TpmPolicyAuthorizeNvCommand_def TpmPolicyAuthorizeNvResponse_def decl_ok_def)

definition TpmEncryptDecrypt2Command :: frame_decl where [decl_defs]:
  "TpmEncryptDecrypt2Command = Command Cc_EncryptDecrypt2 1 [
     (''in_data'', Tpm2bMaxBuffer), (''decrypt'', TpmiYesNo), (''mode'', TpmAlgId_codec),
     (''iv_in'', Tpm2bIv)]"

definition TpmEncryptDecrypt2Response :: frame_decl where [decl_defs]:
  "TpmEncryptDecrypt2Response = Response Cc_EncryptDecrypt2 0 [
     (''out_data'', Tpm2bMaxBuffer), (''iv_out'', Tpm2bIv)]"

lemma EncryptDecrypt2_ok [decl_ok_facts]:
  "decl_ok TpmEncryptDecrypt2Command" "decl_ok TpmEncryptDecrypt2Response"
  by (simp_all add:
      TpmEncryptDecrypt2Command_def TpmEncryptDecrypt2Response_def decl_ok_def wire_field_codec
      Tpm2bIv_ok Tpm2bMaxBuffer_ok TpmAlgId_codec_ok TpmiYesNo_ok)

definition TpmAcGetCapabilityCommand :: frame_decl where [decl_defs]:
  "TpmAcGetCapabilityCommand = Command Cc_AcGetCapability 1 [
     (''capability'', TpmAt_codec), (''count'', TpmUint32)]"

definition TpmAcGetCapabilityResponse :: frame_decl where [decl_defs]:
  "TpmAcGetCapabilityResponse = Response Cc_AcGetCapability 0 [
     (''more_data'', TpmiYesNo), (''capabilities_data'', TpmlAcCapabilities)]"

lemma AcGetCapability_ok [decl_ok_facts]:
  "decl_ok TpmAcGetCapabilityCommand" "decl_ok TpmAcGetCapabilityResponse"
  by (simp_all add:
      TpmAcGetCapabilityCommand_def TpmAcGetCapabilityResponse_def decl_ok_def wire_field_codec
      TpmAt_codec_ok TpmUint32_ok TpmiYesNo_ok TpmlAcCapabilities_ok)

definition TpmAcSendCommand :: frame_decl where [decl_defs]:
  "TpmAcSendCommand = Command Cc_AcSend 3 [
     (''ac_data_in'', Tpm2bMaxBuffer)]"

definition TpmAcSendResponse :: frame_decl where [decl_defs]:
  "TpmAcSendResponse = Response Cc_AcSend 0 [
     (''ac_data_out'', TpmsAcOutput)]"

lemma AcSend_ok [decl_ok_facts]:
  "decl_ok TpmAcSendCommand" "decl_ok TpmAcSendResponse"
  by (simp_all add:
      TpmAcSendCommand_def TpmAcSendResponse_def decl_ok_def wire_field_codec Tpm2bMaxBuffer_ok
      TpmsAcOutput_ok)

definition TpmPolicyAcSendSelectCommand :: frame_decl where [decl_defs]:
  "TpmPolicyAcSendSelectCommand = Command Cc_PolicyAcSendSelect 3 [
     (''object_name'', Tpm2bName), (''auth_handle_name'', Tpm2bName), (''ac_name'', Tpm2bName),
     (''include_object'', TpmiYesNo)]"

definition TpmPolicyAcSendSelectResponse :: frame_decl where [decl_defs]:
  "TpmPolicyAcSendSelectResponse = Response Cc_PolicyAcSendSelect 0 []"

lemma PolicyAcSendSelect_ok [decl_ok_facts]:
  "decl_ok TpmPolicyAcSendSelectCommand" "decl_ok TpmPolicyAcSendSelectResponse"
  by (simp_all add:
      TpmPolicyAcSendSelectCommand_def TpmPolicyAcSendSelectResponse_def decl_ok_def
      wire_field_codec Tpm2bName_ok TpmiYesNo_ok)

definition TpmActSetTimeoutCommand :: frame_decl where [decl_defs]:
  "TpmActSetTimeoutCommand = Command Cc_ActSetTimeout 1 [
     (''start_timeout'', TpmUint32)]"

definition TpmActSetTimeoutResponse :: frame_decl where [decl_defs]:
  "TpmActSetTimeoutResponse = Response Cc_ActSetTimeout 0 []"

lemma ActSetTimeout_ok [decl_ok_facts]:
  "decl_ok TpmActSetTimeoutCommand" "decl_ok TpmActSetTimeoutResponse"
  by (simp_all add:
      TpmActSetTimeoutCommand_def TpmActSetTimeoutResponse_def decl_ok_def wire_field_codec
      TpmUint32_ok)

definition TpmEccEncryptCommand :: frame_decl where [decl_defs]:
  "TpmEccEncryptCommand = Command Cc_EccEncrypt 1 [
     (''plaintext'', Tpm2bMaxBuffer), (''in_scheme'', TpmtKdfScheme)]"

definition TpmEccEncryptResponse :: frame_decl where [decl_defs]:
  "TpmEccEncryptResponse = Response Cc_EccEncrypt 0 [
     (''c1'', Tpm2bEccPoint), (''c2'', Tpm2bMaxBuffer), (''c3'', Tpm2bDigest)]"

lemma EccEncrypt_ok [decl_ok_facts]:
  "decl_ok TpmEccEncryptCommand" "decl_ok TpmEccEncryptResponse"
  by (simp_all add:
      TpmEccEncryptCommand_def TpmEccEncryptResponse_def decl_ok_def wire_field_codec
      Tpm2bDigest_ok Tpm2bEccPoint_ok Tpm2bMaxBuffer_ok TpmtKdfScheme_ok)

definition TpmEccDecryptCommand :: frame_decl where [decl_defs]:
  "TpmEccDecryptCommand = Command Cc_EccDecrypt 1 [
     (''c1'', Tpm2bEccPoint), (''c2'', Tpm2bMaxBuffer), (''c3'', Tpm2bDigest),
     (''in_scheme'', TpmtKdfScheme)]"

definition TpmEccDecryptResponse :: frame_decl where [decl_defs]:
  "TpmEccDecryptResponse = Response Cc_EccDecrypt 0 [
     (''plaintext'', Tpm2bMaxBuffer)]"

lemma EccDecrypt_ok [decl_ok_facts]:
  "decl_ok TpmEccDecryptCommand" "decl_ok TpmEccDecryptResponse"
  by (simp_all add:
      TpmEccDecryptCommand_def TpmEccDecryptResponse_def decl_ok_def wire_field_codec
      Tpm2bDigest_ok Tpm2bEccPoint_ok Tpm2bMaxBuffer_ok TpmtKdfScheme_ok)

definition TpmPolicyCapabilityCommand :: frame_decl where [decl_defs]:
  "TpmPolicyCapabilityCommand = Command Cc_PolicyCapability 1 [
     (''capability'', TpmCap_codec), (''property'', TpmUint32), (''op'', TpmEo_codec),
     (''operand_b'', Tpm2bMaxBuffer)]"

definition TpmPolicyCapabilityResponse :: frame_decl where [decl_defs]:
  "TpmPolicyCapabilityResponse = Response Cc_PolicyCapability 0 []"

lemma PolicyCapability_ok [decl_ok_facts]:
  "decl_ok TpmPolicyCapabilityCommand" "decl_ok TpmPolicyCapabilityResponse"
  by (simp_all add:
      TpmPolicyCapabilityCommand_def TpmPolicyCapabilityResponse_def decl_ok_def
      wire_field_codec Tpm2bMaxBuffer_ok TpmCap_codec_ok TpmEo_codec_ok TpmUint32_ok)

definition TpmPolicyParametersCommand :: frame_decl where [decl_defs]:
  "TpmPolicyParametersCommand = Command Cc_PolicyParameters 1 [
     (''p_hash'', Tpm2bDigest)]"

definition TpmPolicyParametersResponse :: frame_decl where [decl_defs]:
  "TpmPolicyParametersResponse = Response Cc_PolicyParameters 0 []"

lemma PolicyParameters_ok [decl_ok_facts]:
  "decl_ok TpmPolicyParametersCommand" "decl_ok TpmPolicyParametersResponse"
  by (simp_all add:
      TpmPolicyParametersCommand_def TpmPolicyParametersResponse_def decl_ok_def
      wire_field_codec Tpm2bDigest_ok)

definition TpmNvDefineSpace2Command :: frame_decl where [decl_defs]:
  "TpmNvDefineSpace2Command = Command Cc_NvDefineSpace2 1 [
     (''auth'', Tpm2bAuth), (''public_info'', Tpm2bNvPublic2)]"

definition TpmNvDefineSpace2Response :: frame_decl where [decl_defs]:
  "TpmNvDefineSpace2Response = Response Cc_NvDefineSpace2 0 []"

lemma NvDefineSpace2_ok [decl_ok_facts]:
  "decl_ok TpmNvDefineSpace2Command" "decl_ok TpmNvDefineSpace2Response"
  by (simp_all add:
      TpmNvDefineSpace2Command_def TpmNvDefineSpace2Response_def decl_ok_def wire_field_codec
      Tpm2bAuth_ok Tpm2bNvPublic2_ok)

definition TpmNvReadPublic2Command :: frame_decl where [decl_defs]:
  "TpmNvReadPublic2Command = Command Cc_NvReadPublic2 1 []"

definition TpmNvReadPublic2Response :: frame_decl where [decl_defs]:
  "TpmNvReadPublic2Response = Response Cc_NvReadPublic2 0 [
     (''nv_public'', Tpm2bNvPublic2), (''nv_name'', Tpm2bName)]"

lemma NvReadPublic2_ok [decl_ok_facts]:
  "decl_ok TpmNvReadPublic2Command" "decl_ok TpmNvReadPublic2Response"
  by (simp_all add:
      TpmNvReadPublic2Command_def TpmNvReadPublic2Response_def decl_ok_def wire_field_codec
      Tpm2bName_ok Tpm2bNvPublic2_ok)

definition TpmSetCapabilityCommand :: frame_decl where [decl_defs]:
  "TpmSetCapabilityCommand = Command Cc_SetCapability 1 [
     (''set_data'', TpmsCapabilityData)]"

definition TpmSetCapabilityResponse :: frame_decl where [decl_defs]:
  "TpmSetCapabilityResponse = Response Cc_SetCapability 0 []"

lemma SetCapability_ok [decl_ok_facts]:
  "decl_ok TpmSetCapabilityCommand" "decl_ok TpmSetCapabilityResponse"
  by (simp_all add:
      TpmSetCapabilityCommand_def TpmSetCapabilityResponse_def decl_ok_def wire_field_codec
      TpmsCapabilityData_codec_ok)

definition TpmReadOnlyControlCommand :: frame_decl where [decl_defs]:
  "TpmReadOnlyControlCommand = Command Cc_ReadOnlyControl 1 [
     (''state'', TpmiYesNo)]"

definition TpmReadOnlyControlResponse :: frame_decl where [decl_defs]:
  "TpmReadOnlyControlResponse = Response Cc_ReadOnlyControl 0 []"

lemma ReadOnlyControl_ok [decl_ok_facts]:
  "decl_ok TpmReadOnlyControlCommand" "decl_ok TpmReadOnlyControlResponse"
  by (simp_all add:
      TpmReadOnlyControlCommand_def TpmReadOnlyControlResponse_def decl_ok_def wire_field_codec
      TpmiYesNo_ok)

definition TpmPolicyTransportSpdmCommand :: frame_decl where [decl_defs]:
  "TpmPolicyTransportSpdmCommand = Command Cc_PolicyTransportSpdm 1 [
     (''req_key_name'', Tpm2bName), (''tpm_key_name'', Tpm2bName)]"

definition TpmPolicyTransportSpdmResponse :: frame_decl where [decl_defs]:
  "TpmPolicyTransportSpdmResponse = Response Cc_PolicyTransportSpdm 0 []"

lemma PolicyTransportSpdm_ok [decl_ok_facts]:
  "decl_ok TpmPolicyTransportSpdmCommand" "decl_ok TpmPolicyTransportSpdmResponse"
  by (simp_all add:
      TpmPolicyTransportSpdmCommand_def TpmPolicyTransportSpdmResponse_def decl_ok_def
      wire_field_codec Tpm2bName_ok)

definition TpmVendorTcgTestCommand :: frame_decl where [decl_defs]:
  "TpmVendorTcgTestCommand = Command Cc_VendorTcgTest 0 [
     (''input_data'', Tpm2bData)]"

definition TpmVendorTcgTestResponse :: frame_decl where [decl_defs]:
  "TpmVendorTcgTestResponse = Response Cc_VendorTcgTest 0 [
     (''output_data'', Tpm2bData)]"

lemma VendorTcgTest_ok [decl_ok_facts]:
  "decl_ok TpmVendorTcgTestCommand" "decl_ok TpmVendorTcgTestResponse"
  by (simp_all add:
      TpmVendorTcgTestCommand_def TpmVendorTcgTestResponse_def decl_ok_def wire_field_codec
      Tpm2bData_ok)

end
