(* ===== verification/Dispatch.thy ===== *)
theory Dispatch
  imports Frame_Decl_B Frame_Decl_C Frame_Decl_D
begin

text \<open>
  The dispatch table, \<open>tpm_dispatch!\<close> of \<open>protocol/src/macro/mod.rs\<close> as used in
  \<open>protocol/src/frame/mod.rs\<close>, and the lookup \<open>dispatch_for\<close> of \<open>protocol/src/frame/wire.rs\<close>, with the binary
  search of Rust's \<open>slice::binary_search_by_key\<close> written out.  The table is strictly sorted by command
  code and has an entry for every code, so the search finds the entry of each.
\<close>

subsection \<open>The table\<close>

definition dispatch_rows :: "(string \<times> frame_decl \<times> frame_decl) list" where
  "dispatch_rows = [
     (''NvUndefineSpaceSpecial'', TpmNvUndefineSpaceSpecialCommand, TpmNvUndefineSpaceSpecialResponse),
     (''EvictControl'', TpmEvictControlCommand, TpmEvictControlResponse),
     (''HierarchyControl'', TpmHierarchyControlCommand, TpmHierarchyControlResponse),
     (''NvUndefineSpace'', TpmNvUndefineSpaceCommand, TpmNvUndefineSpaceResponse),
     (''ChangeEps'', TpmChangeEpsCommand, TpmChangeEpsResponse),
     (''ChangePps'', TpmChangePpsCommand, TpmChangePpsResponse),
     (''Clear'', TpmClearCommand, TpmClearResponse),
     (''ClearControl'', TpmClearControlCommand, TpmClearControlResponse),
     (''ClockSet'', TpmClockSetCommand, TpmClockSetResponse),
     (''HierarchyChangeAuth'', TpmHierarchyChangeAuthCommand, TpmHierarchyChangeAuthResponse),
     (''NvDefineSpace'', TpmNvDefineSpaceCommand, TpmNvDefineSpaceResponse),
     (''PcrAllocate'', TpmPcrAllocateCommand, TpmPcrAllocateResponse),
     (''PcrSetAuthPolicy'', TpmPcrSetAuthPolicyCommand, TpmPcrSetAuthPolicyResponse),
     (''PpCommands'', TpmPpCommandsCommand, TpmPpCommandsResponse),
     (''SetPrimaryPolicy'', TpmSetPrimaryPolicyCommand, TpmSetPrimaryPolicyResponse),
     (''FieldUpgradeStart'', TpmFieldUpgradeStartCommand, TpmFieldUpgradeStartResponse),
     (''ClockRateAdjust'', TpmClockRateAdjustCommand, TpmClockRateAdjustResponse),
     (''CreatePrimary'', TpmCreatePrimaryCommand, TpmCreatePrimaryResponse),
     (''NvGlobalWriteLock'', TpmNvGlobalWriteLockCommand, TpmNvGlobalWriteLockResponse),
     (''GetCommandAuditDigest'', TpmGetCommandAuditDigestCommand, TpmGetCommandAuditDigestResponse),
     (''NvIncrement'', TpmNvIncrementCommand, TpmNvIncrementResponse),
     (''NvSetBits'', TpmNvSetBitsCommand, TpmNvSetBitsResponse),
     (''NvExtend'', TpmNvExtendCommand, TpmNvExtendResponse),
     (''NvWrite'', TpmNvWriteCommand, TpmNvWriteResponse),
     (''NvWriteLock'', TpmNvWriteLockCommand, TpmNvWriteLockResponse),
     (''DictionaryAttackLockReset'', TpmDictionaryAttackLockResetCommand, TpmDictionaryAttackLockResetResponse),
     (''DictionaryAttackParameters'', TpmDictionaryAttackParametersCommand, TpmDictionaryAttackParametersResponse),
     (''NvChangeAuth'', TpmNvChangeAuthCommand, TpmNvChangeAuthResponse),
     (''PcrEvent'', TpmPcrEventCommand, TpmPcrEventResponse),
     (''PcrReset'', TpmPcrResetCommand, TpmPcrResetResponse),
     (''SequenceComplete'', TpmSequenceCompleteCommand, TpmSequenceCompleteResponse),
     (''SetAlgorithmSet'', TpmSetAlgorithmSetCommand, TpmSetAlgorithmSetResponse),
     (''SetCommandCodeAuditStatus'', TpmSetCommandCodeAuditStatusCommand, TpmSetCommandCodeAuditStatusResponse),
     (''FieldUpgradeData'', TpmFieldUpgradeDataCommand, TpmFieldUpgradeDataResponse),
     (''IncrementalSelfTest'', TpmIncrementalSelfTestCommand, TpmIncrementalSelfTestResponse),
     (''SelfTest'', TpmSelfTestCommand, TpmSelfTestResponse),
     (''Startup'', TpmStartupCommand, TpmStartupResponse),
     (''Shutdown'', TpmShutdownCommand, TpmShutdownResponse),
     (''StirRandom'', TpmStirRandomCommand, TpmStirRandomResponse),
     (''ActivateCredential'', TpmActivateCredentialCommand, TpmActivateCredentialResponse),
     (''Certify'', TpmCertifyCommand, TpmCertifyResponse),
     (''PolicyNv'', TpmPolicyNvCommand, TpmPolicyNvResponse),
     (''CertifyCreation'', TpmCertifyCreationCommand, TpmCertifyCreationResponse),
     (''Duplicate'', TpmDuplicateCommand, TpmDuplicateResponse),
     (''GetTime'', TpmGetTimeCommand, TpmGetTimeResponse),
     (''GetSessionAuditDigest'', TpmGetSessionAuditDigestCommand, TpmGetSessionAuditDigestResponse),
     (''NvRead'', TpmNvReadCommand, TpmNvReadResponse),
     (''NvReadLock'', TpmNvReadLockCommand, TpmNvReadLockResponse),
     (''ObjectChangeAuth'', TpmObjectChangeAuthCommand, TpmObjectChangeAuthResponse),
     (''PolicySecret'', TpmPolicySecretCommand, TpmPolicySecretResponse),
     (''Rewrap'', TpmRewrapCommand, TpmRewrapResponse),
     (''Create'', TpmCreateCommand, TpmCreateResponse),
     (''EcdhZGen'', TpmEcdhZGenCommand, TpmEcdhZGenResponse),
     (''Hmac'', TpmHmacCommand, TpmHmacResponse),
     (''Import'', TpmImportCommand, TpmImportResponse),
     (''Load'', TpmLoadCommand, TpmLoadResponse),
     (''Quote'', TpmQuoteCommand, TpmQuoteResponse),
     (''RsaDecrypt'', TpmRsaDecryptCommand, TpmRsaDecryptResponse),
     (''HmacStart'', TpmHmacStartCommand, TpmHmacStartResponse),
     (''SequenceUpdate'', TpmSequenceUpdateCommand, TpmSequenceUpdateResponse),
     (''Sign'', TpmSignCommand, TpmSignResponse),
     (''Unseal'', TpmUnsealCommand, TpmUnsealResponse),
     (''PolicySigned'', TpmPolicySignedCommand, TpmPolicySignedResponse),
     (''ContextLoad'', TpmContextLoadCommand, TpmContextLoadResponse),
     (''ContextSave'', TpmContextSaveCommand, TpmContextSaveResponse),
     (''EcdhKeyGen'', TpmEcdhKeyGenCommand, TpmEcdhKeyGenResponse),
     (''EncryptDecrypt'', TpmEncryptDecryptCommand, TpmEncryptDecryptResponse),
     (''FlushContext'', TpmFlushContextCommand, TpmFlushContextResponse),
     (''LoadExternal'', TpmLoadExternalCommand, TpmLoadExternalResponse),
     (''MakeCredential'', TpmMakeCredentialCommand, TpmMakeCredentialResponse),
     (''NvReadPublic'', TpmNvReadPublicCommand, TpmNvReadPublicResponse),
     (''PolicyAuthorize'', TpmPolicyAuthorizeCommand, TpmPolicyAuthorizeResponse),
     (''PolicyAuthValue'', TpmPolicyAuthValueCommand, TpmPolicyAuthValueResponse),
     (''PolicyCommandCode'', TpmPolicyCommandCodeCommand, TpmPolicyCommandCodeResponse),
     (''PolicyCounterTimer'', TpmPolicyCounterTimerCommand, TpmPolicyCounterTimerResponse),
     (''PolicyCpHash'', TpmPolicyCpHashCommand, TpmPolicyCpHashResponse),
     (''PolicyLocality'', TpmPolicyLocalityCommand, TpmPolicyLocalityResponse),
     (''PolicyNameHash'', TpmPolicyNameHashCommand, TpmPolicyNameHashResponse),
     (''PolicyOr'', TpmPolicyOrCommand, TpmPolicyOrResponse),
     (''PolicyTicket'', TpmPolicyTicketCommand, TpmPolicyTicketResponse),
     (''ReadPublic'', TpmReadPublicCommand, TpmReadPublicResponse),
     (''RsaEncrypt'', TpmRsaEncryptCommand, TpmRsaEncryptResponse),
     (''StartAuthSession'', TpmStartAuthSessionCommand, TpmStartAuthSessionResponse),
     (''VerifySignature'', TpmVerifySignatureCommand, TpmVerifySignatureResponse),
     (''EccParameters'', TpmEccParametersCommand, TpmEccParametersResponse),
     (''FirmwareRead'', TpmFirmwareReadCommand, TpmFirmwareReadResponse),
     (''GetCapability'', TpmGetCapabilityCommand, TpmGetCapabilityResponse),
     (''GetRandom'', TpmGetRandomCommand, TpmGetRandomResponse),
     (''GetTestResult'', TpmGetTestResultCommand, TpmGetTestResultResponse),
     (''Hash'', TpmHashCommand, TpmHashResponse),
     (''PcrRead'', TpmPcrReadCommand, TpmPcrReadResponse),
     (''PolicyPcr'', TpmPolicyPcrCommand, TpmPolicyPcrResponse),
     (''PolicyRestart'', TpmPolicyRestartCommand, TpmPolicyRestartResponse),
     (''ReadClock'', TpmReadClockCommand, TpmReadClockResponse),
     (''PcrExtend'', TpmPcrExtendCommand, TpmPcrExtendResponse),
     (''PcrSetAuthValue'', TpmPcrSetAuthValueCommand, TpmPcrSetAuthValueResponse),
     (''NvCertify'', TpmNvCertifyCommand, TpmNvCertifyResponse),
     (''EventSequenceComplete'', TpmEventSequenceCompleteCommand, TpmEventSequenceCompleteResponse),
     (''HashSequenceStart'', TpmHashSequenceStartCommand, TpmHashSequenceStartResponse),
     (''PolicyPhysicalPresence'', TpmPolicyPhysicalPresenceCommand, TpmPolicyPhysicalPresenceResponse),
     (''PolicyDuplicationSelect'', TpmPolicyDuplicationSelectCommand, TpmPolicyDuplicationSelectResponse),
     (''PolicyGetDigest'', TpmPolicyGetDigestCommand, TpmPolicyGetDigestResponse),
     (''TestParms'', TpmTestParmsCommand, TpmTestParmsResponse),
     (''Commit'', TpmCommitCommand, TpmCommitResponse),
     (''PolicyPassword'', TpmPolicyPasswordCommand, TpmPolicyPasswordResponse),
     (''ZGen2Phase'', TpmZGen2PhaseCommand, TpmZGen2PhaseResponse),
     (''EcEphemeral'', TpmEcEphemeralCommand, TpmEcEphemeralResponse),
     (''PolicyNvWritten'', TpmPolicyNvWrittenCommand, TpmPolicyNvWrittenResponse),
     (''PolicyTemplate'', TpmPolicyTemplateCommand, TpmPolicyTemplateResponse),
     (''CreateLoaded'', TpmCreateLoadedCommand, TpmCreateLoadedResponse),
     (''PolicyAuthorizeNv'', TpmPolicyAuthorizeNvCommand, TpmPolicyAuthorizeNvResponse),
     (''EncryptDecrypt2'', TpmEncryptDecrypt2Command, TpmEncryptDecrypt2Response),
     (''AcGetCapability'', TpmAcGetCapabilityCommand, TpmAcGetCapabilityResponse),
     (''AcSend'', TpmAcSendCommand, TpmAcSendResponse),
     (''PolicyAcSendSelect'', TpmPolicyAcSendSelectCommand, TpmPolicyAcSendSelectResponse),
     (''ActSetTimeout'', TpmActSetTimeoutCommand, TpmActSetTimeoutResponse),
     (''EccEncrypt'', TpmEccEncryptCommand, TpmEccEncryptResponse),
     (''EccDecrypt'', TpmEccDecryptCommand, TpmEccDecryptResponse),
     (''PolicyCapability'', TpmPolicyCapabilityCommand, TpmPolicyCapabilityResponse),
     (''PolicyParameters'', TpmPolicyParametersCommand, TpmPolicyParametersResponse),
     (''NvDefineSpace2'', TpmNvDefineSpace2Command, TpmNvDefineSpace2Response),
     (''NvReadPublic2'', TpmNvReadPublic2Command, TpmNvReadPublic2Response),
     (''SetCapability'', TpmSetCapabilityCommand, TpmSetCapabilityResponse),
     (''ReadOnlyControl'', TpmReadOnlyControlCommand, TpmReadOnlyControlResponse),
     (''PolicyTransportSpdm'', TpmPolicyTransportSpdmCommand, TpmPolicyTransportSpdmResponse),
     (''VendorTcgTest'', TpmVendorTcgTestCommand, TpmVendorTcgTestResponse)]"

record TpmDispatch =
  d_cc :: TpmCc
  d_handles :: nat
  d_response_handles :: nat

definition dispatch_of :: "frame_decl \<Rightarrow> frame_decl \<Rightarrow> TpmDispatch" where
  "dispatch_of cmd resp =
     \<lparr>d_cc = f_CC cmd, d_handles = HANDLES cmd, d_response_handles = HANDLES resp\<rparr>"

definition TPM_DISPATCH_TABLE :: "TpmDispatch list" where
  "TPM_DISPATCH_TABLE = map (\<lambda>(_, cmd, resp). dispatch_of cmd resp) dispatch_rows"

text \<open>The \<open>match\<close> over the command codes that the macro generates for the two views.\<close>

definition variant_of :: "TpmCc \<Rightarrow> string option" where
  "variant_of cc = map_option fst (find (\<lambda>(_, cmd, _). f_CC cmd = cc) dispatch_rows)"

subsection \<open>Binary search\<close>

function bs_narrow :: "'a :: linorder list \<Rightarrow> 'a \<Rightarrow> nat \<Rightarrow> nat \<Rightarrow> nat" where
  "bs_narrow keys key base sz =
     (if sz \<le> 1 then base
      else let half = sz div 2; mid = base + half
        in bs_narrow keys key (if key < keys ! mid then base else mid) (sz - half))"
  by pat_completeness auto

termination
  by (relation "measure (\<lambda>(_, _, _, sz). sz)") auto

declare bs_narrow.simps [simp del]

definition binary_search :: "'a :: linorder list \<Rightarrow> 'a \<Rightarrow> (nat, nat) result" where
  "binary_search keys key =
     (if keys = [] then Err 0
      else let b = bs_narrow keys key 0 (length keys)
        in if keys ! b = key then Ok b else Err (b + (if keys ! b < key then 1 else 0)))"

definition dispatch_for :: "TpmCc \<Rightarrow> TpmDispatch TpmResult" where
  "dispatch_for cc =
     and_then (map_err (\<lambda>_. InvalidCc 0 (as_u64 (TpmCc_value cc)))
                (binary_search (map d_cc TPM_DISPATCH_TABLE) cc))
       (\<lambda>index. Ok (TPM_DISPATCH_TABLE ! index))"

lemma bs_narrow_range:
  "0 < sz \<Longrightarrow> base \<le> bs_narrow keys key base sz \<and> bs_narrow keys key base sz < base + sz"
proof (induction keys key base sz rule: bs_narrow.induct)
  case (1 keys key base sz)
  show ?case
  proof (cases "sz \<le> 1")
    case False
    let ?base = "if key < keys ! (base + sz div 2) then base else base + sz div 2"
    have eq: "bs_narrow keys key base sz = bs_narrow keys key ?base (sz - sz div 2)"
      using False by (subst bs_narrow.simps) (simp add: Let_def)
    have "0 < sz - sz div 2" "?base + (sz - sz div 2) \<le> base + sz" "base \<le> ?base"
      using False by auto
    with 1(1) [OF False refl refl] show ?thesis
      unfolding eq by linarith
  qed (use 1 in \<open>simp add: bs_narrow.simps\<close>)
qed

lemma bs_narrow_finds:
  "\<lbrakk>sorted_wrt (<) keys; keys ! k = key; base \<le> k; k < base + sz; base + sz \<le> length keys\<rbrakk> \<Longrightarrow>
   bs_narrow keys key base sz = k"
proof (induction keys key base sz rule: bs_narrow.induct)
  case (1 keys key base sz)
  show ?case
  proof (cases "sz \<le> 1")
    case False
    let ?mid = "base + sz div 2"
    let ?base = "if key < keys ! ?mid then base else ?mid"
    have eq: "bs_narrow keys key base sz = bs_narrow keys key ?base (sz - sz div 2)"
      using False by (subst bs_narrow.simps) (simp add: Let_def)
    have mid: "?mid < length keys"
      using False "1.prems" by auto
    have "k < ?mid" if "key < keys ! ?mid"
    proof (rule ccontr)
      assume "\<not> k < ?mid"
      then have "keys ! ?mid \<le> keys ! k"
        using sorted_wrt_nth_less [OF "1.prems"(1), of ?mid k] "1.prems"
        by (cases "?mid = k") (auto intro: less_imp_le)
      with that "1.prems"(2) show False by simp
    qed
    moreover have "?mid \<le> k" if "\<not> key < keys ! ?mid"
      using sorted_wrt_nth_less [OF "1.prems"(1), of k ?mid] that "1.prems"(2) mid
      by (meson not_le_imp_less)
    moreover have "sz div 2 \<le> sz - sz div 2"
      by simp
    ultimately have "?base \<le> k" "k < ?base + (sz - sz div 2)" "?base + (sz - sz div 2) \<le> length keys"
      using "1.prems" by auto
    with "1.IH" [OF False refl refl] "1.prems" show ?thesis
      unfolding eq by blast
  qed (use 1 in \<open>simp add: bs_narrow.simps\<close>)
qed

lemma binary_search_finds:
  assumes "sorted_wrt (<) keys" "k < length keys"
  shows "binary_search keys (keys ! k) = Ok k"
  using bs_narrow_finds [OF assms(1) refl, of 0 k "length keys"] assms(2)
  by (auto simp: binary_search_def Let_def)

lemma binary_search_sound:
  "binary_search keys key = Ok i \<Longrightarrow> i < length keys \<and> keys ! i = key"
  using bs_narrow_range [of "length keys" 0 keys key]
  by (auto simp: binary_search_def Let_def split: if_splits)

lemma binary_search_not_Panic [simp]: "binary_search keys key \<noteq> Panic"
  by (simp add: binary_search_def Let_def)

subsection \<open>Completeness of the table\<close>

lemma decls_ok: "list_all (\<lambda>(_, cmd, resp). decl_ok cmd \<and> decl_ok resp) dispatch_rows"
  unfolding dispatch_rows_def by (simp add: decl_ok_facts)

lemma row_ccs: "map (\<lambda>(_, cmd, _). f_CC cmd) dispatch_rows = TpmCc_variants"
  unfolding dispatch_rows_def TpmCc_variants_def by (simp add: decl_defs)

lemma row_response_ccs: "list_all (\<lambda>(_, cmd, resp). f_CC resp = f_CC cmd) dispatch_rows"
  unfolding dispatch_rows_def by (simp add: decl_defs)

lemma variants_sorted: "sorted_wrt (<) (map TpmCc_value TpmCc_variants)"
  by (simp add: TpmCc_variants_def sorted_wrt2_simps transp_on_less del: sorted_wrt.simps)

lemma table_ccs: "map d_cc TPM_DISPATCH_TABLE = TpmCc_variants"
  unfolding row_ccs [symmetric] TPM_DISPATCH_TABLE_def
  by (simp add: dispatch_of_def comp_def case_prod_beta)

lemma table_sorted: "sorted_wrt (<) (map d_cc TPM_DISPATCH_TABLE)"
  using variants_sorted by (simp add: table_ccs sorted_wrt_map less_TpmCc_def [abs_def])

lemma dispatch_for_Ok_iff:
  "dispatch_for cc = Ok d \<longleftrightarrow> d \<in> set TPM_DISPATCH_TABLE \<and> d_cc d = cc"
proof
  assume "dispatch_for cc = Ok d"
  then show "d \<in> set TPM_DISPATCH_TABLE \<and> d_cc d = cc"
    using binary_search_sound [of "map d_cc TPM_DISPATCH_TABLE" cc]
    by (fastforce simp: dispatch_for_def)
next
  assume "d \<in> set TPM_DISPATCH_TABLE \<and> d_cc d = cc"
  then obtain k where "k < length TPM_DISPATCH_TABLE" "TPM_DISPATCH_TABLE ! k = d" "d_cc d = cc"
    by (metis in_set_conv_nth)
  then show "dispatch_for cc = Ok d"
    using binary_search_finds [OF table_sorted, of k]
    by (auto simp: dispatch_for_def simp del: and_then_Ok_iff)
qed

lemma dispatch_for_total: "\<exists>d. dispatch_for cc = Ok d"
  using TpmCc.complete [of cc] unfolding table_ccs [symmetric] dispatch_for_Ok_iff by auto

lemma row_dispatch:
  assumes "(v, cmd, resp) \<in> set dispatch_rows"
  shows "dispatch_for (f_CC cmd) = Ok (dispatch_of cmd resp)"
  using assms unfolding dispatch_for_Ok_iff TPM_DISPATCH_TABLE_def
  by (force simp: dispatch_of_def)

lemma row_unique:
  assumes "(v, cmd, resp) \<in> set dispatch_rows" "(v', cmd', resp') \<in> set dispatch_rows"
    "f_CC cmd = f_CC cmd'"
  shows "v = v' \<and> cmd = cmd' \<and> resp = resp'"
proof -
  have "distinct (map (\<lambda>(_, cmd, _). f_CC cmd) dispatch_rows)"
    unfolding row_ccs using TpmCc.distinct_values distinct_map by blast
  then have "inj_on (\<lambda>(_, cmd, _). f_CC cmd) (set dispatch_rows)"
    by (simp add: distinct_map)
  from inj_onD [OF this _ assms(1,2)] assms(3) show ?thesis by simp
qed

lemma variant_of_row:
  assumes "(v, cmd, resp) \<in> set dispatch_rows"
  shows "variant_of (f_CC cmd) = Some v"
proof -
  obtain row where row: "find (\<lambda>(_, cmd', _). f_CC cmd' = f_CC cmd) dispatch_rows = Some row"
    using assms by (cases "find (\<lambda>(_, cmd', _). f_CC cmd' = f_CC cmd) dispatch_rows")
      (auto simp: find_None_iff)
  then have "row \<in> set dispatch_rows" "(case row of (_, cmd', _) \<Rightarrow> f_CC cmd' = f_CC cmd)"
    by (auto simp: find_Some_iff) (metis nth_mem)
  with row assms row_unique show ?thesis
    by (cases row) (auto simp: variant_of_def)
qed

lemma row_of_cc: "\<exists>v cmd resp. (v, cmd, resp) \<in> set dispatch_rows \<and> f_CC cmd = cc"
proof -
  have "cc \<in> set (map (\<lambda>(_, cmd, _). f_CC cmd) dispatch_rows)"
    unfolding row_ccs by (rule TpmCc.complete)
  then show ?thesis by force
qed

lemma row_ok:
  assumes "(v, cmd, resp) \<in> set dispatch_rows"
  shows "decl_ok cmd" "decl_ok resp" "f_CC resp = f_CC cmd"
  using assms decls_ok row_response_ccs by (force simp: list_all_iff)+

end
