(* ===== verification/Wire.thy ===== *)
theory Wire
  imports Dispatch
begin

text \<open>
  The zero-copy frame views \<open>TpmCommand\<close> and \<open>TpmResponse\<close> of \<open>protocol/src/frame/wire.rs\<close> and the dispatching
  views of \<open>tpm_dispatch!\<close>.  A view is the byte list it covers.  Index expressions and \<open>split_at\<close> of the
  code are \<open>Panic\<close> out of range.  A sub-slice that the code locates with \<open>tpm_offset\<close> is carried as its
  position in the frame with its bytes.
\<close>

definition HEADER_SIZE :: nat where "HEADER_SIZE = TPM_HEADER_SIZE"

definition TAG_OFFSET :: nat where "TAG_OFFSET = 0"

definition SIZE_OFFSET :: nat where "SIZE_OFFSET = 2"

definition CODE_OFFSET :: nat where "CODE_OFFSET = 6"

lemmas wire_offsets = HEADER_SIZE_def TPM_HEADER_SIZE_def TAG_OFFSET_def SIZE_OFFSET_def
  CODE_OFFSET_def

subsection \<open>Reading and writing\<close>

definition read_be :: "nat \<Rightarrow> u8 list \<Rightarrow> nat \<Rightarrow> nat TpmResult" where
  "read_be n buf off =
     (if off + n \<le> length buf then Ok (from_be_bytes (take n (drop off buf))) else Panic)"

definition read_u16 :: "u8 list \<Rightarrow> nat \<Rightarrow> nat TpmResult" where
  "read_u16 = read_be 2"

definition read_u32 :: "u8 list \<Rightarrow> nat \<Rightarrow> nat TpmResult" where
  "read_u32 = read_be 4"

definition write_be :: "nat \<Rightarrow> u8 list \<Rightarrow> nat \<Rightarrow> nat \<Rightarrow> u8 list TpmResult" where
  "write_be n buf off v =
     (if off + n \<le> length buf
      then Ok (take off buf @ to_be_bytes n v @ drop (off + n) buf) else Panic)"

definition write_u16 :: "u8 list \<Rightarrow> nat \<Rightarrow> nat \<Rightarrow> u8 list TpmResult" where
  "write_u16 = write_be 2"

definition write_u32 :: "u8 list \<Rightarrow> nat \<Rightarrow> nat \<Rightarrow> u8 list TpmResult" where
  "write_u32 = write_be 4"

text \<open>\<open>&buf[a..b]\<close> and \<open>&buf[a..]\<close>.\<close>

definition slice :: "u8 list \<Rightarrow> nat \<Rightarrow> nat \<Rightarrow> u8 list TpmResult" where
  "slice buf a b = (if a \<le> b \<and> b \<le> length buf then Ok (take (b - a) (drop a buf)) else Panic)"

definition slice_from :: "u8 list \<Rightarrow> nat \<Rightarrow> u8 list TpmResult" where
  "slice_from buf a = (if a \<le> length buf then Ok (drop a buf) else Panic)"

subsection \<open>The common envelope\<close>

definition frame_prefix_size :: "u8 list \<Rightarrow> nat TpmResult" where
  "frame_prefix_size buf =
     (if length buf < HEADER_SIZE then Err (UnexpectedEnd 0 HEADER_SIZE (length buf))
      else and_then (read_u32 buf SIZE_OFFSET) (\<lambda>sz.
        if sz < HEADER_SIZE then Err (UnexpectedEnd SIZE_OFFSET HEADER_SIZE sz)
        else if length buf < sz then Err (UnexpectedEnd (length buf) (sz - length buf) 0)
        else Ok sz))"

definition validate_frame_size :: "u8 list \<Rightarrow> unit TpmResult" where
  "validate_frame_size buf =
     and_then (frame_prefix_size buf) (\<lambda>sz.
       if length buf > sz then Err (TrailingData sz (length buf - sz)) else Ok ())"

definition raw_tag_of :: "nat \<Rightarrow> TpmSt TpmResult" where
  "raw_tag_of raw = map_err (\<lambda>_. InvalidTag TAG_OFFSET raw) (TpmSt_try_from (int raw))"

definition envelope_tag :: "u8 list \<Rightarrow> TpmSt TpmResult" where
  "envelope_tag buf =
     and_then (read_u16 buf TAG_OFFSET) (\<lambda>raw.
       and_then (raw_tag_of raw) (\<lambda>tag.
         if tag \<noteq> St_NoSessions \<and> tag \<noteq> St_Sessions then Err (InvalidTag TAG_OFFSET raw)
         else Ok tag))"

definition command_code :: "u8 list \<Rightarrow> TpmCc TpmResult" where
  "command_code buf =
     and_then (read_u32 buf CODE_OFFSET) (\<lambda>raw.
       map_err (\<lambda>_. InvalidCc CODE_OFFSET raw) (TpmCc_try_from (int raw)))"

text \<open>The length-prefixed area after the handles that both kinds of frame have with sessions: the
  size field at \<open>off\<close> of the frame, then that many bytes.  The result is the end of the area,
  counted from the size field.\<close>

definition sized_area_end :: "u8 list \<Rightarrow> nat \<Rightarrow> nat TpmResult" where
  "sized_area_end after off =
     (if length after < 4 then Err (UnexpectedEnd off 4 (length after))
      else and_then (read_u32 after 0) (\<lambda>n.
        and_then (ok_or (IntegerTooLarge off n) (checked_add 4 n)) (\<lambda>area_end.
          if length after < area_end then Err (UnexpectedEnd (off + 4) n (length after - 4))
          else Ok area_end)))"

subsection \<open>Session areas\<close>

text \<open>\<open>tpm_offset\<close> of a slice that starts at \<open>pos\<close> in a frame of \<open>n\<close> bytes.\<close>

definition tpm_offset :: "nat \<Rightarrow> nat \<Rightarrow> nat" where
  "tpm_offset n pos = min pos n"

definition skip_tpm2b :: "nat \<Rightarrow> nat \<times> u8 list \<Rightarrow> (nat \<times> u8 list) TpmResult" where
  "skip_tpm2b n s = (case s of (pos, buf) \<Rightarrow>
     if length buf < 2 then Err (UnexpectedEnd (tpm_offset n pos) 2 (length buf))
     else and_then (read_u16 buf 0) (\<lambda>sz.
       and_then (ok_or (IntegerTooLarge (tpm_offset n pos) sz) (checked_add 2 sz)) (\<lambda>end'.
         if length buf < end' then Err (UnexpectedEnd (tpm_offset n pos) end' (length buf))
         else and_then (slice_from buf end') (\<lambda>rest. Ok (pos + end', rest)))))"

text \<open>A one-byte field after a nonce, then the \<open>TPM2B\<close> of the authorization value.\<close>

definition skip_attributes_and_hmac :: "nat \<Rightarrow> nat \<times> u8 list \<Rightarrow> (nat \<times> u8 list) TpmResult" where
  "skip_attributes_and_hmac n s = (case s of (pos, buf) \<Rightarrow>
     if buf = [] then Err (UnexpectedEnd (tpm_offset n pos) 1 0)
     else and_then (slice_from buf 1) (\<lambda>rest. skip_tpm2b n (pos + 1, rest)))"

definition skip_auth_command :: "nat \<Rightarrow> nat \<times> u8 list \<Rightarrow> (nat \<times> u8 list) TpmResult" where
  "skip_auth_command n s = (case s of (pos, buf) \<Rightarrow>
     if length buf < 4 then Err (UnexpectedEnd (tpm_offset n pos) 4 (length buf))
     else and_then (slice_from buf 4) (\<lambda>rest.
       and_then (skip_tpm2b n (pos + 4, rest)) (skip_attributes_and_hmac n)))"

definition skip_auth_response :: "nat \<Rightarrow> nat \<times> u8 list \<Rightarrow> (nat \<times> u8 list) TpmResult" where
  "skip_auth_response n s = and_then (skip_tpm2b n s) (skip_attributes_and_hmac n)"

text \<open>The loop of \<open>validate_auth_commands\<close> and \<open>validate_auth_responses\<close>, which differ in the step only.
  It ends because a session beyond \<open>MAX_SESSIONS\<close> is an error.\<close>

lemma and_then_cong [fundef_cong]:
  "\<lbrakk>r = r'; \<And>x. r' = Ok x \<Longrightarrow> f x = g x\<rbrakk> \<Longrightarrow> and_then r f = and_then r' g"
  by (cases r') simp_all

function validate_sessions ::
  "nat \<Rightarrow> (nat \<times> u8 list \<Rightarrow> (nat \<times> u8 list) TpmResult) \<Rightarrow> nat \<Rightarrow> nat \<times> u8 list \<Rightarrow> unit TpmResult"
where
  "validate_sessions n skip count s =
     (if snd s = [] then Ok ()
      else if count \<ge> MAX_SESSIONS
      then Err (TooManyItems (tpm_offset n (fst s)) MAX_SESSIONS (count + 1))
      else and_then (skip s) (\<lambda>s'. validate_sessions n skip (count + 1) s'))"
  by pat_completeness auto

termination
  by (relation "measure (\<lambda>(_, _, count, _). MAX_SESSIONS - count)") auto

declare validate_sessions.simps [simp del]

definition validate_auth_commands :: "u8 list \<Rightarrow> nat \<times> u8 list \<Rightarrow> unit TpmResult" where
  "validate_auth_commands base s =
     validate_sessions (length base) (skip_auth_command (length base)) 0 s"

definition validate_auth_responses :: "u8 list \<Rightarrow> nat \<times> u8 list \<Rightarrow> unit TpmResult" where
  "validate_auth_responses base s =
     validate_sessions (length base) (skip_auth_response (length base)) 0 s"

subsection \<open>Command frames\<close>

definition TpmCommand_validate_envelope :: "u8 list \<Rightarrow> unit TpmResult" where
  "TpmCommand_validate_envelope buf =
     and_then (validate_frame_size buf) (\<lambda>_.
     and_then (envelope_tag buf) (\<lambda>tag.
     and_then (command_code buf) (\<lambda>cc.
     and_then (dispatch_for cc) (\<lambda>dispatch.
     and_then (slice_from buf HEADER_SIZE) (\<lambda>body.
     and_then (handle_area_size (d_handles dispatch) HEADER_SIZE) (\<lambda>handle_area.
       if length body < handle_area
       then Err (UnexpectedEnd HEADER_SIZE handle_area (length body))
       else if tag = St_Sessions then
         and_then (slice_from body handle_area) (\<lambda>after.
         and_then (sized_area_end after (HEADER_SIZE + handle_area)) (\<lambda>_. Ok ()))
       else Ok ()))))))"

definition TpmCommand_cast :: "u8 list \<Rightarrow> u8 list TpmResult" where
  "TpmCommand_cast buf = and_then (TpmCommand_validate_envelope buf) (\<lambda>_. Ok buf)"

definition TpmCommand_cast_prefix :: "u8 list decode" where
  "TpmCommand_cast_prefix buf =
     and_then (frame_prefix_size buf) (\<lambda>frame_len.
     and_then (split_at frame_len buf) (\<lambda>(frame, tail).
     and_then (TpmCommand_validate_envelope frame) (\<lambda>_. Ok (frame, tail))))"

definition TpmCommand_tag :: "u8 list \<Rightarrow> TpmSt TpmResult" where
  "TpmCommand_tag f = and_then (read_u16 f TAG_OFFSET) raw_tag_of"

definition TpmCommand_size :: "u8 list \<Rightarrow> nat TpmResult" where
  "TpmCommand_size f = read_u32 f SIZE_OFFSET"

definition TpmCommand_cc :: "u8 list \<Rightarrow> TpmCc TpmResult" where
  "TpmCommand_cc f = command_code f"

definition TpmCommand_set_tag :: "u8 list \<Rightarrow> TpmSt \<Rightarrow> u8 list TpmResult" where
  "TpmCommand_set_tag f tag = write_u16 f TAG_OFFSET (nat (TpmSt_value tag))"

definition TpmCommand_set_cc :: "u8 list \<Rightarrow> TpmCc \<Rightarrow> u8 list TpmResult" where
  "TpmCommand_set_cc f cc =
     and_then (dispatch_for cc) (\<lambda>_. write_u32 f CODE_OFFSET (nat (TpmCc_value cc)))"

definition TpmCommand_handle_area_range :: "u8 list \<Rightarrow> (nat \<times> nat) TpmResult" where
  "TpmCommand_handle_area_range f =
     and_then (TpmCommand_cc f) (\<lambda>cc.
     and_then (dispatch_for cc) (\<lambda>dispatch.
     and_then (handle_area_size (d_handles dispatch) HEADER_SIZE) (\<lambda>handle_area.
     and_then (ok_or (IntegerTooLarge HEADER_SIZE handle_area)
                (checked_add HEADER_SIZE handle_area)) (\<lambda>handle_area_end.
       if length f < handle_area_end
       then Err (UnexpectedEnd HEADER_SIZE handle_area (length f - HEADER_SIZE))
       else Ok (HEADER_SIZE, handle_area_end)))))"

definition TpmCommand_session_and_parameter_ranges ::
  "u8 list \<Rightarrow> ((nat \<times> nat) \<times> (nat \<times> nat)) TpmResult" where
  "TpmCommand_session_and_parameter_ranges f =
     and_then (TpmCommand_handle_area_range f) (\<lambda>(_, start).
     and_then (TpmCommand_tag f) (\<lambda>tag.
       if tag \<noteq> St_Sessions then Ok ((start, start), (start, length f))
       else and_then (slice_from f start) (\<lambda>after.
         and_then (sized_area_end after start) (\<lambda>auth_end.
           Ok ((start + 4, start + auth_end), (start + auth_end, length f))))))"

definition TpmCommand_handles :: "u8 list \<Rightarrow> u8 list TpmResult" where
  "TpmCommand_handles f =
     and_then (TpmCommand_handle_area_range f) (\<lambda>(a, b). slice f a b)"

definition TpmCommand_auth_area :: "u8 list \<Rightarrow> u8 list TpmResult" where
  "TpmCommand_auth_area f =
     and_then (TpmCommand_session_and_parameter_ranges f) (\<lambda>((a, b), _). slice f a b)"

definition TpmCommand_parameters :: "u8 list \<Rightarrow> u8 list TpmResult" where
  "TpmCommand_parameters f =
     and_then (TpmCommand_session_and_parameter_ranges f) (\<lambda>(_, (a, b)). slice f a b)"

text \<open>\<open>validate\<close> hands the slice \<open>auth_area()\<close> to the session loop; its position is the start of that
  range.\<close>

definition TpmCommand_validate :: "u8 list \<Rightarrow> unit TpmResult" where
  "TpmCommand_validate f =
     and_then (TpmCommand_validate_envelope f) (\<lambda>_.
     and_then (TpmCommand_session_and_parameter_ranges f) (\<lambda>((a, b), _).
     and_then (slice f a b) (\<lambda>auth_area.
       validate_auth_commands f (a, auth_area))))"

definition TpmCommand_unmarshal :: "frame_decl \<Rightarrow> u8 list \<Rightarrow> frame_body TpmResult" where
  "TpmCommand_unmarshal d f =
     and_then (TpmCommand_validate f) (\<lambda>_.
     and_then (TpmCommand_cc f) (\<lambda>cc.
       if cc \<noteq> f_CC d then Err (InvalidCc CODE_OFFSET (as_u64 (TpmCc_value cc)))
       else and_then (TpmCommand_handles f) (\<lambda>handles.
         and_then (TpmCommand_parameters f) (\<lambda>parameters.
           unmarshal_body d handles parameters))))"

text \<open>\<open>cast_frame\<close> of a command declaration and the dispatching view; a view is the variant's name
  with the frame.\<close>

definition Command_cast_frame :: "frame_decl \<Rightarrow> u8 list \<Rightarrow> u8 list TpmResult" where
  "Command_cast_frame d buf =
     and_then (TpmCommand_cast buf) (\<lambda>f.
     and_then (TpmCommand_cc f) (\<lambda>cc.
       if cc \<noteq> f_CC d then Err (InvalidCc 6 (as_u64 (TpmCc_value cc))) else Ok f))"

definition TpmCommandView_cast :: "u8 list \<Rightarrow> (string \<times> u8 list) TpmResult" where
  "TpmCommandView_cast f =
     and_then (TpmCommand_validate f) (\<lambda>_.
     and_then (TpmCommand_cc f) (\<lambda>cc.
       case variant_of cc of
         Some v \<Rightarrow> Ok (v, f)
       | None \<Rightarrow> Err (InvalidCc 6 (as_u64 (TpmCc_value cc)))))"

definition TpmCommandView_cast_frame :: "u8 list \<Rightarrow> (string \<times> u8 list) TpmResult" where
  "TpmCommandView_cast_frame buf = and_then (TpmCommand_cast buf) TpmCommandView_cast"

subsection \<open>Response frames\<close>

definition raw_rc_of :: "nat \<Rightarrow> TpmRc TpmResult" where
  "raw_rc_of raw = map_err (\<lambda>_. InvalidRc CODE_OFFSET raw) (TpmRc_try_from (word_of_nat raw))"

definition TpmResponse_validate_envelope :: "u8 list \<Rightarrow> unit TpmResult" where
  "TpmResponse_validate_envelope buf =
     and_then (validate_frame_size buf) (\<lambda>_.
     and_then (envelope_tag buf) (\<lambda>_.
     and_then (read_u32 buf CODE_OFFSET) (\<lambda>raw.
     and_then (raw_rc_of raw) (\<lambda>_. Ok ()))))"

definition TpmResponse_cast :: "u8 list \<Rightarrow> u8 list TpmResult" where
  "TpmResponse_cast buf = and_then (TpmResponse_validate_envelope buf) (\<lambda>_. Ok buf)"

definition TpmResponse_cast_prefix :: "u8 list decode" where
  "TpmResponse_cast_prefix buf =
     and_then (frame_prefix_size buf) (\<lambda>frame_len.
     and_then (split_at frame_len buf) (\<lambda>(frame, tail).
     and_then (TpmResponse_validate_envelope frame) (\<lambda>_. Ok (frame, tail))))"

definition TpmResponse_tag :: "u8 list \<Rightarrow> TpmSt TpmResult" where
  "TpmResponse_tag f = and_then (read_u16 f TAG_OFFSET) raw_tag_of"

definition TpmResponse_size :: "u8 list \<Rightarrow> nat TpmResult" where
  "TpmResponse_size f = read_u32 f SIZE_OFFSET"

definition TpmResponse_rc :: "u8 list \<Rightarrow> TpmRc TpmResult" where
  "TpmResponse_rc f = and_then (read_u32 f CODE_OFFSET) raw_rc_of"

definition TpmResponse_set_tag :: "u8 list \<Rightarrow> TpmSt \<Rightarrow> u8 list TpmResult" where
  "TpmResponse_set_tag f tag = write_u16 f TAG_OFFSET (nat (TpmSt_value tag))"

definition TpmResponse_set_rc :: "u8 list \<Rightarrow> TpmRc \<Rightarrow> u8 list TpmResult" where
  "TpmResponse_set_rc f rc = write_u32 f CODE_OFFSET (unat (TpmRc_value rc))"

definition TpmResponse_body :: "u8 list \<Rightarrow> u8 list TpmResult" where
  "TpmResponse_body f = slice_from f HEADER_SIZE"

definition TpmResponse_validate :: "u8 list \<Rightarrow> TpmCc \<Rightarrow> unit TpmResult" where
  "TpmResponse_validate f cc =
     and_then (TpmResponse_validate_envelope f) (\<lambda>_.
     and_then (dispatch_for cc) (\<lambda>dispatch.
     and_then (TpmResponse_tag f) (\<lambda>tag.
     and_then (TpmResponse_rc f) (\<lambda>rc.
       if \<not> rc_success rc then
         if tag \<noteq> St_NoSessions then Err (InvalidTag TAG_OFFSET (as_u64 (TpmSt_value tag)))
         else if length f \<noteq> HEADER_SIZE
         then Err (TrailingData HEADER_SIZE (length f - HEADER_SIZE))
         else Ok ()
       else
         and_then (handle_area_size (d_response_handles dispatch) HEADER_SIZE) (\<lambda>handle_area.
         and_then (TpmResponse_body f) (\<lambda>body.
           if length body < handle_area
           then Err (UnexpectedEnd HEADER_SIZE handle_area (length body))
           else if tag \<noteq> St_Sessions then Ok ()
           else and_then (slice_from body handle_area) (\<lambda>after.
             and_then (sized_area_end after (HEADER_SIZE + handle_area)) (\<lambda>sessions_start.
             and_then (slice_from after sessions_start) (\<lambda>sessions.
               validate_auth_responses f
                 (HEADER_SIZE + handle_area + sessions_start, sessions))))))))))"

definition TpmResponse_body_parts :: "frame_decl \<Rightarrow> u8 list \<Rightarrow> (u8 list \<times> u8 list) TpmResult" where
  "TpmResponse_body_parts d f =
     and_then (handle_area_size (HANDLES d) HEADER_SIZE) (\<lambda>handle_area.
     and_then (TpmResponse_body f) (\<lambda>body.
       if length body < handle_area
       then Err (UnexpectedEnd HEADER_SIZE handle_area (length body))
       else and_then (split_at handle_area body) (\<lambda>(handles, after_handles).
         and_then (TpmResponse_tag f) (\<lambda>tag.
           if tag \<noteq> St_Sessions then Ok (handles, after_handles)
           else and_then (unmarshal TpmUint32 after_handles) (\<lambda>(parameter_size, after_size).
             let n = int_value parameter_size in
             if length after_size < n
             then Err (UnexpectedEnd (HEADER_SIZE + handle_area + 4) n (length after_size))
             else Ok (handles, take n after_size))))))"

definition TpmResponse_unmarshal :: "frame_decl \<Rightarrow> u8 list \<Rightarrow> frame_body TpmResult" where
  "TpmResponse_unmarshal d f =
     and_then (TpmResponse_validate f (f_CC d)) (\<lambda>_.
     and_then (TpmResponse_body_parts d f) (\<lambda>(handles, parameters).
       unmarshal_body d handles parameters))"

datatype TpmResponseOutcome =
    Dispatched string "u8 list"
  | Rejected TpmRc

definition TpmResponseView_cast :: "TpmCc \<Rightarrow> u8 list \<Rightarrow> TpmResponseOutcome TpmResult" where
  "TpmResponseView_cast cc f =
     and_then (TpmResponse_rc f) (\<lambda>rc.
       if \<not> rc_success rc then Ok (Rejected rc)
       else and_then (TpmResponse_validate f cc) (\<lambda>_.
         case variant_of cc of
           Some v \<Rightarrow> Ok (Dispatched v f)
         | None \<Rightarrow> Err (InvalidCc 0 (as_u64 (TpmCc_value cc)))))"

definition TpmResponseView_cast_frame :: "TpmCc \<Rightarrow> u8 list \<Rightarrow> TpmResponseOutcome TpmResult" where
  "TpmResponseView_cast_frame cc buf =
     and_then (TpmResponse_cast buf) (TpmResponseView_cast cc)"

end
