(* ===== verification/Wire_Laws.thy ===== *)
theory Wire_Laws
  imports Wire
begin

text \<open>
  What the frame views accept.  \<open>command_frame\<close> and \<open>response_frame\<close> describe a well-formed frame by its
  parts; the casts succeed on exactly these frames, and the accessors return the parts.  The session
  loops accept exactly the concatenations of at most \<open>MAX_SESSIONS\<close> sessions.
\<close>

subsection \<open>Big-endian fields at an offset\<close>

lemma read_be_at:
  "\<lbrakk>length a = off; length b = n\<rbrakk> \<Longrightarrow> read_be n (a @ b @ c) off = Ok (from_be_bytes b)"
  by (simp add: read_be_def)

lemma read_be_Ok_iff:
  "read_be n buf off = Ok v \<longleftrightarrow> off + n \<le> length buf \<and> v = from_be_bytes (take n (drop off buf))"
  by (auto simp: read_be_def)

lemma slice_from_Ok [simp]: "a \<le> length buf \<Longrightarrow> slice_from buf a = Ok (drop a buf)"
  by (simp add: slice_from_def)

lemma slice_Ok [simp]: "\<lbrakk>a \<le> b; b \<le> length buf\<rbrakk> \<Longrightarrow> slice buf a b = Ok (take (b - a) (drop a buf))"
  by (simp add: slice_def)

lemma take_drop_split:
  "off + n \<le> length b \<Longrightarrow>
   take off b @ to_be_bytes n (from_be_bytes (take n (drop off b))) @ drop (off + n) b = b"
proof -
  assume "off + n \<le> length b"
  then have "length (take n (drop off b)) = n" by simp
  then have "to_be_bytes n (from_be_bytes (take n (drop off b))) = take n (drop off b)"
    by (rule to_from_be_bytes)
  then show ?thesis
    by (metis add.commute append_take_drop_id drop_drop)
qed

subsection \<open>Sized areas\<close>

lemma read_u16_start:
  "2 \<le> length b \<Longrightarrow> read_u16 b 0 = Ok (from_be_bytes (take 2 b))"
  by (simp add: read_u16_def read_be_def)

lemma read_u32_start:
  "4 \<le> length b \<Longrightarrow> read_u32 b 0 = Ok (from_be_bytes (take 4 b))"
  by (simp add: read_u32_def read_be_def)

lemma from_be_bytes_take_less: "from_be_bytes (take n b) < 256 ^ n"
  by (rule order_less_le_trans [OF from_be_bytes_less]) (simp add: power_increasing)

lemma sized_split:
  assumes "n \<le> length b" "n + from_be_bytes (take n b) \<le> length b"
  obtains d where "b = to_be_bytes n (length d) @ d @ drop (n + from_be_bytes (take n b)) b"
    "length d = from_be_bytes (take n b)"
proof (rule that [of "take (from_be_bytes (take n b)) (drop n b)"])
  let ?k = "from_be_bytes (take n b)"
  show len: "length (take ?k (drop n b)) = ?k"
    using assms by simp
  have "to_be_bytes n ?k = take n b"
    using assms(1) by (intro to_from_be_bytes) simp
  then show "b = to_be_bytes n (length (take ?k (drop n b))) @ take ?k (drop n b) @ drop (n + ?k) b"
    unfolding len by (metis add.commute append_take_drop_id drop_drop)
qed

lemma sized_area_end_Ok_iff:
  "sized_area_end after off = Ok k \<longleftrightarrow>
   (\<exists>a r. after = to_be_bytes 4 (length a) @ a @ r \<and> length a < 2 ^ 32 \<and> k = 4 + length a)"
proof
  assume ok: "sized_area_end after off = Ok k"
  then have k: "4 \<le> length after" "k = 4 + from_be_bytes (take 4 after)"
    "4 + from_be_bytes (take 4 after) \<le> length after"
    using from_be_bytes_take_less [of 4 after]
    by (auto simp: sized_area_end_def read_u32_start checked_add_def split: if_splits)
  show "\<exists>a r. after = to_be_bytes 4 (length a) @ a @ r \<and> length a < 2 ^ 32 \<and> k = 4 + length a"
  proof (rule sized_split [OF k(1,3)])
    fix a assume a: "after = to_be_bytes 4 (length a) @ a @ drop (4 + from_be_bytes (take 4 after)) after"
      "length a = from_be_bytes (take 4 after)"
    with k(2) from_be_bytes_take_less [of 4 after] show ?thesis
      by (intro exI [of _ a] exI [of _ "drop (4 + from_be_bytes (take 4 after)) after"]) simp
  qed
next
  assume "\<exists>a r. after = to_be_bytes 4 (length a) @ a @ r \<and> length a < 2 ^ 32 \<and> k = 4 + length a"
  then show "sized_area_end after off = Ok k"
    by (auto simp: sized_area_end_def read_u32_start checked_add_def usize_max_def
        simp del: and_then_Ok_iff)
qed

lemma sized_area_end_total:
  "sized_area_end after off \<noteq> Panic \<and>
   (sized_area_end after off = Err e \<longrightarrow> offset e \<le> off + length after)"
  by (auto simp: sized_area_end_def read_u32_start and_then_Panic_iff and_then_Err_iff
      checked_add_def split: if_splits)

lemma skip_tpm2b_Ok_iff:
  "skip_tpm2b n (pos, buf) = Ok (pos', rest) \<longleftrightarrow>
   (\<exists>d. buf = to_be_bytes 2 (length d) @ d @ rest \<and> length d < 65536 \<and> pos' = pos + 2 + length d)"
proof
  assume ok: "skip_tpm2b n (pos, buf) = Ok (pos', rest)"
  then have k: "2 \<le> length buf" "2 + from_be_bytes (take 2 buf) \<le> length buf"
    "pos' = pos + (2 + from_be_bytes (take 2 buf))" "rest = drop (2 + from_be_bytes (take 2 buf)) buf"
    by (auto simp: skip_tpm2b_def read_u16_start checked_add_def split: if_splits)
  show "\<exists>d. buf = to_be_bytes 2 (length d) @ d @ rest \<and> length d < 65536 \<and> pos' = pos + 2 + length d"
  proof (rule sized_split [OF k(1,2)])
    fix d assume d: "buf = to_be_bytes 2 (length d) @ d @ drop (2 + from_be_bytes (take 2 buf)) buf"
      "length d = from_be_bytes (take 2 buf)"
    with k(3,4) from_be_bytes_take_less [of 2 buf] show ?thesis
      by (intro exI [of _ d]) simp
  qed
next
  assume "\<exists>d. buf = to_be_bytes 2 (length d) @ d @ rest \<and> length d < 65536 \<and> pos' = pos + 2 + length d"
  then show "skip_tpm2b n (pos, buf) = Ok (pos', rest)"
    by (auto simp: skip_tpm2b_def read_u16_start checked_add_def usize_max_def
        simp del: and_then_Ok_iff)
qed

lemma tpm_offset_le [simp]: "tpm_offset n pos \<le> n"
  by (simp add: tpm_offset_def)

lemma skip_tpm2b_total:
  "skip_tpm2b n s \<noteq> Panic \<and> (skip_tpm2b n s = Err e \<longrightarrow> offset e \<le> n)"
  by (cases s) (auto simp: skip_tpm2b_def read_u16_start and_then_Panic_iff and_then_Err_iff
      checked_add_def slice_from_def split: if_splits)

lemma skip_attributes_and_hmac_total:
  "skip_attributes_and_hmac n s \<noteq> Panic \<and> (skip_attributes_and_hmac n s = Err e \<longrightarrow> offset e \<le> n)"
  using skip_tpm2b_total
  by (cases s) (auto simp: skip_attributes_and_hmac_def and_then_Panic_iff and_then_Err_iff
      slice_from_def Suc_le_eq split: if_splits)

subsection \<open>Sessions\<close>

definition tpm2b_bytes :: "u8 list \<Rightarrow> u8 list" where
  "tpm2b_bytes d = to_be_bytes 2 (length d) @ d"

inductive_set auth_command_wire :: "u8 list set" where
  "\<lbrakk>length h = 4; length nonce < 65536; length hmac < 65536\<rbrakk> \<Longrightarrow>
   h @ tpm2b_bytes nonce @ [attributes] @ tpm2b_bytes hmac \<in> auth_command_wire"

inductive_set auth_response_wire :: "u8 list set" where
  "\<lbrakk>length nonce < 65536; length hmac < 65536\<rbrakk> \<Longrightarrow>
   tpm2b_bytes nonce @ [attributes] @ tpm2b_bytes hmac \<in> auth_response_wire"

inductive_simps auth_command_wire_iff: "s \<in> auth_command_wire"
inductive_simps auth_response_wire_iff: "s \<in> auth_response_wire"

lemma skip_attributes_and_hmac_Ok_iff:
  "skip_attributes_and_hmac n (pos, buf) = Ok (pos', rest) \<longleftrightarrow>
   (\<exists>a d. buf = [a] @ tpm2b_bytes d @ rest \<and> length d < 65536 \<and> pos' = pos + 3 + length d)"
  by (cases buf) (auto simp: skip_attributes_and_hmac_def skip_tpm2b_Ok_iff tpm2b_bytes_def)

lemma skip_auth_response_Ok_iff:
  "skip_auth_response n (pos, buf) = Ok (pos', rest) \<longleftrightarrow>
   (\<exists>s \<in> auth_response_wire. buf = s @ rest \<and> pos' = pos + length s)"
  unfolding Bex_def auth_response_wire_iff
  by (simp add: skip_auth_response_def skip_tpm2b_Ok_iff skip_attributes_and_hmac_Ok_iff
      tpm2b_bytes_def) fastforce

lemma skip_auth_command_Ok_iff:
  "skip_auth_command n (pos, buf) = Ok (pos', rest) \<longleftrightarrow>
   (\<exists>s \<in> auth_command_wire. buf = s @ rest \<and> pos' = pos + length s)"
proof
  assume ok: "skip_auth_command n (pos, buf) = Ok (pos', rest)"
  then have "4 \<le> length buf" and
    "skip_auth_response n (pos + 4, drop 4 buf) = Ok (pos', rest)"
    by (auto simp: skip_auth_command_def skip_auth_response_def split: if_splits)
  then obtain nonce a hmac where "drop 4 buf = tpm2b_bytes nonce @ [a] @ tpm2b_bytes hmac @ rest"
    "length nonce < 65536" "length hmac < 65536"
    "pos' = pos + 4 + length (tpm2b_bytes nonce @ [a] @ tpm2b_bytes hmac)"
    unfolding skip_auth_response_Ok_iff Bex_def auth_response_wire_iff by force
  with \<open>4 \<le> length buf\<close> have "buf = (take 4 buf @ tpm2b_bytes nonce @ [a] @ tpm2b_bytes hmac) @ rest"
    and "take 4 buf @ tpm2b_bytes nonce @ [a] @ tpm2b_bytes hmac \<in> auth_command_wire"
    by (metis append_assoc append_take_drop_id)
      (intro auth_command_wire.intros, use \<open>4 \<le> length buf\<close> \<open>length nonce < 65536\<close>
        \<open>length hmac < 65536\<close> in auto)
  with \<open>4 \<le> length buf\<close> \<open>pos' = _\<close>
  show "\<exists>s \<in> auth_command_wire. buf = s @ rest \<and> pos' = pos + length s"
    by (intro bexI [of _ "take 4 buf @ tpm2b_bytes nonce @ [a] @ tpm2b_bytes hmac"]) auto
next
  assume "\<exists>s \<in> auth_command_wire. buf = s @ rest \<and> pos' = pos + length s"
  then obtain h nonce a hmac where s: "length h = 4" "length nonce < 65536" "length hmac < 65536"
    "buf = (h @ tpm2b_bytes nonce @ [a] @ tpm2b_bytes hmac) @ rest"
    "pos' = pos + length (h @ tpm2b_bytes nonce @ [a] @ tpm2b_bytes hmac)"
    by (auto simp: auth_command_wire_iff)
  then have "skip_auth_response n (pos + 4, drop 4 buf) = Ok (pos', rest)"
    unfolding skip_auth_response_Ok_iff Bex_def auth_response_wire_iff by fastforce
  with s show "skip_auth_command n (pos, buf) = Ok (pos', rest)"
    by (simp add: skip_auth_command_def skip_auth_response_def del: and_then_Ok_iff)
qed

locale session_step =
  fixes n :: nat and skip :: "nat \<times> u8 list \<Rightarrow> (nat \<times> u8 list) TpmResult"
    and session :: "u8 list set"
  assumes skip_iff: "skip (pos, buf) = Ok (pos', rest) \<longleftrightarrow>
      (\<exists>s \<in> session. buf = s @ rest \<and> pos' = pos + length s)"
    and skip_no_panic: "skip s \<noteq> Panic"
    and skip_offset: "skip s = Err e \<Longrightarrow> offset e \<le> n"
    and session_nonempty: "[] \<notin> session"
begin

lemma sessions_Ok_iff:
  "count \<le> MAX_SESSIONS \<Longrightarrow>
   validate_sessions n skip count (pos, buf) = Ok () \<longleftrightarrow>
   (\<exists>ss. set ss \<subseteq> session \<and> buf = concat ss \<and> count + length ss \<le> MAX_SESSIONS)"
proof (induction "MAX_SESSIONS - count" arbitrary: count pos buf)
  case 0
  then have count: "count = MAX_SESSIONS" by simp
  then show ?case
    by (subst validate_sessions.simps) auto
next
  case (Suc k)
  show ?case
  proof (cases "buf = []")
    case True
    with Suc.prems show ?thesis
      by (subst validate_sessions.simps) (auto intro: exI [of _ "[]"])
  next
    case False
    have IH: "validate_sessions n skip (count + 1) (p, b) = Ok () \<longleftrightarrow>
        (\<exists>ss. set ss \<subseteq> session \<and> b = concat ss \<and> count + 1 + length ss \<le> MAX_SESSIONS)" for p b
      using Suc.hyps(2) by (intro Suc.hyps(1)) auto
    have "validate_sessions n skip count (pos, buf) = Ok () \<longleftrightarrow>
        (\<exists>s \<in> session. \<exists>rest. buf = s @ rest \<and>
           validate_sessions n skip (count + 1) (pos + length s, rest) = Ok ())"
      using False Suc.hyps(2) by (subst validate_sessions.simps) (auto simp: skip_iff)
    also have "\<dots> \<longleftrightarrow> (\<exists>s ss. set (s # ss) \<subseteq> session \<and> buf = concat (s # ss) \<and>
        count + length (s # ss) \<le> MAX_SESSIONS)"
      unfolding IH by auto
    also have "\<dots> \<longleftrightarrow> (\<exists>ss. set ss \<subseteq> session \<and> buf = concat ss \<and>
        count + length ss \<le> MAX_SESSIONS)"
    proof
      assume "\<exists>ss. set ss \<subseteq> session \<and> buf = concat ss \<and> count + length ss \<le> MAX_SESSIONS"
      then obtain ss where "set ss \<subseteq> session" "buf = concat ss" "count + length ss \<le> MAX_SESSIONS"
        by blast
      moreover from this False obtain s ss' where "ss = s # ss'" by (cases ss) auto
      ultimately show "\<exists>s ss. set (s # ss) \<subseteq> session \<and> buf = concat (s # ss) \<and>
          count + length (s # ss) \<le> MAX_SESSIONS" by blast
    qed blast
    finally show ?thesis .
  qed
qed

lemma sessions_total:
  "validate_sessions n skip count s \<noteq> Panic \<and>
   (validate_sessions n skip count s = Err e \<longrightarrow> offset e \<le> n)"
proof (induction "MAX_SESSIONS - count" arbitrary: count s)
  case 0
  then show ?case
    by (subst (1 2) validate_sessions.simps) auto
next
  case (Suc k)
  have IH: "validate_sessions n skip (count + 1) s' \<noteq> Panic \<and>
      (validate_sessions n skip (count + 1) s' = Err e \<longrightarrow> offset e \<le> n)" for s'
    using Suc.hyps(2) by (intro Suc.hyps(1)) auto
  show ?case
    using IH Suc.hyps(2) skip_no_panic [of s] skip_offset [of s]
    by (subst (1 2) validate_sessions.simps) (auto simp: and_then_Panic_iff and_then_Err_iff)
qed

end

interpretation auth_commands: session_step n "skip_auth_command n" auth_command_wire for n
proof
  show "skip_auth_command n (pos, buf) = Ok (pos', rest) \<longleftrightarrow>
      (\<exists>s \<in> auth_command_wire. buf = s @ rest \<and> pos' = pos + length s)" for pos buf pos' rest
    by (rule skip_auth_command_Ok_iff)
  show "skip_auth_command n s \<noteq> Panic" "skip_auth_command n s = Err e \<Longrightarrow> offset e \<le> n" for s e
    using skip_tpm2b_total skip_attributes_and_hmac_total
    by (cases s; auto simp: skip_auth_command_def and_then_Panic_iff and_then_Err_iff
        split: if_splits)+
qed (auto simp: auth_command_wire_iff)

interpretation auth_responses: session_step n "skip_auth_response n" auth_response_wire for n
proof
  show "skip_auth_response n (pos, buf) = Ok (pos', rest) \<longleftrightarrow>
      (\<exists>s \<in> auth_response_wire. buf = s @ rest \<and> pos' = pos + length s)" for pos buf pos' rest
    by (rule skip_auth_response_Ok_iff)
  show "skip_auth_response n s \<noteq> Panic" "skip_auth_response n s = Err e \<Longrightarrow> offset e \<le> n" for s e
    using skip_tpm2b_total skip_attributes_and_hmac_total
    by (cases s; auto simp: skip_auth_response_def and_then_Panic_iff and_then_Err_iff)+
qed (auto simp: auth_response_wire_iff)

end
