(* ===== verification/Wire_Frames.thy ===== *)
theory Wire_Frames
  imports Wire_Laws
begin

text \<open>
  Whole frames.  \<open>frame_bytes tag code body\<close> is a frame with its header; \<open>command_bytes\<close> and
  \<open>response_bytes\<close> of theory \<open>Frame_Laws\<close> are of this form.  The lemmas read the header fields back,
  characterise the frames the casts accept and evaluate the accessors on them.
\<close>

subsection \<open>Headers\<close>

definition frame_bytes :: "TpmSt \<Rightarrow> nat \<Rightarrow> u8 list \<Rightarrow> u8 list" where
  "frame_bytes tag code body = header tag (length body) code @ body"

definition session_tag :: "TpmSt \<Rightarrow> bool" where
  "session_tag tag \<longleftrightarrow> tag = St_NoSessions \<or> tag = St_Sessions"

lemma length_header [simp]: "length (header tag n code) = 10"
  by (simp add: header_def)

lemma length_frame_bytes [simp]: "length (frame_bytes tag code body) = 10 + length body"
  by (simp add: frame_bytes_def)

lemma St_value_bounds: "0 \<le> TpmSt_value tag" "nat (TpmSt_value tag) < 65536"
  using TpmSt.value_range [of tag] by (auto simp: repr_range_def)

lemma Cc_value_bounds: "0 \<le> TpmCc_value cc" "nat (TpmCc_value cc) < 2 ^ 32"
  using TpmCc.value_range [of cc] by (auto simp: repr_range_def)

lemma read_tag: "read_u16 (frame_bytes tag code body) TAG_OFFSET = Ok (nat (TpmSt_value tag))"
  using St_value_bounds [of tag]
  by (simp add: read_u16_def read_be_def frame_bytes_def header_def wire_offsets)

lemma read_size:
  "10 + length body < 2 ^ 32 \<Longrightarrow>
   read_u32 (frame_bytes tag code body @ tail) SIZE_OFFSET = Ok (10 + length body)"
  by (simp add: read_u32_def read_be_def frame_bytes_def header_def wire_offsets)

lemma read_code:
  "code < 2 ^ 32 \<Longrightarrow> read_u32 (frame_bytes tag code body) CODE_OFFSET = Ok code"
  by (simp add: read_u32_def read_be_def frame_bytes_def header_def wire_offsets)

lemma drop_header [simp]: "drop 10 (frame_bytes tag code body) = body"
  by (simp add: frame_bytes_def)

lemma drop_frame: "10 \<le> k \<Longrightarrow> drop k (frame_bytes tag code body) = drop (k - 10) body"
  by (simp add: frame_bytes_def)

lemma TpmSt_try_from_value: "TpmSt_try_from (TpmSt_value tag) = Ok tag"
  by (simp add: TpmSt_try_from_def TpmSt.try_from_value)

lemma TpmCc_try_from_value: "TpmCc_try_from (TpmCc_value cc) = Ok cc"
  by (simp add: TpmCc_try_from_def TpmCc.try_from_value)

lemma TpmSt_try_from_Ok_iff: "TpmSt_try_from n = Ok tag \<longleftrightarrow> TpmSt_value tag = n"
  by (simp add: TpmSt_try_from_def TpmSt.try_from_Ok_iff)

lemma TpmCc_try_from_Ok_iff: "TpmCc_try_from n = Ok cc \<longleftrightarrow> TpmCc_value cc = n"
  by (simp add: TpmCc_try_from_def TpmCc.try_from_Ok_iff)

lemma try_from_not_Panic [simp]: "TpmSt_try_from n \<noteq> Panic" "TpmCc_try_from n \<noteq> Panic"
  by (simp_all add: TpmSt_try_from_def TpmCc_try_from_def enum_try_from_def split: option.splits)

lemma raw_tag_of_value: "raw_tag_of (nat (TpmSt_value tag)) = Ok tag"
  using St_value_bounds [of tag] by (simp add: raw_tag_of_def TpmSt_try_from_value)

lemma frame_tag:
  "TpmCommand_tag (frame_bytes tag code body) = Ok tag"
  "TpmResponse_tag (frame_bytes tag code body) = Ok tag"
  by (simp_all add: TpmCommand_tag_def TpmResponse_tag_def read_tag raw_tag_of_value
      del: and_then_Ok_iff)

lemma frame_envelope_tag:
  "session_tag tag \<Longrightarrow> envelope_tag (frame_bytes tag code body) = Ok tag"
  by (simp add: envelope_tag_def read_tag raw_tag_of_value session_tag_def del: and_then_Ok_iff)

definition size_field :: "u8 list \<Rightarrow> nat" where
  "size_field f = from_be_bytes (take 4 (drop 2 f))"

lemma frame_prefix_size_eq:
  "frame_prefix_size f =
     (if length f < 10 then Err (UnexpectedEnd 0 10 (length f))
      else if size_field f < 10 then Err (UnexpectedEnd 2 10 (size_field f))
      else if length f < size_field f then Err (UnexpectedEnd (length f) (size_field f - length f) 0)
      else Ok (size_field f))"
  by (simp add: frame_prefix_size_def read_u32_def read_be_def wire_offsets size_field_def)

lemma validate_frame_size_eq:
  "validate_frame_size f =
     (if length f < 10 then Err (UnexpectedEnd 0 10 (length f))
      else if size_field f < 10 then Err (UnexpectedEnd 2 10 (size_field f))
      else if length f < size_field f then Err (UnexpectedEnd (length f) (size_field f - length f) 0)
      else if length f > size_field f then Err (TrailingData (size_field f) (length f - size_field f))
      else Ok ())"
  by (simp add: validate_frame_size_def frame_prefix_size_eq)

lemma size_field_frame:
  "10 + length body < 2 ^ 32 \<Longrightarrow>
   size_field (frame_bytes tag code body @ tail) = 10 + length body"
  by (simp add: size_field_def frame_bytes_def header_def)

lemma frame_size:
  "10 + length body < 2 ^ 32 \<Longrightarrow>
   frame_prefix_size (frame_bytes tag code body @ tail) = Ok (10 + length body)"
  by (simp add: frame_prefix_size_eq size_field_frame)

lemma frame_validate_size:
  "10 + length body < 2 ^ 32 \<Longrightarrow> validate_frame_size (frame_bytes tag code body) = Ok ()"
  using frame_size [of body tag code "[]"]
  by (simp add: validate_frame_size_def del: and_then_Ok_iff)

lemma frame_cc:
  "command_code (frame_bytes tag (nat (TpmCc_value cc)) body) = Ok cc"
  using Cc_value_bounds [of cc]
  by (simp add: command_code_def read_code TpmCc_try_from_value del: and_then_Ok_iff)

lemma frame_rc:
  "rc_ok rc \<Longrightarrow> TpmResponse_rc (frame_bytes tag (unat (TpmRc_value rc)) body) = Ok rc"
  using unsigned_less [where 'a = nat, of "TpmRc_value rc"]
  by (simp add: TpmResponse_rc_def read_code raw_rc_of_def TpmRc_value_try_from
      del: and_then_Ok_iff)

text \<open>Every byte list that passes the size and tag checks is such a frame.\<close>

lemma frame_of_header:
  assumes "validate_frame_size f = Ok ()" "envelope_tag f = Ok tag"
  obtains code body where "f = frame_bytes tag code body" "code < 2 ^ 32"
    "10 + length body < 2 ^ 32" "session_tag tag"
proof
  let ?code = "from_be_bytes (take 4 (drop 6 f))"
  have len: "10 \<le> length f" and "size_field f = length f"
    using assms(1) by (auto simp: validate_frame_size_eq split: if_splits)
  then have sz: "from_be_bytes (take 4 (drop 2 f)) = length f"
    by (simp only: size_field_def)
  have tag: "nat (TpmSt_value tag) = from_be_bytes (take 2 f)" and "session_tag tag"
    using assms(2) by (auto simp: envelope_tag_def read_u16_def read_be_def wire_offsets
        raw_tag_of_def TpmSt_try_from_Ok_iff session_tag_def split: if_splits)
  then show "session_tag tag" by simp
  show "?code < 2 ^ 32"
    using from_be_bytes_take_less [of 4 "drop 6 f"] by simp
  show "10 + length (drop 10 f) < 2 ^ 32"
    using from_be_bytes_take_less [of 4 "drop 2 f"] len unfolding sz by simp
  have "f = take 2 f @ take 4 (drop 2 f) @ take 4 (drop 6 f) @ drop 10 f"
    using append_take_drop_id [of 4 "drop 2 f"] append_take_drop_id [of 4 "drop 6 f"] by simp
  moreover have "take 2 f = to_be_bytes 2 (nat (TpmSt_value tag))"
    and "take 4 (drop 2 f) = to_be_bytes 4 (10 + length (drop 10 f))"
    and "take 4 (drop 6 f) = to_be_bytes 4 ?code"
    using len to_from_be_bytes [of "take 4 (drop 2 f)" 4] unfolding sz tag by simp_all
  ultimately show "f = frame_bytes tag ?code (drop 10 f)"
    unfolding frame_bytes_def header_def by simp
qed

lemma validate_frame_size_total:
  "validate_frame_size f \<noteq> Panic \<and> (validate_frame_size f = Err e \<longrightarrow> offset e \<le> length f)"
  by (auto simp: validate_frame_size_eq)

lemma raw_tag_of_total [simp]: "raw_tag_of raw \<noteq> Panic"
  by (simp add: raw_tag_of_def)

lemma raw_tag_of_Err: "raw_tag_of raw = Err e \<Longrightarrow> offset e = 0"
  by (auto simp: raw_tag_of_def TAG_OFFSET_def)

lemma envelope_tag_total:
  "10 \<le> length f \<Longrightarrow>
   envelope_tag f \<noteq> Panic \<and> (envelope_tag f = Err e \<longrightarrow> offset e \<le> length f)"
  by (auto simp: envelope_tag_def read_u16_def read_be_def wire_offsets and_then_Panic_iff
      and_then_Err_iff split: if_splits dest!: raw_tag_of_Err)

lemma validated_length: "validate_frame_size f = Ok () \<Longrightarrow> 10 \<le> length f"
  by (simp add: validate_frame_size_eq split: if_splits)

end
