(* ===== verification/Wire_Command.thy ===== *)
theory Wire_Command
  imports Wire_Frames
begin

text \<open>
  Command frames: the frames \<open>TpmCommand::cast\<close> accepts, the accessors on them, and the round trip
  of \<open>tpm_marshal_command\<close> and \<open>TpmCommand::unmarshal\<close>.
\<close>

definition command_frame ::
  "frame_decl \<Rightarrow> TpmSt \<Rightarrow> u8 list \<Rightarrow> u8 list \<Rightarrow> u8 list \<Rightarrow> u8 list \<Rightarrow> bool" where
  "command_frame cmd tag hb auth pb f \<longleftrightarrow>
     session_tag tag \<and> (tag = St_NoSessions \<longrightarrow> auth = []) \<and> length hb = HANDLES cmd * 4 \<and>
     f = command_bytes (f_CC cmd) tag hb auth pb \<and> length f < 2 ^ 32"

lemma command_bytes_frame:
  "command_bytes cc tag hb auth pb =
   frame_bytes tag (nat (TpmCc_value cc)) (command_body tag hb auth pb)"
  by (simp add: command_bytes_def frame_bytes_def)

lemma row_handles: "(v, cmd, resp) \<in> set dispatch_rows \<Longrightarrow> HANDLES cmd \<le> 8 \<and> HANDLES resp \<le> 8"
  using row_ok decl_okD(1) by blast

lemma row_handle_area:
  assumes "(v, cmd, resp) \<in> set dispatch_rows"
  shows "handle_area_size (HANDLES cmd) off = Ok (HANDLES cmd * 4)"
    "handle_area_size (HANDLES resp) off = Ok (HANDLES resp * 4)"
  using row_handles [OF assms] by (auto simp: usize_max_def)

lemma dispatch_of_simps [simp]:
  "d_cc (dispatch_of cmd resp) = f_CC cmd" "d_handles (dispatch_of cmd resp) = HANDLES cmd"
  "d_response_handles (dispatch_of cmd resp) = HANDLES resp"
  by (simp_all add: dispatch_of_def)

lemma sized_area_end_append:
  "length a < 2 ^ 32 \<Longrightarrow> sized_area_end (to_be_bytes 4 (length a) @ a @ r) off = Ok (4 + length a)"
  unfolding sized_area_end_Ok_iff by blast

text \<open>The accessors on a well-formed frame of a row of the table.\<close>

lemma command_frame_accepted:
  assumes row: "(v, cmd, resp) \<in> set dispatch_rows" and f: "command_frame cmd tag hb auth pb f"
  shows "TpmCommand_validate_envelope f = Ok ()"
proof -
  let ?body = "command_body tag hb auth pb"
  have tag: "session_tag tag" and hb: "length hb = HANDLES cmd * 4"
    and eq: "f = frame_bytes tag (nat (TpmCc_value (f_CC cmd))) ?body"
    and len: "10 + length ?body < 2 ^ 32"
    using f by (auto simp: command_frame_def command_bytes_frame)
  have auth: "length auth < 2 ^ 32" if "tag = St_Sessions"
    using that len by (simp add: command_body_def)
  show ?thesis
    using tag hb auth len row_dispatch [OF row]
    unfolding eq
    by (auto simp: TpmCommand_validate_envelope_def frame_validate_size frame_envelope_tag frame_cc
        row_handle_area [OF row] HEADER_SIZE_def TPM_HEADER_SIZE_def session_tag_def
        command_body_def sized_area_end_append simp del: and_then_Ok_iff)
qed

lemma command_frame_sound:
  assumes "TpmCommand_validate_envelope f = Ok ()"
  obtains v cmd resp tag hb auth pb
  where "(v, cmd, resp) \<in> set dispatch_rows" "command_frame cmd tag hb auth pb f"
proof -
  from assms obtain tag where size: "validate_frame_size f = Ok ()" and tag: "envelope_tag f = Ok tag"
    by (auto simp: TpmCommand_validate_envelope_def)
  then obtain code body where f: "f = frame_bytes tag code body" and code: "code < 2 ^ 32"
    and len: "10 + length body < 2 ^ 32" and st: "session_tag tag"
    by (rule frame_of_header)
  from assms obtain cc where cc: "command_code f = Ok cc"
    by (auto simp: TpmCommand_validate_envelope_def)
  then have code_eq: "code = nat (TpmCc_value cc)"
    by (auto simp: f command_code_def read_code [OF code] TpmCc_try_from_Ok_iff)
  obtain v cmd resp where row: "(v, cmd, resp) \<in> set dispatch_rows" and cmd: "f_CC cmd = cc"
    using row_of_cc [of cc] by blast
  have area: "HANDLES cmd * 4 \<le> length body"
    and auth: "tag = St_Sessions \<Longrightarrow> \<exists>k. sized_area_end (drop (HANDLES cmd * 4) body)
        (HEADER_SIZE + HANDLES cmd * 4) = Ok k"
    using assms row_dispatch [OF row] cc tag
    by (auto simp: TpmCommand_validate_envelope_def cmd row_handle_area [OF row] f
        wire_offsets split: if_splits)
  let ?hb = "take (HANDLES cmd * 4) body"
  show thesis
  proof (cases "tag = St_Sessions")
    case True
    then obtain a r where r: "drop (HANDLES cmd * 4) body = to_be_bytes 4 (length a) @ a @ r"
      using auth by (auto simp: sized_area_end_Ok_iff)
    have "body = ?hb @ to_be_bytes 4 (length a) @ a @ r"
      unfolding r [symmetric] by simp
    then have "command_frame cmd tag ?hb a r f"
      using True st area len code_eq cmd f
      by (simp add: command_frame_def command_bytes_frame command_body_def)
    with row show thesis by (rule that)
  next
    case False
    have "command_frame cmd tag ?hb [] (drop (HANDLES cmd * 4) body) f"
      using False st area len code_eq cmd f
      by (simp add: command_frame_def command_bytes_frame command_body_def)
    with row show thesis by (rule that)
  qed
qed

lemma command_frame_accessors:
  assumes row: "(v, cmd, resp) \<in> set dispatch_rows" and f: "command_frame cmd tag hb auth pb f"
  shows "TpmCommand_tag f = Ok tag" "TpmCommand_cc f = Ok (f_CC cmd)"
    "TpmCommand_size f = Ok (length f)"
    "TpmCommand_handles f = Ok hb" "TpmCommand_auth_area f = Ok auth"
    "TpmCommand_parameters f = Ok pb"
    "\<exists>a b. TpmCommand_session_and_parameter_ranges f = Ok ((a, a + length auth), (b, length f)) \<and>
       slice f a (a + length auth) = Ok auth"
proof -
  let ?body = "command_body tag hb auth pb"
  have tag: "session_tag tag" and hb: "length hb = HANDLES cmd * 4"
    and no_auth: "tag = St_NoSessions \<Longrightarrow> auth = []"
    and eq: "f = frame_bytes tag (nat (TpmCc_value (f_CC cmd))) ?body"
    and len: "10 + length ?body < 2 ^ 32"
    using f by (auto simp: command_frame_def command_bytes_frame)
  show t: "TpmCommand_tag f = Ok tag"
    unfolding eq by (rule frame_tag)
  show cc: "TpmCommand_cc f = Ok (f_CC cmd)"
    unfolding eq TpmCommand_cc_def by (rule frame_cc)
  show "TpmCommand_size f = Ok (length f)"
    using read_size [OF len, of tag _ "[]"] unfolding eq TpmCommand_size_def by simp
  have range: "TpmCommand_handle_area_range f = Ok (10, 10 + length hb)"
    using row_handles [OF row] hb unfolding TpmCommand_handle_area_range_def cc
    by (simp add: row_dispatch [OF row] row_handle_area [OF row] eq wire_offsets usize_max_def
        command_body_def del: and_then_Ok_iff)
  show "TpmCommand_handles f = Ok hb"
    unfolding TpmCommand_handles_def range
    by (simp add: eq command_body_def drop_frame del: and_then_Ok_iff)
  have rest: "slice_from f (10 + length hb) = Ok (drop (length hb) ?body)"
    by (simp add: eq drop_frame command_body_def)
  let ?a = "10 + length hb + (if tag = St_Sessions then 4 else 0)"
  have auth_len: "tag = St_Sessions \<Longrightarrow> length auth < 2 ^ 32"
    using len by (simp add: command_body_def)
  have ranges: "TpmCommand_session_and_parameter_ranges f =
      Ok ((?a, ?a + length auth), (?a + length auth, length f))"
    using tag no_auth auth_len
    by (auto simp: TpmCommand_session_and_parameter_ranges_def range t rest session_tag_def
        command_body_def sized_area_end_append simp del: and_then_Ok_iff)
  have slice: "slice f ?a (?a + length auth) = Ok auth"
    using tag no_auth by (auto simp: eq drop_frame command_body_def session_tag_def)
  show "TpmCommand_auth_area f = Ok auth"
    by (simp only: TpmCommand_auth_area_def ranges and_then.simps prod.case slice)
  show "TpmCommand_parameters f = Ok pb"
    using tag no_auth unfolding TpmCommand_parameters_def ranges
    by (auto simp: eq drop_frame command_body_def session_tag_def simp del: and_then_Ok_iff)
  show "\<exists>a b. TpmCommand_session_and_parameter_ranges f = Ok ((a, a + length auth), (b, length f)) \<and>
       slice f a (a + length auth) = Ok auth"
    using ranges slice by blast
qed

lemma TpmCommand_cast_iff:
  "TpmCommand_cast f = Ok g \<longleftrightarrow>
   g = f \<and> (\<exists>v cmd resp tag hb auth pb.
     (v, cmd, resp) \<in> set dispatch_rows \<and> command_frame cmd tag hb auth pb f)"
  using command_frame_accepted
  by (auto simp: TpmCommand_cast_def elim!: command_frame_sound) blast

lemma TpmCommand_validate_frame:
  assumes "(v, cmd, resp) \<in> set dispatch_rows" "command_frame cmd tag hb auth pb f"
  shows "\<exists>a. TpmCommand_validate f = validate_auth_commands f (a, auth)"
  using command_frame_accepted [OF assms] command_frame_accessors(7) [OF assms]
  by (auto simp: TpmCommand_validate_def simp del: and_then_Ok_iff)

lemma validate_auth_commands_Ok_iff:
  "validate_auth_commands f (pos, auth) = Ok () \<longleftrightarrow>
   (\<exists>ss. set ss \<subseteq> auth_command_wire \<and> auth = concat ss \<and> length ss \<le> MAX_SESSIONS)"
  using auth_commands.sessions_Ok_iff [of 0] by (simp add: validate_auth_commands_def)

lemma TpmCommand_validate_iff:
  "TpmCommand_validate f = Ok () \<longleftrightarrow> (\<exists>v cmd resp tag hb auth pb ss.
     (v, cmd, resp) \<in> set dispatch_rows \<and> command_frame cmd tag hb auth pb f \<and>
     set ss \<subseteq> auth_command_wire \<and> auth = concat ss \<and> length ss \<le> MAX_SESSIONS)"
proof
  assume ok: "TpmCommand_validate f = Ok ()"
  then have "TpmCommand_validate_envelope f = Ok ()"
    by (auto simp: TpmCommand_validate_def)
  then obtain v cmd resp tag hb auth pb where
    row: "(v, cmd, resp) \<in> set dispatch_rows" "command_frame cmd tag hb auth pb f"
    by (rule command_frame_sound)
  with ok TpmCommand_validate_frame [OF row] validate_auth_commands_Ok_iff
  show "\<exists>v cmd resp tag hb auth pb ss.
     (v, cmd, resp) \<in> set dispatch_rows \<and> command_frame cmd tag hb auth pb f \<and>
     set ss \<subseteq> auth_command_wire \<and> auth = concat ss \<and> length ss \<le> MAX_SESSIONS"
    by metis
next
  assume "\<exists>v cmd resp tag hb auth pb ss.
     (v, cmd, resp) \<in> set dispatch_rows \<and> command_frame cmd tag hb auth pb f \<and>
     set ss \<subseteq> auth_command_wire \<and> auth = concat ss \<and> length ss \<le> MAX_SESSIONS"
  then show "TpmCommand_validate f = Ok ()"
    using TpmCommand_validate_frame validate_auth_commands_Ok_iff by metis
qed

text \<open>A declaration's own reading of a frame.\<close>

lemma TpmCommand_unmarshal_frame:
  assumes row: "(v, cmd, resp) \<in> set dispatch_rows" and f: "command_frame cmd tag hb auth pb f"
    and ok: "TpmCommand_validate f = Ok ()"
  shows "TpmCommand_unmarshal cmd f = unmarshal_body cmd hb pb"
  by (simp add: TpmCommand_unmarshal_def ok command_frame_accessors [OF row f]
      del: and_then_Ok_iff)


subsection \<open>Encoded sessions\<close>

lemma encode_struct:
  assumes "codecs_ok fs" "fields_SIZE fs \<le> u16_max" "fields_valid fs vs"
  shows "encode (tpm_struct fs) (VStruct vs) = fields_enc fs vs"
  using fields_len_le [OF assms(1,3)] assms
  by (intro encode_eqI) (auto simp: tpm_struct_def fields_marshal_emits length_fields_enc
      intro: order_trans [OF _ u16_max_le_usize_max])

lemma encode_buffer:
  assumes "valid (TpmBuffer C) (VBuffer d)"
  shows "encode (TpmBuffer C) (VBuffer d) = tpm2b_bytes d"
  using assms by (intro encode_eqI)
    (auto simp: TpmBuffer_def tpm2b_bytes_def u16_max_def usize_max_def)

lemma encode_session_parts:
  assumes "valid Tpm2bNonce n" "valid TpmaSession a" "valid Tpm2bAuth m"
  shows "\<exists>nonce attributes hmac. length nonce < 65536 \<and> length hmac < 65536 \<and>
    encode Tpm2bNonce n @ encode TpmaSession a @ encode Tpm2bAuth m =
    tpm2b_bytes nonce @ [attributes] @ tpm2b_bytes hmac"
proof -
  obtain nonce hmac where n: "n = VBuffer nonce" "m = VBuffer hmac"
    "length nonce < 65536" "length hmac < 65536"
    using assms(1,3) by (auto simp: Tpm2bNonce_def Tpm2bAuth_def TpmBuffer_valid_iff u16_max_def)
  have "length (encode TpmaSession a) = 1"
    using wire_codec.length_encode [OF wire_field_codec [OF TpmaSession_ok] assms(2)]
    by (simp add: TpmaSession_def tpm_bitflags_def)
  then obtain x where "encode TpmaSession a = [x]"
    by (cases "encode TpmaSession a") auto
  with n assms(1,3) show ?thesis
    by (auto simp: Tpm2bNonce_def Tpm2bAuth_def encode_buffer)
qed

lemma session_fields_ok:
  "codecs_ok [(''session_handle'', TpmHandle), (''nonce'', Tpm2bNonce),
     (''session_attributes'', TpmaSession), (''hmac'', Tpm2bAuth)]"
  "codecs_ok [(''nonce'', Tpm2bNonce), (''session_attributes'', TpmaSession), (''hmac'', Tpm2bAuth)]"
  by (simp_all add: wire_field_codec TpmHandle_ok Tpm2bNonce_ok TpmaSession_ok Tpm2bAuth_ok)

lemma encode_auth_command:
  assumes "valid TpmsAuthCommand s"
  shows "encode TpmsAuthCommand s \<in> auth_command_wire"
proof -
  obtain h n a m where s: "s = VStruct [h, n, a, m]" and
    v: "valid TpmHandle h" "valid Tpm2bNonce n" "valid TpmaSession a" "valid Tpm2bAuth m"
    using assms by (auto simp: TpmsAuthCommand_def tpm_struct_valid_iff elim!: fields_valid.elims)
  have "encode TpmsAuthCommand s =
      encode TpmHandle h @ encode Tpm2bNonce n @ encode TpmaSession a @ encode Tpm2bAuth m"
    using v session_fields_ok(1)
    by (simp add: TpmsAuthCommand_def s encode_struct fields_SIZE_def u16_max_def)
  moreover have "length (encode TpmHandle h) = 4"
    using v(1) by (simp add: wire_codec.length_encode [OF TpmHandle_codec])
  ultimately show ?thesis
    using encode_session_parts [OF v(2-4)] auth_command_wire.intros by metis
qed

lemma encode_auth_response:
  assumes "valid TpmsAuthResponse s"
  shows "encode TpmsAuthResponse s \<in> auth_response_wire"
proof -
  obtain n a m where s: "s = VStruct [n, a, m]" and
    v: "valid Tpm2bNonce n" "valid TpmaSession a" "valid Tpm2bAuth m"
    using assms by (auto simp: TpmsAuthResponse_def tpm_struct_valid_iff elim!: fields_valid.elims)
  have "encode TpmsAuthResponse s =
      encode Tpm2bNonce n @ encode TpmaSession a @ encode Tpm2bAuth m"
    using v session_fields_ok(2)
    by (simp add: TpmsAuthResponse_def s encode_struct fields_SIZE_def u16_max_def)
  then show ?thesis
    using encode_session_parts [OF v] by (auto simp: auth_response_wire_iff)
qed

lemma sessions_wire:
  assumes "list_all (valid c) ss" "\<And>s. valid c s \<Longrightarrow> encode c s \<in> S"
  shows "\<exists>ws. set ws \<subseteq> S \<and> items_enc c ss = concat ws \<and> length ws = length ss"
  using assms by (intro exI [of _ "map (encode c) ss"]) (auto simp: items_enc_def list_all_iff)

subsection \<open>Round trip\<close>

lemma command_bytes_is_frame:
  assumes row: "(v, cmd, resp) \<in> set dispatch_rows" and b: "body_valid cmd b"
    and tag: "tag = St_NoSessions \<and> ss = [] \<or> tag = St_Sessions \<and> ss \<noteq> []"
    and ss: "length ss \<le> MAX_SESSIONS" "list_all (valid TpmsAuthCommand) ss"
  shows "command_frame cmd tag (body_handle_bytes b) (items_enc TpmsAuthCommand ss)
    (body_param_bytes cmd b) (command_bytes (f_CC cmd) tag (body_handle_bytes b)
       (items_enc TpmsAuthCommand ss) (body_param_bytes cmd b))"
proof -
  note law = frame_of_lawful [OF row_ok(1) [OF row] b]
  have "length (body_handle_bytes b) + length (body_param_bytes cmd b) \<le> 2 ^ 24"
    using lawful_frame.frame_size [OF law] lawful_frame.frame_bound [OF law] by simp
  moreover have "length (items_enc TpmsAuthCommand ss) \<le> 1600"
    by (rule sessions_bound [OF auth_codecs(1) auth_SIZE(1) ss(2,1)])
  ultimately show ?thesis
    using tag lawful_frame.handles_size [OF law]
    by (auto simp: command_frame_def command_bytes_frame command_body_def session_tag_def
        frame_of_def)
qed

lemma command_roundtrip:
  assumes row: "(v, cmd, resp) \<in> set dispatch_rows" and b: "body_valid cmd b"
    and tag: "tag = St_NoSessions \<and> ss = [] \<or> tag = St_Sessions \<and> ss \<noteq> []"
    and ss: "length ss \<le> MAX_SESSIONS" "list_all (valid TpmsAuthCommand) ss"
  defines "f \<equiv> command_bytes (f_CC cmd) tag (body_handle_bytes b)
       (items_enc TpmsAuthCommand ss) (body_param_bytes cmd b)"
  shows "TpmCommand_validate f = Ok ()" "TpmCommand_unmarshal cmd f = Ok b"
    "TpmCommandView_cast f = Ok (v, f)"
    "TpmCommand_cast_prefix (f @ tail) = Ok (f, tail)"
proof -
  note frame = command_bytes_is_frame [OF row b tag ss, folded f_def]
  show ok: "TpmCommand_validate f = Ok ()"
    using row frame ss(1) sessions_wire [OF ss(2) encode_auth_command]
    unfolding TpmCommand_validate_iff by metis
  show "TpmCommand_unmarshal cmd f = Ok b"
    using TpmCommand_unmarshal_frame [OF row frame ok] b
    by (simp add: unmarshal_body_Ok_iff [OF row_ok(1) [OF row]])
  show "TpmCommandView_cast f = Ok (v, f)"
    by (simp add: TpmCommandView_cast_def ok command_frame_accessors [OF row frame]
        variant_of_row [OF row] del: and_then_Ok_iff)
  have "frame_prefix_size (f @ tail) = Ok (length f)"
    using frame by (auto simp: command_frame_def command_bytes_frame frame_size)
  then show "TpmCommand_cast_prefix (f @ tail) = Ok (f, tail)"
    using command_frame_accepted [OF row frame]
    by (simp add: TpmCommand_cast_prefix_def del: and_then_Ok_iff)
qed

subsection \<open>Totality\<close>

lemma command_code_total:
  "10 \<le> length f \<Longrightarrow>
   command_code f \<noteq> Panic \<and> (command_code f = Err e \<longrightarrow> offset e \<le> length f)"
  by (auto simp: command_code_def read_u32_def read_be_def wire_offsets and_then_Panic_iff
      and_then_Err_iff)

lemma TpmCommand_validate_envelope_total:
  "TpmCommand_validate_envelope f \<noteq> Panic \<and>
   (TpmCommand_validate_envelope f = Err e \<longrightarrow> offset e \<le> length f)"
proof (cases "validate_frame_size f")
  case (Ok u)
  then have len: "10 \<le> length f"
    by (intro validated_length) simp
  have dispatch: "\<exists>d. dispatch_for cc = Ok d \<and> handle_area_size (d_handles d) off =
      Ok (d_handles d * 4)" for cc off
    using row_of_cc [of cc] row_dispatch row_handle_area(1) by (metis dispatch_of_simps(2))
  show ?thesis
  proof (cases "envelope_tag f")
    case tag: (Ok tag)
    show ?thesis
    proof (cases "command_code f")
      case cc: (Ok cc)
      obtain d where d: "dispatch_for cc = Ok d"
        "\<And>off. handle_area_size (d_handles d) off = Ok (d_handles d * 4)"
        using dispatch [of cc] by (metis result.inject(1))
      have sized: "sized_area_end (drop (d_handles d * 4) (drop 10 f)) (10 + d_handles d * 4) \<noteq> Panic"
        "sized_area_end (drop (d_handles d * 4) (drop 10 f)) (10 + d_handles d * 4) = Err e \<Longrightarrow>
         d_handles d * 4 \<le> length f - 10 \<Longrightarrow> offset e \<le> length f"
        using sized_area_end_total [of "drop (d_handles d * 4) (drop 10 f)" "10 + d_handles d * 4" e]
          len by auto
      show ?thesis
        using len sized by (auto simp: TpmCommand_validate_envelope_def Ok tag cc d wire_offsets
            and_then_Panic_iff and_then_Err_iff)
    qed (use Ok tag command_code_total [OF len] in \<open>auto simp: TpmCommand_validate_envelope_def\<close>)
  qed (use Ok envelope_tag_total [OF len] in \<open>auto simp: TpmCommand_validate_envelope_def\<close>)
qed (use validate_frame_size_total in \<open>auto simp: TpmCommand_validate_envelope_def\<close>)

lemma TpmCommand_validate_total:
  "TpmCommand_validate f \<noteq> Panic \<and> (TpmCommand_validate f = Err e \<longrightarrow> offset e \<le> length f)"
proof (cases "TpmCommand_validate_envelope f")
  case (Ok u)
  then obtain v cmd resp tag hb auth pb where
    row: "(v, cmd, resp) \<in> set dispatch_rows" "command_frame cmd tag hb auth pb f"
    by (auto elim: command_frame_sound)
  from TpmCommand_validate_frame [OF row] obtain a
    where "TpmCommand_validate f = validate_auth_commands f (a, auth)" by blast
  then show ?thesis
    using auth_commands.sessions_total [of "length f"] by (simp add: validate_auth_commands_def)
next
  case (Err e)
  then show ?thesis
    using TpmCommand_validate_envelope_total by (auto simp: TpmCommand_validate_def)
qed (use TpmCommand_validate_envelope_total in auto)

lemma TpmCommand_unmarshal_total:
  assumes row: "(v, cmd, resp) \<in> set dispatch_rows"
  shows "TpmCommand_unmarshal cmd f \<noteq> Panic \<and>
    (TpmCommand_unmarshal cmd f = Err e \<longrightarrow> offset e \<le> length f)"
proof (cases "TpmCommand_validate f")
  case (Ok u)
  then have "TpmCommand_validate f = Ok ()" by simp
  then obtain v' cmd' resp' tag hb auth pb where
    row': "(v', cmd', resp') \<in> set dispatch_rows" and frame: "command_frame cmd' tag hb auth pb f"
    unfolding TpmCommand_validate_iff by blast
  have "10 + length hb + length pb \<le> length f"
    using frame by (auto simp: command_frame_def command_bytes_frame command_body_def)
  moreover have "cmd' = cmd" if "f_CC cmd' = f_CC cmd"
    using row_unique [OF row' row that] by simp
  ultimately show ?thesis
    using unmarshal_body_total [OF row_ok(1) [OF row], of hb pb] Ok
    by (auto simp: TpmCommand_unmarshal_def command_frame_accessors [OF row' frame]
        wire_offsets)
next
  case (Err e)
  then show ?thesis
    using TpmCommand_validate_total by (auto simp: TpmCommand_unmarshal_def)
qed (use TpmCommand_validate_total in auto)

lemma TpmCommand_unmarshal_sound:
  assumes row: "(v, cmd, resp) \<in> set dispatch_rows" and ok: "TpmCommand_unmarshal cmd f = Ok b"
  shows "body_valid cmd b \<and> (\<exists>tag auth. session_tag tag \<and>
    f = command_bytes (f_CC cmd) tag (body_handle_bytes b) auth (body_param_bytes cmd b))"
proof -
  have valid: "TpmCommand_validate f = Ok ()"
    using ok by (auto simp: TpmCommand_unmarshal_def)
  then obtain v' cmd' resp' tag hb auth pb where
    row': "(v', cmd', resp') \<in> set dispatch_rows" and frame: "command_frame cmd' tag hb auth pb f"
    unfolding TpmCommand_validate_iff by blast
  have "f_CC cmd' = f_CC cmd"
    using ok by (auto simp: TpmCommand_unmarshal_def command_frame_accessors [OF row' frame]
        split: if_splits)
  then have "cmd' = cmd"
    using row_unique [OF row' row] by simp
  with frame have frame: "command_frame cmd tag hb auth pb f" by simp
  then have "unmarshal_body cmd hb pb = Ok b"
    using ok TpmCommand_unmarshal_frame [OF row frame valid] by simp
  with frame show ?thesis
    unfolding unmarshal_body_Ok_iff [OF row_ok(1) [OF row]] command_frame_def by blast
qed

end
