(* ===== verification/Wire_Response.thy ===== *)
theory Wire_Response
  imports Wire_Command
begin

text \<open>
  Response frames: the frames \<open>TpmResponse::cast\<close> and \<open>TpmResponse::validate\<close> accept, the round trip of
  \<open>tpm_marshal_response\<close> and \<open>TpmResponse::unmarshal\<close>, and what happens to error responses.
\<close>

definition rc_ok_success :: TpmRc where "rc_ok_success = Fmt0 Rc_Success"

definition response_frame ::
  "frame_decl \<Rightarrow> TpmSt \<Rightarrow> u8 list \<Rightarrow> u8 list \<Rightarrow> u8 list \<Rightarrow> u8 list \<Rightarrow> bool" where
  "response_frame resp tag hb pb auth f \<longleftrightarrow>
     session_tag tag \<and> (tag = St_NoSessions \<longrightarrow> auth = []) \<and> length hb = HANDLES resp * 4 \<and>
     f = response_bytes rc_ok_success tag hb pb auth \<and> length f < 2 ^ 32"

lemma success_ok: "rc_ok rc_ok_success"
  by (simp add: rc_ok_success_def base_word_def mask_defs warn_base_def)

lemma rc_success_iff: "rc_success rc \<longleftrightarrow> rc = rc_ok_success"
  by (simp add: rc_success_def rc_ok_success_def)

lemma response_bytes_frame:
  "response_bytes rc tag hb pb auth =
   frame_bytes tag (unat (TpmRc_value rc)) (response_body tag hb pb auth)"
  by (simp add: response_bytes_def frame_bytes_def)

lemma unat_rc: "unat (TpmRc_value rc) < 2 ^ 32"
  using unsigned_less [where 'a = nat, of "TpmRc_value rc"] by simp

subsection \<open>The envelope\<close>

lemma raw_rc_of_Ok_iff: "raw < 2 ^ 32 \<Longrightarrow> raw_rc_of raw = Ok rc \<longleftrightarrow> rc_ok rc \<and> unat (TpmRc_value rc) = raw"
  by (auto simp: raw_rc_of_def TpmRc_try_from_Ok_iff unat_of_nat)

lemma raw_rc_of_total [simp]: "raw_rc_of raw \<noteq> Panic"
  by (simp add: raw_rc_of_def TpmRc_try_from_not_Panic)

lemma raw_rc_of_Err: "raw_rc_of raw = Err e \<Longrightarrow> offset e = 6"
  by (auto simp: raw_rc_of_def CODE_OFFSET_def)

lemma response_envelope_iff:
  "TpmResponse_validate_envelope f = Ok () \<longleftrightarrow>
   (\<exists>tag rc body. session_tag tag \<and> rc_ok rc \<and> f = frame_bytes tag (unat (TpmRc_value rc)) body \<and>
      length f < 2 ^ 32)"
proof
  assume ok: "TpmResponse_validate_envelope f = Ok ()"
  then obtain tag where "validate_frame_size f = Ok ()" "envelope_tag f = Ok tag"
    by (auto simp: TpmResponse_validate_envelope_def)
  then obtain code body where f: "f = frame_bytes tag code body" "code < 2 ^ 32"
    "10 + length body < 2 ^ 32" "session_tag tag"
    by (rule frame_of_header)
  then obtain rc where "raw_rc_of code = Ok rc"
    using ok by (auto simp: TpmResponse_validate_envelope_def read_code)
  with f show "\<exists>tag rc body. session_tag tag \<and> rc_ok rc \<and>
      f = frame_bytes tag (unat (TpmRc_value rc)) body \<and> length f < 2 ^ 32"
    by (auto simp: raw_rc_of_Ok_iff)
next
  assume "\<exists>tag rc body. session_tag tag \<and> rc_ok rc \<and>
      f = frame_bytes tag (unat (TpmRc_value rc)) body \<and> length f < 2 ^ 32"
  then obtain tag rc body where "session_tag tag" "rc_ok rc" "10 + length body < 2 ^ 32"
    "f = frame_bytes tag (unat (TpmRc_value rc)) body"
    by auto
  moreover from this have "raw_rc_of (unat (TpmRc_value rc)) = Ok rc"
    using raw_rc_of_Ok_iff [OF unat_rc] by simp
  ultimately show "TpmResponse_validate_envelope f = Ok ()"
    using unat_rc by (simp add: TpmResponse_validate_envelope_def frame_validate_size
        frame_envelope_tag read_code del: and_then_Ok_iff)
qed

lemma TpmResponse_envelope_total:
  "TpmResponse_validate_envelope f \<noteq> Panic \<and>
   (TpmResponse_validate_envelope f = Err e \<longrightarrow> offset e \<le> length f)"
proof (cases "validate_frame_size f")
  case (Ok u)
  then have len: "10 \<le> length f"
    by (intro validated_length) simp
  show ?thesis
    using envelope_tag_total [OF len] len
    by (auto simp: TpmResponse_validate_envelope_def Ok and_then_Panic_iff and_then_Err_iff
        read_u32_def read_be_def wire_offsets dest!: raw_rc_of_Err)
qed (use validate_frame_size_total in \<open>auto simp: TpmResponse_validate_envelope_def\<close>)

subsection \<open>Validation\<close>

lemma validate_auth_responses_Ok_iff:
  "validate_auth_responses f (pos, auth) = Ok () \<longleftrightarrow>
   (\<exists>ss. set ss \<subseteq> auth_response_wire \<and> auth = concat ss \<and> length ss \<le> MAX_SESSIONS)"
  using auth_responses.sessions_Ok_iff [of 0] by (simp add: validate_auth_responses_def)

lemma frame_body: "TpmResponse_body (frame_bytes tag code body) = Ok body"
  by (simp add: TpmResponse_body_def wire_offsets)

lemma error_validate:
  assumes "rc_ok rc" "\<not> rc_success rc" "session_tag tag"
    "f = frame_bytes tag (unat (TpmRc_value rc)) body" "length f < 2 ^ 32"
  shows "TpmResponse_validate f cc =
    (if tag \<noteq> St_NoSessions then Err (InvalidTag 0 (as_u64 (TpmSt_value tag)))
     else if body \<noteq> [] then Err (TrailingData 10 (length body)) else Ok ())"
proof -
  have "TpmResponse_validate_envelope f = Ok ()"
    using assms response_envelope_iff by blast
  moreover obtain d where "dispatch_for cc = Ok d"
    using dispatch_for_total by blast
  ultimately show ?thesis
    using assms by (simp add: TpmResponse_validate_def frame_tag frame_rc wire_offsets
        del: and_then_Ok_iff)
qed

text \<open>A successful frame split at the handle area, with the checks that remain.\<close>

lemma success_validate:
  assumes row: "(v, cmd, resp) \<in> set dispatch_rows" and tag: "session_tag tag"
    and f: "f = frame_bytes tag (unat (TpmRc_value rc_ok_success)) body" "length f < 2 ^ 32"
  defines "h \<equiv> HANDLES resp * 4"
  shows "TpmResponse_validate f (f_CC cmd) =
    (if length body < h then Err (UnexpectedEnd 10 h (length body))
     else if tag \<noteq> St_Sessions then Ok ()
     else and_then (sized_area_end (drop h body) (10 + h)) (\<lambda>k.
       and_then (slice_from (drop h body) k) (\<lambda>sessions.
         validate_auth_responses f (10 + h + k, sessions))))"
proof -
  have "TpmResponse_validate_envelope f = Ok ()"
    using f tag success_ok response_envelope_iff by blast
  moreover have "TpmResponse_rc f = Ok rc_ok_success"
    unfolding f(1) by (rule frame_rc [OF success_ok])
  ultimately show ?thesis
    by (simp add: TpmResponse_validate_def row_dispatch [OF row] f(1) frame_tag frame_body
        rc_success_iff row_handle_area [OF row] wire_offsets h_def del: and_then_Ok_iff)
qed

lemma response_frame_validate:
  assumes row: "(v, cmd, resp) \<in> set dispatch_rows" and f: "response_frame resp tag hb pb auth f"
  shows "TpmResponse_validate f (f_CC cmd) = Ok () \<longleftrightarrow>
    (\<exists>ss. set ss \<subseteq> auth_response_wire \<and> auth = concat ss \<and> length ss \<le> MAX_SESSIONS)"
proof -
  let ?body = "response_body tag hb pb auth"
  have eq: "f = frame_bytes tag (unat (TpmRc_value rc_ok_success)) ?body" and len: "length f < 2 ^ 32"
    and tag: "session_tag tag" and hb: "length hb = HANDLES resp * 4"
    and no_auth: "tag = St_NoSessions \<Longrightarrow> auth = []"
    using f by (auto simp: response_frame_def response_bytes_frame)
  have none: "\<exists>ss. set ss \<subseteq> auth_response_wire \<and> [] = concat ss \<and> length ss \<le> MAX_SESSIONS"
    by (rule exI [of _ "[]"]) simp
  show ?thesis
  proof (cases "tag = St_Sessions")
    case True
    then have "length pb < 2 ^ 32"
      using len unfolding eq by (simp add: response_body_def)
    then show ?thesis
      unfolding success_validate [OF row tag eq len]
      using True hb validate_auth_responses_Ok_iff
      by (simp add: response_body_def sized_area_end_append del: and_then_Ok_iff)
  next
    case False
    then show ?thesis
      unfolding success_validate [OF row tag eq len]
      using hb none no_auth tag by (auto simp: response_body_def session_tag_def)
  qed
qed

lemma response_frame_sound:
  assumes row: "(v, cmd, resp) \<in> set dispatch_rows" and ok: "TpmResponse_validate f (f_CC cmd) = Ok ()"
  shows "(\<exists>rc. rc_ok rc \<and> \<not> rc_success rc \<and> f = frame_bytes St_NoSessions (unat (TpmRc_value rc)) []) \<or>
    (\<exists>tag hb pb auth. response_frame resp tag hb pb auth f)"
proof -
  have "TpmResponse_validate_envelope f = Ok ()"
    using ok by (auto simp: TpmResponse_validate_def)
  then obtain tag rc body where tag: "session_tag tag" and rc: "rc_ok rc"
    and f: "f = frame_bytes tag (unat (TpmRc_value rc)) body" and len: "length f < 2 ^ 32"
    unfolding response_envelope_iff by blast
  show ?thesis
  proof (cases "rc_success rc")
    case False
    with ok error_validate [OF rc False tag f len] f rc show ?thesis
      by (auto split: if_splits)
  next
    case True
    then have f': "f = frame_bytes tag (unat (TpmRc_value rc_ok_success)) body"
      using f by (simp add: rc_success_iff)
    let ?h = "HANDLES resp * 4"
    have h: "?h \<le> length body" and size: "tag = St_Sessions \<Longrightarrow>
        \<exists>k. sized_area_end (drop ?h body) (10 + ?h) = Ok k"
      using ok unfolding success_validate [OF row tag f' len] by (auto split: if_splits)
    show ?thesis
    proof (cases "tag = St_Sessions")
      case True
      then obtain a r where r: "drop ?h body = to_be_bytes 4 (length a) @ a @ r"
        using size by (auto simp: sized_area_end_Ok_iff)
      have "body = take ?h body @ to_be_bytes 4 (length a) @ a @ r"
        unfolding r [symmetric] by simp
      then have "response_frame resp tag (take ?h body) a r f"
        using True tag h len f'
        by (simp add: response_frame_def response_bytes_frame response_body_def)
      then show ?thesis by blast
    next
      case False
      then have "response_frame resp tag (take ?h body) (drop ?h body) [] f"
        using tag h len f'
        by (simp add: response_frame_def response_bytes_frame response_body_def)
      then show ?thesis by blast
    qed
  qed
qed

subsection \<open>Parts\<close>

lemma unmarshal_u32:
  "n < 2 ^ 32 \<Longrightarrow> unmarshal TpmUint32 (to_be_bytes 4 n @ r) = Ok (int_new 4 n, r)"
  by (simp add: TpmUint32_def tpm_int_def int_new_def)

lemma int_value_new: "n < 256 ^ N \<Longrightarrow> int_value (int_new N n) = n"
  by (simp add: int_new_def)

lemma response_frame_parts:
  assumes row: "(v, cmd, resp) \<in> set dispatch_rows" and f: "response_frame resp tag hb pb auth f"
  shows "TpmResponse_body_parts resp f = Ok (hb, pb)"
proof -
  let ?body = "response_body tag hb pb auth"
  have eq: "f = frame_bytes tag (unat (TpmRc_value rc_ok_success)) ?body" and len: "length f < 2 ^ 32"
    and tag: "session_tag tag" and hb: "length hb = HANDLES resp * 4"
    using f by (auto simp: response_frame_def response_bytes_frame)
  have "length pb < 2 ^ 32"
    using len unfolding eq by (auto simp: response_body_def split: if_splits)
  then show ?thesis
    using tag hb unfolding eq TpmResponse_body_parts_def
    by (auto simp: row_handle_area [OF row] frame_body frame_tag response_body_def unmarshal_u32
        int_value_new session_tag_def simp del: and_then_Ok_iff)
qed

lemma response_unmarshal_frame:
  assumes row: "(v, cmd, resp) \<in> set dispatch_rows" and f: "response_frame resp tag hb pb auth f"
    and ok: "TpmResponse_validate f (f_CC cmd) = Ok ()"
  shows "TpmResponse_unmarshal resp f = unmarshal_body resp hb pb"
  using ok by (simp add: TpmResponse_unmarshal_def row_ok(3) [OF row] response_frame_parts [OF row f]
      del: and_then_Ok_iff)

subsection \<open>Round trip\<close>

lemma response_bytes_is_frame:
  assumes row: "(v, cmd, resp) \<in> set dispatch_rows" and b: "body_valid resp b"
    and ss: "length ss \<le> MAX_SESSIONS" "list_all (valid TpmsAuthResponse) ss"
  defines "tag \<equiv> (if ss = [] then St_NoSessions else St_Sessions)"
  shows "response_frame resp tag (body_handle_bytes b) (body_param_bytes resp b)
    (items_enc TpmsAuthResponse ss) (response_bytes rc_ok_success tag (body_handle_bytes b)
       (body_param_bytes resp b) (items_enc TpmsAuthResponse ss))"
proof -
  note law = frame_of_lawful [OF row_ok(2) [OF row] b]
  have "length (body_handle_bytes b) + length (body_param_bytes resp b) \<le> 2 ^ 24"
    using lawful_frame.frame_size [OF law] lawful_frame.frame_bound [OF law] by simp
  moreover have "length (items_enc TpmsAuthResponse ss) \<le> 1600"
    by (rule sessions_bound [OF auth_codecs(2) auth_SIZE(2) ss(2,1)])
  ultimately show ?thesis
    using lawful_frame.handles_size [OF law]
    by (auto simp: response_frame_def response_bytes_frame response_body_def session_tag_def
        frame_of_def tag_def)
qed

lemma response_roundtrip:
  assumes row: "(v, cmd, resp) \<in> set dispatch_rows" and b: "body_valid resp b"
    and ss: "length ss \<le> MAX_SESSIONS" "list_all (valid TpmsAuthResponse) ss"
  defines "tag \<equiv> (if ss = [] then St_NoSessions else St_Sessions)"
  defines "f \<equiv> response_bytes rc_ok_success tag (body_handle_bytes b)
       (body_param_bytes resp b) (items_enc TpmsAuthResponse ss)"
  shows "TpmResponse_validate f (f_CC cmd) = Ok ()" "TpmResponse_unmarshal resp f = Ok b"
    "TpmResponseView_cast_frame (f_CC cmd) f = Ok (Dispatched v f)"
    "TpmResponse_cast_prefix (f @ tail) = Ok (f, tail)"
proof -
  note frame = response_bytes_is_frame [OF row b ss, folded tag_def, folded f_def]
  show ok: "TpmResponse_validate f (f_CC cmd) = Ok ()"
    unfolding response_frame_validate [OF row frame]
    using ss(1) sessions_wire [OF ss(2) encode_auth_response] by metis
  show "TpmResponse_unmarshal resp f = Ok b"
    using response_unmarshal_frame [OF row frame ok] b
    by (simp add: unmarshal_body_Ok_iff [OF row_ok(2) [OF row]])
  have env: "TpmResponse_validate_envelope f = Ok ()"
    using ok by (auto simp: TpmResponse_validate_def)
  have "TpmResponse_rc f = Ok rc_ok_success"
    using frame frame_rc [OF success_ok] by (auto simp: response_frame_def response_bytes_frame)
  then show "TpmResponseView_cast_frame (f_CC cmd) f = Ok (Dispatched v f)"
    by (simp add: TpmResponseView_cast_frame_def TpmResponse_cast_def env TpmResponseView_cast_def
        ok rc_success_iff variant_of_row [OF row] del: and_then_Ok_iff)
  have "frame_prefix_size (f @ tail) = Ok (length f)"
    using frame by (auto simp: response_frame_def response_bytes_frame frame_size)
  then show "TpmResponse_cast_prefix (f @ tail) = Ok (f, tail)"
    by (simp add: TpmResponse_cast_prefix_def env del: and_then_Ok_iff)
qed

subsection \<open>Totality\<close>

lemma TpmResponse_validate_total:
  "TpmResponse_validate f cc \<noteq> Panic \<and> (TpmResponse_validate f cc = Err e \<longrightarrow> offset e \<le> length f)"
proof (cases "TpmResponse_validate_envelope f")
  case (Ok u)
  then have "TpmResponse_validate_envelope f = Ok ()" by simp
  then obtain tag rc body where tag: "session_tag tag" and rc: "rc_ok rc"
    and f: "f = frame_bytes tag (unat (TpmRc_value rc)) body" and len: "length f < 2 ^ 32"
    unfolding response_envelope_iff by blast
  obtain v cmd resp where row: "(v, cmd, resp) \<in> set dispatch_rows" and cc: "f_CC cmd = cc"
    using row_of_cc by blast
  have length: "length f = 10 + length body"
    unfolding f by simp
  show ?thesis
  proof (cases "rc_success rc")
    case False
    then show ?thesis
      using error_validate [OF rc False tag f len] length by auto
  next
    case True
    then have f': "f = frame_bytes tag (unat (TpmRc_value rc_ok_success)) body"
      using f by (simp add: rc_success_iff)
    let ?h = "HANDLES resp * 4"
    have sized: "k \<le> length (drop ?h body)" if "sized_area_end (drop ?h body) (10 + ?h) = Ok k" for k
      using that unfolding sized_area_end_Ok_iff by force
    then show ?thesis
      unfolding success_validate [OF row tag f' len, unfolded cc]
      using sized_area_end_total [of "drop ?h body" "10 + ?h"] length
        auth_responses.sessions_total [of "length f"]
      by (auto simp: and_then_Panic_iff and_then_Err_iff validate_auth_responses_def)
  qed
next
  case (Err e)
  then show ?thesis
    using TpmResponse_envelope_total by (auto simp: TpmResponse_validate_def)
qed (use TpmResponse_envelope_total in auto)

lemma error_frame_parts:
  assumes row: "(v, cmd, resp) \<in> set dispatch_rows"
    and f: "f = frame_bytes St_NoSessions (unat (TpmRc_value rc)) []"
  shows "TpmResponse_body_parts resp f =
    (if HANDLES resp = 0 then Ok ([], []) else Err (UnexpectedEnd 10 (HANDLES resp * 4) 0))"
  by (auto simp: f TpmResponse_body_parts_def row_handle_area [OF row] frame_body frame_tag
      wire_offsets simp del: and_then_Ok_iff)

lemma TpmResponse_unmarshal_total:
  assumes row: "(v, cmd, resp) \<in> set dispatch_rows"
  shows "TpmResponse_unmarshal resp f \<noteq> Panic \<and>
    (TpmResponse_unmarshal resp f = Err e \<longrightarrow> offset e \<le> length f)"
proof (cases "TpmResponse_validate f (f_CC cmd)")
  case (Ok u)
  then have ok: "TpmResponse_validate f (f_CC cmd) = Ok ()" by simp
  note total = unmarshal_body_total [OF row_ok(2) [OF row]]
  from response_frame_sound [OF row ok] show ?thesis
  proof
    assume "\<exists>rc. rc_ok rc \<and> \<not> rc_success rc \<and> f = frame_bytes St_NoSessions (unat (TpmRc_value rc)) []"
    then obtain rc where f: "f = frame_bytes St_NoSessions (unat (TpmRc_value rc)) []"
      by blast
    then have "length f = 10" by simp
    with total [of "[]" "[]"] show ?thesis
      using error_frame_parts [OF row f] ok
      by (auto simp: TpmResponse_unmarshal_def row_ok(3) [OF row] split: if_splits)
  next
    assume "\<exists>tag hb pb auth. response_frame resp tag hb pb auth f"
    then obtain tag hb pb auth where frame: "response_frame resp tag hb pb auth f"
      by blast
    then have "length hb + length pb \<le> length f"
      by (auto simp: response_frame_def response_bytes_frame response_body_def)
    with total [of hb pb] show ?thesis
      unfolding response_unmarshal_frame [OF row frame ok] by fastforce
  qed
next
  case (Err e)
  then show ?thesis
    using TpmResponse_validate_total by (auto simp: TpmResponse_unmarshal_def row_ok(3) [OF row])
qed (use TpmResponse_validate_total in auto)

text \<open>An error response is read as an empty body by a response declaration without handles and
  parameters.\<close>

lemma error_response_unmarshal:
  assumes row: "(v, cmd, resp) \<in> set dispatch_rows" and "HANDLES resp = 0" "f_params resp = []"
    and rc: "rc_ok rc" "\<not> rc_success rc"
  shows "TpmResponse_unmarshal resp (frame_bytes St_NoSessions (unat (TpmRc_value rc)) []) =
    Ok \<lparr>b_handles = [], b_params = []\<rparr>"
  using assms error_validate [OF rc, of St_NoSessions _ "[]" "f_CC cmd"]
  by (simp add: TpmResponse_unmarshal_def row_ok(3) [OF row] error_frame_parts [OF row]
      session_tag_def unmarshal_body_def unmarshal_handle_area_def ensure_consumed_def
      del: and_then_Ok_iff)

end
