(* ===== verification/Wire_Types.thy ===== *)
theory Wire_Types
  imports Wire_Response
begin

text \<open>
  The wire types of \<open>protocol/src/data\<close> and \<open>protocol/src/basic\<close> with their codecs, and the proof that every
  one of them is lawful, and a lawful field where the source implements a cast: \<open>TpmtSensitive\<close>,
  \<open>Tpm2bSensitive\<close> and \<open>TpmsCapabilityData\<close> have none.  The interpretations give the laws of the contracts for
  the types the rest of the program relies on most.
\<close>

definition field_types :: "(string \<times> codec) list" where
  "field_types = [
     (''TpmUint8'', TpmUint8),
     (''TpmInt8'', TpmInt8),
     (''TpmUint16'', TpmUint16),
     (''TpmUint32'', TpmUint32),
     (''TpmUint64'', TpmUint64),
     (''TpmInt32'', TpmInt32),
     (''TpmHandle'', TpmHandle),
     (''TpmAlgId'', TpmAlgId_codec),
     (''TpmAt'', TpmAt_codec),
     (''TpmCap'', TpmCap_codec),
     (''TpmCc'', TpmCc_codec),
     (''TpmClockAdjust'', TpmClockAdjust_codec),
     (''TpmEo'', TpmEo_codec),
     (''TpmEccCurve'', TpmEccCurve_codec),
     (''TpmHt'', TpmHt_codec),
     (''TpmPt'', TpmPt_codec),
     (''TpmRh'', TpmRh_codec),
     (''TpmSe'', TpmSe_codec),
     (''TpmSt'', TpmSt_codec),
     (''TpmSu'', TpmSu_codec),
     (''TpmiEccKeyExchange'', TpmiEccKeyExchange_codec),
     (''Tpm2b'', Tpm2b),
     (''Tpm2bAuth'', Tpm2bAuth),
     (''Tpm2bDigest'', Tpm2bDigest),
     (''Tpm2bEccParameter'', Tpm2bEccParameter),
     (''Tpm2bEncryptedSecret'', Tpm2bEncryptedSecret),
     (''Tpm2bEvent'', Tpm2bEvent),
     (''Tpm2bMaxBuffer'', Tpm2bMaxBuffer),
     (''Tpm2bMaxNvBuffer'', Tpm2bMaxNvBuffer),
     (''Tpm2bName'', Tpm2bName),
     (''Tpm2bNonce'', Tpm2bNonce),
     (''Tpm2bOperand'', Tpm2bOperand),
     (''Tpm2bPrivate'', Tpm2bPrivate),
     (''Tpm2bPrivateKeyRsa'', Tpm2bPrivateKeyRsa),
     (''Tpm2bPublicKeyRsa'', Tpm2bPublicKeyRsa),
     (''Tpm2bSensitiveData'', Tpm2bSensitiveData),
     (''Tpm2bSymKey'', Tpm2bSymKey),
     (''Tpm2bData'', Tpm2bData),
     (''Tpm2bTimeout'', Tpm2bTimeout),
     (''Tpm2bIv'', Tpm2bIv),
     (''TpmaObject'', TpmaObject),
     (''TpmiAlgHash'', TpmiAlgHash),
     (''TpmsSchemeHash'', TpmsSchemeHash),
     (''TpmtKdfScheme'', TpmtKdfScheme),
     (''TpmsSchemeXor'', TpmsSchemeXor),
     (''TpmtKeyedhashScheme'', TpmtKeyedhashScheme),
     (''TpmsKeyedhashParms'', TpmsKeyedhashParms),
     (''TpmtSymDef'', TpmtSymDef),
     (''TpmtSymDefObject'', TpmtSymDefObject),
     (''TpmsSymcipherParms'', TpmsSymcipherParms),
     (''TpmtRsaScheme'', TpmtRsaScheme),
     (''TpmsRsaParms'', TpmsRsaParms),
     (''TpmtEccScheme'', TpmtEccScheme),
     (''TpmsEccParms'', TpmsEccParms),
     (''TpmsEccPoint'', TpmsEccPoint),
     (''TpmtPublic'', TpmtPublic),
     (''Tpm2bPublic'', Tpm2bPublic),
     (''Tpm2bTemplate'', Tpm2bTemplate),
     (''TpmsSensitiveCreate'', TpmsSensitiveCreate),
     (''Tpm2bSensitiveCreate'', Tpm2bSensitiveCreate),
     (''TpmsPcrSelect'', TpmsPcrSelect),
     (''TpmsPcrSelection'', TpmsPcrSelection),
     (''TpmlPcrSelection'', TpmlPcrSelection),
     (''TpmaLocality'', TpmaLocality),
     (''TpmsCreationData'', TpmsCreationData),
     (''Tpm2bCreationData'', Tpm2bCreationData),
     (''TpmiYesNo'', TpmiYesNo),
     (''TpmsClockInfo'', TpmsClockInfo),
     (''TpmsCertifyInfo'', TpmsCertifyInfo),
     (''TpmsCreationInfo'', TpmsCreationInfo),
     (''TpmsQuoteInfo'', TpmsQuoteInfo),
     (''TpmsCommandAuditInfo'', TpmsCommandAuditInfo),
     (''TpmsSessionAuditInfo'', TpmsSessionAuditInfo),
     (''TpmsTimeInfo'', TpmsTimeInfo),
     (''TpmsTimeAttestInfo'', TpmsTimeAttestInfo),
     (''TpmsNvCertifyInfo'', TpmsNvCertifyInfo),
     (''TpmsNvDigestCertifyInfo'', TpmsNvDigestCertifyInfo),
     (''TpmsAttest'', TpmsAttest),
     (''Tpm2bAttest'', Tpm2bAttest),
     (''TpmaNv'', TpmaNv),
     (''TpmsNvPublic'', TpmsNvPublic),
     (''Tpm2bNvPublic'', Tpm2bNvPublic),
     (''TpmsIdObject'', TpmsIdObject),
     (''Tpm2bIdObject'', Tpm2bIdObject),
     (''Tpm2bEccPoint'', Tpm2bEccPoint),
     (''TpmiRhNvExpIndex'', TpmiRhNvExpIndex),
     (''TpmaNvExp'', TpmaNvExp),
     (''TpmsNvPublicExpAttr'', TpmsNvPublicExpAttr),
     (''TpmtNvPublic2'', TpmtNvPublic2),
     (''Tpm2bNvPublic2'', Tpm2bNvPublic2),
     (''TpmsAcOutput'', TpmsAcOutput),
     (''TpmlAcCapabilities'', TpmlAcCapabilities),
     (''TpmaAlgorithm'', TpmaAlgorithm),
     (''TpmsAlgProperty'', TpmsAlgProperty),
     (''TpmlAlgProperty'', TpmlAlgProperty),
     (''TpmlAlg'', TpmlAlg),
     (''TpmlCc'', TpmlCc),
     (''TpmaCc'', TpmaCc),
     (''TpmlCca'', TpmlCca),
     (''TpmlDigest'', TpmlDigest),
     (''TpmtHa'', TpmtHa),
     (''TpmlDigestValues'', TpmlDigestValues),
     (''TpmlHandle'', TpmlHandle),
     (''TpmlEccCurve'', TpmlEccCurve),
     (''TpmsTaggedProperty'', TpmsTaggedProperty),
     (''TpmlTaggedTpmProperty'', TpmlTaggedTpmProperty),
     (''TpmsTaggedPolicy'', TpmsTaggedPolicy),
     (''TpmlTaggedPolicy'', TpmlTaggedPolicy),
     (''TpmaAct'', TpmaAct),
     (''TpmsActData'', TpmsActData),
     (''TpmlActData'', TpmlActData),
     (''TpmaSession'', TpmaSession),
     (''TpmiAlgSymObject'', TpmiAlgSymObject),
     (''TpmiStCommandTag'', TpmiStCommandTag),
     (''TpmiDhObject'', TpmiDhObject),
     (''TpmiDhParent'', TpmiDhParent),
     (''TpmiDhPcr'', TpmiDhPcr),
     (''TpmiShAuthSession'', TpmiShAuthSession),
     (''TpmiRhHierarchy'', TpmiRhHierarchy),
     (''TpmsAuthCommand'', TpmsAuthCommand),
     (''TpmsAuthResponse'', TpmsAuthResponse),
     (''TpmsContext'', TpmsContext),
     (''TpmsEmpty'', TpmsEmpty),
     (''TpmsSignatureRsa'', TpmsSignatureRsa),
     (''TpmsSignatureEcc'', TpmsSignatureEcc),
     (''TpmsAlgorithmDetailEcc'', TpmsAlgorithmDetailEcc),
     (''TpmsSchemeHmac'', TpmsSchemeHmac),
     (''TpmtPublicParms'', TpmtPublicParms),
     (''TpmtRsaDecrypt'', TpmtRsaDecrypt),
     (''TpmtTkCreation'', TpmtTkCreation),
     (''TpmtTkVerified'', TpmtTkVerified),
     (''TpmtTkAuth'', TpmtTkAuth),
     (''TpmtTkHashcheck'', TpmtTkHashcheck),
     (''TpmtSignature'', TpmtSignature),
     (''TpmtSigScheme'', TpmtSigScheme),
     (''TpmRc'', TpmRc_codec),
     (''TpmiAlgCipherMode'', TpmiAlgCipherMode)]"

definition wire_types :: "(string \<times> codec) list" where
  "wire_types = field_types @ [
     (''TpmtSensitive'', TpmtSensitive),
     (''Tpm2bSensitive'', Tpm2bSensitive),
     (''TpmsCapabilityData'', TpmsCapabilityData)]"

lemma field_types_ok: "list_all (\<lambda>(_, c). wire_field c) field_types"
  unfolding field_types_def by (simp add:
      TpmUint8_ok int_ok(2) TpmUint16_ok TpmUint32_ok TpmUint64_ok int_ok(6) TpmHandle_ok
      TpmAlgId_codec_ok TpmAt_codec_ok TpmCap_codec_ok TpmCc_codec_ok TpmClockAdjust_codec_ok
      TpmEo_codec_ok TpmEccCurve_codec_ok TpmHt_codec_ok TpmPt_codec_ok TpmRh_codec_ok
      TpmSe_codec_ok TpmSt_codec_ok TpmSu_codec_ok TpmiEccKeyExchange_codec_ok Tpm2b_ok
      Tpm2bAuth_ok Tpm2bDigest_ok Tpm2bEccParameter_ok Tpm2bEncryptedSecret_ok Tpm2bEvent_ok
      Tpm2bMaxBuffer_ok Tpm2bMaxNvBuffer_ok Tpm2bName_ok Tpm2bNonce_ok Tpm2bOperand_ok
      Tpm2bPrivate_ok Tpm2bPrivateKeyRsa_ok Tpm2bPublicKeyRsa_ok Tpm2bSensitiveData_ok
      Tpm2bSymKey_ok Tpm2bData_ok Tpm2bTimeout_ok Tpm2bIv_ok TpmaObject_ok TpmiAlgHash_ok
      TpmsSchemeHash_ok TpmtKdfScheme_ok TpmsSchemeXor_ok TpmtKeyedhashScheme_ok
      TpmsKeyedhashParms_ok TpmtSymDef_ok TpmtSymDefObject_ok TpmsSymcipherParms_ok
      TpmtRsaScheme_ok TpmsRsaParms_ok TpmtEccScheme_ok TpmsEccParms_ok TpmsEccPoint_ok
      TpmtPublic_ok Tpm2bPublic_ok Tpm2bTemplate_ok TpmsSensitiveCreate_ok
      Tpm2bSensitiveCreate_ok TpmsPcrSelect_ok
      TpmsPcrSelection_ok TpmlPcrSelection_ok TpmaLocality_ok TpmsCreationData_ok
      Tpm2bCreationData_ok TpmiYesNo_ok TpmsClockInfo_ok TpmsCertifyInfo_ok TpmsCreationInfo_ok
      TpmsQuoteInfo_ok TpmsCommandAuditInfo_ok TpmsSessionAuditInfo_ok TpmsTimeInfo_ok
      TpmsTimeAttestInfo_ok TpmsNvCertifyInfo_ok TpmsNvDigestCertifyInfo_ok TpmsAttest_ok
      Tpm2bAttest_ok TpmaNv_ok TpmsNvPublic_ok Tpm2bNvPublic_ok TpmsIdObject_ok
      Tpm2bIdObject_ok Tpm2bEccPoint_ok TpmiRhNvExpIndex_ok TpmaNvExp_ok TpmsNvPublicExpAttr_ok
      TpmtNvPublic2_ok Tpm2bNvPublic2_ok TpmsAcOutput_ok TpmlAcCapabilities_ok TpmaAlgorithm_ok
      TpmsAlgProperty_ok TpmlAlgProperty_ok TpmlAlg_ok TpmlCc_ok TpmaCc_ok TpmlCca_ok
      TpmlDigest_ok TpmtHa_ok TpmlDigestValues_ok TpmlHandle_ok TpmlEccCurve_ok
      TpmsTaggedProperty_ok TpmlTaggedTpmProperty_ok TpmsTaggedPolicy_ok TpmlTaggedPolicy_ok
      TpmaAct_ok TpmsActData_ok TpmlActData_ok TpmaSession_ok TpmiAlgSymObject_ok
      TpmiStCommandTag_ok TpmiDhObject_ok TpmiDhParent_ok TpmiDhPcr_ok TpmiShAuthSession_ok
      TpmiRhHierarchy_ok TpmsAuthCommand_ok TpmsAuthResponse_ok TpmsContext_ok TpmsEmpty_ok
      TpmsSignatureRsa_ok TpmsSignatureEcc_ok TpmsAlgorithmDetailEcc_ok TpmsSchemeHmac_ok
      TpmtPublicParms_ok TpmtRsaDecrypt_ok TpmtTkCreation_ok TpmtTkVerified_ok TpmtTkAuth_ok
      TpmtTkHashcheck_ok TpmtSignature_ok TpmtSigScheme_ok TpmRc_codec_ok TpmiAlgCipherMode_ok)

lemma field_type_ok: "(n, c) \<in> set field_types \<Longrightarrow> wire_field c"
  using field_types_ok by (auto simp: list_all_iff)

lemma wire_type_codec: "(n, c) \<in> set wire_types \<Longrightarrow> wire_codec c"
  unfolding wire_types_def
  by (auto dest: field_type_ok wire_field_codec
      intro: TpmtSensitive_codec_ok Tpm2bSensitive_codec_ok TpmsCapabilityData_codec_ok)

interpretation TpmtPublic: wire_field TpmtPublic
  by (rule TpmtPublic_ok)

interpretation Tpm2bPublic: wire_field Tpm2bPublic
  by (rule Tpm2bPublic_ok)

interpretation TpmsAttest: wire_field TpmsAttest
  by (rule TpmsAttest_ok)

interpretation TpmRc_field: wire_field TpmRc_codec
  by (rule TpmRc_codec_ok)

interpretation TpmsCapabilityData: wire_codec TpmsCapabilityData
  by (rule TpmsCapabilityData_codec_ok)

interpretation TpmuSymMode: wire_union TpmuSymMode "union_enc TpmuSymMode_arms"
  by (rule TpmuSymMode_ok)

interpretation TpmtKdfScheme: tagged TpmAlgId_codec TpmuKdfScheme "union_enc TpmuKdfScheme_arms"
  by (intro tagged.intro tagged_axioms.intro wire_field_codec TpmAlgId_codec_ok TpmuKdfScheme_ok)
    simp_all

interpretation handle_area: decoder
  "\<lambda>hs. length hs = n \<and> list_all (valid TpmHandle) hs" "items_enc TpmHandle" "unmarshal_handles n"
  for n
  by unfold_locales (use unmarshal_handles_enc unmarshal_handles_sound unmarshal_handles_total in auto)

definition startup_body :: frame_body where
  "startup_body = \<lparr>b_handles = [], b_params = [VEnum (ESu Su_Clear)]\<rparr>"

lemma startup_body_valid: "body_valid TpmStartupCommand startup_body"
  by (simp add: body_valid_def TpmStartupCommand_def startup_body_def TpmSu_codec_valid)

interpretation startup: lawful_frame "frame_of TpmStartupCommand startup_body"
  "body_handle_bytes startup_body" "body_param_bytes TpmStartupCommand startup_body"
  by (rule frame_of_lawful [OF Startup_ok(1) startup_body_valid])

text \<open>Concrete frames, the inputs of the witnesses.\<close>

lemma be_bytes:
  "to_be_bytes 1 n = [word_of_nat (n mod 256)]"
  "to_be_bytes 2 n = [word_of_nat (n div 256 mod 256), word_of_nat (n mod 256)]"
  "to_be_bytes 4 n = [word_of_nat (n div 256 div 256 div 256 mod 256),
     word_of_nat (n div 256 div 256 mod 256), word_of_nat (n div 256 mod 256),
     word_of_nat (n mod 256)]"
proof -
  have counts: "(1 :: nat) = Suc 0" "(2 :: nat) = Suc (Suc 0)" "(4 :: nat) = Suc (Suc (Suc (Suc 0)))"
    by simp_all
  show "to_be_bytes 1 n = [word_of_nat (n mod 256)]"
    unfolding counts(1) by (simp only: to_be_bytes.simps append_Nil)
  show "to_be_bytes 2 n = [word_of_nat (n div 256 mod 256), word_of_nat (n mod 256)]"
    unfolding counts(2) by (simp only: to_be_bytes.simps append_Nil append_Cons)
  show "to_be_bytes 4 n = [word_of_nat (n div 256 div 256 div 256 mod 256),
     word_of_nat (n div 256 div 256 mod 256), word_of_nat (n div 256 mod 256),
     word_of_nat (n mod 256)]"
    unfolding counts(3) by (simp only: to_be_bytes.simps append_Nil append_Cons)
qed

definition startup_frame :: "u8 list" where
  "startup_frame = [0x80, 0x01, 0, 0, 0, 12, 0, 0, 0x01, 0x44, 0, 0]"

lemma startup_bytes:
  "command_bytes (f_CC TpmStartupCommand) St_NoSessions (body_handle_bytes startup_body)
     (items_enc TpmsAuthCommand []) (body_param_bytes TpmStartupCommand startup_body) = startup_frame"
proof -
  have "encode TpmSu_codec (VEnum (ESu Su_Clear)) = to_be_bytes 2 0"
    by (rule encode_eqI)
      (simp_all add: TpmSu_codec_def tpm_enum_codec_def to_be_repr_def usize_max_def)
  then show ?thesis
    by (simp add: command_bytes_def header_def command_body_def startup_frame_def
        TpmStartupCommand_def startup_body_def body_handle_bytes_def body_param_bytes_def be_bytes)
qed

lemma startup_row: "(''Startup'', TpmStartupCommand, TpmStartupResponse) \<in> set dispatch_rows"
  by (simp add: dispatch_rows_def)

lemma startup_roundtrip:
  "TpmCommand_validate startup_frame = Ok ()"
  "TpmCommand_unmarshal TpmStartupCommand startup_frame = Ok startup_body"
  using command_roundtrip [OF startup_row startup_body_valid, of St_NoSessions "[]",
      unfolded startup_bytes] by simp_all

lemmas startup_unmarshal = startup_roundtrip(2)

lemma startup_cast: "TpmCommand_cast startup_frame = Ok startup_frame"
  using startup_roundtrip(1) by (auto simp: TpmCommand_cast_def TpmCommand_validate_def)

end
