(* ===== verification/Hash.thy ===== *)
theory Hash
  imports Data_Public
begin

text \<open>
  Hash algorithms, key derivation and object names: \<open>crypto/src/hash.rs\<close>, \<open>crypto/src/error.rs\<close> and
  \<open>tpm_make_name\<close> of \<open>crypto/src/lib.rs\<close>.  OpenSSL is a parameter, the record \<open>libcrypto\<close>: the digest of a
  message, the MAC of a message under a key, and \<open>memcmp::eq\<close>.  Feeding a hasher or a signer
  chunk by chunk is feeding it the concatenation.  \<open>libcrypto_ok\<close> states what the code relies on.

  The loops of the key derivation functions end only because every block has at least one byte, so
  they are \<open>partial_function (option)\<close>, and \<open>kdf_loop_returns\<close> shows that they return.
\<close>

subsection \<open>Errors\<close>

type_synonym ErrorStack = string

datatype TpmPublicAreaField = Field_ObjectType | Field_Parameters | Field_Unique

datatype TpmCryptoError =
    Crypto_BufferTooSmall nat nat
  | Crypto_Crypto ErrorStack
  | Crypto_InvalidEccCurve TpmEccCurve
  | Crypto_InvalidEccNid nat
  | Crypto_InvalidEccPoint TpmEccCurve nat nat nat
  | Crypto_InvalidEccKey
  | Crypto_InvalidEccGroupDegree nat
  | Crypto_InvalidHash
  | Crypto_InvalidMessageDigestNid nat
  | Crypto_InvalidKeyBits nat
  | Crypto_InvalidKdfKeyBits nat
  | Crypto_InvalidObjectType
  | Crypto_InvalidPublicArea TpmAlgId TpmPublicAreaField
  | Crypto_InvalidRsaKey
  | Crypto_InvalidRsaModulus "u8 list"
  | Crypto_InvalidRsaExponent nat
  | Crypto_InvalidPrivateKeySize nat nat
  | Crypto_MissingRsaPrivatePrime
  | Crypto_InvalidRandomRange
  | Crypto_KeyIsEmpty
  | Crypto_Marshal TpmError
  | Crypto_MacMismatch
  | Crypto_Unmarshal TpmError

text \<open>Sequencing of results.\<close>

lemma and_then_assoc: "and_then (and_then r f) g = and_then r (\<lambda>x. and_then (f x) g)"
  by (cases r) simp_all

lemma and_then_same: "(\<And>x. r = Ok x \<Longrightarrow> f x = g x) \<Longrightarrow> and_then r f = and_then r g"
  by (cases r) simp_all

lemma and_then_Ok [simp]: "and_then r Ok = r"
  by (cases r) simp_all

subsection \<open>Algorithms\<close>

datatype TpmHash =
    Sha1 | Sha256 | Sha384 | Sha512 | Sm3_256 | Sha3_256 | Sha3_384 | Sha3_512 | Shake128 | Shake256

definition TpmHash_variants :: "TpmHash list" where
  "TpmHash_variants =
     [Sha1, Sha256, Sha384, Sha512, Sm3_256, Sha3_256, Sha3_384, Sha3_512, Shake128, Shake256]"

definition TpmHash_try_from :: "TpmAlgId \<Rightarrow> (TpmHash, TpmCryptoError) result" where
  "TpmHash_try_from alg = (case alg of
       Alg_Sha1 \<Rightarrow> Ok Sha1
     | Alg_Sha256 \<Rightarrow> Ok Sha256
     | Alg_Sha384 \<Rightarrow> Ok Sha384
     | Alg_Sha512 \<Rightarrow> Ok Sha512
     | Alg_Sm3_256 \<Rightarrow> Ok Sm3_256
     | Alg_Sha3_256 \<Rightarrow> Ok Sha3_256
     | Alg_Sha3_384 \<Rightarrow> Ok Sha3_384
     | Alg_Sha3_512 \<Rightarrow> Ok Sha3_512
     | Alg_Shake128 \<Rightarrow> Ok Shake128
     | Alg_Shake256 \<Rightarrow> Ok Shake256
     | _ \<Rightarrow> Err Crypto_InvalidHash)"

primrec TpmHash_into :: "TpmHash \<Rightarrow> TpmAlgId" where
  "TpmHash_into Sha1 = Alg_Sha1"
| "TpmHash_into Sha256 = Alg_Sha256"
| "TpmHash_into Sha384 = Alg_Sha384"
| "TpmHash_into Sha512 = Alg_Sha512"
| "TpmHash_into Sm3_256 = Alg_Sm3_256"
| "TpmHash_into Sha3_256 = Alg_Sha3_256"
| "TpmHash_into Sha3_384 = Alg_Sha3_384"
| "TpmHash_into Sha3_512 = Alg_Sha3_512"
| "TpmHash_into Shake128 = Alg_Shake128"
| "TpmHash_into Shake256 = Alg_Shake256"

text \<open>\<open>Display\<close> and \<open>FromStr\<close>, which \<open>strum\<close> derives from the variants' names in kebab case.\<close>

primrec TpmHash_display :: "TpmHash \<Rightarrow> string" where
  "TpmHash_display Sha1 = ''sha1''"
| "TpmHash_display Sha256 = ''sha256''"
| "TpmHash_display Sha384 = ''sha384''"
| "TpmHash_display Sha512 = ''sha512''"
| "TpmHash_display Sm3_256 = ''sm3-256''"
| "TpmHash_display Sha3_256 = ''sha3-256''"
| "TpmHash_display Sha3_384 = ''sha3-384''"
| "TpmHash_display Sha3_512 = ''sha3-512''"
| "TpmHash_display Shake128 = ''shake128''"
| "TpmHash_display Shake256 = ''shake256''"

definition TpmHash_from_str :: "string \<Rightarrow> TpmHash option" where
  "TpmHash_from_str s = find (\<lambda>h. TpmHash_display h = s) TpmHash_variants"

lemma TpmHash_try_from_Ok_iff: "TpmHash_try_from alg = Ok h \<longleftrightarrow> TpmHash_into h = alg"
  by (cases h; cases alg) (simp_all add: TpmHash_try_from_def)

lemma TpmHash_try_from_into [simp]: "TpmHash_try_from (TpmHash_into h) = Ok h"
  by (simp add: TpmHash_try_from_Ok_iff)

lemma TpmHash_try_from_not_Panic [simp]: "TpmHash_try_from alg \<noteq> Panic"
  by (cases alg) (simp_all add: TpmHash_try_from_def)

lemma TpmHash_into_inj: "TpmHash_into h = TpmHash_into k \<longleftrightarrow> h = k"
  by (cases h; cases k) simp_all

lemma TpmHash_variants_complete: "h \<in> set TpmHash_variants"
  by (cases h) (simp_all add: TpmHash_variants_def)

lemma TpmHash_from_str_iff: "TpmHash_from_str s = Some h \<longleftrightarrow> TpmHash_display h = s"
proof
  assume "TpmHash_display h = s"
  then show "TpmHash_from_str s = Some h"
    using find_distinct [of h TpmHash_variants TpmHash_display] TpmHash_variants_complete [of h]
    by (simp add: TpmHash_from_str_def TpmHash_variants_def)
qed (auto simp: TpmHash_from_str_def dest: find_Some_imp)

subsection \<open>The cryptographic library\<close>

record libcrypto =
  md_size :: "TpmHash \<Rightarrow> nat"
  md_digest :: "TpmHash \<Rightarrow> u8 list \<Rightarrow> (u8 list, ErrorStack) result"
  pkey_hmac :: "u8 list \<Rightarrow> (unit, ErrorStack) result"
  mac_len :: "TpmHash \<Rightarrow> u8 list \<Rightarrow> (nat, ErrorStack) result"
  mac_sign :: "TpmHash \<Rightarrow> u8 list \<Rightarrow> u8 list \<Rightarrow> nat \<Rightarrow> (u8 list, ErrorStack) result"
  memcmp_eq :: "u8 list \<Rightarrow> u8 list \<Rightarrow> (bool, TpmCryptoError) result"

text \<open>The documented behaviour the code relies on: sizes are those of the algorithm, a MAC that is
  signed into a buffer of that size has that size, nothing panics except \<open>memcmp::eq\<close> on slices of
  different lengths.\<close>

definition libcrypto_ok :: "libcrypto \<Rightarrow> bool" where
  "libcrypto_ok L \<longleftrightarrow>
     (\<forall>h. 0 < md_size L h \<and> md_size L h \<le> MAX_DIGEST_SIZE) \<and>
     (\<forall>h m. md_digest L h m \<noteq> Panic \<and> (\<forall>d. md_digest L h m = Ok d \<longrightarrow> length d = md_size L h)) \<and>
     (\<forall>k. pkey_hmac L k \<noteq> Panic) \<and>
     (\<forall>h k. mac_len L h k \<noteq> Panic \<and> (\<forall>n. mac_len L h k = Ok n \<longrightarrow> n = md_size L h)) \<and>
     (\<forall>h k m n. mac_sign L h k m n \<noteq> Panic \<and>
        (\<forall>s. mac_sign L h k m n = Ok s \<longrightarrow> n = md_size L h \<longrightarrow> length s = md_size L h)) \<and>
     (\<forall>a b. memcmp_eq L a b = (if length a = length b then Ok (a = b) else Panic))"

lemma libcrypto_okD:
  assumes "libcrypto_ok L"
  shows "0 < md_size L h" "md_size L h \<le> MAX_DIGEST_SIZE" "md_digest L h m \<noteq> Panic"
    "md_digest L h m = Ok d \<Longrightarrow> length d = md_size L h" "pkey_hmac L k \<noteq> Panic"
    "mac_len L h k \<noteq> Panic" "mac_len L h k = Ok n \<Longrightarrow> n = md_size L h"
    "mac_sign L h k m n \<noteq> Panic" "mac_sign L h k m (md_size L h) = Ok s \<Longrightarrow> length s = md_size L h"
    "memcmp_eq L a b = (if length a = length b then Ok (a = b) else Panic)"
  using assms by (auto simp: libcrypto_ok_def)

subsection \<open>Digests and MACs\<close>

definition check_output_len :: "u8 list \<Rightarrow> nat \<Rightarrow> (unit, TpmCryptoError) result" where
  "check_output_len output expected =
     (if length output < expected then Err (Crypto_BufferTooSmall expected (length output))
      else Ok ())"

text \<open>\<open>output[..n].copy_from_slice(d)\<close> with \<open>n = d.len()\<close>, at an offset.\<close>

definition copy_at :: "nat \<Rightarrow> u8 list \<Rightarrow> u8 list \<Rightarrow> (u8 list, TpmCryptoError) result" where
  "copy_at off d output =
     (if off + length d \<le> length output
      then Ok (take off output @ d @ drop (off + length d) output) else Panic)"

text \<open>The routines that write into \<open>output\<close> return the number of bytes written with the buffer.\<close>

definition digest_into ::
  "libcrypto \<Rightarrow> TpmHash \<Rightarrow> u8 list list \<Rightarrow> u8 list \<Rightarrow> (nat \<times> u8 list, TpmCryptoError) result" where
  "digest_into L h data_chunks output =
     and_then (check_output_len output (md_size L h)) (\<lambda>_.
     and_then (map_err Crypto_Crypto (md_digest L h (concat data_chunks))) (\<lambda>d.
     and_then (copy_at 0 d output) (\<lambda>output. Ok (length d, output))))"

definition TpmHash_digest :: "libcrypto \<Rightarrow> TpmHash \<Rightarrow> u8 list list \<Rightarrow> (u8 list, TpmCryptoError) result" where
  "TpmHash_digest L h data_chunks =
     and_then (digest_into L h data_chunks (replicate (md_size L h) 0)) (\<lambda>(len, output).
       Ok (take len output))"

definition hmac_into ::
  "libcrypto \<Rightarrow> TpmHash \<Rightarrow> u8 list \<Rightarrow> u8 list list \<Rightarrow> u8 list \<Rightarrow>
   (nat \<times> u8 list, TpmCryptoError) result" where
  "hmac_into L h key data_chunks output =
     (if key = [] then Err Crypto_KeyIsEmpty
      else and_then (map_err Crypto_Crypto (pkey_hmac L key)) (\<lambda>_.
        and_then (map_err Crypto_Crypto (mac_len L h key)) (\<lambda>len.
        and_then (check_output_len output len) (\<lambda>_.
        and_then (map_err Crypto_Crypto (mac_sign L h key (concat data_chunks) len)) (\<lambda>s.
        and_then (copy_at 0 s output) (\<lambda>output. Ok (length s, output)))))))"

definition hmac ::
  "libcrypto \<Rightarrow> TpmHash \<Rightarrow> u8 list \<Rightarrow> u8 list list \<Rightarrow> (u8 list, TpmCryptoError) result" where
  "hmac L h key data_chunks =
     and_then (hmac_into L h key data_chunks (replicate (md_size L h) 0)) (\<lambda>(len, output).
       Ok (take len output))"

definition hmac_verify ::
  "libcrypto \<Rightarrow> TpmHash \<Rightarrow> u8 list \<Rightarrow> u8 list list \<Rightarrow> u8 list \<Rightarrow> (unit, TpmCryptoError) result" where
  "hmac_verify L h key data_chunks signature =
     and_then (hmac L h key data_chunks) (\<lambda>expected.
     and_then (memcmp_eq L expected signature) (\<lambda>eq.
       if eq then Ok () else Err Crypto_MacMismatch))"

lemma TpmHash_digest_eq:
  assumes "libcrypto_ok L"
  shows "TpmHash_digest L h chunks = map_err Crypto_Crypto (md_digest L h (concat chunks))"
proof (cases "md_digest L h (concat chunks)")
  case (Ok d)
  with libcrypto_okD(4) [OF assms Ok] show ?thesis
    by (simp add: TpmHash_digest_def digest_into_def check_output_len_def copy_at_def)
qed (simp_all add: TpmHash_digest_def digest_into_def check_output_len_def)

lemma TpmHash_digest_length:
  "\<lbrakk>libcrypto_ok L; TpmHash_digest L h chunks = Ok d\<rbrakk> \<Longrightarrow> length d = md_size L h"
  by (auto simp: TpmHash_digest_eq libcrypto_okD(4))

lemma TpmHash_digest_not_Panic: "libcrypto_ok L \<Longrightarrow> TpmHash_digest L h chunks \<noteq> Panic"
  by (simp add: TpmHash_digest_eq libcrypto_okD(3))

lemma hmac_length:
  assumes "libcrypto_ok L" "hmac L h key chunks = Ok d"
  shows "length d = md_size L h"
proof -
  from assms(2) obtain n s where "mac_len L h key = Ok n" "mac_sign L h key (concat chunks) n = Ok s"
    and "d = s"
    by (auto simp: hmac_def hmac_into_def copy_at_def split: if_splits)
  with libcrypto_okD(7,9) [OF assms(1)] show ?thesis by metis
qed

subsection \<open>Key derivation\<close>

definition split_label_and_terminator :: "u8 list \<Rightarrow> u8 list \<times> u8 list" where
  "split_label_and_terminator label =
     (if label \<noteq> [] \<and> last label = 0 then (label, []) else (label, [0]))"

definition checked_kdf_key_bits :: "nat \<Rightarrow> (nat \<times> u8 list, TpmCryptoError) result" where
  "checked_kdf_key_bits key_bits =
     (if key_bits > u32_max then Err (Crypto_InvalidKdfKeyBits key_bits)
      else Ok ((key_bits + 7) div 8, to_be_bytes 4 key_bits))"

text \<open>The loop of \<open>kdfa_into\<close> and \<open>kdfe_into\<close>, which differ in the block of a counter only.  The \<open>u32\<close>
  counter is incremented with the overflow check of Rust.\<close>

partial_function (option) kdf_loop ::
  "(nat \<Rightarrow> (u8 list, TpmCryptoError) result) \<Rightarrow> nat \<Rightarrow> nat \<Rightarrow> nat \<Rightarrow> u8 list \<Rightarrow>
   (u8 list, TpmCryptoError) result option" where
  "kdf_loop block key_bytes counter off output =
     (if off < key_bytes then
        case block counter of
          Err e \<Rightarrow> Some (Err e)
        | Panic \<Rightarrow> Some Panic
        | Ok b \<Rightarrow>
            let to_take = min (key_bytes - off) (length b) in
            case copy_at off (take to_take b) output of
              Err e \<Rightarrow> Some (Err e)
            | Panic \<Rightarrow> Some Panic
            | Ok output' \<Rightarrow>
                if counter = u32_max then Some Panic
                else kdf_loop block key_bytes (counter + 1) (off + to_take) output'
      else Some (Ok output))"

definition kdfa_block ::
  "libcrypto \<Rightarrow> TpmHash \<Rightarrow> u8 list \<Rightarrow> u8 list \<Rightarrow> u8 list \<Rightarrow> u8 list \<Rightarrow> u8 list \<Rightarrow> nat \<Rightarrow>
   (u8 list, TpmCryptoError) result" where
  "kdfa_block L h hmac_key label context_a context_b key_bits_bytes counter =
     (case split_label_and_terminator label of (label_data, terminator) \<Rightarrow>
        if md_size L h > MAX_DIGEST_SIZE then Panic
        else map_err Crypto_Crypto (mac_sign L h hmac_key
               (concat [to_be_bytes 4 counter, label_data, terminator, context_a, context_b,
                        key_bits_bytes])
               (md_size L h)))"

definition kdfa_into ::
  "libcrypto \<Rightarrow> TpmHash \<Rightarrow> u8 list \<Rightarrow> u8 list \<Rightarrow> u8 list \<Rightarrow> u8 list \<Rightarrow> nat \<Rightarrow> u8 list \<Rightarrow>
   (nat \<times> u8 list, TpmCryptoError) result option" where
  "kdfa_into L h hmac_key label context_a context_b key_bits output =
     (if hmac_key = [] then Some (Err Crypto_KeyIsEmpty)
      else case and_then (checked_kdf_key_bits key_bits) (\<lambda>(key_bytes, bits).
             and_then (check_output_len output key_bytes) (\<lambda>_.
             and_then (map_err Crypto_Crypto (pkey_hmac L hmac_key)) (\<lambda>_. Ok (key_bytes, bits)))) of
          Err e \<Rightarrow> Some (Err e)
        | Panic \<Rightarrow> Some Panic
        | Ok (key_bytes, bits) \<Rightarrow>
            map_option (\<lambda>r. and_then r (\<lambda>output. Ok (key_bytes, output)))
              (kdf_loop (kdfa_block L h hmac_key label context_a context_b bits) key_bytes 1 0 output))"

definition kdfa ::
  "libcrypto \<Rightarrow> TpmHash \<Rightarrow> u8 list \<Rightarrow> u8 list \<Rightarrow> u8 list \<Rightarrow> u8 list \<Rightarrow> nat \<Rightarrow>
   (u8 list, TpmCryptoError) result option" where
  "kdfa L h hmac_key label context_a context_b key_bits =
     (case checked_kdf_key_bits key_bits of
        Err e \<Rightarrow> Some (Err e)
      | Panic \<Rightarrow> Some Panic
      | Ok (key_bytes, _) \<Rightarrow>
          map_option (\<lambda>r. and_then r (\<lambda>(len, output). Ok (take len output)))
            (kdfa_into L h hmac_key label context_a context_b key_bits (replicate key_bytes 0)))"

definition kdfe_block ::
  "libcrypto \<Rightarrow> TpmHash \<Rightarrow> u8 list \<Rightarrow> u8 list \<Rightarrow> u8 list \<Rightarrow> u8 list \<Rightarrow> nat \<Rightarrow>
   (u8 list, TpmCryptoError) result" where
  "kdfe_block L h z label context_u context_v counter =
     (case split_label_and_terminator label of (label_data, terminator) \<Rightarrow>
        map_err Crypto_Crypto (md_digest L h
          (concat [to_be_bytes 4 counter, z, label_data, terminator, context_u, context_v])))"

definition kdfe_into ::
  "libcrypto \<Rightarrow> TpmHash \<Rightarrow> u8 list \<Rightarrow> u8 list \<Rightarrow> u8 list \<Rightarrow> u8 list \<Rightarrow> nat \<Rightarrow> u8 list \<Rightarrow>
   (nat \<times> u8 list, TpmCryptoError) result option" where
  "kdfe_into L h z label context_u context_v key_bits output =
     (case and_then (checked_kdf_key_bits key_bits) (\<lambda>(key_bytes, _).
             and_then (check_output_len output key_bytes) (\<lambda>_. Ok key_bytes)) of
        Err e \<Rightarrow> Some (Err e)
      | Panic \<Rightarrow> Some Panic
      | Ok key_bytes \<Rightarrow>
          map_option (\<lambda>r. and_then r (\<lambda>output. Ok (key_bytes, output)))
            (kdf_loop (kdfe_block L h z label context_u context_v) key_bytes 1 0 output))"

definition kdfe ::
  "libcrypto \<Rightarrow> TpmHash \<Rightarrow> u8 list \<Rightarrow> u8 list \<Rightarrow> u8 list \<Rightarrow> u8 list \<Rightarrow> nat \<Rightarrow>
   (u8 list, TpmCryptoError) result option" where
  "kdfe L h z label context_u context_v key_bits =
     (case checked_kdf_key_bits key_bits of
        Err e \<Rightarrow> Some (Err e)
      | Panic \<Rightarrow> Some Panic
      | Ok (key_bytes, _) \<Rightarrow>
          map_option (\<lambda>r. and_then r (\<lambda>(len, output). Ok (take len output)))
            (kdfe_into L h z label context_u context_v key_bits (replicate key_bytes 0)))"

text \<open>The key stream that the two functions compute: the blocks of the counters from 1 on.\<close>

fun blocks :: "(nat \<Rightarrow> (u8 list, 'e) result) \<Rightarrow> nat \<Rightarrow> nat \<Rightarrow> (u8 list, 'e) result" where
  "blocks block counter 0 = Ok []"
| "blocks block counter (Suc n) =
     and_then (block counter) (\<lambda>b. and_then (blocks block (counter + 1) n) (\<lambda>bs. Ok (b @ bs)))"

lemma blocks_length:
  "\<lbrakk>blocks block c n = Ok bs; \<And>c b. block c = Ok b \<Longrightarrow> length b = k\<rbrakk> \<Longrightarrow> length bs = n * k"
  by (induction n arbitrary: c bs) auto

lemma ceil_le_iff: "0 < (k :: nat) \<Longrightarrow> (n + k - 1) div k = 0 \<longleftrightarrow> n = 0"
  by (cases k) (auto simp: div_eq_0_iff)

lemma ceil_step:
  assumes "0 < (k :: nat)" "0 < n"
  shows "(n + k - 1) div k = Suc ((n - min n k + k - 1) div k)"
proof (cases "k \<le> n")
  case True
  obtain m where m: "n = Suc m" using assms(2) gr0_implies_Suc by blast
  with True assms have "n + k - 1 = m + k" "n - min n k + k - 1 = m" by (simp_all add: min_def)
  moreover have "(m + k) div k = Suc (m div k)" using assms(1) div_add_self2 [of k m] by simp
  ultimately show ?thesis by (simp only:)
next
  case False
  with assms have "(n + k - 1) div k = 1"
    by (intro div_nat_eqI) auto
  with False assms show ?thesis by (simp add: min_absorb1)
qed

lemma kdf_loop_returns:
  assumes len: "\<And>c b. block c = Ok b \<Longrightarrow> length b = k" and k: "0 < k"
    and np: "\<And>c. block c \<noteq> Panic"
  shows "\<lbrakk>off \<le> key_bytes; key_bytes \<le> length dst;
     counter + (key_bytes - off + k - 1) div k \<le> u32_max\<rbrakk> \<Longrightarrow>
     kdf_loop block key_bytes counter off dst =
       Some (and_then (blocks block counter ((key_bytes - off + k - 1) div k)) (\<lambda>bs.
         Ok (take off dst @ take (key_bytes - off) bs @ drop key_bytes dst)))"
proof (induction "key_bytes - off" arbitrary: counter off dst rule: less_induct)
  case less
  show ?case
  proof (cases "off < key_bytes")
    case False
    with less.prems have "off = key_bytes" by simp
    moreover have "(key_bytes - off + k - 1) div k = 0"
      using False k by simp
    ultimately show ?thesis
      using less.prems by (subst kdf_loop.simps) simp
  next
    case True
    let ?n = "key_bytes - off"
    obtain t where t: "t = min ?n k" by blast
    have tb: "t \<le> ?n" "t \<le> k" "0 < t" "off + t \<le> key_bytes" "off + t \<le> length dst"
      using t k True less.prems by simp_all
    have step: "(?n + k - 1) div k = Suc ((?n - t + k - 1) div k)"
      using ceil_step [OF k, of ?n] True t by simp
    show ?thesis
    proof (cases "block counter")
      case (Ok b)
      then have b: "length b = k" by (rule len)
      define dst' where "dst' = take off dst @ take t b @ drop (off + t) dst"
      have copy: "copy_at off (take t b) dst = result.Ok dst'"
        using tb b by (simp add: copy_at_def dst'_def min_absorb2)
      have c: "counter \<noteq> u32_max" using less.prems(3) step by simp
      have rest: "key_bytes - (off + t) = ?n - t" by simp
      have hyps: "key_bytes - (off + t) < ?n" "off + t \<le> key_bytes" "key_bytes \<le> length dst'"
        "counter + 1 + (key_bytes - (off + t) + k - 1) div k \<le> u32_max"
        using tb less.prems step b by (simp_all add: dst'_def min_absorb2)
      note IH = less.hyps [OF hyps, unfolded rest]
      have takes: "take (off + t) dst' = take off dst @ take t b"
        and drops: "drop key_bytes dst' = drop key_bytes dst"
        using tb b by (simp_all add: dst'_def min_absorb2)
      have out: "take (off + t) dst' @ take (?n - t) bs @ drop key_bytes dst' =
          take off dst @ take ?n (b @ bs) @ drop key_bytes dst" for bs
      proof -
        have "take t b @ take (?n - t) bs = take ?n (b @ bs)"
          using t b by (cases "?n \<le> k") simp_all
        then have "(take off dst @ take t b) @ take (?n - t) bs = take off dst @ take ?n (b @ bs)"
          by simp
        then show ?thesis by (simp only: takes drops append_assoc [symmetric])
      qed
      have unfold: "kdf_loop block key_bytes counter off dst =
          kdf_loop block key_bytes (counter + 1) (off + t) dst'"
        using True Ok copy c b by (subst kdf_loop.simps) (simp add: Let_def t)
      show ?thesis
        unfolding unfold IH step blocks.simps Ok and_then.simps out
        by (cases "blocks block (counter + 1) ((?n - t + k - 1) div k)") simp_all
    qed (use True np step in \<open>simp_all add: kdf_loop.simps\<close>)
  qed
qed

subsection \<open>Object names\<close>

definition TpmtPublic_name_alg :: "val \<Rightarrow> TpmAlgId" where
  "TpmtPublic_name_alg public =
     (case public of VStruct (_ # VEnum (EAlgId a) # _) \<Rightarrow> a | _ \<Rightarrow> Alg_Error)"

text \<open>\<open>public.marshal\<close> into a zeroed buffer of \<open>n\<close> bytes, and the bytes the writer holds.\<close>

definition marshal_into :: "wr \<Rightarrow> nat \<Rightarrow> u8 list TpmResult" where
  "marshal_into m n = (case m (Writer_new (replicate n 0)) of (r, w) \<Rightarrow>
     and_then r (\<lambda>_. Ok (Writer_as_bytes w)))"

definition tpm_make_name :: "libcrypto \<Rightarrow> val \<Rightarrow> (u8 list, TpmCryptoError) result" where
  "tpm_make_name L public =
     and_then (TpmHash_try_from (TpmtPublic_name_alg public)) (\<lambda>name_alg.
     and_then (map_err Crypto_Marshal (marshal_into (marshal TpmtPublic public) (SIZE TpmtPublic)))
       (\<lambda>public_bytes.
     and_then (digest_into L name_alg [public_bytes] (replicate MAX_DIGEST_SIZE 0))
       (\<lambda>(digest_len, digest).
     and_then (copy_at 0 (to_be_bytes 2 (nat (TpmAlgId_value (TpmtPublic_name_alg public))))
                (replicate (MAX_DIGEST_SIZE + 2) 0)) (\<lambda>final_buf.
     and_then (copy_at 2 (take digest_len digest) final_buf) (\<lambda>final_buf.
       map_err Crypto_Unmarshal
         (TpmBuffer_try_from (MAX_DIGEST_SIZE + 2) (take (2 + digest_len) final_buf)))))))"

lemma marshal_into_emits:
  "\<lbrakk>emits m bs; length bs \<le> n; n \<le> usize_max\<rbrakk> \<Longrightarrow> marshal_into m n = Ok bs"
  by (simp add: marshal_into_def emits_fits Writer_new_def writer_ok_def Writer_as_bytes_def)

text \<open>The name of a public area is the algorithm's identifier and the digest of its bytes.\<close>

lemma tpm_make_name_eq:
  assumes L: "libcrypto_ok L" and v: "valid TpmtPublic public"
    and h: "TpmtPublic_name_alg public = TpmHash_into h"
  shows "tpm_make_name L public =
     and_then (map_err Crypto_Crypto (md_digest L h (encode TpmtPublic public))) (\<lambda>d.
       Ok (to_be_bytes 2 (nat (TpmAlgId_value (TpmHash_into h))) @ d))"
proof -
  note c = wire_field_codec [OF TpmtPublic_ok]
  have "length (encode TpmtPublic public) \<le> SIZE TpmtPublic"
    using wire_codec.length_encode [OF c v] wire_codec.len_le_SIZE [OF c v] by simp
  moreover have "SIZE TpmtPublic \<le> usize_max"
    by (simp add: TpmtPublic_def TPM_MAX_COMMAND_SIZE_def usize_max_def)
  ultimately have m: "marshal_into (marshal TpmtPublic public) (SIZE TpmtPublic) =
      Ok (encode TpmtPublic public)"
    using marshal_into_emits [OF wire_codec.marshal_emits [OF c v]] by blast
  show ?thesis
  proof (cases "md_digest L h (encode TpmtPublic public)")
    case (Ok d)
    have d: "length d = md_size L h" "length d \<le> 64"
      using libcrypto_okD(4) [OF L Ok] libcrypto_okD(2) [OF L, of h]
      by (simp_all add: MAX_DIGEST_SIZE_def)
    with Ok m h show ?thesis
      by (simp add: tpm_make_name_def digest_into_def check_output_len_def copy_at_def
          MAX_DIGEST_SIZE_def TpmBuffer_try_from_def TpmBuffer_try_extend_from_slice_def
          u16_max_def usize_max_def)
  qed (use m h libcrypto_okD(2) [OF L, of h] in
      \<open>simp_all add: tpm_make_name_def digest_into_def check_output_len_def\<close>)
qed

end
