(* ===== verification/Rust_Text.thy ===== *)
theory Rust_Text
  imports Prelude
begin

text \<open>
  The string operations of Rust's standard library that the program uses.  A \<open>&str\<close> is the list of its
  UTF-8 bytes, so \<open>length\<close> is \<open>len()\<close> and appending is \<open>push_str\<close>; a \<open>char\<close> of Rust is the list of the bytes
  of one scalar value, as \<open>chars\<close> splits them off.
\<close>

subsection \<open>Characters\<close>

definition utf8_len :: "char \<Rightarrow> nat" where
  "utf8_len c =
     (let n = of_char c :: nat in if n < 0xC0 then 1 else if n < 0xE0 then 2 else if n < 0xF0 then 3 else 4)"

lemma utf8_len_pos [simp]: "0 < utf8_len c"
  by (simp add: utf8_len_def Let_def)

function chars :: "string \<Rightarrow> string list" where
  "chars [] = []"
| "chars (c # s) = take (utf8_len c) (c # s) # chars (drop (utf8_len c) (c # s))"
  by pat_completeness auto

termination
  by (relation "measure length") (simp_all add: Suc_diff_le)

definition is_whitespace :: "string \<Rightarrow> bool" where
  "is_whitespace ch \<longleftrightarrow> ch \<in> set
     ([[CHR 0x09], [CHR 0x0A], [CHR 0x0B], [CHR 0x0C], [CHR 0x0D], [CHR 0x20],
       [CHR 0xC2, CHR 0x85], [CHR 0xC2, CHR 0xA0], [CHR 0xE1, CHR 0x9A, CHR 0x80],
       [CHR 0xE2, CHR 0x80, CHR 0x80], [CHR 0xE2, CHR 0x80, CHR 0x81],
       [CHR 0xE2, CHR 0x80, CHR 0x82], [CHR 0xE2, CHR 0x80, CHR 0x83],
       [CHR 0xE2, CHR 0x80, CHR 0x84], [CHR 0xE2, CHR 0x80, CHR 0x85],
       [CHR 0xE2, CHR 0x80, CHR 0x86], [CHR 0xE2, CHR 0x80, CHR 0x87],
       [CHR 0xE2, CHR 0x80, CHR 0x88], [CHR 0xE2, CHR 0x80, CHR 0x89],
       [CHR 0xE2, CHR 0x80, CHR 0x8A], [CHR 0xE2, CHR 0x80, CHR 0xA8],
       [CHR 0xE2, CHR 0x80, CHR 0xA9], [CHR 0xE2, CHR 0x80, CHR 0xAF],
       [CHR 0xE2, CHR 0x81, CHR 0x9F], [CHR 0xE3, CHR 0x80, CHR 0x80]])"

definition ascii :: "string \<Rightarrow> bool" where
  "ascii s \<longleftrightarrow> list_all (\<lambda>c. (of_char c :: nat) < 128) s"

lemma ascii_simps [simp]:
  "ascii []" "ascii (c # s) \<longleftrightarrow> (of_char c :: nat) < 128 \<and> ascii s" "ascii (s @ t) \<longleftrightarrow> ascii s \<and> ascii t"
  by (auto simp: ascii_def)

lemma chars_ascii: "ascii s \<Longrightarrow> chars s = map (\<lambda>c. [c]) s"
  by (induction s) (auto simp: utf8_len_def Let_def)

lemma concat_chars [simp]: "concat (chars s) = s"
  by (induction s rule: chars.induct) (simp_all del: take_append drop_append)

subsection \<open>Splitting and joining\<close>

text \<open>\<open>split(c)\<close>, \<open>split_once(c)\<close> and \<open>rsplit_once(c)\<close> for an ASCII separator.\<close>

fun split_str :: "char \<Rightarrow> string \<Rightarrow> string list" where
  "split_str c [] = [[]]"
| "split_str c (d # s) =
     (if d = c then [] # split_str c s
      else case split_str c s of p # ps \<Rightarrow> (d # p) # ps | [] \<Rightarrow> [[d]])"

fun split_once :: "char \<Rightarrow> string \<Rightarrow> (string \<times> string) option" where
  "split_once c [] = None"
| "split_once c (d # s) =
     (if d = c then Some ([], s)
      else map_option (\<lambda>(a, b). (d # a, b)) (split_once c s))"

definition rsplit_once :: "char \<Rightarrow> string \<Rightarrow> (string \<times> string) option" where
  "rsplit_once c s = map_option (\<lambda>(a, b). (rev b, rev a)) (split_once c (rev s))"

fun join :: "string \<Rightarrow> string list \<Rightarrow> string" where
  "join sep [] = []"
| "join sep [s] = s"
| "join sep (s # ss) = s @ sep @ join sep ss"

lemma split_str_not_Nil [simp]: "split_str c s \<noteq> []"
  by (induction s) (auto split: list.splits)

lemma split_str_none: "c \<notin> set s \<Longrightarrow> split_str c s = [s]"
  by (induction s) auto

lemma split_str_append: "c \<notin> set s \<Longrightarrow> split_str c (s @ c # t) = s # split_str c t"
  by (induction s) auto

lemma split_once_append: "c \<notin> set s \<Longrightarrow> split_once c (s @ c # t) = Some (s, t)"
  by (induction s) auto

lemma split_once_None_iff: "split_once c s = None \<longleftrightarrow> c \<notin> set s"
  by (induction s) auto

lemma rsplit_once_append: "c \<notin> set t \<Longrightarrow> rsplit_once c (s @ c # t) = Some (s, t)"
  by (simp add: rsplit_once_def split_once_append)

lemma rsplit_once_None_iff: "rsplit_once c s = None \<longleftrightarrow> c \<notin> set s"
  by (simp add: rsplit_once_def split_once_None_iff)

lemma set_join: "set (join sep ss) \<subseteq> set sep \<union> \<Union> (set ` set ss)"
  by (induction sep ss rule: join.induct) auto

lemma join_Cons: "ss \<noteq> [] \<Longrightarrow> join sep (s # ss) = s @ sep @ join sep ss"
  by (cases ss) simp_all

lemma split_str_join:
  "\<lbrakk>ss \<noteq> []; \<And>s. s \<in> set ss \<Longrightarrow> c \<notin> set s\<rbrakk> \<Longrightarrow> split_str c (join [c] ss) = ss"
proof (induction ss)
  case (Cons s ss)
  then show ?case
    by (cases "ss = []") (simp_all add: split_str_none split_str_append join_Cons)
qed simp

lemma join_snoc: "ss \<noteq> [] \<Longrightarrow> join sep (ss @ [s]) = join sep ss @ sep @ s"
proof (induction ss)
  case (Cons a ss)
  then show ?case
    by (cases "ss = []") (simp_all add: join_Cons)
qed simp

subsection \<open>Numbers\<close>

definition digit_char :: "nat \<Rightarrow> char" where
  "digit_char n = (if n < 10 then char_of (48 + n) else char_of (87 + n))"

text \<open>\<open>char::to_digit\<close>.\<close>

definition to_digit :: "nat \<Rightarrow> char \<Rightarrow> nat option" where
  "to_digit radix c =
     (let n = of_char c;
          d = (if 48 \<le> n \<and> n \<le> 57 then n - 48
               else if 97 \<le> n \<and> n \<le> 122 then n - 87
               else if 65 \<le> n \<and> n \<le> 90 then n - 55 else radix)
      in if d < radix then Some d else None)"

fun read_digits :: "nat \<Rightarrow> nat \<Rightarrow> string \<Rightarrow> nat option" where
  "read_digits radix n [] = Some n"
| "read_digits radix n (c # s) =
     (case to_digit radix c of
        None \<Rightarrow> None
      | Some d \<Rightarrow> read_digits radix (n * radix + d) s)"

text \<open>\<open>u32::from_str_radix\<close>, and with radix 10 \<open>str::parse::<u32>\<close>: at least one digit, an optional
  leading plus sign, no overflow.\<close>

definition u32_from_str_radix :: "nat \<Rightarrow> string \<Rightarrow> nat option" where
  "u32_from_str_radix radix s =
     (let digits = (case s of c # rest \<Rightarrow> if c = CHR ''+'' then rest else s | [] \<Rightarrow> [])
      in if digits = [] then None
         else case read_digits radix 0 digits of
           Some n \<Rightarrow> if n \<le> u32_max then Some n else None
         | None \<Rightarrow> None)"

text \<open>\<open>to_string\<close> of an unsigned integer, and \<open>{:08x}\<close> and \<open>{:04x}\<close> of one that fits.\<close>

fun nat_display :: "nat \<Rightarrow> string" where
  "nat_display n = (if n < 10 then [digit_char n] else nat_display (n div 10) @ [digit_char (n mod 10)])"

declare nat_display.simps [simp del]

fun hex_digits :: "nat \<Rightarrow> nat \<Rightarrow> string" where
  "hex_digits 0 n = []"
| "hex_digits (Suc k) n = hex_digits k (n div 16) @ [digit_char (n mod 16)]"

lemma to_digit_digit_char: "\<lbrakk>d < radix; radix \<le> 16\<rbrakk> \<Longrightarrow> to_digit radix (digit_char d) = Some d"
  by (auto simp: to_digit_def digit_char_def Let_def)

lemma digit_char_not_plus [simp]: "d < 16 \<Longrightarrow> digit_char d \<noteq> CHR ''+''"
proof
  assume "d < 16" "digit_char d = CHR ''+''"
  then have "to_digit 16 (CHR ''+'') = Some d"
    using to_digit_digit_char [of d 16] by simp
  then show False by (simp add: to_digit_def Let_def)
qed

lemma read_digits_append:
  "read_digits radix n (s @ t) = Option.bind (read_digits radix n s) (\<lambda>m. read_digits radix m t)"
  by (induction s arbitrary: n) (auto split: option.splits)

lemma read_nat_display: "read_digits 10 0 (nat_display n) = Some n"
proof (induction n rule: nat_display.induct)
  case (1 n)
  then show ?case
    by (subst nat_display.simps) (auto simp: read_digits_append to_digit_digit_char)
qed

lemma read_hex_digits: "n < 16 ^ k \<Longrightarrow> read_digits 16 0 (hex_digits k n) = Some n"
  by (induction k arbitrary: n) (auto simp: read_digits_append to_digit_digit_char less_mult_imp_div_less)

lemma length_hex_digits [simp]: "length (hex_digits k n) = k"
  by (induction k arbitrary: n) auto

lemma set_nat_display: "set (nat_display n) \<subseteq> digit_char ` {..<10}"
proof (induction n rule: nat_display.induct)
  case (1 n)
  then show ?case
    by (subst nat_display.simps) auto
qed

lemma set_hex_digits: "set (hex_digits k n) \<subseteq> digit_char ` {..<16}"
  by (induction k arbitrary: n) auto

lemma nat_display_not_Nil [simp]: "nat_display n \<noteq> []"
  by (subst nat_display.simps) simp

lemma u32_from_digits:
  assumes "set s \<subseteq> digit_char ` {..<16}" "s \<noteq> []" "read_digits radix 0 s = Some n" "n \<le> u32_max"
  shows "u32_from_str_radix radix s = Some n"
proof -
  from assms(1,2) have "(case s of c # rest \<Rightarrow> if c = CHR ''+'' then rest else s | [] \<Rightarrow> []) = s"
    by (cases s) (auto dest: digit_char_not_plus)
  with assms show ?thesis
    by (simp add: u32_from_str_radix_def)
qed

lemma u32_parse_display: "n \<le> u32_max \<Longrightarrow> u32_from_str_radix 10 (nat_display n) = Some n"
  using set_nat_display [of n] by (intro u32_from_digits read_nat_display) auto

lemma u32_parse_hex: "n \<le> u32_max \<Longrightarrow> u32_from_str_radix 16 (hex_digits 8 n) = Some n"
  using set_hex_digits [of 8 n] length_hex_digits [of 8 n]
  by (intro u32_from_digits read_hex_digits) (auto simp: u32_max_def simp del: length_hex_digits)

lemma u32_from_str_radix_le: "u32_from_str_radix radix s = Some n \<Longrightarrow> n \<le> u32_max"
  by (auto simp: u32_from_str_radix_def Let_def split: if_splits option.splits)

end
