(* ===== verification/Policy.thy ===== *)
theory Policy
  imports Wire_Types Hash Rust_Text "HOL-Library.AList"
begin

text \<open>
  The policy language: the errors, the context, the syntax tree and its printer, the tokenizer and
  the parser of \<open>policy-language/src/lib.rs\<close>, \<open>error.rs\<close> and \<open>expression.rs\<close>.  A hash map is an association list
  with distinct keys in the order in which the map iterates; the statements hold for every order.
  The crate \<open>hex\<close> is a parameter.
\<close>

subsection \<open>Errors\<close>

datatype TpmPolicyError =
    Policy_Crypto TpmCryptoError
  | Policy_InvalidCc TpmCc
  | Policy_InvalidExpression
  | Policy_InvalidHandleType u8
  | Policy_InvalidToken string
  | Policy_InvalidPcrDigest
  | Policy_InvalidPcrDigestAlgorithm
  | Policy_InvalidPcrSelection
  | Policy_Marshal TpmError
  | Policy_CommandStreamBranchUnderflow
  | Policy_CommandStreamUnbalancedBranches
  | Policy_ParenthesisMismatch
  | Policy_PcrBankNotAvailable TpmHash
  | Policy_PcrCountMismatch
  | Policy_PcrDigestMissing
  | Policy_PcrDigestTooLarge
  | Policy_PcrIndexTooLarge
  | Policy_PcrSelectionTooLarge
  | Policy_TooManyBranches
  | Policy_TrailingData
  | Policy_UnexpectedEnd

type_synonym 'a PolicyResult = "('a, TpmPolicyError) result"

primrec TpmPolicyError_display :: "TpmPolicyError \<Rightarrow> string" where
  "TpmPolicyError_display (Policy_Crypto _) = ''crypto''"
| "TpmPolicyError_display (Policy_InvalidCc _) = ''invalid cc''"
| "TpmPolicyError_display Policy_InvalidExpression = ''invalid expression''"
| "TpmPolicyError_display (Policy_InvalidHandleType _) = ''invalid handle type''"
| "TpmPolicyError_display (Policy_InvalidToken _) = ''invalid token''"
| "TpmPolicyError_display Policy_InvalidPcrDigest = ''invalid pcr digest''"
| "TpmPolicyError_display Policy_InvalidPcrDigestAlgorithm = ''invalid pcr digest algorithm''"
| "TpmPolicyError_display Policy_InvalidPcrSelection = ''invalid pcr selection''"
| "TpmPolicyError_display (Policy_Marshal _) = ''marshal''"
| "TpmPolicyError_display Policy_CommandStreamBranchUnderflow = ''command stream branch underflow''"
| "TpmPolicyError_display Policy_CommandStreamUnbalancedBranches =
     ''command stream unbalanced branches''"
| "TpmPolicyError_display Policy_ParenthesisMismatch = ''parenthesis mismatch''"
| "TpmPolicyError_display (Policy_PcrBankNotAvailable _) = ''pcr bank not available''"
| "TpmPolicyError_display Policy_PcrCountMismatch = ''pcr count mismatch''"
| "TpmPolicyError_display Policy_PcrDigestMissing = ''pcr digest missing''"
| "TpmPolicyError_display Policy_PcrDigestTooLarge = ''pcr digest too large''"
| "TpmPolicyError_display Policy_PcrIndexTooLarge = ''pcr index too large''"
| "TpmPolicyError_display Policy_PcrSelectionTooLarge = ''pcr selection too large''"
| "TpmPolicyError_display Policy_TooManyBranches = ''too many branches''"
| "TpmPolicyError_display Policy_TrailingData = ''trailing data''"
| "TpmPolicyError_display Policy_UnexpectedEnd = ''unexpected end''"

subsection \<open>Context\<close>

type_synonym pcr_bank = "(nat \<times> u8 list) list"

record TpmPolicyContext =
  ctx_names :: "(u32 \<times> u8 list) list"
  ctx_pcrs :: "(TpmAlgId \<times> pcr_bank) list"
  ctx_pcr_count :: nat

record TpmPolicyContextBuilder =
  builder_names :: "(u32 \<times> u8 list) list"
  builder_pcrs :: "(TpmAlgId \<times> pcr_bank) list"

fun check_banks :: "nat \<Rightarrow> pcr_bank list \<Rightarrow> nat PolicyResult" where
  "check_banks pcr_count [] = Ok pcr_count"
| "check_banks pcr_count (bank # banks) =
     (let pcr_count = (if pcr_count = 0 then length bank else pcr_count) in
      if pcr_count \<noteq> length bank then Err Policy_PcrCountMismatch
      else check_banks pcr_count banks)"

definition TpmPolicyContext_new ::
  "(u32 \<times> u8 list) list \<Rightarrow> (TpmAlgId \<times> pcr_bank) list \<Rightarrow> TpmPolicyContext PolicyResult" where
  "TpmPolicyContext_new names pcrs =
     and_then (check_banks 0 (map snd pcrs)) (\<lambda>pcr_count.
       Ok \<lparr>ctx_names = names, ctx_pcrs = pcrs, ctx_pcr_count = pcr_count\<rparr>)"

definition TpmPolicyContext_name :: "TpmPolicyContext \<Rightarrow> u32 \<Rightarrow> u8 list option" where
  "TpmPolicyContext_name context handle = map_of (ctx_names context) handle"

definition Builder_new :: TpmPolicyContextBuilder where
  "Builder_new = \<lparr>builder_names = [], builder_pcrs = []\<rparr>"

definition with_name :: "u32 \<Rightarrow> u8 list \<Rightarrow> TpmPolicyContextBuilder \<Rightarrow> TpmPolicyContextBuilder" where
  "with_name handle name b = b\<lparr>builder_names := AList.update handle name (builder_names b)\<rparr>"

definition with_names ::
  "(u32 \<times> u8 list) list \<Rightarrow> TpmPolicyContextBuilder \<Rightarrow> TpmPolicyContextBuilder" where
  "with_names names b =
     b\<lparr>builder_names := fold (\<lambda>(k, v). AList.update k v) names (builder_names b)\<rparr>"

definition with_pcr_bank ::
  "TpmAlgId \<Rightarrow> (nat \<times> u8 list) list \<Rightarrow> TpmPolicyContextBuilder \<Rightarrow> TpmPolicyContextBuilder" where
  "with_pcr_bank alg pcrs b =
     b\<lparr>builder_pcrs :=
         AList.update alg (fold (\<lambda>(k, v). AList.update k v) pcrs []) (builder_pcrs b)\<rparr>"

definition build :: "TpmPolicyContextBuilder \<Rightarrow> TpmPolicyContext PolicyResult" where
  "build b = TpmPolicyContext_new (builder_names b) (builder_pcrs b)"

subsection \<open>Expressions and their printer\<close>

type_synonym pcr_selection = "TpmAlgId \<times> u8 list"

datatype TpmPolicyExpression =
    PcrExpr "pcr_selection list" "u8 list option"
  | SecretExpr TpmPolicyExpression "u8 list option"
  | AndExpr "TpmPolicyExpression list"
  | OrExpr "TpmPolicyExpression list"
  | HandleExpr u32

record hex_lib =
  hex_encode :: "u8 list \<Rightarrow> string"
  hex_decode :: "string \<Rightarrow> u8 list option"

text \<open>What the documentation of \<open>hex\<close> promises: lower-case digits, and decoding what was encoded.\<close>

definition hex_ok :: "hex_lib \<Rightarrow> bool" where
  "hex_ok H \<longleftrightarrow> (\<forall>b. hex_decode H (hex_encode H b) = Some b \<and>
     set (hex_encode H b) \<subseteq> digit_char ` {..<16})"

text \<open>The indices whose bits are set, in the order of the two nested loops of the code.\<close>

definition pcr_indices :: "u8 list \<Rightarrow> nat list" where
  "pcr_indices pcr_select =
     concat (map (\<lambda>byte_index.
       map (\<lambda>bit_index. byte_index * 8 + bit_index)
         (filter (\<lambda>bit_index. pcr_select ! byte_index AND push_bit bit_index 1 \<noteq> 0) [0..<8]))
       [0..<length pcr_select])"

definition selection_display :: "pcr_selection \<Rightarrow> string" where
  "selection_display sel = (case sel of (hash, pcr_select) \<Rightarrow>
     (case TpmHash_try_from hash of
        Ok alg \<Rightarrow> TpmHash_display alg
      | _ \<Rightarrow> ''0x'' @ hex_digits 4 (nat (TpmAlgId_value hash))) @
     '':'' @ join '','' (map nat_display (pcr_indices pcr_select)))"

fun expr_display :: "hex_lib \<Rightarrow> TpmPolicyExpression \<Rightarrow> string" where
  "expr_display H (PcrExpr selections digest) =
     ''pcr('' @ join ''+'' (map selection_display selections) @
     (case digest of Some d \<Rightarrow> '':'' @ hex_encode H d | None \<Rightarrow> []) @ '')''"
| "expr_display H (SecretExpr auth_handle copy_ref) =
     ''secret('' @ expr_display H auth_handle @
     (case copy_ref of Some cr \<Rightarrow> '', copy_ref:'' @ hex_encode H cr | None \<Rightarrow> []) @ '')''"
| "expr_display H (AndExpr expressions) =
     ''('' @ join '' and '' (map (expr_display H) expressions) @ '')''"
| "expr_display H (OrExpr expressions) =
     ''('' @ join '' or '' (map (expr_display H) expressions) @ '')''"
| "expr_display H (HandleExpr handle) = hex_digits 8 (unat handle)"

subsection \<open>Tokens\<close>

datatype Token = TokAnd | TokOr | TokLParen | TokRParen | TokComma | TokIdent string

primrec Token_display :: "Token \<Rightarrow> string" where
  "Token_display TokAnd = [CHR 0x27] @ ''and'' @ [CHR 0x27]"
| "Token_display TokOr = [CHR 0x27] @ ''or'' @ [CHR 0x27]"
| "Token_display TokLParen = [CHR 0x27] @ ''('' @ [CHR 0x27]"
| "Token_display TokRParen = [CHR 0x27] @ '')'' @ [CHR 0x27]"
| "Token_display TokComma = [CHR 0x27] @ '','' @ [CHR 0x27]"
| "Token_display (TokIdent s) = [CHR 0x27] @ s @ [CHR 0x27]"

definition is_delimiter :: "string \<Rightarrow> bool" where
  "is_delimiter ch \<longleftrightarrow> is_whitespace ch \<or> ch \<in> {''('', '')'', '',''}"

definition ident_token :: "string \<Rightarrow> Token" where
  "ident_token ident_slice =
     (if ident_slice = ''and'' then TokAnd
      else if ident_slice = ''or'' then TokOr else TokIdent ident_slice)"

function tokenize_chars :: "string list \<Rightarrow> Token list" where
  "tokenize_chars [] = []"
| "tokenize_chars (c # cs) =
     (if c = ''('' then TokLParen # tokenize_chars cs
      else if c = '')'' then TokRParen # tokenize_chars cs
      else if c = '','' then TokComma # tokenize_chars cs
      else if is_whitespace c then tokenize_chars cs
      else ident_token (concat (c # takeWhile (\<lambda>d. \<not> is_delimiter d) cs)) #
             tokenize_chars (dropWhile (\<lambda>d. \<not> is_delimiter d) cs))"
  by pat_completeness auto

termination
  by (relation "measure length") (simp_all add: le_imp_less_Suc length_dropWhile_le)

definition tokenize :: "string \<Rightarrow> Token list" where
  "tokenize input = tokenize_chars (chars input)"

subsection \<open>Parsing the leaves\<close>

fun parse_indices :: "string list \<Rightarrow> nat list option" where
  "parse_indices [] = Some []"
| "parse_indices (s # ss) =
     (case u32_from_str_radix 10 s of
        None \<Rightarrow> None
      | Some n \<Rightarrow> map_option ((#) n) (parse_indices ss))"

fun set_pcr_bits :: "nat \<Rightarrow> nat list \<Rightarrow> u8 list \<Rightarrow> u8 list PolicyResult" where
  "set_pcr_bits pcr_count [] bits = Ok bits"
| "set_pcr_bits pcr_count (i # is) bits =
     (if i \<ge> pcr_count then Err Policy_PcrIndexTooLarge
      else if i div 8 < length bits
      then set_pcr_bits pcr_count is (bits[i div 8 := bits ! (i div 8) OR push_bit (i mod 8) 1])
      else Panic)"

definition parse_selection_part ::
  "TpmPolicyContext \<Rightarrow> nat \<Rightarrow> string \<Rightarrow> pcr_selection PolicyResult" where
  "parse_selection_part context pcr_select_size part =
     and_then (ok_or Policy_InvalidPcrSelection (split_once CHR '':'' part))
       (\<lambda>(alg_str, indices_str).
     and_then (ok_or Policy_InvalidPcrDigestAlgorithm (TpmHash_from_str alg_str)) (\<lambda>alg.
       if map_of (ctx_pcrs context) (TpmHash_into alg) = None
       then Err (Policy_PcrBankNotAvailable alg)
       else
     and_then (ok_or Policy_InvalidPcrSelection
                (parse_indices (split_str CHR '','' indices_str))) (\<lambda>indices.
     and_then (set_pcr_bits (ctx_pcr_count context) indices (replicate pcr_select_size 0)) (\<lambda>bits.
     and_then (map_err (\<lambda>_. Policy_PcrDigestTooLarge) (TpmsPcrSelect_try_from bits)) (\<lambda>pcr_select.
       Ok (TpmHash_into alg, pcr_select))))))"

fun parse_selection_parts ::
  "TpmPolicyContext \<Rightarrow> nat \<Rightarrow> string list \<Rightarrow> pcr_selection list \<Rightarrow> pcr_selection list PolicyResult"
where
  "parse_selection_parts context pcr_select_size [] lst = Ok lst"
| "parse_selection_parts context pcr_select_size (part # parts) lst =
     and_then (parse_selection_part context pcr_select_size part) (\<lambda>sel.
     and_then (map_err (\<lambda>_. Policy_PcrSelectionTooLarge) (TpmList_try_push 8 lst sel)) (\<lambda>lst.
       parse_selection_parts context pcr_select_size parts lst))"

definition parse_tpml_pcr_selection_str ::
  "string \<Rightarrow> TpmPolicyContext \<Rightarrow> pcr_selection list PolicyResult" where
  "parse_tpml_pcr_selection_str selection_str context =
     (let pcr_select_size = (ctx_pcr_count context + 7) div 8 in
      if pcr_select_size > TPM_PCR_SELECT_MAX then Err Policy_PcrSelectionTooLarge
      else parse_selection_parts context pcr_select_size (split_str CHR ''+'' selection_str) [])"

definition u32_type :: "u32 \<Rightarrow> u8" where
  "u32_type raw = ucast (drop_bit 24 raw)"

definition parse_literal :: "string \<Rightarrow> TpmPolicyExpression PolicyResult" where
  "parse_literal s =
     (if length s \<noteq> 8 then Err (Policy_InvalidToken s)
      else and_then (ok_or (Policy_InvalidToken s) (u32_from_str_radix 16 s)) (\<lambda>n.
        let raw = word_of_nat n; ht_byte = u32_type raw in
        and_then (map_err (\<lambda>_. Policy_InvalidHandleType ht_byte) (TpmHt_try_from (uint ht_byte))) (\<lambda>_.
          Ok (HandleExpr raw))))"

text \<open>\<open>match tokens.next()\<close> against one expected token.\<close>

fun expect :: "Token \<Rightarrow> Token list \<Rightarrow> Token list PolicyResult" where
  "expect t [] = Err Policy_UnexpectedEnd"
| "expect t (actual # ts) =
     (if actual = t then Ok ts else Err (Policy_InvalidToken (Token_display actual)))"

fun pcr_call_text :: "Token list \<Rightarrow> string \<Rightarrow> (string \<times> Token list) PolicyResult" where
  "pcr_call_text [] buf = Err Policy_UnexpectedEnd"
| "pcr_call_text (TokRParen # ts) buf = Ok (buf, ts)"
| "pcr_call_text (TokIdent s # ts) buf = pcr_call_text ts (buf @ s)"
| "pcr_call_text (TokComma # ts) buf = pcr_call_text ts (buf @ '','')"
| "pcr_call_text (tok # ts) buf = Err (Policy_InvalidToken (Token_display tok))"

text \<open>The chain of \<open>if let\<close>: the text ends in a digest, and every step of reading it succeeds.\<close>

definition parse_pcr_with_digest ::
  "hex_lib \<Rightarrow> TpmPolicyContext \<Rightarrow> string \<Rightarrow> (pcr_selection list \<times> u8 list) option PolicyResult" where
  "parse_pcr_with_digest H context buf =
     (case rsplit_once CHR '':'' buf of
        None \<Rightarrow> Ok None
      | Some (selection_part, digest_part) \<Rightarrow>
          (case parse_tpml_pcr_selection_str selection_part context of
             Ok selections \<Rightarrow>
               (case hex_decode H digest_part of
                  Some digest_bytes \<Rightarrow>
                    (case TpmBuffer_try_from MAX_DIGEST_SIZE digest_bytes of
                       Ok d \<Rightarrow> Ok (Some (selections, d))
                     | Err _ \<Rightarrow> Ok None
                     | Panic \<Rightarrow> Panic)
                | None \<Rightarrow> Ok None)
           | Err _ \<Rightarrow> Ok None
           | Panic \<Rightarrow> Panic))"

definition parse_pcr_call ::
  "hex_lib \<Rightarrow> TpmPolicyContext \<Rightarrow> Token list \<Rightarrow> (TpmPolicyExpression \<times> Token list) PolicyResult" where
  "parse_pcr_call H context tokens =
     and_then (expect TokLParen tokens) (\<lambda>ts.
     and_then (pcr_call_text ts []) (\<lambda>(buf, ts).
     and_then (parse_pcr_with_digest H context buf) (\<lambda>with_digest.
       case with_digest of
         Some (selections, d) \<Rightarrow> Ok (PcrExpr selections (Some d), ts)
       | None \<Rightarrow>
           and_then (parse_tpml_pcr_selection_str buf context) (\<lambda>selections.
             Ok (PcrExpr selections None, ts)))))"

text \<open>The optional second argument of \<open>secret\<close>.\<close>

definition parse_copy_ref ::
  "hex_lib \<Rightarrow> Token list \<Rightarrow> (u8 list option \<times> Token list) PolicyResult" where
  "parse_copy_ref H tokens =
     (case tokens of
        TokComma # ts \<Rightarrow>
          (case ts of
             TokIdent ident # ts \<Rightarrow>
               (let invalid = Policy_InvalidToken ident in
                and_then (ok_or invalid (split_once CHR '':'' ident)) (\<lambda>(key, value).
                  if key \<noteq> ''copy_ref'' then Err invalid
                  else and_then (ok_or invalid (hex_decode H value)) (\<lambda>bytes.
                    if bytes = [] then Ok (None, ts)
                    else and_then (map_err (\<lambda>_. invalid) (TpmBuffer_try_from MAX_DIGEST_SIZE bytes))
                           (\<lambda>digest. Ok (Some digest, ts)))))
           | actual # _ \<Rightarrow> Err (Policy_InvalidToken (Token_display actual))
           | [] \<Rightarrow> Err Policy_UnexpectedEnd)
      | TokRParen # _ \<Rightarrow> Ok (None, tokens)
      | actual # _ \<Rightarrow> Err (Policy_InvalidToken (Token_display actual))
      | [] \<Rightarrow> Err Policy_UnexpectedEnd)"

lemma expect_length: "expect t ts = Ok ts' \<Longrightarrow> length ts' < length ts"
  by (cases ts) (auto split: if_splits)

lemma pcr_call_text_length: "pcr_call_text ts buf = Ok (s, ts') \<Longrightarrow> length ts' < length ts"
  by (induction ts buf rule: pcr_call_text.induct) auto

lemma parse_copy_ref_length: "parse_copy_ref H ts = Ok (cr, ts') \<Longrightarrow> length ts' \<le> length ts"
  by (auto simp: parse_copy_ref_def Let_def split: list.splits Token.splits if_splits)

lemma parse_pcr_call_length: "parse_pcr_call H context ts = Ok (e, ts') \<Longrightarrow> length ts' < length ts"
  by (auto simp: parse_pcr_call_def split: option.splits
      dest!: expect_length pcr_call_text_length)

subsection \<open>Parsing expressions\<close>

definition combine_or :: "TpmPolicyExpression \<Rightarrow> TpmPolicyExpression \<Rightarrow> TpmPolicyExpression" where
  "combine_or lhs rhs =
     (case lhs of OrExpr terms \<Rightarrow> OrExpr (terms @ [rhs]) | _ \<Rightarrow> OrExpr [lhs, rhs])"

definition combine_and :: "TpmPolicyExpression \<Rightarrow> TpmPolicyExpression \<Rightarrow> TpmPolicyExpression" where
  "combine_and lhs rhs =
     (case lhs of AndExpr factors \<Rightarrow> AndExpr (factors @ [rhs]) | _ \<Rightarrow> AndExpr [lhs, rhs])"

text \<open>\<open>parse_or_rest\<close> and \<open>parse_and_rest\<close> are the loop of \<open>parse_binary_expression\<close> for the two
  operators.  A parser returns the expression with the tokens it left.\<close>

function parse_or :: "hex_lib \<Rightarrow> TpmPolicyContext \<Rightarrow> Token list \<Rightarrow>
    (TpmPolicyExpression \<times> Token list) PolicyResult"
  and parse_or_rest :: "hex_lib \<Rightarrow> TpmPolicyContext \<Rightarrow> TpmPolicyExpression \<Rightarrow> Token list \<Rightarrow>
    (TpmPolicyExpression \<times> Token list) PolicyResult"
  and parse_and :: "hex_lib \<Rightarrow> TpmPolicyContext \<Rightarrow> Token list \<Rightarrow>
    (TpmPolicyExpression \<times> Token list) PolicyResult"
  and parse_and_rest :: "hex_lib \<Rightarrow> TpmPolicyContext \<Rightarrow> TpmPolicyExpression \<Rightarrow> Token list \<Rightarrow>
    (TpmPolicyExpression \<times> Token list) PolicyResult"
  and parse_primary :: "hex_lib \<Rightarrow> TpmPolicyContext \<Rightarrow> Token list \<Rightarrow>
    (TpmPolicyExpression \<times> Token list) PolicyResult"
  and parse_secret_call :: "hex_lib \<Rightarrow> TpmPolicyContext \<Rightarrow> Token list \<Rightarrow>
    (TpmPolicyExpression \<times> Token list) PolicyResult"
where
  "parse_or H context tokens =
     and_then (parse_and H context tokens) (\<lambda>(node, ts). parse_or_rest H context node ts)"
| "parse_or_rest H context node tokens =
     (if tokens \<noteq> [] \<and> hd tokens = TokOr then
        and_then (parse_and H context (tl tokens)) (\<lambda>(rhs, ts).
          parse_or_rest H context (combine_or node rhs) ts)
      else Ok (node, tokens))"
| "parse_and H context tokens =
     and_then (parse_primary H context tokens) (\<lambda>(node, ts). parse_and_rest H context node ts)"
| "parse_and_rest H context node tokens =
     (if tokens \<noteq> [] \<and> hd tokens = TokAnd then
        and_then (parse_primary H context (tl tokens)) (\<lambda>(rhs, ts).
          parse_and_rest H context (combine_and node rhs) ts)
      else Ok (node, tokens))"
| "parse_primary H context tokens =
     (case tokens of
        [] \<Rightarrow> Err Policy_UnexpectedEnd
      | TokLParen # ts \<Rightarrow>
          and_then (parse_or H context ts) (\<lambda>(expr, ts).
            if ts \<noteq> [] \<and> hd ts = TokRParen then Ok (expr, tl ts)
            else Err Policy_ParenthesisMismatch)
      | TokIdent name # ts \<Rightarrow>
          if name = ''pcr'' then parse_pcr_call H context ts
          else if name = ''secret'' then parse_secret_call H context ts
          else and_then (parse_literal name) (\<lambda>e. Ok (e, ts))
      | token # _ \<Rightarrow> Err (Policy_InvalidToken (Token_display token)))"
| "parse_secret_call H context tokens =
     and_then (expect TokLParen tokens) (\<lambda>ts.
     and_then (map_err (\<lambda>e. Policy_InvalidToken (TpmPolicyError_display e)) (parse_or H context ts))
       (\<lambda>(auth_handle, ts).
     and_then (parse_copy_ref H ts) (\<lambda>(copy_ref, ts).
     and_then (expect TokRParen ts) (\<lambda>ts.
       Ok (SecretExpr auth_handle copy_ref, ts)))))"
  by pat_completeness auto

text \<open>Every parser takes a token or more, the loops do not add any; so the recursion ends.\<close>

lemmas parse_pinduct =
  parse_or_parse_or_rest_parse_and_parse_and_rest_parse_primary_parse_secret_call.pinduct

lemmas parse_psimps = parse_or.psimps parse_or_rest.psimps parse_and.psimps parse_and_rest.psimps
  parse_primary.psimps parse_secret_call.psimps

abbreviation parse_dom where
  "parse_dom \<equiv> parse_or_parse_or_rest_parse_and_parse_and_rest_parse_primary_parse_secret_call_dom"

lemma parse_length_dom:
  "parse_dom (Inl (Inl (H, ctx, ts))) \<Longrightarrow>
     \<forall>e r. parse_or H ctx ts = Ok (e, r) \<longrightarrow> length r < length ts"
  "parse_dom (Inl (Inr (Inl (H, ctx, node, ts)))) \<Longrightarrow>
     \<forall>e r. parse_or_rest H ctx node ts = Ok (e, r) \<longrightarrow> length r \<le> length ts"
  "parse_dom (Inl (Inr (Inr (H, ctx, ts)))) \<Longrightarrow>
     \<forall>e r. parse_and H ctx ts = Ok (e, r) \<longrightarrow> length r < length ts"
  "parse_dom (Inr (Inl (H, ctx, node, ts))) \<Longrightarrow>
     \<forall>e r. parse_and_rest H ctx node ts = Ok (e, r) \<longrightarrow> length r \<le> length ts"
  "parse_dom (Inr (Inr (Inl (H, ctx, ts)))) \<Longrightarrow>
     \<forall>e r. parse_primary H ctx ts = Ok (e, r) \<longrightarrow> length r < length ts"
  "parse_dom (Inr (Inr (Inr (H, ctx, ts)))) \<Longrightarrow>
     \<forall>e r. parse_secret_call H ctx ts = Ok (e, r) \<longrightarrow> length r < length ts"
proof (induction H ctx ts and H ctx node ts and H ctx ts and H ctx node ts
    and H ctx ts and H ctx ts rule: parse_pinduct)
  case (1 H ctx tokens)
  show ?case
  proof (intro allI impI)
    fix e r assume "parse_or H ctx tokens = Ok (e, r)"
    then obtain node ts where "parse_and H ctx tokens = Ok (node, ts)"
      "parse_or_rest H ctx node ts = Ok (e, r)"
      by (auto simp: parse_or.psimps [OF 1(1)])
    with 1(2,3) have "length ts < length tokens" "length r \<le> length ts"
      by blast+
    then show "length r < length tokens" by simp
  qed
next
  case (2 H ctx node tokens)
  show ?case
  proof (intro allI impI)
    fix e r assume eq: "parse_or_rest H ctx node tokens = Ok (e, r)"
    show "length r \<le> length tokens"
    proof (cases "tokens \<noteq> [] \<and> hd tokens = TokOr")
      case True
      with eq obtain rhs ts where "parse_and H ctx (tl tokens) = Ok (rhs, ts)"
        "parse_or_rest H ctx (combine_or node rhs) ts = Ok (e, r)"
        by (auto simp: parse_or_rest.psimps [OF 2(1)])
      with True 2(2,3) have "length ts < length (tl tokens)" "length r \<le> length ts"
        by blast+
      then show ?thesis by simp
    next
      case False
      with eq show ?thesis by (simp add: parse_or_rest.psimps [OF 2(1)])
    qed
  qed
next
  case (3 H ctx tokens)
  show ?case
  proof (intro allI impI)
    fix e r assume "parse_and H ctx tokens = Ok (e, r)"
    then obtain node ts where "parse_primary H ctx tokens = Ok (node, ts)"
      "parse_and_rest H ctx node ts = Ok (e, r)"
      by (auto simp: parse_and.psimps [OF 3(1)])
    with 3(2,3) have "length ts < length tokens" "length r \<le> length ts"
      by blast+
    then show "length r < length tokens" by simp
  qed
next
  case (4 H ctx node tokens)
  show ?case
  proof (intro allI impI)
    fix e r assume eq: "parse_and_rest H ctx node tokens = Ok (e, r)"
    show "length r \<le> length tokens"
    proof (cases "tokens \<noteq> [] \<and> hd tokens = TokAnd")
      case True
      with eq obtain rhs ts where "parse_primary H ctx (tl tokens) = Ok (rhs, ts)"
        "parse_and_rest H ctx (combine_and node rhs) ts = Ok (e, r)"
        by (auto simp: parse_and_rest.psimps [OF 4(1)])
      with True 4(2,3) have "length ts < length (tl tokens)" "length r \<le> length ts"
        by blast+
      then show ?thesis by simp
    next
      case False
      with eq show ?thesis by (simp add: parse_and_rest.psimps [OF 4(1)])
    qed
  qed
next
  case (5 H ctx tokens)
  show ?case
  proof (intro allI impI)
    fix e r assume eq: "parse_primary H ctx tokens = Ok (e, r)"
    then obtain t ts where ts: "tokens = t # ts"
      using parse_primary.psimps [OF 5(1)] by (cases tokens) simp_all
    note unfold = parse_primary.psimps [OF 5(1), unfolded ts list.case]
    show "length r < length tokens"
    proof (cases t)
      case TokLParen
      with eq [unfolded ts unfold] obtain ts' where "parse_or H ctx ts = Ok (e, ts')" "r = tl ts'"
        by (auto split: if_splits)
      with 5(2) [OF ts TokLParen] ts show ?thesis by fastforce
    next
      case (TokIdent name)
      with eq [unfolded ts unfold] have "parse_pcr_call H ctx ts = Ok (e, r) \<or>
          name = ''secret'' \<and> name \<noteq> ''pcr'' \<and> parse_secret_call H ctx ts = Ok (e, r) \<or> r = ts"
        by (auto split: if_splits)
      with 5(3) [OF ts TokIdent] ts parse_pcr_call_length show ?thesis
        by fastforce
    qed (use eq [unfolded ts unfold] in simp_all)
  qed
next
  case (6 H ctx tokens)
  show ?case
  proof (intro allI impI)
    fix e r assume "parse_secret_call H ctx tokens = Ok (e, r)"
    then obtain ts auth ts1 cr ts2 where "expect TokLParen tokens = Ok ts"
      "parse_or H ctx ts = Ok (auth, ts1)" "parse_copy_ref H ts1 = Ok (cr, ts2)"
      "expect TokRParen ts2 = Ok r"
      by (auto simp: parse_secret_call.psimps [OF 6(1)])
    with 6(2) expect_length parse_copy_ref_length show "length r < length tokens"
      by (metis le_less_trans less_trans order_less_le_trans)
  qed
qed

termination parse_or
  by (relation "measure (\<lambda>x. case x of
       Inl (Inl (_, _, ts)) \<Rightarrow> 3 * length ts + 2
     | Inl (Inr (Inl (_, _, _, ts))) \<Rightarrow> 3 * length ts
     | Inl (Inr (Inr (_, _, ts))) \<Rightarrow> 3 * length ts + 1
     | Inr (Inl (_, _, _, ts)) \<Rightarrow> 3 * length ts
     | Inr (Inr (Inl (_, _, ts))) \<Rightarrow> 3 * length ts
     | Inr (Inr (Inr (_, _, ts))) \<Rightarrow> 3 * length ts)")
    (auto dest!: parse_length_dom [rule_format] expect_length simp: neq_Nil_conv)

declare parse_or.simps [simp del] parse_or_rest.simps [simp del] parse_and.simps [simp del]
  parse_and_rest.simps [simp del] parse_primary.simps [simp del] parse_secret_call.simps [simp del]

lemmas parse_simps = parse_or.simps parse_or_rest.simps parse_and.simps parse_and_rest.simps
  parse_primary.simps parse_secret_call.simps

lemmas parse_induct = parse_or_parse_or_rest_parse_and_parse_and_rest_parse_primary_parse_secret_call.induct

definition parse_expression ::
  "hex_lib \<Rightarrow> TpmPolicyContext \<Rightarrow> Token list \<Rightarrow> (TpmPolicyExpression \<times> Token list) PolicyResult" where
  "parse_expression H context tokens = parse_or H context tokens"

definition TpmPolicyExpression_parse ::
  "hex_lib \<Rightarrow> string \<Rightarrow> TpmPolicyContext \<Rightarrow> TpmPolicyExpression PolicyResult" where
  "TpmPolicyExpression_parse H input context =
     and_then (parse_expression H context (tokenize input)) (\<lambda>(expr, rest).
       if rest = [] then Ok expr else Err Policy_TrailingData)"

end
