(* ===== verification/Policy_Compile.thy ===== *)
theory Policy_Compile
  imports Policy
begin

text \<open>
  The software policy session and the compiler of \<open>policy-language\<close>: \<open>TpmPolicySession\<close> of \<open>lib.rs\<close>, and
  \<open>compile\<close> and \<open>from_commands\<close> of \<open>expression.rs\<close>.  The compiler's state is the command list with the
  session; an error ends the compilation and drops both, as the \<open>?\<close> of the code does.
\<close>

subsection \<open>Commands\<close>

text \<open>\<open>TpmCommandValue\<close>: the variants the crate builds with their typed fields, and any other variant
  with its code and body.\<close>

datatype TpmCommandValue =
    PolicyPcrCmd "u8 list" "pcr_selection list" u32
  | PolicyOrCmd "u8 list list" u32
  | PolicyRestartCmd u32
  | PolicySecretCmd "u8 list" "u8 list" "u8 list" "u8 list" u32 u32
  | OtherCmd TpmCc frame_body

type_synonym TpmAuthCommands = "val list"

fun TpmCommandValue_cc :: "TpmCommandValue \<Rightarrow> TpmCc" where
  "TpmCommandValue_cc (PolicyPcrCmd _ _ _) = Cc_PolicyPcr"
| "TpmCommandValue_cc (PolicyOrCmd _ _) = Cc_PolicyOr"
| "TpmCommandValue_cc (PolicyRestartCmd _) = Cc_PolicyRestart"
| "TpmCommandValue_cc (PolicySecretCmd _ _ _ _ _ _) = Cc_PolicySecret"
| "TpmCommandValue_cc (OtherCmd cc _) = cc"

definition handle_val :: "u32 \<Rightarrow> val" where
  "handle_val h = int_new 4 (unat h)"

lemma handle_val_valid [simp]: "valid TpmHandle (handle_val h)"
  by (simp add: handle_val_def int_new_def TpmHandle_def TpmUint32_def tpm_int_def)

definition pcrs_val :: "pcr_selection list \<Rightarrow> val" where
  "pcrs_val sels = VList (map (\<lambda>(hash, pcr_select).
     VStruct [VEnum (EAlgId hash), VBuffer pcr_select]) sels)"

text \<open>The body of the frame of a command, with the handles and parameters in the declared order.\<close>

fun TpmCommandValue_body :: "TpmCommandValue \<Rightarrow> frame_body" where
  "TpmCommandValue_body (PolicyPcrCmd pcr_digest pcrs h) =
     \<lparr>b_handles = [handle_val h], b_params = [VBuffer pcr_digest, pcrs_val pcrs]\<rparr>"
| "TpmCommandValue_body (PolicyOrCmd p_hash_list h) =
     \<lparr>b_handles = [handle_val h], b_params = [VList (map VBuffer p_hash_list)]\<rparr>"
| "TpmCommandValue_body (PolicyRestartCmd h) = \<lparr>b_handles = [handle_val h], b_params = []\<rparr>"
| "TpmCommandValue_body (PolicySecretCmd nonce_tpm cp_hash_a policy_ref expiration h1 h2) =
     \<lparr>b_handles = [handle_val h1, handle_val h2],
      b_params = [VBuffer nonce_tpm, VBuffer cp_hash_a, VBuffer policy_ref, VInt expiration]\<rparr>"
| "TpmCommandValue_body (OtherCmd _ b) = b"

subsection \<open>The software session\<close>

record TpmPolicySession =
  ses_digest :: "u8 list"
  ses_hash_alg :: TpmHash
  ses_digest_size :: nat

definition digest_try_from :: "u8 list \<Rightarrow> u8 list PolicyResult" where
  "digest_try_from bytes = map_err Policy_Marshal (TpmBuffer_try_from MAX_DIGEST_SIZE bytes)"

definition TpmPolicySession_new :: "libcrypto \<Rightarrow> TpmAlgId \<Rightarrow> TpmPolicySession PolicyResult" where
  "TpmPolicySession_new L alg =
     and_then (map_err Policy_Crypto (TpmHash_try_from alg)) (\<lambda>hash_alg.
     and_then (digest_try_from (replicate (md_size L hash_alg) 0)) (\<lambda>d.
       Ok \<lparr>ses_digest = d, ses_hash_alg = hash_alg, ses_digest_size = md_size L hash_alg\<rparr>))"

definition cc_bytes :: "TpmCc \<Rightarrow> u8 list" where
  "cc_bytes cc = to_be_bytes 4 (nat (TpmCc_value cc))"

text \<open>\<open>self.digest = H(chunks)\<close>.\<close>

definition session_extend ::
  "libcrypto \<Rightarrow> u8 list list \<Rightarrow> TpmPolicySession \<Rightarrow> TpmPolicySession PolicyResult" where
  "session_extend L chunks s =
     and_then (map_err Policy_Crypto (TpmHash_digest L (ses_hash_alg s) chunks)) (\<lambda>bytes.
     and_then (digest_try_from bytes) (\<lambda>d. Ok (s\<lparr>ses_digest := d\<rparr>)))"

definition policy_pcr ::
  "libcrypto \<Rightarrow> u8 list \<Rightarrow> pcr_selection list \<Rightarrow> TpmPolicySession \<Rightarrow> TpmPolicySession PolicyResult" where
  "policy_pcr L pcr_digest pcrs s =
     and_then (map_err Policy_Marshal
       (marshal_into (marshal TpmlPcrSelection (pcrs_val pcrs)) (SIZE TpmlPcrSelection)))
       (\<lambda>pcrs_bytes.
          session_extend L [ses_digest s, cc_bytes Cc_PolicyPcr, pcrs_bytes, pcr_digest] s)"

definition policy_or ::
  "libcrypto \<Rightarrow> u8 list list \<Rightarrow> TpmPolicySession \<Rightarrow> TpmPolicySession PolicyResult" where
  "policy_or L p_hash_list s =
     and_then (digest_try_from (replicate (ses_digest_size s) 0)) (\<lambda>zero.
       session_extend L [zero, cc_bytes Cc_PolicyOr, concat p_hash_list] (s\<lparr>ses_digest := zero\<rparr>))"

definition policy_secret ::
  "libcrypto \<Rightarrow> u8 list \<Rightarrow> u8 list \<Rightarrow> TpmPolicySession \<Rightarrow> TpmPolicySession PolicyResult" where
  "policy_secret L auth_handle_name policy_ref s =
     and_then (map_err Policy_Crypto (TpmHash_digest L (ses_hash_alg s)
       [ses_digest s, cc_bytes Cc_PolicySecret, auth_handle_name])) (\<lambda>bytes.
     and_then (digest_try_from bytes) (\<lambda>first_digest.
       session_extend L [first_digest, policy_ref] s))"

definition policy_restart :: "TpmPolicySession \<Rightarrow> TpmPolicySession PolicyResult" where
  "policy_restart s =
     and_then (digest_try_from (replicate (ses_digest_size s) 0)) (\<lambda>zero.
       Ok (s\<lparr>ses_digest := zero\<rparr>))"

subsection \<open>The compiler\<close>

type_synonym compiler = "(TpmCommandValue \<times> TpmAuthCommands) list \<times> TpmPolicySession"

fun bank_values :: "pcr_bank \<Rightarrow> nat list \<Rightarrow> u8 list PolicyResult" where
  "bank_values bank_pcrs [] = Ok []"
| "bank_values bank_pcrs (pcr_index # is) =
     and_then (ok_or Policy_PcrDigestMissing (map_of bank_pcrs pcr_index)) (\<lambda>v.
     and_then (bank_values bank_pcrs is) (\<lambda>vs. Ok (v @ vs)))"

fun pcr_data :: "TpmPolicyContext \<Rightarrow> pcr_selection list \<Rightarrow> u8 list PolicyResult" where
  "pcr_data context [] = Ok []"
| "pcr_data context ((hash, pcr_select) # sels) =
     and_then (ok_or Policy_PcrDigestMissing (map_of (ctx_pcrs context) hash)) (\<lambda>bank_pcrs.
     and_then (bank_values bank_pcrs (pcr_indices pcr_select)) (\<lambda>v.
     and_then (pcr_data context sels) (\<lambda>vs. Ok (v @ vs))))"

definition selected_digest ::
  "libcrypto \<Rightarrow> TpmPolicyContext \<Rightarrow> TpmHash \<Rightarrow> pcr_selection list \<Rightarrow> u8 list option \<Rightarrow> u8 list PolicyResult"
where
  "selected_digest L context hash_alg selections digest =
     (case digest of
        Some d \<Rightarrow> Ok d
      | None \<Rightarrow>
          and_then (pcr_data context selections) (\<lambda>data.
          and_then (map_err Policy_Crypto (TpmHash_digest L hash_alg [data])) digest_try_from))"

definition compile_walk_pcr ::
  "libcrypto \<Rightarrow> TpmPolicyContext \<Rightarrow> pcr_selection list \<Rightarrow> u8 list option \<Rightarrow> compiler \<Rightarrow> compiler PolicyResult"
where
  "compile_walk_pcr L context selections digest st = (case st of (cmds, s) \<Rightarrow>
     and_then (selected_digest L context (ses_hash_alg s) selections digest) (\<lambda>pcr_digest.
       if length pcr_digest \<noteq> ses_digest_size s then Err Policy_InvalidPcrDigest
       else and_then (policy_pcr L pcr_digest selections s) (\<lambda>s'.
         Ok (cmds @ [(PolicyPcrCmd pcr_digest selections 0, [])], s'))))"

definition secret_name :: "TpmPolicyContext \<Rightarrow> u32 \<Rightarrow> u8 list PolicyResult" where
  "secret_name context handle =
     (let ht_byte = u32_type handle; invalid = Policy_InvalidHandleType ht_byte in
      and_then (map_err (\<lambda>_. invalid) (TpmHt_try_from (uint ht_byte))) (\<lambda>ht.
        case ht of
          Ht_Persistent \<Rightarrow> ok_or Policy_InvalidExpression (map_of (ctx_names context) handle)
        | Ht_Transient \<Rightarrow> ok_or Policy_InvalidExpression (map_of (ctx_names context) handle)
        | Ht_Permanent \<Rightarrow>
            and_then (map_err (\<lambda>_. invalid) (TpmRh_try_from (uint handle))) (\<lambda>rh.
              if rh \<in> {Rh_Owner, Rh_Endorsement, Rh_Platform, Rh_Lockout}
              then map_err (\<lambda>_. invalid)
                (TpmBuffer_try_from (MAX_DIGEST_SIZE + 2) (to_be_bytes 4 (nat (TpmRh_value rh))))
              else Err invalid)
        | _ \<Rightarrow> Err invalid))"

definition compile_walk_secret ::
  "libcrypto \<Rightarrow> TpmPolicyContext \<Rightarrow> TpmPolicyExpression \<Rightarrow> u8 list option \<Rightarrow> compiler \<Rightarrow>
   compiler PolicyResult"
where
  "compile_walk_secret L context auth_handle copy_ref st = (case st of (cmds, s) \<Rightarrow>
     (case auth_handle of
        HandleExpr handle \<Rightarrow>
          and_then (secret_name context handle) (\<lambda>name.
            let policy_ref = (case copy_ref of Some cr \<Rightarrow> cr | None \<Rightarrow> []) in
            and_then (policy_secret L name policy_ref s) (\<lambda>s'.
              Ok (cmds @ [(PolicySecretCmd [] [] policy_ref (to_be_bytes 4 0) handle 0, [])], s')))
      | _ \<Rightarrow> Err Policy_InvalidExpression))"

text \<open>Each walk returns the digest that the session holds at its end; it is read off the state.\<close>

function (sequential) compile_walk ::
    "libcrypto \<Rightarrow> TpmPolicyContext \<Rightarrow> TpmPolicyExpression \<Rightarrow> compiler \<Rightarrow> compiler PolicyResult"
  and compile_walk_all ::
    "libcrypto \<Rightarrow> TpmPolicyContext \<Rightarrow> TpmPolicyExpression list \<Rightarrow> compiler \<Rightarrow> compiler PolicyResult"
  and compile_walk_branches ::
    "libcrypto \<Rightarrow> TpmPolicyContext \<Rightarrow> TpmPolicyExpression list \<Rightarrow> u8 list list \<Rightarrow> compiler \<Rightarrow>
     (u8 list list \<times> compiler) PolicyResult"
where
  "compile_walk L context (AndExpr branches) st = compile_walk_all L context branches st"
| "compile_walk L context (OrExpr branches) st =
     and_then (compile_walk_branches L context branches [] st) (\<lambda>(digest_list, cmds, s).
     and_then (policy_or L digest_list s) (\<lambda>s'.
       Ok (cmds @ [(PolicyOrCmd digest_list 0, [])], s')))"
| "compile_walk L context (PcrExpr selections digest) st =
     compile_walk_pcr L context selections digest st"
| "compile_walk L context (SecretExpr auth_handle copy_ref) st =
     compile_walk_secret L context auth_handle copy_ref st"
| "compile_walk L context (HandleExpr _) st = Err Policy_InvalidExpression"
| "compile_walk_all L context [] st = Ok st"
| "compile_walk_all L context (branch # branches) st =
     and_then (compile_walk L context branch st) (compile_walk_all L context branches)"
| "compile_walk_branches L context [] digest_list st = Ok (digest_list, st)"
| "compile_walk_branches L context (branch # branches) digest_list (cmds, s) =
     and_then (policy_restart s) (\<lambda>s.
     and_then (compile_walk L context branch (cmds @ [(PolicyRestartCmd 0, [])], s)) (\<lambda>(cmds, s).
     and_then (map_err (\<lambda>_. Policy_TooManyBranches) (TpmList_try_push 8 digest_list (ses_digest s)))
       (\<lambda>digest_list. compile_walk_branches L context branches digest_list (cmds, s))))"
  by pat_completeness auto

termination
  by (relation "measure (\<lambda>x. case x of
       Inl (_, _, e, _) \<Rightarrow> 2 * size e
     | Inr (Inl (_, _, es, _)) \<Rightarrow> 2 * size_list size es + 1
     | Inr (Inr (_, _, es, _, _)) \<Rightarrow> 2 * size_list size es + 1)") simp_all

record TpmCompiledPolicy =
  cp_commands :: "(TpmCommandValue \<times> TpmAuthCommands) list"
  cp_digest :: "u8 list"

definition compile_policy ::
  "libcrypto \<Rightarrow> TpmPolicyExpression \<Rightarrow> TpmAlgId \<Rightarrow> TpmPolicyContext \<Rightarrow> TpmCompiledPolicy PolicyResult" where
  "compile_policy L expr session_hash_alg context =
     and_then (TpmPolicySession_new L session_hash_alg) (\<lambda>s.
     and_then (compile_walk L context expr ([], s)) (\<lambda>(cmds, s).
       Ok \<lparr>cp_commands = cmds, cp_digest = ses_digest s\<rparr>))"

subsection \<open>Reading a command stream\<close>

definition build_and_branch :: "TpmPolicyExpression list \<Rightarrow> TpmPolicyExpression" where
  "build_and_branch branch = (case branch of [expr] \<Rightarrow> expr | _ \<Rightarrow> AndExpr branch)"

text \<open>The stack of branches, the last one first.\<close>

definition from_commands_step ::
  "TpmCommandValue \<Rightarrow> TpmPolicyExpression list list \<Rightarrow> TpmPolicyExpression list list PolicyResult"
where
  "from_commands_step cmd stack =
     (case stack of
        [] \<Rightarrow> Err Policy_CommandStreamBranchUnderflow
      | branch # rest \<Rightarrow>
          (case cmd of
             PolicyRestartCmd _ \<Rightarrow> Ok ([] # stack)
           | PolicyPcrCmd pcr_digest pcrs _ \<Rightarrow>
               Ok ((branch @ [PcrExpr pcrs (Some pcr_digest)]) # rest)
           | PolicySecretCmd _ _ policy_ref _ handle _ \<Rightarrow>
               Ok ((branch @ [SecretExpr (HandleExpr handle)
                                (if policy_ref = [] then None else Some policy_ref)]) # rest)
           | PolicyOrCmd p_hash_list _ \<Rightarrow>
               (let num_branches = length p_hash_list in
                if length stack < num_branches then Err Policy_CommandStreamBranchUnderflow
                else case drop num_branches stack of
                       [] \<Rightarrow> Err Policy_CommandStreamBranchUnderflow
                     | below # rest \<Rightarrow>
                         Ok ((below @ [OrExpr (rev (map build_and_branch (take num_branches stack)))])
                               # rest))
           | OtherCmd cc _ \<Rightarrow> Err (Policy_InvalidCc cc)))"

fun from_commands_run ::
  "TpmCommandValue list \<Rightarrow> TpmPolicyExpression list list \<Rightarrow> TpmPolicyExpression list list PolicyResult"
where
  "from_commands_run [] stack = Ok stack"
| "from_commands_run (cmd # cmds) stack =
     and_then (from_commands_step cmd stack) (from_commands_run cmds)"

definition from_commands :: "TpmCommandValue list \<Rightarrow> TpmPolicyExpression PolicyResult" where
  "from_commands command_list =
     and_then (from_commands_run command_list [[]]) (\<lambda>stack.
       case stack of
         [final_branch] \<Rightarrow> Ok (build_and_branch final_branch)
       | _ \<Rightarrow> Err Policy_CommandStreamUnbalancedBranches)"

end
