(* ===== verification/Policy_Laws.thy ===== *)
theory Policy_Laws
  imports Policy_Compile
begin

text \<open>
  What the compiler produces.  \<open>policy_value\<close> is the digest of an expression as a function of the digest before
  it, without commands, and \<open>canon\<close> the form in which \<open>from_commands\<close> reads a compiled expression back:
  conjunctions flat, digests filled in.  What the commands do on a TPM is in \<open>Policy_Tpm\<close>.
\<close>

subsection \<open>Policy values\<close>

definition extend_value :: "libcrypto \<Rightarrow> TpmHash \<Rightarrow> u8 list list \<Rightarrow> u8 list PolicyResult" where
  "extend_value L h chunks =
     and_then (map_err Policy_Crypto (TpmHash_digest L h chunks)) digest_try_from"

definition pcr_value ::
  "libcrypto \<Rightarrow> TpmPolicyContext \<Rightarrow> TpmHash \<Rightarrow> pcr_selection list \<Rightarrow> u8 list option \<Rightarrow> u8 list \<Rightarrow>
   u8 list PolicyResult"
where
  "pcr_value L context h sels dg d =
     and_then (selected_digest L context h sels dg) (\<lambda>pcr_digest.
       if length pcr_digest \<noteq> md_size L h then Err Policy_InvalidPcrDigest
       else and_then (map_err Policy_Marshal
              (marshal_into (marshal TpmlPcrSelection (pcrs_val sels)) (SIZE TpmlPcrSelection)))
            (\<lambda>pcrs_bytes. extend_value L h [d, cc_bytes Cc_PolicyPcr, pcrs_bytes, pcr_digest]))"

definition secret_value ::
  "libcrypto \<Rightarrow> TpmPolicyContext \<Rightarrow> TpmHash \<Rightarrow> TpmPolicyExpression \<Rightarrow> u8 list option \<Rightarrow> u8 list \<Rightarrow>
   u8 list PolicyResult"
where
  "secret_value L context h auth cr d =
     (case auth of
        HandleExpr handle \<Rightarrow>
          and_then (secret_name context handle) (\<lambda>name.
          and_then (extend_value L h [d, cc_bytes Cc_PolicySecret, name]) (\<lambda>first.
            extend_value L h [first, case cr of Some r \<Rightarrow> r | None \<Rightarrow> []]))
      | _ \<Rightarrow> Err Policy_InvalidExpression)"

abbreviation zero_digest :: "libcrypto \<Rightarrow> TpmHash \<Rightarrow> u8 list" where
  "zero_digest L h \<equiv> replicate (md_size L h) 0"

function (sequential) policy_value ::
    "libcrypto \<Rightarrow> TpmPolicyContext \<Rightarrow> TpmHash \<Rightarrow> TpmPolicyExpression \<Rightarrow> u8 list \<Rightarrow> u8 list PolicyResult"
  and policy_value_all ::
    "libcrypto \<Rightarrow> TpmPolicyContext \<Rightarrow> TpmHash \<Rightarrow> TpmPolicyExpression list \<Rightarrow> u8 list \<Rightarrow> u8 list PolicyResult"
  and policy_values ::
    "libcrypto \<Rightarrow> TpmPolicyContext \<Rightarrow> TpmHash \<Rightarrow> TpmPolicyExpression list \<Rightarrow> u8 list list PolicyResult"
where
  "policy_value L context h (AndExpr es) d = policy_value_all L context h es d"
| "policy_value L context h (OrExpr es) d =
     and_then (policy_values L context h es) (\<lambda>ds.
       extend_value L h [zero_digest L h, cc_bytes Cc_PolicyOr, concat ds])"
| "policy_value L context h (PcrExpr sels dg) d = pcr_value L context h sels dg d"
| "policy_value L context h (SecretExpr auth cr) d = secret_value L context h auth cr d"
| "policy_value L context h (HandleExpr _) d = Err Policy_InvalidExpression"
| "policy_value_all L context h [] d = Ok d"
| "policy_value_all L context h (e # es) d =
     and_then (policy_value L context h e d) (policy_value_all L context h es)"
| "policy_values L context h [] = Ok []"
| "policy_values L context h (e # es) =
     and_then (policy_value L context h e (zero_digest L h)) (\<lambda>d.
     and_then (policy_values L context h es) (\<lambda>ds. Ok (d # ds)))"
  by pat_completeness auto

termination
  by (relation "measure (\<lambda>x. case x of
       Inl (_, _, _, e, _) \<Rightarrow> 2 * size e
     | Inr (Inl (_, _, _, es, _)) \<Rightarrow> 2 * size_list size es + 1
     | Inr (Inr (_, _, _, es)) \<Rightarrow> 2 * size_list size es + 1)") simp_all

subsection \<open>Canonical form\<close>

fun canon :: "libcrypto \<Rightarrow> TpmPolicyContext \<Rightarrow> TpmHash \<Rightarrow> TpmPolicyExpression \<Rightarrow> TpmPolicyExpression list"
where
  "canon L context h (AndExpr es) = concat (map (canon L context h) es)"
| "canon L context h (OrExpr es) = [OrExpr (map (\<lambda>e. build_and_branch (canon L context h e)) es)]"
| "canon L context h (PcrExpr sels dg) =
     [PcrExpr sels (case selected_digest L context h sels dg of Ok d \<Rightarrow> Some d | _ \<Rightarrow> dg)]"
| "canon L context h (SecretExpr auth cr) =
     [SecretExpr auth (if cr = Some [] then None else cr)]"
| "canon L context h (HandleExpr handle) = [HandleExpr handle]"

subsection \<open>The compiler against the two of them\<close>

definition session_ok :: "libcrypto \<Rightarrow> TpmHash \<Rightarrow> TpmPolicySession \<Rightarrow> bool" where
  "session_ok L h s \<longleftrightarrow> ses_hash_alg s = h \<and> ses_digest_size s = md_size L h"

lemma digest_try_from_Ok_iff: "digest_try_from d = Ok d' \<longleftrightarrow> d' = d \<and> length d \<le> 64"
proof (cases "length d \<le> 64")
  case True
  then show ?thesis
    by (auto simp: digest_try_from_def TpmBuffer_try_from_eq MAX_DIGEST_SIZE_def u16_max_def)
next
  case False
  then show ?thesis
    by (auto simp: digest_try_from_def TpmBuffer_try_from_def TpmBuffer_try_extend_from_slice_def
        MAX_DIGEST_SIZE_def checked_add_def split: if_splits)
qed

lemma session_extend_Ok_iff:
  "session_extend L chunks s = Ok s' \<longleftrightarrow>
   (\<exists>d. extend_value L (ses_hash_alg s) chunks = Ok d \<and> s' = s\<lparr>ses_digest := d\<rparr>)"
  unfolding session_extend_def extend_value_def by (simp only: and_then_Ok_iff result.inject) blast

lemma policy_restart_Ok_iff:
  "policy_restart s = Ok s' \<longleftrightarrow>
   ses_digest_size s \<le> 64 \<and> s' = s\<lparr>ses_digest := replicate (ses_digest_size s) 0\<rparr>"
  by (auto simp: policy_restart_def digest_try_from_Ok_iff)

lemma policy_or_Ok_iff:
  "policy_or L ds s = Ok s' \<longleftrightarrow> ses_digest_size s \<le> 64 \<and>
   (\<exists>d. extend_value L (ses_hash_alg s)
          [replicate (ses_digest_size s) 0, cc_bytes Cc_PolicyOr, concat ds] = Ok d \<and>
        s' = s\<lparr>ses_digest := d\<rparr>)"
  by (auto simp: policy_or_def digest_try_from_Ok_iff session_extend_Ok_iff)

lemma policy_secret_Ok_iff:
  "policy_secret L name cr s = Ok s' \<longleftrightarrow>
   (\<exists>first d. extend_value L (ses_hash_alg s) [ses_digest s, cc_bytes Cc_PolicySecret, name] = Ok first \<and>
      extend_value L (ses_hash_alg s) [first, cr] = Ok d \<and> s' = s\<lparr>ses_digest := d\<rparr>)"
  unfolding policy_secret_def session_extend_Ok_iff
  by (simp only: and_then_Ok_iff session_extend_Ok_iff extend_value_def) blast

lemma TpmList_try_push_Ok_iff:
  "TpmList_try_push C xs x = Ok ys \<longleftrightarrow> length xs < C \<and> ys = xs @ [x]"
  by (auto simp: TpmList_try_push_def)

lemma from_commands_run_append:
  "from_commands_run (xs @ ys) stack = and_then (from_commands_run xs stack) (from_commands_run ys)"
proof (induction xs arbitrary: stack)
  case (Cons x xs)
  then show ?case by (cases "from_commands_step x stack") simp_all
qed simp

lemma session_ok_update [simp]: "session_ok L h (s\<lparr>ses_digest := d\<rparr>) = session_ok L h s"
  by (simp add: session_ok_def)

text \<open>What the commands \<open>new\<close> do that a walk appends: reading them back adds \<open>branch\<close> to the branch that the
  reader is in, or puts \<open>branches\<close> on its stack.\<close>

definition adds :: "compiler \<Rightarrow> compiler \<Rightarrow> TpmPolicyExpression list \<Rightarrow> bool" where
  "adds st st' branch \<longleftrightarrow> (\<exists>new. fst st' = fst st @ new \<and>
     (\<forall>b stack. from_commands_run (map fst new) (b # stack) = Ok ((b @ branch) # stack)))"

definition adds_branches :: "compiler \<Rightarrow> compiler \<Rightarrow> TpmPolicyExpression list list \<Rightarrow> bool" where
  "adds_branches st st' branches \<longleftrightarrow> (\<exists>new. fst st' = fst st @ new \<and>
     (\<forall>b stack. from_commands_run (map fst new) (b # stack) = Ok (rev branches @ b # stack)))"

lemma adds_refl: "adds st st []"
  by (simp add: adds_def)

lemma adds_trans: "\<lbrakk>adds st st' xs; adds st' st'' ys\<rbrakk> \<Longrightarrow> adds st st'' (xs @ ys)"
  unfolding adds_def by (elim exE conjE, intro exI conjI allI, simp) (simp add: from_commands_run_append)

lemma adds_one:
  assumes "from_commands_step cmd = (\<lambda>stack. case stack of b # rest \<Rightarrow> Ok ((b @ [e]) # rest) |
      [] \<Rightarrow> Err Policy_CommandStreamBranchUnderflow)"
  shows "adds (cmds, s) (cmds @ [(cmd, auths)], s') [e]"
  using assms by (simp add: adds_def)

lemma adds_branches_refl: "adds_branches st st []"
  by (simp add: adds_branches_def)

lemma adds_branches_Cons:
  assumes "adds (cmds @ [(PolicyRestartCmd 0, [])], s') st xs" "adds_branches st st' bs"
  shows "adds_branches (cmds, s) st' (xs # bs)"
proof -
  from assms obtain a b where "fst st = (cmds @ [(PolicyRestartCmd 0, [])]) @ a" "fst st' = fst st @ b"
    and "\<And>b stack. from_commands_run (map fst a) (b # stack) = Ok ((b @ xs) # stack)"
    and "\<And>c stack. from_commands_run (map fst b) (c # stack) = Ok (rev bs @ c # stack)"
    by (auto simp: adds_def adds_branches_def)
  then show ?thesis
    by (intro adds_branches_def [THEN iffD2] exI [of _ "(PolicyRestartCmd 0, []) # a @ b"])
      (simp add: from_commands_step_def from_commands_run_append)
qed

lemma from_commands_step_or:
  "stack \<noteq> [] \<Longrightarrow> from_commands_step (PolicyOrCmd ds h) stack =
     (if length stack < length ds then Err Policy_CommandStreamBranchUnderflow
      else case drop (length ds) stack of
             [] \<Rightarrow> Err Policy_CommandStreamBranchUnderflow
           | below # rest \<Rightarrow>
               Ok ((below @ [OrExpr (rev (map build_and_branch (take (length ds) stack)))]) # rest))"
  by (cases stack) (auto simp: from_commands_step_def Let_def)

lemma adds_or:
  assumes "adds_branches (cmds, s) (cmds', s') bs" "length ds = length bs"
  shows "adds (cmds, s) (cmds' @ [(PolicyOrCmd ds 0, [])], s'') [OrExpr (map build_and_branch bs)]"
proof -
  from assms(1) obtain a where "cmds' = cmds @ a"
    and "\<And>b stack. from_commands_run (map fst a) (b # stack) = Ok (rev bs @ b # stack)"
    by (auto simp: adds_branches_def)
  moreover have "from_commands_step (PolicyOrCmd ds 0) (rev bs @ b # stack) =
      Ok ((b @ [OrExpr (map build_and_branch bs)]) # stack)" for b stack
    using assms(2) by (simp add: from_commands_step_or rev_map)
  ultimately show ?thesis
    unfolding adds_def
    by (intro exI [of _ "a @ [(PolicyOrCmd ds 0, [])]"]) (simp add: from_commands_run_append)
qed

text \<open>One leaf.\<close>

lemma compile_walk_pcr_adds:
  assumes "compile_walk_pcr L context sels dg st = Ok st'" "session_ok L h (snd st)"
  shows "session_ok L h (snd st') \<and> adds st st' (canon L context h (PcrExpr sels dg)) \<and>
    pcr_value L context h sels dg (ses_digest (snd st)) = Ok (ses_digest (snd st'))"
proof -
  obtain cmds s where st: "st = (cmds, s)" by (cases st)
  from assms st obtain d s' where d: "selected_digest L context h sels dg = Ok d"
    and l: "length d = md_size L h" and s': "policy_pcr L d sels s = Ok s'"
    and st': "st' = (cmds @ [(PolicyPcrCmd d sels 0, [])], s')"
    by (auto simp: compile_walk_pcr_def session_ok_def split: if_splits)
  have "adds st st' (canon L context h (PcrExpr sels dg))"
    unfolding st st' using d
    by (simp, intro adds_one) (auto simp: from_commands_step_def fun_eq_iff split: list.split)
  moreover have "session_ok L h s'" and
    "pcr_value L context h sels dg (ses_digest s) = Ok (ses_digest s')"
    using s' assms(2) d l
    by (auto simp: st policy_pcr_def session_extend_Ok_iff session_ok_def pcr_value_def)
  ultimately show ?thesis by (simp add: st st')
qed

lemma compile_walk_secret_adds:
  assumes "compile_walk_secret L context auth cr st = Ok st'" "session_ok L h (snd st)"
  shows "session_ok L h (snd st') \<and> adds st st' (canon L context h (SecretExpr auth cr)) \<and>
    secret_value L context h auth cr (ses_digest (snd st)) = Ok (ses_digest (snd st'))"
proof -
  obtain cmds s where st: "st = (cmds, s)" by (cases st)
  define ref where "ref = (case cr of Some r \<Rightarrow> r | None \<Rightarrow> [])"
  from assms st obtain handle name s' where auth: "auth = HandleExpr handle"
    and n: "secret_name context handle = Ok name" and s': "policy_secret L name ref s = Ok s'"
    and st': "st' = (cmds @ [(PolicySecretCmd [] [] ref (to_be_bytes 4 0) handle 0, [])], s')"
    by (auto simp: compile_walk_secret_def Let_def ref_def split: TpmPolicyExpression.splits)
  have "adds st st' (canon L context h (SecretExpr auth cr))"
    unfolding st st' auth canon.simps
    by (intro adds_one)
      (auto simp: from_commands_step_def fun_eq_iff ref_def split: list.split option.split)
  moreover have "session_ok L h s'" and
    "secret_value L context h auth cr (ses_digest s) = Ok (ses_digest s')"
    using s' assms(2) n
    by (auto simp: st auth policy_secret_Ok_iff session_ok_def secret_value_def ref_def)
  ultimately show ?thesis by (simp add: st st')
qed

lemma compile_walk_adds:
  "\<lbrakk>compile_walk L ctx e st = Ok st'; session_ok L h (snd st)\<rbrakk> \<Longrightarrow>
     session_ok L h (snd st') \<and> adds st st' (canon L ctx h e) \<and>
     policy_value L ctx h e (ses_digest (snd st)) = Ok (ses_digest (snd st'))"
  "\<lbrakk>compile_walk_all L ctx es st = Ok st'; session_ok L h (snd st)\<rbrakk> \<Longrightarrow>
     session_ok L h (snd st') \<and>
     adds st st' (concat (map (canon L ctx h) es)) \<and>
     policy_value_all L ctx h es (ses_digest (snd st)) = Ok (ses_digest (snd st'))"
  "\<lbrakk>compile_walk_branches L ctx es dl st = Ok (dl', st'); session_ok L h (snd st)\<rbrakk> \<Longrightarrow>
     session_ok L h (snd st') \<and>
     adds_branches st st' (map (canon L ctx h) es) \<and>
     (\<exists>ds. dl' = dl @ ds \<and> length ds = length es \<and> policy_values L ctx h es = Ok ds \<and>
        (ds \<noteq> [] \<longrightarrow> ses_digest (snd st') = last ds))"
proof (induction L ctx e st and L ctx es st and L ctx es dl st
    arbitrary: st' and st' and dl' st'
    rule: compile_walk_compile_walk_all_compile_walk_branches.induct)
  case (2 L ctx branches st)
  then obtain ds cmds s s' where b: "compile_walk_branches L ctx branches [] st = Ok (ds, cmds, s)"
    and s': "policy_or L ds s = Ok s'" and st': "st' = (cmds @ [(PolicyOrCmd ds 0, [])], s')"
    by auto
  from 2(1) [OF b 2(3)] have "session_ok L h s" and l: "length ds = length branches"
    and a: "adds_branches st (cmds, s)
              (map (canon L ctx h) branches)"
    and "policy_values L ctx h branches = Ok ds" and d: "ds \<noteq> [] \<longrightarrow> ses_digest s = last ds"
    by auto
  moreover have "adds st st'
      [OrExpr (map build_and_branch (map (canon L ctx h) branches))]"
    unfolding st'
    by (cases st, simp only:, rule adds_or) (use a l in auto)
  ultimately show ?case
    using s' by (auto simp: st' policy_or_Ok_iff session_ok_def comp_def)
next
  case (7 L ctx e es st)
  then obtain mid where mid: "compile_walk L ctx e st = Ok mid"
    and rest: "compile_walk_all L ctx es mid = Ok st'"
    by auto
  note IH1 = 7(1) [OF mid 7(4)]
  note IH2 = 7(2) [OF mid rest]
  from IH1 IH2 show ?case
    by (auto intro: adds_trans)
next
  case (9 L ctx e es dl cmds s)
  then obtain s1 cmds2 s2 where s1: "policy_restart s = Ok s1"
    and w: "compile_walk L ctx e (cmds @ [(PolicyRestartCmd 0, [])], s1) = Ok (cmds2, s2)"
    and r: "compile_walk_branches L ctx es (dl @ [ses_digest s2]) (cmds2, s2) = Ok (dl', st')"
    and push: "map_err (\<lambda>_. Policy_TooManyBranches) (TpmList_try_push 8 dl (ses_digest s2)) =
      Ok (dl @ [ses_digest s2])"
    by (auto simp: TpmList_try_push_Ok_iff)
  from s1 9(4) have s1': "session_ok L h s1" "ses_digest s1 = zero_digest L h"
    by (auto simp: policy_restart_Ok_iff session_ok_def)
  from 9(1) [OF s1 w] s1' have e: "session_ok L h s2"
    "adds (cmds @ [(PolicyRestartCmd 0, [])], s1) (cmds2, s2) (canon L ctx h e)"
    "policy_value L ctx h e (zero_digest L h) = Ok (ses_digest s2)"
    by auto
  from 9(2) [OF s1 w refl push r] e(1) obtain ds where "session_ok L h (snd st')"
    "adds_branches (cmds2, s2) st' (map (canon L ctx h) es)"
    "dl' = dl @ ses_digest s2 # ds" "length ds = length es" "policy_values L ctx h es = Ok ds"
    "ds \<noteq> [] \<longrightarrow> ses_digest (snd st') = last ds"
    by auto
  moreover have "st' = (cmds2, s2)" if "es = []"
    using r that by simp
  ultimately show ?case using e adds_branches_Cons
    by (auto intro!: exI [of _ "ses_digest s2 # ds"])
qed (use compile_walk_pcr_adds compile_walk_secret_adds in
      \<open>fastforce simp: adds_refl adds_branches_refl\<close>)+

lemma TpmPolicySession_new_Ok:
  "TpmPolicySession_new L alg = Ok s \<Longrightarrow>
   \<exists>h. TpmHash_try_from alg = Ok h \<and> session_ok L h s \<and> ses_digest s = zero_digest L h"
  by (auto simp: TpmPolicySession_new_def digest_try_from_Ok_iff session_ok_def)

lemma compile_policy_cases:
  assumes "compile_policy L e alg ctx = Ok p"
  obtains h s s' where "TpmPolicySession_new L alg = Ok s" "TpmHash_try_from alg = Ok h"
    "session_ok L h s" "ses_digest s = zero_digest L h"
    "compile_walk L ctx e ([], s) = Ok (cp_commands p, s')" "ses_digest s' = cp_digest p"
    "adds ([], s) (cp_commands p, s') (canon L ctx h e)"
    "policy_value L ctx h e (zero_digest L h) = Ok (cp_digest p)"
proof -
  from assms obtain s s' where s: "TpmPolicySession_new L alg = Ok s"
    and w: "compile_walk L ctx e ([], s) = Ok (cp_commands p, s')" and "ses_digest s' = cp_digest p"
    by (auto simp: compile_policy_def)
  moreover from TpmPolicySession_new_Ok [OF s] obtain h where "TpmHash_try_from alg = Ok h"
    "session_ok L h s" "ses_digest s = zero_digest L h" by blast
  ultimately show thesis
    using compile_walk_adds(1) [OF w, of h] by (intro that) auto
qed

subsection \<open>Compiling the canonical form\<close>

lemma compile_walk_all_append:
  "compile_walk_all L ctx (xs @ ys) st = and_then (compile_walk_all L ctx xs st) (compile_walk_all L ctx ys)"
proof (induction xs arbitrary: st)
  case (Cons x xs)
  then show ?case by (cases "compile_walk L ctx x st") simp_all
qed simp

lemma compile_walk_all_Nil [simp]: "compile_walk_all L ctx [] = Ok"
  by (rule ext) simp

lemma compile_walk_build_and_branch:
  "compile_walk L ctx (build_and_branch es) st = compile_walk_all L ctx es st"
  by (simp add: build_and_branch_def split: list.split)

lemma compile_walk_canon:
  "session_ok L h (snd st) \<Longrightarrow>
     compile_walk L ctx e st = compile_walk_all L ctx (canon L ctx h e) st"
  "session_ok L h (snd st) \<Longrightarrow> compile_walk_all L ctx es st =
     compile_walk_all L ctx (concat (map (canon L ctx h) es)) st"
  "session_ok L h (snd st) \<Longrightarrow> compile_walk_branches L ctx es dl st =
     compile_walk_branches L ctx (map (\<lambda>e. build_and_branch (canon L ctx h e)) es) dl st"
proof (induction L ctx e st and L ctx es st and L ctx es dl st
    rule: compile_walk_compile_walk_all_compile_walk_branches.induct)
  case (3 L ctx sels dg st)
  then show ?case
    by (cases st, cases "selected_digest L ctx h sels dg")
      (auto simp: compile_walk_pcr_def selected_digest_def session_ok_def)
next
  case (4 L ctx auth cr st)
  then show ?case
    by (cases auth) (auto simp: compile_walk_secret_def split: prod.split)
next
  case (7 L ctx e es st)
  have eq: "compile_walk_all L ctx (canon L ctx h e) st = compile_walk L ctx e st"
    using 7(1) [OF 7(3)] by simp
  show ?case
  proof (cases "compile_walk L ctx e st")
    case (Ok mid)
    then show ?thesis
      using 7(2) [OF Ok] 7(3) compile_walk_adds(1) [OF Ok, of h] by (simp add: compile_walk_all_append eq)
  qed (simp_all add: compile_walk_all_append eq)
next
  case (9 L ctx e es dl cmds s)
  let ?st = "\<lambda>s1. (cmds @ [(PolicyRestartCmd 0, [])], s1)"
  show ?case
  proof (cases "policy_restart s")
    case (Ok s1)
    note restart = this
    with 9(3) have s1: "session_ok L h s1"
      by (auto simp: policy_restart_Ok_iff session_ok_def)
    with 9(1) [OF Ok] have eq: "compile_walk_all L ctx (canon L ctx h e) (?st s1) = compile_walk L ctx e (?st s1)"
      by simp
    have push: "compile_walk_branches L ctx es dl2 (cmds2, s2) =
        compile_walk_branches L ctx (map (\<lambda>e. build_and_branch (canon L ctx h e)) es) dl2 (cmds2, s2)"
      if "compile_walk L ctx e (?st s1) = Ok (cmds2, s2)"
        "map_err (\<lambda>_. Policy_TooManyBranches) (TpmList_try_push 8 dl (ses_digest s2)) = Ok dl2"
      for cmds2 s2 dl2
      using 9(2) [OF restart that(1) refl that(2)] compile_walk_adds(1) [OF that(1), of h] s1 by simp
    show ?thesis
      unfolding list.map compile_walk_branches.simps restart compile_walk_build_and_branch eq
        and_then.simps
      using push
      by (cases "compile_walk L ctx e (?st s1)")
        (auto intro!: and_then_same split: prod.split)
  qed simp_all
qed auto

subsection \<open>A disjunction and what comes before it\<close>

abbreviation after :: "(TpmCommandValue \<times> TpmAuthCommands) list \<Rightarrow> compiler \<Rightarrow> compiler" where
  "after pre st \<equiv> (pre @ fst st, snd st)"

lemma compile_walk_after:
  "compile_walk L ctx e (after pre st) = and_then (compile_walk L ctx e st) (\<lambda>st'. Ok (after pre st'))"
  "compile_walk_all L ctx es (after pre st) =
     and_then (compile_walk_all L ctx es st) (\<lambda>st'. Ok (after pre st'))"
  "compile_walk_branches L ctx es dl (after pre st) =
     and_then (compile_walk_branches L ctx es dl st) (\<lambda>(dl', st'). Ok (dl', after pre st'))"
proof (induction L ctx e st and L ctx es st and L ctx es dl st
    rule: compile_walk_compile_walk_all_compile_walk_branches.induct)
  case (3 L ctx sels dg st)
  show ?case
    by (cases st) (auto simp: compile_walk_pcr_def and_then_assoc intro!: and_then_same)
next
  case (2 L ctx es st)
  then show ?case
    by (cases "compile_walk_branches L ctx es [] st") (auto simp: and_then_assoc split: prod.split)
next
  case (7 L ctx e es st)
  then show ?case
    by (cases "compile_walk L ctx e st") auto
next
  case (9 L ctx e es dl cmds s)
  show ?case
  proof (cases "policy_restart s")
    case (Ok s1)
    from 9(1) [OF Ok] have eq: "compile_walk L ctx e (pre @ cmds @ [(PolicyRestartCmd 0, [])], s1) =
        and_then (compile_walk L ctx e (cmds @ [(PolicyRestartCmd 0, [])], s1)) (\<lambda>st'. Ok (after pre st'))"
      by simp
    show ?thesis
    proof (cases "compile_walk L ctx e (cmds @ [(PolicyRestartCmd 0, [])], s1)")
      case w: (Ok st2)
      obtain cmds2 s2 where st2: "st2 = (cmds2, s2)" by (cases st2)
      show ?thesis
      proof (cases "map_err (\<lambda>_. Policy_TooManyBranches) (TpmList_try_push 8 dl (ses_digest s2))")
        case push: (Ok dl2)
        show ?thesis
          using 9(2) [OF Ok w st2 [symmetric] push] by (simp add: Ok eq w st2 push del: map_err_Ok_iff)
      qed (simp_all add: Ok eq w st2 del: map_err_Err_iff map_err_Panic_iff)
    qed (simp_all add: Ok eq)
  qed simp_all
qed (auto simp: compile_walk_pcr_def compile_walk_secret_def Let_def and_then_assoc split: prod.split
    TpmPolicyExpression.split)

text \<open>The session a disjunction starts from matters only by its algorithm.\<close>

lemma compile_walk_or_fresh:
  assumes "compile_walk L ctx (OrExpr bs) (cmds, s) = Ok (cmds', s')"
    and "session_ok L h s" "session_ok L h s0"
  shows "\<exists>new. compile_walk L ctx (OrExpr bs) ([], s0) = Ok (new, s') \<and> cmds' = cmds @ new"
proof -
  from assms(2,3) have s0: "s\<lparr>ses_digest := d\<rparr> = s0\<lparr>ses_digest := d\<rparr>" for d
    by (cases s; cases s0) (simp add: session_ok_def)
  have or: "policy_or L [] s = policy_or L [] s0"
    using assms(2,3) by (simp add: policy_or_def session_extend_def session_ok_def s0)
  have restart: "policy_restart s = policy_restart s0"
    using assms(2,3) by (simp add: policy_restart_def session_ok_def s0)
  have "compile_walk L ctx (OrExpr bs) ([], s) = compile_walk L ctx (OrExpr bs) ([], s0)"
    by (cases bs) (simp_all add: or restart)
  with assms(1) compile_walk_after(1) [of L ctx "OrExpr bs" cmds "([], s)"]
  have "and_then (compile_walk L ctx (OrExpr bs) ([], s0)) (\<lambda>st'. Ok (after cmds st')) = Ok (cmds', s')"
    by (simp del: compile_walk.simps and_then_Ok_iff)
  then show ?thesis
    by (auto simp del: compile_walk.simps)
qed

subsection \<open>The frames of compiled commands\<close>

text \<open>The capacities of the buffers and lists in an expression, which the types of the code enforce.\<close>

definition selections_typed :: "pcr_selection list \<Rightarrow> bool" where
  "selections_typed sels \<longleftrightarrow> length sels \<le> 8 \<and> list_all (\<lambda>(_, bits). length bits \<le> 4) sels"

fun expr_typed :: "TpmPolicyExpression \<Rightarrow> bool" where
  "expr_typed (PcrExpr sels dg) \<longleftrightarrow> selections_typed sels \<and> (\<forall>d. dg = Some d \<longrightarrow> length d \<le> 64)"
| "expr_typed (SecretExpr auth cr) \<longleftrightarrow> expr_typed auth \<and> (\<forall>r. cr = Some r \<longrightarrow> length r \<le> 64)"
| "expr_typed (AndExpr es) \<longleftrightarrow> list_all expr_typed es"
| "expr_typed (OrExpr es) \<longleftrightarrow> list_all expr_typed es"
| "expr_typed (HandleExpr _) \<longleftrightarrow> True"

definition command_typed :: "TpmCommandValue \<Rightarrow> bool" where
  "command_typed c \<longleftrightarrow> (\<exists>v cmd resp. (v, cmd, resp) \<in> set dispatch_rows \<and>
     f_CC cmd = TpmCommandValue_cc c \<and> body_valid cmd (TpmCommandValue_body c))"

lemma policy_rows:
  "(''PolicyPcr'', TpmPolicyPcrCommand, TpmPolicyPcrResponse) \<in> set dispatch_rows"
  "(''PolicyOr'', TpmPolicyOrCommand, TpmPolicyOrResponse) \<in> set dispatch_rows"
  "(''PolicyRestart'', TpmPolicyRestartCommand, TpmPolicyRestartResponse) \<in> set dispatch_rows"
  "(''PolicySecret'', TpmPolicySecretCommand, TpmPolicySecretResponse) \<in> set dispatch_rows"
  by (simp_all add: dispatch_rows_def)

lemma policy_restart_typed: "command_typed (PolicyRestartCmd h)"
  unfolding command_typed_def
  by (intro exI conjI, rule policy_rows(3)) (simp_all add: TpmPolicyRestartCommand_def body_valid_def)

lemma policy_pcr_typed:
  "\<lbrakk>length d \<le> 64; selections_typed sels\<rbrakk> \<Longrightarrow> command_typed (PolicyPcrCmd d sels h)"
  unfolding command_typed_def
  by (intro exI conjI, rule policy_rows(1))
    (auto simp: TpmPolicyPcrCommand_def body_valid_def Tpm2bDigest_def TpmBuffer_valid_iff TpmlPcrSelection_def
      TpmList_valid_iff pcrs_val_def selections_typed_def MAX_DIGEST_SIZE_def u16_max_def
      TpmsPcrSelection_valid_iff TpmsPcrSelect_valid_iff TpmAlgId_codec_valid list_all_iff)

lemma policy_or_typed:
  "\<lbrakk>length ds \<le> 8; list_all (\<lambda>d. length d \<le> 64) ds\<rbrakk> \<Longrightarrow> command_typed (PolicyOrCmd ds h)"
  unfolding command_typed_def
  by (intro exI conjI, rule policy_rows(2))
    (auto simp: TpmPolicyOrCommand_def body_valid_def TpmlDigest_def Tpm2bDigest_def TpmBuffer_valid_iff
      TpmList_valid_iff MAX_DIGEST_SIZE_def u16_max_def list_all_iff)

lemma policy_secret_typed:
  "length r \<le> 64 \<Longrightarrow> command_typed (PolicySecretCmd [] [] r (to_be_bytes 4 0) h h')"
  unfolding command_typed_def
  by (intro exI conjI, rule policy_rows(4))
    (auto simp: TpmPolicySecretCommand_def body_valid_def Tpm2bDigest_def Tpm2bNonce_def TpmBuffer_valid_iff
      MAX_DIGEST_SIZE_def u16_max_def TpmInt32_def tpm_int_def)

definition compiler_typed :: "compiler \<Rightarrow> bool" where
  "compiler_typed st \<longleftrightarrow> list_all (\<lambda>c. command_typed (fst c)) (fst st) \<and> length (ses_digest (snd st)) \<le> 64"

lemma extend_value_length: "extend_value L h chunks = Ok d \<Longrightarrow> length d \<le> 64"
  by (auto simp: extend_value_def digest_try_from_Ok_iff)

lemma selected_digest_length:
  "\<lbrakk>selected_digest L ctx h sels dg = Ok d; \<forall>d. dg = Some d \<longrightarrow> length d \<le> 64\<rbrakk> \<Longrightarrow> length d \<le> 64"
  by (auto simp: selected_digest_def digest_try_from_Ok_iff split: option.splits)

lemma compile_walk_typed:
  "\<lbrakk>compile_walk L ctx e st = Ok st'; compiler_typed st; expr_typed e\<rbrakk> \<Longrightarrow> compiler_typed st'"
  "\<lbrakk>compile_walk_all L ctx es st = Ok st'; compiler_typed st; list_all expr_typed es\<rbrakk> \<Longrightarrow> compiler_typed st'"
  "\<lbrakk>compile_walk_branches L ctx es dl st = Ok (dl', st'); compiler_typed st; list_all expr_typed es;
     length dl \<le> 8; list_all (\<lambda>d. length d \<le> 64) dl\<rbrakk> \<Longrightarrow>
   compiler_typed st' \<and> length dl' \<le> 8 \<and> list_all (\<lambda>d. length d \<le> 64) dl'"
proof (induction L ctx e st and L ctx es st and L ctx es dl st
    arbitrary: st' and st' and dl' st'
    rule: compile_walk_compile_walk_all_compile_walk_branches.induct)
  case (2 L ctx es st)
  then show ?case
    by (auto simp: compiler_typed_def policy_or_Ok_iff intro: policy_or_typed dest: extend_value_length)
next
  case (3 L ctx sels dg st)
  then obtain d s' where d: "selected_digest L ctx (ses_hash_alg (snd st)) sels dg = Ok d"
    and s': "policy_pcr L d sels (snd st) = Ok s'"
    and st': "st' = (fst st @ [(PolicyPcrCmd d sels 0, [])], s')"
    by (cases st) (auto simp: compile_walk_pcr_def split: if_splits)
  have "command_typed (PolicyPcrCmd d sels 0)"
    by (rule policy_pcr_typed [OF selected_digest_length [OF d]]) (use 3 in auto)
  with 3 s' st' show ?case
    by (auto simp: compiler_typed_def policy_pcr_def session_extend_Ok_iff dest: extend_value_length)
next
  case (4 L ctx auth cr st)
  then show ?case
    by (cases st) (auto simp: compile_walk_secret_def compiler_typed_def policy_secret_Ok_iff Let_def
        policy_secret_typed dest: extend_value_length
        split: TpmPolicyExpression.splits option.splits)
next
  case (7 L ctx e es st)
  then show ?case by (cases st') auto
next
  case (9 L ctx e es dl cmds s)
  from 9(3) obtain s1 cmds2 s2 dl2 where s1: "policy_restart s = Ok s1"
    and w: "compile_walk L ctx e (cmds @ [(PolicyRestartCmd 0, [])], s1) = Ok (cmds2, s2)"
    and push: "map_err (\<lambda>_. Policy_TooManyBranches) (TpmList_try_push 8 dl (ses_digest s2)) = Ok dl2"
    and r: "compile_walk_branches L ctx es dl2 (cmds2, s2) = Ok (dl', st')"
    by auto
  have "compiler_typed (cmds2, s2)"
    using 9(1) [OF s1 w] 9(4,5) s1
    by (auto simp: compiler_typed_def policy_restart_Ok_iff policy_restart_typed)
  then show ?case
    using 9(2) [OF s1 w refl push r] push 9(5-7)
    by (auto simp: TpmList_try_push_Ok_iff compiler_typed_def)
qed auto

end
