(* ===== verification/Policy_Tpm.thy ===== *)
theory Policy_Tpm
  imports Policy_Laws Wire_Types
begin

text \<open>
  The policy session of a TPM, written from the specification of the commands (TPM 2.0 part 3, enhanced
  authorization) and independent of the program: the digest is a byte string, the hash function, the names and the
  registers are the TPM's, and the code of a command and the form of a selection are given as bytes.  A trial
  session takes the PCR digest it is given; a policy session compares it with its registers.  That the caller of
  \<open>TPM2_PolicySecret\<close> knows the secret of the object, and time limits, are not part of it.
\<close>

subsection \<open>The TPM\<close>

record policy_tpm =
  pt_hash :: "u8 list \<Rightarrow> u8 list"
  pt_digest_size :: nat
  pt_object_name :: "u32 \<Rightarrow> u8 list"
  pt_pcr :: "TpmAlgId \<Rightarrow> nat \<Rightarrow> u8 list"

text \<open>The name of a register, a session or a permanent handle is the handle; that of an object is computed from
  its public area.\<close>

definition pt_name :: "policy_tpm \<Rightarrow> u32 \<Rightarrow> u8 list" where
  "pt_name T handle =
     (if drop_bit 24 handle \<in> {0x00, 0x02, 0x03, 0x40} then to_be_bytes 4 (unat handle) else pt_object_name T handle)"

definition registers :: "u8 list \<Rightarrow> nat list" where
  "registers pcr_select = filter (\<lambda>i. bit (pcr_select ! (i div 8)) (i mod 8)) [0..<8 * length pcr_select]"

definition pt_pcr_digest :: "policy_tpm \<Rightarrow> pcr_selection list \<Rightarrow> u8 list" where
  "pt_pcr_digest T sels =
     pt_hash T (concat (map (\<lambda>(alg, pcr_select). concat (map (pt_pcr T alg) (registers pcr_select))) sels))"

definition selection_bytes :: "pcr_selection list \<Rightarrow> u8 list" where
  "selection_bytes sels = to_be_bytes 4 (length sels) @ concat (map (\<lambda>(alg, pcr_select).
     to_be_bytes 2 (nat (TpmAlgId_value alg)) @ to_be_bytes 1 (length pcr_select) @ pcr_select) sels)"

definition pt_zero :: "policy_tpm \<Rightarrow> u8 list" where
  "pt_zero T = replicate (pt_digest_size T) 0"

definition pt_step :: "policy_tpm \<Rightarrow> bool \<Rightarrow> u8 list \<Rightarrow> TpmCommandValue \<Rightarrow> u8 list option" where
  "pt_step T trial d cmd = (case cmd of
       PolicyRestartCmd _ \<Rightarrow> Some (pt_zero T)
     | PolicyPcrCmd pcr_digest sels _ \<Rightarrow>
         if pcr_digest = [] then
           Some (pt_hash T (d @ [0, 0, 0x01, 0x7F] @ selection_bytes sels @ pt_pcr_digest T sels))
         else if trial \<or> pcr_digest = pt_pcr_digest T sels then
           Some (pt_hash T (d @ [0, 0, 0x01, 0x7F] @ selection_bytes sels @ pcr_digest))
         else None
     | PolicySecretCmd _ _ policy_ref _ handle _ \<Rightarrow>
         Some (pt_hash T (pt_hash T (d @ [0, 0, 0x01, 0x51] @ pt_name T handle) @ policy_ref))
     | PolicyOrCmd ds _ \<Rightarrow>
         if length ds < 2 \<or> 8 < length ds \<or> (\<not> trial \<and> d \<notin> set ds) then None
         else Some (pt_hash T (pt_zero T @ [0, 0, 0x01, 0x71] @ concat ds))
     | OtherCmd _ _ \<Rightarrow> None)"

fun pt_run :: "policy_tpm \<Rightarrow> bool \<Rightarrow> u8 list \<Rightarrow> TpmCommandValue list \<Rightarrow> u8 list option" where
  "pt_run T trial d [] = Some d"
| "pt_run T trial d (cmd # cmds) = Option.bind (pt_step T trial d cmd) (\<lambda>d. pt_run T trial d cmds)"

lemma pt_run_append:
  "pt_run T trial d (xs @ ys) = Option.bind (pt_run T trial d xs) (\<lambda>d. pt_run T trial d ys)"
proof (induction xs arbitrary: d)
  case (Cons x xs)
  then show ?case by (cases "pt_step T trial d x") simp_all
qed simp

text \<open>The PCR digests an expression gives are those of the TPM's registers.\<close>

fun pcrs_hold :: "policy_tpm \<Rightarrow> TpmPolicyExpression \<Rightarrow> bool" where
  "pcrs_hold T (PcrExpr sels (Some d)) \<longleftrightarrow> d = pt_pcr_digest T sels"
| "pcrs_hold T (AndExpr es) \<longleftrightarrow> list_all (pcrs_hold T) es"
| "pcrs_hold T (OrExpr es) \<longleftrightarrow> list_all (pcrs_hold T) es"
| "pcrs_hold T _ \<longleftrightarrow> True"

text \<open>The context describes the TPM: its names and registers are the TPM's, and the library computes the TPM's
  hash function.\<close>

definition tpm_agrees :: "policy_tpm \<Rightarrow> libcrypto \<Rightarrow> TpmHash \<Rightarrow> TpmPolicyContext \<Rightarrow> bool" where
  "tpm_agrees T L h ctx \<longleftrightarrow>
     pt_digest_size T = md_size L h \<and> 0 < pt_digest_size T \<and>
     (\<forall>m d. md_digest L h m = Ok d \<longrightarrow> pt_hash T m = d) \<and>
     (\<forall>handle name. map_of (ctx_names ctx) handle = Some name \<longrightarrow> drop_bit 24 handle \<in> {0x80, 0x81} \<longrightarrow>
        pt_object_name T handle = name) \<and>
     (\<forall>alg bank i v. map_of (ctx_pcrs ctx) alg = Some bank \<longrightarrow> map_of bank i = Some v \<longrightarrow> pt_pcr T alg i = v)"

subsection \<open>The program's digests\<close>

lemma TpmHash_digest_library: "TpmHash_digest L h chunks = Ok d \<Longrightarrow> md_digest L h (concat chunks) = Ok d"
  by (auto simp: TpmHash_digest_def digest_into_def check_output_len_def copy_at_def split: if_splits)

lemma extend_value_hash:
  "\<lbrakk>tpm_agrees T L h ctx; extend_value L h chunks = Ok d\<rbrakk> \<Longrightarrow> d = pt_hash T (concat chunks)"
  by (auto simp: extend_value_def digest_try_from_Ok_iff tpm_agrees_def dest!: TpmHash_digest_library)

lemma cc_bytes_codes:
  "cc_bytes Cc_PolicyPcr = [0, 0, 0x01, 0x7F]" "cc_bytes Cc_PolicySecret = [0, 0, 0x01, 0x51]"
  "cc_bytes Cc_PolicyOr = [0, 0, 0x01, 0x71]"
  by (simp_all add: cc_bytes_def be_bytes)

lemma emits_alg: "emits (marshal TpmAlgId_codec (VEnum (EAlgId a))) (to_be_bytes 2 (nat (TpmAlgId_value a)))"
  by (cases a) (simp_all add: TpmAlgId_codec_def tpm_enum_codec_def to_be_repr_def)

lemma emits_selection:
  "emits (marshal TpmsPcrSelection (VStruct [VEnum (EAlgId alg), VBuffer pcr_select]))
     (to_be_bytes 2 (nat (TpmAlgId_value alg)) @ to_be_bytes 1 (length pcr_select) @ pcr_select)"
  by (simp add: TpmsPcrSelection_def TpmsPcrSelect_def emits_alg emits_wseq del: to_be_bytes.simps)

lemma emits_selections:
  assumes "length sels \<le> u32_max"
  shows "emits (marshal TpmlPcrSelection (pcrs_val sels)) (selection_bytes sels)"
proof -
  have "emits (marshal_items (marshal TpmsPcrSelection)
      (map (\<lambda>(hash, pcr_select). VStruct [VEnum (EAlgId hash), VBuffer pcr_select]) sels))
    (concat (map (\<lambda>(alg, pcr_select).
       to_be_bytes 2 (nat (TpmAlgId_value alg)) @ to_be_bytes 1 (length pcr_select) @ pcr_select) sels))"
  proof (induction sels)
    case (Cons sel sels)
    obtain alg pcr_select where "sel = (alg, pcr_select)" by fastforce
    then show ?case
      using emits_wseq [OF emits_selection [of alg pcr_select] Cons.IH]
      by (simp del: append_assoc to_be_bytes.simps One_nat_def)
  qed simp
  then show ?thesis
    using assms
    by (simp add: TpmlPcrSelection_def TpmList_def pcrs_val_def selection_bytes_def emits_wseq del: to_be_bytes.simps One_nat_def)
qed

lemma marshalled_selections:
  assumes "marshal_into (marshal TpmlPcrSelection (pcrs_val sels)) n = Ok b" "n \<le> usize_max"
  shows "b = selection_bytes sels"
proof (cases "length sels \<le> u32_max")
  case True
  note emits = emits_selections [OF this]
  have w: "writer_ok (Writer_new (replicate n 0))" using assms(2) by (simp add: writer_ok_def Writer_new_def)
  show ?thesis
  proof (cases "length (selection_bytes sels) \<le> n")
    case True
    then show ?thesis using marshal_into_emits [OF emits True assms(2)] assms(1) by simp
  next
    case False
    then show ?thesis
      using emits_overflow [OF emits w] assms(1) by (auto simp: Writer_new_def marshal_into_def)
  qed
next
  case False
  then show ?thesis
    using assms(1) by (simp add: TpmlPcrSelection_def TpmList_def pcrs_val_def wfail_def marshal_into_def)
qed

lemma blocks_upt:
  "concat (map (\<lambda>k. map (\<lambda>j. k * 8 + j) (filter (\<lambda>j. P (k * 8 + j)) [0..<8])) [0..<n]) = filter P [0..<8 * n]"
proof (induction n)
  case (Suc n)
  have "map (\<lambda>j. n * 8 + j) (filter (\<lambda>j. P (n * 8 + j)) [0..<8]) = filter P (map (\<lambda>j. n * 8 + j) [0..<8])"
    by (simp add: filter_map comp_def)
  also have "map (\<lambda>j. n * 8 + j) [0..<8] = [8 * n..<8 * n + 8]"
    using map_add_upt [of "8 * n" 8] by (simp add: mult.commute add.commute)
  finally show ?case
    using Suc upt_add_eq_append [of 0 "8 * n" 8] by (simp add: add.commute)
qed simp

lemma pcr_indices_registers: "pcr_indices pcr_select = registers pcr_select"
proof -
  have "filter (\<lambda>j. pcr_select ! k AND push_bit j 1 \<noteq> 0) [0..<8] =
      filter (\<lambda>j. bit (pcr_select ! ((k * 8 + j) div 8)) ((k * 8 + j) mod 8)) [0..<8]" for k
    by (rule filter_cong) (simp_all add: bit_iff_and_push_bit_not_eq_0)
  then show ?thesis
    using blocks_upt [of "\<lambda>i. bit (pcr_select ! (i div 8)) (i mod 8)" "length pcr_select"]
    by (simp add: pcr_indices_def registers_def)
qed

subsection \<open>The compiler on the TPM\<close>

lemma selected_digest_registers:
  assumes "tpm_agrees T L h ctx" "selected_digest L ctx h sels None = Ok d"
  shows "d = pt_pcr_digest T sels"
proof -
  have regs: "vs = concat (map (pt_pcr T alg) is)"
    if "map_of (ctx_pcrs ctx) alg = Some bank" "bank_values bank is = Ok vs" for alg bank "is" vs
    using that(2)
  proof (induction "is" arbitrary: vs)
    case (Cons i "is")
    with assms(1) that(1) show ?case by (auto simp: ok_or_Ok_iff tpm_agrees_def)
  qed simp
  have data: "data = concat (map (\<lambda>(alg, pcr_select). concat (map (pt_pcr T alg) (registers pcr_select))) sels)"
    if "pcr_data ctx sels = Ok data" for data sels
    using that
  proof (induction sels arbitrary: data)
    case (Cons sel sels)
    then show ?case by (cases sel) (auto simp: ok_or_Ok_iff pcr_indices_registers dest!: regs)
  qed simp
  from assms(2) show ?thesis
    by (auto simp: selected_digest_def digest_try_from_Ok_iff pt_pcr_digest_def
        dest!: data TpmHash_digest_library intro!: assms(1) [unfolded tpm_agrees_def, THEN conjunct2, THEN conjunct2, THEN conjunct1, rule_format, symmetric])
qed

lemma handle_type_tpm:
  fixes handle :: u32
  assumes "TpmHt_try_from (uint (u32_type handle)) = Ok ht"
  shows "uint (drop_bit 24 handle) = TpmHt_value ht"
proof -
  from assms have "TpmHt_value ht = uint (u32_type handle)"
    by (auto simp: TpmHt_try_from_def enum_try_from_def find_Some_iff split: option.splits)
  moreover have "unat (drop_bit 24 handle) < 2 ^ 8"
    using unsigned_less [where 'a = nat, of handle]
    by (simp only: unsigned_drop_bit_eq) (simp add: drop_bit_eq_div take_bit_nat_eq_self less_mult_imp_div_less)
  then have "unat (u32_type handle) = unat (drop_bit 24 handle)"
    by (simp only: u32_type_def unsigned_ucast_eq) (simp add: take_bit_nat_eq_self)
  then have "uint (u32_type handle) = uint (drop_bit 24 handle)"
    by (simp only: uint_nat)
  ultimately show ?thesis by simp
qed

lemma secret_name_tpm:
  assumes "tpm_agrees T L h ctx" "secret_name ctx handle = Ok name"
  shows "name = pt_name T handle"
proof -
  from assms(2) obtain ht where ht: "TpmHt_try_from (uint (u32_type handle)) = Ok ht"
    by (auto simp: secret_name_def Let_def)
  from handle_type_tpm [OF this] have type: "drop_bit 24 handle = w \<longleftrightarrow> TpmHt_value ht = uint w" for w
    by (simp add: word_uint_eq_iff)
  show ?thesis
  proof (cases "ht = Ht_Permanent")
    case True
    with assms(2) ht obtain rh where rh: "TpmRh_try_from (uint handle) = Ok rh"
      and name: "name = to_be_bytes 4 (nat (TpmRh_value rh))"
      by (auto simp: secret_name_def Let_def TpmBuffer_try_from_eq MAX_DIGEST_SIZE_def u16_max_def
          simp del: to_be_bytes.simps split: if_splits)
    from rh have "TpmRh_value rh = uint handle"
      by (auto simp: TpmRh_try_from_def enum_try_from_def find_Some_iff split: option.splits)
    then show ?thesis
      using True by (simp add: name pt_name_def type nat_uint_eq del: to_be_bytes.simps)
  next
    case False
    with assms(2) ht have "map_of (ctx_names ctx) handle = Some name" "ht = Ht_Persistent \<or> ht = Ht_Transient"
      by (auto simp: secret_name_def Let_def ok_or_Ok_iff split: TpmHt.splits)
    with assms(1) show ?thesis
      by (auto simp: pt_name_def tpm_agrees_def type)
  qed
qed

text \<open>What the commands \<open>new\<close> do on the TPM that a walk appends.\<close>

definition runs :: "policy_tpm \<Rightarrow> bool \<Rightarrow> compiler \<Rightarrow> compiler \<Rightarrow> bool" where
  "runs T holds st st' \<longleftrightarrow> (\<exists>new. fst st' = fst st @ new \<and>
     (\<forall>trial. pt_run T trial (ses_digest (snd st)) (map fst new) =
        (if trial \<or> holds then Some (ses_digest (snd st')) else None)))"

lemma runs_refl: "runs T True st st"
  by (simp add: runs_def)

lemma runs_trans: "\<lbrakk>runs T p st st'; runs T q st' st''\<rbrakk> \<Longrightarrow> runs T (p \<and> q) st st''"
  unfolding runs_def by (elim exE conjE, intro exI conjI allI) (auto simp: pt_run_append)

lemma runs_one:
  "(\<And>trial. pt_step T trial (ses_digest s) cmd = (if trial \<or> p then Some (ses_digest s') else None)) \<Longrightarrow>
   runs T p (cmds, s) (cmds @ [(cmd, auths)], s')"
  by (simp add: runs_def)

lemma session_alg: "session_ok L h s \<Longrightarrow> h = ses_hash_alg s"
  by (simp add: session_ok_def)

lemma pcr_step_tpm:
  assumes "tpm_agrees T L h ctx" "session_ok L h s" "pcr_digest \<noteq> []"
    and "policy_pcr L pcr_digest sels s = Ok s'"
  shows "pt_step T trial (ses_digest s) (PolicyPcrCmd pcr_digest sels k) =
    (if trial \<or> pcr_digest = pt_pcr_digest T sels then Some (ses_digest s') else None)"
proof -
  note agree = assms(1) [unfolded session_alg [OF assms(2)]]
  from assms(4) obtain b where b: "marshal_into (marshal TpmlPcrSelection (pcrs_val sels)) (SIZE TpmlPcrSelection) = Ok b"
    and "session_extend L [ses_digest s, cc_bytes Cc_PolicyPcr, b, pcr_digest] s = Ok s'"
    by (auto simp: policy_pcr_def)
  then have "ses_digest s' = pt_hash T (ses_digest s @ [0, 0, 1, 0x7F] @ selection_bytes sels @ pcr_digest)"
    using assms(2) marshalled_selections [OF b]
    using extend_value_hash [OF agree, of "[ses_digest s, [0, 0, 1, 0x7F], selection_bytes sels, pcr_digest]"]
    by (auto simp: session_extend_Ok_iff cc_bytes_codes usize_max_def)
  then show ?thesis
    using assms(3) by (simp add: pt_step_def)
qed

lemma pcr_runs:
  assumes "tpm_agrees T L h ctx" "session_ok L h (snd st)" "compile_walk_pcr L ctx sels dg st = Ok st'"
  shows "runs T (pcrs_hold T (PcrExpr sels dg)) st st'"
proof -
  obtain cmds s where st: "st = (cmds, s)" by (cases st)
  from assms(3) st obtain d s' where d: "selected_digest L ctx (ses_hash_alg s) sels dg = Ok d"
    and len: "length d = ses_digest_size s" and s': "policy_pcr L d sels s = Ok s'"
    and st': "st' = (cmds @ [(PolicyPcrCmd d sels 0, [])], s')"
    by (auto simp: compile_walk_pcr_def split: if_splits)
  have ok: "session_ok L h s" using assms(2) by (simp add: st)
  have "d \<noteq> []" using len ok assms(1) by (auto simp: session_ok_def tpm_agrees_def)
  moreover have "pcrs_hold T (PcrExpr sels dg) \<longleftrightarrow> d = pt_pcr_digest T sels"
    using d selected_digest_registers [OF assms(1)] ok
    by (cases dg) (auto simp: session_ok_def selected_digest_def)
  ultimately show ?thesis
    unfolding st st' using pcr_step_tpm [OF assms(1) ok _ s'] by (intro runs_one) simp
qed

lemma secret_runs:
  assumes "tpm_agrees T L h ctx" "session_ok L h (snd st)" "compile_walk_secret L ctx auth cr st = Ok st'"
  shows "runs T True st st'"
proof -
  obtain cmds s where st: "st = (cmds, s)" by (cases st)
  define ref where "ref = (case cr of Some r \<Rightarrow> r | None \<Rightarrow> [])"
  have "session_ok L h s" using assms(2) by (simp add: st)
  note agree = assms(1) [unfolded session_alg [OF this]]
  from assms(3) st obtain handle name s' where n: "secret_name ctx handle = Ok name"
    and s': "policy_secret L name ref s = Ok s'"
    and st': "st' = (cmds @ [(PolicySecretCmd [] [] ref (to_be_bytes 4 0) handle 0, [])], s')"
    by (auto simp: compile_walk_secret_def Let_def ref_def split: TpmPolicyExpression.splits)
  have "ses_digest s' = pt_hash T (pt_hash T (ses_digest s @ [0, 0, 1, 0x51] @ name) @ ref)"
    using s' by (auto simp: policy_secret_Ok_iff cc_bytes_codes dest!: extend_value_hash [OF agree])
  then show ?thesis
    unfolding st st' using secret_name_tpm [OF assms(1) n]
    by (intro runs_one) (simp add: pt_step_def)
qed

lemma runs_restart:
  assumes "tpm_agrees T L h ctx" "session_ok L h s" "policy_restart s = Ok s'"
  shows "runs T True (cmds, s) (cmds @ [(PolicyRestartCmd 0, [])], s')"
  using assms by (intro runs_one) (auto simp: pt_step_def policy_restart_Ok_iff pt_zero_def tpm_agrees_def session_ok_def)

lemma runs_or:
  assumes "tpm_agrees T L h ctx" "session_ok L h s'" "runs T p (cmds, s) (cmds', s')"
    and "policy_or L ds s' = Ok s''" "2 \<le> length ds" "length ds \<le> 8" "ses_digest s' \<in> set ds"
  shows "runs T p (cmds, s) (cmds' @ [(PolicyOrCmd ds 0, [])], s'')"
proof -
  note agree = assms(1) [unfolded session_alg [OF assms(2)]]
  have "ses_digest s'' = pt_hash T (pt_zero T @ [0, 0, 1, 0x71] @ concat ds)"
    using assms(4) extend_value_hash [OF agree, of "[replicate (ses_digest_size s') 0, [0, 0, 1, 0x71], concat ds]"]
      assms(1,2)
    by (auto simp: policy_or_Ok_iff session_ok_def cc_bytes_codes pt_zero_def tpm_agrees_def)
  then have "runs T True (cmds', s') (cmds' @ [(PolicyOrCmd ds 0, [])], s'')"
    using assms(5-7) by (intro runs_one) (auto simp: pt_step_def)
  from runs_trans [OF assms(3) this] show ?thesis by simp
qed

text \<open>Every disjunction has two branches or more, as the parser makes them.\<close>

fun ors_proper :: "TpmPolicyExpression \<Rightarrow> bool" where
  "ors_proper (AndExpr es) \<longleftrightarrow> list_all ors_proper es"
| "ors_proper (OrExpr es) \<longleftrightarrow> 2 \<le> length es \<and> list_all ors_proper es"
| "ors_proper _ \<longleftrightarrow> True"

lemma compile_walk_runs:
  "\<lbrakk>compile_walk L ctx e st = Ok st'; session_ok L h (snd st); ors_proper e; tpm_agrees T L h ctx\<rbrakk> \<Longrightarrow>
     runs T (pcrs_hold T e) st st'"
  "\<lbrakk>compile_walk_all L ctx es st = Ok st'; session_ok L h (snd st); list_all ors_proper es;
     tpm_agrees T L h ctx\<rbrakk> \<Longrightarrow> runs T (list_all (pcrs_hold T) es) st st'"
  "\<lbrakk>compile_walk_branches L ctx es dl st = Ok (dl', st'); session_ok L h (snd st); list_all ors_proper es;
     tpm_agrees T L h ctx\<rbrakk> \<Longrightarrow> runs T (list_all (pcrs_hold T) es) st st' \<and> (length dl \<le> 8 \<longrightarrow> length dl' \<le> 8)"
proof (induction L ctx e st and L ctx es st and L ctx es dl st
    arbitrary: st' and st' and dl' st'
    rule: compile_walk_compile_walk_all_compile_walk_branches.induct)
  case (2 L ctx branches st)
  then obtain ds cmds s s' where b: "compile_walk_branches L ctx branches [] st = Ok (ds, cmds, s)"
    and s': "policy_or L ds s = Ok s'" and st': "st' = (cmds @ [(PolicyOrCmd ds 0, [])], s')"
    by auto
  have r: "runs T (list_all (pcrs_hold T) branches) (fst st, snd st) (cmds, s)" "length ds \<le> 8"
    using 2(1) [OF b 2(3)] 2(4,5) by simp_all
  from compile_walk_adds(3) [OF b 2(3)] have ok: "session_ok L h s" and l: "length ds = length branches"
    and d: "ds \<noteq> [] \<longrightarrow> ses_digest s = last ds" by auto
  from l 2(4) have "2 \<le> length ds" by simp
  moreover from this d have "ses_digest s \<in> set ds" by (cases ds) auto
  ultimately have "runs T (list_all (pcrs_hold T) branches) (fst st, snd st) st'"
    unfolding st' using runs_or [OF 2(5) ok r(1) s' _ r(2)] by simp
  then show ?case by simp
next
  case (7 L ctx e es st)
  then obtain mid where mid: "compile_walk L ctx e st = Ok mid"
    and rest: "compile_walk_all L ctx es mid = Ok st'"
    by auto
  have "runs T (pcrs_hold T e) st mid" "session_ok L h (snd mid)"
    using 7(1) [OF mid 7(4)] 7(5,6) compile_walk_adds(1) [OF mid 7(4)] by simp_all
  moreover from this have "runs T (list_all (pcrs_hold T) es) mid st'"
    using 7(2) [OF mid rest] 7(5,6) by simp
  ultimately show ?case using runs_trans by fastforce
next
  case (9 L ctx e es dl cmds s)
  then obtain s1 cmds2 s2 where s1: "policy_restart s = Ok s1"
    and w: "compile_walk L ctx e (cmds @ [(PolicyRestartCmd 0, [])], s1) = Ok (cmds2, s2)"
    and r: "compile_walk_branches L ctx es (dl @ [ses_digest s2]) (cmds2, s2) = Ok (dl', st')"
    and push: "map_err (\<lambda>_. Policy_TooManyBranches) (TpmList_try_push 8 dl (ses_digest s2)) =
      Ok (dl @ [ses_digest s2])" and len: "length dl < 8"
    by (auto simp: TpmList_try_push_Ok_iff)
  have ok: "session_ok L h s" using 9(4) by simp
  then have ok1: "session_ok L h s1" using s1 by (auto simp: policy_restart_Ok_iff)
  have e: "runs T (pcrs_hold T e) (cmds @ [(PolicyRestartCmd 0, [])], s1) (cmds2, s2)"
    using 9(1) [OF s1 w] ok1 9(5,6) by simp
  have "session_ok L h s2" using compile_walk_adds(1) [OF w] ok1 by fastforce
  then have "runs T (list_all (pcrs_hold T) es) (cmds2, s2) st'" "length dl' \<le> 8"
    using 9(2) [OF s1 w refl push r] 9(5,6) len by simp_all
  then show ?case
    using runs_trans [OF runs_trans [OF runs_restart [OF 9(6) ok s1, of cmds] e]] by fastforce
qed (use pcr_runs secret_runs in \<open>auto simp: runs_refl\<close>)

end
