(* ===== verification/Policy_Text.thy ===== *)
theory Policy_Text
  imports Policy
begin

text \<open>
  The parser against the printer: the tokens of a printed expression, the expressions the parser builds
  (\<open>normal\<close>), and the lemmas from which parsing what was printed follows.
\<close>

subsection \<open>Selections as bit sets\<close>

lemma byte_bit [simp]: "(b :: u8) AND 2 ^ j = 0 \<longleftrightarrow> \<not> bit b j"
  by (rule and_exp_eq_0_iff_not_bit)

lemma set_pcr_indices:
  "set (pcr_indices bits) = {i. i div 8 < length bits \<and> bit (bits ! (i div 8)) (i mod 8)}"
proof (intro set_eqI iffI)
  fix i assume "i \<in> set (pcr_indices bits)"
  then obtain k j where "k < length bits" "i = k * 8 + j" "j < 8" "bit (bits ! k) j"
    by (auto simp: pcr_indices_def)
  then show "i \<in> {i. i div 8 < length bits \<and> bit (bits ! (i div 8)) (i mod 8)}"
    by simp
next
  fix i assume "i \<in> {i. i div 8 < length bits \<and> bit (bits ! (i div 8)) (i mod 8)}"
  then show "i \<in> set (pcr_indices bits)"
    by (auto simp: pcr_indices_def intro!: bexI [of _ "i div 8"] image_eqI [of _ _ "i mod 8"])
qed

lemma bits_eqI:
  assumes "length xs = length ys" "set (pcr_indices xs) = set (pcr_indices ys)"
  shows "xs = ys"
proof (rule nth_equalityI [OF assms(1)])
  fix k assume k: "k < length xs"
  have "bit (xs ! k) j = bit (ys ! k) j" if "j < 8" for j
    using assms(2) [unfolded set_pcr_indices, THEN equalityD1, THEN subsetD, of "k * 8 + j"]
      assms(2) [unfolded set_pcr_indices, THEN equalityD2, THEN subsetD, of "k * 8 + j"] that k assms(1)
    by auto
  then show "xs ! k = ys ! k"
    by (intro bit_word_eqI) simp
qed

lemma set_pcr_bits_Ok:
  "\<lbrakk>\<forall>i \<in> set is. i < count; \<forall>i \<in> set is. i div 8 < length bits\<rbrakk> \<Longrightarrow>
   \<exists>bits'. set_pcr_bits count is bits = Ok bits' \<and> length bits' = length bits \<and>
     set (pcr_indices bits') = set (pcr_indices bits) \<union> set is"
proof (induction "is" arbitrary: bits)
  case (Cons i "is")
  let ?b = "bits[i div 8 := bits ! (i div 8) OR push_bit (i mod 8) 1]"
  have "set (pcr_indices ?b) = set (pcr_indices bits) \<union> {i}"
  proof -
    have "bit (?b ! (m div 8)) (m mod 8) \<longleftrightarrow> bit (bits ! (m div 8)) (m mod 8) \<or> m = i"
      if "m div 8 < length bits" for m
    proof (cases "m div 8 = i div 8")
      case True
      moreover have "m mod 8 = i mod 8 \<longleftrightarrow> m = i"
        using True by (metis div_mult_mod_eq)
      ultimately show ?thesis
        using that by (auto simp: bit_simps)
    next
      case False
      with that show ?thesis by (auto simp: nth_list_update)
    qed
    with Cons.prems show ?thesis
      by (auto simp: set_pcr_indices)
  qed
  with Cons.IH [of ?b] Cons.prems show ?case
    by auto
qed simp

lemma set_pcr_bits_cases:
  assumes "set_pcr_bits count is bits = r" "(count + 7) div 8 \<le> length bits"
  shows "r \<noteq> Panic \<and> (\<forall>b. r = Ok b \<longrightarrow> (\<forall>i \<in> set is. i < count))"
  using assms
proof (induction "is" arbitrary: bits)
  case (Cons i "is")
  show ?case
  proof (cases "i < count")
    case True
    then have "i div 8 < (count + 7) div 8"
      by linarith
    with True Cons show ?thesis by auto
  qed (use Cons.prems in auto)
qed auto

subsection \<open>Tokens of printed text\<close>

text \<open>On ASCII text the tokenizer works byte by byte.\<close>

definition tok :: "string \<Rightarrow> Token list" where
  "tok s = tokenize_chars (map (\<lambda>c. [c]) s)"

definition plain :: "char \<Rightarrow> bool" where
  "plain c \<longleftrightarrow> (of_char c :: nat) < 128 \<and> \<not> is_delimiter [c]"

lemma tokenize_ascii: "ascii s \<Longrightarrow> tokenize s = tok s"
  by (simp add: tokenize_def tok_def chars_ascii)

lemma tok_simps [simp]:
  "tok [] = []" "tok (CHR ''('' # s) = TokLParen # tok s" "tok (CHR '')'' # s) = TokRParen # tok s"
  "tok (CHR '','' # s) = TokComma # tok s" "tok (CHR '' '' # s) = tok s"
  by (simp_all add: tok_def is_whitespace_def)

lemma plain_not [simp]:
  "\<not> plain (CHR ''('')" "\<not> plain (CHR '')'')" "\<not> plain (CHR '','')" "\<not> plain (CHR '' '')"
  by (simp_all add: plain_def is_delimiter_def is_whitespace_def)

definition delimited :: "string \<Rightarrow> bool" where
  "delimited s \<longleftrightarrow> s = [] \<or> is_delimiter [hd s]"

lemma delimited_simps [simp]:
  "delimited []" "delimited (CHR ''('' # s)" "delimited (CHR '')'' # s)" "delimited (CHR '','' # s)"
  "delimited (CHR '' '' # s)"
  by (simp_all add: delimited_def is_delimiter_def is_whitespace_def)

lemma tok_word:
  assumes "s \<noteq> []" "list_all plain s" "delimited rest"
  shows "tok (s @ rest) = ident_token s # tok rest"
proof -
  obtain c cs where s: "s = c # cs" using assms(1) by (cases s) auto
  have p: "\<not> is_delimiter [c]" "list_all (\<lambda>c. \<not> is_delimiter [c]) cs"
    using assms(2) by (auto simp: s plain_def list_all_iff)
  have "takeWhile (\<lambda>d. \<not> is_delimiter d) (map (\<lambda>c. [c]) (cs @ rest)) = map (\<lambda>c. [c]) cs"
    and "dropWhile (\<lambda>d. \<not> is_delimiter d) (map (\<lambda>c. [c]) (cs @ rest)) = map (\<lambda>c. [c]) rest"
    using p(2) assms(3)
    by (induction cs) (cases rest; auto simp: delimited_def)+
  moreover have "concat (map (\<lambda>c. [c]) cs) = cs" by (induction cs) auto
  ultimately show ?thesis
    using p(1) by (simp add: s tok_def is_delimiter_def)
qed

text \<open>The text of a \<open>pcr\<close> call: words separated by commas.\<close>

fun words :: "string list \<Rightarrow> Token list" where
  "words [] = []"
| "words [p] = (if p = [] then [] else [ident_token p])"
| "words (p # ps) = (if p = [] then [] else [ident_token p]) @ TokComma # words ps"

lemma words_Cons: "ps \<noteq> [] \<Longrightarrow> words (p # ps) = (if p = [] then [] else [ident_token p]) @ TokComma # words ps"
  by (cases ps) simp_all

lemma tok_words:
  "\<lbrakk>ps \<noteq> []; \<forall>p \<in> set ps. list_all plain p; delimited rest\<rbrakk> \<Longrightarrow>
   tok (join '','' ps @ rest) = words ps @ tok rest"
proof (induction ps)
  case (Cons p ps)
  then show ?case
    by (cases "ps = []"; cases "p = []") (simp_all add: tok_word join_Cons words_Cons)
qed simp

lemma pcr_call_text_words:
  "\<lbrakk>ps \<noteq> []; \<forall>p \<in> set ps. p \<noteq> ''and'' \<and> p \<noteq> ''or''\<rbrakk> \<Longrightarrow>
   pcr_call_text (words ps @ TokRParen # ts) buf = Ok (buf @ join '','' ps, ts)"
proof (induction ps arbitrary: buf)
  case (Cons p ps)
  then show ?case
    by (cases "ps = []"; cases "p = []") (simp_all add: join_Cons words_Cons ident_token_def)
qed simp

lemma join_split_str: "join [c] (split_str c s) = s"
proof (induction s)
  case (Cons d s)
  obtain p ps where "split_str c s = p # ps" by (cases "split_str c s") auto
  with Cons show ?case by (cases ps) auto
qed simp

text \<open>Every word contains a character below the lower-case letters, so none is a keyword.\<close>

definition keyword_free :: "string \<Rightarrow> bool" where
  "keyword_free s \<longleftrightarrow> (\<forall>p \<in> set (split_str CHR '','' s). \<exists>c \<in> set p. (of_char c :: nat) < 97)"

lemma split_str_sep: "split_str c (s @ c # t) = split_str c s @ split_str c t"
  by (induction s) (auto split: list.splits)

lemma split_str_append_free:
  "c \<notin> set t \<Longrightarrow> \<exists>ps p. split_str c s = ps @ [p] \<and> split_str c (s @ t) = ps @ [p @ t]"
proof (induction s)
  case Nil
  then show ?case by (auto simp: split_str_none)
next
  case (Cons d s)
  then obtain ps p where IH: "split_str c s = ps @ [p]" "split_str c (s @ t) = ps @ [p @ t]" by blast
  show ?case
  proof (cases "d = c")
    case True
    then show ?thesis using IH by (intro exI [of _ "[] # ps"] exI [of _ p]) simp
  next
    case False
    then show ?thesis using IH
      by (cases ps) (auto intro: exI [of _ "[]"] exI [of _ "_ # _"])
  qed
qed

lemma split_str_prepend_free:
  "c \<notin> set t \<Longrightarrow> \<exists>ps p. split_str c s = p # ps \<and> split_str c (t @ s) = (t @ p) # ps"
  by (induction t) (cases "split_str c s"; auto)+

lemma keyword_free_sep [simp]: "keyword_free (s @ CHR '','' # t) \<longleftrightarrow> keyword_free s \<and> keyword_free t"
  by (auto simp: keyword_free_def split_str_sep)

lemma keyword_free_append: "\<lbrakk>keyword_free s; CHR '','' \<notin> set t\<rbrakk> \<Longrightarrow> keyword_free (s @ t)"
  using split_str_append_free [of "CHR '',''" t s] by (fastforce simp: keyword_free_def bex_Un)

lemma keyword_free_prepend: "\<lbrakk>keyword_free s; CHR '','' \<notin> set t\<rbrakk> \<Longrightarrow> keyword_free (t @ s)"
  using split_str_prepend_free [of "CHR '',''" t s] by (fastforce simp: keyword_free_def bex_Un)

lemma keyword_free_both:
  assumes "keyword_free s" "keyword_free t"
  shows "keyword_free (s @ t)"
proof (cases "CHR '','' \<in> set t")
  case True
  then obtain t1 t2 where t: "t = t1 @ CHR '','' # t2" "CHR '','' \<notin> set t1"
    using split_list_first by metis
  with assms show ?thesis
    using keyword_free_append [of s t1] keyword_free_sep [of "s @ t1" t2] by simp
qed (rule keyword_free_append [OF assms(1)])

lemma keyword_free_words:
  "\<lbrakk>keyword_free s; p \<in> set (split_str CHR '','' s)\<rbrakk> \<Longrightarrow> p \<noteq> ''and'' \<and> p \<noteq> ''or''"
  unfolding keyword_free_def by (drule (1) bspec) auto

subsection \<open>Printed selections\<close>

definition word_char :: "char \<Rightarrow> bool" where
  "word_char c \<longleftrightarrow> plain c \<and> c \<noteq> CHR '':'' \<and> c \<noteq> CHR ''+''"

lemma digit_word_char: "d < 16 \<Longrightarrow> word_char (digit_char d)"
proof -
  have "list_all (\<lambda>d. word_char (digit_char d)) [0..<16]"
    by (simp add: upt_rec word_char_def plain_def is_delimiter_def is_whitespace_def digit_char_def
        char_of_def)
  then show "d < 16 \<Longrightarrow> word_char (digit_char d)"
    by (simp add: list_all_iff)
qed

lemma alg_word_chars: "\<forall>c \<in> set (TpmHash_display h). word_char c"
  by (cases h) (simp_all add: word_char_def plain_def is_delimiter_def is_whitespace_def)

lemma digits_word_chars: "set s \<subseteq> digit_char ` {..<16} \<Longrightarrow> \<forall>c \<in> set s. word_char c"
  using digit_word_char by auto

lemma nat_display_chars: "\<forall>c \<in> set (nat_display n). word_char c"
  using set_nat_display [of n] by (intro digits_word_chars) auto

lemma not_word_char: "\<not> word_char (CHR '':'')" "\<not> word_char (CHR ''+'')" "\<not> word_char (CHR '','')"
  by (simp_all add: word_char_def)

lemma word_char_plain: "word_char c \<Longrightarrow> plain c"
  by (simp add: word_char_def)

lemma word_char_not:
  "\<forall>c \<in> set s. word_char c \<Longrightarrow>
   CHR '':'' \<notin> set s \<and> CHR ''+'' \<notin> set s \<and> CHR '','' \<notin> set s \<and> list_all plain s"
  unfolding list_all_iff using not_word_char word_char_plain by blast

lemma keyword_free_nat: "keyword_free (nat_display n)"
proof -
  have "nat_display n = (if n < 10 then [] else nat_display (n div 10)) @ [digit_char (n mod 10)]"
    by (subst nat_display.simps) simp
  then have "digit_char (n mod 10) \<in> set (nat_display n)"
    by (metis in_set_conv_decomp)
  moreover have "(of_char (digit_char (n mod 10)) :: nat) < 97"
    by (simp add: digit_char_def)
  moreover have "CHR '','' \<notin> set (nat_display n)"
    using word_char_not [OF nat_display_chars] by blast
  ultimately show ?thesis
    by (auto simp: keyword_free_def split_str_none)
qed

lemma keyword_free_join: "\<lbrakk>ss \<noteq> []; \<forall>s \<in> set ss. keyword_free s\<rbrakk> \<Longrightarrow> keyword_free (join '','' ss)"
proof (induction ss)
  case (Cons s ss)
  then show ?case by (cases "ss = []") (simp_all add: join_Cons)
qed simp

lemma keyword_free_join_plus:
  "\<lbrakk>ss \<noteq> []; \<forall>s \<in> set ss. keyword_free s\<rbrakk> \<Longrightarrow> keyword_free (join ''+'' ss)"
proof (induction ss)
  case (Cons s ss)
  then show ?case
    using keyword_free_both [OF keyword_free_append [of s "''+''"], of "join ''+'' ss"]
    by (cases "ss = []") (simp_all add: join_Cons)
qed simp

definition selection_normal :: "TpmPolicyContext \<Rightarrow> pcr_selection \<Rightarrow> bool" where
  "selection_normal context sel \<longleftrightarrow> (case sel of (hash, bits) \<Rightarrow>
     (\<exists>alg. hash = TpmHash_into alg) \<and> map_of (ctx_pcrs context) hash \<noteq> None \<and>
     length bits = (ctx_pcr_count context + 7) div 8 \<and>
     pcr_indices bits \<noteq> [] \<and> (\<forall>i \<in> set (pcr_indices bits). i < ctx_pcr_count context))"

definition selections_normal :: "TpmPolicyContext \<Rightarrow> pcr_selection list \<Rightarrow> bool" where
  "selections_normal context sels \<longleftrightarrow> sels \<noteq> [] \<and> length sels \<le> 8 \<and>
     (ctx_pcr_count context + 7) div 8 \<le> TPM_PCR_SELECT_MAX \<and> list_all (selection_normal context) sels"

lemma selection_display_eq:
  "selection_display (TpmHash_into alg, bits) =
     TpmHash_display alg @ CHR '':'' # join '','' (map nat_display (pcr_indices bits))"
  by (simp add: selection_display_def)

lemma indices_text:
  assumes "is \<noteq> []"
  shows "split_str CHR '','' (join '','' (map nat_display is)) = map nat_display is"
    and "CHR '':'' \<notin> set (join '','' (map nat_display is))"
    and "CHR ''+'' \<notin> set (join '','' (map nat_display is))"
    and "keyword_free (join '','' (map nat_display is))"
    and "\<forall>c \<in> set (join '','' (map nat_display is)). plain c \<or> c = CHR '',''"
  using assms set_join [of "'',''" "map nat_display is"] nat_display_chars word_char_not keyword_free_nat
  by (auto intro!: split_str_join keyword_free_join simp: word_char_def)

lemma parse_indices_display: "\<forall>i \<in> set is. i \<le> u32_max \<Longrightarrow> parse_indices (map nat_display is) = Some is"
  by (induction "is") (simp_all add: u32_parse_display)

lemma parse_selection_part_display:
  assumes sel: "selection_normal context sel" and n: "n = (ctx_pcr_count context + 7) div 8"
    "n \<le> TPM_PCR_SELECT_MAX"
  shows "parse_selection_part context n (selection_display sel) = Ok sel"
proof -
  obtain alg bits where s: "sel = (TpmHash_into alg, bits)"
    using sel by (cases sel) (auto simp: selection_normal_def)
  let ?is = "pcr_indices bits"
  have h: "map_of (ctx_pcrs context) (TpmHash_into alg) \<noteq> None" "length bits = n" "?is \<noteq> []"
    "\<forall>i \<in> set ?is. i < ctx_pcr_count context"
    using sel n by (auto simp: selection_normal_def s)
  have small: "\<forall>i \<in> set ?is. i div 8 < n \<and> i \<le> u32_max"
    using n(2) h(2) by (auto simp: set_pcr_indices TPM_PCR_SELECT_MAX_def u32_max_def)
  obtain bits' where bits': "set_pcr_bits (ctx_pcr_count context) ?is (replicate n 0) = Ok bits'"
    "length bits' = n" "set (pcr_indices bits') = set (pcr_indices (replicate n 0)) \<union> set ?is"
    using set_pcr_bits_Ok [of ?is "ctx_pcr_count context" "replicate n 0"] h(4) small by auto
  have "set (pcr_indices (replicate n 0)) = {}"
    by (auto simp: set_pcr_indices)
  with bits' h(2) have "bits' = bits"
    by (intro bits_eqI) simp_all
  moreover have "split_once CHR '':'' (selection_display sel) =
      Some (TpmHash_display alg, join '','' (map nat_display ?is))"
    unfolding s selection_display_eq by (rule split_once_append) (use word_char_not [OF alg_word_chars] in blast)
  moreover have "TpmHash_from_str (TpmHash_display alg) = Some alg"
    by (simp add: TpmHash_from_str_iff)
  moreover have "parse_indices (map nat_display ?is) = Some ?is"
    by (rule parse_indices_display) (use small in blast)
  moreover have "TpmsPcrSelect_try_from bits = Ok bits"
    using h(2) n(2) by (simp add: TpmsPcrSelect_try_from_def TPM_PCR_SELECT_MAX_def)
  ultimately show ?thesis
    using h(1) bits'(1) indices_text(1) [OF h(3)] by (simp add: parse_selection_part_def s del: and_then_Ok_iff)
qed

lemma parse_selection_parts_display:
  "\<lbrakk>list_all (selection_normal context) sels; n = (ctx_pcr_count context + 7) div 8; n \<le> TPM_PCR_SELECT_MAX;
     length lst + length sels \<le> 8\<rbrakk> \<Longrightarrow>
   parse_selection_parts context n (map selection_display sels @ ps) lst =
     parse_selection_parts context n ps (lst @ sels)"
proof (induction sels arbitrary: lst)
  case (Cons sel sels)
  have "parse_selection_part context n (selection_display sel) = Ok sel"
    using Cons.prems by (intro parse_selection_part_display) simp_all
  with Cons show ?case
    by (simp add: TpmList_try_push_def del: and_then_Ok_iff)
qed simp

lemma selection_chars:
  assumes "selection_normal context sel"
  shows "CHR ''+'' \<notin> set (selection_display sel)" "keyword_free (selection_display sel)"
    "\<forall>c \<in> set (selection_display sel). plain c \<or> c = CHR '',''"
proof -
  obtain alg bits where s: "sel = (TpmHash_into alg, bits)" "pcr_indices bits \<noteq> []"
    using assms by (cases sel) (auto simp: selection_normal_def)
  note t = indices_text [OF s(2)] and a = word_char_not [OF alg_word_chars, of alg]
  have plain: "plain (CHR '':'')"
    by (simp add: plain_def is_delimiter_def is_whitespace_def)
  show "CHR ''+'' \<notin> set (selection_display sel)"
    and "\<forall>c \<in> set (selection_display sel). plain c \<or> c = CHR '',''"
    using t(3,5) a plain by (auto simp: s selection_display_eq list_all_iff)
  show "keyword_free (selection_display sel)"
    using keyword_free_prepend [OF t(4), of "TpmHash_display alg @ '':''"] a
    by (simp add: s selection_display_eq)
qed

lemma parse_selections_display:
  assumes "selections_normal context sels"
  shows "parse_tpml_pcr_selection_str (join ''+'' (map selection_display sels)) context = Ok sels"
proof -
  have "split_str CHR ''+'' (join ''+'' (map selection_display sels)) = map selection_display sels"
    using assms selection_chars(1)
    by (intro split_str_join) (auto simp: selections_normal_def list_all_iff)
  then show ?thesis
    using assms parse_selection_parts_display [of "context" sels "(ctx_pcr_count context + 7) div 8" "[]" "[]"]
    by (simp add: parse_tpml_pcr_selection_str_def selections_normal_def Let_def)
qed

text \<open>Without a digest, the text before the last colon ends in a selection that has no colon.\<close>

lemma parse_selections_cut:
  assumes "selections_normal context (sels @ [sel])"
  shows "\<exists>e. parse_tpml_pcr_selection_str
    (join ''+'' (map selection_display sels @ [TpmHash_display alg])) context = Err e"
proof -
  have split: "split_str CHR ''+'' (join ''+'' (map selection_display sels @ [TpmHash_display alg])) =
      map selection_display sels @ [TpmHash_display alg]"
    using assms selection_chars(1) word_char_not [OF alg_word_chars, of alg]
    by (intro split_str_join) (auto simp: selections_normal_def list_all_iff)
  have "split_once CHR '':'' (TpmHash_display alg) = None"
    using word_char_not [OF alg_word_chars, of alg] by (simp add: split_once_None_iff)
  then show ?thesis
    using assms parse_selection_parts_display [of "context" sels "(ctx_pcr_count context + 7) div 8" "[]"
        "[TpmHash_display alg]"]
    by (simp add: parse_tpml_pcr_selection_str_def selections_normal_def Let_def split parse_selection_part_def)
qed

definition pcr_text :: "hex_lib \<Rightarrow> pcr_selection list \<Rightarrow> u8 list option \<Rightarrow> string" where
  "pcr_text H sels dg = join ''+'' (map selection_display sels) @
     (case dg of Some d \<Rightarrow> '':'' @ hex_encode H d | None \<Rightarrow> [])"

lemma hex_chars: "hex_ok H \<Longrightarrow> \<forall>c \<in> set (hex_encode H d). word_char c"
  by (intro digits_word_chars) (simp add: hex_ok_def)

lemma join_last: "join sep (ss @ [s @ t]) = join sep (ss @ [s]) @ t"
  by (cases "ss = []") (simp_all add: join_snoc)

lemma parse_pcr_with_digest_text:
  assumes H: "hex_ok H" and sels: "selections_normal context sels" and dg: "\<forall>d. dg = Some d \<longrightarrow> length d \<le> 64"
  shows "parse_pcr_with_digest H context (pcr_text H sels dg) = Ok (map_option (\<lambda>d. (sels, d)) dg)"
proof (cases dg)
  case (Some d)
  have "rsplit_once CHR '':'' (pcr_text H sels dg) = Some (join ''+'' (map selection_display sels), hex_encode H d)"
    unfolding pcr_text_def Some using word_char_not [OF hex_chars [OF H], of d]
    by (simp add: rsplit_once_append)
  moreover have "TpmBuffer_try_from MAX_DIGEST_SIZE d = Ok d"
    using dg Some by (simp add: TpmBuffer_try_from_eq MAX_DIGEST_SIZE_def u16_max_def)
  ultimately show ?thesis
    using parse_selections_display [OF sels] H Some by (simp add: parse_pcr_with_digest_def hex_ok_def)
next
  case None
  obtain init sel where s: "sels = init @ [sel]"
    using sels by (cases sels rule: rev_cases) (auto simp: selections_normal_def)
  moreover obtain alg bits where sel: "sel = (TpmHash_into alg, bits)" "pcr_indices bits \<noteq> []"
    using sels by (cases sel) (auto simp: selections_normal_def selection_normal_def s)
  ultimately have "pcr_text H sels dg = join ''+'' (map selection_display init @ [TpmHash_display alg]) @
      CHR '':'' # join '','' (map nat_display (pcr_indices bits))"
    by (simp add: pcr_text_def None selection_display_eq join_last)
  moreover obtain e where "parse_tpml_pcr_selection_str
      (join ''+'' (map selection_display init @ [TpmHash_display alg])) context = Err e"
    using parse_selections_cut sels s by blast
  ultimately show ?thesis
    using indices_text(2) [OF sel(2)]
    by (simp add: parse_pcr_with_digest_def rsplit_once_append None)
qed

subsection \<open>Expressions the parser builds\<close>

fun is_and :: "TpmPolicyExpression \<Rightarrow> bool" where
  "is_and (AndExpr _) \<longleftrightarrow> True"
| "is_and _ \<longleftrightarrow> False"

fun is_or :: "TpmPolicyExpression \<Rightarrow> bool" where
  "is_or (OrExpr _) \<longleftrightarrow> True"
| "is_or _ \<longleftrightarrow> False"

fun normal :: "TpmPolicyContext \<Rightarrow> TpmPolicyExpression \<Rightarrow> bool" where
  "normal ctx (PcrExpr sels dg) \<longleftrightarrow> selections_normal ctx sels \<and> (\<forall>d. dg = Some d \<longrightarrow> length d \<le> 64)"
| "normal ctx (SecretExpr auth cr) \<longleftrightarrow> normal ctx auth \<and> (\<forall>r. cr = Some r \<longrightarrow> r \<noteq> [] \<and> length r \<le> 64)"
| "normal ctx (AndExpr es) \<longleftrightarrow> 2 \<le> length es \<and> \<not> is_and (hd es) \<and> list_all (normal ctx) es"
| "normal ctx (OrExpr es) \<longleftrightarrow> 2 \<le> length es \<and> \<not> is_or (hd es) \<and> list_all (normal ctx) es"
| "normal ctx (HandleExpr h) \<longleftrightarrow> (\<exists>ht. TpmHt_try_from (uint (u32_type h)) = Ok ht)"

fun sep_by :: "'a \<Rightarrow> 'a list list \<Rightarrow> 'a list" where
  "sep_by t [] = []"
| "sep_by t [x] = x"
| "sep_by t (x # xs) = x @ t # sep_by t xs"

lemma sep_by_Cons: "xs \<noteq> [] \<Longrightarrow> sep_by t (x # xs) = x @ t # sep_by t xs"
  by (cases xs) simp_all

fun expr_tokens :: "hex_lib \<Rightarrow> TpmPolicyExpression \<Rightarrow> Token list" where
  "expr_tokens H (PcrExpr sels dg) =
     TokIdent ''pcr'' # TokLParen # words (split_str CHR '','' (pcr_text H sels dg)) @ [TokRParen]"
| "expr_tokens H (SecretExpr auth cr) =
     TokIdent ''secret'' # TokLParen # expr_tokens H auth @
     (case cr of Some r \<Rightarrow> [TokComma, TokIdent (''copy_ref:'' @ hex_encode H r)] | None \<Rightarrow> []) @ [TokRParen]"
| "expr_tokens H (AndExpr es) = TokLParen # sep_by TokAnd (map (expr_tokens H) es) @ [TokRParen]"
| "expr_tokens H (OrExpr es) = TokLParen # sep_by TokOr (map (expr_tokens H) es) @ [TokRParen]"
| "expr_tokens H (HandleExpr h) = [TokIdent (hex_digits 8 (unat h))]"

subsection \<open>Tokenizing what was printed\<close>

lemma plain_letters:
  "list_all plain ''pcr''" "list_all plain ''secret''" "list_all plain ''and''" "list_all plain ''or''"
  "list_all plain ''copy_ref:''"
  by (simp_all add: plain_def is_delimiter_def is_whitespace_def)

lemma pcr_text_props:
  assumes "hex_ok H" "selections_normal ctx sels"
  shows "keyword_free (pcr_text H sels dg)" "\<forall>c \<in> set (pcr_text H sels dg). plain c \<or> c = CHR '',''"
proof -
  let ?s = "join ''+'' (map selection_display sels)"
  have sel: "sels \<noteq> []" "\<forall>s \<in> set sels. selection_normal ctx s"
    using assms(2) by (auto simp: selections_normal_def list_all_iff)
  have k: "keyword_free ?s"
    by (rule keyword_free_join_plus) (use sel selection_chars(2) in auto)
  have plus: "plain CHR ''+''"
    by (simp add: plain_def is_delimiter_def is_whitespace_def)
  have c: "\<forall>c \<in> set ?s. plain c \<or> c = CHR '',''"
    using set_join [of "''+''" "map selection_display sels"] sel(2) selection_chars(3) plus by fastforce
  have colon: "plain CHR '':''"
    by (simp add: plain_def is_delimiter_def is_whitespace_def)
  show "keyword_free (pcr_text H sels dg)"
    using keyword_free_append [OF k] word_char_not [OF hex_chars [OF assms(1)]] k
    by (auto simp: pcr_text_def split: option.split)
  show "\<forall>c \<in> set (pcr_text H sels dg). plain c \<or> c = CHR '',''"
    using c colon word_char_not [OF hex_chars [OF assms(1)]]
    by (auto simp: pcr_text_def list_all_iff split: option.split)
qed

lemma set_split_str: "p \<in> set (split_str c s) \<Longrightarrow> set p \<subseteq> set s - {c}"
  by (induction s arbitrary: p) (fastforce split: list.splits if_splits)+

lemma tok_pcr_text:
  assumes "hex_ok H" "selections_normal ctx sels" "delimited rest"
  shows "tok (pcr_text H sels dg @ rest) = words (split_str CHR '','' (pcr_text H sels dg)) @ tok rest"
proof -
  have "\<forall>p \<in> set (split_str CHR '','' (pcr_text H sels dg)). list_all plain p"
    using set_split_str pcr_text_props(2) [OF assms(1,2)] by (fastforce simp: list_all_iff)
  from tok_words [OF split_str_not_Nil this assms(3)] show ?thesis
    by (simp only: join_split_str)
qed

lemma tok_display:
  assumes H: "hex_ok H"
  shows "\<lbrakk>normal ctx e; delimited rest\<rbrakk> \<Longrightarrow> tok (expr_display H e @ rest) = expr_tokens H e @ tok rest"
proof (induction e arbitrary: rest)
  case (PcrExpr sels dg)
  have display: "expr_display H (PcrExpr sels dg) @ rest =
      ''pcr'' @ CHR ''('' # pcr_text H sels dg @ CHR '')'' # rest"
    by (simp add: pcr_text_def split: option.split)
  have "tok (''pcr'' @ CHR ''('' # s) = TokIdent ''pcr'' # TokLParen # tok s" for s
    using tok_word [of "''pcr''" "CHR ''('' # s"] plain_letters by (simp add: ident_token_def)
  then show ?case
    unfolding display using PcrExpr tok_pcr_text [OF H, of ctx sels "CHR '')'' # rest" dg] by simp
next
  case (SecretExpr auth cr)
  let ?cr = "case cr of Some r \<Rightarrow> '', copy_ref:'' @ hex_encode H r | None \<Rightarrow> []"
  have "expr_display H (SecretExpr auth cr) @ rest =
      ''secret'' @ CHR ''('' # expr_display H auth @ ?cr @ CHR '')'' # rest"
    by simp
  moreover have "tok (''secret'' @ CHR ''('' # s) = TokIdent ''secret'' # TokLParen # tok s" for s
    using tok_word [of "''secret''" "CHR ''('' # s"] plain_letters by (simp add: ident_token_def)
  moreover have "delimited (?cr @ CHR '')'' # rest)"
    by (cases cr) simp_all
  moreover have "tok (?cr @ CHR '')'' # rest) =
      (case cr of Some r \<Rightarrow> [TokComma, TokIdent (''copy_ref:'' @ hex_encode H r)] | None \<Rightarrow> []) @
      TokRParen # tok rest"
    using tok_word [of "''copy_ref:'' @ hex_encode H (the cr)" "CHR '')'' # rest"] plain_letters
      word_char_not [OF hex_chars [OF H], of "the cr"]
    by (cases cr) (auto simp: ident_token_def)
  ultimately show ?case
    using SecretExpr by simp
next
  case (AndExpr es)
  have "tok (join '' and '' (map (expr_display H) es) @ CHR '')'' # rest) =
      sep_by TokAnd (map (expr_tokens H) es) @ TokRParen # tok rest"
    if "list_all (normal ctx) es"
    using AndExpr.IH that
  proof (induction es)
    case (Cons e es)
    then show ?case
      using tok_word [of "''and''"] plain_letters
      by (cases "es = []") (simp_all add: join_Cons sep_by_Cons ident_token_def)
  qed simp
  with AndExpr.prems show ?case by simp
next
  case (OrExpr es)
  have "tok (join '' or '' (map (expr_display H) es) @ CHR '')'' # rest) =
      sep_by TokOr (map (expr_tokens H) es) @ TokRParen # tok rest"
    if "list_all (normal ctx) es"
    using OrExpr.IH that
  proof (induction es)
    case (Cons e es)
    then show ?case
      using tok_word [of "''or''"] plain_letters
      by (cases "es = []") (simp_all add: join_Cons sep_by_Cons ident_token_def)
  qed simp
  with OrExpr.prems show ?case by simp
next
  case (HandleExpr h)
  have "list_all plain (hex_digits 8 (unat h))" "hex_digits 8 (unat h) \<noteq> []"
    "hex_digits 8 (unat h) \<noteq> ''and''" "hex_digits 8 (unat h) \<noteq> ''or''"
    using word_char_not [OF digits_word_chars [OF set_hex_digits]] length_hex_digits [of 8 "unat h"]
    by (auto simp del: length_hex_digits hex_digits.simps)
  with HandleExpr tok_word show ?case
    by (simp add: ident_token_def del: hex_digits.simps)
qed

subsection \<open>Parsing the tokens\<close>

definition stops :: "Token list \<Rightarrow> bool" where
  "stops ts \<longleftrightarrow> ts = [] \<or> hd ts \<notin> {TokAnd, TokOr}"

lemma stops_simps [simp]: "stops []" "stops (TokRParen # ts)" "stops (TokComma # ts)"
  by (simp_all add: stops_def)

lemma parse_rest_stops:
  "stops ts \<Longrightarrow> parse_or_rest H ctx e ts = Ok (e, ts)" "stops ts \<Longrightarrow> parse_and_rest H ctx e ts = Ok (e, ts)"
  by (auto simp: stops_def parse_or_rest.simps [of H ctx e ts] parse_and_rest.simps [of H ctx e ts])

lemma parse_or_primary:
  "\<lbrakk>parse_primary H ctx ts = Ok (e, rest); stops rest\<rbrakk> \<Longrightarrow> parse_or H ctx ts = Ok (e, rest)"
  by (simp add: parse_or.simps [of H ctx ts] parse_and.simps [of H ctx ts] parse_rest_stops)

lemma parse_and_operands:
  "\<lbrakk>es \<noteq> []; \<forall>e \<in> set es. \<forall>rest. parse_primary H ctx (expr_tokens H e @ rest) = Ok (e, rest);
     rest = [] \<or> hd rest \<noteq> TokAnd\<rbrakk> \<Longrightarrow>
   parse_and_rest H ctx node (TokAnd # sep_by TokAnd (map (expr_tokens H) es) @ rest) =
     Ok (foldl combine_and node es, rest)"
proof (induction es arbitrary: node)
  case (Cons e es)
  show ?case
  proof (cases "es = []")
    case True
    with Cons.prems show ?thesis
      by (auto simp: parse_and_rest.simps [of H ctx node] parse_and_rest.simps [of H ctx _ rest])
  next
    case False
    with Cons show ?thesis
      by (simp add: parse_and_rest.simps [of H ctx node] sep_by_Cons)
  qed
qed simp

lemma parse_or_operands:
  "\<lbrakk>es \<noteq> []; \<forall>e \<in> set es. \<forall>rest. parse_primary H ctx (expr_tokens H e @ rest) = Ok (e, rest);
     stops rest\<rbrakk> \<Longrightarrow>
   parse_or_rest H ctx node (TokOr # sep_by TokOr (map (expr_tokens H) es) @ rest) =
     Ok (foldl combine_or node es, rest)"
proof (induction es arbitrary: node)
  case (Cons e es)
  show ?case
  proof (cases "es = []")
    case True
    with Cons.prems show ?thesis
      by (simp add: parse_or_rest.simps [of H ctx node] parse_and.simps [of H ctx "_ @ _"] parse_rest_stops)
  next
    case False
    then have "parse_and H ctx (expr_tokens H e @ TokOr # sep_by TokOr (map (expr_tokens H) es) @ rest) =
        Ok (e, TokOr # sep_by TokOr (map (expr_tokens H) es) @ rest)"
      using Cons.prems
      by (simp add: parse_and.simps [of H ctx "_ @ _"] parse_and_rest.simps [of H ctx e])
    with False Cons show ?thesis
      by (simp add: parse_or_rest.simps [of H ctx node] sep_by_Cons)
  qed
qed simp

lemma foldl_combine:
  "foldl combine_and (AndExpr xs) es = AndExpr (xs @ es)" "foldl combine_or (OrExpr xs) es = OrExpr (xs @ es)"
  by (induction es arbitrary: xs) (simp_all add: combine_and_def combine_or_def)

lemma combine_first:
  "\<not> is_and e \<Longrightarrow> combine_and e e' = AndExpr [e, e']" "\<not> is_or e \<Longrightarrow> combine_or e e' = OrExpr [e, e']"
  by (cases e; simp add: combine_and_def combine_or_def)+

lemma two_elements: "2 \<le> length es \<Longrightarrow> \<exists>a b cs. es = a # b # cs"
  by (cases es; cases "tl es") auto

lemma parse_primary_tokens:
  assumes H: "hex_ok H"
  shows "normal ctx e \<Longrightarrow> parse_primary H ctx (expr_tokens H e @ rest) = Ok (e, rest)"
proof (induction e arbitrary: rest)
  case (PcrExpr sels dg)
  let ?ps = "split_str CHR '','' (pcr_text H sels dg)"
  have "\<forall>p \<in> set ?ps. p \<noteq> ''and'' \<and> p \<noteq> ''or''"
    using keyword_free_words pcr_text_props(1) [OF H, of ctx sels dg] PcrExpr by simp
  then have "pcr_call_text (words ?ps @ TokRParen # rest) [] = Ok (pcr_text H sels dg, rest)"
    using pcr_call_text_words [of ?ps rest "[]"] by (simp add: join_split_str)
  moreover have "parse_pcr_with_digest H ctx (pcr_text H sels dg) = Ok (map_option (\<lambda>d. (sels, d)) dg)"
    using PcrExpr by (intro parse_pcr_with_digest_text [OF H]) simp_all
  moreover have "dg = None \<Longrightarrow> parse_tpml_pcr_selection_str (pcr_text H sels dg) ctx = Ok sels"
    using PcrExpr parse_selections_display by (simp add: pcr_text_def)
  ultimately show ?case
    by (cases dg) (simp_all add: parse_primary.simps parse_pcr_call_def)
next
  case (SecretExpr auth cr)
  let ?cr = "case cr of Some r \<Rightarrow> [TokComma, TokIdent (''copy_ref:'' @ hex_encode H r)] | None \<Rightarrow> []"
  have "parse_copy_ref H (?cr @ TokRParen # rest) = Ok (cr, TokRParen # rest)"
  proof (cases cr)
    case (Some r)
    have "split_once CHR '':'' (''copy_ref'' @ CHR '':'' # hex_encode H r) = Some (''copy_ref'', hex_encode H r)"
      by (rule split_once_append) simp
    then show ?thesis
      using SecretExpr.prems H Some
      by (simp add: parse_copy_ref_def Let_def hex_ok_def TpmBuffer_try_from_eq MAX_DIGEST_SIZE_def u16_max_def
          del: split_once.simps)
  qed (simp add: parse_copy_ref_def)
  moreover have "parse_or H ctx (expr_tokens H auth @ ?cr @ TokRParen # rest) = Ok (auth, ?cr @ TokRParen # rest)"
    using SecretExpr by (intro parse_or_primary) (auto split: option.split)
  ultimately show ?case
    by (simp add: parse_primary.simps parse_secret_call.simps)
next
  case (AndExpr es)
  then obtain a b cs where es: "es = a # b # cs" using two_elements [of es] by auto
  have "parse_primary H ctx (expr_tokens H a @ rest) = Ok (a, rest)" for rest
    using AndExpr es by simp
  moreover have "parse_and_rest H ctx a (TokAnd # sep_by TokAnd (map (expr_tokens H) (b # cs)) @ TokRParen # rest) =
      Ok (AndExpr es, TokRParen # rest)"
    using AndExpr parse_and_operands [of "b # cs" H ctx "TokRParen # rest" a]
    by (simp add: es list_all_iff foldl_combine combine_first)
  ultimately have "parse_or H ctx (sep_by TokAnd (map (expr_tokens H) es) @ TokRParen # rest) =
      Ok (AndExpr es, TokRParen # rest)"
    by (simp add: es parse_or.simps [of H ctx "_ @ _"] parse_and.simps [of H ctx "_ @ _"] parse_rest_stops)
  then show ?case by (simp add: parse_primary.simps [of H ctx "_ # _"])
next
  case (OrExpr es)
  then obtain a b cs where es: "es = a # b # cs" using two_elements [of es] by auto
  have "parse_primary H ctx (expr_tokens H a @ rest) = Ok (a, rest)" for rest
    using OrExpr es by simp
  moreover have "parse_or_rest H ctx a (TokOr # sep_by TokOr (map (expr_tokens H) (b # cs)) @ TokRParen # rest) =
      Ok (OrExpr es, TokRParen # rest)"
    using OrExpr parse_or_operands [of "b # cs" H ctx "TokRParen # rest" a]
    by (simp add: es list_all_iff foldl_combine combine_first)
  ultimately have "parse_or H ctx (sep_by TokOr (map (expr_tokens H) es) @ TokRParen # rest) =
      Ok (OrExpr es, TokRParen # rest)"
    by (simp add: es parse_or.simps [of H ctx "_ @ _"] parse_and.simps [of H ctx "_ @ _"]
        parse_and_rest.simps [of H ctx a])
  then show ?case by (simp add: parse_primary.simps [of H ctx "_ # _"])
next
  case (HandleExpr h)
  let ?s = "hex_digits 8 (unat h)"
  have len: "length ?s = 8" by (rule length_hex_digits)
  have "?s \<noteq> ''pcr''" "?s \<noteq> ''secret''"
    using len by (auto simp del: hex_digits.simps length_hex_digits)
  moreover have "unat h < 2 ^ LENGTH(32)"
    by (rule unsigned_less)
  then have "unat h \<le> u32_max"
    by (simp add: u32_max_def)
  then have "parse_literal ?s = Ok (HandleExpr h)"
    using HandleExpr u32_parse_hex [of "unat h"] len
    by (auto simp: parse_literal_def Let_def simp del: hex_digits.simps)
  ultimately show ?case
    by (simp add: parse_primary.simps del: hex_digits.simps)
qed

lemma plain_ascii:
  assumes "list_all (\<lambda>c. plain c \<or> c = CHR '','') s"
  shows "ascii s"
proof -
  have "(of_char c :: nat) < 128" if "plain c \<or> c = CHR '',''" for c
    using that by (elim disjE) (simp_all add: plain_def)
  then show ?thesis
    unfolding ascii_def using assms by (blast intro: list.pred_mono_strong)
qed

lemma word_ascii: "\<forall>c \<in> set s. word_char c \<Longrightarrow> ascii s"
  by (rule plain_ascii) (auto simp: list_all_iff dest: word_char_plain)

lemma ascii_join: "\<lbrakk>ascii sep; \<forall>s \<in> set ss. ascii s\<rbrakk> \<Longrightarrow> ascii (join sep ss)"
  by (induction sep ss rule: join.induct) simp_all

lemma ascii_display: "\<lbrakk>hex_ok H; normal ctx e\<rbrakk> \<Longrightarrow> ascii (expr_display H e)"
proof (induction e)
  case (PcrExpr sels dg)
  have display: "expr_display H (PcrExpr sels dg) = ''pcr('' @ pcr_text H sels dg @ '')''"
    by (simp add: pcr_text_def split: option.split)
  have "ascii (pcr_text H sels dg)"
    using PcrExpr pcr_text_props(2) [of H ctx sels dg] by (intro plain_ascii) (simp add: list_all_iff)
  then show ?case unfolding display by simp
next
  case (HandleExpr h)
  then show ?case
    using word_ascii [OF digits_word_chars [OF set_hex_digits]] by (simp del: hex_digits.simps)
qed (auto intro!: ascii_join simp: list_all_iff word_ascii [OF hex_chars] split: option.split)

subsection \<open>What the parser accepts\<close>

lemma parse_indices_not_Nil: "parse_indices ss = Some is \<Longrightarrow> length is = length ss"
  by (induction ss arbitrary: "is") (auto split: option.splits)

lemma parse_selection_part_normal:
  assumes n: "n = (ctx_pcr_count ctx + 7) div 8" "n \<le> TPM_PCR_SELECT_MAX"
  shows "parse_selection_part ctx n part \<noteq> Panic"
    and "parse_selection_part ctx n part = Ok sel \<Longrightarrow> selection_normal ctx sel"
proof -
  have panic: "set_pcr_bits (ctx_pcr_count ctx) is (replicate n 0) \<noteq> Panic" for "is"
    using set_pcr_bits_cases [of "ctx_pcr_count ctx" "is" "replicate n 0"] n by simp
  have tp: "TpmsPcrSelect_try_from b \<noteq> Panic" for b
    by (simp add: TpmsPcrSelect_try_from_def)
  show "parse_selection_part ctx n part \<noteq> Panic"
    using panic tp by (auto simp: parse_selection_part_def and_then_Panic_iff split: if_splits)
  assume "parse_selection_part ctx n part = Ok sel"
  then obtain alg bank ind "is" bits where p: "map_of (ctx_pcrs ctx) (TpmHash_into alg) = Some bank"
    "parse_indices (split_str CHR '','' ind) = Some is"
    "set_pcr_bits (ctx_pcr_count ctx) is (replicate n 0) = Ok bits" "sel = (TpmHash_into alg, bits)"
    by (auto simp: parse_selection_part_def TpmsPcrSelect_try_from_def split: if_splits prod.splits)
  have lt: "\<forall>i \<in> set is. i < ctx_pcr_count ctx"
    using set_pcr_bits_cases [OF p(3)] n by simp
  then have "\<forall>i \<in> set is. i div 8 < n"
    using n by auto
  then have "length bits = n" "set (pcr_indices bits) = set is"
    using set_pcr_bits_Ok [of "is" "ctx_pcr_count ctx" "replicate n 0"] lt p(3)
    by (auto simp: set_pcr_indices [of "replicate n 0"])
  moreover have "is \<noteq> []"
    using parse_indices_not_Nil [OF p(2)] by auto
  ultimately show "selection_normal ctx sel"
    using p(1) n lt by (auto simp: selection_normal_def p(4))
qed

lemma parse_selection_parts_normal:
  assumes "n = (ctx_pcr_count ctx + 7) div 8" "n \<le> TPM_PCR_SELECT_MAX"
  shows "\<lbrakk>length lst \<le> 8; list_all (selection_normal ctx) lst\<rbrakk> \<Longrightarrow>
    parse_selection_parts ctx n parts lst \<noteq> Panic \<and>
    (\<forall>sels. parse_selection_parts ctx n parts lst = Ok sels \<longrightarrow>
      length sels \<le> 8 \<and> list_all (selection_normal ctx) sels \<and> length sels = length lst + length parts)"
proof (induction parts arbitrary: lst)
  case (Cons part parts)
  note law = parse_selection_part_normal [OF assms, of part]
  show ?case
  proof (cases "parse_selection_part ctx n part")
    case (Ok sel)
    show ?thesis
    proof (cases "8 \<le> length lst")
      case True
      with Ok show ?thesis by (simp add: TpmList_try_push_def)
    next
      case False
      with Cons.IH [of "lst @ [sel]"] Cons.prems law(2) [OF Ok] Ok show ?thesis
        by (auto simp: TpmList_try_push_def)
    qed
  qed (use law(1) in simp_all)
qed simp

lemma parse_selections_normal:
  "parse_tpml_pcr_selection_str s ctx \<noteq> Panic"
  "parse_tpml_pcr_selection_str s ctx = Ok sels \<Longrightarrow> selections_normal ctx sels"
  using parse_selection_parts_normal [of "(ctx_pcr_count ctx + 7) div 8" ctx "[]" "split_str CHR ''+'' s"]
  by (auto simp: parse_tpml_pcr_selection_str_def Let_def selections_normal_def split: if_splits)

lemma TpmBuffer_try_from_Ok: "TpmBuffer_try_from C d = Ok d' \<Longrightarrow> d' = d \<and> length d \<le> C"
  by (auto simp: TpmBuffer_try_from_def TpmBuffer_try_extend_from_slice_def checked_add_def Let_def
      split: if_splits)

lemma TpmBuffer_try_from_not_Panic [simp]: "TpmBuffer_try_from C d \<noteq> Panic"
  by (auto simp: TpmBuffer_try_from_def TpmBuffer_try_extend_from_slice_def Let_def and_then_Panic_iff
      split: if_splits)

lemma parse_pcr_with_digest_normal:
  "parse_pcr_with_digest H ctx s \<noteq> Panic"
  "parse_pcr_with_digest H ctx s = Ok (Some (sels, d)) \<Longrightarrow> selections_normal ctx sels \<and> length d \<le> 64"
  using parse_selections_normal
  by (auto simp: parse_pcr_with_digest_def MAX_DIGEST_SIZE_def dest!: TpmBuffer_try_from_Ok
      split: option.splits result.splits)

lemma expect_not_Panic [simp]: "expect t ts \<noteq> Panic"
  by (cases ts) simp_all

lemma pcr_call_text_not_Panic [simp]: "pcr_call_text ts buf \<noteq> Panic"
  by (induction ts buf rule: pcr_call_text.induct) simp_all

lemma parse_pcr_call_normal:
  "parse_pcr_call H ctx ts \<noteq> Panic"
  "parse_pcr_call H ctx ts = Ok (e, ts') \<Longrightarrow> normal ctx e"
  using parse_selections_normal parse_pcr_with_digest_normal
  by (fastforce simp: parse_pcr_call_def and_then_Panic_iff split: option.splits)+

lemma parse_copy_ref_normal:
  "parse_copy_ref H ts \<noteq> Panic"
  "parse_copy_ref H ts = Ok (Some r, ts') \<Longrightarrow> r \<noteq> [] \<and> length r \<le> 64"
  by (auto simp: parse_copy_ref_def Let_def and_then_Panic_iff MAX_DIGEST_SIZE_def
      dest!: TpmBuffer_try_from_Ok split: list.splits Token.splits if_splits)

lemma parse_literal_normal:
  "parse_literal s \<noteq> Panic" "parse_literal s = Ok e \<Longrightarrow> normal ctx e"
  by (auto simp: parse_literal_def Let_def and_then_Panic_iff TpmHt_try_from_def enum_try_from_def
      split: if_splits option.splits)

lemma combine_normal:
  "\<lbrakk>normal ctx a; normal ctx b\<rbrakk> \<Longrightarrow> normal ctx (combine_and a b)"
  "\<lbrakk>normal ctx a; normal ctx b\<rbrakk> \<Longrightarrow> normal ctx (combine_or a b)"
  by (cases a; auto simp: combine_and_def combine_or_def hd_append)+

abbreviation gives_normal where
  "gives_normal ctx r \<equiv> r \<noteq> Panic \<and> (\<forall>e ts. r = Ok (e, ts) \<longrightarrow> normal ctx e)"

lemma parser_normal:
  "gives_normal ctx (parse_or H ctx ts)"
  "normal ctx node \<Longrightarrow> gives_normal ctx (parse_or_rest H ctx node ts)"
  "gives_normal ctx (parse_and H ctx ts)"
  "normal ctx node \<Longrightarrow> gives_normal ctx (parse_and_rest H ctx node ts)"
  "gives_normal ctx (parse_primary H ctx ts)"
  "gives_normal ctx (parse_secret_call H ctx ts)"
proof (induction H ctx ts and H ctx node ts and H ctx ts and H ctx node ts
    and H ctx ts and H ctx ts rule: parse_induct)
  case (1 H ctx ts)
  show ?case
  proof (cases "parse_and H ctx ts")
    case (Ok p)
    obtain node us where p: "p = (node, us)" by (cases p)
    with 1(1) Ok have "normal ctx node" by blast
    from 1(2) [OF Ok p [symmetric] this] show ?thesis
      by (simp add: parse_or.simps [of H ctx ts] Ok p)
  qed (use 1(1) in \<open>simp_all add: parse_or.simps [of H ctx ts]\<close>)
next
  case (2 H ctx node ts)
  show ?case
  proof (cases "ts \<noteq> [] \<and> hd ts = TokOr")
    case True
    show ?thesis
    proof (cases "parse_and H ctx (tl ts)")
      case (Ok p)
      obtain rhs us where p: "p = (rhs, us)" by (cases p)
      with 2(1) [OF True] Ok 2(3) have "normal ctx (combine_or node rhs)"
        by (intro combine_normal) blast+
      from 2(2) [OF True Ok p [symmetric] this] show ?thesis
        by (simp add: parse_or_rest.simps [of H ctx node ts] True Ok p)
    qed (use 2(1) [OF True] True in \<open>simp_all add: parse_or_rest.simps [of H ctx node ts]\<close>)
  next
    case False
    then have "parse_or_rest H ctx node ts = Ok (node, ts)"
      by (auto simp: parse_or_rest.simps [of H ctx node ts])
    with 2(3) show ?thesis by simp
  qed
next
  case (3 H ctx ts)
  show ?case
  proof (cases "parse_primary H ctx ts")
    case (Ok p)
    obtain node us where p: "p = (node, us)" by (cases p)
    with 3(1) Ok have "normal ctx node" by blast
    from 3(2) [OF Ok p [symmetric] this] show ?thesis
      by (simp add: parse_and.simps [of H ctx ts] Ok p)
  qed (use 3(1) in \<open>simp_all add: parse_and.simps [of H ctx ts]\<close>)
next
  case (4 H ctx node ts)
  show ?case
  proof (cases "ts \<noteq> [] \<and> hd ts = TokAnd")
    case True
    show ?thesis
    proof (cases "parse_primary H ctx (tl ts)")
      case (Ok p)
      obtain rhs us where p: "p = (rhs, us)" by (cases p)
      with 4(1) [OF True] Ok 4(3) have "normal ctx (combine_and node rhs)"
        by (intro combine_normal) blast+
      from 4(2) [OF True Ok p [symmetric] this] show ?thesis
        by (simp add: parse_and_rest.simps [of H ctx node ts] True Ok p)
    qed (use 4(1) [OF True] True in \<open>simp_all add: parse_and_rest.simps [of H ctx node ts]\<close>)
  next
    case False
    then have "parse_and_rest H ctx node ts = Ok (node, ts)"
      by (auto simp: parse_and_rest.simps [of H ctx node ts])
    with 4(3) show ?thesis by simp
  qed
next
  case (5 H ctx ts)
  show ?case
  proof (cases ts)
    case (Cons t us)
    note unfold = parse_primary.simps [of H ctx ts, unfolded Cons list.case]
    show ?thesis
    proof (cases t)
      case TokLParen
      with 5(1) [OF Cons TokLParen] show ?thesis
        unfolding Cons unfold by (auto simp: and_then_Panic_iff split: if_splits)
    next
      case (TokIdent name)
      have "gives_normal ctx (and_then (parse_literal name) (\<lambda>e. Ok (e, us)))"
        using parse_literal_normal [of name] by (auto simp: and_then_Panic_iff)
      moreover have "gives_normal ctx (parse_pcr_call H ctx us)"
        using parse_pcr_call_normal by blast
      ultimately show ?thesis
        using 5(2) [OF Cons TokIdent] unfolding Cons unfold by (simp add: TokIdent)
    qed (simp_all add: Cons parse_primary.simps [of H ctx "_ # _"])
  qed (simp add: parse_primary.simps)
next
  case (6 H ctx ts)
  have sub: "gives_normal ctx (parse_or H ctx us)" if "expect TokLParen ts = Ok us" for us
    using 6 that by blast
  show ?case
  proof (intro conjI allI impI)
    show "parse_secret_call H ctx ts \<noteq> Panic"
      using sub parse_copy_ref_normal(1)
      by (auto simp: parse_secret_call.simps [of H ctx ts] and_then_Panic_iff)
    fix e rest assume "parse_secret_call H ctx ts = Ok (e, rest)"
    then obtain us auth vs cr ws where "expect TokLParen ts = Ok us" "parse_or H ctx us = Ok (auth, vs)"
      "parse_copy_ref H vs = Ok (cr, ws)" "e = SecretExpr auth cr"
      by (auto simp: parse_secret_call.simps [of H ctx ts])
    with sub parse_copy_ref_normal(2) show "normal ctx e" by auto
  qed
qed

lemma parse_not_Panic: "TpmPolicyExpression_parse H s ctx \<noteq> Panic"
  using parser_normal(1) [where ctx = ctx and H = H and ts = "tokenize s"]
  by (auto simp: TpmPolicyExpression_parse_def parse_expression_def and_then_Panic_iff split: if_splits)

lemma parse_Ok_normal: "TpmPolicyExpression_parse H s ctx = Ok e \<Longrightarrow> normal ctx e"
  using parser_normal(1) [where ctx = ctx and H = H and ts = "tokenize s"]
  by (auto simp: TpmPolicyExpression_parse_def parse_expression_def split: if_splits)

lemma parse_display_normal:
  assumes "hex_ok H" "normal ctx e"
  shows "TpmPolicyExpression_parse H (expr_display H e) ctx = Ok e"
proof -
  have "tokenize (expr_display H e) = expr_tokens H e"
    using tokenize_ascii [OF ascii_display [OF assms]] tok_display [OF assms, of "[]"] by simp
  moreover have "parse_or H ctx (expr_tokens H e) = Ok (e, [])"
    using parse_or_primary [OF parse_primary_tokens [OF assms, of "[]"]] by simp
  ultimately show ?thesis
    by (simp add: TpmPolicyExpression_parse_def parse_expression_def)
qed

end
