(* ===== verification/Crypto_Properties.thy ===== *)
theory Crypto_Properties
  imports Hash
begin

text \<open>
  The properties of digests, MACs and key derivation, with a choice of the cryptographic library on which
  they are evaluated.
\<close>

subsection \<open>An instance of the library\<close>

text \<open>A digest of the right size that depends on every byte; the parameters of the model are the
  functions of the cryptographic library, and this is one choice of them.\<close>

definition sum_size :: "TpmHash \<Rightarrow> nat" where
  "sum_size h = (if h = Sha1 then 20 else if h \<in> {Sha384, Sha3_384} then 48
     else if h \<in> {Sha512, Sha3_512, Shake256} then 64 else 32)"

definition sum_digest :: "TpmHash \<Rightarrow> u8 list \<Rightarrow> u8 list" where
  "sum_digest h m = replicate (sum_size h - 1) 0 @ [foldl (\<lambda>a b. 31 * a + b) 7 m]"

definition sum_crypto :: libcrypto where
  "sum_crypto = \<lparr>
     md_size = sum_size,
     md_digest = (\<lambda>h m. Ok (sum_digest h m)),
     pkey_hmac = (\<lambda>_. Ok ()),
     mac_len = (\<lambda>h _. Ok (sum_size h)),
     mac_sign = (\<lambda>h k m _. Ok (sum_digest h (k @ m))),
     memcmp_eq = (\<lambda>a b. if length a = length b then Ok (a = b) else Panic)\<rparr>"

lemma sum_crypto_ok: "libcrypto_ok sum_crypto"
  by (auto simp: libcrypto_ok_def sum_crypto_def sum_size_def sum_digest_def MAX_DIGEST_SIZE_def)

lemma sum_digest_length [simp]: "length (sum_digest h m) = sum_size h"
  by (simp add: sum_digest_def sum_size_def)

lemma sum_size_le [simp]: "sum_size h \<le> 64"
  by (simp add: sum_size_def)

lemma sum_crypto_digest: "TpmHash_digest sum_crypto h chunks = Ok (sum_digest h (concat chunks))"
  by (simp add: TpmHash_digest_eq [OF sum_crypto_ok]) (simp add: sum_crypto_def)

lemma sum_crypto_size [simp]: "md_size sum_crypto h = sum_size h"
  by (simp add: sum_crypto_def)

subsection \<open>Key derivation\<close>

lemma kdfa_block_law:
  assumes L: "libcrypto_ok L"
  shows "kdfa_block L h key label a b bits c \<noteq> Panic"
    "kdfa_block L h key label a b bits c = Ok d \<Longrightarrow> length d = md_size L h"
  using libcrypto_okD(8,9) [OF L] libcrypto_okD(2) [OF L, of h]
  by (auto simp: kdfa_block_def split: prod.splits if_splits)

lemma kdfe_block_law:
  assumes L: "libcrypto_ok L"
  shows "kdfe_block L h z label a b c \<noteq> Panic"
    "kdfe_block L h z label a b c = Ok d \<Longrightarrow> length d = md_size L h"
  using libcrypto_okD(3,4) [OF L]
  by (auto simp: kdfe_block_def split: prod.splits)

lemma ceil_le_self: "0 < (k :: nat) \<Longrightarrow> (n + k - 1) div k \<le> n"
  by (cases k) (simp_all add: div_le_mono less_Suc_eq_le [symmetric] div_less_iff_less_mult)

lemma counter_bound:
  assumes "0 < (k :: nat)" "bits \<le> u32_max"
  shows "1 + ((bits + 7) div 8 + k - 1) div k \<le> u32_max"
proof -
  have "((bits + 7) div 8 + k - 1) div k \<le> (bits + 7) div 8"
    using assms(1) by (rule ceil_le_self)
  also have "\<dots> \<le> (u32_max + 7) div 8"
    using assms(2) by (intro div_le_mono) simp
  finally show ?thesis
    by (simp add: u32_max_def)
qed

text \<open>The number of blocks of \<open>k\<close> bytes for \<open>n\<close> bytes.\<close>

definition block_count :: "nat \<Rightarrow> nat \<Rightarrow> nat" where
  "block_count n k = (n + k - 1) div k"

text \<open>The key stream of a block function, cut to the requested length.\<close>

definition key_stream ::
  "nat \<Rightarrow> (nat \<Rightarrow> (u8 list, TpmCryptoError) result) \<Rightarrow> nat \<Rightarrow> (u8 list, TpmCryptoError) result" where
  "key_stream k block n =
     and_then (blocks block 1 (block_count n k)) (\<lambda>bs. Ok (take n bs))"

lemma kdf_stream:
  assumes "\<And>c b. block c = Ok b \<Longrightarrow> length b = k" "\<And>c. block c \<noteq> Panic" "0 < k" "bits \<le> u32_max"
    and "n = (bits + 7) div 8"
  shows "kdf_loop block n 1 0 (replicate n 0) = Some (key_stream k block n)"
  using kdf_loop_returns [of block k 0 n "replicate n 0" 1, OF assms(1,3,2)] counter_bound [OF assms(3,4)]
  by (simp add: block_count_def key_stream_def assms(5))

lemma blocks_not_Panic: "(\<And>c. block c \<noteq> Panic) \<Longrightarrow> blocks block c n \<noteq> Panic"
  by (induction n arbitrary: c) (auto simp: and_then_Panic_iff)

lemma key_stream_law:
  assumes "\<And>c b. block c = Ok b \<Longrightarrow> length b = k" "\<And>c. block c \<noteq> Panic" "0 < k"
  shows "key_stream k block n \<noteq> Panic \<and> (key_stream k block n = Ok ks \<longrightarrow> length ks = n)"
proof -
  have "n \<le> block_count n k * k"
    using assms(3) dividend_less_div_times [of k "n + k - 1"] by (simp add: block_count_def)
  moreover have "length bs = block_count n k * k" if "blocks block 1 (block_count n k) = Ok bs" for bs
    using blocks_length [OF that] assms(1) by blast
  moreover have "blocks block 1 (block_count n k) \<noteq> Panic"
    by (rule blocks_not_Panic) (rule assms(2))
  ultimately show ?thesis
    by (auto simp: key_stream_def and_then_Panic_iff)
qed

text \<open>C18.  \<open>kdfa\<close> and \<open>kdfe\<close> return: for a length that fits 32 bits the loop ends with exactly the first
  \<open>ceil(bits / 8)\<close> bytes of the key stream, the blocks of the counters from 1 on, or with an error of the
  library; nothing panics.\<close>

theorem kdf_returns_key_stream:
  assumes L: "libcrypto_ok L" and bits: "bits \<le> u32_max" and key: "key \<noteq> []" "pkey_hmac L key = Ok ()"
    and n: "n = (bits + 7) div 8"
  shows "kdfa L h key label a b bits =
      Some (key_stream (md_size L h) (kdfa_block L h key label a b (to_be_bytes 4 bits)) n) \<and>
    kdfe L h z label a b bits = Some (key_stream (md_size L h) (kdfe_block L h z label a b) n) \<and>
    kdfa L h key label a b bits \<noteq> Some Panic \<and> kdfe L h z label a b bits \<noteq> Some Panic \<and>
    (kdfa L h key label a b bits = Some (Ok ks) \<or> kdfe L h z label a b bits = Some (Ok ks) \<longrightarrow>
     length ks = n)"
proof -
  let ?fa = "kdfa_block L h key label a b (to_be_bytes 4 bits)"
  let ?fe = "kdfe_block L h z label a b"
  note size = libcrypto_okD(1) [OF L, of h]
  have fa: "length d = md_size L h" if "?fa c = Ok d" for c d
    using kdfa_block_law(2) [OF L that] .
  have fe: "length d = md_size L h" if "?fe c = Ok d" for c d
    using kdfe_block_law(2) [OF L that] .
  have la: "?fa c \<noteq> Panic" and le: "?fe c \<noteq> Panic" for c
    using kdfa_block_law(1) [OF L] kdfe_block_law(1) [OF L] by blast+
  have cut: "and_then (key_stream (md_size L h) f n) (\<lambda>ks. Ok (take n ks)) = key_stream (md_size L h) f n" for f
    by (cases "blocks f 1 (block_count n (md_size L h))") (simp_all add: key_stream_def)
  have "kdfa L h key label a b bits = Some (key_stream (md_size L h) ?fa n)"
    using kdf_stream [of ?fa, OF fa la size bits n] bits key n cut [of ?fa]
    by (simp add: kdfa_def kdfa_into_def checked_kdf_key_bits_def check_output_len_def and_then_assoc)
  moreover have "kdfe L h z label a b bits = Some (key_stream (md_size L h) ?fe n)"
    using kdf_stream [of ?fe, OF fe le size bits n] bits n cut [of ?fe]
    by (simp add: kdfe_def kdfe_into_def checked_kdf_key_bits_def check_output_len_def and_then_assoc)
  ultimately show ?thesis
    using key_stream_law [where block = ?fa and n = n and ks = ks, OF fa la size] key_stream_law [where block = ?fe and n = n and ks = ks, OF fe le size]
    by auto
qed

theorem kdf_returns_key_stream_witness:
  "kdfa sum_crypto Sha256 [1] [2] [] [] 257 =
     Some (key_stream 32 (kdfa_block sum_crypto Sha256 [1] [2] [] [] (to_be_bytes 4 257)) 33)"
proof -
  have "pkey_hmac sum_crypto [1] = Ok ()" and "sum_size Sha256 = 32"
    by (simp_all add: sum_crypto_def sum_size_def)
  with kdf_returns_key_stream [OF sum_crypto_ok, of 257 "[1]" 33 Sha256 "[2]" "[]" "[]"] show ?thesis
    by (simp add: u32_max_def)
qed

text \<open>\<open>hmac_verify\<close> accepts a signature of the digest's length exactly when it is the HMAC of the data and
  reports \<open>MacMismatch\<close> otherwise; a signature of any other length is not a mismatch but a panic, the
  precondition of \<open>memcmp::eq\<close>.\<close>

theorem hmac_verify_exact:
  assumes L: "libcrypto_ok L" and mac: "hmac L h key chunks = Ok mac"
  shows "hmac_verify L h key chunks sig =
    (if length sig \<noteq> md_size L h then Panic
     else if sig = mac then Ok () else Err Crypto_MacMismatch)"
  using hmac_length [OF L mac] by (auto simp: hmac_verify_def mac libcrypto_okD(10) [OF L])

theorem hmac_verify_exact_witness: "hmac_verify sum_crypto Sha256 [1] [] [] = Panic"
proof -
  have "hmac sum_crypto Sha256 [1] [] = Ok (sum_digest Sha256 [1])"
    by (simp add: hmac_def hmac_into_def sum_crypto_def check_output_len_def copy_at_def)
  from hmac_verify_exact [OF sum_crypto_ok this, of "[]"] show ?thesis
    by (simp add: sum_size_def)
qed

end
