(* ===== verification/Policy_Properties.thy ===== *)
theory Policy_Properties
  imports Policy_Tpm Policy_Text Crypto_Properties
begin

text \<open>
  The properties of the policy compiler, with an expression on which they are evaluated.
\<close>

subsection \<open>An instance\<close>

definition empty_context :: TpmPolicyContext where
  "empty_context = \<lparr>ctx_names = [], ctx_pcrs = [], ctx_pcr_count = 0\<rparr>"

definition owner_secret :: TpmPolicyExpression where
  "owner_secret = SecretExpr (HandleExpr 0x40000001) None"

definition owner_or_endorsement :: TpmPolicyExpression where
  "owner_or_endorsement =
     OrExpr [owner_secret, SecretExpr (HandleExpr 0x4000000B) (Some [1, 2])]"

lemma digest_try_from_le: "length d \<le> 64 \<Longrightarrow> digest_try_from d = Ok d"
  by (simp add: digest_try_from_Ok_iff)

lemma sum_crypto_session:
  "session_extend sum_crypto chunks s =
     Ok (s\<lparr>ses_digest := sum_digest (ses_hash_alg s) (concat chunks)\<rparr>)"
  "policy_secret sum_crypto name ref s = Ok (s\<lparr>ses_digest := sum_digest (ses_hash_alg s)
     (sum_digest (ses_hash_alg s) (ses_digest s @ cc_bytes Cc_PolicySecret @ name) @ ref)\<rparr>)"
  "ses_digest_size s \<le> 64 \<Longrightarrow> policy_or sum_crypto ds s = Ok (s\<lparr>ses_digest := sum_digest (ses_hash_alg s)
     (replicate (ses_digest_size s) 0 @ cc_bytes Cc_PolicyOr @ concat ds)\<rparr>)"
  by (simp_all add: session_extend_def policy_secret_def policy_or_def sum_crypto_digest digest_try_from_le)

lemma owner_names:
  "secret_name empty_context 0x40000001 = Ok [0x40, 0, 0, 1]"
  "secret_name empty_context 0x4000000B = Ok [0x40, 0, 0, 0x0B]"
  by (simp_all add: secret_name_def Let_def u32_type_def TpmHt_try_from_def TpmRh_try_from_def
      enum_try_from_def TpmHt_variants_def TpmRh_variants_def TpmBuffer_try_from_eq MAX_DIGEST_SIZE_def
      u16_max_def be_bytes)

lemma owner_or_endorsement_compiles:
  "\<exists>p. compile_policy sum_crypto owner_or_endorsement Alg_Sha256 empty_context = Ok p"
  by (simp add: compile_policy_def TpmPolicySession_new_def TpmHash_try_from_def owner_or_endorsement_def
      owner_secret_def compile_walk_secret_def owner_names policy_restart_def sum_crypto_session
      digest_try_from_le TpmList_try_push_def Let_def del: and_then_Ok_iff)

lemma forgetful_compiles:
  "\<exists>p. compile_policy sum_crypto (AndExpr ([owner_secret] @ [owner_or_endorsement])) Alg_Sha256
     empty_context = Ok p"
  by (simp add: compile_policy_def TpmPolicySession_new_def TpmHash_try_from_def owner_or_endorsement_def
      owner_secret_def compile_walk_secret_def owner_names policy_restart_def sum_crypto_session
      digest_try_from_le TpmList_try_push_def Let_def del: and_then_Ok_iff)

lemma owner_or_endorsement_shape: "ors_proper owner_or_endorsement" "expr_typed owner_or_endorsement"
  by (simp_all add: owner_or_endorsement_def owner_secret_def)

lemma owner_or_endorsement_pcrs: "pcrs_hold T owner_or_endorsement"
  by (simp add: owner_or_endorsement_def owner_secret_def)

lemma owner_or_endorsement_canon: "canon L ctx h owner_or_endorsement = [owner_or_endorsement]"
  by (simp add: owner_or_endorsement_def owner_secret_def build_and_branch_def)

text \<open>The size check of the banks follows the iteration order of a hash map: an empty bank is accepted
  before a bank of another size and refused after it.\<close>

lemma bank_check_depends_on_order:
  "TpmPolicyContext_new [] [(Alg_Sha1, []), (Alg_Sha256, [(0, d)])] =
     Ok \<lparr>ctx_names = [], ctx_pcrs = [(Alg_Sha1, []), (Alg_Sha256, [(0, d)])], ctx_pcr_count = 1\<rparr> \<and>
   TpmPolicyContext_new [] [(Alg_Sha256, [(0, d)]), (Alg_Sha1, [])] = Err Policy_PcrCountMismatch"
  by (simp add: TpmPolicyContext_new_def)

subsection \<open>Properties of the compiler\<close>

text \<open>C13.  What \<open>compile\<close> emits is a policy the TPM accepts, with the digest it announces.  The TPM is that of
  \<open>Policy_Tpm\<close>, which computes the policy digest from the command codes, names, selections and registers by
  itself: a trial session executes the command list without an error and ends in \<open>digest\<close>; a policy session
  does so exactly when every PCR digest the expression gives, in whichever branch, is that of the registers.
  In particular the check of \<open>TPM2_PolicyOR\<close> that the current digest is one of the alternatives succeeds.\<close>

theorem compiled_policy_satisfies_tpm:
  assumes "compile_policy L e alg ctx = Ok p" "ors_proper e"
    and "TpmHash_try_from alg = Ok h" "tpm_agrees T L h ctx"
  shows "pt_run T True (pt_zero T) (map fst (cp_commands p)) = Some (cp_digest p) \<and>
    pt_run T False (pt_zero T) (map fst (cp_commands p)) = (if pcrs_hold T e then Some (cp_digest p) else None)"
  using assms(1)
proof (rule compile_policy_cases)
  fix h' s s' assume "TpmHash_try_from alg = Ok h'" and s: "session_ok L h' s" "ses_digest s = zero_digest L h'"
    and w: "compile_walk L ctx e ([], s) = Ok (cp_commands p, s')" and d: "ses_digest s' = cp_digest p"
  with assms(3) have "h' = h" by simp
  with s have s: "session_ok L h s" "ses_digest s = pt_zero T"
    using assms(4) by (simp_all add: pt_zero_def tpm_agrees_def)
  have "runs T (pcrs_hold T e) ([], s) (cp_commands p, s')"
    using compile_walk_runs(1) [OF w _ assms(2,4)] s(1) by simp
  then show ?thesis
    by (simp add: runs_def s(2) d)
qed

text \<open>A TPM with a checksum for its hash function, and a policy that asks for a wrong value of its register 0.\<close>

definition sum_tpm :: policy_tpm where
  "sum_tpm = \<lparr>pt_hash = sum_digest Sha256, pt_digest_size = 32, pt_object_name = (\<lambda>_. []),
     pt_pcr = (\<lambda>_ i. replicate 32 (word_of_nat i))\<rparr>"

definition wrong_register :: TpmPolicyExpression where
  "wrong_register = AndExpr [owner_or_endorsement, PcrExpr [(Alg_Sha256, [1])] (Some (replicate 32 1))]"

lemma sum_tpm_agrees: "tpm_agrees sum_tpm sum_crypto Sha256 empty_context"
  by (simp add: tpm_agrees_def sum_tpm_def sum_crypto_def sum_size_def empty_context_def)

lemma wrong_register_compiles: "\<exists>p. compile_policy sum_crypto wrong_register Alg_Sha256 empty_context = Ok p"
proof -
  have "length (selection_bytes [(Alg_Sha256, [1])]) = 8"
    by (simp add: selection_bytes_def)
  then have "marshal_into (marshal TpmlPcrSelection (pcrs_val [(Alg_Sha256, [1])])) (SIZE TpmlPcrSelection) =
      Ok (selection_bytes [(Alg_Sha256, [1])])"
    by (intro marshal_into_emits [OF emits_selections]) (simp_all add: u32_max_def usize_max_def)
  then show ?thesis
    by (simp add: compile_policy_def TpmPolicySession_new_def TpmHash_try_from_def wrong_register_def
        owner_or_endorsement_def owner_secret_def compile_walk_secret_def owner_names policy_restart_def
        sum_crypto_session digest_try_from_le TpmList_try_push_def Let_def compile_walk_pcr_def
        selected_digest_def policy_pcr_def sum_size_def del: and_then_Ok_iff)
qed

lemma wrong_register_shape: "ors_proper wrong_register" "\<not> pcrs_hold sum_tpm wrong_register"
  by (simp_all add: wrong_register_def owner_or_endorsement_shape owner_or_endorsement_pcrs)
    (auto simp: sum_tpm_def pt_pcr_digest_def sum_digest_def sum_size_def dest: arg_cong [where f = hd])

theorem compiled_policy_satisfies_tpm_witness:
  "\<exists>p q. compile_policy sum_crypto owner_or_endorsement Alg_Sha256 empty_context = Ok p \<and>
     pt_run sum_tpm False (pt_zero sum_tpm) (map fst (cp_commands p)) = Some (cp_digest p) \<and>
     compile_policy sum_crypto wrong_register Alg_Sha256 empty_context = Ok q \<and>
     pt_run sum_tpm True (pt_zero sum_tpm) (map fst (cp_commands q)) = Some (cp_digest q) \<and>
     pt_run sum_tpm False (pt_zero sum_tpm) (map fst (cp_commands q)) = None"
proof -
  have h: "TpmHash_try_from Alg_Sha256 = Ok Sha256" by (simp add: TpmHash_try_from_def)
  obtain p q where p: "compile_policy sum_crypto owner_or_endorsement Alg_Sha256 empty_context = Ok p"
    and q: "compile_policy sum_crypto wrong_register Alg_Sha256 empty_context = Ok q"
    using owner_or_endorsement_compiles wrong_register_compiles by blast
  from compiled_policy_satisfies_tpm [OF p owner_or_endorsement_shape(1) h sum_tpm_agrees]
    compiled_policy_satisfies_tpm [OF q wrong_register_shape(1) h sum_tpm_agrees]
  show ?thesis
    using p q wrong_register_shape(2) by (simp add: owner_or_endorsement_pcrs)
qed

text \<open>The digest \<open>compile\<close> announces is the policy value of the expression: the PCR, secret and OR
  digests of the specification folded over the expression from an all-zero digest, whatever the command
  list.\<close>

theorem compiled_digest_is_policy_value:
  assumes "compile_policy L e alg ctx = Ok p"
  shows "\<exists>h. TpmHash_try_from alg = Ok h \<and>
    policy_value L ctx h e (replicate (md_size L h) 0) = Ok (cp_digest p)"
  using assms by (rule compile_policy_cases) blast

theorem compiled_digest_is_policy_value_witness:
  "\<exists>p. compile_policy sum_crypto owner_or_endorsement Alg_Sha256 empty_context = Ok p \<and>
     policy_value sum_crypto empty_context Sha256 owner_or_endorsement (replicate 32 0) = Ok (cp_digest p)"
proof -
  obtain p where p: "compile_policy sum_crypto owner_or_endorsement Alg_Sha256 empty_context = Ok p"
    using owner_or_endorsement_compiles ..
  from compiled_digest_is_policy_value [OF p] show ?thesis
    using p by (auto simp: TpmHash_try_from_def sum_size_def)
qed

text \<open>The commands of a compiled policy are well typed: each has an entry of the dispatch table for its
  code, whose frame its handles and parameters fill.\<close>

theorem compiled_commands_typed:
  assumes "compile_policy L e alg ctx = Ok p" "expr_typed e" "(c, auths) \<in> set (cp_commands p)"
  shows "\<exists>v cmd resp. (v, cmd, resp) \<in> set dispatch_rows \<and> f_CC cmd = TpmCommandValue_cc c \<and>
    body_valid cmd (TpmCommandValue_body c)"
  using assms(1)
proof (rule compile_policy_cases)
  fix h s s' assume "TpmPolicySession_new L alg = Ok s"
    and w: "compile_walk L ctx e ([], s) = Ok (cp_commands p, s')"
  then have "compiler_typed ([], s)"
    by (auto simp: compiler_typed_def TpmPolicySession_new_def digest_try_from_Ok_iff)
  from compile_walk_typed(1) [OF w this assms(2)] assms(3) have "command_typed c"
    by (auto simp: compiler_typed_def list_all_iff)
  then show ?thesis
    by (simp only: command_typed_def)
qed

theorem compiled_commands_typed_witness:
  "\<exists>p. compile_policy sum_crypto owner_or_endorsement Alg_Sha256 empty_context = Ok p \<and>
     (\<forall>(c, auths) \<in> set (cp_commands p). \<exists>v cmd resp. (v, cmd, resp) \<in> set dispatch_rows \<and>
        f_CC cmd = TpmCommandValue_cc c \<and> body_valid cmd (TpmCommandValue_body c))"
  using owner_or_endorsement_compiles compiled_commands_typed [OF _ owner_or_endorsement_shape(2)]
  by blast

text \<open>C14.  \<open>from_commands\<close> inverts \<open>compile\<close> up to the canonical form of the expression, in which nested
  conjunctions are flat, PCR digests are filled in and an empty \<open>copy_ref\<close> is absent.\<close>

theorem from_commands_inverts_compile:
  assumes "compile_policy L e alg ctx = Ok p" "TpmHash_try_from alg = Ok h"
  shows "from_commands (map fst (cp_commands p)) = Ok (build_and_branch (canon L ctx h e))"
  using assms(1)
proof (rule compile_policy_cases)
  fix h' s s' assume "TpmHash_try_from alg = Ok h'"
    and a: "adds ([], s) (cp_commands p, s') (canon L ctx h' e)"
  with assms(2) have "h' = h" by simp
  with a show ?thesis
    by (auto simp: adds_def from_commands_def)
qed

theorem from_commands_inverts_compile_witness:
  "\<exists>p. compile_policy sum_crypto owner_or_endorsement Alg_Sha256 empty_context = Ok p \<and>
     from_commands (map fst (cp_commands p)) = Ok owner_or_endorsement"
proof -
  obtain p where p: "compile_policy sum_crypto owner_or_endorsement Alg_Sha256 empty_context = Ok p"
    using owner_or_endorsement_compiles ..
  from from_commands_inverts_compile [OF p, of Sha256] show ?thesis
    using p by (simp add: TpmHash_try_from_def owner_or_endorsement_canon) (simp add: build_and_branch_def)
qed

text \<open>Nothing of the policy is lost on the way through its commands: the expression that
  \<open>from_commands\<close> reads from a compiled policy compiles to the same commands and the same digest.\<close>

theorem recompiled_policy_equal:
  assumes "compile_policy L e alg ctx = Ok p" "from_commands (map fst (cp_commands p)) = Ok e'"
  shows "compile_policy L e' alg ctx = Ok p"
  using assms(1)
proof (rule compile_policy_cases)
  fix h s s' assume s: "TpmPolicySession_new L alg = Ok s" "session_ok L h s"
    and w: "compile_walk L ctx e ([], s) = Ok (cp_commands p, s')" and d: "ses_digest s' = cp_digest p"
    and a: "adds ([], s) (cp_commands p, s') (canon L ctx h e)"
  from a assms(2) have e': "e' = build_and_branch (canon L ctx h e)"
    by (auto simp: adds_def from_commands_def)
  have "compile_walk L ctx e' ([], s) = Ok (cp_commands p, s')"
    using w compile_walk_canon(1) [of L h "([], s)" ctx e] s(2)
    by (simp add: e' compile_walk_build_and_branch)
  then show ?thesis
    using s(1) d by (simp add: compile_policy_def)
qed

theorem recompiled_policy_equal_witness:
  "\<exists>p. compile_policy sum_crypto (AndExpr [owner_or_endorsement]) Alg_Sha256 empty_context = Ok p \<and>
     compile_policy sum_crypto owner_or_endorsement Alg_Sha256 empty_context = Ok p"
proof -
  obtain p where p: "compile_policy sum_crypto (AndExpr [owner_or_endorsement]) Alg_Sha256 empty_context = Ok p"
    using owner_or_endorsement_compiles by (auto simp: compile_policy_def)
  then obtain h s s' where "adds ([], s)
      (cp_commands p, s') (canon sum_crypto empty_context h (AndExpr [owner_or_endorsement]))"
    by (rule compile_policy_cases)
  then have "from_commands (map fst (cp_commands p)) = Ok owner_or_endorsement"
    by (auto simp: adds_def from_commands_def owner_or_endorsement_canon build_and_branch_def)
  from recompiled_policy_equal [OF p this] show ?thesis
    using p by blast
qed

text \<open>C15.  A disjunction drops every factor that a conjunction lists before it: \<open>compile\<close> restarts the session
  for each branch, so a policy that ends in a disjunction has the digest of the disjunction alone, and
  the commands of the disjunction alone satisfy it.\<close>

theorem or_drops_earlier_factors:
  assumes "compile_policy L (AndExpr (es @ [OrExpr bs])) alg ctx = Ok p"
  shows "\<exists>q. compile_policy L (OrExpr bs) alg ctx = Ok q \<and> cp_digest q = cp_digest p \<and>
    (\<exists>pre. cp_commands p = pre @ cp_commands q)"
  using assms
proof (rule compile_policy_cases)
  fix h s s' assume s: "TpmPolicySession_new L alg = Ok s" "session_ok L h s"
    and "compile_walk L ctx (AndExpr (es @ [OrExpr bs])) ([], s) = Ok (cp_commands p, s')"
    and d: "ses_digest s' = cp_digest p"
  then obtain pre s1 where pre: "compile_walk_all L ctx es ([], s) = Ok (pre, s1)"
    and last: "compile_walk L ctx (OrExpr bs) (pre, s1) = Ok (cp_commands p, s')"
    by (auto simp: compile_walk_all_append simp del: compile_walk.simps(2))
  have "session_ok L h s1"
    using compile_walk_adds(2) [OF pre, of h] s(2) by simp
  from compile_walk_or_fresh [OF last this s(2)] s(1) d show ?thesis
    by (auto simp: compile_policy_def simp del: compile_walk.simps)
qed

theorem or_drops_earlier_factors_witness:
  "\<exists>p q. compile_policy sum_crypto (AndExpr [owner_secret, owner_or_endorsement]) Alg_Sha256 empty_context = Ok p \<and>
     compile_policy sum_crypto owner_or_endorsement Alg_Sha256 empty_context = Ok q \<and>
     cp_digest p = cp_digest q"
proof -
  obtain p where p: "compile_policy sum_crypto (AndExpr ([owner_secret] @ [owner_or_endorsement]))
      Alg_Sha256 empty_context = Ok p"
    using forgetful_compiles ..
  from or_drops_earlier_factors [OF p [unfolded owner_or_endorsement_def], folded owner_or_endorsement_def] p
  show ?thesis
    by fastforce
qed

subsection \<open>Properties of the parser\<close>

text \<open>The digits of \<open>hex\<close>, written out for the witnesses.\<close>

definition nibble :: "nat \<Rightarrow> nat option" where
  "nibble n = (if n < 16 then Some n else None)"

fun read_pairs :: "string \<Rightarrow> u8 list option" where
  "read_pairs [] = Some []"
| "read_pairs [_] = None"
| "read_pairs (a # b # s) =
     (case (to_digit 16 a, to_digit 16 b) of
        (Some x, Some y) \<Rightarrow> map_option ((#) (word_of_nat (x * 16 + y))) (read_pairs s)
      | _ \<Rightarrow> None)"

definition hex_pairs :: hex_lib where
  "hex_pairs = \<lparr>
     hex_encode = (\<lambda>b. concat (map (\<lambda>x. [digit_char (unat x div 16), digit_char (unat x mod 16)]) b)),
     hex_decode = read_pairs\<rparr>"

lemma hex_pairs_ok: "hex_ok hex_pairs"
  unfolding hex_ok_def
proof (intro allI conjI)
  fix b :: "u8 list"
  have x: "unat (x :: u8) div 16 < 16" for x
    using unat_byte_less [of x] by simp
  show "hex_decode hex_pairs (hex_encode hex_pairs b) = Some b"
    using x by (induction b) (simp_all add: hex_pairs_def to_digit_digit_char)
  show "set (hex_encode hex_pairs b) \<subseteq> digit_char ` {..<16}"
    using x by (auto simp: hex_pairs_def)
qed

lemma owner_or_endorsement_normal: "normal empty_context owner_or_endorsement"
  by (simp add: owner_or_endorsement_def owner_secret_def TpmHt_try_from_def enum_try_from_def
      TpmHt_variants_def u32_type_def)

text \<open>C16.  Parsing any text returns: the parser never panics, and an expression it returns is well formed: every
  selection names a bank of the context and at least one PCR below the context's count, in the context's
  size, there are one to eight selections, buffers fit, operators have two operands or more, and handles
  have a valid type.\<close>

theorem parse_total_and_normal:
  "TpmPolicyExpression_parse H s ctx \<noteq> Panic \<and>
   (TpmPolicyExpression_parse H s ctx = Ok e \<longrightarrow> normal ctx e)"
  using parse_not_Panic parse_Ok_normal by blast

theorem parse_total_and_normal_witness:
  "\<exists>e. TpmPolicyExpression_parse hex_pairs (expr_display hex_pairs owner_or_endorsement) empty_context = Ok e \<and>
     normal empty_context e"
  using parse_display_normal [OF hex_pairs_ok owner_or_endorsement_normal]
    parse_total_and_normal [of hex_pairs _ empty_context] by blast

text \<open>C17.  Printing loses nothing: for every well formed expression, and so for everything the parser returns,
  the printed text parses back to the same expression.\<close>

theorem parse_display_roundtrip:
  assumes "hex_ok H" "normal ctx e \<or> TpmPolicyExpression_parse H s ctx = Ok e"
  shows "TpmPolicyExpression_parse H (expr_display H e) ctx = Ok e"
  using parse_display_normal [OF assms(1)] parse_Ok_normal assms(2) by blast

theorem parse_display_roundtrip_witness:
  "TpmPolicyExpression_parse hex_pairs (expr_display hex_pairs owner_or_endorsement) empty_context =
     Ok owner_or_endorsement"
  using parse_display_roundtrip [OF hex_pairs_ok] owner_or_endorsement_normal by blast

end
