(* ===== verification/Vtpm_Policy.thy ===== *)
theory Vtpm_Policy
  imports Policy_Compile Wire_Types
begin

text \<open>
  The policy commands of a cached key: \<open>vtpm/src/policy.rs\<close> and the error type of \<open>vtpm/src/lib.rs\<close>.  The
  trait objects of the code are the three structs that implement the trait.  A typed command is its code
  with the body of its frame.
\<close>

subsection \<open>Errors\<close>

type_synonym IoError = string

datatype VtpmError =
    Vtpm_HandleNotFound u32
  | Vtpm_InvalidHandleType u8
  | Vtpm_NoHandles
  | Vtpm_InvalidCc TpmCc
  | Vtpm_InvalidPolicy
  | Vtpm_Io IoError
  | Vtpm_Marshal TpmError
  | Vtpm_OperationFailed
  | Vtpm_ParentNotFound
  | Vtpm_StaleHandle
  | Vtpm_Unmarshal TpmError
  | Vtpm_UnexpectedEnd
  | Vtpm_RecordTooLarge nat
  | Vtpm_TooManyPolicies nat

type_synonym 'a VtpmResult = "('a, VtpmError) result"

primrec VtpmError_display :: "VtpmError \<Rightarrow> string" where
  "VtpmError_display (Vtpm_HandleNotFound _) = ''handle not found''"
| "VtpmError_display (Vtpm_InvalidHandleType _) = ''invalid handle type''"
| "VtpmError_display Vtpm_NoHandles = ''no handles''"
| "VtpmError_display (Vtpm_InvalidCc _) = ''invalid cc''"
| "VtpmError_display Vtpm_InvalidPolicy = ''invalid policy''"
| "VtpmError_display (Vtpm_Io _) = ''io''"
| "VtpmError_display (Vtpm_Marshal _) = ''marshal''"
| "VtpmError_display Vtpm_OperationFailed = ''operation failed''"
| "VtpmError_display Vtpm_ParentNotFound = ''parent not found''"
| "VtpmError_display Vtpm_StaleHandle = ''stale handle''"
| "VtpmError_display (Vtpm_Unmarshal _) = ''unmarshal''"
| "VtpmError_display Vtpm_UnexpectedEnd = ''unexpected end''"
| "VtpmError_display (Vtpm_RecordTooLarge _) = ''record too large''"
| "VtpmError_display (Vtpm_TooManyPolicies _) = ''too many policies''"

subsection \<open>Commands\<close>

datatype VtpmPolicyCommand =
    VtpmPolicyDefaultCommand TpmCc "u8 list"
  | VtpmPolicyAuthorizeCommand val val val
  | VtpmPolicySecretCommand val val val

definition authorize_fields :: fields where
  "authorize_fields =
     [(''key_sign'', Tpm2bPublic), (''policy_ref'', Tpm2bDigest), (''policy_signature'', TpmtSignature)]"

definition secret_fields :: fields where
  "secret_fields =
     [(''object_handle_hint'', TpmHandle), (''object_name'', Tpm2bName), (''policy_ref'', Tpm2bDigest)]"

text \<open>The chains of \<open>T::unmarshal(rest)?\<close>, whose errors are not rebased.\<close>

fun unmarshal_parts :: "fields \<Rightarrow> u8 list \<Rightarrow> (val list \<times> u8 list) TpmResult" where
  "unmarshal_parts [] buf = Ok ([], buf)"
| "unmarshal_parts ((_, c) # fs) buf =
     and_then (unmarshal c buf) (\<lambda>(v, rest).
     and_then (unmarshal_parts fs rest) (\<lambda>(vs, t). Ok (v # vs, t)))"

definition VtpmPolicyAuthorizeCommand_unmarshal ::
  "u8 list \<Rightarrow> (VtpmPolicyCommand \<times> u8 list) TpmResult" where
  "VtpmPolicyAuthorizeCommand_unmarshal buf =
     and_then (unmarshal_parts authorize_fields buf) (\<lambda>(vs, r).
       case vs of [k, p, s] \<Rightarrow> Ok (VtpmPolicyAuthorizeCommand k p s, r) | _ \<Rightarrow> Panic)"

definition VtpmPolicySecretCommand_unmarshal ::
  "u8 list \<Rightarrow> (VtpmPolicyCommand \<times> u8 list) TpmResult" where
  "VtpmPolicySecretCommand_unmarshal buf =
     and_then (unmarshal_parts secret_fields buf) (\<lambda>(vs, r).
       case vs of [h, n, p] \<Rightarrow> Ok (VtpmPolicySecretCommand h n p, r) | _ \<Rightarrow> Panic)"

primrec policy_cc :: "VtpmPolicyCommand \<Rightarrow> TpmCc" where
  "policy_cc (VtpmPolicyDefaultCommand cc _) = cc"
| "policy_cc (VtpmPolicyAuthorizeCommand _ _ _) = Cc_PolicyAuthorize"
| "policy_cc (VtpmPolicySecretCommand _ _ _) = Cc_PolicySecret"

text \<open>A failed \<open>marshal\<close> is an empty body.\<close>

definition marshalled_body :: "wr \<Rightarrow> u8 list" where
  "marshalled_body m = (case marshal_into m TPM_MAX_COMMAND_SIZE of Ok b \<Rightarrow> b | _ \<Rightarrow> [])"

primrec policy_body :: "VtpmPolicyCommand \<Rightarrow> u8 list" where
  "policy_body (VtpmPolicyDefaultCommand _ body) = body"
| "policy_body (VtpmPolicyAuthorizeCommand k p s) = marshalled_body (fields_marshal authorize_fields [k, p, s])"
| "policy_body (VtpmPolicySecretCommand h n p) = marshalled_body (fields_marshal secret_fields [h, n, p])"

primrec policy_len :: "VtpmPolicyCommand \<Rightarrow> nat" where
  "policy_len (VtpmPolicyDefaultCommand _ body) = SIZE TpmCc_codec + SIZE TpmUint32 + length body"
| "policy_len (VtpmPolicyAuthorizeCommand k p s) =
     SIZE TpmCc_codec + SIZE TpmUint32 + fields_len authorize_fields [k, p, s]"
| "policy_len (VtpmPolicySecretCommand h n p) =
     SIZE TpmCc_codec + SIZE TpmUint32 + fields_len secret_fields [h, n, p]"

text \<open>Equality of boxed commands.\<close>

definition policy_eq :: "VtpmPolicyCommand \<Rightarrow> VtpmPolicyCommand \<Rightarrow> bool" where
  "policy_eq a b \<longleftrightarrow> policy_cc a = policy_cc b \<and> policy_body a = policy_body b"

definition empty_ccs :: "TpmCc list" where
  "empty_ccs = [Cc_PolicyAuthValue, Cc_PolicyPassword, Cc_PolicyGetDigest, Cc_PolicyRestart,
     Cc_PolicyPhysicalPresence]"

text \<open>The parameters that the default command decodes from its body, by command code.\<close>

definition policy_table :: "(TpmCc \<times> fields) list" where
  "policy_table = [
     (Cc_PolicyPcr, [(''pcr_digest'', Tpm2bDigest), (''pcrs'', TpmlPcrSelection)]),
     (Cc_PolicyOr, [(''p_hash_list'', TpmlDigest)]),
     (Cc_PolicyCommandCode, [(''code'', TpmCc_codec)]),
     (Cc_PolicyCpHash, [(''cp_hash_a'', Tpm2bDigest)]),
     (Cc_PolicyNameHash, [(''name_hash'', Tpm2bDigest)]),
     (Cc_PolicyTemplate, [(''template_hash'', Tpm2bDigest)]),
     (Cc_PolicyNvWritten, [(''written_set'', TpmiYesNo)]),
     (Cc_PolicyCounterTimer,
       [(''operand_b'', Tpm2bMaxBuffer), (''offset'', TpmUint16), (''operation'', TpmEo_codec)])]"

definition policy_parameters :: "TpmCc \<Rightarrow> fields option" where
  "policy_parameters = map_of policy_table"

definition vtpm_policy_command_from_parts :: "TpmCc \<Rightarrow> u8 list \<Rightarrow> VtpmPolicyCommand VtpmResult" where
  "vtpm_policy_command_from_parts cc body =
     (if cc \<in> set empty_ccs then
        if body \<noteq> [] then Err Vtpm_InvalidPolicy else Ok (VtpmPolicyDefaultCommand cc body)
      else if cc = Cc_PolicyAuthorize then
        and_then (map_err Vtpm_Unmarshal (VtpmPolicyAuthorizeCommand_unmarshal body)) (\<lambda>(command, remainder).
          if remainder \<noteq> [] then Err Vtpm_InvalidPolicy else Ok command)
      else if cc = Cc_PolicySecret then
        and_then (map_err Vtpm_Unmarshal (VtpmPolicySecretCommand_unmarshal body)) (\<lambda>(command, remainder).
          if remainder \<noteq> [] then Err Vtpm_InvalidPolicy else Ok command)
      else case policy_parameters cc of
        Some fs \<Rightarrow>
          and_then (map_err Vtpm_Unmarshal (unmarshal_parts fs body)) (\<lambda>(_, rest).
            if rest \<noteq> [] then Err Vtpm_InvalidPolicy else Ok (VtpmPolicyDefaultCommand cc body))
      | None \<Rightarrow> Err (Vtpm_InvalidCc cc))"

definition ZERO_HANDLE :: val where
  "ZERO_HANDLE = handle_val 0"

definition to_command :: "VtpmPolicyCommand \<Rightarrow> (TpmCc \<times> frame_body) VtpmResult" where
  "to_command command = (case command of
       VtpmPolicyDefaultCommand cc body \<Rightarrow>
         if cc \<in> set empty_ccs then Ok (cc, \<lparr>b_handles = [ZERO_HANDLE], b_params = []\<rparr>)
         else (case policy_parameters cc of
           Some fs \<Rightarrow>
             and_then (map_err Vtpm_Unmarshal (unmarshal_parts fs body)) (\<lambda>(vs, rest).
               if rest \<noteq> [] then Err Vtpm_InvalidPolicy
               else Ok (cc, \<lparr>b_handles = [ZERO_HANDLE], b_params = vs\<rparr>))
         | None \<Rightarrow> Err (Vtpm_InvalidCc cc))
     | VtpmPolicyAuthorizeCommand _ _ _ \<Rightarrow> Err Vtpm_InvalidPolicy
     | VtpmPolicySecretCommand h _ p \<Rightarrow>
         Ok (Cc_PolicySecret, \<lparr>b_handles = [h, ZERO_HANDLE],
               b_params = [VBuffer [], VBuffer [], p, int_new 4 0]\<rparr>))"

subsection \<open>From a command frame\<close>

definition vtpm_marshal_command_parameters :: "u8 list \<Rightarrow> u8 list VtpmResult" where
  "vtpm_marshal_command_parameters command = map_err Vtpm_Unmarshal (TpmCommand_parameters command)"

definition vtpm_policy_secret_from_command :: "u8 list \<Rightarrow> val \<Rightarrow> VtpmPolicyCommand VtpmResult" where
  "vtpm_policy_secret_from_command command object_name =
     and_then (map_err Vtpm_Unmarshal (TpmCommand_unmarshal TpmPolicySecretCommand command)) (\<lambda>inner.
       case (b_handles inner, b_params inner) of
         ([object_handle_hint, _], [_, _, policy_ref, _]) \<Rightarrow>
           Ok (VtpmPolicySecretCommand object_handle_hint object_name policy_ref)
       | _ \<Rightarrow> Panic)"

definition vtpm_policy_command_from :: "u8 list \<Rightarrow> val \<Rightarrow> VtpmPolicyCommand VtpmResult" where
  "vtpm_policy_command_from cmd object_name =
     and_then (map_err Vtpm_Unmarshal (TpmCommandView_cast cmd)) (\<lambda>(view, f).
     and_then (map_err Vtpm_Unmarshal (TpmCommand_cc f)) (\<lambda>cc.
       if policy_parameters cc \<noteq> None then
         and_then (vtpm_marshal_command_parameters cmd) (\<lambda>buf. Ok (VtpmPolicyDefaultCommand cc buf))
       else if cc = Cc_PolicySecret then vtpm_policy_secret_from_command cmd object_name
       else if cc \<in> set empty_ccs then Ok (VtpmPolicyDefaultCommand cc [])
       else Err (Vtpm_InvalidCc cc)))"

subsection \<open>Lists of commands\<close>

type_synonym vtpm_wr = "TpmWriter \<Rightarrow> unit VtpmResult \<times> TpmWriter"

definition vmarshal :: "wr \<Rightarrow> vtpm_wr" where
  "vmarshal m w = (case m w of (r, w) \<Rightarrow> (map_err Vtpm_Marshal r, w))"

definition vseq :: "vtpm_wr \<Rightarrow> vtpm_wr \<Rightarrow> vtpm_wr" where
  "vseq m n w = (case m w of
       (Ok _, w) \<Rightarrow> n w
     | (Err e, w) \<Rightarrow> (Err e, w)
     | (Panic, w) \<Rightarrow> (Panic, w))"

definition marshal_len :: "nat \<Rightarrow> vtpm_wr" where
  "marshal_len n w =
     (if n > u32_max then (Err Vtpm_OperationFailed, w) else vmarshal (marshal TpmUint32 (int_new 4 n)) w)"

fun marshal_policies :: "VtpmPolicyCommand list \<Rightarrow> vtpm_wr" where
  "marshal_policies [] w = (Ok (), w)"
| "marshal_policies (command # policies) w =
     vseq (vmarshal (marshal TpmCc_codec (VEnum (ECc (policy_cc command)))))
       (vseq (marshal_len (length (policy_body command)))
         (vseq (vmarshal (write_bytes (policy_body command))) (marshal_policies policies))) w"

definition vtpm_marshal_policy_list :: "VtpmPolicyCommand list \<Rightarrow> vtpm_wr" where
  "vtpm_marshal_policy_list policies = vseq (marshal_len (length policies)) (marshal_policies policies)"

definition MAX_POLICY_COUNT :: nat where
  "MAX_POLICY_COUNT = 16"

fun unmarshal_policies :: "nat \<Rightarrow> u8 list \<Rightarrow> (VtpmPolicyCommand list \<times> u8 list) VtpmResult" where
  "unmarshal_policies 0 tail = Ok ([], tail)"
| "unmarshal_policies (Suc n) tail =
     and_then (map_err Vtpm_Unmarshal (unmarshal TpmCc_codec tail)) (\<lambda>(cc, tail_next).
     and_then (map_err Vtpm_Unmarshal (unmarshal TpmUint32 tail_next)) (\<lambda>(len_u32, tail_next).
       let len = int_value len_u32 in
       if length tail_next < len then Err Vtpm_UnexpectedEnd
       else
     and_then (vtpm_policy_command_from_parts (case cc of VEnum (ECc c) \<Rightarrow> c) (take len tail_next)) (\<lambda>p.
     and_then (unmarshal_policies n (drop len tail_next)) (\<lambda>(policy, tail).
       Ok (p # policy, tail)))))"

definition vtpm_unmarshal_policy_list :: "u8 list \<Rightarrow> (VtpmPolicyCommand list \<times> u8 list) VtpmResult" where
  "vtpm_unmarshal_policy_list buf =
     and_then (map_err Vtpm_Unmarshal (unmarshal TpmUint32 buf)) (\<lambda>(count, tail).
       let count = int_value count in
       if count > MAX_POLICY_COUNT then Err (Vtpm_TooManyPolicies count)
       else unmarshal_policies count tail)"

end
