(* ===== verification/Vtpm.thy ===== *)
theory Vtpm
  imports Vtpm_Policy Rust_Text
begin

text \<open>
  The cache of saved contexts: \<open>vtpm/src/lib.rs\<close>.  Hash maps and sets are association lists and lists whose
  order is the iteration order, which the code does not fix either.  The cache directory is a map from
  file names to contents; where an operation of \<open>std::fs\<close> can fail, the record \<open>vtpm_io\<close> says whether
  it does.  An operation returns its result with the cache it leaves, also on an error.
\<close>

definition VERSION :: nat where "VERSION = 2"
definition TRANSIENT_START :: u32 where "TRANSIENT_START = 0x80000000"
definition TRANSIENT_END :: u32 where "TRANSIENT_END = 0x80FFFFFF"
definition TRANSIENT_COUNT :: nat where "TRANSIENT_COUNT = 0x1000000"
definition MAX_RECORD_SIZE :: nat where "MAX_RECORD_SIZE = 16 * 1024"

lemmas vtpm_constants = VERSION_def TRANSIENT_START_def TRANSIENT_END_def TRANSIENT_COUNT_def
  MAX_RECORD_SIZE_def

subsection \<open>Files\<close>

type_synonym files = "(string \<times> u8 list) list"

definition NotFound :: IoError where "NotFound = ''not found''"

record vtpm_io =
  io_pid :: nat
  io_create_dir :: "IoError option"
  io_read_dir :: "IoError option"
  io_read :: "string \<Rightarrow> IoError option"
  io_write :: "string \<Rightarrow> IoError option"
  io_rename :: "string \<Rightarrow> IoError option"
  io_remove :: "string \<Rightarrow> IoError option"

text \<open>\<open>fs::remove_file\<close>, \<open>None\<close> for a file that is not there.\<close>

definition remove_file :: "vtpm_io \<Rightarrow> string \<Rightarrow> files \<Rightarrow> unit VtpmResult option \<times> files" where
  "remove_file io path fs =
     (if map_of fs path = None then (None, fs)
      else case io_remove io path of
        Some e \<Rightarrow> (Some (Err (Vtpm_Io e)), fs)
      | None \<Rightarrow> (Some (Ok ()), AList.delete path fs))"

definition write_atomic :: "vtpm_io \<Rightarrow> string \<Rightarrow> u8 list \<Rightarrow> files \<Rightarrow> unit VtpmResult \<times> files" where
  "write_atomic io path bytes fs =
     (let temp_path = ''.'' @ path @ ''.'' @ nat_display (io_pid io) @ ''.tmp'' in
      case io_write io temp_path of
        Some e \<Rightarrow> (Err (Vtpm_Io e), snd (remove_file io temp_path fs))
      | None \<Rightarrow>
          (let fs = AList.update temp_path bytes fs in
           case io_rename io temp_path of
             Some e \<Rightarrow> (Err (Vtpm_Io e), snd (remove_file io temp_path fs))
           | None \<Rightarrow> (Ok (), AList.update path bytes (AList.delete temp_path fs))))"

subsection \<open>Keys\<close>

record VtpmKey =
  key_version :: val
  key_handle :: val
  key_public :: val
  key_parent :: val
  key_context :: val
  key_policy :: "VtpmPolicyCommand list"

definition u32_of :: "val \<Rightarrow> u32" where
  "u32_of v = word_of_nat (int_value v)"

definition TpmtPublic_object_type :: "val \<Rightarrow> TpmAlgId" where
  "TpmtPublic_object_type public = (case public of VStruct (VEnum (EAlgId a) # _) \<Rightarrow> a | _ \<Rightarrow> Alg_Error)"

definition VtpmKey_read :: "u8 list \<Rightarrow> u32 \<Rightarrow> VtpmKey VtpmResult" where
  "VtpmKey_read buf expected_handle =
     and_then (map_err (\<lambda>_. Vtpm_StaleHandle) (unmarshal TpmUint32 buf)) (\<lambda>(version, tail).
       if int_value version \<noteq> VERSION then Err Vtpm_StaleHandle
       else
     and_then (map_err Vtpm_Unmarshal (unmarshal TpmHandle tail)) (\<lambda>(handle, tail).
       if u32_of handle \<noteq> expected_handle then Err Vtpm_StaleHandle
       else
     and_then (map_err Vtpm_Unmarshal (unmarshal TpmtPublic tail)) (\<lambda>(public, tail).
     and_then (map_err Vtpm_Unmarshal (unmarshal TpmtPublic tail)) (\<lambda>(parent, tail).
     and_then (map_err Vtpm_Unmarshal (unmarshal TpmsContext tail)) (\<lambda>(ctx, tail).
     and_then (vtpm_unmarshal_policy_list tail) (\<lambda>(policy, tail).
       if tail \<noteq> [] then Err (Vtpm_Unmarshal (TrailingData (length buf - length tail) (length tail)))
       else Ok \<lparr>key_version = version, key_handle = handle, key_public = public, key_parent = parent,
              key_context = ctx, key_policy = policy\<rparr>))))))"

definition VtpmKey_load :: "vtpm_io \<Rightarrow> files \<Rightarrow> string \<Rightarrow> u32 \<Rightarrow> VtpmKey VtpmResult" where
  "VtpmKey_load io fs path expected_handle =
     (case (io_read io path, map_of fs path) of
        (Some e, _) \<Rightarrow> Err (Vtpm_Io e)
      | (None, None) \<Rightarrow> Err (Vtpm_Io NotFound)
      | (None, Some buf) \<Rightarrow>
          if length buf > MAX_RECORD_SIZE then Err (Vtpm_RecordTooLarge (length buf))
          else VtpmKey_read buf expected_handle)"

definition serialized_len :: "VtpmKey \<Rightarrow> nat" where
  "serialized_len key =
     wire_len TpmUint32 (key_version key) + wire_len TpmHandle (key_handle key) +
     wire_len TpmtPublic (key_public key) + wire_len TpmtPublic (key_parent key) +
     wire_len TpmsContext (key_context key) + 4 + sum_list (map policy_len (key_policy key))"

definition VtpmKey_marshal :: "VtpmKey \<Rightarrow> vtpm_wr" where
  "VtpmKey_marshal key =
     vseq (vmarshal (marshal TpmUint32 (key_version key)))
       (vseq (vmarshal (marshal TpmHandle (key_handle key)))
         (vseq (vmarshal (marshal TpmtPublic (key_public key)))
           (vseq (vmarshal (marshal TpmtPublic (key_parent key)))
             (vseq (vmarshal (marshal TpmsContext (key_context key)))
               (vtpm_marshal_policy_list (key_policy key))))))"

definition VtpmKey_save :: "vtpm_io \<Rightarrow> string \<Rightarrow> VtpmKey \<Rightarrow> files \<Rightarrow> unit VtpmResult \<times> files" where
  "VtpmKey_save io path key fs =
     (case VtpmKey_marshal key (Writer_new (replicate (serialized_len key) 0)) of
        (Ok _, w) \<Rightarrow> write_atomic io path (Writer_as_bytes w) fs
      | (Err e, _) \<Rightarrow> (Err e, fs)
      | (Panic, _) \<Rightarrow> (Panic, fs))"

definition record_name :: "u32 \<Rightarrow> string" where
  "record_name virtual_handle = hex_digits 8 (unat virtual_handle) @ ''.bin''"

definition VtpmKey_delete :: "vtpm_io \<Rightarrow> VtpmKey \<Rightarrow> files \<Rightarrow> unit VtpmResult \<times> files" where
  "VtpmKey_delete io key fs =
     (case remove_file io (record_name (u32_of (key_handle key))) fs of
        (None, fs) \<Rightarrow> (Ok (), fs)
      | (Some r, fs) \<Rightarrow> (r, fs))"

subsection \<open>The cache\<close>

record VtpmCache =
  contexts :: "(u32 \<times> VtpmKey) list"
  handles :: "(u8 list \<times> u32) list"
  names :: "(u32 \<times> u8 list) list"
  dirty :: "u32 list"
  next_virtual_handle :: u32
  cache_files :: files

definition unpublish_name :: "u32 \<Rightarrow> VtpmCache \<Rightarrow> VtpmCache" where
  "unpublish_name virtual_handle c =
     (case map_of (names c) virtual_handle of
        None \<Rightarrow> c
      | Some name \<Rightarrow>
          (let c = c\<lparr>names := AList.delete virtual_handle (names c)\<rparr> in
           if map_of (handles c) name = Some virtual_handle
           then c\<lparr>handles := AList.delete name (handles c)\<rparr> else c))"

definition publish_name :: "u32 \<Rightarrow> u8 list \<Rightarrow> VtpmCache \<Rightarrow> VtpmCache" where
  "publish_name virtual_handle name c =
     (let c = unpublish_name virtual_handle c in
      c\<lparr>handles := AList.update name virtual_handle (handles c),
        names := AList.update virtual_handle name (names c)\<rparr>)"

definition find_by_handle :: "VtpmCache \<Rightarrow> u32 \<Rightarrow> VtpmKey option" where
  "find_by_handle c handle = map_of (contexts c) handle"

definition find_by_name :: "VtpmCache \<Rightarrow> u8 list \<Rightarrow> VtpmKey option" where
  "find_by_name c target_name =
     (case map_of (handles c) target_name of
        None \<Rightarrow> None
      | Some handle \<Rightarrow> map_of (contexts c) handle)"

definition handle_type :: "u32 \<Rightarrow> u8" where
  "handle_type h = ucast (drop_bit 24 h)"

definition is_handle_type :: "TpmHt \<Rightarrow> u32 \<Rightarrow> bool" where
  "is_handle_type ht h \<longleftrightarrow> uint (handle_type h) = TpmHt_value ht"

subsection \<open>Ancestors\<close>

text \<open>The loop walks as long as a parent is in the cache.  The chain is built from the target up, its
  first element the last one found.\<close>

partial_function (option) ancestors_loop ::
  "libcrypto \<Rightarrow> VtpmCache \<Rightarrow> u32 \<Rightarrow> u32 list \<Rightarrow> u32 list VtpmResult option" where
  "ancestors_loop L c current chain =
     (case find_by_handle c current of
        None \<Rightarrow> Some (Err (Vtpm_HandleNotFound current))
      | Some key \<Rightarrow>
          if TpmtPublic_object_type (key_parent key) = Alg_Null then Some (Ok (current # chain))
          else (case find (\<lambda>(_, parent_key). key_public parent_key = key_parent key) (contexts c) of
            Some (parent_virtual_handle, _) \<Rightarrow> ancestors_loop L c parent_virtual_handle (current # chain)
          | None \<Rightarrow>
              (case tpm_make_name L (key_parent key) of
                 Ok parent_name \<Rightarrow>
                   (case map_of (handles c) parent_name of
                      Some phandle \<Rightarrow> Some (Ok (phandle # current # chain))
                    | None \<Rightarrow> Some (Err Vtpm_ParentNotFound))
               | Err _ \<Rightarrow> Some (Err Vtpm_OperationFailed)
               | Panic \<Rightarrow> Some Panic)))"

definition fetch_ancestors :: "libcrypto \<Rightarrow> VtpmCache \<Rightarrow> u32 \<Rightarrow> u32 list VtpmResult option" where
  "fetch_ancestors L c target_handle =
     (if is_handle_type Ht_Persistent target_handle \<and> target_handle \<in> snd ` set (handles c)
      then Some (Ok [target_handle])
      else ancestors_loop L c target_handle [])"

subsection \<open>Removing keys\<close>

text \<open>The bytes of a public area in a buffer of its length.\<close>

definition public_bytes :: "val \<Rightarrow> u8 list VtpmResult" where
  "public_bytes public =
     (case marshal TpmtPublic public (Writer_new (replicate (wire_len TpmtPublic public) 0)) of
        (r, w) \<Rightarrow> and_then (map_err Vtpm_Marshal r) (\<lambda>_. Ok (buffer w)))"

text \<open>The entries of \<open>parent_to_children\<close>; the children of a parent are those with its bytes.\<close>

fun parent_to_children :: "(u32 \<times> VtpmKey) list \<Rightarrow> (u8 list \<times> u32 \<times> val) list VtpmResult" where
  "parent_to_children [] = Ok []"
| "parent_to_children ((virtual_handle, key) # ks) =
     and_then (public_bytes (key_parent key)) (\<lambda>parent_key_bytes.
     and_then (parent_to_children ks) (\<lambda>m. Ok ((parent_key_bytes, virtual_handle, key_public key) # m)))"

definition forget :: "u32 \<Rightarrow> VtpmCache \<Rightarrow> VtpmCache" where
  "forget virtual_handle c =
     (let c = unpublish_name virtual_handle (c\<lparr>contexts := AList.delete virtual_handle (contexts c)\<rparr>) in
      c\<lparr>dirty := filter (\<lambda>h. h \<noteq> virtual_handle) (dirty c)\<rparr>)"

text \<open>The children of one parent; it returns the deleted handles with their public areas.\<close>

fun remove_children ::
  "vtpm_io \<Rightarrow> (u8 list \<times> u32 \<times> val) list \<Rightarrow> VtpmCache \<Rightarrow> (u32 \<times> val) list VtpmResult \<times> VtpmCache" where
  "remove_children io [] c = (Ok [], c)"
| "remove_children io ((_, child, child_public) # ks) c =
     (case map_of (contexts c) child of
        None \<Rightarrow> remove_children io ks c
      | Some key \<Rightarrow>
          (case VtpmKey_delete io key (cache_files c) of
             (Err e, fs) \<Rightarrow> (Err e, c\<lparr>cache_files := fs\<rparr>)
           | (Panic, fs) \<Rightarrow> (Panic, c\<lparr>cache_files := fs\<rparr>)
           | (Ok _, fs) \<Rightarrow>
               (case remove_children io ks (forget child (c\<lparr>cache_files := fs\<rparr>)) of
                  (r, c) \<Rightarrow> (and_then r (\<lambda>rest. Ok ((child, child_public) # rest)), c))))"

lemma length_delete_less: "map_of xs k = Some v \<Longrightarrow> length (AList.delete k xs) < length xs"
proof -
  assume "map_of xs k = Some v"
  then have "(k, v) \<in> set xs"
    by (rule map_of_SomeD)
  then show ?thesis
    unfolding AList.delete_eq by (intro length_filter_less) auto
qed

lemma unpublish_name_contexts [simp]: "contexts (unpublish_name h c) = contexts c"
  by (simp add: unpublish_name_def Let_def split: option.split)

lemma forget_contexts [simp]: "contexts (forget h c) = AList.delete h (contexts c)"
  by (simp add: forget_def Let_def)

lemma remove_children_length:
  "remove_children io ks c = (Ok del, c') \<Longrightarrow> length (contexts c') + length del \<le> length (contexts c)"
proof (induction io ks c arbitrary: del c' rule: remove_children.induct)
  case (2 io b child child_public ks c)
  show ?case
  proof (cases "map_of (contexts c) child")
    case None
    with 2 show ?thesis by simp
  next
    case (Some key)
    with 2(3) obtain fs rest where d: "VtpmKey_delete io key (cache_files c) = (Ok (), fs)"
      and r: "remove_children io ks (forget child (c\<lparr>cache_files := fs\<rparr>)) = (Ok rest, c')"
      and "del = (child, child_public) # rest"
      by (auto split: prod.splits result.splits)
    then show ?thesis
      using 2(2) [OF Some d [symmetric] refl r] length_delete_less [OF Some] by simp
  qed
qed simp

function remove_loop ::
  "vtpm_io \<Rightarrow> (u8 list \<times> u32 \<times> val) list \<Rightarrow> val list \<Rightarrow> VtpmCache \<Rightarrow> u32 list VtpmResult \<times> VtpmCache"
where
  "remove_loop io children [] c = (Ok [], c)"
| "remove_loop io children (parent_public # ancestor_list) c =
     (case public_bytes parent_public of
        Err e \<Rightarrow> (Err e, c)
      | Panic \<Rightarrow> (Panic, c)
      | Ok parent_key_bytes \<Rightarrow>
          (case remove_children io (filter (\<lambda>(b, _). b = parent_key_bytes) children) c of
             (Err e, c) \<Rightarrow> (Err e, c)
           | (Panic, c) \<Rightarrow> (Panic, c)
           | (Ok deleted, c) \<Rightarrow>
               (case remove_loop io children (ancestor_list @ map snd deleted) c of
                  (r, c) \<Rightarrow> (and_then r (\<lambda>rest. Ok (map fst deleted @ rest)), c))))"
  by pat_completeness auto

text \<open>Every key leaves the cache before its children are queued.\<close>

termination
  by (relation "measure (\<lambda>(io, children, queue, c). 2 * length (contexts c) + length queue)")
    (simp, fastforce dest: remove_children_length [OF sym])

definition remove_subtree :: "vtpm_io \<Rightarrow> val \<Rightarrow> VtpmCache \<Rightarrow> u32 list VtpmResult \<times> VtpmCache" where
  "remove_subtree io first_public c =
     (case parent_to_children (contexts c) of
        Err e \<Rightarrow> (Err e, c)
      | Panic \<Rightarrow> (Panic, c)
      | Ok children \<Rightarrow> remove_loop io children [first_public] c)"

definition remove_key :: "vtpm_io \<Rightarrow> u32 \<Rightarrow> VtpmCache \<Rightarrow> u32 list VtpmResult \<times> VtpmCache" where
  "remove_key io handle c =
     (case map_of (contexts c) handle of
        None \<Rightarrow> (Ok [], c)
      | Some key \<Rightarrow>
          (case VtpmKey_delete io key (cache_files c) of
             (Err e, fs) \<Rightarrow> (Err e, c\<lparr>cache_files := fs\<rparr>)
           | (Panic, fs) \<Rightarrow> (Panic, c\<lparr>cache_files := fs\<rparr>)
           | (Ok _, fs) \<Rightarrow>
               (case remove_subtree io (key_public key) (forget handle (c\<lparr>cache_files := fs\<rparr>)) of
                  (r, c) \<Rightarrow> (and_then r (\<lambda>children. Ok (handle # children)), c))))"

subsection \<open>Saving keys\<close>

definition mark_dirty :: "u32 \<Rightarrow> VtpmCache \<Rightarrow> VtpmCache" where
  "mark_dirty handle c = c\<lparr>dirty := List.insert handle (dirty c)\<rparr>"

definition key_iter :: "VtpmCache \<Rightarrow> (u32 \<times> VtpmKey) list" where
  "key_iter c = contexts c"

text \<open>The virtual handle tried in step \<open>i\<close>, and the handle after one.\<close>

definition nth_handle :: "u32 \<Rightarrow> nat \<Rightarrow> u32" where
  "nth_handle next i =
     (let virtual_handle = next + word_of_nat i in
      if virtual_handle > TRANSIENT_END then TRANSIENT_START + (virtual_handle - TRANSIENT_END - 1)
      else virtual_handle)"

definition handle_after :: "u32 \<Rightarrow> u32" where
  "handle_after virtual_handle =
     (let next = virtual_handle + 1 in if next > TRANSIENT_END then TRANSIENT_START else next)"

function free_handle :: "VtpmCache \<Rightarrow> nat \<Rightarrow> u32 option" where
  "free_handle c i =
     (if i < TRANSIENT_COUNT then
        (let virtual_handle = nth_handle (next_virtual_handle c) i in
         if map_of (contexts c) virtual_handle = None then Some virtual_handle else free_handle c (i + 1))
      else None)"
  by pat_completeness auto

termination
  by (relation "measure (\<lambda>(c, i). TRANSIENT_COUNT - i)") auto

declare free_handle.simps [simp del]

definition save_transient ::
  "libcrypto \<Rightarrow> val \<Rightarrow> val \<Rightarrow> val \<Rightarrow> VtpmPolicyCommand list option \<Rightarrow> VtpmCache \<Rightarrow> u32 VtpmResult \<times> VtpmCache"
where
  "save_transient L ctx public parent_public policy c =
     (case free_handle c 0 of
        None \<Rightarrow> (Err Vtpm_NoHandles, c)
      | Some virtual_handle \<Rightarrow>
          (let key = \<lparr>key_version = int_new 4 VERSION, key_handle = handle_val virtual_handle,
                 key_public = public, key_parent = parent_public, key_context = ctx,
                 key_policy = (case policy of Some p \<Rightarrow> p | None \<Rightarrow> [])\<rparr> in
           case tpm_make_name L public of
             Err _ \<Rightarrow> (Err Vtpm_OperationFailed, c)
           | Panic \<Rightarrow> (Panic, c)
           | Ok name \<Rightarrow>
               (let c = publish_name virtual_handle name
                      (c\<lparr>contexts := AList.update virtual_handle key (contexts c)\<rparr>) in
                (Ok virtual_handle,
                 (mark_dirty virtual_handle c)\<lparr>next_virtual_handle := handle_after virtual_handle\<rparr>))))"

definition default_context :: val where
  "default_context =
     VStruct [int_new 8 0, handle_val 0, VEnum (ERh Rh_Owner), VBuffer []]"

definition save_persistent ::
  "libcrypto \<Rightarrow> u32 \<Rightarrow> val \<Rightarrow> val \<Rightarrow> VtpmPolicyCommand list option \<Rightarrow> VtpmCache \<Rightarrow> unit VtpmResult \<times> VtpmCache"
where
  "save_persistent L handle public parent_public policy c =
     (if \<not> is_handle_type Ht_Persistent handle then (Err (Vtpm_InvalidHandleType (handle_type handle)), c)
      else
        (let key = \<lparr>key_version = int_new 4 VERSION, key_handle = handle_val handle,
               key_public = public, key_parent = parent_public, key_context = default_context,
               key_policy = (case policy of Some p \<Rightarrow> p | None \<Rightarrow> [])\<rparr> in
         case tpm_make_name L public of
           Err _ \<Rightarrow> (Err Vtpm_OperationFailed, c)
         | Panic \<Rightarrow> (Panic, c)
         | Ok name \<Rightarrow>
             (Ok (), mark_dirty handle (publish_name handle name
                (c\<lparr>contexts := AList.update handle key (contexts c)\<rparr>)))))"

fun save_handles :: "vtpm_io \<Rightarrow> u32 list \<Rightarrow> VtpmCache \<Rightarrow> unit VtpmResult \<times> VtpmCache" where
  "save_handles io [] c = (Ok (), c)"
| "save_handles io (virtual_handle # hs) c =
     (let clean = (\<lambda>c. c\<lparr>dirty := filter (\<lambda>h. h \<noteq> virtual_handle) (dirty c)\<rparr>) in
      case map_of (contexts c) virtual_handle of
        Some key \<Rightarrow>
          (case VtpmKey_save io (record_name virtual_handle) key (cache_files c) of
             (Ok _, fs) \<Rightarrow> save_handles io hs (clean (c\<lparr>cache_files := fs\<rparr>))
           | (Err e, fs) \<Rightarrow> (Err e, c\<lparr>cache_files := fs\<rparr>)
           | (Panic, fs) \<Rightarrow> (Panic, c\<lparr>cache_files := fs\<rparr>))
      | None \<Rightarrow> save_handles io hs (clean c))"

definition flush :: "vtpm_io \<Rightarrow> VtpmCache \<Rightarrow> unit VtpmResult \<times> VtpmCache" where
  "flush io c = save_handles io (dirty c) c"

definition teardown :: "vtpm_io \<Rightarrow> VtpmCache \<Rightarrow> VtpmCache" where
  "teardown io c = snd (flush io c)"

subsection \<open>Opening the cache\<close>

text \<open>The stem of a file name with the extension \<open>bin\<close>.\<close>

definition bin_stem :: "string \<Rightarrow> string option" where
  "bin_stem name =
     (case rsplit_once CHR ''.'' name of
        Some (stem, ext) \<Rightarrow> if ext = ''bin'' \<and> stem \<noteq> [] then Some stem else None
      | None \<Rightarrow> None)"

definition discard :: "vtpm_io \<Rightarrow> string \<Rightarrow> VtpmCache \<Rightarrow> VtpmCache" where
  "discard io path c = c\<lparr>cache_files := snd (remove_file io path (cache_files c))\<rparr>"

definition load_entry :: "libcrypto \<Rightarrow> vtpm_io \<Rightarrow> string \<Rightarrow> VtpmCache \<Rightarrow> unit VtpmResult \<times> VtpmCache" where
  "load_entry L io path c =
     (case Option.bind (bin_stem path) (u32_from_str_radix 16) of
        None \<Rightarrow> (Ok (), c)
      | Some n \<Rightarrow>
          (let virtual_handle = word_of_nat n :: u32 in
           if is_handle_type Ht_Transient virtual_handle \<or> is_handle_type Ht_Persistent virtual_handle then
             (case VtpmKey_load io (cache_files c) path virtual_handle of
                Ok key \<Rightarrow>
                  (case tpm_make_name L (key_public key) of
                     Ok name \<Rightarrow>
                       (Ok (), publish_name virtual_handle name
                          (c\<lparr>contexts := AList.update virtual_handle key (contexts c)\<rparr>))
                   | Err _ \<Rightarrow> (Err Vtpm_OperationFailed, c)
                   | Panic \<Rightarrow> (Panic, c))
              | Err _ \<Rightarrow> (Ok (), discard io path c)
              | Panic \<Rightarrow> (Panic, c))
           else if is_handle_type Ht_HmacSession virtual_handle \<or> is_handle_type Ht_PolicySession virtual_handle
           then (Ok (), discard io path c)
           else (Ok (), c)))"

fun load_entries :: "libcrypto \<Rightarrow> vtpm_io \<Rightarrow> string list \<Rightarrow> VtpmCache \<Rightarrow> unit VtpmResult \<times> VtpmCache" where
  "load_entries L io [] c = (Ok (), c)"
| "load_entries L io (path # paths) c =
     (case load_entry L io path c of
        (Ok _, c) \<Rightarrow> load_entries L io paths c
      | (Err e, c) \<Rightarrow> (Err e, c)
      | (Panic, c) \<Rightarrow> (Panic, c))"

definition cache_load :: "libcrypto \<Rightarrow> vtpm_io \<Rightarrow> VtpmCache \<Rightarrow> unit VtpmResult \<times> VtpmCache" where
  "cache_load L io c =
     (case io_read_dir io of
        Some e \<Rightarrow> (if e = NotFound then Ok () else Err (Vtpm_Io e), c)
      | None \<Rightarrow> load_entries L io (map fst (cache_files c)) c)"

definition VtpmCache_new ::
  "libcrypto \<Rightarrow> vtpm_io \<Rightarrow> files \<Rightarrow> (u8 list \<times> u32) list \<Rightarrow> VtpmCache VtpmResult \<times> files" where
  "VtpmCache_new L io fs persistent =
     (case find (\<lambda>h. \<not> is_handle_type Ht_Persistent h) (map snd persistent) of
        Some h \<Rightarrow> (Err (Vtpm_InvalidHandleType (handle_type h)), fs)
      | None \<Rightarrow>
          (case io_create_dir io of
             Some e \<Rightarrow> (Err (Vtpm_Io e), fs)
           | None \<Rightarrow>
               (case cache_load L io \<lparr>contexts = [], handles = persistent, names = [], dirty = [],
                       next_virtual_handle = TRANSIENT_START, cache_files = fs\<rparr> of
                  (r, c) \<Rightarrow>
                    (and_then r (\<lambda>_.
                       if contexts c = [] then Ok c
                       else (let max_handle = Max (fst ` set (contexts c)) in
                         if max_handle \<ge> next_virtual_handle c
                         then Ok (c\<lparr>next_virtual_handle := handle_after max_handle\<rparr>) else Ok c)),
                     cache_files c))))"

end
