(* ===== verification/Vtpm_Policy_Laws.thy ===== *)
theory Vtpm_Policy_Laws
  imports Vtpm_Policy Wire_Command
begin

text \<open>
  Laws of the cached policy commands: what a body decodes to, the encoding of a policy list, and the way
  from a command frame to a cached command and back to a typed one.
\<close>

subsection \<open>Bodies\<close>

lemma unmarshal_parts_iff:
  "codecs_ok fs \<Longrightarrow> unmarshal_parts fs b = Ok (vs, r) \<longleftrightarrow> fields_valid fs vs \<and> b = fields_enc fs vs @ r"
proof (induction fs arbitrary: b vs)
  case Nil
  then show ?case by (cases vs) auto
next
  case (Cons f fs)
  then show ?case
    by (cases f; cases vs) (auto simp: codec_dec_iff)
qed

lemma unmarshal_parts_not_Panic: "codecs_ok fs \<Longrightarrow> unmarshal_parts fs b \<noteq> Panic"
proof (induction fs arbitrary: b)
  case (Cons f fs)
  then show ?case
    by (cases f) (auto simp: and_then_Panic_iff codec_dec_no_panic)
qed simp

lemma part_codecs:
  "codecs_ok authorize_fields" "codecs_ok secret_fields"
  "(cc, fs) \<in> set policy_table \<Longrightarrow> codecs_ok fs"
  by (auto simp: authorize_fields_def secret_fields_def policy_table_def
      intro!: wire_field_codec codec_ok TpmUint16_ok TpmlPcrSelection_ok TpmlDigest_ok)

lemma policy_parameters_in: "policy_parameters cc = Some fs \<Longrightarrow> (cc, fs) \<in> set policy_table"
  unfolding policy_parameters_def by (rule map_of_SomeD)

lemma policy_parameter_codecs: "policy_parameters cc = Some fs \<Longrightarrow> codecs_ok fs"
  using policy_parameters_in part_codecs(3) by blast

lemma special_parameters [simp]:
  "policy_parameters Cc_PolicySecret = None" "policy_parameters Cc_PolicyAuthorize = None"
  "cc \<in> set empty_ccs \<Longrightarrow> policy_parameters cc = None"
  by (auto simp: policy_parameters_def policy_table_def empty_ccs_def)

lemma marshalled_body_fields:
  assumes "codecs_ok fs" "fields_valid fs vs" "length (fields_enc fs vs) \<le> TPM_MAX_COMMAND_SIZE"
  shows "marshalled_body (fields_marshal fs vs) = fields_enc fs vs"
  using marshal_into_emits [OF fields_marshal_emits [OF assms(1,2)] assms(3)]
  by (simp add: marshalled_body_def TPM_MAX_COMMAND_SIZE_def usize_max_def)

lemma three_parts:
  "(case vs of [a, b, c] \<Rightarrow> Ok (f a b c) | _ \<Rightarrow> Panic) = Ok x \<longleftrightarrow> (\<exists>a b c. vs = [a, b, c] \<and> x = f a b c)"
  by (cases vs; cases "tl vs"; cases "tl (tl vs)"; cases "tl (tl (tl vs))") auto

lemma VtpmPolicyAuthorizeCommand_unmarshal_Ok:
  "VtpmPolicyAuthorizeCommand_unmarshal b = Ok (p, r) \<longleftrightarrow>
   (\<exists>k n s. unmarshal_parts authorize_fields b = Ok ([k, n, s], r) \<and> p = VtpmPolicyAuthorizeCommand k n s)"
  by (auto simp: VtpmPolicyAuthorizeCommand_unmarshal_def three_parts)

lemma VtpmPolicySecretCommand_unmarshal_Ok:
  "VtpmPolicySecretCommand_unmarshal b = Ok (p, r) \<longleftrightarrow>
   (\<exists>k n s. unmarshal_parts secret_fields b = Ok ([k, n, s], r) \<and> p = VtpmPolicySecretCommand k n s)"
  by (auto simp: VtpmPolicySecretCommand_unmarshal_def three_parts)

text \<open>The commands that survive a trip through their code and body.\<close>

definition policy_ok :: "VtpmPolicyCommand \<Rightarrow> bool" where
  "policy_ok p \<longleftrightarrow> vtpm_policy_command_from_parts (policy_cc p) (policy_body p) = Ok p"

lemma from_parts_Ok:
  assumes "vtpm_policy_command_from_parts cc body = Ok p" "length body \<le> TPM_MAX_COMMAND_SIZE"
  shows "policy_cc p = cc \<and> policy_body p = body"
proof -
  consider (plain) "p = VtpmPolicyDefaultCommand cc body"
    | (auth) "cc = Cc_PolicyAuthorize" "VtpmPolicyAuthorizeCommand_unmarshal body = Ok (p, [])"
    | (secret) "cc = Cc_PolicySecret" "VtpmPolicySecretCommand_unmarshal body = Ok (p, [])"
    using assms(1)
    by (auto simp: vtpm_policy_command_from_parts_def split: if_splits option.splits)
  then show ?thesis
    using assms(2)
    by cases (auto simp: VtpmPolicyAuthorizeCommand_unmarshal_Ok VtpmPolicySecretCommand_unmarshal_Ok
        unmarshal_parts_iff part_codecs marshalled_body_fields)
qed

lemma from_parts_policy_ok:
  "\<lbrakk>vtpm_policy_command_from_parts cc body = Ok p; length body \<le> TPM_MAX_COMMAND_SIZE\<rbrakk> \<Longrightarrow> policy_ok p"
  using from_parts_Ok [of cc body p] by (simp add: policy_ok_def)

lemma from_parts_not_Panic: "vtpm_policy_command_from_parts cc body \<noteq> Panic"
proof -
  have len: "length vs = length fs" if "fields_valid fs vs" for fs vs
    using that by (induction fs vs rule: fields_valid.induct) simp_all
  have "length vs = 3" if "unmarshal_parts authorize_fields body = Ok (vs, r) \<or>
      unmarshal_parts secret_fields body = Ok (vs, r)" for vs r
    using that len by (auto simp: unmarshal_parts_iff part_codecs authorize_fields_def secret_fields_def)
  then have "VtpmPolicyAuthorizeCommand_unmarshal body \<noteq> Panic" "VtpmPolicySecretCommand_unmarshal body \<noteq> Panic"
    using unmarshal_parts_not_Panic part_codecs
    by (auto simp: VtpmPolicyAuthorizeCommand_unmarshal_def VtpmPolicySecretCommand_unmarshal_def
        and_then_Panic_iff numeral_3_eq_3 length_Suc_conv split: list.splits)
  then show ?thesis
    using unmarshal_parts_not_Panic [OF policy_parameter_codecs]
    by (auto simp: vtpm_policy_command_from_parts_def and_then_Panic_iff split: if_splits option.splits)
qed

subsection \<open>Typed commands\<close>

lemma policy_table_rows:
  "list_all (\<lambda>(cc, fs). \<exists>v cmd resp. (v, cmd, resp) \<in> set dispatch_rows \<and> cmd = Command cc 1 fs) policy_table"
proof -
  have "(''PolicyPcr'', TpmPolicyPcrCommand, TpmPolicyPcrResponse) \<in> set dispatch_rows"
    "(''PolicyOr'', TpmPolicyOrCommand, TpmPolicyOrResponse) \<in> set dispatch_rows"
    "(''PolicyCommandCode'', TpmPolicyCommandCodeCommand, TpmPolicyCommandCodeResponse) \<in> set dispatch_rows"
    "(''PolicyCpHash'', TpmPolicyCpHashCommand, TpmPolicyCpHashResponse) \<in> set dispatch_rows"
    "(''PolicyNameHash'', TpmPolicyNameHashCommand, TpmPolicyNameHashResponse) \<in> set dispatch_rows"
    "(''PolicyTemplate'', TpmPolicyTemplateCommand, TpmPolicyTemplateResponse) \<in> set dispatch_rows"
    "(''PolicyNvWritten'', TpmPolicyNvWrittenCommand, TpmPolicyNvWrittenResponse) \<in> set dispatch_rows"
    "(''PolicyCounterTimer'', TpmPolicyCounterTimerCommand, TpmPolicyCounterTimerResponse) \<in> set dispatch_rows"
    by (simp_all add: dispatch_rows_def)
  then show ?thesis
    unfolding policy_table_def list.pred_inject prod.case TpmPolicyPcrCommand_def TpmPolicyOrCommand_def
      TpmPolicyCommandCodeCommand_def TpmPolicyCpHashCommand_def TpmPolicyNameHashCommand_def
      TpmPolicyTemplateCommand_def TpmPolicyNvWrittenCommand_def TpmPolicyCounterTimerCommand_def
    by (intro conjI list.pred_inject(1)) blast+
qed

lemma empty_rows:
  "list_all (\<lambda>cc. \<exists>v cmd resp. (v, cmd, resp) \<in> set dispatch_rows \<and> cmd = Command cc 1 []) empty_ccs"
proof -
  have "(''PolicyAuthValue'', TpmPolicyAuthValueCommand, TpmPolicyAuthValueResponse) \<in> set dispatch_rows"
    "(''PolicyPassword'', TpmPolicyPasswordCommand, TpmPolicyPasswordResponse) \<in> set dispatch_rows"
    "(''PolicyGetDigest'', TpmPolicyGetDigestCommand, TpmPolicyGetDigestResponse) \<in> set dispatch_rows"
    "(''PolicyRestart'', TpmPolicyRestartCommand, TpmPolicyRestartResponse) \<in> set dispatch_rows"
    "(''PolicyPhysicalPresence'', TpmPolicyPhysicalPresenceCommand, TpmPolicyPhysicalPresenceResponse) \<in> set dispatch_rows"
    by (simp_all add: dispatch_rows_def)
  then show ?thesis
    unfolding empty_ccs_def list.pred_inject TpmPolicyAuthValueCommand_def TpmPolicyPasswordCommand_def
      TpmPolicyGetDigestCommand_def TpmPolicyRestartCommand_def TpmPolicyPhysicalPresenceCommand_def
    by (intro conjI list.pred_inject(1)) blast+
qed

lemma policy_row:
  assumes "policy_parameters cc = Some fs \<or> cc \<in> set empty_ccs \<and> fs = []"
  obtains v cmd resp where "(v, cmd, resp) \<in> set dispatch_rows" "cmd = Command cc 1 fs"
  using assms policy_table_rows empty_rows policy_parameters_in unfolding list_all_iff by fastforce

lemma to_command_default:
  assumes "vtpm_policy_command_from_parts cc body = Ok p" "cc \<notin> {Cc_PolicyAuthorize, Cc_PolicySecret}"
  shows "\<exists>v cmd resp fb. (v, cmd, resp) \<in> set dispatch_rows \<and> f_CC cmd = cc \<and> to_command p = Ok (cc, fb) \<and>
    body_valid cmd fb \<and> body_param_bytes cmd fb = body"
proof -
  have "\<exists>fs vs. (policy_parameters cc = Some fs \<or> cc \<in> set empty_ccs \<and> fs = []) \<and>
      p = VtpmPolicyDefaultCommand cc body \<and> fields_valid fs vs \<and> body = fields_enc fs vs \<and>
      to_command p = Ok (cc, \<lparr>b_handles = [ZERO_HANDLE], b_params = vs\<rparr>)"
  proof (cases "cc \<in> set empty_ccs")
    case True
    then show ?thesis
      using assms by (intro exI [of _ "[]"]) (auto simp: vtpm_policy_command_from_parts_def to_command_def
          split: if_splits)
  next
    case False
    then obtain fs vs where "policy_parameters cc = Some fs" "unmarshal_parts fs body = Ok (vs, [])"
      "p = VtpmPolicyDefaultCommand cc body"
      using assms by (auto simp: vtpm_policy_command_from_parts_def split: if_splits option.splits)
    then show ?thesis
      using False unmarshal_parts_iff [OF policy_parameter_codecs]
      by (intro exI [of _ fs] exI [of _ vs]) (auto simp: to_command_def)
  qed
  then obtain fs vs where fs: "policy_parameters cc = Some fs \<or> cc \<in> set empty_ccs \<and> fs = []"
    and p: "fields_valid fs vs" "body = fields_enc fs vs"
      "to_command p = Ok (cc, \<lparr>b_handles = [ZERO_HANDLE], b_params = vs\<rparr>)"
    by blast
  from fs obtain v cmd resp where "(v, cmd, resp) \<in> set dispatch_rows" "cmd = Command cc 1 fs"
    by (rule policy_row)
  moreover from this have "f_CC cmd = cc"
    and "body_valid cmd \<lparr>b_handles = [ZERO_HANDLE], b_params = vs\<rparr>"
    and "body_param_bytes cmd \<lparr>b_handles = [ZERO_HANDLE], b_params = vs\<rparr> = body"
    using p by (simp_all add: body_valid_def body_param_bytes_def ZERO_HANDLE_def)
  ultimately show ?thesis
    using p(3) by blast
qed

subsection \<open>Policy lists\<close>

definition policy_bytes :: "VtpmPolicyCommand \<Rightarrow> u8 list" where
  "policy_bytes p = to_be_bytes 4 (nat (TpmCc_value (policy_cc p))) @
     to_be_bytes 4 (length (policy_body p)) @ policy_body p"

definition policy_list_bytes :: "VtpmPolicyCommand list \<Rightarrow> u8 list" where
  "policy_list_bytes ps = to_be_bytes 4 (length ps) @ concat (map policy_bytes ps)"

definition vemits :: "vtpm_wr \<Rightarrow> u8 list \<Rightarrow> bool" where
  "vemits m bs \<longleftrightarrow> (\<exists>m'. m = vmarshal m' \<and> emits m' bs)"

lemma vemits_vmarshal: "emits m bs \<Longrightarrow> vemits (vmarshal m) bs"
  by (auto simp: vemits_def)

lemma vseq_vmarshal: "vseq (vmarshal m) (vmarshal n) = vmarshal (wseq m n)"
  by (rule ext) (auto simp: vseq_def vmarshal_def wseq_def split: prod.splits result.splits)

lemma vemits_vseq: "\<lbrakk>vemits m bs; vemits n cs\<rbrakk> \<Longrightarrow> vemits (vseq m n) (bs @ cs)"
  by (auto simp: vemits_def vseq_vmarshal intro!: emits_wseq)

lemma vemits_len: "n \<le> u32_max \<Longrightarrow> vemits (marshal_len n) (to_be_bytes 4 n)"
proof -
  assume "n \<le> u32_max"
  then have "marshal_len n = vmarshal (marshal TpmUint32 (int_new 4 n))"
    by (intro ext) (simp add: marshal_len_def)
  with vemits_vmarshal [OF emits_u32] show ?thesis by simp
qed

lemma vemits_done: "vemits (\<lambda>w. (Ok (), w)) []"
proof -
  have "(\<lambda>w. (Ok (), w)) = vmarshal wdone"
    by (rule ext) (simp add: vmarshal_def wdone_def)
  then show ?thesis by (auto simp: vemits_def)
qed

lemma marshal_policies_emits:
  "\<forall>p \<in> set ps. length (policy_body p) \<le> u32_max \<Longrightarrow>
   vemits (marshal_policies ps) (concat (map policy_bytes ps))"
proof (induction ps)
  case (Cons p ps)
  then show ?case
    unfolding policy_bytes_def list.map concat.simps append_assoc marshal_policies.simps(2) [abs_def]
    by (intro vemits_vseq vemits_vmarshal vemits_len emits_Cc emits_write_bytes) simp_all
qed (simp add: marshal_policies.simps(1) [abs_def] vemits_done)

lemma marshal_policy_list_emits:
  "\<lbrakk>length ps \<le> u32_max; \<forall>p \<in> set ps. length (policy_body p) \<le> u32_max\<rbrakk> \<Longrightarrow>
   vemits (vtpm_marshal_policy_list ps) (policy_list_bytes ps)"
  unfolding vtpm_marshal_policy_list_def policy_list_bytes_def
  by (intro vemits_vseq vemits_len marshal_policies_emits)

lemma u32_unmarshal:
  "n \<le> u32_max \<Longrightarrow> unmarshal TpmUint32 (to_be_bytes 4 n @ r) = Ok (int_new 4 n, r)"
  by (simp add: TpmUint32_def tpm_int_def int_new_def TpmWireBytes_cast_prefix_def
      TpmWireBytes_validate_prefix_def split_at_def)

lemma u32_unmarshal_Ok:
  assumes "unmarshal TpmUint32 b = Ok (v, r)"
  shows "b = to_be_bytes 4 (int_value v) @ r \<and> int_value v \<le> u32_max"
proof -
  from assms obtain h where h: "v = VInt h" "b = h @ r" "length h = 4"
    by (auto simp: TpmUint32_def tpm_int_def TpmWireBytes_cast_prefix_def
        TpmWireBytes_validate_prefix_def split_at_def split: if_splits)
  with from_be_bytes_less [of h] show ?thesis
    by (simp add: u32_max_def)
qed

lemma int_value_u32 [simp]: "n \<le> u32_max \<Longrightarrow> int_value (int_new 4 n) = n"
  by (simp add: int_new_def u32_max_def)

lemma cc_codec: "wire_codec TpmCc_codec"
  by (rule wire_field_codec [OF TpmCc_codec_ok])

lemma encode_Cc: "encode TpmCc_codec (VEnum (ECc cc)) = to_be_bytes 4 (nat (TpmCc_value cc))"
  by (rule encode_eqI [OF emits_Cc]) (simp_all add: TpmCc_codec_def tpm_enum_codec_def usize_max_def)

lemma unmarshal_policies_bytes:
  "\<forall>p \<in> set ps. policy_ok p \<and> length (policy_body p) \<le> u32_max \<Longrightarrow>
   unmarshal_policies (length ps) (concat (map policy_bytes ps) @ r) = Ok (ps, r)"
proof (induction ps)
  case (Cons p ps)
  have "unmarshal TpmCc_codec (to_be_bytes 4 (nat (TpmCc_value (policy_cc p))) @ t) =
      Ok (VEnum (ECc (policy_cc p)), t)" for t
    using codec_dec_enc [OF cc_codec, of "VEnum (ECc (policy_cc p))" t]
    by (simp add: TpmCc_codec_valid encode_Cc)
  with Cons show ?case
    by (simp add: policy_bytes_def u32_unmarshal Let_def policy_ok_def del: and_then_Ok_iff)
qed simp

lemma policy_list_roundtrip:
  "\<lbrakk>length ps \<le> MAX_POLICY_COUNT; \<forall>p \<in> set ps. policy_ok p \<and> length (policy_body p) \<le> u32_max\<rbrakk> \<Longrightarrow>
   vtpm_unmarshal_policy_list (policy_list_bytes ps @ r) = Ok (ps, r)"
  using unmarshal_policies_bytes [of ps r]
  by (simp add: vtpm_unmarshal_policy_list_def policy_list_bytes_def u32_unmarshal MAX_POLICY_COUNT_def
      u32_max_def Let_def del: and_then_Ok_iff)

lemma policy_list_too_many:
  "\<lbrakk>MAX_POLICY_COUNT < length ps; length ps \<le> u32_max\<rbrakk> \<Longrightarrow>
   vtpm_unmarshal_policy_list (policy_list_bytes ps @ r) = Err (Vtpm_TooManyPolicies (length ps))"
  by (simp add: vtpm_unmarshal_policy_list_def policy_list_bytes_def u32_unmarshal Let_def del: and_then_Ok_iff)

lemma unmarshal_policies_not_Panic: "unmarshal_policies n b \<noteq> Panic"
proof (induction n arbitrary: b)
  case (Suc n)
  have "unmarshal TpmCc_codec b \<noteq> Panic" "unmarshal TpmUint32 b \<noteq> Panic" for b
    using codec_dec_no_panic [OF cc_codec] codec_dec_no_panic [OF wire_field_codec [OF TpmUint32_ok]] by auto
  with Suc show ?case
    by (auto simp: and_then_Panic_iff Let_def from_parts_not_Panic split: if_splits)
qed simp

subsection \<open>Capturing a command frame\<close>

lemma unmarshalled_frame:
  assumes row: "(v, cmd, resp) \<in> set dispatch_rows" and ok: "TpmCommand_unmarshal cmd f = Ok b"
  obtains tag auth where "command_frame cmd tag (body_handle_bytes b) auth (body_param_bytes cmd b) f"
    "TpmCommand_validate f = Ok ()"
proof -
  have valid: "TpmCommand_validate f = Ok ()"
    using ok by (auto simp: TpmCommand_unmarshal_def)
  then obtain v' cmd' resp' tag hb auth pb where
    row': "(v', cmd', resp') \<in> set dispatch_rows" and frame: "command_frame cmd' tag hb auth pb f"
    unfolding TpmCommand_validate_iff by blast
  have "f_CC cmd' = f_CC cmd"
    using ok by (auto simp: TpmCommand_unmarshal_def command_frame_accessors [OF row' frame] split: if_splits)
  then have "cmd' = cmd"
    using row_unique [OF row' row] by simp
  with frame have frame: "command_frame cmd tag hb auth pb f" by simp
  then have "unmarshal_body cmd hb pb = Ok b"
    using ok TpmCommand_unmarshal_frame [OF row frame valid] by simp
  with frame valid that show thesis
    unfolding unmarshal_body_Ok_iff [OF row_ok(1) [OF row]] by blast
qed

lemma policy_secret_row:
  "(''PolicySecret'', TpmPolicySecretCommand, TpmPolicySecretResponse) \<in> set dispatch_rows"
  by (simp add: dispatch_rows_def)

lemma captured_frame:
  assumes row: "(v, cmd, resp) \<in> set dispatch_rows" and ok: "TpmCommand_unmarshal cmd f = Ok b"
  shows "vtpm_policy_command_from f name =
    (if policy_parameters (f_CC cmd) \<noteq> None
     then Ok (VtpmPolicyDefaultCommand (f_CC cmd) (body_param_bytes cmd b))
     else if f_CC cmd = Cc_PolicySecret then vtpm_policy_secret_from_command f name
     else if f_CC cmd \<in> set empty_ccs then Ok (VtpmPolicyDefaultCommand (f_CC cmd) [])
     else Err (Vtpm_InvalidCc (f_CC cmd)))"
proof -
  from unmarshalled_frame [OF row ok] obtain tag auth where
    frame: "command_frame cmd tag (body_handle_bytes b) auth (body_param_bytes cmd b) f"
    and valid: "TpmCommand_validate f = Ok ()" .
  note acc = command_frame_accessors [OF row frame]
  have "TpmCommandView_cast f = Ok (v, f)"
    using variant_of_row [OF row] by (simp add: TpmCommandView_cast_def valid acc)
  then show ?thesis
    by (simp add: vtpm_policy_command_from_def acc vtpm_marshal_command_parameters_def)
qed

lemma policy_row_params:
  assumes row: "(v, cmd, resp) \<in> set dispatch_rows"
    and fs: "policy_parameters (f_CC cmd) = Some fs \<or> f_CC cmd \<in> set empty_ccs \<and> fs = []"
  shows "f_params cmd = fs"
proof -
  from fs obtain v' cmd' resp' where r: "(v', cmd', resp') \<in> set dispatch_rows" "cmd' = Command (f_CC cmd) 1 fs"
    by (rule policy_row)
  then have "cmd' = cmd"
    using row_unique [OF r(1) row] by simp
  with r(2) show ?thesis by (metis decl_simps(3))
qed

lemma captured_default:
  assumes row: "(v, cmd, resp) \<in> set dispatch_rows" and ok: "TpmCommand_unmarshal cmd f = Ok b"
    and got: "vtpm_policy_command_from f name = Ok p" and cc: "f_CC cmd \<noteq> Cc_PolicySecret"
  shows "policy_cc p = f_CC cmd \<and>
    to_command p = Ok (f_CC cmd, \<lparr>b_handles = [ZERO_HANDLE], b_params = b_params b\<rparr>)"
proof -
  have valid: "fields_valid (f_params cmd) (b_params b)"
    using TpmCommand_unmarshal_sound [OF row ok] by (simp add: body_valid_def)
  from got cc obtain fs where
    fs: "policy_parameters (f_CC cmd) = Some fs \<or> f_CC cmd \<in> set empty_ccs \<and> fs = []"
    and p: "p = VtpmPolicyDefaultCommand (f_CC cmd) (if f_CC cmd \<in> set empty_ccs then [] else body_param_bytes cmd b)"
    unfolding captured_frame [OF row ok] by (fastforce split: if_splits)
  note params = policy_row_params [OF row fs]
  show ?thesis
  proof (cases "f_CC cmd \<in> set empty_ccs")
    case True
    with fs have "fs = []" by simp
    with valid params have "b_params b = []"
      by (cases "b_params b") simp_all
    with True show ?thesis by (simp add: p to_command_def)
  next
    case False
    with fs have "policy_parameters (f_CC cmd) = Some fs" by simp
    moreover from this have "unmarshal_parts fs (body_param_bytes cmd b) = Ok (b_params b, [])"
      using valid params unmarshal_parts_iff [OF policy_parameter_codecs]
      by (simp add: body_param_bytes_def)
    ultimately show ?thesis using False by (simp add: p to_command_def)
  qed
qed

lemma captured_secret:
  assumes ok: "TpmCommand_unmarshal TpmPolicySecretCommand f = Ok b"
    and got: "vtpm_policy_command_from f name = Ok p"
  shows "\<exists>h s n c r x. b = \<lparr>b_handles = [h, s], b_params = [n, c, r, x]\<rparr> \<and>
    p = VtpmPolicySecretCommand h name r"
proof -
  have cc: "f_CC TpmPolicySecretCommand = Cc_PolicySecret"
    by (simp add: TpmPolicySecretCommand_def)
  have "vtpm_policy_secret_from_command f name = Ok p"
    using got captured_frame [OF policy_secret_row ok] by (simp add: cc)
  then show ?thesis
    by (cases b) (auto simp: vtpm_policy_secret_from_command_def ok split: list.splits)
qed

end
