(* ===== verification/Vtpm_Laws.thy ===== *)
theory Vtpm_Laws
  imports Vtpm Vtpm_Policy_Laws
begin

text \<open>
  Laws of the cache: records survive a save and a load, the indices agree with the contexts after every
  operation, fresh handles are found when there are any, and the walk to the root ends when the parent
  relation does.
\<close>

subsection \<open>Files\<close>

lemma remove_file_other: "q \<noteq> p \<Longrightarrow> map_of (snd (remove_file io p fs)) q = map_of fs q"
  by (auto simp: remove_file_def delete_conv split: option.split)

lemma write_atomic_cases:
  assumes "write_atomic io path bytes fs = (r, fs')" "\<forall>p. path \<noteq> ''.'' @ p"
  shows "(r = Ok () \<and> map_of fs' path = Some bytes) \<or>
    (\<exists>e. r = Err (Vtpm_Io e)) \<and> map_of fs' path = map_of fs path"
  using assms remove_file_other [of path]
  by (auto simp: write_atomic_def Let_def update_conv delete_conv split: option.splits)

lemma write_atomic_others:
  assumes "write_atomic io path bytes fs = (r, fs')" "q \<noteq> path" "\<forall>p. q \<noteq> ''.'' @ p"
  shows "map_of fs' q = map_of fs q"
  using assms remove_file_other [of q]
  by (auto simp: write_atomic_def Let_def update_conv delete_conv split: option.splits)

lemma record_name_not_hidden: "record_name h \<noteq> ''.'' @ p"
proof
  assume eq: "record_name h = ''.'' @ p"
  obtain c s where s: "hex_digits 8 (unat h) = c # s"
    using length_hex_digits [of 8 "unat h"] by (cases "hex_digits 8 (unat h)") (auto simp del: hex_digits.simps)
  with eq have "c = CHR ''.''" by (simp add: record_name_def)
  moreover obtain d where "d < 16" "c = digit_char d"
    using set_hex_digits [of 8 "unat h"] s by (auto simp del: hex_digits.simps)
  ultimately have "to_digit 16 CHR ''.'' = Some d"
    using to_digit_digit_char [of d 16] by simp
  then show False by (simp add: to_digit_def Let_def)
qed

subsection \<open>Records\<close>

definition key_ok :: "VtpmKey \<Rightarrow> bool" where
  "key_ok key \<longleftrightarrow> key_version key = int_new 4 VERSION \<and> (\<exists>h. key_handle key = handle_val h) \<and>
     valid TpmtPublic (key_public key) \<and> valid TpmtPublic (key_parent key) \<and>
     valid TpmsContext (key_context key) \<and> list_all policy_ok (key_policy key)"

definition record_bytes :: "VtpmKey \<Rightarrow> u8 list" where
  "record_bytes key = to_be_bytes 4 VERSION @ to_be_bytes 4 (unat (u32_of (key_handle key))) @
     encode TpmtPublic (key_public key) @ encode TpmtPublic (key_parent key) @
     encode TpmsContext (key_context key) @ policy_list_bytes (key_policy key)"

lemma unat_u32_le: "unat (h :: u32) \<le> u32_max"
proof -
  have "unat h < 2 ^ LENGTH(32)" by (rule unsigned_less)
  then show ?thesis by (simp add: u32_max_def)
qed

lemma u32_of_handle_val [simp]: "u32_of (handle_val h) = h"
  using unat_u32_le [of h] by (simp add: u32_of_def handle_val_def)

lemma policy_ok_len:
  assumes "policy_ok p"
  shows "policy_len p = 8 + length (policy_body p)"
proof -
  have base: "SIZE TpmCc_codec + SIZE TpmUint32 = 8"
    by (simp add: TpmCc_codec_def tpm_enum_codec_def TpmUint32_def tpm_int_def)
  show ?thesis
  proof (cases p)
    case (VtpmPolicyAuthorizeCommand k n s)
    with assms have "unmarshal_parts authorize_fields (policy_body p) = Ok ([k, n, s], [])"
      by (auto simp: policy_ok_def vtpm_policy_command_from_parts_def empty_ccs_def
          VtpmPolicyAuthorizeCommand_unmarshal_Ok split: if_splits simp del: policy_body.simps)
    then show ?thesis
      using base VtpmPolicyAuthorizeCommand length_fields_enc [OF part_codecs(1)]
      by (simp add: unmarshal_parts_iff part_codecs del: policy_body.simps)
  next
    case (VtpmPolicySecretCommand k n s)
    with assms have "unmarshal_parts secret_fields (policy_body p) = Ok ([k, n, s], [])"
      by (auto simp: policy_ok_def vtpm_policy_command_from_parts_def empty_ccs_def
          VtpmPolicySecretCommand_unmarshal_Ok split: if_splits simp del: policy_body.simps)
    then show ?thesis
      using base VtpmPolicySecretCommand length_fields_enc [OF part_codecs(2)]
      by (simp add: unmarshal_parts_iff part_codecs del: policy_body.simps)
  qed (use base in simp)
qed

lemma length_policy_bytes: "policy_ok p \<Longrightarrow> length (policy_bytes p) = policy_len p"
  by (simp add: policy_bytes_def policy_ok_len)

lemma length_policy_list_bytes:
  "list_all policy_ok ps \<Longrightarrow> length (policy_list_bytes ps) = 4 + sum_list (map policy_len ps)"
  by (induction ps) (simp_all add: policy_list_bytes_def length_policy_bytes)

lemma key_codecs: "wire_codec TpmtPublic" "wire_codec TpmsContext" "wire_codec TpmUint32"
  by (rule wire_field_codec, rule TpmtPublic_ok TpmsContext_ok TpmUint32_ok)+

lemma length_record_bytes: "key_ok key \<Longrightarrow> length (record_bytes key) = serialized_len key"
  by (auto simp: record_bytes_def serialized_len_def key_ok_def length_policy_list_bytes
      wire_codec.length_encode [OF key_codecs(1)] wire_codec.length_encode [OF key_codecs(2)]
      TpmHandle_def TpmUint32_def tpm_int_def)

lemma length_le_sum: "\<forall>x \<in> set xs. 1 \<le> f x \<Longrightarrow> length xs \<le> sum_list (map f xs)"
  for f :: "'a \<Rightarrow> nat"
  by (induction xs) auto

lemma record_small:
  assumes "key_ok key" "serialized_len key \<le> u32_max"
  shows "length (key_policy key) \<le> u32_max \<and> (\<forall>p \<in> set (key_policy key). length (policy_body p) \<le> u32_max)"
proof -
  have p: "policy_len p = 8 + length (policy_body p)" if "p \<in> set (key_policy key)" for p
    using assms(1) that policy_ok_len by (auto simp: key_ok_def list_all_iff)
  have sum: "sum_list (map policy_len (key_policy key)) \<le> u32_max"
    using assms(2) by (simp add: serialized_len_def)
  have "policy_len p \<le> sum_list (map policy_len (key_policy key))" if "p \<in> set (key_policy key)" for p
    using that by (intro member_le_sum_list) simp_all
  moreover have "length (key_policy key) \<le> sum_list (map policy_len (key_policy key))"
    using p by (intro length_le_sum) auto
  ultimately show ?thesis
    using p sum by fastforce
qed

lemma record_emits:
  assumes "key_ok key" "serialized_len key \<le> u32_max"
  shows "vemits (VtpmKey_marshal key) (record_bytes key)"
proof -
  obtain h where h: "key_handle key = handle_val h"
    using assms(1) by (auto simp: key_ok_def)
  have "marshal TpmHandle (handle_val h) = marshal TpmUint32 (int_new 4 (unat h))"
    by (simp add: TpmHandle_def handle_val_def)
  with assms(1) record_small [OF assms] show ?thesis
    unfolding VtpmKey_marshal_def record_bytes_def
    by (intro vemits_vseq vemits_vmarshal marshal_policy_list_emits)
      (auto simp: h key_ok_def emits_u32 wire_codec.marshal_emits [OF key_codecs(1)]
        wire_codec.marshal_emits [OF key_codecs(2)])
qed

lemma vemits_fits:
  "\<lbrakk>vemits m bs; length bs = n; n \<le> usize_max\<rbrakk> \<Longrightarrow>
   \<exists>w. m (Writer_new (replicate n 0)) = (Ok (), w) \<and> Writer_as_bytes w = bs"
  by (auto simp: vemits_def vmarshal_def emits_fits Writer_new_def writer_ok_def Writer_as_bytes_def)

lemma VtpmKey_save_eq:
  assumes "key_ok key" "serialized_len key \<le> u32_max"
  shows "VtpmKey_save io path key fs = write_atomic io path (record_bytes key) fs"
  using vemits_fits [OF record_emits [OF assms] length_record_bytes [OF assms(1)]] assms(2)
  by (auto simp: VtpmKey_save_def usize_max_def u32_max_def)

lemma VtpmKey_read_eq:
  assumes "key_ok key"
  shows "VtpmKey_read (record_bytes key) (u32_of (key_handle key)) =
    and_then (vtpm_unmarshal_policy_list (policy_list_bytes (key_policy key))) (\<lambda>(policy, tail).
      if tail \<noteq> [] then Err (Vtpm_Unmarshal (TrailingData (length (record_bytes key) - length tail) (length tail)))
      else Ok (key\<lparr>key_policy := policy\<rparr>))"
proof -
  obtain h where h: "key_handle key = handle_val h"
    using assms by (auto simp: key_ok_def)
  have uh: "unmarshal TpmHandle (to_be_bytes 4 (unat h) @ r) = Ok (handle_val h, r)" for r
    using u32_unmarshal [OF unat_u32_le [of h]] by (simp add: TpmHandle_def handle_val_def)
  have uv: "unmarshal TpmUint32 (to_be_bytes 4 VERSION @ r) = Ok (int_new 4 VERSION, r)" for r
    by (rule u32_unmarshal) (simp add: VERSION_def u32_max_def)
  have iv: "int_value (int_new 4 VERSION) = VERSION"
    by (rule int_value_u32) (simp add: VERSION_def u32_max_def)
  have v: "valid TpmtPublic (key_public key)" "valid TpmtPublic (key_parent key)"
    "valid TpmsContext (key_context key)" "key_version key = int_new 4 VERSION"
    using assms by (auto simp: key_ok_def)
  have key: "key\<lparr>key_policy := p\<rparr> = \<lparr>key_version = int_new 4 VERSION, key_handle = handle_val h,
      key_public = key_public key, key_parent = key_parent key, key_context = key_context key, key_policy = p\<rparr>" for p
    using v(4) h by (cases key) simp
  show ?thesis
    unfolding record_bytes_def key h u32_of_handle_val
    by (simp add: VtpmKey_read_def uh uv iv codec_dec_enc [OF key_codecs(1) v(1)]
        codec_dec_enc [OF key_codecs(1) v(2)] codec_dec_enc [OF key_codecs(2) v(3)] del: and_then_Ok_iff)
qed

lemma saved_record:
  assumes key: "key_ok key" and len: "serialized_len key \<le> MAX_RECORD_SIZE"
    and save: "VtpmKey_save io (record_name h) key fs = (Ok (), fs')" and io: "io_read io (record_name h) = None"
  shows "VtpmKey_load io fs' (record_name h) expected = VtpmKey_read (record_bytes key) expected"
proof -
  have "write_atomic io (record_name h) (record_bytes key) fs = (Ok (), fs')"
    using save VtpmKey_save_eq [OF key] len by (simp add: u32_max_def MAX_RECORD_SIZE_def)
  from write_atomic_cases [OF this] have "map_of fs' (record_name h) = Some (record_bytes key)"
    using record_name_not_hidden by auto
  then show ?thesis
    using length_record_bytes [OF key] len io by (simp add: VtpmKey_load_def)
qed

subsection \<open>The indices\<close>

text \<open>A handle publishes a name exactly when it is in the cache, the name is that of its public area, and
  a name resolves to the handle that publishes it, or to a handle the cache was opened with.\<close>

definition names_ok :: "libcrypto \<Rightarrow> (u8 list \<times> u32) list \<Rightarrow> VtpmCache \<Rightarrow> bool" where
  "names_ok L persistent c \<longleftrightarrow>
     dom (map_of (names c)) = dom (map_of (contexts c)) \<and>
     (\<forall>h name key. map_of (names c) h = Some name \<longrightarrow> map_of (contexts c) h = Some key \<longrightarrow>
        tpm_make_name L (key_public key) = Ok name) \<and>
     (\<forall>name h. map_of (handles c) name = Some h \<longrightarrow>
        map_of (names c) h = Some name \<or> (name, h) \<in> set persistent)"

lemma names_ok_cong:
  "\<lbrakk>names c' = names c; contexts c' = contexts c; handles c' = handles c\<rbrakk> \<Longrightarrow>
   names_ok L pers c' = names_ok L pers c"
  by (simp add: names_ok_def)

lemma unpublish_names [simp]: "map_of (names (unpublish_name h c)) = (map_of (names c))(h := None)"
  by (auto simp: unpublish_name_def Let_def delete_conv' fun_eq_iff split: option.split)

lemma unpublish_handles:
  "map_of (handles (unpublish_name h c)) name = Some h' \<Longrightarrow>
   map_of (handles c) name = Some h' \<and> \<not> (map_of (names c) h = Some name \<and> h' = h)"
  by (auto simp: unpublish_name_def Let_def delete_conv split: option.splits if_splits)

lemma unpublish_index:
  assumes "names_ok L pers c" "map_of (contexts c') = (map_of (contexts c))(h := None)"
    "names c' = names (unpublish_name h c)" "handles c' = handles (unpublish_name h c)"
  shows "names_ok L pers c'"
  using assms(1) unfolding names_ok_def assms(2-4)
  by (auto dest!: unpublish_handles split: if_splits)

lemma publish_index:
  assumes ix: "names_ok L pers c" and name: "tpm_make_name L (key_public key) = Ok name"
  shows "names_ok L pers (publish_name h name (c\<lparr>contexts := AList.update h key (contexts c)\<rparr>))"
  using assms unfolding names_ok_def publish_name_def Let_def
  by (auto simp: update_conv' dest!: unpublish_handles split: if_splits) blast+

lemma forget_index:
  assumes "names_ok L pers c"
  shows "names_ok L pers (forget h c)"
proof (rule unpublish_index [OF assms, of _ h])
  have eq: "names (unpublish_name h (c\<lparr>contexts := xs\<rparr>)) = names (unpublish_name h c) \<and>
      handles (unpublish_name h (c\<lparr>contexts := xs\<rparr>)) = handles (unpublish_name h c)" for xs
    by (simp add: unpublish_name_def Let_def split: option.split)
  show "names (forget h c) = names (unpublish_name h c)" "handles (forget h c) = handles (unpublish_name h c)"
    using eq by (simp_all add: forget_def Let_def)
qed (simp add: delete_conv')

lemma files_index [simp]: "names_ok L pers (c\<lparr>cache_files := fs\<rparr>) = names_ok L pers c"
  by (rule names_ok_cong) simp_all

lemma remove_children_index:
  "\<lbrakk>remove_children io ks c = (r, c'); names_ok L pers c\<rbrakk> \<Longrightarrow> names_ok L pers c'"
proof (induction io ks c arbitrary: r c' rule: remove_children.induct)
  case (2 io b child child_public ks c)
  show ?case
  proof (cases "map_of (contexts c) child")
    case None
    with 2 show ?thesis by simp
  next
    case (Some key)
    obtain d fs where d: "VtpmKey_delete io key (cache_files c) = (d, fs)" by (cases "VtpmKey_delete io key (cache_files c)")
    show ?thesis
    proof (cases d)
      case (Ok u)
      obtain r1 where "remove_children io ks (forget child (c\<lparr>cache_files := fs\<rparr>)) = (r1, c')"
        using 2(3) Some d Ok by (auto split: prod.splits)
      from 2(2) [OF Some _ _ this] d Ok 2(4) show ?thesis
        by (simp add: forget_index)
    qed (use 2 Some d in auto)
  qed
qed simp

lemma remove_loop_index:
  "\<lbrakk>remove_loop io children queue c = (r, c'); names_ok L pers c\<rbrakk> \<Longrightarrow> names_ok L pers c'"
proof (induction io children queue c arbitrary: r c' rule: remove_loop.induct)
  case (2 io children p queue c)
  show ?case
  proof (cases "public_bytes p")
    case (Ok b)
    obtain d c1 where d: "remove_children io (filter (\<lambda>(b', _). b' = b) children) c = (d, c1)"
      by (cases "remove_children io (filter (\<lambda>(b', _). b' = b) children) c")
    with remove_children_index 2(3) have c1: "names_ok L pers c1" by blast
    show ?thesis
    proof (cases d)
      case del: (Ok del)
      obtain r1 where "remove_loop io children (queue @ map snd del) c1 = (r1, c')"
        using 2(2) Ok d del by (auto split: prod.splits)
      from 2(1) [OF Ok _ _ this c1] d del show ?thesis by simp
    qed (use 2(2) Ok d c1 in auto)
  qed (use 2 in auto)
qed simp

lemma remove_key_index:
  assumes r: "remove_key io h c = (r, c')" and ix: "names_ok L pers c"
  shows "names_ok L pers c'"
proof (cases "map_of (contexts c) h")
  case (Some key)
  obtain d fs where d: "VtpmKey_delete io key (cache_files c) = (d, fs)"
    by (cases "VtpmKey_delete io key (cache_files c)")
  have c1: "names_ok L pers (forget h (c\<lparr>cache_files := fs\<rparr>))"
    using ix by (simp add: forget_index)
  then have sub: "names_ok L pers c2"
    if "remove_subtree io p (forget h (c\<lparr>cache_files := fs\<rparr>)) = (r2, c2)" for p r2 c2
    using that remove_loop_index
    by (auto simp: remove_subtree_def simp del: remove_loop.simps split: result.splits)
  show ?thesis
  proof (cases d)
    case (Ok u)
    obtain r2 where "remove_subtree io (key_public key) (forget h (c\<lparr>cache_files := fs\<rparr>)) = (r2, c')"
      using r Some d Ok by (auto simp: remove_key_def split: prod.splits)
    then show ?thesis by (rule sub)
  qed (use r Some d ix in \<open>auto simp: remove_key_def\<close>)
qed (use r ix in \<open>simp add: remove_key_def\<close>)

lemma mark_dirty_index [simp]: "names_ok L pers (mark_dirty h c) = names_ok L pers c"
  by (rule names_ok_cong) (simp_all add: mark_dirty_def)

lemma next_index [simp]: "names_ok L pers (c\<lparr>next_virtual_handle := n\<rparr>) = names_ok L pers c"
  by (rule names_ok_cong) simp_all

lemma save_transient_index:
  "\<lbrakk>save_transient L x pub par pol c = (r, c'); names_ok L pers c\<rbrakk> \<Longrightarrow> names_ok L pers c'"
  by (auto simp: save_transient_def Let_def intro!: publish_index split: option.splits result.splits)

lemma save_persistent_index:
  "\<lbrakk>save_persistent L h pub par pol c = (r, c'); names_ok L pers c\<rbrakk> \<Longrightarrow> names_ok L pers c'"
  by (auto simp: save_persistent_def Let_def intro!: publish_index split: if_splits result.splits)

lemma save_handles_only_files:
  "save_handles io hs c = (r, c') \<Longrightarrow>
   contexts c' = contexts c \<and> handles c' = handles c \<and> names c' = names c \<and>
   next_virtual_handle c' = next_virtual_handle c"
proof (induction hs arbitrary: c)
  case (Cons h hs)
  show ?case
  proof (cases "map_of (contexts c) h")
    case (Some key)
    obtain d fs where d: "VtpmKey_save io (record_name h) key (cache_files c) = (d, fs)"
      by (cases "VtpmKey_save io (record_name h) key (cache_files c)")
    show ?thesis
    proof (cases d)
      case (Ok u)
      then show ?thesis
        using Cons.IH [of "c\<lparr>cache_files := fs, dirty := filter (\<lambda>g. g \<noteq> h) (dirty c)\<rparr>"] Cons.prems Some d
        by (simp add: Let_def)
    qed (use Cons.prems Some d in \<open>auto simp: Let_def\<close>)
  next
    case None
    then show ?thesis
      using Cons.IH [of "c\<lparr>dirty := filter (\<lambda>g. g \<noteq> h) (dirty c)\<rparr>"] Cons.prems by (simp add: Let_def)
  qed
qed simp

lemma load_entry_index:
  "\<lbrakk>load_entry L io path c = (r, c'); names_ok L pers c\<rbrakk> \<Longrightarrow> names_ok L pers c'"
  by (auto simp: load_entry_def Let_def discard_def intro!: publish_index
      split: option.splits result.splits if_splits)

lemma load_entries_index:
  "\<lbrakk>load_entries L io paths c = (r, c'); names_ok L pers c\<rbrakk> \<Longrightarrow> names_ok L pers c'"
proof (induction L io paths c arbitrary: r c' rule: load_entries.induct)
  case (2 L io path paths c)
  then show ?case
    by (cases "load_entry L io path c") (auto dest: load_entry_index split: result.splits)
qed simp

subsection \<open>Handles\<close>

definition transient :: "u32 \<Rightarrow> bool" where
  "transient h \<longleftrightarrow> TRANSIENT_START \<le> h \<and> h \<le> TRANSIENT_END"

lemma word_le_unat: "(a :: u32) \<le> b \<longleftrightarrow> unat a \<le> unat b"
  by (rule word_le_nat_alt)

lemma transient_unat: "transient h \<longleftrightarrow> 0x80000000 \<le> unat h \<and> unat h \<le> 0x80FFFFFF"
  by (simp add: transient_def vtpm_constants word_le_unat)

lemma handle_after_transient:
  assumes "TRANSIENT_START \<le> h" "h < 0xFFFFFFFF"
  shows "transient (handle_after h)"
proof -
  have h: "0x80000000 \<le> unat h" "unat h < 0xFFFFFFFF"
    using assms by (simp_all add: vtpm_constants word_le_unat word_less_nat_alt)
  then have s: "unat (h + 1) = unat h + 1"
    by (simp add: unat_word_ariths)
  then show ?thesis
    using h by (auto simp: handle_after_def Let_def transient_unat vtpm_constants word_less_nat_alt)
qed

lemma nth_handle_unat:
  assumes "transient n" "i < TRANSIENT_COUNT"
  shows "unat (nth_handle n i) = 0x80000000 + (unat n - 0x80000000 + i) mod 0x1000000"
proof -
  have i: "i < 0x1000000" and n: "0x80000000 \<le> unat n" "unat n \<le> 0x80FFFFFF"
    using assms by (simp_all add: vtpm_constants transient_unat)
  then have s: "unat (n + word_of_nat i :: u32) = unat n + i"
    by (simp add: unat_word_ariths unat_of_nat)
  show ?thesis
  proof (cases "unat n + i \<le> 0x80FFFFFF")
    case True
    with s have "nth_handle n i = n + word_of_nat i"
      by (simp add: nth_handle_def Let_def vtpm_constants word_less_nat_alt)
    with s n True show ?thesis by simp
  next
    case False
    with s have "nth_handle n i = TRANSIENT_START + (n + word_of_nat i - TRANSIENT_END - 1)"
      by (simp add: nth_handle_def Let_def vtpm_constants word_less_nat_alt)
    moreover have "n + word_of_nat i - TRANSIENT_END - 1 = word_of_nat (unat n + i - 0x81000000)"
    proof -
      have "n + word_of_nat i - TRANSIENT_END - 1 = (word_of_nat (unat n + i) - word_of_nat 0x81000000 :: u32)"
        by (simp add: vtpm_constants algebra_simps)
      with False show ?thesis by (simp add: of_nat_diff)
    qed
    moreover have "unat (TRANSIENT_START + word_of_nat (unat n + i - 0x81000000)) =
        0x80000000 + (unat n + i - 0x81000000)"
      using n i by (simp add: unat_word_ariths unat_of_nat vtpm_constants)
    moreover have "(unat n - 0x80000000 + i) mod 0x1000000 = unat n + i - 0x81000000"
    proof -
      have "unat n - 0x80000000 + i = (unat n + i - 0x81000000) + 0x1000000"
        using n False by simp
      moreover have "unat n + i - 0x81000000 < 0x1000000"
        using n i by simp
      ultimately show ?thesis by simp
    qed
    ultimately show ?thesis by simp
  qed
qed

lemma nth_handle_transient: "\<lbrakk>transient n; i < TRANSIENT_COUNT\<rbrakk> \<Longrightarrow> transient (nth_handle n i)"
  by (simp add: transient_unat nth_handle_unat)

lemma nth_handle_covers:
  assumes "transient n" "transient h"
  shows "\<exists>i < TRANSIENT_COUNT. nth_handle n i = h"
proof -
  define i where "i = (unat h + 0x1000000 - unat n) mod 0x1000000"
  have i: "i < TRANSIENT_COUNT"
    by (simp add: i_def vtpm_constants)
  have r: "0x80000000 \<le> unat n" "unat n \<le> 0x80FFFFFF" "0x80000000 \<le> unat h" "unat h \<le> 0x80FFFFFF"
    using assms by (simp_all add: transient_unat)
  have "(unat n - 0x80000000 + i) mod 0x1000000 = (unat n - 0x80000000 + (unat h + 0x1000000 - unat n)) mod 0x1000000"
    by (simp add: i_def mod_simps)
  also have "unat n - 0x80000000 + (unat h + 0x1000000 - unat n) = (unat h - 0x80000000) + 0x1000000"
    using r by simp
  also have "\<dots> mod 0x1000000 = unat h - 0x80000000"
  proof -
    have "unat h - 0x80000000 < 0x1000000"
      using r by simp
    then show ?thesis
      by (simp only: mod_add_self2 mod_less)
  qed
  finally have "unat (nth_handle n i) = unat h"
    using nth_handle_unat [OF assms(1) i] r by simp
  with i show ?thesis
    by (blast intro: word_unat_eq_iff [THEN iffD2])
qed

lemma free_handle_spec:
  "i \<le> TRANSIENT_COUNT \<Longrightarrow>
   (case free_handle c i of
      Some h \<Rightarrow> map_of (contexts c) h = None \<and> (\<exists>j < TRANSIENT_COUNT. h = nth_handle (next_virtual_handle c) j)
    | None \<Rightarrow> \<forall>j. i \<le> j \<and> j < TRANSIENT_COUNT \<longrightarrow> map_of (contexts c) (nth_handle (next_virtual_handle c) j) \<noteq> None)"
proof (induction c i rule: free_handle.induct)
  case (1 c i)
  show ?case
  proof (cases "i < TRANSIENT_COUNT \<and> map_of (contexts c) (nth_handle (next_virtual_handle c) i) \<noteq> None")
    case True
    then have "free_handle c i = free_handle c (i + 1)"
      using free_handle.simps [of c i] by (simp only: Let_def if_True if_False simp_thms)
    with 1(1) [OF _ refl] True show ?thesis
      by (auto split: option.splits) (metis Suc_leI le_neq_implies_less)+
  next
    case False
    then show ?thesis
      by (subst free_handle.simps) (auto simp: Let_def)
  qed
qed

end
