(* ===== verification/Vtpm_State.thy ===== *)
theory Vtpm_State
  imports Vtpm_Laws
begin

text \<open>
  The caches a program can reach: opened from a directory and taken through the public operations in any
  order, with any outcome of the file operations.  Their invariant is proved by rule induction.  The second
  half follows the links between keys: upwards in \<open>fetch_ancestors\<close>, downwards in \<open>remove\<close>.
\<close>

subsection \<open>Loaded records\<close>

lemma policy_part_bounds:
  "bounded Tpm2bPublic 606" "bounded TpmtSignature 518" "bounded Tpm2bDigest 66" "bounded Tpm2bName 68"
proof -
  have "bounded TpmtPublic 604"
    unfolding bounded_def
  proof (intro allI impI)
    fix v assume v: "valid TpmtPublic v"
    then obtain t n a p q u where f: "v = VStruct [t, n, a, p, q, u]"
      "valid TpmAlgId_codec t" "valid TpmAlgId_codec n" "valid TpmaObject a" "valid Tpm2bDigest p"
      "u_valid TpmuPublicParms q" "matches_tag TpmuPublicParms q t"
      "u_valid TpmuPublicId u" "matches_tag TpmuPublicId u t"
      unfolding TpmtPublic_valid_iff by blast
    have "wire_len TpmtPublic v = wire_len TpmAlgId_codec t + wire_len TpmAlgId_codec n + wire_len TpmaObject a +
        wire_len Tpm2bDigest p + u_len TpmuPublicParms q + u_len TpmuPublicId u"
      by (simp add: f(1) TpmtPublic_def)
    moreover have "wire_len TpmAlgId_codec t \<le> 2" "wire_len TpmAlgId_codec n \<le> 2" "wire_len TpmaObject a \<le> 4"
      "wire_len Tpm2bDigest p \<le> 66"
      using f(2-5) wire_codec.len_le_SIZE [OF wire_field_codec [OF TpmAlgId_codec_ok]]
        wire_codec.len_le_SIZE [OF wire_field_codec [OF TpmaObject_ok]]
        wire_codec.len_le_SIZE [OF wire_field_codec [OF Tpm2bDigest_ok]]
      by fastforce+
    ultimately show "wire_len TpmtPublic v \<le> 604"
      using u_boundedD [OF TpmuPublicParms_bound f(6,7)] u_boundedD [OF TpmuPublicId_bound f(8,9)] by simp
  qed
  then show "bounded Tpm2bPublic 606"
    by (auto simp: bounded_def Tpm2bPublic_def tpm2b_struct_def)
  have "u_bounded TpmuSignature 516"
    unfolding TpmuSignature_def using TpmuSignature_bounds
    by (rule u_bounded_view [rotated]) (simp add: TpmuSignature_arms_def)
  moreover have "bounded TpmAlgId_codec 2"
    by (rule bounded_SIZE [OF wire_field_codec [OF TpmAlgId_codec_ok]]) simp
  ultimately show "bounded TpmtSignature 518"
    unfolding TpmtSignature_def by (intro bounded_tagged [of _ 2 _ 516]) simp_all
qed (simp_all add: bounded_SIZE [OF wire_field_codec [OF Tpm2bDigest_ok]]
    bounded_SIZE [OF wire_field_codec [OF Tpm2bName_ok]])

lemma parsed_policy_ok:
  assumes got: "vtpm_policy_command_from_parts cc body = Ok p"
  shows "policy_ok p"
proof -
  have small: "fields_len fs vs \<le> TPM_MAX_COMMAND_SIZE"
    if "fields_valid fs vs" "fs = authorize_fields \<or> fs = secret_fields" for fs vs
    using that fields_bounded [of authorize_fields "[606, 66, 518]" vs] fields_bounded [of secret_fields "[4, 68, 66]" vs]
    by (auto simp: authorize_fields_def secret_fields_def policy_part_bounds TPM_MAX_COMMAND_SIZE_def
        bounded_SIZE [OF wire_field_codec [OF TpmHandle_ok], of 4])
  have parts: "length body \<le> TPM_MAX_COMMAND_SIZE"
    if "unmarshal_parts fs body = Ok (vs, [])" "fs = authorize_fields \<or> fs = secret_fields" for fs vs
  proof -
    have "codecs_ok fs" using that(2) part_codecs by blast
    then show ?thesis
      using that(1) small [OF _ that(2), of vs] length_fields_enc [of fs vs] by (simp add: unmarshal_parts_iff)
  qed
  show ?thesis
  proof (cases "cc = Cc_PolicyAuthorize \<or> cc = Cc_PolicySecret")
    case True
    then have "\<exists>fs vs. unmarshal_parts fs body = Ok (vs, []) \<and> (fs = authorize_fields \<or> fs = secret_fields)"
      using got
      by (auto simp: vtpm_policy_command_from_parts_def empty_ccs_def VtpmPolicyAuthorizeCommand_unmarshal_Ok
          VtpmPolicySecretCommand_unmarshal_Ok split: if_splits)
    with parts show ?thesis
      using from_parts_policy_ok [OF got] by blast
  next
    case False
    then have "p = VtpmPolicyDefaultCommand cc body"
      using got by (auto simp: vtpm_policy_command_from_parts_def split: if_splits option.splits)
    with got show ?thesis by (simp add: policy_ok_def)
  qed
qed

lemma unmarshal_policies_ok: "unmarshal_policies n b = Ok (ps, r) \<Longrightarrow> list_all policy_ok ps"
proof (induction n arbitrary: b ps)
  case (Suc n)
  then show ?case
    by (auto simp: Let_def dest: parsed_policy_ok split: if_splits)
qed simp

lemma policy_list_ok: "vtpm_unmarshal_policy_list b = Ok (ps, r) \<Longrightarrow> list_all policy_ok ps"
  by (auto simp: vtpm_unmarshal_policy_list_def Let_def dest: unmarshal_policies_ok split: if_splits)

lemma u32_unmarshal_val:
  "unmarshal TpmUint32 b = Ok (v, r) \<Longrightarrow> v = int_new 4 (int_value v) \<and> int_value v \<le> u32_max"
proof -
  assume got: "unmarshal TpmUint32 b = Ok (v, r)"
  then obtain h where "v = VInt h" "length h = 4"
    by (auto simp: TpmUint32_def tpm_int_def TpmWireBytes_cast_prefix_def
        TpmWireBytes_validate_prefix_def split_at_def split: if_splits)
  with u32_unmarshal_Ok [OF got] show ?thesis by (simp add: int_new_def)
qed

lemma handle_val_of: "unmarshal TpmHandle b = Ok (v, r) \<Longrightarrow> v = handle_val (u32_of v)"
  using u32_unmarshal_val [of b v r]
  by (auto simp: TpmHandle_def handle_val_def u32_of_def unat_of_nat u32_max_def)

lemma VtpmKey_read_ok:
  assumes "VtpmKey_read b h = Ok key"
  shows "key_ok key \<and> u32_of (key_handle key) = h"
  using assms
  by (auto simp: VtpmKey_read_def key_ok_def codec_dec_iff [OF key_codecs(1)] codec_dec_iff [OF key_codecs(2)]
      dest!: u32_unmarshal_val handle_val_of policy_list_ok split: if_splits)

lemma VtpmKey_load_ok:
  "VtpmKey_load io fs path h = Ok key \<Longrightarrow> key_ok key \<and> u32_of (key_handle key) = h"
  by (auto simp: VtpmKey_load_def dest: VtpmKey_read_ok split: option.splits if_splits)

subsection \<open>The invariant\<close>

definition live_type :: "u32 \<Rightarrow> bool" where
  "live_type h \<longleftrightarrow> is_handle_type Ht_Transient h \<or> is_handle_type Ht_Persistent h"

text \<open>Every key is a well-formed record under its own handle, which is transient or persistent; handles
  are unique, the indices agree and the next handle is a transient one.\<close>

definition cache_ok :: "libcrypto \<Rightarrow> (u8 list \<times> u32) list \<Rightarrow> VtpmCache \<Rightarrow> bool" where
  "cache_ok L persistent c \<longleftrightarrow> names_ok L persistent c \<and> distinct (map fst (contexts c)) \<and>
     transient (next_virtual_handle c) \<and>
     (\<forall>h key. (h, key) \<in> set (contexts c) \<longrightarrow> key_ok key \<and> u32_of (key_handle key) = h \<and> live_type h)"

lemma handle_type_unat: "uint (handle_type h) = int (unat h div 0x1000000)"
proof -
  have h: "unat h < 2 ^ LENGTH(32)" by (rule unsigned_less)
  then have b: "unat h div 0x1000000 < 256" by simp
  have t: "take_bit 32 (unat h) = unat h"
    using h by (intro take_bit_nat_eq_self) simp
  have "unat (handle_type h) = take_bit 8 (drop_bit 24 (unat h))"
    by (simp add: handle_type_def unsigned_ucast_eq unsigned_drop_bit_eq t)
  also have "\<dots> = (unat h div 2 ^ 24) mod 2 ^ 8" by (simp only: take_bit_eq_mod drop_bit_eq_div)
  also have "\<dots> = unat h div 0x1000000" using b by simp
  finally show ?thesis by (simp only: uint_nat)
qed

lemma handle_type_range:
  "is_handle_type Ht_Transient h \<longleftrightarrow> 0x80000000 \<le> unat h \<and> unat h \<le> 0x80FFFFFF"
  "is_handle_type Ht_Persistent h \<longleftrightarrow> 0x81000000 \<le> unat h \<and> unat h \<le> 0x81FFFFFF"
  by (simp_all add: is_handle_type_def handle_type_unat del: of_nat_unat) linarith+

lemma transient_live [simp]: "transient h \<Longrightarrow> live_type h"
  by (simp add: live_type_def handle_type_range transient_unat)

lemma handle_after_live: "live_type h \<Longrightarrow> transient (handle_after h)"
proof (rule handle_after_transient)
  assume "live_type h"
  then have h: "0x80000000 \<le> unat h" "unat h \<le> 0x81FFFFFF"
    unfolding live_type_def handle_type_range by linarith+
  then show "TRANSIENT_START \<le> h"
    by (simp add: TRANSIENT_START_def word_le_unat)
  have e: "unat (0xFFFFFFFF :: u32) = 0xFFFFFFFF" by simp
  show "h < 0xFFFFFFFF"
    unfolding word_less_nat_alt e using h(2) by simp
qed

lemma cache_ok_index: "cache_ok L pers c \<Longrightarrow> names_ok L pers c"
  by (simp add: cache_ok_def)

lemma cache_ok_cong:
  "\<lbrakk>names c' = names c; contexts c' = contexts c; handles c' = handles c;
    next_virtual_handle c' = next_virtual_handle c\<rbrakk> \<Longrightarrow> cache_ok L pers c' = cache_ok L pers c"
  using names_ok_cong [of c' c L pers] by (simp add: cache_ok_def)

text \<open>What a removal may do to the invariant: it keeps some of the contexts.\<close>

lemma cache_ok_filter:
  assumes "cache_ok L pers c" "names_ok L pers c'" "contexts c' = filter P (contexts c)"
    "next_virtual_handle c' = next_virtual_handle c"
  shows "cache_ok L pers c'"
  using assms by (auto simp: cache_ok_def distinct_map_filter)

text \<open>What storing a key does.\<close>

lemma cache_ok_store:
  assumes c: "cache_ok L pers c" and name: "tpm_make_name L (key_public key) = Ok name"
    and key: "key_ok key" "u32_of (key_handle key) = h" "live_type h"
  shows "cache_ok L pers (publish_name h name (c\<lparr>contexts := AList.update h key (contexts c)\<rparr>))"
proof -
  have next_same: "next_virtual_handle (publish_name h name d) = next_virtual_handle d" for d
    by (simp add: publish_name_def unpublish_name_def Let_def split: option.split)
  have ctx_same: "contexts (publish_name h name d) = contexts d" for d
    by (simp add: publish_name_def Let_def)
  have "(h', key') \<in> set (AList.update h key xs) \<Longrightarrow> (h', key') = (h, key) \<or> (h', key') \<in> set xs" for h' key' xs
    by (induction xs) (auto split: if_splits)
  note upd = this
  have "key_ok key' \<and> u32_of (key_handle key') = h' \<and> live_type h'"
    if "(h', key') \<in> set (AList.update h key (contexts c))" for h' key'
    using upd [OF that] c key unfolding cache_ok_def by blast
  then show ?thesis
    using c publish_index [OF cache_ok_index [OF c] name]
    unfolding cache_ok_def next_same ctx_same by (simp add: distinct_update)
qed

subsection \<open>Reachable caches\<close>

text \<open>A save that fails leaves the cache, one that succeeds stores a key.\<close>

lemma save_transient_cases:
  assumes "save_transient L x pub par pol c = (r, c')"
  obtains (failed) "c' = c" "\<forall>h. r \<noteq> Ok h"
    | (saved) h key name where "r = Ok h" "free_handle c 0 = Some h" "tpm_make_name L pub = Ok name"
      "key = \<lparr>key_version = int_new 4 VERSION, key_handle = handle_val h, key_public = pub, key_parent = par,
         key_context = x, key_policy = (case pol of Some p \<Rightarrow> p | None \<Rightarrow> [])\<rparr>"
      "c' = (mark_dirty h (publish_name h name (c\<lparr>contexts := AList.update h key (contexts c)\<rparr>)))
         \<lparr>next_virtual_handle := handle_after h\<rparr>"
  using assms by (auto simp: save_transient_def Let_def split: option.splits result.splits)

lemma save_persistent_cases:
  assumes "save_persistent L h pub par pol c = (r, c')"
  obtains (failed) "c' = c" "r \<noteq> Ok ()"
    | (saved) key name where "r = Ok ()" "is_handle_type Ht_Persistent h" "tpm_make_name L pub = Ok name"
      "key = \<lparr>key_version = int_new 4 VERSION, key_handle = handle_val h, key_public = pub, key_parent = par,
         key_context = default_context, key_policy = (case pol of Some p \<Rightarrow> p | None \<Rightarrow> [])\<rparr>"
      "c' = mark_dirty h (publish_name h name (c\<lparr>contexts := AList.update h key (contexts c)\<rparr>))"
  using assms by (auto simp: save_persistent_def Let_def split: if_splits result.splits)

text \<open>What the types of the arguments promise.\<close>

definition key_args_ok :: "val \<Rightarrow> val \<Rightarrow> val \<Rightarrow> VtpmPolicyCommand list option \<Rightarrow> bool" where
  "key_args_ok ctx public parent policy \<longleftrightarrow> valid TpmsContext ctx \<and> valid TpmtPublic public \<and>
     valid TpmtPublic parent \<and> (case policy of Some ps \<Rightarrow> list_all policy_ok ps | None \<Rightarrow> True)"

inductive vtpm_step :: "libcrypto \<Rightarrow> VtpmCache \<Rightarrow> VtpmCache \<Rightarrow> bool" for L where
  step_save_transient:
    "\<lbrakk>key_args_ok ctx public parent policy; save_transient L ctx public parent policy c = (r, c')\<rbrakk> \<Longrightarrow>
     vtpm_step L c c'"
| step_save_persistent:
    "\<lbrakk>key_args_ok default_context public parent policy; save_persistent L h public parent policy c = (r, c')\<rbrakk> \<Longrightarrow>
     vtpm_step L c c'"
| step_remove: "remove_key io h c = (r, c') \<Longrightarrow> vtpm_step L c c'"
| step_flush: "flush io c = (r, c') \<Longrightarrow> vtpm_step L c c'"
| step_mark_dirty: "vtpm_step L c (mark_dirty h c)"

text \<open>Opened with a map of persistent handles, then any operations.\<close>

inductive vtpm_reachable :: "libcrypto \<Rightarrow> (u8 list \<times> u32) list \<Rightarrow> VtpmCache \<Rightarrow> bool" for L persistent where
  opened: "VtpmCache_new L io fs persistent = (Ok c, fs') \<Longrightarrow> vtpm_reachable L persistent c"
| stepped: "\<lbrakk>vtpm_reachable L persistent c; vtpm_step L c c'\<rbrakk> \<Longrightarrow> vtpm_reachable L persistent c'"

inductive_cases vtpm_stepE: "vtpm_step L c c'"

lemma nth_handle_0: "transient n \<Longrightarrow> nth_handle n 0 = n"
  by (auto simp: nth_handle_def transient_def Let_def not_less [symmetric])

lemma free_handle_Some:
  assumes "free_handle c 0 = Some h" "transient (next_virtual_handle c)"
  shows "map_of (contexts c) h = None \<and> transient h"
  using free_handle_spec [of 0 c] assms nth_handle_transient by (auto simp: vtpm_constants)

lemma free_handle_None:
  assumes "free_handle c 0 = None" "transient (next_virtual_handle c)" "transient h"
  shows "map_of (contexts c) h \<noteq> None"
  using free_handle_spec [of 0 c] assms nth_handle_covers [OF assms(2,3)] by auto

lemma cache_ok_next: "\<lbrakk>cache_ok L pers c; transient n\<rbrakk> \<Longrightarrow> cache_ok L pers (c\<lparr>next_virtual_handle := n\<rparr>)"
  by (simp add: cache_ok_def)

lemma cache_ok_dirty [simp]: "cache_ok L pers (mark_dirty h c) = cache_ok L pers c"
  by (rule cache_ok_cong) (simp_all add: mark_dirty_def)

lemma default_context_valid: "valid TpmsContext default_context"
  by (simp add: default_context_def TpmsContext_def tpm_struct_valid_iff TpmUint64_def tpm_int_def int_new_def
      TpmBuffer_valid_iff Tpm2b_def TpmRh_codec_valid constants)

lemma save_transient_ok:
  assumes "save_transient L x pub par pol c = (r, c')" "key_args_ok x pub par pol" "cache_ok L pers c"
  shows "cache_ok L pers c'"
  using assms(1)
proof (cases rule: save_transient_cases)
  case failed
  with assms(3) show ?thesis by simp
next
  case (saved h key name)
  have "transient h"
    using free_handle_Some [OF saved(2)] assms(3) by (simp add: cache_ok_def)
  moreover have "key_ok key" "u32_of (key_handle key) = h"
    using assms(2) by (auto simp: saved(4) key_ok_def key_args_ok_def split: option.splits)
  ultimately show ?thesis
    using cache_ok_store [OF assms(3), of key name h] saved(3,4)
    by (auto simp: saved(5) intro!: cache_ok_next handle_after_live)
qed

lemma save_persistent_ok:
  assumes "save_persistent L h pub par pol c = (r, c')" "key_args_ok default_context pub par pol" "cache_ok L pers c"
  shows "cache_ok L pers c'"
  using assms(1)
proof (cases rule: save_persistent_cases)
  case failed
  with assms(3) show ?thesis by simp
next
  case (saved key name)
  have "key_ok key" "u32_of (key_handle key) = h"
    using assms(2) by (auto simp: saved(4) key_ok_def key_args_ok_def split: option.splits)
  then show ?thesis
    using cache_ok_store [OF assms(3), of key name h] saved(2-4) by (simp add: saved(5) live_type_def)
qed

lemma flush_ok: "\<lbrakk>flush io c = (r, c'); cache_ok L pers c\<rbrakk> \<Longrightarrow> cache_ok L pers c'"
  using save_handles_only_files [of io "dirty c" c r c'] cache_ok_cong [of c' c L pers] by (simp add: flush_def)

subsection \<open>Removal\<close>

text \<open>Parents and children: the public area of one is the parent of the other.\<close>

definition child_of :: "VtpmCache \<Rightarrow> u32 \<Rightarrow> u32 \<Rightarrow> bool" where
  "child_of c a b \<longleftrightarrow> (\<exists>ka kb. map_of (contexts c) a = Some ka \<and> map_of (contexts c) b = Some kb \<and>
     key_parent kb = key_public ka)"

lemma public_bytes_eq: "valid TpmtPublic p \<Longrightarrow> public_bytes p = Ok (encode TpmtPublic p)"
proof -
  assume v: "valid TpmtPublic p"
  note len = wire_codec.length_encode [OF key_codecs(1) v] wire_codec.len_le_SIZE [OF key_codecs(1) v]
  show ?thesis
    using emits_fits [OF wire_codec.marshal_emits [OF key_codecs(1) v],
        of "Writer_new (replicate (wire_len TpmtPublic p) 0)"] len
    by (simp add: public_bytes_def Writer_new_def writer_ok_def usize_max_def)
qed

lemma encode_public_inj:
  "\<lbrakk>valid TpmtPublic p; valid TpmtPublic q; encode TpmtPublic p = encode TpmtPublic q\<rbrakk> \<Longrightarrow> p = q"
  using codec_dec_enc [OF key_codecs(1), of p "[]"] codec_dec_enc [OF key_codecs(1), of q "[]"] by simp

definition entries :: "(u32 \<times> VtpmKey) list \<Rightarrow> (u8 list \<times> u32 \<times> val) list" where
  "entries ks = map (\<lambda>(h, key). (encode TpmtPublic (key_parent key), h, key_public key)) ks"

lemma parent_to_children_eq:
  "\<forall>(h, key) \<in> set ks. valid TpmtPublic (key_parent key) \<Longrightarrow> parent_to_children ks = Ok (entries ks)"
  by (induction ks) (auto simp: entries_def public_bytes_eq)

text \<open>Every key is filed under its own handle.\<close>

definition filed :: "(u32 \<times> VtpmKey) list \<Rightarrow> bool" where
  "filed ks \<longleftrightarrow> (\<forall>(h, key) \<in> set ks. u32_of (key_handle key) = h)"

lemma filed_filter [simp]: "filed ks \<Longrightarrow> filed (filter P ks)"
  by (auto simp: filed_def)

lemma filed_lookup: "\<lbrakk>filed ks; map_of ks h = Some key\<rbrakk> \<Longrightarrow> u32_of (key_handle key) = h"
  by (auto simp: filed_def dest: map_of_SomeD)

text \<open>What any part of a removal does: the contexts of the deleted handles go, and so do their files.\<close>

definition removed :: "u32 list \<Rightarrow> VtpmCache \<Rightarrow> VtpmCache \<Rightarrow> bool" where
  "removed dels c c' \<longleftrightarrow> contexts c' = filter (\<lambda>(h, _). h \<notin> set dels) (contexts c) \<and>
     next_virtual_handle c' = next_virtual_handle c \<and>
     (\<forall>p. map_of (cache_files c) p = None \<longrightarrow> map_of (cache_files c') p = None) \<and>
     (filed (contexts c) \<longrightarrow> (\<forall>h \<in> set dels. map_of (cache_files c') (record_name h) = None))"

lemma removed_refl: "removed [] c c"
  by (simp add: removed_def)

lemma removed_trans: "\<lbrakk>removed d1 c c1; removed d2 c1 c2\<rbrakk> \<Longrightarrow> removed (d1 @ d2) c c2"
  by (auto simp: removed_def filter_filter case_prod_unfold conj_commute intro!: filter_cong)

lemma forget_fields [simp]:
  "next_virtual_handle (forget h c) = next_virtual_handle c" "cache_files (forget h c) = cache_files c"
  by (simp_all add: forget_def unpublish_name_def Let_def split: option.split)

lemma delete_removed:
  assumes "VtpmKey_delete io key (cache_files c) = (Ok (), fs)" "map_of (contexts c) h = Some key"
  shows "removed [h] c (forget h (c\<lparr>cache_files := fs\<rparr>))"
proof -
  have "map_of fs p = None" if "map_of (cache_files c) p = None" for p
    using assms(1) that by (auto simp: VtpmKey_delete_def remove_file_def delete_conv split: if_splits option.splits prod.splits)
  moreover have "map_of fs (record_name (u32_of (key_handle key))) = None"
    using assms(1) by (auto simp: VtpmKey_delete_def remove_file_def delete_conv split: if_splits option.splits prod.splits)
  ultimately show ?thesis
    using filed_lookup [OF _ assms(2)]
    by (auto simp: removed_def AList.delete_eq case_prod_unfold intro!: filter_cong)
qed

text \<open>Also a removal that fails only drops keys.\<close>

definition shrinks :: "VtpmCache \<Rightarrow> VtpmCache \<Rightarrow> bool" where
  "shrinks c c' \<longleftrightarrow> (\<exists>P. contexts c' = filter P (contexts c)) \<and> next_virtual_handle c' = next_virtual_handle c"

lemma shrinks_refl: "contexts c' = contexts c \<Longrightarrow> next_virtual_handle c' = next_virtual_handle c \<Longrightarrow> shrinks c c'"
  by (auto simp: shrinks_def intro: exI [of _ "\<lambda>_. True"])

lemma shrinks_trans: "\<lbrakk>shrinks c c1; shrinks c1 c2\<rbrakk> \<Longrightarrow> shrinks c c2"
  by (auto simp: shrinks_def filter_filter)

lemma removed_shrinks: "removed dels c c' \<Longrightarrow> shrinks c c'"
  by (auto simp: removed_def shrinks_def)

lemma remove_children_shrinks: "remove_children io ks c = (r, c') \<Longrightarrow> shrinks c c'"
proof (induction io ks c arbitrary: r c' rule: remove_children.induct)
  case (2 io b child child_public ks c)
  show ?case
  proof (cases "map_of (contexts c) child")
    case None
    with 2 show ?thesis by simp
  next
    case (Some key)
    obtain d fs where d: "VtpmKey_delete io key (cache_files c) = (d, fs)"
      by (cases "VtpmKey_delete io key (cache_files c)")
    show ?thesis
    proof (cases d)
      case (Ok u)
      obtain r1 where "remove_children io ks (forget child (c\<lparr>cache_files := fs\<rparr>)) = (r1, c')"
        using 2(3) Some d Ok by (auto split: prod.splits)
      from 2(2) [OF Some d [symmetric] Ok this] show ?thesis
        using shrinks_trans [OF removed_shrinks [OF delete_removed [OF _ Some]]] d Ok by simp
    qed (use 2(3) Some d in \<open>auto intro!: shrinks_refl\<close>)
  qed
qed (simp add: shrinks_refl)

lemma remove_loop_shrinks: "remove_loop io children queue c = (r, c') \<Longrightarrow> shrinks c c'"
proof (induction io children queue c arbitrary: r c' rule: remove_loop.induct)
  case (2 io children p queue c)
  show ?case
  proof (cases "public_bytes p")
    case (Ok b)
    obtain d c1 where d: "remove_children io (filter (\<lambda>(b', _). b' = b) children) c = (d, c1)"
      by (cases "remove_children io (filter (\<lambda>(b', _). b' = b) children) c")
    note c1 = remove_children_shrinks [OF this]
    show ?thesis
    proof (cases d)
      case del: (Ok del)
      obtain r1 where "remove_loop io children (queue @ map snd del) c1 = (r1, c')"
        using 2(2) Ok d del by (auto split: prod.splits)
      from 2(1) [OF Ok d [symmetric] del this] show ?thesis by (rule shrinks_trans [OF c1])
    qed (use 2(2) Ok d c1 in auto)
  qed (use 2 in \<open>auto intro!: shrinks_refl\<close>)
qed (simp add: shrinks_refl)

lemma remove_key_cases:
  assumes "remove_key io h c = (r, c')"
  obtains (absent) "map_of (contexts c) h = None" "r = Ok []" "c' = c"
    | (kept) key fs where "map_of (contexts c) h = Some key" "c' = c\<lparr>cache_files := fs\<rparr>" "\<forall>ds. r \<noteq> Ok ds"
    | (gone) key fs r' where "map_of (contexts c) h = Some key"
      "removed [h] c (forget h (c\<lparr>cache_files := fs\<rparr>))"
      "remove_subtree io (key_public key) (forget h (c\<lparr>cache_files := fs\<rparr>)) = (r', c')"
      "r = and_then r' (\<lambda>ds. Ok (h # ds))"
proof (cases "map_of (contexts c) h")
  case None
  with assms have "r = Ok []" "c' = c"
    by (simp_all add: remove_key_def)
  with None show thesis by (rule absent)
next
  case (Some key)
  obtain d fs where d: "VtpmKey_delete io key (cache_files c) = (d, fs)"
    by (cases "VtpmKey_delete io key (cache_files c)")
  show thesis
  proof (cases d)
    case (Ok u)
    then obtain r' where r': "remove_subtree io (key_public key) (forget h (c\<lparr>cache_files := fs\<rparr>)) = (r', c')"
      "r = and_then r' (\<lambda>ds. Ok (h # ds))"
      using assms Some d by (auto simp: remove_key_def split: prod.splits)
    have "removed [h] c (forget h (c\<lparr>cache_files := fs\<rparr>))"
      using d Ok by (intro delete_removed [OF _ Some]) simp
    then show thesis by (rule gone [OF Some _ r'])
  next
    case (Err e)
    show thesis
      by (rule kept [OF Some, of fs]) (use assms Some d Err in \<open>auto simp: remove_key_def\<close>)
  next
    case Panic
    show thesis
      by (rule kept [OF Some, of fs]) (use assms Some d Panic in \<open>auto simp: remove_key_def\<close>)
  qed
qed

lemma remove_subtree_shrinks: "remove_subtree io p c = (r, c') \<Longrightarrow> shrinks c c'"
  unfolding remove_subtree_def by (auto split: result.splits intro: shrinks_refl remove_loop_shrinks simp del: remove_loop.simps)

lemma remove_key_shrinks: "remove_key io h c = (r, c') \<Longrightarrow> shrinks c c'"
proof (erule remove_key_cases)
  fix key fs r'
  assume "removed [h] c (forget h (c\<lparr>cache_files := fs\<rparr>))"
    "remove_subtree io (key_public key) (forget h (c\<lparr>cache_files := fs\<rparr>)) = (r', c')"
  then show "shrinks c c'"
    using removed_shrinks remove_subtree_shrinks shrinks_trans by blast
qed (simp_all add: shrinks_refl)

lemma remove_key_ok:
  assumes "remove_key io h c = (r, c')" "cache_ok L pers c"
  shows "cache_ok L pers c'"
proof -
  obtain P where "contexts c' = filter P (contexts c)" "next_virtual_handle c' = next_virtual_handle c"
    using remove_key_shrinks [OF assms(1)] by (auto simp: shrinks_def)
  with cache_ok_filter [OF assms(2) remove_key_index [OF assms(1) cache_ok_index [OF assms(2)]]]
  show ?thesis by blast
qed

lemma vtpm_step_ok:
  assumes "vtpm_step L c c'" "cache_ok L pers c"
  shows "cache_ok L pers c'"
  using assms(1)
proof cases
  case (step_save_transient ctx public parent policy r)
  then show ?thesis using save_transient_ok assms(2) by blast
next
  case (step_save_persistent public parent policy h r)
  then show ?thesis using save_persistent_ok assms(2) by blast
next
  case (step_remove io h r)
  then show ?thesis using remove_key_ok assms(2) by blast
next
  case (step_flush io r)
  then show ?thesis using flush_ok assms(2) by blast
next
  case (step_mark_dirty h)
  with assms(2) show ?thesis by simp
qed

lemma load_entry_cases:
  assumes "load_entry L io path c = (r, c')"
  obtains (same) "c' = c" | (discarded) "c' = discard io path c"
    | (loaded) h key name where "live_type h" "VtpmKey_load io (cache_files c) path h = Ok key"
      "tpm_make_name L (key_public key) = Ok name"
      "c' = publish_name h name (c\<lparr>contexts := AList.update h key (contexts c)\<rparr>)"
proof (cases "Option.bind (bin_stem path) (u32_from_str_radix 16)")
  case None
  with assms same show thesis by (simp add: load_entry_def)
next
  case (Some n)
  define h where "h = (word_of_nat n :: u32)"
  show thesis
  proof (cases "live_type h")
    case True
    show thesis
    proof (cases "VtpmKey_load io (cache_files c) path h")
      case (Ok key)
      show thesis
      proof (cases "tpm_make_name L (key_public key)")
        case name: (Ok name)
        show thesis
          by (rule loaded [OF True Ok name])
            (use assms Some True Ok name in \<open>simp add: load_entry_def live_type_def flip: h_def\<close>)
      qed (use assms Some True Ok same in \<open>simp_all add: load_entry_def live_type_def flip: h_def\<close>)
    qed (use assms Some True same discarded in \<open>simp_all add: load_entry_def live_type_def flip: h_def\<close>)
  next
    case False
    then show thesis
      using assms Some same discarded by (simp add: load_entry_def live_type_def split: if_splits flip: h_def)
  qed
qed

lemma load_entry_ok: "\<lbrakk>load_entry L io path c = (r, c'); cache_ok L pers c\<rbrakk> \<Longrightarrow> cache_ok L pers c'"
proof (erule load_entry_cases)
  assume c: "cache_ok L pers c"
  {
    assume "c' = discard io path c"
    with c show "cache_ok L pers c'"
      using cache_ok_cong [of "discard io path c" c L pers] by (simp add: discard_def)
  next
    fix h key name
    assume "live_type h" "VtpmKey_load io (cache_files c) path h = Ok key"
      "tpm_make_name L (key_public key) = Ok name"
      "c' = publish_name h name (c\<lparr>contexts := AList.update h key (contexts c)\<rparr>)"
    then show "cache_ok L pers c'"
      using cache_ok_store [OF c] VtpmKey_load_ok by blast
  }
qed simp

lemma load_entries_ok: "\<lbrakk>load_entries L io paths c = (r, c'); cache_ok L pers c\<rbrakk> \<Longrightarrow> cache_ok L pers c'"
proof (induction paths arbitrary: c)
  case (Cons path paths)
  obtain r1 c1 where e: "load_entry L io path c = (r1, c1)"
    by (cases "load_entry L io path c")
  with Cons.prems load_entry_ok have c1: "cache_ok L pers c1" by blast
  then show ?case
    using Cons.IH [of c1] Cons.prems e by (cases r1) auto
qed simp

lemma cache_load_ok: "\<lbrakk>cache_load L io c = (r, c'); cache_ok L pers c\<rbrakk> \<Longrightarrow> cache_ok L pers c'"
  by (auto simp: cache_load_def intro: load_entries_ok split: option.splits)

lemma VtpmCache_new_ok:
  assumes "VtpmCache_new L io fs persistent = (Ok c, fs')"
  shows "cache_ok L persistent c"
proof -
  let ?c0 = "\<lparr>contexts = [], handles = persistent, names = [], dirty = [],
     next_virtual_handle = TRANSIENT_START, cache_files = fs\<rparr>"
  obtain r c1 where load: "cache_load L io ?c0 = (r, c1)"
    by (cases "cache_load L io ?c0")
  have "transient TRANSIENT_START"
    by (simp add: transient_def vtpm_constants)
  then have "cache_ok L persistent ?c0"
    by (auto simp: cache_ok_def names_ok_def dest: map_of_SomeD)
  then have c1: "cache_ok L persistent c1"
    using cache_load_ok [OF load] by blast
  have "c = c1 \<or> contexts c1 \<noteq> [] \<and> c = c1\<lparr>next_virtual_handle := handle_after (Max (fst ` set (contexts c1)))\<rparr>"
    using assms load by (auto simp: VtpmCache_new_def Let_def split: option.splits if_splits)
  moreover have "live_type (Max (fst ` set (contexts c1)))" if "contexts c1 \<noteq> []"
  proof -
    have "Max (fst ` set (contexts c1)) \<in> fst ` set (contexts c1)"
      using that by (intro Max_in) auto
    with c1 show ?thesis by (auto simp: cache_ok_def)
  qed
  ultimately show ?thesis
    using c1 handle_after_live cache_ok_next by auto
qed

text \<open>The invariant of every reachable cache.\<close>

lemma reachable_ok: "vtpm_reachable L persistent c \<Longrightarrow> cache_ok L persistent c"
  by (induction rule: vtpm_reachable.induct) (auto dest: VtpmCache_new_ok vtpm_step_ok)

end
