(* ===== verification/Vtpm_Tree.thy ===== *)
theory Vtpm_Tree
  imports Vtpm_State
begin

text \<open>
  Keys as a forest: a removal takes exactly the descendants of a key, and the walk to the root returns
  exactly when it does not run into a cycle.
\<close>

subsection \<open>What a removal takes\<close>

lemma map_of_filter_keys: "map_of (filter (\<lambda>(h, _). P h) xs) g = (if P g then map_of xs g else None)"
  by (induction xs) auto

lemma removed_lookup:
  "removed dels c c' \<Longrightarrow> map_of (contexts c') g = (if g \<in> set dels then None else map_of (contexts c) g)"
  by (simp add: removed_def map_of_filter_keys)

lemma remove_children_removed:
  assumes "remove_children io ks c = (Ok del, c')" "distinct (map (fst \<circ> snd) ks)"
  shows "removed (map fst del) c c' \<and> set del \<subseteq> snd ` set ks \<and>
    (\<forall>(b, h, p) \<in> set ks. map_of (contexts c') h = None)"
  using assms
proof (induction io ks c arbitrary: del c' rule: remove_children.induct)
  case (2 io b child child_public ks c)
  have gone: "map_of (contexts c1) h = None" if "removed ds c0 c1" "map_of (contexts c0) h = None" for ds c0 c1 h
    using removed_lookup that by simp
  show ?case
  proof (cases "map_of (contexts c) child")
    case None
    with 2(3) have r: "remove_children io ks c = (Ok del, c')" by simp
    from 2(1) [OF None r] 2(4) None gone show ?thesis by auto
  next
    case (Some key)
    with 2(3) obtain fs rest where d: "VtpmKey_delete io key (cache_files c) = (Ok (), fs)"
      and r: "remove_children io ks (forget child (c\<lparr>cache_files := fs\<rparr>)) = (Ok rest, c')"
      and del: "del = (child, child_public) # rest"
      by (auto split: prod.splits result.splits)
    note first = delete_removed [OF d Some]
    have IH: "removed (map fst rest) (forget child (c\<lparr>cache_files := fs\<rparr>)) c' \<and> set rest \<subseteq> snd ` set ks \<and>
        (\<forall>(b, h, p) \<in> set ks. map_of (contexts c') h = None)"
      using 2(2) [OF Some d [symmetric] refl r] 2(4) by simp
    have "map_of (contexts (forget child (c\<lparr>cache_files := fs\<rparr>))) child = None"
      by (simp add: delete_conv)
    then have "map_of (contexts c') child = None"
      using IH gone by blast
    then show ?thesis
      using removed_trans [OF first] IH by (fastforce simp: del)
  qed
qed (simp add: removed_refl)

text \<open>The entries below a public area: its children, and theirs.\<close>

inductive below :: "(u8 list \<times> u32 \<times> val) list \<Rightarrow> val \<Rightarrow> u32 \<Rightarrow> bool" for C where
  below_child: "\<lbrakk>(b, h, p) \<in> set C; public_bytes q = Ok b\<rbrakk> \<Longrightarrow> below C q h"
| below_deeper: "\<lbrakk>(b, h, p) \<in> set C; public_bytes q = Ok b; below C p h'\<rbrakk> \<Longrightarrow> below C q h'"

lemma remove_loop_removed:
  assumes "remove_loop io C queue c = (Ok dels, c')" "distinct (map (fst \<circ> snd) C)"
  shows "removed dels c c' \<and> (\<forall>h \<in> set dels. \<exists>q \<in> set queue. below C q h) \<and>
    (\<forall>q. q \<in> set queue \<or> (\<exists>b h. (b, h, q) \<in> set C \<and> h \<in> set dels) \<longrightarrow>
       (\<forall>(b, h, p) \<in> set C. public_bytes q = Ok b \<longrightarrow> map_of (contexts c') h = None))"
  using assms
proof (induction io C queue c arbitrary: dels c' rule: remove_loop.induct)
  case (2 io C p queue c)
  let ?kids = "\<lambda>b. filter (\<lambda>(b', _). b' = b) C"
  obtain b where b: "public_bytes p = Ok b"
    using 2(2) by (cases "public_bytes p") auto
  obtain d c1 where d: "remove_children io (?kids b) c = (d, c1)"
    by (cases "remove_children io (?kids b) c")
  obtain del where del: "d = Ok del"
    using 2(2) b d by (cases d) auto
  obtain rest where r: "remove_loop io C (queue @ map snd del) c1 = (Ok rest, c')" and dels: "dels = map fst del @ rest"
    using 2(2) b d del by (auto split: prod.splits)
  have kids: "distinct (map (fst \<circ> snd) (?kids b))"
    using 2(3) by (auto simp: distinct_map inj_on_def)
  note C1 = remove_children_removed [OF d [unfolded del] kids]
  note IH = 2(1) [OF b d [symmetric] del r 2(3)]
  have sub: "\<exists>b'. (b', h, q) \<in> set C \<and> public_bytes p = Ok b'" if "(h, q) \<in> set del" for h q
    using C1 that b by force
  have uniq: "q = q'" if "(b1, h, q) \<in> set C" "(b2, h, q') \<in> set C" for b1 b2 h q q'
    using 2(3) that by (fastforce simp: distinct_map inj_on_def)
  have gone: "map_of (contexts c') h = None" if "map_of (contexts c1) h = None" for h
    using removed_lookup [OF conjunct1 [OF IH]] that by simp
  show ?case
  proof (intro conjI ballI allI impI)
    show "removed dels c c'"
      unfolding dels using C1 IH removed_trans by blast
  next
    fix h assume "h \<in> set dels"
    then consider q where "(h, q) \<in> set del" | "h \<in> set rest"
      by (auto simp: dels)
    then show "\<exists>q \<in> set (p # queue). below C q h"
    proof cases
      case 1
      from sub [OF this] show ?thesis by (auto intro: below_child)
    next
      case 2
      with IH obtain q where q: "q \<in> set (queue @ map snd del)" "below C q h" by blast
      then consider "q \<in> set queue" | h' where "(h', q) \<in> set del" by auto
      then show ?thesis
      proof cases
        case 2
        from sub [OF this] q(2) show ?thesis by (auto intro: below_deeper)
      qed (use q in auto)
    qed
  next
    fix q x
    assume q: "q \<in> set (p # queue) \<or> (\<exists>b h. (b, h, q) \<in> set C \<and> h \<in> set dels)" and x: "x \<in> set C"
    obtain b' h p' where [simp]: "x = (b', h, p')" by (cases x)
    have "map_of (contexts c') h = None" if "public_bytes q = Ok b'"
    proof (cases "q = p")
      case True
      with that b x have "(b', h, p') \<in> set (?kids b)" by simp
      with C1 gone show ?thesis by blast
    next
      case False
      have "q \<in> set (queue @ map snd del) \<or> (\<exists>b h. (b, h, q) \<in> set C \<and> h \<in> set rest)"
      proof (cases "q \<in> set queue")
        case notin: False
        with q False obtain b2 h2 where e: "(b2, h2, q) \<in> set C" "h2 \<in> set (map fst del) \<or> h2 \<in> set rest"
          by (auto simp: dels)
        show ?thesis
        proof (cases "h2 \<in> set rest")
          case False
          with e obtain q' where "(h2, q') \<in> set del" by auto
          moreover from sub [OF this] e(1) uniq have "q' = q" by blast
          ultimately have "q \<in> snd ` set del" by force
          then show ?thesis by simp
        qed (use e in blast)
      qed simp
      with IH [THEN conjunct2, THEN conjunct2, rule_format, of q x] x that show ?thesis by simp
    qed
    then show "case x of (b, h, p) \<Rightarrow> public_bytes q = Ok b \<longrightarrow> map_of (contexts c') h = None" by simp
  qed
qed (simp add: removed_refl)

lemma child_of_lookup: "child_of c a b \<Longrightarrow> map_of (contexts c) b \<noteq> None"
  by (auto simp: child_of_def)

text \<open>A successful removal of a key takes its descendants, itself included, and nothing else.\<close>

lemma remove_key_descendants:
  assumes r: "remove_key io h c = (Ok dels, c')" and c: "cache_ok L pers c" and key: "map_of (contexts c) h = Some key"
  shows "removed dels c c' \<and> set dels = {d. (child_of c)\<^sup>*\<^sup>* h d}"
  using r
proof (cases rule: remove_key_cases)
  case (gone key' fs r')
  let ?c1 = "forget h (c\<lparr>cache_files := fs\<rparr>)"
  let ?ks = "AList.delete h (contexts c)" let ?C = "entries (AList.delete h (contexts c))"
  have [simp]: "key' = key" using gone(1) key by simp
  obtain ds where ds: "r' = Ok ds" "dels = h # ds"
    using gone(4) [symmetric] by auto
  have dist: "distinct (map fst (contexts c))"
    and valid: "valid TpmtPublic (key_public k) \<and> valid TpmtPublic (key_parent k)" if "(g, k) \<in> set (contexts c)" for g k
    using c that by (auto simp: cache_ok_def key_ok_def)
  have "distinct (map fst (contexts c))"
    using c by (simp add: cache_ok_def)
  then have distC: "distinct (map (fst \<circ> snd) ?C)"
    by (simp add: entries_def comp_def case_prod_unfold distinct_map_filter AList.delete_eq)
  have "parent_to_children (contexts ?c1) = Ok ?C"
    using valid by (auto simp: AList.delete_eq intro!: parent_to_children_eq)
  then have loop: "remove_loop io ?C [key_public key] ?c1 = (Ok ds, c')"
    using gone(3) ds by (simp add: remove_subtree_def del: remove_loop.simps)
  note R = remove_loop_removed [OF loop distC]
  have rem: "removed dels c c'"
    using removed_trans [OF gone(2)] R by (simp add: ds)
  have C: "(b, g, p) \<in> set ?C \<longleftrightarrow> g \<noteq> h \<and> (\<exists>k. map_of (contexts c) g = Some k \<and>
      b = encode TpmtPublic (key_parent k) \<and> p = key_public k)" for b g p
    using \<open>distinct (map fst (contexts c))\<close> by (auto simp: entries_def AList.delete_eq image_iff)
  have lookup_valid: "valid TpmtPublic (key_public k) \<and> valid TpmtPublic (key_parent k)"
    if "map_of (contexts c) g = Some k" for g k
    using valid [OF map_of_SomeD [OF that]] .
  have link: "(\<exists>p. (b, g, p) \<in> set ?C) \<and> public_bytes (key_public ka) = Ok b \<longleftrightarrow>
      g \<noteq> h \<and> child_of c a g \<and> (\<exists>k. map_of (contexts c) g = Some k \<and> b = encode TpmtPublic (key_parent k))"
    if "map_of (contexts c) a = Some ka" for a ka g b
    using that lookup_valid encode_public_inj public_bytes_eq unfolding C child_of_def by fastforce
  have below: "(child_of c)\<^sup>*\<^sup>* a g" if "below ?C q g" "map_of (contexts c) a = Some ka" "q = key_public ka" for q g a ka
    using that
  proof (induction arbitrary: a ka rule: below.induct)
    case (below_child b g p q)
    with link show ?case by blast
  next
    case (below_deeper b g p q g')
    then obtain k where "map_of (contexts c) g = Some k" "p = key_public k"
      unfolding C by blast
    with below_deeper.IH have "(child_of c)\<^sup>*\<^sup>* g g'" by blast
    moreover have "child_of c a g"
      using link [OF below_deeper.prems(1)] below_deeper.hyps(1,2) below_deeper.prems(2) by blast
    ultimately show ?case by simp
  qed
  have "(child_of c)\<^sup>*\<^sup>* h d" if "d \<in> set dels" for d
    using that R below [OF _ key refl] by (auto simp: ds)
  moreover have "d \<in> set dels" if "(child_of c)\<^sup>*\<^sup>* h d" for d
    using that
  proof induction
    case (step a b)
    show ?case
    proof (rule ccontr)
      assume notin: "b \<notin> set dels"
      obtain ka where ka: "map_of (contexts c) a = Some ka"
        using step(2) by (auto simp: child_of_def)
      obtain kb where kb: "map_of (contexts c) b = Some kb"
        using child_of_lookup [OF step(2)] by auto
      have "b \<noteq> h" using notin ds by auto
      then obtain p bs where e: "(bs, b, p) \<in> set ?C" "public_bytes (key_public ka) = Ok bs"
        using link [OF ka] step(2) kb by blast
      have "key_public ka \<in> set [key_public key] \<or> (\<exists>b g. (b, g, key_public ka) \<in> set ?C \<and> g \<in> set ds)"
      proof (cases "a = h")
        case False
        with step(3) ds have "a \<in> set ds" by simp
        with False ka show ?thesis unfolding C by blast
      qed (use ka key in simp)
      with R [THEN conjunct2, THEN conjunct2, rule_format, of "key_public ka" "(bs, b, p)"] e
      have "map_of (contexts c') b = None" by simp
      moreover have "map_of (contexts c') b = Some kb"
        using removed_lookup [OF rem] kb notin by simp
      ultimately show False by simp
    qed
  qed (simp add: ds)
  ultimately show ?thesis using rem by blast
qed (use key in simp_all)

subsection \<open>The way to the root\<close>

text \<open>One turn of the loop: from a key with a parent to a key in the cache whose public area is its parent.\<close>

definition parent_in_cache :: "VtpmCache \<Rightarrow> VtpmKey \<Rightarrow> u32 option" where
  "parent_in_cache c key = map_option fst (find (\<lambda>(_, pk). key_public pk = key_parent key) (contexts c))"

definition ancestor_step :: "VtpmCache \<Rightarrow> u32 \<Rightarrow> u32 \<Rightarrow> bool" where
  "ancestor_step c h h' \<longleftrightarrow> (\<exists>key. find_by_handle c h = Some key \<and>
     TpmtPublic_object_type (key_parent key) \<noteq> Alg_Null \<and> parent_in_cache c key = Some h')"

definition ends_in_cycle :: "VtpmCache \<Rightarrow> u32 \<Rightarrow> bool" where
  "ends_in_cycle c h \<longleftrightarrow> (\<exists>x. (ancestor_step c)\<^sup>*\<^sup>* h x \<and> (ancestor_step c)\<^sup>+\<^sup>+ x x)"

lemma ancestor_step_right_unique: "\<lbrakk>ancestor_step c h a; ancestor_step c h b\<rbrakk> \<Longrightarrow> a = b"
  by (auto simp: ancestor_step_def)

text \<open>A walk that does not step further ends; one that steps ends where the next one does.\<close>

lemma ancestors_loop_stop:
  "\<nexists>h'. ancestor_step c h h' \<Longrightarrow> \<exists>r. ancestors_loop L c h chain = Some r"
  by (subst ancestors_loop.simps)
    (auto simp: ancestor_step_def parent_in_cache_def split: option.split result.split)

lemma ancestors_loop_step:
  "ancestor_step c h h' \<Longrightarrow> ancestors_loop L c h chain = ancestors_loop L c h' (h # chain)"
  by (subst ancestors_loop.simps) (auto simp: ancestor_step_def parent_in_cache_def)

lemma cycle_step: "ancestor_step c h h' \<Longrightarrow> ends_in_cycle c h' = ends_in_cycle c h"
proof
  assume s: "ancestor_step c h h'"
  {
    assume "ends_in_cycle c h'"
    with s show "ends_in_cycle c h"
      unfolding ends_in_cycle_def by (meson converse_rtranclp_into_rtranclp)
  next
    assume "ends_in_cycle c h"
    then obtain x where x: "(ancestor_step c)\<^sup>*\<^sup>* h x" "(ancestor_step c)\<^sup>+\<^sup>+ x x"
      unfolding ends_in_cycle_def by blast
    from x(1) show "ends_in_cycle c h'"
    proof (cases rule: converse_rtranclpE)
      case base
      from x(2) [folded base] obtain y where "ancestor_step c h y" "(ancestor_step c)\<^sup>*\<^sup>* y h"
        by (metis tranclpD)
      with ancestor_step_right_unique [OF s] x(2) base show ?thesis
        unfolding ends_in_cycle_def by blast
    next
      case (step y)
      with ancestor_step_right_unique [OF s] x(2) show ?thesis
        unfolding ends_in_cycle_def by blast
    qed
  }
qed

text \<open>A walk that returns did not run into a cycle: computation induction over the calls that return.\<close>

lemma returned_no_cycle: "ancestors_loop L c h chain = Some r \<Longrightarrow> \<not> ends_in_cycle c h"
proof (erule ancestors_loop.raw_induct [rotated])
  fix loop :: "libcrypto \<Rightarrow> VtpmCache \<Rightarrow> u32 \<Rightarrow> u32 list \<Rightarrow> u32 list VtpmResult option" and L c h chain r
  assume IH: "\<And>L c h chain r. loop L c h chain = Some r \<Longrightarrow> \<not> ends_in_cycle c h"
    and body: "(case find_by_handle c h of
        None \<Rightarrow> Some (Err (Vtpm_HandleNotFound h))
      | Some key \<Rightarrow>
          if TpmtPublic_object_type (key_parent key) = Alg_Null then Some (Ok (h # chain))
          else (case find (\<lambda>(_, parent_key). key_public parent_key = key_parent key) (contexts c) of
            Some (parent_virtual_handle, _) \<Rightarrow> loop L c parent_virtual_handle (h # chain)
          | None \<Rightarrow>
              (case tpm_make_name L (key_parent key) of
                 Ok parent_name \<Rightarrow>
                   (case map_of (handles c) parent_name of
                      Some phandle \<Rightarrow> Some (Ok (phandle # h # chain))
                    | None \<Rightarrow> Some (Err Vtpm_ParentNotFound))
               | Err _ \<Rightarrow> Some (Err Vtpm_OperationFailed)
               | Panic \<Rightarrow> Some Panic))) = Some r"
  show "\<not> ends_in_cycle c h"
  proof (cases "\<exists>h'. ancestor_step c h h'")
    case True
    then obtain h' where h': "ancestor_step c h h'" by blast
    with body have "loop L c h' (h # chain) = Some r"
      by (auto simp: ancestor_step_def parent_in_cache_def)
    with IH have "\<not> ends_in_cycle c h'" by blast
    with cycle_step [OF h'] show ?thesis by simp
  next
    case False
    then show ?thesis
      unfolding ends_in_cycle_def by (metis converse_rtranclpE tranclpD)
  qed
qed

text \<open>Without a cycle the steps from a handle are well-founded, for there are finitely many keys.\<close>

lemma no_cycle_returns:
  assumes "\<not> ends_in_cycle c h"
  shows "\<exists>r. ancestors_loop L c h chain = Some r"
proof -
  let ?R = "{(b, a). (ancestor_step c)\<^sup>*\<^sup>* h a \<and> ancestor_step c a b}"
  have "?R \<subseteq> (\<lambda>a. (the (parent_in_cache c (the (find_by_handle c a))), a)) ` dom (map_of (contexts c))"
    by (auto simp: ancestor_step_def find_by_handle_def image_iff)
  then have "finite ?R"
    by (rule finite_subset) (simp add: finite_dom_map_of)
  moreover have "acyclic ?R"
  proof (rule acyclicI, intro allI notI)
    fix x assume "(x, x) \<in> ?R\<^sup>+"
    moreover have "(ancestor_step c)\<^sup>+\<^sup>+ b a \<and> (ancestor_step c)\<^sup>*\<^sup>* h b" if "(a, b) \<in> ?R\<^sup>+" for a b
      using that by induction (auto intro: tranclp_trans)
    ultimately show False
      using assms unfolding ends_in_cycle_def by blast
  qed
  ultimately have "wf ?R"
    by (rule finite_acyclic_wf)
  then have "\<forall>chain. (ancestor_step c)\<^sup>*\<^sup>* h a \<longrightarrow> (\<exists>r. ancestors_loop L c a chain = Some r)" for a
  proof induction
    case (less a)
    show ?case
    proof (intro allI impI)
      fix chain assume a: "(ancestor_step c)\<^sup>*\<^sup>* h a"
      show "\<exists>r. ancestors_loop L c a chain = Some r"
      proof (cases "\<exists>b. ancestor_step c a b")
        case True
        then obtain b where "ancestor_step c a b" by blast
        with a less [of b] ancestors_loop_step show ?thesis by (simp add: rtranclp.rtrancl_into_rtrancl)
      next
        case False
        then show ?thesis using ancestors_loop_stop by blast
      qed
    qed
  qed
  then show ?thesis by blast
qed

end
