(* ===== verification/Vtpm_Properties.thy ===== *)
theory Vtpm_Properties
  imports Vtpm_Tree Crypto_Properties
begin

text \<open>
  The properties of the key cache, with a cache of one key on which they are evaluated.
\<close>

subsection \<open>An instance\<close>

definition null_public :: val where
  "null_public = VStruct [VEnum (EAlgId Alg_Null), VEnum (EAlgId Alg_Sha256), VBits 0, VBuffer [],
     VUnion ''Null'' None, VUnion ''Null'' None]"

definition sealed_public :: "u8 list \<Rightarrow> val" where
  "sealed_public u = VStruct [VEnum (EAlgId Alg_KeyedHash), VEnum (EAlgId Alg_Sha256), VBits 0, VBuffer [],
     VUnion ''KeyedHash'' (Some (VStruct [VStruct [VEnum (EAlgId Alg_Null), VUnion ''Null'' None]])),
     VUnion ''KeyedHash'' (Some (VBuffer u))]"

lemma publics_valid: "valid TpmtPublic null_public" "length u \<le> 64 \<Longrightarrow> valid TpmtPublic (sealed_public u)"
  by (simp_all add: null_public_def sealed_public_def TpmtPublic_valid_iff TpmAlgId_codec_valid TpmaObject_def
      tpm_bitflags_def Tpm2bDigest_def TpmBuffer_valid_iff TpmuPublicParms_def TpmuPublicParms_arms_def
      TpmuPublicId_def TpmuPublicId_arms_def tpmu_view_def tpmu_matches_tag_def TpmsKeyedhashParms_def
      tpm_struct_valid_iff TpmtKeyedhashScheme_def tpm_struct_tagged_def TpmuKeyedhashScheme_def
      TpmuKeyedhashScheme_arms_def constants u16_max_def)

definition quiet_io :: vtpm_io where
  "quiet_io = \<lparr>io_pid = 1, io_create_dir = None, io_read_dir = None, io_read = (\<lambda>_. None),
     io_write = (\<lambda>_. None), io_rename = (\<lambda>_. None), io_remove = (\<lambda>_. None)\<rparr>"

definition empty_cache :: VtpmCache where
  "empty_cache = \<lparr>contexts = [], handles = [], names = [], dirty = [], next_virtual_handle = TRANSIENT_START,
     cache_files = []\<rparr>"

definition sealed_key :: VtpmKey where
  "sealed_key = \<lparr>key_version = int_new 4 VERSION, key_handle = handle_val TRANSIENT_START,
     key_public = sealed_public [1], key_parent = null_public, key_context = default_context, key_policy = []\<rparr>"

definition sealed_name :: "u8 list" where
  "sealed_name = to_be_bytes 2 11 @ sum_digest Sha256 (encode TpmtPublic (sealed_public [1]))"

definition one_key_cache :: VtpmCache where
  "one_key_cache = \<lparr>contexts = [(TRANSIENT_START, sealed_key)], handles = [(sealed_name, TRANSIENT_START)],
     names = [(TRANSIENT_START, sealed_name)], dirty = [TRANSIENT_START],
     next_virtual_handle = TRANSIENT_START + 1, cache_files = []\<rparr>"

lemma empty_cache_opened: "VtpmCache_new sum_crypto quiet_io [] [] = (Ok empty_cache, [])"
  by (simp add: VtpmCache_new_def cache_load_def quiet_io_def empty_cache_def)

lemma sealed_make_name: "tpm_make_name sum_crypto (sealed_public [1]) = Ok sealed_name"
proof -
  have "TpmtPublic_name_alg (sealed_public [1]) = TpmHash_into Sha256"
    by (simp add: sealed_public_def TpmtPublic_name_alg_def)
  from tpm_make_name_eq [OF sum_crypto_ok publics_valid(2) this] show ?thesis
    by (simp add: sealed_name_def) (simp add: sum_crypto_def)
qed

lemma sealed_args: "key_args_ok default_context (sealed_public [1]) null_public None"
  by (simp add: key_args_ok_def default_context_valid publics_valid)

lemma empty_free: "free_handle empty_cache 0 = Some TRANSIENT_START"
proof -
  have "transient TRANSIENT_START" by (simp add: transient_def vtpm_constants)
  then show ?thesis
    by (subst free_handle.simps) (simp add: empty_cache_def nth_handle_0 TRANSIENT_COUNT_def)
qed

lemma sealed_saved:
  "save_transient sum_crypto default_context (sealed_public [1]) null_public None empty_cache =
     (Ok TRANSIENT_START, one_key_cache)"
proof -
  have "handle_after TRANSIENT_START = TRANSIENT_START + 1"
    by (simp add: handle_after_def TRANSIENT_START_def TRANSIENT_END_def)
  then show ?thesis
    by (simp add: save_transient_def empty_free sealed_make_name)
      (simp add: empty_cache_def one_key_cache_def sealed_key_def publish_name_def unpublish_name_def mark_dirty_def
        List.insert_def)
qed

lemma empty_reachable: "vtpm_reachable sum_crypto [] empty_cache"
  by (rule opened [OF empty_cache_opened])

lemma one_key_reachable: "vtpm_reachable sum_crypto [] one_key_cache"
  by (rule stepped [OF empty_reachable step_save_transient [OF sealed_args sealed_saved]])

lemma sealed_lookup: "map_of (contexts one_key_cache) TRANSIENT_START = Some sealed_key"
  by (simp add: one_key_cache_def)

subsection \<open>The cache\<close>

text \<open>C19.  In every cache a program can reach, whatever file operations failed on the way, the indices agree with
  the keys: a handle publishes a name exactly when it holds a key, the name is that of the key's public area, and
  a name resolves to a handle that publishes it or to one the cache was opened with.  Every key is recorded under
  its own handle, which is transient or persistent, and the next handle to try is transient.\<close>

theorem reachable_cache_invariant:
  assumes "vtpm_reachable L persistent c"
  shows "dom (map_of (names c)) = dom (map_of (contexts c)) \<and>
    (\<forall>h key. map_of (contexts c) h = Some key \<longrightarrow> u32_of (key_handle key) = h \<and>
       (is_handle_type Ht_Transient h \<or> is_handle_type Ht_Persistent h) \<and>
       (\<exists>name. map_of (names c) h = Some name \<and> tpm_make_name L (key_public key) = Ok name)) \<and>
    (\<forall>name h. map_of (handles c) name = Some h \<longrightarrow> map_of (names c) h = Some name \<or> (name, h) \<in> set persistent) \<and>
    is_handle_type Ht_Transient (next_virtual_handle c)"
proof (intro conjI allI impI)
  note ok = reachable_ok [OF assms]
  then show "dom (map_of (names c)) = dom (map_of (contexts c))"
    by (simp add: cache_ok_def names_ok_def)
  show "is_handle_type Ht_Transient (next_virtual_handle c)"
    using ok by (simp add: cache_ok_def handle_type_range transient_unat)
  {
    fix name h
    assume "map_of (handles c) name = Some h"
    with ok show "map_of (names c) h = Some name \<or> (name, h) \<in> set persistent"
      by (simp add: cache_ok_def names_ok_def)
  next
    fix h key
    assume key: "map_of (contexts c) h = Some key"
    with ok map_of_SomeD [OF key] show "u32_of (key_handle key) = h"
      "is_handle_type Ht_Transient h \<or> is_handle_type Ht_Persistent h"
      "\<exists>name. map_of (names c) h = Some name \<and> tpm_make_name L (key_public key) = Ok name"
      unfolding cache_ok_def names_ok_def live_type_def by blast+
  }
qed

theorem reachable_cache_invariant_witness:
  "dom (map_of (names one_key_cache)) = dom (map_of (contexts one_key_cache)) \<and>
   is_handle_type Ht_Transient (next_virtual_handle one_key_cache)"
  using reachable_cache_invariant [OF one_key_reachable] by blast

text \<open>C20.  \<open>save_transient\<close> of a key that has a name fails only when all \<open>2^24\<close> transient handles hold keys, and
  then changes nothing.  Otherwise it returns a transient handle that held none, stores the key under it, leaves
  the keys of all other handles, marks the handle to be written, and the name then finds the key.\<close>

theorem save_transient_fresh:
  assumes "vtpm_reachable L persistent c" "tpm_make_name L public = Ok name"
    and "save_transient L ctx public parent policy c = (r, c')"
  shows "(r = Err Vtpm_NoHandles \<and> c' = c \<and>
       (\<forall>h. is_handle_type Ht_Transient h \<longrightarrow> find_by_handle c h \<noteq> None)) \<or>
    (\<exists>h key. r = Ok h \<and> is_handle_type Ht_Transient h \<and> find_by_handle c h = None \<and>
       find_by_handle c' = (find_by_handle c)(h \<mapsto> key) \<and> find_by_name c' name = Some key \<and> h \<in> set (dirty c') \<and>
       key_public key = public \<and> key_parent key = parent \<and> key_context key = ctx \<and>
       key_policy key = (case policy of Some ps \<Rightarrow> ps | None \<Rightarrow> []))"
proof (cases "free_handle c 0")
  case None
  have "transient (next_virtual_handle c)"
    using reachable_ok [OF assms(1)] by (simp add: cache_ok_def)
  with free_handle_None [OF None] assms(3) None show ?thesis
    by (simp add: save_transient_def handle_type_range transient_unat find_by_handle_def)
next
  case (Some h)
  have "map_of (contexts c) h = None \<and> transient h"
    using free_handle_Some [OF Some] reachable_ok [OF assms(1)] by (simp add: cache_ok_def)
  with assms(2,3) Some show ?thesis
    by (auto simp: save_transient_def Let_def find_by_handle_def [abs_def] find_by_name_def publish_name_def
        mark_dirty_def update_conv' handle_type_range transient_unat)
qed

theorem save_transient_fresh_witness:
  "find_by_handle empty_cache TRANSIENT_START = None \<and>
   find_by_name one_key_cache sealed_name = find_by_handle one_key_cache TRANSIENT_START"
  using save_transient_fresh [OF empty_reachable sealed_make_name sealed_saved] by auto

text \<open>C21.  \<open>remove\<close> takes exactly the key and its descendants: when it succeeds, the handles it returns are those
  reached from the key by steps from a parent to a child, their keys and record files are gone, and every other key
  stays under its handle; so no key is left whose parent was removed.\<close>

theorem remove_takes_descendants:
  assumes "vtpm_reachable L persistent c" "find_by_handle c h = Some key"
    and "remove_key io h c = (Ok dels, c')"
  shows "set dels = {d. (child_of c)\<^sup>*\<^sup>* h d} \<and>
    (\<forall>g. find_by_handle c' g = (if g \<in> set dels then None else find_by_handle c g)) \<and>
    (\<forall>g \<in> set dels. map_of (cache_files c') (record_name g) = None) \<and>
    (\<forall>g k d kd. find_by_handle c' g = Some k \<longrightarrow> d \<in> set dels \<longrightarrow> find_by_handle c d = Some kd \<longrightarrow>
       key_parent k \<noteq> key_public kd)"
proof -
  note ok = reachable_ok [OF assms(1)]
  have R: "removed dels c c'" and D: "set dels = {d. (child_of c)\<^sup>*\<^sup>* h d}"
    using remove_key_descendants [OF assms(3) ok] assms(2) by (auto simp: find_by_handle_def)
  have look: "find_by_handle c' g = (if g \<in> set dels then None else find_by_handle c g)" for g
    using removed_lookup [OF R] by (simp add: find_by_handle_def)
  have "filed (contexts c)"
    using ok by (auto simp: cache_ok_def filed_def)
  with R have "\<forall>g \<in> set dels. map_of (cache_files c') (record_name g) = None"
    by (simp add: removed_def)
  moreover have "key_parent k \<noteq> key_public kd"
    if "find_by_handle c' g = Some k" "d \<in> set dels" "find_by_handle c d = Some kd" for g k d kd
  proof
    assume eq: "key_parent k = key_public kd"
    have g: "g \<notin> set dels" "find_by_handle c g = Some k"
      using that(1) look [of g] by (simp_all split: if_splits)
    then have "child_of c d g"
      using that(3) eq by (simp add: child_of_def find_by_handle_def)
    with that(2) D g(1) show False by (auto intro: rtranclp.rtrancl_into_rtrancl)
  qed
  ultimately show ?thesis using D look by blast
qed

lemma one_key_removed: "\<exists>c'. remove_key quiet_io TRANSIENT_START one_key_cache = (Ok [TRANSIENT_START], c')"
  using public_bytes_eq [OF publics_valid(2), of "[1]"]
  by (simp add: remove_key_def sealed_lookup VtpmKey_delete_def remove_file_def)
    (simp add: one_key_cache_def remove_subtree_def sealed_key_def AList.delete_eq)

theorem remove_takes_descendants_witness:
  "set [TRANSIENT_START] = {d. (child_of one_key_cache)\<^sup>*\<^sup>* TRANSIENT_START d}"
proof -
  obtain c' where "remove_key quiet_io TRANSIENT_START one_key_cache = (Ok [TRANSIENT_START], c')"
    using one_key_removed by blast
  from remove_takes_descendants [OF one_key_reachable _ this] sealed_lookup show ?thesis
    by (simp add: find_by_handle_def)
qed

text \<open>C22.  \<open>fetch_ancestors\<close> returns exactly when the walk from parent to parent does not run into a cycle: it does
  not return for a handle from which the steps of its loop reach a key that is its own ancestor, and it returns for
  every other; a handle of the map of persistent handles needs no walk.\<close>

theorem fetch_ancestors_returns_iff:
  "fetch_ancestors L c h = None \<longleftrightarrow>
     \<not> (is_handle_type Ht_Persistent h \<and> h \<in> snd ` set (handles c)) \<and>
     (\<exists>x. (ancestor_step c)\<^sup>*\<^sup>* h x \<and> (ancestor_step c)\<^sup>+\<^sup>+ x x)"
proof -
  have "ancestors_loop L c h [] = None \<longleftrightarrow> ends_in_cycle c h"
    using returned_no_cycle [of L c h "[]"] no_cycle_returns [of c h L "[]"]
    by (cases "ancestors_loop L c h []") auto
  then show ?thesis
    unfolding fetch_ancestors_def ends_in_cycle_def by simp
qed

text \<open>A key that is its own parent, and what follows for it.\<close>

lemma own_parent_never_returns:
  assumes "contexts c = [(h, key)]" "key_parent key = key_public key"
    "TpmtPublic_object_type (key_public key) \<noteq> Alg_Null" "\<not> is_handle_type Ht_Persistent h"
  shows "fetch_ancestors L c h = None"
proof -
  have "ancestor_step c h h"
    using assms by (simp add: ancestor_step_def parent_in_cache_def find_by_handle_def)
  with returned_no_cycle [of L c h "[]"] assms(4) show ?thesis
    unfolding fetch_ancestors_def ends_in_cycle_def by (cases "ancestors_loop L c h []") auto
qed

subsection \<open>Records\<close>

lemma hex_digits_inj:
  assumes "hex_digits 8 (unat a) = hex_digits 8 (unat (b :: u32))"
  shows "a = b"
proof -
  have "u32_from_str_radix 16 (hex_digits 8 (unat a)) = Some (unat a)" for a :: u32
    using unat_u32_le by (rule u32_parse_hex)
  with assms have "unat a = unat b" by (metis option.inject)
  then show ?thesis by (rule unsigned_word_eqI)
qed

lemma record_name_inj: "record_name a = record_name b \<longleftrightarrow> a = b"
  using hex_digits_inj [of a b] by (auto simp: record_name_def simp del: hex_digits.simps)

lemma VtpmKey_save_others:
  assumes "VtpmKey_save io (record_name g) key fs = (r, fs')" "h \<noteq> g"
  shows "map_of fs' (record_name h) = map_of fs (record_name h)"
proof -
  consider "fs' = fs" | bytes where "write_atomic io (record_name g) bytes fs = (r, fs')"
    using assms(1) by (auto simp: VtpmKey_save_def split: prod.splits result.splits)
  then show ?thesis
    by cases (use write_atomic_others assms(2) record_name_inj record_name_not_hidden in blast)+
qed

lemma VtpmKey_save_written:
  assumes "VtpmKey_save io (record_name h) key fs = (Ok u, fs')" "key_ok key" "serialized_len key \<le> u32_max"
  shows "map_of fs' (record_name h) = Some (record_bytes key)"
  using assms(1) write_atomic_cases [of io "record_name h" "record_bytes key" fs "Ok u" fs'] record_name_not_hidden
  by (auto simp: VtpmKey_save_eq [OF assms(2,3)])

lemma save_handles_files:
  assumes "map_of (contexts c) h = Some key" "key_ok key" "serialized_len key \<le> u32_max"
    and "save_handles io hs c = (Ok (), c')"
  shows "map_of (cache_files c') (record_name h) =
      (if h \<in> set hs then Some (record_bytes key) else map_of (cache_files c) (record_name h)) \<and>
    dirty c' = filter (\<lambda>g. g \<notin> set hs) (dirty c)"
  using assms(1,4)
proof (induction hs arbitrary: c)
  case (Cons g hs)
  let ?clean = "\<lambda>c. c\<lparr>dirty := filter (\<lambda>x. x \<noteq> g) (dirty c)\<rparr>"
  show ?case
  proof (cases "map_of (contexts c) g")
    case None
    with Cons.prems have "save_handles io hs (?clean c) = (Ok (), c')" by (simp add: Let_def)
    moreover have "g \<noteq> h" using None Cons.prems(1) by auto
    ultimately show ?thesis
      using Cons.IH [of "?clean c"] Cons.prems(1) by (auto simp: conj_commute)
  next
    case (Some gkey)
    obtain d fs where d: "VtpmKey_save io (record_name g) gkey (cache_files c) = (d, fs)"
      by (cases "VtpmKey_save io (record_name g) gkey (cache_files c)")
    with Cons.prems Some obtain u where u: "d = Ok u"
      and r: "save_handles io hs (?clean (c\<lparr>cache_files := fs\<rparr>)) = (Ok (), c')"
      by (cases d) (auto simp: Let_def)
    have "map_of fs (record_name h) =
        (if h = g then Some (record_bytes key) else map_of (cache_files c) (record_name h))"
      using VtpmKey_save_others [OF d] VtpmKey_save_written [OF d [unfolded u]] assms(2,3) Some Cons.prems(1) by auto
    with Cons.IH [of "?clean (c\<lparr>cache_files := fs\<rparr>)"] r Cons.prems(1) show ?thesis
      by (auto simp: conj_commute)
  qed
qed simp

lemma loaded_record:
  assumes "map_of fs (record_name h) = Some (record_bytes key)" "io_read io (record_name h) = None"
    and key: "key_ok key" "u32_of (key_handle key) = h" and len: "serialized_len key \<le> u32_max"
  shows "VtpmKey_load io fs (record_name h) h =
    (if serialized_len key > MAX_RECORD_SIZE then Err (Vtpm_RecordTooLarge (serialized_len key))
     else if length (key_policy key) > MAX_POLICY_COUNT then Err (Vtpm_TooManyPolicies (length (key_policy key)))
     else Ok key)"
proof -
  note small = record_small [OF key(1) len]
  have ok: "\<forall>p \<in> set (key_policy key). policy_ok p \<and> length (policy_body p) \<le> u32_max"
    using key(1) small by (auto simp: key_ok_def list_all_iff)
  have "VtpmKey_read (record_bytes key) h =
      (if length (key_policy key) > MAX_POLICY_COUNT then Err (Vtpm_TooManyPolicies (length (key_policy key)))
       else Ok key)"
    using VtpmKey_read_eq [OF key(1)] key(2) small policy_list_too_many [of "key_policy key" "[]"]
      policy_list_roundtrip [OF _ ok, of "[]"] by auto
  then show ?thesis
    using assms(1,2) length_record_bytes [OF key(1)] by (simp add: VtpmKey_load_def)
qed

text \<open>C23.  What \<open>flush\<close> writes is what the next start reads, within the limits that only the reader has: after a
  flush that succeeds nothing is left to write, and the record of each dirty handle loads as the very key, unless
  it is larger than 16 KiB or has more than 16 policy commands.  Such a record is written without complaint and
  refused when it is read.\<close>

theorem flushed_keys_load:
  assumes "vtpm_reachable L persistent c" "flush io c = (Ok (), c')"
    and "h \<in> set (dirty c)" "find_by_handle c h = Some key" "serialized_len key \<le> u32_max"
    and "io_read io' (record_name h) = None"
  shows "dirty c' = [] \<and> VtpmKey_load io' (cache_files c') (record_name h) h =
    (if serialized_len key > MAX_RECORD_SIZE then Err (Vtpm_RecordTooLarge (serialized_len key))
     else if length (key_policy key) > MAX_POLICY_COUNT then Err (Vtpm_TooManyPolicies (length (key_policy key)))
     else Ok key)"
proof -
  have key: "map_of (contexts c) h = Some key"
    using assms(4) by (simp add: find_by_handle_def)
  then have ok: "key_ok key" "u32_of (key_handle key) = h"
    using reachable_ok [OF assms(1)] map_of_SomeD [OF key] by (auto simp: cache_ok_def)
  from save_handles_files [OF key ok(1) assms(5)] assms(2,3)
  have "map_of (cache_files c') (record_name h) = Some (record_bytes key)" "dirty c' = []"
    by (auto simp: flush_def filter_empty_conv)
  with loaded_record [OF _ assms(6) ok assms(5)] show ?thesis by simp
qed

lemma sealed_len: "serialized_len sealed_key \<le> MAX_RECORD_SIZE"
proof -
  have "wire_len TpmtPublic p \<le> 4096" if "valid TpmtPublic p" for p
    using wire_codec.len_le_SIZE [OF key_codecs(1) that] by simp
  moreover have "wire_len TpmsContext default_context \<le> 4114"
    using wire_codec.len_le_SIZE [OF key_codecs(2) default_context_valid] by simp
  moreover have "wire_len TpmtPublic null_public \<le> 4096" "wire_len TpmtPublic (sealed_public [1]) \<le> 4096"
    using calculation(1) publics_valid by simp_all
  ultimately show ?thesis
    by (simp add: serialized_len_def sealed_key_def MAX_RECORD_SIZE_def TpmUint32_def TpmHandle_def tpm_int_def)
qed

lemma one_key_flushed: "\<exists>c'. flush quiet_io one_key_cache = (Ok (), c')"
proof -
  have "key_ok sealed_key" "serialized_len sealed_key \<le> u32_max"
    using reachable_ok [OF one_key_reachable] sealed_len
    by (auto simp: cache_ok_def one_key_cache_def MAX_RECORD_SIZE_def u32_max_def)
  then have "\<exists>fs. VtpmKey_save quiet_io (record_name TRANSIENT_START) sealed_key [] = (Ok (), fs)"
    by (simp add: VtpmKey_save_eq write_atomic_def quiet_io_def)
  then show ?thesis
    by (auto simp: flush_def one_key_cache_def)
qed

theorem flushed_keys_load_witness:
  "\<exists>c'. flush quiet_io one_key_cache = (Ok (), c') \<and>
     VtpmKey_load quiet_io (cache_files c') (record_name TRANSIENT_START) TRANSIENT_START = Ok sealed_key"
proof -
  obtain c' where "flush quiet_io one_key_cache = (Ok (), c')"
    using one_key_flushed by blast
  moreover from flushed_keys_load [OF one_key_reachable this, of TRANSIENT_START sealed_key quiet_io]
  have "VtpmKey_load quiet_io (cache_files c') (record_name TRANSIENT_START) TRANSIENT_START = Ok sealed_key"
    using sealed_len
    by (simp add: find_by_handle_def sealed_lookup one_key_cache_def quiet_io_def MAX_RECORD_SIZE_def u32_max_def)
      (simp add: sealed_key_def MAX_POLICY_COUNT_def)
  ultimately show ?thesis by blast
qed

subsection \<open>Captured policies\<close>

lemma captured_ok:
  assumes row: "(v, cmd, resp) \<in> set dispatch_rows" and ok: "TpmCommand_unmarshal cmd f = Ok b"
    and got: "vtpm_policy_command_from f name = Ok p" and name: "valid Tpm2bName name"
  shows "policy_ok p"
proof (cases "f_CC cmd = Cc_PolicySecret")
  case True
  have "cmd = TpmPolicySecretCommand"
    using row_unique [OF row policy_secret_row] True by (simp add: TpmPolicySecretCommand_def)
  with captured_secret [OF _ got] ok obtain h s n c r x where
    b: "b = \<lparr>b_handles = [h, s], b_params = [n, c, r, x]\<rparr>" and p: "p = VtpmPolicySecretCommand h name r"
    by blast
  have "body_valid TpmPolicySecretCommand b"
    using TpmCommand_unmarshal_sound [OF policy_secret_row] ok \<open>cmd = TpmPolicySecretCommand\<close> by blast
  then have "fields_valid secret_fields [h, name, r]"
    using name by (simp add: b body_valid_def TpmPolicySecretCommand_def secret_fields_def Tpm2bNonce_def Tpm2bDigest_def)
  then have "unmarshal_parts secret_fields (fields_enc secret_fields [h, name, r]) = Ok ([h, name, r], [])"
    and len: "length (fields_enc secret_fields [h, name, r]) \<le> TPM_MAX_COMMAND_SIZE"
    using fields_bounded [of secret_fields "[4, 68, 66]" "[h, name, r]"] length_fields_enc [OF part_codecs(2)]
    by (simp_all add: unmarshal_parts_iff part_codecs)
      (simp add: secret_fields_def policy_part_bounds bounded_SIZE [OF wire_field_codec [OF TpmHandle_ok], of 4]
        TPM_MAX_COMMAND_SIZE_def)
  with \<open>fields_valid secret_fields [h, name, r]\<close> show ?thesis
    by (simp add: policy_ok_def p marshalled_body_fields part_codecs vtpm_policy_command_from_parts_def
        VtpmPolicySecretCommand_unmarshal_def empty_ccs_def)
next
  case False
  have valid: "fields_valid (f_params cmd) (b_params b)"
    using TpmCommand_unmarshal_sound [OF row ok] by (simp add: body_valid_def)
  from got False obtain fs where
    fs: "policy_parameters (f_CC cmd) = Some fs \<or> f_CC cmd \<in> set empty_ccs \<and> fs = []"
    and p: "p = VtpmPolicyDefaultCommand (f_CC cmd) (if f_CC cmd \<in> set empty_ccs then [] else body_param_bytes cmd b)"
    unfolding captured_frame [OF row ok] by (fastforce split: if_splits)
  show ?thesis
  proof (cases "f_CC cmd \<in> set empty_ccs")
    case True
    then show ?thesis by (simp add: policy_ok_def p vtpm_policy_command_from_parts_def)
  next
    case notin: False
    with fs have fs: "policy_parameters (f_CC cmd) = Some fs" by simp
    then have "f_CC cmd \<noteq> Cc_PolicyAuthorize" by auto
    moreover have "f_params cmd = fs"
      by (rule policy_row_params [OF row]) (simp add: fs)
    then have "unmarshal_parts fs (body_param_bytes cmd b) = Ok (b_params b, [])"
      using valid unmarshal_parts_iff [OF policy_parameter_codecs [OF fs]]
      by (simp add: body_param_bytes_def)
    ultimately show ?thesis
      using notin False fs by (simp add: policy_ok_def p vtpm_policy_command_from_parts_def)
  qed
qed

text \<open>C24.  A policy command captured from a frame survives the cache: it has the code of the frame, the bytes a
  record stores for it decode to it, and turned back into a command it is the one of the frame with the session
  handle cleared.  Of a \<open>PolicySecret\<close> only the object and the policy reference are kept: the nonce, the command
  hash and the expiration of the frame come back empty, so a replay asks for less than was captured.\<close>

theorem captured_policy_replays:
  assumes "(v, cmd, resp) \<in> set dispatch_rows" "TpmCommand_unmarshal cmd f = Ok b"
    and "vtpm_policy_command_from f name = Ok p" "valid Tpm2bName name"
  shows "policy_cc p = f_CC cmd \<and> vtpm_policy_command_from_parts (policy_cc p) (policy_body p) = Ok p \<and>
    to_command p = Ok (f_CC cmd,
      if f_CC cmd = Cc_PolicySecret
      then \<lparr>b_handles = [hd (b_handles b), ZERO_HANDLE],
             b_params = [VBuffer [], VBuffer [], b_params b ! 2, int_new 4 0]\<rparr>
      else \<lparr>b_handles = [ZERO_HANDLE], b_params = b_params b\<rparr>)"
proof (cases "f_CC cmd = Cc_PolicySecret")
  case True
  have "cmd = TpmPolicySecretCommand"
    using row_unique [OF assms(1) policy_secret_row] True by (simp add: TpmPolicySecretCommand_def)
  with captured_secret [OF _ assms(3)] assms(2) obtain h s n c r x where
    "b = \<lparr>b_handles = [h, s], b_params = [n, c, r, x]\<rparr>" "p = VtpmPolicySecretCommand h name r"
    by blast
  with True captured_ok [OF assms] show ?thesis by (simp add: to_command_def policy_ok_def)
next
  case False
  with captured_default [OF assms(1-3)] captured_ok [OF assms] show ?thesis by (simp add: policy_ok_def)
qed

definition secret_body :: frame_body where
  "secret_body = \<lparr>b_handles = [handle_val 0x40000001, handle_val 0x03000000],
     b_params = [VBuffer [1], VBuffer [], VBuffer [7], VInt [0, 0, 0, 9]]\<rparr>"

definition secret_frame :: "u8 list" where
  "secret_frame = command_bytes Cc_PolicySecret St_NoSessions (body_handle_bytes secret_body) []
     (body_param_bytes TpmPolicySecretCommand secret_body)"

lemma secret_unmarshal: "TpmCommand_unmarshal TpmPolicySecretCommand secret_frame = Ok secret_body"
proof -
  have "body_valid TpmPolicySecretCommand secret_body"
    by (simp add: secret_body_def body_valid_def TpmPolicySecretCommand_def Tpm2bDigest_def Tpm2bNonce_def
        TpmBuffer_valid_iff MAX_DIGEST_SIZE_def u16_max_def TpmInt32_def tpm_int_def)
  from command_roundtrip(2) [OF policy_secret_row this, of St_NoSessions "[]"] show ?thesis
    by (simp add: secret_frame_def) (simp add: TpmPolicySecretCommand_def)
qed

theorem captured_policy_replays_witness:
  "\<exists>p. vtpm_policy_command_from secret_frame (VBuffer []) = Ok p \<and>
     to_command p = Ok (Cc_PolicySecret, \<lparr>b_handles = [handle_val 0x40000001, ZERO_HANDLE],
       b_params = [VBuffer [], VBuffer [], VBuffer [7], int_new 4 0]\<rparr>)"
proof -
  have "f_CC TpmPolicySecretCommand = Cc_PolicySecret"
    by (simp add: TpmPolicySecretCommand_def)
  then have p: "vtpm_policy_command_from secret_frame (VBuffer []) =
      Ok (VtpmPolicySecretCommand (handle_val 0x40000001) (VBuffer []) (VBuffer [7]))"
    unfolding captured_frame [OF policy_secret_row secret_unmarshal]
    by (simp add: vtpm_policy_secret_from_command_def secret_unmarshal) (simp add: secret_body_def)
  moreover have "valid Tpm2bName (VBuffer [])"
    by (simp add: Tpm2bName_def TpmBuffer_valid_iff)
  ultimately show ?thesis
    using captured_policy_replays [OF policy_secret_row secret_unmarshal p]
      \<open>f_CC TpmPolicySecretCommand = Cc_PolicySecret\<close>
    by (simp add: secret_body_def)
qed

subsection \<open>What the documentation says otherwise\<close>

text \<open>The comment of \<open>unpublish_name\<close> promises that the persistent handles given to \<open>new\<close> are left untouched;
  a persistent key that is saved under its handle and removed again takes its mapping along.\<close>

lemma persistent_mapping_lost:
  assumes "handles c = [(name, h)]" "names c = []"
  shows "handles (unpublish_name h (publish_name h name c)) = []"
  using assms by (simp add: publish_name_def unpublish_name_def AList.delete_eq)

end
