(* ===== verification/Device_Transport.thy ===== *)
theory Device_Transport
  imports Wire
begin

text \<open>
  The lower half of \<open>device/src/lib.rs\<close>: the errors of the crate, the shared handle of \<open>with_device\<close>, the
  trait \<open>TpmTransport\<close>, frames over a blocking stream and the Linux character device.

  An operation is a function of the state it has; \<open>None\<close> is a call that never returns, so that
  blocking reads and loops are part of the model.  The operating system is given by records of functions:
  \<open>byte_stream\<close> for a value of type \<open>Read + Write\<close>, \<open>TpmPosixDevice\<close> for a file with \<open>poll\<close> and a clock.
\<close>

subsection \<open>Errors\<close>

text \<open>\<open>std::io::Error\<close> by its kind, which is what the crate compares.\<close>

datatype io_error = Io_UnexpectedEof | Io_WouldBlock | Io_Interrupted | Io_Other nat

datatype TpmDeviceError =
    Dev_AlreadyBorrowed
  | Dev_CapabilityMissing TpmCap
  | Dev_Interrupted
  | Dev_InvalidCc TpmCc
  | Dev_InvalidResponse
  | Dev_Io io_error
  | Dev_Marshal TpmError
  | Dev_NotAvailable
  | Dev_PcrBanksNotAvailable
  | Dev_PcrBankSelectionMismatch
  | Dev_ResponseMismatch TpmCc
  | Dev_Timeout
  | Dev_TpmRc TpmRc
  | Dev_TrailingData
  | Dev_Unmarshal TpmError
  | Dev_UnexpectedEof
  | Dev_UnsupportedAlgorithm TpmAlgId

fun TpmDeviceError_display :: "TpmDeviceError \<Rightarrow> string" where
  "TpmDeviceError_display Dev_AlreadyBorrowed = ''already borrowed''"
| "TpmDeviceError_display (Dev_CapabilityMissing _) = ''capability missing''"
| "TpmDeviceError_display Dev_Interrupted = ''interrupted''"
| "TpmDeviceError_display (Dev_InvalidCc _) = ''invalid cc''"
| "TpmDeviceError_display Dev_InvalidResponse = ''invalid response''"
| "TpmDeviceError_display (Dev_Io _) = ''io''"
| "TpmDeviceError_display (Dev_Marshal _) = ''marshal''"
| "TpmDeviceError_display Dev_NotAvailable = ''not available''"
| "TpmDeviceError_display Dev_PcrBanksNotAvailable = ''pcr banks not available''"
| "TpmDeviceError_display Dev_PcrBankSelectionMismatch = ''pcr bank selection mismatch''"
| "TpmDeviceError_display (Dev_ResponseMismatch _) = ''response mismatch''"
| "TpmDeviceError_display Dev_Timeout = ''timeout''"
| "TpmDeviceError_display (Dev_TpmRc _) = ''tpm rc''"
| "TpmDeviceError_display Dev_TrailingData = ''trailing data''"
| "TpmDeviceError_display (Dev_Unmarshal _) = ''unmarshal''"
| "TpmDeviceError_display Dev_UnexpectedEof = ''unexpected eof''"
| "TpmDeviceError_display (Dev_UnsupportedAlgorithm _) = ''unsupported algorithm''"

text \<open>The hand-written \<open>PartialEq\<close>, with its catch-all.\<close>

definition TpmDeviceError_eq :: "TpmDeviceError \<Rightarrow> TpmDeviceError \<Rightarrow> bool" where
  "TpmDeviceError_eq self other = (case self of
     Dev_CapabilityMissing a \<Rightarrow> (case other of Dev_CapabilityMissing b \<Rightarrow> a = b | _ \<Rightarrow> False)
   | Dev_InvalidCc a \<Rightarrow> (case other of Dev_InvalidCc b \<Rightarrow> a = b | _ \<Rightarrow> False)
   | Dev_ResponseMismatch a \<Rightarrow> (case other of Dev_ResponseMismatch b \<Rightarrow> a = b | _ \<Rightarrow> False)
   | Dev_Io a \<Rightarrow> (case other of Dev_Io b \<Rightarrow> a = b | _ \<Rightarrow> False)
   | Dev_Marshal a \<Rightarrow> (case other of Dev_Marshal b \<Rightarrow> a = b | _ \<Rightarrow> False)
   | Dev_Unmarshal a \<Rightarrow> (case other of Dev_Unmarshal b \<Rightarrow> a = b | _ \<Rightarrow> False)
   | Dev_TpmRc a \<Rightarrow> (case other of Dev_TpmRc b \<Rightarrow> a = b | _ \<Rightarrow> False)
   | Dev_UnsupportedAlgorithm a \<Rightarrow> (case other of Dev_UnsupportedAlgorithm b \<Rightarrow> a = b | _ \<Rightarrow> False)
   | Dev_AlreadyBorrowed \<Rightarrow> (case other of Dev_AlreadyBorrowed \<Rightarrow> True | _ \<Rightarrow> False)
   | Dev_Interrupted \<Rightarrow> (case other of Dev_Interrupted \<Rightarrow> True | _ \<Rightarrow> False)
   | Dev_InvalidResponse \<Rightarrow> (case other of Dev_InvalidResponse \<Rightarrow> True | _ \<Rightarrow> False)
   | Dev_NotAvailable \<Rightarrow> (case other of Dev_NotAvailable \<Rightarrow> True | _ \<Rightarrow> False)
   | Dev_PcrBanksNotAvailable \<Rightarrow> (case other of Dev_PcrBanksNotAvailable \<Rightarrow> True | _ \<Rightarrow> False)
   | Dev_PcrBankSelectionMismatch \<Rightarrow> (case other of Dev_PcrBankSelectionMismatch \<Rightarrow> True | _ \<Rightarrow> False)
   | Dev_Timeout \<Rightarrow> (case other of Dev_Timeout \<Rightarrow> True | _ \<Rightarrow> False)
   | Dev_TrailingData \<Rightarrow> (case other of Dev_TrailingData \<Rightarrow> True | _ \<Rightarrow> False)
   | Dev_UnexpectedEof \<Rightarrow> (case other of Dev_UnexpectedEof \<Rightarrow> True | _ \<Rightarrow> False))"

lemma TpmDeviceError_eq_iff: "TpmDeviceError_eq a b \<longleftrightarrow> a = b"
  by (cases a; cases b) (simp_all add: TpmDeviceError_eq_def)

text \<open>\<open>From<nix::Error>\<close>: the error of a system call, by its number.\<close>

definition EINTR :: nat where "EINTR = 4"

definition EAGAIN :: nat where "EAGAIN = 11"

definition from_raw_os_error :: "nat \<Rightarrow> io_error" where
  "from_raw_os_error e =
     (if e = EINTR then Io_Interrupted else if e = EAGAIN then Io_WouldBlock else Io_Other e)"

subsection \<open>Operations with a state\<close>

type_synonym ('a, 'd) dev = "'d \<Rightarrow> (('a, TpmDeviceError) result \<times> 'd) option"

definition dev_return :: "('a, TpmDeviceError) result \<Rightarrow> ('a, 'd) dev" where
  "dev_return r d = Some (r, d)"

definition dev_bind :: "('a, 'd) dev \<Rightarrow> ('a \<Rightarrow> ('b, 'd) dev) \<Rightarrow> ('b, 'd) dev" where
  "dev_bind m f d = Option.bind (m d) (\<lambda>(r, d'). case r of
       Ok x \<Rightarrow> f x d'
     | Err e \<Rightarrow> Some (Err e, d')
     | Panic \<Rightarrow> Some (Panic, d'))"

lemma dev_bind_Some [simp]:
  "m d = Some (Ok x, d') \<Longrightarrow> dev_bind m f d = f x d'"
  "m d = Some (Err e, d') \<Longrightarrow> dev_bind m f d = Some (Err e, d')"
  "m d = Some (Panic, d') \<Longrightarrow> dev_bind m f d = Some (Panic, d')"
  "m d = None \<Longrightarrow> dev_bind m f d = None"
  by (simp_all add: dev_bind_def)

lemma dev_return_apply [simp]: "dev_return r d = Some (r, d)"
  by (simp add: dev_return_def)

lemma dev_outcomes:
  obtains "m d = None" | x d' where "m d = Some (Ok x, d')" | e d' where "m d = Some (Err e, d')"
    | d' where "m d = Some (Panic, d')"
  by (cases "m d") (metis result.exhaust surj_pair option.exhaust)+

lemma dev_bind_Ok_iff:
  "dev_bind m f d = Some (Ok y, d'') \<longleftrightarrow> (\<exists>x d'. m d = Some (Ok x, d') \<and> f x d' = Some (Ok y, d''))"
  by (rule dev_outcomes [of m d]) (auto simp: dev_bind_def)

lemma dev_bind_Err_iff:
  "dev_bind m f d = Some (Err e, d'') \<longleftrightarrow>
     m d = Some (Err e, d'') \<or> (\<exists>x d'. m d = Some (Ok x, d') \<and> f x d' = Some (Err e, d''))"
  by (rule dev_outcomes [of m d]) (auto simp: dev_bind_def)

lemma dev_bind_None_iff:
  "dev_bind m f d = None \<longleftrightarrow> m d = None \<or> (\<exists>x d'. m d = Some (Ok x, d') \<and> f x d' = None)"
  by (rule dev_outcomes [of m d]) (auto simp: dev_bind_def)

lemma dev_bind_cong [fundef_cong]:
  "\<lbrakk>m d = m' d; \<And>x d'. m' d = Some (Ok x, d') \<Longrightarrow> f x d' = g x d'\<rbrakk> \<Longrightarrow> dev_bind m f d = dev_bind m' g d"
  by (auto simp: dev_bind_def split: result.splits option.splits intro!: Option.bind_cong)

subsection \<open>A shared device\<close>

text \<open>\<open>Option<&Rc<RefCell<TpmDevice>>>\<close>: the cell with the mark of a live mutable borrow.\<close>

record 'd ref_cell =
  borrowed :: bool
  contents :: 'd

definition with_device ::
  "(TpmDeviceError \<Rightarrow> 'e) \<Rightarrow> 'd ref_cell option \<Rightarrow> ('d \<Rightarrow> (('a, 'e) result \<times> 'd) option) \<Rightarrow>
   (('a, 'e) result \<times> 'd ref_cell option) option" where
  "with_device into device function =
     (case device of
        None \<Rightarrow> Some (Err (into Dev_NotAvailable), None)
      | Some cell \<Rightarrow>
          if borrowed cell then Some (Err (into Dev_AlreadyBorrowed), Some cell)
          else map_option (\<lambda>(r, d). (r, Some (cell\<lparr>contents := d\<rparr>))) (function (contents cell)))"

subsection \<open>Transports\<close>

text \<open>The trait: \<open>recv\<close> has the caller's buffer and the transport as its state.\<close>

record 't TpmTransport =
  t_send :: "u8 list \<Rightarrow> (unit, 't) dev"
  t_recv :: "(unit, u8 list \<times> 't) dev"

definition frame_size :: "u8 list \<Rightarrow> (nat, TpmDeviceError) result" where
  "frame_size hdr =
     (if length hdr < 6 then Err Dev_InvalidResponse
      else let n = from_be_bytes (take 4 (drop 2 hdr)) in
        if \<not> (TPM_HEADER_SIZE \<le> n \<and> n \<le> TPM_MAX_COMMAND_SIZE) then Err Dev_InvalidResponse
        else Ok n)"

definition vec_resize :: "nat \<Rightarrow> 'a \<Rightarrow> 'a list \<Rightarrow> 'a list" where
  "vec_resize n x xs = take n xs @ replicate (n - length xs) x"

subsection \<open>Streams\<close>

text \<open>A type that is \<open>Read + Write\<close>.  \<open>read_exact\<close> has the slice to fill in its state and keeps its
  length; what a failed call leaves in it is up to the stream.\<close>

type_synonym ('a, 's) io = "'s \<Rightarrow> (('a, io_error) result \<times> 's) option"

record 's byte_stream =
  read_exact :: "(unit, u8 list \<times> 's) io"
  write_all :: "u8 list \<Rightarrow> (unit, 's) io"
  stream_flush :: "(unit, 's) io"

definition io_dev :: "(io_error \<Rightarrow> TpmDeviceError) \<Rightarrow> ('a, 's) io \<Rightarrow> ('a, 's) dev" where
  "io_dev into m s = map_option (\<lambda>(r, s'). (map_err into r, s')) (m s)"

definition fill_exact :: "'s byte_stream \<Rightarrow> (unit, u8 list \<times> 's) dev" where
  "fill_exact S =
     io_dev (\<lambda>e. if e = Io_UnexpectedEof then Dev_UnexpectedEof else Dev_Io e) (read_exact S)"

text \<open>An operation on \<open>&mut buf[n..]\<close>.\<close>

definition on_tail :: "nat \<Rightarrow> (unit, u8 list \<times> 's) dev \<Rightarrow> (unit, u8 list \<times> 's) dev" where
  "on_tail n m s = (case s of (buf, t) \<Rightarrow>
     map_option (\<lambda>(r, tail, t'). (r, take n buf @ tail, t')) (m (drop n buf, t)))"

definition read_frame :: "'s byte_stream \<Rightarrow> (unit, u8 list \<times> 's) dev" where
  "read_frame S s = (case s of (_, t) \<Rightarrow>
     dev_bind (fill_exact S) (\<lambda>_ (buf, t).
       dev_bind (dev_return (frame_size buf)) (\<lambda>n (buf, t).
         on_tail TPM_HEADER_SIZE (fill_exact S) (vec_resize n 0 buf, t)) (buf, t))
       (vec_resize TPM_HEADER_SIZE 0 [], t))"

definition write_frame :: "'s byte_stream \<Rightarrow> u8 list \<Rightarrow> (unit, 's) dev" where
  "write_frame S frame =
     dev_bind (io_dev Dev_Io (write_all S frame)) (\<lambda>_. io_dev Dev_Io (stream_flush S))"

text \<open>\<open>TpmStreamTransport\<close>: its state is the stream it wraps.\<close>

definition TpmStreamTransport :: "'s byte_stream \<Rightarrow> 's TpmTransport" where
  "TpmStreamTransport S = \<lparr>t_send = write_frame S, t_recv = read_frame S\<rparr>"

subsection \<open>The character device\<close>

record revents =
  POLLIN :: bool
  POLLERR :: bool
  POLLNVAL :: bool
  POLLHUP :: bool

definition no_revents :: revents where
  "no_revents = \<lparr>POLLIN = False, POLLERR = False, POLLNVAL = False, POLLHUP = False\<rparr>"

text \<open>\<open>poll\<close> answers with the number of ready descriptors and the events of the one asked about
  (\<open>None\<close> for unknown bits), or with an error number.\<close>

datatype poll_result = Polled nat "revents option" | Poll_failed nat

text \<open>The file and the rest of the system are the state \<open>'w\<close>.  \<open>px_read\<close> has the size of the buffer and
  returns the bytes it put there; a clock reading is in nanoseconds.\<close>

record 'w TpmPosixDevice =
  px_interrupted :: "'w \<Rightarrow> bool \<times> 'w"
  px_now :: "'w \<Rightarrow> nat \<times> 'w"
  px_poll :: "nat \<Rightarrow> 'w \<Rightarrow> poll_result \<times> 'w"
  px_read :: "nat \<Rightarrow> 'w \<Rightarrow> (u8 list, io_error) result \<times> 'w"
  px_write_all :: "u8 list \<Rightarrow> (unit, 'w) io"
  px_flush :: "(unit, 'w) io"
  px_timeout :: nat

text \<open>\<open>receive\<close>, with the bytes \<open>&temp_buf[..n]\<close> for the count \<open>n\<close>.\<close>

definition Posix_receive :: "'w TpmPosixDevice \<Rightarrow> nat \<Rightarrow> 'w \<Rightarrow> (u8 list, TpmDeviceError) result \<times> 'w" where
  "Posix_receive P n w =
     (case px_poll P 100 w of
        (Poll_failed e, w) \<Rightarrow> if e = EINTR then (Ok [], w) else (Err (Dev_Io (from_raw_os_error e)), w)
      | (Polled num events, w) \<Rightarrow>
          if num = 0 then (Ok [], w)
          else let revents = (case events of Some ev \<Rightarrow> ev | None \<Rightarrow> no_revents) in
            if POLLERR revents \<or> POLLNVAL revents then (Err Dev_UnexpectedEof, w)
            else if POLLIN revents then
              (case px_read P n w of
                 (Ok bytes, w) \<Rightarrow> if bytes = [] then (Err Dev_UnexpectedEof, w) else (Ok bytes, w)
               | (Err e, w) \<Rightarrow>
                   if e = Io_WouldBlock \<or> e = Io_Interrupted then (Ok [], w) else (Err (Dev_Io e), w)
               | (Panic, w) \<Rightarrow> (Panic, w))
            else if POLLHUP revents then (Err Dev_UnexpectedEof, w)
            else (Ok [], w))"

definition Posix_send :: "'w TpmPosixDevice \<Rightarrow> u8 list \<Rightarrow> (unit, 'w) dev" where
  "Posix_send P frame =
     dev_bind (io_dev Dev_Io (px_write_all P frame)) (\<lambda>_. io_dev Dev_Io (px_flush P))"

text \<open>One turn of the loop of \<open>recv\<close>: \<open>Inl\<close> when it returns, \<open>Inr\<close> with the new \<open>total_size\<close> when it goes on.\<close>

definition Posix_recv_turn ::
  "'w TpmPosixDevice \<Rightarrow> nat \<Rightarrow> nat option \<Rightarrow> u8 list \<times> 'w \<Rightarrow>
   ((unit, TpmDeviceError) result + nat option) \<times> u8 list \<times> 'w" where
  "Posix_recv_turn P start_time total_size s = (case s of (buf, w) \<Rightarrow>
     let (stop, w) = px_interrupted P w in
       if stop then (Inl (Err Dev_Interrupted), buf, w)
       else let (instant, w) = px_now P w in
         if instant - start_time > px_timeout P then (Inl (Err Dev_Timeout), buf, w)
         else (case Posix_receive P 1024 w of
           (Err e, w) \<Rightarrow> (Inl (Err e), buf, w)
         | (Panic, w) \<Rightarrow> (Inl Panic, buf, w)
         | (Ok bytes, w) \<Rightarrow>
             let buf = buf @ bytes in
             (case (if total_size = None \<and> TPM_HEADER_SIZE \<le> length buf
                   then and_then (frame_size buf) (\<lambda>n. Ok (Some n)) else Ok total_size) of
               Err e \<Rightarrow> (Inl (Err e), buf, w)
             | Panic \<Rightarrow> (Inl Panic, buf, w)
             | Ok total_size' \<Rightarrow> (case total_size' of
                   None \<Rightarrow> (Inr None, buf, w)
                 | Some n \<Rightarrow>
                     if length buf = n then (Inl (Ok ()), buf, w)
                     else if length buf > n then (Inl (Err Dev_TrailingData), buf, w)
                     else (Inr (Some n), buf, w)))))"

partial_function (option) Posix_recv_loop ::
  "'w TpmPosixDevice \<Rightarrow> nat \<Rightarrow> nat option \<Rightarrow> (unit, u8 list \<times> 'w) dev"
where
  "Posix_recv_loop P start_time total_size s =
     (case Posix_recv_turn P start_time total_size s of
        (Inl r, s') \<Rightarrow> Some (r, s')
      | (Inr total_size', s') \<Rightarrow> Posix_recv_loop P start_time total_size' s')"

definition Posix_recv :: "'w TpmPosixDevice \<Rightarrow> (unit, u8 list \<times> 'w) dev" where
  "Posix_recv P s = (case s of (_, w) \<Rightarrow>
     let (start_time, w) = px_now P w in Posix_recv_loop P start_time None ([], w))"

definition TpmPosixTransport :: "'w TpmPosixDevice \<Rightarrow> 'w TpmTransport" where
  "TpmPosixTransport P = \<lparr>t_send = Posix_send P, t_recv = Posix_recv P\<rparr>"

subsection \<open>Opening the character device\<close>

record 'w TpmPosixDeviceBuilder =
  px_path :: string
  px_builder_timeout :: nat
  px_handler :: "'w \<Rightarrow> bool \<times> 'w"

definition PosixBuilder_default :: "'w TpmPosixDeviceBuilder" where
  "PosixBuilder_default =
     \<lparr>px_path = ''/dev/tpmrm0'', px_builder_timeout = 2 * 60 * 10 ^ 9, px_handler = (\<lambda>w. (False, w))\<rparr>"

definition PosixBuilder_with_path :: "string \<Rightarrow> 'w TpmPosixDeviceBuilder \<Rightarrow> 'w TpmPosixDeviceBuilder" where
  "PosixBuilder_with_path path b = b\<lparr>px_path := path\<rparr>"

definition PosixBuilder_with_timeout :: "nat \<Rightarrow> 'w TpmPosixDeviceBuilder \<Rightarrow> 'w TpmPosixDeviceBuilder" where
  "PosixBuilder_with_timeout timeout b = b\<lparr>px_builder_timeout := timeout\<rparr>"

definition PosixBuilder_with_interrupted ::
  "('w \<Rightarrow> bool \<times> 'w) \<Rightarrow> 'w TpmPosixDeviceBuilder \<Rightarrow> 'w TpmPosixDeviceBuilder" where
  "PosixBuilder_with_interrupted handler b = b\<lparr>px_handler := handler\<rparr>"

text \<open>The system calls of \<open>build\<close>; \<open>os_oflags\<close> are the flag bits \<open>fcntl::OFlag\<close> knows.\<close>

record 'w os_calls =
  os_open :: "string \<Rightarrow> 'w \<Rightarrow> (unit, io_error) result \<times> 'w"
  os_getfl :: "'w \<Rightarrow> (u32, nat) result \<times> 'w"
  os_setfl :: "u32 \<Rightarrow> 'w \<Rightarrow> (unit, nat) result \<times> 'w"
  os_oflags :: u32
  os_file :: "'w TpmPosixDevice"

definition O_NONBLOCK :: u32 where "O_NONBLOCK = 0x800"

definition PosixBuilder_build :: "'w os_calls \<Rightarrow> 'w TpmPosixDeviceBuilder \<Rightarrow> ('w TpmPosixDevice, 'w) dev" where
  "PosixBuilder_build os b w =
     (case os_open os (px_path b) w of
        (Err e, w) \<Rightarrow> Some (Err (Dev_Io e), w)
      | (Panic, w) \<Rightarrow> Some (Panic, w)
      | (Ok _, w) \<Rightarrow> (case os_getfl os w of
          (Err e, w) \<Rightarrow> Some (Err (Dev_Io (from_raw_os_error e)), w)
        | (Panic, w) \<Rightarrow> Some (Panic, w)
        | (Ok flags, w) \<Rightarrow> (case os_setfl os ((flags AND os_oflags os) OR O_NONBLOCK) w of
            (Err e, w) \<Rightarrow> Some (Err (Dev_Io (from_raw_os_error e)), w)
          | (Panic, w) \<Rightarrow> Some (Panic, w)
          | (Ok _, w) \<Rightarrow>
              Some (Ok ((os_file os)\<lparr>px_interrupted := px_handler b, px_timeout := px_builder_timeout b\<rparr>), w))))"

end
