(* ===== verification/Device.thy ===== *)
theory Device
  imports Device_Transport Hash Policy_Compile
begin

text \<open>
  The upper half of \<open>device/src/lib.rs\<close>: \<open>TpmDevice\<close>, which sends commands and reads their responses,
  the paginated capability queries, contexts and sessions, and \<open>TpmResponder\<close>, the other end.  Every
  operation has the device as its state and takes the transport it drives as its first argument.
\<close>

subsection \<open>Transmitting\<close>

record 't TpmDevice =
  transport :: 't
  dev_command :: "u8 list"
  dev_response :: "u8 list"

definition TpmDevice_new :: "'t \<Rightarrow> 't TpmDevice" where
  "TpmDevice_new t = \<lparr>transport = t, dev_command = [], dev_response = []\<rparr>"

definition NO_SESSIONS :: "val list" where "NO_SESSIONS = []"

definition CAPABILITY_PAGE_SIZE :: u32 where "CAPABILITY_PAGE_SIZE = of_nat MAX_HANDLES"

text \<open>The writer works in place: a failed marshalling leaves its buffer as the command.\<close>

definition prepare_command :: "TpmFrame \<Rightarrow> val list \<Rightarrow> (unit, 't TpmDevice) dev" where
  "prepare_command command sessions d =
     (let tag = (if sessions = [] then St_NoSessions else St_Sessions);
          buf = vec_resize TPM_MAX_COMMAND_SIZE 0 (dev_command d) in
      case tpm_marshal_command command tag sessions (Writer_new buf) of
        (Ok _, w) \<Rightarrow> Some (Ok (), d\<lparr>dev_command := take (cursor w) (buffer w)\<rparr>)
      | (Err e, w) \<Rightarrow> Some (Err (Dev_Marshal e), d\<lparr>dev_command := buffer w\<rparr>)
      | (Panic, w) \<Rightarrow> Some (Panic, d\<lparr>dev_command := buffer w\<rparr>))"

definition send_command :: "'t TpmTransport \<Rightarrow> (unit, 't TpmDevice) dev" where
  "send_command T d =
     map_option (\<lambda>(r, t). (r, d\<lparr>transport := t\<rparr>)) (t_send T (dev_command d) (transport d))"

definition recv_response :: "'t TpmTransport \<Rightarrow> (unit, 't TpmDevice) dev" where
  "recv_response T d =
     map_option (\<lambda>(r, buf, t). (r, d\<lparr>dev_response := buf, transport := t\<rparr>))
       (t_recv T (dev_response d, transport d))"

text \<open>What \<open>transmit\<close> makes of the bytes it received.\<close>

definition response_outcome :: "TpmCc \<Rightarrow> u8 list \<Rightarrow> (u8 list, TpmDeviceError) result" where
  "response_outcome cc buf =
     and_then (map_err Dev_Unmarshal (TpmResponse_cast buf)) (\<lambda>response.
     and_then (map_err Dev_Unmarshal (TpmResponseView_cast cc response)) (\<lambda>outcome.
       case outcome of
         Dispatched _ _ \<Rightarrow> Ok response
       | Rejected rc \<Rightarrow> Err (Dev_TpmRc rc)))"

definition transmit :: "'t TpmTransport \<Rightarrow> TpmFrame \<Rightarrow> val list \<Rightarrow> (u8 list, 't TpmDevice) dev" where
  "transmit T command sessions =
     dev_bind (prepare_command command sessions) (\<lambda>_.
     dev_bind (send_command T) (\<lambda>_.
     dev_bind (recv_response T) (\<lambda>_ d.
       dev_return (response_outcome (frame_cc command) (dev_response d)) d)))"

text \<open>A command whose response body is read with \<open>response.unmarshal::<R>()\<close>.\<close>

definition transact ::
  "'t TpmTransport \<Rightarrow> frame_decl \<Rightarrow> frame_body \<Rightarrow> frame_decl \<Rightarrow> (frame_body, 't TpmDevice) dev" where
  "transact T cmd body resp =
     dev_bind (transmit T (frame_of cmd body) NO_SESSIONS) (\<lambda>response.
       dev_return (map_err Dev_Unmarshal (TpmResponse_unmarshal resp response)))"

subsection \<open>Capabilities\<close>

definition get_capability_page ::
  "'t TpmTransport \<Rightarrow> TpmCap \<Rightarrow> u32 \<Rightarrow> u32 \<Rightarrow> (bool \<times> val, 't TpmDevice) dev" where
  "get_capability_page T cap property property_count =
     dev_bind (transact T TpmGetCapabilityCommand
         \<lparr>b_handles = [],
          b_params = [VEnum (ECap cap), int_new 4 (unat property), int_new 4 (unat property_count)]\<rparr>
         TpmGetCapabilityResponse)
       (\<lambda>body. dev_return (case b_params body of
            [VBool more_data, VStruct [_, data]] \<Rightarrow> Ok (more_data, data)
          | _ \<Rightarrow> Panic))"

text \<open>The closures \<open>extract\<close>: the items of one variant of \<open>TpmuCapabilities\<close>.\<close>

definition extract_items :: "TpmCap \<Rightarrow> string \<Rightarrow> val \<Rightarrow> (val list, TpmDeviceError) result" where
  "extract_items cap variant caps = (case caps of
       VUnion x (Some (VList items)) \<Rightarrow> if x = variant then Ok items else Err (Dev_CapabilityMissing cap)
     | _ \<Rightarrow> Err (Dev_CapabilityMissing cap))"

text \<open>The loop of \<open>get_capability\<close>.  It ends because \<open>prop\<close> grows.\<close>

function get_capability_from ::
  "'t TpmTransport \<Rightarrow> TpmCap \<Rightarrow> u32 \<Rightarrow> (val \<Rightarrow> (val list, TpmDeviceError) result) \<Rightarrow> (val \<Rightarrow> u32) \<Rightarrow>
   val list \<Rightarrow> u32 \<Rightarrow> (val list, 't TpmDevice) dev"
where
  "get_capability_from T cap count extract next_prop results prop d =
     dev_bind (get_capability_page T cap prop count) (\<lambda>(more_data, data).
     dev_bind (dev_return (extract data)) (\<lambda>items.
       let results = results @ items in
       if \<not> more_data then dev_return (Ok results)
       else if items = [] then dev_return (Ok results)
       else let next = next_prop (last items) in
         if next \<le> prop then dev_return (Ok results)
         else get_capability_from T cap count extract next_prop results next)) d"
  by pat_completeness auto

termination
  by (relation "measure (\<lambda>(_, _, _, _, _, _, prop, _). 2 ^ 32 - unat prop)")
    (auto simp: word_less_nat_alt not_le intro!: diff_less_mono2 order_less_le_trans [OF unsigned_less])

declare get_capability_from.simps [simp del]

definition get_capability ::
  "'t TpmTransport \<Rightarrow> TpmCap \<Rightarrow> u32 \<Rightarrow> u32 \<Rightarrow> (val \<Rightarrow> (val list, TpmDeviceError) result) \<Rightarrow>
   (val \<Rightarrow> u32) \<Rightarrow> (val list, 't TpmDevice) dev" where
  "get_capability T cap property_start count extract next_prop =
     get_capability_from T cap count extract next_prop [] property_start"

text \<open>The value of an enumeration in the first field of a property, or of the property itself.\<close>

fun enum_key :: "val \<Rightarrow> int" where
  "enum_key (VEnum e) = enum_val_value e"
| "enum_key (VStruct (VEnum e # _)) = enum_val_value e"
| "enum_key _ = 0"

definition next_enum :: "val \<Rightarrow> u32" where
  "next_enum item = word_of_int (enum_key item) + 1"

definition handle_value :: "val \<Rightarrow> u32" where
  "handle_value h = word_of_nat (int_value h)"

definition next_handle :: "val \<Rightarrow> u32" where
  "next_handle h = (if handle_value h = 0xFFFFFFFF then 0xFFFFFFFF else handle_value h + 1)"

definition fetch_algorithm_properties :: "'t TpmTransport \<Rightarrow> (val list, 't TpmDevice) dev" where
  "fetch_algorithm_properties T =
     get_capability T Cap_Algs 0 CAPABILITY_PAGE_SIZE (extract_items Cap_Algs ''Algs'') next_enum"

definition handle_class :: "TpmHt \<Rightarrow> u32" where
  "handle_class ht = word_of_int (TpmHt_value ht)"

definition fetch_handles :: "'t TpmTransport \<Rightarrow> TpmHt \<Rightarrow> (val list, 't TpmDevice) dev" where
  "fetch_handles T ht =
     dev_bind (get_capability T Cap_Handles (push_bit 24 (handle_class ht)) CAPABILITY_PAGE_SIZE
         (extract_items Cap_Handles ''Handles'') next_handle)
       (\<lambda>handles. dev_return (Ok (filter (\<lambda>h. drop_bit 24 (handle_value h) = handle_class ht) handles)))"

definition fetch_ecc_curves :: "'t TpmTransport \<Rightarrow> (val list, 't TpmDevice) dev" where
  "fetch_ecc_curves T =
     get_capability T Cap_EccCurves 0 CAPABILITY_PAGE_SIZE (extract_items Cap_EccCurves ''EccCurves'') next_enum"

text \<open>The loop over the banks of \<open>fetch_pcr_bank_list\<close>: a bank is a hash with its selection.\<close>

fun pcr_bank :: "val \<Rightarrow> TpmAlgId \<times> u8 list" where
  "pcr_bank (VStruct [VEnum (EAlgId hash), VBuffer pcr_select]) = (hash, pcr_select)"
| "pcr_bank _ = (Alg_Error, [])"

fun collect_banks ::
  "(TpmAlgId \<times> u8 list) list \<Rightarrow> u8 list option \<Rightarrow> TpmAlgId list \<Rightarrow>
   (u8 list option \<times> TpmAlgId list, TpmDeviceError) result" where
  "collect_banks [] common_select algs = Ok (common_select, algs)"
| "collect_banks ((hash, pcr_select) # banks) common_select algs =
     (if \<forall>b \<in> set pcr_select. b = 0 then collect_banks banks common_select algs
      else case common_select of
          Some select \<Rightarrow>
            if pcr_select \<noteq> select then Err Dev_PcrBankSelectionMismatch
            else collect_banks banks (Some select) (algs @ [hash])
        | None \<Rightarrow> collect_banks banks (Some pcr_select) (algs @ [hash]))"

definition pcr_bank_list :: "(TpmAlgId \<times> u8 list) list \<Rightarrow> (TpmAlgId list \<times> u8 list, TpmDeviceError) result" where
  "pcr_bank_list banks =
     (if banks = [] then Err Dev_PcrBanksNotAvailable
      else and_then (collect_banks banks None []) (\<lambda>(common_select, algs).
        and_then (ok_or Dev_PcrBanksNotAvailable common_select) (\<lambda>select. Ok (sort algs, select))))"

definition fetch_pcr_bank_list :: "'t TpmTransport \<Rightarrow> (TpmAlgId list \<times> u8 list, 't TpmDevice) dev" where
  "fetch_pcr_bank_list T =
     dev_bind (get_capability T Cap_Pcrs 0 CAPABILITY_PAGE_SIZE (extract_items Cap_Pcrs ''Pcrs'') next_enum)
       (\<lambda>pcrs. dev_return (pcr_bank_list (map pcr_bank pcrs)))"

definition fetch_tpm_property :: "'t TpmTransport \<Rightarrow> TpmPt \<Rightarrow> (u32, 't TpmDevice) dev" where
  "fetch_tpm_property T property =
     dev_bind (get_capability_page T Cap_TpmProperties (word_of_int (TpmPt_value property)) 1)
       (\<lambda>(_, data). dev_return
         (and_then (extract_items Cap_TpmProperties ''TpmProperties'' data) (\<lambda>props.
            case find (\<lambda>prop. case prop of VStruct [p, _] \<Rightarrow> p = VEnum (EPt property) | _ \<Rightarrow> False) props of
              Some (VStruct [_, v]) \<Rightarrow> Ok (handle_value v)
            | _ \<Rightarrow> Err (Dev_CapabilityMissing Cap_TpmProperties))))"

subsection \<open>Objects and contexts\<close>

definition read_public :: "'t TpmTransport \<Rightarrow> val \<Rightarrow> (val \<times> val, 't TpmDevice) dev" where
  "read_public T handle =
     dev_bind (transact T TpmReadPublicCommand \<lparr>b_handles = [handle], b_params = []\<rparr> TpmReadPublicResponse)
       (\<lambda>body. dev_return (case b_params body of [public, name, _] \<Rightarrow> Ok (public, name) | _ \<Rightarrow> Panic))"

text \<open>A rejection that says the handle refers to nothing.\<close>

definition gone :: "TpmRc \<Rightarrow> bool" where
  "gone rc \<longleftrightarrow> TpmRc_base rc = Rc_ReferenceH0 \<or> TpmRc_base rc = Rc_Handle"

fun find_named :: "'t TpmTransport \<Rightarrow> val \<Rightarrow> val list \<Rightarrow> (val option, 't TpmDevice) dev" where
  "find_named T target_name [] d = Some (Ok None, d)"
| "find_named T target_name (handle # handles) d = (case read_public T handle d of
       None \<Rightarrow> None
     | Some (Ok (_, name), d') \<Rightarrow>
         if name = target_name then Some (Ok (Some handle), d') else find_named T target_name handles d'
     | Some (Err e, d') \<Rightarrow> (case e of
           Dev_TpmRc rc \<Rightarrow>
             if gone rc then find_named T target_name handles d' else Some (Err (Dev_TpmRc rc), d')
         | _ \<Rightarrow> Some (Err e, d'))
     | Some (Panic, d') \<Rightarrow> Some (Panic, d'))"

definition find_persistent :: "'t TpmTransport \<Rightarrow> val \<Rightarrow> (val option, 't TpmDevice) dev" where
  "find_persistent T target_name =
     dev_bind (fetch_handles T Ht_Persistent) (find_named T target_name)"

definition save_context :: "'t TpmTransport \<Rightarrow> val \<Rightarrow> (val, 't TpmDevice) dev" where
  "save_context T handle =
     dev_bind (transact T TpmContextSaveCommand \<lparr>b_handles = [handle], b_params = []\<rparr> TpmContextSaveResponse)
       (\<lambda>body. dev_return (case b_params body of [saved] \<Rightarrow> Ok saved | _ \<Rightarrow> Panic))"

definition load_context :: "'t TpmTransport \<Rightarrow> val \<Rightarrow> (val, 't TpmDevice) dev" where
  "load_context T saved =
     dev_bind (transact T TpmContextLoadCommand \<lparr>b_handles = [], b_params = [saved]\<rparr> TpmContextLoadResponse)
       (\<lambda>body. dev_return (case b_handles body of [handle] \<Rightarrow> Ok handle | _ \<Rightarrow> Panic))"

definition flush_context :: "'t TpmTransport \<Rightarrow> val \<Rightarrow> (unit, 't TpmDevice) dev" where
  "flush_context T handle =
     dev_bind (transmit T (frame_of TpmFlushContextCommand \<lparr>b_handles = [], b_params = [handle]\<rparr>) NO_SESSIONS)
       (\<lambda>_. dev_return (Ok ()))"

definition flush_session :: "'t TpmTransport \<Rightarrow> val \<Rightarrow> (unit, 't TpmDevice) dev" where
  "flush_session T saved d = (case load_context T saved d of
       None \<Rightarrow> None
     | Some (Ok handle, d') \<Rightarrow> flush_context T handle d'
     | Some (Err e, d') \<Rightarrow> (case e of
           Dev_TpmRc rc \<Rightarrow> if gone rc then Some (Ok (), d') else Some (Err (Dev_TpmRc rc), d')
         | _ \<Rightarrow> Some (Err e, d'))
     | Some (Panic, d') \<Rightarrow> Some (Panic, d'))"

subsection \<open>The responder\<close>

record 't TpmResponder =
  r_transport :: 't
  r_command :: "u8 list"

definition TpmResponder_new :: "'t \<Rightarrow> 't TpmResponder" where
  "TpmResponder_new t = \<lparr>r_transport = t, r_command = []\<rparr>"

definition responder_recv :: "'t TpmTransport \<Rightarrow> (unit, 't TpmResponder) dev" where
  "responder_recv T d =
     map_option (\<lambda>(r, buf, t). (r, d\<lparr>r_command := buf, r_transport := t\<rparr>))
       (t_recv T (r_command d, r_transport d))"

definition recv_command :: "'t TpmTransport \<Rightarrow> (u8 list, 't TpmResponder) dev" where
  "recv_command T = dev_bind (responder_recv T) (\<lambda>_ d. dev_return (Ok (r_command d)) d)"

definition send_response :: "'t TpmTransport \<Rightarrow> u8 list \<Rightarrow> (unit, 't TpmResponder) dev" where
  "send_response T frame d =
     map_option (\<lambda>(r, t). (r, d\<lparr>r_transport := t\<rparr>)) (t_send T frame (r_transport d))"

text \<open>The handler is a closure with a state of its own.\<close>

partial_function (option) serve ::
  "'t TpmTransport \<Rightarrow> (u8 list \<Rightarrow> 'h \<Rightarrow> u8 list \<times> 'h) \<Rightarrow> 'h \<Rightarrow> 't TpmResponder \<Rightarrow>
   ((unit, TpmDeviceError) result \<times> 't TpmResponder \<times> 'h) option"
where
  "serve T handler h d =
     Option.bind (responder_recv T d) (\<lambda>(r, d). case r of
         Err e \<Rightarrow> Some (if e = Dev_UnexpectedEof then Ok () else Err e, d, h)
       | Panic \<Rightarrow> Some (Panic, d, h)
       | Ok _ \<Rightarrow>
           (let (response, h) = handler (r_command d) h in
            Option.bind (send_response T response d) (\<lambda>(r, d). case r of
                Err e \<Rightarrow> Some (Err e, d, h)
              | Panic \<Rightarrow> Some (Panic, d, h)
              | Ok _ \<Rightarrow> serve T handler h d)))"

end
