(* ===== verification/Device_Session.thy ===== *)
theory Device_Session
  imports Device
begin

text \<open>
  Policy sessions of \<open>device/src/lib.rs\<close>: \<open>TpmPolicySessionBuilder\<close> and \<open>TpmPolicySession\<close>, which runs a
  list of policy commands against an open session.
\<close>

subsection \<open>The builder\<close>

record TpmPolicySessionBuilder =
  sb_bind :: val
  sb_tpm_key :: val
  sb_nonce_caller :: "u8 list option"
  sb_encrypted_salt :: "u8 list option"
  sb_session_type :: TpmSe
  sb_symmetric :: val
  sb_auth_hash :: TpmAlgId

definition null_handle :: val where
  "null_handle = int_new 4 (nat (TpmRh_value Rh_Null))"

definition SymDefObject_default :: val where
  "SymDefObject_default = VStruct [VEnum (EAlgId Alg_Null), VUnion ''Null'' None, VUnion ''Null'' None]"

definition SessionBuilder_default :: TpmPolicySessionBuilder where
  "SessionBuilder_default = \<lparr>
     sb_bind = null_handle,
     sb_tpm_key = null_handle,
     sb_nonce_caller = None,
     sb_encrypted_salt = None,
     sb_session_type = Se_Policy,
     sb_symmetric = SymDefObject_default,
     sb_auth_hash = Alg_Sha256\<rparr>"

definition with_bind :: "val \<Rightarrow> TpmPolicySessionBuilder \<Rightarrow> TpmPolicySessionBuilder" where
  "with_bind h b = b\<lparr>sb_bind := h\<rparr>"

definition with_tpm_key :: "val \<Rightarrow> TpmPolicySessionBuilder \<Rightarrow> TpmPolicySessionBuilder" where
  "with_tpm_key h b = b\<lparr>sb_tpm_key := h\<rparr>"

definition with_nonce_caller :: "u8 list \<Rightarrow> TpmPolicySessionBuilder \<Rightarrow> TpmPolicySessionBuilder" where
  "with_nonce_caller nonce b = b\<lparr>sb_nonce_caller := Some nonce\<rparr>"

definition with_encrypted_salt :: "u8 list \<Rightarrow> TpmPolicySessionBuilder \<Rightarrow> TpmPolicySessionBuilder" where
  "with_encrypted_salt salt b = b\<lparr>sb_encrypted_salt := Some salt\<rparr>"

definition with_session_type :: "TpmSe \<Rightarrow> TpmPolicySessionBuilder \<Rightarrow> TpmPolicySessionBuilder" where
  "with_session_type session_type b = b\<lparr>sb_session_type := session_type\<rparr>"

definition with_symmetric :: "val \<Rightarrow> TpmPolicySessionBuilder \<Rightarrow> TpmPolicySessionBuilder" where
  "with_symmetric symmetric b = b\<lparr>sb_symmetric := symmetric\<rparr>"

definition with_auth_hash :: "TpmAlgId \<Rightarrow> TpmPolicySessionBuilder \<Rightarrow> TpmPolicySessionBuilder" where
  "with_auth_hash alg b = b\<lparr>sb_auth_hash := alg\<rparr>"

subsection \<open>Sessions\<close>

record DevPolicySession =
  s_handle :: val
  s_attributes :: nat
  s_hash_alg :: TpmAlgId
  s_nonce_tpm :: val

definition CONTINUE_SESSION :: nat where "CONTINUE_SESSION = 0x01"

text \<open>The nonce of the caller: the given one, or \<open>rng\<close>'s bytes, as many as the digest has.\<close>

definition session_nonce :: "libcrypto \<Rightarrow> (nat \<Rightarrow> u8 list) \<Rightarrow> TpmPolicySessionBuilder \<Rightarrow> (u8 list, TpmDeviceError) result" where
  "session_nonce L rng b = (case sb_nonce_caller b of
       Some nonce \<Rightarrow> Ok nonce
     | None \<Rightarrow>
         and_then (map_err (\<lambda>_. Dev_UnsupportedAlgorithm (sb_auth_hash b)) (TpmHash_try_from (sb_auth_hash b)))
           (\<lambda>h. map_err Dev_Unmarshal (TpmBuffer_try_from MAX_DIGEST_SIZE (rng (md_size L h)))))"

definition session_open ::
  "libcrypto \<Rightarrow> 't TpmTransport \<Rightarrow> (nat \<Rightarrow> u8 list) \<Rightarrow> TpmPolicySessionBuilder \<Rightarrow> (DevPolicySession, 't TpmDevice) dev" where
  "session_open L T rng b =
     dev_bind (dev_return (session_nonce L rng b)) (\<lambda>nonce_caller.
     dev_bind (transact T TpmStartAuthSessionCommand
         \<lparr>b_handles = [sb_tpm_key b, sb_bind b],
          b_params = [VBuffer nonce_caller,
            VBuffer (case sb_encrypted_salt b of Some salt \<Rightarrow> salt | None \<Rightarrow> []),
            VEnum (ESe (sb_session_type b)), sb_symmetric b, VEnum (EAlgId (sb_auth_hash b))]\<rparr>
         TpmStartAuthSessionResponse)
       (\<lambda>body. dev_return (case (b_handles body, b_params body) of
            ([handle], [nonce_tpm]) \<Rightarrow>
              Ok \<lparr>s_handle = handle, s_attributes = CONTINUE_SESSION, s_hash_alg = sb_auth_hash b,
                  s_nonce_tpm = nonce_tpm\<rparr>
          | _ \<Rightarrow> Panic)))"

text \<open>The position of the policy session among the handles of a policy command, as the \<open>match\<close> of \<open>run\<close>
  has it; \<open>None\<close> for the commands it rejects.\<close>

definition session_slot :: "TpmCc \<Rightarrow> nat option" where
  "session_slot cc =
     (if cc \<in> {Cc_PolicyPcr, Cc_PolicyOr, Cc_PolicyRestart, Cc_PolicyAuthorize, Cc_PolicyAuthValue,
         Cc_PolicyCommandCode, Cc_PolicyCounterTimer, Cc_PolicyCpHash, Cc_PolicyLocality,
         Cc_PolicyNameHash, Cc_PolicyTicket, Cc_PolicyPhysicalPresence, Cc_PolicyDuplicationSelect,
         Cc_PolicyGetDigest, Cc_PolicyPassword, Cc_PolicyNvWritten, Cc_PolicyTemplate,
         Cc_PolicyCapability, Cc_PolicyParameters, Cc_PolicyTransportSpdm} then Some 0
      else if cc \<in> {Cc_PolicySecret, Cc_PolicySigned} then Some 1
      else if cc \<in> {Cc_PolicyNv, Cc_PolicyAuthorizeNv, Cc_PolicyAcSendSelect} then Some 2
      else None)"

text \<open>A \<open>TpmCommandValue\<close> is a \<open>TpmFrame\<close>: the one of its variant.\<close>

definition command_decl :: "TpmCc \<Rightarrow> frame_decl" where
  "command_decl cc = (case find (\<lambda>(_, cmd, _). f_CC cmd = cc) dispatch_rows of
       Some (_, cmd, _) \<Rightarrow> cmd
     | None \<Rightarrow> Command cc 0 [])"

definition set_handle :: "nat \<Rightarrow> val \<Rightarrow> frame_body \<Rightarrow> frame_body" where
  "set_handle i h body = body\<lparr>b_handles := (b_handles body)[i := h]\<rparr>"

fun session_run ::
  "'t TpmTransport \<Rightarrow> DevPolicySession \<Rightarrow> (TpmCommandValue \<times> TpmAuthCommands) list \<Rightarrow> (unit, 't TpmDevice) dev"
where
  "session_run T session [] d = Some (Ok (), d)"
| "session_run T session ((command, auth_sessions) # commands) d =
     (let cc = TpmCommandValue_cc command in
      case session_slot cc of
        None \<Rightarrow> Some (Err (Dev_InvalidCc cc), d)
      | Some i \<Rightarrow>
          dev_bind (transmit T
              (frame_of (command_decl cc) (set_handle i (s_handle session) (TpmCommandValue_body command)))
              auth_sessions)
            (\<lambda>_. session_run T session commands) d)"

definition session_flush :: "'t TpmTransport \<Rightarrow> DevPolicySession \<Rightarrow> (unit, 't TpmDevice) dev" where
  "session_flush T session = flush_context T (s_handle session)"

end
