(* ===== verification/Device_Laws.thy ===== *)
theory Device_Laws
  imports Device_Session Wire_Response
begin

text \<open>
  The contracts of the device layer.  \<open>duplex_stream\<close> is what the framing needs of a blocking stream,
  \<open>frame_transport\<close> what a device or a responder needs of a transport; the framing gives the second from
  the first.  \<open>next_frame\<close> is the abstract specification of both: the first frame of the bytes to come.
\<close>

subsection \<open>Frames in a byte stream\<close>

definition whole_frame :: "u8 list \<Rightarrow> bool" where
  "whole_frame f \<longleftrightarrow> frame_size f = Ok (length f)"

definition next_frame :: "u8 list \<Rightarrow> (u8 list \<times> u8 list, TpmDeviceError) result" where
  "next_frame input =
     (if length input < 10 then Err Dev_UnexpectedEof
      else and_then (frame_size input) (\<lambda>n.
        if length input < n then Err Dev_UnexpectedEof else Ok (take n input, drop n input)))"

lemma frame_size_take: "6 \<le> n \<Longrightarrow> frame_size (take n f) = frame_size f"
  by (auto simp: frame_size_def drop_take min_def)

lemma frame_size_append: "6 \<le> length f \<Longrightarrow> frame_size (f @ g) = frame_size f"
  using frame_size_take [of "length f" "f @ g"] by simp

lemma frame_size_Ok_iff:
  "frame_size f = Ok n \<longleftrightarrow>
   6 \<le> length f \<and> n = from_be_bytes (take 4 (drop 2 f)) \<and> 10 \<le> n \<and> n \<le> TPM_MAX_COMMAND_SIZE"
  by (auto simp: frame_size_def TPM_HEADER_SIZE_def Let_def)

lemma frame_size_Err: "frame_size f = Err e \<Longrightarrow> e = Dev_InvalidResponse"
  by (auto simp: frame_size_def Let_def split: if_splits)

lemma frame_size_not_Panic [simp]: "frame_size f \<noteq> Panic"
  by (simp add: frame_size_def Let_def)

lemma whole_frame_length: "whole_frame f \<Longrightarrow> 10 \<le> length f \<and> length f \<le> TPM_MAX_COMMAND_SIZE"
  unfolding whole_frame_def frame_size_Ok_iff by (elim conjE, intro conjI)

lemma next_frame_cases:
  assumes "next_frame input = Ok (f, rest)"
  obtains n where "frame_size input = Ok n" "n \<le> length input" "f = take n input" "rest = drop n input"
  using assms by (cases "frame_size input") (auto simp: next_frame_def simp del: and_then_Ok_iff split: if_splits)

lemma next_frame_Ok_iff: "next_frame input = Ok (f, rest) \<longleftrightarrow> whole_frame f \<and> input = f @ rest"
proof
  assume "next_frame input = Ok (f, rest)"
  then obtain n where n: "frame_size input = Ok n" "n \<le> length input" "f = take n input" "rest = drop n input"
    by (rule next_frame_cases)
  moreover from n(1) have "10 \<le> n" by (simp add: frame_size_Ok_iff)
  ultimately show "whole_frame f \<and> input = f @ rest"
    by (simp add: whole_frame_def frame_size_take min_absorb2)
next
  assume f: "whole_frame f \<and> input = f @ rest"
  then have "frame_size input = Ok (length f)"
    using whole_frame_length [of f] by (simp add: whole_frame_def frame_size_append)
  then show "next_frame input = Ok (f, rest)"
    using f whole_frame_length [of f] by (simp add: next_frame_def)
qed

lemma next_frame_append [simp]: "whole_frame f \<Longrightarrow> next_frame (f @ rest) = Ok (f, rest)"
  by (simp add: next_frame_Ok_iff)

lemma next_frame_not_Panic [simp]: "next_frame input \<noteq> Panic"
  by (auto simp: next_frame_def and_then_Panic_iff)

lemma next_frame_Err: "next_frame input = Err e \<Longrightarrow> e = Dev_UnexpectedEof \<or> e = Dev_InvalidResponse"
  by (auto simp: next_frame_def and_then_Err_iff dest: frame_size_Err split: if_splits)

subsection \<open>Streams\<close>

locale duplex_stream =
  fixes S :: "'s byte_stream"
    and incoming :: "'s \<Rightarrow> u8 list"
    and outgoing :: "'s \<Rightarrow> u8 list"
  assumes read_enough: "length buf \<le> length (incoming s) \<Longrightarrow>
      \<exists>s'. read_exact S (buf, s) = Some (Ok (), take (length buf) (incoming s), s') \<and>
           incoming s' = drop (length buf) (incoming s) \<and> outgoing s' = outgoing s"
    and read_short: "length (incoming s) < length buf \<Longrightarrow>
      \<exists>b s'. read_exact S (buf, s) = Some (Err Io_UnexpectedEof, b, s') \<and>
           length b = length buf \<and> outgoing s' = outgoing s"
    and write_appends: "\<exists>s'. write_all S bs s = Some (Ok (), s') \<and>
           incoming s' = incoming s \<and> outgoing s' = outgoing s @ bs"
    and flush_keeps: "\<exists>s'. stream_flush S s = Some (Ok (), s') \<and>
           incoming s' = incoming s \<and> outgoing s' = outgoing s"

locale frame_transport =
  fixes T :: "'t TpmTransport"
    and incoming :: "'t \<Rightarrow> u8 list"
    and outgoing :: "'t \<Rightarrow> u8 list"
  assumes recv_frame: "next_frame (incoming t) = Ok (f, rest) \<Longrightarrow>
      \<exists>t'. t_recv T (buf, t) = Some (Ok (), f, t') \<and> incoming t' = rest \<and> outgoing t' = outgoing t"
    and recv_error: "next_frame (incoming t) = Err e \<Longrightarrow>
      \<exists>b t'. t_recv T (buf, t) = Some (Err e, b, t') \<and> outgoing t' = outgoing t"
    and send_frame: "\<exists>t'. t_send T f t = Some (Ok (), t') \<and>
      incoming t' = incoming t \<and> outgoing t' = outgoing t @ f"

lemma fill_exact_outcome:
  "read_exact S s = Some (Ok x, s') \<Longrightarrow> fill_exact S s = Some (Ok x, s')"
  "read_exact S s = Some (Err Io_UnexpectedEof, s') \<Longrightarrow> fill_exact S s = Some (Err Dev_UnexpectedEof, s')"
  by (simp_all add: fill_exact_def io_dev_def)

context duplex_stream
begin

lemma fill_enough:
  assumes "length buf \<le> length (incoming s)"
  shows "\<exists>s'. fill_exact S (buf, s) = Some (Ok (), take (length buf) (incoming s), s') \<and>
           incoming s' = drop (length buf) (incoming s) \<and> outgoing s' = outgoing s"
  using read_enough [OF assms] fill_exact_outcome(1) by blast

lemma fill_short:
  assumes "length (incoming s) < length buf"
  shows "\<exists>b s'. fill_exact S (buf, s) = Some (Err Dev_UnexpectedEof, b, s') \<and>
           length b = length buf \<and> outgoing s' = outgoing s"
  using read_short [OF assms] fill_exact_outcome(2) by blast

lemma read_header:
  assumes "10 \<le> length (incoming s)"
  obtains s1 where "incoming s1 = drop 10 (incoming s)" "outgoing s1 = outgoing s"
    "read_frame S (buf, s) =
       (case frame_size (incoming s) of
          Ok n \<Rightarrow> on_tail 10 (fill_exact S) (vec_resize n 0 (take 10 (incoming s)), s1)
        | Err e \<Rightarrow> Some (Err e, take 10 (incoming s), s1) | Panic \<Rightarrow> Some (Panic, take 10 (incoming s), s1))"
proof -
  obtain s1 where s1: "fill_exact S (replicate 10 0, s) = Some (Ok (), take 10 (incoming s), s1)"
    "incoming s1 = drop 10 (incoming s)" "outgoing s1 = outgoing s"
    using fill_enough [of "replicate 10 0" s] assms by auto
  have sz: "frame_size (take 10 (incoming s)) = frame_size (incoming s)"
    by (rule frame_size_take) simp
  show thesis
  proof (rule that [OF s1(2,3)])
    show "read_frame S (buf, s) =
       (case frame_size (incoming s) of
          Ok n \<Rightarrow> on_tail 10 (fill_exact S) (vec_resize n 0 (take 10 (incoming s)), s1)
        | Err e \<Rightarrow> Some (Err e, take 10 (incoming s), s1) | Panic \<Rightarrow> Some (Panic, take 10 (incoming s), s1))"
      by (cases "frame_size (incoming s)")
        (simp_all add: read_frame_def TPM_HEADER_SIZE_def vec_resize_def s1(1) sz dev_bind_def)
  qed
qed

lemma read_frame_ok:
  assumes "next_frame (incoming s) = Ok (f, rest)"
  shows "\<exists>s'. read_frame S (buf, s) = Some (Ok (), f, s') \<and> incoming s' = rest \<and> outgoing s' = outgoing s"
proof -
  have f: "whole_frame f" "incoming s = f @ rest" using assms by (simp_all add: next_frame_Ok_iff)
  note len = whole_frame_length [OF f(1)]
  have sz: "frame_size (incoming s) = Ok (length f)"
    using f len by (simp add: whole_frame_def frame_size_append)
  from len have "10 \<le> length (incoming s)" by (simp add: f(2))
  then obtain s1 where s1: "incoming s1 = drop 10 (incoming s)" "outgoing s1 = outgoing s"
    "read_frame S (buf, s) = on_tail 10 (fill_exact S) (vec_resize (length f) 0 (take 10 (incoming s)), s1)"
    using read_header [of s buf] by (auto simp: sz)
  let ?pad = "replicate (length f - 10) 0 :: u8 list"
  have "vec_resize (length f) 0 (take 10 (incoming s)) = take 10 f @ ?pad"
    using len by (simp add: vec_resize_def f(2) min_def)
  moreover obtain s' where "fill_exact S (?pad, s1) = Some (Ok (), take (length ?pad) (incoming s1), s')"
    "incoming s' = drop (length ?pad) (incoming s1)" "outgoing s' = outgoing s1"
    using fill_enough [of ?pad s1] by (auto simp: s1(1) f(2))
  ultimately show ?thesis
    using len by (simp add: s1 on_tail_def f(2) min_def drop_take)
qed

lemma read_frame_error:
  assumes "next_frame (incoming s) = Err e"
  shows "\<exists>b s'. read_frame S (buf, s) = Some (Err e, b, s') \<and> outgoing s' = outgoing s"
proof (cases "length (incoming s) < 10")
  case True
  then have "e = Dev_UnexpectedEof" using assms by (simp add: next_frame_def)
  moreover obtain b s' where "fill_exact S (replicate 10 0, s) = Some (Err Dev_UnexpectedEof, b, s')"
    "outgoing s' = outgoing s"
    using fill_short [of s "replicate 10 0"] True by auto
  ultimately show ?thesis
    by (simp add: read_frame_def TPM_HEADER_SIZE_def vec_resize_def)
next
  case False
  then obtain s1 where s1: "incoming s1 = drop 10 (incoming s)" "outgoing s1 = outgoing s"
    "read_frame S (buf, s) =
       (case frame_size (incoming s) of
          Ok n \<Rightarrow> on_tail 10 (fill_exact S) (vec_resize n 0 (take 10 (incoming s)), s1)
        | Err e \<Rightarrow> Some (Err e, take 10 (incoming s), s1) | Panic \<Rightarrow> Some (Panic, take 10 (incoming s), s1))"
    using read_header [of s buf] by auto
  show ?thesis
  proof (cases "frame_size (incoming s)")
    case (Ok n)
    with False assms have n: "length (incoming s) < n" "e = Dev_UnexpectedEof"
      by (auto simp: next_frame_def split: if_splits)
    then obtain b s' where "fill_exact S (replicate (n - 10) 0, s1) = Some (Err Dev_UnexpectedEof, b, s')"
      "outgoing s' = outgoing s1"
      using fill_short [of s1 "replicate (n - 10) 0"] False diff_less_mono [of "length (incoming s)" n 10]
      by (auto simp: s1(1))
    with n False Ok show ?thesis
      by (simp add: s1 on_tail_def vec_resize_def min_def)
  next
    case (Err e')
    with False assms s1 show ?thesis by (auto simp: next_frame_def)
  qed (use assms False in \<open>simp add: next_frame_def\<close>)
qed

lemma write_frame_appends:
  "\<exists>s'. write_frame S f s = Some (Ok (), s') \<and> incoming s' = incoming s \<and> outgoing s' = outgoing s @ f"
proof -
  obtain s1 where "write_all S f s = Some (Ok (), s1)" "incoming s1 = incoming s" "outgoing s1 = outgoing s @ f"
    using write_appends by blast
  moreover obtain s2 where "stream_flush S s1 = Some (Ok (), s2)" "incoming s2 = incoming s1"
    "outgoing s2 = outgoing s1"
    using flush_keeps by blast
  ultimately show ?thesis
    by (auto simp: write_frame_def io_dev_def dev_bind_def)
qed

end

sublocale duplex_stream \<subseteq> frame_transport "TpmStreamTransport S" incoming outgoing
  using read_frame_ok read_frame_error write_frame_appends
  by unfold_locales (simp_all add: TpmStreamTransport_def)

text \<open>The stream in memory that the tests of the crate use: what the peer sent before it closed, and what was
  written.  A short \<open>read_exact\<close> takes what there is.\<close>

record Duplex =
  unread :: "u8 list"
  written :: "u8 list"

definition Duplex_read_exact :: "(unit, u8 list \<times> Duplex) io" where
  "Duplex_read_exact s = (case s of (buf, d) \<Rightarrow>
     if length buf \<le> length (unread d)
     then Some (Ok (), take (length buf) (unread d), d\<lparr>unread := drop (length buf) (unread d)\<rparr>)
     else Some (Err Io_UnexpectedEof, unread d @ drop (length (unread d)) buf, d\<lparr>unread := []\<rparr>))"

definition Duplex_stream :: "Duplex byte_stream" where
  "Duplex_stream = \<lparr>read_exact = Duplex_read_exact,
     write_all = (\<lambda>bs d. Some (Ok (), d\<lparr>written := written d @ bs\<rparr>)),
     stream_flush = (\<lambda>d. Some (Ok (), d))\<rparr>"

interpretation duplex: duplex_stream Duplex_stream unread written
  by unfold_locales (auto simp: Duplex_stream_def Duplex_read_exact_def)

subsection \<open>Serving\<close>

text \<open>The bytes of the responses to a list of commands, with the handler's state.\<close>

fun answers :: "(u8 list \<Rightarrow> 'h \<Rightarrow> u8 list \<times> 'h) \<Rightarrow> 'h \<Rightarrow> u8 list list \<Rightarrow> u8 list \<times> 'h" where
  "answers handler h [] = ([], h)"
| "answers handler h (f # fs) =
     (let (r, h) = handler f h; (rs, h) = answers handler h fs in (r @ rs, h))"

text \<open>Any input is a list of frames and then something that is not one.\<close>

lemma split_frames:
  obtains fs rest e where "list_all whole_frame fs" "input = concat fs @ rest" "next_frame rest = Err e"
proof -
  have "\<exists>fs rest e. list_all whole_frame fs \<and> input = concat fs @ rest \<and> next_frame rest = Err e"
  proof (induction input rule: length_induct)
    case (1 input)
    show ?case
    proof (cases "next_frame input")
      case (Ok p)
      then obtain f tail where p: "whole_frame f" "input = f @ tail"
        by (cases p) (auto simp: next_frame_Ok_iff)
      then have "length tail < length input"
        using whole_frame_length [OF p(1)] by auto
      with 1 obtain fs rest e
        where "list_all whole_frame fs" "tail = concat fs @ rest" "next_frame rest = Err e"
        by blast
      with p show ?thesis by (intro exI [of _ "f # fs"] exI [of _ rest]) simp
    next
      case (Err e)
      then show ?thesis by (intro exI [of _ "[]"] exI [of _ input]) simp
    qed simp
  qed
  with that show thesis by blast
qed

context frame_transport
begin

lemma serve_frames:
  assumes "list_all whole_frame fs" "incoming (r_transport d) = concat fs @ rest" "next_frame rest = Err e"
  shows "\<exists>d'. serve T handler h d =
      Some (if e = Dev_UnexpectedEof then Ok () else Err e, d', snd (answers handler h fs)) \<and>
    outgoing (r_transport d') = outgoing (r_transport d) @ fst (answers handler h fs)"
  using assms(1,2)
proof (induction fs arbitrary: d h)
  case Nil
  then obtain b t' where "t_recv T (r_command d, r_transport d) = Some (Err e, b, t')"
    "outgoing t' = outgoing (r_transport d)"
    using recv_error [of "r_transport d" e "r_command d"] assms(3) by auto
  then show ?case
    by (subst serve.simps) (simp add: responder_recv_def)
next
  case (Cons f fs)
  then obtain t1 where recv: "t_recv T (r_command d, r_transport d) = Some (Ok (), f, t1)"
    "incoming t1 = concat fs @ rest" "outgoing t1 = outgoing (r_transport d)"
    using recv_frame [of "r_transport d" f "concat fs @ rest" "r_command d"] by auto
  obtain r h1 where h1: "handler f h = (r, h1)" by fastforce
  obtain t2 where sent: "t_send T r t1 = Some (Ok (), t2)" "incoming t2 = incoming t1"
    "outgoing t2 = outgoing t1 @ r"
    using send_frame by blast
  let ?d = "d\<lparr>r_command := f, r_transport := t2\<rparr>"
  have step: "serve T handler h d = serve T handler h1 ?d"
    by (subst serve.simps) (simp add: responder_recv_def recv h1 send_response_def sent)
  have "\<exists>d'. serve T handler h1 ?d =
      Some (if e = Dev_UnexpectedEof then Ok () else Err e, d', snd (answers handler h1 fs)) \<and>
    outgoing (r_transport d') = outgoing (r_transport ?d) @ fst (answers handler h1 fs)"
    using Cons.prems by (intro Cons.IH) (simp_all add: sent recv)
  then show ?case
    by (auto simp: step h1 sent recv split: prod.splits)
qed

end

subsection \<open>Transmitting\<close>

lemma response_outcome_eq:
  "response_outcome cc buf = (case TpmResponseView_cast_frame cc buf of
       Ok (Dispatched _ _) \<Rightarrow> Ok buf
     | Ok (Rejected rc) \<Rightarrow> Err (Dev_TpmRc rc)
     | Err e \<Rightarrow> Err (Dev_Unmarshal e)
     | Panic \<Rightarrow> Panic)"
  by (cases "TpmResponse_validate_envelope buf")
    (auto simp: response_outcome_def TpmResponseView_cast_frame_def TpmResponse_cast_def
      simp del: and_then_Ok_iff split: result.split TpmResponseOutcome.split)

lemma prepare_emits:
  assumes "emits (tpm_marshal_command F (if ss = [] then St_NoSessions else St_Sessions) ss) bs"
    and "length bs \<le> TPM_MAX_COMMAND_SIZE"
  shows "prepare_command F ss d = Some (Ok (), d\<lparr>dev_command := bs\<rparr>)"
proof -
  let ?w = "Writer_new (vec_resize TPM_MAX_COMMAND_SIZE 0 (dev_command d))"
  have len: "length (buffer ?w) = TPM_MAX_COMMAND_SIZE" "cursor ?w = 0"
    by (simp_all add: Writer_new_def vec_resize_def)
  then have "writer_ok ?w" by (simp add: writer_ok_def TPM_MAX_COMMAND_SIZE_def usize_max_def)
  from emits_fits [OF assms(1) this] assms(2) len show ?thesis
    by (simp add: prepare_command_def Let_def)
qed

lemma transmit_steps:
  assumes "prepare_command F ss d = Some (Ok (), d\<lparr>dev_command := bs\<rparr>)"
    and "t_send T bs (transport d) = Some (Ok (), t1)"
    and "t_recv T (dev_response d, t1) = Some (Ok (), r, t2)"
  shows "transmit T F ss d =
    Some (response_outcome (frame_cc F) r, \<lparr>transport = t2, dev_command = bs, dev_response = r\<rparr>)"
  using assms
  by (simp add: transmit_def dev_bind_def send_command_def recv_response_def split: result.split)

definition sent_bytes :: "frame_decl \<Rightarrow> frame_body \<Rightarrow> val list \<Rightarrow> u8 list" where
  "sent_bytes cmd b ss = command_bytes (f_CC cmd) (if ss = [] then St_NoSessions else St_Sessions)
     (body_handle_bytes b) (items_enc TpmsAuthCommand ss) (body_param_bytes cmd b)"

lemma sent_bytes_emits:
  assumes "decl_ok cmd" "body_valid cmd b" "length ss \<le> MAX_SESSIONS" "list_all (valid TpmsAuthCommand) ss"
  shows "emits (tpm_marshal_command (frame_of cmd b) (if ss = [] then St_NoSessions else St_Sessions) ss)
    (sent_bytes cmd b ss)"
  using lawful_frame.command_emits [OF frame_of_lawful [OF assms(1,2)] _ assms(3,4),
      of "if ss = [] then St_NoSessions else St_Sessions"]
  by (simp add: sent_bytes_def frame_of_def)

lemma header_whole_frame:
  assumes "length body + 10 \<le> TPM_MAX_COMMAND_SIZE"
  shows "whole_frame (header tag (length body) code @ body)"
proof -
  let ?f = "header tag (length body) code @ body"
  have "take 4 (drop 2 ?f) = to_be_bytes 4 (10 + length body)"
    by (simp add: header_def del: to_be_bytes.simps)
  moreover have "10 + length body < 256 ^ 4"
    using assms by (simp add: TPM_MAX_COMMAND_SIZE_def)
  ultimately have "from_be_bytes (take 4 (drop 2 ?f)) = length ?f"
    by (simp add: header_def)
  then show ?thesis
    using assms unfolding whole_frame_def frame_size_Ok_iff by (simp add: header_def)
qed

lemma response_whole_frame:
  "length (response_bytes rc tag hb pb auth) \<le> TPM_MAX_COMMAND_SIZE \<Longrightarrow>
   whole_frame (response_bytes rc tag hb pb auth)"
  unfolding response_bytes_def by (rule header_whole_frame) (simp add: header_def)

lemma command_whole_frame:
  "length (command_bytes cc tag hb auth pb) \<le> TPM_MAX_COMMAND_SIZE \<Longrightarrow>
   whole_frame (command_bytes cc tag hb auth pb)"
  unfolding command_bytes_def by (rule header_whole_frame) (simp add: header_def)

context frame_transport
begin

lemma exchange:
  assumes "prepare_command F ss d = Some (Ok (), d\<lparr>dev_command := bs\<rparr>)"
    and "whole_frame f" "incoming (transport d) = f @ rest"
  shows "\<exists>d'. transmit T F ss d = Some (response_outcome (frame_cc F) f, d') \<and>
    outgoing (transport d') = outgoing (transport d) @ bs \<and> incoming (transport d') = rest \<and> dev_response d' = f"
proof -
  obtain t1 where sent: "t_send T bs (transport d) = Some (Ok (), t1)"
    "incoming t1 = f @ rest" "outgoing t1 = outgoing (transport d) @ bs"
    using send_frame assms(3) by metis
  moreover have "next_frame (incoming t1) = Ok (f, rest)" using assms(2) by (simp add: sent)
  then obtain t2 where "t_recv T (dev_response d, t1) = Some (Ok (), f, t2)"
    "incoming t2 = rest" "outgoing t2 = outgoing t1"
    using recv_frame by blast
  ultimately show ?thesis
    using transmit_steps [OF assms(1)] by fastforce
qed

end

end
