(* ===== verification/Device_Queries.thy ===== *)
theory Device_Queries
  imports Device_Laws Policy_Laws
begin

text \<open>
  The queries of a device.  \<open>serves\<close> is what the paging loop sees of a TPM that answers page requests for the
  properties from \<open>lo\<close> to \<open>hi\<close>: the matching items from the requested property on, and whether there are more.
  That the TPM's bytes amount to this is shown in \<open>Device_Reference\<close>.
\<close>

subsection \<open>Paging\<close>

definition serves ::
  "'t TpmTransport \<Rightarrow> TpmCap \<Rightarrow> string \<Rightarrow> (val \<Rightarrow> u32) \<Rightarrow> val list \<Rightarrow> u32 \<Rightarrow> u32 \<Rightarrow> ('t TpmDevice \<Rightarrow> bool) \<Rightarrow> bool"
where
  "serves T cap variant key items lo hi I \<longleftrightarrow>
     sorted_wrt (\<lambda>x y. key x < key y) items \<and> (\<forall>x \<in> set items. key x \<le> hi) \<and>
     (\<forall>d p. I d \<longrightarrow> lo \<le> p \<longrightarrow> p \<le> hi \<longrightarrow> (\<exists>d' more page later.
        get_capability_page T cap p CAPABILITY_PAGE_SIZE d =
          Some (Ok (more, VUnion variant (Some (VList page))), d') \<and> I d' \<and>
        filter (\<lambda>x. p \<le> key x) items = page @ later \<and>
        (more \<longleftrightarrow> later \<noteq> []) \<and> (later \<noteq> [] \<longrightarrow> page \<noteq> [])))"

lemma word_succ_gt: "(a :: u32) < b \<Longrightarrow> a < a + 1 \<and> a + 1 \<le> b"
  by unat_arith

lemma unat_u32_less: "unat (w :: u32) < 4294967296"
  using unsigned_less [where 'a = nat, of w] by simp

lemma not_above_max: "\<not> (0xFFFFFFFF :: u32) < w"
  using unat_u32_less [of w] by (simp add: word_less_nat_alt)

lemma filter_filter_later:
  assumes "sorted_wrt (\<lambda>x y. (key x :: u32) < key y) items" "filter (\<lambda>x. p \<le> key x) items = page @ later"
    and "page \<noteq> []" "later \<noteq> []"
  shows "p < key (last page) + 1" "filter (\<lambda>x. key (last page) + 1 \<le> key x) items = later"
    "key (last page) \<noteq> 0xFFFFFFFF" "key (last page) + 1 \<le> key (hd later)"
proof -
  have sorted: "sorted_wrt (\<lambda>x y. key x < key y) (page @ later)"
    unfolding assms(2) [symmetric] by (rule sorted_wrt_filter [OF assms(1)])
  have "last page \<in> set (filter (\<lambda>x. p \<le> key x) items)"
    using assms(2,3) by simp
  then have p: "p \<le> key (last page)" by simp
  have after: "key (last page) < key y" if "y \<in> set later" for y
    using sorted that assms(3) by (auto simp: sorted_wrt_append)
  then have lt: "key (last page) < key (hd later)" using assms(4) by simp
  from word_succ_gt [OF this] p show gt: "p < key (last page) + 1" by (simp add: order_le_less_trans)
  have before: "\<not> key (last page) + 1 \<le> key x" if "x \<in> set page" for x
  proof -
    have "x = last page \<or> key x < key (last page)"
      using sorted that assms(3)
      by (cases page rule: rev_cases) (auto simp: sorted_wrt_append)
    then show ?thesis
      using word_succ_gt [OF lt] by (auto simp: not_le intro: less_trans)
  qed
  have "filter (\<lambda>x. key (last page) + 1 \<le> key x) items =
      filter (\<lambda>x. key (last page) + 1 \<le> key x) (filter (\<lambda>x. p \<le> key x) items)"
    using gt by (auto intro!: filter_cong)
  also have "\<dots> = later"
    using before after word_succ_gt by (auto simp: assms(2) filter_empty_conv filter_id_conv)
  finally show "filter (\<lambda>x. key (last page) + 1 \<le> key x) items = later" .
  show "key (last page) \<noteq> 0xFFFFFFFF"
    using lt not_above_max [of "key (hd later)"] by auto
  show "key (last page) + 1 \<le> key (hd later)"
    using word_succ_gt [OF lt] by simp
qed

lemma get_capability_complete:
  assumes serves: "serves T cap variant key items lo hi I" and "I d" "lo \<le> p" "p \<le> hi"
    and succ: "\<And>x. x \<in> set items \<Longrightarrow> key x \<noteq> 0xFFFFFFFF \<Longrightarrow> next_prop x = key x + 1"
  shows "\<exists>d'. get_capability_from T cap CAPABILITY_PAGE_SIZE (extract_items cap variant) next_prop results p d =
    Some (Ok (results @ filter (\<lambda>x. p \<le> key x) items), d') \<and> I d'"
  using assms(2-4)
proof (induction "length (filter (\<lambda>x. p \<le> key x) items)" arbitrary: p d results rule: less_induct)
  case less
  obtain d' more page later where page:
    "get_capability_page T cap p CAPABILITY_PAGE_SIZE d = Some (Ok (more, VUnion variant (Some (VList page))), d')"
    "I d'" "filter (\<lambda>x. p \<le> key x) items = page @ later" "more \<longleftrightarrow> later \<noteq> []" "later \<noteq> [] \<longrightarrow> page \<noteq> []"
    using serves less.prems unfolding serves_def by blast
  show ?case
  proof (cases "later = []")
    case True
    with page show ?thesis
      by (subst get_capability_from.simps) (simp add: extract_items_def)
  next
    case False
    with page(5) have "page \<noteq> []" by simp
    have "sorted_wrt (\<lambda>x y. key x < key y) items" using serves by (simp add: serves_def)
    note step = filter_filter_later [OF this page(3) \<open>page \<noteq> []\<close> False]
    have "last page \<in> set (filter (\<lambda>x. p \<le> key x) items)" using page(3) \<open>page \<noteq> []\<close> by simp
    then have nx: "next_prop (last page) = key (last page) + 1" using succ step(3) by simp
    have "hd later \<in> set (filter (\<lambda>x. p \<le> key x) items)" using page(3) False by simp
    then have "key (last page) + 1 \<le> hi" using serves step(4) by (auto simp: serves_def)
    moreover have "lo \<le> key (last page) + 1" using less.prems(2) step(1) by simp
    ultimately have "\<exists>d''. get_capability_from T cap CAPABILITY_PAGE_SIZE (extract_items cap variant) next_prop
        (results @ page) (key (last page) + 1) d' =
      Some (Ok ((results @ page) @ filter (\<lambda>x. key (last page) + 1 \<le> key x) items), d'') \<and> I d''"
      using page(2,3) \<open>page \<noteq> []\<close> by (intro less.hyps) (simp_all add: step(2))
    then show ?thesis
      using page False \<open>page \<noteq> []\<close> step(1)
      by (subst get_capability_from.simps) (auto simp: extract_items_def nx step(2) not_le Let_def)
  qed
qed

text \<open>Without any assumption on the TPM: the loop returns whenever each page request does.\<close>

lemma get_capability_returns:
  assumes "\<And>p d. get_capability_page T cap p count d \<noteq> None"
  shows "get_capability_from T cap count extract next_prop results p d \<noteq> None"
proof (induction "2 ^ 32 - unat p" arbitrary: p d results rule: less_induct)
  case less
  have "get_capability_from T cap count extract next_prop results' p' d' \<noteq> None" if "p < p'" for p' results' d'
  proof (rule less.hyps)
    show "2 ^ 32 - unat p' < 2 ^ 32 - unat p"
      using that unat_u32_less [of p'] by (simp add: word_less_nat_alt diff_less_mono2)
  qed
  then show ?case
    using assms [of p d]
    by (subst get_capability_from.simps) (auto simp: dev_bind_None_iff Let_def not_le split: prod.splits)
qed

lemma get_capability_serves:
  assumes "serves T cap variant key items lo hi I" "I d" "lo \<le> p" "p \<le> hi"
    and "\<And>x. x \<in> set items \<Longrightarrow> key x \<noteq> 0xFFFFFFFF \<Longrightarrow> next_prop x = key x + 1"
  shows "\<exists>d'. get_capability T cap p CAPABILITY_PAGE_SIZE (extract_items cap variant) next_prop d =
    Some (Ok (filter (\<lambda>x. p \<le> key x) items), d') \<and> I d'"
  using get_capability_complete [OF assms, of "[]"] by (simp add: get_capability_def)

lemma next_handle_succ: "handle_value x \<noteq> 0xFFFFFFFF \<Longrightarrow> next_handle x = handle_value x + 1"
  by (simp add: next_handle_def)

text \<open>The handles of a type are an interval.\<close>

lemma persistent_range: "drop_bit 24 (w :: u32) = 0x81 \<longleftrightarrow> 0x81000000 \<le> w \<and> w \<le> 0x81FFFFFF"
proof -
  have "drop_bit 24 w = 0x81 \<longleftrightarrow> unat (drop_bit 24 w) = 129"
    by (simp add: word_unat_eq_iff)
  also have "unat (drop_bit 24 w) = unat w div 16777216"
    using unat_u32_less [of w]
    by (simp only: unsigned_drop_bit_eq) (simp add: drop_bit_eq_div take_bit_nat_eq_self)
  finally show ?thesis
    by (simp add: word_le_nat_alt) linarith
qed

lemma fetch_persistent_serves:
  assumes "serves T Cap_Handles ''Handles'' handle_value items 0x81000000 0x81FFFFFF I" "I d"
    and "\<And>x. x \<in> set items \<Longrightarrow> drop_bit 24 (handle_value x) = 0x81"
  shows "\<exists>d'. fetch_handles T Ht_Persistent d = Some (Ok items, d') \<and> I d'"
proof -
  have prefix: "handle_class Ht_Persistent = 0x81" by (simp add: handle_class_def)
  obtain d' where "get_capability T Cap_Handles 0x81000000 CAPABILITY_PAGE_SIZE (extract_items Cap_Handles ''Handles'')
      next_handle d = Some (Ok (filter (\<lambda>x. 0x81000000 \<le> handle_value x) items), d')" "I d'"
    using get_capability_serves [OF assms(1,2), of "0x81000000" next_handle] next_handle_succ by auto
  moreover have "filter (\<lambda>x. 0x81000000 \<le> handle_value x) items = items"
    using assms(3) by (simp add: filter_id_conv persistent_range)
  moreover have "filter (\<lambda>h. drop_bit 24 (handle_value h) = 0x81) items = items"
    using assms(3) by (simp add: filter_id_conv)
  ultimately show ?thesis by (simp add: fetch_handles_def prefix)
qed

subsection \<open>PCR banks\<close>

definition allocated :: "TpmAlgId \<times> u8 list \<Rightarrow> bool" where
  "allocated bank \<longleftrightarrow> (\<exists>b \<in> set (snd bank). b \<noteq> 0)"

lemma collect_bank:
  "\<not> allocated bank \<Longrightarrow> collect_banks (bank # banks) common algs = collect_banks banks common algs"
  "allocated bank \<Longrightarrow> collect_banks (bank # banks) None algs = collect_banks banks (Some (snd bank)) (algs @ [fst bank])"
  "allocated bank \<Longrightarrow> collect_banks (bank # banks) (Some s) algs =
     (if snd bank \<noteq> s then Err Dev_PcrBankSelectionMismatch else collect_banks banks (Some s) (algs @ [fst bank]))"
proof -
  obtain h s' where bank: "bank = (h, s')" by fastforce
  have zero: "(\<forall>b \<in> set s'. b = 0) \<longleftrightarrow> \<not> allocated bank"
    by (auto simp: bank allocated_def)
  have step: "collect_banks (bank # banks) c algs =
     (if \<not> allocated bank then collect_banks banks c algs
      else case c of
          Some select \<Rightarrow>
            if s' \<noteq> select then Err Dev_PcrBankSelectionMismatch
            else collect_banks banks (Some select) (algs @ [h])
        | None \<Rightarrow> collect_banks banks (Some s') (algs @ [h]))" for c
    unfolding zero [symmetric] by (simp only: bank collect_banks.simps)
  show "\<not> allocated bank \<Longrightarrow> collect_banks (bank # banks) common algs = collect_banks banks common algs"
    "allocated bank \<Longrightarrow> collect_banks (bank # banks) None algs = collect_banks banks (Some (snd bank)) (algs @ [fst bank])"
    "allocated bank \<Longrightarrow> collect_banks (bank # banks) (Some s) algs =
     (if snd bank \<noteq> s then Err Dev_PcrBankSelectionMismatch else collect_banks banks (Some s) (algs @ [fst bank]))"
    by (simp_all only: step [unfolded bank] simp_thms if_True if_False option.case bank fst_conv snd_conv)
qed

lemma collect_banks_Some:
  "collect_banks banks (Some s) algs =
     (if \<forall>bank \<in> set (filter allocated banks). snd bank = s
      then Ok (Some s, algs @ map fst (filter allocated banks)) else Err Dev_PcrBankSelectionMismatch)"
proof (induction banks arbitrary: algs)
  case (Cons bank banks)
  then show ?case by (cases "allocated bank") (simp_all add: collect_bank)
qed simp

lemma collect_banks_None:
  "collect_banks banks None algs =
     (case filter allocated banks of
        [] \<Rightarrow> Ok (None, algs)
      | bank # _ \<Rightarrow>
          if \<forall>b \<in> set (filter allocated banks). snd b = snd bank
          then Ok (Some (snd bank), algs @ map fst (filter allocated banks))
          else Err Dev_PcrBankSelectionMismatch)"
proof (induction banks arbitrary: algs)
  case (Cons bank banks)
  then show ?case by (cases "allocated bank") (simp_all add: collect_bank collect_banks_Some split: list.split)
qed simp

lemma pcr_bank_list_eq:
  "pcr_bank_list banks =
     (case filter allocated banks of
        [] \<Rightarrow> Err Dev_PcrBanksNotAvailable
      | bank # _ \<Rightarrow>
          if \<forall>b \<in> set (filter allocated banks). snd b = snd bank
          then Ok (sort (map fst (filter allocated banks)), snd bank)
          else Err Dev_PcrBankSelectionMismatch)"
  by (cases "filter allocated banks") (auto simp: pcr_bank_list_def collect_banks_None)

subsection \<open>Persistent objects\<close>

text \<open>What reading an object yields: its public area and name, or the response code of the refusal.\<close>

type_synonym object_reading = "TpmRc + val \<times> val"

definition reads_public ::
  "'t TpmTransport \<Rightarrow> u32 list \<Rightarrow> (u32 \<Rightarrow> object_reading) \<Rightarrow> ('t TpmDevice \<Rightarrow> bool) \<Rightarrow> bool"
where
  "reads_public T hs object I \<longleftrightarrow> (\<forall>h \<in> set hs. \<forall>d. I d \<longrightarrow> (\<exists>d'.
     read_public T (handle_val h) d =
       Some (case object h of Inr read \<Rightarrow> Ok read | Inl rc \<Rightarrow> Err (Dev_TpmRc rc), d') \<and> I d'))"

text \<open>The search ends at an object with the name, and at an object that cannot be read for another reason than
  that it is not there any more.\<close>

definition ends_search :: "val \<Rightarrow> object_reading \<Rightarrow> bool" where
  "ends_search target r \<longleftrightarrow> (case r of
       Inr (_, name) \<Rightarrow> name = target
     | Inl rc \<Rightarrow> TpmRc_base rc \<noteq> Rc_ReferenceH0 \<and> TpmRc_base rc \<noteq> Rc_Handle)"

lemma find_named_eq:
  assumes "reads_public T hs object I" "I d"
  shows "\<exists>d'. find_named T target (map handle_val hs) d =
    Some (case find (\<lambda>h. ends_search target (object h)) hs of
        None \<Rightarrow> Ok None
      | Some h \<Rightarrow> (case object h of Inr _ \<Rightarrow> Ok (Some (handle_val h)) | Inl rc \<Rightarrow> Err (Dev_TpmRc rc)), d') \<and> I d'"
  using assms
proof (induction hs arbitrary: d)
  case (Cons h hs)
  then obtain d1 where "read_public T (handle_val h) d =
      Some (case object h of Inr read \<Rightarrow> Ok read | Inl rc \<Rightarrow> Err (Dev_TpmRc rc), d1)" and "I d1"
    unfolding reads_public_def list.set by blast
  have "reads_public T hs object I" using Cons.prems(1) by (simp add: reads_public_def)
  note IH = Cons.IH [OF this \<open>I d1\<close>]
  show ?case
  proof (cases "object h")
    case (Inl rc)
    with \<open>read_public T (handle_val h) d = _\<close> \<open>I d1\<close> IH show ?thesis
      by (simp add: ends_search_def gone_def)
  next
    case (Inr reading)
    obtain public name where "reading = (public, name)" by fastforce
    with Inr have object: "object h = Inr (public, name)" by simp
    with \<open>read_public T (handle_val h) d = _\<close> have "read_public T (handle_val h) d = Some (Ok (public, name), d1)"
      by simp
    with \<open>I d1\<close> IH show ?thesis
      by (cases "name = target") (simp_all add: object ends_search_def)
  qed
qed simp

subsection \<open>Running a policy\<close>

lemma command_decl_row: "(v, cmd, resp) \<in> set dispatch_rows \<Longrightarrow> command_decl (f_CC cmd) = cmd"
proof -
  assume row: "(v, cmd, resp) \<in> set dispatch_rows"
  then obtain v' cmd' resp' where found: "find (\<lambda>(_, c, _). f_CC c = f_CC cmd) dispatch_rows = Some (v', cmd', resp')"
    by (cases "find (\<lambda>(_, c, _). f_CC c = f_CC cmd) dispatch_rows") (auto simp: find_None_iff)
  then have row': "(v', cmd', resp') \<in> set dispatch_rows" "f_CC cmd = f_CC cmd'"
    using find_Some_imp [OF found] by auto
  show ?thesis
    using row_unique [OF row row'] found by (simp add: command_decl_def)
qed

lemma command_decl_cc [simp]: "f_CC (command_decl cc) = cc"
  using row_of_cc [of cc] command_decl_row by auto

text \<open>The bytes \<open>run\<close> sends for a command.\<close>

definition run_bytes :: "DevPolicySession \<Rightarrow> TpmCommandValue \<times> TpmAuthCommands \<Rightarrow> u8 list" where
  "run_bytes session ca = (case ca of (c, auths) \<Rightarrow>
     sent_bytes (command_decl (TpmCommandValue_cc c))
       (set_handle (the (session_slot (TpmCommandValue_cc c))) (s_handle session) (TpmCommandValue_body c)) auths)"

text \<open>A command that \<open>run\<close> can send: one it knows, with a body of its type and few enough bytes.\<close>

definition runnable :: "DevPolicySession \<Rightarrow> TpmCommandValue \<times> TpmAuthCommands \<Rightarrow> bool" where
  "runnable session ca = (case ca of (c, auths) \<Rightarrow>
     command_typed c \<and> session_slot (TpmCommandValue_cc c) \<noteq> None \<and>
     length auths \<le> MAX_SESSIONS \<and> list_all (valid TpmsAuthCommand) auths \<and>
     length (run_bytes session ca) \<le> TPM_MAX_COMMAND_SIZE)"

lemma set_handle_valid:
  "\<lbrakk>body_valid cmd b; valid TpmHandle h\<rbrakk> \<Longrightarrow> body_valid cmd (set_handle i h b)"
  by (auto simp: body_valid_def set_handle_def list_all_iff dest: set_update_subset_insert [THEN subsetD])

lemma runnable_prepare:
  assumes "runnable session (c, auths)" "valid TpmHandle (s_handle session)" "session_slot (TpmCommandValue_cc c) = Some i"
  shows "prepare_command (frame_of (command_decl (TpmCommandValue_cc c))
      (set_handle i (s_handle session) (TpmCommandValue_body c))) auths d =
    Some (Ok (), d\<lparr>dev_command := run_bytes session (c, auths)\<rparr>)"
proof -
  obtain v cmd resp where row: "(v, cmd, resp) \<in> set dispatch_rows" "f_CC cmd = TpmCommandValue_cc c"
    "body_valid cmd (TpmCommandValue_body c)"
    using assms(1) by (auto simp: runnable_def command_typed_def)
  have decl: "command_decl (TpmCommandValue_cc c) = cmd"
    using command_decl_row [OF row(1)] by (simp add: row(2))
  have bytes: "run_bytes session (c, auths) = sent_bytes cmd (set_handle i (s_handle session) (TpmCommandValue_body c)) auths"
    by (simp add: run_bytes_def decl assms(3))
  show ?thesis
    unfolding decl bytes
    using assms(1) sent_bytes_emits [OF row_ok(1) [OF row(1)] set_handle_valid [OF row(3) assms(2)], of auths i]
    by (intro prepare_emits) (simp_all add: runnable_def bytes)
qed

context frame_transport
begin

lemma run_commands:
  assumes "list_all (runnable session) cmds" "valid TpmHandle (s_handle session)"
    and "list_all2 (\<lambda>(c, _) r. whole_frame r \<and> response_outcome (TpmCommandValue_cc c) r = Ok r) cmds responses"
    and "incoming (transport d) = concat responses @ rest"
  shows "\<exists>d'. session_run T session cmds d = Some (Ok (), d') \<and>
    outgoing (transport d') = outgoing (transport d) @ concat (map (run_bytes session) cmds) \<and>
    incoming (transport d') = rest"
  using assms(3,1,4)
proof (induction cmds responses arbitrary: d rule: list_all2_induct)
  case (Cons ca cmds r responses)
  obtain c auths where ca: "ca = (c, auths)" by fastforce
  with Cons.prems have run: "runnable session (c, auths)" by simp
  then obtain i where i: "session_slot (TpmCommandValue_cc c) = Some i" by (auto simp: runnable_def)
  note prepare = runnable_prepare [OF run assms(2) i, of d]
  have "whole_frame r" "incoming (transport d) = r @ concat responses @ rest"
    using Cons.hyps(1) Cons.prems by (simp_all add: ca)
  from exchange [OF prepare this] obtain d1
    where d1: "transmit T (frame_of (command_decl (TpmCommandValue_cc c))
        (set_handle i (s_handle session) (TpmCommandValue_body c))) auths d =
        Some (response_outcome (TpmCommandValue_cc c) r, d1)"
      "outgoing (transport d1) = outgoing (transport d) @ run_bytes session (c, auths)"
      "incoming (transport d1) = concat responses @ rest"
    by (auto simp: frame_of_def)
  have "session_run T session (ca # cmds) d = session_run T session cmds d1"
    using d1(1) Cons.hyps(1) by (simp add: ca i)
  moreover have "\<exists>d'. session_run T session cmds d1 = Some (Ok (), d') \<and>
    outgoing (transport d') = outgoing (transport d1) @ concat (map (run_bytes session) cmds) \<and>
    incoming (transport d') = rest"
    using Cons.prems d1(3) by (intro Cons.IH) simp_all
  ultimately show ?case by (auto simp: ca d1(2))
qed auto

end

text \<open>A compiled policy uses four of the commands, without sessions.\<close>

definition plain_command :: "TpmCommandValue \<times> TpmAuthCommands \<Rightarrow> bool" where
  "plain_command ca \<longleftrightarrow> snd ca = [] \<and> (\<forall>cc b. fst ca \<noteq> OtherCmd cc b)"

lemma plain_commands [simp]:
  "plain_command (PolicyPcrCmd d sels h, [])" "plain_command (PolicyOrCmd ds h, [])"
  "plain_command (PolicyRestartCmd h, [])" "plain_command (PolicySecretCmd n cp r x h h', [])"
  by (simp_all add: plain_command_def)

lemma compile_walk_plain:
  "\<lbrakk>compile_walk L ctx e st = Ok st'; list_all plain_command (fst st)\<rbrakk> \<Longrightarrow> list_all plain_command (fst st')"
  "\<lbrakk>compile_walk_all L ctx es st = Ok st'; list_all plain_command (fst st)\<rbrakk> \<Longrightarrow> list_all plain_command (fst st')"
  "\<lbrakk>compile_walk_branches L ctx es dl st = Ok (dl', st'); list_all plain_command (fst st)\<rbrakk> \<Longrightarrow>
   list_all plain_command (fst st')"
proof (induction L ctx e st and L ctx es st and L ctx es dl st
    arbitrary: st' and st' and dl' st'
    rule: compile_walk_compile_walk_all_compile_walk_branches.induct)
  case (2 L ctx es st)
  then show ?case by auto
next
  case (3 L ctx sels dg st)
  then show ?case by (cases st) (auto simp: compile_walk_pcr_def split: if_splits)
next
  case (4 L ctx auth cr st)
  then show ?case
    by (cases st) (auto simp: compile_walk_secret_def Let_def split: TpmPolicyExpression.splits)
next
  case (9 L ctx e es dl cmds s)
  from 9(3) obtain s1 cmds2 s2 dl2 where s1: "policy_restart s = Ok s1"
    and w: "compile_walk L ctx e (cmds @ [(PolicyRestartCmd 0, [])], s1) = Ok (cmds2, s2)"
    and push: "map_err (\<lambda>_. Policy_TooManyBranches) (TpmList_try_push 8 dl (ses_digest s2)) = Ok dl2"
    and r: "compile_walk_branches L ctx es dl2 (cmds2, s2) = Ok (dl', st')"
    by auto
  have "list_all plain_command (fst (cmds2, s2))"
    using 9(1) [OF s1 w] 9(4) by simp
  then show ?case
    using 9(2) [OF s1 w refl push r] by simp
qed auto

lemma policy_commands:
  assumes "command_typed c" "\<forall>cc b. c \<noteq> OtherCmd cc b"
  obtains "TpmCommandValue_cc c = Cc_PolicyPcr" "body_valid TpmPolicyPcrCommand (TpmCommandValue_body c)"
    | "TpmCommandValue_cc c = Cc_PolicyOr" "body_valid TpmPolicyOrCommand (TpmCommandValue_body c)"
    | "TpmCommandValue_cc c = Cc_PolicyRestart" "body_valid TpmPolicyRestartCommand (TpmCommandValue_body c)"
    | "TpmCommandValue_cc c = Cc_PolicySecret" "body_valid TpmPolicySecretCommand (TpmCommandValue_body c)"
proof -
  obtain v cmd resp where row: "(v, cmd, resp) \<in> set dispatch_rows" "f_CC cmd = TpmCommandValue_cc c"
    "body_valid cmd (TpmCommandValue_body c)"
    using assms(1) by (auto simp: command_typed_def)
  note same = command_decl_row [OF row(1), unfolded row(2)]
  have decls: "command_decl Cc_PolicyPcr = TpmPolicyPcrCommand" "command_decl Cc_PolicyOr = TpmPolicyOrCommand"
    "command_decl Cc_PolicyRestart = TpmPolicyRestartCommand" "command_decl Cc_PolicySecret = TpmPolicySecretCommand"
    using policy_rows [THEN command_decl_row]
    by (simp_all add: TpmPolicyPcrCommand_def TpmPolicyOrCommand_def TpmPolicyRestartCommand_def
        TpmPolicySecretCommand_def)
  show thesis
    using that row(3) same assms(2) by (cases c) (simp_all add: decls)
qed

lemma sent_bytes_length:
  assumes "decl_ok cmd" "body_valid cmd b"
  shows "length (sent_bytes cmd b []) \<le> 10 + 4 * HANDLES cmd + fields_SIZE (f_params cmd)"
proof -
  have v: "length (b_handles b) = HANDLES cmd" "list_all (valid TpmHandle) (b_handles b)"
    "fields_valid (f_params cmd) (b_params b)"
    using assms(2) by (simp_all add: body_valid_def)
  have "length (body_handle_bytes b) = 4 * HANDLES cmd"
    using lawful_frame.handles_size [OF frame_of_lawful [OF assms]] by (simp add: frame_of_def)
  moreover have "length (body_param_bytes cmd b) \<le> fields_SIZE (f_params cmd)"
    using fields_len_le [OF decl_okD(3) [OF assms(1)] v(3)] length_fields_enc [OF decl_okD(3) [OF assms(1)] v(3)]
    by (simp add: body_param_bytes_def)
  ultimately show ?thesis
    by (simp add: sent_bytes_def command_bytes_def command_body_def header_def)
qed

lemma plain_runnable:
  assumes "command_typed (fst ca)" "plain_command ca" "valid TpmHandle (s_handle session)"
  shows "runnable session ca"
proof -
  obtain c where ca: "ca = (c, [])" using assms(2) by (cases ca) (auto simp: plain_command_def)
  have small: "length (sent_bytes cmd (set_handle i (s_handle session) b) []) \<le> TPM_MAX_COMMAND_SIZE"
    if "(v, cmd, resp) \<in> set dispatch_rows" "body_valid cmd b"
      "10 + 4 * HANDLES cmd + fields_SIZE (f_params cmd) \<le> TPM_MAX_COMMAND_SIZE" for v cmd resp b i
    using sent_bytes_length [OF row_ok(1) [OF that(1)] set_handle_valid [OF that(2) assms(3)], of i] that(3) by simp
  note decls = policy_rows [THEN command_decl_row]
  have typed: "command_typed c" "\<forall>cc b. c \<noteq> OtherCmd cc b"
    using assms(1,2) by (simp_all add: ca plain_command_def)
  from typed show ?thesis
    using policy_rows [THEN small] decls
    by (cases rule: policy_commands)
      (simp_all add: typed(1) ca runnable_def run_bytes_def session_slot_def TpmPolicyPcrCommand_def
        TpmPolicyOrCommand_def TpmPolicyRestartCommand_def TpmPolicySecretCommand_def fields_SIZE_def
        TPM_MAX_COMMAND_SIZE_def)
qed

lemma compiled_runnable:
  assumes "compile_policy L e alg ctx = Ok p" "expr_typed e" "valid TpmHandle (s_handle session)"
  shows "list_all (runnable session) (cp_commands p)"
proof -
  obtain s s' where s: "TpmPolicySession_new L alg = Ok s"
    and w: "compile_walk L ctx e ([], s) = Ok (cp_commands p, s')"
    using assms(1) by (auto simp: compile_policy_def)
  from s have "compiler_typed ([], s)"
    by (auto simp: compiler_typed_def TpmPolicySession_new_def digest_try_from_Ok_iff)
  from compile_walk_typed(1) [OF w this assms(2)] compile_walk_plain(1) [OF w]
  show ?thesis
    by (auto simp: compiler_typed_def list_all_iff intro: plain_runnable [OF _ _ assms(3)])
qed

lemma compiled_plain: "compile_policy L e alg ctx = Ok p \<Longrightarrow> list_all plain_command (cp_commands p)"
  using compile_walk_plain(1) [where st = "([], _)"] by (fastforce simp: compile_policy_def)

lemma plain_run_bytes:
  assumes "list_all plain_command cmds"
  shows "map (run_bytes session) cmds = map (\<lambda>(c, _). sent_bytes (command_decl (TpmCommandValue_cc c))
    (set_handle (if TpmCommandValue_cc c = Cc_PolicySecret then 1 else 0) (s_handle session)
       (TpmCommandValue_body c)) []) cmds"
proof (rule map_cong [OF refl])
  fix ca assume "ca \<in> set cmds"
  with assms have "plain_command ca" by (auto simp: list_all_iff)
  then obtain c where "ca = (c, [])" "\<forall>cc b. c \<noteq> OtherCmd cc b"
    by (cases ca) (auto simp: plain_command_def)
  then show "run_bytes session ca = (case ca of (c, _) \<Rightarrow> sent_bytes (command_decl (TpmCommandValue_cc c))
    (set_handle (if TpmCommandValue_cc c = Cc_PolicySecret then 1 else 0) (s_handle session)
       (TpmCommandValue_body c)) [])"
    by (cases c) (simp_all add: run_bytes_def session_slot_def)
qed

end
