(* ===== verification/Device_Reference.thy ===== *)
theory Device_Reference
  imports Device_Queries Wire_Types
begin

text \<open>
  What a TPM answers to the queries, in bytes.  \<open>exchanges\<close> is one command and its response on a transport,
  \<open>lists_handles\<close> the documented behaviour of \<open>TPM2_GetCapability\<close> for handles, which answers within the handle
  type of the requested property, and \<open>reads_objects\<close> that of \<open>TPM2_ReadPublic\<close>.  At the end there is a TPM
  that behaves so: it has registers and persistent objects, and rejects anything else.
\<close>

subsection \<open>The bytes of its commands\<close>

lemma header_literals:
  "to_be_bytes 2 0x8001 = [0x80, 0x01]" "to_be_bytes 4 0 = [0, 0, 0, 0]" "to_be_bytes 4 (Suc 0) = [0, 0, 0, 1]"
  "to_be_bytes 4 8 = [0, 0, 0, 8]" "to_be_bytes 4 10 = [0, 0, 0, 10]" "to_be_bytes 4 14 = [0, 0, 0, 14]"
  "to_be_bytes 4 22 = [0, 0, 0, 22]" "to_be_bytes 4 0x173 = [0, 0, 0x01, 0x73]"
  "to_be_bytes 4 0x17A = [0, 0, 0x01, 0x7A]"
  by (simp_all add: be_bytes)

lemma success_code: "unat (TpmRc_value rc_ok_success) = 0"
  by (simp add: rc_ok_success_def base_word_def mask_defs)

lemma encode_u32: "length bs = 4 \<Longrightarrow> encode TpmUint32 (VInt bs) = bs"
  by (rule encode_eqI) (simp_all add: TpmUint32_def tpm_int_def usize_max_def)

lemma encode_cap: "encode TpmCap_codec (VEnum (ECap cap)) = to_be_repr 4 (TpmCap_value cap)"
  by (rule encode_eqI) (simp_all add: TpmCap_codec_def tpm_enum_codec_def to_be_repr_def usize_max_def
      del: to_be_bytes.simps)

abbreviation page_request :: "TpmCap \<Rightarrow> u32 \<Rightarrow> frame_body" where
  "page_request cap p \<equiv> \<lparr>b_handles = [],
     b_params = [VEnum (ECap cap), int_new 4 (unat p), int_new 4 (unat CAPABILITY_PAGE_SIZE)]\<rparr>"

lemma page_request_bytes:
  "sent_bytes TpmGetCapabilityCommand (page_request cap p) [] =
     to_be_bytes 2 0x8001 @ to_be_bytes 4 22 @ to_be_bytes 4 0x17A @
     to_be_repr 4 (TpmCap_value cap) @ to_be_bytes 4 (unat p) @ to_be_bytes 4 8"
  by (simp add: sent_bytes_def TpmGetCapabilityCommand_def body_handle_bytes_def body_param_bytes_def
      command_bytes_def command_body_def header_def encode_cap encode_u32 int_new_def to_be_repr_def
      CAPABILITY_PAGE_SIZE_def MAX_HANDLES_def del: to_be_bytes.simps)

lemma page_request_valid: "body_valid TpmGetCapabilityCommand (page_request cap p)"
  by (simp add: body_valid_def TpmGetCapabilityCommand_def TpmCap_codec_valid int_new_def TpmUint32_def tpm_int_def)

lemma read_public_bytes:
  "sent_bytes TpmReadPublicCommand \<lparr>b_handles = [handle_val h], b_params = []\<rparr> [] =
     to_be_bytes 2 0x8001 @ to_be_bytes 4 14 @ to_be_bytes 4 0x173 @ to_be_bytes 4 (unat h)"
  by (simp add: sent_bytes_def TpmReadPublicCommand_def body_handle_bytes_def body_param_bytes_def
      command_bytes_def command_body_def header_def encode_u32 handle_val_def int_new_def TpmHandle_def
      del: to_be_bytes.simps)

subsection \<open>What a TPM answers\<close>

text \<open>A transport on which each sending of \<open>f\<close> is answered by one of the responses \<open>R\<close>; \<open>I\<close> is what is known of
  its state in between.\<close>

definition exchanges :: "'t TpmTransport \<Rightarrow> ('t \<Rightarrow> bool) \<Rightarrow> u8 list \<Rightarrow> (u8 list \<Rightarrow> bool) \<Rightarrow> bool" where
  "exchanges T I f R \<longleftrightarrow> (\<forall>t buf. I t \<longrightarrow> (\<exists>t1 r t2.
     t_send T f t = Some (Ok (), t1) \<and> t_recv T (buf, t1) = Some (Ok (), r, t2) \<and> R r \<and> I t2))"

definition handle_page :: "bool \<Rightarrow> u32 list \<Rightarrow> u8 list" where
  "handle_page more_data hs = [0x80, 0x01] @ to_be_bytes 4 (19 + 4 * length hs) @ [0, 0, 0, 0] @
     [if more_data then 1 else 0] @ [0, 0, 0, 1] @ to_be_bytes 4 (length hs) @ concat (map (\<lambda>h. to_be_bytes 4 (unat h)) hs)"

text \<open>\<open>hs\<close> are the handles of the type \<open>ht\<close>: a request for eight handles from one of this type on is answered by
  some of the next ones and whether there are more of the type.  Requests for handles of other types are not
  spoken of.\<close>

definition lists_handles :: "'t TpmTransport \<Rightarrow> ('t \<Rightarrow> bool) \<Rightarrow> u32 \<Rightarrow> u32 list \<Rightarrow> bool" where
  "lists_handles T I ht hs \<longleftrightarrow> sorted_wrt (<) hs \<and> (\<forall>h \<in> set hs. drop_bit 24 h = ht) \<and>
     (\<forall>p. drop_bit 24 p = ht \<longrightarrow>
        exchanges T I ([0x80, 0x01, 0, 0, 0, 22, 0, 0, 0x01, 0x7A, 0, 0, 0, 1] @ to_be_bytes 4 (unat p) @ [0, 0, 0, 8])
          (\<lambda>r. \<exists>page later. filter (\<lambda>h. p \<le> h) hs = page @ later \<and> length page \<le> 8 \<and>
             (later \<noteq> [] \<longrightarrow> page \<noteq> []) \<and> r = handle_page (later \<noteq> []) page))"

definition object_response :: "object_reading \<Rightarrow> u8 list \<Rightarrow> bool" where
  "object_response reading r \<longleftrightarrow> (case reading of
       Inr (public, name) \<Rightarrow> valid Tpm2bPublic public \<and> valid Tpm2bName name \<and>
         (\<exists>qualified. valid Tpm2bName qualified \<and>
            (let body = encode Tpm2bPublic public @ encode Tpm2bName name @ encode Tpm2bName qualified in
             r = [0x80, 0x01] @ to_be_bytes 4 (10 + length body) @ [0, 0, 0, 0] @ body))
     | Inl rc \<Rightarrow> rc_ok rc \<and> TpmRc_value rc \<noteq> 0 \<and>
         r = [0x80, 0x01, 0, 0, 0, 10] @ to_be_bytes 4 (unat (TpmRc_value rc)))"

definition reads_objects :: "'t TpmTransport \<Rightarrow> ('t \<Rightarrow> bool) \<Rightarrow> u32 list \<Rightarrow> (u32 \<Rightarrow> object_reading) \<Rightarrow> bool" where
  "reads_objects T I hs object \<longleftrightarrow> (\<forall>h \<in> set hs.
     exchanges T I ([0x80, 0x01, 0, 0, 0, 14, 0, 0, 0x01, 0x73] @ to_be_bytes 4 (unat h)) (object_response (object h)))"

subsection \<open>The queries on such a TPM\<close>

definition success_frame :: "frame_decl \<Rightarrow> frame_body \<Rightarrow> u8 list" where
  "success_frame resp b = response_bytes rc_ok_success St_NoSessions (body_handle_bytes b) (body_param_bytes resp b) []"

lemma transact_answered:
  assumes "(v, cmd, resp) \<in> set dispatch_rows" "body_valid cmd b"
    and "length (sent_bytes cmd b []) \<le> TPM_MAX_COMMAND_SIZE"
    and "t_send T (sent_bytes cmd b []) (transport d) = Some (Ok (), t1)"
    and "t_recv T (dev_response d, t1) = Some (Ok (), r, t2)"
  shows "transact T cmd b resp d = Some (and_then (response_outcome (f_CC cmd) r)
      (\<lambda>r. map_err Dev_Unmarshal (TpmResponse_unmarshal resp r)),
    \<lparr>transport = t2, dev_command = sent_bytes cmd b [], dev_response = r\<rparr>)"
proof -
  have ss: "length ([] :: val list) \<le> MAX_SESSIONS" "list_all (valid TpmsAuthCommand) []" by (simp_all add: constants)
  have "prepare_command (frame_of cmd b) [] d = Some (Ok (), d\<lparr>dev_command := sent_bytes cmd b []\<rparr>)"
    using sent_bytes_emits [OF row_ok(1) [OF assms(1)] assms(2) ss] by (rule prepare_emits [OF _ assms(3)])
  from transmit_steps [OF this assms(4,5)] show ?thesis
    by (simp add: transact_def NO_SESSIONS_def dev_bind_def dev_return_def frame_of_def split: result.split)
qed

lemma success_outcome:
  assumes "(v, cmd, resp) \<in> set dispatch_rows" "body_valid resp rb"
  shows "response_outcome (f_CC cmd) (success_frame resp rb) = Ok (success_frame resp rb)"
    "TpmResponse_unmarshal resp (success_frame resp rb) = Ok rb"
proof -
  have ss: "length ([] :: val list) \<le> MAX_SESSIONS" "list_all (valid TpmsAuthResponse) []" by (simp_all add: constants)
  show "response_outcome (f_CC cmd) (success_frame resp rb) = Ok (success_frame resp rb)"
    "TpmResponse_unmarshal resp (success_frame resp rb) = Ok rb"
    using response_roundtrip(2,3) [OF assms ss] by (simp_all add: response_outcome_eq success_frame_def items_enc_def)
qed

lemma transact_success:
  assumes "(v, cmd, resp) \<in> set dispatch_rows" "body_valid cmd b" "body_valid resp rb"
    and "length (sent_bytes cmd b []) \<le> TPM_MAX_COMMAND_SIZE"
    and "t_send T (sent_bytes cmd b []) (transport d) = Some (Ok (), t1)"
    and "t_recv T (dev_response d, t1) = Some (Ok (), success_frame resp rb, t2)"
  shows "\<exists>d'. transact T cmd b resp d = Some (Ok rb, d')"
  using transact_answered [OF assms(1,2,4-6)] success_outcome [OF assms(1,3)] by simp

lemma rejected_outcome:
  assumes "rc_ok rc" "TpmRc_value rc \<noteq> 0"
  shows "response_outcome cc (header St_NoSessions 0 (unat (TpmRc_value rc))) = Err (Dev_TpmRc rc)"
proof -
  let ?f = "header St_NoSessions 0 (unat (TpmRc_value rc))"
  have f: "?f = frame_bytes St_NoSessions (unat (TpmRc_value rc)) []"
    by (simp add: frame_bytes_def)
  then have env: "TpmResponse_validate_envelope ?f = Ok ()"
    unfolding response_envelope_iff using assms(1) by (fastforce simp: session_tag_def)
  have "TpmResponse_rc ?f = Ok rc"
    unfolding f by (rule frame_rc [OF assms(1)])
  moreover have "\<not> rc_success rc" using assms(2) by (auto simp: rc_success_def base_word_def)
  ultimately show ?thesis
    using env by (simp add: response_outcome_eq TpmResponseView_cast_frame_def TpmResponse_cast_def
        TpmResponseView_cast_def del: and_then_Ok_iff)
qed

text \<open>A page of handles.\<close>

definition page_body :: "bool \<Rightarrow> u32 list \<Rightarrow> frame_body" where
  "page_body more_data hs = \<lparr>b_handles = [], b_params = [VBool more_data,
     VStruct [VEnum (ECap Cap_Handles), VUnion ''Handles'' (Some (VList (map handle_val hs)))]]\<rparr>"

lemma page_body_valid: "length hs \<le> 8 \<Longrightarrow> body_valid TpmGetCapabilityResponse (page_body more_data hs)"
  by (auto simp: body_valid_def TpmGetCapabilityResponse_def page_body_def TpmiYesNo_def tpm_bool_def
      TpmsCapabilityData_valid_iff TpmCap_codec_valid TpmuCapabilities_def TpmuCapabilities_arms_def
      tpmu_view_def tpmu_matches_tag_def TpmlHandle_def TpmList_valid_iff list_all_iff handle_val_def int_new_def
      TpmUint32_def tpm_int_def)

lemma emits_handles:
  "emits (marshal_items (marshal TpmHandle) (map handle_val hs)) (concat (map (\<lambda>h. to_be_bytes 4 (unat h)) hs))"
proof (induction hs)
  case (Cons h hs)
  have "emits (marshal TpmHandle (handle_val h)) (to_be_bytes 4 (unat h))"
    by (simp add: TpmHandle_def TpmUint32_def tpm_int_def handle_val_def int_new_def del: to_be_bytes.simps)
  from emits_wseq [OF this Cons.IH] show ?case by (simp del: to_be_bytes.simps)
qed simp

lemma length_be_items: "length (concat (map (\<lambda>h. to_be_bytes n (f h)) xs)) = n * length xs"
  by (induction xs) simp_all

lemma encode_handles:
  assumes "length hs \<le> 8"
  shows "encode TpmsCapabilityData (VStruct [VEnum (ECap Cap_Handles), VUnion ''Handles'' (Some (VList (map handle_val hs)))]) =
    [0, 0, 0, 1] @ to_be_bytes 4 (length hs) @ concat (map (\<lambda>h. to_be_bytes 4 (unat h)) hs)"
    (is "encode _ ?v = ?bs")
proof -
  have "marshal TpmsCapabilityData ?v = wseq (write_bytes [0, 0, 0, 1]) (wseq (write_bytes (to_be_bytes 4 (length hs)))
      (marshal_items (marshal TpmHandle) (map handle_val hs)))"
    using assms
    by (simp add: TpmsCapabilityData_def TpmCap_codec_def tpm_enum_codec_def to_be_repr_def TpmuCapabilities_def
        TpmuCapabilities_arms_def tpmu_view_def TpmlHandle_def TpmList_def TpmHandle_def u32_max_def header_literals del: to_be_bytes.simps One_nat_def)
  then have "emits (marshal TpmsCapabilityData ?v) ?bs"
    using emits_handles [of hs] by (simp only:) (intro emits_wseq emits_write_bytes)
  then show ?thesis
    using assms
    by (intro encode_eqI)
      (simp_all add: TpmsCapabilityData_def TpmCap_codec_def tpm_enum_codec_def TpmuCapabilities_def
        TpmuCapabilities_arms_def tpmu_view_def TpmlHandle_def TpmList_def TpmHandle_def TpmUint32_def tpm_int_def
        length_be_items comp_def sum_list_triv usize_max_def del: to_be_bytes.simps)
qed

lemma encode_more: "encode TpmiYesNo (VBool b) = [if b then 1 else 0]"
  by (rule encode_eqI) (simp_all add: TpmiYesNo_def tpm_bool_def usize_max_def)

lemma page_frame: "length hs \<le> 8 \<Longrightarrow> success_frame TpmGetCapabilityResponse (page_body more_data hs) = handle_page more_data hs"
  by (simp add: success_frame_def handle_page_def page_body_def TpmGetCapabilityResponse_def response_bytes_def
      body_handle_bytes_def body_param_bytes_def items_enc_def response_body_def header_def encode_handles encode_more
      length_be_items header_literals success_code algebra_simps del: to_be_bytes.simps One_nat_def)

lemma handle_value_val [simp]: "handle_value (handle_val h) = h"
  using unat_u32_less [of h] by (simp add: handle_value_def handle_val_def int_new_def)

lemma handle_page_answered:
  assumes "lists_handles T I ht hs" "drop_bit 24 p = ht" "I (transport d)"
  shows "\<exists>d' page later. get_capability_page T Cap_Handles p CAPABILITY_PAGE_SIZE d =
      Some (Ok (later \<noteq> [], VUnion ''Handles'' (Some (VList (map handle_val page)))), d') \<and> I (transport d') \<and>
    filter (\<lambda>h. p \<le> h) hs = page @ later \<and> (later \<noteq> [] \<longrightarrow> page \<noteq> [])"
proof -
  let ?f = "sent_bytes TpmGetCapabilityCommand (page_request Cap_Handles p) []"
  have f: "?f = [0x80, 0x01, 0, 0, 0, 22, 0, 0, 0x01, 0x7A, 0, 0, 0, 1] @ to_be_bytes 4 (unat p) @ [0, 0, 0, 8]"
    by (simp add: page_request_bytes to_be_repr_def header_literals del: to_be_bytes.simps)
  obtain t1 r t2 page later where tr: "t_send T ?f (transport d) = Some (Ok (), t1)"
      "t_recv T (dev_response d, t1) = Some (Ok (), r, t2)" "I t2"
    and page: "filter (\<lambda>h. p \<le> h) hs = page @ later" "length page \<le> 8" "later \<noteq> [] \<longrightarrow> page \<noteq> []"
      "r = handle_page (later \<noteq> []) page"
    using assms unfolding lists_handles_def exchanges_def f by blast
  have row: "(''GetCapability'', TpmGetCapabilityCommand, TpmGetCapabilityResponse) \<in> set dispatch_rows"
    by (simp add: dispatch_rows_def)
  have len: "length ?f \<le> TPM_MAX_COMMAND_SIZE"
    by (simp add: f TPM_MAX_COMMAND_SIZE_def)
  note v = page_body_valid [OF page(2), of "later \<noteq> []"]
  have "transact T TpmGetCapabilityCommand (page_request Cap_Handles p) TpmGetCapabilityResponse d =
      Some (Ok (page_body (later \<noteq> []) page), \<lparr>transport = t2, dev_command = ?f, dev_response = r\<rparr>)"
    using transact_answered [OF row page_request_valid len tr(1,2)] success_outcome [OF row v]
    by (simp add: page(4) page_frame [OF page(2), symmetric])
  then have "get_capability_page T Cap_Handles p CAPABILITY_PAGE_SIZE d =
      Some (Ok (later \<noteq> [], VUnion ''Handles'' (Some (VList (map handle_val page)))),
        \<lparr>transport = t2, dev_command = ?f, dev_response = r\<rparr>)"
    by (simp add: get_capability_page_def page_body_def dev_bind_def dev_return_def)
  with tr(3) page show ?thesis
    by (intro exI conjI) (assumption | simp)+
qed

lemma lists_serves:
  fixes T :: "'t TpmTransport"
  assumes "lists_handles T I 0x81 hs"
  shows "serves T Cap_Handles ''Handles'' handle_value (map handle_val hs) 0x81000000 0x81FFFFFF (I \<circ> transport)"
  unfolding serves_def
proof (intro conjI allI impI ballI)
  show "sorted_wrt (\<lambda>x y. handle_value x < handle_value y) (map handle_val hs)"
    using assms by (simp add: lists_handles_def sorted_wrt_map)
next
  fix x assume "x \<in> set (map handle_val hs)"
  then show "handle_value x \<le> 0x81FFFFFF"
    using assms by (auto simp: lists_handles_def persistent_range)
next
  fix d :: "'t TpmDevice" and p assume "(I \<circ> transport) d" "0x81000000 \<le> p" "p \<le> (0x81FFFFFF :: u32)"
  then obtain d' page later where "get_capability_page T Cap_Handles p CAPABILITY_PAGE_SIZE d =
      Some (Ok (later \<noteq> [], VUnion ''Handles'' (Some (VList (map handle_val page)))), d')" "I (transport d')"
    "filter (\<lambda>h. p \<le> h) hs = page @ later" "later \<noteq> [] \<longrightarrow> page \<noteq> []"
    using handle_page_answered [OF assms, of p d] by (auto simp: persistent_range)
  then show "\<exists>d' more page later. get_capability_page T Cap_Handles p CAPABILITY_PAGE_SIZE d =
        Some (Ok (more, VUnion ''Handles'' (Some (VList page))), d') \<and> (I \<circ> transport) d' \<and>
      filter (\<lambda>x. p \<le> handle_value x) (map handle_val hs) = page @ later \<and>
      (more \<longleftrightarrow> later \<noteq> []) \<and> (later \<noteq> [] \<longrightarrow> page \<noteq> [])"
    by (intro exI [of _ d'] exI [of _ "later \<noteq> []"] exI [of _ "map handle_val page"] exI [of _ "map handle_val later"])
      (simp add: filter_map comp_def)
qed

lemma objects_read:
  fixes T :: "'t TpmTransport"
  assumes "reads_objects T I hs object"
  shows "reads_public T hs object (I \<circ> transport)"
  unfolding reads_public_def
proof (intro ballI allI impI)
  fix h and d :: "'t TpmDevice" assume h: "h \<in> set hs" and I: "(I \<circ> transport) d"
  let ?b = "\<lparr>b_handles = [handle_val h], b_params = []\<rparr>"
  let ?f = "sent_bytes TpmReadPublicCommand ?b []"
  have f: "?f = [0x80, 0x01, 0, 0, 0, 14, 0, 0, 0x01, 0x73] @ to_be_bytes 4 (unat h)"
    by (simp add: read_public_bytes header_literals del: to_be_bytes.simps)
  obtain t1 r t2 where tr: "t_send T ?f (transport d) = Some (Ok (), t1)"
      "t_recv T (dev_response d, t1) = Some (Ok (), r, t2)" "I t2" and r: "object_response (object h) r"
    using assms h I unfolding reads_objects_def exchanges_def f comp_def by blast
  have row: "(''ReadPublic'', TpmReadPublicCommand, TpmReadPublicResponse) \<in> set dispatch_rows"
    by (simp add: dispatch_rows_def)
  have cmd: "body_valid TpmReadPublicCommand ?b"
    by (simp add: body_valid_def TpmReadPublicCommand_def)
  have len: "length ?f \<le> TPM_MAX_COMMAND_SIZE"
    by (simp add: f TPM_MAX_COMMAND_SIZE_def)
  note answer = transact_answered [OF row cmd len tr(1,2)]
  show "\<exists>d'. read_public T (handle_val h) d =
      Some (case object h of Inr read \<Rightarrow> Ok read | Inl rc \<Rightarrow> Err (Dev_TpmRc rc), d') \<and> (I \<circ> transport) d'"
  proof (cases "object h")
    case (Inl rc)
    then have "r = header St_NoSessions 0 (unat (TpmRc_value rc))" "rc_ok rc" "TpmRc_value rc \<noteq> 0"
      using r by (simp_all add: object_response_def header_def header_literals del: to_be_bytes.simps)
    then have "response_outcome (f_CC TpmReadPublicCommand) r = Err (Dev_TpmRc rc)"
      using rejected_outcome by simp
    then show ?thesis
      using tr(3) answer by (simp add: Inl read_public_def dev_bind_def)
  next
    case (Inr reading)
    obtain public name where reading: "reading = (public, name)" by fastforce
    with Inr r obtain qn where v: "valid Tpm2bPublic public" "valid Tpm2bName name" "valid Tpm2bName qn"
      and bytes: "r = success_frame TpmReadPublicResponse \<lparr>b_handles = [], b_params = [public, name, qn]\<rparr>"
      by (auto simp: object_response_def Let_def success_frame_def TpmReadPublicResponse_def response_bytes_def
          body_handle_bytes_def body_param_bytes_def items_enc_def response_body_def header_def header_literals success_code
        simp del: to_be_bytes.simps)
    have "body_valid TpmReadPublicResponse \<lparr>b_handles = [], b_params = [public, name, qn]\<rparr>"
      using v by (simp add: body_valid_def TpmReadPublicResponse_def)
    from success_outcome [OF row this] show ?thesis
      using tr(3) answer by (simp add: Inr reading read_public_def dev_bind_def dev_return_def bytes)
  qed
qed

subsection \<open>A TPM\<close>

text \<open>The objects: handle, public area and name.  Beside them there are 24 registers.\<close>

type_synonym objects = "(u32 \<times> val \<times> val) list"

definition objects_ok :: "objects \<Rightarrow> bool" where
  "objects_ok objs \<longleftrightarrow> sorted_wrt (<) (map fst objs) \<and>
     list_all (\<lambda>(h, public, name). drop_bit 24 h = 0x81 \<and> valid Tpm2bPublic public \<and> valid Tpm2bName name) objs"

definition tpm_handles :: "objects \<Rightarrow> u32 list" where
  "tpm_handles objs = map word_of_nat [0..<24] @ map fst objs"

definition tpm_answer :: "objects \<Rightarrow> u8 list \<Rightarrow> u8 list" where
  "tpm_answer objs f =
     (let code = from_be_bytes (take 4 (drop 6 f)); arg = word_of_nat (from_be_bytes (take 4 (drop 10 f))) in
      if code = 0x17A then
        (let p = word_of_nat (from_be_bytes (take 4 (drop 14 f))); n = from_be_bytes (take 4 (drop 18 f));
             found = filter (\<lambda>h. p \<le> h \<and> drop_bit 24 h = drop_bit 24 p) (tpm_handles objs)
         in handle_page (n < length found) (take n found))
      else case (if code = 0x173 then map_of objs arg else None) of
          Some (public, name) \<Rightarrow>
            success_frame TpmReadPublicResponse \<lparr>b_handles = [], b_params = [public, name, name]\<rparr>
        | None \<Rightarrow> header St_NoSessions 0 0x8B)"

definition reference_tpm :: "objects \<Rightarrow> u8 list TpmTransport" where
  "reference_tpm objs = \<lparr>
     t_send = (\<lambda>f _. Some (Ok (), f)),
     t_recv = (\<lambda>(_, f). Some (Ok (), tpm_answer objs f, f))\<rparr>"

lemma reference_exchanges: "R (tpm_answer objs f) \<Longrightarrow> exchanges (reference_tpm objs) (\<lambda>_. True) f R"
  by (simp add: exchanges_def reference_tpm_def)

lemma word_of_be_bytes: "word_of_nat (from_be_bytes (to_be_bytes 4 (unat (w :: u32)))) = w"
  using unat_u32_less [of w] by simp

lemma reference_lists:
  assumes "objects_ok objs"
  shows "lists_handles (reference_tpm objs) (\<lambda>_. True) 0x81 (map fst objs)"
  unfolding lists_handles_def
proof (intro conjI allI impI reference_exchanges)
  show "sorted_wrt (<) (map fst objs)" "\<forall>h \<in> set (map fst objs). drop_bit 24 h = 0x81"
    using assms by (auto simp: objects_ok_def list_all_iff)
  fix p :: u32 assume p: "drop_bit 24 p = 0x81"
  let ?found = "filter (\<lambda>h. p \<le> h) (map fst objs)"
  let ?f = "[0x80, 0x01, 0, 0, 0, 22, 0, 0, 0x01, 0x7A, 0, 0, 0, 1] @ to_be_bytes 4 (unat p) @ [0, 0, 0, 8]"
  have "drop_bit 24 (word_of_nat i :: u32) \<noteq> 0x81" if "i < 24" for i
    using that by (simp add: persistent_range word_le_nat_alt unat_of_nat take_bit_nat_eq_self)
  then have "filter (\<lambda>h. p \<le> h \<and> drop_bit 24 h = 0x81) (map word_of_nat [0..<24]) = []"
    by (auto simp: filter_empty_conv)
  moreover have "filter (\<lambda>h. p \<le> h \<and> drop_bit 24 h = 0x81) (map fst objs) = ?found"
    using assms by (intro filter_cong) (auto simp: objects_ok_def list_all_iff)
  ultimately have found: "filter (\<lambda>h. p \<le> h \<and> drop_bit 24 h = 0x81) (tpm_handles objs) = ?found"
    by (simp only: tpm_handles_def filter_append append_Nil)
  have "from_be_bytes [0, 0, 0x01, 0x7A] = 0x17A" "from_be_bytes [0, 0, 0, 8] = 8"
    by (simp_all add: from_be_bytes_def)
  with found have "tpm_answer objs ?f = handle_page (8 < length ?found) (take 8 ?found)"
    by (simp add: tpm_answer_def p word_of_be_bytes del: to_be_bytes.simps from_to_be_bytes)
  then show "\<exists>page later. ?found = page @ later \<and> length page \<le> 8 \<and> (later \<noteq> [] \<longrightarrow> page \<noteq> []) \<and>
      tpm_answer objs ?f = handle_page (later \<noteq> []) page"
    by - (rule exI [of _ "take 8 ?found"], rule exI [of _ "drop 8 ?found"], auto simp: not_le simp del: length_filter_map)
qed

lemma reference_reads:
  assumes "objects_ok objs"
  shows "reads_objects (reference_tpm objs) (\<lambda>_. True) (map fst objs) (\<lambda>h. Inr (the (map_of objs h)))"
  unfolding reads_objects_def
proof (intro ballI reference_exchanges)
  fix h assume "h \<in> set (map fst objs)"
  then obtain public name where h: "map_of objs h = Some (public, name)"
    by (metis list.set_map map_of_eq_None_iff not_None_eq prod.exhaust)
  from map_of_SomeD [OF this] have "valid Tpm2bPublic public" "valid Tpm2bName name"
    using assms by (auto simp: objects_ok_def list_all_iff)
  moreover have "tpm_answer objs ([0x80, 0x01, 0, 0, 0, 14, 0, 0, 0x01, 0x73] @ to_be_bytes 4 (unat h)) =
      success_frame TpmReadPublicResponse \<lparr>b_handles = [], b_params = [public, name, name]\<rparr>"
    using h by (simp add: tpm_answer_def from_be_bytes_def [of "[0, 0, 0x01, 0x73]"] word_of_be_bytes
        del: to_be_bytes.simps from_to_be_bytes)
  ultimately show "object_response (Inr (the (map_of objs h)))
      (tpm_answer objs ([0x80, 0x01, 0, 0, 0, 14, 0, 0, 0x01, 0x73] @ to_be_bytes 4 (unat h)))"
    by (auto simp: object_response_def h Let_def success_frame_def TpmReadPublicResponse_def response_bytes_def
        body_handle_bytes_def body_param_bytes_def items_enc_def response_body_def header_def header_literals success_code
        simp del: to_be_bytes.simps)
qed

end
