(* ===== verification/Device_Posix.thy ===== *)
theory Device_Posix
  imports Device_Laws
begin

text \<open>
  The receive loop of the character device.  \<open>device_input\<close> is the documented behaviour of reading a file,
  \<open>device_clock\<close> that of a monotonic clock when polling takes time; from these the loop returns, and what
  it returns as a response is exactly one frame.
\<close>

subsection \<open>The environment\<close>

text \<open>A read takes a prefix of what the file still has to give, no more than was asked for; nothing else
  takes any of it.\<close>

definition device_input :: "'w TpmPosixDevice \<Rightarrow> ('w \<Rightarrow> u8 list) \<Rightarrow> bool" where
  "device_input P incoming \<longleftrightarrow>
     (\<forall>w. incoming (snd (px_interrupted P w)) = incoming w \<and> incoming (snd (px_now P w)) = incoming w) \<and>
     (\<forall>n w. incoming (snd (px_poll P n w)) = incoming w) \<and>
     (\<forall>n w. case px_read P n w of
          (Ok bs, w') \<Rightarrow> incoming w = bs @ incoming w' \<and> length bs \<le> n
        | (Err _, w') \<Rightarrow> incoming w' = incoming w
        | (Panic, _) \<Rightarrow> False)"

text \<open>The clock never goes back and a \<open>poll\<close> takes at least one tick.\<close>

definition device_clock :: "'w TpmPosixDevice \<Rightarrow> ('w \<Rightarrow> nat) \<Rightarrow> bool" where
  "device_clock P clock \<longleftrightarrow>
     (\<forall>w. clock w \<le> clock (snd (px_interrupted P w)) \<and>
          fst (px_now P w) = clock w \<and> clock w \<le> clock (snd (px_now P w))) \<and>
     (\<forall>n w. clock w < clock (snd (px_poll P n w)) \<and> clock w \<le> clock (snd (px_read P n w)))"

subsection \<open>One turn\<close>

lemma receive_input:
  assumes "device_input P incoming" "Posix_receive P n w = (r, w')"
  shows "r \<noteq> Panic" "r = Ok bs \<Longrightarrow> incoming w = bs @ incoming w' \<and> length bs \<le> n"
    "r = Err e \<Longrightarrow> incoming w' = incoming w \<and> e \<noteq> Dev_TrailingData"
proof -
  obtain p w1 where p: "px_poll P 100 w = (p, w1)" by fastforce
  have w1: "incoming w1 = incoming w"
    using assms(1) p unfolding device_input_def by (metis snd_conv)
  obtain q w2 where q: "px_read P n w1 = (q, w2)" by fastforce
  have w2: "case q of Ok bs \<Rightarrow> incoming w1 = bs @ incoming w2 \<and> length bs \<le> n
      | Err _ \<Rightarrow> incoming w2 = incoming w1 | Panic \<Rightarrow> False"
    using assms(1) q unfolding device_input_def by (auto dest!: spec [of _ n] spec [of _ w1] split: result.splits)
  show "r \<noteq> Panic" "r = Ok bs \<Longrightarrow> incoming w = bs @ incoming w' \<and> length bs \<le> n"
    "r = Err e \<Longrightarrow> incoming w' = incoming w \<and> e \<noteq> Dev_TrailingData"
    using assms(2) w2 unfolding w1 [symmetric]
    by (auto simp: Posix_receive_def p q Let_def split: poll_result.splits if_splits result.splits)
qed

lemma receive_clock:
  assumes "device_clock P clock" "Posix_receive P n w = (r, w')"
  shows "clock w < clock w'"
proof -
  obtain p w1 where p: "px_poll P 100 w = (p, w1)" by fastforce
  then have "clock w < clock w1"
    using assms(1) unfolding device_clock_def by (metis snd_conv)
  moreover obtain q w2 where q: "px_read P n w1 = (q, w2)" by fastforce
  then have "clock w1 \<le> clock w2"
    using assms(1) unfolding device_clock_def by (metis snd_conv)
  ultimately show ?thesis
    using assms(2) by (auto simp: Posix_receive_def p q Let_def split: poll_result.splits if_splits result.splits)
qed

text \<open>What is known of the loop between turns: \<open>total_size\<close> is the size the bytes so far announce.\<close>

definition recv_inv :: "nat option \<Rightarrow> u8 list \<Rightarrow> bool" where
  "recv_inv total_size buf \<longleftrightarrow> (case total_size of
       None \<Rightarrow> length buf < 10
     | Some n \<Rightarrow> frame_size buf = Ok n \<and> length buf < n)"

text \<open>The outcomes of \<open>recv\<close>: it took \<open>buf\<close> from the input, a whole frame on success and more than the frame it
  starts with when it reports trailing data.\<close>

definition recv_outcome :: "(unit, TpmDeviceError) result \<Rightarrow> u8 list \<Rightarrow> bool" where
  "recv_outcome r buf \<longleftrightarrow> (case r of
       Ok _ \<Rightarrow> whole_frame buf
     | Err e \<Rightarrow> e = Dev_TrailingData \<longrightarrow> (\<exists>n. frame_size buf = Ok n \<and> n < length buf)
     | Panic \<Rightarrow> False)"

lemma Posix_recv_turn_eq:
  assumes "px_interrupted P w = (stop, w1)" "px_now P w1 = (t, w2)" "Posix_receive P 1024 w2 = (r, w3)"
  shows "Posix_recv_turn P start total_size (buf, w) =
    (if stop then (Inl (Err Dev_Interrupted), buf, w1)
     else if t - start > px_timeout P then (Inl (Err Dev_Timeout), buf, w2)
     else (case r of
         Err e \<Rightarrow> (Inl (Err e), buf, w3)
       | Panic \<Rightarrow> (Inl Panic, buf, w3)
       | Ok bs \<Rightarrow>
           (case (if total_size = None \<and> 10 \<le> length (buf @ bs)
                 then and_then (frame_size (buf @ bs)) (\<lambda>n. Ok (Some n)) else Ok total_size) of
              Err e \<Rightarrow> (Inl (Err e), buf @ bs, w3)
            | Panic \<Rightarrow> (Inl Panic, buf @ bs, w3)
            | Ok total_size' \<Rightarrow> (case total_size' of
                  None \<Rightarrow> (Inr None, buf @ bs, w3)
                | Some n \<Rightarrow>
                    if length (buf @ bs) = n then (Inl (Ok ()), buf @ bs, w3)
                    else if length (buf @ bs) > n then (Inl (Err Dev_TrailingData), buf @ bs, w3)
                    else (Inr (Some n), buf @ bs, w3)))))"
  using assms by (cases r) (simp_all add: Posix_recv_turn_def Let_def TPM_HEADER_SIZE_def)

lemma turn_step:
  assumes "device_input P incoming" "recv_inv total_size buf"
    and turn: "Posix_recv_turn P start total_size (buf, w) = (next_turn, buf', w')"
  shows "buf @ incoming w = buf' @ incoming w'"
    "case next_turn of Inl r \<Rightarrow> recv_outcome r buf' | Inr total_size' \<Rightarrow> recv_inv total_size' buf'"
proof -
  obtain stop w1 where w1: "px_interrupted P w = (stop, w1)" by fastforce
  obtain t w2 where w2: "px_now P w1 = (t, w2)" by fastforce
  obtain r w3 where w3: "Posix_receive P 1024 w2 = (r, w3)" by fastforce
  note turn = turn [unfolded Posix_recv_turn_eq [OF w1 w2 w3]]
  have same: "incoming w1 = incoming w" "incoming w2 = incoming w"
    using assms(1) w1 w2 unfolding device_input_def by (metis snd_conv)+
  note got = receive_input [OF assms(1) w3, unfolded same]
  have size: "frame_size (buf @ bs) = Ok n" if "total_size = Some n" for bs n
    using assms(2) that by (auto simp: recv_inv_def frame_size_Ok_iff)
  show "buf @ incoming w = buf' @ incoming w'"
    using turn got same by (auto split: if_splits result.splits option.splits)
  show "case next_turn of Inl r \<Rightarrow> recv_outcome r buf' | Inr total_size' \<Rightarrow> recv_inv total_size' buf'"
  proof (cases r)
    case (Ok bs)
    show ?thesis
    proof (cases total_size)
      case None
      then show ?thesis
        using turn Ok
        by (cases "frame_size (buf @ bs)") (auto simp: recv_outcome_def recv_inv_def whole_frame_def
            simp del: length_append dest: frame_size_Err split: if_splits)
    next
      case (Some n)
      then show ?thesis
        using turn Ok size [OF Some, of bs]
        by (auto simp: recv_outcome_def recv_inv_def whole_frame_def simp del: length_append split: if_splits)
    qed
  qed (use turn got(1,3) in \<open>auto simp: recv_outcome_def split: if_splits\<close>)
qed

lemma turn_clock:
  assumes "device_clock P clock" "Posix_recv_turn P start total_size (buf, w) = (Inr total_size', buf', w')"
  shows "clock w < clock w'" "clock w \<le> start + px_timeout P"
proof -
  obtain stop w1 where w1: "px_interrupted P w = (stop, w1)" by fastforce
  obtain t w2 where w2: "px_now P w1 = (t, w2)" by fastforce
  obtain r w3 where w3: "Posix_receive P 1024 w2 = (r, w3)" by fastforce
  have clock: "clock w \<le> clock w1" "t = clock w1" "clock w1 \<le> clock w2"
    using assms(1) w1 w2 unfolding device_clock_def by (metis fst_conv snd_conv)+
  have "w' = w3" "\<not> px_timeout P < t - start"
    using assms(2) [unfolded Posix_recv_turn_eq [OF w1 w2 w3]]
    by (auto split: if_splits result.splits option.splits)
  then show "clock w < clock w'" "clock w \<le> start + px_timeout P"
    using receive_clock [OF assms(1) w3] clock by auto
qed

lemma recv_loop_returns:
  assumes "device_input P incoming" "device_clock P clock" "recv_inv total_size buf"
  shows "\<exists>r buf' w'. Posix_recv_loop P start total_size (buf, w) = Some (r, buf', w') \<and>
    buf @ incoming w = buf' @ incoming w' \<and> recv_outcome r buf'"
  using assms(3)
proof (induction "Suc (start + px_timeout P) - clock w" arbitrary: total_size buf w rule: less_induct)
  case less
  obtain next_turn buf1 w1 where turn: "Posix_recv_turn P start total_size (buf, w) = (next_turn, buf1, w1)"
    using prod_cases3 by blast
  note step = turn_step [OF assms(1) less.prems turn]
  show ?case
  proof (cases next_turn)
    case (Inl r)
    then show ?thesis
      using turn step by (subst Posix_recv_loop.simps) simp
  next
    case (Inr total_size')
    note turn = turn [unfolded Inr]
    have less_time: "Suc (start + px_timeout P) - clock w1 < Suc (start + px_timeout P) - clock w"
      using turn_clock [OF assms(2) turn] by (simp add: diff_less_mono2 less_Suc_eq_le)
    have "recv_inv total_size' buf1" using step(2) Inr by simp
    from less.hyps [OF less_time this] obtain r buf' w'
      where "Posix_recv_loop P start total_size' (buf1, w1) = Some (r, buf', w')"
      "buf1 @ incoming w1 = buf' @ incoming w'" "recv_outcome r buf'"
      by blast
    then show ?thesis
      using turn step(1) by (subst Posix_recv_loop.simps) simp
  qed
qed

end
