(* ===== verification/Device_Properties.thy ===== *)
theory Device_Properties
  imports Device_Reference Device_Posix Vtpm_Properties Policy_Properties
begin

text \<open>
  The properties of the device layer: an exchange over a transport, frames in a stream, the receive loop of the
  character device, the queries, a compiled policy run in a session, and the responder.
\<close>

subsection \<open>Exchanges\<close>

text \<open>C25.  An exchange: a command with any sessions, sent over a transport on which the successful response of
  its row comes back, puts exactly its frame on the wire, takes exactly the response off it and returns the
  response, whose body is the one that was sent.\<close>

theorem transmit_exchange:
  assumes T: "frame_transport T incoming outgoing"
    and row: "(v, cmd, resp) \<in> set dispatch_rows" and bodies: "body_valid cmd b" "body_valid resp rb"
    and ss: "length ss \<le> MAX_SESSIONS" "list_all (valid TpmsAuthCommand) ss"
    and rs: "length rs \<le> MAX_SESSIONS" "list_all (valid TpmsAuthResponse) rs"
  defines "f \<equiv> response_bytes (Fmt0 Rc_Success) (if rs = [] then St_NoSessions else St_Sessions)
       (body_handle_bytes rb) (body_param_bytes resp rb) (items_enc TpmsAuthResponse rs)"
  assumes sizes: "length (sent_bytes cmd b ss) \<le> TPM_MAX_COMMAND_SIZE" "length f \<le> TPM_MAX_COMMAND_SIZE"
    and input: "incoming (transport d) = f @ rest"
  shows "\<exists>d'. transmit T (frame_of cmd b) ss d = Some (Ok f, d') \<and>
      TpmResponse_unmarshal resp f = Ok rb \<and>
      outgoing (transport d') = outgoing (transport d) @ sent_bytes cmd b ss \<and>
      incoming (transport d') = rest"
proof -
  note rt = response_roundtrip [OF row bodies(2) rs, unfolded rc_ok_success_def, folded f_def]
  have "whole_frame f" using sizes(2) unfolding f_def by (rule response_whole_frame)
  with input have "next_frame (incoming (transport d)) = Ok (f, rest)" by simp
  note prepare = prepare_emits [OF sent_bytes_emits [OF row_ok(1) [OF row] bodies(1) ss] sizes(1), of d]
  from frame_transport.exchange [OF T prepare] input \<open>whole_frame f\<close>
  obtain d' where "transmit T (frame_of cmd b) ss d = Some (response_outcome (f_CC cmd) f, d')"
    "outgoing (transport d') = outgoing (transport d) @ sent_bytes cmd b ss" "incoming (transport d') = rest"
    by (auto simp: frame_of_def)
  then show ?thesis
    using rt(2,3) by (simp add: response_outcome_eq)
qed

text \<open>The instance: the stream in memory with one response to read.\<close>

lemma duplex_transport: "frame_transport (TpmStreamTransport Duplex_stream) unread written"
  by unfold_locales

lemma startup_empty_response:
  "response_bytes (Fmt0 Rc_Success) St_NoSessions (body_handle_bytes \<lparr>b_handles = [], b_params = []\<rparr>)
     (body_param_bytes TpmStartupResponse \<lparr>b_handles = [], b_params = []\<rparr>) [] =
   [0x80, 0x01, 0, 0, 0, 10, 0, 0, 0, 0]"
  by (simp add: response_bytes_def header_def response_body_def be_bytes body_handle_bytes_def
      body_param_bytes_def TpmStartupResponse_def base_word_def mask_defs)

lemma startup_sent: "sent_bytes TpmStartupCommand startup_body [] = startup_frame"
  using startup_bytes by (simp add: sent_bytes_def)

definition waiting :: "u8 list \<Rightarrow> Duplex TpmDevice" where
  "waiting bs = TpmDevice_new \<lparr>unread = bs, written = []\<rparr>"

theorem transmit_exchange_witness:
  "\<exists>d'. transmit (TpmStreamTransport Duplex_stream) (frame_of TpmStartupCommand startup_body) []
       (waiting [0x80, 0x01, 0, 0, 0, 10, 0, 0, 0, 0, 7]) =
         Some (Ok [0x80, 0x01, 0, 0, 0, 10, 0, 0, 0, 0], d') \<and>
     written (transport d') = startup_frame \<and> unread (transport d') = [7]"
proof -
  have "body_valid TpmStartupResponse \<lparr>b_handles = [], b_params = []\<rparr>"
    by (simp add: body_valid_def TpmStartupResponse_def)
  from transmit_exchange [OF duplex_transport startup_row startup_body_valid this, of "[]" "[]"
      "waiting [0x80, 0x01, 0, 0, 0, 10, 0, 0, 0, 0, 7]" "[7]"]
  show ?thesis
    by (auto simp: startup_empty_response startup_sent waiting_def TpmDevice_new_def startup_frame_def
        TPM_MAX_COMMAND_SIZE_def)
qed

text \<open>A rejected command: whatever the frame that comes back carries after a code that is not success,
  the device reports that code, and the transport is left at the next frame.\<close>

theorem transmit_rejected:
  assumes T: "frame_transport T incoming outgoing"
    and row: "(v, cmd, resp) \<in> set dispatch_rows" and body: "body_valid cmd b"
    and ss: "length ss \<le> MAX_SESSIONS" "list_all (valid TpmsAuthCommand) ss"
      "length (sent_bytes cmd b ss) \<le> TPM_MAX_COMMAND_SIZE"
    and rc: "rc_ok rc" "\<not> rc_success rc" and tag: "session_tag tag"
    and input: "incoming (transport d) = header tag (length extra) (unat (TpmRc_value rc)) @ extra @ rest"
      "length extra + 10 \<le> TPM_MAX_COMMAND_SIZE"
  shows "\<exists>d'. transmit T (frame_of cmd b) ss d = Some (Err (Dev_TpmRc rc), d') \<and>
      outgoing (transport d') = outgoing (transport d) @ sent_bytes cmd b ss \<and>
      incoming (transport d') = rest"
proof -
  let ?f = "frame_bytes tag (unat (TpmRc_value rc)) extra"
  have f: "whole_frame ?f" "incoming (transport d) = ?f @ rest"
    using header_whole_frame [OF input(2)] input(1) by (simp_all add: frame_bytes_def)
  have "length ?f < 2 ^ 32" using input(2) by (simp add: TPM_MAX_COMMAND_SIZE_def)
  then have "TpmResponse_validate_envelope ?f = Ok ()"
    unfolding response_envelope_iff using rc tag by blast
  moreover have "TpmResponse_rc ?f = Ok rc" by (rule frame_rc [OF rc(1)])
  ultimately have view: "TpmResponseView_cast_frame (f_CC cmd) ?f = Ok (Rejected rc)"
    using rc(2) by (simp add: TpmResponseView_cast_frame_def TpmResponse_cast_def
        TpmResponseView_cast_def del: and_then_Ok_iff)
  note prepare = prepare_emits [OF sent_bytes_emits [OF row_ok(1) [OF row] body ss(1,2)] ss(3), of d]
  from frame_transport.exchange [OF T prepare f] show ?thesis
    by (auto simp: frame_of_def response_outcome_eq view)
qed

theorem transmit_rejected_witness:
  "\<exists>d'. transmit (TpmStreamTransport Duplex_stream) (frame_of TpmStartupCommand startup_body) []
       (waiting [0x80, 0x01, 0, 0, 0, 10, 0, 0, 0x01, 0x01, 7]) = Some (Err (Dev_TpmRc (Fmt0 Rc_Failure)), d') \<and>
     written (transport d') = startup_frame \<and> unread (transport d') = [7]"
proof -
  have rc: "rc_ok (Fmt0 Rc_Failure)" "\<not> rc_success (Fmt0 Rc_Failure)" "session_tag St_NoSessions"
    by (simp_all add: base_word_def mask_defs warn_base_def rc_success_def TPM_RC_VER1_def session_tag_def)
  from transmit_rejected [OF duplex_transport startup_row startup_body_valid _ _ _ rc, of "[]"
      "waiting [0x80, 0x01, 0, 0, 0, 10, 0, 0, 0x01, 0x01, 7]" "[]" "[7]"]
  show ?thesis
    by (auto simp: startup_sent waiting_def TpmDevice_new_def startup_frame_def header_def be_bytes
        TPM_MAX_COMMAND_SIZE_def base_word_def TPM_RC_VER1_def)
qed

subsection \<open>Streams and the responder\<close>

text \<open>C26.  Reading a frame from a blocking stream returns.  It succeeds exactly when the input starts with a
  frame, that is as many bytes as its header announces, within the limits; it returns that frame and leaves
  the input behind it.\<close>

theorem read_frame_exact:
  assumes "duplex_stream S incoming outgoing"
  shows "\<exists>r b s'. read_frame S (buf, s) = Some (r, b, s') \<and> outgoing s' = outgoing s \<and>
    (case r of
       Ok _ \<Rightarrow> frame_size b = Ok (length b) \<and> incoming s = b @ incoming s'
     | Err e \<Rightarrow> (e = Dev_UnexpectedEof \<or> e = Dev_InvalidResponse) \<and>
         (\<forall>f rest. incoming s = f @ rest \<longrightarrow> frame_size f \<noteq> Ok (length f))
     | Panic \<Rightarrow> False)"
proof (cases "next_frame (incoming s)")
  case (Ok p)
  then obtain f rest where p: "next_frame (incoming s) = Ok (f, rest)" by (cases p) simp
  then show ?thesis
    using duplex_stream.read_frame_ok [OF assms p, of buf]
    by (auto simp: next_frame_Ok_iff whole_frame_def)
next
  case (Err e)
  then have "\<not> (whole_frame f \<and> incoming s = f @ rest)" for f rest
    by (simp add: next_frame_Ok_iff [symmetric])
  then have none: "\<forall>f rest. incoming s = f @ rest \<longrightarrow> frame_size f \<noteq> Ok (length f)"
    by (simp add: whole_frame_def) blast
  obtain b s' where "read_frame S (buf, s) = Some (Err e, b, s')" "outgoing s' = outgoing s"
    using duplex_stream.read_frame_error [OF assms Err, of buf] by blast
  with none next_frame_Err [OF Err] show ?thesis
    by (intro exI [of _ "Err e"] exI [of _ b] exI [of _ s']) simp
qed simp

theorem read_frame_exact_witness:
  "\<exists>r b s'. read_frame Duplex_stream ([], \<lparr>unread = startup_frame @ [1, 2], written = []\<rparr>) = Some (r, b, s') \<and>
     (r = Ok () \<longrightarrow> startup_frame @ [1, 2] = b @ unread s')"
  using read_frame_exact [OF duplex.duplex_stream_axioms, of "[]" "\<lparr>unread = startup_frame @ [1, 2], written = []\<rparr>"]
  by fastforce

text \<open>C27.  The responder answers every command, in order, with what the handler makes of it, and returns when
  the input ends.  It returns \<open>Ok\<close> then, also when the input ends in the middle of a frame.\<close>

theorem responder_serves:
  assumes T: "frame_transport T incoming outgoing"
    and input: "incoming (r_transport d) = concat fs @ rest" "list_all (\<lambda>f. frame_size f = Ok (length f)) fs"
    and short: "length rest < 10 \<or> (\<exists>n. frame_size rest = Ok n \<and> length rest < n)"
  shows "\<exists>d'. serve T handler h d = Some (Ok (), d', snd (answers handler h fs)) \<and>
    outgoing (r_transport d') = outgoing (r_transport d) @ fst (answers handler h fs)"
proof -
  have "next_frame rest = Err Dev_UnexpectedEof"
    using short by (auto simp: next_frame_def)
  with frame_transport.serve_frames [OF T _ input(1), of Dev_UnexpectedEof handler h] input(2) show ?thesis
    by (simp add: whole_frame_def [abs_def])
qed

lemma startup_whole: "frame_size startup_frame = Ok (length startup_frame)"
  using command_whole_frame [of "f_CC TpmStartupCommand" St_NoSessions "body_handle_bytes startup_body"
      "items_enc TpmsAuthCommand []" "body_param_bytes TpmStartupCommand startup_body", unfolded startup_bytes]
  by (simp add: whole_frame_def) (simp add: startup_frame_def TPM_MAX_COMMAND_SIZE_def)

theorem responder_serves_witness:
  "\<exists>d' :: Duplex TpmResponder. serve (TpmStreamTransport Duplex_stream) (\<lambda>f n. (drop 10 f, Suc n)) 0
       (TpmResponder_new \<lparr>unread = startup_frame @ startup_frame @ [0x80, 0x01], written = []\<rparr>) =
     Some (Ok (), d', 2) \<and> written (r_transport d') = [0, 0, 0, 0]"
proof -
  let ?h = "\<lambda>f n. (drop 10 f, Suc n)"
  have "answers ?h 0 [startup_frame, startup_frame] = ([0, 0, 0, 0], 2)"
    by (simp add: startup_frame_def)
  then show ?thesis
    using responder_serves [OF duplex_transport,
      of "TpmResponder_new \<lparr>unread = startup_frame @ startup_frame @ [0x80, 0x01], written = []\<rparr>"
        "[startup_frame, startup_frame]" "[0x80, 0x01]" ?h "0 :: nat"] startup_whole
    by (simp add: TpmResponder_new_def numeral_2_eq_2)
qed

subsection \<open>The character device\<close>

text \<open>C28.  Receiving from the character device returns, whatever the device does, when reading takes from its
  input and polling takes time.  A response it accepts is one whole frame, the bytes it took; it reports
  trailing data only after taking more than the frame the input starts with.\<close>

theorem posix_recv_returns_frame:
  assumes "device_input P incoming" "device_clock P clock"
  shows "\<exists>r f w'. Posix_recv P (buf, w) = Some (r, f, w') \<and> incoming w = f @ incoming w' \<and>
    (case r of
       Ok _ \<Rightarrow> frame_size f = Ok (length f)
     | Err e \<Rightarrow> e = Dev_TrailingData \<longrightarrow> (\<exists>n. frame_size f = Ok n \<and> n < length f)
     | Panic \<Rightarrow> False)"
proof -
  obtain start w1 where w1: "px_now P w = (start, w1)" by fastforce
  then have same: "incoming w1 = incoming w"
    using assms(1) unfolding device_input_def by (metis snd_conv)
  have "recv_inv None []" by (simp add: recv_inv_def)
  from recv_loop_returns [OF assms this, of start w1, unfolded recv_outcome_def whole_frame_def same]
  show ?thesis
    by (simp add: Posix_recv_def w1)
qed

text \<open>A device that hands out seven bytes at a time; its state is what it has left and a clock.\<close>

definition slow_device :: "(u8 list \<times> nat) TpmPosixDevice" where
  "slow_device = \<lparr>
     px_interrupted = (\<lambda>w. (False, w)),
     px_now = (\<lambda>w. (snd w, w)),
     px_poll = (\<lambda>n (bs, t). (Polled 1 (Some (no_revents\<lparr>POLLIN := True\<rparr>)), bs, Suc t)),
     px_read = (\<lambda>n (bs, t). (Ok (take (min n 7) bs), drop (min n 7) bs, t)),
     px_write_all = (\<lambda>_ w. Some (Ok (), w)),
     px_flush = (\<lambda>w. Some (Ok (), w)),
     px_timeout = 100\<rparr>"

theorem posix_recv_returns_frame_witness:
  "\<exists>r f w'. Posix_recv slow_device ([], startup_frame, 0) = Some (r, f, w') \<and> startup_frame = f @ fst w' \<and>
     (r = Ok () \<longrightarrow> frame_size f = Ok (length f))"
proof -
  have "device_input slow_device fst" "device_clock slow_device snd"
    by (simp_all add: device_input_def device_clock_def slow_device_def min_le_iff_disj)
  from posix_recv_returns_frame [OF this, of "[]" "(startup_frame, 0)"] show ?thesis
    by fastforce
qed

subsection \<open>Queries\<close>

text \<open>C29.  Searching a persistent object by name, over as many pages as the TPM takes to list its handles:
  the result is the first persistent handle whose object has the name; handles whose object is gone are
  passed over, and any other failure to read an object ends the search with the TPM's response code.  The TPM is
  described by the bytes it answers: it lists its persistent handles from a given one on, at most eight at a
  time, and reads an object or refuses to.\<close>

theorem find_persistent_complete:
  assumes "lists_handles T I 0x81 hs" "reads_objects T I hs object" "I (transport d)"
  shows "\<exists>d'. find_persistent T target d = Some (
      (case find (\<lambda>h. case object h of
           Inr (_, name) \<Rightarrow> name = target
         | Inl rc \<Rightarrow> TpmRc_base rc \<noteq> Rc_ReferenceH0 \<and> TpmRc_base rc \<noteq> Rc_Handle) hs of
         None \<Rightarrow> Ok None
       | Some h \<Rightarrow> (case object h of Inr _ \<Rightarrow> Ok (Some (handle_val h)) | Inl rc \<Rightarrow> Err (Dev_TpmRc rc))), d') \<and>
    I (transport d')"
proof -
  have "\<And>x. x \<in> set (map handle_val hs) \<Longrightarrow> drop_bit 24 (handle_value x) = 0x81"
    using assms(1) by (auto simp: lists_handles_def)
  from fetch_persistent_serves [OF lists_serves [OF assms(1)] _ this] assms(3) obtain d1
    where d1: "fetch_handles T Ht_Persistent d = Some (Ok (map handle_val hs), d1)" "(I \<circ> transport) d1"
    by auto
  from find_named_eq [OF objects_read [OF assms(2)] d1(2)] d1(1) show ?thesis
    by (simp add: find_persistent_def ends_search_def [abs_def])
qed

definition two_objects :: objects where
  "two_objects = [(0x81000001, null_public, VBuffer [1]), (0x81000002, null_public, VBuffer [2])]"

lemma two_objects_ok: "objects_ok two_objects"
  by (simp add: objects_ok_def two_objects_def Tpm2bPublic_def tpm2b_struct_def publics_valid
      Tpm2bName_def TpmBuffer_valid_iff constants u16_max_def persistent_range)

theorem find_persistent_complete_witness:
  "\<exists>d'. find_persistent (reference_tpm two_objects) (VBuffer [2]) (TpmDevice_new []) =
     Some (Ok (Some (handle_val 0x81000002)), d')"
proof -
  from find_persistent_complete [OF reference_lists [OF two_objects_ok] reference_reads [OF two_objects_ok] TrueI,
      of "VBuffer [2]"]
  show ?thesis
    by (simp add: two_objects_def)
qed

text \<open>The active PCR banks: the sorted hashes of the banks with a selected PCR and their common selection;
  an error when there is no such bank or two of them select differently.\<close>

theorem pcr_bank_list_exact:
  "pcr_bank_list banks =
     (let used = filter (\<lambda>(_, sel). \<exists>b \<in> set sel. b \<noteq> 0) banks in
      if used = [] then Err Dev_PcrBanksNotAvailable
      else if \<exists>x \<in> set used. \<exists>y \<in> set used. snd x \<noteq> snd y then Err Dev_PcrBankSelectionMismatch
      else Ok (sort (map fst used), snd (hd used)))"
proof -
  have used: "(\<lambda>(_, sel). \<exists>b \<in> set sel. b \<noteq> 0) = allocated"
    by (auto simp: allocated_def fun_eq_iff)
  show ?thesis
  proof (cases "filter allocated banks")
    case Nil
    then show ?thesis by (simp only: used pcr_bank_list_eq Nil list.case Let_def if_True)
  next
    case (Cons bank more)
    let ?diff = "\<exists>x \<in> set (bank # more). \<exists>y \<in> set (bank # more). snd x \<noteq> snd y"
    have same: "(\<forall>b \<in> set (bank # more). snd b = snd bank) = (\<not> ?diff)"
      by (metis list.set_intros(1))
    show ?thesis
      unfolding used pcr_bank_list_eq Cons list.case Let_def list.sel same
      by (cases ?diff) (simp_all only: simp_thms if_True if_False list.distinct)
  qed
qed

subsection \<open>Running a compiled policy\<close>

text \<open>C30.  A compiled policy runs in a session: when the TPM accepts each command, \<open>run\<close> sends every command
  of the policy, in order, with the handle of the session in its place and nothing else changed.\<close>

theorem compiled_policy_runs:
  assumes T: "frame_transport T incoming outgoing"
    and compiled: "compile_policy L e alg ctx = Ok p" "expr_typed e" "valid TpmHandle (s_handle session)"
    and replies: "list_all2 (\<lambda>(c, _) r. frame_size r = Ok (length r) \<and>
        (\<exists>v. TpmResponseView_cast_frame (TpmCommandValue_cc c) r = Ok (Dispatched v r))) (cp_commands p) responses"
    and input: "incoming (transport d) = concat responses @ rest"
  shows "\<exists>d'. session_run T session (cp_commands p) d = Some (Ok (), d') \<and>
    outgoing (transport d') = outgoing (transport d) @ concat (map (\<lambda>(c, _).
        sent_bytes (command_decl (TpmCommandValue_cc c))
          (set_handle (if TpmCommandValue_cc c = Cc_PolicySecret then 1 else 0) (s_handle session)
             (TpmCommandValue_body c)) []) (cp_commands p)) \<and>
    incoming (transport d') = rest"
proof -
  note run = compiled_runnable [OF compiled]
  have plain: "list_all plain_command (cp_commands p)"
    by (rule compiled_plain [OF compiled(1)])
  have "list_all2 (\<lambda>(c, _) r. whole_frame r \<and> response_outcome (TpmCommandValue_cc c) r = Ok r)
      (cp_commands p) responses"
    using replies by (rule list_all2_mono) (auto simp: whole_frame_def response_outcome_eq)
  from frame_transport.run_commands [OF T run compiled(3) this input] show ?thesis
    using plain_run_bytes [OF plain] by simp
qed

definition empty_success :: "u8 list" where
  "empty_success = header St_NoSessions 0 0"

lemma empty_success_dispatched:
  assumes row: "(v, cmd, resp) \<in> set dispatch_rows" and "HANDLES resp = 0"
  shows "TpmResponseView_cast_frame (f_CC cmd) empty_success = Ok (Dispatched v empty_success)"
proof -
  have f: "empty_success = frame_bytes St_NoSessions (unat (TpmRc_value rc_ok_success)) []"
    by (simp add: empty_success_def frame_bytes_def rc_ok_success_def base_word_def mask_defs)
  have ok: "TpmResponse_validate empty_success (f_CC cmd) = Ok ()"
    using success_validate [OF row _ f] assms(2) by (simp add: session_tag_def empty_success_def)
  then have "TpmResponse_validate_envelope empty_success = Ok ()"
    by (auto simp: TpmResponse_validate_def)
  moreover have "TpmResponse_rc empty_success = Ok rc_ok_success"
    unfolding f by (rule frame_rc [OF success_ok])
  ultimately show ?thesis
    by (simp add: TpmResponseView_cast_frame_def TpmResponse_cast_def TpmResponseView_cast_def
        ok rc_success_iff variant_of_row [OF row] del: and_then_Ok_iff)
qed

lemma policy_accepted:
  assumes "command_typed (fst ca)" "plain_command ca"
  shows "\<exists>v. TpmResponseView_cast_frame (TpmCommandValue_cc (fst ca)) empty_success = Ok (Dispatched v empty_success)"
proof -
  have "\<forall>cc b. fst ca \<noteq> OtherCmd cc b" using assms(2) by (simp add: plain_command_def)
  with assms(1) show ?thesis
    using policy_rows [THEN empty_success_dispatched]
    by (cases rule: policy_commands)
      (simp_all add: TpmPolicyPcrCommand_def TpmPolicyOrCommand_def TpmPolicyRestartCommand_def
        TpmPolicySecretCommand_def TpmPolicyPcrResponse_def TpmPolicyOrResponse_def TpmPolicyRestartResponse_def
        TpmPolicySecretResponse_def)
qed

definition sample_session :: DevPolicySession where
  "sample_session = \<lparr>s_handle = handle_val 0x03000000, s_attributes = CONTINUE_SESSION, s_hash_alg = Alg_Sha256,
     s_nonce_tpm = VBuffer []\<rparr>"

theorem compiled_policy_runs_witness:
  "\<exists>p d'. compile_policy sum_crypto owner_or_endorsement Alg_Sha256 empty_context = Ok p \<and>
     session_run (TpmStreamTransport Duplex_stream) sample_session (cp_commands p)
       (waiting (concat (map (\<lambda>_. empty_success) (cp_commands p)))) = Some (Ok (), d') \<and>
     unread (transport d') = []"
proof -
  obtain p where p: "compile_policy sum_crypto owner_or_endorsement Alg_Sha256 empty_context = Ok p"
    using owner_or_endorsement_compiles ..
  note typed = owner_or_endorsement_shape(2)
  have h: "valid TpmHandle (s_handle sample_session)" by (simp add: sample_session_def)
  have "list_all (\<lambda>ca. command_typed (fst ca) \<and> plain_command ca) (cp_commands p)"
    using compiled_runnable [OF p typed h] compiled_plain [OF p]
    by (auto simp: list_all_iff runnable_def)
  then have "list_all2 (\<lambda>(c, _) r. frame_size r = Ok (length r) \<and>
        (\<exists>v. TpmResponseView_cast_frame (TpmCommandValue_cc c) r = Ok (Dispatched v r)))
      (cp_commands p) (map (\<lambda>_. empty_success) (cp_commands p))"
    using policy_accepted header_whole_frame [of "[]" St_NoSessions 0]
    by (auto simp: list_all_iff list.rel_map list.rel_refl_strong whole_frame_def empty_success_def
        TPM_MAX_COMMAND_SIZE_def intro!: list.rel_refl_strong)
  from compiled_policy_runs [OF duplex_transport p typed h this, of "waiting (concat (map (\<lambda>_. empty_success) (cp_commands p)))" "[]"]
  show ?thesis
    using p by (auto simp: waiting_def TpmDevice_new_def)
qed

end
