(* ===== verification/Template.thy ===== *)
theory Template
  imports Hash Rust_Text
begin

text \<open>
  Public key templates: \<open>crypto/src/template.rs\<close>, with the curves of \<open>crypto/src/ecc.rs\<close>.  The parts of a
  public area are typed here the way the Rust structures type them, and \<open>public_val\<close> is the value of
  the wire layer that a public area stands for, so that the codec \<open>TpmtPublic\<close> of \<open>Data_Public\<close> says
  which of them can be sent.  A template is a record, its builder methods are record updates, and the
  algorithm strings are parsed and printed with the string operations of \<open>Rust_Text\<close>.
\<close>

unbundle bit_operations_syntax

subsection \<open>The parts of a public area\<close>

datatype SymKeyBits =
    KeyBits_Aes u16 | KeyBits_Sm4 u16 | KeyBits_Camellia u16 | KeyBits_Xor TpmAlgId | KeyBits_Null

datatype SymMode =
    Mode_Aes TpmAlgId | Mode_Sm4 TpmAlgId | Mode_Camellia TpmAlgId | Mode_Xor TpmAlgId | Mode_Null

record SymDef =
  sym_algorithm :: TpmAlgId
  sym_key_bits :: SymKeyBits
  sym_mode :: SymMode

definition SymDef_default :: SymDef where
  "SymDef_default = \<lparr>sym_algorithm = Alg_Null, sym_key_bits = KeyBits_Null, sym_mode = Mode_Null\<rparr>"

datatype AsymScheme = Asym_Hash TpmAlgId | Asym_Null

datatype KdfDetails =
    Kdf_Mgf1 TpmAlgId | Kdf_Kdf1Sp800_56a TpmAlgId | Kdf_Kdf2 TpmAlgId | Kdf_Kdf1Sp800_108 TpmAlgId
  | Kdf_Null

record KdfScheme =
  kdf_scheme :: TpmAlgId
  kdf_details :: KdfDetails

definition KdfScheme_default :: KdfScheme where
  "KdfScheme_default = \<lparr>kdf_scheme = Alg_Null, kdf_details = Kdf_Null\<rparr>"

datatype KeyedhashDetails = Keyed_Hmac TpmAlgId | Keyed_Xor TpmAlgId KdfScheme | Keyed_Null

record RsaParms =
  rsa_symmetric :: SymDef
  rsa_scheme :: TpmAlgId
  rsa_details :: AsymScheme
  rsa_key_bits :: u16
  rsa_exponent :: u32

record EccParms =
  ecc_symmetric :: SymDef
  ecc_scheme :: TpmAlgId
  ecc_details :: AsymScheme
  ecc_curve_id :: TpmEccCurve
  ecc_kdf :: KdfScheme

datatype PublicParms =
    Parms_KeyedHash TpmAlgId KeyedhashDetails
  | Parms_SymCipher SymDef
  | Parms_Rsa RsaParms
  | Parms_Ecc EccParms
  | Parms_Null

datatype PublicId =
    Id_KeyedHash "u8 list" | Id_SymCipher "u8 list" | Id_Rsa "u8 list" | Id_Ecc "u8 list" "u8 list"
  | Id_Null

record PublicArea =
  pa_object_type :: TpmAlgId
  pa_name_alg :: TpmAlgId
  pa_object_attributes :: u32
  pa_auth_policy :: "u8 list"
  pa_parameters :: PublicParms
  pa_unique :: PublicId

text \<open>The attribute bits of \<open>TpmaObject\<close> that the code names, and \<open>contains\<close>.\<close>

definition OBJECT_FIXED_TPM :: u32 where "OBJECT_FIXED_TPM = 0x00000002"
definition OBJECT_FIXED_PARENT :: u32 where "OBJECT_FIXED_PARENT = 0x00000010"
definition OBJECT_SENSITIVE_DATA_ORIGIN :: u32 where "OBJECT_SENSITIVE_DATA_ORIGIN = 0x00000020"
definition OBJECT_USER_WITH_AUTH :: u32 where "OBJECT_USER_WITH_AUTH = 0x00000040"
definition OBJECT_ADMIN_WITH_POLICY :: u32 where "OBJECT_ADMIN_WITH_POLICY = 0x00000080"
definition OBJECT_NO_DA :: u32 where "OBJECT_NO_DA = 0x00000400"
definition OBJECT_RESTRICTED :: u32 where "OBJECT_RESTRICTED = 0x00010000"
definition OBJECT_DECRYPT :: u32 where "OBJECT_DECRYPT = 0x00020000"
definition OBJECT_SIGN_ENCRYPT :: u32 where "OBJECT_SIGN_ENCRYPT = 0x00040000"

lemmas object_bits =
  OBJECT_FIXED_TPM_def OBJECT_FIXED_PARENT_def OBJECT_SENSITIVE_DATA_ORIGIN_def
  OBJECT_USER_WITH_AUTH_def OBJECT_ADMIN_WITH_POLICY_def OBJECT_NO_DA_def
  OBJECT_RESTRICTED_def OBJECT_DECRYPT_def OBJECT_SIGN_ENCRYPT_def

lemma object_bits_flags:
  "map_of TpmaObject_flags ''RESTRICTED'' = Some (unat OBJECT_RESTRICTED)"
  "map_of TpmaObject_flags ''DECRYPT'' = Some (unat OBJECT_DECRYPT)"
  "map_of TpmaObject_flags ''SIGN_ENCRYPT'' = Some (unat OBJECT_SIGN_ENCRYPT)"
  by (simp_all add: TpmaObject_flags_def object_bits)

definition attributes_contain :: "u32 \<Rightarrow> u32 \<Rightarrow> bool" where
  "attributes_contain a b \<longleftrightarrow> a AND b = b"

subsection \<open>Values of the wire layer\<close>

definition alg_val :: "TpmAlgId \<Rightarrow> val" where
  "alg_val a = VEnum (EAlgId a)"

definition hash_val :: "TpmAlgId \<Rightarrow> val" where
  "hash_val a = VStruct [alg_val a]"

definition u16_val :: "u16 \<Rightarrow> val" where
  "u16_val n = int_new 2 (unat n)"

definition u32_val :: "u32 \<Rightarrow> val" where
  "u32_val n = int_new 4 (unat n)"

primrec SymKeyBits_val :: "SymKeyBits \<Rightarrow> val" where
  "SymKeyBits_val (KeyBits_Aes n) = VUnion ''Aes'' (Some (u16_val n))"
| "SymKeyBits_val (KeyBits_Sm4 n) = VUnion ''Sm4'' (Some (u16_val n))"
| "SymKeyBits_val (KeyBits_Camellia n) = VUnion ''Camellia'' (Some (u16_val n))"
| "SymKeyBits_val (KeyBits_Xor a) = VUnion ''Xor'' (Some (alg_val a))"
| "SymKeyBits_val KeyBits_Null = VUnion ''Null'' None"

primrec SymMode_val :: "SymMode \<Rightarrow> val" where
  "SymMode_val (Mode_Aes a) = VUnion ''Aes'' (Some (alg_val a))"
| "SymMode_val (Mode_Sm4 a) = VUnion ''Sm4'' (Some (alg_val a))"
| "SymMode_val (Mode_Camellia a) = VUnion ''Camellia'' (Some (alg_val a))"
| "SymMode_val (Mode_Xor a) = VUnion ''Xor'' (Some (alg_val a))"
| "SymMode_val Mode_Null = VUnion ''Null'' None"

definition SymDef_val :: "SymDef \<Rightarrow> val" where
  "SymDef_val s = VStruct
     [alg_val (sym_algorithm s), SymKeyBits_val (sym_key_bits s), SymMode_val (sym_mode s)]"

primrec AsymScheme_val :: "AsymScheme \<Rightarrow> val" where
  "AsymScheme_val (Asym_Hash a) = VUnion ''Hash'' (Some (hash_val a))"
| "AsymScheme_val Asym_Null = VUnion ''Null'' None"

primrec KdfDetails_val :: "KdfDetails \<Rightarrow> val" where
  "KdfDetails_val (Kdf_Mgf1 a) = VUnion ''Mgf1'' (Some (hash_val a))"
| "KdfDetails_val (Kdf_Kdf1Sp800_56a a) = VUnion ''Kdf1Sp800_56a'' (Some (hash_val a))"
| "KdfDetails_val (Kdf_Kdf2 a) = VUnion ''Kdf2'' (Some (hash_val a))"
| "KdfDetails_val (Kdf_Kdf1Sp800_108 a) = VUnion ''Kdf1Sp800_108'' (Some (hash_val a))"
| "KdfDetails_val Kdf_Null = VUnion ''Null'' None"

definition KdfScheme_val :: "KdfScheme \<Rightarrow> val" where
  "KdfScheme_val k = VStruct [alg_val (kdf_scheme k), KdfDetails_val (kdf_details k)]"

primrec KeyedhashDetails_val :: "KeyedhashDetails \<Rightarrow> val" where
  "KeyedhashDetails_val (Keyed_Hmac a) = VUnion ''Hmac'' (Some (hash_val a))"
| "KeyedhashDetails_val (Keyed_Xor a k) = VUnion ''Xor'' (Some (VStruct [alg_val a, KdfScheme_val k]))"
| "KeyedhashDetails_val Keyed_Null = VUnion ''Null'' None"

definition RsaParms_val :: "RsaParms \<Rightarrow> val" where
  "RsaParms_val p = VStruct
     [SymDef_val (rsa_symmetric p), VStruct [alg_val (rsa_scheme p), AsymScheme_val (rsa_details p)],
      u16_val (rsa_key_bits p), u32_val (rsa_exponent p)]"

definition EccParms_val :: "EccParms \<Rightarrow> val" where
  "EccParms_val p = VStruct
     [SymDef_val (ecc_symmetric p), VStruct [alg_val (ecc_scheme p), AsymScheme_val (ecc_details p)],
      VEnum (EEccCurve (ecc_curve_id p)), KdfScheme_val (ecc_kdf p)]"

primrec PublicParms_val :: "PublicParms \<Rightarrow> val" where
  "PublicParms_val (Parms_KeyedHash a d) =
     VUnion ''KeyedHash'' (Some (VStruct [VStruct [alg_val a, KeyedhashDetails_val d]]))"
| "PublicParms_val (Parms_SymCipher s) = VUnion ''SymCipher'' (Some (VStruct [SymDef_val s]))"
| "PublicParms_val (Parms_Rsa p) = VUnion ''Rsa'' (Some (RsaParms_val p))"
| "PublicParms_val (Parms_Ecc p) = VUnion ''Ecc'' (Some (EccParms_val p))"
| "PublicParms_val Parms_Null = VUnion ''Null'' None"

primrec PublicId_val :: "PublicId \<Rightarrow> val" where
  "PublicId_val (Id_KeyedHash d) = VUnion ''KeyedHash'' (Some (VBuffer d))"
| "PublicId_val (Id_SymCipher d) = VUnion ''SymCipher'' (Some (VBuffer d))"
| "PublicId_val (Id_Rsa d) = VUnion ''Rsa'' (Some (VBuffer d))"
| "PublicId_val (Id_Ecc x y) = VUnion ''Ecc'' (Some (VStruct [VBuffer x, VBuffer y]))"
| "PublicId_val Id_Null = VUnion ''Null'' None"

definition public_val :: "PublicArea \<Rightarrow> val" where
  "public_val p = VStruct
     [alg_val (pa_object_type p), alg_val (pa_name_alg p), VBits (unat (pa_object_attributes p)),
      VBuffer (pa_auth_policy p), PublicParms_val (pa_parameters p), PublicId_val (pa_unique p)]"

lemmas parts_val =
  alg_val_def hash_val_def u16_val_def u32_val_def SymDef_val_def KdfScheme_val_def RsaParms_val_def
  EccParms_val_def public_val_def

subsection \<open>Curves\<close>

datatype TpmEllipticCurve =
    NistP192 | NistP224 | NistP256 | NistP384 | NistP521 | BnP256 | BnP638 | Sm2P256
  | BpP256R1 | BpP384R1 | BpP512R1 | Curve25519 | Curve448

definition TpmEllipticCurve_variants :: "TpmEllipticCurve list" where
  "TpmEllipticCurve_variants =
     [NistP192, NistP224, NistP256, NistP384, NistP521, BnP256, BnP638, Sm2P256,
      BpP256R1, BpP384R1, BpP512R1, Curve25519, Curve448]"

primrec TpmEllipticCurve_try_from :: "TpmEccCurve \<Rightarrow> (TpmEllipticCurve, TpmCryptoError) result" where
  "TpmEllipticCurve_try_from Curve_NistP192 = Ok NistP192"
| "TpmEllipticCurve_try_from Curve_NistP224 = Ok NistP224"
| "TpmEllipticCurve_try_from Curve_NistP256 = Ok NistP256"
| "TpmEllipticCurve_try_from Curve_NistP384 = Ok NistP384"
| "TpmEllipticCurve_try_from Curve_NistP521 = Ok NistP521"
| "TpmEllipticCurve_try_from Curve_BnP256 = Ok BnP256"
| "TpmEllipticCurve_try_from Curve_BnP638 = Ok BnP638"
| "TpmEllipticCurve_try_from Curve_Sm2P256 = Ok Sm2P256"
| "TpmEllipticCurve_try_from Curve_BpP256R1 = Ok BpP256R1"
| "TpmEllipticCurve_try_from Curve_BpP384R1 = Ok BpP384R1"
| "TpmEllipticCurve_try_from Curve_BpP512R1 = Ok BpP512R1"
| "TpmEllipticCurve_try_from Curve_Curve25519 = Ok Curve25519"
| "TpmEllipticCurve_try_from Curve_Curve448 = Ok Curve448"
| "TpmEllipticCurve_try_from Curve_None = Err (Crypto_InvalidEccCurve Curve_None)"

primrec TpmEllipticCurve_into :: "TpmEllipticCurve \<Rightarrow> TpmEccCurve" where
  "TpmEllipticCurve_into NistP192 = Curve_NistP192"
| "TpmEllipticCurve_into NistP224 = Curve_NistP224"
| "TpmEllipticCurve_into NistP256 = Curve_NistP256"
| "TpmEllipticCurve_into NistP384 = Curve_NistP384"
| "TpmEllipticCurve_into NistP521 = Curve_NistP521"
| "TpmEllipticCurve_into BnP256 = Curve_BnP256"
| "TpmEllipticCurve_into BnP638 = Curve_BnP638"
| "TpmEllipticCurve_into Sm2P256 = Curve_Sm2P256"
| "TpmEllipticCurve_into BpP256R1 = Curve_BpP256R1"
| "TpmEllipticCurve_into BpP384R1 = Curve_BpP384R1"
| "TpmEllipticCurve_into BpP512R1 = Curve_BpP512R1"
| "TpmEllipticCurve_into Curve25519 = Curve_Curve25519"
| "TpmEllipticCurve_into Curve448 = Curve_Curve448"

text \<open>\<open>Display\<close> and \<open>FromStr\<close>, derived by \<open>strum\<close> in kebab case, with the three names given explicitly.\<close>

primrec TpmEllipticCurve_display :: "TpmEllipticCurve \<Rightarrow> string" where
  "TpmEllipticCurve_display NistP192 = ''nist-p192''"
| "TpmEllipticCurve_display NistP224 = ''nist-p224''"
| "TpmEllipticCurve_display NistP256 = ''nist-p256''"
| "TpmEllipticCurve_display NistP384 = ''nist-p384''"
| "TpmEllipticCurve_display NistP521 = ''nist-p521''"
| "TpmEllipticCurve_display BnP256 = ''bn-p256''"
| "TpmEllipticCurve_display BnP638 = ''bn-p638''"
| "TpmEllipticCurve_display Sm2P256 = ''sm2-p256''"
| "TpmEllipticCurve_display BpP256R1 = ''bp-p256-r1''"
| "TpmEllipticCurve_display BpP384R1 = ''bp-p384-r1''"
| "TpmEllipticCurve_display BpP512R1 = ''bp-p512-r1''"
| "TpmEllipticCurve_display Curve25519 = ''curve25519''"
| "TpmEllipticCurve_display Curve448 = ''curve448''"

definition TpmEllipticCurve_from_str :: "string \<Rightarrow> TpmEllipticCurve option" where
  "TpmEllipticCurve_from_str s = find (\<lambda>c. TpmEllipticCurve_display c = s) TpmEllipticCurve_variants"

lemma TpmEllipticCurve_try_from_into [simp]: "TpmEllipticCurve_try_from (TpmEllipticCurve_into c) = Ok c"
  by (cases c) simp_all

lemma TpmEllipticCurve_try_from_iff:
  "TpmEllipticCurve_try_from c = Ok e \<longleftrightarrow> c = TpmEllipticCurve_into e"
  by (cases c; cases e) simp_all

lemma TpmEllipticCurve_from_str_display [simp]:
  "TpmEllipticCurve_from_str (TpmEllipticCurve_display c) = Some c"
  by (cases c) (simp_all add: TpmEllipticCurve_from_str_def TpmEllipticCurve_variants_def)

lemma TpmHash_from_str_display [simp]: "TpmHash_from_str (TpmHash_display h) = Some h"
  by (simp add: TpmHash_from_str_iff)

lemma display_no_colon [simp]:
  "CHR '':'' \<notin> set (TpmEllipticCurve_display c)" "CHR '':'' \<notin> set (TpmHash_display h)"
  "TpmHash_display h \<noteq> []"
  by (cases c; simp) (cases h; simp)+

subsection \<open>Templates\<close>

record TpmPublicTemplate =
  t_object_type :: TpmAlgId
  t_name_alg :: TpmAlgId
  t_auth_policy :: "u8 list"
  t_object_attributes :: u32
  t_symmetric :: SymDef
  t_public_id :: PublicId
  t_public_parms :: PublicParms

definition Template_new :: TpmPublicTemplate where
  "Template_new = \<lparr>t_object_type = Alg_KeyedHash, t_name_alg = Alg_Null, t_auth_policy = [],
     t_object_attributes = 0, t_symmetric = SymDef_default, t_public_id = Id_KeyedHash [],
     t_public_parms = Parms_KeyedHash Alg_Null Keyed_Null\<rparr>"

definition with_public ::
  "PublicId \<Rightarrow> PublicParms \<Rightarrow> TpmPublicTemplate \<Rightarrow> (TpmPublicTemplate, TpmCryptoError) result" where
  "with_public public_id public_parms t =
     and_then (case (public_id, public_parms) of
         (Id_Rsa _, Parms_Rsa _) \<Rightarrow> Ok Alg_Rsa
       | (Id_Ecc _ _, Parms_Ecc _) \<Rightarrow> Ok Alg_Ecc
       | (Id_KeyedHash _, Parms_KeyedHash _ _) \<Rightarrow> Ok Alg_KeyedHash
       | (Id_SymCipher _, Parms_SymCipher _) \<Rightarrow> Ok Alg_SymCipher
       | _ \<Rightarrow> Err Crypto_InvalidObjectType)
     (\<lambda>object_type. Ok (t\<lparr>t_object_type := object_type, t_public_id := public_id,
        t_public_parms := public_parms\<rparr>))"

definition with_name_alg :: "TpmHash \<Rightarrow> TpmPublicTemplate \<Rightarrow> TpmPublicTemplate" where
  "with_name_alg h t = t\<lparr>t_name_alg := TpmHash_into h\<rparr>"

definition with_auth_policy :: "u8 list \<Rightarrow> TpmPublicTemplate \<Rightarrow> TpmPublicTemplate" where
  "with_auth_policy d t = t\<lparr>t_auth_policy := d\<rparr>"

definition with_object_attributes :: "u32 \<Rightarrow> TpmPublicTemplate \<Rightarrow> TpmPublicTemplate" where
  "with_object_attributes a t = t\<lparr>t_object_attributes := a\<rparr>"

definition t_with_symmetric :: "SymDef \<Rightarrow> TpmPublicTemplate \<Rightarrow> TpmPublicTemplate" where
  "t_with_symmetric s t = t\<lparr>t_symmetric := s\<rparr>"

lemmas with_defs =
  with_name_alg_def with_auth_policy_def with_object_attributes_def t_with_symmetric_def

definition template_scheme :: "TpmPublicTemplate \<Rightarrow> TpmAlgId option" where
  "template_scheme t = (case t_public_parms t of
       Parms_Rsa parms \<Rightarrow> Some (rsa_scheme parms)
     | Parms_Ecc parms \<Rightarrow> Some (ecc_scheme parms)
     | _ \<Rightarrow> None)"

definition is_storage_parent :: "TpmPublicTemplate \<Rightarrow> bool" where
  "is_storage_parent t \<longleftrightarrow>
     (t_object_type t = Alg_Rsa \<or> t_object_type t = Alg_Ecc) \<and>
     template_scheme t = Some Alg_Null \<and>
     attributes_contain (t_object_attributes t) OBJECT_RESTRICTED \<and>
     attributes_contain (t_object_attributes t) OBJECT_DECRYPT"

definition usage_attributes :: "TpmPublicTemplate \<Rightarrow> u32" where
  "usage_attributes t =
     t_object_attributes t AND (OBJECT_DECRYPT OR OBJECT_SIGN_ENCRYPT OR OBJECT_RESTRICTED)"

definition fill_scheme_hash :: "TpmAlgId \<Rightarrow> AsymScheme \<Rightarrow> TpmAlgId \<Rightarrow> TpmAlgId \<times> AsymScheme" where
  "fill_scheme_hash scheme details name_alg = (case details of
       Asym_Hash hash_alg \<Rightarrow>
         if hash_alg = Alg_Null then (scheme, Asym_Hash name_alg) else (scheme, details)
     | _ \<Rightarrow> (scheme, details))"

definition template_rsa_scheme :: "TpmPublicTemplate \<Rightarrow> TpmAlgId \<times> AsymScheme" where
  "template_rsa_scheme t = (case t_public_parms t of
       Parms_Rsa parms \<Rightarrow> fill_scheme_hash (rsa_scheme parms) (rsa_details parms) (t_name_alg t)
     | _ \<Rightarrow> (Alg_Oaep, Asym_Hash (t_name_alg t)))"

definition template_ecc_scheme :: "TpmPublicTemplate \<Rightarrow> TpmAlgId \<times> AsymScheme" where
  "template_ecc_scheme t = (case t_public_parms t of
       Parms_Ecc parms \<Rightarrow> fill_scheme_hash (ecc_scheme parms) (ecc_details parms) (t_name_alg t)
     | _ \<Rightarrow> (Alg_Ecdh, Asym_Hash (t_name_alg t)))"

subsection \<open>Templates and public areas\<close>

definition Template_try_from :: "PublicArea \<Rightarrow> (TpmPublicTemplate, TpmCryptoError) result" where
  "Template_try_from public =
     and_then (TpmHash_try_from (pa_name_alg public)) (\<lambda>name_alg.
       let symmetric = (case pa_parameters public of
           Parms_Rsa parms \<Rightarrow> rsa_symmetric parms
         | Parms_Ecc parms \<Rightarrow> ecc_symmetric parms
         | Parms_SymCipher s \<Rightarrow> s
         | _ \<Rightarrow> SymDef_default) in
       and_then (with_public (pa_unique public) (pa_parameters public) Template_new) (\<lambda>template.
         Ok (t_with_symmetric symmetric (with_auth_policy (pa_auth_policy public)
           (with_object_attributes (pa_object_attributes public) (with_name_alg name_alg template))))))"

definition PublicArea_try_from :: "TpmPublicTemplate \<Rightarrow> (PublicArea, TpmCryptoError) result" where
  "PublicArea_try_from t =
     (let parameters = (case t_public_parms t of
          Parms_Rsa p \<Rightarrow> Parms_Rsa (p\<lparr>rsa_symmetric := t_symmetric t\<rparr>)
        | Parms_Ecc p \<Rightarrow> Parms_Ecc (p\<lparr>ecc_symmetric := t_symmetric t\<rparr>)
        | Parms_SymCipher _ \<Rightarrow> Parms_SymCipher (t_symmetric t)
        | p \<Rightarrow> p)
      in Ok \<lparr>pa_object_type = t_object_type t, pa_name_alg = t_name_alg t,
           pa_object_attributes = t_object_attributes t, pa_auth_policy = t_auth_policy t,
           pa_parameters = parameters, pa_unique = t_public_id t\<rparr>)"

subsection \<open>Schemes\<close>

definition parse_scheme :: "string \<Rightarrow> (TpmAlgId, TpmCryptoError) result" where
  "parse_scheme s =
     (if s = ''null'' then Ok Alg_Null
      else if s = ''rsassa'' then Ok Alg_Rsassa
      else if s = ''rsapss'' then Ok Alg_Rsapss
      else if s = ''rsaes'' then Ok Alg_Rsaes
      else if s = ''oaep'' then Ok Alg_Oaep
      else if s = ''ecdsa'' then Ok Alg_Ecdsa
      else if s = ''ecdh'' then Ok Alg_Ecdh
      else if s = ''ecdaa'' then Ok Alg_Ecdaa
      else if s = ''ecschnorr'' then Ok Alg_Ecschnorr
      else if s = ''sm2'' then Ok Alg_Sm2
      else if s = ''ecmqv'' then Ok Alg_Ecmqv
      else Err Crypto_InvalidObjectType)"

definition scheme_name :: "TpmAlgId \<Rightarrow> (string, TpmCryptoError) result" where
  "scheme_name scheme = (case scheme of
       Alg_Null \<Rightarrow> Ok ''null''
     | Alg_Rsassa \<Rightarrow> Ok ''rsassa''
     | Alg_Rsapss \<Rightarrow> Ok ''rsapss''
     | Alg_Rsaes \<Rightarrow> Ok ''rsaes''
     | Alg_Oaep \<Rightarrow> Ok ''oaep''
     | Alg_Ecdsa \<Rightarrow> Ok ''ecdsa''
     | Alg_Ecdh \<Rightarrow> Ok ''ecdh''
     | Alg_Ecdaa \<Rightarrow> Ok ''ecdaa''
     | Alg_Ecschnorr \<Rightarrow> Ok ''ecschnorr''
     | Alg_Sm2 \<Rightarrow> Ok ''sm2''
     | Alg_Ecmqv \<Rightarrow> Ok ''ecmqv''
     | _ \<Rightarrow> Err Crypto_InvalidObjectType)"

definition is_sign_scheme :: "TpmAlgId \<Rightarrow> bool" where
  "is_sign_scheme scheme \<longleftrightarrow>
     scheme \<in> set [Alg_Rsassa, Alg_Rsapss, Alg_Ecdsa, Alg_Ecdaa, Alg_Ecschnorr, Alg_Sm2]"

definition is_decrypt_scheme :: "TpmAlgId \<Rightarrow> bool" where
  "is_decrypt_scheme scheme \<longleftrightarrow> scheme \<in> set [Alg_Oaep, Alg_Rsaes, Alg_Ecdh, Alg_Ecmqv]"

definition is_rsa_scheme :: "TpmAlgId \<Rightarrow> bool" where
  "is_rsa_scheme scheme \<longleftrightarrow> scheme \<in> set [Alg_Null, Alg_Rsassa, Alg_Rsapss, Alg_Rsaes, Alg_Oaep]"

definition is_ecc_scheme :: "TpmAlgId \<Rightarrow> bool" where
  "is_ecc_scheme scheme \<longleftrightarrow>
     scheme \<in> set [Alg_Null, Alg_Ecdsa, Alg_Ecdh, Alg_Ecdaa, Alg_Ecschnorr, Alg_Sm2, Alg_Ecmqv]"

definition asym_scheme :: "TpmAlgId \<Rightarrow> TpmAlgId \<Rightarrow> (TpmAlgId \<times> AsymScheme, TpmCryptoError) result" where
  "asym_scheme scheme name_alg = (case scheme of
       Alg_Null \<Rightarrow> Ok (scheme, Asym_Null)
     | Alg_Rsaes \<Rightarrow> Ok (scheme, Asym_Null)
     | Alg_Rsassa \<Rightarrow> Ok (scheme, Asym_Hash name_alg)
     | Alg_Rsapss \<Rightarrow> Ok (scheme, Asym_Hash name_alg)
     | Alg_Oaep \<Rightarrow> Ok (scheme, Asym_Hash name_alg)
     | Alg_Ecdsa \<Rightarrow> Ok (scheme, Asym_Hash name_alg)
     | Alg_Ecdh \<Rightarrow> Ok (scheme, Asym_Hash name_alg)
     | Alg_Ecdaa \<Rightarrow> Ok (scheme, Asym_Hash name_alg)
     | Alg_Ecschnorr \<Rightarrow> Ok (scheme, Asym_Hash name_alg)
     | Alg_Sm2 \<Rightarrow> Ok (scheme, Asym_Hash name_alg)
     | Alg_Ecmqv \<Rightarrow> Ok (scheme, Asym_Hash name_alg)
     | _ \<Rightarrow> Err Crypto_InvalidObjectType)"

definition parse_asym_form :: "string option \<Rightarrow> (TpmAlgId \<times> u32, TpmCryptoError) result" where
  "parse_asym_form scheme_str = (case scheme_str of
       None \<Rightarrow> Ok (Alg_Null, OBJECT_DECRYPT OR OBJECT_RESTRICTED)
     | Some s \<Rightarrow> and_then (parse_scheme s) (\<lambda>scheme.
         and_then
           (if scheme = Alg_Null then Ok (OBJECT_SIGN_ENCRYPT OR OBJECT_DECRYPT)
            else if is_sign_scheme scheme then Ok OBJECT_SIGN_ENCRYPT
            else if is_decrypt_scheme scheme then Ok OBJECT_DECRYPT
            else Err Crypto_InvalidObjectType)
           (\<lambda>usage. Ok (scheme, usage))))"

subsection \<open>Algorithm strings\<close>

definition strip_prefix :: "string \<Rightarrow> string \<Rightarrow> string option" where
  "strip_prefix p s = (if take (length p) s = p then Some (drop (length p) s) else None)"

definition u16_from_str :: "string \<Rightarrow> u16 option" where
  "u16_from_str s = (case u32_from_str_radix 10 s of
       Some n \<Rightarrow> if n \<le> u16_max then Some (of_nat n) else None
     | None \<Rightarrow> None)"

definition split_name_and_scheme :: "string \<Rightarrow> (string \<times> string option, TpmCryptoError) result" where
  "split_name_and_scheme rest = (case split_once CHR '':'' rest of
       None \<Rightarrow> Ok (rest, None)
     | Some (name_alg_str, scheme_str) \<Rightarrow>
         if name_alg_str = [] \<or> scheme_str = [] \<or> CHR '':'' \<in> set scheme_str
         then Err Crypto_InvalidObjectType
         else Ok (name_alg_str, Some scheme_str))"

definition parse_rsa :: "string \<Rightarrow> (TpmPublicTemplate, TpmCryptoError) result" where
  "parse_rsa suffix =
     and_then (ok_or Crypto_InvalidObjectType (split_once CHR '':'' suffix)) (\<lambda>(bits_str, rest).
     and_then (split_name_and_scheme rest) (\<lambda>(name_alg_str, scheme_str).
     and_then (ok_or Crypto_InvalidObjectType (u16_from_str bits_str)) (\<lambda>key_bits.
     and_then (ok_or Crypto_InvalidObjectType (TpmHash_from_str name_alg_str)) (\<lambda>name_alg.
     and_then (parse_asym_form scheme_str) (\<lambda>(scheme, usage).
       if \<not> is_rsa_scheme scheme then Err Crypto_InvalidObjectType
       else and_then (asym_scheme scheme (TpmHash_into name_alg)) (\<lambda>(scheme, details).
         and_then (with_public (Id_Rsa [])
             (Parms_Rsa \<lparr>rsa_symmetric = SymDef_default, rsa_scheme = scheme, rsa_details = details,
                rsa_key_bits = key_bits, rsa_exponent = 0\<rparr>) Template_new)
           (\<lambda>t. Ok (with_object_attributes usage (with_name_alg name_alg t)))))))))"

definition parse_ecc :: "string \<Rightarrow> (TpmPublicTemplate, TpmCryptoError) result" where
  "parse_ecc suffix =
     and_then (ok_or Crypto_InvalidObjectType (split_once CHR '':'' suffix)) (\<lambda>(curve_str, rest).
     and_then (split_name_and_scheme rest) (\<lambda>(name_alg_str, scheme_str).
     and_then (ok_or Crypto_InvalidObjectType (TpmEllipticCurve_from_str curve_str)) (\<lambda>curve.
     and_then (ok_or Crypto_InvalidObjectType (TpmHash_from_str name_alg_str)) (\<lambda>name_alg.
     and_then (parse_asym_form scheme_str) (\<lambda>(scheme, usage).
       if \<not> is_ecc_scheme scheme then Err Crypto_InvalidObjectType
       else and_then (asym_scheme scheme (TpmHash_into name_alg)) (\<lambda>(scheme, details).
         and_then (with_public (Id_Ecc [] [])
             (Parms_Ecc \<lparr>ecc_symmetric = SymDef_default, ecc_scheme = scheme, ecc_details = details,
                ecc_curve_id = TpmEllipticCurve_into curve, ecc_kdf = KdfScheme_default\<rparr>) Template_new)
           (\<lambda>t. Ok (with_object_attributes usage (with_name_alg name_alg t)))))))))"

definition parse_keyedhash :: "string \<Rightarrow> TpmAlgId \<Rightarrow> (TpmPublicTemplate, TpmCryptoError) result" where
  "parse_keyedhash hash_alg scheme =
     and_then (ok_or Crypto_InvalidObjectType (TpmHash_from_str hash_alg)) (\<lambda>name_alg.
     and_then (case scheme of
         Alg_Null \<Rightarrow> Ok Keyed_Null
       | Alg_Xor \<Rightarrow> Ok (Keyed_Xor (TpmHash_into name_alg)
           \<lparr>kdf_scheme = Alg_Kdf1Sp800_108, kdf_details = Kdf_Null\<rparr>)
       | Alg_Hmac \<Rightarrow> Ok (Keyed_Hmac (TpmHash_into name_alg))
       | _ \<Rightarrow> Err Crypto_InvalidObjectType) (\<lambda>details.
     and_then (with_public (Id_KeyedHash []) (Parms_KeyedHash scheme details) Template_new)
       (\<lambda>t. Ok (with_object_attributes OBJECT_SIGN_ENCRYPT (with_name_alg name_alg t)))))"

definition Template_from_str :: "string \<Rightarrow> (TpmPublicTemplate, TpmCryptoError) result" where
  "Template_from_str s =
     (case strip_prefix ''rsa-'' s of Some rest \<Rightarrow> parse_rsa rest
      | None \<Rightarrow> case strip_prefix ''ecc-'' s of Some rest \<Rightarrow> parse_ecc rest
      | None \<Rightarrow> case strip_prefix ''keyedhash-null:'' s of Some h \<Rightarrow> parse_keyedhash h Alg_Null
      | None \<Rightarrow> case strip_prefix ''keyedhash-xor:'' s of Some h \<Rightarrow> parse_keyedhash h Alg_Xor
      | None \<Rightarrow> case strip_prefix ''keyedhash-hmac:'' s of Some h \<Rightarrow> parse_keyedhash h Alg_Hmac
      | None \<Rightarrow> Err Crypto_InvalidObjectType)"

definition format_asym ::
  "string \<Rightarrow> string \<Rightarrow> string \<Rightarrow> TpmPublicTemplate \<Rightarrow> (string, TpmCryptoError) result" where
  "format_asym kind selector name_alg_str t =
     (if is_storage_parent t then Ok (kind @ ''-'' @ selector @ '':'' @ name_alg_str)
      else and_then (ok_or Crypto_InvalidObjectType (template_scheme t)) (\<lambda>scheme.
        and_then (scheme_name scheme) (\<lambda>scheme_str.
          Ok (kind @ ''-'' @ selector @ '':'' @ name_alg_str @ '':'' @ scheme_str))))"

definition Template_to_string :: "TpmPublicTemplate \<Rightarrow> (string, TpmCryptoError) result" where
  "Template_to_string t =
     and_then (TpmHash_try_from (t_name_alg t)) (\<lambda>h. let name_alg_str = TpmHash_display h in
       case t_public_parms t of
         Parms_Rsa parms \<Rightarrow>
           if rsa_key_bits parms = 0 then Err (Crypto_InvalidKeyBits 0)
           else format_asym ''rsa'' (nat_display (unat (rsa_key_bits parms))) name_alg_str t
       | Parms_Ecc parms \<Rightarrow>
           and_then (TpmEllipticCurve_try_from (ecc_curve_id parms)) (\<lambda>curve.
             format_asym ''ecc'' (TpmEllipticCurve_display curve) name_alg_str t)
       | Parms_KeyedHash scheme _ \<Rightarrow>
           (case scheme of
              Alg_Null \<Rightarrow> Ok (''keyedhash-null:'' @ name_alg_str)
            | Alg_Xor \<Rightarrow> Ok (''keyedhash-xor:'' @ name_alg_str)
            | Alg_Hmac \<Rightarrow> Ok (''keyedhash-hmac:'' @ name_alg_str)
            | _ \<Rightarrow> Err Crypto_InvalidObjectType)
       | _ \<Rightarrow> Err Crypto_InvalidObjectType)"

end
