(* ===== verification/Key_File.thy ===== *)
theory Key_File
  imports Template
begin

text \<open>
  Key files: \<open>crates/tpmkey\<close>.  A key is a record of the marshalled public and private areas with the
  policy commands, and is written as an ASN.1 structure in DER and PEM.  The ASN.1 and PEM libraries are
  a parameter, the record \<open>key_codec\<close>; \<open>key_codec_ok\<close> states that decoding undoes encoding,
  for PEM under the tag that the crate uses.  A \<open>String\<close>
  is the list of its UTF-8 bytes.
\<close>

subsection \<open>Key types, policies and errors\<close>

type_synonym oid = "nat list"

definition OID_LOADABLE_KEY :: oid where "OID_LOADABLE_KEY = [2, 23, 133, 10, 1, 3]"
definition OID_IMPORTABLE_KEY :: oid where "OID_IMPORTABLE_KEY = [2, 23, 133, 10, 1, 4]"
definition OID_SEALED_DATA :: oid where "OID_SEALED_DATA = [2, 23, 133, 10, 1, 5]"

lemmas oids = OID_LOADABLE_KEY_def OID_IMPORTABLE_KEY_def OID_SEALED_DATA_def

datatype TpmKeyType = Key_Loadable | Key_Importable | Key_SealedData

datatype TpmKeyError =
    Key_InvalidCc u32
  | Key_InvalidOid oid
  | Key_InvalidKeyAlgorithm TpmKeyType TpmAlgId
  | Key_Asn1DecodingFailed string
  | Key_Asn1EncodingFailed string
  | Key_InvalidPemTag string
  | Key_InvalidPolicy
  | Key_MissingSecret
  | Key_UnexpectedSecret
  | Key_InvalidSecret
  | Key_Marshal TpmError
  | Key_PemDecodingFailed string
  | Key_Unmarshal TpmError

text \<open>\<open>Display\<close>: the name of the variant in title case, in lower case.\<close>

primrec TpmKeyError_display :: "TpmKeyError \<Rightarrow> string" where
  "TpmKeyError_display (Key_InvalidCc _) = ''invalid cc''"
| "TpmKeyError_display (Key_InvalidOid _) = ''invalid oid''"
| "TpmKeyError_display (Key_InvalidKeyAlgorithm _ _) = ''invalid key algorithm''"
| "TpmKeyError_display (Key_Asn1DecodingFailed _) = ''asn1 decoding failed''"
| "TpmKeyError_display (Key_Asn1EncodingFailed _) = ''asn1 encoding failed''"
| "TpmKeyError_display (Key_InvalidPemTag _) = ''invalid pem tag''"
| "TpmKeyError_display Key_InvalidPolicy = ''invalid policy''"
| "TpmKeyError_display Key_MissingSecret = ''missing secret''"
| "TpmKeyError_display Key_UnexpectedSecret = ''unexpected secret''"
| "TpmKeyError_display Key_InvalidSecret = ''invalid secret''"
| "TpmKeyError_display (Key_Marshal _) = ''marshal''"
| "TpmKeyError_display (Key_PemDecodingFailed _) = ''pem decoding failed''"
| "TpmKeyError_display (Key_Unmarshal _) = ''unmarshal''"

record TpmKeyPolicyCommand =
  kp_cc :: TpmCc
  kp_body :: "u8 list"

record TpmKeyAuthPolicy =
  ap_name :: "string option"
  ap_policy :: "TpmKeyPolicyCommand list"

record TpmKeyCommandAsn1 =
  asn1_command_code :: u32
  asn1_command_policy :: "u8 list"

record TpmAuthPolicyAsn1 =
  asn1_name :: "string option"
  asn1_policy :: "TpmKeyCommandAsn1 list"

record TpmKeyAsn1 =
  asn1_key_type :: oid
  asn1_empty_auth :: "bool option"
  asn1_commands :: "TpmKeyCommandAsn1 list option"
  asn1_secret :: "u8 list option"
  asn1_auth_policy :: "TpmAuthPolicyAsn1 list option"
  asn1_description :: "string option"
  asn1_rsa_parent :: "bool option"
  asn1_parent :: u32
  asn1_pubkey :: "u8 list"
  asn1_privkey :: "u8 list"

subsection \<open>Policy commands\<close>

definition policy_codes :: "TpmCc list" where
  "policy_codes =
     [Cc_PolicyNv, Cc_PolicySecret, Cc_PolicySigned, Cc_PolicyAuthorize, Cc_PolicyAuthValue,
      Cc_PolicyCommandCode, Cc_PolicyCounterTimer, Cc_PolicyCpHash, Cc_PolicyLocality,
      Cc_PolicyNameHash, Cc_PolicyOr, Cc_PolicyTicket, Cc_PolicyPcr, Cc_PolicyRestart,
      Cc_PolicyPhysicalPresence, Cc_PolicyDuplicationSelect, Cc_PolicyGetDigest, Cc_PolicyPassword,
      Cc_PolicyNvWritten, Cc_PolicyTemplate, Cc_PolicyAuthorizeNv, Cc_PolicyAcSendSelect,
      Cc_PolicyCapability, Cc_PolicyParameters, Cc_PolicyTransportSpdm]"

definition policy_command_of_asn1 ::
  "TpmKeyCommandAsn1 \<Rightarrow> (TpmKeyPolicyCommand, TpmKeyError) result" where
  "policy_command_of_asn1 v =
     and_then (map_err (\<lambda>_. Key_InvalidCc (asn1_command_code v)) (enum_try_from TpmCc_value TpmCc_variants (uint (asn1_command_code v))))
       (\<lambda>cc. if cc \<notin> set policy_codes then Err (Key_InvalidCc (asn1_command_code v))
             else Ok \<lparr>kp_cc = cc, kp_body = asn1_command_policy v\<rparr>)"

definition asn1_of_policy_command :: "TpmKeyPolicyCommand \<Rightarrow> TpmKeyCommandAsn1" where
  "asn1_of_policy_command c =
     \<lparr>asn1_command_code = word_of_int (TpmCc_value (kp_cc c)), asn1_command_policy = kp_body c\<rparr>"

text \<open>The conversion of a list of commands stops at the first error, as \<open>collect\<close> does.\<close>

fun collect_results :: "('a \<Rightarrow> ('b, 'e) result) \<Rightarrow> 'a list \<Rightarrow> ('b list, 'e) result" where
  "collect_results f [] = Ok []"
| "collect_results f (x # xs) =
     and_then (f x) (\<lambda>y. and_then (collect_results f xs) (\<lambda>ys. Ok (y # ys)))"

definition auth_policy_of_asn1 :: "TpmAuthPolicyAsn1 \<Rightarrow> (TpmKeyAuthPolicy, TpmKeyError) result" where
  "auth_policy_of_asn1 v =
     and_then (collect_results policy_command_of_asn1 (asn1_policy v)) (\<lambda>cmds.
       Ok \<lparr>ap_name = asn1_name v, ap_policy = cmds\<rparr>)"

definition asn1_of_auth_policy :: "TpmKeyAuthPolicy \<Rightarrow> TpmAuthPolicyAsn1" where
  "asn1_of_auth_policy p =
     \<lparr>asn1_name = ap_name p, asn1_policy = map asn1_of_policy_command (ap_policy p)\<rparr>"

text \<open>The conversions between a policy without a name and a list of commands.\<close>

definition auth_policy_of_commands :: "TpmKeyCommandAsn1 list \<Rightarrow> (TpmKeyAuthPolicy, TpmKeyError) result" where
  "auth_policy_of_commands cmds =
     and_then (collect_results policy_command_of_asn1 cmds) (\<lambda>cmds.
       Ok \<lparr>ap_name = None, ap_policy = cmds\<rparr>)"

definition commands_of_auth_policy :: "TpmKeyAuthPolicy \<Rightarrow> TpmKeyCommandAsn1 list" where
  "commands_of_auth_policy p = map asn1_of_policy_command (ap_policy p)"

subsection \<open>Validation\<close>

text \<open>\<open>Tpm2bPublicWire::cast\<close> and \<open>inner\<close>, and the object type of the view.\<close>

definition Tpm2bPublicWire_cast :: "u8 list \<Rightarrow> u8 list TpmResult" where
  "Tpm2bPublicWire_cast buf =
     and_then (tpm2b_struct_validate_prefix TpmtPublic buf) (\<lambda>wire_len.
       if length buf > wire_len then Err (TrailingData wire_len (length buf - wire_len)) else Ok buf)"

definition Tpm2bPublicWire_inner :: "u8 list \<Rightarrow> val TpmResult" where
  "Tpm2bPublicWire_inner w =
     and_then (cast_prefix TpmtPublic (drop 2 w)) (\<lambda>(inner, tail).
       if tail \<noteq> [] then Err (TrailingData (length w - length tail) (length tail)) else Ok inner)"

definition view_object_type :: "val \<Rightarrow> TpmAlgId" where
  "view_object_type public =
     (case public of VStruct (VEnum (EAlgId a) # _) \<Rightarrow> a | _ \<Rightarrow> Alg_Error)"

definition tpm_public_alg :: "u8 list \<Rightarrow> TpmAlgId TpmResult" where
  "tpm_public_alg buf =
     and_then (Tpm2bPublicWire_cast buf) (\<lambda>w.
     and_then (Tpm2bPublicWire_inner w) (\<lambda>public. Ok (view_object_type public)))"

definition tpm_private :: "u8 list \<Rightarrow> unit TpmResult" where
  "tpm_private buf = Tpm2b_validate MAX_PRIVATE_SIZE buf"

text \<open>The match on the key type: \<open>None\<close> falls through to the check of the payload.\<close>

definition secret_presence :: "TpmKeyType \<Rightarrow> u8 list \<Rightarrow> (unit, TpmKeyError) result option" where
  "secret_presence kind secret = (case kind of
       Key_Loadable \<Rightarrow> if secret \<noteq> [] then Some (Err Key_UnexpectedSecret) else Some (Ok ())
     | Key_Importable \<Rightarrow> if secret = [] then Some (Err Key_MissingSecret) else None
     | Key_SealedData \<Rightarrow> if secret = [] then Some (Ok ()) else None)"

definition tpm_validate_secret :: "TpmKeyType \<Rightarrow> u8 list \<Rightarrow> (unit, TpmKeyError) result" where
  "tpm_validate_secret kind secret = (case secret_presence kind secret of
       Some r \<Rightarrow> r
     | None \<Rightarrow>
         if length secret < 2 then Err Key_InvalidSecret
         else let payload_len = from_be_bytes (take 2 secret) in
           if length secret \<noteq> payload_len + 2 \<or> payload_len > MAX_RSA_KEY_BYTES
           then Err Key_InvalidSecret else Ok ())"

subsection \<open>Keys\<close>

record TpmKeyFile =
  kf_kind :: TpmKeyType
  kf_empty_auth :: bool
  kf_policy :: "TpmKeyPolicyCommand list"
  kf_secret :: "u8 list"
  kf_auth_policy :: "TpmKeyAuthPolicy list option"
  kf_description :: "string option"
  kf_public :: "u8 list"
  kf_private :: "u8 list"
  kf_public_alg :: TpmAlgId
  kf_parent :: u32
  kf_rsa_parent :: bool

fun tpm_marshal_objs :: "(codec \<times> val) list \<Rightarrow> wr" where
  "tpm_marshal_objs [] = wdone"
| "tpm_marshal_objs ((c, v) # objs) = wseq (marshal c v) (tpm_marshal_objs objs)"

definition tpm_marshal_array :: "(codec \<times> val) list \<Rightarrow> (u8 list, TpmKeyError) result" where
  "tpm_marshal_array objs =
     map_err Key_Marshal (marshal_into (tpm_marshal_objs objs) TPM_MAX_COMMAND_SIZE)"

definition unwrap_or_default :: "('a list, 'e) result \<Rightarrow> 'a list" where
  "unwrap_or_default r = (case r of Ok xs \<Rightarrow> xs | _ \<Rightarrow> [])"

text \<open>\<open>TpmtPublic::default()\<close>.\<close>

definition PublicArea_default :: PublicArea where
  "PublicArea_default = \<lparr>pa_object_type = Alg_Null, pa_name_alg = Alg_Null,
     pa_object_attributes = 0, pa_auth_policy = [], pa_parameters = Parms_Null, pa_unique = Id_Null\<rparr>"

definition KeyFile_new :: TpmKeyFile where
  "KeyFile_new = \<lparr>kf_kind = Key_Loadable, kf_empty_auth = False, kf_policy = [], kf_secret = [],
     kf_auth_policy = None, kf_description = None,
     kf_public = unwrap_or_default (tpm_marshal_array [(Tpm2bPublic, public_val PublicArea_default)]),
     kf_private = unwrap_or_default (tpm_marshal_array [(Tpm2bPrivate, VBuffer [])]),
     kf_public_alg = pa_object_type PublicArea_default, kf_parent = 0, kf_rsa_parent = False\<rparr>"

definition kf_with_kind :: "TpmKeyType \<Rightarrow> TpmKeyFile \<Rightarrow> TpmKeyFile" where
  "kf_with_kind kind k = k\<lparr>kf_kind := kind\<rparr>"

definition kf_with_public :: "PublicArea \<Rightarrow> TpmKeyFile \<Rightarrow> TpmKeyFile" where
  "kf_with_public public k = k\<lparr>kf_public_alg := pa_object_type public,
     kf_public := unwrap_or_default (tpm_marshal_array [(Tpm2bPublic, public_val public)])\<rparr>"

definition kf_with_private :: "u8 list \<Rightarrow> TpmKeyFile \<Rightarrow> TpmKeyFile" where
  "kf_with_private private k =
     k\<lparr>kf_private := unwrap_or_default (tpm_marshal_array [(Tpm2bPrivate, VBuffer private)])\<rparr>"

definition kf_with_public_bytes :: "u8 list \<Rightarrow> TpmKeyFile \<Rightarrow> (TpmKeyFile, TpmKeyError) result" where
  "kf_with_public_bytes public k =
     and_then (map_err Key_Unmarshal (tpm_public_alg public)) (\<lambda>a.
       Ok (k\<lparr>kf_public_alg := a, kf_public := public\<rparr>))"

definition kf_with_private_bytes :: "u8 list \<Rightarrow> TpmKeyFile \<Rightarrow> (TpmKeyFile, TpmKeyError) result" where
  "kf_with_private_bytes private k =
     and_then (map_err Key_Unmarshal (tpm_private private)) (\<lambda>_. Ok (k\<lparr>kf_private := private\<rparr>))"

definition kf_with_empty_auth :: "bool \<Rightarrow> TpmKeyFile \<Rightarrow> TpmKeyFile" where
  "kf_with_empty_auth b k = k\<lparr>kf_empty_auth := b\<rparr>"

definition kf_with_policy :: "TpmKeyPolicyCommand list \<Rightarrow> TpmKeyFile \<Rightarrow> TpmKeyFile" where
  "kf_with_policy p k = k\<lparr>kf_policy := p\<rparr>"

text \<open>An error of \<open>marshal\<close> is dropped, and what the writer holds by then is kept.\<close>

definition kf_with_secret :: "u8 list \<Rightarrow> TpmKeyFile \<Rightarrow> TpmKeyFile" where
  "kf_with_secret secret k =
     (let n = wire_len Tpm2bEncryptedSecret (VBuffer secret);
          w = snd (marshal Tpm2bEncryptedSecret (VBuffer secret) (Writer_new (replicate n 0)))
      in k\<lparr>kf_secret := Writer_as_bytes w\<rparr>)"

definition kf_with_auth_policy :: "TpmKeyAuthPolicy list \<Rightarrow> TpmKeyFile \<Rightarrow> TpmKeyFile" where
  "kf_with_auth_policy p k = k\<lparr>kf_auth_policy := (if p = [] then None else Some p)\<rparr>"

definition kf_with_description :: "string \<Rightarrow> TpmKeyFile \<Rightarrow> TpmKeyFile" where
  "kf_with_description d k = k\<lparr>kf_description := (if d = [] then None else Some d)\<rparr>"

definition kf_with_parent :: "u32 \<Rightarrow> TpmKeyFile \<Rightarrow> TpmKeyFile" where
  "kf_with_parent h k = k\<lparr>kf_parent := h\<rparr>"

definition kf_with_rsa_parent :: "bool \<Rightarrow> TpmKeyFile \<Rightarrow> TpmKeyFile" where
  "kf_with_rsa_parent b k = k\<lparr>kf_rsa_parent := b\<rparr>"

subsection \<open>Reading and writing\<close>

record key_codec =
  der_encode :: "TpmKeyAsn1 \<Rightarrow> (u8 list, string) result"
  ber_decode :: "u8 list \<Rightarrow> (TpmKeyAsn1, string) result"
  pem_encode :: "string \<Rightarrow> u8 list \<Rightarrow> string"
  pem_parse :: "string \<Rightarrow> (string \<times> u8 list, string) result"

definition PEM_TAG :: string where "PEM_TAG = ''TSS2 PRIVATE KEY''"

definition key_codec_ok :: "key_codec \<Rightarrow> bool" where
  "key_codec_ok C \<longleftrightarrow>
     (\<forall>a. der_encode C a \<noteq> Panic) \<and> (\<forall>b. ber_decode C b \<noteq> Panic) \<and> (\<forall>s. pem_parse C s \<noteq> Panic) \<and>
     (\<forall>a b. der_encode C a = Ok b \<longrightarrow> ber_decode C b = Ok a) \<and>
     (\<forall>d. pem_parse C (pem_encode C PEM_TAG d) = Ok (PEM_TAG, d))"

lemma key_codec_okD:
  assumes "key_codec_ok C"
  shows "der_encode C a \<noteq> Panic" "ber_decode C b \<noteq> Panic" "pem_parse C s \<noteq> Panic"
    "der_encode C a = Ok b \<Longrightarrow> ber_decode C b = Ok a" "pem_parse C (pem_encode C PEM_TAG d) = Ok (PEM_TAG, d)"
  using assms by (simp_all add: key_codec_ok_def)

definition key_oid :: "TpmKeyType \<Rightarrow> oid" where
  "key_oid kind = (case kind of
       Key_Loadable \<Rightarrow> OID_LOADABLE_KEY
     | Key_Importable \<Rightarrow> OID_IMPORTABLE_KEY
     | Key_SealedData \<Rightarrow> OID_SEALED_DATA)"

definition KeyFile_to_asn1 :: "TpmKeyFile \<Rightarrow> TpmKeyAsn1" where
  "KeyFile_to_asn1 k = \<lparr>
     asn1_key_type = key_oid (kf_kind k),
     asn1_empty_auth = (if kf_empty_auth k then Some True else None),
     asn1_commands = (if kf_policy k = [] then None else Some (map asn1_of_policy_command (kf_policy k))),
     asn1_secret = (if kf_secret k = [] then None else Some (kf_secret k)),
     asn1_auth_policy = map_option (map asn1_of_auth_policy) (kf_auth_policy k),
     asn1_description = kf_description k,
     asn1_rsa_parent = (if kf_rsa_parent k then Some True else None),
     asn1_parent = kf_parent k,
     asn1_pubkey = kf_public k,
     asn1_privkey = kf_private k\<rparr>"

definition key_kind_of :: "oid \<Rightarrow> TpmAlgId \<Rightarrow> (TpmKeyType, TpmKeyError) result" where
  "key_kind_of key_type public_alg =
     (if key_type = OID_LOADABLE_KEY \<or> key_type = OID_IMPORTABLE_KEY then
        let kind = (if key_type = OID_LOADABLE_KEY then Key_Loadable else Key_Importable) in
        if public_alg \<noteq> Alg_Rsa \<and> public_alg \<noteq> Alg_Ecc \<and> public_alg \<noteq> Alg_KeyedHash
        then Err (Key_InvalidKeyAlgorithm kind public_alg) else Ok kind
      else if key_type = OID_SEALED_DATA then
        if public_alg \<noteq> Alg_KeyedHash then Err (Key_InvalidKeyAlgorithm Key_SealedData public_alg)
        else Ok Key_SealedData
      else Err (Key_InvalidOid key_type))"

definition parent_ok :: "bool \<Rightarrow> u32 \<Rightarrow> bool" where
  "parent_ok rsa_parent parent \<longleftrightarrow> \<not> (rsa_parent \<and> drop_bit 24 parent \<noteq> 0x40)"

definition KeyFile_from_asn1 :: "TpmKeyAsn1 \<Rightarrow> (TpmKeyFile, TpmKeyError) result" where
  "KeyFile_from_asn1 a =
     and_then (map_err Key_Unmarshal (tpm_public_alg (asn1_pubkey a))) (\<lambda>public_alg.
     and_then (map_err Key_Unmarshal (tpm_private (asn1_privkey a))) (\<lambda>_.
     and_then (key_kind_of (asn1_key_type a) public_alg) (\<lambda>kind.
       if \<not> parent_ok (asn1_rsa_parent a = Some True) (asn1_parent a) then Err Key_InvalidPolicy
       else
         let secret = (case asn1_secret a of Some s \<Rightarrow> s | None \<Rightarrow> []) in
         and_then (tpm_validate_secret kind secret) (\<lambda>_.
         and_then (collect_results policy_command_of_asn1
                     (case asn1_commands a of Some cs \<Rightarrow> cs | None \<Rightarrow> [])) (\<lambda>policy.
         and_then (case asn1_auth_policy a of
                     None \<Rightarrow> Ok None
                   | Some branches \<Rightarrow>
                       and_then (collect_results auth_policy_of_asn1 branches) (\<lambda>ps. Ok (Some ps)))
           (\<lambda>auth_policy.
             Ok \<lparr>kf_kind = kind,
                 kf_empty_auth = (asn1_empty_auth a = Some True), kf_policy = policy,
                 kf_secret = secret, kf_auth_policy = auth_policy,
                 kf_description = asn1_description a, kf_public = asn1_pubkey a,
                 kf_private = asn1_privkey a, kf_public_alg = public_alg,
                 kf_parent = asn1_parent a, kf_rsa_parent = (asn1_rsa_parent a = Some True)\<rparr>))))))"

definition KeyFile_to_der :: "key_codec \<Rightarrow> TpmKeyFile \<Rightarrow> (u8 list, TpmKeyError) result" where
  "KeyFile_to_der C k =
     and_then (tpm_validate_secret (kf_kind k) (kf_secret k)) (\<lambda>_.
       if \<not> parent_ok (kf_rsa_parent k) (kf_parent k) then Err Key_InvalidPolicy
       else map_err Key_Asn1EncodingFailed (der_encode C (KeyFile_to_asn1 k)))"

definition KeyFile_from_der :: "key_codec \<Rightarrow> u8 list \<Rightarrow> (TpmKeyFile, TpmKeyError) result" where
  "KeyFile_from_der C der_bytes =
     and_then (map_err Key_Asn1DecodingFailed (ber_decode C der_bytes)) KeyFile_from_asn1"

definition KeyFile_to_pem :: "key_codec \<Rightarrow> TpmKeyFile \<Rightarrow> (string, TpmKeyError) result" where
  "KeyFile_to_pem C k = and_then (KeyFile_to_der C k) (\<lambda>der. Ok (pem_encode C PEM_TAG der))"

definition KeyFile_from_pem :: "key_codec \<Rightarrow> string \<Rightarrow> (TpmKeyFile, TpmKeyError) result" where
  "KeyFile_from_pem C s =
     and_then (map_err Key_PemDecodingFailed (pem_parse C s)) (\<lambda>(tag, der).
       if tag = PEM_TAG then KeyFile_from_der C der else Err (Key_InvalidPemTag tag))"

end
