(* ===== verification/Template_Laws.thy ===== *)
theory Template_Laws
  imports Template Union_Laws
begin

text \<open>
  What the template component promises: the two scheme tables are inverse, a printed algorithm string
  parses to the template it was printed from, and public areas survive the conversion to a template
  and back.  \<open>parts_valid\<close> collects when a typed part is a valid value of its codec.
\<close>

subsection \<open>Names of schemes and numbers\<close>

lemma scheme_name_then_parse:
  "and_then (scheme_name a) parse_scheme =
     (case scheme_name a of Ok _ \<Rightarrow> Ok a | _ \<Rightarrow> Err Crypto_InvalidObjectType)"
  by (cases a) (simp_all add: parse_scheme_def scheme_name_def)

lemma scheme_name_parse: "scheme_name a = Ok s \<Longrightarrow> parse_scheme s = Ok a"
  using scheme_name_then_parse [of a] by simp

lemma parse_scheme_strings:
  "parse_scheme s = Ok a \<Longrightarrow> s \<in> set
     [''null'', ''rsassa'', ''rsapss'', ''rsaes'', ''oaep'', ''ecdsa'', ''ecdh'', ''ecdaa'', ''ecschnorr'',
      ''sm2'', ''ecmqv'']"
  unfolding parse_scheme_def by (simp only: list.set split: if_split_asm) simp_all

lemma parse_scheme_name: "parse_scheme s = Ok a \<longleftrightarrow> scheme_name a = Ok s"
proof
  assume p: "parse_scheme s = Ok a"
  from parse_scheme_strings [OF this] show "scheme_name a = Ok s"
    unfolding list.set insert_iff empty_iff
    by (elim disjE) (use p in \<open>auto simp: parse_scheme_def scheme_name_def\<close>)
qed (rule scheme_name_parse)

lemma scheme_name_text: "scheme_name a = Ok s \<Longrightarrow> CHR '':'' \<notin> set s \<and> s \<noteq> []"
  by (cases a) (auto simp: scheme_name_def)

lemma digit_char_not_colon: "d < 10 \<Longrightarrow> digit_char d \<noteq> CHR '':''"
proof
  assume "d < 10" "digit_char d = CHR '':''"
  then have "to_digit 10 (CHR '':'') = Some d"
    using to_digit_digit_char [of d 10] by simp
  then show False by (simp add: to_digit_def Let_def)
qed

lemma nat_display_no_colon [simp]: "CHR '':'' \<notin> set (nat_display n)"
  using set_nat_display [of n] digit_char_not_colon by fastforce

lemma u16_parse_display [simp]: "u16_from_str (nat_display (unat b)) = Some (b :: u16)"
proof -
  have "unat b < 2 ^ 16" using unsigned_less [of b] by simp
  then have "unat b \<le> u16_max" by (simp add: u16_max_def)
  then show ?thesis
    by (simp add: u16_from_str_def u32_parse_display u16_max_def u32_max_def)
qed

lemma strip_prefix_append [simp]: "strip_prefix p (p @ s) = Some s"
  by (simp add: strip_prefix_def)

lemma strip_prefix_Some_iff: "strip_prefix p s = Some r \<longleftrightarrow> s = p @ r"
proof
  assume "strip_prefix p s = Some r"
  then have "take (length p) s = p" "r = drop (length p) s"
    by (auto simp: strip_prefix_def split: if_splits)
  then show "s = p @ r" by (metis append_take_drop_id)
qed simp

subsection \<open>Algorithm strings\<close>

text \<open>The tail of an algorithm string: nothing for a storage parent, else the scheme.\<close>

definition asym_suffix :: "string option \<Rightarrow> string" where
  "asym_suffix form = (case form of None \<Rightarrow> [] | Some s \<Rightarrow> CHR '':'' # s)"

definition asym_usage :: "string option \<Rightarrow> TpmAlgId \<Rightarrow> u32 \<Rightarrow> bool" where
  "asym_usage form scheme usage \<longleftrightarrow> (case form of
       None \<Rightarrow> scheme = Alg_Null \<and> usage = OBJECT_DECRYPT OR OBJECT_RESTRICTED
     | Some s \<Rightarrow> scheme_name scheme = Ok s \<and> \<not> attributes_contain usage OBJECT_RESTRICTED)"

lemma parse_asym_form_usage:
  "parse_asym_form form = Ok (scheme, usage) \<Longrightarrow> asym_usage form scheme usage"
  by (auto simp: parse_asym_form_def asym_usage_def parse_scheme_name attributes_contain_def object_bits
      split: option.splits if_splits)

lemma split_name_and_scheme_suffix:
  assumes "CHR '':'' \<notin> set name" "name \<noteq> []" "asym_usage form scheme usage"
  shows "split_name_and_scheme (name @ asym_suffix form) = Ok (name, form)"
  using assms scheme_name_text
  by (auto simp: split_name_and_scheme_def asym_suffix_def asym_usage_def split_once_append
      split_once_None_iff [THEN iffD2] split: option.splits)

lemma format_asym_usage:
  assumes "asym_usage form scheme (t_object_attributes t)" "template_scheme t = Some scheme"
    "t_object_type t = Alg_Rsa \<or> t_object_type t = Alg_Ecc"
  shows "format_asym kind selector name t = Ok (kind @ ''-'' @ selector @ '':'' @ name @ asym_suffix form)"
proof (cases form)
  case None
  then have "is_storage_parent t"
    using assms by (simp add: is_storage_parent_def asym_usage_def attributes_contain_def object_bits)
  with None show ?thesis by (simp add: format_asym_def asym_suffix_def)
next
  case (Some s)
  then have "\<not> is_storage_parent t" "scheme_name scheme = Ok s"
    using assms(1) by (simp_all add: is_storage_parent_def asym_usage_def)
  with Some assms(2) show ?thesis by (simp add: format_asym_def asym_suffix_def)
qed

text \<open>The templates the parser builds.\<close>

definition rsa_template :: "TpmAlgId \<Rightarrow> AsymScheme \<Rightarrow> u16 \<Rightarrow> TpmHash \<Rightarrow> u32 \<Rightarrow> TpmPublicTemplate" where
  "rsa_template scheme details key_bits h usage =
     \<lparr>t_object_type = Alg_Rsa, t_name_alg = TpmHash_into h, t_auth_policy = [],
      t_object_attributes = usage, t_symmetric = SymDef_default, t_public_id = Id_Rsa [],
      t_public_parms = Parms_Rsa \<lparr>rsa_symmetric = SymDef_default, rsa_scheme = scheme,
        rsa_details = details, rsa_key_bits = key_bits, rsa_exponent = 0\<rparr>\<rparr>"

definition ecc_template ::
  "TpmAlgId \<Rightarrow> AsymScheme \<Rightarrow> TpmEllipticCurve \<Rightarrow> TpmHash \<Rightarrow> u32 \<Rightarrow> TpmPublicTemplate" where
  "ecc_template scheme details curve h usage =
     \<lparr>t_object_type = Alg_Ecc, t_name_alg = TpmHash_into h, t_auth_policy = [],
      t_object_attributes = usage, t_symmetric = SymDef_default, t_public_id = Id_Ecc [] [],
      t_public_parms = Parms_Ecc \<lparr>ecc_symmetric = SymDef_default, ecc_scheme = scheme,
        ecc_details = details, ecc_curve_id = TpmEllipticCurve_into curve,
        ecc_kdf = KdfScheme_default\<rparr>\<rparr>"

definition keyedhash_template :: "TpmAlgId \<Rightarrow> KeyedhashDetails \<Rightarrow> TpmHash \<Rightarrow> TpmPublicTemplate" where
  "keyedhash_template scheme details h =
     \<lparr>t_object_type = Alg_KeyedHash, t_name_alg = TpmHash_into h, t_auth_policy = [],
      t_object_attributes = OBJECT_SIGN_ENCRYPT, t_symmetric = SymDef_default,
      t_public_id = Id_KeyedHash [], t_public_parms = Parms_KeyedHash scheme details\<rparr>"

lemma asym_scheme_same: "asym_scheme a h = Ok (b, d) \<Longrightarrow> b = a"
  by (cases a) (auto simp: asym_scheme_def)

lemma parse_rsa_eq:
  assumes "split_once CHR '':'' s = Some (bits, rest)" "split_name_and_scheme rest = Ok (name, form)"
    "u16_from_str bits = Some b" "TpmHash_from_str name = Some h"
    "parse_asym_form form = Ok (scheme, usage)" "is_rsa_scheme scheme"
    "asym_scheme scheme (TpmHash_into h) = Ok (scheme, details)"
  shows "parse_rsa s = Ok (rsa_template scheme details b h usage)"
  using assms by (simp add: parse_rsa_def with_public_def with_defs rsa_template_def Template_new_def)

lemma parse_rsaE:
  assumes "parse_rsa s = Ok t"
  obtains bits rest name form b h scheme usage details where
    "split_once CHR '':'' s = Some (bits, rest)" "split_name_and_scheme rest = Ok (name, form)"
    "u16_from_str bits = Some b" "TpmHash_from_str name = Some h"
    "parse_asym_form form = Ok (scheme, usage)" "is_rsa_scheme scheme"
    "asym_scheme scheme (TpmHash_into h) = Ok (scheme, details)"
    "t = rsa_template scheme details b h usage"
proof -
  from assms obtain bits rest name form b h scheme usage scheme' details where
    p: "split_once CHR '':'' s = Some (bits, rest)" "split_name_and_scheme rest = Ok (name, form)"
      "u16_from_str bits = Some b" "TpmHash_from_str name = Some h"
      "parse_asym_form form = Ok (scheme, usage)" "is_rsa_scheme scheme"
    and d: "asym_scheme scheme (TpmHash_into h) = Ok (scheme', details)"
    and t: "t = rsa_template scheme' details b h usage"
    unfolding parse_rsa_def
    by (force simp: with_public_def with_defs rsa_template_def Template_new_def split: if_splits)
  with asym_scheme_same [OF d] show thesis by (intro that [OF p]) simp_all
qed

lemma parse_ecc_eq:
  assumes "split_once CHR '':'' s = Some (curve_str, rest)" "split_name_and_scheme rest = Ok (name, form)"
    "TpmEllipticCurve_from_str curve_str = Some c" "TpmHash_from_str name = Some h"
    "parse_asym_form form = Ok (scheme, usage)" "is_ecc_scheme scheme"
    "asym_scheme scheme (TpmHash_into h) = Ok (scheme, details)"
  shows "parse_ecc s = Ok (ecc_template scheme details c h usage)"
  using assms by (simp add: parse_ecc_def with_public_def with_defs ecc_template_def Template_new_def)

lemma parse_eccE:
  assumes "parse_ecc s = Ok t"
  obtains curve_str rest name form c h scheme usage details where
    "split_once CHR '':'' s = Some (curve_str, rest)" "split_name_and_scheme rest = Ok (name, form)"
    "TpmEllipticCurve_from_str curve_str = Some c" "TpmHash_from_str name = Some h"
    "parse_asym_form form = Ok (scheme, usage)" "is_ecc_scheme scheme"
    "asym_scheme scheme (TpmHash_into h) = Ok (scheme, details)"
    "t = ecc_template scheme details c h usage"
proof -
  from assms obtain curve_str rest name form c h scheme usage scheme' details where
    p: "split_once CHR '':'' s = Some (curve_str, rest)" "split_name_and_scheme rest = Ok (name, form)"
      "TpmEllipticCurve_from_str curve_str = Some c" "TpmHash_from_str name = Some h"
      "parse_asym_form form = Ok (scheme, usage)" "is_ecc_scheme scheme"
    and d: "asym_scheme scheme (TpmHash_into h) = Ok (scheme', details)"
    and t: "t = ecc_template scheme' details c h usage"
    unfolding parse_ecc_def
    by (force simp: with_public_def with_defs ecc_template_def Template_new_def split: if_splits)
  with asym_scheme_same [OF d] show thesis by (intro that [OF p]) simp_all
qed

definition keyedhash_details :: "TpmAlgId \<Rightarrow> TpmHash \<Rightarrow> KeyedhashDetails" where
  "keyedhash_details scheme h =
     (if scheme = Alg_Xor then Keyed_Xor (TpmHash_into h) \<lparr>kdf_scheme = Alg_Kdf1Sp800_108, kdf_details = Kdf_Null\<rparr>
      else if scheme = Alg_Hmac then Keyed_Hmac (TpmHash_into h) else Keyed_Null)"

lemma parse_keyedhash_eq:
  "\<lbrakk>TpmHash_from_str s = Some h; scheme \<in> {Alg_Null, Alg_Xor, Alg_Hmac}\<rbrakk> \<Longrightarrow>
   parse_keyedhash s scheme = Ok (keyedhash_template scheme (keyedhash_details scheme h) h)"
  by (auto simp: parse_keyedhash_def with_public_def with_defs keyedhash_template_def Template_new_def
      keyedhash_details_def)

lemma parse_keyedhashE:
  assumes "parse_keyedhash s scheme = Ok t" "scheme \<in> {Alg_Null, Alg_Xor, Alg_Hmac}"
  obtains h where "TpmHash_from_str s = Some h"
    "t = keyedhash_template scheme (keyedhash_details scheme h) h"
proof -
  from assms(1) obtain h where h: "TpmHash_from_str s = Some h"
    by (auto simp: parse_keyedhash_def)
  with parse_keyedhash_eq [OF h assms(2)] assms(1) show thesis by (intro that [OF h]) simp
qed

text \<open>The three ways an algorithm string is read.\<close>

definition keyedhash_prefix :: "TpmAlgId \<Rightarrow> string" where
  "keyedhash_prefix scheme =
     (if scheme = Alg_Null then ''keyedhash-null:''
      else if scheme = Alg_Xor then ''keyedhash-xor:'' else ''keyedhash-hmac:'')"

lemma Template_from_str_forms:
  "Template_from_str (''rsa-'' @ r) = parse_rsa r"
  "Template_from_str (''ecc-'' @ r) = parse_ecc r"
  "scheme \<in> {Alg_Null, Alg_Xor, Alg_Hmac} \<Longrightarrow>
   Template_from_str (keyedhash_prefix scheme @ r) = parse_keyedhash r scheme"
  by (auto simp: Template_from_str_def strip_prefix_def keyedhash_prefix_def)

lemma Template_from_strE:
  assumes "Template_from_str s = Ok t"
  obtains (rsa) r where "s = ''rsa-'' @ r" "parse_rsa r = Ok t"
  | (ecc) r where "s = ''ecc-'' @ r" "parse_ecc r = Ok t"
  | (keyedhash) r scheme where "s = keyedhash_prefix scheme @ r" "parse_keyedhash r scheme = Ok t"
      "scheme \<in> {Alg_Null, Alg_Xor, Alg_Hmac}"
proof -
  note [simp] = strip_prefix_Some_iff keyedhash_prefix_def
  from assms consider
      r where "s = ''rsa-'' @ r" "parse_rsa r = Ok t"
    | r where "s = ''ecc-'' @ r" "parse_ecc r = Ok t"
    | r where "s = ''keyedhash-null:'' @ r" "parse_keyedhash r Alg_Null = Ok t"
    | r where "s = ''keyedhash-xor:'' @ r" "parse_keyedhash r Alg_Xor = Ok t"
    | r where "s = ''keyedhash-hmac:'' @ r" "parse_keyedhash r Alg_Hmac = Ok t"
    unfolding Template_from_str_def by (force split: option.splits)
  then show ?thesis
  proof cases
    case 3 then show ?thesis using keyedhash [of Alg_Null] by simp
  next
    case 4 then show ?thesis using keyedhash [of Alg_Xor] by simp
  next
    case 5 then show ?thesis using keyedhash [of Alg_Hmac] by simp
  qed (use rsa ecc in blast)+
qed

lemma rsa_string:
  assumes "parse_asym_form form = Ok (scheme, usage)" "b \<noteq> 0" "is_rsa_scheme scheme"
    "asym_scheme scheme (TpmHash_into h) = Ok (scheme, details)"
  shows "\<exists>s. Template_to_string (rsa_template scheme details b h usage) = Ok s \<and>
     Template_from_str s = Ok (rsa_template scheme details b h usage)"
proof -
  let ?t = "rsa_template scheme details b h usage"
  let ?r = "nat_display (unat b) @ CHR '':'' # TpmHash_display h @ asym_suffix form"
  note u = parse_asym_form_usage [OF assms(1)]
  have "format_asym ''rsa'' (nat_display (unat b)) (TpmHash_display h) ?t = Ok (''rsa-'' @ ?r)"
    using format_asym_usage [of form scheme ?t] u
    by (simp add: rsa_template_def template_scheme_def)
  then have "Template_to_string ?t = Ok (''rsa-'' @ ?r)"
    using assms(2) by (simp add: Template_to_string_def rsa_template_def)
  moreover have "parse_rsa ?r = Ok ?t"
    by (rule parse_rsa_eq [OF split_once_append [OF nat_display_no_colon]
          split_name_and_scheme_suffix [OF _ _ u] _ _ assms(1,3,4)]) simp_all
  ultimately show ?thesis
    using Template_from_str_forms(1) by metis
qed

lemma ecc_string:
  assumes "parse_asym_form form = Ok (scheme, usage)" "is_ecc_scheme scheme"
    "asym_scheme scheme (TpmHash_into h) = Ok (scheme, details)"
  shows "\<exists>s. Template_to_string (ecc_template scheme details c h usage) = Ok s \<and>
     Template_from_str s = Ok (ecc_template scheme details c h usage)"
proof -
  let ?t = "ecc_template scheme details c h usage"
  let ?r = "TpmEllipticCurve_display c @ CHR '':'' # TpmHash_display h @ asym_suffix form"
  note u = parse_asym_form_usage [OF assms(1)]
  have "format_asym ''ecc'' (TpmEllipticCurve_display c) (TpmHash_display h) ?t = Ok (''ecc-'' @ ?r)"
    using format_asym_usage [of form scheme ?t] u
    by (simp add: ecc_template_def template_scheme_def)
  then have "Template_to_string ?t = Ok (''ecc-'' @ ?r)"
    by (simp add: Template_to_string_def ecc_template_def)
  moreover have "parse_ecc ?r = Ok ?t"
    by (rule parse_ecc_eq [OF split_once_append [OF display_no_colon(1)]
          split_name_and_scheme_suffix [OF _ _ u] _ _ assms(1,2,3)]) simp_all
  ultimately show ?thesis
    using Template_from_str_forms(2) by metis
qed

lemma keyedhash_string:
  assumes "scheme \<in> {Alg_Null, Alg_Xor, Alg_Hmac}"
  shows "\<exists>s. Template_to_string (keyedhash_template scheme (keyedhash_details scheme h) h) = Ok s \<and>
     Template_from_str s = Ok (keyedhash_template scheme (keyedhash_details scheme h) h)"
proof -
  let ?t = "keyedhash_template scheme (keyedhash_details scheme h) h"
  have "Template_to_string ?t = Ok (keyedhash_prefix scheme @ TpmHash_display h)"
    using assms by (auto simp: Template_to_string_def keyedhash_template_def keyedhash_prefix_def)
  moreover have "parse_keyedhash (TpmHash_display h) scheme = Ok ?t"
    by (rule parse_keyedhash_eq) (use assms in simp_all)
  ultimately show ?thesis
    using Template_from_str_forms(3) [OF assms] by metis
qed

text \<open>The number of key bits of an RSA template, whose zero has no string.\<close>

definition zero_key_bits :: "TpmPublicTemplate \<Rightarrow> bool" where
  "zero_key_bits t \<longleftrightarrow> (case t_public_parms t of Parms_Rsa p \<Rightarrow> rsa_key_bits p = 0 | _ \<Rightarrow> False)"

lemma template_string:
  assumes "Template_from_str s = Ok t"
  shows "if zero_key_bits t then Template_to_string t = Err (Crypto_InvalidKeyBits 0)
    else \<exists>s'. Template_to_string t = Ok s' \<and> Template_from_str s' = Ok t"
  using assms
proof (cases rule: Template_from_strE)
  case (rsa r)
  from rsa(2) show ?thesis
  proof (cases rule: parse_rsaE)
    case (1 bits rest name form b h scheme usage details)
    have "zero_key_bits t \<longleftrightarrow> b = 0"
      by (simp add: 1(8) zero_key_bits_def rsa_template_def)
    moreover have "Template_to_string (rsa_template scheme details 0 h usage) = Err (Crypto_InvalidKeyBits 0)"
      by (simp add: Template_to_string_def rsa_template_def)
    ultimately show ?thesis
      using rsa_string [OF 1(5) _ 1(6,7), of b] 1(8) by auto
  qed
next
  case (ecc r)
  from ecc(2) show ?thesis
  proof (cases rule: parse_eccE)
    case (1 curve_str rest name form c h scheme usage details)
    have "\<not> zero_key_bits t" by (simp add: 1(8) zero_key_bits_def ecc_template_def)
    then show ?thesis
      using ecc_string [OF 1(5-7)] 1(8) by auto
  qed
next
  case (keyedhash r scheme)
  from keyedhash(2,3) show ?thesis
  proof (cases rule: parse_keyedhashE)
    case (1 h)
    have "\<not> zero_key_bits t" by (simp add: 1(2) zero_key_bits_def keyedhash_template_def)
    then show ?thesis
      using keyedhash_string [OF keyedhash(3)] 1(2) by auto
  qed
qed

subsection \<open>Public areas\<close>

text \<open>The selectors of a parsed template agree with its variants, except in the key derivation scheme of
  an XOR template: its details are \<open>Null\<close> where the selector names SP800-108.\<close>

lemmas area_codecs =
  parts_val TpmtPublic_valid_iff TpmuPublicParms_def TpmuPublicParms_arms_def TpmuPublicId_def
  TpmuPublicId_arms_def TpmuAsymScheme_def TpmuAsymScheme_arms_def TpmuKdfScheme_def
  TpmuKdfScheme_arms_def TpmuKeyedhashScheme_def TpmuKeyedhashScheme_arms_def tpmu_view_def
  tpmu_matches_tag_def tpm_struct_valid_iff tpm_struct_tagged_def TpmsRsaParms_def TpmsEccParms_def
  TpmsKeyedhashParms_def TpmsSymcipherParms_def TpmtRsaScheme_def TpmtEccScheme_def TpmtKdfScheme_def
  TpmtKeyedhashScheme_def TpmsSchemeHash_def TpmsSchemeXor_def TpmiAlgHash_def TpmsEccPoint_def
  Tpm2bDigest_def Tpm2bPublicKeyRsa_def Tpm2bEccParameter_def TpmaObject_def tpm_bitflags_def
  TpmBuffer_valid_iff

lemma int_parts_valid [simp]: "valid TpmUint16 (int_new 2 n)" "valid TpmUint32 (int_new 4 n)"
  by (simp_all add: TpmUint16_def TpmUint32_def tpm_int_def int_new_def)

lemma alg_val_valid [simp]: "valid TpmAlgId_codec (VEnum (EAlgId a))"
  by (simp add: TpmAlgId_codec_valid)

lemma curve_val_valid [simp]: "valid TpmEccCurve_codec (VEnum (EEccCurve c))"
  by (simp add: TpmEccCurve_codec_valid)

lemma attributes_bits [simp]: "unat (a :: u32) < 4294967296"
  using unsigned_less [of a] by simp

lemma SymDef_default_valid [simp]: "valid TpmtSymDefObject (SymDef_val SymDef_default)"
  by (simp add: TpmtSymDefObject_def TpmtSymDef_valid_iff SymDef_default_def parts_val
      TpmuSymKeyBits_def TpmuSymKeyBits_arms_def TpmuSymMode_def TpmuSymMode_arms_def tpmu_view_def
      tpmu_matches_tag_def)

lemma asym_scheme_valid:
  "asym_scheme scheme h = Ok (scheme, details) \<Longrightarrow>
   u_valid TpmuAsymScheme (AsymScheme_val details) \<and>
   matches_tag TpmuAsymScheme (AsymScheme_val details) (VEnum (EAlgId scheme))"
  by (cases scheme) (auto simp: asym_scheme_def area_codecs)

lemma rsa_template_valid:
  assumes "asym_scheme scheme (TpmHash_into h) = Ok (scheme, details)"
    "PublicArea_try_from (rsa_template scheme details b h usage) = Ok p"
  shows "valid TpmtPublic (public_val p)"
proof -
  have "valid TpmtRsaScheme (VStruct [alg_val scheme, AsymScheme_val details])"
    using asym_scheme_valid [OF assms(1)]
    by (simp add: TpmtRsaScheme_def tpm_struct_tagged_def alg_val_def)
  then have "valid TpmsRsaParms (RsaParms_val \<lparr>rsa_symmetric = SymDef_default, rsa_scheme = scheme,
      rsa_details = details, rsa_key_bits = b, rsa_exponent = 0\<rparr>)"
    by (simp add: TpmsRsaParms_def tpm_struct_valid_iff RsaParms_val_def u16_val_def u32_val_def)
  moreover have "p = \<lparr>pa_object_type = Alg_Rsa, pa_name_alg = TpmHash_into h,
      pa_object_attributes = usage, pa_auth_policy = [], pa_parameters = Parms_Rsa
        \<lparr>rsa_symmetric = SymDef_default, rsa_scheme = scheme, rsa_details = details,
         rsa_key_bits = b, rsa_exponent = 0\<rparr>, pa_unique = Id_Rsa []\<rparr>"
    using assms(2) by (simp add: PublicArea_try_from_def rsa_template_def)
  ultimately show ?thesis
    by (simp add: TpmtPublic_valid_iff public_val_def alg_val_def TpmuPublicParms_def TpmuPublicParms_arms_def
        TpmuPublicId_def TpmuPublicId_arms_def tpmu_view_def tpmu_matches_tag_def TpmaObject_def
        tpm_bitflags_def Tpm2bDigest_def Tpm2bPublicKeyRsa_def TpmBuffer_valid_iff)
qed

lemma ecc_template_valid:
  assumes "asym_scheme scheme (TpmHash_into h) = Ok (scheme, details)"
    "PublicArea_try_from (ecc_template scheme details c h usage) = Ok p"
  shows "valid TpmtPublic (public_val p)"
proof -
  have "valid TpmtEccScheme (VStruct [alg_val scheme, AsymScheme_val details])"
    using asym_scheme_valid [OF assms(1)]
    by (simp add: TpmtEccScheme_def tpm_struct_tagged_def alg_val_def)
  moreover have "valid TpmtKdfScheme (KdfScheme_val KdfScheme_default)"
    by (simp add: KdfScheme_default_def TpmtKdfScheme_def tpm_struct_tagged_def TpmuKdfScheme_def
        TpmuKdfScheme_arms_def tpmu_view_def tpmu_matches_tag_def KdfScheme_val_def alg_val_def)
  ultimately have "valid TpmsEccParms (EccParms_val \<lparr>ecc_symmetric = SymDef_default, ecc_scheme = scheme,
      ecc_details = details, ecc_curve_id = TpmEllipticCurve_into c, ecc_kdf = KdfScheme_default\<rparr>)"
    by (simp add: TpmsEccParms_def tpm_struct_valid_iff EccParms_val_def)
  moreover have "p = \<lparr>pa_object_type = Alg_Ecc, pa_name_alg = TpmHash_into h,
      pa_object_attributes = usage, pa_auth_policy = [], pa_parameters = Parms_Ecc
        \<lparr>ecc_symmetric = SymDef_default, ecc_scheme = scheme, ecc_details = details,
         ecc_curve_id = TpmEllipticCurve_into c, ecc_kdf = KdfScheme_default\<rparr>, pa_unique = Id_Ecc [] []\<rparr>"
    using assms(2) by (simp add: PublicArea_try_from_def ecc_template_def)
  ultimately show ?thesis
    by (simp add: TpmtPublic_valid_iff public_val_def alg_val_def TpmuPublicParms_def TpmuPublicParms_arms_def
        TpmuPublicId_def TpmuPublicId_arms_def tpmu_view_def tpmu_matches_tag_def TpmaObject_def
        tpm_bitflags_def Tpm2bDigest_def TpmsEccPoint_def tpm_struct_valid_iff Tpm2bEccParameter_def
        TpmBuffer_valid_iff)
qed

lemma keyedhash_template_valid:
  assumes "scheme = Alg_Null \<or> scheme = Alg_Hmac"
    "PublicArea_try_from (keyedhash_template scheme (keyedhash_details scheme h) h) = Ok p"
  shows "valid TpmtPublic (public_val p)"
proof -
  have "p = \<lparr>pa_object_type = Alg_KeyedHash, pa_name_alg = TpmHash_into h,
      pa_object_attributes = OBJECT_SIGN_ENCRYPT, pa_auth_policy = [],
      pa_parameters = Parms_KeyedHash scheme (keyedhash_details scheme h), pa_unique = Id_KeyedHash []\<rparr>"
    using assms(2) by (simp add: PublicArea_try_from_def keyedhash_template_def)
  moreover have "valid TpmtKeyedhashScheme
      (VStruct [VEnum (EAlgId scheme), KeyedhashDetails_val (keyedhash_details scheme h)])"
    using assms(1)
    by (auto simp: TpmtKeyedhashScheme_def tpm_struct_tagged_def TpmuKeyedhashScheme_def
        TpmuKeyedhashScheme_arms_def tpmu_view_def tpmu_matches_tag_def keyedhash_details_def hash_val_def
        TpmsSchemeHash_def tpm_struct_valid_iff TpmiAlgHash_def alg_val_def)
  ultimately show ?thesis
    by (simp add: TpmtPublic_valid_iff public_val_def alg_val_def TpmuPublicParms_def TpmuPublicParms_arms_def
        TpmuPublicId_def TpmuPublicId_arms_def tpmu_view_def tpmu_matches_tag_def TpmaObject_def
        tpm_bitflags_def Tpm2bDigest_def TpmBuffer_valid_iff TpmsKeyedhashParms_def tpm_struct_valid_iff)
qed

lemma PublicArea_try_from_Ok: "\<exists>p. PublicArea_try_from t = Ok p"
  by (simp add: PublicArea_try_from_def Let_def)

lemma parsed_template_valid:
  assumes "Template_from_str s = Ok t" "strip_prefix ''keyedhash-xor:'' s = None"
    "PublicArea_try_from t = Ok p"
  shows "valid TpmtPublic (public_val p)"
  using assms(1)
proof (cases rule: Template_from_strE)
  case (rsa r)
  from rsa(2) show ?thesis using assms(3) rsa_template_valid by (cases rule: parse_rsaE) blast
next
  case (ecc r)
  from ecc(2) show ?thesis using assms(3) ecc_template_valid by (cases rule: parse_eccE) blast
next
  case (keyedhash r scheme)
  with assms(2) have "scheme = Alg_Null \<or> scheme = Alg_Hmac"
    by (auto simp: keyedhash_prefix_def simp del: append.simps)
  with keyedhash(2,3) assms(3) keyedhash_template_valid show ?thesis
    by (cases rule: parse_keyedhashE) blast+
qed

text \<open>A public area and its template.\<close>

lemma template_of_public:
  assumes "valid TpmtPublic (public_val p)" "Template_try_from p = Ok t"
  shows "PublicArea_try_from t = Ok p"
proof -
  from assms(2) obtain h where h: "TpmHash_into h = pa_name_alg p"
    by (auto simp: Template_try_from_def TpmHash_try_from_Ok_iff Let_def)
  from assms(1) have m: "matches_tag TpmuPublicParms (PublicParms_val (pa_parameters p))
      (VEnum (EAlgId (pa_object_type p)))"
    by (simp add: TpmtPublic_valid_iff public_val_def alg_val_def)
  have tag: "pa_object_type p = (case pa_parameters p of Parms_Rsa _ \<Rightarrow> Alg_Rsa | Parms_Ecc _ \<Rightarrow> Alg_Ecc
      | Parms_KeyedHash _ _ \<Rightarrow> Alg_KeyedHash | Parms_SymCipher _ \<Rightarrow> Alg_SymCipher | Parms_Null \<Rightarrow> Alg_Null)"
    using m by (cases "pa_parameters p")
      (simp_all add: TpmuPublicParms_def TpmuPublicParms_arms_def tpmu_view_def tpmu_matches_tag_def
        split: if_splits)
  show ?thesis
    using assms(2) tag h
    by (cases p; cases "pa_parameters p"; cases "pa_unique p")
      (auto simp: Template_try_from_def with_public_def with_defs PublicArea_try_from_def Template_new_def
        TpmHash_try_from_Ok_iff)
qed

end
