(* ===== verification/Key_File_Laws.thy ===== *)
theory Key_File_Laws
  imports Key_File Template_Laws Wire_Command
begin

text \<open>
  What key files promise.  \<open>key_file_ok\<close> is the invariant of a key that was read: the public and private
  areas are well formed, the type admits the public algorithm, the secret fits the type, the policy
  commands are policy commands.  Every key that is read satisfies it, the builders establish it, and a
  key that satisfies it is read back from what is written.
\<close>

subsection \<open>Policy commands\<close>

lemma cc_range: "0 \<le> TpmCc_value cc \<and> TpmCc_value cc < 2 ^ 32"
  using TpmCc.value_range [of cc] by (simp add: repr_range_def)

lemma policy_command_iff:
  "policy_command_of_asn1 v = Ok c \<longleftrightarrow> kp_cc c \<in> set policy_codes \<and> v = asn1_of_policy_command c"
proof -
  have "map_err (\<lambda>_. Key_InvalidCc (asn1_command_code v))
      (enum_try_from TpmCc_value TpmCc_variants (uint (asn1_command_code v))) = Ok cc \<longleftrightarrow>
    asn1_command_code v = word_of_int (TpmCc_value cc)" for cc
  proof -
    have "uint (word_of_int (TpmCc_value cc) :: u32) = TpmCc_value cc"
      using cc_range [of cc] by (simp add: uint_word_of_int)
    then have "TpmCc_value cc = uint (asn1_command_code v) \<longleftrightarrow>
        asn1_command_code v = word_of_int (TpmCc_value cc)"
      by (metis word_of_int_uint)
    then show ?thesis
      by (simp only: map_err_Ok_iff TpmCc.try_from_Ok_iff)
  qed
  then show ?thesis
    by (cases v; cases c) (auto simp: policy_command_of_asn1_def asn1_of_policy_command_def)
qed

lemma policy_command_not_Panic [simp]: "policy_command_of_asn1 v \<noteq> Panic"
  by (simp add: policy_command_of_asn1_def and_then_Panic_iff enum_try_from_def split: option.splits)

lemma collect_results_iff:
  "collect_results f xs = Ok ys \<longleftrightarrow> list_all2 (\<lambda>x y. f x = Ok y) xs ys"
  by (induction xs arbitrary: ys) (auto simp: list_all2_Cons1)

lemma collect_policy_iff:
  "collect_results policy_command_of_asn1 xs = Ok cs \<longleftrightarrow>
   kp_cc ` set cs \<subseteq> set policy_codes \<and> xs = map asn1_of_policy_command cs"
proof (induction xs arbitrary: cs)
  case (Cons x xs)
  show ?case by (cases cs) (auto simp: policy_command_iff Cons)
qed auto

definition auth_policy_ok :: "TpmKeyAuthPolicy \<Rightarrow> bool" where
  "auth_policy_ok p \<longleftrightarrow> kp_cc ` set (ap_policy p) \<subseteq> set policy_codes"

lemma auth_policy_iff:
  "auth_policy_of_asn1 v = Ok p \<longleftrightarrow> auth_policy_ok p \<and> v = asn1_of_auth_policy p"
  by (cases v; cases p)
    (auto simp: auth_policy_of_asn1_def asn1_of_auth_policy_def auth_policy_ok_def collect_policy_iff)

lemma collect_auth_policy_iff:
  "collect_results auth_policy_of_asn1 xs = Ok ps \<longleftrightarrow>
   list_all auth_policy_ok ps \<and> xs = map asn1_of_auth_policy ps"
proof (induction xs arbitrary: ps)
  case (Cons x xs)
  show ?case by (cases ps) (auto simp: auth_policy_iff Cons)
qed auto

subsection \<open>Secrets and types\<close>

definition secret_ok :: "TpmKeyType \<Rightarrow> u8 list \<Rightarrow> bool" where
  "secret_ok kind secret \<longleftrightarrow>
     (kind \<noteq> Key_Importable \<and> secret = []) \<or>
     (kind \<noteq> Key_Loadable \<and>
      (\<exists>payload. length payload \<le> MAX_RSA_KEY_BYTES \<and> secret = tpm2b_bytes payload))"

lemma tpm2b_bytes_iff:
  assumes "n \<le> u16_max"
  shows "(\<exists>payload. length payload \<le> n \<and> s = tpm2b_bytes payload) \<longleftrightarrow>
    2 \<le> length s \<and> length s = from_be_bytes (take 2 s) + 2 \<and> from_be_bytes (take 2 s) \<le> n"
    (is "?l \<longleftrightarrow> ?r")
proof
  show "?l \<Longrightarrow> ?r" using assms by (auto simp: tpm2b_bytes_def u16_max_def)
  assume r: ?r
  then have "s = tpm2b_bytes (drop 2 s)"
    using append_take_drop_id [of 2 s] by (simp add: tpm2b_bytes_def)
  with r show ?l by (intro exI [of _ "drop 2 s"]) simp
qed

lemma tpm_validate_secret_iff: "tpm_validate_secret kind secret = Ok () \<longleftrightarrow> secret_ok kind secret"
  using tpm2b_bytes_iff [of MAX_RSA_KEY_BYTES secret]
  by (cases kind)
    (auto simp: tpm_validate_secret_def secret_presence_def secret_ok_def Let_def constants u16_max_def)

lemma key_kind_iff:
  "key_kind_of oid a = Ok kind \<longleftrightarrow>
   oid = key_oid kind \<and> (if kind = Key_SealedData then a = Alg_KeyedHash
     else a \<in> {Alg_Rsa, Alg_Ecc, Alg_KeyedHash})"
  by (cases kind) (auto simp: key_kind_of_def key_oid_def oids Let_def)

subsection \<open>The invariant\<close>

definition key_file_ok :: "TpmKeyFile \<Rightarrow> bool" where
  "key_file_ok k \<longleftrightarrow>
     tpm_public_alg (kf_public k) = Ok (kf_public_alg k) \<and>
     tpm_private (kf_private k) = Ok () \<and>
     (if kf_kind k = Key_SealedData then kf_public_alg k = Alg_KeyedHash
      else kf_public_alg k \<in> {Alg_Rsa, Alg_Ecc, Alg_KeyedHash}) \<and>
     secret_ok (kf_kind k) (kf_secret k) \<and>
     parent_ok (kf_rsa_parent k) (kf_parent k) \<and>
     kp_cc ` set (kf_policy k) \<subseteq> set policy_codes \<and>
     (\<forall>ps. kf_auth_policy k = Some ps \<longrightarrow> list_all auth_policy_ok ps)"

lemma from_asn1_ok:
  assumes "KeyFile_from_asn1 a = Ok k"
  shows "key_file_ok k"
proof -
  from assms obtain policy auth where f:
    "tpm_public_alg (asn1_pubkey a) = Ok (kf_public_alg k)" "tpm_private (asn1_privkey a) = Ok ()"
    "key_kind_of (asn1_key_type a) (kf_public_alg k) = Ok (kf_kind k)"
    "tpm_validate_secret (kf_kind k) (kf_secret k) = Ok ()"
    "collect_results policy_command_of_asn1 (case asn1_commands a of Some cs \<Rightarrow> cs | None \<Rightarrow> []) = Ok (kf_policy k)"
    and auth: "(case asn1_auth_policy a of None \<Rightarrow> Ok None
       | Some branches \<Rightarrow> and_then (collect_results auth_policy_of_asn1 branches) (\<lambda>ps. Ok (Some ps))) =
       Ok (kf_auth_policy k)"
    and k: "kf_public k = asn1_pubkey a" "kf_private k = asn1_privkey a"
      "parent_ok (kf_rsa_parent k) (kf_parent k)"
    unfolding KeyFile_from_asn1_def Let_def by (clarsimp split: if_split_asm)
  have "list_all auth_policy_ok ps" if "kf_auth_policy k = Some ps" for ps
    using auth that by (cases "asn1_auth_policy a") (auto simp: collect_auth_policy_iff)
  with f k show ?thesis
    by (simp add: key_file_ok_def tpm_validate_secret_iff key_kind_iff collect_policy_iff split: if_splits)
qed

lemma from_to_asn1: "key_file_ok k \<Longrightarrow> KeyFile_from_asn1 (KeyFile_to_asn1 k) = Ok k"
proof -
  assume ok: "key_file_ok k"
  have kind: "key_kind_of (key_oid (kf_kind k)) (kf_public_alg k) = Ok (kf_kind k)"
    using ok by (auto simp: key_kind_iff key_file_ok_def split: if_splits)
  have secret: "tpm_validate_secret (kf_kind k) (kf_secret k) = Ok ()"
    using ok by (simp add: tpm_validate_secret_iff key_file_ok_def)
  have policy: "collect_results policy_command_of_asn1 (map asn1_of_policy_command (kf_policy k)) = Ok (kf_policy k)"
    using ok by (simp add: collect_policy_iff key_file_ok_def)
  have auth: "collect_results auth_policy_of_asn1 (map asn1_of_auth_policy ps) = Ok ps"
    if "kf_auth_policy k = Some ps" for ps
    using ok that by (simp add: collect_auth_policy_iff key_file_ok_def)
  show ?thesis
    using ok kind secret policy auth
    by (cases k) (auto simp: KeyFile_from_asn1_def KeyFile_to_asn1_def key_file_ok_def Let_def
        split: option.splits)
qed

subsection \<open>Marshalled areas\<close>

lemma tpm_marshal_one:
  assumes "wire_codec c" "valid c v" "wire_len c v \<le> TPM_MAX_COMMAND_SIZE"
  shows "tpm_marshal_array [(c, v)] = Ok (encode c v)"
proof -
  have "emits (wseq (marshal c v) wdone) (encode c v @ [])"
    by (intro emits_wseq wire_codec.marshal_emits [OF assms(1,2)]) simp
  moreover have "length (encode c v) \<le> TPM_MAX_COMMAND_SIZE"
    using wire_codec.length_encode [OF assms(1,2)] assms(3) by simp
  ultimately show ?thesis
    by (simp add: tpm_marshal_array_def marshal_into_emits TPM_MAX_COMMAND_SIZE_def usize_max_def)
qed

lemma TpmtPublic_len: "valid TpmtPublic v \<Longrightarrow> wire_len TpmtPublic v \<le> 604"
proof -
  assume "valid TpmtPublic v"
  then obtain a n o' p parms unique where v: "v = VStruct [a, n, o', p, parms, unique]"
      "valid TpmAlgId_codec a" "valid TpmAlgId_codec n" "valid TpmaObject o'" "valid Tpm2bDigest p"
      "u_valid TpmuPublicParms parms" "u_valid TpmuPublicId unique"
      "matches_tag TpmuPublicParms parms a" "matches_tag TpmuPublicId unique a"
    by (auto simp: TpmtPublic_valid_iff)
  then show ?thesis
    using wire_codec.len_le_SIZE [OF wire_field_codec [OF TpmAlgId_codec_ok], of a]
      wire_codec.len_le_SIZE [OF wire_field_codec [OF TpmAlgId_codec_ok], of n]
      wire_codec.len_le_SIZE [OF wire_field_codec [OF TpmaObject_ok], of o']
      wire_codec.len_le_SIZE [OF wire_field_codec [OF Tpm2bDigest_ok], of p]
      u_boundedD [OF TpmuPublicParms_bound, of parms a] u_boundedD [OF TpmuPublicId_bound, of unique a]
    by (simp add: TpmtPublic_def constants)
qed

lemma Tpm2bPublic_valid: "valid Tpm2bPublic v = valid TpmtPublic v"
  by (simp add: Tpm2bPublic_def tpm2b_struct_def)

lemma encode_Tpm2bPublic:
  assumes "valid TpmtPublic v"
  shows "encode Tpm2bPublic v = tpm2b_bytes (encode TpmtPublic v)"
proof -
  note c = wire_field_codec [OF TpmtPublic_ok]
  have len: "length (encode TpmtPublic v) = wire_len TpmtPublic v" "wire_len TpmtPublic v \<le> 604"
    using wire_codec.length_encode [OF c assms] TpmtPublic_len [OF assms] by simp_all
  then have "emits (marshal Tpm2bPublic v) (to_be_bytes 2 (wire_len TpmtPublic v) @ encode TpmtPublic v)"
    using wire_codec.marshal_emits [OF c assms]
    by (auto simp: Tpm2bPublic_def tpm2b_struct_def u16_max_def intro!: emits_wseq)
  then show ?thesis
    using len by (intro encode_eqI)
      (simp_all add: tpm2b_bytes_def Tpm2bPublic_def tpm2b_struct_def usize_max_def)
qed

lemma cast_public_view:
  assumes "valid TpmtPublic v" "v = VStruct (VEnum (EAlgId a) # vs)"
  shows "\<exists>w. cast_prefix TpmtPublic (encode TpmtPublic v) = Ok (w, []) \<and> view_object_type w = a"
proof -
  note f = TpmtPublic_ok and c = wire_field_codec [OF TpmtPublic_ok]
  have len: "length (encode TpmtPublic v) \<le> usize_max"
    using wire_codec.length_encode [OF c assms(1)] TpmtPublic_len [OF assms(1)] by (simp add: usize_max_def)
  have um: "unmarshal TpmtPublic (encode TpmtPublic v) = Ok (v, [])"
    using codec_dec_enc [OF c assms(1), of "[]"] by simp
  then obtain w where w: "cast_prefix TpmtPublic (encode TpmtPublic v) = Ok (w, [])"
    using wire_field.cast_iff [OF f len] by blast
  have head: "\<exists>r. unmarshal TpmAlgId_codec b = Ok (VEnum (EAlgId a), r)"
    if "unmarshal TpmtPublic b = Ok (v, [])" for b
    using that assms(2) by (auto simp: TpmtPublic_def)
  have "view_object_type w = a"
    if "cast_prefix TpmtPublic b = Ok (w, [])" "unmarshal TpmAlgId_codec b = Ok (VEnum (EAlgId a), r)" for b r
    using that by (auto simp: TpmtPublic_def view_object_type_def)
  with w head [OF um] show ?thesis by blast
qed

lemma tpm_public_alg_encode:
  assumes "valid TpmtPublic v" "v = VStruct (VEnum (EAlgId a) # vs)"
  shows "tpm_public_alg (encode Tpm2bPublic v) = Ok a"
proof -
  let ?b = "encode TpmtPublic v"
  obtain w where w: "cast_prefix TpmtPublic ?b = Ok (w, [])" "view_object_type w = a"
    using cast_public_view [OF assms] by blast
  have len: "length ?b \<le> 604"
    using wire_codec.length_encode [OF wire_field_codec [OF TpmtPublic_ok] assms(1)]
      TpmtPublic_len [OF assms(1)] by simp
  then have "tpm2b_struct_validate_prefix TpmtPublic (tpm2b_bytes ?b) = Ok (2 + length ?b)"
    using w(1) by (simp add: tpm2b_struct_validate_prefix_def TpmWireBytes_cast_prefix_eq tpm2b_bytes_def
        split_at_def constants)
  then have "Tpm2bPublicWire_cast (tpm2b_bytes ?b) = Ok (tpm2b_bytes ?b)"
    by (simp add: Tpm2bPublicWire_cast_def tpm2b_bytes_def)
  with w show ?thesis
    by (simp add: tpm_public_alg_def encode_Tpm2bPublic [OF assms(1)] Tpm2bPublicWire_inner_def tpm2b_bytes_def)
qed

lemma tpm_private_encode:
  assumes "length d \<le> MAX_PRIVATE_SIZE"
  shows "tpm_private (encode Tpm2bPrivate (VBuffer d)) = Ok ()"
proof -
  have "encode Tpm2bPrivate (VBuffer d) = tpm2b_bytes d"
    using assms by (simp add: Tpm2bPrivate_def encode_buffer TpmBuffer_valid_iff constants u16_max_def)
  with assms show ?thesis
    by (simp add: tpm_private_def Tpm2b_validate_def Tpm2b_validate_prefix_def Tpm2b_read_size_def
        tpm2b_bytes_def checked_add_def constants usize_max_def Let_def)
qed

text \<open>The builders on a valid public area and a private area that fits.\<close>

definition built_key :: "TpmKeyType \<Rightarrow> PublicArea \<Rightarrow> u8 list \<Rightarrow> TpmKeyFile" where
  "built_key kind p d = kf_with_private d (kf_with_public p (kf_with_kind kind KeyFile_new))"

lemma public_val_head: "public_val p = VStruct (VEnum (EAlgId (pa_object_type p)) #
    [alg_val (pa_name_alg p), VBits (unat (pa_object_attributes p)), VBuffer (pa_auth_policy p),
     PublicParms_val (pa_parameters p), PublicId_val (pa_unique p)])"
  by (simp add: public_val_def alg_val_def)

lemma built_key_public:
  assumes "valid TpmtPublic (public_val p)"
  shows "kf_public (built_key kind p d) = encode Tpm2bPublic (public_val p)"
proof -
  have "wire_len Tpm2bPublic (public_val p) \<le> TPM_MAX_COMMAND_SIZE"
    using TpmtPublic_len [OF assms] by (simp add: Tpm2bPublic_def tpm2b_struct_def constants)
  then have "tpm_marshal_array [(Tpm2bPublic, public_val p)] = Ok (encode Tpm2bPublic (public_val p))"
    by (intro tpm_marshal_one wire_field_codec [OF Tpm2bPublic_ok]) (simp add: Tpm2bPublic_valid assms)
  then show ?thesis
    by (simp add: built_key_def kf_with_kind_def kf_with_public_def kf_with_private_def unwrap_or_default_def)
qed

lemma built_key_ok:
  assumes "valid TpmtPublic (public_val p)" "length d \<le> MAX_PRIVATE_SIZE"
    "if kind = Key_SealedData then pa_object_type p = Alg_KeyedHash
     else pa_object_type p \<in> {Alg_Rsa, Alg_Ecc, Alg_KeyedHash}" "kind \<noteq> Key_Importable"
  shows "key_file_ok (built_key kind p d)"
proof -
  have "tpm_marshal_array [(Tpm2bPrivate, VBuffer d)] = Ok (encode Tpm2bPrivate (VBuffer d))"
    using assms(2) by (intro tpm_marshal_one wire_field_codec [OF Tpm2bPrivate_ok])
      (simp_all add: Tpm2bPrivate_def TpmBuffer_valid_iff TpmBuffer_def constants u16_max_def)
  with built_key_public [OF assms(1), of kind d] assms tpm_public_alg_encode [OF assms(1) public_val_head] tpm_private_encode [OF assms(2)]
  show ?thesis
    by (auto simp: key_file_ok_def built_key_def kf_with_kind_def kf_with_public_def kf_with_private_def
        KeyFile_new_def unwrap_or_default_def secret_ok_def parent_ok_def split: if_splits)
qed

lemma pem_roundtrip:
  assumes "key_codec_ok C" "key_file_ok k" "der_encode C (KeyFile_to_asn1 k) = Ok b"
  shows "KeyFile_to_pem C k = Ok (pem_encode C PEM_TAG b)"
    and "KeyFile_from_pem C (pem_encode C PEM_TAG b) = Ok k"
proof -
  have "tpm_validate_secret (kf_kind k) (kf_secret k) = Ok ()"
    "parent_ok (kf_rsa_parent k) (kf_parent k)"
    using assms(2) by (simp_all add: key_file_ok_def tpm_validate_secret_iff)
  with assms(3) show "KeyFile_to_pem C k = Ok (pem_encode C PEM_TAG b)"
    by (simp add: KeyFile_to_pem_def KeyFile_to_der_def)
  show "KeyFile_from_pem C (pem_encode C PEM_TAG b) = Ok k"
    using key_codec_okD(4) [OF assms(1,3)] key_codec_okD(5) [OF assms(1)] from_to_asn1 [OF assms(2)]
    by (simp add: KeyFile_from_pem_def KeyFile_from_der_def)
qed

end
