(* ===== verification/Key_Properties.thy ===== *)
theory Key_Properties
  imports Key_File_Laws Crypto_Properties
begin

text \<open>
  The properties of templates and key files.  The ASN.1 and PEM libraries of the witnesses are
  \<open>one_key_codec a\<close>: an encoder that knows the single structure \<open>a\<close>, with an armour that begins with the
  length of the tag in unary.
\<close>

definition one_key_codec :: "TpmKeyAsn1 \<Rightarrow> key_codec" where
  "one_key_codec a = \<lparr>
     der_encode = (\<lambda>x. if x = a then Ok [1] else Err ''unknown''),
     ber_decode = (\<lambda>b. if b = [1] then Ok a else Err ''malformed''),
     pem_encode = (\<lambda>tag d. replicate (length tag) CHR ''x'' @ CHR ''-'' # tag @ map (\<lambda>w. char_of (unat w)) d),
     pem_parse = (\<lambda>s. case split_once CHR ''-'' s of
         None \<Rightarrow> Err ''no armour''
       | Some (n, r) \<Rightarrow> Ok (take (length n) r, map (\<lambda>c. of_nat (of_char c)) (drop (length n) r)))\<rparr>"

lemma one_key_codec_ok: "key_codec_ok (one_key_codec a)"
proof -
  have "of_nat (of_char (char_of (unat w) :: char)) = w" for w :: u8
  proof -
    have "unat w < 256" using unsigned_less [of w] by simp
    then show ?thesis by simp
  qed
  then have "map ((\<lambda>c. of_nat (of_char c)) \<circ> (\<lambda>w. char_of (unat w) :: char)) d = d" for d :: "u8 list"
    by (simp add: map_idI)
  then show ?thesis
    by (auto simp: key_codec_ok_def one_key_codec_def split_once_append split: option.splits)
qed

subsection \<open>Templates\<close>

text \<open>C31.  Printing and parsing an algorithm string.  A template that an algorithm string describes is
  printed again, and the printed string describes the same template: nothing the string says - the
  kind, the key size or curve, the name algorithm, the scheme and with it the usage attributes - is
  lost.  The exception is the key size 0, which the parser accepts and the printer refuses.\<close>

theorem template_string_roundtrip:
  assumes "Template_from_str s = Ok t"
  shows "if zero_key_bits t then Template_to_string t = Err (Crypto_InvalidKeyBits 0)
    else \<exists>s'. Template_to_string t = Ok s' \<and> Template_from_str s' = Ok t"
  using assms by (rule template_string)

theorem template_string_roundtrip_witness:
  "\<exists>t. Template_from_str ''rsa-+02048:sha256:oaep'' = Ok t \<and> \<not> zero_key_bits t \<and>
     (\<exists>s'. Template_to_string t = Ok s' \<and> Template_from_str s' = Ok t)"
proof -
  let ?t = "rsa_template Alg_Oaep (Asym_Hash Alg_Sha256) 2048 Sha256 OBJECT_DECRYPT"
  have t: "Template_from_str ''rsa-+02048:sha256:oaep'' = Ok ?t"
    by (simp add: Template_from_str_def strip_prefix_def parse_rsa_def split_name_and_scheme_def
        u16_from_str_def u32_from_str_radix_def to_digit_def u32_max_def u16_max_def TpmHash_from_str_def
        TpmHash_variants_def parse_asym_form_def parse_scheme_def is_sign_scheme_def is_decrypt_scheme_def
        is_rsa_scheme_def asym_scheme_def with_public_def with_defs rsa_template_def Template_new_def)
  have "\<not> zero_key_bits ?t" by (simp add: zero_key_bits_def rsa_template_def)
  with t template_string_roundtrip [OF t] show ?thesis by auto
qed

text \<open>C32.  Typing of parsed templates.  The public area a parsed template becomes is a valid \<open>TPMT_PUBLIC\<close>:
  its selectors agree with the variants of its unions, whatever the string was, except for an XOR
  string.  So it marshals, into exactly the bytes that unmarshal to it.\<close>

theorem template_public_typed:
  assumes "Template_from_str s = Ok t" "strip_prefix ''keyedhash-xor:'' s = None"
  shows "\<exists>p. PublicArea_try_from t = Ok p \<and> valid TpmtPublic (public_val p) \<and>
    marshal_into (marshal TpmtPublic (public_val p)) (SIZE TpmtPublic) = Ok (encode TpmtPublic (public_val p)) \<and>
    unmarshal TpmtPublic (encode TpmtPublic (public_val p)) = Ok (public_val p, [])"
proof -
  obtain p where p: "PublicArea_try_from t = Ok p" using PublicArea_try_from_Ok by blast
  note c = wire_field_codec [OF TpmtPublic_ok]
  have v: "valid TpmtPublic (public_val p)"
    using assms p by (rule parsed_template_valid)
  have "length (encode TpmtPublic (public_val p)) \<le> SIZE TpmtPublic"
    using wire_codec.length_encode [OF c v] TpmtPublic_len [OF v] by simp
  then have "marshal_into (marshal TpmtPublic (public_val p)) (SIZE TpmtPublic) =
      Ok (encode TpmtPublic (public_val p))"
    by (intro marshal_into_emits wire_codec.marshal_emits [OF c v]) (simp_all add: usize_max_def)
  with p v codec_dec_enc [OF c v, of "[]"] show ?thesis by auto
qed

theorem template_public_typed_witness:
  "\<exists>t p. Template_from_str ''keyedhash-hmac:sha256'' = Ok t \<and> PublicArea_try_from t = Ok p \<and>
     valid TpmtPublic (public_val p)"
proof -
  have "Template_from_str ''keyedhash-hmac:sha256'' =
      Ok (keyedhash_template Alg_Hmac (Keyed_Hmac Alg_Sha256) Sha256)"
    by (simp add: Template_from_str_def strip_prefix_def parse_keyedhash_def TpmHash_from_str_def
        TpmHash_variants_def with_public_def with_defs keyedhash_template_def Template_new_def)
  from template_public_typed [OF this] this show ?thesis
    by (auto simp: strip_prefix_def)
qed

text \<open>The marshaller of an XOR template up to the selector it stops at.\<close>

lemma alg_marshal: "\<exists>b. length b = 2 \<and> marshal TpmAlgId_codec (alg_val a) = write_bytes b"
  by (intro exI [of _ "to_be_repr 2 (TpmAlgId_value a)"])
    (simp add: TpmAlgId_codec_def tpm_enum_codec_def alg_val_def to_be_repr_def)

lemma xor_kdf_marshal:
  "marshal TpmtKdfScheme (KdfScheme_val \<lparr>kdf_scheme = Alg_Kdf1Sp800_108, kdf_details = Kdf_Null\<rparr>) =
   wfail (\<lambda>w. VariantNotAvailable (cursor w) 0x22)"
  by (simp add: KdfScheme_val_def alg_val_def TpmtKdfScheme_def tpm_struct_tagged_def TpmuKdfScheme_def
      TpmuKdfScheme_arms_def tpmu_view_def tpmu_matches_tag_def as_u64_def)

lemma xor_scheme_marshal:
  "marshal TpmtKeyedhashScheme (VStruct [alg_val Alg_Xor, KeyedhashDetails_val (Keyed_Xor h
     \<lparr>kdf_scheme = Alg_Kdf1Sp800_108, kdf_details = Kdf_Null\<rparr>)]) =
   wseq (marshal TpmAlgId_codec (alg_val Alg_Xor)) (wseq (marshal TpmAlgId_codec (alg_val h))
     (wfail (\<lambda>w. VariantNotAvailable (cursor w) 0x22)))"
proof -
  have "marshal TpmsSchemeXor (VStruct [alg_val h, KdfScheme_val
      \<lparr>kdf_scheme = Alg_Kdf1Sp800_108, kdf_details = Kdf_Null\<rparr>]) =
    wseq (marshal TpmAlgId_codec (alg_val h)) (wfail (\<lambda>w. VariantNotAvailable (cursor w) 0x22))"
    by (simp add: TpmsSchemeXor_def tpm_struct_def TpmiAlgHash_def xor_kdf_marshal)
  then show ?thesis
    by (simp add: TpmtKeyedhashScheme_def tpm_struct_tagged_def TpmuKeyedhashScheme_def
        TpmuKeyedhashScheme_arms_def tpmu_view_def tpmu_matches_tag_def alg_val_def [of Alg_Xor])
qed

lemma wseq_fits:
  assumes "emits m bs" "writer_ok w" "cursor w + length bs \<le> length (buffer w)"
  shows "\<exists>w'. cursor w' = cursor w + length bs \<and> wseq m n w = n w'"
  unfolding wseq_def emits_fits [OF assms] by (intro exI conjI refl) simp_all

text \<open>C33.  XOR templates cannot be sent.  The template of every string \<open>keyedhash-xor:h\<close> selects the key
  derivation function SP800-108 and gives its details as \<open>Null\<close>, so marshalling its public area stops
  at that selector, and no name can be computed for it.\<close>

theorem xor_template_not_marshalled:
  assumes "TpmHash_from_str hash_alg = Some h"
  shows "\<exists>t p. Template_from_str (''keyedhash-xor:'' @ hash_alg) = Ok t \<and> PublicArea_try_from t = Ok p \<and>
    marshal_into (marshal TpmtPublic (public_val p)) (SIZE TpmtPublic) = Err (VariantNotAvailable 14 0x22) \<and>
    tpm_make_name L (public_val p) = Err (Crypto_Marshal (VariantNotAvailable 14 0x22))"
proof -
  let ?k = "\<lparr>kdf_scheme = Alg_Kdf1Sp800_108, kdf_details = Kdf_Null\<rparr>"
  let ?t = "keyedhash_template Alg_Xor (Keyed_Xor (TpmHash_into h) ?k) h"
  have t: "Template_from_str (''keyedhash-xor:'' @ hash_alg) = Ok ?t"
    using Template_from_str_forms(3) [of Alg_Xor hash_alg] parse_keyedhash_eq [OF assms, of Alg_Xor]
    by (simp add: keyedhash_prefix_def keyedhash_details_def)
  obtain p where p: "PublicArea_try_from ?t = Ok p" using PublicArea_try_from_Ok by blast
  then have pv: "p = \<lparr>pa_object_type = Alg_KeyedHash, pa_name_alg = TpmHash_into h,
      pa_object_attributes = OBJECT_SIGN_ENCRYPT, pa_auth_policy = [],
      pa_parameters = Parms_KeyedHash Alg_Xor (Keyed_Xor (TpmHash_into h) ?k), pa_unique = Id_KeyedHash []\<rparr>"
    by (simp add: PublicArea_try_from_def keyedhash_template_def)
  have m: "marshal_into (marshal TpmtPublic (public_val p)) (SIZE TpmtPublic) = Err (VariantNotAvailable 14 0x22)"
  proof -
    let ?F = "wfail (\<lambda>w. VariantNotAvailable (cursor w) 0x22)"
    let ?U = "u_marshal TpmuPublicId (VUnion ''KeyedHash'' (Some (VBuffer [])))"
    obtain a b c d where
      "length a = 2" "marshal TpmAlgId_codec (alg_val Alg_KeyedHash) = write_bytes a"
      "length b = 2" "marshal TpmAlgId_codec (alg_val (TpmHash_into h)) = write_bytes b"
      "length c = 2" "marshal TpmAlgId_codec (alg_val Alg_Xor) = write_bytes c"
      using alg_marshal by metis
    note algs = this
    have "marshal TpmtPublic (public_val p) = wseq (marshal TpmAlgId_codec (alg_val Alg_KeyedHash))
        (wseq (marshal TpmAlgId_codec (alg_val (TpmHash_into h)))
        (wseq (marshal TpmaObject (VBits (unat OBJECT_SIGN_ENCRYPT)))
        (wseq (marshal Tpm2bDigest (VBuffer []))
        (wseq (marshal TpmtKeyedhashScheme (VStruct [alg_val Alg_Xor, KeyedhashDetails_val (Keyed_Xor (TpmHash_into h) ?k)]))
          ?U))))"
      by (simp add: pv public_val_def TpmtPublic_def TpmuPublicParms_def TpmuPublicParms_arms_def
          TpmuPublicId_def TpmuPublicId_arms_def tpmu_view_def tpmu_matches_tag_def TpmsKeyedhashParms_def
          tpm_struct_def alg_val_def [of Alg_KeyedHash] del: KeyedhashDetails_val.simps)
    also have "\<dots> = wseq (write_chunks [a, b, to_be_bytes 4 (unat OBJECT_SIGN_ENCRYPT), [0, 0], [], c, b])
        (wseq ?F ?U)"
      unfolding xor_scheme_marshal
      by (simp add: algs TpmaObject_def tpm_bitflags_def Tpm2bDigest_def TpmBuffer_def wseq_assoc
          numeral_2_eq_2)
    finally have eq: "marshal TpmtPublic (public_val p) =
      wseq (write_chunks [a, b, to_be_bytes 4 (unat OBJECT_SIGN_ENCRYPT), [0, 0], [], c, b]) (wseq ?F ?U)" .
    have "emits (write_chunks [a, b, to_be_bytes 4 (unat OBJECT_SIGN_ENCRYPT), [0, 0], [], c, b])
        (a @ b @ to_be_bytes 4 (unat OBJECT_SIGN_ENCRYPT) @ [0, 0] @ c @ b)"
      unfolding emits_def by (intro exI conjI, rule refl) simp
    from wseq_fits [OF this, of "Writer_new (replicate 4096 0)" "wseq ?F ?U"] obtain w' where
      "cursor w' = 14" "marshal TpmtPublic (public_val p) (Writer_new (replicate 4096 0)) = wseq ?F ?U w'"
      unfolding eq by (auto simp: Writer_new_def writer_ok_def usize_max_def algs)
    then show ?thesis
      by (simp add: marshal_into_def wseq_def wfail_def)
  qed
  moreover have "TpmtPublic_name_alg (public_val p) = TpmHash_into h"
    by (simp add: pv public_val_def alg_val_def TpmtPublic_name_alg_def)
  ultimately show ?thesis
    using t p by (auto simp: tpm_make_name_def)
qed

theorem xor_template_not_marshalled_witness:
  "\<exists>t p. Template_from_str ''keyedhash-xor:sha256'' = Ok t \<and> PublicArea_try_from t = Ok p \<and>
    tpm_make_name sum_crypto (public_val p) = Err (Crypto_Marshal (VariantNotAvailable 14 0x22))"
proof -
  have "TpmHash_from_str ''sha256'' = Some Sha256" by (simp add: TpmHash_from_str_iff)
  from xor_template_not_marshalled [OF this, of sum_crypto] show ?thesis by auto
qed

text \<open>Public areas and templates.  A valid public area that converts to a template converts back to
  itself: the symmetric definition, which the template keeps apart from the parameters, is put back.\<close>

theorem public_template_roundtrip:
  assumes "valid TpmtPublic (public_val p)" "Template_try_from p = Ok t"
  shows "PublicArea_try_from t = Ok p"
  using assms by (rule template_of_public)

definition cipher_area :: PublicArea where
  "cipher_area = \<lparr>pa_object_type = Alg_SymCipher, pa_name_alg = Alg_Sha256,
     pa_object_attributes = OBJECT_DECRYPT, pa_auth_policy = [1, 2],
     pa_parameters = Parms_SymCipher \<lparr>sym_algorithm = Alg_Aes, sym_key_bits = KeyBits_Aes 128,
       sym_mode = Mode_Aes Alg_Cfb\<rparr>, pa_unique = Id_SymCipher [7]\<rparr>"

theorem public_template_roundtrip_witness:
  "\<exists>t. Template_try_from cipher_area = Ok t \<and> t_symmetric t \<noteq> SymDef_default \<and>
     PublicArea_try_from t = Ok cipher_area"
proof -
  have "valid TpmtSymDefObject (SymDef_val \<lparr>sym_algorithm = Alg_Aes, sym_key_bits = KeyBits_Aes 128,
      sym_mode = Mode_Aes Alg_Cfb\<rparr>)"
    by (simp add: TpmtSymDefObject_def TpmtSymDef_valid_iff parts_val TpmuSymKeyBits_def
        TpmuSymKeyBits_arms_def TpmuSymMode_def TpmuSymMode_arms_def tpmu_view_def tpmu_matches_tag_def)
  then have v: "valid TpmtPublic (public_val cipher_area)"
    by (simp add: cipher_area_def TpmtPublic_valid_iff public_val_def alg_val_def TpmuPublicParms_def
        TpmuPublicParms_arms_def TpmuPublicId_def TpmuPublicId_arms_def tpmu_view_def tpmu_matches_tag_def
        TpmaObject_def tpm_bitflags_def Tpm2bDigest_def TpmBuffer_valid_iff TpmsSymcipherParms_def
        tpm_struct_valid_iff Tpm2bSymKey_def constants u16_max_def)
  obtain t where t: "Template_try_from cipher_area = Ok t" "t_symmetric t \<noteq> SymDef_default"
    by (simp add: Template_try_from_def TpmHash_try_from_def cipher_area_def with_public_def with_defs
        SymDef_default_def)
  with public_template_roundtrip [OF v t(1)] show ?thesis by blast
qed

subsection \<open>Key files\<close>

text \<open>C34.  The secret of a key file.  A secret is accepted exactly when the type of the key allows its
  presence and it is one sized buffer of at most 512 bytes, whose size field says its length; the size
  may be zero.\<close>

theorem key_secret_exact:
  "tpm_validate_secret kind secret = Ok () \<longleftrightarrow>
     (kind \<noteq> Key_Importable \<and> secret = []) \<or>
     (kind \<noteq> Key_Loadable \<and>
      (\<exists>payload. length payload \<le> 512 \<and> secret = to_be_bytes 2 (length payload) @ payload))"
  using tpm_validate_secret_iff [of kind secret] by (simp add: secret_ok_def tpm2b_bytes_def constants)

text \<open>C35.  What a key file that was read satisfies.  Reading never returns a key whose areas do not parse,
  whose type does not admit its algorithm, whose secret does not fit its type, whose parent is not a
  permanent handle when it says it is, or whose policies hold a command that is not a policy command.
  So writing it again fails only if the ASN.1 library does, and what is written reads as the same key.\<close>

theorem key_read_invariant:
  assumes "key_codec_ok C" "KeyFile_from_pem C s = Ok k"
  shows "key_file_ok k \<and>
    KeyFile_to_pem C k = map_err Key_Asn1EncodingFailed
      (and_then (der_encode C (KeyFile_to_asn1 k)) (\<lambda>b. Ok (pem_encode C PEM_TAG b))) \<and>
    (\<forall>s'. KeyFile_to_pem C k = Ok s' \<longrightarrow> KeyFile_from_pem C s' = Ok k)"
proof -
  from assms(2) have ok: "key_file_ok k"
    by (auto simp: KeyFile_from_pem_def KeyFile_from_der_def dest: from_asn1_ok split: if_splits)
  have w: "KeyFile_to_pem C k = map_err Key_Asn1EncodingFailed
      (and_then (der_encode C (KeyFile_to_asn1 k)) (\<lambda>b. Ok (pem_encode C PEM_TAG b)))"
    using ok by (cases "der_encode C (KeyFile_to_asn1 k)")
      (simp_all add: KeyFile_to_pem_def KeyFile_to_der_def key_file_ok_def flip: tpm_validate_secret_iff)
  moreover have "KeyFile_from_pem C s' = Ok k" if "KeyFile_to_pem C k = Ok s'" for s'
    using that pem_roundtrip(2) [OF assms(1) ok] unfolding w by auto
  ultimately show ?thesis using ok by blast
qed

definition sealed_area :: PublicArea where
  "sealed_area = \<lparr>pa_object_type = Alg_KeyedHash, pa_name_alg = Alg_Sha256,
     pa_object_attributes = OBJECT_SIGN_ENCRYPT, pa_auth_policy = [],
     pa_parameters = Parms_KeyedHash Alg_Null Keyed_Null, pa_unique = Id_KeyedHash []\<rparr>"

lemma sealed_area_parsed:
  "Template_from_str ''keyedhash-null:sha256'' =
     Ok (keyedhash_template Alg_Null Keyed_Null Sha256)"
  "PublicArea_try_from (keyedhash_template Alg_Null Keyed_Null Sha256) = Ok sealed_area"
  by (simp_all add: Template_from_str_def strip_prefix_def parse_keyedhash_def TpmHash_from_str_def
      TpmHash_variants_def with_public_def with_defs keyedhash_template_def Template_new_def
      PublicArea_try_from_def sealed_area_def)

lemma sealed_area_valid: "valid TpmtPublic (public_val sealed_area)"
  using keyedhash_template_valid [of Alg_Null Sha256 sealed_area] sealed_area_parsed(2)
  by (simp add: keyedhash_details_def)

lemma sealed_key_ok: "key_file_ok (built_key Key_SealedData sealed_area [1, 2, 3])"
  by (rule built_key_ok [OF sealed_area_valid]) (simp_all add: sealed_area_def constants)

theorem key_read_invariant_witness:
  "\<exists>C s k. KeyFile_from_pem C s = Ok k \<and> key_file_ok k \<and> kf_kind k = Key_SealedData \<and>
     KeyFile_to_pem C k = Ok s"
proof -
  let ?k = "built_key Key_SealedData sealed_area [1, 2, 3]"
  let ?C = "one_key_codec (KeyFile_to_asn1 ?k)"
  have e: "der_encode ?C (KeyFile_to_asn1 ?k) = Ok [1]" by (simp add: one_key_codec_def)
  note r = pem_roundtrip [OF one_key_codec_ok sealed_key_ok e]
  have "kf_kind ?k = Key_SealedData"
    by (simp add: built_key_def kf_with_kind_def kf_with_public_def kf_with_private_def)
  with key_read_invariant [OF one_key_codec_ok r(2)] r show ?thesis by blast
qed

text \<open>From an algorithm string to a key file and back.  The public area of any parsed template (except
  an XOR one) with a private area that fits, built into a key file, written as PEM and read again, gives
  the same key; its public bytes still unmarshal to the area, under the algorithm of the template.\<close>

theorem key_of_template_roundtrip:
  assumes "Template_from_str s = Ok t" "strip_prefix ''keyedhash-xor:'' s = None"
    "PublicArea_try_from t = Ok p" "length d \<le> MAX_PRIVATE_SIZE" "kind \<noteq> Key_Importable"
    "kind = Key_SealedData \<longrightarrow> t_object_type t = Alg_KeyedHash" "key_codec_ok C"
    "der_encode C (KeyFile_to_asn1 (built_key kind p d)) = Ok b"
  shows "\<exists>pem. KeyFile_to_pem C (built_key kind p d) = Ok pem \<and>
    KeyFile_from_pem C pem = Ok (built_key kind p d) \<and>
    kf_public_alg (built_key kind p d) = t_object_type t \<and>
    unmarshal Tpm2bPublic (kf_public (built_key kind p d)) = Ok (public_val p, [])"
proof -
  have v: "valid TpmtPublic (public_val p)"
    using assms(1-3) by (rule parsed_template_valid)
  have types: "t_object_type t \<in> {Alg_Rsa, Alg_Ecc, Alg_KeyedHash}"
    using assms(1)
    by (cases rule: Template_from_strE) (auto elim!: parse_rsaE parse_eccE parse_keyedhashE
      simp: rsa_template_def ecc_template_def keyedhash_template_def)
  have obj: "pa_object_type p = t_object_type t"
    using assms(3) by (auto simp: PublicArea_try_from_def Let_def)
  have ok: "key_file_ok (built_key kind p d)"
    using assms(5,6) types obj by (intro built_key_ok [OF v assms(4)]) auto
  have "unmarshal Tpm2bPublic (kf_public (built_key kind p d)) = Ok (public_val p, [])"
    using codec_dec_enc [OF wire_field_codec [OF Tpm2bPublic_ok], of "public_val p" "[]"] v
    by (simp add: built_key_public [OF v] Tpm2bPublic_valid)
  with pem_roundtrip [OF assms(7) ok assms(8)] obj show ?thesis
    by (simp add: built_key_def kf_with_kind_def kf_with_public_def kf_with_private_def)
qed

theorem key_of_template_roundtrip_witness:
  "\<exists>C pem. KeyFile_to_pem C (built_key Key_SealedData sealed_area [1, 2, 3]) = Ok pem \<and>
    KeyFile_from_pem C pem = Ok (built_key Key_SealedData sealed_area [1, 2, 3])"
proof -
  let ?k = "built_key Key_SealedData sealed_area [1, 2, 3]"
  have "der_encode (one_key_codec (KeyFile_to_asn1 ?k)) (KeyFile_to_asn1 ?k) = Ok [1]"
    by (simp add: one_key_codec_def)
  from key_of_template_roundtrip [OF sealed_area_parsed(1) _ sealed_area_parsed(2) _ _ _ one_key_codec_ok this]
  show ?thesis
    by (auto simp: strip_prefix_def keyedhash_template_def constants)
qed

end
