(* ===== verification/Sh_Handle.thy ===== *)
theory Sh_Handle
  imports Rust_Text Enum_Small
begin

text \<open>
  Handles on the command line: \<open>sh/src/handle.rs\<close>.  A handle argument is eight hexadecimal digits with
  wildcards, kept as a mask and a value of 32 bits.
\<close>

unbundle bit_operations_syntax

datatype HandleError =
    HandleHasTooManyAsterisks
  | HandlePatternNotAllowed
  | HandleTooShort
  | HandleTooLong
  | InvalidHandleCharacter string
  | InvalidHandleType u8

primrec HandleError_display :: "HandleError \<Rightarrow> string" where
  "HandleError_display HandleHasTooManyAsterisks = ''handle has more than one asterisk''"
| "HandleError_display HandlePatternNotAllowed = ''handle pattern is not allowed''"
| "HandleError_display HandleTooShort = ''handle is less than eight characters''"
| "HandleError_display HandleTooLong = ''handle has more than eight characters''"
| "HandleError_display (InvalidHandleCharacter c) = ''invalid handle character: '' @ c"
| "HandleError_display (InvalidHandleType b) = ''invalid handle type: 0x'' @ hex_digits 2 (unat b)"

definition sh_handle_type :: "u32 \<Rightarrow> TpmHt option" where
  "sh_handle_type handle =
     (case enum_try_from TpmHt_value TpmHt_variants (uint (ucast (drop_bit 24 handle) :: u8)) of
        Ok ht \<Rightarrow> Some ht | _ \<Rightarrow> None)"

record Handle =
  h_mask :: u32
  h_value :: u32

definition Handle_new :: "u32 \<Rightarrow> Handle" where
  "Handle_new value = \<lparr>h_mask = 0xFFFFFFFF, h_value = value\<rparr>"

definition Handle_value :: "Handle \<Rightarrow> u32 option" where
  "Handle_value h = (if h_mask h = 0xFFFFFFFF then Some (h_value h) else None)"

definition Handle_require_value :: "Handle \<Rightarrow> (u32, HandleError) result" where
  "Handle_require_value h = ok_or HandlePatternNotAllowed (Handle_value h)"

definition Handle_matches :: "Handle \<Rightarrow> u32 \<Rightarrow> bool" where
  "Handle_matches h handle \<longleftrightarrow> handle AND h_mask h = h_value h"

text \<open>One position of the printed form, and the loop over the positions.\<close>

definition display_nibble :: "Handle \<Rightarrow> nat \<Rightarrow> string" where
  "display_nibble h i =
     (let shift = i * 4;
          nibble_mask = drop_bit shift (h_mask h) AND 0xF
      in if nibble_mask = 0xF then [digit_char (unat (drop_bit shift (h_value h) AND 0xF))] else ''?'')"

definition Handle_display :: "Handle \<Rightarrow> string" where
  "Handle_display h =
     (if h_mask h = 0 then ''*'' else concat (map (display_nibble h) (rev [0..<8])))"

text \<open>\<open>char::to_digit(16)\<close> of a character.\<close>

definition hex_digit_of :: "string \<Rightarrow> nat option" where
  "hex_digit_of ch = (case ch of [c] \<Rightarrow> to_digit 16 c | _ \<Rightarrow> None)"

text \<open>The loop of \<open>from_str\<close>.  A shift by 32 or more would overflow.\<close>

fun handle_chars :: "nat \<Rightarrow> string list \<Rightarrow> int \<Rightarrow> u32 \<Rightarrow> u32 \<Rightarrow> (Handle, HandleError) result" where
  "handle_chars padding [] nibble_idx m v = Ok \<lparr>h_mask = m, h_value = v\<rparr>"
| "handle_chars padding (c # cs) nibble_idx m v =
     (if c = ''*'' then handle_chars padding cs (nibble_idx - int padding) m v
      else let shift = nibble_idx * 4 in
        case hex_digit_of c of
          Some d \<Rightarrow>
            if shift < 0 \<or> shift \<ge> 32 then Panic
            else handle_chars padding cs (nibble_idx - 1)
              (m OR push_bit (nat shift) 0xF) (v OR push_bit (nat shift) (word_of_nat d))
        | None \<Rightarrow>
            if c = ''?'' then handle_chars padding cs (nibble_idx - 1) m v
            else Err (InvalidHandleCharacter c))"

definition Handle_from_str :: "string \<Rightarrow> (Handle, HandleError) result" where
  "Handle_from_str value_str =
     (if value_str = ''*'' then Ok \<lparr>h_mask = 0, h_value = 0\<rparr>
      else let asterisk_count = length (filter (\<lambda>c. c = ''*'') (chars value_str)) in
        if asterisk_count > 1 then Err HandleHasTooManyAsterisks
        else let explicit_len = length value_str - asterisk_count in
          if asterisk_count = 0 \<and> explicit_len < 8 then Err HandleTooShort
          else if explicit_len > 8 then Err HandleTooLong
          else handle_chars (8 - explicit_len) (chars value_str) 7 0 0)"

definition TpmHt_try_from_handle :: "Handle \<Rightarrow> (TpmHt, HandleError) result" where
  "TpmHt_try_from_handle handle =
     and_then (ok_or HandlePatternNotAllowed (Handle_value handle)) (\<lambda>raw_handle.
       ok_or (InvalidHandleType (ucast (drop_bit 24 raw_handle))) (sh_handle_type raw_handle))"

end
