(* ===== verification/Sh_Handle_Laws.thy ===== *)
theory Sh_Handle_Laws
  imports Sh_Handle
begin

text \<open>
  The meaning of a handle pattern.  A pattern is eight positions, each a digit or a wildcard;
  \<open>place\<close> is the word that a list of positions makes, and parsing, printing and matching are
  related to it.  The reference is \<open>glob\<close>, the matching of a text against a pattern with \<open>?\<close> and \<open>*\<close>.
\<close>

subsection \<open>Words of positions\<close>

definition place :: "('a \<Rightarrow> u32) \<Rightarrow> 'a list \<Rightarrow> u32" where
  "place f ps = fold (\<lambda>p w. push_bit 4 w OR f p) ps 0"

lemma place_simps [simp]: "place f [] = 0" "place f (ps @ [p]) = push_bit 4 (place f ps) OR f p"
  by (simp_all add: place_def)

definition mask_nibble :: "nat option \<Rightarrow> u32" where
  "mask_nibble p = (if p = None then 0 else 0xF)"

definition value_nibble :: "nat option \<Rightarrow> u32" where
  "value_nibble p = (case p of None \<Rightarrow> 0 | Some d \<Rightarrow> word_of_nat d)"

definition nibble_at :: "u32 \<Rightarrow> nat \<Rightarrow> u32" where
  "nibble_at v i = take_bit 4 (drop_bit (4 * i) v)"

lemma place_wild:
  assumes "f None = 0"
  shows "place f (ps @ replicate n None) = push_bit (4 * n) (place f ps)"
proof (induction n)
  case (Suc n)
  have "place f (ps @ replicate (Suc n) None) = push_bit 4 (place f (ps @ replicate n None)) OR f None"
    unfolding replicate_Suc replicate_append_same [symmetric] append_assoc [symmetric] place_simps ..
  with Suc assms show ?case by (simp add: push_bit_push_bit ac_simps)
qed simp

lemma place_bound:
  "(\<And>p. p \<in> set ps \<Longrightarrow> take_bit 4 (f p) = f p) \<Longrightarrow> take_bit (4 * length ps) (place f ps) = place f ps"
proof (induction ps rule: rev_induct)
  case (snoc p ps)
  have "take_bit (4 + 4 * length ps) (take_bit 4 (f p)) = take_bit 4 (f p)"
    by (simp add: take_bit_take_bit)
  then have "take_bit (4 + 4 * length ps) (f p) = f p" using snoc.prems [of p] by simp
  then show ?case
    using snoc by (simp add: take_bit_or take_bit_push_bit)
qed simp

lemma drop_place:
  assumes "\<And>p. p \<in> set (ps @ qs) \<Longrightarrow> take_bit 4 (f p) = f p" "length (ps @ qs) \<le> 8"
  shows "drop_bit (4 * length qs) (place f (ps @ qs)) = place f ps"
  using assms
proof (induction qs rule: rev_induct)
  case (snoc q qs)
  have b: "take_bit 28 (place f (ps @ qs)) = place f (ps @ qs)"
  proof -
    have "take_bit (4 * length (ps @ qs)) (place f (ps @ qs)) = place f (ps @ qs)"
      using snoc.prems(1) by (intro place_bound) auto
    moreover have "4 * length (ps @ qs) \<le> 28" using snoc.prems(2) by simp
    ultimately show ?thesis by (metis min.absorb2 take_bit_take_bit)
  qed
  have one: "drop_bit 4 (push_bit 4 (place f (ps @ qs)) OR f q) = place f (ps @ qs)"
  proof (rule bit_word_eqI)
    fix n assume "n < LENGTH(32)"
    have "\<not> bit (f q) (4 + n)"
      using snoc.prems(1) [of q] by (metis bit_take_bit_iff in_set_conv_decomp not_add_less1 append_assoc)
    moreover have "bit (place f (ps @ qs)) n \<Longrightarrow> n < 28"
      using b by (metis bit_take_bit_iff)
    ultimately show "bit (drop_bit 4 (push_bit 4 (place f (ps @ qs)) OR f q)) n = bit (place f (ps @ qs)) n"
      by (auto simp: bit_drop_bit_eq bit_or_iff bit_push_bit_iff)
  qed
  have "drop_bit (4 * length (qs @ [q])) (place f (ps @ qs @ [q])) =
      drop_bit (4 * length qs) (drop_bit 4 (place f ((ps @ qs) @ [q])))"
    unfolding drop_bit_drop_bit by (simp del: place_simps add: add.commute)
  then have "drop_bit (4 * length (qs @ [q])) (place f (ps @ qs @ [q])) = drop_bit (4 * length qs) (place f (ps @ qs))"
    unfolding place_simps one .
  with snoc show ?case by simp
qed simp

lemma take_place: "take_bit 4 (f p) = f p \<Longrightarrow> take_bit 4 (place f (ps @ [p])) = f p"
  by (simp add: take_bit_or take_bit_push_bit)

lemma nibble_at_place:
  assumes "\<And>p. p \<in> set ps \<Longrightarrow> take_bit 4 (f p) = f p" "length ps \<le> 8" "i < length ps"
  shows "nibble_at (place f ps) i = f (ps ! (length ps - 1 - i))"
proof -
  let ?k = "length ps - 1 - i"
  let ?a = "take ?k ps @ [ps ! ?k]" and ?b = "drop (Suc ?k) ps"
  have ab: "?a @ ?b = ps" using assms(3) by (simp add: id_take_nth_drop [symmetric])
  have lb: "length ?b = i" using assms(3) by simp
  have "drop_bit (4 * length ?b) (place f (?a @ ?b)) = place f ?a"
    by (rule drop_place) (use assms in \<open>auto dest: in_set_takeD in_set_dropD\<close>)
  then have "drop_bit (4 * i) (place f ps) = place f ?a"
    unfolding ab lb .
  then show ?thesis
    using assms(3) take_place [of f "ps ! ?k"] assms(1) by (simp add: nibble_at_def del: place_simps)
qed

lemma place_nibbles: "place (\<lambda>x. x) (map (nibble_at v) (rev [j..<j + k])) = take_bit (4 * k) (drop_bit (4 * j) v)"
proof (induction k arbitrary: j)
  case (Suc k)
  have "rev [j..<j + Suc k] = rev [Suc j..<Suc j + k] @ [j]" by (simp add: upt_conv_Cons)
  then have "place (\<lambda>x. x) (map (nibble_at v) (rev [j..<j + Suc k])) =
      push_bit 4 (take_bit (4 * k) (drop_bit 4 (drop_bit (4 * j) v))) OR take_bit 4 (drop_bit (4 * j) v)"
    using Suc [of "Suc j"] by (simp add: drop_bit_drop_bit nibble_at_def [of v j] add.commute del: upt_Suc)
  also have "\<dots> = take_bit (4 * Suc k) (drop_bit (4 * j) v)"
    by (rule bit_word_eqI) (auto simp: bit_or_iff bit_push_bit_iff bit_take_bit_iff bit_drop_bit_eq)
  finally show ?case .
qed (simp add: nibble_at_def)

definition nibbles :: "u32 \<Rightarrow> u32 list" where
  "nibbles v = map (nibble_at v) (rev [0..<8])"

lemma place_nibbles_id: "place (\<lambda>x. x) (nibbles v) = v" "length (nibbles v) = 8"
  using place_nibbles [of v 0 8] by (simp_all add: nibbles_def take_bit_word_eq_self)

lemma nibbles_bound: "x \<in> set (nibbles v) \<Longrightarrow> take_bit 4 x = x"
  by (auto simp: nibbles_def nibble_at_def)

subsection \<open>Matching\<close>

definition digit_ok :: "nat option \<Rightarrow> bool" where
  "digit_ok p \<longleftrightarrow> (\<forall>d. p = Some d \<longrightarrow> d < 16)"

lemma nibble_simps [simp]:
  "mask_nibble None = 0" "mask_nibble (Some d) = 0xF" "value_nibble None = 0" "value_nibble (Some d) = word_of_nat d"
  by (simp_all add: mask_nibble_def value_nibble_def)

lemma pattern_nibbles:
  "take_bit 4 (mask_nibble p) = mask_nibble p"
  "digit_ok p \<Longrightarrow> take_bit 4 (value_nibble p) = value_nibble p"
  by (cases p; simp add: digit_ok_def take_bit_of_nat take_bit_nat_def)+

lemma split_nibble: "(w :: u32) = w' \<longleftrightarrow> drop_bit 4 w = drop_bit 4 w' \<and> take_bit 4 w = take_bit 4 w'"
  by (metis bits_ident)

lemma nibble_matches:
  assumes "take_bit 4 x = (x :: u32)" "digit_ok p"
  shows "x AND mask_nibble p = value_nibble p \<longleftrightarrow> p = None \<or> p = Some (unat x)"
proof -
  have "x AND 0xF = x"
    using assms(1) by (simp add: take_bit_eq_mask mask_eq_exp_minus_1)
  moreover have "word_of_nat d = x \<longleftrightarrow> d = unat x" if "d < 16" for d
    using that by (auto simp: unsigned_of_nat take_bit_nat_def)
  ultimately show ?thesis
    using assms(2) by (cases p) (auto simp: digit_ok_def)
qed

lemma place_matches:
  assumes "length ps = length ns" "length ps \<le> 8" "\<And>p. p \<in> set ps \<Longrightarrow> digit_ok p"
    "\<And>x. x \<in> set ns \<Longrightarrow> take_bit 4 x = x"
  shows "place (\<lambda>x. x) ns AND place mask_nibble ps = place value_nibble ps \<longleftrightarrow>
    list_all2 (\<lambda>p x. p = None \<or> p = Some (unat x)) ps ns"
  using assms
proof (induction ps arbitrary: ns rule: rev_induct)
  case (snoc p ps)
  then obtain xs x where ns: "ns = xs @ [x]" by (metis append_butlast_last_id length_0_conv snoc_eq_iff_butlast)
  have d: "drop_bit 4 (place f (qs @ [q])) = place f qs"
    if "\<And>p. p \<in> set (qs @ [q]) \<Longrightarrow> take_bit 4 (f p) = f p" "length (qs @ [q]) \<le> 8" for f :: "'c \<Rightarrow> u32" and qs q
    using drop_place [of qs "[q]" f] that by simp
  have "place (\<lambda>x. x) ns AND place mask_nibble (ps @ [p]) = place value_nibble (ps @ [p]) \<longleftrightarrow>
      drop_bit 4 (place (\<lambda>x. x) ns) AND drop_bit 4 (place mask_nibble (ps @ [p])) =
        drop_bit 4 (place value_nibble (ps @ [p])) \<and>
      take_bit 4 (place (\<lambda>x. x) ns) AND take_bit 4 (place mask_nibble (ps @ [p])) =
        take_bit 4 (place value_nibble (ps @ [p]))"
    by (subst split_nibble) (simp only: drop_bit_and take_bit_and)
  also have "\<dots> \<longleftrightarrow>
      place (\<lambda>x. x) xs AND place mask_nibble ps = place value_nibble ps \<and> x AND mask_nibble p = value_nibble p"
    using snoc.prems pattern_nibbles ns
      d [of xs x "\<lambda>x. x"] d [of ps p mask_nibble] d [of ps p value_nibble]
      take_place [of "\<lambda>x. x" x xs] take_place [of mask_nibble p ps] take_place [of value_nibble p ps]
    by (auto simp del: place_simps)
  also have "\<dots> \<longleftrightarrow> list_all2 (\<lambda>p x. p = None \<or> p = Some (unat x)) ps xs \<and> (p = None \<or> p = Some (unat x))"
    using snoc ns nibble_matches [of x p] by auto
  finally show ?case using snoc.prems(1) by (simp add: ns list_all2_append)
qed simp

subsection \<open>Parsing\<close>

fun positions :: "nat \<Rightarrow> string list \<Rightarrow> nat option list option" where
  "positions padding [] = Some []"
| "positions padding (c # cs) =
     (if c = ''*'' then map_option (append (replicate padding None)) (positions padding cs)
      else case hex_digit_of c of
        Some d \<Rightarrow> map_option (Cons (Some d)) (positions padding cs)
      | None \<Rightarrow> if c = ''?'' then map_option (Cons None) (positions padding cs) else None)"

definition stars :: "string list \<Rightarrow> nat" where
  "stars cs = length (filter (\<lambda>c. c = ''*'') cs)"

lemma stars_simps [simp]: "stars [] = 0" "stars (c # cs) = (if c = ''*'' then Suc (stars cs) else stars cs)"
  by (simp_all add: stars_def)

lemma stars_le: "stars cs \<le> length cs"
  by (simp add: stars_def)

lemma hex_digit_of_less: "hex_digit_of c = Some d \<Longrightarrow> d < 16"
  by (auto simp: hex_digit_of_def to_digit_def Let_def split: list.splits if_splits)

lemma positions_length:
  "positions padding cs = Some qs \<Longrightarrow> length qs = length cs - stars cs + padding * stars cs"
proof (induction cs arbitrary: qs)
  case (Cons c cs)
  then show ?case
    using stars_le [of cs] by (auto simp: Suc_diff_le split: if_splits option.splits)
qed simp

lemma positions_ok: "positions padding cs = Some qs \<Longrightarrow> p \<in> set qs \<Longrightarrow> digit_ok p"
  by (induction cs arbitrary: qs)
    (auto simp: digit_ok_def dest: hex_digit_of_less split: if_splits option.splits)

text \<open>The words the loop has built after the positions \<open>ps\<close>.\<close>

definition placed :: "(nat option \<Rightarrow> u32) \<Rightarrow> nat option list \<Rightarrow> u32" where
  "placed f ps = push_bit (4 * (8 - length ps)) (place f ps)"

lemma placed_step:
  assumes "length ps < 8"
  shows "placed f (ps @ [p]) = placed f ps OR push_bit (4 * (7 - length ps)) (f p)"
proof -
  have "4 * (8 - length ps) = 4 + 4 * (7 - length ps)" using assms by simp
  then show ?thesis
    by (simp add: placed_def push_bit_or push_bit_push_bit add.commute)
qed

lemma placed_wild:
  "\<lbrakk>f None = 0; length ps + n \<le> 8\<rbrakk> \<Longrightarrow> placed f (ps @ replicate n None) = placed f ps"
proof -
  assume "f None = 0" "length ps + n \<le> 8"
  moreover from this have "4 * (8 - (length ps + n)) + 4 * n = 4 * (8 - length ps)" by simp
  ultimately show ?thesis by (simp add: placed_def place_wild push_bit_push_bit)
qed

lemma handle_chars_positions:
  assumes "length ps + (length cs - stars cs) + padding * stars cs \<le> 8"
  shows "case positions padding cs of
      Some qs \<Rightarrow> handle_chars padding cs (7 - int (length ps)) (placed mask_nibble ps) (placed value_nibble ps) =
        Ok \<lparr>h_mask = placed mask_nibble (ps @ qs), h_value = placed value_nibble (ps @ qs)\<rparr>
    | None \<Rightarrow> \<exists>c. handle_chars padding cs (7 - int (length ps)) (placed mask_nibble ps) (placed value_nibble ps) =
        Err (InvalidHandleCharacter c)"
  using assms
proof (induction cs arbitrary: ps)
  case (Cons c cs)
  show ?case
  proof (cases "c = ''*''")
    case True
    then have "placed mask_nibble (ps @ replicate padding None) = placed mask_nibble ps"
      "placed value_nibble (ps @ replicate padding None) = placed value_nibble ps"
      using Cons.prems by (intro placed_wild; simp)+
    then show ?thesis
      using Cons.IH [of "ps @ replicate padding None"] Cons.prems True
      by (auto split: option.splits simp: algebra_simps)
  next
    case False
    have less: "length ps < 8" "stars cs \<le> length cs"
      using Cons.prems False stars_le [of cs] by (simp_all add: Suc_diff_le)
    have step: "placed mask_nibble (ps @ [p]) = placed mask_nibble ps OR push_bit (4 * (7 - length ps)) (mask_nibble p)"
      "placed value_nibble (ps @ [p]) = placed value_nibble ps OR push_bit (4 * (7 - length ps)) (value_nibble p)" for p
      using less by (simp_all add: placed_step)
    have idx: "7 - int (length ps) - 1 = 7 - int (length (ps @ [p]))" for p :: "nat option" by simp
    have shift: "nat ((7 - int (length ps)) * 4) = 4 * (7 - length ps)"
      using less by (simp add: nat_mult_distrib nat_diff_distrib mult.commute)
    have prem: "length (ps @ [p]) + (length cs - stars cs) + padding * stars cs \<le> 8" for p
      using Cons.prems False less by (simp add: Suc_diff_le)
    show ?thesis
    proof (cases "hex_digit_of c")
      case None
      then show ?thesis
        using False Cons.IH [OF prem [of None]] step [of None]
        by (auto simp: idx [of None] split: option.splits)
    next
      case (Some d)
      then show ?thesis
        using False less Cons.IH [OF prem [of "Some d"]] step [of "Some d"] shift
        by (auto simp: idx [of "Some d"] split: option.splits)
    qed
  qed
qed simp

lemma placed_full: "length ps = 8 \<Longrightarrow> placed f ps = place f ps"
  by (simp add: placed_def)

text \<open>What parsing accepts: at most one asterisk, digits and question marks, and eight positions.\<close>

lemma chars_bytes: "length (chars s) \<le> length s"
proof (induction s rule: chars.induct)
  case (2 c s)
  have "Suc (length s) - utf8_len c \<le> length s" using utf8_len_pos [of c] by linarith
  with 2 show ?case by simp
qed simp

lemma single_chars:
  assumes "\<And>c. c \<in> set (chars s) \<Longrightarrow> length c = 1"
  shows "chars s = map (\<lambda>c. [c]) s"
proof -
  have "concat cs = map hd cs" if "\<forall>c \<in> set cs. length c = 1" for cs :: "string list"
    using that by (induction cs) (auto simp: length_Suc_conv)
  moreover have "map (\<lambda>c. [hd c]) (chars s) = map (\<lambda>c. c) (chars s)"
    using assms by (intro map_cong refl) (auto simp: length_Suc_conv dest!: assms)
  ultimately show ?thesis
    using assms concat_chars [of s] by (metis (no_types, lifting) map_ident map_map comp_apply map_cong)
qed

lemma positions_single: "positions padding cs = Some qs \<Longrightarrow> c \<in> set cs \<Longrightarrow> length c = 1"
  by (induction cs arbitrary: qs)
    (auto simp: hex_digit_of_def split: if_splits option.splits list.splits)

lemma Handle_from_str_cases:
  obtains (positions) qs where
      "Handle_from_str s = Ok \<lparr>h_mask = place mask_nibble qs, h_value = place value_nibble qs\<rparr>"
      "length qs = 8" "\<And>p. p \<in> set qs \<Longrightarrow> digit_ok p" "chars s = map (\<lambda>c. [c]) s"
      "positions (8 - (length s - stars (chars s))) (chars s) = Some qs" "stars (chars s) \<le> 1"
  | (error) e where "Handle_from_str s = Err e"
proof (cases "s = ''*''")
  case True
  have "chars s = [''*'']" by (simp add: True utf8_len_def)
  moreover have "place f (replicate 8 None) = 0" if "f None = 0" for f :: "nat option \<Rightarrow> u32"
    using place_wild [of f "[]" 8] that by simp
  ultimately show ?thesis
    using positions [of "replicate 8 None"] True
    by (simp add: Handle_from_str_def digit_ok_def mask_nibble_def value_nibble_def)
next
  case False
  let ?e = "length s - stars (chars s)"
  show ?thesis
  proof (cases "stars (chars s) > 1 \<or> (stars (chars s) = 0 \<and> ?e < 8) \<or> ?e > 8")
    case True
    then have "\<exists>e. Handle_from_str s = Err e"
      using False by (auto simp: Handle_from_str_def stars_def Let_def)
    then show ?thesis using error by blast
  next
    case ok: False
    then have run: "Handle_from_str s = handle_chars (8 - ?e) (chars s) 7 0 0"
      using False by (auto simp: Handle_from_str_def stars_def Let_def)
    have prem: "length ([] :: nat option list) + (length (chars s) - stars (chars s)) + (8 - ?e) * stars (chars s) \<le> 8"
      using ok chars_bytes [of s] by (cases "stars (chars s)") auto
    note loop = handle_chars_positions [OF prem]
    show ?thesis
    proof (cases "positions (8 - ?e) (chars s)")
      case None
      with loop run error show ?thesis by (auto simp: placed_def)
    next
      case (Some qs)
      have single: "chars s = map (\<lambda>c. [c]) s"
        using positions_single [OF Some] by (rule single_chars)
      then have "length (chars s) = length s" by (metis length_map)
      then have len: "length qs = 8"
        using positions_length [OF Some] ok stars_le [of "chars s"] by (cases "stars (chars s)") auto
      then show ?thesis
        using positions [OF _ len positions_ok [OF Some] single Some] loop Some run ok
        by (simp add: placed_full) (simp add: placed_def)
    qed
  qed
qed

subsection \<open>Glob patterns\<close>

text \<open>The reference: \<open>?\<close> stands for one character, \<open>*\<close> for any number of them, a digit for itself in
  either case.\<close>

fun glob :: "string \<Rightarrow> string \<Rightarrow> bool" where
  "glob [] t \<longleftrightarrow> t = []"
| "glob (p # ps) t \<longleftrightarrow>
     (if p = CHR ''*'' then list_ex (\<lambda>i. glob ps (drop i t)) [0..<Suc (length t)]
      else case t of
        [] \<Rightarrow> False
      | c # cs \<Rightarrow>
          (p = CHR ''?'' \<or> (to_digit 16 p \<noteq> None \<and> to_digit 16 p = to_digit 16 c)) \<and> glob ps cs)"

definition fits :: "nat option \<Rightarrow> char \<Rightarrow> bool" where
  "fits p c \<longleftrightarrow> p = None \<or> p = to_digit 16 c"

lemma glob_plain:
  assumes "positions padding (map (\<lambda>c. [c]) s) = Some qs" "stars (map (\<lambda>c. [c]) s) = 0"
  shows "glob s t \<longleftrightarrow> list_all2 fits qs t"
  using assms
proof (induction s arbitrary: qs t)
  case (Cons c s)
  have q: "to_digit 16 CHR ''?'' = None" by (simp add: to_digit_def)
  show ?case
  proof (cases t)
    case Nil
    then show ?thesis using Cons.prems by (auto split: if_splits option.splits)
  next
    case (Cons d t')
    then show ?thesis
      using Cons.prems Cons.IH q
      by (auto simp: fits_def hex_digit_of_def split: if_splits option.splits)
  qed
qed simp

lemma glob_positions:
  assumes "positions padding (map (\<lambda>c. [c]) s) = Some qs" "stars (map (\<lambda>c. [c]) s) \<le> 1" "length t = length qs"
  shows "glob s t \<longleftrightarrow> list_all2 fits qs t"
  using assms
proof (induction s arbitrary: qs t)
  case (Cons c s)
  show ?case
  proof (cases "c = CHR ''*''")
    case True
    then obtain rs where rs: "positions padding (map (\<lambda>c. [c]) s) = Some rs" "qs = replicate padding None @ rs"
      using Cons.prems(1) by auto
    have none: "stars (map (\<lambda>c. [c]) s) = 0" using Cons.prems(2) True by simp
    have len: "length t = padding + length rs" using Cons.prems(3) rs(2) by simp
    have wild: "list_all2 fits (replicate n None) u \<longleftrightarrow> length u = n" for n u
      by (auto simp: list_all2_conv_all_nth fits_def)
    have "glob (c # s) t \<longleftrightarrow> (\<exists>i \<le> length t. list_all2 fits rs (drop i t))"
      using True glob_plain [OF rs(1) none] by (auto simp: list_ex_iff less_Suc_eq_le Bex_def simp del: upt_Suc)
    also have "\<dots> \<longleftrightarrow> list_all2 fits rs (drop padding t)"
    proof -
      have "i = padding" if "i \<le> length t" "list_all2 fits rs (drop i t)" for i
        using list_all2_lengthD [OF that(2)] that(1) len by simp
      then show ?thesis using len by (auto intro: exI [of _ padding])
    qed
    also have "\<dots> \<longleftrightarrow> list_all2 fits qs t"
    proof -
      have "list_all2 fits (replicate padding None @ rs) (take padding t @ drop padding t) \<longleftrightarrow>
          list_all2 fits rs (drop padding t)"
        by (subst list_all2_append) (use len wild in auto)
      then show ?thesis by (simp add: rs(2))
    qed
    finally show ?thesis .
  next
    case False
    have q: "to_digit 16 CHR ''?'' = None" by (simp add: to_digit_def)
    obtain d t' where t: "t = d # t'"
      using Cons.prems False by (cases t) (auto split: if_splits option.splits)
    then show ?thesis
      using Cons.prems Cons.IH False q
      by (auto simp: fits_def hex_digit_of_def split: if_splits option.splits)
  qed
qed simp

lemma hex_digits_nibbles: "hex_digits 8 (unat v) = map (\<lambda>x. digit_char (unat x)) (nibbles v)"
proof -
  have "hex_digits k n = map (\<lambda>i. digit_char (n div 16 ^ i mod 16)) (rev [0..<k])" for k n
  proof (induction k arbitrary: n)
    case (Suc k)
    have "rev [0..<Suc k] = map Suc (rev [0..<k]) @ [0]" by (simp add: rev_map [symmetric] map_Suc_upt upt_conv_Cons del: upt_Suc)
    then show ?case using Suc by (simp add: div_mult2_eq del: upt_Suc)
  qed simp
  moreover have "unat (nibble_at v i) = unat v div 16 ^ i mod 16" for i
    unfolding nibble_at_def unsigned_take_bit_eq unat_drop_bit_eq
    by (simp add: take_bit_eq_mod drop_bit_eq_div power_mult)
  ultimately show ?thesis by (simp add: nibbles_def comp_def del: upt_Suc hex_digits.simps)
qed

lemma matches_glob:
  assumes "Handle_from_str s = Ok h"
  shows "Handle_matches h v \<longleftrightarrow> glob s (hex_digits 8 (unat v))"
proof (cases rule: Handle_from_str_cases [of s])
  case (positions qs)
  have nib: "unat x < 16" if "x \<in> set (nibbles v)" for x
    using nibbles_bound [OF that] by (metis unsigned_take_bit_eq take_bit_nat_less_exp [of 4, simplified])
  have h: "h = \<lparr>h_mask = place mask_nibble qs, h_value = place value_nibble qs\<rparr>"
    using assms positions(1) by simp
  have "Handle_matches h v \<longleftrightarrow> place (\<lambda>x. x) (nibbles v) AND place mask_nibble qs = place value_nibble qs"
    by (simp add: Handle_matches_def h place_nibbles_id)
  also have "\<dots> \<longleftrightarrow> list_all2 (\<lambda>p x. p = None \<or> p = Some (unat x)) qs (nibbles v)"
    using positions place_nibbles_id nibbles_bound by (intro place_matches) auto
  also have "\<dots> \<longleftrightarrow> list_all2 fits qs (hex_digits 8 (unat v))"
    unfolding hex_digits_nibbles list_all2_map2
    by (intro list.rel_cong refl) (auto simp: fits_def to_digit_digit_char nib)
  also have "\<dots> \<longleftrightarrow> glob s (hex_digits 8 (unat v))"
    using positions by (intro glob_positions [symmetric]) auto
  finally show ?thesis .
qed (use assms in simp)

subsection \<open>Printing\<close>

lemma display_positions:
  assumes "length qs = 8" "\<And>p. p \<in> set qs \<Longrightarrow> digit_ok p"
  defines "h \<equiv> \<lparr>h_mask = place mask_nibble qs, h_value = place value_nibble qs\<rparr>"
  shows "concat (map (display_nibble h) (rev [0..<8])) =
    map (\<lambda>p. case p of None \<Rightarrow> CHR ''?'' | Some d \<Rightarrow> digit_char d) qs"
proof -
  have nib: "drop_bit (i * 4) w AND 0xF = nibble_at w i" for w :: u32 and i
    by (simp add: nibble_at_def take_bit_eq_mask mask_eq_exp_minus_1 mult.commute)
  have "display_nibble h i = [case qs ! (7 - i) of None \<Rightarrow> CHR ''?'' | Some d \<Rightarrow> digit_char d]" if "i < 8" for i
  proof -
    have ok: "digit_ok (qs ! (7 - i))" using assms(1,2) that by (intro assms(2) nth_mem) simp
    have "nibble_at (place mask_nibble qs) i = mask_nibble (qs ! (7 - i))"
      "nibble_at (place value_nibble qs) i = value_nibble (qs ! (7 - i))"
      using nibble_at_place [of qs mask_nibble i] nibble_at_place [of qs value_nibble i] assms that pattern_nibbles
      by auto
    with ok show ?thesis
      by (cases "qs ! (7 - i)")
        (simp_all add: display_nibble_def h_def nib digit_ok_def unsigned_of_nat take_bit_nat_def)
  qed
  then have "concat (map (display_nibble h) (rev [0..<8])) =
      map (\<lambda>i. case qs ! (7 - i) of None \<Rightarrow> CHR ''?'' | Some d \<Rightarrow> digit_char d) (rev [0..<8])"
    by (simp add: upt_rec)
  also have "\<dots> = map (\<lambda>p. case p of None \<Rightarrow> CHR ''?'' | Some d \<Rightarrow> digit_char d) (map (\<lambda>i. qs ! (7 - i)) (rev [0..<8]))"
    by simp
  also have "map (\<lambda>i. qs ! (7 - i)) (rev [0..<8]) = qs"
    using assms(1) by (intro nth_equalityI) (simp_all add: rev_nth)
  finally show ?thesis .
qed

lemma wildcard_no_digit: "to_digit 16 CHR ''*'' = None" "to_digit 16 CHR ''?'' = None"
  by (simp_all add: to_digit_def Let_def)

lemma digit_char_props:
  assumes "d < 16"
  shows "digit_char d \<noteq> CHR ''*''" "digit_char d \<noteq> CHR ''?''" "(of_char (digit_char d) :: nat) < 128"
  using to_digit_digit_char [OF assms, of] wildcard_no_digit assms by (auto simp: digit_char_def)

lemma position_text:
  assumes "\<And>p. p \<in> set qs \<Longrightarrow> digit_ok p"
  defines "s \<equiv> map (\<lambda>p. case p of None \<Rightarrow> CHR ''?'' | Some d \<Rightarrow> digit_char d) qs"
  shows "chars s = map (\<lambda>c. [c]) s" "stars (chars s) = 0" "positions n (chars s) = Some qs"
proof -
  have "ascii s"
    using assms digit_char_props(3) by (auto simp: ascii_def list_all_iff digit_ok_def split: option.split)
  then show single: "chars s = map (\<lambda>c. [c]) s" by (rule chars_ascii)
  show "stars (chars s) = 0"
    unfolding single using assms digit_char_props(1)
    by (auto simp: stars_def filter_empty_conv digit_ok_def split: option.splits)
  have *: "positions n (map (\<lambda>c. [c]) (map (\<lambda>p. case p of None \<Rightarrow> CHR ''?'' | Some d \<Rightarrow> digit_char d) rs)) = Some rs"
    if "\<forall>p \<in> set rs. digit_ok p" for rs
    using that
  proof (induction rs)
    case (Cons p rs)
    then show ?case
      by (cases p) (simp_all add: wildcard_no_digit hex_digit_of_def to_digit_digit_char digit_ok_def digit_char_props)
  qed simp
  have "positions n (map (\<lambda>c. [c]) s) = Some qs"
    unfolding s_def by (rule *) (simp add: assms(1))
  then show "positions n (chars s) = Some qs"
    by (simp only: single)
qed

lemma Handle_from_str_plain:
  assumes "stars (chars s) = 0" "chars s = map (\<lambda>c. [c]) s" "length s = 8" "positions 0 (chars s) = Some qs"
  shows "Handle_from_str s = Ok \<lparr>h_mask = place mask_nibble qs, h_value = place value_nibble qs\<rparr>"
proof -
  have len: "length (chars s) = 8" using assms(2,3) by (metis length_map)
  have "s \<noteq> ''*''" using assms(3) by auto
  then have "Handle_from_str s = handle_chars 0 (chars s) 7 0 0"
    using assms(1,3) by (simp add: Handle_from_str_def stars_def Let_def)
  moreover have "length qs = 8" using positions_length [OF assms(4)] len assms(1) by simp
  ultimately show ?thesis
    using handle_chars_positions [of "[]" "chars s" 0] len assms
    by (simp add: placed_full) (simp add: placed_def)
qed

lemma handle_display_parses:
  assumes "Handle_from_str s = Ok h"
  shows "Handle_from_str (Handle_display h) = Ok h"
proof (cases rule: Handle_from_str_cases [of s])
  case (positions qs)
  have h: "h = \<lparr>h_mask = place mask_nibble qs, h_value = place value_nibble qs\<rparr>"
    using assms positions(1) by simp
  show ?thesis
  proof (cases "h_mask h = 0")
    case True
    have "mask_nibble p = 0" if p: "p \<in> set qs" for p
    proof -
      obtain j where "j < 8" "p = qs ! j" using p positions(2) by (auto simp: in_set_conv_nth)
      then have "7 - j < 8" "p = qs ! (7 - (7 - j))" by simp_all
      then show ?thesis
        using nibble_at_place [of qs mask_nibble "7 - j"] positions(2) pattern_nibbles True
        by (simp add: h nibble_at_def)
    qed
    moreover have "p = None" if "mask_nibble p = 0" for p
      using that by (cases p) simp_all
    ultimately have "qs = replicate 8 None"
      using positions(2) by (intro replicate_eqI) auto
    then have "h = \<lparr>h_mask = 0, h_value = 0\<rparr>"
      using place_wild [of mask_nibble "[]" 8] place_wild [of value_nibble "[]" 8] by (simp add: h)
    with True show ?thesis by (simp add: Handle_display_def Handle_from_str_def)
  next
    case False
    let ?t = "map (\<lambda>p. case p of None \<Rightarrow> CHR ''?'' | Some d \<Rightarrow> digit_char d) qs"
    have t: "Handle_display h = ?t"
      using False display_positions [OF positions(2,3)] by (simp add: Handle_display_def h)
    have "Handle_from_str ?t = Ok \<lparr>h_mask = place mask_nibble qs, h_value = place value_nibble qs\<rparr>"
      by (rule Handle_from_str_plain) (rule position_text [OF positions(3)] | simp add: positions(2))+
    then show ?thesis
      unfolding t using h by simp
  qed
qed (use assms in simp)

end
