(* ===== verification/Sh_Task.thy ===== *)
theory Sh_Task
  imports Device_Session Vtpm Key_File Sh_Handle
begin

text \<open>
  The state of a command: \<open>sh/src/task.rs\<close> and \<open>error.rs\<close>.  A command works on the device, which it has
  borrowed, and on its \<open>TaskState\<close>; an operation is a function of the two that returns its result with
  what it leaves of both, or never returns (\<open>None\<close>).  Hash maps and sets are association lists and lists
  in iteration order.  What the code takes from outside is in the record \<open>sh_env\<close>: OpenSSL, the transport,
  the files of the cache, hexadecimal coding and the sources of random bytes.
\<close>

subsection \<open>Errors\<close>

text \<open>\<open>anyhow::Error\<close>: a message, or the error of another crate that \<open>?\<close> wraps.  The message of
  \<open>Sh_InvalidAlgorithm\<close> contains the debug name of the algorithm.\<close>

datatype sh_error =
    Sh_Msg string
  | Sh_Tpm TpmError
  | Sh_Crypto TpmCryptoError
  | Sh_Vtpm VtpmError
  | Sh_Key TpmKeyError
  | Sh_Policy TpmPolicyError
  | Sh_Io IoError
  | Sh_InvalidAlgorithm TpmAlgId

definition device_err :: "TpmDeviceError \<Rightarrow> sh_error" where
  "device_err err = (case err of
       Dev_TpmRc rc \<Rightarrow> Sh_Msg
         (if TpmRc_base rc \<in> {Rc_Handle, Rc_ReferenceH0, Rc_Type} then ''invalid parent handle''
          else if TpmRc_base rc = Rc_AuthFail then ''access denied''
          else if TpmRc_base rc = Rc_AuthMissing then ''authentication missing''
          else if TpmRc_base rc = Rc_Lockout then ''dictionary attack lockout is active''
          else if TpmRc_base rc = Rc_PolicyFail then ''policy denied''
          else ''device: '' @ TpmDeviceError_display (Dev_TpmRc rc))
     | other \<Rightarrow> Sh_Msg (''device: '' @ TpmDeviceError_display other))"

definition handle_not_found :: "u32 \<Rightarrow> sh_error" where
  "handle_not_found vhandle = Sh_Msg (''handle not found: '' @ hex_digits 8 (unat vhandle))"

subsection \<open>The state\<close>

datatype Auth = Auth_Password "u8 list" | Auth_Session u32

definition Auth_default :: Auth where "Auth_default = Auth_Password []"

text \<open>The calls of \<open>TaskStateProgress\<close>, in order; \<open>None\<close> when there is no terminal.\<close>

datatype progress_event = Progress_start | Progress_stop

record TaskState =
  ts_cache :: VtpmCache
  ts_progress :: "progress_event list option"
  ts_sessions :: "(u32 \<times> DevPolicySession) list"
  ts_virt_handles :: "(u32 \<times> u32) list"
  ts_phys_handles :: "u32 list"
  ts_auth_map :: "(u32 \<times> Auth) list"

record 't sh_env =
  env_crypto :: libcrypto
  env_transport :: "'t TpmTransport"
  env_io :: vtpm_io
  env_hex :: hex_lib
  env_rng :: "nat \<Rightarrow> u8 list"
  env_rand_bytes :: "nat \<Rightarrow> u8 list option"

type_synonym 't world = "'t TpmDevice \<times> TaskState"

type_synonym ('a, 's) sh = "'s \<Rightarrow> (('a, sh_error) result \<times> 's) option"

definition sh_return :: "('a, sh_error) result \<Rightarrow> ('a, 's) sh" where
  "sh_return r w = Some (r, w)"

definition sh_bind :: "('a, 's) sh \<Rightarrow> ('a \<Rightarrow> ('b, 's) sh) \<Rightarrow> ('b, 's) sh" where
  "sh_bind m f w = (case m w of
       None \<Rightarrow> None
     | Some (Ok x, w) \<Rightarrow> f x w
     | Some (Err e, w) \<Rightarrow> Some (Err e, w)
     | Some (Panic, w) \<Rightarrow> Some (Panic, w))"

text \<open>A call of the device with its error mapped by \<open>device_err\<close>, and one whose result the code inspects.\<close>

definition on_device :: "('a, 't TpmDevice) dev \<Rightarrow> ('a, 't world) sh" where
  "on_device m w = (case w of (d, s) \<Rightarrow> map_option (\<lambda>(r, d). (map_err device_err r, (d, s))) (m d))"

definition try_device :: "('a, 't TpmDevice) dev \<Rightarrow> ('a + TpmDeviceError, 't world) sh" where
  "try_device m w = (case w of (d, s) \<Rightarrow> map_option (\<lambda>(r, d).
     (case r of Ok x \<Rightarrow> Ok (Inl x) | Err e \<Rightarrow> Ok (Inr e) | Panic \<Rightarrow> Panic, (d, s))) (m d))"

definition on_cache :: "(VtpmCache \<Rightarrow> 'a VtpmResult \<times> VtpmCache) \<Rightarrow> ('a, 't world) sh" where
  "on_cache m w = (case w of (d, s) \<Rightarrow>
     (case m (ts_cache s) of (r, c) \<Rightarrow> Some (map_err Sh_Vtpm r, (d, s\<lparr>ts_cache := c\<rparr>))))"

definition get_state :: "(TaskState, 't world) sh" where
  "get_state w = Some (Ok (snd w), w)"

definition modify_state :: "(TaskState \<Rightarrow> TaskState) \<Rightarrow> (unit, 't world) sh" where
  "modify_state f w = (case w of (d, s) \<Rightarrow> Some (Ok (), (d, f s)))"

subsection \<open>Sessions and handles\<close>

definition remove_session :: "'t sh_env \<Rightarrow> u32 \<Rightarrow> (unit, 't world) sh" where
  "remove_session E vhandle =
     sh_bind get_state (\<lambda>s. case map_of (ts_sessions s) vhandle of
       None \<Rightarrow> sh_return (Err (handle_not_found vhandle))
     | Some session \<Rightarrow>
         sh_bind (modify_state (\<lambda>s. s\<lparr>ts_sessions := AList.delete vhandle (ts_sessions s)\<rparr>)) (\<lambda>_.
           on_device (session_flush (env_transport E) session)))"

definition track :: "'t sh_env \<Rightarrow> u32 \<Rightarrow> (unit, 't world) sh" where
  "track E phys_handle =
     sh_bind get_state (\<lambda>s.
       if phys_handle \<in> set (ts_phys_handles s)
       then sh_bind (try_device (flush_context (env_transport E) (handle_val phys_handle))) (\<lambda>_.
         sh_return (Err (Sh_Msg (''handle already tracked: '' @ nat_display (unat phys_handle)))))
       else modify_state (\<lambda>s. s\<lparr>ts_phys_handles := ts_phys_handles s @ [phys_handle]\<rparr>))"

definition auth_for :: "TaskState \<Rightarrow> u32 \<Rightarrow> Auth" where
  "auth_for s handle = (case map_of (ts_auth_map s) handle of Some auth \<Rightarrow> auth | None \<Rightarrow> Auth_default)"

definition untrack :: "u32 \<Rightarrow> TaskState \<Rightarrow> TaskState" where
  "untrack handle s = s\<lparr>ts_phys_handles := filter (\<lambda>h. h \<noteq> handle) (ts_phys_handles s),
     ts_virt_handles := filter (\<lambda>(_, v). v \<noteq> handle) (ts_virt_handles s)\<rparr>"

definition load_key_by_handle :: "'t sh_env \<Rightarrow> u32 \<Rightarrow> (u32, 't world) sh" where
  "load_key_by_handle E target =
     sh_bind get_state (\<lambda>s. case map_of (ts_virt_handles s) target of
       Some phandle \<Rightarrow> sh_return (Ok phandle)
     | None \<Rightarrow>
         if sh_handle_type target = Some Ht_Persistent then sh_return (Ok target)
         else (case find_by_handle (ts_cache s) target of
           None \<Rightarrow> sh_return (Err (handle_not_found target))
         | Some key \<Rightarrow>
             sh_bind (on_device (load_context (env_transport E) (key_context key))) (\<lambda>loaded.
               let loaded_phandle = handle_value loaded in
               sh_bind (track E loaded_phandle) (\<lambda>_.
               sh_bind (modify_state (\<lambda>s.
                   s\<lparr>ts_virt_handles := AList.update target loaded_phandle (ts_virt_handles s)\<rparr>)) (\<lambda>_.
                 sh_return (Ok loaded_phandle))))))"

definition load_key_by_name :: "'t sh_env \<Rightarrow> u8 list \<Rightarrow> (u32, 't world) sh" where
  "load_key_by_name E name =
     sh_bind get_state (\<lambda>s. case find_by_name (ts_cache s) name of
       Some key \<Rightarrow> load_key_by_handle E (u32_of (key_handle key))
     | None \<Rightarrow> sh_return (Err (Sh_Msg (''handle name not found: '' @ hex_encode (env_hex E) name))))"

subsection \<open>Executing commands\<close>

definition password_handle :: val where
  "password_handle = int_new 4 (nat (TpmRh_value Rh_Pw))"

definition build_password_session :: "u8 list \<Rightarrow> (val, sh_error) result" where
  "build_password_session password =
     and_then (map_err (\<lambda>_. Sh_Msg (''password of '' @ nat_display (length password) @ '' bytes exceeds '' @
         nat_display MAX_DIGEST_SIZE @ '' byte capacity'')) (TpmBuffer_try_from MAX_DIGEST_SIZE password)) (\<lambda>hmac.
       Ok (VStruct [password_handle, VBuffer [], VBits 0, VBuffer hmac]))"

definition session_auth :: "'t sh_env \<Rightarrow> TaskState \<Rightarrow> u32 \<Rightarrow> (val, sh_error) result" where
  "session_auth E s vhandle =
     and_then (ok_or (handle_not_found vhandle) (map_of (ts_sessions s) vhandle)) (\<lambda>session.
     and_then (map_err Sh_Crypto (TpmHash_try_from (s_hash_alg session))) (\<lambda>h.
       let nonce_size = md_size (env_crypto E) h in
     and_then (ok_or (Sh_Msg ''failed to generate nonce'') (env_rand_bytes E nonce_size)) (\<lambda>nonce_bytes.
     and_then (map_err (\<lambda>_. Sh_Msg (''nonce of '' @ nat_display nonce_size @ '' bytes exceeds '' @
         nat_display MAX_DIGEST_SIZE @ '' byte capacity'')) (TpmBuffer_try_from MAX_DIGEST_SIZE nonce_bytes))
       (\<lambda>nonce. Ok (VStruct [s_handle session, VBuffer nonce, VBits (s_attributes session), VBuffer []])))))"

fun build_auths :: "'t sh_env \<Rightarrow> TaskState \<Rightarrow> Auth list \<Rightarrow> (val list, sh_error) result" where
  "build_auths E s [] = Ok []"
| "build_auths E s (auth # auth_list) =
     and_then (case auth of
         Auth_Session vhandle \<Rightarrow> session_auth E s vhandle
       | Auth_Password password \<Rightarrow> build_password_session password) (\<lambda>auth_cmd.
     and_then (build_auths E s auth_list) (\<lambda>sessions. Ok (auth_cmd # sessions)))"

definition progress :: "progress_event \<Rightarrow> TaskState \<Rightarrow> TaskState" where
  "progress event s = s\<lparr>ts_progress := map_option (\<lambda>es. es @ [event]) (ts_progress s)\<rparr>"

definition execute :: "'t sh_env \<Rightarrow> TpmFrame \<Rightarrow> Auth list \<Rightarrow> (u8 list, 't world) sh" where
  "execute E command auth_list =
     sh_bind (modify_state (progress Progress_start)) (\<lambda>_.
     sh_bind get_state (\<lambda>s.
     sh_bind (sh_return (build_auths E s auth_list)) (\<lambda>sessions.
     sh_bind (try_device (transmit (env_transport E) command sessions)) (\<lambda>result.
     sh_bind (modify_state (progress Progress_stop)) (\<lambda>_.
       sh_return (case result of Inl response \<Rightarrow> Ok response | Inr e \<Rightarrow> Err (device_err e)))))))"

text \<open>\<open>execute\<close>, and \<open>unmarshal\<close> on the response.\<close>

definition execute_body ::
  "'t sh_env \<Rightarrow> frame_decl \<Rightarrow> frame_body \<Rightarrow> frame_decl \<Rightarrow> Auth list \<Rightarrow> (frame_body, 't world) sh" where
  "execute_body E cmd body resp auth_list =
     sh_bind (execute E (frame_of cmd body) auth_list) (\<lambda>response.
       sh_return (map_err Sh_Tpm (TpmResponse_unmarshal resp response)))"

definition import_key ::
  "'t sh_env \<Rightarrow> u32 \<Rightarrow> val \<Rightarrow> val \<Rightarrow> val \<Rightarrow> val \<Rightarrow> val \<Rightarrow> Auth list \<Rightarrow> (val, 't world) sh" where
  "import_key E parent_handle public duplicate in_sym_seed encryption_key symmetric_alg auth_list =
     sh_bind (execute_body E TpmImportCommand
         \<lparr>b_handles = [handle_val parent_handle],
          b_params = [encryption_key, public, duplicate, in_sym_seed, symmetric_alg]\<rparr>
         TpmImportResponse auth_list)
       (\<lambda>body. sh_return (case b_params body of [out_private] \<Rightarrow> Ok out_private | _ \<Rightarrow> Panic))"

definition evict_control :: "'t sh_env \<Rightarrow> u32 \<Rightarrow> u32 \<Rightarrow> (unit, 't world) sh" where
  "evict_control E object_to_evict persistent_handle =
     (let auth_handle = word_of_int (TpmRh_value
            (if persistent_handle AND 0x00FFFFFF \<le> 0x007FFFFF then Rh_Owner else Rh_Platform)) in
      sh_bind get_state (\<lambda>s.
      sh_bind (execute_body E TpmEvictControlCommand
          \<lparr>b_handles = [handle_val auth_handle, handle_val object_to_evict],
           b_params = [handle_val persistent_handle]\<rparr>
          TpmEvictControlResponse [auth_for s auth_handle])
        (\<lambda>_. sh_return (Ok ()))))"

subsection \<open>Refreshing the cache\<close>

definition stale_context :: "TpmRc \<Rightarrow> bool" where
  "stale_context rc \<longleftrightarrow>
     TpmRc_base rc \<in> {Rc_ReferenceH0, Rc_Integrity, Rc_Hierarchy, Rc_Value, Rc_Handle}"

definition refresh_key :: "'t sh_env \<Rightarrow> val \<Rightarrow> (bool, 't TpmDevice) dev" where
  "refresh_key E ctx d = (case load_context (env_transport E) ctx d of
       None \<Rightarrow> None
     | Some (Ok handle, d) \<Rightarrow>
         dev_bind (flush_context (env_transport E) handle) (\<lambda>_. dev_return (Ok True)) d
     | Some (Err e, d) \<Rightarrow> (case e of
           Dev_TpmRc rc \<Rightarrow>
             if stale_context rc then Some (Ok False, d) else Some (Err (Dev_TpmRc rc), d)
         | _ \<Rightarrow> Some (Err e, d))
     | Some (Panic, d) \<Rightarrow> Some (Panic, d))"

text \<open>The first loop returns the first error and the handles to remove.\<close>

definition or_first :: "sh_error option \<Rightarrow> sh_error \<Rightarrow> sh_error option" where
  "or_first first_error e = (case first_error of None \<Rightarrow> Some e | Some _ \<Rightarrow> first_error)"

fun refresh_handles ::
  "'t sh_env \<Rightarrow> u32 list \<Rightarrow> sh_error option \<times> u32 list \<Rightarrow> (sh_error option \<times> u32 list, 't world) sh" where
  "refresh_handles E [] acc = sh_return (Ok acc)"
| "refresh_handles E (vhandle # vhandles) (first_error, handles_to_remove) =
     (if sh_handle_type vhandle = Some Ht_Persistent
      then refresh_handles E vhandles (first_error, handles_to_remove)
      else sh_bind get_state (\<lambda>s. case find_by_handle (ts_cache s) vhandle of
        None \<Rightarrow> refresh_handles E vhandles (first_error, handles_to_remove)
      | Some key \<Rightarrow>
          sh_bind (try_device (refresh_key E (key_context key))) (\<lambda>r. case r of
            Inl True \<Rightarrow>
              sh_bind (modify_state (\<lambda>s. s\<lparr>ts_cache := mark_dirty vhandle (ts_cache s)\<rparr>)) (\<lambda>_.
                refresh_handles E vhandles (first_error, handles_to_remove))
          | Inl False \<Rightarrow> refresh_handles E vhandles (first_error, handles_to_remove @ [vhandle])
          | Inr e \<Rightarrow>
              refresh_handles E vhandles (or_first first_error (device_err e), handles_to_remove @ [vhandle]))))"

fun remove_handles :: "'t sh_env \<Rightarrow> u32 list \<Rightarrow> sh_error option \<Rightarrow> (sh_error option, 't world) sh" where
  "remove_handles E [] first_error w = Some (Ok first_error, w)"
| "remove_handles E (vhandle # vhandles) first_error w = (case on_cache (remove_key (env_io E) vhandle) w of
       None \<Rightarrow> None
     | Some (Ok _, w) \<Rightarrow> remove_handles E vhandles first_error w
     | Some (Err e, w) \<Rightarrow> remove_handles E vhandles (or_first first_error e) w
     | Some (Panic, w) \<Rightarrow> Some (Panic, w))"

definition refresh_cache :: "'t sh_env \<Rightarrow> (unit, 't world) sh" where
  "refresh_cache E =
     sh_bind get_state (\<lambda>s.
     sh_bind (refresh_handles E (map fst (key_iter (ts_cache s))) (None, [])) (\<lambda>(first_error, handles_to_remove).
     sh_bind (remove_handles E handles_to_remove first_error) (\<lambda>first_error.
       sh_return (case first_error of None \<Rightarrow> Ok () | Some e \<Rightarrow> Err e))))"

text \<open>\<open>validate_persistent_handles\<close>, run when a task begins.\<close>

fun validate_handles :: "'t sh_env \<Rightarrow> u32 list \<Rightarrow> (unit, 't world) sh" where
  "validate_handles E [] = sh_return (Ok ())"
| "validate_handles E (vhandle # vhandles) =
     sh_bind get_state (\<lambda>s. case find_by_handle (ts_cache s) vhandle of
       None \<Rightarrow> validate_handles E vhandles
     | Some key \<Rightarrow>
         sh_bind (try_device (read_public (env_transport E) (handle_val vhandle))) (\<lambda>r. case r of
           Inl (_, name_on_tpm) \<Rightarrow>
             sh_bind (sh_return (map_err Sh_Crypto (tpm_make_name (env_crypto E) (key_public key)))) (\<lambda>cached_name.
               if VBuffer cached_name \<noteq> name_on_tpm
               then sh_bind (on_cache (remove_key (env_io E) vhandle)) (\<lambda>_. validate_handles E vhandles)
               else validate_handles E vhandles)
         | Inr _ \<Rightarrow> sh_bind (on_cache (remove_key (env_io E) vhandle)) (\<lambda>_. validate_handles E vhandles)))"

definition validate_persistent_handles :: "'t sh_env \<Rightarrow> (unit, 't world) sh" where
  "validate_persistent_handles E =
     sh_bind get_state (\<lambda>s.
       validate_handles E (filter (\<lambda>h. sh_handle_type h = Some Ht_Persistent) (map fst (key_iter (ts_cache s)))))"

definition TaskState_init :: "VtpmCache \<Rightarrow> progress_event list option \<Rightarrow> (u32 \<times> Auth) list \<Rightarrow> TaskState" where
  "TaskState_init cache prog auth_map = \<lparr>ts_cache = cache, ts_progress = prog, ts_sessions = [],
     ts_virt_handles = [], ts_phys_handles = [], ts_auth_map = auth_map\<rparr>"

text \<open>\<open>TaskState::new\<close> with a device; without one the state is \<open>TaskState_init\<close>.\<close>

definition TaskState_new ::
  "'t sh_env \<Rightarrow> 't TpmDevice \<Rightarrow> VtpmCache \<Rightarrow> progress_event list option \<Rightarrow> (u32 \<times> Auth) list \<Rightarrow>
   ((unit, sh_error) result \<times> 't world) option" where
  "TaskState_new E device cache prog auth_map =
     validate_persistent_handles E (device, TaskState_init cache prog auth_map)"

subsection \<open>Policies\<close>

definition fetch_policy ::
  "'t sh_env \<Rightarrow> u32 \<Rightarrow> (u32 \<times> VtpmPolicyCommand list \<times> TpmAlgId, 't world) sh" where
  "fetch_policy E handle =
     sh_bind (load_key_by_handle E handle) (\<lambda>phys_handle.
       if sh_handle_type handle = Some Ht_Transient then
         sh_bind get_state (\<lambda>s. sh_return
           (and_then (ok_or (handle_not_found handle) (find_by_handle (ts_cache s) handle)) (\<lambda>key.
              Ok (phys_handle, key_policy key, TpmtPublic_name_alg (key_public key)))))
       else
         sh_bind (on_device (read_public (env_transport E) (handle_val phys_handle))) (\<lambda>(public, _).
           sh_return (Ok (phys_handle, [], TpmtPublic_name_alg public))))"

text \<open>The bytes of a name or another buffer.\<close>

definition buffer_bytes :: "val \<Rightarrow> u8 list" where
  "buffer_bytes v = (case v of VBuffer b \<Rightarrow> b | _ \<Rightarrow> [])"

definition load_policy_secret ::
  "'t sh_env \<Rightarrow> VtpmPolicyCommand \<Rightarrow> (TpmCommandValue \<times> TpmAuthCommands, 't world) sh" where
  "load_policy_secret E vtpm_cmd =
     sh_bind (sh_return (map_err Sh_Tpm (VtpmPolicySecretCommand_unmarshal (policy_body vtpm_cmd))))
       (\<lambda>(vtpm_secret_cmd, rest).
         if rest \<noteq> [] then sh_return (Err (Sh_Msg ''malformed data''))
         else case vtpm_secret_cmd of
           VtpmPolicySecretCommand object_handle_hint object_name policy_ref \<Rightarrow>
             let name = buffer_bytes object_name in
             sh_bind (if name = [] then sh_return (Ok (u32_of object_handle_hint)) else load_key_by_name E name)
               (\<lambda>live_handle.
             sh_bind get_state (\<lambda>s.
               let task_auth = (if name = [] then Auth_default
                 else case find_by_name (ts_cache s) name of
                   None \<Rightarrow> Auth_default
                 | Some k \<Rightarrow> auth_for s (u32_of (key_handle k)))
               in case task_auth of
                 Auth_Session _ \<Rightarrow> sh_return (Err (Sh_Msg ''invalid auth''))
               | Auth_Password password \<Rightarrow>
                   sh_return (and_then (build_password_session password) (\<lambda>auth_cmd.
                     Ok (OtherCmd Cc_PolicySecret
                           \<lparr>b_handles = [handle_val live_handle, handle_val 0],
                            b_params = [VBuffer [], VBuffer [], policy_ref, int_new 4 0]\<rparr>, [auth_cmd])))))
         | _ \<Rightarrow> sh_return Panic)"

fun load_commands ::
  "'t sh_env \<Rightarrow> VtpmPolicyCommand list \<Rightarrow> ((TpmCommandValue \<times> TpmAuthCommands) list, 't world) sh" where
  "load_commands E [] = sh_return (Ok [])"
| "load_commands E (vtpm_cmd # policy) =
     sh_bind (if policy_cc vtpm_cmd = Cc_PolicySecret then load_policy_secret E vtpm_cmd
              else sh_return (and_then (map_err Sh_Vtpm (to_command vtpm_cmd)) (\<lambda>(cc, body).
                Ok (OtherCmd cc body, [])))) (\<lambda>command.
     sh_bind (load_commands E policy) (\<lambda>commands. sh_return (Ok (command # commands))))"

definition load_policy ::
  "'t sh_env \<Rightarrow> VtpmPolicyCommand list \<Rightarrow>
   ((TpmCommandValue \<times> TpmAuthCommands) list option, 't world) sh" where
  "load_policy E policy =
     (if policy = [] then sh_return (Ok None)
      else sh_bind (load_commands E policy) (\<lambda>commands. sh_return (Ok (Some commands))))"

text \<open>A policy session is opened, run and kept; one whose run fails is flushed.\<close>

definition run_policy_session ::
  "'t sh_env \<Rightarrow> TpmAlgId \<Rightarrow> (TpmCommandValue \<times> TpmAuthCommands) list \<Rightarrow> (u32, 't world) sh" where
  "run_policy_session E name_alg commands =
     sh_bind (on_device (session_open (env_crypto E) (env_transport E) (env_rng E)
         (with_auth_hash name_alg SessionBuilder_default))) (\<lambda>session.
     sh_bind (try_device (session_run (env_transport E) session commands)) (\<lambda>r. case r of
         Inr e \<Rightarrow> sh_bind (try_device (session_flush (env_transport E) session)) (\<lambda>_.
           sh_return (Err (device_err e)))
       | Inl _ \<Rightarrow>
           let vhandle = handle_value (s_handle session) in
           sh_bind (modify_state (\<lambda>s. s\<lparr>ts_sessions := AList.update vhandle session (ts_sessions s)\<rparr>)) (\<lambda>_.
             sh_return (Ok vhandle))))"

definition resolve_auth :: "'t sh_env \<Rightarrow> u32 \<Rightarrow> (u32 \<times> TpmAlgId \<times> Auth, 't world) sh" where
  "resolve_auth E handle =
     sh_bind (fetch_policy E handle) (\<lambda>(phys_handle, policy, name_alg).
     sh_bind get_state (\<lambda>s. case map_of (ts_auth_map s) handle of
       Some auth \<Rightarrow> sh_return (Ok (phys_handle, name_alg, auth))
     | None \<Rightarrow>
         sh_bind (load_policy E policy) (\<lambda>loaded. case loaded of
           Some commands \<Rightarrow>
             if commands = [] then sh_return (Ok (phys_handle, name_alg, Auth_default))
             else sh_bind (run_policy_session E name_alg commands) (\<lambda>vhandle.
               sh_return (Ok (phys_handle, name_alg, Auth_Session vhandle)))
         | None \<Rightarrow> sh_return (Ok (phys_handle, name_alg, Auth_default)))))"

definition marshal_command_frame :: "TpmCommandValue \<Rightarrow> TpmAuthCommands \<Rightarrow> (u8 list, sh_error) result" where
  "marshal_command_frame command auths =
     (let tag = (if auths = [] then St_NoSessions else St_Sessions) in
      map_err Sh_Tpm (marshal_into
        (tpm_marshal_command (frame_of (command_decl (TpmCommandValue_cc command)) (TpmCommandValue_body command))
          tag auths) TPM_MAX_COMMAND_SIZE))"

definition secret_object_name ::
  "'t sh_env \<Rightarrow> TpmCommandValue \<Rightarrow> (val, 't world) sh" where
  "secret_object_name E cmd =
     (if TpmCommandValue_cc cmd = Cc_PolicySecret then
        case b_handles (TpmCommandValue_body cmd) of
          handle # _ \<Rightarrow>
            sh_bind get_state (\<lambda>s. case find_by_handle (ts_cache s) (u32_of handle) of
              Some key \<Rightarrow> sh_return (and_then (map_err Sh_Crypto (tpm_make_name (env_crypto E) (key_public key)))
                (\<lambda>name. Ok (VBuffer name)))
            | None \<Rightarrow> sh_bind (on_device (read_public (env_transport E) handle)) (\<lambda>(_, name). sh_return (Ok name)))
        | [] \<Rightarrow> sh_return Panic
      else sh_return (Ok (VBuffer [])))"

fun save_vtpm_policy ::
  "'t sh_env \<Rightarrow> (TpmCommandValue \<times> TpmAuthCommands) list \<Rightarrow> (VtpmPolicyCommand list, 't world) sh" where
  "save_vtpm_policy E [] = sh_return (Ok [])"
| "save_vtpm_policy E ((cmd, auths) # commands) =
     sh_bind (secret_object_name E cmd) (\<lambda>object_name.
     sh_bind (sh_return (marshal_command_frame cmd auths)) (\<lambda>frame.
     sh_bind (sh_return (map_err Sh_Tpm (TpmCommand_cast frame))) (\<lambda>command_frame.
     sh_bind (sh_return (map_err Sh_Vtpm (vtpm_policy_command_from command_frame object_name))) (\<lambda>policy_command.
     sh_bind (save_vtpm_policy E commands) (\<lambda>vtpm_policy. sh_return (Ok (policy_command # vtpm_policy)))))))"

definition save_key_policy ::
  "'t sh_env \<Rightarrow> (TpmCommandValue \<times> TpmAuthCommands) list \<Rightarrow> (TpmKeyPolicyCommand list, 't world) sh" where
  "save_key_policy E commands =
     sh_bind (save_vtpm_policy E commands) (\<lambda>vtpm_policy.
       sh_return (Ok (map (\<lambda>cmd. \<lparr>kp_cc = policy_cc cmd, kp_body = policy_body cmd\<rparr>) vtpm_policy)))"

subsection \<open>The end of a task\<close>

text \<open>\<open>drop\<close>: every tracked handle is flushed, then every session, whatever the device answers.\<close>

fun flush_handles :: "'t sh_env \<Rightarrow> u32 list \<Rightarrow> (unit, 't world) sh" where
  "flush_handles E [] = sh_return (Ok ())"
| "flush_handles E (handle # hs) =
     sh_bind (try_device (flush_context (env_transport E) (handle_val handle))) (\<lambda>_. flush_handles E hs)"

fun flush_sessions :: "'t sh_env \<Rightarrow> DevPolicySession list \<Rightarrow> (unit, 't world) sh" where
  "flush_sessions E [] = sh_return (Ok ())"
| "flush_sessions E (session # ss) =
     sh_bind (try_device (session_flush (env_transport E) session)) (\<lambda>_. flush_sessions E ss)"

definition TaskState_drop :: "'t sh_env \<Rightarrow> (unit, 't world) sh" where
  "TaskState_drop E =
     sh_bind get_state (\<lambda>s.
     sh_bind (modify_state (\<lambda>s. s\<lparr>ts_phys_handles := []\<rparr>)) (\<lambda>_.
     sh_bind (flush_handles E (ts_phys_handles s)) (\<lambda>_.
     sh_bind (flush_sessions E (map snd (ts_sessions s))) (\<lambda>_.
       modify_state (\<lambda>s. s\<lparr>ts_cache := teardown (env_io E) (ts_cache s)\<rparr>)))))"

end
