(* ===== verification/Sh_Task_Laws.thy ===== *)
theory Sh_Task_Laws
  imports Sh_Task Vtpm_State Device_Laws
begin

text \<open>
  The invariant of a task.  \<open>keeps\<close> says that an operation preserves a predicate on the state whatever it
  returns; it is closed under sequencing, so the operations keep \<open>task_ok\<close> by their structure.
  \<open>task_step\<close> is the step relation of the public operations, \<open>task_reachable\<close> what they reach.
\<close>

subsection \<open>Running operations\<close>

lemma sh_simps [simp]:
  "sh_return r w = Some (r, w)" "get_state w = Some (Ok (snd w), w)"
  "modify_state f (d, s) = Some (Ok (), (d, f s))"
  by (simp_all add: sh_return_def get_state_def modify_state_def)

lemma sh_bind_run [simp]:
  "m w = Some (Ok x, w') \<Longrightarrow> sh_bind m f w = f x w'"
  "m w = Some (Err e, w') \<Longrightarrow> sh_bind m f w = Some (Err e, w')"
  "m w = None \<Longrightarrow> sh_bind m f w = None"
  by (simp_all add: sh_bind_def)

lemma sh_bind_Some:
  "sh_bind m f w = Some (r, w') \<longleftrightarrow>
     (\<exists>x w1. m w = Some (Ok x, w1) \<and> f x w1 = Some (r, w')) \<or>
     (\<exists>e. m w = Some (Err e, w') \<and> r = Err e) \<or> (m w = Some (Panic, w') \<and> r = Panic)"
  by (auto simp: sh_bind_def split: option.splits prod.splits result.splits)

lemma sh_bind_Ok:
  "sh_bind m f w = Some (Ok y, w') \<longleftrightarrow> (\<exists>x w1. m w = Some (Ok x, w1) \<and> f x w1 = Some (Ok y, w'))"
  by (auto simp: sh_bind_Some)

lemma on_device_Some:
  "on_device m (d, s) = Some (r, w') \<longleftrightarrow> (\<exists>r' d'. m d = Some (r', d') \<and> r = map_err device_err r' \<and> w' = (d', s))"
  by (auto simp: on_device_def)

lemma try_device_Some:
  "try_device m (d, s) = Some (r, w') \<longleftrightarrow> (\<exists>r' d'. m d = Some (r', d') \<and> w' = (d', s) \<and>
     r = (case r' of Ok x \<Rightarrow> Ok (Inl x) | Err e \<Rightarrow> Ok (Inr e) | Panic \<Rightarrow> Panic))"
  by (auto simp: try_device_def)

lemma on_cache_Some:
  "on_cache m (d, s) = Some (r, w') \<longleftrightarrow>
     (\<exists>r' c. m (ts_cache s) = (r', c) \<and> r = map_err Sh_Vtpm r' \<and> w' = (d, s\<lparr>ts_cache := c\<rparr>))"
  by (auto simp: on_cache_def split: prod.splits)

definition keeps :: "(TaskState \<Rightarrow> bool) \<Rightarrow> ('a, 't world) sh \<Rightarrow> bool" where
  "keeps P m \<longleftrightarrow> (\<forall>w r w'. m w = Some (r, w') \<longrightarrow> P (snd w) \<longrightarrow> P (snd w'))"

named_theorems keeps "operations that keep a predicate"

lemma keepsI: "(\<And>d s r d' s'. \<lbrakk>m (d, s) = Some (r, (d', s')); P s\<rbrakk> \<Longrightarrow> P s') \<Longrightarrow> keeps P m"
  by (auto simp: keeps_def)

lemma keepsD: "\<lbrakk>keeps P m; m w = Some (r, w'); P (snd w)\<rbrakk> \<Longrightarrow> P (snd w')"
  unfolding keeps_def by blast

lemma keeps_return [keeps]: "keeps P (sh_return r)"
  by (simp add: keeps_def)

lemma keeps_get [keeps]: "keeps P get_state"
  by (simp add: keeps_def)

lemma keeps_bind [keeps]: "\<lbrakk>keeps P m; \<And>x. keeps P (f x)\<rbrakk> \<Longrightarrow> keeps P (sh_bind m f)"
  by (fastforce simp: keeps_def sh_bind_Some)

lemma keeps_on_device [keeps]: "keeps P (on_device m)"
  by (auto simp: keeps_def on_device_def)

lemma keeps_try_device [keeps]: "keeps P (try_device m)"
  by (auto simp: keeps_def try_device_def)

lemma keeps_cases [keeps]:
  "\<lbrakk>keeps P a; \<And>x. keeps P (f x)\<rbrakk> \<Longrightarrow> keeps P (case y of None \<Rightarrow> a | Some x \<Rightarrow> f x)"
  "\<lbrakk>\<And>x. keeps P (f x); \<And>e. keeps P (g e)\<rbrakk> \<Longrightarrow> keeps P (case z of Inl x \<Rightarrow> f x | Inr e \<Rightarrow> g e)"
  "(\<And>x1 x2. keeps P (h x1 x2)) \<Longrightarrow> keeps P (case v of (x1, x2) \<Rightarrow> h x1 x2)"
  "\<lbrakk>keeps P a; keeps P b\<rbrakk> \<Longrightarrow> keeps P (if c then a else b)"
  "\<lbrakk>keeps P a; keeps P b\<rbrakk> \<Longrightarrow> keeps P (case c of True \<Rightarrow> a | False \<Rightarrow> b)"
  "\<lbrakk>keeps P a; \<And>x xs. keeps P (k x xs)\<rbrakk> \<Longrightarrow> keeps P (case l of [] \<Rightarrow> a | x # xs \<Rightarrow> k x xs)"
  "\<lbrakk>\<And>x. keeps P (m x); \<And>x. keeps P (n x)\<rbrakk> \<Longrightarrow>
     keeps P (case au of Auth_Password x \<Rightarrow> m x | Auth_Session x \<Rightarrow> n x)"
  "\<lbrakk>\<And>x y. keeps P (p1 x y); \<And>x y z. keeps P (p2 x y z); \<And>x y z. keeps P (p3 x y z)\<rbrakk> \<Longrightarrow>
     keeps P (case vc of VtpmPolicyDefaultCommand x y \<Rightarrow> p1 x y | VtpmPolicyAuthorizeCommand x y z \<Rightarrow> p2 x y z
       | VtpmPolicySecretCommand x y z \<Rightarrow> p3 x y z)"
  "(\<And>x. keeps P (f x)) \<Longrightarrow> keeps P (Let u f)"
  by (simp_all split: option.split sum.split prod.split bool.split list.split Auth.split VtpmPolicyCommand.split)

lemma keeps_modify: "(\<And>s. P s \<Longrightarrow> P (f s)) \<Longrightarrow> keeps P (modify_state f)"
  by (auto simp: keeps_def)

lemma keeps_cache: "(\<And>s r c. \<lbrakk>P s; m (ts_cache s) = (r, c)\<rbrakk> \<Longrightarrow> P (s\<lparr>ts_cache := c\<rparr>)) \<Longrightarrow> keeps P (on_cache m)"
  by (rule keepsI) (auto simp: on_cache_Some)

subsection \<open>The invariant\<close>

definition task_ok :: "libcrypto \<Rightarrow> (u8 list \<times> u32) list \<Rightarrow> TaskState \<Rightarrow> bool" where
  "task_ok L persistent s \<longleftrightarrow>
     vtpm_reachable L persistent (ts_cache s) \<and>
     distinct (ts_phys_handles s) \<and> distinct (map fst (ts_virt_handles s)) \<and>
     distinct (map snd (ts_virt_handles s)) \<and>
     snd ` set (ts_virt_handles s) \<subseteq> set (ts_phys_handles s) \<and>
     (\<forall>v \<in> fst ` set (ts_virt_handles s). sh_handle_type v \<noteq> Some Ht_Persistent) \<and>
     (\<forall>(h, session) \<in> set (ts_sessions s). handle_value (s_handle session) = h)"

lemma task_ok_cache:
  "\<lbrakk>task_ok L pers s; vtpm_step L (ts_cache s) c\<rbrakk> \<Longrightarrow> task_ok L pers (s\<lparr>ts_cache := c\<rparr>)"
  by (auto simp: task_ok_def intro: stepped)

lemma keeps_remove_key [keeps]: "keeps (task_ok L pers) (on_cache (remove_key io h))"
  by (rule keeps_cache) (auto intro: task_ok_cache step_remove)

lemma track_Ok:
  "track E p (d, s) = Some (Ok x, w') \<longleftrightarrow>
     p \<notin> set (ts_phys_handles s) \<and> w' = (d, s\<lparr>ts_phys_handles := ts_phys_handles s @ [p]\<rparr>)"
  by (auto simp: track_def sh_bind_Some)

lemma track_keeps [keeps]: "keeps (task_ok L pers) (track E p)"
  by (rule keepsI) (auto simp: track_def task_ok_def sh_bind_Some try_device_Some split: if_splits)

lemma untrack_ok: "task_ok L pers s \<Longrightarrow> task_ok L pers (untrack h s)"
  by (auto simp: task_ok_def untrack_def distinct_map_filter)

lemma task_ok_sessions:
  "\<lbrakk>task_ok L pers s; \<And>h x. (h, x) \<in> set ss \<Longrightarrow> handle_value (s_handle x) = h\<rbrakk> \<Longrightarrow>
   task_ok L pers (s\<lparr>ts_sessions := ss\<rparr>)"
  by (auto simp: task_ok_def)

lemma task_ok_session: "\<lbrakk>task_ok L pers s; (h, x) \<in> set (ts_sessions s)\<rbrakk> \<Longrightarrow> handle_value (s_handle x) = h"
  by (auto simp: task_ok_def)

lemma remove_session_keeps [keeps]: "keeps (task_ok L pers) (remove_session E h)"
  by (rule keepsI)
    (auto simp: remove_session_def sh_bind_Some on_device_Some AList.delete_eq
      intro!: task_ok_sessions dest: task_ok_session split: option.splits)

lemma AList_update_fresh: "map_of xs k = None \<Longrightarrow> AList.update k v xs = xs @ [(k, v)]"
  by (induction xs) (auto split: if_splits)

lemma load_key_by_handle_cases:
  assumes "load_key_by_handle E h (d, s) = Some (r, (d', s'))"
  obtains (loaded) p where "map_of (ts_virt_handles s) h = Some p" "r = Ok p" "d' = d" "s' = s"
  | (persistent) "map_of (ts_virt_handles s) h = None" "sh_handle_type h = Some Ht_Persistent" "r = Ok h" "d' = d" "s' = s"
  | (fresh) key p where "map_of (ts_virt_handles s) h = None" "sh_handle_type h \<noteq> Some Ht_Persistent"
      "find_by_handle (ts_cache s) h = Some key" "p \<notin> set (ts_phys_handles s)" "r = Ok p"
      "s' = s\<lparr>ts_phys_handles := ts_phys_handles s @ [p], ts_virt_handles := ts_virt_handles s @ [(h, p)]\<rparr>"
  | (failed) "s' = s" "\<And>x. r \<noteq> Ok x"
proof (cases "map_of (ts_virt_handles s) h")
  case (Some p)
  with assms show ?thesis by (intro loaded) (auto simp: load_key_by_handle_def)
next
  case None
  show ?thesis
  proof (cases "sh_handle_type h = Some Ht_Persistent")
    case True
    with None assms show ?thesis by (intro persistent) (auto simp: load_key_by_handle_def)
  next
    case False
    show ?thesis
    proof (cases "find_by_handle (ts_cache s) h")
      case none: None
      with None False assms show ?thesis by (intro failed) (auto simp: load_key_by_handle_def)
    next
      case (Some key)
      let ?load = "load_context (env_transport E) (key_context key)"
      have run: "sh_bind (on_device ?load) (\<lambda>loaded. let loaded_phandle = handle_value loaded in
          sh_bind (track E loaded_phandle) (\<lambda>_. sh_bind (modify_state (\<lambda>s.
            s\<lparr>ts_virt_handles := AList.update h loaded_phandle (ts_virt_handles s)\<rparr>)) (\<lambda>_.
              sh_return (Ok loaded_phandle)))) (d, s) = Some (r, (d', s'))"
        using assms None False Some by (simp add: load_key_by_handle_def)
      show ?thesis
      proof (cases r)
        case (Ok p)
        with run None have "p \<notin> set (ts_phys_handles s)"
          "s' = s\<lparr>ts_phys_handles := ts_phys_handles s @ [p], ts_virt_handles := ts_virt_handles s @ [(h, p)]\<rparr>"
          by (auto simp: sh_bind_Some on_device_Some Let_def track_Ok AList_update_fresh)
        with fresh None False Some Ok show ?thesis by blast
      next
        case (Err e)
        with run have "s' = s"
          by (auto simp: sh_bind_Some on_device_Some Let_def track_def try_device_Some split: if_splits)
        with failed Err show ?thesis by simp
      next
        case Panic
        with run have "s' = s"
          by (auto simp: sh_bind_Some on_device_Some Let_def track_def try_device_Some split: if_splits)
        with failed Panic show ?thesis by simp
      qed
    qed
  qed
qed

lemma load_key_by_handle_keeps [keeps]: "keeps (task_ok L pers) (load_key_by_handle E h)"
proof (rule keepsI)
  fix d s r d' s'
  assume run: "load_key_by_handle E h (d, s) = Some (r, (d', s'))" and ok: "task_ok L pers s"
  show "task_ok L pers s'"
    using run
  proof (cases rule: load_key_by_handle_cases)
    case (fresh key p)
    then have "h \<notin> fst ` set (ts_virt_handles s)" by (simp add: map_of_eq_None_iff)
    moreover from fresh ok have "p \<notin> snd ` set (ts_virt_handles s)" by (auto simp: task_ok_def)
    ultimately show ?thesis using ok fresh by (auto simp: task_ok_def)
  qed (use ok in auto)
qed

lemma load_key_by_name_keeps [keeps]: "keeps (task_ok L pers) (load_key_by_name E name)"
  unfolding load_key_by_name_def by (intro keeps)

lemma progress_ok: "task_ok L pers s \<Longrightarrow> task_ok L pers (progress e s)"
  by (simp add: task_ok_def progress_def)

lemma execute_keeps [keeps]: "keeps (task_ok L pers) (execute E c auths)"
  unfolding execute_def by (intro keeps keeps_modify progress_ok)

lemma execute_body_keeps [keeps]: "keeps (task_ok L pers) (execute_body E c b r auths)"
  unfolding execute_body_def by (intro keeps)

lemma import_key_keeps [keeps]: "keeps (task_ok L pers) (import_key E h a b c e f auths)"
  unfolding import_key_def by (intro keeps)

lemma evict_control_keeps [keeps]: "keeps (task_ok L pers) (evict_control E a b)"
  unfolding evict_control_def Let_def by (intro keeps)

lemma refresh_handles_keeps [keeps]: "keeps (task_ok L pers) (refresh_handles E hs acc)"
proof (induction hs arbitrary: acc)
  case (Cons h hs)
  have mark: "keeps (task_ok L pers) (modify_state (\<lambda>s. s\<lparr>ts_cache := mark_dirty h (ts_cache s)\<rparr>))"
    by (intro keeps_modify task_ok_cache step_mark_dirty)
  obtain e rs where acc: "acc = (e, rs)" by (cases acc)
  show ?case
    unfolding acc refresh_handles.simps by (intro keeps mark Cons.IH)
qed (unfold refresh_handles.simps, intro keeps)

lemma remove_handles_keeps [keeps]: "keeps (task_ok L pers) (remove_handles E hs e)"
proof (rule keepsI)
  fix d s r d' s'
  assume "remove_handles E hs e (d, s) = Some (r, (d', s'))" "task_ok L pers s"
  then show "task_ok L pers s'"
  proof (induction hs arbitrary: e d s)
    case (Cons h hs)
    then show ?case
      using keepsD [OF keeps_remove_key [of L pers "env_io E" h], where w = "(d, s)"]
      by (fastforce split: option.splits prod.splits result.splits)
  qed simp
qed

lemma refresh_cache_keeps [keeps]: "keeps (task_ok L pers) (refresh_cache E)"
  unfolding refresh_cache_def by (intro keeps)

lemma validate_handles_keeps [keeps]: "keeps (task_ok L pers) (validate_handles E hs)"
proof (induction hs)
  case (Cons h hs)
  then show ?case
    unfolding validate_handles.simps
    by (intro keeps)
qed (unfold validate_handles.simps, intro keeps)

lemma fetch_policy_keeps [keeps]: "keeps (task_ok L pers) (fetch_policy E h)"
  unfolding fetch_policy_def by (intro keeps)

lemma load_policy_secret_keeps [keeps]: "keeps (task_ok L pers) (load_policy_secret E c)"
  unfolding load_policy_secret_def by (intro keeps)

lemma load_commands_keeps [keeps]: "keeps (task_ok L pers) (load_commands E cs)"
  by (induction cs; unfold load_commands.simps) (intro keeps; assumption)+

lemma load_policy_keeps [keeps]: "keeps (task_ok L pers) (load_policy E cs)"
  unfolding load_policy_def by (intro keeps)

lemma AList_update_set: "set (AList.update k v xs) \<subseteq> insert (k, v) (set xs)"
  by (induction xs) auto

lemma run_policy_session_keeps [keeps]: "keeps (task_ok L pers) (run_policy_session E a cs)"
proof -
  have "task_ok L pers (s\<lparr>ts_sessions := AList.update (handle_value (s_handle session)) session (ts_sessions s)\<rparr>)"
    if "task_ok L pers s" for s session
    using AList_update_set [of "handle_value (s_handle session)" session "ts_sessions s"] task_ok_session [OF that]
    by (intro task_ok_sessions [OF that]) blast
  then show ?thesis
    unfolding run_policy_session_def Let_def by (intro keeps keeps_modify)
qed

lemma resolve_auth_keeps [keeps]: "keeps (task_ok L pers) (resolve_auth E h)"
  unfolding resolve_auth_def by (intro keeps)

lemma save_vtpm_policy_keeps [keeps]: "keeps (task_ok L pers) (save_vtpm_policy E cs)"
proof (induction E cs rule: save_vtpm_policy.induct)
  case (2 E c a cs)
  have "keeps (task_ok L pers) (secret_object_name E c)"
    unfolding secret_object_name_def by (intro keeps)
  with 2 show ?case unfolding save_vtpm_policy.simps by (intro keeps)
qed (unfold save_vtpm_policy.simps, intro keeps)

lemma save_key_policy_keeps [keeps]: "keeps (task_ok L pers) (save_key_policy E cs)"
  unfolding save_key_policy_def by (intro keeps)

subsection \<open>Tasks\<close>

text \<open>A step of a task is one call of its public operations, whatever it returns, an operation on its cache or
  any use of the device.\<close>

inductive task_step :: "'t sh_env \<Rightarrow> 't world \<Rightarrow> 't world \<Rightarrow> bool" for E where
  step_device: "task_step E (d, s) (d', s)"
| step_cache: "vtpm_step (env_crypto E) (ts_cache s) c \<Longrightarrow> task_step E (d, s) (d, s\<lparr>ts_cache := c\<rparr>)"
| step_untrack: "task_step E (d, s) (d, untrack h s)"
| step_track: "track E h w = Some (r, w') \<Longrightarrow> task_step E w w'"
| step_remove_session: "remove_session E h w = Some (r, w') \<Longrightarrow> task_step E w w'"
| step_load_by_handle: "load_key_by_handle E h w = Some (p, w') \<Longrightarrow> task_step E w w'"
| step_load_by_name: "load_key_by_name E name w = Some (p, w') \<Longrightarrow> task_step E w w'"
| step_execute: "execute E command auths w = Some (bytes, w') \<Longrightarrow> task_step E w w'"
| step_import_key: "import_key E h pub dup seed enc alg auths w = Some (priv, w') \<Longrightarrow> task_step E w w'"
| step_evict_control: "evict_control E h p w = Some (r, w') \<Longrightarrow> task_step E w w'"
| step_refresh_cache: "refresh_cache E w = Some (r, w') \<Longrightarrow> task_step E w w'"
| step_resolve_auth: "resolve_auth E h w = Some (auth, w') \<Longrightarrow> task_step E w w'"
| step_load_policy: "load_policy E policy w = Some (commands, w') \<Longrightarrow> task_step E w w'"
| step_save_vtpm_policy: "save_vtpm_policy E cs w = Some (saved, w') \<Longrightarrow> task_step E w w'"
| step_save_key_policy: "save_key_policy E cs w = Some (saved_key, w') \<Longrightarrow> task_step E w w'"

inductive task_reachable :: "'t sh_env \<Rightarrow> (u8 list \<times> u32) list \<Rightarrow> 't world \<Rightarrow> bool" for E persistent where
  begun: "\<lbrakk>vtpm_reachable (env_crypto E) persistent cache;
      TaskState_new E d cache prog auth_map = Some (Ok (), w)\<rbrakk> \<Longrightarrow> task_reachable E persistent w"
| begun_without_device: "vtpm_reachable (env_crypto E) persistent cache \<Longrightarrow>
      task_reachable E persistent (d, TaskState_init cache prog auth_map)"
| worked: "\<lbrakk>task_reachable E persistent w; task_step E w w'\<rbrakk> \<Longrightarrow> task_reachable E persistent w'"

lemma task_init_ok: "vtpm_reachable L pers cache \<Longrightarrow> task_ok L pers (TaskState_init cache prog auth_map)"
  by (simp add: task_ok_def TaskState_init_def)

lemma validate_persistent_handles_keeps [keeps]: "keeps (task_ok L pers) (validate_persistent_handles E)"
  unfolding validate_persistent_handles_def by (intro keeps)

lemma task_step_ok:
  assumes "task_step E w w'" "task_ok (env_crypto E) pers (snd w)"
  shows "task_ok (env_crypto E) pers (snd w')"
  using assms
proof cases
  case (step_cache s c d)
  then show ?thesis using assms(2) by (simp add: task_ok_cache)
next
  case (step_untrack d s h)
  then show ?thesis using assms(2) by (simp add: untrack_ok)
qed (use assms(2) in \<open>auto elim!: keepsD [rotated] intro: keeps\<close>)

theorem task_reachable_ok: "task_reachable E pers w \<Longrightarrow> task_ok (env_crypto E) pers (snd w)"
proof (induction rule: task_reachable.induct)
  case (begun cache d prog auth_map w)
  then show ?case
    unfolding TaskState_new_def by (auto elim!: keepsD [rotated] intro: keeps task_init_ok)
next
  case (begun_without_device cache d prog auth_map)
  then show ?case by (simp add: task_init_ok)
next
  case (worked w w')
  then show ?case by (simp add: task_step_ok)
qed

end
