(* ===== verification/Sh_Pcr.thy ===== *)
theory Sh_Pcr
  imports Sh_Task
begin

text \<open>
  Reading the PCRs: \<open>sh/src/pcr.rs\<close>.  The TPM answers a selection with as many registers as it likes, and
  the loop asks for the rest until nothing is left.  The loop ends only if the TPM makes progress, so it is
  a partial function.
\<close>

type_synonym pcr_results = "(TpmAlgId \<times> pcr_bank) list"

text \<open>A call of the device alone.\<close>

definition dev_call :: "('a, 't TpmDevice) dev \<Rightarrow> ('a, 't TpmDevice) sh" where
  "dev_call m d = map_option (\<lambda>(r, d). (map_err device_err r, d)) (m d)"

definition is_selection_empty :: "pcr_selection list \<Rightarrow> bool" where
  "is_selection_empty selection \<longleftrightarrow> list_all (\<lambda>(_, pcr_select). list_all (\<lambda>b. b = 0) pcr_select) selection"

definition capacity_exceeded :: sh_error where "capacity_exceeded = Sh_Msg ''capacity exceeded''"

fun push_banks :: "TpmAlgId list \<Rightarrow> u8 list \<Rightarrow> pcr_selection list \<Rightarrow> (pcr_selection list, sh_error) result" where
  "push_banks [] common_mask selection = Ok selection"
| "push_banks (alg # algs) common_mask selection =
     and_then (map_err (\<lambda>_. capacity_exceeded) (TpmList_try_push 8 selection (alg, common_mask)))
       (push_banks algs common_mask)"

text \<open>The bytes of a remaining selection without those that were read.\<close>

definition clear_read :: "u8 list \<Rightarrow> u8 list \<Rightarrow> u8 list" where
  "clear_read mask_bytes read_select =
     map (\<lambda>i. if i < length read_select then mask_bytes ! i AND NOT (read_select ! i) else mask_bytes ! i)
       [0..<length mask_bytes]"

fun update_remaining ::
  "pcr_selection list \<Rightarrow> pcr_selection list \<Rightarrow> pcr_selection list \<Rightarrow> (pcr_selection list, sh_error) result" where
  "update_remaining [] read new_list = Ok new_list"
| "update_remaining ((hash, pcr_select) # remaining) read new_list =
     (let mask_bytes = (case find (\<lambda>(h, _). h = hash) read of
          Some (_, read_select) \<Rightarrow> clear_read pcr_select read_select
        | None \<Rightarrow> pcr_select) in
      and_then (map_err Sh_Tpm (TpmsPcrSelect_try_from mask_bytes)) (\<lambda>new_select.
      and_then (map_err (\<lambda>_. capacity_exceeded) (TpmList_try_push 8 new_list (hash, new_select)))
        (update_remaining remaining read)))"

definition update_remaining_selection ::
  "pcr_selection list \<Rightarrow> pcr_selection list \<Rightarrow> (pcr_selection list, sh_error) result" where
  "update_remaining_selection remaining read = update_remaining remaining read []"

text \<open>The values of one selection go to its bank in the order of the bits.\<close>

fun take_values :: "nat list \<Rightarrow> u8 list list \<Rightarrow> pcr_bank \<Rightarrow> (pcr_bank \<times> u8 list list, sh_error) result" where
  "take_values [] values bank_store = Ok (bank_store, values)"
| "take_values (pcr_idx # idxs) values bank_store = (case values of
       [] \<Rightarrow> Err (Sh_Msg ''PCR digest missing'')
     | digest # values \<Rightarrow> take_values idxs values (AList.update pcr_idx digest bank_store))"

fun store_values :: "pcr_selection list \<Rightarrow> u8 list list \<Rightarrow> pcr_results \<Rightarrow> (pcr_results, sh_error) result" where
  "store_values [] values results = Ok results"
| "store_values ((hash, pcr_select) # selection_out) values results =
     and_then (ok_or (Sh_InvalidAlgorithm hash) (map_of results hash)) (\<lambda>bank_store.
     and_then (take_values (pcr_indices pcr_select) values bank_store) (\<lambda>(bank_store, values).
       store_values selection_out values (AList.update hash bank_store results)))"

text \<open>One command: the selection that was read, with its values.\<close>

definition pcr_read ::
  "'t TpmTransport \<Rightarrow> pcr_selection list \<Rightarrow> (pcr_selection list \<times> u8 list list, 't TpmDevice) sh" where
  "pcr_read T selection =
     sh_bind (dev_call (transmit T (frame_of TpmPcrReadCommand
         \<lparr>b_handles = [], b_params = [pcrs_val selection]\<rparr>) NO_SESSIONS)) (\<lambda>response.
       sh_return (and_then (map_err Sh_Tpm (TpmResponse_unmarshal TpmPcrReadResponse response)) (\<lambda>body.
         case b_params body of
           [_, VList selections, VList values] \<Rightarrow> Ok (map Device.pcr_bank selections, map buffer_bytes values)
         | _ \<Rightarrow> Panic)))"

definition pcr_step ::
  "pcr_selection list \<times> u8 list list \<Rightarrow> pcr_selection list \<Rightarrow> pcr_results \<Rightarrow>
   (pcr_selection list \<times> pcr_results, sh_error) result" where
  "pcr_step answer remaining results = (case answer of (selection_out, values) \<Rightarrow>
     and_then (store_values selection_out values results) (\<lambda>results.
     and_then (update_remaining_selection remaining selection_out) (\<lambda>remaining. Ok (remaining, results))))"

partial_function (option) read_pcrs_loop ::
  "'t TpmTransport \<Rightarrow> pcr_selection list \<Rightarrow> pcr_results \<Rightarrow> 't TpmDevice \<Rightarrow>
   ((pcr_results, sh_error) result \<times> 't TpmDevice) option" where
  "read_pcrs_loop T remaining results d =
     (if is_selection_empty remaining then Some (Ok results, d)
      else Option.bind (pcr_read T remaining d) (\<lambda>(r, d).
        case and_then r (\<lambda>answer. pcr_step answer remaining results) of
          Ok (remaining, results) \<Rightarrow> read_pcrs_loop T remaining results d
        | Err e \<Rightarrow> Some (Err e, d)
        | Panic \<Rightarrow> Some (Panic, d)))"

definition read_all_pcrs :: "'t TpmTransport \<Rightarrow> (pcr_results, 't TpmDevice) sh" where
  "read_all_pcrs T =
     sh_bind (dev_call (fetch_pcr_bank_list T)) (\<lambda>(algs, common_mask).
     sh_bind (sh_return (push_banks algs common_mask [])) (\<lambda>remaining_selection.
       read_pcrs_loop T remaining_selection (fold (\<lambda>alg. AList.update alg []) algs [])))"

end
