(* ===== verification/Sh_Pcr_Laws.thy ===== *)
theory Sh_Pcr_Laws
  imports Sh_Pcr Policy_Text Device_Reference
begin

text \<open>
  The PCR loop returns every selected register.  \<open>selected\<close> is a selection as a set of banks and indices;
  an answer takes its own registers off that set, which is the measure of the loop.
\<close>

subsection \<open>Selections as sets\<close>

definition selected :: "pcr_selection list \<Rightarrow> (TpmAlgId \<times> nat) set" where
  "selected sels = {(alg, i). \<exists>bits. (alg, bits) \<in> set sels \<and> i \<in> set (pcr_indices bits)}"

lemma selected_simps [simp]:
  "selected [] = {}" "selected ((h, bits) # sels) = Pair h ` set (pcr_indices bits) \<union> selected sels"
  by (auto simp: selected_def)

lemma finite_selected: "finite (selected sels)"
  by (induction sels) auto

lemma byte_zero_iff: "(b :: u8) = 0 \<longleftrightarrow> (\<forall>j < 8. \<not> bit b j)"
  by (auto simp: bit_eq_iff dest: bit_imp_le_length)

lemma pcr_indices_empty: "set (pcr_indices bits) = {} \<longleftrightarrow> (\<forall>b \<in> set bits. b = 0)"
proof -
  have "set (pcr_indices bits) = {} \<longleftrightarrow> (\<forall>k < length bits. \<forall>j < 8. \<not> bit (bits ! k) j)"
  proof (intro iffI allI impI)
    fix k j assume e: "set (pcr_indices bits) = {}" "k < length bits" "(j :: nat) < 8"
    then have "k * 8 + j \<notin> set (pcr_indices bits)" by simp
    with e show "\<not> bit (bits ! k) j" by (simp add: set_pcr_indices)
  qed (auto simp: set_pcr_indices)
  also have "\<dots> \<longleftrightarrow> (\<forall>k < length bits. bits ! k = 0)" by (simp add: byte_zero_iff)
  finally show ?thesis by (simp add: all_set_conv_all_nth)
qed

lemma selection_empty_iff: "is_selection_empty sels \<longleftrightarrow> selected sels = {}"
proof (induction sels)
  case (Cons sel sels)
  then show ?case by (cases sel) (simp add: is_selection_empty_def list_all_iff pcr_indices_empty del: set_empty)
qed (simp add: is_selection_empty_def)

lemma length_clear_read [simp]: "length (clear_read m r) = length m"
  by (simp add: clear_read_def)

lemma clear_read_indices:
  "set (pcr_indices (clear_read m r)) = set (pcr_indices m) - set (pcr_indices r)"
  by (auto simp: set_pcr_indices clear_read_def bit_and_iff bit_not_iff split: if_splits)

text \<open>The selections the code sends: the capacity of a list and of its masks, and no bank twice.\<close>

definition selection_fits :: "pcr_selection list \<Rightarrow> bool" where
  "selection_fits sels \<longleftrightarrow> selections_typed sels \<and> distinct (map fst sels)"

lemma update_remaining_Ok:
  assumes "selections_typed (new @ rem)" "distinct (map fst rem)" "distinct (map fst out)"
  shows "\<exists>rem'. update_remaining rem out new = Ok (new @ rem') \<and> map fst rem' = map fst rem \<and>
    list_all2 (\<lambda>a b. length (snd a) = length (snd b)) rem' rem \<and> selected rem' = selected rem - selected out"
  using assms(1,2)
proof (induction rem arbitrary: new)
  case (Cons sel rem)
  obtain h bits where sel: "sel = (h, bits)" by (cases sel)
  define m where "m = (case find (\<lambda>(k, _). k = h) out of Some (_, r) \<Rightarrow> clear_read bits r | None \<Rightarrow> bits)"
  have len: "length m = length bits" by (auto simp: m_def split: option.split)
  have typed: "selections_typed ((new @ [(h, m)]) @ rem)"
    using Cons.prems(1) by (simp add: selections_typed_def sel len)
  have m: "Pair h ` set (pcr_indices m) = Pair h ` set (pcr_indices bits) - selected out"
  proof (cases "find (\<lambda>(k, _). k = h) out")
    case None
    then have "(h, i) \<notin> selected out" for i by (auto simp: find_None_iff selected_def)
    with None show ?thesis by (auto simp: m_def)
  next
    case (Some r)
    obtain k rb where kr: "r = (k, rb)" by (cases r)
    from find_Some_imp [OF Some] have r: "r = (h, rb)" "(h, rb) \<in> set out" by (auto simp: kr)
    have "(h, b) \<in> set out \<longleftrightarrow> b = rb" for b
      by (rule iffI, erule eq_key_imp_eq_value [OF assms(3) _ r(2)], simp add: r(2))
    then have "(h, i) \<in> selected out \<longleftrightarrow> i \<in> set (pcr_indices rb)" for i
      by (simp add: selected_def)
    then show ?thesis by (auto simp: m_def Some r(1) clear_read_indices)
  qed
  from Cons.IH [OF typed] Cons.prems obtain rem' where
    "update_remaining rem out (new @ [(h, m)]) = Ok ((new @ [(h, m)]) @ rem')" "map fst rem' = map fst rem"
    "list_all2 (\<lambda>a b. length (snd a) = length (snd b)) rem' rem" "selected rem' = selected rem - selected out"
    by auto
  moreover have "TpmsPcrSelect_try_from m = Ok m" "TpmList_try_push 8 new (h, m) = Ok (new @ [(h, m)])"
    using typed by (auto simp: TpmsPcrSelect_try_from_def TPM_PCR_SELECT_MAX_def selections_typed_def TpmList_try_push_def)
  ultimately show ?case
    using m by (intro exI [of _ "(h, m) # rem'"]) (auto simp: sel m_def [symmetric] len)
qed simp

subsection \<open>Answers\<close>

definition pcr_values :: "(TpmAlgId \<Rightarrow> nat \<Rightarrow> u8 list) \<Rightarrow> pcr_selection list \<Rightarrow> u8 list list" where
  "pcr_values pcr out = concat (map (\<lambda>(h, bits). map (pcr h) (pcr_indices bits)) out)"

text \<open>The values of a bank as a function, and a bank with some registers of a set filled in.\<close>

definition bank_view :: "pcr_results \<Rightarrow> TpmAlgId \<Rightarrow> (nat \<Rightarrow> u8 list option) option" where
  "bank_view results alg = map_option map_of (map_of results alg)"

definition filled ::
  "(TpmAlgId \<Rightarrow> nat \<Rightarrow> u8 list) \<Rightarrow> (TpmAlgId \<times> nat) set \<Rightarrow> (TpmAlgId \<Rightarrow> (nat \<Rightarrow> u8 list option) option) \<Rightarrow>
   TpmAlgId \<Rightarrow> (nat \<Rightarrow> u8 list option) option" where
  "filled pcr S view alg =
     map_option (\<lambda>bank i. if (alg, i) \<in> S then Some (pcr alg i) else bank i) (view alg)"

lemma filled_filled: "filled pcr S (filled pcr S' view) = filled pcr (S' \<union> S) view"
  by (auto simp: filled_def fun_eq_iff map_option_case split: option.split)

lemma filled_empty: "filled pcr {} view = view"
  by (auto simp: filled_def fun_eq_iff map_option_case split: option.split)

lemma take_values_Ok:
  "\<exists>bank'. take_values idxs (map f idxs @ rest) bank = Ok (bank', rest) \<and>
     map_of bank' = (\<lambda>i. if i \<in> set idxs then Some (f i) else map_of bank i)"
proof (induction idxs arbitrary: bank)
  case (Cons i idxs)
  from Cons.IH [of "AList.update i (f i) bank"] show ?case
    by (auto simp: AList.update_conv' fun_eq_iff)
qed simp

lemma store_values_Ok:
  "fst ` set out \<subseteq> dom (map_of results) \<Longrightarrow>
   \<exists>results'. store_values out (pcr_values pcr out) results = Ok results' \<and>
     bank_view results' = filled pcr (selected out) (bank_view results)"
proof (induction out arbitrary: results)
  case Nil
  then show ?case by (simp add: filled_empty)
next
  case (Cons sel out)
  obtain h bits where sel: "sel = (h, bits)" by (cases sel)
  from Cons.prems obtain bank where bank: "map_of results h = Some bank" by (auto simp: sel)
  obtain bank' where taken: "take_values (pcr_indices bits) (map (pcr h) (pcr_indices bits) @ pcr_values pcr out) bank =
      Ok (bank', pcr_values pcr out)"
    "map_of bank' = (\<lambda>i. if i \<in> set (pcr_indices bits) then Some (pcr h i) else map_of bank i)"
    using take_values_Ok by blast
  have view: "bank_view (AList.update h bank' results) = filled pcr (Pair h ` set (pcr_indices bits)) (bank_view results)"
    using bank taken(2) by (auto simp: bank_view_def filled_def fun_eq_iff AList.update_conv' map_option_case
        split: option.split)
  have "fst ` set out \<subseteq> dom (map_of (AList.update h bank' results))"
    using Cons.prems by (auto simp: AList.update_conv')
  from Cons.IH [OF this] show ?case
    using bank taken(1) view by (auto simp: sel pcr_values_def filled_filled)
qed

subsection \<open>The loop\<close>

text \<open>A TPM with some registers that answers \<open>TPM2_PCR_Read\<close> for them: with their values, for a part of what
  was asked that is not empty.\<close>

definition reads_pcrs ::
  "'t TpmTransport \<Rightarrow> (TpmAlgId \<times> nat) set \<Rightarrow> (TpmAlgId \<Rightarrow> nat \<Rightarrow> u8 list) \<Rightarrow> ('t TpmDevice \<Rightarrow> bool) \<Rightarrow> bool" where
  "reads_pcrs T registers pcr I \<longleftrightarrow>
     (\<forall>d sels. I d \<longrightarrow> selection_fits sels \<longrightarrow> selected sels \<subseteq> registers \<longrightarrow> selected sels \<noteq> {} \<longrightarrow>
       (\<exists>d' out. pcr_read T sels d = Some (Ok (out, pcr_values pcr out), d') \<and> I d' \<and>
         distinct (map fst out) \<and> fst ` set out \<subseteq> fst ` set sels \<and>
         selected out \<subseteq> selected sels \<and> selected out \<noteq> {}))"

lemma selection_fits_mono:
  assumes "selection_fits rem" "map fst rem' = map fst rem" "list_all2 (\<lambda>a b. length (snd a) = length (snd b)) rem' rem"
  shows "selection_fits rem'"
proof -
  have "length (snd b) \<le> 4" if b: "b \<in> set rem'" for b
  proof -
    from b obtain i where "i < length rem'" "b = rem' ! i" by (metis in_set_conv_nth)
    with assms(1,3) show ?thesis
      by (auto simp: selection_fits_def selections_typed_def list_all_iff list_all2_conv_all_nth case_prod_beta')
  qed
  moreover from assms(3) have "length rem' = length rem" by (rule list_all2_lengthD)
  ultimately show ?thesis
    using assms(1,2) by (auto simp: selection_fits_def selections_typed_def list_all_iff)
qed

lemma bank_view_dom: "bank_view results' = filled pcr S (bank_view results) \<Longrightarrow>
    dom (map_of results') = dom (map_of results)"
  by (auto simp: bank_view_def filled_def fun_eq_iff map_option_case split: option.splits)

theorem read_pcrs_loop_complete:
  assumes "reads_pcrs T registers pcr I" "I d" "selection_fits rem" "fst ` set rem \<subseteq> dom (map_of results)"
    and "selected rem \<subseteq> registers"
  shows "\<exists>d' results'. read_pcrs_loop T rem results d = Some (Ok results', d') \<and> I d' \<and>
    bank_view results' = filled pcr (selected rem) (bank_view results)"
  using finite_selected [of rem] assms(2-)
proof (induction "selected rem" arbitrary: rem results d rule: finite_psubset_induct)
  case psubset
  show ?case
  proof (cases "selected rem = {}")
    case True
    then show ?thesis
      using psubset.prems by (simp add: read_pcrs_loop.simps selection_empty_iff filled_empty)
  next
    case False
    with assms(1) psubset.prems obtain d1 out where read: "pcr_read T rem d = Some (Ok (out, pcr_values pcr out), d1)"
      "I d1" "distinct (map fst out)" "fst ` set out \<subseteq> fst ` set rem"
      "selected out \<subseteq> selected rem" "selected out \<noteq> {}"
      unfolding reads_pcrs_def by metis
    from read(4) psubset.prems(3) have "fst ` set out \<subseteq> dom (map_of results)" by blast
    from store_values_Ok [OF this] obtain results1 where stored:
      "store_values out (pcr_values pcr out) results = Ok results1"
      "bank_view results1 = filled pcr (selected out) (bank_view results)" by blast
    from update_remaining_Ok [of "[]" rem out] psubset.prems(2) read(3) obtain rem' where rem':
      "update_remaining_selection rem out = Ok rem'" "map fst rem' = map fst rem"
      "list_all2 (\<lambda>a b. length (snd a) = length (snd b)) rem' rem" "selected rem' = selected rem - selected out"
      by (auto simp: selection_fits_def update_remaining_selection_def)
    have dom: "fst ` set rem' \<subseteq> dom (map_of results1)"
      using arg_cong [OF rem'(2), of set] psubset.prems(3) bank_view_dom [OF stored(2)] by simp
    have "selected rem' \<subset> selected rem" "selected rem' \<subseteq> registers"
      using rem'(4) read(5,6) psubset.prems(4) by blast+
    from psubset.hyps(2) [OF this(1) read(2) selection_fits_mono [OF psubset.prems(2) rem'(2,3)] dom this(2)]
    obtain d' results' where "read_pcrs_loop T rem' results1 d1 = Some (Ok results', d')" "I d'"
      "bank_view results' = filled pcr (selected rem') (bank_view results1)" by blast
    moreover have "selected out \<union> selected rem' = selected rem" using rem'(4) read(5) by blast
    ultimately show ?thesis
      using False read(1) stored rem'(1)
      by (subst read_pcrs_loop.simps) (simp add: selection_empty_iff pcr_step_def filled_filled)
  qed
qed

text \<open>A TPM that answers with nothing is asked again, without end.\<close>

lemma read_pcrs_loop_stuck:
  assumes "\<And>d. I d \<Longrightarrow> \<exists>d'. pcr_read T rem d = Some (Ok ([], []), d') \<and> I d'"
    and rem: "selected rem \<noteq> {}" "selection_fits rem" and I: "I d"
  shows "read_pcrs_loop T rem results d = None"
proof (cases "read_pcrs_loop T rem results d")
  case (Some y)
  have "\<not> (T' = T \<and> rem' = rem \<and> I d)" if "read_pcrs_loop T' rem' results d = Some y" for T' rem' results d y
    using that
  proof (induction T' rem' results d y rule: read_pcrs_loop.raw_induct [rotated, consumes 1, case_names step])
    case (step loop T' rem' results d y)
    show ?case
    proof
      assume same: "T' = T \<and> rem' = rem \<and> I d"
      with assms(1) obtain d' where d': "pcr_read T rem d = Some (Ok ([], []), d')" "I d'" by blast
      have "update_remaining_selection rem [] = Ok rem"
      proof -
        have "update_remaining r [] new = Ok (new @ r)" if "selections_typed (new @ r)" for r new
          using that
          by (induction r arbitrary: new) (auto simp: selections_typed_def TpmsPcrSelect_try_from_def
            TPM_PCR_SELECT_MAX_def TpmList_try_push_def)
        from this [of "[]" rem] rem(2) show ?thesis
          by (simp add: update_remaining_selection_def selection_fits_def)
      qed
      with step(2) same d' rem(1) have "loop T rem results d' = Some y"
        by (simp add: selection_empty_iff pcr_step_def)
      with step(1) d'(2) show False by blast
    qed
  qed
  with Some I show ?thesis by blast
qed

subsection \<open>Every bank\<close>

lemma push_banks_Ok:
  "length sel + length algs \<le> 8 \<Longrightarrow> push_banks algs m sel = Ok (sel @ map (\<lambda>alg. (alg, m)) algs)"
  by (induction algs arbitrary: sel) (auto simp: TpmList_try_push_def)

lemma empty_banks: "map_of (fold (\<lambda>alg. AList.update alg []) algs rs) alg = (if alg \<in> set algs then Some [] else map_of rs alg)"
  by (induction algs arbitrary: rs) (auto simp: AList.update_conv')

lemma read_all_pcrs_view:
  assumes banks: "fetch_pcr_bank_list T d = Some (Ok (algs, common), d1)" "I d1"
    and fits: "distinct algs" "length algs \<le> 8" "length common \<le> 4"
    and tpm: "reads_pcrs T (set algs \<times> set (pcr_indices common)) pcr I"
  shows "\<exists>d' results. read_all_pcrs T d = Some (Ok results, d') \<and> I d' \<and>
    bank_view results = (\<lambda>alg. if alg \<in> set algs
      then Some (\<lambda>i. if i \<in> set (pcr_indices common) then Some (pcr alg i) else None) else None)"
proof -
  let ?sel = "map (\<lambda>alg. (alg, common)) algs" and ?empty = "fold (\<lambda>alg. AList.update alg []) algs []"
  have "selection_fits ?sel"
    using fits by (auto simp: selection_fits_def selections_typed_def list_all_iff comp_def)
  moreover have "fst ` set ?sel \<subseteq> dom (map_of ?empty)" by (auto simp: empty_banks)
  moreover have sel: "selected ?sel = set algs \<times> set (pcr_indices common)" by (auto simp: selected_def)
  ultimately obtain d' results where run: "read_pcrs_loop T ?sel ?empty d1 = Some (Ok results, d')" "I d'"
    "bank_view results = filled pcr (selected ?sel) (bank_view ?empty)"
    using read_pcrs_loop_complete [OF tpm banks(2), of ?sel ?empty] by auto
  have "read_all_pcrs T d = Some (Ok results, d')"
    using banks(1) run(1) fits(2) by (simp add: read_all_pcrs_def sh_bind_def sh_return_def dev_call_def push_banks_Ok)
  moreover have "bank_view results = (\<lambda>alg. if alg \<in> set algs
      then Some (\<lambda>i. if i \<in> set (pcr_indices common) then Some (pcr alg i) else None) else None)"
    unfolding run(3) sel by (auto simp: filled_def bank_view_def empty_banks fun_eq_iff)
  ultimately show ?thesis using run(2) by blast
qed

end
