(* ===== verification/Sh_Pcr_Reference.thy ===== *)
theory Sh_Pcr_Reference
  imports Sh_Pcr_Laws
begin

text \<open>
  A TPM for the PCR loop: it has some banks with a common selection, and answers \<open>TPM2_PCR_Read\<close> with one
  register at a time, the first that is asked for.
\<close>

lemma pcr_indices_sorted: "sorted_wrt (<) (pcr_indices bits)"
proof -
  let ?f = "\<lambda>k. map (\<lambda>j. k * 8 + j) (filter (\<lambda>j. bits ! k AND push_bit j 1 \<noteq> 0) [0..<8])"
  have part: "sorted_wrt (<) (?f k)" "set (?f k) \<subseteq> {8 * k..<8 * k + 8}" for k
    by (auto simp: sorted_wrt_map intro!: sorted_wrt_filter)
  have "sorted_wrt (<) (concat (map ?f [0..<n])) \<and> set (concat (map ?f [0..<n])) \<subseteq> {..<8 * n}" for n
  proof (induction n)
    case (Suc n)
    then show ?case using part [of n] by (auto simp: sorted_wrt_append)
  qed simp
  then show ?thesis by (simp add: pcr_indices_def)
qed

lemma div_mod_eqD: "\<lbrakk>x mod 8 = i mod 8; i div 8 = x div 8\<rbrakk> \<Longrightarrow> x = (i :: nat)"
  by (metis div_mult_mod_eq)

lemma transact_Ok:
  "transact T cmd b resp d = Some (Ok rb, d') \<longleftrightarrow> (\<exists>r. transmit T (frame_of cmd b) NO_SESSIONS d = Some (Ok r, d') \<and>
     TpmResponse_unmarshal resp r = Ok rb)"
proof (cases "transmit T (frame_of cmd b) NO_SESSIONS d")
  case (Some x)
  then show ?thesis by (cases x; cases "fst x") (auto simp: transact_def dev_bind_def dev_return_def)
qed (simp add: transact_def dev_bind_def)

definition one_register :: "nat \<Rightarrow> u8 list \<Rightarrow> u8 list" where
  "one_register i bits = (replicate (length bits) 0)[i div 8 := push_bit (i mod 8) 1]"

lemma pcr_indices_one:
  assumes "i \<in> set (pcr_indices bits)"
  shows "pcr_indices (one_register i bits) = [i]"
proof -
  have "set (pcr_indices (one_register i bits)) = {i}"
    using assms
    by (auto simp: one_register_def set_pcr_indices nth_list_update bit_simps split: if_splits
        intro: div_mod_eqD)
  then show ?thesis
    using strict_sorted_equal [OF pcr_indices_sorted, of "[i]" "one_register i bits"] by simp
qed

fun first_register :: "pcr_selection list \<Rightarrow> pcr_selection list" where
  "first_register [] = []"
| "first_register ((h, bits) # sels) =
     (case pcr_indices bits of [] \<Rightarrow> first_register sels | i # _ \<Rightarrow> [(h, one_register i bits)])"

lemma first_register_selected:
  "selected sels \<noteq> {} \<Longrightarrow>
   \<exists>h i bits. first_register sels = [(h, one_register i bits)] \<and> (h, bits) \<in> set sels \<and> i \<in> set (pcr_indices bits)"
proof (induction sels)
  case (Cons sel sels)
  obtain h bits where sel: "sel = (h, bits)" by (cases sel)
  show ?case
  proof (cases "pcr_indices bits")
    case Nil
    with Cons show ?thesis by (auto simp: sel)
  next
    case (Cons i idxs)
    then show ?thesis by (auto simp: sel intro!: exI [of _ bits])
  qed
qed simp

definition pcr_answer ::
  "pcr_selection list \<Rightarrow> (TpmAlgId \<Rightarrow> nat \<Rightarrow> u8 list) \<Rightarrow> u8 list \<Rightarrow> u8 list" where
  "pcr_answer banks pcr f =
     (if from_be_bytes (take 4 (drop 6 f)) = 0x17A then
        success_frame TpmGetCapabilityResponse \<lparr>b_handles = [], b_params = [VBool False,
          VStruct [VEnum (ECap Cap_Pcrs), VUnion ''Pcrs'' (Some (pcrs_val banks))]]\<rparr>
      else case unmarshal TpmlPcrSelection (drop 10 f) of
          Ok (VList sels, _) \<Rightarrow>
            (let out = first_register (map Device.pcr_bank sels) in
             success_frame TpmPcrReadResponse \<lparr>b_handles = [], b_params = [int_new 4 1, pcrs_val out,
               VList (map VBuffer (pcr_values pcr out))]\<rparr>)
        | _ \<Rightarrow> header St_NoSessions 0 0x8B)"

definition pcr_tpm ::
  "pcr_selection list \<Rightarrow> (TpmAlgId \<Rightarrow> nat \<Rightarrow> u8 list) \<Rightarrow> u8 list TpmTransport" where
  "pcr_tpm banks pcr = \<lparr>
     t_send = (\<lambda>f _. Some (Ok (), f)),
     t_recv = (\<lambda>(_, f). Some (Ok (), pcr_answer banks pcr f, f))\<rparr>"

lemma bank_of_val: "map Device.pcr_bank (map (\<lambda>(hash, pcr_select). VStruct [VEnum (EAlgId hash), VBuffer pcr_select]) sels) = sels"
  by (induction sels) auto

lemma pcrs_val_valid: "selections_typed sels \<Longrightarrow> valid TpmlPcrSelection (pcrs_val sels)"
  by (auto simp: TpmlPcrSelection_def TpmList_valid_iff pcrs_val_def selections_typed_def
      TpmsPcrSelection_valid_iff TpmsPcrSelect_valid_iff TpmAlgId_codec_valid list_all_iff)

lemma pcr_read_bytes:
  "sent_bytes TpmPcrReadCommand \<lparr>b_handles = [], b_params = [v]\<rparr> [] =
     to_be_bytes 2 0x8001 @ to_be_bytes 4 (10 + length (encode TpmlPcrSelection v)) @ to_be_bytes 4 0x17E @
     encode TpmlPcrSelection v"
  by (simp add: sent_bytes_def TpmPcrReadCommand_def body_handle_bytes_def body_param_bytes_def
      command_bytes_def command_body_def header_def del: to_be_bytes.simps)

lemma pcr_tpm_reads:
  assumes pcr: "\<And>h i. length (pcr h i) \<le> 64"
  shows "reads_pcrs (pcr_tpm banks pcr) R pcr (\<lambda>_. True)"
  unfolding reads_pcrs_def
proof (intro allI impI)
  fix d :: "u8 list TpmDevice" and sels
  assume sels: "selection_fits sels" "selected sels \<noteq> {}"
  from first_register_selected [OF sels(2)] obtain h i bits where out:
    "first_register sels = [(h, one_register i bits)]" "(h, bits) \<in> set sels" "i \<in> set (pcr_indices bits)" by blast
  have typed: "selections_typed sels" using sels(1) by (simp add: selection_fits_def)
  let ?cmd = "\<lparr>b_handles = [], b_params = [pcrs_val sels]\<rparr>"
  let ?out = "[(h, one_register i bits)]"
  let ?body = "\<lparr>b_handles = [], b_params = [int_new 4 1, pcrs_val ?out, VList (map VBuffer (pcr_values pcr ?out))]\<rparr>"
  let ?f = "sent_bytes TpmPcrReadCommand ?cmd []"
  have one: "length (one_register i bits) = length bits" "pcr_indices (one_register i bits) = [i]"
    using pcr_indices_one [OF out(3)] by (simp_all add: one_register_def)
  have "length bits \<le> 4" using typed out(2) by (auto simp: selections_typed_def list_all_iff)
  then have "selections_typed ?out" by (simp add: selections_typed_def one)
  note v = pcrs_val_valid [OF typed] pcrs_val_valid [OF this]
  note c = wire_field_codec [OF TpmlPcrSelection_ok]
  have row: "(''PcrRead'', TpmPcrReadCommand, TpmPcrReadResponse) \<in> set dispatch_rows"
    by (simp add: dispatch_rows_def)
  have cmd: "body_valid TpmPcrReadCommand ?cmd" by (simp add: body_valid_def TpmPcrReadCommand_def v)
  have "length (pcr h i) \<le> 64" "length (pcr h i) \<le> 65535" using pcr [of h i] by simp_all
  then have body: "body_valid TpmPcrReadResponse ?body"
    by (simp add: body_valid_def TpmPcrReadResponse_def v pcr_values_def one TpmlDigest_def Tpm2bDigest_def
        TpmList_valid_iff TpmBuffer_valid_iff MAX_DIGEST_SIZE_def u16_max_def int_new_def TpmUint32_def tpm_int_def)
  have "length (encode TpmlPcrSelection (pcrs_val sels)) \<le> 60"
    using wire_codec.length_encode [OF c v(1)] wire_codec.len_le_SIZE [OF c v(1)] by simp
  then have len: "length ?f \<le> TPM_MAX_COMMAND_SIZE" by (simp add: pcr_read_bytes TPM_MAX_COMMAND_SIZE_def)
  have parsed: "unmarshal TpmlPcrSelection (encode TpmlPcrSelection (pcrs_val sels)) = Ok (pcrs_val sels, [])"
    using codec_dec_enc [OF c v(1), of "[]"] by simp
  have "pcr_answer banks pcr ?f = success_frame TpmPcrReadResponse ?body"
    using parsed out(1)
    by (simp add: pcr_answer_def pcr_read_bytes pcrs_val_def bank_of_val [simplified] del: to_be_bytes.simps)
  then obtain d' where "transact (pcr_tpm banks pcr) TpmPcrReadCommand ?cmd TpmPcrReadResponse d = Some (Ok ?body, d')"
    using transact_success [OF row cmd body len, of "pcr_tpm banks pcr" d ?f ?f] by (auto simp: pcr_tpm_def)
  then have "pcr_read (pcr_tpm banks pcr) sels d = Some (Ok (?out, pcr_values pcr ?out), d')"
    unfolding transact_Ok
    by (auto simp: pcr_read_def sh_bind_def dev_call_def sh_return_def pcrs_val_def buffer_bytes_def pcr_values_def)
  moreover have "selected ?out = {(h, i)}" by (simp add: one)
  moreover have "h \<in> fst ` set sels" "(h, i) \<in> selected sels"
    using out(2,3) by (force, auto simp: selected_def)
  ultimately show "\<exists>d' out. pcr_read (pcr_tpm banks pcr) sels d = Some (Ok (out, pcr_values pcr out), d') \<and> True \<and>
      distinct (map fst out) \<and> fst ` set out \<subseteq> fst ` set sels \<and> selected out \<subseteq> selected sels \<and> selected out \<noteq> {}"
    by (intro exI [of _ d'] exI [of _ ?out]) simp
qed

lemma pcr_tpm_banks:
  assumes "selections_typed banks"
  shows "\<exists>d'. fetch_pcr_bank_list (pcr_tpm banks pcr) d = Some (map_err id (pcr_bank_list banks), d')"
proof -
  let ?f = "sent_bytes TpmGetCapabilityCommand (page_request Cap_Pcrs 0) []"
  let ?body = "\<lparr>b_handles = [], b_params = [VBool False,
    VStruct [VEnum (ECap Cap_Pcrs), VUnion ''Pcrs'' (Some (pcrs_val banks))]]\<rparr>"
  have row: "(''GetCapability'', TpmGetCapabilityCommand, TpmGetCapabilityResponse) \<in> set dispatch_rows"
    by (simp add: dispatch_rows_def)
  have len: "length ?f \<le> TPM_MAX_COMMAND_SIZE"
    unfolding page_request_bytes by (simp add: to_be_repr_def TPM_MAX_COMMAND_SIZE_def)
  have body: "body_valid TpmGetCapabilityResponse ?body"
    by (simp add: body_valid_def TpmGetCapabilityResponse_def TpmiYesNo_def tpm_bool_def
      TpmsCapabilityData_valid_iff TpmCap_codec_valid TpmuCapabilities_def TpmuCapabilities_arms_def
      tpmu_view_def tpmu_matches_tag_def pcrs_val_valid [OF assms])
  have "pcr_answer banks pcr ?f = success_frame TpmGetCapabilityResponse ?body"
    unfolding page_request_bytes by (simp add: pcr_answer_def to_be_repr_def del: to_be_bytes.simps)
  then obtain d' where "transact (pcr_tpm banks pcr) TpmGetCapabilityCommand (page_request Cap_Pcrs 0)
      TpmGetCapabilityResponse d = Some (Ok ?body, d')"
    using transact_success [OF row page_request_valid body len, of "pcr_tpm banks pcr" d ?f ?f]
    by (auto simp: pcr_tpm_def)
  then have "get_capability_page (pcr_tpm banks pcr) Cap_Pcrs 0 CAPABILITY_PAGE_SIZE d =
      Some (Ok (False, VUnion ''Pcrs'' (Some (pcrs_val banks))), d')"
    by (simp add: get_capability_page_def)
  then show ?thesis
    by (cases "pcr_bank_list banks")
      (auto simp: fetch_pcr_bank_list_def get_capability_def get_capability_from.simps extract_items_def
        pcrs_val_def bank_of_val [simplified] dev_bind_def dev_return_def)
qed

end
