(* ===== verification/Sh_Policy_Laws.thy ===== *)
theory Sh_Policy_Laws
  imports Sh_Task_Laws Device_Queries Vtpm_Policy_Laws
begin

text \<open>
  A compiled policy is saved with a key and loaded again: the session that runs the loaded commands sends the
  same bytes as the one that runs the compiled ones.
\<close>

text \<open>A command that saving does not ask the TPM about.\<close>

definition saveable :: "TpmCommandValue \<times> TpmAuthCommands \<Rightarrow> bool" where
  "saveable ca \<longleftrightarrow> command_typed (fst ca) \<and> plain_command ca \<and> TpmCommandValue_cc (fst ca) \<noteq> Cc_PolicySecret"

lemma saveable_row:
  assumes "saveable (c, auths)"
  obtains v cmd resp h where "(v, cmd, resp) \<in> set dispatch_rows" "f_CC cmd = TpmCommandValue_cc c"
    "body_valid cmd (TpmCommandValue_body c)" "session_slot (TpmCommandValue_cc c) = Some 0"
    "b_handles (TpmCommandValue_body c) = [h]" "auths = []"
    "length (sent_bytes cmd (TpmCommandValue_body c) []) \<le> TPM_MAX_COMMAND_SIZE"
    "policy_parameters (TpmCommandValue_cc c) \<noteq> None \<or> TpmCommandValue_cc c \<in> set empty_ccs"
proof -
  have c: "command_typed c" "\<forall>cc b. c \<noteq> OtherCmd cc b" "TpmCommandValue_cc c \<noteq> Cc_PolicySecret" "auths = []"
    using assms by (simp_all add: saveable_def plain_command_def)
  have fits: "length (sent_bytes cmd b []) \<le> TPM_MAX_COMMAND_SIZE"
    if "(v, cmd, resp) \<in> set dispatch_rows" "body_valid cmd b" "10 + 4 * HANDLES cmd + fields_SIZE (f_params cmd) \<le> TPM_MAX_COMMAND_SIZE"
    for v cmd resp b
    using sent_bytes_length [OF row_ok(1) [OF that(1)] that(2)] that(3) by simp
  show thesis
  proof (cases rule: policy_commands [OF c(1,2)])
    case 1
    with c show thesis
      using policy_rows(1) fits [OF policy_rows(1)]
      by (cases c) (auto intro!: that [OF policy_rows(1)] simp: TpmPolicyPcrCommand_def session_slot_def
          policy_parameters_def policy_table_def fields_SIZE_def TPM_MAX_COMMAND_SIZE_def)
  next
    case 2
    with c show thesis
      using policy_rows(2) fits [OF policy_rows(2)]
      by (cases c) (auto intro!: that [OF policy_rows(2)] simp: TpmPolicyOrCommand_def session_slot_def
          policy_parameters_def policy_table_def fields_SIZE_def TPM_MAX_COMMAND_SIZE_def)
  next
    case 3
    with c show thesis
      using policy_rows(3) fits [OF policy_rows(3)]
      by (cases c) (auto intro!: that [OF policy_rows(3)] simp: TpmPolicyRestartCommand_def session_slot_def
          empty_ccs_def fields_SIZE_def TPM_MAX_COMMAND_SIZE_def)
  qed (use c in simp)
qed

lemma command_decl_frame: "(v, cmd, resp) \<in> set dispatch_rows \<Longrightarrow> f_CC cmd = cc \<Longrightarrow> command_decl cc = cmd"
  using command_decl_row by auto

lemma saved_command:
  assumes "saveable (c, auths)"
  shows "\<exists>q. save_vtpm_policy E ((c, auths) # cs) w =
      sh_bind (save_vtpm_policy E cs) (\<lambda>qs. sh_return (Ok (q # qs))) w \<and>
    policy_cc q = TpmCommandValue_cc c \<and>
    to_command q = Ok (TpmCommandValue_cc c, \<lparr>b_handles = [ZERO_HANDLE], b_params = b_params (TpmCommandValue_body c)\<rparr>)"
proof -
  obtain v cmd resp h where row: "(v, cmd, resp) \<in> set dispatch_rows" "f_CC cmd = TpmCommandValue_cc c"
    "body_valid cmd (TpmCommandValue_body c)" "auths = []"
    "length (sent_bytes cmd (TpmCommandValue_body c) []) \<le> TPM_MAX_COMMAND_SIZE"
    "policy_parameters (TpmCommandValue_cc c) \<noteq> None \<or> TpmCommandValue_cc c \<in> set empty_ccs"
    by (rule saveable_row [OF assms])
  have cc: "TpmCommandValue_cc c \<noteq> Cc_PolicySecret" using assms by (simp add: saveable_def)
  define f where "f = sent_bytes cmd (TpmCommandValue_body c) []"
  have ss: "length ([] :: val list) \<le> MAX_SESSIONS" "list_all (valid TpmsAuthCommand) []" by simp_all
  have "emits (tpm_marshal_command (frame_of cmd (TpmCommandValue_body c)) St_NoSessions []) f"
    using sent_bytes_emits [OF row_ok(1) [OF row(1)] row(3) ss] by (simp add: f_def)
  from marshal_into_emits [OF this] row(5) have frame: "marshal_command_frame c auths = Ok f"
    by (simp add: marshal_command_frame_def row(4) command_decl_frame [OF row(1,2)] f_def
        TPM_MAX_COMMAND_SIZE_def usize_max_def)
  note rt = command_roundtrip [OF row(1,3) _ ss, of St_NoSessions]
  have f: "TpmCommand_validate f = Ok ()" "TpmCommand_unmarshal cmd f = Ok (TpmCommandValue_body c)"
    using rt(1,2) by (simp_all add: f_def sent_bytes_def)
  then have cast: "TpmCommand_cast f = Ok f" by (auto simp: TpmCommand_cast_def TpmCommand_validate_def)
  from captured_frame [OF row(1) f(2), of "VBuffer []"] row(6) cc
  obtain q where q: "vtpm_policy_command_from f (VBuffer []) = Ok q" by (auto simp: row(2))
  from captured_default [OF row(1) f(2) q] cc
  have "policy_cc q = TpmCommandValue_cc c"
    "to_command q = Ok (TpmCommandValue_cc c, \<lparr>b_handles = [ZERO_HANDLE], b_params = b_params (TpmCommandValue_body c)\<rparr>)"
    by (simp_all add: row(2))
  moreover have "save_vtpm_policy E ((c, auths) # cs) w =
      sh_bind (save_vtpm_policy E cs) (\<lambda>qs. sh_return (Ok (q # qs))) w"
    by (simp add: secret_object_name_def cc frame cast q)
  ultimately show ?thesis by blast
qed

text \<open>A command as it is loaded: with a zero handle in the place of the session.\<close>

definition reloaded :: "TpmCommandValue \<times> TpmAuthCommands \<Rightarrow> TpmCommandValue \<times> TpmAuthCommands" where
  "reloaded ca = (OtherCmd (TpmCommandValue_cc (fst ca))
     \<lparr>b_handles = [ZERO_HANDLE], b_params = b_params (TpmCommandValue_body (fst ca))\<rparr>, [])"

lemma saved_commands_reload:
  assumes "list_all saveable cs"
  shows "\<exists>qs. save_vtpm_policy E cs w = Some (Ok qs, w) \<and>
    (\<forall>w'. load_commands E' qs w' = Some (Ok (map reloaded cs), w'))"
  using assms
proof (induction cs)
  case (Cons ca cs)
  obtain c auths where ca: "ca = (c, auths)" by (cases ca)
  from Cons obtain qs where qs: "save_vtpm_policy E cs w = Some (Ok qs, w)"
    "\<forall>w'. load_commands E' qs w' = Some (Ok (map reloaded cs), w')" by auto
  from Cons.prems have "saveable (c, auths)" by (simp add: ca)
  from saved_command [OF this, of E cs w] obtain q where q:
    "save_vtpm_policy E ((c, auths) # cs) w = sh_bind (save_vtpm_policy E cs) (\<lambda>qs. sh_return (Ok (q # qs))) w"
    "policy_cc q = TpmCommandValue_cc c"
    "to_command q = Ok (TpmCommandValue_cc c, \<lparr>b_handles = [ZERO_HANDLE], b_params = b_params (TpmCommandValue_body c)\<rparr>)"
    by blast
  have "TpmCommandValue_cc c \<noteq> Cc_PolicySecret" using Cons.prems by (simp add: ca saveable_def)
  then have "load_commands E' (q # qs) w' = Some (Ok (map reloaded (ca # cs)), w')" for w'
    using spec [OF qs(2), of w'] by (simp add: q ca reloaded_def)
  then show ?case using q(1) qs(1) by (simp add: ca del: save_vtpm_policy.simps)
qed simp

lemma reloaded_bytes:
  assumes "saveable ca"
  shows "run_bytes session (reloaded ca) = run_bytes session ca"
proof -
  obtain c auths where ca: "ca = (c, auths)" by (cases ca)
  obtain h where "session_slot (TpmCommandValue_cc c) = Some 0" "b_handles (TpmCommandValue_body c) = [h]" "auths = []"
    by (rule saveable_row [OF assms [unfolded ca]])
  then show ?thesis
    by (cases "TpmCommandValue_body c") (simp add: ca reloaded_def run_bytes_def set_handle_def)
qed

lemma compiled_saveable:
  assumes "compile_policy L e alg ctx = Ok p" "expr_typed e"
    and "\<forall>(c, _) \<in> set (cp_commands p). TpmCommandValue_cc c \<noteq> Cc_PolicySecret"
  shows "list_all saveable (cp_commands p)"
proof -
  let ?session = "\<lparr>s_handle = handle_val 0, s_attributes = 0, s_hash_alg = alg, s_nonce_tpm = VBuffer []\<rparr>"
  have "valid TpmHandle (s_handle ?session)" by simp
  from compiled_runnable [OF assms(1,2) this] compiled_plain [OF assms(1)] assms(3)
  show ?thesis by (auto simp: list_all_iff saveable_def runnable_def)
qed

end
