(* ===== verification/Sh_Properties.thy ===== *)
theory Sh_Properties
  imports Sh_Handle_Laws Sh_Task_Laws Sh_Pcr_Reference Sh_Policy_Laws Device_Properties
begin

text \<open>
  The properties of the command line: the handles it matches, the objects a task loads, the PCRs it reads and the
  policies it runs.
\<close>

subsection \<open>Handles\<close>

text \<open>C40.  A handle pattern means what it says: it matches exactly the handles whose eight hexadecimal digits match
  its text, where \<open>?\<close> is any digit and \<open>*\<close> any number of them, and printing the pattern gives a text that parses to
  it again.\<close>

theorem handle_pattern_glob:
  assumes "Handle_from_str s = Ok h"
  shows "(\<forall>v. Handle_matches h v \<longleftrightarrow> glob s (hex_digits 8 (unat v))) \<and>
    Handle_from_str (Handle_display h) = Ok h"
  using matches_glob [OF assms] handle_display_parses [OF assms] by blast

theorem handle_pattern_glob_witness:
  "\<exists>h. Handle_from_str ''81*1'' = Ok h \<and> Handle_matches h 0x81000001 \<and> \<not> Handle_matches h 0x80000001 \<and>
    Handle_from_str (Handle_display h) = Ok h"
proof -
  have h: "Handle_from_str ''81*1'' = Ok \<lparr>h_mask = 0xFF00000F, h_value = 0x81000001\<rparr>"
    by code_simp
  from handle_pattern_glob [OF h] show ?thesis
    by (intro exI [of _ "\<lparr>h_mask = 0xFF00000F, h_value = 0x81000001\<rparr>"]) (simp add: h Handle_matches_def)
qed

subsection \<open>Loaded objects\<close>

text \<open>C36.  In every state a task reaches, each physical handle is tracked once and every loaded key has one of its
  own; a key that loads has a tracked handle or is persistent, and loading it again gives the same handle
  without a command and without a change.\<close>

theorem loaded_keys_tracked:
  assumes "task_reachable E persistent w" "load_key_by_handle E h w = Some (Ok p, w')"
  shows "distinct (ts_phys_handles (snd w')) \<and> inj_on (map_of (ts_virt_handles (snd w'))) (dom (map_of (ts_virt_handles (snd w')))) \<and>
    ran (map_of (ts_virt_handles (snd w'))) \<subseteq> set (ts_phys_handles (snd w')) \<and>
    (if sh_handle_type h = Some Ht_Persistent then p = h \<and> w' = w else p \<in> set (ts_phys_handles (snd w'))) \<and>
    load_key_by_handle E h w' = Some (Ok p, w')"
proof -
  obtain d s d' s' where w: "w = (d, s)" "w' = (d', s')" by (cases w; cases w')
  have ok: "task_ok (env_crypto E) persistent s" using task_reachable_ok [OF assms(1)] by (simp add: w)
  have ok': "task_ok (env_crypto E) persistent s'"
    using keepsD [OF load_key_by_handle_keeps assms(2)] ok by (simp add: w)
  let ?virt = "ts_virt_handles s'"
  have virt: "distinct (map fst ?virt)" "distinct (map snd ?virt)" using ok' by (simp_all add: task_ok_def)
  then have "map_of ?virt h = Some p \<longleftrightarrow> (h, p) \<in> set ?virt" for h p
    by (simp add: map_of_eq_Some_iff)
  moreover have "h = h'" if "(h, p) \<in> set ?virt" "(h', p) \<in> set ?virt" for h h' p
    using virt(2) inj_onD [of snd "set ?virt" "(h, p)" "(h', p)"] that by (simp add: distinct_map)
  ultimately have inj: "inj_on (map_of ?virt) (dom (map_of ?virt))" and
    ran: "ran (map_of ?virt) \<subseteq> set (ts_phys_handles s')"
    using ok' by (auto simp: inj_on_def ran_def dom_def task_ok_def)
  have phys: "distinct (ts_phys_handles s')" using ok' by (simp add: task_ok_def)
  have plain: "map_of (ts_virt_handles s) h = None" if "sh_handle_type h = Some Ht_Persistent"
    using ok that by (force simp: task_ok_def map_of_eq_None_iff)
  have found: ?thesis if "map_of ?virt h = Some p" "sh_handle_type h \<noteq> Some Ht_Persistent"
    using that inj ran phys by (auto simp: w load_key_by_handle_def ran_def)
  show ?thesis
    using assms(2) [unfolded w]
  proof (cases rule: load_key_by_handle_cases)
    case (loaded q)
    then have "sh_handle_type h \<noteq> Some Ht_Persistent" using plain by auto
    with loaded show ?thesis by (intro found) simp_all
  next
    case persistent
    with inj ran phys show ?thesis by (simp add: w load_key_by_handle_def)
  next
    case (fresh key q)
    then show ?thesis by (intro found) (simp_all add: map_add_def)
  next
    case failed
    then show ?thesis by blast
  qed
qed

text \<open>The instance: a TPM that loads every context under one handle.\<close>

definition loading_tpm :: "unit TpmTransport" where
  "loading_tpm = \<lparr>
     t_send = (\<lambda>_ _. Some (Ok (), ())),
     t_recv = (\<lambda>_. Some (Ok (), success_frame TpmContextLoadResponse
       \<lparr>b_handles = [handle_val 0x80FFFFFF], b_params = []\<rparr>, ()))\<rparr>"

definition sample_env :: "'t TpmTransport \<Rightarrow> 't sh_env" where
  "sample_env T = \<lparr>env_crypto = sum_crypto, env_transport = T, env_io = quiet_io,
     env_hex = \<lparr>hex_encode = (\<lambda>_. []), hex_decode = (\<lambda>_. None)\<rparr>,
     env_rng = (\<lambda>n. replicate n 0), env_rand_bytes = (\<lambda>n. Some (replicate n 0))\<rparr>"

lemma loading_tpm_loads:
  "\<exists>d'. load_context loading_tpm default_context d = Some (Ok (handle_val 0x80FFFFFF), d')"
proof -
  let ?cmd = "\<lparr>b_handles = [], b_params = [default_context]\<rparr>"
  let ?body = "\<lparr>b_handles = [handle_val 0x80FFFFFF], b_params = []\<rparr>"
  have row: "(''ContextLoad'', TpmContextLoadCommand, TpmContextLoadResponse) \<in> set dispatch_rows"
    by (simp add: dispatch_rows_def)
  have cmd: "body_valid TpmContextLoadCommand ?cmd"
    by (simp add: body_valid_def TpmContextLoadCommand_def default_context_valid)
  have body: "body_valid TpmContextLoadResponse ?body"
    by (simp add: body_valid_def TpmContextLoadResponse_def)
  have len: "length (sent_bytes TpmContextLoadCommand ?cmd []) \<le> TPM_MAX_COMMAND_SIZE"
    using wire_codec.length_encode [OF wire_field_codec [OF TpmsContext_ok] default_context_valid]
    by (simp add: sent_bytes_def TpmContextLoadCommand_def body_handle_bytes_def body_param_bytes_def
        command_bytes_def command_body_def header_def default_context_def TpmsContext_def TPM_MAX_COMMAND_SIZE_def
        tpm_struct_def TpmUint64_def TpmUint32_def tpm_int_def TpmHandle_def TpmRh_codec_def tpm_enum_codec_def Tpm2b_def TpmBuffer_def)
  obtain d' where "transact loading_tpm TpmContextLoadCommand ?cmd TpmContextLoadResponse d = Some (Ok ?body, d')"
    using transact_success [OF row cmd body len, of loading_tpm d] by (auto simp: loading_tpm_def)
  then show ?thesis by (simp add: load_context_def dev_bind_def dev_return_def)
qed

theorem loaded_keys_tracked_witness:
  "\<exists>w'. load_key_by_handle (sample_env loading_tpm) TRANSIENT_START
       (TpmDevice_new (), TaskState_init one_key_cache None []) = Some (Ok 0x80FFFFFF, w') \<and>
     0x80FFFFFF \<in> set (ts_phys_handles (snd w')) \<and>
     load_key_by_handle (sample_env loading_tpm) TRANSIENT_START w' = Some (Ok 0x80FFFFFF, w')"
proof -
  have reach: "task_reachable (sample_env loading_tpm) [] (TpmDevice_new (), TaskState_init one_key_cache None [])"
    by (rule begun_without_device) (simp add: sample_env_def one_key_reachable)
  have t: "sh_handle_type TRANSIENT_START \<noteq> Some Ht_Persistent"
    by (simp add: sh_handle_type_def TRANSIENT_START_def TpmHt_try_from_def enum_try_from_def TpmHt_variants_def)
  obtain w' where load: "load_key_by_handle (sample_env loading_tpm) TRANSIENT_START
      (TpmDevice_new (), TaskState_init one_key_cache None []) = Some (Ok 0x80FFFFFF, w')"
    using loading_tpm_loads [of "TpmDevice_new ()"] t
    by (auto simp: load_key_by_handle_def TaskState_init_def find_by_handle_def sealed_lookup sealed_key_def
        sample_env_def on_device_def sh_bind_def track_def)
  from loaded_keys_tracked [OF reach this] load t show ?thesis by auto
qed

subsection \<open>PCRs\<close>

text \<open>C37.  Reading the PCRs returns with every register of every active bank, however the TPM splits its answers,
  when the TPM answers each request with values of some of the registers it asked for, and at least one.  Nothing
  else is in the result.\<close>

theorem read_all_pcrs_complete:
  assumes banks: "fetch_pcr_bank_list T d = Some (Ok (algs, common), d1)" "I d1"
    and fits: "distinct algs" "length algs \<le> 8" "length common \<le> TPM_PCR_SELECT_MAX"
    and tpm: "reads_pcrs T (set algs \<times> set (pcr_indices common)) pcr I"
  shows "\<exists>d' results. read_all_pcrs T d = Some (Ok results, d') \<and> I d' \<and>
    (\<forall>alg. map_option map_of (map_of results alg) = (if alg \<in> set algs
      then Some (\<lambda>i. if i \<in> set (pcr_indices common) then Some (pcr alg i) else None) else None))"
  using read_all_pcrs_view [OF banks fits(1,2) _ tpm] fits(3)
  by (auto simp: TPM_PCR_SELECT_MAX_def bank_view_def fun_eq_iff)

definition sample_pcr :: "TpmAlgId \<Rightarrow> nat \<Rightarrow> u8 list" where
  "sample_pcr alg i = [word_of_nat i]"

theorem read_all_pcrs_complete_witness:
  "\<exists>d' results bank. read_all_pcrs (pcr_tpm [(Alg_Sha384, [3]), (Alg_Sha256, [3])] sample_pcr) (TpmDevice_new []) =
       Some (Ok results, d') \<and>
     map_of results Alg_Sha256 = Some bank \<and> map_of bank 0 = Some [0] \<and> map_of bank 1 = Some [1] \<and> map_of bank 2 = None"
proof -
  let ?banks = "[(Alg_Sha384, [3 :: u8]), (Alg_Sha256, [3])]"
  have sorted: "pcr_bank_list ?banks = Ok ([Alg_Sha256, Alg_Sha384], [3])"
    by (simp add: pcr_bank_list_eq allocated_def less_eq_TpmAlgId_def)
  have indices: "pcr_indices [3] = [0, 1]" by code_simp
  from pcr_tpm_banks [of ?banks sample_pcr "TpmDevice_new []"] sorted
  obtain d1 where d1: "fetch_pcr_bank_list (pcr_tpm ?banks sample_pcr) (TpmDevice_new []) =
      Some (Ok ([Alg_Sha256, Alg_Sha384], [3]), d1)"
    by (auto simp: selections_typed_def)
  from read_all_pcrs_complete [OF d1 TrueI _ _ _ pcr_tpm_reads [of sample_pcr]]
  obtain d' results where run: "read_all_pcrs (pcr_tpm ?banks sample_pcr) (TpmDevice_new []) = Some (Ok results, d')"
    and all: "\<forall>alg. map_option map_of (map_of results alg) = (if alg \<in> set [Alg_Sha256, Alg_Sha384]
      then Some (\<lambda>i. if i \<in> set (pcr_indices [3]) then Some (sample_pcr alg i) else None) else None)"
    by (auto simp: TPM_PCR_SELECT_MAX_def sample_pcr_def)
  from spec [OF all, of Alg_Sha256] obtain bank where "map_of results Alg_Sha256 = Some bank"
    "map_of bank = (\<lambda>i. if i \<in> set (pcr_indices [3]) then Some (sample_pcr Alg_Sha256 i) else None)"
    by auto
  with run show ?thesis by (auto simp: indices sample_pcr_def)
qed

subsection \<open>Policies\<close>

text \<open>C39.  The policy that is cached for a persistent object is never run: in every state a task reaches, the
  authorization of a persistent handle is the one given for it, or else the empty password, after one command that
  reads its public area; no session is opened.\<close>

theorem persistent_policy_unused:
  assumes "task_reachable E persistent (d, s)" "sh_handle_type h = Some Ht_Persistent"
    and "read_public (env_transport E) (handle_val h) d = Some (r, d')"
  shows "resolve_auth E h (d, s) =
    Some (and_then (map_err device_err r) (\<lambda>(public, _). Ok (h, TpmtPublic_name_alg public, auth_for s h)), (d', s))"
proof -
  have "task_ok (env_crypto E) persistent s" using task_reachable_ok [OF assms(1)] by simp
  then have "map_of (ts_virt_handles s) h = None"
    using assms(2) by (force simp: task_ok_def map_of_eq_None_iff)
  then have "load_key_by_handle E h (d, s) = Some (Ok h, (d, s))"
    using assms(2) by (simp add: load_key_by_handle_def)
  then show ?thesis
    using assms(2,3)
    by (cases r) (auto simp: resolve_auth_def fetch_policy_def load_policy_def on_device_def auth_for_def
        sh_bind_def sh_return_def get_state_def split: option.split)
qed

text \<open>C38.  A policy of an object survives the key file and the cache: a compiled policy without secrets is saved
  without a command, the saved commands load again in any later state, and a session that runs the loaded commands
  sends exactly the bytes that it sends for the compiled ones.\<close>

theorem saved_policy_reloads:
  assumes "compile_policy L e alg ctx = Ok p" "expr_typed e"
    and "\<forall>(c, _) \<in> set (cp_commands p). TpmCommandValue_cc c \<noteq> Cc_PolicySecret"
  shows "\<exists>saved. save_vtpm_policy E (cp_commands p) w = Some (Ok saved, w) \<and>
    (\<forall>w'. \<exists>commands. load_commands E' saved w' = Some (Ok commands, w') \<and>
      map (run_bytes session) commands = map (run_bytes session) (cp_commands p))"
proof -
  from compiled_saveable [OF assms] have ok: "list_all saveable (cp_commands p)" .
  then have "map (run_bytes session) (map reloaded (cp_commands p)) = map (run_bytes session) (cp_commands p)"
    by (simp add: reloaded_bytes list_all_iff)
  with saved_commands_reload [OF ok, of E w E'] show ?thesis by blast
qed

text \<open>The instance: one of two digests of a register.\<close>

definition two_pcrs :: TpmPolicyExpression where
  "two_pcrs = OrExpr [PcrExpr [(Alg_Sha256, [1, 0, 0])] (Some (replicate 32 1)),
     PcrExpr [(Alg_Sha256, [1, 0, 0])] (Some (replicate 32 2))]"

lemma marshal_selection:
  assumes "selections_typed sels"
  shows "marshal_into (marshal TpmlPcrSelection (pcrs_val sels)) 60 = Ok (encode TpmlPcrSelection (pcrs_val sels))"
proof -
  note c = wire_field_codec [OF TpmlPcrSelection_ok] and v = pcrs_val_valid [OF assms]
  have "length (encode TpmlPcrSelection (pcrs_val sels)) \<le> 60"
    using wire_codec.length_encode [OF c v] wire_codec.len_le_SIZE [OF c v] by simp
  then show ?thesis
    by (intro marshal_into_emits [OF wire_codec.marshal_emits [OF c v]]) (simp_all add: usize_max_def)
qed

lemma two_pcrs_compiles:
  "\<exists>p. compile_policy sum_crypto two_pcrs Alg_Sha256 empty_context = Ok p \<and>
     map (TpmCommandValue_cc \<circ> fst) (cp_commands p) =
       [Cc_PolicyRestart, Cc_PolicyPcr, Cc_PolicyRestart, Cc_PolicyPcr, Cc_PolicyOr]"
proof -
  have "selections_typed [(Alg_Sha256, [1, 0, 0])]" by (simp add: selections_typed_def)
  note marshalled = marshal_selection [OF this]
  have "md_size sum_crypto Sha256 = 32" by (simp add: sum_crypto_def sum_size_def)
  then show ?thesis
    by (simp add: compile_policy_def TpmPolicySession_new_def TpmHash_try_from_def two_pcrs_def
      compile_walk_pcr_def selected_digest_def policy_pcr_def marshalled policy_restart_def sum_crypto_session
      digest_try_from_le TpmList_try_push_def Let_def del: and_then_Ok_iff)
qed

theorem saved_policy_reloads_witness:
  "\<exists>p saved w' commands. compile_policy sum_crypto two_pcrs Alg_Sha256 empty_context = Ok p \<and>
     save_vtpm_policy (sample_env loading_tpm) (cp_commands p) (TpmDevice_new (), TaskState_init one_key_cache None []) =
       Some (Ok saved, w') \<and>
     load_commands (sample_env loading_tpm) saved w' = Some (Ok commands, w') \<and> length commands = 5 \<and>
     map (run_bytes sample_session) commands = map (run_bytes sample_session) (cp_commands p)"
proof -
  obtain p where p: "compile_policy sum_crypto two_pcrs Alg_Sha256 empty_context = Ok p"
    "map (TpmCommandValue_cc \<circ> fst) (cp_commands p) =
       [Cc_PolicyRestart, Cc_PolicyPcr, Cc_PolicyRestart, Cc_PolicyPcr, Cc_PolicyOr]"
    by (rule exE [OF two_pcrs_compiles], elim conjE) (rule that)
  have len: "length (cp_commands p) = 5" using arg_cong [OF p(2), of length] by simp
  have typed: "expr_typed two_pcrs" by (simp add: two_pcrs_def selections_typed_def)
  have "\<forall>cc \<in> set (map (TpmCommandValue_cc \<circ> fst) (cp_commands p)). cc \<noteq> Cc_PolicySecret"
    unfolding p(2) by simp
  then have "\<forall>(c, _) \<in> set (cp_commands p). TpmCommandValue_cc c \<noteq> Cc_PolicySecret" by auto
  from saved_policy_reloads [OF p(1) typed this, of "sample_env loading_tpm"
      "(TpmDevice_new (), TaskState_init one_key_cache None [])" "sample_env loading_tpm" sample_session] obtain saved commands where
    "save_vtpm_policy (sample_env loading_tpm) (cp_commands p) (TpmDevice_new (), TaskState_init one_key_cache None []) =
       Some (Ok saved, (TpmDevice_new (), TaskState_init one_key_cache None []))"
    "load_commands (sample_env loading_tpm) saved (TpmDevice_new (), TaskState_init one_key_cache None []) =
       Some (Ok commands, (TpmDevice_new (), TaskState_init one_key_cache None []))"
    "map (run_bytes sample_session) commands = map (run_bytes sample_session) (cp_commands p)"
    by blast
  with p(1) len map_eq_imp_length_eq [OF this(3)] show ?thesis
    by (intro exI [of _ p] exI [of _ saved] exI [of _ commands]
        exI [of _ "(TpmDevice_new (), TaskState_init one_key_cache None [])"]) simp
qed

theorem persistent_policy_unused_witness:
  "\<exists>d'. resolve_auth (sample_env (reference_tpm two_objects)) 0x81000001
      (TpmDevice_new [], TaskState_init one_key_cache None []) =
    Some (Ok (0x81000001, TpmtPublic_name_alg null_public, Auth_Password []), (d', TaskState_init one_key_cache None []))"
proof -
  let ?E = "sample_env (reference_tpm two_objects)"
  obtain d' where read: "read_public (env_transport ?E) (handle_val 0x81000001) (TpmDevice_new []) =
      Some (Ok (null_public, VBuffer [1]), d')"
    using objects_read [OF reference_reads [OF two_objects_ok]]
    by (force simp: reads_public_def two_objects_def sample_env_def)
  have reach: "task_reachable ?E [] (TpmDevice_new [], TaskState_init one_key_cache None [])"
    by (rule begun_without_device) (simp add: sample_env_def one_key_reachable)
  have "sh_handle_type 0x81000001 = Some Ht_Persistent"
    by (simp add: sh_handle_type_def enum_try_from_def TpmHt_variants_def)
  from persistent_policy_unused [OF reach this read] show ?thesis
    by (simp add: auth_for_def TaskState_init_def Auth_default_def)
qed

end
