(* ===== verification/Spec2Isabelle.thy ===== *)
theory Spec2Isabelle
  imports Wire_Types Policy_Properties Vtpm_Properties Device_Properties Key_Properties Sh_Properties
begin

text \<open>
  A verification development for \<open>tpm2-library\<close>, a Rust workspace for the Trusted Platform Module 2.0.

  The program.  \<open>crates/protocol\<close> is the core: it turns TPM commands, responses and their data
  types into bytes and back, without allocation, in two ways that must agree - owned values
  (\<open>TpmMarshal\<close>, \<open>TpmUnmarshal\<close>) and zero-copy views of a buffer (\<open>TpmCast\<close>, \<open>TpmField\<close>).  Everything else of
  the workspace is built on it: \<open>crates/crypto\<close> computes digests, keys and names with OpenSSL,
  \<open>crates/policy-language\<close> parses policy expressions and compiles them to policy commands with their digest,
  \<open>crates/vtpm\<close> keeps saved keys and their policies in files, \<open>crates/device\<close> sends frames to a device and reads
  the replies, \<open>crates/tpmkey\<close> reads and writes key files, \<open>crates/sh\<close> is a command line.

  How \<open>crates/protocol\<close> is put together, and the theory that models each part.
  \<^item> \<open>error.rs\<close>: \<open>TpmError\<close> with the byte offset of every error, \<open>rebase\<close> - theory \<open>Errors\<close>.
  \<^item> \<open>lib.rs\<close>: \<open>TpmWriter\<close>, a buffer with a cursor, and \<open>TpmWireBytes\<close>, fixed-size views - theories
    \<open>Writer\<close> and \<open>Codec\<close>.  A marshalling routine is a function from the writer to a result and the
    writer it leaves, so that a failing routine shows how far it got.
  \<^item> \<open>basic/\<close>: big-endian integers, \<open>TpmBuffer\<close> and \<open>Tpm2b\<close> (bytes behind a 16-bit size), \<open>TpmList\<close> and
    \<open>Tpml\<close> (items behind a 32-bit count) - theory \<open>Codec\<close>.
  \<^item> \<open>macro/enum.rs\<close> and \<open>data/enum/\<close>: every enumeration as a datatype with its values, conversions and
    names, and the structured response codes \<open>TpmRc\<close> on 32-bit words - theories \<open>Enum_Core\<close>,
    \<open>Enum_Small\<close>, \<open>Enum_Alg\<close>, \<open>Enum_Cc\<close>, \<open>Enum_Pt\<close>, \<open>Rc_Base\<close>, \<open>Rc\<close>, \<open>Data_Rc\<close>.
  \<^item> \<open>macro/struct.rs\<close>, \<open>macro/mod.rs\<close>: the generators of structures, sized structures, tagged structures,
    unions and bit flags.  A macro is a combinator on codecs in theory \<open>Codec\<close>; a \<open>codec\<close> is a record
    with the operations the macro generates (\<open>len\<close>, \<open>marshal\<close>, \<open>unmarshal\<close>, \<open>cast_prefix\<close>,
    \<open>validate_prefix\<close>, \<open>SIZE\<close>) over one type \<open>val\<close> of values, and \<open>valid\<close>, the values that inhabit the Rust
    type.
  \<^item> \<open>data/\<close>: each of the data types, as the use of a combinator or a hand-written codec where the code
    has hand-written implementations - theories \<open>Data_Basic\<close>, \<open>Data_Public\<close>, \<open>Data_Types\<close>.
  \<^item> \<open>frame/\<close>: bodies and frames - theory \<open>Frame\<close>; the 252 declarations of \<open>frame/data.rs\<close> - theories
    \<open>Frame_Decl_A\<close> to \<open>Frame_Decl_D\<close>; the dispatch table and its binary search - theory \<open>Dispatch\<close>; the
    views \<open>TpmCommand\<close>, \<open>TpmResponse\<close> and the dispatching views - theory \<open>Wire\<close>.  The accessors, setters
    and validation of a view are functions of the byte list it covers.

  The crates above it.
  \<^item> \<open>crypto/src/hash.rs\<close>, \<open>error.rs\<close> and \<open>tpm_make_name\<close> - theory \<open>Hash\<close>.  OpenSSL is the record \<open>libcrypto\<close> of
    functions, \<open>libcrypto_ok\<close> the documented behaviour the code relies on (lengths of digests and MACs, and
    the equal lengths that \<open>memcmp::eq\<close> asserts).
  \<^item> \<open>policy-language/src\<close> - theory \<open>Policy\<close> (context, tokenizer, parser, printer) and \<open>Policy_Compile\<close> (software
    session, compiler, \<open>from_commands\<close>), over the string functions of \<open>Rust_Text\<close>.  Hexadecimal coding is
    the record \<open>hex_lib\<close>.
  \<^item> \<open>vtpm/src/policy.rs\<close> - theory \<open>Vtpm_Policy\<close>: cached policy commands; \<open>vtpm/src/lib.rs\<close> - theory \<open>Vtpm\<close>:
    records, the cache with its indices, its operations.  The directory is a map from names to contents,
    the record \<open>vtpm_io\<close> says which file operations fail.
  \<^item> \<open>device/src/lib.rs\<close> - theory \<open>Device_Transport\<close> (errors, transports, frames in a stream, the Linux
    character device), \<open>Device\<close> (\<open>TpmDevice\<close>, its queries, \<open>TpmResponder\<close>) and \<open>Device_Session\<close> (policy
    sessions).  An operation is a function of the device that may not return (\<open>None\<close>); streams, files,
    \<open>poll\<close> and the clock are records of functions.
  \<^item> \<open>crypto/src/template.rs\<close> with the curves of \<open>ecc.rs\<close> - theory \<open>Template\<close>: the parts of a public area, typed
    as the Rust structures are, templates, algorithm strings.  \<open>public_val\<close> is the value of the wire layer
    that a public area stands for.
  \<^item> \<open>tpmkey/src\<close> - theory \<open>Key_File\<close>: key files, their builder, the checks of reading and writing.  The
    ASN.1 and PEM libraries are the record \<open>key_codec\<close>, \<open>key_codec_ok\<close> says that decoding undoes encoding.
  \<^item> \<open>sh/src\<close> - theories \<open>Sh_Handle\<close> (\<open>handle.rs\<close>: handle patterns), \<open>Sh_Task\<close> (\<open>task.rs\<close>, \<open>error.rs\<close>: the state
    a command works on, with the keys it has loaded, its sessions and the cache) and \<open>Sh_Pcr\<close> (\<open>pcr.rs\<close>: the loop
    over the PCRs).  An operation is a function of the device and the task that may not return; what comes
    from outside is the record \<open>sh_env\<close>.

  The lemmas.
  \<^item> \<open>Codec_Laws\<close> and \<open>Union_Laws\<close> state the contract of a wire type as locales: \<open>decoder\<close> (a decoder
    inverts an encoder, accepts nothing else, never panics and reports offsets inside its input),
    \<open>wire_codec\<close> (the owned operations of a codec: marshalling emits the encoding, whose length is
    \<open>len\<close> and at most \<open>SIZE\<close>), \<open>wire_field\<close> (the zero-copy cast agrees with \<open>unmarshal\<close>), \<open>wire_union\<close> and
    \<open>tagged\<close> for unions behind a selector.  Each combinator is proved to keep the contract, so the
    codec of a data type meets it by its structure; the data theories collect these facts and
    \<open>Wire_Types\<close> lists the 140 types, and among them the 137 for which the source implements a cast.
  \<^item> \<open>Frame_Laws\<close> has the layouts of a frame (\<open>command_bytes\<close>, \<open>response_bytes\<close>) and the locale
    \<open>lawful_frame\<close> of implementations of \<open>TpmFrame\<close> whose announced sizes are those of what they write;
    the marshaller emits the layout for each of them, and each declaration is one.
  \<^item> \<open>Wire_Laws\<close>, \<open>Wire_Frames\<close>, \<open>Wire_Command\<close> and \<open>Wire_Response\<close> characterise the accepted byte lists:
    \<open>command_frame\<close> and \<open>response_frame\<close> are the abstract specification of a well-formed frame, and the
    views accept exactly those.  The session loops share the locale \<open>session_step\<close>.
  \<^item> \<open>Policy_Laws\<close> has the digest of an expression (\<open>policy_value\<close>) and the form in which its commands are read
    back (\<open>canon\<close>), and \<open>Policy_Tpm\<close> the policy session of a TPM, written from the TPM specification and not from
    the program (\<open>pt_step\<close>, \<open>pt_run\<close>); the compiler is related to each by induction over the expression, given
    that the context describes the TPM (\<open>tpm_agrees\<close>).  \<open>Policy_Text\<close> relates printer, tokenizer and parser.
  \<^item> \<open>Vtpm_Policy_Laws\<close> and \<open>Vtpm_Laws\<close>: round trips of cached commands and records, the indices, the search
    for a free handle.  \<open>Vtpm_State\<close> has the step relation of the cache (\<open>vtpm_step\<close>: the public operations,
    with any outcome of the file operations), the reachable caches and their invariant by rule
    induction; \<open>Vtpm_Tree\<close> the descendants of a key and the walk to the root as a step relation.
  \<^item> \<open>Device_Laws\<close> has the contracts of the device layer as locales: \<open>duplex_stream\<close>, a blocking stream, gives
    \<open>frame_transport\<close>, the transport that a device and a responder need; \<open>next_frame\<close> is the
    specification of framing.  \<open>Device_Posix\<close> has the receive loop under a clock that advances,
    \<open>Device_Queries\<close> the paging loop, the search and a policy run in a session, and \<open>Device_Reference\<close> what a TPM
    answers to the queries in bytes (\<open>lists_handles\<close>, \<open>reads_objects\<close>), with a TPM that answers so.
  \<^item> \<open>Template_Laws\<close> has the parsed templates in closed form, printing and parsing as inverses and the types
    of public areas; \<open>Key_File_Laws\<close> the rules a key file satisfies (\<open>key_file_ok\<close>) and its round trips.
  \<^item> \<open>Sh_Handle_Laws\<close> relates patterns to \<open>glob\<close>, the matching of texts; \<open>Sh_Task_Laws\<close> has the step relation of
    a task (\<open>task_step\<close>) and its invariant \<open>task_ok\<close>, which operations keep by their structure (\<open>keeps\<close>);
    \<open>Sh_Pcr_Laws\<close> the PCR loop by induction on the set of registers that remain, with a TPM that meets the
    assumption in \<open>Sh_Pcr_Reference\<close>; \<open>Sh_Policy_Laws\<close> policies that are saved and loaded.

  The properties.  This theory has those of the protocol, on frames, dispatch, wire types, codes and
  views, and on frames that the layers treat differently; \<open>Policy_Properties\<close> those of the policy
  language, \<open>Crypto_Properties\<close> those of key derivation and MACs, \<open>Vtpm_Properties\<close> those of the key cache,
  \<open>Device_Properties\<close> those of the device layer, \<open>Key_Properties\<close> those of templates and key files,
  \<open>Sh_Properties\<close> those of the command line.

  Conventions and bounds.  A fallible function returns \<open>Ok\<close>, \<open>Err\<close> with the error and its offset, or
  \<open>Panic\<close> where the code would index out of range, so a theorem that a routine does not panic says
  something.  \<open>usize\<close> is 64 bits wide: \<open>usize_max\<close> is $2^{64} - 1$, and checked and saturating operations are
  written out; raw response codes are \<open>32 word\<close>.  Slices have at most \<open>usize_max\<close> bytes; the lemmas on
  casts have that as a premise.  No fuel is used: loops that end only
  because of what a library returns (key derivation), of the data (the ancestors of a key) or of the
  other side and the clock (\<open>Posix_recv_loop\<close>, \<open>serve\<close>, \<open>read_pcrs_loop\<close>) are \<open>partial_function (option)\<close>; capability
  paging ends because the property it asks for grows; item and field decoders recurse over the number of
  items or the list of fields, the session loop ends because a session beyond \<open>MAX_SESSIONS\<close> is an
  error, and the binary search by the size of its range.  Every declaration has a \<open>SIZE\<close> of at most
  $2^{24}$ bytes, so that frame sizes fit 32 bits and the size checks of the marshaller do not fail on
  bodies of the declarations; the value is a convenient bound well above the largest.

  What is not modelled.  Of \<open>crates/protocol\<close>: the mutable twins of the views (\<open>cast_mut\<close> and
  \<open>*_mut\<close> accessors, which repeat the checks of the shared ones on the same bytes), the named field
  accessors that \<open>tpm_struct!\<close> generates on views, iterators over lists, \<open>Debug\<close>, hashing and ordering
  derives, the set operations on bit flags, and the hexadecimal display traits.  Validation of views
  does not copy, and no claim depends on aliasing: a shared view never changes and a setter has the
  only reference.  Of \<open>crates/crypto\<close>: the
  key types of \<open>ecc.rs\<close> and \<open>rsa.rs\<close>, which are calls of OpenSSL.  Of \<open>crates/device\<close>: tracing output.  Of
  \<open>crates/sh\<close>: argument parsing, terminal output and the commands, which are scripts of the operations above.
\<close>

section \<open>Frames\<close>

text \<open>C1.  A command that has an entry in the dispatch table, marshalled with a tag and sessions that
  agree into a writer with room for it, extends the writer by exactly the bytes of the frame; those
  bytes, read back, dispatch to the command's variant and reconstruct the body.\<close>

theorem command_frame_roundtrip:
  assumes row: "(v, cmd, resp) \<in> set dispatch_rows" and body: "body_valid cmd b"
    and tag: "tag = St_NoSessions \<and> ss = [] \<or> tag = St_Sessions \<and> ss \<noteq> []"
    and ss: "length ss \<le> MAX_SESSIONS" "list_all (valid TpmsAuthCommand) ss"
    and w: "writer_ok w"
  defines "f \<equiv> command_bytes (f_CC cmd) tag (body_handle_bytes b)
       (items_enc TpmsAuthCommand ss) (body_param_bytes cmd b)"
  assumes room: "cursor w + length f \<le> length (buffer w)"
  shows "\<exists>w'. tpm_marshal_command (frame_of cmd b) tag ss w = (Ok (), w') \<and>
           Writer_as_bytes w' = Writer_as_bytes w @ f \<and>
           TpmCommandView_cast_frame f = Ok (v, f) \<and> TpmCommand_unmarshal cmd f = Ok b"
proof -
  have "emits (tpm_marshal_command (frame_of cmd b) tag ss) f"
    using lawful_frame.command_emits [OF frame_of_lawful [OF row_ok(1) [OF row] body] tag ss]
    by (simp add: f_def frame_of_def)
  note run = emits_fits [OF this w room]
  have "TpmCommand_validate_envelope f = Ok ()"
    using command_roundtrip(1) [OF row body tag ss, folded f_def]
    by (auto simp: TpmCommand_validate_def)
  then show ?thesis
    using command_roundtrip [OF row body tag ss, folded f_def] w
    by (simp add: run Writer_as_bytes_def writer_ok_def min_absorb2 TpmCommandView_cast_frame_def
        TpmCommand_cast_def del: and_then_Ok_iff)
qed

theorem command_frame_roundtrip_witness:
  "\<exists>w'. tpm_marshal_command (frame_of TpmStartupCommand startup_body) St_NoSessions []
            (Writer_new (replicate 12 0)) = (Ok (), w') \<and>
        Writer_as_bytes w' = startup_frame \<and>
        TpmCommandView_cast_frame startup_frame = Ok (''Startup'', startup_frame) \<and>
        TpmCommand_unmarshal TpmStartupCommand startup_frame = Ok startup_body"
  using command_frame_roundtrip [OF startup_row startup_body_valid, of St_NoSessions "[]"
      "Writer_new (replicate 12 0)", unfolded startup_bytes]
  by (simp add: Writer_new_def writer_ok_def startup_frame_def Writer_as_bytes_def usize_max_def)

text \<open>C2.  A successful response of an entry of the dispatch table, marshalled with any number of
  sessions up to the limit, extends the writer by exactly the bytes of the frame, tagged by whether
  there are sessions; those bytes dispatch to the variant and reconstruct the body.\<close>

theorem response_frame_roundtrip:
  assumes row: "(v, cmd, resp) \<in> set dispatch_rows" and body: "body_valid resp b"
    and ss: "length ss \<le> MAX_SESSIONS" "list_all (valid TpmsAuthResponse) ss"
    and w: "writer_ok w"
  defines "f \<equiv> response_bytes (Fmt0 Rc_Success) (if ss = [] then St_NoSessions else St_Sessions)
       (body_handle_bytes b) (body_param_bytes resp b) (items_enc TpmsAuthResponse ss)"
  assumes room: "cursor w + length f \<le> length (buffer w)"
  shows "\<exists>w'. tpm_marshal_response (frame_of resp b) (Fmt0 Rc_Success) ss w = (Ok (), w') \<and>
           Writer_as_bytes w' = Writer_as_bytes w @ f \<and>
           TpmResponseView_cast_frame (f_CC cmd) f = Ok (Dispatched v f) \<and>
           TpmResponse_unmarshal resp f = Ok b"
proof -
  note rt = response_roundtrip [OF row body ss, unfolded rc_ok_success_def, folded f_def]
  have "emits (tpm_marshal_response (frame_of resp b) (Fmt0 Rc_Success) ss) f"
    using lawful_frame.response_emits [OF frame_of_lawful [OF row_ok(2) [OF row] body] _ ss]
    by (simp add: f_def rc_success_def)
  note run = emits_fits [OF this w room]
  show ?thesis
    using rt w by (simp add: run Writer_as_bytes_def writer_ok_def min_absorb2)
qed

theorem response_frame_roundtrip_witness:
  "\<exists>w'. tpm_marshal_response (frame_of TpmStartupResponse \<lparr>b_handles = [], b_params = []\<rparr>)
            (Fmt0 Rc_Success) [] (Writer_new (replicate 10 0)) = (Ok (), w') \<and>
        Writer_as_bytes w' = [0x80, 0x01, 0, 0, 0, 10, 0, 0, 0, 0] \<and>
        TpmResponse_unmarshal TpmStartupResponse [0x80, 0x01, 0, 0, 0, 10, 0, 0, 0, 0] =
          Ok \<lparr>b_handles = [], b_params = []\<rparr>"
proof -
  let ?b = "\<lparr>b_handles = [], b_params = []\<rparr>"
  have "body_valid TpmStartupResponse ?b"
    by (simp add: body_valid_def TpmStartupResponse_def)
  note rt = response_frame_roundtrip [OF startup_row this, of "[]" "Writer_new (replicate 10 0)"]
  have "response_bytes (Fmt0 Rc_Success) St_NoSessions (body_handle_bytes ?b)
      (body_param_bytes TpmStartupResponse ?b) [] = [0x80, 0x01, 0, 0, 0, 10, 0, 0, 0, 0]"
    by (simp add: response_bytes_def header_def response_body_def be_bytes body_handle_bytes_def
        body_param_bytes_def TpmStartupResponse_def base_word_def)
  with rt show ?thesis
    by (auto simp: Writer_new_def writer_ok_def Writer_as_bytes_def usize_max_def)
qed

text \<open>C3.  The views accept exactly the well-formed frames: a byte list is cast to a \<open>TpmCommand\<close> if and
  only if it is a header with the frame's own length, a session tag and the code of some entry of the
  dispatch table, followed by that entry's handles, the sized authorization area when the tag says so,
  and the parameters.\<close>

theorem command_cast_accepts:
  "TpmCommand_cast f = Ok g \<longleftrightarrow>
   g = f \<and> (\<exists>v cmd resp tag hb auth pb. (v, cmd, resp) \<in> set dispatch_rows \<and>
     session_tag tag \<and> (tag = St_NoSessions \<longrightarrow> auth = []) \<and> length hb = HANDLES cmd * 4 \<and>
     f = command_bytes (f_CC cmd) tag hb auth pb \<and> length f < 2 ^ 32)"
  unfolding TpmCommand_cast_iff command_frame_def ..

theorem command_cast_accepts_witness: "TpmCommand_cast startup_frame = Ok startup_frame"
  by (subst command_cast_accepts, intro conjI refl exI [of _ "''Startup''"]
      exI [of _ TpmStartupCommand] exI [of _ TpmStartupResponse] exI [of _ St_NoSessions]
      exI [of _ "[]"] exI [of _ "[0, 0]"] startup_row)
    (simp_all add: session_tag_def TpmStartupCommand_def command_bytes_def header_def
      command_body_def be_bytes startup_frame_def)

text \<open>C4.  On a cast frame the accessors never fail, and the areas they return partition the bytes
  after the header: the handles, then with sessions the size field and the authorization area, then
  the parameters.\<close>

theorem command_areas_partition:
  assumes "TpmCommand_cast f = Ok g"
  shows "\<exists>tag cc hb auth pb. TpmCommand_tag f = Ok tag \<and> TpmCommand_cc f = Ok cc \<and>
    TpmCommand_size f = Ok (length f) \<and> TpmCommand_handles f = Ok hb \<and>
    TpmCommand_auth_area f = Ok auth \<and> TpmCommand_parameters f = Ok pb \<and>
    drop 10 f = hb @ (if tag = St_Sessions then to_be_bytes 4 (length auth) else []) @ auth @ pb"
proof -
  from assms obtain v cmd resp tag hb auth pb where row: "(v, cmd, resp) \<in> set dispatch_rows"
    and frame: "command_frame cmd tag hb auth pb f"
    unfolding TpmCommand_cast_iff by blast
  have "drop 10 f = hb @ (if tag = St_Sessions then to_be_bytes 4 (length auth) else []) @ auth @ pb"
    using frame by (auto simp: command_frame_def command_bytes_frame command_body_def
        session_tag_def)
  with command_frame_accessors(1-6) [OF row frame] show ?thesis by blast
qed

theorem command_areas_partition_witness:
  "\<exists>hb auth pb. TpmCommand_handles startup_frame = Ok hb \<and>
    TpmCommand_auth_area startup_frame = Ok auth \<and> TpmCommand_parameters startup_frame = Ok pb"
  using command_areas_partition [of startup_frame startup_frame] startup_cast by blast

text \<open>A cast frame passes \<open>validate\<close> exactly when its authorization area is a sequence of at most
  \<open>MAX_SESSIONS\<close> sessions (a handle, a sized nonce, the attributes and a sized authorization value).\<close>

theorem command_validate_accepts:
  "TpmCommand_validate f = Ok () \<longleftrightarrow>
   (\<exists>auth ss. TpmCommand_cast f = Ok f \<and> TpmCommand_auth_area f = Ok auth \<and>
      set ss \<subseteq> auth_command_wire \<and> auth = concat ss \<and> length ss \<le> MAX_SESSIONS)"
proof
  assume "TpmCommand_validate f = Ok ()"
  then show "\<exists>auth ss. TpmCommand_cast f = Ok f \<and> TpmCommand_auth_area f = Ok auth \<and>
      set ss \<subseteq> auth_command_wire \<and> auth = concat ss \<and> length ss \<le> MAX_SESSIONS"
    unfolding TpmCommand_validate_iff TpmCommand_cast_iff
    using command_frame_accessors(5) by blast
next
  assume "\<exists>auth ss. TpmCommand_cast f = Ok f \<and> TpmCommand_auth_area f = Ok auth \<and>
      set ss \<subseteq> auth_command_wire \<and> auth = concat ss \<and> length ss \<le> MAX_SESSIONS"
  then obtain v cmd resp tag hb auth auth' pb ss where
    row: "(v, cmd, resp) \<in> set dispatch_rows" and frame: "command_frame cmd tag hb auth' pb f"
    and area: "TpmCommand_auth_area f = Ok auth" and
    ss: "set ss \<subseteq> auth_command_wire" "auth = concat ss" "length ss \<le> MAX_SESSIONS"
    unfolding TpmCommand_cast_iff by blast
  have "auth' = auth"
    using area command_frame_accessors(5) [OF row frame] by simp
  with row frame ss show "TpmCommand_validate f = Ok ()"
    unfolding TpmCommand_validate_iff by blast
qed

text \<open>C5.  \<open>TpmCommand::unmarshal\<close> is canonical: when it returns a body, the frame is the layout of that
  body under some tag and authorization area.\<close>

theorem command_unmarshal_canonical:
  assumes "(v, cmd, resp) \<in> set dispatch_rows" "TpmCommand_unmarshal cmd f = Ok b"
  shows "body_valid cmd b \<and> (\<exists>tag auth. session_tag tag \<and>
    f = command_bytes (f_CC cmd) tag (body_handle_bytes b) auth (body_param_bytes cmd b))"
  using assms by (rule TpmCommand_unmarshal_sound)

theorem command_unmarshal_canonical_witness:
  "\<exists>tag auth. session_tag tag \<and> startup_frame =
     command_bytes Cc_Startup tag (body_handle_bytes startup_body) auth
       (body_param_bytes TpmStartupCommand startup_body)"
  using command_unmarshal_canonical [OF startup_row startup_unmarshal]
  by (simp add: TpmStartupCommand_def)

text \<open>C6.  On any bytes whatever, casting, validating and unmarshalling a command return; an error they
  report lies inside the frame.\<close>

theorem command_parsing_total:
  assumes "(v, cmd, resp) \<in> set dispatch_rows"
  shows "TpmCommand_cast f \<noteq> Panic \<and> TpmCommand_validate f \<noteq> Panic \<and>
    TpmCommand_unmarshal cmd f \<noteq> Panic \<and>
    (TpmCommand_cast f = Err e \<or> TpmCommand_validate f = Err e \<or> TpmCommand_unmarshal cmd f = Err e \<longrightarrow>
     offset e \<le> length f)"
  using TpmCommand_validate_envelope_total [of f e] TpmCommand_validate_total [of f e]
    TpmCommand_unmarshal_total [OF assms, of f e]
  by (auto simp: TpmCommand_cast_def and_then_Panic_iff and_then_Err_iff)

theorem command_parsing_total_witness:
  "TpmCommand_unmarshal TpmStartupCommand [0x80, 0x02] \<noteq> Panic"
  using command_parsing_total [OF startup_row] by blast

text \<open>C7.  \<open>TpmResponse::validate\<close> accepts, for a command of the table, the bare header of an error
  response and the well-formed successful frames whose authorization area is a sequence of at most
  \<open>MAX_SESSIONS\<close> sessions, and nothing else.\<close>

theorem response_validate_accepts:
  assumes row: "(v, cmd, resp) \<in> set dispatch_rows"
  shows "TpmResponse_validate f (f_CC cmd) = Ok () \<longleftrightarrow>
    (\<exists>rc. rc_ok rc \<and> \<not> rc_success rc \<and> f = response_bytes rc St_NoSessions [] [] []) \<or>
    (\<exists>tag hb pb auth ss. response_frame resp tag hb pb auth f \<and>
       set ss \<subseteq> auth_response_wire \<and> auth = concat ss \<and> length ss \<le> MAX_SESSIONS)"
    (is "?ok \<longleftrightarrow> ?error \<or> ?success")
proof
  assume ok: ?ok
  from response_frame_sound [OF row ok] show "?error \<or> ?success"
  proof
    assume "\<exists>tag hb pb auth. response_frame resp tag hb pb auth f"
    with ok response_frame_validate [OF row] show ?thesis by blast
  qed (simp add: response_bytes_frame response_body_def)
next
  assume "?error \<or> ?success"
  then show ?ok
  proof
    assume ?error
    then obtain rc where rc: "rc_ok rc" "\<not> rc_success rc"
      and f: "f = frame_bytes St_NoSessions (unat (TpmRc_value rc)) []"
      by (auto simp: response_bytes_frame response_body_def)
    show ?ok
      using error_validate [OF rc _ f, of "f_CC cmd"] by (simp add: session_tag_def f)
  next
    assume ?success
    with response_frame_validate [OF row] show ?ok by blast
  qed
qed

theorem response_validate_accepts_witness:
  "TpmResponse_validate (response_bytes (Fmt0 Rc_Failure) St_NoSessions [] [] [])
     (f_CC TpmStartupCommand) = Ok ()"
proof -
  have "rc_ok (Fmt0 Rc_Failure) \<and> \<not> rc_success (Fmt0 Rc_Failure)"
    by (simp add: base_word_def mask_defs warn_base_def rc_success_def TPM_RC_VER1_def)
  then show ?thesis
    unfolding response_validate_accepts [OF startup_row] by blast
qed

text \<open>On any bytes whatever, casting, validating, dispatching and unmarshalling a response return;
  an error they report lies inside the frame.\<close>

theorem response_parsing_total:
  assumes row: "(v, cmd, resp) \<in> set dispatch_rows"
  shows "TpmResponse_cast f \<noteq> Panic \<and> TpmResponse_validate f cc \<noteq> Panic \<and>
    TpmResponse_unmarshal resp f \<noteq> Panic \<and> TpmResponseView_cast_frame cc f \<noteq> Panic \<and>
    (TpmResponse_cast f = Err e \<or> TpmResponse_validate f cc = Err e \<or>
     TpmResponse_unmarshal resp f = Err e \<longrightarrow> offset e \<le> length f)"
proof -
  have view: "TpmResponseView_cast_frame cc f \<noteq> Panic"
  proof (cases "TpmResponse_validate_envelope f")
    case (Ok u)
    then have "TpmResponse_validate_envelope f = Ok ()" by simp
    then obtain tag rc body where "rc_ok rc" "f = frame_bytes tag (unat (TpmRc_value rc)) body"
      unfolding response_envelope_iff by blast
    then have "TpmResponse_rc f = Ok rc"
      using frame_rc by blast
    with Ok TpmResponse_validate_total [of f cc] show ?thesis
      by (auto simp: TpmResponseView_cast_frame_def TpmResponse_cast_def TpmResponseView_cast_def
          and_then_Panic_iff split: option.splits)
  qed (use TpmResponse_envelope_total in
      \<open>auto simp: TpmResponseView_cast_frame_def TpmResponse_cast_def\<close>)
  show ?thesis
    using view TpmResponse_envelope_total [of f e] TpmResponse_validate_total [of f cc e]
      TpmResponse_unmarshal_total [OF row, of f e]
    by (auto simp: TpmResponse_cast_def and_then_Panic_iff and_then_Err_iff)
qed

theorem response_parsing_total_witness:
  "TpmResponse_unmarshal TpmStartupResponse [] \<noteq> Panic"
  using response_parsing_total [OF startup_row] by blast

text \<open>A non-success response is a bare header: without sessions it marshals to the ten bytes of
  its code whatever the body is, and reading them back rejects the command with that code; with
  sessions the marshaller refuses and leaves the writer as it was.\<close>

theorem error_response_is_bare_header:
  assumes rc: "rc_ok rc" "\<not> rc_success rc" and w: "writer_ok w" "cursor w + 10 \<le> length (buffer w)"
  shows "(\<exists>w'. tpm_marshal_response F rc [] w = (Ok (), w') \<and>
      Writer_as_bytes w' = Writer_as_bytes w @ header St_NoSessions 0 (unat (TpmRc_value rc))) \<and>
    TpmResponseView_cast_frame cc (header St_NoSessions 0 (unat (TpmRc_value rc))) = Ok (Rejected rc) \<and>
    (ss \<noteq> [] \<and> length ss \<le> MAX_SESSIONS \<longrightarrow>
     tpm_marshal_response F rc ss w = (Err (InvalidTag (cursor w) 0x8002), w))"
proof -
  let ?f = "header St_NoSessions 0 (unat (TpmRc_value rc))"
  have f: "response_bytes rc St_NoSessions [] [] [] = ?f"
    "frame_bytes St_NoSessions (unat (TpmRc_value rc)) [] = ?f"
    by (simp_all add: response_bytes_def response_body_def frame_bytes_def)
  have room: "cursor w + length ?f \<le> length (buffer w)"
    using w(2) by simp
  note run = emits_fits [OF error_response_emits [OF rc(2), unfolded f] w(1) room]
  have "TpmResponse_validate_envelope ?f = Ok ()"
    unfolding response_envelope_iff using rc(1) f(2)
    by (intro exI [of _ St_NoSessions] exI [of _ rc] exI [of _ "[]"]) (simp add: session_tag_def)
  moreover have "TpmResponse_rc ?f = Ok rc"
    using frame_rc [OF rc(1), of St_NoSessions "[]"] by (simp add: f)
  ultimately have view: "TpmResponseView_cast_frame cc ?f = Ok (Rejected rc)"
    using rc(2) by (simp add: TpmResponseView_cast_frame_def TpmResponse_cast_def
        TpmResponseView_cast_def del: and_then_Ok_iff)
  have refuse: "ss \<noteq> [] \<and> length ss \<le> MAX_SESSIONS \<longrightarrow>
      tpm_marshal_response F rc ss w = (Err (InvalidTag (cursor w) 0x8002), w)"
    using rc(2) by (simp add: tpm_marshal_response_def check_session_count_def wfail_def as_u64_def)
  show ?thesis
    using run view refuse w by (simp add: Writer_as_bytes_def writer_ok_def min_absorb2)
qed

theorem error_response_is_bare_header_witness:
  "TpmResponseView_cast_frame Cc_Startup [0x80, 0x01, 0, 0, 0, 10, 0, 0, 0x01, 0x01] =
     Ok (Rejected (Fmt0 Rc_Failure))"
proof -
  have "rc_ok (Fmt0 Rc_Failure)" "\<not> rc_success (Fmt0 Rc_Failure)"
    by (simp_all add: base_word_def mask_defs warn_base_def rc_success_def TPM_RC_VER1_def)
  from error_response_is_bare_header [OF this, of "Writer_new (replicate 10 0)"]
  show ?thesis
    by (simp add: Writer_new_def writer_ok_def usize_max_def header_def be_bytes base_word_def
        TPM_RC_VER1_def)
qed

text \<open>The guards of \<open>tpm_marshal_command\<close>: a tag that is not a session tag, sessions that do not
  match the tag, too many sessions, and a frame whose declared handles overflow or do not fit its
  declared length are errors at the writer's position, and nothing is written.\<close>

theorem marshal_command_guards:
  "(\<not> session_tag tag \<longrightarrow>
      tpm_marshal_command F tag ss w = (Err (InvalidTag (cursor w) (as_u64 (TpmSt_value tag))), w)) \<and>
   (session_tag tag \<and> (tag = St_Sessions \<longleftrightarrow> ss = []) \<longrightarrow>
      tpm_marshal_command F tag ss w = (Err (InvalidTag (cursor w) (as_u64 (TpmSt_value tag))), w)) \<and>
   (tag = St_Sessions \<and> length ss > MAX_SESSIONS \<longrightarrow>
      tpm_marshal_command F tag ss w = (Err (TooManyItems (cursor w) MAX_SESSIONS (length ss)), w)) \<and>
   (tag = St_NoSessions \<and> ss = [] \<and> frame_handles F * 4 > usize_max \<longrightarrow>
      tpm_marshal_command F tag ss w = (Err (IntegerTooLarge (cursor w) (frame_handles F)), w)) \<and>
   (tag = St_NoSessions \<and> ss = [] \<and> frame_handles F * 4 \<le> usize_max \<and>
      frame_len F < frame_handles F * 4 \<longrightarrow>
      tpm_marshal_command F tag ss w =
        (Err (UnexpectedEnd (cursor w) (frame_handles F * 4) (frame_len F)), w))"
  by (auto simp: tpm_marshal_command_def session_tag_def check_session_count_def body_areas_def
      checked_sub_def handle_area_size_def checked_mul_def constants Let_def)

theorem marshal_command_guards_witness:
  "tpm_marshal_command (frame_of TpmStartupCommand startup_body) St_Sessions [] (Writer_new []) =
     (Err (InvalidTag 0 0x8002), Writer_new [])"
proof -
  have "session_tag St_Sessions"
    by (simp add: session_tag_def)
  with marshal_command_guards [of St_Sessions "frame_of TpmStartupCommand startup_body" "[]"
      "Writer_new []"]
  show ?thesis
    by (simp add: Writer_new_def as_u64_def)
qed

text \<open>Command dispatch is a function on all command codes: every code has exactly one entry, the
  binary search of \<open>dispatch_for\<close> finds it, and the views select its variant.\<close>

theorem dispatch_complete:
  "\<exists>!row. row \<in> set dispatch_rows \<and> (case row of (v, cmd, resp) \<Rightarrow> f_CC cmd = cc \<and> f_CC resp = cc \<and>
     dispatch_for cc = Ok (dispatch_of cmd resp) \<and> variant_of cc = Some v)"
proof -
  obtain v cmd resp where row: "(v, cmd, resp) \<in> set dispatch_rows" "f_CC cmd = cc"
    using row_of_cc by blast
  show ?thesis
  proof (rule ex1I [of _ "(v, cmd, resp)"])
    show "(v, cmd, resp) \<in> set dispatch_rows \<and> (case (v, cmd, resp) of (v, cmd, resp) \<Rightarrow>
        f_CC cmd = cc \<and> f_CC resp = cc \<and> dispatch_for cc = Ok (dispatch_of cmd resp) \<and>
        variant_of cc = Some v)"
      using row row_ok(3) [OF row(1)] row_dispatch [OF row(1)] variant_of_row [OF row(1)] by simp
    fix other
    assume "other \<in> set dispatch_rows \<and> (case other of (v, cmd, resp) \<Rightarrow>
        f_CC cmd = cc \<and> f_CC resp = cc \<and> dispatch_for cc = Ok (dispatch_of cmd resp) \<and>
        variant_of cc = Some v)"
    then obtain v' cmd' resp' where "other = (v', cmd', resp')" "(v', cmd', resp') \<in> set dispatch_rows"
      "f_CC cmd' = f_CC cmd"
      using row(2) by (cases other) auto
    with row_unique [OF _ row(1)] show "other = (v, cmd, resp)" by blast
  qed
qed

text \<open>The binary search that \<open>dispatch_for\<close> runs is exact on every strictly sorted slice: it returns
  the position of a key that occurs, and for a key that does not an insertion point inside the slice.\<close>

theorem binary_search_exact:
  assumes "sorted_wrt (<) keys"
  shows "(binary_search keys key = Ok k \<longleftrightarrow> k < length keys \<and> keys ! k = key) \<and>
    (key \<notin> set keys \<longrightarrow> (\<exists>k \<le> length keys. binary_search keys key = Err k))"
proof -
  have "binary_search keys key = Ok k" if "k < length keys" "keys ! k = key"
    using binary_search_finds [OF assms that(1)] that(2) by simp
  moreover have "\<exists>k \<le> length keys. binary_search keys key = Err k" if "key \<notin> set keys"
  proof -
    have "\<not> (\<exists>k. binary_search keys key = Ok k)"
      using that binary_search_sound nth_mem by blast
    then obtain k where "binary_search keys key = Err k"
      using binary_search_not_Panic [of keys key] by (cases "binary_search keys key") auto
    moreover from this have "k \<le> length keys"
      using bs_narrow_range [of "length keys" 0 keys key]
      by (auto simp: binary_search_def Let_def split: if_splits)
    ultimately show ?thesis by blast
  qed
  ultimately show ?thesis
    using binary_search_sound by blast
qed

theorem binary_search_exact_witness:
  "binary_search [2, 3, 5, 7 :: nat] 5 = Ok 2 \<and> (\<exists>k. binary_search [2, 3, 5, 7 :: nat] 4 = Err k)"
  using binary_search_exact [of "[2, 3, 5, 7 :: nat]" 5 2]
    binary_search_exact [of "[2, 3, 5, 7 :: nat]" 4] by auto

section \<open>Wire types\<close>

text \<open>C8.  Every wire type marshals a valid value into a writer with room by appending exactly
  \<open>len()\<close> bytes, at most \<open>SIZE\<close>, and leaves the rest of the buffer alone; those bytes, with anything after
  them, unmarshal to the value and leave what follows.\<close>

theorem wire_type_roundtrip:
  assumes c: "(n, c) \<in> set wire_types" and v: "valid c v" and w: "writer_ok w"
    and room: "cursor w + wire_len c v \<le> length (buffer w)"
  shows "\<exists>w'. marshal c v w = (Ok (), w') \<and> Writer_as_bytes w' = Writer_as_bytes w @ encode c v \<and>
    drop (cursor w') (buffer w') = drop (cursor w') (buffer w) \<and>
    length (encode c v) = wire_len c v \<and> wire_len c v \<le> SIZE c \<and>
    unmarshal c (encode c v @ r) = Ok (v, r)"
proof -
  note ok = wire_type_codec [OF c]
  have len: "length (encode c v) = wire_len c v"
    using wire_codec.length_encode [OF ok v] .
  note run = emits_fits [OF wire_codec.marshal_emits [OF ok v] w, unfolded len, OF room]
  show ?thesis
    using w room codec_dec_enc [OF ok v] wire_codec.len_le_SIZE [OF ok v]
    by (simp add: run len Writer_as_bytes_def writer_ok_def min_absorb2)
qed

theorem wire_type_roundtrip_witness:
  "\<exists>w'. marshal Tpm2bDigest (VBuffer [1, 2]) (Writer_new (replicate 6 0)) = (Ok (), w') \<and>
     unmarshal Tpm2bDigest (Writer_as_bytes w' @ [9]) = Ok (VBuffer [1, 2], [9])"
proof -
  have "(''Tpm2bDigest'', Tpm2bDigest) \<in> set wire_types"
    by (simp add: wire_types_def field_types_def)
  from wire_type_roundtrip [OF this, of "VBuffer [1, 2]" "Writer_new (replicate 6 0)" "[9]"]
  show ?thesis
    by (auto simp: Tpm2bDigest_def TpmBuffer_def MAX_DIGEST_SIZE_def Writer_new_def writer_ok_def
        usize_max_def u16_max_def Writer_as_bytes_def)
qed

text \<open>Decoding is canonical: what a wire type unmarshals is a valid value, and the bytes consumed
  are the ones that value marshals to; so no two byte strings decode to one value.\<close>

theorem wire_type_canonical:
  assumes "(n, c) \<in> set wire_types" "unmarshal c b = Ok (v, r)"
  shows "valid c v \<and> b = encode c v @ r \<and>
    (\<forall>b' r'. unmarshal c b' = Ok (v, r') \<longrightarrow> b' = encode c v @ r')"
  using codec_dec_iff [OF wire_type_codec [OF assms(1)]] assms(2) by blast

theorem wire_type_canonical_witness:
  "valid TpmUint16 (VInt [1, 2]) \<and> [1, 2, 3] = encode TpmUint16 (VInt [1, 2]) @ [3]"
proof -
  have "(''TpmUint16'', TpmUint16) \<in> set wire_types"
    by (simp add: wire_types_def field_types_def)
  moreover have "unmarshal TpmUint16 [1, 2, 3] = Ok (VInt [1, 2], [3])"
    by (simp add: TpmUint16_def tpm_int_def TpmWireBytes_cast_prefix_eq)
  ultimately show ?thesis
    using wire_type_canonical by blast
qed

text \<open>Unmarshalling any bytes as any wire type returns, and the offset of an error lies inside the
  input.\<close>

theorem wire_type_total:
  assumes "(n, c) \<in> set wire_types"
  shows "unmarshal c b \<noteq> Panic \<and> (unmarshal c b = Err e \<longrightarrow> offset e \<le> length b)"
  using codec_dec_no_panic codec_dec_offset wire_type_codec [OF assms]
  by blast

theorem wire_type_total_witness: "unmarshal TpmtPublic [0, 1, 0] \<noteq> Panic"
proof -
  have "(''TpmtPublic'', TpmtPublic) \<in> set wire_types"
    by (simp add: wire_types_def field_types_def)
  then show ?thesis
    using wire_type_total by blast
qed

text \<open>C9.  The zero-copy cast of a wire type that has one and its owned \<open>unmarshal\<close> agree: one accepts a buffer exactly
  when the other does, with the same remainder, and the cast does not panic either.\<close>

theorem wire_type_cast_agrees:
  assumes "(n, c) \<in> set field_types" "length b \<le> usize_max"
  shows "((\<exists>w. cast_prefix c b = Ok (w, r)) \<longleftrightarrow> (\<exists>v. unmarshal c b = Ok (v, r))) \<and>
    cast_prefix c b \<noteq> Panic \<and> (cast_prefix c b = Err e \<longrightarrow> offset e \<le> length b)"
  using field_type_ok [OF assms(1)] assms(2)
  by (simp add: wire_field.cast_iff wire_field.cast_no_panic wire_field.cast_offset)

theorem wire_type_cast_agrees_witness:
  "\<exists>w. cast_prefix TpmlHandle [0, 0, 0, 1, 0x80, 0, 0, 0, 7] = Ok (w, [7])"
proof -
  have "(''TpmlHandle'', TpmlHandle) \<in> set field_types"
    by (simp add: field_types_def)
  moreover have "unmarshal TpmlHandle [0, 0, 0, 1, 0x80, 0, 0, 0, 7] =
      Ok (VList [VInt [0x80, 0, 0, 0]], [7])"
    by (simp add: TpmlHandle_def TpmList_def TpmList_unmarshal_def TpmWireBytes_cast_prefix_eq
        from_be_bytes_def TpmHandle_def TpmUint32_def tpm_int_def TpmList_try_push_def constants)
  ultimately show ?thesis
    using wire_type_cast_agrees [of _ TpmlHandle "[0, 0, 0, 1, 0x80, 0, 0, 0, 7]" "[7]"]
    by (auto simp: usize_max_def)
qed

text \<open>C10.  A writer without room is never overrun: marshalling a valid value of any wire type then
  reports \<open>BufferOverflow\<close> at the position it reached, the cursor stays in the buffer, whose length is
  unchanged, and everything written before is intact.\<close>

theorem wire_type_overflow:
  assumes "(n, c) \<in> set wire_types" "valid c v" "writer_ok w"
    and "length (buffer w) < cursor w + wire_len c v"
  shows "\<exists>off needed available w'. marshal c v w = (Err (BufferOverflow off needed available), w') \<and>
     cursor w \<le> off \<and> off = cursor w' \<and> available < needed \<and> writer_ok w' \<and>
     length (buffer w') = length (buffer w) \<and>
     take (cursor w) (buffer w') = take (cursor w) (buffer w)"
proof -
  note ok = wire_type_codec [OF assms(1)]
  show ?thesis
    using emits_overflow [OF wire_codec.marshal_emits [OF ok assms(2)] assms(3)] assms(4)
    by (simp add: wire_codec.length_encode [OF ok assms(2)])
qed

theorem wire_type_overflow_witness:
  "\<exists>off needed available w'. marshal TpmUint32 (VInt [1, 2, 3, 4]) (Writer_new [0, 0, 0]) =
     (Err (BufferOverflow off needed available), w')"
proof -
  have "(''TpmUint32'', TpmUint32) \<in> set wire_types"
    by (simp add: wire_types_def field_types_def)
  from wire_type_overflow [OF this, of "VInt [1, 2, 3, 4]" "Writer_new [0, 0, 0]"] show ?thesis
    by (auto simp: TpmUint32_def tpm_int_def Writer_new_def writer_ok_def usize_max_def)
qed

section \<open>Codes and enumerations\<close>

text \<open>\<open>TpmRc::try_from\<close> and \<open>TpmRc::value\<close> are inverse on the response codes that are well formed
  (the format bits agree with the base, a parameter index is between 1 and 15, a handle index between
  1 and 7 and a session index at most 7); every other word is refused with \<open>InvalidRc\<close>.\<close>

theorem response_code_inverse:
  "(TpmRc_try_from w = Ok rc \<longleftrightarrow> rc_ok rc \<and> TpmRc_value rc = w) \<and>
   ((\<nexists>rc. rc_ok rc \<and> TpmRc_value rc = w) \<longrightarrow> TpmRc_try_from w = Err (InvalidRc 0 (unat w)))"
proof (intro conjI impI)
  assume "\<nexists>rc. rc_ok rc \<and> TpmRc_value rc = w"
  then show "TpmRc_try_from w = Err (InvalidRc 0 (unat w))"
    using TpmRc_try_from_Ok_iff TpmRc_try_from_not_Panic TpmRc_try_from_Err
    by (cases "TpmRc_try_from w") blast+
qed (rule TpmRc_try_from_Ok_iff)

theorem response_code_inverse_witness:
  "TpmRc_try_from 0x9A2 = Ok (Fmt1 Rc_BadAuth (Some (Session 1)))"
proof -
  have "rc_ok (Fmt1 Rc_BadAuth (Some (Session 1)))"
    "TpmRc_value (Fmt1 Rc_BadAuth (Some (Session 1))) = 0x9A2"
    by (simp_all add: fmt1_base_def base_word_def mask_defs TPM_RC_FMT1_def SESSION_INDEX_OFFSET_def)
  then show ?thesis
    using response_code_inverse by blast
qed

text \<open>Every enumeration converts to its integer and back: \<open>try_from\<close> of a variant's value is that
  variant, distinct variants have distinct values in the range of the integer, and a value of no
  variant is refused.\<close>

theorem enum_conversions:
  "enum_try_from enum_val_value (map EAlgId TpmAlgId_variants) (TpmAlgId_value a) = Ok (EAlgId a) \<and>
   (TpmAlgId_try_from n = Ok a \<longleftrightarrow> TpmAlgId_value a = n) \<and> 0 \<le> TpmAlgId_value a \<and> TpmAlgId_value a < 2 ^ 16 \<and>
   (TpmCc_try_from n = Ok cc \<longleftrightarrow> TpmCc_value cc = n) \<and> 0 \<le> TpmCc_value cc \<and> TpmCc_value cc < 2 ^ 32 \<and>
   (TpmSt_try_from n = Ok st \<longleftrightarrow> TpmSt_value st = n) \<and> 0 \<le> TpmSt_value st \<and> TpmSt_value st < 2 ^ 16 \<and>
   (TpmClockAdjust_try_from n = Ok ca \<longleftrightarrow> TpmClockAdjust_value ca = n) \<and>
     - (2 ^ 7) \<le> TpmClockAdjust_value ca \<and> TpmClockAdjust_value ca < 2 ^ 7 \<and>
   (TpmRcBase_try_from n = Ok b \<longleftrightarrow> TpmRcBase_value b = n)"
proof -
  have "enum_try_from enum_val_value (map EAlgId TpmAlgId_variants) (TpmAlgId_value a) = Ok (EAlgId a)"
    using TpmAlgId.complete [of a] TpmAlgId.distinct_values
      find_distinct [of "EAlgId a" "map EAlgId TpmAlgId_variants" enum_val_value]
    by (simp add: enum_try_from_def comp_def)
  then show ?thesis
    using TpmAlgId.value_range [of a] TpmCc.value_range [of cc] TpmSt.value_range [of st]
      TpmClockAdjust.value_range [of ca]
    by (simp add: TpmAlgId_try_from_def TpmAlgId.try_from_Ok_iff TpmCc_try_from_Ok_iff
        TpmSt_try_from_Ok_iff TpmClockAdjust_try_from_def TpmClockAdjust.try_from_Ok_iff
        TpmRcBase_try_from_def TpmRcBase.try_from_Ok_iff repr_range_def)
qed

section \<open>Streams, views and containers\<close>

text \<open>Frames split off a stream one by one: \<open>cast_prefix\<close> returns the first frame and the bytes
  after it exactly when the stream begins with a byte list that \<open>cast\<close> accepts.\<close>

theorem command_stream_split:
  "TpmCommand_cast_prefix s = Ok (f, rest) \<longleftrightarrow> s = f @ rest \<and> TpmCommand_cast f = Ok f"
proof
  assume "TpmCommand_cast_prefix s = Ok (f, rest)"
  then show "s = f @ rest \<and> TpmCommand_cast f = Ok f"
    by (auto simp: TpmCommand_cast_prefix_def TpmCommand_cast_def split_at_Ok_iff)
next
  assume f: "s = f @ rest \<and> TpmCommand_cast f = Ok f"
  then obtain v cmd resp tag hb auth pb where
    row: "(v, cmd, resp) \<in> set dispatch_rows" "command_frame cmd tag hb auth pb f"
    unfolding TpmCommand_cast_iff by blast
  then have "frame_prefix_size (f @ rest) = Ok (length f)"
    by (auto simp: command_frame_def command_bytes_frame frame_size)
  with f command_frame_accepted [OF row] show "TpmCommand_cast_prefix s = Ok (f, rest)"
    by (simp add: TpmCommand_cast_prefix_def del: and_then_Ok_iff)
qed

text \<open>Rewriting the command code of a cast frame changes the code and nothing else.\<close>

theorem command_set_cc_exact:
  assumes "TpmCommand_cast f = Ok f"
  shows "\<exists>g. TpmCommand_set_cc f cc = Ok g \<and> TpmCommand_cc g = Ok cc \<and> length g = length f \<and>
    take 6 g = take 6 f \<and> drop 10 g = drop 10 f"
proof -
  from assms obtain v cmd resp tag hb auth pb where "command_frame cmd tag hb auth pb f"
    unfolding TpmCommand_cast_iff by blast
  then obtain body where f: "f = frame_bytes tag (nat (TpmCc_value (f_CC cmd))) body"
    by (auto simp: command_frame_def command_bytes_frame)
  obtain d where "dispatch_for cc = Ok d"
    using dispatch_for_total by blast
  moreover have "write_u32 f 6 (nat (TpmCc_value cc)) =
      Ok (frame_bytes tag (nat (TpmCc_value cc)) body)"
    by (simp add: write_u32_def write_be_def f frame_bytes_def header_def)
  ultimately have "TpmCommand_set_cc f cc = Ok (frame_bytes tag (nat (TpmCc_value cc)) body)"
    by (simp add: TpmCommand_set_cc_def wire_offsets del: and_then_Ok_iff)
  moreover have "take 6 (frame_bytes tag code body) = to_be_bytes 2 (nat (TpmSt_value tag)) @
      to_be_bytes 4 (10 + length body)" for code
    by (simp add: frame_bytes_def header_def)
  ultimately show ?thesis
    by (simp add: f TpmCommand_cc_def frame_cc)
qed

theorem command_set_cc_exact_witness:
  "\<exists>g. TpmCommand_set_cc startup_frame Cc_Shutdown = Ok g \<and> TpmCommand_cc g = Ok Cc_Shutdown"
  using command_set_cc_exact [OF startup_cast, of Cc_Shutdown] by blast

text \<open>The fallible constructors of a TPM buffer and a TPM list: appending succeeds exactly when the
  result fits the capacity (and, for a buffer, the 16-bit size field), the elements are then those of
  the two parts in order, and otherwise the container is unchanged behind an error that says what did
  not fit.\<close>

theorem containers_extend:
  assumes "length data \<le> CAPACITY" "CAPACITY \<le> u16_max" "length data + length src \<le> usize_max"
    and "length items \<le> CAPACITY" "length items + length extra \<le> usize_max"
  shows "TpmBuffer_try_extend_from_slice CAPACITY data src =
      (if length data + length src \<le> CAPACITY then Ok (data @ src)
       else Err (BufferOverflow (length data) (length src) (CAPACITY - length data))) \<and>
    TpmBuffer_try_push CAPACITY data x =
      (if length data < CAPACITY then Ok (data @ [x])
       else Err (BufferOverflow (length data) 1 0)) \<and>
    TpmList_try_extend_from_slice CAPACITY items extra =
      (if length items + length extra \<le> CAPACITY then Ok (items @ extra)
       else Err (TooManyItems 0 CAPACITY (length items + length extra))) \<and>
    TpmList_try_push CAPACITY items y =
      (if length items < CAPACITY then Ok (items @ [y])
       else Err (TooManyItems 0 CAPACITY (length items + 1)))"
  using assms
  by (simp add: TpmBuffer_try_extend_from_slice_def TpmBuffer_try_push_def
      TpmList_try_extend_from_slice_def TpmList_try_push_def Let_def)

theorem containers_extend_witness:
  "TpmBuffer_try_extend_from_slice 4 [1, 2] [3, 4, 5] = Err (BufferOverflow 2 3 2) \<and>
   TpmList_try_push 2 [True, False] True = Err (TooManyItems 0 2 3)"
  using containers_extend [of "[1, 2]" 4 "[3, 4, 5]" "[]" "[] :: bool list"]
    containers_extend [of "[]" 2 "[]" "[True, False]" "[]"]
  by (simp add: u16_max_def usize_max_def)

text \<open>A structure behind a 16-bit size (\<open>tpm2b_struct!\<close>) is decoded from exactly the bytes the size
  announces: a size beyond the structure's \<open>SIZE\<close> and a structure that ends before the announced size are
  refused, the second with the position of the first unused byte.\<close>

theorem sized_struct_exact:
  assumes c: "wire_codec c" and "2 + SIZE c \<le> u16_max" and v: "valid c v"
    and k: "wire_len c v + length pad \<le> u16_max"
  shows "unmarshal (tpm2b_struct c)
      (to_be_bytes 2 (wire_len c v + length pad) @ encode c v @ pad @ r) =
    (if wire_len c v + length pad > SIZE c
     then Err (TooManyBytes 2 (SIZE c) (wire_len c v + length pad))
     else if pad = [] then Ok (v, r) else Err (TrailingData (2 + wire_len c v) (length pad)))"
proof -
  have len: "length (encode c v) = wire_len c v"
    using wire_codec.length_encode [OF c v] .
  have "unmarshal c (encode c v @ pad) = Ok (v, pad)"
    by (rule codec_dec_enc [OF c v])
  with k len show ?thesis
    by (simp add: tpm2b_struct_def tpm2b_struct_unmarshal_def u16_max_def del: and_then_Ok_iff)
qed

theorem sized_struct_exact_witness:
  "unmarshal (tpm2b_struct TpmsEccPoint) ([0, 5, 0, 0, 0, 0, 7]) = Err (TrailingData 6 1)"
proof -
  let ?v = "VStruct [VBuffer [], VBuffer []]"
  note c = wire_field_codec [OF TpmsEccPoint_ok]
  have v: "valid TpmsEccPoint ?v" and len: "wire_len TpmsEccPoint ?v = 4"
    by (simp_all add: TpmsEccPoint_def tpm_struct_def Tpm2bEccParameter_def TpmBuffer_def)
  have "encode TpmsEccPoint ?v = [0, 0, 0, 0]"
    using encode_struct [of "[(''x'', Tpm2bEccParameter), (''y'', Tpm2bEccParameter)]"
        "[VBuffer [], VBuffer []]"] encode_buffer [of MAX_ECC_KEY_BYTES "[]"]
      wire_field_codec [OF Tpm2bEccParameter_ok]
    by (simp add: TpmsEccPoint_def u16_max_def MAX_ECC_KEY_BYTES_def fields_SIZE_def
        Tpm2bEccParameter_def TpmBuffer_valid_iff tpm2b_bytes_def be_bytes)
  with sized_struct_exact [OF c _ v, of "[7]" "[]"] len show ?thesis
    by (simp add: u16_max_def be_bytes TpmsEccPoint_SIZE)
qed

text \<open>Marshalling a tagged structure whose selector does not name the variant of its payload fails
  at the writer's position with the selector, before anything is written; with a selector that does,
  the two parts follow each other.\<close>

theorem tagged_struct_checks_selector:
  "marshal (tpm_struct_tagged t u) (VStruct [tag, x]) w =
   (if matches_tag u x tag then wseq (marshal t tag) (u_marshal u x) w
    else (Err (VariantNotAvailable (cursor w) (tag_value tag)), w))"
  by (simp add: tpm_struct_tagged_def wfail_def)

text \<open>C11.  \<open>TpmsCapabilityData\<close> makes no such check: a list of handles marshals under the selector of
  algorithm properties, and the bytes then decode to a different value.\<close>

theorem capability_data_confused:
  "\<exists>w'. marshal TpmsCapabilityData (VStruct [VEnum (ECap Cap_Algs), VUnion ''Handles'' (Some (VList []))])
          (Writer_new (replicate 8 0)) = (Ok (), w') \<and>
     unmarshal TpmsCapabilityData (Writer_as_bytes w') =
       Ok (VStruct [VEnum (ECap Cap_Algs), VUnion ''Algs'' (Some (VList []))], [])"
proof -
  let ?m = "marshal TpmsCapabilityData
    (VStruct [VEnum (ECap Cap_Algs), VUnion ''Handles'' (Some (VList []))])"
  let ?v = "VStruct [VEnum (ECap Cap_Algs), VUnion ''Algs'' (Some (VList []))]"
  have m: "?m = marshal TpmsCapabilityData ?v"
    by (simp add: TpmsCapabilityData_def TpmuCapabilities_def tpmu_view_def TpmuCapabilities_arms_def
        TpmlHandle_def TpmlAlgProperty_def TpmList_def)
  have v: "valid TpmsCapabilityData ?v" and len: "wire_len TpmsCapabilityData ?v = 8"
    by (simp_all add: TpmsCapabilityData_def TpmuCapabilities_def tpmu_view_def
        TpmuCapabilities_arms_def TpmlAlgProperty_def TpmList_def TpmCap_codec_valid
        tpmu_matches_tag_def TpmCap_codec_def tpm_enum_codec_def TpmCap_variants_def)
  have "length (encode TpmsCapabilityData ?v) = 8"
    using TpmsCapabilityData.length_encode [OF v] len by simp
  with emits_fits [OF TpmsCapabilityData.marshal_emits [OF v], of "Writer_new (replicate 8 0)"]
    TpmsCapabilityData.dec_enc [OF v, of "[]"]
  show ?thesis
    unfolding m by (simp add: Writer_new_def writer_ok_def usize_max_def Writer_as_bytes_def)
qed

text \<open>C12.  \<open>TpmResponse::unmarshal\<close> does not look at the response code: for a response declared without
  handles and parameters, the bare header of any error unmarshals to the empty body of a success.\<close>

theorem error_response_reads_as_success:
  assumes "(v, cmd, resp) \<in> set dispatch_rows" "HANDLES resp = 0" "f_params resp = []"
    and "rc_ok rc" "\<not> rc_success rc"
  shows "TpmResponse_unmarshal resp (header St_NoSessions 0 (unat (TpmRc_value rc))) =
    Ok \<lparr>b_handles = [], b_params = []\<rparr>"
  using error_response_unmarshal [OF assms] by (simp add: frame_bytes_def)

theorem error_response_reads_as_success_witness:
  "TpmResponse_unmarshal TpmStartupResponse (header St_NoSessions 0 0x101) =
    Ok \<lparr>b_handles = [], b_params = []\<rparr>"
proof -
  have "rc_ok (Fmt0 Rc_Failure)" "\<not> rc_success (Fmt0 Rc_Failure)"
    by (simp_all add: base_word_def mask_defs warn_base_def rc_success_def TPM_RC_VER1_def)
  from error_response_reads_as_success [OF startup_row _ _ this] show ?thesis
    by (simp add: TpmStartupResponse_def base_word_def TPM_RC_VER1_def)
qed

text \<open>The dispatching view rejects with its code every error response that casts, also one with a
  body or a session tag, which \<open>validate\<close> refuses as malformed.\<close>

theorem malformed_error_response_rejected:
  assumes rc: "rc_ok rc" "\<not> rc_success rc" and tag: "session_tag tag"
    and len: "10 + length body < 2 ^ 32" and bad: "tag = St_Sessions \<or> body \<noteq> []"
  defines "f \<equiv> header tag (length body) (unat (TpmRc_value rc)) @ body"
  shows "TpmResponseView_cast_frame cc f = Ok (Rejected rc) \<and>
    (\<exists>e. TpmResponse_validate f cc = Err e)"
proof -
  have f: "f = frame_bytes tag (unat (TpmRc_value rc)) body"
    by (simp add: f_def frame_bytes_def)
  then have env: "TpmResponse_validate_envelope f = Ok ()"
    unfolding response_envelope_iff using rc tag len by fastforce
  have "TpmResponse_rc f = Ok rc"
    unfolding f by (rule frame_rc [OF rc(1)])
  with env have "TpmResponseView_cast_frame cc f = Ok (Rejected rc)"
    using rc(2) by (simp add: TpmResponseView_cast_frame_def TpmResponse_cast_def
        TpmResponseView_cast_def del: and_then_Ok_iff)
  moreover have "\<exists>e. TpmResponse_validate f cc = Err e"
    using error_validate [OF rc tag f, of cc] len bad by (auto simp: f)
  ultimately show ?thesis ..
qed

theorem malformed_error_response_rejected_witness:
  "TpmResponseView_cast_frame Cc_Startup [0x80, 0x02, 0, 0, 0, 11, 0, 0, 0x01, 0x01, 0] =
     Ok (Rejected (Fmt0 Rc_Failure))"
proof -
  have "rc_ok (Fmt0 Rc_Failure)" "\<not> rc_success (Fmt0 Rc_Failure)" "session_tag St_Sessions"
    by (simp_all add: base_word_def mask_defs warn_base_def rc_success_def TPM_RC_VER1_def
        session_tag_def)
  from malformed_error_response_rejected [OF this, of "[0]" Cc_Startup]
  show ?thesis
    by (simp add: header_def be_bytes base_word_def TPM_RC_VER1_def)
qed

text \<open>A command frame that is tagged with sessions but carries an empty authorization area passes
  \<open>validate\<close> and unmarshals, although the marshaller never produces one.\<close>

theorem empty_session_area_accepted:
  assumes row: "(v, cmd, resp) \<in> set dispatch_rows" and body: "body_valid cmd b"
  defines "f \<equiv> command_bytes (f_CC cmd) St_Sessions (body_handle_bytes b) [] (body_param_bytes cmd b)"
  shows "TpmCommand_validate f = Ok () \<and> TpmCommand_unmarshal cmd f = Ok b \<and>
    tpm_marshal_command (frame_of cmd b) St_Sessions [] w =
      (Err (InvalidTag (cursor w) 0x8002), w)"
proof -
  note law = frame_of_lawful [OF row_ok(1) [OF row] body]
  have "length (body_handle_bytes b) + length (body_param_bytes cmd b) \<le> 2 ^ 24"
    using lawful_frame.frame_size [OF law] lawful_frame.frame_bound [OF law] by simp
  then have frame: "command_frame cmd St_Sessions (body_handle_bytes b) [] (body_param_bytes cmd b) f"
    using lawful_frame.handles_size [OF law]
    by (simp add: command_frame_def f_def command_bytes_frame command_body_def session_tag_def
        frame_of_def)
  have "\<exists>ss. set ss \<subseteq> auth_command_wire \<and> [] = concat ss \<and> length ss \<le> MAX_SESSIONS"
    by (rule exI [of _ "[]"]) simp
  then have ok: "TpmCommand_validate f = Ok ()"
    using TpmCommand_validate_frame [OF row frame] validate_auth_commands_Ok_iff by metis
  show ?thesis
    using ok TpmCommand_unmarshal_frame [OF row frame ok] body
    by (simp add: unmarshal_body_Ok_iff [OF row_ok(1) [OF row]] tpm_marshal_command_def as_u64_def)
qed

theorem empty_session_area_accepted_witness:
  "TpmCommand_unmarshal TpmStartupCommand
     (command_bytes Cc_Startup St_Sessions (body_handle_bytes startup_body) []
       (body_param_bytes TpmStartupCommand startup_body)) = Ok startup_body"
  using empty_session_area_accepted [OF startup_row startup_body_valid]
  by (simp add: TpmStartupCommand_def)

text \<open>The bytes a body of the table marshals to are at most its \<open>SIZE\<close>, and its \<open>len\<close> is the length of
  its handle and parameter areas.\<close>

theorem body_len_bounded:
  assumes row: "(v, cmd, resp) \<in> set dispatch_rows" and d: "d = cmd \<or> d = resp" and b: "body_valid d b"
  shows "body_len d b = length (body_handle_bytes b) + length (body_param_bytes d b) \<and>
    body_len d b \<le> decl_SIZE d \<and>
    emits (body_marshal d b) (body_handle_bytes b @ body_param_bytes d b)"
proof -
  have ok: "decl_ok d"
    using row_ok [OF row] d by auto
  note law = frame_of_lawful [OF ok b]
  show ?thesis
    using lawful_frame.frame_size [OF law] body_len_le_SIZE [OF ok b]
      emits_wseq [OF lawful_frame.handles_emit [OF law] lawful_frame.params_emit [OF law]]
    by (simp add: frame_of_def body_marshal_def)
qed

theorem body_len_bounded_witness: "body_len TpmStartupCommand startup_body \<le> decl_SIZE TpmStartupCommand"
  using body_len_bounded [OF startup_row _ startup_body_valid] by simp

end
